(* ===== verification/Prelude.thy ===== *)
theory Prelude imports Main "HOL-Library.Word" begin

text \<open>
  What every component shares: the result type of a C function of the model (a value or a
  fault), its sequencing operator, and generic lemmas on words and lists. A function of the
  library that can stop in an assertion, touch memory that is not there, shift by too much
  or never come back returns a \<open>res\<close>; each of those outcomes is one constructor of
  \<open>fault\<close>.
\<close>

unbundle bit_operations_syntax

named_theorems res_simps \<open>rules that run the result type\<close>
named_theorems word_facts \<open>facts moving between words and natural numbers\<close>

section \<open>Results\<close>

datatype fault =
    AssertFailed      \<comment> \<open>ASSERT found its expression false and DebugAssert kept control\<close>
  | BadAddress        \<comment> \<open>a NULL or unmapped address was read or written\<close>
  | UndefinedShift    \<comment> \<open>a shift count of at least the width of the shifted operand\<close>
  | Hang              \<comment> \<open>the function does not return\<close>

type_synonym 'a res = "fault + 'a"

definition bindr :: "'a res \<Rightarrow> ('a \<Rightarrow> 'b res) \<Rightarrow> 'b res" where
  "bindr m f = (case m of Inl e \<Rightarrow> Inl e | Inr x \<Rightarrow> f x)"

lemma bindr_Inl [simp, res_simps]: "bindr (Inl e) f = Inl e"
  by (simp add: bindr_def)

lemma bindr_Inr [simp, res_simps]: "bindr (Inr x) f = f x"
  by (simp add: bindr_def)

lemma bindr_cong [fundef_cong]:
  "m = m' \<Longrightarrow> (\<And>x. m' = Inr x \<Longrightarrow> f x = g x) \<Longrightarrow> bindr m f = bindr m' g"
  by (cases m') auto

lemma bindr_assoc [simp]: "bindr (bindr m f) g = bindr m (\<lambda>x. bindr (f x) g)"
  by (cases m) auto

lemma bindr_Inr_right [simp]: "bindr m Inr = m"
  by (cases m) auto

lemma bindr_eq_Inr_iff: "bindr m f = Inr y \<longleftrightarrow> (\<exists>x. m = Inr x \<and> f x = Inr y)"
  by (cases m) auto

lemma bindr_split: "P (bindr m f) \<longleftrightarrow> (\<forall>e. m = Inl e \<longrightarrow> P (Inl e)) \<and> (\<forall>x. m = Inr x \<longrightarrow> P (f x))"
  by (cases m) auto

definition map_res :: "('a \<Rightarrow> 'b) \<Rightarrow> 'a res \<Rightarrow> 'b res" where
  "map_res f m = bindr m (\<lambda>x. Inr (f x))"

lemma map_res_simps [simp, res_simps]:
  "map_res f (Inl e) = Inl e" "map_res f (Inr x) = Inr (f x)"
  by (simp_all add: map_res_def)

section \<open>Words\<close>

lemma len64: "LENGTH(64) = 64"
  by simp

lemma unat_less_exp: "unat (x :: 'a::len word) < 2 ^ LENGTH('a)"
  by (rule unsigned_less)

lemma unat_minus_pos [word_facts]: "(x :: 'a::len word) \<noteq> 0 \<Longrightarrow> unat (- x) = 2 ^ LENGTH('a) - unat x"
  by (simp add: unat_sub_if' [of 0 x, simplified] unat_gt_0)

lemma unat_neg_add_less:
  fixes p :: "'a::len word"
  assumes "0 < n" "n \<le> unat (- p)"
  shows "unat (- (p + of_nat n)) = unat (- p) - n"
proof -
  have "n < 2 ^ LENGTH('a)"
    using assms(2) unat_less_exp [of "- p"] by linarith
  then have n: "unat (of_nat n :: 'a word) = n"
    by (simp add: unat_of_nat)
  have "- (p + of_nat n) = - p - of_nat n"
    by simp
  moreover have "(of_nat n :: 'a word) \<le> - p"
    using assms(2) n by (simp add: word_le_nat_alt)
  ultimately show ?thesis
    using n by (simp add: unat_sub)
qed

lemma word_eq_iff_unat: "(x = y) = (unat x = unat (y :: 'a::len word))"
  by (simp add: word_unat_eq_iff)

lemma unat_Suc_less: "x < y \<Longrightarrow> unat (x + 1) = Suc (unat (x :: 'a::len word))"
  using unat_add_lem [of x 1] unat_less_exp [of y] by (auto simp: word_less_nat_alt)

text \<open>The measure of a loop that counts up to a bound.\<close>

lemma count_up [termination_simp]:
  "x < y \<Longrightarrow> unat (y - (x + 1)) < unat (y - (x :: 'a::len word))"
proof -
  assume a: "x < y"
  then have "x + 1 \<le> y" by (rule inc_le)
  moreover have "x \<le> y" using a by simp
  ultimately show ?thesis using a unat_Suc_less [OF a] by (simp add: unat_sub) (simp add: word_less_nat_alt)
qed

lemma unat_ucast_wider:
  assumes "LENGTH('a::len) \<le> LENGTH('b::len)"
  shows "unat (ucast (w :: 'a word) :: 'b word) = unat w"
proof -
  have "(2::nat) ^ LENGTH('a) \<le> 2 ^ LENGTH('b)" using assms by (rule power_increasing) simp
  then have "unat w < 2 ^ LENGTH('b)" using unat_less_exp [of w] by linarith
  then show ?thesis by (simp add: unsigned_ucast_eq take_bit_nat_eq_self)
qed

lemmas unat_ucast_32 [simp] = unat_ucast_wider [where 'a = 32 and 'b = 64, simplified]

section \<open>Lists\<close>

lemma sum_list_update_diff:
  "i < length xs \<Longrightarrow> sum_list (xs[i := x]) = sum_list xs - xs ! i + (x :: 'a::ab_group_add)"
  by (induction xs arbitrary: i) (auto split: nat.split simp: algebra_simps)

end
