(* ===== verification/Base_Types.thy ===== *)
theory Base_Types imports Prelude begin

text \<open>
  The X64 data types of \<open>ProcessorBind.h\<close>, the status codes and arithmetic macros of
  \<open>Base.h\<close>, the \<open>ASSERT\<close> macro of \<open>DebugLib.h\<close> over a record of the build's
  settings, and byte-addressed memory with typed little-endian loads and stores, which is
  what a dereference of a \<open>UINT8\<close>, \<open>CHAR16\<close>, ... pointer does.
\<close>

section \<open>Data types of the processor binding\<close>

type_synonym UINT8 = "8 word"
type_synonym UINT16 = "16 word"
type_synonym UINT32 = "32 word"
type_synonym UINT64 = "64 word"
type_synonym INT64 = "64 word"
type_synonym UINTN = "64 word"
type_synonym INTN = "64 word"
type_synonym CHAR8 = "8 word"
type_synonym CHAR16 = "16 word"
type_synonym RETURN_STATUS = "64 word"

definition MAX_BIT :: UINTN where
  "MAX_BIT = 0x8000000000000000"

definition MAX_ADDRESS :: UINTN where
  "MAX_ADDRESS = 0xFFFFFFFFFFFFFFFF"

definition NULL :: UINTN where
  "NULL = 0"

section \<open>Status codes\<close>

definition ENCODE_ERROR :: "UINTN \<Rightarrow> RETURN_STATUS" where
  "ENCODE_ERROR StatusCode = MAX_BIT OR StatusCode"

definition ENCODE_WARNING :: "UINTN \<Rightarrow> RETURN_STATUS" where
  "ENCODE_WARNING StatusCode = StatusCode"

definition RETURN_ERROR :: "RETURN_STATUS \<Rightarrow> bool" where
  "RETURN_ERROR StatusCode \<longleftrightarrow> sint StatusCode < 0"

definition RETURN_SUCCESS :: RETURN_STATUS where
  "RETURN_SUCCESS = 0"

definition RETURN_INVALID_PARAMETER :: RETURN_STATUS where
  "RETURN_INVALID_PARAMETER = ENCODE_ERROR 2"

definition RETURN_BUFFER_TOO_SMALL :: RETURN_STATUS where
  "RETURN_BUFFER_TOO_SMALL = ENCODE_ERROR 5"

section \<open>Build settings and ASSERT\<close>

text \<open>
  \<open>DebugAssertEnabled\<close> and \<open>DebugAssert\<close> belong to a DebugLib instance that is not
  part of the sources. What BaseLib uses of them is two bits: whether assertions are
  evaluated at all, and whether a failed one keeps control (breakpoint or dead loop) or
  returns. They are two fields of the settings, next to the PCDs and the signedness of
  plain \<open>char\<close>, which \<open>ProcessorBind.h\<close> leaves to the compiler.
\<close>

record build_env =
  DebugAssertEnabled :: bool
  DebugAssertStops :: bool
  CharIsSigned :: bool
  PcdMaximumUnicodeStringLength :: UINT32
  PcdMaximumAsciiStringLength :: UINT32
  PcdMaximumLinkedListLength :: UINT32
  PcdVerifyNodeInList :: bool

definition asserts_on :: "build_env \<Rightarrow> bool" where
  "asserts_on env \<longleftrightarrow> DebugAssertEnabled env \<and> DebugAssertStops env"

definition ASSERT :: "build_env \<Rightarrow> bool \<Rightarrow> 'a res \<Rightarrow> 'a res" where
  "ASSERT env Expression k =
     (if DebugAssertEnabled env then
        if \<not> Expression then
          if DebugAssertStops env then Inl AssertFailed else k
        else k
      else k)"

text \<open>
  An assertion whose expression calls a function: the call happens only in a build that
  evaluates assertions, and its own faults are then faults of the caller.
\<close>

definition ASSERT_CALL :: "build_env \<Rightarrow> bool res \<Rightarrow> 'a res \<Rightarrow> 'a res" where
  "ASSERT_CALL env Expression k =
     (if DebugAssertEnabled env then
        bindr Expression (\<lambda>e.
          if \<not> e then
            if DebugAssertStops env then Inl AssertFailed else k
          else k)
      else k)"

lemma ASSERT_True [simp]: "ASSERT env True k = k"
  by (simp add: ASSERT_def)

lemma ASSERT_False: "asserts_on env \<Longrightarrow> ASSERT env False k = Inl AssertFailed"
  by (simp add: ASSERT_def asserts_on_def)

lemma ASSERT_AssertFailed [simp]: "ASSERT env e (Inl AssertFailed) = Inl AssertFailed"
  by (simp add: ASSERT_def)

lemma ASSERT_CALL_True [simp]: "ASSERT_CALL env (Inr True) k = k"
  by (simp add: ASSERT_CALL_def)

lemma ASSERT_CALL_False: "asserts_on env \<Longrightarrow> ASSERT_CALL env (Inr False) k = Inl AssertFailed"
  by (simp add: ASSERT_CALL_def asserts_on_def)

lemma ASSERT_CALL_Inl:
  "asserts_on env \<Longrightarrow> ASSERT_CALL env (Inl e) k = Inl e"
  by (simp add: ASSERT_CALL_def asserts_on_def)

lemma ASSERT_eq_Inr: "ASSERT env e k = Inr x \<Longrightarrow> k = Inr x"
  by (simp add: ASSERT_def split: if_splits)

text \<open>
  The settings of the build that the sources record: \<open>AutoGen.c\<close> gives
  \<open>PcdDebugPropertyMask\<close> 0x2F (assertions on, a failed one does not return), the three
  maximum lengths 1000000, and no list verification; \<open>char\<close> is signed on X64.
\<close>

definition debug_env :: build_env where
  "debug_env = \<lparr>DebugAssertEnabled = True, DebugAssertStops = True, CharIsSigned = True,
     PcdMaximumUnicodeStringLength = 1000000, PcdMaximumAsciiStringLength = 1000000,
     PcdMaximumLinkedListLength = 1000000, PcdVerifyNodeInList = False\<rparr>"

lemma debug_env_asserts: "asserts_on debug_env"
  by (simp add: asserts_on_def debug_env_def)

section \<open>Arithmetic macros\<close>

definition ALIGN_VALUE :: "UINTN \<Rightarrow> UINTN \<Rightarrow> UINTN" where
  "ALIGN_VALUE Value Alignment = Value + ((Alignment - Value) AND (Alignment - 1))"

text \<open>
  The signature macros work on \<open>int\<close> operands: the 32-bit signature is a signed 32-bit
  value, and widening it to \<open>UINT64\<close> extends its sign.
\<close>

definition SIGNATURE_16 :: "UINT32 \<Rightarrow> UINT32 \<Rightarrow> UINT32" where
  "SIGNATURE_16 A B = A OR push_bit 8 B"

definition SIGNATURE_32 :: "UINT32 \<Rightarrow> UINT32 \<Rightarrow> UINT32 \<Rightarrow> UINT32 \<Rightarrow> UINT32" where
  "SIGNATURE_32 A B C D = SIGNATURE_16 A B OR push_bit 16 (SIGNATURE_16 C D)"

definition SIGNATURE_64 ::
  "UINT32 \<Rightarrow> UINT32 \<Rightarrow> UINT32 \<Rightarrow> UINT32 \<Rightarrow> UINT32 \<Rightarrow> UINT32 \<Rightarrow> UINT32 \<Rightarrow> UINT32 \<Rightarrow> UINT64" where
  "SIGNATURE_64 A B C D E F G H =
     scast (SIGNATURE_32 A B C D) OR push_bit 32 (scast (SIGNATURE_32 E F G H))"

section \<open>Memory\<close>

type_synonym mem = "UINTN \<Rightarrow> UINT8 option"

definition load_byte :: "mem \<Rightarrow> UINTN \<Rightarrow> UINT8 res" where
  "load_byte m a =
     (if a = NULL then Inl BadAddress
      else case m a of None \<Rightarrow> Inl BadAddress | Some b \<Rightarrow> Inr b)"

definition store_byte :: "mem \<Rightarrow> UINTN \<Rightarrow> UINT8 \<Rightarrow> mem res" where
  "store_byte m a b =
     (if a = NULL then Inl BadAddress
      else case m a of None \<Rightarrow> Inl BadAddress | Some _ \<Rightarrow> Inr (m(a \<mapsto> b)))"

fun load_bytes :: "mem \<Rightarrow> UINTN \<Rightarrow> nat \<Rightarrow> UINT8 list res" where
  "load_bytes m a 0 = Inr []"
| "load_bytes m a (Suc n) =
     bindr (load_byte m a) (\<lambda>b. bindr (load_bytes m (a + 1) n) (\<lambda>bs. Inr (b # bs)))"

fun le_word :: "UINT8 list \<Rightarrow> 'a::len word" where
  "le_word [] = 0"
| "le_word (b # bs) = ucast b OR push_bit 8 (le_word bs)"

text \<open>
  \<open>sizeof_word w\<close> is \<open>sizeof (*p)\<close> for a pointer to objects of the type of \<open>w\<close>, and
  \<open>load\<close> is the dereference \<open>*p\<close>: the type of the result selects the width.
\<close>

definition sizeof_word :: "'a::len word \<Rightarrow> nat" where
  "sizeof_word w = (LENGTH('a) + 7) div 8"

definition load :: "mem \<Rightarrow> UINTN \<Rightarrow> 'a::len word res" where
  "load m a = bindr (load_bytes m a (sizeof_word (0 :: 'a word))) (\<lambda>bs. Inr (le_word bs))"


section \<open>Buffers\<close>

text \<open>
  \<open>bytes_at m a bs\<close>: the bytes \<open>bs\<close> are readable at \<open>a\<close>, \<open>a + 1\<close>, ..., none of them at
  address 0, so a buffer never wraps around the address space. \<open>words_at\<close> is the same for
  the elements of an array of a wider type.
\<close>

fun bytes_at :: "mem \<Rightarrow> UINTN \<Rightarrow> UINT8 list \<Rightarrow> bool" where
  "bytes_at m a [] \<longleftrightarrow> True"
| "bytes_at m a (b # bs) \<longleftrightarrow> a \<noteq> NULL \<and> m a = Some b \<and> bytes_at m (a + 1) bs"

fun words_at :: "mem \<Rightarrow> UINTN \<Rightarrow> 'a::len word list \<Rightarrow> bool" where
  "words_at m a [] \<longleftrightarrow> True"
| "words_at m a (w # ws) \<longleftrightarrow>
     load m a = Inr w \<and> words_at m (a + of_nat (sizeof_word w)) ws"

lemma load_byte_Inr [simp]: "load_byte m a = Inr b \<longleftrightarrow> a \<noteq> NULL \<and> m a = Some b"
  by (auto simp: load_byte_def split: option.splits)

lemma bytes_at_append:
  "bytes_at m a (xs @ ys) \<longleftrightarrow> bytes_at m a xs \<and> bytes_at m (a + of_nat (length xs)) ys"
  by (induction xs arbitrary: a) (auto simp: add.assoc)

lemma words_at_append:
  "words_at m a (xs @ ys) \<longleftrightarrow>
     words_at m a xs \<and> words_at m (a + of_nat (sizeof_word (0 :: 'a word) * length xs)) ys"
  for xs ys :: "'a::len word list"
  by (induction xs arbitrary: a) (auto simp: add.assoc sizeof_word_def)

lemma load_bytes_iff: "load_bytes m a n = Inr bs \<longleftrightarrow> length bs = n \<and> bytes_at m a bs"
proof (induction n arbitrary: a bs)
  case (Suc n)
  then show ?case by (cases bs) (auto simp: bindr_eq_Inr_iff)
qed auto

lemma load_at:
  "bytes_at m a bs \<Longrightarrow> length bs = sizeof_word (0 :: 'a word) \<Longrightarrow>
   load m a = Inr (le_word bs :: 'a::len word)"
  using load_bytes_iff [of m a "length bs" bs] by (simp add: load_def)

lemma bytes_at_nth:
  "bytes_at m a bs \<longleftrightarrow> (\<forall>i<length bs. a + of_nat i \<noteq> NULL \<and> m (a + of_nat i) = Some (bs ! i))"
  by (induction bs arbitrary: a) (auto simp: All_less_Suc2 add.assoc)

lemma bytes_at_byte:
  "bytes_at m a bs \<Longrightarrow> i < length bs \<Longrightarrow> load_byte m (a + of_nat i) = Inr (bs ! i)"
  by (simp add: bytes_at_nth)

lemma load_UINT8: "load m a = (load_byte m a :: UINT8 res)"
  by (cases "load_byte m a") (simp_all add: load_def sizeof_word_def)

lemma words_at_UINT8: "words_at m a bs = bytes_at m a (bs :: UINT8 list)"
  by (induction bs arbitrary: a) (auto simp: load_UINT8 sizeof_word_def)

text \<open>The bytes of a value, least significant first.\<close>

fun le_bytes :: "nat \<Rightarrow> 'a::len word \<Rightarrow> UINT8 list" where
  "le_bytes 0 w = []"
| "le_bytes (Suc n) w = ucast w # le_bytes n (drop_bit 8 w)"

lemma length_le_bytes [simp]: "length (le_bytes n w) = n"
  by (induction n arbitrary: w) auto

lemma le_word_le_bytes: "LENGTH('a) \<le> 8 * n \<Longrightarrow> le_word (le_bytes n w) = (w :: 'a::len word)"
proof -
  have "le_word (le_bytes n w) = take_bit (8 * n) w" for w :: "'a word"
  proof (induction n arbitrary: w)
    case (Suc n)
    have "ucast (ucast w :: UINT8) OR push_bit 8 (take_bit (8 * n) (drop_bit 8 w)) =
        take_bit (8 * Suc n) w"
      by (rule bit_word_eqI) (auto simp: bit_simps)
    with Suc show ?case by simp
  qed simp
  moreover assume "LENGTH('a) \<le> 8 * n"
  ultimately show ?thesis by (simp add: take_bit_word_eq_self)
qed

definition sample_mem :: "UINTN \<Rightarrow> UINT8 list \<Rightarrow> mem" where
  "sample_mem a bs = (\<lambda>x. if unat (x - a) < length bs then Some (bs ! unat (x - a)) else None)"

lemma sample_mem_bytes:
  assumes "unat a + length bs \<le> 2 ^ 64" "0 < unat a"
  shows "bytes_at (sample_mem a bs) a bs"
proof -
  have "unat (of_nat i :: UINTN) = i" "a + of_nat i \<noteq> 0" if i: "i < length bs" for i
  proof -
    have "i < 2 ^ 64" using i assms by linarith
    then show u: "unat (of_nat i :: UINTN) = i" by (simp add: unat_of_nat)
    have "unat (a + of_nat i) = unat a + i"
      using i assms u by (subst unat_add_lem [THEN iffD1]) auto
    then show "a + of_nat i \<noteq> 0" using assms by (metis add_is_0 not_less0 unsigned_0)
  qed
  then show ?thesis by (simp add: bytes_at_nth sample_mem_def NULL_def)
qed

end
