(* ===== verification/Bit_Field.thy ===== *)
theory Bit_Field imports Base_Types begin

text \<open>
  \<open>BitField.c\<close>: reading, writing, OR-ing and AND-ing the bits \<open>StartBit..EndBit\<close> of a
  value, at the widths 8, 16, 32 (over the \<open>UINTN\<close> workers) and 64 (over the shift
  functions \<open>LShiftU64\<close> and \<open>RShiftU64\<close>, whose code is not in the sources and which are
  arguments of the model), and the population counts. The contract of one width is the
  locale \<open>bit_field\<close>; its clients' lemmas are proved once there.
\<close>

section \<open>Shifts\<close>

definition shl :: "'a::len word \<Rightarrow> UINTN \<Rightarrow> 'a word res" where
  "shl x n = (if unat n < LENGTH('a) then Inr (push_bit (unat n) x) else Inl UndefinedShift)"

definition shr :: "'a::len word \<Rightarrow> UINTN \<Rightarrow> 'a word res" where
  "shr x n = (if unat n < LENGTH('a) then Inr (drop_bit (unat n) x) else Inl UndefinedShift)"

record shift_lib =
  LShiftU64 :: "UINT64 \<Rightarrow> UINTN \<Rightarrow> UINT64 res"
  RShiftU64 :: "UINT64 \<Rightarrow> UINTN \<Rightarrow> UINT64 res"

text \<open>
  What \<open>BaseLib.h\<close> documents of the two shift functions: for a count of at most 63 they
  return the shifted operand, zeros shifted in.
\<close>

definition shift_lib_ok :: "shift_lib \<Rightarrow> bool" where
  "shift_lib_ok lib \<longleftrightarrow>
     (\<forall>x n. unat n < 64 \<longrightarrow> LShiftU64 lib x n = Inr (push_bit (unat n) x)) \<and>
     (\<forall>x n. unat n < 64 \<longrightarrow> RShiftU64 lib x n = Inr (drop_bit (unat n) x))"

section \<open>Workers on UINTN\<close>

definition InternalBaseLibBitFieldReadUint :: "UINTN \<Rightarrow> UINTN \<Rightarrow> UINTN \<Rightarrow> UINTN res" where
  "InternalBaseLibBitFieldReadUint Operand StartBit EndBit =
     bindr (shl (-2) EndBit) (\<lambda>m. shr (Operand AND NOT m) StartBit)"

definition InternalBaseLibBitFieldOrUint ::
  "build_env \<Rightarrow> UINTN \<Rightarrow> UINTN \<Rightarrow> UINTN \<Rightarrow> UINTN \<Rightarrow> UINTN res" where
  "InternalBaseLibBitFieldOrUint env Operand StartBit EndBit OrData =
     ASSERT_CALL env (bindr (shr OrData (EndBit - StartBit)) (\<lambda>h. Inr (h = h AND 1)))
       (bindr (shl OrData StartBit) (\<lambda>d.
        bindr (shl (-2) EndBit) (\<lambda>m. Inr (Operand OR (d AND NOT m)))))"

definition InternalBaseLibBitFieldAndUint ::
  "build_env \<Rightarrow> UINTN \<Rightarrow> UINTN \<Rightarrow> UINTN \<Rightarrow> UINTN \<Rightarrow> UINTN res" where
  "InternalBaseLibBitFieldAndUint env Operand StartBit EndBit AndData =
     ASSERT_CALL env (bindr (shr AndData (EndBit - StartBit)) (\<lambda>h. Inr (h = h AND 1)))
       (bindr (shl (NOT AndData) StartBit) (\<lambda>d.
        bindr (shl (-2) EndBit) (\<lambda>m. Inr (Operand AND NOT (d AND NOT m)))))"

section \<open>Fields of 8-bit values\<close>

definition BitFieldRead8 :: "build_env \<Rightarrow> UINT8 \<Rightarrow> UINTN \<Rightarrow> UINTN \<Rightarrow> UINT8 res" where
  "BitFieldRead8 env Operand StartBit EndBit =
     ASSERT env (EndBit < 8) (ASSERT env (StartBit \<le> EndBit)
       (map_res ucast (InternalBaseLibBitFieldReadUint (ucast Operand) StartBit EndBit)))"

definition BitFieldOr8 ::
  "build_env \<Rightarrow> UINT8 \<Rightarrow> UINTN \<Rightarrow> UINTN \<Rightarrow> UINT8 \<Rightarrow> UINT8 res" where
  "BitFieldOr8 env Operand StartBit EndBit OrData =
     ASSERT env (EndBit < 8) (ASSERT env (StartBit \<le> EndBit)
       (map_res ucast
         (InternalBaseLibBitFieldOrUint env (ucast Operand) StartBit EndBit (ucast OrData))))"

definition BitFieldAnd8 ::
  "build_env \<Rightarrow> UINT8 \<Rightarrow> UINTN \<Rightarrow> UINTN \<Rightarrow> UINT8 \<Rightarrow> UINT8 res" where
  "BitFieldAnd8 env Operand StartBit EndBit AndData =
     ASSERT env (EndBit < 8) (ASSERT env (StartBit \<le> EndBit)
       (map_res ucast
         (InternalBaseLibBitFieldAndUint env (ucast Operand) StartBit EndBit (ucast AndData))))"

definition BitFieldAndThenOr8 ::
  "build_env \<Rightarrow> UINT8 \<Rightarrow> UINTN \<Rightarrow> UINTN \<Rightarrow> UINT8 \<Rightarrow> UINT8 \<Rightarrow> UINT8 res" where
  "BitFieldAndThenOr8 env Operand StartBit EndBit AndData OrData =
     ASSERT env (EndBit < 8) (ASSERT env (StartBit \<le> EndBit)
       (bindr (BitFieldAnd8 env Operand StartBit EndBit AndData)
         (\<lambda>v. BitFieldOr8 env v StartBit EndBit OrData)))"

definition BitFieldWrite8 ::
  "build_env \<Rightarrow> UINT8 \<Rightarrow> UINTN \<Rightarrow> UINTN \<Rightarrow> UINT8 \<Rightarrow> UINT8 res" where
  "BitFieldWrite8 env Operand StartBit EndBit Value =
     ASSERT env (EndBit < 8) (ASSERT env (StartBit \<le> EndBit)
       (BitFieldAndThenOr8 env Operand StartBit EndBit 0 Value))"

section \<open>Fields of 16-bit values\<close>

definition BitFieldRead16 :: "build_env \<Rightarrow> UINT16 \<Rightarrow> UINTN \<Rightarrow> UINTN \<Rightarrow> UINT16 res" where
  "BitFieldRead16 env Operand StartBit EndBit =
     ASSERT env (EndBit < 16) (ASSERT env (StartBit \<le> EndBit)
       (map_res ucast (InternalBaseLibBitFieldReadUint (ucast Operand) StartBit EndBit)))"

definition BitFieldOr16 ::
  "build_env \<Rightarrow> UINT16 \<Rightarrow> UINTN \<Rightarrow> UINTN \<Rightarrow> UINT16 \<Rightarrow> UINT16 res" where
  "BitFieldOr16 env Operand StartBit EndBit OrData =
     ASSERT env (EndBit < 16) (ASSERT env (StartBit \<le> EndBit)
       (map_res ucast
         (InternalBaseLibBitFieldOrUint env (ucast Operand) StartBit EndBit (ucast OrData))))"

definition BitFieldAnd16 ::
  "build_env \<Rightarrow> UINT16 \<Rightarrow> UINTN \<Rightarrow> UINTN \<Rightarrow> UINT16 \<Rightarrow> UINT16 res" where
  "BitFieldAnd16 env Operand StartBit EndBit AndData =
     ASSERT env (EndBit < 16) (ASSERT env (StartBit \<le> EndBit)
       (map_res ucast
         (InternalBaseLibBitFieldAndUint env (ucast Operand) StartBit EndBit (ucast AndData))))"

definition BitFieldAndThenOr16 ::
  "build_env \<Rightarrow> UINT16 \<Rightarrow> UINTN \<Rightarrow> UINTN \<Rightarrow> UINT16 \<Rightarrow> UINT16 \<Rightarrow> UINT16 res" where
  "BitFieldAndThenOr16 env Operand StartBit EndBit AndData OrData =
     ASSERT env (EndBit < 16) (ASSERT env (StartBit \<le> EndBit)
       (bindr (BitFieldAnd16 env Operand StartBit EndBit AndData)
         (\<lambda>v. BitFieldOr16 env v StartBit EndBit OrData)))"

definition BitFieldWrite16 ::
  "build_env \<Rightarrow> UINT16 \<Rightarrow> UINTN \<Rightarrow> UINTN \<Rightarrow> UINT16 \<Rightarrow> UINT16 res" where
  "BitFieldWrite16 env Operand StartBit EndBit Value =
     ASSERT env (EndBit < 16) (ASSERT env (StartBit \<le> EndBit)
       (BitFieldAndThenOr16 env Operand StartBit EndBit 0 Value))"

section \<open>Fields of 32-bit values\<close>

definition BitFieldRead32 :: "build_env \<Rightarrow> UINT32 \<Rightarrow> UINTN \<Rightarrow> UINTN \<Rightarrow> UINT32 res" where
  "BitFieldRead32 env Operand StartBit EndBit =
     ASSERT env (EndBit < 32) (ASSERT env (StartBit \<le> EndBit)
       (map_res ucast (InternalBaseLibBitFieldReadUint (ucast Operand) StartBit EndBit)))"

definition BitFieldOr32 ::
  "build_env \<Rightarrow> UINT32 \<Rightarrow> UINTN \<Rightarrow> UINTN \<Rightarrow> UINT32 \<Rightarrow> UINT32 res" where
  "BitFieldOr32 env Operand StartBit EndBit OrData =
     ASSERT env (EndBit < 32) (ASSERT env (StartBit \<le> EndBit)
       (map_res ucast
         (InternalBaseLibBitFieldOrUint env (ucast Operand) StartBit EndBit (ucast OrData))))"

definition BitFieldAnd32 ::
  "build_env \<Rightarrow> UINT32 \<Rightarrow> UINTN \<Rightarrow> UINTN \<Rightarrow> UINT32 \<Rightarrow> UINT32 res" where
  "BitFieldAnd32 env Operand StartBit EndBit AndData =
     ASSERT env (EndBit < 32) (ASSERT env (StartBit \<le> EndBit)
       (map_res ucast
         (InternalBaseLibBitFieldAndUint env (ucast Operand) StartBit EndBit (ucast AndData))))"

definition BitFieldAndThenOr32 ::
  "build_env \<Rightarrow> UINT32 \<Rightarrow> UINTN \<Rightarrow> UINTN \<Rightarrow> UINT32 \<Rightarrow> UINT32 \<Rightarrow> UINT32 res" where
  "BitFieldAndThenOr32 env Operand StartBit EndBit AndData OrData =
     ASSERT env (EndBit < 32) (ASSERT env (StartBit \<le> EndBit)
       (bindr (BitFieldAnd32 env Operand StartBit EndBit AndData)
         (\<lambda>v. BitFieldOr32 env v StartBit EndBit OrData)))"

definition BitFieldWrite32 ::
  "build_env \<Rightarrow> UINT32 \<Rightarrow> UINTN \<Rightarrow> UINTN \<Rightarrow> UINT32 \<Rightarrow> UINT32 res" where
  "BitFieldWrite32 env Operand StartBit EndBit Value =
     ASSERT env (EndBit < 32) (ASSERT env (StartBit \<le> EndBit)
       (BitFieldAndThenOr32 env Operand StartBit EndBit 0 Value))"

section \<open>Fields of 64-bit values\<close>

definition BitFieldRead64 ::
  "shift_lib \<Rightarrow> build_env \<Rightarrow> UINT64 \<Rightarrow> UINTN \<Rightarrow> UINTN \<Rightarrow> UINT64 res" where
  "BitFieldRead64 lib env Operand StartBit EndBit =
     ASSERT env (EndBit < 64) (ASSERT env (StartBit \<le> EndBit)
       (bindr (LShiftU64 lib (-2) EndBit) (\<lambda>m.
          RShiftU64 lib (Operand AND NOT m) StartBit)))"

definition BitFieldOr64 ::
  "shift_lib \<Rightarrow> build_env \<Rightarrow> UINT64 \<Rightarrow> UINTN \<Rightarrow> UINTN \<Rightarrow> UINT64 \<Rightarrow> UINT64 res" where
  "BitFieldOr64 lib env Operand StartBit EndBit OrData =
     ASSERT env (EndBit < 64) (ASSERT env (StartBit \<le> EndBit)
       (ASSERT_CALL env
         (bindr (RShiftU64 lib OrData (EndBit - StartBit)) (\<lambda>l.
          bindr (RShiftU64 lib OrData (EndBit - StartBit)) (\<lambda>r. Inr (l = r AND 1))))
         (bindr (LShiftU64 lib OrData StartBit) (\<lambda>Value1.
          bindr (LShiftU64 lib (-2) EndBit) (\<lambda>Value2.
            Inr (Operand OR (Value1 AND NOT Value2)))))))"

definition BitFieldAnd64 ::
  "shift_lib \<Rightarrow> build_env \<Rightarrow> UINT64 \<Rightarrow> UINTN \<Rightarrow> UINTN \<Rightarrow> UINT64 \<Rightarrow> UINT64 res" where
  "BitFieldAnd64 lib env Operand StartBit EndBit AndData =
     ASSERT env (EndBit < 64) (ASSERT env (StartBit \<le> EndBit)
       (ASSERT_CALL env
         (bindr (RShiftU64 lib AndData (EndBit - StartBit)) (\<lambda>l.
          bindr (RShiftU64 lib AndData (EndBit - StartBit)) (\<lambda>r. Inr (l = r AND 1))))
         (bindr (LShiftU64 lib (NOT AndData) StartBit) (\<lambda>Value1.
          bindr (LShiftU64 lib (-2) EndBit) (\<lambda>Value2.
            Inr (Operand AND NOT (Value1 AND NOT Value2)))))))"

definition BitFieldAndThenOr64 ::
  "shift_lib \<Rightarrow> build_env \<Rightarrow> UINT64 \<Rightarrow> UINTN \<Rightarrow> UINTN \<Rightarrow> UINT64 \<Rightarrow> UINT64 \<Rightarrow> UINT64 res" where
  "BitFieldAndThenOr64 lib env Operand StartBit EndBit AndData OrData =
     ASSERT env (EndBit < 64) (ASSERT env (StartBit \<le> EndBit)
       (bindr (BitFieldAnd64 lib env Operand StartBit EndBit AndData)
         (\<lambda>v. BitFieldOr64 lib env v StartBit EndBit OrData)))"

definition BitFieldWrite64 ::
  "shift_lib \<Rightarrow> build_env \<Rightarrow> UINT64 \<Rightarrow> UINTN \<Rightarrow> UINTN \<Rightarrow> UINT64 \<Rightarrow> UINT64 res" where
  "BitFieldWrite64 lib env Operand StartBit EndBit Value =
     ASSERT env (EndBit < 64) (ASSERT env (StartBit \<le> EndBit)
       (BitFieldAndThenOr64 lib env Operand StartBit EndBit 0 Value))"

section \<open>Population counts\<close>

definition BitFieldCountOnes32 :: "build_env \<Rightarrow> UINT32 \<Rightarrow> UINTN \<Rightarrow> UINTN \<Rightarrow> UINT8 res" where
  "BitFieldCountOnes32 env Operand StartBit EndBit =
     ASSERT env (EndBit < 32) (ASSERT env (StartBit \<le> EndBit)
       (bindr (BitFieldRead32 env Operand StartBit EndBit) (\<lambda>Count0.
          let Count1 = Count0 - (drop_bit 1 Count0 AND 0x55555555);
              Count2 = (Count1 AND 0x33333333) + (drop_bit 2 Count1 AND 0x33333333);
              Count3 = Count2 + drop_bit 4 Count2;
              Count4 = Count3 AND 0x0F0F0F0F;
              Count5 = Count4 + drop_bit 8 Count4;
              Count6 = Count5 + drop_bit 16 Count5
          in Inr (ucast Count6 AND 0x3F))))"

definition BitFieldCountOnes64 ::
  "shift_lib \<Rightarrow> build_env \<Rightarrow> UINT64 \<Rightarrow> UINTN \<Rightarrow> UINTN \<Rightarrow> UINT8 res" where
  "BitFieldCountOnes64 lib env Operand StartBit EndBit =
     ASSERT env (EndBit < 64) (ASSERT env (StartBit \<le> EndBit)
       (bindr (BitFieldRead64 lib env Operand StartBit EndBit) (\<lambda>BitField.
        bindr (BitFieldCountOnes32 env (ucast BitField) 0 31) (\<lambda>Count.
        bindr (RShiftU64 lib BitField 32) (\<lambda>h.
        bindr (BitFieldCountOnes32 env (ucast h) 0 31) (\<lambda>Count'.
          Inr (Count + Count')))))))"

section \<open>What a bit field is\<close>

text \<open>
  The reference: \<open>field_get\<close> is the value of the bits \<open>s..e\<close>, \<open>field_fits\<close> says that
  a value has no bit above the field's width, \<open>field_or\<close> and \<open>field_and\<close> combine a
  value with the field and leave the other bits alone, \<open>field_set\<close> replaces it.
\<close>

definition field_get :: "'a::len word \<Rightarrow> nat \<Rightarrow> nat \<Rightarrow> 'a word" where
  "field_get x s e = take_bit (Suc e - s) (drop_bit s x)"

definition field_fits :: "nat \<Rightarrow> nat \<Rightarrow> 'a::len word \<Rightarrow> bool" where
  "field_fits s e d \<longleftrightarrow> take_bit (Suc e - s) d = d"

definition field_or :: "'a::len word \<Rightarrow> nat \<Rightarrow> nat \<Rightarrow> 'a word \<Rightarrow> 'a word" where
  "field_or x s e d = x OR push_bit s (take_bit (Suc e - s) d)"

definition field_and :: "'a::len word \<Rightarrow> nat \<Rightarrow> nat \<Rightarrow> 'a word \<Rightarrow> 'a word" where
  "field_and x s e d = x AND NOT (push_bit s (take_bit (Suc e - s) (NOT d)))"

definition field_set :: "'a::len word \<Rightarrow> nat \<Rightarrow> nat \<Rightarrow> 'a word \<Rightarrow> 'a word" where
  "field_set x s e d =
     (x AND NOT (push_bit s (mask (Suc e - s)))) OR push_bit s (take_bit (Suc e - s) d)"

lemma bit_field_get:
  "bit (field_get (x :: 'a::len word) s e) n \<longleftrightarrow> s + n \<le> e \<and> bit x (s + n)"
  by (auto simp: field_get_def bit_simps)

lemma bit_field_or:
  "bit (field_or (x :: 'a::len word) s e d) n \<longleftrightarrow>
     bit x n \<or> s \<le> n \<and> n \<le> e \<and> n < LENGTH('a) \<and> bit d (n - s)"
  by (auto simp: field_or_def bit_simps)

lemma bit_field_and:
  "n < LENGTH('a) \<Longrightarrow> bit (field_and (x :: 'a::len word) s e d) n \<longleftrightarrow>
     bit x n \<and> (s \<le> n \<and> n \<le> e \<longrightarrow> bit d (n - s))"
  by (auto simp: field_and_def bit_simps)

lemma bit_field_set:
  "n < LENGTH('a) \<Longrightarrow> bit (field_set (x :: 'a::len word) s e d) n \<longleftrightarrow>
     (if s \<le> n \<and> n \<le> e then bit d (n - s) else bit x n)"
  by (auto simp: field_set_def bit_simps)

lemmas bit_fields = bit_field_get bit_field_or bit_field_and bit_field_set

lemma field_get_div_mod:
  "unat (field_get (x :: 'a::len word) s e) = (unat x div 2 ^ s) mod 2 ^ (Suc e - s)"
  unfolding field_get_def unsigned_take_bit_eq unat_drop_bit_eq
  by (simp only: take_bit_eq_mod drop_bit_eq_div)

lemma field_fits_bit: "field_fits s e (d :: 'a::len word) \<longleftrightarrow> (\<forall>n. bit d n \<longrightarrow> s + n \<le> e)"
proof
  assume "field_fits s e d"
  then show "\<forall>n. bit d n \<longrightarrow> s + n \<le> e"
    by (metis field_fits_def bit_take_bit_iff less_diff_conv less_Suc_eq_le add.commute)
next
  assume *: "\<forall>n. bit d n \<longrightarrow> s + n \<le> e"
  show "field_fits s e d"
    unfolding field_fits_def using * by (intro bit_word_eqI) (auto simp: bit_simps)
qed

lemma field_fits_less: "field_fits s e (d :: 'a::len word) \<longleftrightarrow> unat d < 2 ^ (Suc e - s)"
proof -
  have "field_fits s e d \<longleftrightarrow> take_bit (Suc e - s) (unat d) = unat d"
    by (simp add: field_fits_def word_eq_iff_unat unsigned_take_bit_eq)
  then show ?thesis by (simp add: take_bit_nat_eq_self_iff)
qed

lemma field_and_or_set:
  "e < LENGTH('a) \<Longrightarrow> field_or (field_and (x :: 'a::len word) s e 0) s e d = field_set x s e d"
  by (rule bit_word_eqI) (auto simp: bit_fields)

lemma field_get_set:
  "s \<le> e \<Longrightarrow> e < LENGTH('a) \<Longrightarrow> field_fits s e d \<Longrightarrow>
   field_get (field_set (x :: 'a::len word) s e d) s e = d"
  by (rule bit_word_eqI) (auto simp: bit_fields field_fits_bit)

lemma field_get_set_disjoint:
  "e < LENGTH('a) \<Longrightarrow> e' < LENGTH('a) \<Longrightarrow> e < s' \<or> e' < s \<Longrightarrow>
   field_get (field_set (x :: 'a::len word) s e d) s' e' = field_get x s' e'"
  by (rule bit_word_eqI) (auto simp: bit_fields)

lemma field_set_commute:
  "e < s' \<or> e' < s \<Longrightarrow>
   field_set (field_set (x :: 'a::len word) s e d) s' e' d' =
   field_set (field_set x s' e' d') s e d"
  by (rule bit_word_eqI) (auto simp: bit_fields)

lemma field_set_get_id:
  "field_set (x :: 'a::len word) s e (field_get x s e) = x"
  by (rule bit_word_eqI) (auto simp: bit_fields)

text \<open>The \<open>ASSERT\<close> on the data of OR and AND is exactly \<open>field_fits\<close>.\<close>

lemma fits_top_bit:
  fixes d :: "'a::len word"
  assumes "s \<le> e"
  shows "drop_bit (e - s) d = drop_bit (e - s) d AND 1 \<longleftrightarrow> field_fits s e d"
proof -
  have "drop_bit (e - s) d AND 1 = take_bit 1 (drop_bit (e - s) d)"
    by (simp add: take_bit_eq_mask mask_eq_exp_minus_1)
  also have "\<dots> = drop_bit (e - s) (take_bit (Suc e - s) d)"
    using assms by (intro bit_word_eqI)
      (auto simp: bit_simps less_diff_conv le_Suc_eq simp flip: bit_iff_odd_drop_bit)
  finally have *: "drop_bit (e - s) d AND 1 = drop_bit (e - s) (take_bit (Suc e - s) d)" .
  show ?thesis
  proof
    assume h: "drop_bit (e - s) d = drop_bit (e - s) d AND 1"
    show "field_fits s e d"
      unfolding field_fits_bit
    proof (intro allI impI)
      fix n assume b: "bit d n"
      show "s + n \<le> e"
      proof (rule ccontr)
        assume n: "\<not> s + n \<le> e"
        have "bit (drop_bit (e - s) d) (n - (e - s)) = bit d n"
          using n assms by (simp add: bit_simps)
        moreover have "bit (drop_bit (e - s) d AND 1) (n - (e - s)) = False"
          using n assms by (auto simp: bit_simps)
        ultimately show False using h b by simp
      qed
    qed
  next
    assume "field_fits s e d"
    then show "drop_bit (e - s) d = drop_bit (e - s) d AND 1"
      by (simp add: * field_fits_def)
  qed
qed

section \<open>The workers compute the reference\<close>

lemma unat_range:
  "StartBit \<le> EndBit \<Longrightarrow> unat (EndBit - StartBit) = unat EndBit - unat (StartBit :: UINTN)"
  by (simp add: unat_sub)

lemma start_le [word_facts]: "StartBit \<le> (EndBit :: UINTN) \<Longrightarrow> unat StartBit \<le> unat EndBit"
  by (simp add: word_le_nat_alt)

lemma bit_minus_two: "bit (-2 :: 'a::len word) n \<longleftrightarrow> 0 < n \<and> n < LENGTH('a)"
proof -
  have "(-2 :: 'a word) = NOT 1"
    by (simp add: not_eq_complement)
  then show ?thesis by (auto simp: bit_simps)
qed

lemma mask_to_get:
  "s \<le> e \<Longrightarrow> drop_bit s (x AND NOT (push_bit e (-2))) = field_get (x :: 'a::len word) s e"
  by (rule bit_word_eqI) (auto simp: bit_fields bit_simps bit_minus_two dest: bit_imp_le_length)

lemma mask_to_or:
  "x OR (push_bit s d AND NOT (push_bit e (-2))) = field_or (x :: 'a::len word) s e d"
  by (rule bit_word_eqI) (auto simp: bit_fields bit_simps bit_minus_two)

lemma mask_to_and:
  "x AND NOT (push_bit s (NOT d) AND NOT (push_bit e (-2))) = field_and (x :: 'a::len word) s e d"
  by (rule bit_word_eqI) (auto simp: bit_fields bit_simps bit_minus_two)

lemma shl_ok: "unat n < LENGTH('a) \<Longrightarrow> shl x n = Inr (push_bit (unat n) (x :: 'a::len word))"
  by (simp add: shl_def)

lemma shr_ok: "unat n < LENGTH('a) \<Longrightarrow> shr x n = Inr (drop_bit (unat n) (x :: 'a::len word))"
  by (simp add: shr_def)

lemma ASSERT_CALL_Inr: "ASSERT_CALL env (Inr e) k = ASSERT env e k"
  by (simp add: ASSERT_CALL_def ASSERT_def)

lemma ReadUint_get:
  assumes "StartBit \<le> EndBit" "unat EndBit < 64"
  shows "InternalBaseLibBitFieldReadUint Operand StartBit EndBit =
     Inr (field_get Operand (unat StartBit) (unat EndBit))"
proof -
  have "unat StartBit < 64" using assms start_le by fastforce
  with assms show ?thesis
    by (simp only: InternalBaseLibBitFieldReadUint_def shl_ok shr_ok bindr_Inr mask_to_get
        start_le len64)
qed

lemma data_check:
  fixes d :: UINTN
  assumes "StartBit \<le> EndBit" "unat EndBit < 64"
  shows "bindr (shr d (EndBit - StartBit)) (\<lambda>h. Inr (h = h AND 1)) =
     Inr (field_fits (unat StartBit) (unat EndBit) d)"
proof -
  have "unat (EndBit - StartBit) < 64" using assms by (simp add: unat_range)
  with assms show ?thesis
    by (simp only: shr_ok bindr_Inr unat_range fits_top_bit start_le len64)
qed

lemma OrUint_or:
  assumes "StartBit \<le> EndBit" "unat EndBit < 64"
  shows "InternalBaseLibBitFieldOrUint env Operand StartBit EndBit OrData =
     ASSERT env (field_fits (unat StartBit) (unat EndBit) OrData)
       (Inr (field_or Operand (unat StartBit) (unat EndBit) OrData))"
proof -
  have "unat StartBit < 64" using assms start_le by fastforce
  with assms show ?thesis
    by (simp only: InternalBaseLibBitFieldOrUint_def data_check ASSERT_CALL_Inr shl_ok
        bindr_Inr mask_to_or len64)
qed

lemma AndUint_and:
  assumes "StartBit \<le> EndBit" "unat EndBit < 64"
  shows "InternalBaseLibBitFieldAndUint env Operand StartBit EndBit AndData =
     ASSERT env (field_fits (unat StartBit) (unat EndBit) AndData)
       (Inr (field_and Operand (unat StartBit) (unat EndBit) AndData))"
proof -
  have "unat StartBit < 64" using assms start_le by fastforce
  with assms show ?thesis
    by (simp only: InternalBaseLibBitFieldAndUint_def data_check ASSERT_CALL_Inr shl_ok
        bindr_Inr mask_to_and len64)
qed

text \<open>Narrower operands pass through \<open>UINTN\<close> and back without loss.\<close>

lemma ucast_field_get:
  "LENGTH('a) \<le> 64 \<Longrightarrow> ucast (field_get (ucast x :: UINTN) s e) = field_get (x :: 'a::len word) s e"
  by (rule bit_word_eqI) (auto simp: bit_fields bit_simps dest: bit_imp_le_length)

lemma ucast_field_or:
  "LENGTH('a) \<le> 64 \<Longrightarrow>
   ucast (field_or (ucast x :: UINTN) s e (ucast d)) = field_or (x :: 'a::len word) s e d"
  by (rule bit_word_eqI) (auto simp: bit_fields bit_simps)

lemma ucast_field_and:
  assumes "LENGTH('a) \<le> 64"
  shows "ucast (field_and (ucast x :: UINTN) s e (ucast d)) = field_and (x :: 'a::len word) s e d"
  using assms by (intro bit_word_eqI) (auto simp: bit_ucast_iff bit_field_and)

lemma ucast_field_fits:
  assumes "LENGTH('a) \<le> 64"
  shows "field_fits s e (ucast d :: UINTN) = field_fits s e (d :: 'a::len word)"
proof -
  have "bit (ucast d :: UINTN) n = bit d n" for n
    using assms bit_imp_le_length [of d n] by (auto simp: bit_ucast_iff)
  then show ?thesis by (simp add: field_fits_bit)
qed

section \<open>The contract of one width\<close>

text \<open>What OR, AND and AND-then-OR make of the bits \<open>s\<close> to \<open>e\<close> of \<open>x\<close>, with data \<open>a\<close> for AND and \<open>d\<close> for OR.\<close>

definition combined ::
  "nat \<Rightarrow> nat \<Rightarrow> 'a::len word \<Rightarrow> 'a word \<Rightarrow> 'a word \<Rightarrow> 'a word \<Rightarrow> 'a word \<Rightarrow> 'a word \<Rightarrow> bool" where
  "combined s e x a d o1 a1 ao \<longleftrightarrow>
     (\<forall>n. let inside = (s \<le> n \<and> n \<le> e); i = n - s in
       bit o1 n = (bit x n \<or> inside \<and> bit d i) \<and>
       bit a1 n = (bit x n \<and> (inside \<longrightarrow> bit a i)) \<and>
       bit ao n = (bit x n \<and> (inside \<longrightarrow> bit a i) \<or> inside \<and> bit d i))"

locale bit_field =
  fixes env :: build_env
    and rd :: "'a::len word \<Rightarrow> UINTN \<Rightarrow> UINTN \<Rightarrow> 'a word res"
    and orf :: "'a word \<Rightarrow> UINTN \<Rightarrow> UINTN \<Rightarrow> 'a word \<Rightarrow> 'a word res"
    and andf :: "'a word \<Rightarrow> UINTN \<Rightarrow> UINTN \<Rightarrow> 'a word \<Rightarrow> 'a word res"
    and andor :: "'a word \<Rightarrow> UINTN \<Rightarrow> UINTN \<Rightarrow> 'a word \<Rightarrow> 'a word \<Rightarrow> 'a word res"
    and wr :: "'a word \<Rightarrow> UINTN \<Rightarrow> UINTN \<Rightarrow> 'a word \<Rightarrow> 'a word res"
  assumes rd_get: "s \<le> e \<Longrightarrow> unat e < LENGTH('a) \<Longrightarrow>
      rd x s e = Inr (field_get x (unat s) (unat e))"
    and or_or: "s \<le> e \<Longrightarrow> unat e < LENGTH('a) \<Longrightarrow>
      orf x s e d = ASSERT env (field_fits (unat s) (unat e) d)
        (Inr (field_or x (unat s) (unat e) d))"
    and and_and: "s \<le> e \<Longrightarrow> unat e < LENGTH('a) \<Longrightarrow>
      andf x s e d = ASSERT env (field_fits (unat s) (unat e) d)
        (Inr (field_and x (unat s) (unat e) d))"
    and andor_seq: "s \<le> e \<Longrightarrow> unat e < LENGTH('a) \<Longrightarrow>
      andor x s e a d = bindr (andf x s e a) (\<lambda>v. orf v s e d)"
    and wr_andor: "s \<le> e \<Longrightarrow> unat e < LENGTH('a) \<Longrightarrow> wr x s e d = andor x s e 0 d"
    and out_of_range: "asserts_on env \<Longrightarrow> \<not> (s \<le> e \<and> unat e < LENGTH('a)) \<Longrightarrow>
      rd x s e = Inl AssertFailed \<and> orf x s e d = Inl AssertFailed \<and>
      andf x s e d = Inl AssertFailed \<and> andor x s e a d = Inl AssertFailed \<and>
      wr x s e d = Inl AssertFailed"
begin

lemma zero_fits: "field_fits s e (0 :: 'a word)"
  by (simp add: field_fits_def)

lemma write_set:
  assumes "s \<le> e" "unat e < LENGTH('a)" "field_fits (unat s) (unat e) d"
  shows "wr x s e d = Inr (field_set x (unat s) (unat e) d)"
  using assms by (simp add: wr_andor andor_seq or_or and_and zero_fits field_and_or_set)

lemma and_then_or:
  assumes "s \<le> e" "unat e < LENGTH('a)"
    and "field_fits (unat s) (unat e) a" "field_fits (unat s) (unat e) d"
  shows "andor x s e a d =
    Inr (field_or (field_and x (unat s) (unat e) a) (unat s) (unat e) d)"
  using assms by (simp add: andor_seq or_or and_and)

lemma logic_bits:
  assumes "s \<le> e"
  shows "unat e < LENGTH('a) \<and> unat a < 2 ^ (Suc (unat e) - unat s) \<and> unat d < 2 ^ (Suc (unat e) - unat s) \<longrightarrow>
    (\<exists>o1 a1 ao. orf x s e d = Inr o1 \<and> andf x s e a = Inr a1 \<and> andor x s e a d = Inr ao \<and>
      combined (unat s) (unat e) x a d o1 a1 ao)"
proof
  assume r: "unat e < LENGTH('a) \<and> unat a < 2 ^ (Suc (unat e) - unat s) \<and> unat d < 2 ^ (Suc (unat e) - unat s)"
  then have "field_fits (unat s) (unat e) a" "field_fits (unat s) (unat e) d"
    using start_le [OF assms] by (simp_all add: field_fits_less)
  moreover have "bit (field_and x (unat s) (unat e) a) n \<longleftrightarrow>
      bit x n \<and> (unat s \<le> n \<and> n \<le> unat e \<longrightarrow> bit a (n - unat s))" for n
    using bit_field_and [of n x] by (cases "n < LENGTH('a)") (auto dest: bit_imp_le_length)
  moreover have "bit (field_or w (unat s) (unat e) d) n \<longleftrightarrow>
      bit w n \<or> unat s \<le> n \<and> n \<le> unat e \<and> bit d (n - unat s)" for n w
    using r by (auto simp: bit_field_or)
  ultimately show "\<exists>o1 a1 ao. orf x s e d = Inr o1 \<and> andf x s e a = Inr a1 \<and> andor x s e a d = Inr ao \<and>
      combined (unat s) (unat e) x a d o1 a1 ao"
    using assms r by (simp add: or_or and_and and_then_or combined_def Let_def conj_disj_distribL)
qed

lemma read_back:
  assumes "s \<le> e" "unat e < LENGTH('a)" "field_fits (unat s) (unat e) d"
  shows "bindr (wr x s e d) (\<lambda>v. rd v s e) = Inr d"
  using assms by (simp add: write_set rd_get field_get_set start_le)

lemma write_keeps:
  assumes "s \<le> e" "unat e < LENGTH('a)" "field_fits (unat s) (unat e) d"
    and "s' \<le> e'" "unat e' < LENGTH('a)" "e < s' \<or> e' < s"
  shows "bindr (wr x s e d) (\<lambda>v. rd v s' e') = rd x s' e'"
  using assms by (simp add: write_set rd_get field_get_set_disjoint word_less_nat_alt)

lemma writes_commute:
  assumes "s \<le> e" "unat e < LENGTH('a)" "field_fits (unat s) (unat e) d"
    and "s' \<le> e'" "unat e' < LENGTH('a)" "field_fits (unat s') (unat e') d'"
    and "e < s' \<or> e' < s"
  shows "bindr (wr x s e d) (\<lambda>v. wr v s' e' d') = bindr (wr x s' e' d') (\<lambda>v. wr v s e d)"
  using assms
  by (simp add: write_set word_less_nat_alt field_set_commute [of "unat e" "unat s'" "unat e'" "unat s"])

lemma disjoint_writes:
  assumes "s \<le> e" "s' \<le> e'" "e < s' \<or> e' < s"
  shows "unat e < LENGTH('a) \<and> unat e' < LENGTH('a) \<and> unat d < 2 ^ (Suc (unat e) - unat s) \<longrightarrow>
    bindr (wr x s e d) (\<lambda>v. rd v s' e') = rd x s' e' \<and>
    (unat d' < 2 ^ (Suc (unat e') - unat s') \<longrightarrow>
      bindr (wr x s e d) (\<lambda>v. wr v s' e' d') = bindr (wr x s' e' d') (\<lambda>v. wr v s e d))"
  using assms start_le [OF assms(1)] start_le [OF assms(2)] write_keeps [of s e d s' e' x]
    writes_commute [of s e d s' e' d' x]
  by (simp only: field_fits_less) blast

lemma write_old_value:
  assumes "s \<le> e" "unat e < LENGTH('a)"
  shows "bindr (rd x s e) (\<lambda>v. wr x s e v) = Inr x"
proof -
  have "field_fits (unat s) (unat e) (field_get x (unat s) (unat e))"
    by (auto simp: field_fits_bit bit_field_get)
  with assms show ?thesis by (simp add: rd_get write_set field_set_get_id)
qed

text \<open>A checked write succeeds exactly on a range of the width and a value of the field.\<close>

lemma write_succeeds_iff:
  assumes "asserts_on env"
  shows "wr x s e d = (if s \<le> e \<and> unat e < LENGTH('a) \<and> field_fits (unat s) (unat e) d
     then Inr (field_set x (unat s) (unat e) d) else Inl AssertFailed)"
proof (cases "s \<le> e \<and> unat e < LENGTH('a)")
  case True
  with assms show ?thesis
    by (cases "field_fits (unat s) (unat e) d")
      (simp_all add: write_set, simp add: wr_andor andor_seq or_or and_and zero_fits ASSERT_False)
next
  case False
  with out_of_range [OF assms] show ?thesis by auto
qed

end

lemmas bit_field_8_defs = BitFieldRead8_def BitFieldOr8_def BitFieldAnd8_def
  BitFieldAndThenOr8_def BitFieldWrite8_def
lemmas bit_field_16_defs = BitFieldRead16_def BitFieldOr16_def BitFieldAnd16_def
  BitFieldAndThenOr16_def BitFieldWrite16_def
lemmas bit_field_32_defs = BitFieldRead32_def BitFieldOr32_def BitFieldAnd32_def
  BitFieldAndThenOr32_def BitFieldWrite32_def
lemmas bit_field_64_defs = BitFieldRead64_def BitFieldOr64_def BitFieldAnd64_def
  BitFieldAndThenOr64_def BitFieldWrite64_def

lemmas via_uintn = ReadUint_get OrUint_or AndUint_and ucast_field_get ucast_field_or
  ucast_field_and ucast_field_fits

lemma map_res_ASSERT: "map_res f (ASSERT env e k) = ASSERT env e (map_res f k)"
  by (simp add: ASSERT_def)

interpretation bf8: bit_field env "BitFieldRead8 env" "BitFieldOr8 env" "BitFieldAnd8 env"
  "BitFieldAndThenOr8 env" "BitFieldWrite8 env" for env
  by unfold_locales
    (auto simp: bit_field_8_defs via_uintn map_res_ASSERT word_less_nat_alt
      ASSERT_False)

interpretation bf16: bit_field env "BitFieldRead16 env" "BitFieldOr16 env" "BitFieldAnd16 env"
  "BitFieldAndThenOr16 env" "BitFieldWrite16 env" for env
  by unfold_locales
    (auto simp: bit_field_16_defs via_uintn map_res_ASSERT word_less_nat_alt
      ASSERT_False)

interpretation bf32: bit_field env "BitFieldRead32 env" "BitFieldOr32 env" "BitFieldAnd32 env"
  "BitFieldAndThenOr32 env" "BitFieldWrite32 env" for env
  by unfold_locales
    (auto simp: bit_field_32_defs via_uintn map_res_ASSERT word_less_nat_alt
      ASSERT_False)

lemma data_check_64:
  assumes "shift_lib_ok lib" "StartBit \<le> EndBit" "unat EndBit < 64"
  shows "bindr (RShiftU64 lib d (EndBit - StartBit)) (\<lambda>l.
      bindr (RShiftU64 lib d (EndBit - StartBit)) (\<lambda>r. Inr (l = r AND 1))) =
     Inr (field_fits (unat StartBit) (unat EndBit) d)"
proof -
  have "unat (EndBit - StartBit) < 64" using assms by (simp add: unat_range)
  with assms(1) have "RShiftU64 lib d (EndBit - StartBit) =
      Inr (drop_bit (unat EndBit - unat StartBit) d)"
    using assms(2) by (simp add: shift_lib_ok_def unat_range)
  then show ?thesis
    using assms(2) by (simp only: bindr_Inr fits_top_bit start_le)
qed

lemma lib_shifts:
  assumes "shift_lib_ok lib" "unat n < 64"
  shows "LShiftU64 lib x n = Inr (push_bit (unat n) x)"
    and "RShiftU64 lib x n = Inr (drop_bit (unat n) x)"
  using assms by (simp_all add: shift_lib_ok_def)

lemma width_less:
  fixes e :: UINTN
  shows "e < 8 \<longleftrightarrow> unat e < LENGTH(8)" "e < 16 \<longleftrightarrow> unat e < LENGTH(16)"
    "e < 32 \<longleftrightarrow> unat e < LENGTH(32)" "e < 64 \<longleftrightarrow> unat e < LENGTH(64)"
  by (simp_all add: word_less_nat_alt)

lemma bit_field_64:
  assumes ok: "shift_lib_ok lib"
  shows "bit_field env (BitFieldRead64 lib env) (BitFieldOr64 lib env) (BitFieldAnd64 lib env)
    (BitFieldAndThenOr64 lib env) (BitFieldWrite64 lib env)"
proof unfold_locales
  fix s e :: UINTN and x d a :: UINT64
  {
    assume r: "s \<le> e" "unat e < LENGTH(64)"
    then have e: "unat e < 64" "unat s < 64" "e < 64"
      using start_le [of s e] by (simp_all add: word_less_nat_alt)
    note sem = ASSERT_True r(1) e bindr_Inr lib_shifts [OF ok] data_check_64 [OF ok]
      ASSERT_CALL_Inr mask_to_get mask_to_or mask_to_and start_le
    show "BitFieldRead64 lib env x s e = Inr (field_get x (unat s) (unat e))"
      by (simp only: BitFieldRead64_def sem)
    show "BitFieldOr64 lib env x s e d = ASSERT env (field_fits (unat s) (unat e) d)
        (Inr (field_or x (unat s) (unat e) d))"
      by (simp only: BitFieldOr64_def sem)
    show "BitFieldAnd64 lib env x s e d = ASSERT env (field_fits (unat s) (unat e) d)
        (Inr (field_and x (unat s) (unat e) d))"
      by (simp only: BitFieldAnd64_def sem)
    show "BitFieldAndThenOr64 lib env x s e a d =
        bindr (BitFieldAnd64 lib env x s e a) (\<lambda>v. BitFieldOr64 lib env v s e d)"
      by (simp only: BitFieldAndThenOr64_def sem)
    show "BitFieldWrite64 lib env x s e d = BitFieldAndThenOr64 lib env x s e 0 d"
      by (simp only: BitFieldWrite64_def sem)
  }
  assume "asserts_on env" "\<not> (s \<le> e \<and> unat e < LENGTH(64))"
  then show "BitFieldRead64 lib env x s e = Inl AssertFailed \<and>
      BitFieldOr64 lib env x s e d = Inl AssertFailed \<and>
      BitFieldAnd64 lib env x s e d = Inl AssertFailed \<and>
      BitFieldAndThenOr64 lib env x s e a d = Inl AssertFailed \<and>
      BitFieldWrite64 lib env x s e d = Inl AssertFailed"
    by (auto simp: bit_field_64_defs word_less_nat_alt ASSERT_False)
qed

section \<open>Population counts\<close>

text \<open>
  The count adds digits pairwise: 32 bits, 16 two-bit sums, 8 four-bit sums, 4 byte sums.
  \<open>undigits B\<close> reads a list of digits (lowest first) in base \<open>B\<close>, \<open>pair_sums\<close> adds
  neighbours, \<open>pair_mask\<close> is the mask that keeps every other digit.
\<close>

definition popcount :: "'a::len word \<Rightarrow> nat" where
  "popcount w = (\<Sum>n<LENGTH('a). of_bool (bit w n))"

fun undigits :: "nat \<Rightarrow> nat list \<Rightarrow> nat" where
  "undigits B [] = 0"
| "undigits B (d # ds) = d + B * undigits B ds"

fun pair_sums :: "nat list \<Rightarrow> nat list" where
  "pair_sums (a # b # ds) = (a + b) # pair_sums ds"
| "pair_sums ds = ds"

fun evens :: "nat list \<Rightarrow> nat list" where
  "evens (a # b # ds) = a # evens ds"
| "evens ds = ds"

fun odds :: "nat list \<Rightarrow> nat list" where
  "odds (a # b # ds) = b # odds ds"
| "odds ds = []"

fun next_sums :: "nat list \<Rightarrow> nat list" where
  "next_sums (a # b # ds) = (a + b) # next_sums (b # ds)"
| "next_sums ds = ds"

fun pair_mask :: "nat \<Rightarrow> nat \<Rightarrow> nat" where
  "pair_mask k 0 = 0"
| "pair_mask k (Suc n) = mask k + 2 ^ (2 * k) * pair_mask k n"

lemma sum_list_pair_sums: "sum_list (pair_sums ds) = sum_list ds"
  by (induction ds rule: pair_sums.induct) auto

lemma length_pair_sums: "length (pair_sums ds) = (length ds + 1) div 2"
  by (induction ds rule: pair_sums.induct) auto

lemma pair_sums_bound: "\<forall>d\<in>set ds. d \<le> m \<Longrightarrow> \<forall>d\<in>set (pair_sums ds). d \<le> 2 * m"
  by (induction ds rule: pair_sums.induct) auto

lemma undigits_bits:
  "n < 2 ^ k \<Longrightarrow> undigits 2 (map (\<lambda>i. of_bool (bit n i)) [0..<k]) = n" for n :: nat
proof (induction k arbitrary: n)
  case 0
  then show ?case by simp
next
  case (Suc k)
  have "map (\<lambda>i. of_bool (bit n i)) [0..<Suc k] =
      of_bool (odd n) # map (\<lambda>i. of_bool (bit (n div 2) i) :: nat) [0..<k]"
    by (simp add: map_upt_Suc bit_Suc bit_0 del: upt_Suc)
  moreover have "undigits 2 (map (\<lambda>i. of_bool (bit (n div 2) i)) [0..<k]) = n div 2"
    using Suc by simp
  ultimately show ?case by (simp del: upt_Suc)
qed

lemma low_high_and:
  fixes u v r M :: nat
  assumes "u < 2 ^ n" "v < 2 ^ n"
  shows "(u + 2 ^ n * r) AND (v + 2 ^ n * M) = (u AND v) + 2 ^ n * (r AND M)"
proof -
  have [simp]: "take_bit n (u + 2 ^ n * r) = u" "take_bit n (v + 2 ^ n * M) = v"
    and [simp]: "drop_bit n (u + 2 ^ n * r) = r" "drop_bit n (v + 2 ^ n * M) = M"
    using assms by (simp_all add: take_bit_eq_mod drop_bit_eq_div)
  have "(u + 2 ^ n * r) AND (v + 2 ^ n * M) =
      push_bit n (drop_bit n ((u + 2 ^ n * r) AND (v + 2 ^ n * M))) +
      take_bit n ((u + 2 ^ n * r) AND (v + 2 ^ n * M))"
    by (rule bits_ident [symmetric])
  then show ?thesis
    by (simp add: drop_bit_and take_bit_and push_bit_eq_mult)
qed

lemma low_digit: "a < 2 ^ k \<Longrightarrow> a + 2 ^ k * b < 2 ^ (2 * k) \<longleftrightarrow> b < 2 ^ k" for a b k :: nat
proof -
  assume a: "a < 2 ^ k"
  have "(a + 2 ^ k * b) div 2 ^ k = b" using a by simp
  then show ?thesis
    by (metis a add_less_cancel_left div_less_iff_less_mult mult_2 power_add zero_less_numeral
        zero_less_power)
qed

lemma double_exp: "2 ^ (2 * k) = 2 ^ k * (2 ^ k :: nat)"
  by (simp add: mult_2 power_add)

lemma pair_step:
  fixes a b r M :: nat
  assumes "a < 2 ^ k" "b < 2 ^ k"
  shows "(a + 2 ^ k * (b + 2 ^ k * r)) AND (mask k + 2 ^ (2 * k) * M) = a + 2 ^ (2 * k) * (r AND M)"
proof -
  have m: "(mask k :: nat) < 2 ^ (2 * k)"
    by (rule less_le_trans [of _ "2 ^ k"]) (simp_all add: mask_eq_exp_minus_1)
  have ab: "a + 2 ^ k * b < 2 ^ (2 * k)"
    using assms by (simp add: low_digit)
  have "(a + 2 ^ k * b) AND mask k = a"
    using assms by (simp add: take_bit_eq_mask [symmetric] take_bit_eq_mod)
  moreover have "a + 2 ^ k * (b + 2 ^ k * r) = (a + 2 ^ k * b) + 2 ^ (2 * k) * r"
    by (simp only: double_exp) (simp add: algebra_simps)
  ultimately show ?thesis
    using low_high_and [OF ab m, of r M] by (simp only: add.assoc)
qed

lemma undigits_drop:
  "\<forall>d\<in>set ds. d < 2 ^ k \<Longrightarrow> drop_bit k (undigits (2 ^ k) ds) = undigits (2 ^ k) (tl ds)"
  by (cases ds) (auto simp: drop_bit_eq_div)

lemma undigits_evens:
  assumes "\<forall>d\<in>set ds. d < 2 ^ k" "length ds = 2 * n"
  shows "undigits (2 ^ k) ds AND pair_mask k n = undigits (2 ^ (2 * k)) (evens ds)"
  using assms
proof (induction ds arbitrary: n rule: evens.induct)
  case (1 a b ds)
  then obtain n' where n: "n = Suc n'" "length ds = 2 * n'" by (cases n) auto
  have ab: "a < 2 ^ k" "b < 2 ^ k" using 1 by auto
  have "undigits (2 ^ k) (a # b # ds) AND pair_mask k n =
      a + 2 ^ (2 * k) * (undigits (2 ^ k) ds AND pair_mask k n')"
    using pair_step [OF ab] by (simp add: n)
  with 1 n show ?case by simp
qed auto

lemma undigits_odds:
  assumes "\<forall>d\<in>set ds. d < 2 ^ k" "length ds = 2 * n"
  shows "drop_bit k (undigits (2 ^ k) ds) AND pair_mask k n = undigits (2 ^ (2 * k)) (odds ds)"
  using assms
proof (induction ds arbitrary: n rule: odds.induct)
  case (1 a b ds)
  then obtain n' where n: "n = Suc n'" "length ds = 2 * n'" by (cases n) auto
  let ?r = "undigits (2 ^ k) ds"
  have b: "b < 2 ^ k" and c: "?r mod 2 ^ k < 2 ^ k"
    and r: "?r mod 2 ^ k + 2 ^ k * (drop_bit k ?r) = ?r"
    using 1 by (simp_all add: drop_bit_eq_div)
  have d: "drop_bit k (undigits (2 ^ k) (a # b # ds)) = undigits (2 ^ k) (b # ds)"
    using 1 by (subst undigits_drop) auto
  have "drop_bit k (undigits (2 ^ k) (a # b # ds)) AND pair_mask k n =
      b + 2 ^ (2 * k) * (drop_bit k ?r AND pair_mask k n')"
    unfolding d unfolding n pair_mask.simps undigits.simps
    using pair_step [OF b c, of "drop_bit k ?r" "pair_mask k n'"] by (simp only: r)
  also have "\<dots> = b + 2 ^ (2 * k) * undigits (2 ^ (2 * k)) (odds ds)"
    using "1.IH" [of n'] "1.prems" n by simp
  finally show ?case by simp
qed auto

lemma undigits_pair_sums:
  "even (length ds) \<Longrightarrow> undigits B (evens ds) + undigits B (odds ds) = undigits B (pair_sums ds)"
proof (induction ds rule: evens.induct)
  case (1 a b ds)
  then have "B * undigits B (pair_sums ds) = B * undigits B (evens ds) + B * undigits B (odds ds)"
    by (simp flip: distrib_left)
  then show ?case by simp
qed auto

lemma undigits_recompose:
  "even (length ds) \<Longrightarrow> undigits (B * B) (evens ds) + B * undigits (B * B) (odds ds) = undigits B ds"
proof (induction ds rule: evens.induct)
  case (1 a b ds)
  then have "B * (B * undigits B ds) =
      B * (B * (undigits (B * B) (evens ds) + B * undigits (B * B) (odds ds)))"
    by simp
  then show ?case by (simp add: algebra_simps)
qed auto

lemma undigits_next_sums: "undigits B ds + undigits B (tl ds) = undigits B (next_sums ds)"
proof (induction ds rule: next_sums.induct)
  case (1 a b ds)
  then have "B * undigits B (next_sums (b # ds)) = B * (undigits B (b # ds) + undigits B ds)"
    by simp
  then show ?case by (simp only: next_sums.simps undigits.simps list.sel) (simp add: algebra_simps)
qed auto

lemma evens_next_sums: "even (length ds) \<Longrightarrow> evens (next_sums ds) = pair_sums ds"
proof (induction ds rule: pair_sums.induct)
  case (1 a b ds)
  then show ?case by (cases ds) auto
qed auto

lemma length_next_sums: "length (next_sums ds) = length ds"
  by (induction ds rule: next_sums.induct) auto

lemma next_sums_bound: "\<forall>d\<in>set ds. d \<le> m \<Longrightarrow> \<forall>d\<in>set (next_sums ds). d \<le> 2 * m"
  by (induction ds rule: next_sums.induct) auto

lemma undigits_less: "\<forall>d\<in>set ds. d < B \<Longrightarrow> undigits B ds < B ^ length ds"
proof (induction ds)
  case (Cons d ds)
  then have "undigits B ds + 1 \<le> B ^ length ds" "d < B" by auto
  then have "d + B * undigits B ds < B * (undigits B ds + 1)" by simp
  also have "\<dots> \<le> B * B ^ length ds"
    using \<open>undigits B ds + 1 \<le> _\<close> by (rule mult_le_mono2)
  finally show ?case by simp
qed simp

text \<open>The three masks of the code are pair masks.\<close>

lemma pair_mask_numeral:
  "pair_mask k (numeral n) = mask k + 2 ^ (2 * k) * pair_mask k (pred_numeral n)"
  by (simp add: numeral_eq_Suc)

lemma code_masks:
  "pair_mask 1 16 = 0x55555555" "pair_mask 2 8 = 0x33333333" "pair_mask 4 4 = 0x0F0F0F0F"
  by (simp_all add: pair_mask_numeral mask_eq_exp_minus_1)

section \<open>The 32-bit count\<close>

lemma sum_list_of_bool_bits:
  "sum_list (map (\<lambda>i. of_bool (bit (unat w) i)) [0..<LENGTH('a)]) = popcount (w :: 'a::len word)"
proof -
  have "bit (unat w) i = bit w i" if "i < LENGTH('a)" for i
    using that by (simp add: bit_unsigned_iff)
  then show ?thesis
    by (simp add: popcount_def interv_sum_list_conv_sum_set_nat atLeast0LessThan)
qed

text \<open>The stages of the reduction, on words whose digits leave room for the sums.\<close>

lemma len32: "LENGTH(32) = 32"
  by simp

lemma stage_sum:
  fixes w m :: UINT32
  assumes w: "unat w = undigits (2 ^ k) ds" and m: "unat m = pair_mask k n"
    and len: "length ds = 2 * n" "2 * k * n = 32" and lt: "\<forall>d\<in>set ds. d < 2 ^ k"
    and room: "\<forall>d\<in>set (pair_sums ds). d < 2 ^ (2 * k)"
  shows "unat ((w AND m) + (drop_bit k w AND m)) = undigits (2 ^ (2 * k)) (pair_sums ds)"
proof -
  have "unat (w AND m) + unat (drop_bit k w AND m) = undigits (2 ^ (2 * k)) (pair_sums ds)"
    using len by (simp only: unsigned_and_eq unat_drop_bit_eq w m undigits_evens [OF lt len(1)]
        undigits_odds [OF lt len(1)]) (simp add: undigits_pair_sums)
  moreover have "undigits (2 ^ (2 * k)) (pair_sums ds) < (2 ^ (2 * k)) ^ n"
    using undigits_less [OF room] len by (simp add: length_pair_sums)
  ultimately show ?thesis
    using unat_add_lem [of "w AND m" "drop_bit k w AND m"]
    by (simp only: power_mult [symmetric] len(2) len32)
qed

lemma minus_half: "a + 2 * b = w \<Longrightarrow> w - b = a + (b :: UINT32)"
  by (auto simp only: diff_eq_eq mult_2 add.assoc)

lemma stage_sub:
  fixes w m :: UINT32
  assumes w: "unat w = undigits 2 ds" and m: "unat m = pair_mask 1 16"
    and len: "length ds = 32" and lt: "\<forall>d\<in>set ds. d < 2"
  shows "w - (drop_bit 1 w AND m) = (w AND m) + (drop_bit 1 w AND m)"
proof -
  have lt': "\<forall>d\<in>set ds. d < 2 ^ 1" and len': "length ds = 2 * 16" using lt len by auto
  have e: "unat (w AND m) = undigits 4 (evens ds)"
    using undigits_evens [OF lt' len'] by (simp add: unsigned_and_eq w m)
  have o: "unat (drop_bit 1 w AND m) = undigits 4 (odds ds)"
    using undigits_odds [OF lt' len'] by (simp only: unsigned_and_eq unat_drop_bit_eq w m) simp
  have "unat (w AND m) + 2 * unat (drop_bit 1 w AND m) = unat w"
    using undigits_recompose [of ds 2] len by (simp only: e o w) simp
  then have "(of_nat (unat (w AND m) + 2 * unat (drop_bit 1 w AND m)) :: UINT32) = of_nat (unat w)"
    by (rule arg_cong)
  then have "(w AND m) + 2 * (drop_bit 1 w AND m) = w"
    by (simp only: of_nat_add of_nat_mult of_nat_numeral of_nat_unat ucast_id)
  then show ?thesis by (rule minus_half)
qed

lemma stage_mask:
  fixes w m :: UINT32
  assumes w: "unat w = undigits (2 ^ k) ds" and m: "unat m = pair_mask k n"
    and len: "length ds = 2 * n" "2 * k * n = 32"
    and room: "\<forall>d\<in>set ds. 2 * d < 2 ^ k"
  shows "unat ((w + drop_bit k w) AND m) = undigits (2 ^ (2 * k)) (pair_sums ds)"
proof -
  have lt: "\<forall>d\<in>set ds. d < 2 ^ k" using room by fastforce
  have "\<forall>d\<in>set ds. d \<le> (2 ^ k - 1) div 2"
    using room by (auto simp: less_eq_div_iff_mult_less_eq mult.commute)
  note bound = next_sums_bound [OF this]
  have "2 * ((2 ^ k - 1) div 2) < (2 ^ k :: nat)"
    by (rule le_less_trans [of _ "2 ^ k - 1"]) simp_all
  with bound have ns: "\<forall>d\<in>set (next_sums ds). d < 2 ^ k"
    using le_less_trans by blast
  have sum: "unat w + unat (drop_bit k w) = undigits (2 ^ k) (next_sums ds)"
    by (simp only: unat_drop_bit_eq w undigits_drop [OF lt] undigits_next_sums)
  moreover have "undigits (2 ^ k) (next_sums ds) < (2 ^ k) ^ (2 * n)"
    using undigits_less [OF ns] len by (simp add: length_next_sums)
  moreover have "k * (2 * n) = 32" using len(2) by simp
  ultimately have "unat (w + drop_bit k w) = undigits (2 ^ k) (next_sums ds)"
    using unat_add_lem [of w "drop_bit k w"] by (simp only: power_mult [symmetric] len32)
  then show ?thesis
    using len by (simp only: unsigned_and_eq m undigits_evens [OF ns] length_next_sums)
      (simp add: evens_next_sums)
qed

text \<open>The last two steps gather the four byte sums in the low byte.\<close>

lemma gather_bytes:
  fixes w :: UINT32
  assumes w: "unat w = undigits (2 ^ 8) [a, b, c, d]" and le: "a \<le> 8" "b \<le> 8" "c \<le> 8" "d \<le> 8"
  shows "unat (ucast ((w + drop_bit 8 w) + drop_bit 16 (w + drop_bit 8 w)) AND (0x3F :: UINT8)) =
    a + b + c + d"
proof -
  have w': "unat w = a + 2 ^ 8 * (b + 2 ^ 8 * (c + 2 ^ 8 * d))"
    using w by simp
  have "unat (drop_bit 8 w) = b + 2 ^ 8 * (c + 2 ^ 8 * d)"
    using le by (simp only: unat_drop_bit_eq w') (simp add: drop_bit_eq_div)
  then have five: "unat (w + drop_bit 8 w) =
      a + b + 2 ^ 8 * (b + c + 2 ^ 8 * (c + d + 2 ^ 8 * d))"
    using le unat_add_lem [of w "drop_bit 8 w"] by (simp add: w')
  have "unat (drop_bit 16 (w + drop_bit 8 w)) = c + d + 2 ^ 8 * d"
    using le by (simp only: unat_drop_bit_eq five) (simp add: drop_bit_eq_div)
  then have six: "unat ((w + drop_bit 8 w) + drop_bit 16 (w + drop_bit 8 w)) =
      a + b + c + d + 2 ^ 8 * (b + c + d + 2 ^ 8 * (c + d + 2 ^ 8 * d))"
    using le unat_add_lem [of "w + drop_bit 8 w" "drop_bit 16 (w + drop_bit 8 w)"]
    by (simp add: five)
  have "unat ((0x3F :: UINT8)) = mask 6"
    by (simp add: mask_eq_exp_minus_1)
  then have "unat (ucast x AND (0x3F :: UINT8)) = unat (x :: UINT32) mod 2 ^ 8 mod 2 ^ 6" for x
    by (simp only: unsigned_and_eq unsigned_ucast_eq take_bit_eq_mask [symmetric] take_bit_eq_mod)
      (simp add: take_bit_eq_mod)
  moreover have "(s + 2 ^ 8 * r) mod 2 ^ 8 mod 2 ^ 6 = s" if "s \<le> 32" for s r :: nat
    using that by simp
  ultimately show ?thesis
    using le by (simp only: six)
qed

lemma count_stages:
  fixes Count0 :: UINT32
  defines "Count1 \<equiv> Count0 - (drop_bit 1 Count0 AND 0x55555555)"
  defines "Count2 \<equiv> (Count1 AND 0x33333333) + (drop_bit 2 Count1 AND 0x33333333)"
  defines "Count4 \<equiv> (Count2 + drop_bit 4 Count2) AND 0x0F0F0F0F"
  shows "\<exists>ds. length ds = 4 \<and> (\<forall>d\<in>set ds. d \<le> 8) \<and> sum_list ds = popcount Count0 \<and>
    unat Count4 = undigits (2 ^ 8) ds"
proof -
  define ds0 :: "nat list" where "ds0 = map (\<lambda>i. of_bool (bit (unat Count0) i)) [0..<32]"
  define ds1 where "ds1 = pair_sums ds0"
  define ds2 where "ds2 = pair_sums ds1"
  have l: "length ds0 = 32" "length ds1 = 16" "length ds2 = 8"
    by (simp_all add: ds0_def ds1_def ds2_def length_pair_sums)
  have b0: "\<forall>d\<in>set ds0. d \<le> 1" by (auto simp: ds0_def)
  have b1: "\<forall>d\<in>set ds1. d \<le> 2" using pair_sums_bound [OF b0] by (simp add: ds1_def)
  have b2: "\<forall>d\<in>set ds2. d \<le> 4" using pair_sums_bound [OF b1] by (simp add: ds2_def)
  have b3: "\<forall>d\<in>set (pair_sums ds2). d \<le> 8" using pair_sums_bound [OF b2] by simp
  have m: "unat (0x55555555 :: UINT32) = pair_mask 1 16"
    "unat (0x33333333 :: UINT32) = pair_mask 2 8" "unat (0x0F0F0F0F :: UINT32) = pair_mask 4 4"
    by (simp_all only: code_masks) simp_all
  have u0: "unat Count0 = undigits (2 ^ 1) ds0"
    using undigits_bits [of "unat Count0" 32] unat_less_exp [of Count0] by (simp add: ds0_def)
  have c1: "Count1 = (Count0 AND 0x55555555) + (drop_bit 1 Count0 AND 0x55555555)"
    unfolding Count1_def using stage_sub [of Count0 ds0 "0x55555555"] u0 m l b0 by fastforce
  have u1: "unat Count1 = undigits (2 ^ (2 * 1)) ds1"
    unfolding c1 ds1_def using b0 b1
    by (intro stage_sum [OF u0 m(1)]) (auto simp: l ds1_def dest!: bspec)
  then have u1': "unat Count1 = undigits (2 ^ 2) ds1" by simp
  have u2: "unat Count2 = undigits (2 ^ (2 * 2)) ds2"
    unfolding Count2_def ds2_def using b1 b2
    by (intro stage_sum [OF u1' m(2)]) (auto simp: l ds2_def dest!: bspec)
  then have u2': "unat Count2 = undigits (2 ^ 4) ds2" by simp
  have "unat Count4 = undigits (2 ^ (2 * 4)) (pair_sums ds2)"
    unfolding Count4_def using b2
    by (intro stage_mask [OF u2' m(3)]) (auto simp: l dest!: bspec)
  moreover have "sum_list (pair_sums ds2) = popcount Count0"
    using sum_list_of_bool_bits [of Count0]
    by (simp add: sum_list_pair_sums ds2_def ds1_def ds0_def)
  ultimately show ?thesis
    using b3 l by (intro exI [of _ "pair_sums ds2"]) (simp add: length_pair_sums)
qed

lemma popcount_le: "popcount (w :: 'a::len word) \<le> LENGTH('a)"
proof -
  have "popcount w \<le> (\<Sum>n<LENGTH('a). 1)"
    unfolding popcount_def by (rule sum_mono) simp
  then show ?thesis by simp
qed

lemma CountOnes32_popcount:
  assumes "StartBit \<le> EndBit" "unat EndBit < 32"
  shows "BitFieldCountOnes32 env Operand StartBit EndBit =
    Inr (of_nat (popcount (field_get Operand (unat StartBit) (unat EndBit))))"
proof -
  let ?w = "field_get Operand (unat StartBit) (unat EndBit)"
  obtain ds where ds: "length ds = 4" "\<forall>d\<in>set ds. d \<le> 8" "sum_list ds = popcount ?w"
    and u: "unat (((let c1 = ?w - (drop_bit 1 ?w AND 0x55555555);
      c2 = (c1 AND 0x33333333) + (drop_bit 2 c1 AND 0x33333333) in
      (c2 + drop_bit 4 c2)) AND 0x0F0F0F0F)) = undigits (2 ^ 8) ds"
    using count_stages [of ?w] unfolding Let_def by blast
  obtain a b c d where abcd: "ds = [a, b, c, d]"
    using ds(1) by (auto simp: length_Suc_conv numeral_eq_Suc)
  have "of_nat (a + b + c + d) = v" if "unat v = a + b + c + d" for v :: UINT8
    using that by (metis of_nat_unat ucast_id)
  moreover have "EndBit < 32" using assms by (simp add: word_less_nat_alt)
  moreover have "a + b + c + d = popcount ?w" using ds(3) by (simp add: abcd)
  ultimately show ?thesis
    using assms gather_bytes [OF u [unfolded abcd]] ds(2)
    by (simp only: BitFieldCountOnes32_def bf32.rd_get len32 ASSERT_True bindr_Inr Let_def)
      (simp add: abcd)
qed

lemma field_get_whole: "field_get (w :: UINT32) 0 31 = w"
  by (rule bit_word_eqI) (auto simp: bit_field_get)

lemma popcount_halves:
  "popcount (ucast w :: UINT32) + popcount (ucast (drop_bit 32 w) :: UINT32) = popcount (w :: UINT64)"
proof -
  have "popcount w = (\<Sum>n<32. of_bool (bit w n)) + (\<Sum>n<32. of_bool (bit w (n + 32)))"
    using sum.atLeastLessThan_concat [of 0 32 64 "\<lambda>n. of_bool (bit w n) :: nat"]
      sum.shift_bounds_nat_ivl [of "\<lambda>n. of_bool (bit w n) :: nat" 0 32 32]
    by (simp add: popcount_def lessThan_atLeast0)
  moreover have "popcount (ucast w :: UINT32) = (\<Sum>n<32. of_bool (bit w n))"
    by (simp add: popcount_def bit_ucast_iff)
  moreover have "popcount (ucast (drop_bit 32 w) :: UINT32) = (\<Sum>n<32. of_bool (bit w (n + 32)))"
    by (simp add: popcount_def bit_ucast_iff bit_drop_bit_eq add.commute [of 32])
  ultimately show ?thesis by simp
qed

lemma CountOnes64_popcount:
  assumes ok: "shift_lib_ok lib" and range: "StartBit \<le> EndBit" "unat EndBit < 64"
  shows "BitFieldCountOnes64 lib env Operand StartBit EndBit =
    Inr (of_nat (popcount (field_get Operand (unat StartBit) (unat EndBit))))"
proof -
  let ?f = "field_get Operand (unat StartBit) (unat EndBit)"
  have "BitFieldRead64 lib env Operand StartBit EndBit = Inr ?f"
    using bit_field.rd_get [OF bit_field_64 [OF ok]] range by simp
  moreover have "BitFieldCountOnes32 env w 0 31 = Inr (of_nat (popcount w))" for w
    using CountOnes32_popcount [of 0 31 env w] by (simp add: field_get_whole)
  moreover have "RShiftU64 lib ?f 32 = Inr (drop_bit 32 ?f)"
    using lib_shifts(2) [OF ok, of 32] by simp
  moreover have "EndBit < 64" using range by (simp add: word_less_nat_alt)
  ultimately show ?thesis
    using range by (simp only: BitFieldCountOnes64_def ASSERT_True bindr_Inr
        popcount_halves [symmetric] of_nat_add)
qed

section \<open>Properties\<close>

lemma field_get_value:
  "field_get (x :: 'a::len word) s e = of_nat (unat x div 2 ^ s mod 2 ^ (Suc e - s))"
proof -
  have "unat (field_get x s e) = unat x div 2 ^ s mod 2 ^ (Suc e - s)"
    by (simp only: field_get_def unsigned_take_bit_eq unat_drop_bit_eq)
      (simp only: take_bit_eq_mod drop_bit_eq_div)
  then show ?thesis by (metis of_nat_unat ucast_id)
qed

definition shift_lib_ref :: shift_lib where
  "shift_lib_ref = \<lparr>LShiftU64 = shl, RShiftU64 = shr\<rparr>"

lemma shift_lib_ref_ok: "shift_lib_ok shift_lib_ref"
  by (simp add: shift_lib_ok_def shift_lib_ref_def shl_def shr_def)

lemmas unat_widths = word_less_nat_alt [where 'a = 64]

lemma popcount_field:
  "popcount (field_get (x :: 'a::len word) s e) = card {n. s \<le> n \<and> n \<le> e \<and> bit x n}"
proof -
  have "popcount (field_get x s e) = card {n. n < LENGTH('a) \<and> bit (field_get x s e) n}"
    by (simp add: popcount_def lessThan_def sum.If_cases of_bool_def Int_def)
  also have "{n. n < LENGTH('a) \<and> bit (field_get x s e) n} = {n. s + n \<le> e \<and> bit x (s + n)}"
    by (auto simp: bit_field_get dest: bit_imp_le_length)
  also have "card \<dots> = card ((+) s ` {n. s + n \<le> e \<and> bit x (s + n)})"
    by (rule card_image [symmetric]) simp
  also have "(+) s ` {n. s + n \<le> e \<and> bit x (s + n)} = {n. s \<le> n \<and> n \<le> e \<and> bit x n}"
    by (auto simp: image_iff nat_le_iff_add)
  finally show ?thesis .
qed

text \<open>
  Reading a field returns the operand divided by two to the start bit, modulo two to the
  width of the field, at each of the four operand widths and for every legal range.
\<close>

theorem bit_field_read_value:
  assumes "shift_lib_ok lib" "s \<le> e"
  shows "(e < 8 \<longrightarrow> BitFieldRead8 env xb s e =
      Inr (of_nat (unat xb div 2 ^ unat s mod 2 ^ (Suc (unat e) - unat s)))) \<and>
    (e < 16 \<longrightarrow> BitFieldRead16 env xw s e =
      Inr (of_nat (unat xw div 2 ^ unat s mod 2 ^ (Suc (unat e) - unat s)))) \<and>
    (e < 32 \<longrightarrow> BitFieldRead32 env xl s e =
      Inr (of_nat (unat xl div 2 ^ unat s mod 2 ^ (Suc (unat e) - unat s)))) \<and>
    (e < 64 \<longrightarrow> BitFieldRead64 lib env xq s e =
      Inr (of_nat (unat xq div 2 ^ unat s mod 2 ^ (Suc (unat e) - unat s))))"
  using assms(2) bf8.rd_get bf16.rd_get bf32.rd_get
    bit_field.rd_get [OF bit_field_64 [OF assms(1)]]
  by (simp add: field_get_value unat_widths)

theorem bit_field_read_value_witness:
  "BitFieldRead8 debug_env 0xB5 2 5 = Inr 13 \<and> BitFieldRead16 debug_env 0xB500 2 5 = Inr 0 \<and>
   BitFieldRead32 debug_env 0xB5 2 5 = Inr 13 \<and>
   BitFieldRead64 shift_lib_ref debug_env 0xB5 2 5 = Inr 13"
  using bit_field_read_value [OF shift_lib_ref_ok, where s = 2 and e = 5 and env = debug_env and
      xb = "0xB5" and xw = "0xB500" and xl = "0xB5" and xq = "0xB5"]
  by simp

text \<open>
  C7. A value written to a field reads back unchanged, at each width, for every legal range
  and every value that the field can hold.
\<close>

theorem bit_field_write_read:
  assumes "shift_lib_ok lib" "s \<le> e"
  shows "(e < 8 \<and> unat db < 2 ^ (Suc (unat e) - unat s) \<longrightarrow>
      bindr (BitFieldWrite8 env xb s e db) (\<lambda>v. BitFieldRead8 env v s e) = Inr db) \<and>
    (e < 16 \<and> unat dw < 2 ^ (Suc (unat e) - unat s) \<longrightarrow>
      bindr (BitFieldWrite16 env xw s e dw) (\<lambda>v. BitFieldRead16 env v s e) = Inr dw) \<and>
    (e < 32 \<and> unat dl < 2 ^ (Suc (unat e) - unat s) \<longrightarrow>
      bindr (BitFieldWrite32 env xl s e dl) (\<lambda>v. BitFieldRead32 env v s e) = Inr dl) \<and>
    (e < 64 \<and> unat dq < 2 ^ (Suc (unat e) - unat s) \<longrightarrow>
      bindr (BitFieldWrite64 lib env xq s e dq) (\<lambda>v. BitFieldRead64 lib env v s e) = Inr dq)"
  using assms(2) bf8.read_back bf16.read_back bf32.read_back
    bit_field.read_back [OF bit_field_64 [OF assms(1)]]
  by (simp add: field_fits_less unat_widths)

theorem bit_field_write_read_witness:
  "bindr (BitFieldWrite32 debug_env 0xFFFF0000 12 19 0x5A) (\<lambda>v. BitFieldRead32 debug_env v 12 19) =
     Inr 0x5A"
  using bit_field_write_read [OF shift_lib_ref_ok, where s = 12 and e = 19 and env = debug_env and
      dl = "0x5A" and xl = "0xFFFF0000"]
  by simp

text \<open>
  C27. Fields apart, at each width: a write leaves every legal field disjoint from it as it was, and two writes to
  disjoint fields commute.
\<close>

theorem bit_field_write_disjoint:
  assumes "shift_lib_ok lib" "s \<le> e" "s' \<le> e'" "e < s' \<or> e' < s"
  shows "(e < 8 \<and> e' < 8 \<and> unat db < 2 ^ (Suc (unat e) - unat s) \<longrightarrow>
      bindr (BitFieldWrite8 env xb s e db) (\<lambda>v. BitFieldRead8 env v s' e') = BitFieldRead8 env xb s' e' \<and>
      (unat db' < 2 ^ (Suc (unat e') - unat s') \<longrightarrow>
        bindr (BitFieldWrite8 env xb s e db) (\<lambda>v. BitFieldWrite8 env v s' e' db') =
          bindr (BitFieldWrite8 env xb s' e' db') (\<lambda>v. BitFieldWrite8 env v s e db))) \<and>
    (e < 16 \<and> e' < 16 \<and> unat dw < 2 ^ (Suc (unat e) - unat s) \<longrightarrow>
      bindr (BitFieldWrite16 env xw s e dw) (\<lambda>v. BitFieldRead16 env v s' e') = BitFieldRead16 env xw s' e' \<and>
      (unat dw' < 2 ^ (Suc (unat e') - unat s') \<longrightarrow>
        bindr (BitFieldWrite16 env xw s e dw) (\<lambda>v. BitFieldWrite16 env v s' e' dw') =
          bindr (BitFieldWrite16 env xw s' e' dw') (\<lambda>v. BitFieldWrite16 env v s e dw))) \<and>
    (e < 32 \<and> e' < 32 \<and> unat dl < 2 ^ (Suc (unat e) - unat s) \<longrightarrow>
      bindr (BitFieldWrite32 env xl s e dl) (\<lambda>v. BitFieldRead32 env v s' e') = BitFieldRead32 env xl s' e' \<and>
      (unat dl' < 2 ^ (Suc (unat e') - unat s') \<longrightarrow>
        bindr (BitFieldWrite32 env xl s e dl) (\<lambda>v. BitFieldWrite32 env v s' e' dl') =
          bindr (BitFieldWrite32 env xl s' e' dl') (\<lambda>v. BitFieldWrite32 env v s e dl))) \<and>
    (e < 64 \<and> e' < 64 \<and> unat dq < 2 ^ (Suc (unat e) - unat s) \<longrightarrow>
      bindr (BitFieldWrite64 lib env xq s e dq) (\<lambda>v. BitFieldRead64 lib env v s' e') = BitFieldRead64 lib env xq s' e' \<and>
      (unat dq' < 2 ^ (Suc (unat e') - unat s') \<longrightarrow>
        bindr (BitFieldWrite64 lib env xq s e dq) (\<lambda>v. BitFieldWrite64 lib env v s' e' dq') =
          bindr (BitFieldWrite64 lib env xq s' e' dq') (\<lambda>v. BitFieldWrite64 lib env v s e dq)))"
  unfolding width_less
  by (intro conjI bf8.disjoint_writes bf16.disjoint_writes bf32.disjoint_writes
    bit_field.disjoint_writes [OF bit_field_64] assms)

theorem bit_field_write_disjoint_witness:
  "bindr (BitFieldWrite64 shift_lib_ref debug_env 0xFF 0 3 5) (\<lambda>v. BitFieldWrite64 shift_lib_ref debug_env v 40 60 2) =
   bindr (BitFieldWrite64 shift_lib_ref debug_env 0xFF 40 60 2) (\<lambda>v. BitFieldWrite64 shift_lib_ref debug_env v 0 3 5)"
  using bit_field_write_disjoint [OF shift_lib_ref_ok, where s = 0 and e = 3 and s' = 40 and e' = 60 and
      dq = 5 and dq' = 2 and env = debug_env and xq = "0xFF"]
  by simp

text \<open>
  In a build whose assertions stop, a write succeeds exactly on a legal range and a value
  that fits the field, and then it replaces the bits of the range and no other; on everything
  else it stops in an assertion, at each of the four widths.
\<close>

theorem bit_field_write_outcome:
  assumes "shift_lib_ok lib" "asserts_on env"
  shows "BitFieldWrite8 env xb s e db =
      (if s \<le> e \<and> e < 8 \<and> unat db < 2 ^ (Suc (unat e) - unat s)
       then Inr (field_set xb (unat s) (unat e) db) else Inl AssertFailed) \<and>
    BitFieldWrite16 env xw s e dw =
      (if s \<le> e \<and> e < 16 \<and> unat dw < 2 ^ (Suc (unat e) - unat s)
       then Inr (field_set xw (unat s) (unat e) dw) else Inl AssertFailed) \<and>
    BitFieldWrite32 env xl s e dl =
      (if s \<le> e \<and> e < 32 \<and> unat dl < 2 ^ (Suc (unat e) - unat s)
       then Inr (field_set xl (unat s) (unat e) dl) else Inl AssertFailed) \<and>
    BitFieldWrite64 lib env xq s e dq =
      (if s \<le> e \<and> e < 64 \<and> unat dq < 2 ^ (Suc (unat e) - unat s)
       then Inr (field_set xq (unat s) (unat e) dq) else Inl AssertFailed)"
  using bf8.write_succeeds_iff [OF assms(2)] bf16.write_succeeds_iff [OF assms(2)]
    bf32.write_succeeds_iff [OF assms(2)]
    bit_field.write_succeeds_iff [OF bit_field_64 [OF assms(1)] assms(2)]
  by (simp add: field_fits_less unat_widths)

theorem bit_field_write_outcome_witness:
  "BitFieldWrite8 debug_env 0xFF 4 8 0 = Inl AssertFailed \<and>
   BitFieldWrite32 debug_env 0 4 5 4 = Inl AssertFailed"
  using bit_field_write_outcome [OF shift_lib_ref_ok debug_env_asserts, where xb = "0xFF" and s = 4 and e = 8]
    bit_field_write_outcome [OF shift_lib_ref_ok debug_env_asserts, where s = 4 and e = 5 and xl = 0 and dl = 4]
  by simp

text \<open>
  C20. OR, AND and AND-then-OR of a field work bit by bit, at each width: inside the range each bit is
  combined with the bit of the data, outside the range every bit of the operand is kept.
\<close>

theorem bit_field_logic_bits:
  assumes "shift_lib_ok lib" "s \<le> e"
  shows "(e < 8 \<and> unat ab < 2 ^ (Suc (unat e) - unat s) \<and> unat db < 2 ^ (Suc (unat e) - unat s) \<longrightarrow>
      (\<exists>o1 a1 ao. BitFieldOr8 env xb s e db = Inr o1 \<and> BitFieldAnd8 env xb s e ab = Inr a1 \<and>
        BitFieldAndThenOr8 env xb s e ab db = Inr ao \<and> combined (unat s) (unat e) xb ab db o1 a1 ao)) \<and>
    (e < 16 \<and> unat aw < 2 ^ (Suc (unat e) - unat s) \<and> unat dw < 2 ^ (Suc (unat e) - unat s) \<longrightarrow>
      (\<exists>o1 a1 ao. BitFieldOr16 env xw s e dw = Inr o1 \<and> BitFieldAnd16 env xw s e aw = Inr a1 \<and>
        BitFieldAndThenOr16 env xw s e aw dw = Inr ao \<and> combined (unat s) (unat e) xw aw dw o1 a1 ao)) \<and>
    (e < 32 \<and> unat al < 2 ^ (Suc (unat e) - unat s) \<and> unat dl < 2 ^ (Suc (unat e) - unat s) \<longrightarrow>
      (\<exists>o1 a1 ao. BitFieldOr32 env xl s e dl = Inr o1 \<and> BitFieldAnd32 env xl s e al = Inr a1 \<and>
        BitFieldAndThenOr32 env xl s e al dl = Inr ao \<and> combined (unat s) (unat e) xl al dl o1 a1 ao)) \<and>
    (e < 64 \<and> unat aq < 2 ^ (Suc (unat e) - unat s) \<and> unat dq < 2 ^ (Suc (unat e) - unat s) \<longrightarrow>
      (\<exists>o1 a1 ao. BitFieldOr64 lib env xq s e dq = Inr o1 \<and> BitFieldAnd64 lib env xq s e aq = Inr a1 \<and>
        BitFieldAndThenOr64 lib env xq s e aq dq = Inr ao \<and> combined (unat s) (unat e) xq aq dq o1 a1 ao))"
  unfolding width_less
  by (intro conjI bf8.logic_bits bf16.logic_bits bf32.logic_bits bit_field.logic_bits [OF bit_field_64] assms)

theorem bit_field_logic_bits_witness:
  "\<exists>r. BitFieldOr32 debug_env 0xF0 0 3 5 = Inr r \<and> bit r 0"
proof -
  have "bit (5 :: UINT32) 0" by (simp add: bit_0)
  then show ?thesis
    using bit_field_logic_bits [OF shift_lib_ref_ok, where s = 0 and e = 3 and al = 0 and dl = 5 and
        env = debug_env and xl = "0xF0", THEN conjunct2, THEN conjunct2, THEN conjunct1]
    by (fastforce simp: combined_def Let_def)
qed

text \<open>
  C34. The population counts return the number of one bits of the field, although they add
  digits in parallel and mask only the final sum: \<open>BitFieldCountOnes32\<close> and, over its two
  halves, \<open>BitFieldCountOnes64\<close>.
\<close>

theorem bit_field_count_ones:
  assumes "shift_lib_ok lib" "s \<le> e"
  shows "(e < 32 \<longrightarrow> BitFieldCountOnes32 env xl s e =
      Inr (of_nat (card {n. unat s \<le> n \<and> n \<le> unat e \<and> bit xl n}))) \<and>
    (e < 64 \<longrightarrow> BitFieldCountOnes64 lib env xq s e =
      Inr (of_nat (card {n. unat s \<le> n \<and> n \<le> unat e \<and> bit xq n})))"
  using assms CountOnes32_popcount [of s e env xl] CountOnes64_popcount [of lib s e env xq]
  by (simp add: popcount_field unat_widths)

theorem bit_field_count_ones_witness:
  "BitFieldCountOnes32 debug_env 0xFFFFFFFF 4 19 = Inr 16"
proof -
  have all_one: "(0xFFFFFFFF :: UINT32) = mask 32"
    by (simp add: mask_eq_exp_minus_1)
  have "{n. 4 \<le> n \<and> n \<le> 19 \<and> bit (0xFFFFFFFF :: UINT32) n} = {4..19}"
    by (auto simp: all_one bit_mask_iff)
  then show ?thesis
    using bit_field_count_ones [OF shift_lib_ref_ok, where s = 4 and e = 19 and env = debug_env and
        xl = "0xFFFFFFFF"] by simp
qed

end
