(* ===== verification/Check_Sum.thy ===== *)
theory Check_Sum imports Base_Types begin

text \<open>
  The sums and two's complement checksums of \<open>CheckSum.c\<close>, over arrays of 8, 16, 32 and
  64-bit elements in memory. One recursion models the four summing loops, which differ in
  the element type only; the contract of one width is the locale \<open>element_sum\<close>.
\<close>

section \<open>The summing loop\<close>

text \<open>
  \<open>for (Sum' = 0, Count = 0; Count < Total'; Count++) Sum' = Sum' + *(Buffer + Count)\<close>: the
  element type is the type of \<open>Sum'\<close>, pointer arithmetic scales by its size.
\<close>

function sum_loop :: "mem \<Rightarrow> UINTN \<Rightarrow> UINTN \<Rightarrow> 'a::len word \<Rightarrow> UINTN \<Rightarrow> 'a word res" where
  "sum_loop m Buffer Total' Sum' Count =
     (if Count < Total'
      then bindr (load m (Buffer + of_nat (sizeof_word Sum') * Count)) (\<lambda>x.
             sum_loop m Buffer Total' (Sum' + x) (Count + 1))
      else Inr Sum')"
  by pat_completeness auto

termination sum_loop
  by (relation "measure (\<lambda>(m, Buffer, Total', Sum', Count). unat (Total' - Count))")
    (auto simp: count_up)

declare sum_loop.simps [simp del]

section \<open>The operations\<close>

definition CalculateSum8 :: "build_env \<Rightarrow> mem \<Rightarrow> UINTN \<Rightarrow> UINTN \<Rightarrow> UINT8 res" where
  "CalculateSum8 env m Buffer Length =
     ASSERT env (Buffer \<noteq> NULL)
    (ASSERT env (Length \<le> MAX_ADDRESS - Buffer + 1)
      (sum_loop m Buffer Length 0 0))"

definition CalculateCheckSum8 :: "build_env \<Rightarrow> mem \<Rightarrow> UINTN \<Rightarrow> UINTN \<Rightarrow> UINT8 res" where
  "CalculateCheckSum8 env m Buffer Length =
     bindr (CalculateSum8 env m Buffer Length) (\<lambda>CheckSum.
       Inr (ucast (0x100 - (ucast CheckSum :: UINT32))))"

definition CalculateSum16 :: "build_env \<Rightarrow> mem \<Rightarrow> UINTN \<Rightarrow> UINTN \<Rightarrow> UINT16 res" where
  "CalculateSum16 env m Buffer Length =
     ASSERT env (Buffer \<noteq> NULL)
    (ASSERT env (Buffer AND 0x1 = 0)
    (ASSERT env (Length AND 0x1 = 0)
    (ASSERT env (Length \<le> MAX_ADDRESS - Buffer + 1)
      (let Total' = Length div of_nat (sizeof_word (0 :: UINT16)) in
       sum_loop m Buffer Total' 0 0))))"

definition CalculateCheckSum16 :: "build_env \<Rightarrow> mem \<Rightarrow> UINTN \<Rightarrow> UINTN \<Rightarrow> UINT16 res" where
  "CalculateCheckSum16 env m Buffer Length =
     bindr (CalculateSum16 env m Buffer Length) (\<lambda>CheckSum.
       Inr (ucast (0x10000 - (ucast CheckSum :: UINT32))))"

definition CalculateSum32 :: "build_env \<Rightarrow> mem \<Rightarrow> UINTN \<Rightarrow> UINTN \<Rightarrow> UINT32 res" where
  "CalculateSum32 env m Buffer Length =
     ASSERT env (Buffer \<noteq> NULL)
    (ASSERT env (Buffer AND 0x3 = 0)
    (ASSERT env (Length AND 0x3 = 0)
    (ASSERT env (Length \<le> MAX_ADDRESS - Buffer + 1)
      (let Total' = Length div of_nat (sizeof_word (0 :: UINT32)) in
       sum_loop m Buffer Total' 0 0))))"

definition CalculateCheckSum32 :: "build_env \<Rightarrow> mem \<Rightarrow> UINTN \<Rightarrow> UINTN \<Rightarrow> UINT32 res" where
  "CalculateCheckSum32 env m Buffer Length =
     bindr (CalculateSum32 env m Buffer Length) (\<lambda>CheckSum.
       Inr (-1 - CheckSum + 1))"

definition CalculateSum64 :: "build_env \<Rightarrow> mem \<Rightarrow> UINTN \<Rightarrow> UINTN \<Rightarrow> UINT64 res" where
  "CalculateSum64 env m Buffer Length =
     ASSERT env (Buffer \<noteq> NULL)
    (ASSERT env (Buffer AND 0x7 = 0)
    (ASSERT env (Length AND 0x7 = 0)
    (ASSERT env (Length \<le> MAX_ADDRESS - Buffer + 1)
      (let Total' = Length div of_nat (sizeof_word (0 :: UINT64)) in
       sum_loop m Buffer Total' 0 0))))"

definition CalculateCheckSum64 :: "build_env \<Rightarrow> mem \<Rightarrow> UINTN \<Rightarrow> UINTN \<Rightarrow> UINT64 res" where
  "CalculateCheckSum64 env m Buffer Length =
     bindr (CalculateSum64 env m Buffer Length) (\<lambda>CheckSum.
       Inr (-1 - CheckSum + 1))"

section \<open>The loop computes the sum of the array\<close>

lemma sum_loop_step:
  "sum_loop m Buffer Total' Sum' Count =
     (if Count < Total'
      then bindr (load m (Buffer + of_nat (sizeof_word Sum') * Count)) (\<lambda>x.
             sum_loop m Buffer Total' (Sum' + x) (Count + 1))
      else Inr Sum')"
  by (rule sum_loop.simps)

lemma sum_loop_words:
  fixes Sum' :: "'a::len word"
  assumes "words_at m (Buffer + of_nat (sizeof_word Sum') * Count) ws"
    and "unat Total' = unat Count + length ws"
  shows "sum_loop m Buffer Total' Sum' Count = Inr (Sum' + sum_list ws)"
  using assms
proof (induction ws arbitrary: Sum' Count)
  case Nil
  then have "Total' = Count" by (simp add: word_eq_iff_unat)
  then show ?case by (simp add: sum_loop_step)
next
  case (Cons w ws)
  have lt: "Count < Total'" using Cons.prems by (simp add: word_less_nat_alt)
  note unat_Suc_less [OF lt]
  moreover have "words_at m (Buffer + of_nat (sizeof_word (Sum' + w)) * (Count + 1)) ws"
    using Cons.prems(1) by (simp add: algebra_simps sizeof_word_def)
  ultimately have "sum_loop m Buffer Total' (Sum' + w) (Count + 1) = Inr (Sum' + w + sum_list ws)"
    using Cons.prems(2) by (intro Cons.IH) auto
  then show ?case
    using Cons.prems(1) lt by (subst sum_loop_step) (simp add: add.assoc)
qed

lemma unat_sum_list:
  "unat (sum_list ws :: 'a::len word) = sum_list (map unat ws) mod 2 ^ LENGTH('a)"
  by (induction ws) (simp_all add: unat_word_ariths mod_simps)

section \<open>The contract of one width\<close>

locale element_sum =
  fixes env :: build_env
    and add_up :: "mem \<Rightarrow> UINTN \<Rightarrow> UINTN \<Rightarrow> 'a::len word res"
    and checksum :: "mem \<Rightarrow> UINTN \<Rightarrow> UINTN \<Rightarrow> 'a word res"
    and legal :: "UINTN \<Rightarrow> UINTN \<Rightarrow> bool"
  assumes sum_words: "legal a n \<Longrightarrow> words_at m a ws \<Longrightarrow>
      unat n = sizeof_word (0 :: 'a word) * length ws \<Longrightarrow> add_up m a n = Inr (sum_list ws)"
    and checksum_neg: "checksum m a n = map_res uminus (add_up m a n)"
    and legal_prefix: "legal a n \<Longrightarrow> unat n' = sizeof_word (0 :: 'a word) * k \<Longrightarrow>
      unat n' \<le> unat n \<Longrightarrow> legal a n'"
    and illegal_stops: "asserts_on env \<Longrightarrow> \<not> legal a n \<Longrightarrow> add_up m a n = Inl AssertFailed"
begin

lemma checksum_words:
  "legal a n \<Longrightarrow> words_at m a ws \<Longrightarrow> unat n = sizeof_word (0 :: 'a word) * length ws \<Longrightarrow>
   checksum m a n = Inr (- sum_list ws)"
  by (simp add: checksum_neg sum_words)

text \<open>An array that ends with the checksum of the elements before it sums to zero.\<close>

lemma sealed_sum:
  fixes ws :: "'a word list"
  assumes "legal a n" "words_at m a (ws @ [c])"
    and "unat n = sizeof_word (0 :: 'a word) * length (ws @ [c])"
  shows "add_up m a n = Inr 0 \<longleftrightarrow> c = - sum_list ws"
proof -
  have "sum_list ws + c = 0 \<longleftrightarrow> c = - sum_list ws"
    by (metis add_eq_0_iff)
  then show ?thesis using sum_words [OF assms] by simp
qed

lemma sealed_by_checksum:
  fixes ws :: "'a word list"
  assumes "legal a n" "words_at m a (ws @ [c])"
    and n: "unat n = sizeof_word (0 :: 'a word) * length (ws @ [c])"
  shows "add_up m a n = Inr 0 \<longleftrightarrow>
    checksum m a (n - of_nat (sizeof_word (0 :: 'a word))) = Inr c"
proof -
  let ?k = "sizeof_word (0 :: 'a word)"
  have k: "?k \<le> unat n" using n by simp
  then have "?k < 2 ^ 64" using unat_less_exp [of n] by simp
  then have u: "unat (of_nat ?k :: UINTN) = ?k" by (simp add: unat_of_nat)
  then have "of_nat ?k \<le> n" using k by (simp only: word_le_nat_alt)
  then have "unat (n - of_nat ?k) = unat n - ?k"
    by (rule unat_sub [THEN trans]) (rule arg_cong [OF u])
  also have "\<dots> = ?k * length ws"
    unfolding n by simp
  finally have short: "unat (n - of_nat ?k) = ?k * length ws" .
  have "unat (n - of_nat ?k) \<le> unat n" unfolding short n by simp
  then have "legal a (n - of_nat ?k)" by (rule legal_prefix [OF assms(1) short])
  then have "checksum m a (n - of_nat ?k) = Inr (- sum_list ws)"
    using assms(2) short by (simp add: checksum_words words_at_append)
  with sealed_sum [OF assms] show ?thesis by auto
qed

text \<open>Replacing one element by a different one changes the sum.\<close>

lemma changed_element:
  fixes ws :: "'a word list"
  assumes "legal a n" "words_at m a ws" "unat n = sizeof_word (0 :: 'a word) * length ws"
    and "words_at m' a (ws[i := x])" "i < length ws" "x \<noteq> ws ! i"
  shows "add_up m' a n \<noteq> add_up m a n"
proof -
  have "sum_list (ws[i := x]) \<noteq> sum_list ws"
    using assms(5,6) by (simp add: sum_list_update_diff)
  then show ?thesis using assms sum_words [of a n m ws] sum_words [of a n m' "ws[i := x]"] by simp
qed

lemma illegal_checksum: "asserts_on env \<Longrightarrow> \<not> legal a n \<Longrightarrow> checksum m a n = Inl AssertFailed"
  by (simp add: checksum_neg illegal_stops)

end

definition legal_buffer :: "UINTN \<Rightarrow> UINTN \<Rightarrow> UINTN \<Rightarrow> bool" where
  "legal_buffer mask_bits Buffer Length \<longleftrightarrow>
     Buffer \<noteq> NULL \<and> Buffer AND mask_bits = 0 \<and> Length AND mask_bits = 0 \<and>
     Length \<le> MAX_ADDRESS - Buffer + 1"

lemmas sum_defs = CalculateSum8_def CalculateSum16_def CalculateSum32_def CalculateSum64_def
lemmas checksum_defs = CalculateCheckSum8_def CalculateCheckSum16_def CalculateCheckSum32_def
  CalculateCheckSum64_def

lemma total_elements:
  "0 < s \<Longrightarrow> s < 2 ^ 64 \<Longrightarrow> unat (n :: UINTN) = s * k \<Longrightarrow> unat (n div of_nat s) = k"
  by (simp add: unat_div unat_of_nat)

lemma neg_through_int:
  "ucast (0x100 - (ucast (s :: UINT8) :: UINT32)) = - s"
  "ucast (0x10000 - (ucast (t :: UINT16) :: UINT32)) = - t"
  by (simp_all add: word_uint_eq_iff uint_word_ariths unsigned_ucast_eq take_bit_eq_mod mod_simps
      mod_mod_cancel minus_mod_self1)

lemma aligned_dvd: "(x :: UINTN) AND mask j = 0 \<longleftrightarrow> 2 ^ j dvd unat x"
proof -
  have "x AND mask j = 0 \<longleftrightarrow> unat (take_bit j x) = 0"
    by (simp only: take_bit_eq_mask word_eq_iff_unat unsigned_0)
  also have "unat (take_bit j x) = unat x mod 2 ^ j"
    by (simp only: unsigned_take_bit_eq) (simp only: take_bit_eq_mod)
  finally show ?thesis by (simp only: mod_eq_0_iff_dvd)
qed

lemma legal_prefix:
  assumes "legal_buffer (mask j) a n" "unat n' = 2 ^ j * k" "unat n' \<le> unat n"
  shows "legal_buffer (mask j) a n'"
  using assms by (auto simp: legal_buffer_def aligned_dvd word_le_nat_alt)

lemma small_masks: "mask 0 = (0 :: UINTN)" "mask 1 = (1 :: UINTN)" "mask 2 = (3 :: UINTN)"
    "mask 3 = (7 :: UINTN)"
  by (simp_all add: mask_eq_exp_minus_1)

lemma legal_words:
  "legal_buffer 0 a n \<Longrightarrow> unat n' = sizeof_word (0 :: UINT8) * k \<Longrightarrow> unat n' \<le> unat n \<Longrightarrow>
     legal_buffer 0 a n'"
  "legal_buffer 1 a n \<Longrightarrow> unat n' = sizeof_word (0 :: UINT16) * k \<Longrightarrow> unat n' \<le> unat n \<Longrightarrow>
     legal_buffer 1 a n'"
  "legal_buffer 3 a n \<Longrightarrow> unat n' = sizeof_word (0 :: UINT32) * k \<Longrightarrow> unat n' \<le> unat n \<Longrightarrow>
     legal_buffer 3 a n'"
  "legal_buffer 7 a n \<Longrightarrow> unat n' = sizeof_word (0 :: UINT64) * k \<Longrightarrow> unat n' \<le> unat n \<Longrightarrow>
     legal_buffer 7 a n'"
  using legal_prefix [of 0 a n n' k] legal_prefix [of 1 a n n' k] legal_prefix [of 2 a n n' k]
    legal_prefix [of 3 a n n' k] small_masks
  by (simp_all add: sizeof_word_def)

interpretation s8: element_sum env "CalculateSum8 env" "CalculateCheckSum8 env" "legal_buffer 0"
  for env
  by (unfold_locales; (erule (2) legal_words)?)
    (auto simp: sizeof_word_def legal_buffer_def sum_defs checksum_defs sum_loop_words map_res_def
      neg_through_int ASSERT_False)

interpretation s16: element_sum env "CalculateSum16 env" "CalculateCheckSum16 env" "legal_buffer 1"
  for env
  by (unfold_locales; (erule (2) legal_words)?)
    (auto simp: sizeof_word_def legal_buffer_def sum_defs checksum_defs sum_loop_words map_res_def
      neg_through_int ASSERT_False total_elements [of 2, simplified] Let_def)

interpretation s32: element_sum env "CalculateSum32 env" "CalculateCheckSum32 env" "legal_buffer 3"
  for env
  by (unfold_locales; (erule (2) legal_words)?)
    (auto simp: sizeof_word_def legal_buffer_def sum_defs checksum_defs sum_loop_words map_res_def
      ASSERT_False total_elements [of 4, simplified] Let_def)

interpretation s64: element_sum env "CalculateSum64 env" "CalculateCheckSum64 env" "legal_buffer 7"
  for env
  by (unfold_locales; (erule (2) legal_words)?)
    (auto simp: sizeof_word_def legal_buffer_def sum_defs checksum_defs sum_loop_words map_res_def
      ASSERT_False total_elements [of 8, simplified] Let_def)

section \<open>Properties\<close>

lemma sum_list_of_nat: "sum_list ws = of_nat (sum_list (map unat ws))" for ws :: "'a::len word list"
  by (induction ws) simp_all

text \<open>
  C18. On a legal buffer each of the four sums is the arithmetic sum of the elements modulo
  two to the element width, and each checksum is its two's complement.
\<close>

theorem calculate_sum_value:
  fixes bs :: "UINT8 list" and ws :: "UINT16 list" and ls :: "UINT32 list" and qs :: "UINT64 list"
  shows "(legal_buffer 0 a n \<and> words_at m a bs \<and> unat n = length bs \<longrightarrow>
      CalculateSum8 env m a n = Inr (of_nat (sum_list (map unat bs))) \<and>
      CalculateCheckSum8 env m a n = Inr (- of_nat (sum_list (map unat bs)))) \<and>
   (legal_buffer 1 a n \<and> words_at m a ws \<and> unat n = 2 * length ws \<longrightarrow>
      CalculateSum16 env m a n = Inr (of_nat (sum_list (map unat ws))) \<and>
      CalculateCheckSum16 env m a n = Inr (- of_nat (sum_list (map unat ws)))) \<and>
   (legal_buffer 3 a n \<and> words_at m a ls \<and> unat n = 4 * length ls \<longrightarrow>
      CalculateSum32 env m a n = Inr (of_nat (sum_list (map unat ls))) \<and>
      CalculateCheckSum32 env m a n = Inr (- of_nat (sum_list (map unat ls)))) \<and>
   (legal_buffer 7 a n \<and> words_at m a qs \<and> unat n = 8 * length qs \<longrightarrow>
      CalculateSum64 env m a n = Inr (of_nat (sum_list (map unat qs))) \<and>
      CalculateCheckSum64 env m a n = Inr (- of_nat (sum_list (map unat qs))))"
  using s8.sum_words [of a n m bs env] s8.checksum_words [of a n m bs env]
    s16.sum_words [of a n m ws env] s16.checksum_words [of a n m ws env]
    s32.sum_words [of a n m ls env] s32.checksum_words [of a n m ls env]
    s64.sum_words [of a n m qs env] s64.checksum_words [of a n m qs env]
  by (simp add: sizeof_word_def flip: sum_list_of_nat)

theorem calculate_sum_value_witness:
  "CalculateSum8 debug_env (sample_mem 0x1000 [0xF0, 0x20, 0x03]) 0x1000 3 = Inr 0x13"
proof -
  have "words_at (sample_mem 0x1000 [0xF0, 0x20, 0x03]) 0x1000 [0xF0, 0x20, 0x03 :: UINT8]"
    by (simp only: words_at_UINT8) (simp add: sample_mem_bytes del: bytes_at.simps)
  then show ?thesis
    using calculate_sum_value [where a = "0x1000" and n = 3 and env = debug_env and
        m = "sample_mem 0x1000 [0xF0, 0x20, 0x03]" and bs = "[0xF0, 0x20, 0x03]"]
    by (simp add: legal_buffer_def NULL_def MAX_ADDRESS_def del: words_at.simps)
qed

text \<open>
  A buffer sums to zero exactly when its last element is the checksum that the library
  computes over the elements before it, at each of the four widths: this is how a table is
  sealed with \<open>CalculateCheckSum\<close> and verified with \<open>CalculateSum\<close>.
\<close>

theorem checksum_seals_buffer:
  "(legal_buffer 0 a n \<and> words_at m a (bs @ [b]) \<and> unat n = length bs + 1 \<longrightarrow>
      (CalculateSum8 env m a n = Inr 0 \<longleftrightarrow> CalculateCheckSum8 env m a (n - 1) = Inr b)) \<and>
   (legal_buffer 1 a n \<and> words_at m a (ws @ [w]) \<and> unat n = 2 * (length ws + 1) \<longrightarrow>
      (CalculateSum16 env m a n = Inr 0 \<longleftrightarrow> CalculateCheckSum16 env m a (n - 2) = Inr w)) \<and>
   (legal_buffer 3 a n \<and> words_at m a (ls @ [l]) \<and> unat n = 4 * (length ls + 1) \<longrightarrow>
      (CalculateSum32 env m a n = Inr 0 \<longleftrightarrow> CalculateCheckSum32 env m a (n - 4) = Inr l)) \<and>
   (legal_buffer 7 a n \<and> words_at m a (qs @ [q]) \<and> unat n = 8 * (length qs + 1) \<longrightarrow>
      (CalculateSum64 env m a n = Inr 0 \<longleftrightarrow> CalculateCheckSum64 env m a (n - 8) = Inr q))"
  using s8.sealed_by_checksum [of a n m bs b env] s16.sealed_by_checksum [of a n m ws w env]
    s32.sealed_by_checksum [of a n m ls l env] s64.sealed_by_checksum [of a n m qs q env]
  by (simp add: sizeof_word_def)

theorem checksum_seals_buffer_witness:
  "CalculateSum8 debug_env (sample_mem 0x1000 [0xF0, 0x20, 0xF0]) 0x1000 3 = Inr 0 \<longleftrightarrow>
   CalculateCheckSum8 debug_env (sample_mem 0x1000 [0xF0, 0x20, 0xF0]) 0x1000 2 = Inr 0xF0"
proof -
  have "words_at (sample_mem 0x1000 [0xF0, 0x20, 0xF0]) 0x1000 ([0xF0, 0x20] @ [0xF0 :: UINT8])"
    by (simp only: words_at_UINT8) (simp add: sample_mem_bytes del: bytes_at.simps)
  then show ?thesis
    using checksum_seals_buffer [where a = "0x1000" and n = 3 and env = debug_env and
        m = "sample_mem 0x1000 [0xF0, 0x20, 0xF0]" and bs = "[0xF0, 0x20]" and b = "0xF0"]
    by (simp add: legal_buffer_def NULL_def MAX_ADDRESS_def del: words_at.simps)
qed

text \<open>
  In a build whose assertions stop, every sum and every checksum stops in an assertion
  when the buffer is NULL, is misaligned for the element, has a size that is not a multiple
  of the element size, or runs past the end of the address space.
\<close>

theorem calculate_sum_illegal:
  assumes "asserts_on env"
  shows "(\<not> legal_buffer 0 a n \<longrightarrow> CalculateSum8 env m a n = Inl AssertFailed \<and>
      CalculateCheckSum8 env m a n = Inl AssertFailed) \<and>
    (\<not> legal_buffer 1 a n \<longrightarrow> CalculateSum16 env m a n = Inl AssertFailed \<and>
      CalculateCheckSum16 env m a n = Inl AssertFailed) \<and>
    (\<not> legal_buffer 3 a n \<longrightarrow> CalculateSum32 env m a n = Inl AssertFailed \<and>
      CalculateCheckSum32 env m a n = Inl AssertFailed) \<and>
    (\<not> legal_buffer 7 a n \<longrightarrow> CalculateSum64 env m a n = Inl AssertFailed \<and>
      CalculateCheckSum64 env m a n = Inl AssertFailed)"
  using assms s8.illegal_stops s8.illegal_checksum s16.illegal_stops s16.illegal_checksum
    s32.illegal_stops s32.illegal_checksum s64.illegal_stops s64.illegal_checksum
  by simp

theorem calculate_sum_illegal_witness:
  "CalculateSum16 debug_env (sample_mem 0x1001 [1, 2, 3, 4]) 0x1001 4 = Inl AssertFailed"
  using calculate_sum_illegal [OF debug_env_asserts, of "0x1001" 4 "sample_mem 0x1001 [1, 2, 3, 4]"]
  by (simp add: legal_buffer_def)

end
