(* ===== verification/Crc_32.thy ===== *)
theory Crc_32 imports Base_Types begin

text \<open>
  The table-driven 32-bit CRC of \<open>CheckSum.c\<close>. The reference is the shift register that
  works one bit at a time with the reflected polynomial 0xEDB88320; the table is shown to be
  eight of its steps, the loop of \<open>CalculateCrc32\<close> to be the register over the buffer.
\<close>

section \<open>The table\<close>

definition mCrcTable_low :: "UINT32 list" where
  "mCrcTable_low =
    [0x00000000, 0x77073096, 0xEE0E612C, 0x990951BA, 0x076DC419, 0x706AF48F, 0xE963A535, 0x9E6495A3,
     0x0EDB8832, 0x79DCB8A4, 0xE0D5E91E, 0x97D2D988, 0x09B64C2B, 0x7EB17CBD, 0xE7B82D07, 0x90BF1D91,
     0x1DB71064, 0x6AB020F2, 0xF3B97148, 0x84BE41DE, 0x1ADAD47D, 0x6DDDE4EB, 0xF4D4B551, 0x83D385C7,
     0x136C9856, 0x646BA8C0, 0xFD62F97A, 0x8A65C9EC, 0x14015C4F, 0x63066CD9, 0xFA0F3D63, 0x8D080DF5,
     0x3B6E20C8, 0x4C69105E, 0xD56041E4, 0xA2677172, 0x3C03E4D1, 0x4B04D447, 0xD20D85FD, 0xA50AB56B,
     0x35B5A8FA, 0x42B2986C, 0xDBBBC9D6, 0xACBCF940, 0x32D86CE3, 0x45DF5C75, 0xDCD60DCF, 0xABD13D59,
     0x26D930AC, 0x51DE003A, 0xC8D75180, 0xBFD06116, 0x21B4F4B5, 0x56B3C423, 0xCFBA9599, 0xB8BDA50F,
     0x2802B89E, 0x5F058808, 0xC60CD9B2, 0xB10BE924, 0x2F6F7C87, 0x58684C11, 0xC1611DAB, 0xB6662D3D,
     0x76DC4190, 0x01DB7106, 0x98D220BC, 0xEFD5102A, 0x71B18589, 0x06B6B51F, 0x9FBFE4A5, 0xE8B8D433,
     0x7807C9A2, 0x0F00F934, 0x9609A88E, 0xE10E9818, 0x7F6A0DBB, 0x086D3D2D, 0x91646C97, 0xE6635C01,
     0x6B6B51F4, 0x1C6C6162, 0x856530D8, 0xF262004E, 0x6C0695ED, 0x1B01A57B, 0x8208F4C1, 0xF50FC457,
     0x65B0D9C6, 0x12B7E950, 0x8BBEB8EA, 0xFCB9887C, 0x62DD1DDF, 0x15DA2D49, 0x8CD37CF3, 0xFBD44C65,
     0x4DB26158, 0x3AB551CE, 0xA3BC0074, 0xD4BB30E2, 0x4ADFA541, 0x3DD895D7, 0xA4D1C46D, 0xD3D6F4FB,
     0x4369E96A, 0x346ED9FC, 0xAD678846, 0xDA60B8D0, 0x44042D73, 0x33031DE5, 0xAA0A4C5F, 0xDD0D7CC9,
     0x5005713C, 0x270241AA, 0xBE0B1010, 0xC90C2086, 0x5768B525, 0x206F85B3, 0xB966D409, 0xCE61E49F,
     0x5EDEF90E, 0x29D9C998, 0xB0D09822, 0xC7D7A8B4, 0x59B33D17, 0x2EB40D81, 0xB7BD5C3B, 0xC0BA6CAD]"

definition mCrcTable_high :: "UINT32 list" where
  "mCrcTable_high =
    [0xEDB88320, 0x9ABFB3B6, 0x03B6E20C, 0x74B1D29A, 0xEAD54739, 0x9DD277AF, 0x04DB2615, 0x73DC1683,
     0xE3630B12, 0x94643B84, 0x0D6D6A3E, 0x7A6A5AA8, 0xE40ECF0B, 0x9309FF9D, 0x0A00AE27, 0x7D079EB1,
     0xF00F9344, 0x8708A3D2, 0x1E01F268, 0x6906C2FE, 0xF762575D, 0x806567CB, 0x196C3671, 0x6E6B06E7,
     0xFED41B76, 0x89D32BE0, 0x10DA7A5A, 0x67DD4ACC, 0xF9B9DF6F, 0x8EBEEFF9, 0x17B7BE43, 0x60B08ED5,
     0xD6D6A3E8, 0xA1D1937E, 0x38D8C2C4, 0x4FDFF252, 0xD1BB67F1, 0xA6BC5767, 0x3FB506DD, 0x48B2364B,
     0xD80D2BDA, 0xAF0A1B4C, 0x36034AF6, 0x41047A60, 0xDF60EFC3, 0xA867DF55, 0x316E8EEF, 0x4669BE79,
     0xCB61B38C, 0xBC66831A, 0x256FD2A0, 0x5268E236, 0xCC0C7795, 0xBB0B4703, 0x220216B9, 0x5505262F,
     0xC5BA3BBE, 0xB2BD0B28, 0x2BB45A92, 0x5CB36A04, 0xC2D7FFA7, 0xB5D0CF31, 0x2CD99E8B, 0x5BDEAE1D,
     0x9B64C2B0, 0xEC63F226, 0x756AA39C, 0x026D930A, 0x9C0906A9, 0xEB0E363F, 0x72076785, 0x05005713,
     0x95BF4A82, 0xE2B87A14, 0x7BB12BAE, 0x0CB61B38, 0x92D28E9B, 0xE5D5BE0D, 0x7CDCEFB7, 0x0BDBDF21,
     0x86D3D2D4, 0xF1D4E242, 0x68DDB3F8, 0x1FDA836E, 0x81BE16CD, 0xF6B9265B, 0x6FB077E1, 0x18B74777,
     0x88085AE6, 0xFF0F6A70, 0x66063BCA, 0x11010B5C, 0x8F659EFF, 0xF862AE69, 0x616BFFD3, 0x166CCF45,
     0xA00AE278, 0xD70DD2EE, 0x4E048354, 0x3903B3C2, 0xA7672661, 0xD06016F7, 0x4969474D, 0x3E6E77DB,
     0xAED16A4A, 0xD9D65ADC, 0x40DF0B66, 0x37D83BF0, 0xA9BCAE53, 0xDEBB9EC5, 0x47B2CF7F, 0x30B5FFE9,
     0xBDBDF21C, 0xCABAC28A, 0x53B39330, 0x24B4A3A6, 0xBAD03605, 0xCDD70693, 0x54DE5729, 0x23D967BF,
     0xB3667A2E, 0xC4614AB8, 0x5D681B02, 0x2A6F2B94, 0xB40BBE37, 0xC30C8EA1, 0x5A05DF1B, 0x2D02EF8D]"

definition mCrcTable :: "UINT32 list" where
  "mCrcTable = mCrcTable_low @ mCrcTable_high"

section \<open>CalculateCrc32\<close>

text \<open>\<open>for (Index = 0, Ptr = Buffer; Index < Length; Index++, Ptr++)\<close>\<close>

function crc_loop :: "mem \<Rightarrow> UINTN \<Rightarrow> UINTN \<Rightarrow> UINTN \<Rightarrow> UINT32 \<Rightarrow> UINT32 res" where
  "crc_loop m Length Index Ptr Crc =
     (if Index < Length
      then bindr (load_byte m Ptr) (\<lambda>b.
             crc_loop m Length (Index + 1) (Ptr + 1)
               (drop_bit 8 Crc XOR mCrcTable ! unat ((ucast Crc :: UINT8) XOR b)))
      else Inr Crc)"
  by pat_completeness auto
termination crc_loop
  by (relation "measure (\<lambda>(m, Length, Index, Ptr, Crc). unat (Length - Index))")
    (auto simp: count_up)

declare crc_loop.simps [simp del]

definition CalculateCrc32 :: "build_env \<Rightarrow> mem \<Rightarrow> UINTN \<Rightarrow> UINTN \<Rightarrow> UINT32 res" where
  "CalculateCrc32 env m Buffer Length =
     ASSERT env (Buffer \<noteq> NULL)
    (ASSERT env (Length \<le> MAX_ADDRESS - Buffer + 1)
      (bindr (crc_loop m Length 0 Buffer 0xffffffff) (\<lambda>Crc. Inr (Crc XOR 0xffffffff))))"

section \<open>The bit-serial register\<close>

definition crc_bit :: "UINT32 \<Rightarrow> UINT32" where
  "crc_bit c = (if bit c 0 then drop_bit 1 c XOR 0xEDB88320 else drop_bit 1 c)"

definition crc_byte :: "UINT32 \<Rightarrow> UINT8 \<Rightarrow> UINT32" where
  "crc_byte c b = (crc_bit ^^ 8) (c XOR ucast b)"

definition crc32_ref :: "UINT8 list \<Rightarrow> UINT32" where
  "crc32_ref bs = foldl crc_byte 0xffffffff bs XOR 0xffffffff"

section \<open>The table is eight steps of the register\<close>

lemma crc_bit_numeral:
  "(numeral (Num.Bit0 n) :: nat) < 2 ^ 32 \<Longrightarrow> crc_bit (numeral (Num.Bit0 n)) = numeral n"
  "(numeral (Num.Bit1 n) :: nat) < 2 ^ 32 \<Longrightarrow> crc_bit (numeral (Num.Bit1 n)) = numeral n XOR 0xEDB88320"
  "crc_bit 0 = 0" "crc_bit 1 = 0xEDB88320"
proof -
  have d: "drop_bit 1 (of_nat k :: UINT32) = of_nat (k div 2)" if "k < 2 ^ 32" for k
    using that by (simp add: word_eq_iff_unat unat_drop_bit_eq unat_of_nat unat_div drop_bit_eq_div)
  show "(numeral (Num.Bit0 n) :: nat) < 2 ^ 32 \<Longrightarrow> crc_bit (numeral (Num.Bit0 n)) = numeral n"
    using d [of "numeral (Num.Bit0 n)"] by (simp add: crc_bit_def bit_0)
  show "(numeral (Num.Bit1 n) :: nat) < 2 ^ 32 \<Longrightarrow> crc_bit (numeral (Num.Bit1 n)) = numeral n XOR 0xEDB88320"
    using d [of "numeral (Num.Bit1 n)"] by (simp add: crc_bit_def bit_0)
qed (simp_all add: crc_bit_def bit_0)

lemma eight: "(f ^^ 8) x = f (f (f (f (f (f (f (f x)))))))"
  by (simp add: eval_nat_numeral)

lemma low_table: "map (\<lambda>i. (crc_bit ^^ 8) (of_nat i)) [0..<128] = mCrcTable_low"
  by (simp add: eight crc_bit_numeral mCrcTable_low_def upt_conv_Cons)

lemma high_table: "map (\<lambda>i. (crc_bit ^^ 8) (of_nat i)) [128..<256] = mCrcTable_high"
  by (simp add: eight crc_bit_numeral mCrcTable_high_def upt_conv_Cons)

lemma table_nth: "i < 256 \<Longrightarrow> mCrcTable ! i = (crc_bit ^^ 8) (of_nat i)"
proof -
  have "mCrcTable = map (\<lambda>i. (crc_bit ^^ 8) (of_nat i)) [0..<256]"
    unfolding mCrcTable_def low_table [symmetric] high_table [symmetric] map_append [symmetric]
    by (rule arg_cong) (simp flip: upt_add_eq_append [of 0 128 128, simplified])
  then have "mCrcTable ! i = map (\<lambda>i. (crc_bit ^^ 8) (of_nat i)) [0..<256] ! i"
    by (simp only:)
  moreover assume "i < 256"
  ultimately show ?thesis
    using nth_map [of i "[0..<256]" "\<lambda>i. (crc_bit ^^ 8) (of_nat i)"] by (simp del: upt_rec_numeral)
qed

section \<open>Algebra of the register\<close>

lemma crc_bit_xor: "crc_bit (x XOR y) = crc_bit x XOR crc_bit y"
  by (cases "bit x 0"; cases "bit y 0")
    (simp_all add: crc_bit_def bit_xor_iff ac_simps)

lemma crc_bits_xor: "(crc_bit ^^ n) (x XOR y) = (crc_bit ^^ n) x XOR (crc_bit ^^ n) y"
  by (induction n) (simp_all add: crc_bit_xor)

lemma crc_bit_kernel: "crc_bit z = 0 \<Longrightarrow> z = 0"
proof (cases "bit z 0")
  case True
  have "\<not> bit (drop_bit 1 z) 31" using bit_imp_le_length [of z 32] by (auto simp: bit_drop_bit_eq)
  moreover have "bit (0xEDB88320 :: UINT32) 31" by code_simp
  ultimately have "bit (crc_bit z) 31"
    using True by (simp only: crc_bit_def if_True bit_xor_iff) simp
  moreover assume "crc_bit z = 0"
  ultimately show ?thesis by simp
next
  case False
  assume "crc_bit z = 0"
  with False have d: "drop_bit 1 z = 0" by (simp add: crc_bit_def)
  show "z = 0"
  proof (rule bit_word_eqI)
    fix n
    show "bit z n = bit 0 n"
      using False arg_cong [OF d, of "\<lambda>w. bit w (n - 1)"] by (cases n) (auto simp: bit_drop_bit_eq)
  qed
qed

lemma crc_bits_inj: "(crc_bit ^^ n) x = (crc_bit ^^ n) y \<longleftrightarrow> x = y"
proof
  have zero: "(crc_bit ^^ n) z = 0 \<Longrightarrow> z = 0" for z
    by (induction n) (auto dest: crc_bit_kernel)
  assume "(crc_bit ^^ n) x = (crc_bit ^^ n) y"
  then have "(crc_bit ^^ n) (x XOR y) = 0" by (simp add: crc_bits_xor)
  then have "x XOR y = 0" by (rule zero)
  then have "x XOR (x XOR y) = x XOR 0" by (rule arg_cong)
  then show "x = y" by (simp flip: xor.assoc)
qed simp

lemma crc_bits_push:
  "n \<le> 32 \<Longrightarrow> take_bit (32 - n) x = x \<Longrightarrow> (crc_bit ^^ n) (push_bit n x) = x"
proof (induction n)
  case (Suc n)
  have lo: "bit x k \<Longrightarrow> k < 32 - Suc n" for k
    using Suc.prems(2) by (metis bit_take_bit_iff)
  have "crc_bit (push_bit (Suc n) x) = push_bit n x"
  proof -
    have "drop_bit 1 (push_bit (Suc n) x) = push_bit n x"
      by (rule bit_word_eqI) (auto simp: bit_push_bit_iff bit_drop_bit_eq dest: lo
          simp del: push_bit_Suc)
    moreover have "\<not> bit (push_bit (Suc n) x) 0"
      by (simp add: bit_push_bit_iff del: push_bit_Suc)
    ultimately show ?thesis by (simp only: crc_bit_def if_False)
  qed
  moreover have "take_bit (32 - n) x = x"
    by (rule bit_word_eqI) (auto simp: bit_simps dest: lo)
  ultimately show ?case
    using Suc by (simp only: funpow_Suc_right comp_apply)
qed simp

lemma split_low_byte: "(c :: UINT32) XOR ucast (b :: UINT8) =
    push_bit 8 (drop_bit 8 c) XOR ucast ((ucast c :: UINT8) XOR b)"
  by (rule bit_word_eqI) (auto simp: bit_simps)

lemma bits_below: "bit (c :: UINT32) (8 + k) \<Longrightarrow> k < 24" "bit (b :: UINT8) k \<Longrightarrow> k < 8"
  using bit_imp_le_length [of c "8 + k"] bit_imp_le_length [of b k] by simp_all

lemma table_step: "drop_bit 8 c XOR mCrcTable ! unat ((ucast c :: UINT8) XOR b) = crc_byte c b"
proof -
  let ?k = "(ucast c :: UINT8) XOR b"
  have "(crc_bit ^^ 8) (push_bit 8 (drop_bit 8 c)) = drop_bit 8 c"
    by (rule crc_bits_push) (auto intro!: bit_word_eqI simp: bit_simps dest: bits_below)
  moreover have "unat ?k < 256"
    using unat_less_exp [of ?k] by simp
  then have "mCrcTable ! unat ?k = (crc_bit ^^ 8) (ucast ?k)"
    by (simp only: table_nth of_nat_unat)
  ultimately show ?thesis
    by (simp only: crc_byte_def split_low_byte [of c b] crc_bits_xor)
qed

lemma crc_loop_bytes:
  assumes "bytes_at m Ptr bs" "unat Length = unat Index + length bs"
  shows "crc_loop m Length Index Ptr Crc = Inr (foldl crc_byte Crc bs)"
  using assms
proof (induction bs arbitrary: Index Ptr Crc)
  case Nil
  then have "Length = Index" by (simp add: word_eq_iff_unat)
  then show ?case by (subst crc_loop.simps) simp
next
  case (Cons b bs)
  have lt: "Index < Length" using Cons.prems by (simp add: word_less_nat_alt)
  have ld: "load_byte m Ptr = Inr b" using Cons.prems by simp
  have "crc_loop m Length (Index + 1) (Ptr + 1) (crc_byte Crc b) =
      Inr (foldl crc_byte (crc_byte Crc b) bs)"
    using Cons.prems unat_Suc_less [OF lt] by (intro Cons.IH) auto
  then show ?case
    using Cons.prems lt ld by (subst crc_loop.simps) (simp add: table_step del: load_byte_Inr)
qed

lemma CalculateCrc32_ref:
  assumes "Buffer \<noteq> NULL" "Length \<le> MAX_ADDRESS - Buffer + 1"
    and "bytes_at m Buffer bs" "unat Length = length bs"
  shows "CalculateCrc32 env m Buffer Length = Inr (crc32_ref bs)"
  using assms by (simp add: CalculateCrc32_def crc_loop_bytes crc32_ref_def)

text \<open>Up to four bytes enter the register as one word.\<close>

lemma le_word_bound: "length bs \<le> n \<Longrightarrow> take_bit (8 * n) (le_word bs) = (le_word bs :: UINT32)"
proof (induction bs arbitrary: n)
  case (Cons b bs)
  then obtain n' where n: "n = Suc n'" "length bs \<le> n'" by (cases n) auto
  have hi: "bit (le_word bs :: UINT32) k \<Longrightarrow> k < 8 * n'" for k
    using Cons.IH [OF n(2)] by (metis bit_take_bit_iff)
  show ?case
    unfolding n by (rule bit_word_eqI)
      (auto simp: bit_or_iff bit_push_bit_iff bit_take_bit_iff bit_ucast_iff dest: hi bits_below(2))
qed simp

lemma crc_bytes_word:
  "length bs \<le> 4 \<Longrightarrow> foldl crc_byte c bs = (crc_bit ^^ (8 * length bs)) (c XOR le_word bs)"
proof (induction bs arbitrary: c)
  case (Cons b bs)
  let ?r = "le_word bs :: UINT32"
  have "take_bit (8 * 3) ?r = ?r"
    using Cons.prems by (intro le_word_bound) simp
  then have push: "(crc_bit ^^ 8) (push_bit 8 ?r) = ?r"
    by (intro crc_bits_push) simp_all
  have split: "le_word (b # bs) = ucast b XOR push_bit 8 ?r"
    by (rule bit_word_eqI) (auto simp: bit_simps dest: bit_imp_le_length)
  have step: "(crc_bit ^^ 8) (c XOR le_word (b # bs)) = crc_byte c b XOR ?r"
    by (simp only: split crc_byte_def crc_bits_xor push xor.assoc)
  have "8 * length (b # bs) = 8 * length bs + 8" by simp
  then have "(crc_bit ^^ (8 * length (b # bs))) (c XOR le_word (b # bs)) =
      (crc_bit ^^ (8 * length bs)) (crc_byte c b XOR ?r)"
    by (simp only: funpow_add comp_apply step)
  also have "\<dots> = foldl crc_byte c (b # bs)"
    using Cons by simp
  finally show ?case by (rule sym)
qed simp

lemma xor_right_cancel: "x XOR z = y XOR z \<longleftrightarrow> x = (y :: UINT32)"
  by (metis xor.assoc xor_self_eq xor.right_neutral)

lemma crc_bytes_inj: "foldl crc_byte c bs = foldl crc_byte c' bs \<longleftrightarrow> c = c'"
proof (induction bs arbitrary: c c')
  case (Cons b bs)
  have "crc_byte c b = crc_byte c' b \<longleftrightarrow> c = c'"
    by (simp add: crc_byte_def crc_bits_inj xor_right_cancel)
  with Cons show ?case by simp
qed simp

section \<open>Properties\<close>

lemma le_word_inj:
  assumes "le_word xs = (le_word ys :: UINT32)" "length xs = length ys" "length ys \<le> 4"
  shows "xs = ys"
  using assms
proof (induction xs arbitrary: ys)
  case (Cons x xs)
  then obtain y zs where ys: "ys = y # zs" "length xs = length zs" by (cases ys) auto
  have eq: "bit (le_word (x # xs) :: UINT32) n = bit (le_word (y # zs) :: UINT32) n" for n
    using Cons.prems(1) ys(1) by simp
  have "x = y"
  proof (rule bit_word_eqI)
    fix n assume "n < LENGTH(8)"
    with eq [of n] show "bit x n = bit y n"
      by (simp add: bit_or_iff bit_push_bit_iff bit_ucast_iff)
  qed
  moreover have "(le_word xs :: UINT32) = le_word zs"
  proof (rule bit_word_eqI)
    fix n assume n: "n < LENGTH(32)"
    have hi: "bit (le_word bs :: UINT32) n \<Longrightarrow> n < 24" if "length bs \<le> 3" for bs
      using le_word_bound [OF that] by (metis bit_take_bit_iff mult.commute num_double numeral_times_numeral
        semiring_norm(12) semiring_norm(13) semiring_norm(14))
    have "length xs \<le> 3" "length zs \<le> 3" using Cons.prems ys by auto
    note h = hi [OF this(1)] hi [OF this(2)]
    show "bit (le_word xs :: UINT32) n = bit (le_word zs :: UINT32) n"
    proof (cases "n < 24")
      case True
      then show ?thesis using eq [of "n + 8"]
        by (auto simp: bit_or_iff bit_push_bit_iff bit_ucast_iff dest: bits_below(2))
    next
      case False
      with h show ?thesis by blast
    qed
  qed
  ultimately show ?case
    using Cons.IH [of zs] Cons.prems ys by auto
qed simp

lemma burst_changes_ref:
  assumes "length w = length w'" "length w' \<le> 4" "w \<noteq> w'"
  shows "crc32_ref (pre @ w @ post) \<noteq> crc32_ref (pre @ w' @ post)"
proof
  let ?c = "foldl crc_byte 0xffffffff pre"
  assume "crc32_ref (pre @ w @ post) = crc32_ref (pre @ w' @ post)"
  then have "foldl crc_byte ?c w = foldl crc_byte ?c w'"
    by (simp add: crc32_ref_def xor_right_cancel crc_bytes_inj)
  then have "?c XOR le_word w = ?c XOR le_word w'"
    using assms by (simp add: crc_bytes_word crc_bits_inj)
  then have "(le_word w :: UINT32) = le_word w'"
    by (simp add: xor.commute [of ?c] xor_right_cancel)
  with assms show False using le_word_inj by blast
qed

lemma residue_ref: "crc32_ref (bs @ le_bytes 4 (crc32_ref bs)) = 0x2144DF1C"
proof -
  let ?c = "foldl crc_byte 0xffffffff bs"
  have "le_word (le_bytes 4 (crc32_ref bs)) = crc32_ref bs"
    by (rule le_word_le_bytes) simp
  then have "foldl crc_byte ?c (le_bytes 4 (crc32_ref bs)) = (crc_bit ^^ 32) (?c XOR crc32_ref bs)"
    by (simp add: crc_bytes_word)
  also have "?c XOR crc32_ref bs = 0xffffffff"
    by (simp add: crc32_ref_def flip: xor.assoc)
  also have "(crc_bit ^^ 32) 0xffffffff = (crc_bit ^^ 8) ((crc_bit ^^ 8) ((crc_bit ^^ 8) ((crc_bit ^^ 8) 0xffffffff)))"
    by (simp flip: funpow_add [THEN fun_cong, unfolded comp_apply])
  also have "\<dots> = 0xDEBB20E3"
    by (simp add: eight crc_bit_numeral)
  finally show ?thesis by (simp add: crc32_ref_def)
qed

text \<open>
  The 256 constants of the table are the eight-step shift register outputs for the 256
  byte values, under the reflected polynomial 0xEDB88320.
\<close>

theorem crc_table_correct:
  "mCrcTable = map (\<lambda>i. (crc_bit ^^ 8) (of_nat i)) [0..<256]"
  unfolding mCrcTable_def low_table [symmetric] high_table [symmetric] map_append [symmetric]
  by (rule arg_cong) (simp flip: upt_add_eq_append [of 0 128 128, simplified])

text \<open>
  C4. \<open>CalculateCrc32\<close> returns the CRC of the bit-serial register over the bytes of the
  buffer, for every readable buffer that does not run past the end of the address space.
\<close>

theorem crc32_bit_serial:
  assumes "Buffer \<noteq> NULL" "Length \<le> MAX_ADDRESS - Buffer + 1"
    and "bytes_at m Buffer bs" "unat Length = length bs"
  shows "CalculateCrc32 env m Buffer Length = Inr (crc32_ref bs)"
  using assms by (rule CalculateCrc32_ref)

theorem crc32_bit_serial_witness:
  "CalculateCrc32 debug_env (sample_mem 0x1000 [0x31, 0x32, 0x33, 0x34, 0x35, 0x36, 0x37, 0x38, 0x39])
     0x1000 9 = Inr 0xCBF43926"
proof -
  let ?bs = "[0x31, 0x32, 0x33, 0x34, 0x35, 0x36, 0x37, 0x38, 0x39] :: UINT8 list"
  have "crc32_ref ?bs = 0xCBF43926"
    by (simp add: crc32_ref_def crc_byte_def eight crc_bit_numeral)
  moreover have "bytes_at (sample_mem 0x1000 ?bs) 0x1000 ?bs"
    by (rule sample_mem_bytes) simp_all
  ultimately show ?thesis
    using crc32_bit_serial [of "0x1000" 9 "sample_mem 0x1000 ?bs" ?bs debug_env]
    by (simp add: NULL_def MAX_ADDRESS_def del: bytes_at.simps)
qed

text \<open>
  C28. The CRC detects every change confined to four consecutive bytes: two buffers of the
  same contents except for such a window have different CRCs.
\<close>

theorem crc32_detects_burst:
  assumes "Buffer \<noteq> NULL" "Length \<le> MAX_ADDRESS - Buffer + 1"
    and "bytes_at m Buffer (pre @ w @ post)" "bytes_at m' Buffer (pre @ w' @ post)"
    and "length w = length w'" "length w' \<le> 4" "w \<noteq> w'"
    and "unat Length = length (pre @ w @ post)"
  shows "CalculateCrc32 env m Buffer Length \<noteq> CalculateCrc32 env m' Buffer Length"
  using assms burst_changes_ref [of w w' pre post] CalculateCrc32_ref [of Buffer Length m _ env]
    CalculateCrc32_ref [of Buffer Length m' "pre @ w' @ post" env]
  by simp

theorem crc32_detects_burst_witness:
  "CalculateCrc32 debug_env (sample_mem 0x1000 [1, 2, 3]) 0x1000 3 \<noteq>
   CalculateCrc32 debug_env (sample_mem 0x1000 [1, 2, 4]) 0x1000 3"
proof -
  have "bytes_at (sample_mem 0x1000 ([1, 2] @ [b] @ [])) 0x1000 ([1, 2] @ [b] @ [])" for b
    by (rule sample_mem_bytes) simp_all
  from this [of 3] this [of 4] show ?thesis
    using crc32_detects_burst [of "0x1000" 3 "sample_mem 0x1000 [1, 2, 3]" "[1, 2]" "[3]" "[]"
        "sample_mem 0x1000 [1, 2, 4]" "[4]" debug_env]
    by (simp add: NULL_def MAX_ADDRESS_def del: bytes_at.simps)
qed

text \<open>
  A buffer that ends with its own CRC, stored least significant byte first, has the
  fixed CRC 0x2144DF1C, whatever the data.
\<close>

theorem crc32_residue:
  assumes "Buffer \<noteq> NULL" "Length \<le> MAX_ADDRESS - Buffer + 1" "4 \<le> Length"
    and "CalculateCrc32 env m Buffer (Length - 4) = Inr crc"
    and "bytes_at m Buffer (bs @ le_bytes 4 crc)" "unat Length = length bs + 4"
  shows "CalculateCrc32 env m Buffer Length = Inr 0x2144DF1C"
proof -
  have n: "unat (Length - 4) = length bs" using assms(3,6) by (simp add: unat_sub)
  moreover have "Length - 4 \<le> MAX_ADDRESS - Buffer + 1"
    using assms(2,6) n by (simp add: word_le_nat_alt)
  ultimately have "crc = crc32_ref bs"
    using assms CalculateCrc32_ref [of Buffer "Length - 4" m bs env] by (simp add: bytes_at_append)
  with assms residue_ref CalculateCrc32_ref [of Buffer Length m "bs @ le_bytes 4 crc" env]
  show ?thesis by simp
qed

theorem crc32_residue_witness:
  "CalculateCrc32 debug_env (sample_mem 0x1000 [0, 0, 0, 0]) 0x1000 4 = Inr 0x2144DF1C"
proof -
  have "CalculateCrc32 debug_env (sample_mem 0x1000 [0, 0, 0, 0]) 0x1000 (4 - 4) = Inr 0"
    using CalculateCrc32_ref [of "0x1000" 0 _ "[]" debug_env]
    by (simp add: NULL_def MAX_ADDRESS_def crc32_ref_def)
  moreover have "le_bytes 4 (0 :: UINT32) = [0, 0, 0, 0]"
    by (simp add: eval_nat_numeral)
  then have "bytes_at (sample_mem 0x1000 [0, 0, 0, 0]) 0x1000 ([] @ le_bytes 4 (0 :: UINT32))"
    using sample_mem_bytes [of "0x1000" "[0, 0, 0, 0]"] by (simp del: bytes_at.simps)
  ultimately show ?thesis
    using crc32_residue [of "0x1000" 4 debug_env "sample_mem 0x1000 [0, 0, 0, 0]" 0 "[]"]
    by (simp add: NULL_def MAX_ADDRESS_def del: bytes_at.simps)
qed

end
