(* ===== verification/Linked_List.thy ===== *)
theory Linked_List imports Base_Types begin

text \<open>
  \<open>LinkedList.c\<close>: circular doubly-linked lists of \<open>LIST_ENTRY\<close> nodes with a head node, on
  a heap that maps node addresses to nodes, and the two iteration macros of \<open>BaseLib.h\<close>.
  The abstraction is the list of node addresses around the ring; every operation is shown
  to be the operation on that list it is named for.
\<close>

section \<open>Nodes and heap\<close>

record LIST_ENTRY =
  ForwardLink :: UINTN
  BackLink :: UINTN

type_synonym heap = "UINTN \<Rightarrow> LIST_ENTRY option"

text \<open>\<open>Ptr->ForwardLink\<close> and \<open>Ptr->BackLink\<close>, read and assigned.\<close>

definition get_node :: "heap \<Rightarrow> UINTN \<Rightarrow> LIST_ENTRY res" where
  "get_node h p =
     (if p = NULL then Inl BadAddress
      else case h p of None \<Rightarrow> Inl BadAddress | Some e \<Rightarrow> Inr e)"

definition get_fwd :: "heap \<Rightarrow> UINTN \<Rightarrow> UINTN res" where
  "get_fwd h p = map_res ForwardLink (get_node h p)"

definition get_back :: "heap \<Rightarrow> UINTN \<Rightarrow> UINTN res" where
  "get_back h p = map_res BackLink (get_node h p)"

definition set_fwd :: "heap \<Rightarrow> UINTN \<Rightarrow> UINTN \<Rightarrow> heap res" where
  "set_fwd h p v = map_res (\<lambda>e. h(p \<mapsto> e\<lparr>ForwardLink := v\<rparr>)) (get_node h p)"

definition set_back :: "heap \<Rightarrow> UINTN \<Rightarrow> UINTN \<Rightarrow> heap res" where
  "set_back h p v = map_res (\<lambda>e. h(p \<mapsto> e\<lparr>BackLink := v\<rparr>)) (get_node h p)"

section \<open>Validity\<close>

lemma valid_loop_measure:
  "Count + 1 < ucast (MaxLength :: UINT32) \<Longrightarrow>
   unat (ucast MaxLength - (Count + 1 :: UINTN)) < unat (ucast MaxLength - Count)"
proof -
  let ?M = "ucast MaxLength :: UINTN"
  assume a: "Count + 1 < ?M"
  have M: "unat ?M < 2 ^ 32" using unat_less_exp [of MaxLength] by simp
  have "unat (?M - (Count + 1)) = unat ?M - unat (Count + 1)"
    using a by (simp only: unat_sub less_imp_le)
  then have "unat (?M - (Count + 1)) + 1 < 2 ^ LENGTH(64)" using M by simp
  then have "unat (?M - (Count + 1) + 1) = unat (?M - (Count + 1)) + 1"
    using unat_add_lem [of "?M - (Count + 1)" 1] by simp
  moreover have "?M - (Count + 1) + 1 = ?M - Count" by simp
  ultimately show ?thesis by simp
qed

text \<open>The do-while loop that counts the nodes, at most up to the limit.\<close>

function valid_loop :: "heap \<Rightarrow> UINT32 \<Rightarrow> UINTN \<Rightarrow> UINTN \<Rightarrow> UINTN \<Rightarrow> bool res" where
  "valid_loop h MaxLength List Ptr Count =
     bindr (get_fwd h Ptr) (\<lambda>p.
       if p \<noteq> List \<and> Count + 1 < ucast MaxLength
       then valid_loop h MaxLength List p (Count + 1)
       else Inr (Count + 1 < ucast MaxLength))"
  by pat_completeness auto
termination valid_loop
  by (relation "measure (\<lambda>(h, MaxLength, List, Ptr, Count). unat (ucast MaxLength - Count))")
    (auto intro: valid_loop_measure)

declare valid_loop.simps [simp del]

definition InternalBaseLibIsListValid :: "build_env \<Rightarrow> heap \<Rightarrow> UINTN \<Rightarrow> bool res" where
  "InternalBaseLibIsListValid env h List =
     ASSERT env (List \<noteq> NULL)
    (ASSERT_CALL env (map_res (\<lambda>f. f \<noteq> NULL) (get_fwd h List))
    (ASSERT_CALL env (map_res (\<lambda>b. b \<noteq> NULL) (get_back h List))
      (if PcdMaximumLinkedListLength env > 0
       then valid_loop h (PcdMaximumLinkedListLength env) List List 0
       else Inr True)))"

section \<open>Membership\<close>

text \<open>
  The do-while loop of \<open>IsNodeInList\<close> has no bound when the maximum length is zero: not
  returning is the value \<open>None\<close>.
\<close>

partial_function (option) node_loop ::
  "heap \<Rightarrow> UINT32 \<Rightarrow> UINTN \<Rightarrow> UINTN \<Rightarrow> UINTN \<Rightarrow> UINTN \<Rightarrow> bool res option" where
  "node_loop h MaxLength FirstEntry SecondEntry Ptr Count =
     (case get_fwd h Ptr of
        Inl e \<Rightarrow> Some (Inl e)
      | Inr p \<Rightarrow>
          let c = (if MaxLength > 0 then Count + 1 else Count) in
          if MaxLength > 0 \<and> c = ucast MaxLength then Some (Inr (p = SecondEntry))
          else if p = SecondEntry then Some (Inr True)
          else if p \<noteq> FirstEntry then node_loop h MaxLength FirstEntry SecondEntry p c
          else Some (Inr False))"

definition IsNodeInList :: "build_env \<Rightarrow> heap \<Rightarrow> UINTN \<Rightarrow> UINTN \<Rightarrow> bool res" where
  "IsNodeInList env h FirstEntry SecondEntry =
     ASSERT_CALL env (InternalBaseLibIsListValid env h FirstEntry)
    (ASSERT env (SecondEntry \<noteq> NULL)
      (case node_loop h (PcdMaximumLinkedListLength env) FirstEntry SecondEntry FirstEntry 0 of
         None \<Rightarrow> Inl Hang
       | Some r \<Rightarrow> r))"

definition ASSERT_VERIFY_NODE_IN_VALID_LIST ::
  "build_env \<Rightarrow> heap \<Rightarrow> UINTN \<Rightarrow> UINTN \<Rightarrow> bool \<Rightarrow> 'a res \<Rightarrow> 'a res" where
  "ASSERT_VERIFY_NODE_IN_VALID_LIST env h FirstEntry SecondEntry InList k =
     (if PcdVerifyNodeInList env
      then ASSERT_CALL env (map_res (\<lambda>r. InList = r) (IsNodeInList env h FirstEntry SecondEntry)) k
      else ASSERT_CALL env (InternalBaseLibIsListValid env h FirstEntry) k)"

section \<open>The operations\<close>

definition InitializeListHead :: "build_env \<Rightarrow> heap \<Rightarrow> UINTN \<Rightarrow> (heap \<times> UINTN) res" where
  "InitializeListHead env h ListHead =
     ASSERT env (ListHead \<noteq> NULL)
       (bindr (set_fwd h ListHead ListHead) (\<lambda>h.
        bindr (set_back h ListHead ListHead) (\<lambda>h.
          Inr (h, ListHead))))"

definition InsertHeadList :: "build_env \<Rightarrow> heap \<Rightarrow> UINTN \<Rightarrow> UINTN \<Rightarrow> (heap \<times> UINTN) res" where
  "InsertHeadList env h ListHead Entry =
     ASSERT_VERIFY_NODE_IN_VALID_LIST env h ListHead Entry False
       (bindr (get_fwd h ListHead) (\<lambda>f.
        bindr (set_fwd h Entry f) (\<lambda>h.
        bindr (set_back h Entry ListHead) (\<lambda>h.
        bindr (get_fwd h Entry) (\<lambda>f.
        bindr (set_back h f Entry) (\<lambda>h.
        bindr (set_fwd h ListHead Entry) (\<lambda>h.
          Inr (h, ListHead))))))))"

definition InsertTailList :: "build_env \<Rightarrow> heap \<Rightarrow> UINTN \<Rightarrow> UINTN \<Rightarrow> (heap \<times> UINTN) res" where
  "InsertTailList env h ListHead Entry =
     ASSERT_VERIFY_NODE_IN_VALID_LIST env h ListHead Entry False
       (bindr (set_fwd h Entry ListHead) (\<lambda>h.
        bindr (get_back h ListHead) (\<lambda>b.
        bindr (set_back h Entry b) (\<lambda>h.
        bindr (get_back h Entry) (\<lambda>b.
        bindr (set_fwd h b Entry) (\<lambda>h.
        bindr (set_back h ListHead Entry) (\<lambda>h.
          Inr (h, ListHead))))))))"

definition GetFirstNode :: "build_env \<Rightarrow> heap \<Rightarrow> UINTN \<Rightarrow> UINTN res" where
  "GetFirstNode env h List =
     ASSERT_CALL env (InternalBaseLibIsListValid env h List) (get_fwd h List)"

definition GetNextNode :: "build_env \<Rightarrow> heap \<Rightarrow> UINTN \<Rightarrow> UINTN \<Rightarrow> UINTN res" where
  "GetNextNode env h List Node =
     ASSERT_VERIFY_NODE_IN_VALID_LIST env h List Node True (get_fwd h Node)"

definition GetPreviousNode :: "build_env \<Rightarrow> heap \<Rightarrow> UINTN \<Rightarrow> UINTN \<Rightarrow> UINTN res" where
  "GetPreviousNode env h List Node =
     ASSERT_VERIFY_NODE_IN_VALID_LIST env h List Node True (get_back h Node)"

definition IsListEmpty :: "build_env \<Rightarrow> heap \<Rightarrow> UINTN \<Rightarrow> bool res" where
  "IsListEmpty env h ListHead =
     ASSERT_CALL env (InternalBaseLibIsListValid env h ListHead)
       (map_res (\<lambda>f. f = ListHead) (get_fwd h ListHead))"

definition IsNull :: "build_env \<Rightarrow> heap \<Rightarrow> UINTN \<Rightarrow> UINTN \<Rightarrow> bool res" where
  "IsNull env h List Node =
     ASSERT_VERIFY_NODE_IN_VALID_LIST env h List Node True (Inr (Node = List))"

definition IsNodeAtEnd :: "build_env \<Rightarrow> heap \<Rightarrow> UINTN \<Rightarrow> UINTN \<Rightarrow> bool res" where
  "IsNodeAtEnd env h List Node =
     ASSERT_VERIFY_NODE_IN_VALID_LIST env h List Node True
       (bindr (IsNull env h List Node) (\<lambda>n.
          if n then Inr False else map_res (\<lambda>b. b = Node) (get_back h List)))"

definition RemoveEntryList :: "build_env \<Rightarrow> heap \<Rightarrow> UINTN \<Rightarrow> (heap \<times> UINTN) res" where
  "RemoveEntryList env h Entry =
     ASSERT_CALL env (map_res Not (IsListEmpty env h Entry))
       (bindr (get_fwd h Entry) (\<lambda>f.
        bindr (get_back h Entry) (\<lambda>b.
        bindr (set_back h f b) (\<lambda>h.
        bindr (get_back h Entry) (\<lambda>b.
        bindr (get_fwd h Entry) (\<lambda>f.
        bindr (set_fwd h b f) (\<lambda>h.
        bindr (get_fwd h Entry) (\<lambda>f.
          Inr (h, f)))))))))"

definition SwapListEntries :: "build_env \<Rightarrow> heap \<Rightarrow> UINTN \<Rightarrow> UINTN \<Rightarrow> (heap \<times> UINTN) res" where
  "SwapListEntries env h FirstEntry SecondEntry =
     (if FirstEntry = SecondEntry then Inr (h, SecondEntry)
      else
        ASSERT_VERIFY_NODE_IN_VALID_LIST env h FirstEntry SecondEntry True
          (bindr (RemoveEntryList env h FirstEntry) (\<lambda>(h, Ptr).
           bindr (get_back h Ptr) (\<lambda>b.
             if b = SecondEntry then InsertTailList env h SecondEntry FirstEntry
             else
               bindr (InsertHeadList env h SecondEntry FirstEntry) (\<lambda>(h, r).
                 if Ptr = r then Inr (h, Ptr)
                 else
                   bindr (RemoveEntryList env h SecondEntry) (\<lambda>(h, _).
                   bindr (InsertTailList env h Ptr SecondEntry) (\<lambda>(h, _).
                     Inr (h, SecondEntry))))))))"

section \<open>Iteration macros\<close>

text \<open>
  \<open>BASE_LIST_FOR_EACH\<close> with a body that does not change the list: the model collects the
  cursors. \<open>BASE_LIST_FOR_EACH_SAFE\<close> with a body that may change the heap, its cursor
  included.
\<close>

partial_function (option) for_each_loop ::
  "heap \<Rightarrow> UINTN \<Rightarrow> UINTN \<Rightarrow> UINTN list \<Rightarrow> UINTN list res option" where
  "for_each_loop h ListHead Entry seen =
     (if Entry \<noteq> ListHead then
        case get_fwd h Entry of
          Inl e \<Rightarrow> Some (Inl e)
        | Inr n \<Rightarrow> for_each_loop h ListHead n (seen @ [Entry])
      else Some (Inr seen))"

definition BASE_LIST_FOR_EACH :: "heap \<Rightarrow> UINTN \<Rightarrow> UINTN list res option" where
  "BASE_LIST_FOR_EACH h ListHead =
     (case get_fwd h ListHead of
        Inl e \<Rightarrow> Some (Inl e)
      | Inr Entry \<Rightarrow> for_each_loop h ListHead Entry [])"

partial_function (option) for_each_safe_loop ::
  "(heap \<Rightarrow> UINTN \<Rightarrow> heap res) \<Rightarrow> UINTN \<Rightarrow> heap \<Rightarrow> UINTN \<Rightarrow> UINTN \<Rightarrow> heap res option" where
  "for_each_safe_loop body ListHead h Entry NextEntry =
     (if Entry \<noteq> ListHead then
        case body h Entry of
          Inl e \<Rightarrow> Some (Inl e)
        | Inr h' \<Rightarrow>
            (case get_fwd h' NextEntry of
               Inl e \<Rightarrow> Some (Inl e)
             | Inr n \<Rightarrow> for_each_safe_loop body ListHead h' NextEntry n)
      else Some (Inr h))"

definition BASE_LIST_FOR_EACH_SAFE ::
  "(heap \<Rightarrow> UINTN \<Rightarrow> heap res) \<Rightarrow> heap \<Rightarrow> UINTN \<Rightarrow> heap res option" where
  "BASE_LIST_FOR_EACH_SAFE body h ListHead =
     (case get_fwd h ListHead of
        Inl e \<Rightarrow> Some (Inl e)
      | Inr Entry \<Rightarrow>
          (case get_fwd h Entry of
             Inl e \<Rightarrow> Some (Inl e)
           | Inr NextEntry \<Rightarrow> for_each_safe_loop body ListHead h Entry NextEntry))"

section \<open>Links as partial maps\<close>

definition nxt :: "heap \<Rightarrow> UINTN \<Rightarrow> UINTN option" where
  "nxt h p = (if p = NULL then None else map_option ForwardLink (h p))"

definition prv :: "heap \<Rightarrow> UINTN \<Rightarrow> UINTN option" where
  "prv h p = (if p = NULL then None else map_option BackLink (h p))"

definition alloc :: "heap \<Rightarrow> UINTN \<Rightarrow> bool" where
  "alloc h p \<longleftrightarrow> p \<noteq> NULL \<and> h p \<noteq> None"

definition put_fwd :: "heap \<Rightarrow> UINTN \<Rightarrow> UINTN \<Rightarrow> heap" where
  "put_fwd h p v = h(p \<mapsto> (the (h p))\<lparr>ForwardLink := v\<rparr>)"

definition put_back :: "heap \<Rightarrow> UINTN \<Rightarrow> UINTN \<Rightarrow> heap" where
  "put_back h p v = h(p \<mapsto> (the (h p))\<lparr>BackLink := v\<rparr>)"

named_theorems heap_simps \<open>running reads and writes of links\<close>

lemma get_link [heap_simps]:
  "nxt h p = Some v \<Longrightarrow> get_fwd h p = Inr v"
  "prv h p = Some v \<Longrightarrow> get_back h p = Inr v"
  by (auto simp: nxt_def prv_def get_fwd_def get_back_def get_node_def split: if_splits)

lemma set_link [heap_simps]:
  "alloc h p \<Longrightarrow> set_fwd h p v = Inr (put_fwd h p v)"
  "alloc h p \<Longrightarrow> set_back h p v = Inr (put_back h p v)"
  by (auto simp: alloc_def set_fwd_def set_back_def get_node_def put_fwd_def put_back_def)

lemma put_links [heap_simps]:
  "alloc h p \<Longrightarrow> nxt (put_fwd h p v) = (nxt h)(p \<mapsto> v)"
  "alloc h p \<Longrightarrow> prv (put_fwd h p v) = prv h"
  "alloc h p \<Longrightarrow> nxt (put_back h p v) = nxt h"
  "alloc h p \<Longrightarrow> prv (put_back h p v) = (prv h)(p \<mapsto> v)"
  by (auto simp: fun_eq_iff nxt_def prv_def put_fwd_def put_back_def alloc_def)

lemma put_alloc [heap_simps]:
  "alloc h p \<Longrightarrow> alloc (put_fwd h p v) = alloc h"
  "alloc h p \<Longrightarrow> alloc (put_back h p v) = alloc h"
  by (auto simp: fun_eq_iff put_fwd_def put_back_def alloc_def)

lemma put_other [heap_simps]:
  "x \<noteq> p \<Longrightarrow> put_fwd h p v x = h x" "x \<noteq> p \<Longrightarrow> put_back h p v x = h x"
  by (simp_all add: put_fwd_def put_back_def)

lemma link_alloc: "nxt h p = Some v \<Longrightarrow> alloc h p" "prv h p = Some v \<Longrightarrow> alloc h p"
  by (auto simp: nxt_def prv_def alloc_def split: if_splits)

lemma alloc_links: "alloc h p \<Longrightarrow> \<exists>f b. nxt h p = Some f \<and> prv h p = Some b"
  by (auto simp: nxt_def prv_def alloc_def)

section \<open>Rings\<close>

definition linked :: "heap \<Rightarrow> UINTN \<Rightarrow> UINTN \<Rightarrow> bool" where
  "linked h x y \<longleftrightarrow> nxt h x = Some y \<and> prv h y = Some x"

fun chain :: "heap \<Rightarrow> UINTN list \<Rightarrow> bool" where
  "chain h (x # y # zs) \<longleftrightarrow> linked h x y \<and> chain h (y # zs)"
| "chain h _ \<longleftrightarrow> True"

definition ring :: "heap \<Rightarrow> UINTN list \<Rightarrow> bool" where
  "ring h ps \<longleftrightarrow> ps \<noteq> [] \<and> distinct ps \<and> chain h (ps @ [hd ps])"

lemma chain_split: "chain h (xs @ y # zs) \<longleftrightarrow> chain h (xs @ [y]) \<and> chain h (y # zs)"
proof (induction xs)
  case (Cons x xs)
  then show ?case by (cases xs) auto
qed simp

lemma chain_cong:
  "\<forall>x\<in>set (butlast xs). nxt h' x = nxt h x \<Longrightarrow> \<forall>y\<in>set (tl xs). prv h' y = prv h y \<Longrightarrow>
   chain h' xs = chain h xs"
proof (induction xs)
  case (Cons x xs)
  then show ?case by (cases xs) (auto simp: linked_def split: if_splits dest: list.set_sel(2))
qed simp

lemma ring_rotate: "ring h (xs @ ys) \<longleftrightarrow> ring h (ys @ xs)"
proof (cases "xs = [] \<or> ys = []")
  case False
  then obtain x xs' y ys' where "xs = x # xs'" "ys = y # ys'"
    by (auto simp: neq_Nil_conv)
  then show ?thesis
    using chain_split [of h "x # xs'" y "ys' @ [x]"] chain_split [of h "y # ys'" x "xs' @ [y]"]
    by (auto simp: ring_def)
qed auto

lemma ring_rotate1: "ring h (x # xs) \<longleftrightarrow> ring h (xs @ [x])"
  using ring_rotate [of h "[x]" xs] by simp

lemma ring_first: "ring h (a # ps) \<Longrightarrow> nxt h a = Some (hd (ps @ [a]))"
  by (cases ps) (auto simp: ring_def linked_def)

lemma ring_last: "ring h (a # ps) \<Longrightarrow> prv h a = Some (last (a # ps))"
proof -
  assume r: "ring h (a # ps)"
  obtain qs l where q: "a # ps = qs @ [l]" by (cases "a # ps" rule: rev_cases) auto
  have "chain h (qs @ l # [a])" using r q by (metis append.assoc append_Cons append_Nil list.sel(1) ring_def)
  then have "linked h l a" by (simp add: chain_split [of h qs l "[a]"])
  then show ?thesis by (simp only: q) (simp add: linked_def)
qed

lemma ring_alloc: "ring h ps \<Longrightarrow> p \<in> set ps \<Longrightarrow> alloc h p"
proof -
  assume "ring h ps" "p \<in> set ps"
  then obtain xs ys where "ps = xs @ p # ys" "ring h (p # ys @ xs)"
    using ring_rotate by (metis append_Cons in_set_conv_decomp)
  then show ?thesis using ring_first link_alloc by blast
qed

lemma ring_insert:
  assumes r: "ring h (a # ps)" and e: "e \<notin> set (a # ps)" and b: "b = hd (ps @ [a])"
    and n: "nxt h' = (nxt h)(e \<mapsto> b, a \<mapsto> e)" and p: "prv h' = (prv h)(e \<mapsto> a, b \<mapsto> e)"
  shows "ring h' (a # e # ps)"
proof -
  obtain qs where qs: "ps @ [a] = b # qs" using b by (cases "ps @ [a]") auto
  have d: "distinct (b # qs)" using r unfolding qs [symmetric] by (auto simp: ring_def)
  have sub: "set (b # qs) = insert a (set ps)" unfolding qs [symmetric] by auto
  have bl: "butlast (b # qs) = ps" unfolding qs [symmetric] by simp
  have "chain h (a # b # qs)" using r unfolding qs [symmetric] by (simp add: ring_def)
  then have "chain h (b # qs)" by simp
  moreover have "chain h' (b # qs) = chain h (b # qs)"
    unfolding n p using d e sub bl r by (intro chain_cong) (auto simp: ring_def n p)
  ultimately have "chain h' (a # e # b # qs)"
    using e sub by (auto simp: linked_def n p)
  then show ?thesis using r e by (auto simp: ring_def qs)
qed

lemma ring_remove:
  assumes r: "ring h (e # ps)" and ps: "ps \<noteq> []"
    and n: "nxt h' = (nxt h)(last ps \<mapsto> hd ps)" and p: "prv h' = (prv h)(hd ps \<mapsto> last ps)"
  shows "ring h' ps"
proof -
  obtain b qs where b: "ps = b # qs" using ps by (cases ps) auto
  obtain rs a where a: "ps = rs @ [a]" using ps by (cases ps rule: rev_cases) auto
  have d: "distinct ps" using r by (simp add: ring_def)
  have "chain h (e # rs @ a # [e])" using r a by (simp add: ring_def)
  then have "chain h (e # ps)" using chain_split [of h "e # rs" a "[e]"] a by simp
  then have "chain h ps" by (simp add: b)
  moreover have "chain h' ps = chain h ps"
  proof (rule chain_cong)
    show "\<forall>x\<in>set (butlast ps). nxt h' x = nxt h x" using d by (auto simp: a n)
    show "\<forall>y\<in>set (tl ps). prv h' y = prv h y" using d by (auto simp: b p)
  qed
  moreover have "linked h' a b" using n p arg_cong [OF a, of last] arg_cong [OF b, of hd]
    by (simp add: linked_def)
  ultimately have "chain h' (rs @ a # [b])"
    using chain_split [of h' rs a "[b]"] a by simp
  moreover have "rs @ a # [b] = ps @ [hd ps]" using a arg_cong [OF b, of hd] by simp
  ultimately show ?thesis using d ps by (simp add: ring_def)
qed

text \<open>The frame of an operation: the nodes outside \<open>S\<close> are as before, none is freed.\<close>

definition only_changes :: "UINTN set \<Rightarrow> heap \<Rightarrow> heap \<Rightarrow> bool" where
  "only_changes S h h' \<longleftrightarrow> (\<forall>x. x \<notin> S \<longrightarrow> h' x = h x) \<and> alloc h' = alloc h"

lemma ring_frame: "ring h ps \<Longrightarrow> only_changes S h h' \<Longrightarrow> S \<inter> set ps = {} \<Longrightarrow> ring h' ps"
proof -
  assume r: "ring h ps" and f: "only_changes S h h'" and dis: "S \<inter> set ps = {}"
  have "chain h' (ps @ [hd ps]) = chain h (ps @ [hd ps])"
  proof (rule chain_cong)
    have "x \<in> set ps \<Longrightarrow> h' x = h x" for x using f dis by (auto simp: only_changes_def)
    moreover have "set (butlast (ps @ [hd ps])) \<subseteq> set ps" "set (tl (ps @ [hd ps])) \<subseteq> set ps"
      using r by (auto simp: ring_def neq_Nil_conv)
    ultimately show "\<forall>x\<in>set (butlast (ps @ [hd ps])). nxt h' x = nxt h x"
      "\<forall>y\<in>set (tl (ps @ [hd ps])). prv h' y = prv h y"
      by (auto simp: nxt_def prv_def)
  qed
  with r show ?thesis by (simp add: ring_def)
qed

section \<open>Validity and membership on a ring\<close>

definition fits_limit :: "UINT32 \<Rightarrow> nat \<Rightarrow> bool" where
  "fits_limit MaxLength n \<longleftrightarrow> MaxLength = 0 \<or> n < unat MaxLength"

text \<open>\<open>fits env n\<close>: a build that evaluates assertions accepts lists of \<open>n\<close> nodes.\<close>

definition fits :: "build_env \<Rightarrow> nat \<Rightarrow> bool" where
  "fits env n \<longleftrightarrow> DebugAssertEnabled env \<longrightarrow> fits_limit (PcdMaximumLinkedListLength env) n"

lemma fits_less: "fits env n \<Longrightarrow> k \<le> n \<Longrightarrow> fits env k"
  by (auto simp: fits_def fits_limit_def)

lemma word_zero_less: "0 < (x :: UINT32) \<longleftrightarrow> x \<noteq> 0"
  by (simp add: word_gt_0)

lemma word64_less: "(a :: UINTN) < ucast (b :: UINT32) \<longleftrightarrow> unat a < unat b"
  by (simp add: word_less_nat_alt)

lemma valid_loop_chain:
  assumes "chain h (p # qs @ [L])" "L \<notin> set qs" "unat Count < unat MaxLength"
  shows "valid_loop h MaxLength L p Count = Inr (unat Count + length qs + 1 < unat MaxLength)"
  using assms
proof (induction qs arbitrary: p Count)
  case Nil
  then have "unat (Count + 1) = Suc (unat Count)"
    using unat_Suc_less [of Count "ucast MaxLength"] by (simp add: word64_less)
  with Nil show ?case
    by (subst valid_loop.simps) (simp add: linked_def heap_simps word64_less)
next
  case (Cons q qs)
  then have one: "unat (Count + 1) = Suc (unat Count)"
    using unat_Suc_less [of Count "ucast MaxLength"] by (simp add: word64_less)
  show ?case
  proof (cases "Suc (unat Count) < unat MaxLength")
    case True
    then have "valid_loop h MaxLength L q (Count + 1) =
        Inr (unat (Count + 1) + length qs + 1 < unat MaxLength)"
      using Cons.prems one by (intro Cons.IH) auto
    with Cons.prems one True show ?thesis
      by (subst valid_loop.simps) (auto simp: linked_def heap_simps word64_less)
  next
    case False
    with Cons.prems one show ?thesis
      by (subst valid_loop.simps) (auto simp: linked_def heap_simps word64_less)
  qed
qed

lemma ring_ends:
  assumes "ring h (a # ps)"
  shows "\<exists>f b. nxt h a = Some f \<and> prv h a = Some b \<and> f \<noteq> NULL \<and> b \<noteq> NULL \<and> a \<noteq> NULL"
proof -
  have "alloc h x" if "x \<in> set (a # ps)" for x using ring_alloc [OF assms that] .
  then have "x \<noteq> NULL" if "x \<in> set (a # ps)" for x using that by (auto simp: alloc_def)
  moreover have "hd (ps @ [a]) \<in> set (a # ps)" "last (a # ps) \<in> set (a # ps)"
    by (cases ps) auto
  ultimately show ?thesis using ring_first [OF assms] ring_last [OF assms] by auto
qed

lemma valid_ring:
  assumes r: "ring h (a # ps)"
  shows "InternalBaseLibIsListValid env h a =
    Inr (fits_limit (PcdMaximumLinkedListLength env) (length (a # ps)))"
proof -
  obtain f b where fb: "nxt h a = Some f" "prv h a = Some b" "f \<noteq> NULL" "b \<noteq> NULL" "a \<noteq> NULL"
    using ring_ends [OF r] by blast
  have c: "chain h (a # ps @ [a])" "a \<notin> set ps" using r by (auto simp: ring_def)
  show ?thesis
  proof (cases "PcdMaximumLinkedListLength env = 0")
    case True
    then show ?thesis
      using fb by (simp add: InternalBaseLibIsListValid_def heap_simps fits_limit_def)
  next
    case False
    then have "unat (0 :: UINTN) < unat (PcdMaximumLinkedListLength env)"
      by (simp add: unat_gt_0)
    from valid_loop_chain [OF c this] False show ?thesis
      using fb by (simp add: InternalBaseLibIsListValid_def heap_simps fits_limit_def word_zero_less)
  qed
qed

lemma node_loop_chain:
  assumes "chain h (p # qs @ [F])" "F \<notin> set qs"
    and "MaxLength = 0 \<or> unat Count + length qs + 1 < unat MaxLength"
  shows "node_loop h MaxLength F S p Count = Some (Inr (S \<in> set qs \<or> S = F))"
  using assms
proof (induction qs arbitrary: p Count)
  case Nil
  have "MaxLength \<noteq> 0 \<Longrightarrow> Count + 1 \<noteq> ucast MaxLength"
    using Nil.prems unat_Suc_less [of Count "ucast MaxLength"]
    by (auto simp: word64_less dest: arg_cong [of _ _ unat])
  with Nil show ?case
    by (subst node_loop.simps) (auto simp: linked_def heap_simps Let_def)
next
  case (Cons q qs)
  have c: "MaxLength \<noteq> 0 \<Longrightarrow> unat (Count + 1) = Suc (unat Count)"
    using Cons.prems unat_Suc_less [of Count "ucast MaxLength"] by (auto simp: word64_less)
  then have ne: "MaxLength \<noteq> 0 \<Longrightarrow> Count + 1 \<noteq> ucast MaxLength"
    using Cons.prems by (auto dest: arg_cong [of _ _ unat])
  have "node_loop h MaxLength F S q (if MaxLength = 0 then Count else Count + 1) =
      Some (Inr (S \<in> set qs \<or> S = F))"
    using Cons.prems c by (intro Cons.IH) auto
  with Cons.prems ne show ?case
    by (subst node_loop.simps) (auto simp: linked_def heap_simps Let_def word_zero_less)
qed

lemma member_ring:
  assumes r: "ring h (a # ps)" and lim: "fits_limit (PcdMaximumLinkedListLength env) (length (a # ps))"
    and s: "S \<noteq> NULL"
  shows "IsNodeInList env h a S = Inr (S \<in> set (a # ps))"
proof -
  have c: "chain h (a # ps @ [a])" "a \<notin> set ps" using r by (auto simp: ring_def)
  from lim have "PcdMaximumLinkedListLength env = 0 \<or>
      unat (0 :: UINTN) + length ps + 1 < unat (PcdMaximumLinkedListLength env)"
    by (auto simp: fits_limit_def)
  from node_loop_chain [OF c this, of S] show ?thesis
    using valid_ring [OF r, of env] lim s by (auto simp: IsNodeInList_def)
qed

lemma verify_ring:
  assumes "ring h (a # ps)" "fits env (length (a # ps))" "n \<noteq> NULL"
    and "PcdVerifyNodeInList env \<longrightarrow> (n \<in> set (a # ps)) = InList"
  shows "ASSERT_VERIFY_NODE_IN_VALID_LIST env h a n InList k = k"
proof (cases "DebugAssertEnabled env")
  case True
  then have "fits_limit (PcdMaximumLinkedListLength env) (length (a # ps))"
    using assms(2) by (simp add: fits_def)
  then show ?thesis
    using assms valid_ring [OF assms(1), of env] member_ring [OF assms(1) _ assms(3), of env]
    by (auto simp: ASSERT_VERIFY_NODE_IN_VALID_LIST_def)
qed (simp add: ASSERT_VERIFY_NODE_IN_VALID_LIST_def ASSERT_CALL_def)

lemma assert_valid_ring:
  assumes "ring h (a # ps)" "fits env (length (a # ps))"
  shows "ASSERT_CALL env (InternalBaseLibIsListValid env h a) k = k"
  using assms valid_ring [OF assms(1), of env] by (auto simp: fits_def ASSERT_CALL_def)

section \<open>The operations on a ring\<close>

lemma head_is_ring:
  assumes "alloc h l"
  shows "\<exists>h'. InitializeListHead env h l = Inr (h', l) \<and> ring h' [l] \<and> only_changes {l} h h'"
  using assms
  by (auto simp: InitializeListHead_def heap_simps alloc_def [of h l] ring_def linked_def
      only_changes_def)

lemma insert_after:
  assumes r: "ring h (a # ps)" and e: "alloc h e" "e \<notin> set (a # ps)"
  defines "b \<equiv> hd (ps @ [a])"
  defines "h' \<equiv> put_fwd (put_back (put_back (put_fwd h e b) e a) b e) a e"
  shows "ring h' (a # e # ps)" and "only_changes (set (a # e # ps)) h h'"
proof -
  have b: "b \<in> set (a # ps)" by (cases ps) (auto simp: b_def)
  have al: "alloc h a" "alloc h b" using ring_alloc [OF r] b by auto
  have "nxt h' = (nxt h)(e \<mapsto> b, a \<mapsto> e)" "prv h' = (prv h)(e \<mapsto> a, b \<mapsto> e)"
    using al e by (simp_all add: h'_def heap_simps)
  from ring_insert [OF r e(2) b_def [THEN meta_eq_to_obj_eq] this] show "ring h' (a # e # ps)" .
  have "h' x = h x" if "x \<notin> set (a # e # ps)" for x
  proof -
    have "x \<noteq> b" using b that by auto
    with that show ?thesis by (simp add: h'_def heap_simps)
  qed
  moreover have "alloc h' = alloc h" using al e by (simp add: h'_def heap_simps)
  ultimately show "only_changes (set (a # e # ps)) h h'" by (simp add: only_changes_def)
qed

lemma insert_head:
  assumes r: "ring h (a # ps)" and e: "alloc h e" "e \<notin> set (a # ps)"
    and f: "fits env (length (a # ps))"
  shows "\<exists>h'. InsertHeadList env h a e = Inr (h', a) \<and> ring h' (a # e # ps) \<and>
    only_changes (set (a # e # ps)) h h'"
proof -
  let ?b = "hd (ps @ [a])"
  have b: "?b \<in> set (a # ps)" by (cases ps) auto
  have al: "alloc h a" "alloc h ?b" using ring_alloc [OF r] b by auto
  have v: "ASSERT_VERIFY_NODE_IN_VALID_LIST env h a e False k = k" for k :: "(heap \<times> UINTN) res"
    using e by (intro verify_ring [OF r f]) (auto simp: alloc_def)
  have "InsertHeadList env h a e =
      Inr (put_fwd (put_back (put_back (put_fwd h e ?b) e a) ?b e) a e, a)"
    using al e ring_first [OF r]
    by (simp add: InsertHeadList_def v heap_simps)
  with insert_after [OF r e] show ?thesis by blast
qed

text \<open>Inserting before \<open>a\<close> is inserting after the last node of the ring read from \<open>a\<close>.\<close>

lemma insert_tail:
  assumes r: "ring h (a # ps)" and e: "alloc h e" "e \<notin> set (a # ps)"
    and f: "fits env (length (a # ps))"
  shows "\<exists>h'. InsertTailList env h a e = Inr (h', a) \<and> ring h' (a # ps @ [e]) \<and>
    only_changes (set (a # e # ps)) h h'"
proof -
  obtain qs l where l: "a # ps = qs @ [l]" by (cases "a # ps" rule: rev_cases) auto
  have r': "ring h (l # qs)" using r l ring_rotate1 by simp
  have hd: "hd (qs @ [l]) = a" unfolding l [symmetric] by simp
  have set: "set (l # qs) = set (a # ps)" unfolding l by auto
  have al: "alloc h a" "alloc h l" using ring_alloc [OF r] set by auto
  have last: "prv h a = Some l" using ring_last [OF r] l by simp
  have v: "ASSERT_VERIFY_NODE_IN_VALID_LIST env h a e False k = k" for k :: "(heap \<times> UINTN) res"
    using e by (intro verify_ring [OF r f]) (auto simp: alloc_def)
  have ea: "e \<noteq> a" "e \<noteq> l" using e set by auto
  then have eq: "InsertTailList env h a e =
      Inr (put_back (put_fwd (put_back (put_fwd h e a) e l) l e) a e, a)"
    using al e last
    by (simp add: InsertTailList_def v heap_simps)
  moreover have "put_back (put_fwd (put_back (put_fwd h e a) e l) l e) a e =
      put_fwd (put_back (put_back (put_fwd h e a) e l) a e) l e"
    using ea by (auto simp: put_back_def put_fwd_def fun_upd_def)
  moreover note insert_after [OF r' e(1), unfolded set hd, OF e(2)]
  moreover have "ring h' (l # e # qs) \<longleftrightarrow> ring h' (a # ps @ [e])" for h'
  proof -
    have "a # ps @ [e] = (qs @ [l]) @ [e]" unfolding l [symmetric] by simp
    then show ?thesis
      using ring_rotate [of h' "[l, e]" qs] by (simp only: append_assoc append.simps)
  qed
  moreover have "set (l # e # qs) = set (a # e # ps)" using set by auto
  ultimately show ?thesis by metis
qed

lemma remove_node:
  assumes r: "ring h (e # ps)" and ps: "ps \<noteq> []" and f: "fits env (length (e # ps))"
  shows "\<exists>h'. RemoveEntryList env h e = Inr (h', hd ps) \<and> ring h' ps \<and>
    h' e = h e \<and> only_changes (set (e # ps)) h h'"
proof -
  let ?a = "last ps" and ?b = "hd ps"
  have ab: "?a \<in> set ps" "?b \<in> set ps" and ne: "?a \<noteq> e" "?b \<noteq> e"
    using ps r by (auto simp: ring_def)
  have al: "alloc h ?a" "alloc h ?b" using ring_alloc [OF r] ab by auto
  have nb: "nxt h e = Some ?b" "prv h e = Some ?a"
    using ring_first [OF r] ring_last [OF r] ps by simp_all
  have "IsListEmpty env h e = Inr False"
    using nb ne by (simp add: IsListEmpty_def assert_valid_ring [OF r f] heap_simps)
  moreover define h' where "h' = put_fwd (put_back h ?b ?a) ?a ?b"
  ultimately have "RemoveEntryList env h e = Inr (h', ?b)"
    using al nb ne by (simp add: RemoveEntryList_def heap_simps)
  moreover have n: "nxt h' = (nxt h)(?a \<mapsto> ?b)" and p: "prv h' = (prv h)(?b \<mapsto> ?a)"
    and "alloc h' = alloc h"
    using al by (simp_all add: h'_def heap_simps)
  moreover have "h' x = h x" if "x \<notin> set ps" for x
  proof -
    have "x \<noteq> ?a" "x \<noteq> ?b" using that ab by auto
    then show ?thesis by (simp add: h'_def heap_simps)
  qed
  moreover have "e \<notin> set ps" using r by (simp add: ring_def)
  moreover note ring_remove [OF r ps n p]
  ultimately show ?thesis by (auto simp: only_changes_def)
qed

text \<open>\<open>swap_names\<close> exchanges two addresses: what \<open>SwapListEntries\<close> does to the list.\<close>

definition swap_names :: "UINTN \<Rightarrow> UINTN \<Rightarrow> UINTN \<Rightarrow> UINTN" where
  "swap_names x y z = (if z = x then y else if z = y then x else z)"

lemma swap_names_other: "x \<notin> set zs \<Longrightarrow> y \<notin> set zs \<Longrightarrow> map (swap_names x y) zs = zs"
  by (induction zs) (auto simp: swap_names_def)

lemma only_changes_trans:
  "only_changes S h h' \<Longrightarrow> only_changes S h' h'' \<Longrightarrow> only_changes S h h''"
  by (auto simp: only_changes_def)

lemma only_changes_mono: "only_changes S h h' \<Longrightarrow> S \<subseteq> T \<Longrightarrow> only_changes T h h'"
  by (auto simp: only_changes_def)

lemma ring_rotate_map: "ring h (map f (xs @ ys)) \<longleftrightarrow> ring h (map f (ys @ xs))"
  using ring_rotate [of h "map f xs" "map f ys"] by simp

lemma alloc_same: "only_changes S h h' \<Longrightarrow> alloc h x \<Longrightarrow> alloc h' x"
  by (simp add: only_changes_def)

text \<open>The three cases of the code, read from the first entry.\<close>

lemma swap_rotated:
  assumes r: "ring h (a # xs @ c # ys)" and f: "fits env (length (a # xs @ c # ys))"
  shows "\<exists>h'. SwapListEntries env h a c = Inr (h', c) \<and>
    ring h' (map (swap_names a c) (a # xs @ c # ys)) \<and>
    only_changes (set (a # xs @ c # ys)) h h'"
proof -
  let ?all = "set (a # xs @ c # ys)"
  have d: "distinct (a # xs @ c # ys)" using r by (simp add: ring_def)
  have al: "alloc h a" "alloc h c" using ring_alloc [OF r] by auto
  have v: "ASSERT_VERIFY_NODE_IN_VALID_LIST env h a c True k = k" for k :: "(heap \<times> UINTN) res"
    using al by (intro verify_ring [OF r f]) (auto simp: alloc_def)
  have ne: "a \<noteq> c" using d by auto
  have sw: "map (swap_names a c) (a # xs @ c # ys) = c # xs @ a # ys"
    using d ne by (simp add: swap_names_other) (simp add: swap_names_def)
  obtain h1 where h1: "RemoveEntryList env h a = Inr (h1, hd (xs @ c # ys))"
    and r1: "ring h1 (xs @ c # ys)" and o1: "only_changes ?all h h1"
    using remove_node [OF r _ f] by auto
  have r1c: "ring h1 (c # ys @ xs)" using r1 ring_rotate [of h1 xs "c # ys"] by simp
  have f1: "fits env (length (c # ys @ xs))" by (rule fits_less [OF f]) simp
  have a1: "alloc h1 a" "a \<notin> set (c # ys @ xs)" using alloc_same [OF o1 al(1)] d by auto
  obtain h2 where h2: "InsertHeadList env h1 c a = Inr (h2, c)" and r2: "ring h2 (c # a # ys @ xs)"
    and o2: "only_changes ?all h1 h2"
    using insert_head [OF r1c a1 f1] by (auto intro: only_changes_mono)
  obtain t2 where t2: "InsertTailList env h1 c a = Inr (t2, c)" and rt2: "ring t2 (c # (ys @ xs) @ [a])"
    and ot2: "only_changes ?all h1 t2"
    using insert_tail [OF r1c a1 f1] by (auto intro: only_changes_mono)
  show ?thesis
  proof (cases xs)
    case Nil
    then have bk: "get_back h1 c = Inr (last (c # ys))"
      using ring_last [of h1 c ys] r1 by (simp add: heap_simps)
    show ?thesis
    proof (cases "last (c # ys) = c")
      case True
      then have "ys = []" using d by (cases ys rule: rev_cases) auto
      then show ?thesis
        using h1 bk t2 rt2 ot2 o1 ne Nil sw
        by (auto simp: SwapListEntries_def v intro: only_changes_trans)
    next
      case False
      then show ?thesis
        using h1 bk h2 r2 o2 o1 ne Nil sw
        by (auto simp: SwapListEntries_def v intro: only_changes_trans)
    qed
  next
    case (Cons b zs)
    have bk: "get_back h1 b = Inr (last (c # ys))"
      using ring_last [of h1 b "zs @ c # ys"] r1 Cons by (simp add: heap_simps)
    show ?thesis
    proof (cases "ys = []")
      case True
      then show ?thesis
        using h1 bk t2 rt2 ot2 o1 ne Cons sw
        by (auto simp: SwapListEntries_def v intro: only_changes_trans)
    next
      case False
      then have last: "last (c # ys) \<noteq> c" and "b \<noteq> c" using d Cons by auto
      have f2: "fits env (length (c # a # ys @ xs))" by (rule fits_less [OF f]) simp
      obtain h3 where h3: "RemoveEntryList env h2 c = Inr (h3, a)" and r3: "ring h3 (a # ys @ xs)"
        and o3: "only_changes ?all h2 h3"
        using remove_node [OF r2 _ f2] by (auto intro: only_changes_mono)
      have "ring h3 (b # zs @ a # ys)" using r3 Cons ring_rotate [of h3 "a # ys" xs] by simp
      moreover have "alloc h3 c"
        using al o1 o2 o3 by (auto dest: alloc_same)
      moreover have "fits env (length (b # zs @ a # ys))" using Cons by (intro fits_less [OF f]) simp
      moreover have "c \<notin> set (b # zs @ a # ys)" using d Cons by auto
      ultimately obtain h4 where h4: "InsertTailList env h3 b c = Inr (h4, b)"
        and r4: "ring h4 (b # (zs @ a # ys) @ [c])" and o4: "only_changes ?all h3 h4"
        using insert_tail [of h3 b "zs @ a # ys" c env] Cons by (auto intro: only_changes_mono)
      have "ring h4 (c # xs @ a # ys)" using r4 Cons ring_rotate1 by simp
      moreover have "only_changes ?all h h4"
        using o1 o2 o3 o4 by (blast intro: only_changes_trans)
      ultimately show ?thesis
        using h1 bk h2 h3 h4 ne last \<open>b \<noteq> c\<close> Cons sw
        by (simp add: SwapListEntries_def v)
    qed
  qed
qed

lemma swap_ring:
  assumes r: "ring h ps" and m: "x \<in> set ps" "y \<in> set ps" and f: "fits env (length ps)"
  shows "\<exists>h'. SwapListEntries env h x y = Inr (h', y) \<and> ring h' (map (swap_names x y) ps) \<and>
    only_changes (set ps) h h'"
proof (cases "x = y")
  case True
  then have "swap_names x y = id" by (auto simp: swap_names_def)
  with True r show ?thesis by (auto simp: SwapListEntries_def only_changes_def)
next
  case False
  obtain us vs where ps: "ps = us @ x # vs" using m(1) by (auto simp: in_set_conv_decomp)
  then have "y \<in> set (vs @ us)" using m(2) False by auto
  from split_list [OF this] obtain xs ys where vu: "vs @ us = xs @ y # ys" by blast
  have "ring h (x # xs @ y # ys)" using r ps ring_rotate [of h us "x # vs"] vu by simp
  moreover have "length (x # xs @ y # ys) = length ps" "set (x # xs @ y # ys) = set ps"
    using arg_cong [OF vu, of length] arg_cong [OF vu, of set] ps by auto
  ultimately obtain h' where h': "SwapListEntries env h x y = Inr (h', y)"
    and r': "ring h' (map (swap_names x y) (x # xs @ y # ys))" and o: "only_changes (set ps) h h'"
    using swap_rotated [of h x xs y ys env] f by auto
  have "x # xs @ y # ys = (x # vs) @ us" using vu by simp
  then have "ring h' (map (swap_names x y) (us @ x # vs))"
    using r' ring_rotate_map [of h' "swap_names x y" "x # vs" us] by (simp only: ps)
  with h' o ps show ?thesis by blast
qed

section \<open>Queries on a ring\<close>

lemma ring_next:
  assumes "ring h (xs @ p # ys)"
  shows "nxt h p = Some (hd (ys @ xs @ [p]))" and "prv h p = Some (last (p # ys @ xs))"
  using assms ring_rotate [of h xs "p # ys"] ring_first [of h p "ys @ xs"] ring_last [of h p "ys @ xs"]
  by auto

lemma first_node:
  "ring h (a # ps) \<Longrightarrow> fits env (length (a # ps)) \<Longrightarrow> GetFirstNode env h a = Inr (hd (ps @ [a]))"
  by (simp add: GetFirstNode_def assert_valid_ring ring_first heap_simps)

lemma list_empty:
  assumes "ring h (a # ps)" "fits env (length (a # ps))"
  shows "IsListEmpty env h a = Inr (ps = [])"
proof -
  have "hd (ps @ [a]) = a \<longleftrightarrow> ps = []" using assms(1) by (cases ps) (auto simp: ring_def)
  with assms show ?thesis
    by (simp add: IsListEmpty_def assert_valid_ring ring_first heap_simps)
qed

lemma node_queries:
  assumes r: "ring h (a # ps)" and f: "fits env (length (a # ps))" and ps: "a # ps = xs @ p # ys"
  shows "GetNextNode env h a p = Inr (hd (ys @ xs @ [p]))"
    and "GetPreviousNode env h a p = Inr (last (p # ys @ xs))"
    and "IsNull env h a p = Inr (p = a)"
    and "IsNodeAtEnd env h a p = Inr (p \<noteq> a \<and> ys = [])"
proof -
  have m: "p \<in> set (a # ps)" unfolding ps by simp
  then have "p \<noteq> NULL" using ring_alloc [OF r] by (auto simp: alloc_def)
  then have v: "ASSERT_VERIFY_NODE_IN_VALID_LIST env h a p True k = k" for k :: "'b res"
    using m by (intro verify_ring [OF r f]) auto
  note links = ring_next [OF r [unfolded ps]]
  show "GetNextNode env h a p = Inr (hd (ys @ xs @ [p]))"
    by (simp add: GetNextNode_def v heap_simps links)
  show "GetPreviousNode env h a p = Inr (last (p # ys @ xs))"
    using links(2) by (simp add: GetPreviousNode_def v heap_simps del: last.simps)
  show n: "IsNull env h a p = Inr (p = a)" by (simp add: IsNull_def v)
  have "last (a # ps) = p \<longleftrightarrow> ys = []"
    using r ps by (cases ys rule: rev_cases) (auto simp: ring_def)
  then show "IsNodeAtEnd env h a p = Inr (p \<noteq> a \<and> ys = [])"
    using ring_last [OF r] by (simp add: IsNodeAtEnd_def v n heap_simps del: last.simps)
qed

text \<open>A ring at or over the limit stops every operation in its assertion.\<close>

lemma too_long_invalid:
  assumes r: "ring h (a # ps)" and on: "asserts_on env"
    and long: "\<not> fits_limit (PcdMaximumLinkedListLength env) (length (a # ps))"
  shows "ASSERT_CALL env (InternalBaseLibIsListValid env h a) k = Inl AssertFailed"
  using valid_ring [OF r, of env] long on by (simp add: ASSERT_CALL_False)

lemma too_long_verify:
  assumes "ring h (a # ps)" "asserts_on env"
    and "\<not> fits_limit (PcdMaximumLinkedListLength env) (length (a # ps))"
  shows "ASSERT_VERIFY_NODE_IN_VALID_LIST env h a n b k = Inl AssertFailed"
  using assms
  by (simp add: ASSERT_VERIFY_NODE_IN_VALID_LIST_def IsNodeInList_def too_long_invalid
      ASSERT_CALL_Inl)

lemmas too_long_stops = too_long_invalid too_long_verify



section \<open>The interface of a node list and its clients\<close>

text \<open>
  What a client of the library relies on, with the list as a sequence of nodes: a node can
  be pushed at either end, the first node can be read and unlinked, emptiness can be tested.
  \<open>push_each\<close> and \<open>drain\<close> are the two loops every client writes.
\<close>

fun push_each :: "('h \<Rightarrow> 'n \<Rightarrow> 'n \<Rightarrow> ('h \<times> 'n) res) \<Rightarrow> 'h \<Rightarrow> 'n \<Rightarrow> 'n list \<Rightarrow> 'h res" where
  "push_each push h l [] = Inr h"
| "push_each push h l (e # es) = bindr (push h l e) (\<lambda>(h', _). push_each push h' l es)"

fun drain :: "('h \<Rightarrow> 'n \<Rightarrow> bool res) \<Rightarrow> ('h \<Rightarrow> 'n \<Rightarrow> 'n res) \<Rightarrow> ('h \<Rightarrow> 'n \<Rightarrow> ('h \<times> 'n) res) \<Rightarrow>
    nat \<Rightarrow> 'h \<Rightarrow> 'n \<Rightarrow> ('h \<times> 'n list) res" where
  "drain is_empty first remove 0 h l = Inl Hang"
| "drain is_empty first remove (Suc n) h l =
     bindr (is_empty h l) (\<lambda>b.
       if b then Inr (h, [])
       else bindr (first h l) (\<lambda>x.
            bindr (remove h x) (\<lambda>(h', _).
            bindr (drain is_empty first remove n h' l) (\<lambda>(h'', xs). Inr (h'', x # xs)))))"

locale node_list =
  fixes rep :: "'h \<Rightarrow> 'n \<Rightarrow> 'n list \<Rightarrow> bool"
    and usable :: "'h \<Rightarrow> 'n \<Rightarrow> bool"
    and room :: "nat \<Rightarrow> bool"
    and push_front :: "'h \<Rightarrow> 'n \<Rightarrow> 'n \<Rightarrow> ('h \<times> 'n) res"
    and push_back :: "'h \<Rightarrow> 'n \<Rightarrow> 'n \<Rightarrow> ('h \<times> 'n) res"
    and first :: "'h \<Rightarrow> 'n \<Rightarrow> 'n res"
    and is_empty :: "'h \<Rightarrow> 'n \<Rightarrow> bool res"
    and remove :: "'h \<Rightarrow> 'n \<Rightarrow> ('h \<times> 'n) res"
  assumes front_rep: "rep h l xs \<Longrightarrow> usable h e \<Longrightarrow> e \<notin> set (l # xs) \<Longrightarrow> room (length xs) \<Longrightarrow>
      \<exists>h'. push_front h l e = Inr (h', l) \<and> rep h' l (e # xs) \<and> usable h' = usable h"
    and back_rep: "rep h l xs \<Longrightarrow> usable h e \<Longrightarrow> e \<notin> set (l # xs) \<Longrightarrow> room (length xs) \<Longrightarrow>
      \<exists>h'. push_back h l e = Inr (h', l) \<and> rep h' l (xs @ [e]) \<and> usable h' = usable h"
    and first_rep: "rep h l (x # xs) \<Longrightarrow> room (length (x # xs)) \<Longrightarrow> first h l = Inr x"
    and empty_rep: "rep h l xs \<Longrightarrow> room (length xs) \<Longrightarrow> is_empty h l = Inr (xs = [])"
    and remove_rep: "rep h l (x # xs) \<Longrightarrow> room (length (x # xs)) \<Longrightarrow>
      \<exists>h'. remove h x = Inr (h', hd (xs @ [l])) \<and> rep h' l xs \<and> usable h' = usable h"
    and room_less: "room n \<Longrightarrow> k \<le> n \<Longrightarrow> room k"
begin

lemma push_back_each:
  assumes "rep h l xs" "distinct (l # xs @ es)" "\<forall>e\<in>set es. usable h e" "room (length (xs @ es))"
  shows "\<exists>h'. push_each push_back h l es = Inr h' \<and> rep h' l (xs @ es) \<and> usable h' = usable h"
  using assms
proof (induction es arbitrary: h xs)
  case (Cons e es)
  have "room (length xs)" by (rule room_less [OF Cons.prems(4)]) simp
  moreover have "e \<notin> set (l # xs)" "usable h e" using Cons.prems by auto
  ultimately obtain h' where h': "push_back h l e = Inr (h', l)" "rep h' l (xs @ [e])"
    "usable h' = usable h"
    using back_rep [OF Cons.prems(1)] by blast
  with Cons.IH [of h' "xs @ [e]"] Cons.prems show ?case by auto
qed simp

lemma push_front_each:
  assumes "rep h l xs" "distinct (l # xs @ es)" "\<forall>e\<in>set es. usable h e" "room (length (xs @ es))"
  shows "\<exists>h'. push_each push_front h l es = Inr h' \<and> rep h' l (rev es @ xs) \<and> usable h' = usable h"
  using assms
proof (induction es arbitrary: h xs)
  case (Cons e es)
  have "room (length xs)" by (rule room_less [OF Cons.prems(4)]) simp
  moreover have "e \<notin> set (l # xs)" "usable h e" using Cons.prems by auto
  ultimately obtain h' where h': "push_front h l e = Inr (h', l)" "rep h' l (e # xs)"
    "usable h' = usable h"
    using front_rep [OF Cons.prems(1)] by blast
  have "room (length ((e # xs) @ es))" by (rule room_less [OF Cons.prems(4)]) simp
  with Cons.IH [of h' "e # xs"] Cons.prems h' show ?case by auto
qed simp

lemma drain_all:
  assumes "rep h l xs" "room (length xs)" "length xs < n"
  shows "\<exists>h'. drain is_empty first remove n h l = Inr (h', xs) \<and> rep h' l []"
  using assms
proof (induction xs arbitrary: h n)
  case Nil
  then show ?case using empty_rep [OF Nil.prems(1)] by (cases n) auto
next
  case (Cons x xs)
  then obtain k where k: "n = Suc k" "length xs < k" by (cases n) auto
  obtain h' where h': "remove h x = Inr (h', hd (xs @ [l]))" "rep h' l xs"
    using remove_rep [OF Cons.prems(1,2)] by blast
  have "room (length xs)" by (rule room_less [OF Cons.prems(2)]) simp
  from Cons.IH [OF h'(2) this k(2)] obtain h'' where
    "drain is_empty first remove k h' l = Inr (h'', xs)" "rep h'' l []" by blast
  then show ?case
    using Cons.prems h' k empty_rep [OF Cons.prems(1,2)] first_rep [OF Cons.prems(1,2)] by simp
qed

text \<open>Pushed at the back, nodes come out in order; pushed at the front, in reverse order.\<close>

lemma fifo:
  assumes "rep h l []" "distinct (l # es)" "\<forall>e\<in>set es. usable h e" "room (length es)" "length es < n"
  shows "\<exists>h1 h2. push_each push_back h l es = Inr h1 \<and> rep h1 l es \<and>
    drain is_empty first remove n h1 l = Inr (h2, es) \<and> rep h2 l []"
  using push_back_each [of h l "[]" es] assms drain_all [of _ l es n] by fastforce

lemma lifo:
  assumes "rep h l []" "distinct (l # es)" "\<forall>e\<in>set es. usable h e" "room (length es)" "length es < n"
  shows "\<exists>h1 h2. push_each push_front h l es = Inr h1 \<and> rep h1 l (rev es) \<and>
    drain is_empty first remove n h1 l = Inr (h2, rev es) \<and> rep h2 l []"
  using push_front_each [of h l "[]" es] assms drain_all [of _ l "rev es" n] by fastforce

end

definition list_rep :: "heap \<Rightarrow> UINTN \<Rightarrow> UINTN list \<Rightarrow> bool" where
  "list_rep h l xs \<longleftrightarrow> ring h (l # xs)"

interpretation nl: node_list list_rep alloc "\<lambda>n. fits env (Suc n)" "InsertHeadList env"
  "InsertTailList env" "GetFirstNode env" "IsListEmpty env" "RemoveEntryList env" for env
proof unfold_locales
  fix h l xs e x and n k :: nat
  show "list_rep h l xs \<Longrightarrow> alloc h e \<Longrightarrow> e \<notin> set (l # xs) \<Longrightarrow> fits env (Suc (length xs)) \<Longrightarrow>
      \<exists>h'. InsertHeadList env h l e = Inr (h', l) \<and> list_rep h' l (e # xs) \<and> alloc h' = alloc h"
    using insert_head [of h l xs e env] by (auto simp: list_rep_def only_changes_def)
  show "list_rep h l xs \<Longrightarrow> alloc h e \<Longrightarrow> e \<notin> set (l # xs) \<Longrightarrow> fits env (Suc (length xs)) \<Longrightarrow>
      \<exists>h'. InsertTailList env h l e = Inr (h', l) \<and> list_rep h' l (xs @ [e]) \<and> alloc h' = alloc h"
    using insert_tail [of h l xs e env] by (auto simp: list_rep_def only_changes_def)
  show "list_rep h l (x # xs) \<Longrightarrow> fits env (Suc (length (x # xs))) \<Longrightarrow> GetFirstNode env h l = Inr x"
    using first_node [of h l "x # xs" env] by (simp add: list_rep_def)
  show "list_rep h l xs \<Longrightarrow> fits env (Suc (length xs)) \<Longrightarrow> IsListEmpty env h l = Inr (xs = [])"
    using list_empty [of h l xs env] by (simp add: list_rep_def)
  show "list_rep h l (x # xs) \<Longrightarrow> fits env (Suc (length (x # xs))) \<Longrightarrow>
      \<exists>h'. RemoveEntryList env h x = Inr (h', hd (xs @ [l])) \<and> list_rep h' l xs \<and> alloc h' = alloc h"
    using remove_node [of h x "xs @ [l]" env] ring_rotate1 [of h l "x # xs"] ring_rotate1 [of _ l xs]
    by (auto simp: list_rep_def only_changes_def)
  show "fits env (Suc n) \<Longrightarrow> k \<le> n \<Longrightarrow> fits env (Suc k)"
    by (erule fits_less) simp
qed

section \<open>Iteration\<close>

lemma for_each_chain:
  "chain h (qs @ [L]) \<Longrightarrow> L \<notin> set qs \<Longrightarrow>
   for_each_loop h L (hd (qs @ [L])) seen = Some (Inr (seen @ qs))"
proof (induction qs arbitrary: seen)
  case Nil
  show ?case by (subst for_each_loop.simps) simp
next
  case (Cons q qs)
  then have "nxt h q = Some (hd (qs @ [L]))" "chain h (qs @ [L])"
    by (cases qs; simp add: linked_def)+
  with Cons show ?case by (subst for_each_loop.simps) (auto simp: heap_simps)
qed

lemma for_each_ring: "ring h (l # xs) \<Longrightarrow> BASE_LIST_FOR_EACH h l = Some (Inr xs)"
proof -
  assume r: "ring h (l # xs)"
  then have "chain h (xs @ [l])" "l \<notin> set xs" by (cases xs; auto simp: ring_def)+
  then show ?thesis
    using for_each_chain [of h xs l "[]"] ring_first [OF r]
    by (simp add: BASE_LIST_FOR_EACH_def heap_simps)
qed

lemma for_each_safe_remove:
  assumes "ring h (l # xs)" "fits env (length (l # xs))"
  shows "\<exists>h'. for_each_safe_loop (\<lambda>h e. map_res fst (RemoveEntryList env h e)) l h
      (hd (xs @ [l])) (hd (tl (xs @ [l]) @ [l])) = Some (Inr h') \<and> ring h' [l]"
  using assms
proof (induction xs arbitrary: h)
  case Nil
  then show ?case by (subst for_each_safe_loop.simps) simp
next
  case (Cons x xs)
  have "ring h (x # xs @ [l])" using Cons.prems ring_rotate1 [of h l "x # xs"] by simp
  then obtain h' where h': "RemoveEntryList env h x = Inr (h', hd (xs @ [l]))" "ring h' (l # xs)"
    using remove_node [of h x "xs @ [l]" env] Cons.prems(2) ring_rotate1 by auto
  moreover have "x \<noteq> l" using Cons.prems by (auto simp: ring_def)
  moreover have "fits env (length (l # xs))" by (rule fits_less [OF Cons.prems(2)]) simp
  note Cons.IH [OF h'(2) this]
  moreover have "nxt h' (hd (xs @ [l])) = Some (hd (tl (xs @ [l]) @ [l]))"
    using h'(2) ring_next(1) [of h' "[l]" "hd xs" "tl xs"] ring_first [of h' l xs]
    by (cases xs; cases "tl xs") auto
  moreover have "hd (xs @ [l, l]) = hd (xs @ [l])" by (cases xs) auto
  ultimately show ?case
    by (subst for_each_safe_loop.simps) (auto simp: heap_simps)
qed

section \<open>A heap of many lists\<close>

text \<open>
  The abstract state maps each head to the nodes of its list. \<open>abs_step\<close> says what an
  operation means there, with the conditions its contract puts on the caller; \<open>run_op\<close>
  runs the code. \<open>lists_ok\<close> relates the two: the lists are rings, pairwise disjoint.
\<close>

datatype list_op =
    OpInit UINTN
  | OpInsertHead UINTN UINTN
  | OpInsertTail UINTN UINTN
  | OpRemove UINTN
  | OpSwap UINTN UINTN

fun run_op :: "build_env \<Rightarrow> heap \<Rightarrow> list_op \<Rightarrow> heap res" where
  "run_op env h (OpInit l) = map_res fst (InitializeListHead env h l)"
| "run_op env h (OpInsertHead l e) = map_res fst (InsertHeadList env h l e)"
| "run_op env h (OpInsertTail l e) = map_res fst (InsertTailList env h l e)"
| "run_op env h (OpRemove e) = map_res fst (RemoveEntryList env h e)"
| "run_op env h (OpSwap x y) = map_res fst (SwapListEntries env h x y)"

fun run_ops :: "build_env \<Rightarrow> heap \<Rightarrow> list_op list \<Rightarrow> heap res" where
  "run_ops env h [] = Inr h"
| "run_ops env h (op # ops) = bindr (run_op env h op) (\<lambda>h'. run_ops env h' ops)"

type_synonym lists = "UINTN \<Rightarrow> UINTN list option"

definition member_of :: "lists \<Rightarrow> UINTN \<Rightarrow> bool" where
  "member_of A x \<longleftrightarrow> (\<exists>l xs. A l = Some xs \<and> x \<in> set (l # xs))"

inductive abs_step :: "build_env \<Rightarrow> (UINTN \<Rightarrow> bool) \<Rightarrow> lists \<Rightarrow> list_op \<Rightarrow> lists \<Rightarrow> bool"
  for env U where
  init: "U l \<Longrightarrow> \<not> member_of A l \<Longrightarrow> abs_step env U A (OpInit l) (A(l \<mapsto> []))"
| head: "A l = Some xs \<Longrightarrow> U e \<Longrightarrow> \<not> member_of A e \<Longrightarrow> fits env (Suc (length xs)) \<Longrightarrow>
    abs_step env U A (OpInsertHead l e) (A(l \<mapsto> e # xs))"
| tail: "A l = Some xs \<Longrightarrow> U e \<Longrightarrow> \<not> member_of A e \<Longrightarrow> fits env (Suc (length xs)) \<Longrightarrow>
    abs_step env U A (OpInsertTail l e) (A(l \<mapsto> xs @ [e]))"
| remove: "A l = Some (xs @ e # ys) \<Longrightarrow> fits env (Suc (length (xs @ e # ys))) \<Longrightarrow>
    abs_step env U A (OpRemove e) (A(l \<mapsto> xs @ ys))"
| swap: "A l = Some xs \<Longrightarrow> x \<in> set xs \<Longrightarrow> y \<in> set xs \<Longrightarrow> fits env (Suc (length xs)) \<Longrightarrow>
    abs_step env U A (OpSwap x y) (A(l \<mapsto> map (swap_names x y) xs))"

inductive abs_run :: "build_env \<Rightarrow> (UINTN \<Rightarrow> bool) \<Rightarrow> lists \<Rightarrow> list_op list \<Rightarrow> lists \<Rightarrow> bool"
  for env U where
  stop: "abs_run env U A [] A"
| step: "abs_step env U A op B \<Longrightarrow> abs_run env U B ops C \<Longrightarrow> abs_run env U A (op # ops) C"

inductive_simps abs_run_simps [simp]: "abs_run env U A [] B" "abs_run env U A (op # ops) B"

definition lists_ok :: "heap \<Rightarrow> lists \<Rightarrow> bool" where
  "lists_ok h A \<longleftrightarrow>
     (\<forall>l xs. A l = Some xs \<longrightarrow> ring h (l # xs)) \<and>
     (\<forall>l xs l' xs'. A l = Some xs \<longrightarrow> A l' = Some xs' \<longrightarrow> l \<noteq> l' \<longrightarrow>
        set (l # xs) \<inter> set (l' # xs') = {})"

text \<open>A change confined to one list and to nodes of no list keeps all the others.\<close>

lemma lists_ok_update:
  assumes ok: "lists_ok h A" and oc: "only_changes S h h'" and r: "ring h' (l # ys)"
    and sub: "set (l # ys) \<subseteq> S"
    and dis: "\<And>k xs. A k = Some xs \<Longrightarrow> k \<noteq> l \<Longrightarrow> S \<inter> set (k # xs) = {}"
  shows "lists_ok h' (A(l \<mapsto> ys))"
  unfolding lists_ok_def
proof (intro conjI allI impI)
  fix k xs assume "(A(l \<mapsto> ys)) k = Some xs"
  then show "ring h' (k # xs)"
    using r ok dis [of k xs] ring_frame [of h "k # xs" S h'] oc
    by (cases "k = l") (auto simp: lists_ok_def)
next
  fix k xs k' xs'
  assume a: "(A(l \<mapsto> ys)) k = Some xs" "(A(l \<mapsto> ys)) k' = Some xs'" "k \<noteq> k'"
  show "set (k # xs) \<inter> set (k' # xs') = {}"
  proof (cases "k = l")
    case True
    then have "A k' = Some xs'" "k' \<noteq> l" "xs = ys" using a by auto
    from dis [OF this(1,2)] sub True \<open>xs = ys\<close> show ?thesis by blast
  next
    case False
    show ?thesis
    proof (cases "k' = l")
      case True
      then have "A k = Some xs" "xs' = ys" using a False by auto
      from dis [OF this(1) False] sub True \<open>xs' = ys\<close> show ?thesis by blast
    next
      case k': False
      with a False ok show ?thesis by (simp add: lists_ok_def)
    qed
  qed
qed

lemma other_lists:
  assumes "lists_ok h A" "A l = Some xs" "A k = Some zs" "k \<noteq> l"
  shows "set (l # xs) \<inter> set (k # zs) = {}"
  using assms unfolding lists_ok_def by (metis (no_types, lifting))

lemma not_member_disjoint: "\<not> member_of A e \<Longrightarrow> A k = Some zs \<Longrightarrow> e \<notin> set (k # zs)"
  by (auto simp: member_of_def)

lemma insert_disjoint:
  assumes "lists_ok h A" "A l = Some xs" "\<not> member_of A e" "A k = Some zs" "k \<noteq> l"
  shows "set (l # e # xs) \<inter> set (k # zs) = {}"
  using other_lists [OF assms(1,2,4,5)] not_member_disjoint [OF assms(3,4)] by auto

text \<open>One operation of the code does what the abstract step says.\<close>

lemma op_simulates:
  assumes ok: "lists_ok h A" and st: "abs_step env (alloc h) A op B"
  shows "\<exists>h'. run_op env h op = Inr h' \<and> lists_ok h' B \<and> alloc h' = alloc h"
  using st
proof cases
  case (init l)
  obtain h' where h': "InitializeListHead env h l = Inr (h', l)" "ring h' [l]" "only_changes {l} h h'"
    using head_is_ring [OF init(3)] by blast
  have "lists_ok h' (A(l \<mapsto> []))"
    using not_member_disjoint [OF init(4)] by (intro lists_ok_update [OF ok h'(3,2)]) auto
  with h' init show ?thesis by (auto simp: only_changes_def)
next
  case (head l xs e)
  have r: "ring h (l # xs)" using ok head(3) by (simp add: lists_ok_def)
  have "e \<notin> set (l # xs)" by (rule not_member_disjoint [OF head(5,3)])
  with insert_head [OF r head(4)] head(6) obtain h' where h':
    "InsertHeadList env h l e = Inr (h', l)" "ring h' (l # e # xs)"
    "only_changes (set (l # e # xs)) h h'" by auto
  have "lists_ok h' (A(l \<mapsto> e # xs))"
    using insert_disjoint [OF ok head(3,5)] by (intro lists_ok_update [OF ok h'(3,2)]) auto
  with h' head show ?thesis by (auto simp: only_changes_def)
next
  case (tail l xs e)
  have r: "ring h (l # xs)" using ok tail(3) by (simp add: lists_ok_def)
  have "e \<notin> set (l # xs)" by (rule not_member_disjoint [OF tail(5,3)])
  with insert_tail [OF r tail(4)] tail(6) obtain h' where h':
    "InsertTailList env h l e = Inr (h', l)" "ring h' (l # xs @ [e])"
    "only_changes (set (l # e # xs)) h h'" by auto
  have "lists_ok h' (A(l \<mapsto> xs @ [e]))"
    using insert_disjoint [OF ok tail(3,5)] by (intro lists_ok_update [OF ok h'(3,2)]) auto
  with h' tail show ?thesis by (auto simp: only_changes_def)
next
  case (remove l xs e ys)
  have "ring h (l # xs @ e # ys)" using ok remove(3) by (simp add: lists_ok_def)
  then have r: "ring h (e # ys @ l # xs)" using ring_rotate [of h "l # xs" "e # ys"] by simp
  have "fits env (length (e # ys @ l # xs))" by (rule fits_less [OF remove(4)]) simp
  with remove_node [OF r] obtain h' where h': "RemoveEntryList env h e = Inr (h', hd (ys @ l # xs))"
    "ring h' (ys @ l # xs)" "only_changes (set (e # ys @ l # xs)) h h'" by auto
  have r': "ring h' (l # xs @ ys)" using h'(2) ring_rotate [of h' ys "l # xs"] by simp
  have "lists_ok h' (A(l \<mapsto> xs @ ys))"
    using other_lists [OF ok remove(3)] by (intro lists_ok_update [OF ok h'(3) r']) auto
  with h' remove show ?thesis by (auto simp: only_changes_def)
next
  case (swap l xs x y)
  have r: "ring h (l # xs)" using ok swap(3) by (simp add: lists_ok_def)
  then have l: "l \<notin> set xs" by (simp add: ring_def)
  obtain h' where h': "SwapListEntries env h x y = Inr (h', y)"
    "ring h' (map (swap_names x y) (l # xs))" "only_changes (set (l # xs)) h h'"
    using swap_ring [OF r, of x y env] swap by auto
  have fl: "swap_names x y l = l" using l swap by (auto simp: swap_names_def)
  have "set (map (swap_names x y) xs) \<subseteq> set xs" using swap by (auto simp: swap_names_def)
  then have "lists_ok h' (A(l \<mapsto> map (swap_names x y) xs))"
    using h'(2) fl other_lists [OF ok swap(3)]
    by (intro lists_ok_update [OF ok h'(3)]) auto
  with h' swap show ?thesis by (auto simp: only_changes_def)
qed

lemma ops_simulate:
  "abs_run env U A ops B \<Longrightarrow> lists_ok h A \<Longrightarrow> U = alloc h \<Longrightarrow>
   \<exists>h'. run_ops env h ops = Inr h' \<and> lists_ok h' B \<and> alloc h' = alloc h"
proof (induction arbitrary: h rule: abs_run.induct)
  case (step A op B ops C)
  obtain h1 where h1: "run_op env h op = Inr h1" "lists_ok h1 B" "alloc h1 = alloc h"
    using op_simulates [OF step.prems(1) step.hyps(1) [unfolded step.prems(2)]] by metis
  obtain h2 where "run_ops env h1 ops = Inr h2" "lists_ok h2 C" "alloc h2 = alloc h1"
    using step.IH [OF h1(2)] step.prems(2) h1(3) by metis
  with h1 show ?case by simp
qed simp






section \<open>Properties\<close>

definition zero_heap :: "UINTN list \<Rightarrow> heap" where
  "zero_heap ps = (\<lambda>x. if x \<in> set ps then Some \<lparr>ForwardLink = 0, BackLink = 0\<rparr> else None)"

definition ring_heap :: "UINTN list \<Rightarrow> heap" where
  "ring_heap ps = (\<lambda>x. map_of (zip ps
     (map (\<lambda>(f, b). \<lparr>ForwardLink = f, BackLink = b\<rparr>) (zip (rotate1 ps) (last ps # butlast ps)))) x)"

lemma sample_ring: "ring (ring_heap [16, 32, 48, 64]) [16, 32, 48, 64]"
  by (simp add: ring_def ring_heap_def linked_def nxt_def prv_def NULL_def)

lemma debug_fits: "n < 1000000 \<Longrightarrow> fits debug_env n"
  by (simp add: fits_def fits_limit_def debug_env_def)

text \<open>
  C1. Refinement of the whole component: on a heap that holds disjoint lists, every sequence
  of initialisations, insertions, removals and swaps that respects the contracts runs in the
  code without a fault, and leaves the heap holding exactly the lists that the same sequence
  of steps gives on the abstract lists; no node is lost and no other list is touched.
\<close>

theorem list_run_refines:
  assumes "lists_ok h A" "abs_run env (alloc h) A ops B"
  shows "\<exists>h'. run_ops env h ops = Inr h' \<and> lists_ok h' B \<and> alloc h' = alloc h"
  using ops_simulate [OF assms(2,1)] by simp

theorem list_run_refines_witness:
  "\<exists>h'. run_ops debug_env (zero_heap [16, 32, 48, 64])
      [OpInit 16, OpInsertTail 16 32, OpInsertTail 16 48, OpInsertHead 16 64, OpSwap 64 48,
       OpRemove 32] = Inr h' \<and>
    lists_ok h' (Map.empty(16 \<mapsto> [48, 64]))"
proof -
  let ?h = "zero_heap [16, 32, 48, 64]" and ?U = "alloc (zero_heap [16, 32, 48, 64])"
  have U: "?U 16" "?U 32" "?U 48" "?U 64" by (simp_all add: alloc_def zero_heap_def NULL_def)
  have ok: "lists_ok ?h Map.empty" by (simp add: lists_ok_def)
  note i = abs_step.init [of ?U 16 Map.empty debug_env]
    and t1 = abs_step.tail [of "[16 \<mapsto> []]" 16 "[]" ?U 32 debug_env]
    and t2 = abs_step.tail [of "[16 \<mapsto> [32]]" 16 "[32]" ?U 48 debug_env]
    and t3 = abs_step.head [of "[16 \<mapsto> [32, 48]]" 16 "[32, 48]" ?U 64 debug_env]
    
  have t4: "abs_step debug_env ?U [16 \<mapsto> [64, 32, 48]] (OpSwap 64 48) [16 \<mapsto> [48, 32, 64]]"
    using abs_step.swap [of "[16 \<mapsto> [64, 32, 48]]" 16 "[64, 32, 48]" 64 48 debug_env ?U]
    by (simp add: debug_fits swap_names_def)
  have t5: "abs_step debug_env ?U [16 \<mapsto> [48, 32, 64]] (OpRemove 32) [16 \<mapsto> [48, 64]]"
    using abs_step.remove [of "[16 \<mapsto> [48, 32, 64]]" 16 "[48]" 32 "[64]" debug_env ?U]
    by (simp add: debug_fits)
  have "abs_run debug_env ?U Map.empty [OpInit 16, OpInsertTail 16 32, OpInsertTail 16 48,
      OpInsertHead 16 64, OpSwap 64 48, OpRemove 32] (Map.empty(16 \<mapsto> [48, 64]))"
    by (simp, intro exI conjI)
      (rule i t1 t2 t3 t4 t5 | simp add: U member_of_def debug_fits swap_names_def)+
  from list_run_refines [OF ok this] show ?thesis by blast
qed

text \<open>
  C11. \<open>SwapListEntries\<close> exchanges the positions of two nodes of a list in every case of the
  code: adjacent in either order, a list of two, or apart; all other nodes keep their
  places, the second node is returned, and nothing outside the list changes. In a build that evaluates assertions
  this is for lists shorter than the limit, if there is one.
\<close>

theorem swap_list_entries:
  assumes "ring h ps" "x \<in> set ps" "y \<in> set ps" "fits env (length ps)"
  shows "\<exists>h'. SwapListEntries env h x y = Inr (h', y) \<and>
    ring h' (map (\<lambda>z. if z = x then y else if z = y then x else z) ps) \<and>
    (\<forall>z. z \<notin> set ps \<longrightarrow> h' z = h z)"
proof -
  have "swap_names x y = (\<lambda>z. if z = x then y else if z = y then x else z)"
    by (simp add: fun_eq_iff swap_names_def)
  then show ?thesis using swap_ring [OF assms] by (auto simp: only_changes_def)
qed

theorem swap_list_entries_witness:
  "\<exists>h'. SwapListEntries debug_env (ring_heap [16, 32, 48, 64]) 32 64 = Inr (h', 64) \<and>
     ring h' [16, 64, 48, 32]"
  using swap_list_entries [OF sample_ring, of 32 64 debug_env] by (auto simp: debug_fits)

text \<open>
  \<open>RemoveEntryList\<close> unlinks a node from wherever it is: the rest of the list stays in
  order, the node that followed it is returned, and the removed node keeps its own links.
\<close>

theorem remove_entry_list:
  assumes "ring h (xs @ e # ys)" "xs @ ys \<noteq> []" "fits env (length (xs @ e # ys))"
  shows "\<exists>h'. RemoveEntryList env h e = Inr (h', hd (ys @ xs)) \<and> ring h' (xs @ ys) \<and>
    h' e = h e \<and> (\<forall>z. z \<notin> set (xs @ ys) \<longrightarrow> h' z = h z)"
proof -
  have r: "ring h (e # ys @ xs)" using assms(1) ring_rotate [of h xs "e # ys"] by simp
  have "ys @ xs \<noteq> []" "fits env (length (e # ys @ xs))"
    using assms by (auto intro: fits_less)
  from remove_node [OF r this] show ?thesis
    using ring_rotate [of _ ys xs] by (simp add: only_changes_def) metis
qed

theorem remove_entry_list_witness:
  "\<exists>h'. RemoveEntryList debug_env (ring_heap [16, 32, 48, 64]) 32 = Inr (h', 48) \<and>
     ring h' [16, 48, 64]"
  using remove_entry_list [of "ring_heap [16, 32, 48, 64]" "[16]" 32 "[48, 64]" debug_env] sample_ring
  by (auto simp: debug_fits)

text \<open>
  Queues and stacks: nodes pushed one by one with \<open>InsertTailList\<close> come out of the loop
  over \<open>IsListEmpty\<close>, \<open>GetFirstNode\<close> and \<open>RemoveEntryList\<close> in the order they went in, nodes
  pushed with \<open>InsertHeadList\<close> in the opposite order, and the loop ends with an empty list.
\<close>

theorem list_queue_and_stack:
  assumes "ring h [l]" "distinct (l # es)" "\<forall>e\<in>set es. alloc h e"
    and "fits env (Suc (length es))" "length es < n"
  shows "(\<exists>h1 h2. push_each (InsertTailList env) h l es = Inr h1 \<and>
      drain (IsListEmpty env) (GetFirstNode env) (RemoveEntryList env) n h1 l = Inr (h2, es) \<and>
      ring h2 [l]) \<and>
    (\<exists>h1 h2. push_each (InsertHeadList env) h l es = Inr h1 \<and>
      drain (IsListEmpty env) (GetFirstNode env) (RemoveEntryList env) n h1 l = Inr (h2, rev es) \<and>
      ring h2 [l])"
  using nl.fifo [of h l es env n] nl.lifo [of h l es env n] assms by (auto simp: list_rep_def)

theorem list_queue_and_stack_witness:
  "\<exists>h1 h2. push_each (InsertTailList debug_env) (fst (projr (InitializeListHead debug_env
       (zero_heap [16, 32, 48]) 16))) 16 [48, 32] = Inr h1 \<and>
     drain (IsListEmpty debug_env) (GetFirstNode debug_env) (RemoveEntryList debug_env) 3 h1 16 =
       Inr (h2, [48, 32])"
proof -
  have "alloc (zero_heap [16, 32, 48]) 16" by (simp add: alloc_def zero_heap_def NULL_def)
  from head_is_ring [OF this] obtain h where
    h: "InitializeListHead debug_env (zero_heap [16, 32, 48]) 16 = Inr (h, 16)" "ring h [16]"
    "alloc h = alloc (zero_heap [16, 32, 48])" by (auto simp: only_changes_def)
  then have "\<forall>e\<in>set [48, 32]. alloc h e" by (simp add: alloc_def zero_heap_def NULL_def)
  from list_queue_and_stack [OF h(2) _ this, of debug_env 3] h(1) show ?thesis
    by (auto simp: debug_fits)
qed

text \<open>
  The queries return what the ring says: the neighbours of a node (the head closing the
  circle), emptiness, the first node, whether a node is the head, and whether it is the last.
\<close>

theorem list_queries:
  assumes "ring h (l # ps)" "fits env (length (l # ps))" "l # ps = xs @ p # ys"
  shows "GetNextNode env h l p = Inr (hd (ys @ [l])) \<and>
    GetPreviousNode env h l p = Inr (if xs = [] then last (l # ps) else last xs) \<and>
    IsNull env h l p = Inr (xs = []) \<and>
    IsNodeAtEnd env h l p = Inr (xs \<noteq> [] \<and> ys = []) \<and>
    IsListEmpty env h l = Inr (ps = []) \<and>
    GetFirstNode env h l = Inr (hd (ps @ [l]))"
proof -
  have pl: "p = l \<longleftrightarrow> xs = []" using assms(1,3) by (cases xs) (auto simp: ring_def)
  have "hd (ys @ xs @ [p]) = hd (ys @ [l])"
    using assms(3) by (cases ys; cases xs) auto
  moreover have "last (p # ys @ xs) = (if xs = [] then last (l # ps) else last xs)"
    using assms(3) by (cases xs rule: rev_cases) auto
  ultimately show ?thesis
    using node_queries [OF assms] list_empty [OF assms(1,2)] first_node [OF assms(1,2)] pl
    by (simp del: last.simps)
qed

theorem list_queries_witness:
  "GetNextNode debug_env (ring_heap [16, 32, 48, 64]) 16 64 = Inr 16 \<and>
   IsNodeAtEnd debug_env (ring_heap [16, 32, 48, 64]) 16 64 = Inr True"
proof -
  have f: "fits debug_env (length [16, 32, 48, 64 :: UINTN])" by (simp add: debug_fits)
  have e: "[16, 32, 48, 64 :: UINTN] = [16, 32, 48] @ 64 # []" by simp
  note q = list_queries [OF sample_ring f e]
  have "GetNextNode debug_env (ring_heap [16, 32, 48, 64]) 16 64 = Inr (hd ([] @ [16]))"
    using q by (elim conjE)
  moreover have "IsNodeAtEnd debug_env (ring_heap [16, 32, 48, 64]) 16 64 =
      Inr ([16, 32, 48 :: UINTN] \<noteq> [] \<and> ([] :: UINTN list) = [])"
    using q by (elim conjE)
  ultimately show ?thesis by simp
qed



text \<open>
  C36. In a build whose assertions stop, with a list whose nodes, head included, are not fewer than
  the nonzero limit, an assertion stops the insertions, the removal of a node, the queries, the search
  for a node and the exchange of a node with another one. The exchange of a node with itself returns it
  at once, however long the list is.
\<close>

theorem list_limit_asserts:
  assumes "ring h (l # ps)" "asserts_on env"
    and "0 < PcdMaximumLinkedListLength env"
    and "unat (PcdMaximumLinkedListLength env) \<le> length (l # ps)"
  shows "InsertHeadList env h l e = Inl AssertFailed \<and> InsertTailList env h l e = Inl AssertFailed \<and>
    RemoveEntryList env h l = Inl AssertFailed \<and> GetFirstNode env h l = Inl AssertFailed \<and>
    GetNextNode env h l e = Inl AssertFailed \<and> GetPreviousNode env h l e = Inl AssertFailed \<and>
    IsListEmpty env h l = Inl AssertFailed \<and> IsNull env h l e = Inl AssertFailed \<and>
    IsNodeAtEnd env h l e = Inl AssertFailed \<and> IsNodeInList env h l e = Inl AssertFailed \<and>
    (l \<noteq> e \<longrightarrow> SwapListEntries env h l e = Inl AssertFailed) \<and>
    SwapListEntries env h l l = Inr (h, l)"
proof -
  have long: "\<not> fits_limit (PcdMaximumLinkedListLength env) (length (l # ps))"
    using assms(3,4) by (auto simp: fits_limit_def)
  show ?thesis
    by (simp add: assms(2) too_long_invalid [OF assms(1,2) long] too_long_verify [OF assms(1,2) long]
        InsertHeadList_def InsertTailList_def RemoveEntryList_def GetFirstNode_def
        GetNextNode_def GetPreviousNode_def IsListEmpty_def IsNull_def IsNodeAtEnd_def
        IsNodeInList_def SwapListEntries_def ASSERT_CALL_Inl)
qed

theorem list_limit_asserts_witness:
  "InsertHeadList (debug_env\<lparr>PcdMaximumLinkedListLength := 4\<rparr>) (ring_heap [16, 32, 48, 64]) 16 80 =
     Inl AssertFailed"
  using list_limit_asserts [OF sample_ring, of "debug_env\<lparr>PcdMaximumLinkedListLength := 4\<rparr>" 80]
  by (simp add: asserts_on_def debug_env_def)

text \<open>
  C35. The iteration macros: \<open>BASE_LIST_FOR_EACH\<close> visits every node once, in list order, and
  ends; \<open>BASE_LIST_FOR_EACH_SAFE\<close> ends although its body unlinks each node it is given, and
  leaves the list empty. In a build that evaluates assertions this is for lists shorter than the limit, if there
  is one.
\<close>

theorem list_iteration:
  assumes "ring h (l # xs)" "fits env (length (l # xs))"
  shows "BASE_LIST_FOR_EACH h l = Some (Inr xs) \<and>
    (\<exists>h'. BASE_LIST_FOR_EACH_SAFE (\<lambda>h e. map_res fst (RemoveEntryList env h e)) h l = Some (Inr h') \<and>
      ring h' [l])"
proof -
  have "nxt h (hd (xs @ [l])) = Some (hd (tl (xs @ [l]) @ [l]))"
    using assms(1) ring_next(1) [of h "[l]" "hd xs" "tl xs"] ring_first [of h l xs]
    by (cases xs; cases "tl xs") auto
  then show ?thesis
    using for_each_ring [OF assms(1)] for_each_safe_remove [OF assms] ring_first [OF assms(1)]
    by (simp add: BASE_LIST_FOR_EACH_SAFE_def heap_simps)
qed

theorem list_iteration_witness:
  "BASE_LIST_FOR_EACH (ring_heap [16, 32, 48, 64]) 16 = Some (Inr [32, 48, 64])"
  using list_iteration [OF sample_ring, of debug_env] by (simp add: debug_fits)

end
