(* ===== verification/Char_Codes.thy ===== *)
theory Char_Codes imports Base_Types begin

text \<open>
  The character predicates and conversions of \<open>String.c\<close> for \<open>CHAR16\<close> and \<open>CHAR8\<close>, and the
  packed decimal conversions at its end. A \<open>CHAR8\<close> is a plain \<open>char\<close>: its arithmetic happens
  in \<open>int\<close> after a promotion that depends on the signedness the compiler gives it.
\<close>

section \<open>Promotion to int\<close>

definition promote :: "build_env \<Rightarrow> CHAR8 \<Rightarrow> int" where
  "promote env c = (if CharIsSigned env then sint c else uint c)"

section \<open>CHAR16\<close>

definition InternalIsDecimalDigitCharacter :: "CHAR16 \<Rightarrow> bool" where
  "InternalIsDecimalDigitCharacter Chr \<longleftrightarrow> Chr \<ge> 0x30 \<and> Chr \<le> 0x39"

definition CharToUpper :: "CHAR16 \<Rightarrow> CHAR16" where
  "CharToUpper Chr =
     (if Chr \<ge> 0x61 \<and> Chr \<le> 0x7A then word_of_int (uint Chr - (0x61 - 0x41)) else Chr)"

definition InternalHexCharToUintn :: "CHAR16 \<Rightarrow> UINTN" where
  "InternalHexCharToUintn Chr =
     (if InternalIsDecimalDigitCharacter Chr then word_of_int (uint Chr - 0x30)
      else word_of_int (10 + uint (CharToUpper Chr) - 0x41))"

definition InternalIsHexaDecimalDigitCharacter :: "CHAR16 \<Rightarrow> bool" where
  "InternalIsHexaDecimalDigitCharacter Chr \<longleftrightarrow>
     InternalIsDecimalDigitCharacter Chr \<or>
     Chr \<ge> 0x41 \<and> Chr \<le> 0x46 \<or>
     Chr \<ge> 0x61 \<and> Chr \<le> 0x66"

section \<open>CHAR8\<close>

definition InternalAsciiIsDecimalDigitCharacter :: "build_env \<Rightarrow> CHAR8 \<Rightarrow> bool" where
  "InternalAsciiIsDecimalDigitCharacter env Chr \<longleftrightarrow>
     promote env Chr \<ge> 0x30 \<and> promote env Chr \<le> 0x39"

definition InternalAsciiIsHexaDecimalDigitCharacter :: "build_env \<Rightarrow> CHAR8 \<Rightarrow> bool" where
  "InternalAsciiIsHexaDecimalDigitCharacter env Chr \<longleftrightarrow>
     InternalAsciiIsDecimalDigitCharacter env Chr \<or>
     promote env Chr \<ge> 0x41 \<and> promote env Chr \<le> 0x46 \<or>
     promote env Chr \<ge> 0x61 \<and> promote env Chr \<le> 0x66"

definition AsciiCharToUpper :: "build_env \<Rightarrow> CHAR8 \<Rightarrow> CHAR8" where
  "AsciiCharToUpper env Chr =
     word_of_int (if promote env Chr \<ge> 0x61 \<and> promote env Chr \<le> 0x7A
                  then promote env Chr - (0x61 - 0x41) else promote env Chr)"

text \<open>The digit test that is called here is the one for \<open>CHAR16\<close>.\<close>

definition InternalAsciiHexCharToUintn :: "build_env \<Rightarrow> CHAR8 \<Rightarrow> UINTN" where
  "InternalAsciiHexCharToUintn env Chr =
     (if InternalIsDecimalDigitCharacter (word_of_int (promote env Chr))
      then word_of_int (promote env Chr - 0x30)
      else word_of_int (10 + promote env (AsciiCharToUpper env Chr) - 0x41))"

section \<open>Packed decimals\<close>

definition DecimalToBcd8 :: "build_env \<Rightarrow> UINT8 \<Rightarrow> UINT8 res" where
  "DecimalToBcd8 env Value =
     ASSERT env (Value < 100)
       (Inr (ucast (push_bit 4 (ucast Value div 10 :: UINT32) OR (ucast Value mod 10))))"

definition BcdToDecimal8 :: "build_env \<Rightarrow> UINT8 \<Rightarrow> UINT8 res" where
  "BcdToDecimal8 env Value =
     ASSERT env (Value < 0xa0)
    (ASSERT env (Value AND 0xf < 0xa)
      (Inr (ucast ((drop_bit 4 (ucast Value) :: UINT32) * 10 + (ucast Value AND 0xf)))))"

section \<open>Lemmas\<close>

lemma promote_eq:
  "promote env c = (if CharIsSigned env \<and> 128 \<le> uint c then uint c - 256 else uint c)"
proof -
  define u where "u = uint c"
  have u: "0 \<le> u" "u < 256" using uint_bounded [of c] by (simp_all add: u_def)
  have "sint c = (u + 128) mod 256 - 128"
    using int_word_sint [of u, where 'a = 8] by (simp add: u_def)
  also have "\<dots> = (if 128 \<le> u then u - 256 else u)"
  proof (cases "128 \<le> u")
    case True
    have "(u + 128) mod 256 = (u - 128) mod 256"
      using mod_add_self2 [of "u - 128" 256] by (simp add: add.commute)
    with True u show ?thesis by simp
  qed (use u in simp)
  finally show ?thesis by (simp add: promote_def u_def)
qed

lemma promote_small: "uint c < 128 \<Longrightarrow> promote env c = uint c"
  by (simp add: promote_eq)

lemma promote_word [simp]: "(word_of_int (promote env c) :: CHAR8) = c"
  by (simp add: promote_def)

lemma promote_inj: "promote env a = promote env b \<longleftrightarrow> a = b"
  by (metis promote_word)

lemma promote_range: "- 128 \<le> promote env c \<and> promote env c < 256"
proof -
  have "- 128 \<le> uint c" by (rule order_trans [OF _ unsigned_greater_eq]) simp
  then show ?thesis using uint_bounded [of c] by (simp add: promote_eq)
qed

lemma promote_zero [simp]: "promote env 0 = 0"
  by (simp add: promote_def)

lemma upper_eq:
  "AsciiCharToUpper env c = (if 0x61 \<le> c \<and> c \<le> 0x7A then c - 0x20 else c)"
proof -
  have b: "0 \<le> uint c" "uint c < 256" using uint_bounded [of c] by simp_all
  have "0x61 \<le> promote env c \<and> promote env c \<le> 0x7A \<longleftrightarrow> 0x61 \<le> uint c \<and> uint c \<le> 0x7A"
    using b by (auto simp: promote_eq)
  also have "\<dots> \<longleftrightarrow> 0x61 \<le> c \<and> c \<le> 0x7A"
    by (simp add: word_le_def)
  finally show ?thesis
    by (simp add: AsciiCharToUpper_def promote_small word_le_def)
qed

text \<open>A hexadecimal digit, in either case, and its value.\<close>

definition hex_digit :: "nat \<Rightarrow> 'a::len word" where
  "hex_digit v = of_char (''0123456789ABCDEF'' ! v)"

definition hex_digit_lower :: "nat \<Rightarrow> 'a::len word" where
  "hex_digit_lower v = of_char (''0123456789abcdef'' ! v)"

lemma below_16: "v < 16 \<Longrightarrow> P (v :: nat)"
  if "P 0" "P 1" "P 2" "P 3" "P 4" "P 5" "P 6" "P 7" "P 8" "P 9" "P 10" "P 11" "P 12" "P 13" "P 14" "P 15"
proof -
  assume "v < 16"
  then have "v = 0 \<or> v = 1 \<or> v = 2 \<or> v = 3 \<or> v = 4 \<or> v = 5 \<or> v = 6 \<or> v = 7 \<or> v = 8 \<or>
      v = 9 \<or> v = 10 \<or> v = 11 \<or> v = 12 \<or> v = 13 \<or> v = 14 \<or> v = 15"
    by presburger
  with that show ?thesis by blast
qed

lemma wide_hex: "v < 16 \<Longrightarrow> InternalHexCharToUintn (hex_digit v) = of_nat v \<and>
    InternalHexCharToUintn (hex_digit_lower v) = of_nat v \<and>
    InternalIsHexaDecimalDigitCharacter (hex_digit v) \<and>
    InternalIsHexaDecimalDigitCharacter (hex_digit_lower v)"
  by (erule below_16 [rotated -1])
    (simp_all add: InternalHexCharToUintn_def InternalIsDecimalDigitCharacter_def CharToUpper_def
      InternalIsHexaDecimalDigitCharacter_def hex_digit_def hex_digit_lower_def)

section \<open>Properties\<close>

lemma narrow_hex: "v < 16 \<Longrightarrow> InternalAsciiHexCharToUintn env (hex_digit v) = of_nat v \<and>
    InternalAsciiHexCharToUintn env (hex_digit_lower v) = of_nat v \<and>
    InternalAsciiIsHexaDecimalDigitCharacter env (hex_digit v) \<and>
    InternalAsciiIsHexaDecimalDigitCharacter env (hex_digit_lower v)"
  by (erule below_16 [rotated -1])
    (simp_all add: InternalAsciiHexCharToUintn_def InternalIsDecimalDigitCharacter_def upper_eq
      promote_small InternalAsciiIsHexaDecimalDigitCharacter_def
      InternalAsciiIsDecimalDigitCharacter_def hex_digit_def hex_digit_lower_def)

text \<open>
  The hexadecimal conversions are right on every digit: for each value below 16 the
  digit character of that value, in upper or lower case, is recognised and converts back to
  the value, for \<open>CHAR16\<close> and for \<open>CHAR8\<close> whatever the signedness of \<open>char\<close>.
\<close>

theorem hex_digit_values:
  assumes "v < 16"
  shows "InternalHexCharToUintn (hex_digit v) = of_nat v \<and>
    InternalHexCharToUintn (hex_digit_lower v) = of_nat v \<and>
    InternalIsHexaDecimalDigitCharacter (hex_digit v) \<and>
    InternalIsHexaDecimalDigitCharacter (hex_digit_lower v) \<and>
    InternalAsciiHexCharToUintn env (hex_digit v) = of_nat v \<and>
    InternalAsciiHexCharToUintn env (hex_digit_lower v) = of_nat v \<and>
    InternalAsciiIsHexaDecimalDigitCharacter env (hex_digit v) \<and>
    InternalAsciiIsHexaDecimalDigitCharacter env (hex_digit_lower v)"
  using wide_hex [OF assms] narrow_hex [OF assms] by blast

theorem hex_digit_values_witness:
  "InternalHexCharToUintn 0x66 = 15 \<and> InternalAsciiHexCharToUintn debug_env 0x46 = 15"
  using hex_digit_values [of 15 debug_env] by (simp add: hex_digit_def hex_digit_lower_def)

lemma or_low_bits: "take_bit 4 y = y \<Longrightarrow> push_bit 4 x OR y = push_bit 4 x + (y :: UINT32)"
proof (rule disjunctive_add [symmetric])
  fix n assume y: "take_bit 4 y = y"
  then have "bit y n \<Longrightarrow> n < 4" by (metis bit_take_bit_iff)
  then show "\<not> bit (push_bit 4 x) n \<or> \<not> bit y n" by (auto simp: bit_push_bit_iff)
qed

lemma unat_ucast_8_32 [simp]: "unat (ucast (v :: UINT8) :: UINT32) = unat v"
  by (rule unat_ucast_wider) simp

lemma unat_ucast_32_8: "unat (ucast (x :: UINT32) :: UINT8) = unat x mod 256"
  by (simp only: unsigned_ucast_eq) (simp add: take_bit_eq_mod)

lemma low_nibble: "unat (x AND 0xf) = unat x mod 16" for x :: "'a::len word"
proof -
  have "(0xf :: nat) = mask 4" by (simp add: mask_eq_exp_minus_1)
  then have "(0xf :: 'a word) = mask 4"
    by (metis of_nat_mask_eq of_nat_numeral)
  then have "unat (x AND 0xf) = unat (take_bit 4 x)" by (simp only: take_bit_eq_mask)
  then show ?thesis by (simp only: unsigned_take_bit_eq) (simp add: take_bit_eq_mod)
qed

lemma bcd_value:
  "unat v < 100 \<Longrightarrow> DecimalToBcd8 env v = Inr (of_nat (16 * (unat v div 10) + unat v mod 10))"
proof -
  assume v: "unat v < 100"
  let ?w = "ucast v :: UINT32"
  have d: "unat (?w div 10) = unat v div 10" "unat (?w mod 10) = unat v mod 10"
    by (simp_all add: unat_div unat_mod)
  have "unat (take_bit 4 (?w mod 10)) = unat (?w mod 10)"
    by (simp only: unsigned_take_bit_eq d) (simp add: take_bit_eq_mod)
  then have "take_bit 4 (?w mod 10) = ?w mod 10" by (simp only: word_eq_iff_unat)
  then have o: "push_bit 4 (?w div 10) OR (?w mod 10) = push_bit 4 (?w div 10) + ?w mod 10"
    by (rule or_low_bits)
  have "unat (push_bit 4 (?w div 10)) = 16 * (unat v div 10)"
    using v by (simp only: push_bit_eq_mult unat_word_ariths d) simp
  moreover have less: "16 * (unat v div 10) + unat v mod 10 < 256" using v by linarith
  ultimately have "unat (push_bit 4 (?w div 10) OR (?w mod 10)) =
      16 * (unat v div 10) + unat v mod 10"
    using unat_add_lem [of "push_bit 4 (?w div 10)" "?w mod 10"] by (simp only: o d) simp
  note this less
  then have "(ucast (push_bit 4 (?w div 10) OR (?w mod 10)) :: UINT8) =
      of_nat (16 * (unat v div 10) + unat v mod 10)"
    by (simp only: word_eq_iff_unat unat_ucast_32_8 unat_of_nat) simp
  moreover have "v < 100" using v by (simp add: word_less_nat_alt)
  ultimately show ?thesis by (simp only: DecimalToBcd8_def ASSERT_True)
qed

lemma decimal_value:
  assumes "unat v div 16 < 10" "unat v mod 16 < 10"
  shows "BcdToDecimal8 env v = Inr (of_nat (10 * (unat v div 16) + unat v mod 16))"
proof -
  let ?w = "ucast v :: UINT32"
  have d: "unat (drop_bit 4 ?w) = unat v div 16"
    by (simp only: unat_drop_bit_eq unat_ucast_8_32) (simp add: drop_bit_eq_div)
  have "unat (drop_bit 4 ?w * 10) = 10 * (unat v div 16)"
    using assms by (simp only: unat_word_ariths d) simp
  then have "unat (drop_bit 4 ?w * 10 + (?w AND 0xf)) = 10 * (unat v div 16) + unat v mod 16"
    using assms unat_add_lem [of "drop_bit 4 ?w * 10" "?w AND 0xf"]
    by (simp only: low_nibble unat_ucast_8_32) simp
  then have "(ucast (drop_bit 4 ?w * 10 + (?w AND 0xf)) :: UINT8) =
      of_nat (10 * (unat v div 16) + unat v mod 16)"
    using assms by (simp only: word_eq_iff_unat unat_ucast_32_8 unat_of_nat) simp
  moreover have "v < 0xa0" "v AND 0xf < 0xa"
    using assms by (simp_all only: word_less_nat_alt low_nibble) (simp_all add: less_mult_imp_div_less
        div_less_iff_less_mult)
  ultimately show ?thesis by (simp only: BcdToDecimal8_def ASSERT_True)
qed

text \<open>
  C26. Packed decimals: with assertions on, \<open>DecimalToBcd8\<close> is defined exactly below 100 and
  puts the tens and the units into the two nibbles; \<open>BcdToDecimal8\<close> is defined exactly on
  bytes whose nibbles are decimal digits, and gives every number below 100 back.
\<close>

theorem bcd_round_trip:
  assumes "asserts_on env"
  shows "DecimalToBcd8 env v =
      (if unat v < 100 then Inr (of_nat (16 * (unat v div 10) + unat v mod 10))
       else Inl AssertFailed) \<and>
    BcdToDecimal8 env v =
      (if unat v div 16 < 10 \<and> unat v mod 16 < 10
       then Inr (of_nat (10 * (unat v div 16) + unat v mod 16)) else Inl AssertFailed) \<and>
    (unat v < 100 \<longrightarrow> bindr (DecimalToBcd8 env v) (BcdToDecimal8 env) = Inr v)"
proof (intro conjI impI)
  show "DecimalToBcd8 env v = (if unat v < 100 then Inr (of_nat (16 * (unat v div 10) +
      unat v mod 10)) else Inl AssertFailed)"
    using bcd_value [of v env]
    by (simp add: DecimalToBcd8_def word_less_nat_alt ASSERT_False [OF assms] del: of_nat_add)
  have "unat v div 16 < 10 \<longleftrightarrow> unat v < 0xa0"
    by (simp add: div_less_iff_less_mult)
  then show "BcdToDecimal8 env v = (if unat v div 16 < 10 \<and> unat v mod 16 < 10
      then Inr (of_nat (10 * (unat v div 16) + unat v mod 16)) else Inl AssertFailed)"
    using decimal_value [of v env] low_nibble [of v]
    by (auto simp: BcdToDecimal8_def word_less_nat_alt ASSERT_False [OF assms] simp del: of_nat_add)
  assume v: "unat v < 100"
  then have "unat (of_nat (16 * (unat v div 10) + unat v mod 10) :: UINT8) =
      16 * (unat v div 10) + unat v mod 10"
    by (simp only: unat_of_nat) simp
  with v show "bindr (DecimalToBcd8 env v) (BcdToDecimal8 env) = Inr v"
    using decimal_value [of "of_nat (16 * (unat v div 10) + unat v mod 10)" env]
    by (simp add: bcd_value del: of_nat_add of_nat_mult)
qed

theorem bcd_round_trip_witness:
  "DecimalToBcd8 debug_env 42 = Inr 0x42 \<and> BcdToDecimal8 debug_env 0x4A = Inl AssertFailed"
  using bcd_round_trip [OF debug_env_asserts, of 42] bcd_round_trip [OF debug_env_asserts, of "0x4A"]
  by simp

end
