(* ===== verification/Null_Strings.thy ===== *)
theory Null_Strings imports Char_Codes "HOL-Library.Sublist" "HOL-Library.List_Lexorder" begin

text \<open>
  The functions of \<open>String.c\<close> on Null-terminated strings in memory: length, size,
  comparison, bounded comparison and substring search, for \<open>CHAR16\<close> and \<open>CHAR8\<close>. Loops that
  differ only in the character type are one definition with the terminator as an argument;
  they are total because a pointer that walks through memory meets address 0.
\<close>

section \<open>Loops\<close>

lemma load_bytes_room: "load_bytes m p n = Inr bs \<Longrightarrow> n \<le> unat (- p) \<or> n = 0"
proof (induction n arbitrary: p bs)
  case (Suc n)
  then obtain b bs' where b: "load_byte m p = Inr b" "load_bytes m (p + 1) n = Inr bs'"
    by (auto simp: bindr_eq_Inr_iff)
  then have "p \<noteq> 0" by (simp add: NULL_def)
  then have p: "1 \<le> unat (- p)" by (metis One_nat_def Suc_leI neg_equal_0_iff_equal unat_gt_0)
  then have "unat (- (p + 1)) = unat (- p) - 1"
    using unat_neg_add_less [of 1 p] by simp
  with Suc.IH [OF b(2)] p show ?case by auto
qed simp

lemma load_room: "load m p = Inr (c :: 'a::len word) \<Longrightarrow> sizeof_word c \<le> unat (- p) \<and> 0 < sizeof_word c"
proof -
  assume "load m p = Inr c"
  then obtain bs where "load_bytes m p (sizeof_word (0 :: 'a word)) = Inr bs"
    by (auto simp: load_def bindr_eq_Inr_iff)
  moreover have "8 \<le> LENGTH('a) + 7" using len_gt_0 [where 'a = 'a] by linarith
  then have "0 < sizeof_word c" by (simp add: sizeof_word_def div_greater_zero_iff)
  moreover have "sizeof_word c = sizeof_word (0 :: 'a word)" by (simp add: sizeof_word_def)
  ultimately show ?thesis using load_bytes_room by fastforce
qed

lemma next_char:
  "load m p = Inr (c :: 'a::len word) \<Longrightarrow> unat (- p - of_nat (sizeof_word c)) < unat (- p)"
  using unat_neg_add_less [of "sizeof_word c" p] load_room [of m p c] by simp

text \<open>
  \<open>for (Length = 0; *String != 0; String++, Length++)\<close> with the assertion of its body, which
  is evaluated when the maximum is not zero.
\<close>

function len_loop ::
  "build_env \<Rightarrow> UINT32 \<Rightarrow> mem \<Rightarrow> 'c::len word \<Rightarrow> UINTN \<Rightarrow> UINTN \<Rightarrow> UINTN res" where
  "len_loop env MaxLength m nul String Length =
     bindr (load m String) (\<lambda>c.
       if c \<noteq> nul then
         ASSERT env (MaxLength \<noteq> 0 \<longrightarrow> Length < ucast MaxLength)
           (len_loop env MaxLength m nul (String + of_nat (sizeof_word c)) (Length + 1))
       else Inr Length)"
  by pat_completeness auto
termination len_loop
  by (relation "measure (\<lambda>(env, MaxLength, m, nul, String, Length). unat (- String))")
    (auto simp: next_char)

text \<open>
  \<open>while (*First != 0 && *First == *Second)\<close>, both pointers advancing: the last two
  characters read. The inner loop of the substring search has the same two conditions.
\<close>

function cmp_loop :: "mem \<Rightarrow> 'c::len word \<Rightarrow> UINTN \<Rightarrow> UINTN \<Rightarrow> ('c word \<times> 'c word) res" where
  "cmp_loop m nul FirstString SecondString =
     bindr (load m FirstString) (\<lambda>a.
     bindr (load m SecondString) (\<lambda>b.
       if a \<noteq> nul \<and> a = b
       then cmp_loop m nul (FirstString + of_nat (sizeof_word a)) (SecondString + of_nat (sizeof_word b))
       else Inr (a, b)))"
  by pat_completeness auto
termination cmp_loop
  by (relation "measure (\<lambda>(m, nul, FirstString, SecondString). unat (- FirstString))")
    (auto simp: next_char)

declare cmp_loop.simps [simp del]

function ncmp_loop ::
  "mem \<Rightarrow> 'c::len word \<Rightarrow> UINTN \<Rightarrow> UINTN \<Rightarrow> UINTN \<Rightarrow> ('c word \<times> 'c word) res" where
  "ncmp_loop m nul FirstString SecondString Length =
     bindr (load m FirstString) (\<lambda>a.
     bindr (load m SecondString) (\<lambda>b.
       if a \<noteq> nul \<and> b \<noteq> nul \<and> a = b \<and> Length > 1
       then ncmp_loop m nul (FirstString + of_nat (sizeof_word a))
              (SecondString + of_nat (sizeof_word b)) (Length - 1)
       else Inr (a, b)))"
  by pat_completeness auto
termination ncmp_loop
  by (relation "measure (\<lambda>(m, nul, FirstString, SecondString, Length). unat (- FirstString))")
    (auto simp: next_char)

function search_loop :: "mem \<Rightarrow> 'c::len word \<Rightarrow> UINTN \<Rightarrow> UINTN \<Rightarrow> UINTN res" where
  "search_loop m nul String SearchString =
     bindr (load m String) (\<lambda>c.
       if c \<noteq> nul then
         bindr (cmp_loop m nul String SearchString) (\<lambda>(a, b).
           if b = nul then Inr String
           else if a = nul then Inr NULL
           else search_loop m nul (String + of_nat (sizeof_word c)) SearchString)
       else Inr NULL)"
  by pat_completeness auto
termination search_loop
  by (relation "measure (\<lambda>(m, nul, String, SearchString). unat (- String))")
    (auto simp: next_char)

function icmp_loop :: "build_env \<Rightarrow> mem \<Rightarrow> UINTN \<Rightarrow> UINTN \<Rightarrow> (CHAR8 \<times> CHAR8) res" where
  "icmp_loop env m FirstString SecondString =
     bindr (load m FirstString) (\<lambda>a.
     bindr (load m SecondString) (\<lambda>b.
       let UpperFirstString = AsciiCharToUpper env a;
           UpperSecondString = AsciiCharToUpper env b
       in if a \<noteq> 0 \<and> b \<noteq> 0 \<and> UpperFirstString = UpperSecondString
          then icmp_loop env m (FirstString + of_nat (sizeof_word a))
                 (SecondString + of_nat (sizeof_word b))
          else Inr (UpperFirstString, UpperSecondString)))"
  by pat_completeness auto
termination icmp_loop
  by (relation "measure (\<lambda>(env, m, FirstString, SecondString). unat (- FirstString))")
    (auto simp: next_char)

declare len_loop.simps [simp del] ncmp_loop.simps [simp del]
  search_loop.simps [simp del] icmp_loop.simps [simp del]

section \<open>Unicode strings\<close>

definition StrLen :: "build_env \<Rightarrow> mem \<Rightarrow> UINTN \<Rightarrow> UINTN res" where
  "StrLen env m String =
     ASSERT env (String \<noteq> NULL)
    (ASSERT env (String AND 1 = 0)
      (len_loop env (PcdMaximumUnicodeStringLength env) m (0 :: CHAR16) String 0))"

definition StrSize :: "build_env \<Rightarrow> mem \<Rightarrow> UINTN \<Rightarrow> UINTN res" where
  "StrSize env m String =
     map_res (\<lambda>n. (n + 1) * of_nat (sizeof_word (0 :: CHAR16))) (StrLen env m String)"

definition StrCmp :: "build_env \<Rightarrow> mem \<Rightarrow> UINTN \<Rightarrow> UINTN \<Rightarrow> INTN res" where
  "StrCmp env m FirstString SecondString =
     ASSERT_CALL env (map_res (\<lambda>s. s \<noteq> 0) (StrSize env m FirstString))
    (ASSERT_CALL env (map_res (\<lambda>s. s \<noteq> 0) (StrSize env m SecondString))
      (map_res (\<lambda>(a, b). word_of_int (uint a - uint b))
        (cmp_loop m (0 :: CHAR16) FirstString SecondString)))"

definition StrnCmp :: "build_env \<Rightarrow> mem \<Rightarrow> UINTN \<Rightarrow> UINTN \<Rightarrow> UINTN \<Rightarrow> INTN res" where
  "StrnCmp env m FirstString SecondString Length =
     (if Length = 0 then Inr 0
      else
        ASSERT_CALL env (map_res (\<lambda>s. s \<noteq> 0) (StrSize env m FirstString))
       (ASSERT_CALL env (map_res (\<lambda>s. s \<noteq> 0) (StrSize env m SecondString))
       (ASSERT env (PcdMaximumUnicodeStringLength env \<noteq> 0 \<longrightarrow>
            Length \<le> ucast (PcdMaximumUnicodeStringLength env))
         (map_res (\<lambda>(a, b). word_of_int (uint a - uint b))
           (ncmp_loop m (0 :: CHAR16) FirstString SecondString Length)))))"

definition StrStr :: "build_env \<Rightarrow> mem \<Rightarrow> UINTN \<Rightarrow> UINTN \<Rightarrow> UINTN res" where
  "StrStr env m String SearchString =
     ASSERT_CALL env (map_res (\<lambda>s. s \<noteq> 0) (StrSize env m String))
    (ASSERT_CALL env (map_res (\<lambda>s. s \<noteq> 0) (StrSize env m SearchString))
      (bindr (load m SearchString) (\<lambda>c :: CHAR16.
         if c = 0 then Inr String
         else search_loop m (0 :: CHAR16) String SearchString)))"

section \<open>ASCII strings\<close>

definition AsciiStrLen :: "build_env \<Rightarrow> mem \<Rightarrow> UINTN \<Rightarrow> UINTN res" where
  "AsciiStrLen env m String =
     ASSERT env (String \<noteq> NULL)
      (len_loop env (PcdMaximumAsciiStringLength env) m (0 :: CHAR8) String 0)"

definition AsciiStrSize :: "build_env \<Rightarrow> mem \<Rightarrow> UINTN \<Rightarrow> UINTN res" where
  "AsciiStrSize env m String =
     map_res (\<lambda>n. (n + 1) * of_nat (sizeof_word (0 :: CHAR8))) (AsciiStrLen env m String)"

definition AsciiStrCmp :: "build_env \<Rightarrow> mem \<Rightarrow> UINTN \<Rightarrow> UINTN \<Rightarrow> INTN res" where
  "AsciiStrCmp env m FirstString SecondString =
     ASSERT_CALL env (map_res (\<lambda>s. s \<noteq> 0) (AsciiStrSize env m FirstString))
    (ASSERT_CALL env (map_res (\<lambda>s. s \<noteq> 0) (AsciiStrSize env m SecondString))
      (map_res (\<lambda>(a, b). word_of_int (promote env a - promote env b))
        (cmp_loop m (0 :: CHAR8) FirstString SecondString)))"

definition AsciiStriCmp :: "build_env \<Rightarrow> mem \<Rightarrow> UINTN \<Rightarrow> UINTN \<Rightarrow> INTN res" where
  "AsciiStriCmp env m FirstString SecondString =
     ASSERT_CALL env (map_res (\<lambda>s. s \<noteq> 0) (AsciiStrSize env m FirstString))
    (ASSERT_CALL env (map_res (\<lambda>s. s \<noteq> 0) (AsciiStrSize env m SecondString))
      (map_res (\<lambda>(a, b). word_of_int (promote env a - promote env b))
        (icmp_loop env m FirstString SecondString)))"

definition AsciiStrnCmp :: "build_env \<Rightarrow> mem \<Rightarrow> UINTN \<Rightarrow> UINTN \<Rightarrow> UINTN \<Rightarrow> INTN res" where
  "AsciiStrnCmp env m FirstString SecondString Length =
     (if Length = 0 then Inr 0
      else
        ASSERT_CALL env (map_res (\<lambda>s. s \<noteq> 0) (AsciiStrSize env m FirstString))
       (ASSERT_CALL env (map_res (\<lambda>s. s \<noteq> 0) (AsciiStrSize env m SecondString))
       (ASSERT env (PcdMaximumAsciiStringLength env \<noteq> 0 \<longrightarrow>
            Length \<le> ucast (PcdMaximumAsciiStringLength env))
         (map_res (\<lambda>(a, b). word_of_int (promote env a - promote env b))
           (ncmp_loop m (0 :: CHAR8) FirstString SecondString Length)))))"

definition AsciiStrStr :: "build_env \<Rightarrow> mem \<Rightarrow> UINTN \<Rightarrow> UINTN \<Rightarrow> UINTN res" where
  "AsciiStrStr env m String SearchString =
     ASSERT_CALL env (map_res (\<lambda>s. s \<noteq> 0) (AsciiStrSize env m String))
    (ASSERT_CALL env (map_res (\<lambda>s. s \<noteq> 0) (AsciiStrSize env m SearchString))
      (bindr (load m SearchString) (\<lambda>c :: CHAR8.
         if c = 0 then Inr String
         else search_loop m (0 :: CHAR8) String SearchString)))"

section \<open>Strings as lists\<close>

text \<open>\<open>cstr m p cs\<close>: the characters \<open>cs\<close>, none of them the terminator, and then it, at \<open>p\<close>.\<close>

definition cstr :: "mem \<Rightarrow> UINTN \<Rightarrow> 'c::len word list \<Rightarrow> bool" where
  "cstr m p cs \<longleftrightarrow> 0 \<notin> set cs \<and> words_at m p (cs @ [0])"

lemma cstr_simps [simp]:
  "cstr m p ([] :: 'c::len word list) \<longleftrightarrow> load m p = Inr (0 :: 'c word)"
  "cstr m p (c # cs) \<longleftrightarrow> c \<noteq> 0 \<and> load m p = Inr c \<and> cstr m (p + of_nat (sizeof_word c)) cs"
  by (auto simp: cstr_def)

lemma words_room:
  "words_at m p (ws :: 'a::len word list) \<Longrightarrow> sizeof_word (0 :: 'a word) * length ws \<le> unat (- p)"
proof (induction ws arbitrary: p)
  case (Cons w ws)
  let ?s = "sizeof_word (0 :: 'a word)"
  have s: "sizeof_word w = ?s" by (simp add: sizeof_word_def)
  have r: "0 < ?s" "?s \<le> unat (- p)"
    using Cons.prems load_room [of m p w] by (auto simp: s)
  have "unat (- (p + of_nat ?s)) = unat (- p) - ?s" by (rule unat_neg_add_less [OF r])
  moreover have "words_at m (p + of_nat ?s) ws" using Cons.prems by (simp add: s)
  note Cons.IH [OF this]
  ultimately show ?case using r by simp
qed simp

lemma cstr_room:
  "cstr m p (cs :: 'c::len word list) \<Longrightarrow> sizeof_word (0 :: 'c word) * (length cs + 1) < 2 ^ 64"
  using words_room [of m p "cs @ [0]"] unat_less_exp [of "- p"] by (auto simp: cstr_def)

lemma cstr_length: "cstr m p (cs :: 'c::len word list) \<Longrightarrow> length cs + 1 < 2 ^ 64"
proof -
  assume c: "cstr m p cs"
  have "8 \<le> LENGTH('c) + 7" using len_gt_0 [where 'a = 'c] by linarith
  then have "1 \<le> sizeof_word (0 :: 'c word)" by (simp add: sizeof_word_def)
  then have "1 * (length cs + 1) \<le> sizeof_word (0 :: 'c word) * (length cs + 1)"
    by (rule mult_le_mono1)
  with cstr_room [OF c] show ?thesis by (metis le_less_trans mult_1)
qed

lemma cstr_nonnull: "cstr m p (cs :: 'c::len word list) \<Longrightarrow> p \<noteq> NULL"
proof -
  assume c: "cstr m p cs"
  obtain d :: "'c word" where "load m p = Inr d" using c by (cases cs) auto
  from load_room [OF this] show ?thesis by (auto simp: NULL_def)
qed

lemma ASSERT_skip: "(asserts_on env \<Longrightarrow> e) \<Longrightarrow> ASSERT env e k = k"
  by (auto simp: ASSERT_def asserts_on_def)

section \<open>Length and size\<close>

lemma len_loop_cstr:
  fixes cs :: "'c::len word list"
  assumes "cstr m p cs" "unat n + length cs < 2 ^ 64"
    and "asserts_on env \<Longrightarrow> MaxLength \<noteq> 0 \<Longrightarrow> unat n \<le> unat MaxLength"
  shows "len_loop env MaxLength m (0 :: 'c word) p n =
    (if asserts_on env \<and> MaxLength \<noteq> 0 \<and> unat MaxLength < unat n + length cs
     then Inl AssertFailed else Inr (n + of_nat (length cs)))"
  using assms
proof (induction cs arbitrary: p n)
  case Nil
  then show ?case by (subst len_loop.simps) auto
next
  case (Cons c cs)
  have one: "unat (n + 1) = unat n + 1"
    using Cons.prems(2) unat_add_lem [of n 1] by simp
  let ?e = "MaxLength \<noteq> 0 \<longrightarrow> n < ucast MaxLength"
  have step: "len_loop env MaxLength m (0 :: 'c word) p n =
      ASSERT env ?e (len_loop env MaxLength m (0 :: 'c word) (p + of_nat (sizeof_word c)) (n + 1))"
    using Cons.prems(1) by (subst len_loop.simps) simp
  show ?case
  proof (cases "asserts_on env \<and> \<not> ?e")
    case True
    then have "ASSERT env ?e k = Inl AssertFailed" for k :: "UINTN res"
      using ASSERT_False [of env k] by simp
    with True step show ?thesis by (auto simp: word_less_nat_alt)
  next
    case False
    then have e: "asserts_on env \<Longrightarrow> ?e" by blast
    have "len_loop env MaxLength m (0 :: 'c word) (p + of_nat (sizeof_word c)) (n + 1) =
        (if asserts_on env \<and> MaxLength \<noteq> 0 \<and> unat MaxLength < unat (n + 1) + length cs
         then Inl AssertFailed else Inr (n + 1 + of_nat (length cs)))"
      using Cons.prems one e by (intro Cons.IH) (auto simp: word_less_nat_alt)
    then show ?thesis using step ASSERT_skip [OF e] one by (auto simp: add.assoc)
  qed
qed

definition wide_ok :: "build_env \<Rightarrow> UINTN \<Rightarrow> nat \<Rightarrow> bool" where
  "wide_ok env p n \<longleftrightarrow> asserts_on env \<longrightarrow> p AND 1 = 0 \<and>
     (PcdMaximumUnicodeStringLength env = 0 \<or> n \<le> unat (PcdMaximumUnicodeStringLength env))"

definition narrow_ok :: "build_env \<Rightarrow> UINTN \<Rightarrow> nat \<Rightarrow> bool" where
  "narrow_ok env p n \<longleftrightarrow> asserts_on env \<longrightarrow>
     PcdMaximumAsciiStringLength env = 0 \<or> n \<le> unat (PcdMaximumAsciiStringLength env)"

lemma StrLen_cstr:
  assumes "cstr m p (cs :: CHAR16 list)"
  shows "StrLen env m p = (if wide_ok env p (length cs) then Inr (of_nat (length cs)) else Inl AssertFailed)"
proof -
  have l: "len_loop env (PcdMaximumUnicodeStringLength env) m (0 :: CHAR16) p 0 =
      (if asserts_on env \<and> PcdMaximumUnicodeStringLength env \<noteq> 0 \<and>
          unat (PcdMaximumUnicodeStringLength env) < length cs
       then Inl AssertFailed else Inr (of_nat (length cs)))"
    using len_loop_cstr [OF assms, of 0 env "PcdMaximumUnicodeStringLength env"] cstr_length [OF assms]
    by simp
  show ?thesis
    using cstr_nonnull [OF assms] ASSERT_skip [of env "p AND 1 = 0"]
      ASSERT_False [of env "len_loop env (PcdMaximumUnicodeStringLength env) m (0 :: CHAR16) p 0"]
    by (cases "asserts_on env"; cases "p AND 1 = 0") (auto simp: StrLen_def wide_ok_def l)
qed

lemma AsciiStrLen_cstr:
  assumes "cstr m p (cs :: CHAR8 list)"
  shows "AsciiStrLen env m p =
    (if narrow_ok env p (length cs) then Inr (of_nat (length cs)) else Inl AssertFailed)"
  using len_loop_cstr [OF assms, of 0 env "PcdMaximumAsciiStringLength env"] cstr_length [OF assms]
    cstr_nonnull [OF assms]
  by (auto simp: AsciiStrLen_def narrow_ok_def)

lemma size_nonzero:
  assumes "k * (n + 1) < 2 ^ 64" "0 < k"
  shows "(of_nat n + 1 :: UINTN) * of_nat k \<noteq> 0"
proof -
  have "(of_nat n + 1 :: UINTN) * of_nat k = of_nat (k * (n + 1))" by (simp add: algebra_simps)
  moreover have "unat (of_nat (k * (n + 1)) :: UINTN) = k * (n + 1)"
    using assms(1) by (simp only: unat_of_nat) simp
  ultimately show ?thesis using assms by (metis add_is_0 mult_is_0 not_gr_zero one_neq_zero unsigned_0)
qed

lemma wide_size_check:
  assumes "cstr m p (cs :: CHAR16 list)" "wide_ok env p (length cs)"
  shows "ASSERT_CALL env (map_res (\<lambda>s. s \<noteq> 0) (StrSize env m p)) k = k"
  using size_nonzero [of "sizeof_word (0 :: CHAR16)" "length cs"] cstr_room [OF assms(1)]
    StrLen_cstr [OF assms(1), of env] assms(2)
  by (simp add: StrSize_def sizeof_word_def)

lemma narrow_size_check:
  assumes "cstr m p (cs :: CHAR8 list)" "narrow_ok env p (length cs)"
  shows "ASSERT_CALL env (map_res (\<lambda>s. s \<noteq> 0) (AsciiStrSize env m p)) k = k"
  using size_nonzero [of "sizeof_word (0 :: CHAR8)" "length cs"] cstr_room [OF assms(1)]
    AsciiStrLen_cstr [OF assms(1), of env] assms(2)
  by (simp add: AsciiStrSize_def sizeof_word_def)

section \<open>Comparison\<close>

text \<open>The first pair of characters that differ, the terminator standing for the end.\<close>

fun mismatch :: "'c::zero list \<Rightarrow> 'c list \<Rightarrow> 'c \<times> 'c" where
  "mismatch [] [] = (0, 0)"
| "mismatch [] (d # ds) = (0, d)"
| "mismatch (c # cs) [] = (c, 0)"
| "mismatch (c # cs) (d # ds) = (if c = d then mismatch cs ds else (c, d))"

lemma mismatch_swap: "mismatch ds cs = prod.swap (mismatch cs ds)"
  by (induction cs ds rule: mismatch.induct) auto

lemma mismatch_equal:
  "0 \<notin> set cs \<Longrightarrow> 0 \<notin> set ds \<Longrightarrow> fst (mismatch cs ds) = snd (mismatch cs ds) \<longleftrightarrow> cs = ds"
  by (induction cs ds rule: mismatch.induct) auto

lemma mismatch_prefix: "0 \<notin> set ds \<Longrightarrow> snd (mismatch cs ds) = 0 \<longleftrightarrow> prefix ds cs"
  if "0 \<notin> set cs"
  using that by (induction cs ds rule: mismatch.induct) auto

lemma mismatch_ends: "0 \<notin> set cs \<Longrightarrow> fst (mismatch cs ds) = 0 \<Longrightarrow> prefix cs ds"
  by (induction cs ds rule: mismatch.induct) (auto split: if_splits)

lemma mismatch_less:
  assumes "\<And>a b. val a = (val b :: int) \<longleftrightarrow> a = b" "0 \<notin> set cs" "0 \<notin> set ds"
  shows "val (fst (mismatch cs ds)) < val (snd (mismatch cs ds)) \<longleftrightarrow>
    map val (cs @ [0]) < map val (ds @ [0])"
  using assms(2,3)
proof (induction cs ds rule: mismatch.induct)
  case (4 c cs d ds)
  then show ?case by (auto simp: assms(1) less_le)
qed (auto simp: assms(1) less_le)

lemma cmp_loop_cstr:
  fixes cs ds :: "'c::len word list"
  shows "cstr m p cs \<Longrightarrow> cstr m q ds \<Longrightarrow> cmp_loop m (0 :: 'c word) p q = Inr (mismatch cs ds)"
proof (induction cs ds arbitrary: p q rule: mismatch.induct)
  case (4 c cs d ds)
  then show ?case by (subst cmp_loop.simps) auto
qed (subst cmp_loop.simps, auto)+

lemma icmp_loop_cstr:
  "cstr m p cs \<Longrightarrow> cstr m q ds \<Longrightarrow>
   icmp_loop env m p q = Inr (mismatch (map (AsciiCharToUpper env) cs) (map (AsciiCharToUpper env) ds))"
proof (induction cs ds arbitrary: p q rule: list_induct2')
  case (4 c cs d ds)
  then show ?case by (subst icmp_loop.simps) (auto simp: Let_def sizeof_word_def)
qed (subst icmp_loop.simps, auto simp: Let_def upper_eq)+

lemma ncmp_loop_cstr:
  fixes cs ds :: "'c::len word list"
  shows "cstr m p cs \<Longrightarrow> cstr m q ds \<Longrightarrow> n \<noteq> 0 \<Longrightarrow>
    \<exists>a b. ncmp_loop m (0 :: 'c word) p q n = Inr (a, b) \<and>
      (let (c, d) = mismatch (take (unat n) cs) (take (unat n) ds) in
        val a - val b = val c - (val d :: int))"
proof (induction cs ds arbitrary: p q n rule: mismatch.induct)
  case 1
  then show ?case by (subst ncmp_loop.simps) auto
next
  case (2 d ds)
  then show ?case by (subst ncmp_loop.simps) (cases "unat n", auto simp: unat_eq_0)
next
  case (3 c cs)
  then show ?case by (subst ncmp_loop.simps) (cases "unat n", auto simp: unat_eq_0)
next
  case (4 c cs d ds)
  obtain k where k: "unat n = Suc k" using 4(4) by (cases "unat n") (auto simp: unat_eq_0)
  show ?case
  proof (cases "c = d \<and> 1 < n")
    case True
    then have "1 \<le> n" "n - 1 \<noteq> 0" by auto
    moreover then have "unat (n - 1) = k" using k by (simp add: unat_sub)
    ultimately obtain a b where
      "ncmp_loop m 0 (p + of_nat (sizeof_word c)) (q + of_nat (sizeof_word d)) (n - 1) = Inr (a, b)"
      "let (c, d) = mismatch (take k cs) (take k ds) in val a - val b = val c - val d"
      using 4(1) [of "p + of_nat (sizeof_word c)" "q + of_nat (sizeof_word d)" "n - 1"] 4(2,3) True
      by auto
    with True 4(2,3) k show ?thesis by (subst ncmp_loop.simps) auto
  next
    case False
    then have "c = d \<Longrightarrow> k = 0"
      using k by (auto simp: not_less word_le_nat_alt)
    with False 4(2,3) k show ?thesis by (subst ncmp_loop.simps) auto
  qed
qed

section \<open>The contract of a comparison\<close>

lemma difference_value: "- (2 ^ 32) < d \<Longrightarrow> d < 2 ^ 32 \<Longrightarrow> sint (word_of_int d :: INTN) = d"
  by (simp add: int_word_sint)

locale string_compare =
  fixes val :: "'c::len word \<Rightarrow> int"
    and ok :: "UINTN \<Rightarrow> nat \<Rightarrow> bool"
    and cmp :: "mem \<Rightarrow> UINTN \<Rightarrow> UINTN \<Rightarrow> INTN res"
  assumes val_eq: "val a = val b \<longleftrightarrow> a = b"
    and val_range: "- (2 ^ 31) < val a \<and> val a < 2 ^ 31"
    and cmp_mismatch: "cstr m p cs \<Longrightarrow> cstr m q ds \<Longrightarrow> ok p (length cs) \<Longrightarrow> ok q (length ds) \<Longrightarrow>
      cmp m p q = Inr (word_of_int (val (fst (mismatch cs ds)) - val (snd (mismatch cs ds))))"
begin

lemma result_value:
  "sint (word_of_int (val a - val b) :: INTN) = val a - val b"
  using val_range [of a] val_range [of b] by (intro difference_value) auto

lemma zero_iff_equal:
  fixes cs ds :: "'c word list"
  assumes "cstr m p cs" "cstr m q ds" "ok p (length cs)" "ok q (length ds)"
  shows "cmp m p q = Inr 0 \<longleftrightarrow> cs = ds"
proof -
  let ?a = "fst (mismatch cs ds)" and ?b = "snd (mismatch cs ds)"
  have "(word_of_int (val ?a - val ?b) :: INTN) = 0 \<longleftrightarrow> val ?a - val ?b = 0"
    by (metis result_value sint_0 word_of_int_0)
  also have "\<dots> \<longleftrightarrow> cs = ds"
    using mismatch_equal [of cs ds] assms(1,2) by (simp add: val_eq cstr_def)
  finally show ?thesis using cmp_mismatch [OF assms] by simp
qed

lemma antisymmetric:
  fixes cs ds :: "'c word list"
  assumes "cstr m p cs" "cstr m q ds" "ok p (length cs)" "ok q (length ds)"
  shows "cmp m q p = map_res uminus (cmp m p q)"
  using cmp_mismatch [OF assms] cmp_mismatch [OF assms(2,1,4,3)]
  by (simp add: mismatch_swap [of ds cs])

lemma negative_iff_less:
  fixes cs ds :: "'c word list"
  assumes "cstr m p cs" "cstr m q ds" "ok p (length cs)" "ok q (length ds)"
  shows "\<exists>r. cmp m p q = Inr r \<and> (sint r < 0 \<longleftrightarrow> map val (cs @ [0]) < map val (ds @ [0]))"
proof (intro exI conjI)
  show "cmp m p q = Inr (word_of_int (val (fst (mismatch cs ds)) - val (snd (mismatch cs ds))))"
    by (rule cmp_mismatch [OF assms])
  have "0 \<notin> set cs" "0 \<notin> set ds" using assms(1,2) by (simp_all add: cstr_def)
  from mismatch_less [OF val_eq this]
  show "sint (word_of_int (val (fst (mismatch cs ds)) - val (snd (mismatch cs ds))) :: INTN) < 0 \<longleftrightarrow>
      map val (cs @ [0]) < map val (ds @ [0])"
    unfolding result_value by simp
qed

end

interpretation wide: string_compare "uint :: CHAR16 \<Rightarrow> int" "wide_ok env" "StrCmp env" for env
proof unfold_locales
  fix a b :: CHAR16
  show "uint a = uint b \<longleftrightarrow> a = b" by (rule word_uint_eq_iff [symmetric])
  show "- (2 ^ 31) < uint a \<and> uint a < 2 ^ 31"
    using uint_bounded [of a] by (auto intro: less_le_trans [OF _ unsigned_greater_eq])
next
  fix m p q and cs ds :: "CHAR16 list"
  assume a: "cstr m p cs" "cstr m q ds" "wide_ok env p (length cs)" "wide_ok env q (length ds)"
  show "StrCmp env m p q =
      Inr (word_of_int (uint (fst (mismatch cs ds)) - uint (snd (mismatch cs ds))))"
    by (simp add: StrCmp_def wide_size_check [OF a(1,3)] wide_size_check [OF a(2,4)]
        cmp_loop_cstr [OF a(1,2)] case_prod_beta)
qed

interpretation narrow: string_compare "promote env" "narrow_ok env" "AsciiStrCmp env" for env
proof unfold_locales
  fix a b :: CHAR8
  show "promote env a = promote env b \<longleftrightarrow> a = b" by (rule promote_inj)
  show "- (2 ^ 31) < promote env a \<and> promote env a < 2 ^ 31"
    using promote_range [of env a] by simp
next
  fix m p q and cs ds :: "CHAR8 list"
  assume a: "cstr m p cs" "cstr m q ds" "narrow_ok env p (length cs)" "narrow_ok env q (length ds)"
  show "AsciiStrCmp env m p q =
      Inr (word_of_int (promote env (fst (mismatch cs ds)) - promote env (snd (mismatch cs ds))))"
    by (simp add: AsciiStrCmp_def narrow_size_check [OF a(1,3)] narrow_size_check [OF a(2,4)]
        cmp_loop_cstr [OF a(1,2)] case_prod_beta)
qed

section \<open>Search\<close>

text \<open>The least position at which a list occurs in another.\<close>

fun find_sub :: "'c list \<Rightarrow> 'c list \<Rightarrow> nat option" where
  "find_sub [] ds = (if ds = [] then Some 0 else None)"
| "find_sub (c # cs) ds =
     (if prefix ds (c # cs) then Some 0 else map_option Suc (find_sub cs ds))"

lemma find_sub_None: "find_sub cs ds = None \<longleftrightarrow> \<not> sublist ds cs"
  by (induction cs) (auto simp: sublist_Cons_right)

lemma find_sub_Some:
  "find_sub cs ds = Some i \<Longrightarrow> i \<le> length cs \<and> prefix ds (drop i cs) \<and> (\<forall>j<i. \<not> prefix ds (drop j cs))"
proof (induction cs arbitrary: i)
  case (Cons c cs)
  show ?case
  proof (cases "prefix ds (c # cs)")
    case False
    with Cons.prems obtain j where j: "find_sub cs ds = Some j" "i = Suc j" by auto
    with Cons.IH [of j] False show ?thesis by (auto simp: less_Suc_eq_0_disj)
  qed (use Cons.prems in simp)
qed (auto split: if_splits)

lemma find_sub_short: "length cs < length ds \<Longrightarrow> find_sub cs ds = None"
  by (auto simp: find_sub_None dest: sublist_length_le)

lemma search_loop_cstr:
  fixes cs ds :: "'c::len word list"
  shows "cstr m p cs \<Longrightarrow> cstr m q ds \<Longrightarrow> ds \<noteq> [] \<Longrightarrow>
    search_loop m (0 :: 'c word) p q =
      Inr (case find_sub cs ds of None \<Rightarrow> NULL
           | Some i \<Rightarrow> p + of_nat (sizeof_word (0 :: 'c word) * i))"
proof (induction cs arbitrary: p)
  case Nil
  then show ?case by (subst search_loop.simps) simp
next
  case (Cons c cs)
  let ?m = "mismatch (c # cs) ds"
  have z: "0 \<notin> set (c # cs)" "0 \<notin> set ds" using Cons.prems by (auto simp: cstr_def)
  have step: "search_loop m (0 :: 'c word) p q =
      (if snd ?m = 0 then Inr p else if fst ?m = 0 then Inr NULL
       else search_loop m (0 :: 'c word) (p + of_nat (sizeof_word c)) q)"
    using Cons.prems cmp_loop_cstr [OF Cons.prems(1,2)]
    by (subst search_loop.simps) (simp add: case_prod_beta)
  have s: "sizeof_word c = sizeof_word (0 :: 'c word)" by (simp add: sizeof_word_def)
  consider "prefix ds (c # cs)" | "\<not> prefix ds (c # cs)" "fst ?m = 0"
    | "\<not> prefix ds (c # cs)" "fst ?m \<noteq> 0" by blast
  then show ?case
  proof cases
    case 1
    with step mismatch_prefix [OF z] show ?thesis by simp
  next
    case 2
    from mismatch_ends [OF z(1) 2(2)] have "prefix (c # cs) ds" .
    with 2(1) have "length (c # cs) < length ds"
      by (metis prefix_length_le prefix_order.eq_iff prefix_length_prefix le_less_linear prefix_order.refl)
    then have "find_sub (c # cs) ds = None" by (rule find_sub_short)
    with 2 step mismatch_prefix [OF z] show ?thesis by (simp del: find_sub.simps)
  next
    case 3
    with step mismatch_prefix [OF z] Cons.IH [of "p + of_nat (sizeof_word c)"] Cons.prems show ?thesis
      by (auto simp: s algebra_simps split: option.split)
  qed
qed


lemma search_value:
  fixes cs ds :: "'c::len word list"
  assumes "cstr m p cs" "cstr m q ds"
    and r: "r = (if ds = [] then Inr p else search_loop m (0 :: 'c word) p q)"
  shows "\<not> sublist ds cs \<and> r = Inr NULL \<or>
    (\<exists>i. i \<le> length cs \<and> r = Inr (p + of_nat (sizeof_word (0 :: 'c word) * i)) \<and>
      prefix ds (drop i cs) \<and> (\<forall>j<i. \<not> prefix ds (drop j cs)))"
proof (cases "ds = []")
  case False
  show ?thesis
  proof (cases "find_sub cs ds")
    case None
    then show ?thesis using search_loop_cstr [OF assms(1,2) False] r False find_sub_None by force
  next
    case (Some i)
    then show ?thesis using search_loop_cstr [OF assms(1,2) False] r False find_sub_Some [OF Some] by auto
  qed
qed (intro disjI2 exI [of _ 0], simp add: r)

lemma search_value_wide:
  assumes "cstr m p (cs :: CHAR16 list)" "cstr m q ds" "wide_ok env p (length cs)" "wide_ok env q (length ds)"
  shows "\<not> sublist ds cs \<and> StrStr env m p q = Inr NULL \<or>
    (\<exists>i. i \<le> length cs \<and> StrStr env m p q = Inr (p + 2 * of_nat i) \<and>
      prefix ds (drop i cs) \<and> (\<forall>j<i. \<not> prefix ds (drop j cs)))"
proof -
  have "StrStr env m p q = (if ds = [] then Inr p else search_loop m (0 :: CHAR16) p q)"
    using assms(2) by (cases ds) (simp_all add: StrStr_def wide_size_check [OF assms(1,3)]
        wide_size_check [OF assms(2,4)])
  from search_value [OF assms(1,2) this] show ?thesis by (simp add: sizeof_word_def)
qed

lemma search_value_narrow:
  assumes "cstr m p (cs :: CHAR8 list)" "cstr m q ds" "narrow_ok env p (length cs)" "narrow_ok env q (length ds)"
  shows "\<not> sublist ds cs \<and> AsciiStrStr env m p q = Inr NULL \<or>
    (\<exists>i. i \<le> length cs \<and> AsciiStrStr env m p q = Inr (p + of_nat i) \<and>
      prefix ds (drop i cs) \<and> (\<forall>j<i. \<not> prefix ds (drop j cs)))"
proof -
  have "AsciiStrStr env m p q = (if ds = [] then Inr p else search_loop m (0 :: CHAR8) p q)"
    using assms(2) by (cases ds) (simp_all add: AsciiStrStr_def narrow_size_check [OF assms(1,3)]
        narrow_size_check [OF assms(2,4)])
  from search_value [OF assms(1,2) this] show ?thesis by (simp add: sizeof_word_def)
qed

section \<open>The contract of a bounded comparison\<close>

lemma mismatch_take:
  "length cs \<le> n \<Longrightarrow> length ds \<le> n \<Longrightarrow> mismatch (take n cs) (take n ds) = mismatch cs ds"
  by simp

lemma set_take_zero: "0 \<notin> set cs \<Longrightarrow> 0 \<notin> set (take n cs)"
  by (meson in_set_takeD)

locale bounded_compare = string_compare +
  fixes count_ok :: "UINTN \<Rightarrow> bool"
    and ncmp :: "mem \<Rightarrow> UINTN \<Rightarrow> UINTN \<Rightarrow> UINTN \<Rightarrow> INTN res"
  assumes ncmp_zero: "ncmp m p q 0 = Inr 0"
    and ncmp_mismatch: "cstr m p cs \<Longrightarrow> cstr m q ds \<Longrightarrow> ok p (length cs) \<Longrightarrow> ok q (length ds) \<Longrightarrow>
      n \<noteq> 0 \<Longrightarrow> count_ok n \<Longrightarrow>
      ncmp m p q n = (let (c, d) = mismatch (take (unat n) cs) (take (unat n) ds) in
        Inr (word_of_int (val c - val d)))"
begin

lemma bounded_zero_iff:
  fixes cs ds :: "'a word list"
  assumes "cstr m p cs" "cstr m q ds" "ok p (length cs)" "ok q (length ds)" "count_ok n"
  shows "ncmp m p q n = Inr 0 \<longleftrightarrow> take (unat n) cs = take (unat n) ds"
proof (cases "n = 0")
  case False
  let ?m = "mismatch (take (unat n) cs) (take (unat n) ds)"
  have "0 \<notin> set (take (unat n) cs)" "0 \<notin> set (take (unat n) ds)"
    using assms(1,2) by (auto simp: cstr_def dest: in_set_takeD)
  note eq = mismatch_equal [OF this]
  have "(word_of_int (val (fst ?m) - val (snd ?m)) :: INTN) = 0 \<longleftrightarrow> val (fst ?m) - val (snd ?m) = 0"
    by (metis result_value sint_0 word_of_int_0)
  then show ?thesis
    using ncmp_mismatch [OF assms(1-4) False assms(5)] eq by (simp add: case_prod_beta val_eq)
qed (simp add: ncmp_zero)

lemma bounded_less:
  fixes cs ds :: "'a word list"
  assumes "cstr m p cs" "cstr m q ds" "ok p (length cs)" "ok q (length ds)" "count_ok n"
  shows "\<exists>r. ncmp m p q n = Inr r \<and> ncmp m q p n = Inr (- r) \<and>
    (sint r < 0 \<longleftrightarrow> map val (take (unat n) cs @ [0]) < map val (take (unat n) ds @ [0]))"
proof (cases "n = 0")
  case False
  let ?cs = "take (unat n) cs" and ?ds = "take (unat n) ds"
  have z: "0 \<notin> set ?cs" "0 \<notin> set ?ds"
    using assms(1,2) by (auto simp: cstr_def dest: in_set_takeD)
  let ?m = "mismatch ?cs ?ds"
  let ?r = "word_of_int (val (fst ?m) - val (snd ?m)) :: INTN"
  have "ncmp m p q n = Inr ?r" "ncmp m q p n = Inr (- ?r)"
    using ncmp_mismatch [OF assms(1-4) False assms(5)] ncmp_mismatch [OF assms(2,1,4,3) False assms(5)]
    by (simp_all add: case_prod_beta mismatch_swap [of ?ds ?cs])
  moreover have "sint ?r < 0 \<longleftrightarrow> map val (?cs @ [0]) < map val (?ds @ [0])"
    using mismatch_less [OF val_eq z] unfolding result_value by simp
  ultimately show ?thesis by blast
qed (simp add: ncmp_zero)

lemma bounded_long:
  fixes cs ds :: "'a word list"
  assumes "cstr m p cs" "cstr m q ds" "ok p (length cs)" "ok q (length ds)" "count_ok n" "n \<noteq> 0"
    and "length cs \<le> unat n" "length ds \<le> unat n"
  shows "ncmp m p q n = cmp m p q"
  using ncmp_mismatch [OF assms(1-4,6,5)] cmp_mismatch [OF assms(1-4)] assms(7,8)
  by (simp add: case_prod_beta)

end

definition wide_count_ok :: "build_env \<Rightarrow> UINTN \<Rightarrow> bool" where
  "wide_count_ok env n \<longleftrightarrow> asserts_on env \<longrightarrow>
     PcdMaximumUnicodeStringLength env = 0 \<or> n \<le> ucast (PcdMaximumUnicodeStringLength env)"

definition narrow_count_ok :: "build_env \<Rightarrow> UINTN \<Rightarrow> bool" where
  "narrow_count_ok env n \<longleftrightarrow> asserts_on env \<longrightarrow>
     PcdMaximumAsciiStringLength env = 0 \<or> n \<le> ucast (PcdMaximumAsciiStringLength env)"

interpretation nwide: bounded_compare "uint :: CHAR16 \<Rightarrow> int" "wide_ok env" "StrCmp env"
    "wide_count_ok env" "StrnCmp env" for env
proof unfold_locales
  fix m p q and n :: UINTN and cs ds :: "CHAR16 list"
  show "StrnCmp env m p q 0 = Inr 0" by (simp add: StrnCmp_def)
  assume a: "cstr m p cs" "cstr m q ds" "wide_ok env p (length cs)" "wide_ok env q (length ds)"
    "n \<noteq> 0" "wide_count_ok env n"
  have k: "ASSERT env (PcdMaximumUnicodeStringLength env \<noteq> 0 \<longrightarrow>
      n \<le> ucast (PcdMaximumUnicodeStringLength env)) k = k" for k :: "INTN res"
    using a(6) by (intro ASSERT_skip) (auto simp: wide_count_ok_def)
  show "StrnCmp env m p q n = (let (c, d) = mismatch (take (unat n) cs) (take (unat n) ds) in
      Inr (word_of_int (uint c - uint d)))"
    using ncmp_loop_cstr [OF a(1,2,5), of uint]
    by (auto simp: StrnCmp_def a(5) k wide_size_check [OF a(1,3)] wide_size_check [OF a(2,4)]
        simp del: of_int_diff)
qed

interpretation nnarrow: bounded_compare "promote env" "narrow_ok env" "AsciiStrCmp env"
    "narrow_count_ok env" "AsciiStrnCmp env" for env
proof unfold_locales
  fix m p q and n :: UINTN and cs ds :: "CHAR8 list"
  show "AsciiStrnCmp env m p q 0 = Inr 0" by (simp add: AsciiStrnCmp_def)
  assume a: "cstr m p cs" "cstr m q ds" "narrow_ok env p (length cs)" "narrow_ok env q (length ds)"
    "n \<noteq> 0" "narrow_count_ok env n"
  have k: "ASSERT env (PcdMaximumAsciiStringLength env \<noteq> 0 \<longrightarrow>
      n \<le> ucast (PcdMaximumAsciiStringLength env)) k = k" for k :: "INTN res"
    using a(6) by (intro ASSERT_skip) (auto simp: narrow_count_ok_def)
  show "AsciiStrnCmp env m p q n = (let (c, d) = mismatch (take (unat n) cs) (take (unat n) ds) in
      Inr (word_of_int (promote env c - promote env d)))"
    using ncmp_loop_cstr [OF a(1,2,5), of "promote env"]
    by (auto simp: AsciiStrnCmp_def a(5) k narrow_size_check [OF a(1,3)] narrow_size_check [OF a(2,4)]
        simp del: of_int_diff)
qed

section \<open>Sample strings\<close>

definition text_mem :: "UINTN \<Rightarrow> 'c::len word list \<Rightarrow> mem" where
  "text_mem a cs = sample_mem a (concat (map (le_bytes (sizeof_word (0 :: 'c word))) cs))"

lemma words_at_le_bytes:
  "bytes_at m a (concat (map (le_bytes (sizeof_word (0 :: 'c word))) ws)) \<Longrightarrow>
   words_at m a (ws :: 'c::len word list)"
proof (induction ws arbitrary: a)
  case (Cons w ws)
  let ?s = "sizeof_word (0 :: 'c word)"
  have "LENGTH('c) \<le> 8 * ?s" by (simp add: sizeof_word_def)
  then have "le_word (le_bytes ?s w) = w" by (rule le_word_le_bytes)
  moreover have "load m a = Inr (le_word (le_bytes ?s w) :: 'c word)"
    using Cons.prems by (intro load_at) (simp_all add: bytes_at_append)
  ultimately have "load m a = Inr w" by simp
  moreover have "sizeof_word w = ?s" by (simp add: sizeof_word_def)
  ultimately show ?case using Cons by (simp add: bytes_at_append)
qed simp

lemma text_mem_strings:
  fixes cs ds :: "'c::len word list"
  defines "s \<equiv> sizeof_word (0 :: 'c word)"
  assumes "0 \<notin> set cs" "0 \<notin> set ds"
    and "0 < unat a" "unat a + s * (length cs + length ds + 2) \<le> 2 ^ 64"
  shows "cstr (text_mem a (cs @ 0 # ds @ [0])) a cs \<and>
    cstr (text_mem a (cs @ 0 # ds @ [0])) (a + of_nat (s * (length cs + 1))) ds"
proof -
  let ?ws = "(cs @ [0]) @ ds @ [0]"
  let ?bs = "concat (map (le_bytes s) ?ws)"
  have "length ?bs = s * length ?ws" by (simp add: length_concat sum_list_triv comp_def algebra_simps)
  then have "bytes_at (sample_mem a ?bs) a ?bs"
    using assms(4,5) by (intro sample_mem_bytes) (auto simp: algebra_simps)
  then have "words_at (text_mem a ?ws) a ?ws"
    unfolding text_mem_def s_def by (rule words_at_le_bytes)
  then have "words_at (text_mem a ?ws) a (cs @ [0]) \<and>
      words_at (text_mem a ?ws) (a + of_nat (s * length (cs @ [0]))) (ds @ [0])"
    unfolding words_at_append [of _ _ "cs @ [0]"] s_def .
  then show ?thesis using assms(2,3) by (simp add: cstr_def del: words_at.simps)
qed

lemmas wide_sample = text_mem_strings [where 'c = 16]
lemmas narrow_sample = text_mem_strings [where 'c = 8]

lemma debug_ok:
  "narrow_ok debug_env p n \<longleftrightarrow> n \<le> 1000000"
  "wide_ok debug_env p n \<longleftrightarrow> p AND 1 = 0 \<and> n \<le> 1000000"
  by (simp_all add: narrow_ok_def wide_ok_def debug_env_asserts) (simp_all add: debug_env_def)

text \<open>Two strings in each: \<open>Hi\<close> and \<open>i\<close> at 16 and 22, and e-acute, i and i at 16 and 19.\<close>

definition wide_text :: mem where
  "wide_text = text_mem 16 ([0x48, 0x69, 0, 0x69, 0] :: CHAR16 list)"

definition narrow_text :: mem where
  "narrow_text = text_mem 16 ([0xE9, 0x69, 0, 0x69, 0] :: CHAR8 list)"

lemma sample_texts:
  "cstr wide_text 16 [0x48, 0x69 :: CHAR16]" "cstr wide_text 22 [0x69 :: CHAR16]"
  "cstr narrow_text 16 [0xE9, 0x69 :: CHAR8]" "cstr narrow_text 19 [0x69 :: CHAR8]"
proof -
  have z: "(0 :: CHAR16) \<notin> set [0x48, 0x69]" "(0 :: CHAR16) \<notin> set [0x69]"
    "(0 :: CHAR8) \<notin> set [0xE9, 0x69]" "(0 :: CHAR8) \<notin> set [0x69]" by simp_all
  from wide_sample [OF z(1,2), of 16] narrow_sample [OF z(3,4), of 16]
  show "cstr wide_text 16 [0x48, 0x69 :: CHAR16]" "cstr wide_text 22 [0x69 :: CHAR16]"
    "cstr narrow_text 16 [0xE9, 0x69 :: CHAR8]" "cstr narrow_text 19 [0x69 :: CHAR8]"
    unfolding wide_text_def narrow_text_def
    by (simp_all add: sizeof_word_def del: cstr_simps)
qed

lemma debug_promote: "promote debug_env = sint"
  by (rule ext) (simp add: promote_def debug_env_def)

section \<open>Properties\<close>

text \<open>
  C24. Length and size: for a string of \<open>n\<close> characters \<open>StrLen\<close> and \<open>AsciiStrLen\<close> return
  \<open>n\<close> and the size functions the bytes up to and with the terminator, unless assertions stop
  the build and the string is longer than the nonzero maximum, or the Unicode pointer is odd,
  or the pointer is NULL: then they assert.
\<close>

theorem string_length:
  assumes "cstr m p (cs :: CHAR16 list)" "cstr m' q (ds :: CHAR8 list)"
  shows "StrLen env m p =
      (if wide_ok env p (length cs) then Inr (of_nat (length cs)) else Inl AssertFailed) \<and>
    StrSize env m p =
      (if wide_ok env p (length cs) then Inr (of_nat (2 * (length cs + 1))) else Inl AssertFailed) \<and>
    AsciiStrLen env m' q =
      (if narrow_ok env q (length ds) then Inr (of_nat (length ds)) else Inl AssertFailed) \<and>
    AsciiStrSize env m' q =
      (if narrow_ok env q (length ds) then Inr (of_nat (length ds + 1)) else Inl AssertFailed) \<and>
    (asserts_on env \<longrightarrow> StrLen env m NULL = Inl AssertFailed \<and>
      StrSize env m NULL = Inl AssertFailed \<and> AsciiStrLen env m NULL = Inl AssertFailed \<and>
      AsciiStrSize env m NULL = Inl AssertFailed)"
  using StrLen_cstr [OF assms(1), of env] AsciiStrLen_cstr [OF assms(2), of env]
  by (simp add: StrSize_def AsciiStrSize_def sizeof_word_def algebra_simps)
    (simp add: StrLen_def AsciiStrLen_def ASSERT_False)

theorem string_length_witness:
  "StrSize debug_env wide_text 16 = Inr 6 \<and> AsciiStrLen debug_env narrow_text 19 = Inr 1"
  using string_length [OF sample_texts(1,4), of debug_env] by (simp add: debug_ok)

text \<open>
  C3. \<open>StrCmp\<close> and \<open>AsciiStrCmp\<close> are the order of strings: on strings within the limits they
  return 0 exactly for equal strings, swapping the arguments negates the result, and the
  result is negative exactly if the first string with its terminator is lexicographically
  less than the second, characters compared as unsigned \<open>CHAR16\<close> or as promoted \<open>CHAR8\<close>.
\<close>

theorem string_compare_order:
  assumes "cstr m p (cs :: CHAR16 list)" "cstr m q ds"
    and "wide_ok env p (length cs)" "wide_ok env q (length ds)"
    and "cstr m' p' (cs' :: CHAR8 list)" "cstr m' q' ds'"
    and "narrow_ok env p' (length cs')" "narrow_ok env q' (length ds')"
  shows "(StrCmp env m p q = Inr 0 \<longleftrightarrow> cs = ds) \<and>
    StrCmp env m q p = map_res uminus (StrCmp env m p q) \<and>
    (\<exists>r. StrCmp env m p q = Inr r \<and>
      (sint r < 0 \<longleftrightarrow> map uint (cs @ [0]) < map uint (ds @ [0]))) \<and>
    (AsciiStrCmp env m' p' q' = Inr 0 \<longleftrightarrow> cs' = ds') \<and>
    AsciiStrCmp env m' q' p' = map_res uminus (AsciiStrCmp env m' p' q') \<and>
    (\<exists>r. AsciiStrCmp env m' p' q' = Inr r \<and>
      (sint r < 0 \<longleftrightarrow> map (promote env) (cs' @ [0]) < map (promote env) (ds' @ [0])))"
  using wide.zero_iff_equal [OF assms(1-4)] wide.antisymmetric [OF assms(1-4)]
    wide.negative_iff_less [OF assms(1-4)] narrow.zero_iff_equal [OF assms(5-8)]
    narrow.antisymmetric [OF assms(5-8)] narrow.negative_iff_less [OF assms(5-8)]
  by blast

theorem string_compare_order_witness:
  "(\<exists>r. StrCmp debug_env wide_text 16 22 = Inr r \<and> sint r < 0) \<and>
   (\<exists>r. AsciiStrCmp debug_env narrow_text 16 19 = Inr r \<and> sint r < 0)"
  using string_compare_order [OF sample_texts(1,2) _ _ sample_texts(3,4), of debug_env]
  by (simp add: debug_ok debug_promote)

text \<open>
  C17. \<open>StrnCmp\<close> and \<open>AsciiStrnCmp\<close> compare at most \<open>Length\<close> characters: on strings and
  lengths within the limits they return 0 exactly if the first \<open>Length\<close> characters agree, swapping the
  strings negates the result, and the result is negative exactly if the first \<open>Length\<close> characters of the first
  string are lexicographically less than those of the second, a string that ends before them counted with its
  terminator. They return what the unbounded comparison returns if neither string is longer; with \<open>Length\<close>
  zero they return 0 without reading memory.
\<close>

theorem string_compare_bounded:
  assumes "cstr m p (cs :: CHAR16 list)" "cstr m q ds"
    and "wide_ok env p (length cs)" "wide_ok env q (length ds)" "wide_count_ok env n"
    and "cstr m' p' (cs' :: CHAR8 list)" "cstr m' q' ds'"
    and "narrow_ok env p' (length cs')" "narrow_ok env q' (length ds')" "narrow_count_ok env n"
  shows "(StrnCmp env m p q n = Inr 0 \<longleftrightarrow> take (unat n) cs = take (unat n) ds) \<and>
    (AsciiStrnCmp env m' p' q' n = Inr 0 \<longleftrightarrow> take (unat n) cs' = take (unat n) ds') \<and>
    (\<exists>r. StrnCmp env m p q n = Inr r \<and> StrnCmp env m q p n = Inr (- r) \<and>
      (sint r < 0 \<longleftrightarrow> map uint (take (unat n) cs @ [0]) < map uint (take (unat n) ds @ [0]))) \<and>
    (\<exists>r. AsciiStrnCmp env m' p' q' n = Inr r \<and> AsciiStrnCmp env m' q' p' n = Inr (- r) \<and>
      (sint r < 0 \<longleftrightarrow>
        map (promote env) (take (unat n) cs' @ [0]) < map (promote env) (take (unat n) ds' @ [0]))) \<and>
    (n \<noteq> 0 \<and> length cs \<le> unat n \<and> length ds \<le> unat n \<longrightarrow>
      StrnCmp env m p q n = StrCmp env m p q) \<and>
    (n \<noteq> 0 \<and> length cs' \<le> unat n \<and> length ds' \<le> unat n \<longrightarrow>
      AsciiStrnCmp env m' p' q' n = AsciiStrCmp env m' p' q') \<and>
    StrnCmp env m'' x y 0 = Inr 0 \<and> AsciiStrnCmp env m'' x y 0 = Inr 0"
  using nwide.bounded_zero_iff [OF assms(1-5)] nnarrow.bounded_zero_iff [OF assms(6-10)]
    nwide.bounded_less [OF assms(1-5)] nnarrow.bounded_less [OF assms(6-10)]
    nwide.bounded_long [OF assms(1-5)] nnarrow.bounded_long [OF assms(6-10)]
    nwide.ncmp_zero [of env m'' x y] nnarrow.ncmp_zero [of env m'' x y]
  by blast

theorem string_compare_bounded_witness:
  "StrnCmp debug_env wide_text 16 22 1 \<noteq> Inr 0 \<and> AsciiStrnCmp debug_env narrow_text 16 19 2 \<noteq> Inr 0"
proof -
  have c: "wide_count_ok debug_env 1" "wide_count_ok debug_env 2" "narrow_count_ok debug_env 1"
    "narrow_count_ok debug_env 2"
    by (simp_all add: wide_count_ok_def narrow_count_ok_def debug_env_asserts)
      (simp_all add: debug_env_def)
  have "StrnCmp debug_env wide_text 16 22 1 \<noteq> Inr 0"
    using string_compare_bounded [OF sample_texts(1,2) _ _ c(1) sample_texts(3,4) _ _ c(3)]
    by (simp add: debug_ok)
  moreover have "AsciiStrnCmp debug_env narrow_text 16 19 2 \<noteq> Inr 0"
    using string_compare_bounded [OF sample_texts(1,2) _ _ c(2) sample_texts(3,4) _ _ c(4),
        THEN conjunct2, THEN conjunct1]
    by (simp add: debug_ok)
  ultimately show ?thesis ..
qed

text \<open>
  C25. \<open>AsciiStriCmp\<close> compares without regard to case: on strings within the limit it
  returns 0 exactly if their upper-case forms are equal, swapping the arguments negates the
  result, and its sign is the lexicographic order of the upper-case forms.
\<close>

theorem string_compare_nocase:
  assumes "cstr m p cs" "cstr m q ds"
    and "narrow_ok env p (length cs)" "narrow_ok env q (length ds)"
  defines "up \<equiv> map (AsciiCharToUpper env)"
  shows "(AsciiStriCmp env m p q = Inr 0 \<longleftrightarrow> up cs = up ds) \<and>
    AsciiStriCmp env m q p = map_res uminus (AsciiStriCmp env m p q) \<and>
    (\<exists>r. AsciiStriCmp env m p q = Inr r \<and>
      (sint r < 0 \<longleftrightarrow> map (promote env) (up cs @ [0]) < map (promote env) (up ds @ [0])))"
proof -
  let ?m = "mismatch (up cs) (up ds)"
  let ?d = "promote env (fst ?m) - promote env (snd ?m)"
  have "0 = AsciiCharToUpper env c \<longleftrightarrow> c = 0" for c by (auto simp: upper_eq)
  then have z: "0 \<notin> set (up cs)" "0 \<notin> set (up ds)"
    using assms(1,2) by (auto simp: up_def cstr_def image_iff)
  have r: "AsciiStriCmp env m p q = Inr (word_of_int ?d)"
    "AsciiStriCmp env m q p = Inr (word_of_int (- ?d))"
    using icmp_loop_cstr [OF assms(1,2), of env] icmp_loop_cstr [OF assms(2,1), of env]
    by (simp_all add: AsciiStriCmp_def narrow_size_check [OF assms(1,3)]
        narrow_size_check [OF assms(2,4)] case_prod_beta mismatch_swap [of "up ds" "up cs"]
        flip: up_def)
  have v: "sint (word_of_int ?d :: INTN) = ?d" by (rule narrow.result_value)
  then have "(word_of_int ?d :: INTN) = 0 \<longleftrightarrow> ?d = 0" by (metis sint_0 word_of_int_0)
  then have "(word_of_int ?d :: INTN) = 0 \<longleftrightarrow> up cs = up ds"
    using mismatch_equal [OF z] by (simp add: promote_inj)
  moreover have "sint (word_of_int ?d :: INTN) < 0 \<longleftrightarrow>
      map (promote env) (up cs @ [0]) < map (promote env) (up ds @ [0])"
    using mismatch_less [OF promote_inj z, of env] unfolding v by simp
  ultimately show ?thesis using r by simp
qed

theorem string_compare_nocase_witness:
  "AsciiStriCmp debug_env (text_mem 16 ([0x48, 0x69, 0, 0x68, 0x49, 0] :: CHAR8 list)) 16 19 = Inr 0"
proof -
  have z: "(0 :: CHAR8) \<notin> set [0x48, 0x69]" "(0 :: CHAR8) \<notin> set [0x68, 0x49]" by simp_all
  have c: "cstr (text_mem 16 ([0x48, 0x69, 0, 0x68, 0x49, 0] :: CHAR8 list)) 16 ([0x48, 0x69] :: CHAR8 list)"
    "cstr (text_mem 16 ([0x48, 0x69, 0, 0x68, 0x49, 0] :: CHAR8 list)) 19 ([0x68, 0x49] :: CHAR8 list)"
    using narrow_sample [OF z, of 16] by (simp_all add: sizeof_word_def del: cstr_simps)
  show ?thesis
    using string_compare_nocase [OF c, of debug_env] by (simp add: debug_ok upper_eq)
qed

text \<open>
  C15. \<open>StrStr\<close> and \<open>AsciiStrStr\<close> on strings within the limits return the first occurrence:
  the start of the string for an empty search string, otherwise the address of the least
  position at which the search string is a prefix of what follows, and NULL exactly if it
  occurs nowhere.
\<close>

theorem string_search:
  assumes "cstr m p (cs :: CHAR16 list)" "cstr m q ds"
    and "wide_ok env p (length cs)" "wide_ok env q (length ds)"
    and "cstr m' p' (cs' :: CHAR8 list)" "cstr m' q' ds'"
    and "narrow_ok env p' (length cs')" "narrow_ok env q' (length ds')"
  shows "(\<not> sublist ds cs \<and> StrStr env m p q = Inr NULL \<or>
      (\<exists>i. i \<le> length cs \<and> StrStr env m p q = Inr (p + 2 * of_nat i) \<and>
        prefix ds (drop i cs) \<and> (\<forall>j<i. \<not> prefix ds (drop j cs)))) \<and>
    (\<not> sublist ds' cs' \<and> AsciiStrStr env m' p' q' = Inr NULL \<or>
      (\<exists>i. i \<le> length cs' \<and> AsciiStrStr env m' p' q' = Inr (p' + of_nat i) \<and>
        prefix ds' (drop i cs') \<and> (\<forall>j<i. \<not> prefix ds' (drop j cs'))))"
  using search_value_wide [OF assms(1-4)] search_value_narrow [OF assms(5-8)] by blast

theorem string_search_witness:
  "StrStr debug_env wide_text 16 22 = Inr 18 \<and> AsciiStrStr debug_env narrow_text 19 16 = Inr NULL"
proof -
  have i: "i = 1" if "i \<le> Suc (Suc 0)" "prefix [0x69] (drop i [0x48, 0x69 :: CHAR16])" for i
    using that by (cases i) (auto simp: le_Suc_eq)
  have s: "sublist [0x69 :: CHAR16] [0x48, 0x69]" by (simp add: sublist_Cons_right)
  have n: "\<not> prefix [0xE9, 0x69] (drop i [0x69 :: CHAR8])" for i by (cases i) auto
  note t = string_search [OF sample_texts(1,2) _ _ sample_texts(4,3), of debug_env]
  obtain k where "k \<le> Suc (Suc 0)" "prefix [0x69] (drop k [0x48, 0x69 :: CHAR16])"
    "StrStr debug_env wide_text 16 22 = Inr (16 + 2 * of_nat k)"
    using t s by (simp add: debug_ok) blast
  with i have "StrStr debug_env wide_text 16 22 = Inr (16 + 2 * of_nat 1)" by metis
  moreover have "AsciiStrStr debug_env narrow_text 19 16 = Inr NULL"
    using t s n by (simp add: debug_ok)
  ultimately show ?thesis by simp
qed

end
