(* ===== verification/String_Conv.thy ===== *)
theory String_Conv imports Base_Types begin

text \<open>
  The conversions of \<open>String.c\<close> from decimal and hexadecimal strings to numbers. Each calls
  the function of the same name with an \<open>S\<close> in \<open>SafeString.c\<close>, which is outside the sources
  and is an argument here: from the memory, the string and the end pointer it yields a status
  and the number it stored to \<open>*Data\<close>, if it stored one. The status is dropped, and a result
  \<open>None\<close> is the value of a local variable that nothing was stored to.
\<close>

type_synonym safe_conversion = "mem \<Rightarrow> UINTN \<Rightarrow> UINTN \<Rightarrow> (RETURN_STATUS \<times> UINT64 option) res"

definition StrDecimalToUintn :: "safe_conversion \<Rightarrow> mem \<Rightarrow> UINTN \<Rightarrow> UINTN option res" where
  "StrDecimalToUintn StrDecimalToUintnS m String =
     bindr (StrDecimalToUintnS m String NULL) (\<lambda>(_, Result). Inr Result)"

definition StrDecimalToUint64 :: "safe_conversion \<Rightarrow> mem \<Rightarrow> UINTN \<Rightarrow> UINT64 option res" where
  "StrDecimalToUint64 StrDecimalToUint64S m String =
     bindr (StrDecimalToUint64S m String NULL) (\<lambda>(_, Result). Inr Result)"

definition StrHexToUintn :: "safe_conversion \<Rightarrow> mem \<Rightarrow> UINTN \<Rightarrow> UINTN option res" where
  "StrHexToUintn StrHexToUintnS m String =
     bindr (StrHexToUintnS m String NULL) (\<lambda>(_, Result). Inr Result)"

definition StrHexToUint64 :: "safe_conversion \<Rightarrow> mem \<Rightarrow> UINTN \<Rightarrow> UINT64 option res" where
  "StrHexToUint64 StrHexToUint64S m String =
     bindr (StrHexToUint64S m String NULL) (\<lambda>(_, Result). Inr Result)"

definition AsciiStrDecimalToUintn :: "safe_conversion \<Rightarrow> mem \<Rightarrow> UINTN \<Rightarrow> UINTN option res" where
  "AsciiStrDecimalToUintn AsciiStrDecimalToUintnS m String =
     bindr (AsciiStrDecimalToUintnS m String NULL) (\<lambda>(_, Result). Inr Result)"

definition AsciiStrDecimalToUint64 :: "safe_conversion \<Rightarrow> mem \<Rightarrow> UINTN \<Rightarrow> UINT64 option res" where
  "AsciiStrDecimalToUint64 AsciiStrDecimalToUint64S m String =
     bindr (AsciiStrDecimalToUint64S m String NULL) (\<lambda>(_, Result). Inr Result)"

definition AsciiStrHexToUintn :: "safe_conversion \<Rightarrow> mem \<Rightarrow> UINTN \<Rightarrow> UINTN option res" where
  "AsciiStrHexToUintn AsciiStrHexToUintnS m String =
     bindr (AsciiStrHexToUintnS m String NULL) (\<lambda>(_, Result). Inr Result)"

definition AsciiStrHexToUint64 :: "safe_conversion \<Rightarrow> mem \<Rightarrow> UINTN \<Rightarrow> UINT64 option res" where
  "AsciiStrHexToUint64 AsciiStrHexToUint64S m String =
     bindr (AsciiStrHexToUint64S m String NULL) (\<lambda>(_, Result). Inr Result)"

end
