(* ===== verification/Base_Macros.thy ===== *)
theory Base_Macros imports Base_Types begin

text \<open>
  The rest of the macros of \<open>Base.h\<close> that compute: rounding to an alignment, minimum, maximum
  and absolute value, the table of status codes, and the signatures.
\<close>

section \<open>Definitions\<close>

definition ALIGN_POINTER :: "UINTN \<Rightarrow> UINTN \<Rightarrow> UINTN" where
  "ALIGN_POINTER Pointer Alignment = ALIGN_VALUE Pointer Alignment"

definition ALIGN_VARIABLE :: "UINTN \<Rightarrow> UINTN" where
  "ALIGN_VARIABLE Value = ALIGN_VALUE Value (of_nat (sizeof_word (0 :: UINTN)))"

text \<open>The operands of the comparisons are numbers of one type, signed or unsigned.\<close>

definition MAX_macro :: "'a::linorder \<Rightarrow> 'a \<Rightarrow> 'a" where
  "MAX_macro a b = (if a > b then a else b)"

definition MIN_macro :: "'a::linorder \<Rightarrow> 'a \<Rightarrow> 'a" where
  "MIN_macro a b = (if a < b then a else b)"

definition ABS :: "'a::len word \<Rightarrow> 'a word" where
  "ABS a = (if sint a < 0 then - a else a)"

datatype status =
    SUCCESS | LOAD_ERROR | INVALID_PARAMETER | UNSUPPORTED | BAD_BUFFER_SIZE | BUFFER_TOO_SMALL
  | NOT_READY | DEVICE_ERROR | WRITE_PROTECTED | OUT_OF_RESOURCES | VOLUME_CORRUPTED | VOLUME_FULL
  | NO_MEDIA | MEDIA_CHANGED | NOT_FOUND | ACCESS_DENIED | NO_RESPONSE | NO_MAPPING | TIMEOUT
  | NOT_STARTED | ALREADY_STARTED | ABORTED | ICMP_ERROR | TFTP_ERROR | PROTOCOL_ERROR
  | INCOMPATIBLE_VERSION | SECURITY_VIOLATION | CRC_ERROR | END_OF_MEDIA | END_OF_FILE
  | INVALID_LANGUAGE | COMPROMISED_DATA | HTTP_ERROR | WARN_UNKNOWN_GLYPH | WARN_DELETE_FAILURE
  | WARN_WRITE_FAILURE | WARN_BUFFER_TOO_SMALL | WARN_STALE_DATA | WARN_FILE_SYSTEM

primrec RETURN_code :: "status \<Rightarrow> RETURN_STATUS" where
  "RETURN_code SUCCESS = RETURN_SUCCESS"
| "RETURN_code LOAD_ERROR = ENCODE_ERROR 1"
| "RETURN_code INVALID_PARAMETER = ENCODE_ERROR 2"
| "RETURN_code UNSUPPORTED = ENCODE_ERROR 3"
| "RETURN_code BAD_BUFFER_SIZE = ENCODE_ERROR 4"
| "RETURN_code BUFFER_TOO_SMALL = ENCODE_ERROR 5"
| "RETURN_code NOT_READY = ENCODE_ERROR 6"
| "RETURN_code DEVICE_ERROR = ENCODE_ERROR 7"
| "RETURN_code WRITE_PROTECTED = ENCODE_ERROR 8"
| "RETURN_code OUT_OF_RESOURCES = ENCODE_ERROR 9"
| "RETURN_code VOLUME_CORRUPTED = ENCODE_ERROR 10"
| "RETURN_code VOLUME_FULL = ENCODE_ERROR 11"
| "RETURN_code NO_MEDIA = ENCODE_ERROR 12"
| "RETURN_code MEDIA_CHANGED = ENCODE_ERROR 13"
| "RETURN_code NOT_FOUND = ENCODE_ERROR 14"
| "RETURN_code ACCESS_DENIED = ENCODE_ERROR 15"
| "RETURN_code NO_RESPONSE = ENCODE_ERROR 16"
| "RETURN_code NO_MAPPING = ENCODE_ERROR 17"
| "RETURN_code TIMEOUT = ENCODE_ERROR 18"
| "RETURN_code NOT_STARTED = ENCODE_ERROR 19"
| "RETURN_code ALREADY_STARTED = ENCODE_ERROR 20"
| "RETURN_code ABORTED = ENCODE_ERROR 21"
| "RETURN_code ICMP_ERROR = ENCODE_ERROR 22"
| "RETURN_code TFTP_ERROR = ENCODE_ERROR 23"
| "RETURN_code PROTOCOL_ERROR = ENCODE_ERROR 24"
| "RETURN_code INCOMPATIBLE_VERSION = ENCODE_ERROR 25"
| "RETURN_code SECURITY_VIOLATION = ENCODE_ERROR 26"
| "RETURN_code CRC_ERROR = ENCODE_ERROR 27"
| "RETURN_code END_OF_MEDIA = ENCODE_ERROR 28"
| "RETURN_code END_OF_FILE = ENCODE_ERROR 31"
| "RETURN_code INVALID_LANGUAGE = ENCODE_ERROR 32"
| "RETURN_code COMPROMISED_DATA = ENCODE_ERROR 33"
| "RETURN_code HTTP_ERROR = ENCODE_ERROR 35"
| "RETURN_code WARN_UNKNOWN_GLYPH = ENCODE_WARNING 1"
| "RETURN_code WARN_DELETE_FAILURE = ENCODE_WARNING 2"
| "RETURN_code WARN_WRITE_FAILURE = ENCODE_WARNING 3"
| "RETURN_code WARN_BUFFER_TOO_SMALL = ENCODE_WARNING 4"
| "RETURN_code WARN_STALE_DATA = ENCODE_WARNING 5"
| "RETURN_code WARN_FILE_SYSTEM = ENCODE_WARNING 6"

section \<open>Alignment\<close>

lemma gap_value:
  "k \<le> 64 \<Longrightarrow> uint ((2 ^ k - v) AND (2 ^ k - 1) :: UINTN) = (- uint v) mod 2 ^ k"
proof -
  assume k: "k \<le> 64"
  then have d: "(2 :: int) ^ k dvd 2 ^ 64" by (rule le_imp_power_dvd)
  have "(2 ^ k - 1 :: UINTN) = mask k" by (simp add: mask_eq_exp_minus_1)
  then have "(2 ^ k - v) AND (2 ^ k - 1) = take_bit k (2 ^ k - v)" by (simp only: take_bit_eq_mask)
  then have "uint ((2 ^ k - v) AND (2 ^ k - 1)) = uint (2 ^ k - v) mod 2 ^ k"
    by (simp only: unsigned_take_bit_eq) (simp only: take_bit_eq_mod)
  also have "\<dots> = (uint (2 ^ k :: UINTN) - uint v) mod 2 ^ k"
    by (simp only: uint_word_ariths mod_mod_cancel [OF d] len64)
  also have "\<dots> = (uint (2 ^ k :: UINTN) mod 2 ^ k - uint v) mod 2 ^ k" by (simp only: mod_diff_left_eq)
  also have "uint (2 ^ k :: UINTN) mod 2 ^ k = 0"
  proof -
    have "(2 ^ k :: UINTN) = word_of_int (2 ^ k)" by simp
    then have "uint (2 ^ k :: UINTN) = 2 ^ k mod 2 ^ 64"
      by (simp only: uint_word_of_int_eq) (simp add: take_bit_eq_mod)
    then show ?thesis using mod_mod_cancel [OF d, of "2 ^ k"] by simp
  qed
  finally show ?thesis by simp
qed

lemma align_uint:
  "k \<le> 64 \<Longrightarrow> uint (ALIGN_VALUE v (2 ^ k)) = (uint v + (- uint v) mod 2 ^ k) mod 2 ^ 64"
  by (simp only: ALIGN_VALUE_def uint_word_ariths(1) gap_value len64)

lemma align_dvd: "k \<le> 64 \<Longrightarrow> 2 ^ k dvd uint (ALIGN_VALUE v (2 ^ k))"
proof -
  assume k: "k \<le> 64"
  then have d: "(2 :: int) ^ k dvd 2 ^ 64" by (rule le_imp_power_dvd)
  have "uint (ALIGN_VALUE v (2 ^ k)) mod 2 ^ k = (uint v + (- uint v) mod 2 ^ k) mod 2 ^ k"
    by (simp only: align_uint [OF k] mod_mod_cancel [OF d])
  also have "\<dots> = (uint v + - uint v) mod 2 ^ k" by (simp only: mod_add_right_eq)
  finally show ?thesis by (simp add: mod_0_imp_dvd)
qed

section \<open>Status codes\<close>

definition all_status :: "status list" where
  "all_status =
     [SUCCESS, LOAD_ERROR, INVALID_PARAMETER, UNSUPPORTED, BAD_BUFFER_SIZE, BUFFER_TOO_SMALL,
      NOT_READY, DEVICE_ERROR, WRITE_PROTECTED, OUT_OF_RESOURCES, VOLUME_CORRUPTED, VOLUME_FULL,
      NO_MEDIA, MEDIA_CHANGED, NOT_FOUND, ACCESS_DENIED, NO_RESPONSE, NO_MAPPING, TIMEOUT,
      NOT_STARTED, ALREADY_STARTED, ABORTED, ICMP_ERROR, TFTP_ERROR, PROTOCOL_ERROR,
      INCOMPATIBLE_VERSION, SECURITY_VIOLATION, CRC_ERROR, END_OF_MEDIA, END_OF_FILE,
      INVALID_LANGUAGE, COMPROMISED_DATA, HTTP_ERROR, WARN_UNKNOWN_GLYPH, WARN_DELETE_FAILURE,
      WARN_WRITE_FAILURE, WARN_BUFFER_TOO_SMALL, WARN_STALE_DATA, WARN_FILE_SYSTEM]"

lemma all_status: "s \<in> set all_status"
  by (cases s) (simp_all add: all_status_def)

lemmas code_values = RETURN_SUCCESS_def ENCODE_ERROR_def ENCODE_WARNING_def MAX_BIT_def

lemma codes_distinct: "distinct (List.map RETURN_code all_status)"
  by (simp add: all_status_def code_values)

text \<open>The warnings and success, which are not errors.\<close>

definition not_error :: "status set" where
  "not_error = {SUCCESS, WARN_UNKNOWN_GLYPH, WARN_DELETE_FAILURE, WARN_WRITE_FAILURE,
     WARN_BUFFER_TOO_SMALL, WARN_STALE_DATA, WARN_FILE_SYSTEM}"

lemma error_bit: "RETURN_ERROR c \<longleftrightarrow> bit c 63"
  using bit_last_iff [of c] by (simp add: RETURN_ERROR_def)

lemma error_codes: "RETURN_ERROR (ENCODE_ERROR n)"
  by (simp add: error_bit ENCODE_ERROR_def MAX_BIT_def bit_or_iff)

section \<open>Properties\<close>

text \<open>
  For a power of two \<open>ALIGN_VALUE\<close> returns a multiple of it, whatever the value; the
  multiple is the least that is not below the value if it does not pass the end of the
  number range; a value that is aligned already is returned as it is.
\<close>

theorem align_value_least:
  "(k < 64 \<longrightarrow> 2 ^ k dvd unat (ALIGN_VALUE v (2 ^ k))) \<and>
   (k < 64 \<and> unat v + 2 ^ k \<le> 2 ^ 64 \<longrightarrow>
      v \<le> ALIGN_VALUE v (2 ^ k) \<and> unat (ALIGN_VALUE v (2 ^ k)) < unat v + 2 ^ k) \<and>
   (k < 64 \<and> 2 ^ k dvd unat v \<longrightarrow> ALIGN_VALUE v (2 ^ k) = v) \<and>
   ALIGN_VARIABLE v = ALIGN_POINTER v 8"
proof (intro conjI impI)
  assume k: "k < 64"
  then show "2 ^ k dvd unat (ALIGN_VALUE v (2 ^ k))"
  proof -
    have "int (2 ^ k) dvd int (unat (ALIGN_VALUE v (2 ^ k)))" using align_dvd [of k v] k by simp
    then show ?thesis by (simp only: int_dvd_int_iff)
  qed
next
  show "ALIGN_VARIABLE v = ALIGN_POINTER v 8"
    by (simp add: ALIGN_VARIABLE_def ALIGN_POINTER_def sizeof_word_def)
next
  assume k: "k < 64 \<and> unat v + 2 ^ k \<le> 2 ^ 64"
  have m: "0 \<le> (- uint v) mod 2 ^ k" "(- uint v) mod 2 ^ k < 2 ^ k" by simp_all
  have "int (unat v + 2 ^ k) \<le> int (2 ^ 64)" using k by (simp only: of_nat_le_iff)
  then have "uint v + 2 ^ k \<le> 2 ^ 64" by simp
  with m(2) have "uint v + (- uint v) mod 2 ^ k < 2 ^ 64" by linarith
  moreover have "0 \<le> uint v + (- uint v) mod 2 ^ k" using m(1) by (intro add_nonneg_nonneg) simp_all
  ultimately have "uint (ALIGN_VALUE v (2 ^ k)) = uint v + (- uint v) mod 2 ^ k"
    using k align_uint [of k v] by (simp only: mod_pos_pos_trivial less_imp_le)
  with m have "uint v \<le> uint (ALIGN_VALUE v (2 ^ k))"
    "int (unat (ALIGN_VALUE v (2 ^ k))) < int (unat v + 2 ^ k)" by simp_all
  then show "v \<le> ALIGN_VALUE v (2 ^ k)" "unat (ALIGN_VALUE v (2 ^ k)) < unat v + 2 ^ k"
    by (simp_all only: word_le_def of_nat_less_iff)
next
  assume k: "k < 64 \<and> 2 ^ k dvd unat v"
  then have "int (2 ^ k) dvd int (unat v)" by (simp only: int_dvd_int_iff)
  then have "(- uint v) mod 2 ^ k = 0" by (simp add: mod_eq_0_iff_dvd)
  moreover have "uint v mod 2 ^ 64 = uint v" using uint_bounded [of v] by (intro mod_pos_pos_trivial) simp_all
  ultimately have "uint (ALIGN_VALUE v (2 ^ k)) = uint v"
    using k align_uint [of k v] by simp
  then show "ALIGN_VALUE v (2 ^ k) = v" by (rule word_uint_eq_iff [THEN iffD2])
qed

theorem align_value_least_witness:
  "8 dvd unat (ALIGN_VALUE 13 8) \<and> unat (ALIGN_VALUE 13 8) < 21 \<and> ALIGN_VALUE 16 8 = 16"
  using align_value_least [of 3 13] align_value_least [of 3 16] by simp

text \<open>
  The status codes: different names have different values, exactly success and the
  warnings are not errors for \<open>RETURN_ERROR\<close>, every \<open>ENCODE_ERROR\<close> is an error, and an
  \<open>ENCODE_WARNING\<close> of a number below \<open>2 ^ 63\<close> is none.
\<close>

theorem status_codes:
  "(RETURN_code s = RETURN_code t \<longleftrightarrow> s = t) \<and>
   (RETURN_ERROR (RETURN_code s) \<longleftrightarrow> s \<notin> not_error) \<and>
   RETURN_ERROR (ENCODE_ERROR n) \<and> (RETURN_ERROR (ENCODE_WARNING n) \<longleftrightarrow> 2 ^ 63 \<le> unat n)"
proof (intro conjI)
  show "RETURN_code s = RETURN_code t \<longleftrightarrow> s = t"
    using codes_distinct all_status [of s] all_status [of t] by (auto simp: distinct_map inj_on_def)
  show "RETURN_ERROR (RETURN_code s) \<longleftrightarrow> s \<notin> not_error"
    by (cases s) (simp_all add: error_codes not_error_def, simp_all add: RETURN_ERROR_def code_values)
  show "RETURN_ERROR (ENCODE_ERROR n)" by (rule error_codes)
  have "unat n div 2 ^ 63 < 2" using unat_less_exp [of n] by (simp add: div_less_iff_less_mult)
  then have "unat n div 2 ^ 63 = 0 \<or> unat n div 2 ^ 63 = 1" by linarith
  then have "odd (unat n div 2 ^ 63) \<longleftrightarrow> unat n div 2 ^ 63 \<noteq> 0" by (elim disjE) simp_all
  also have "\<dots> \<longleftrightarrow> 2 ^ 63 \<le> unat n" by (simp add: div_eq_0_iff not_less)
  finally have "odd (unat n div 2 ^ 63) \<longleftrightarrow> 2 ^ 63 \<le> unat n" .
  moreover have "bit (unat n) 63 \<longleftrightarrow> bit n 63" by (simp add: bit_unsigned_iff)
  ultimately show "RETURN_ERROR (ENCODE_WARNING n) \<longleftrightarrow> 2 ^ 63 \<le> unat n"
    by (simp only: error_bit ENCODE_WARNING_def bit_iff_odd)
qed

end
