(* ===== verification/Number_Texts.thy ===== *)
theory Number_Texts imports String_Conv Null_Strings Base_Macros begin

text \<open>
  Numbers in strings: what \<open>BaseLib.h\<close> says of the conversions of \<open>SafeString.c\<close>, whose code is not in
  the sources, as a contract over the digit functions of \<open>String.c\<close>, and what the wrappers of \<open>String.c\<close>
  give with conversions that keep it.
\<close>

section \<open>Formats\<close>

definition pad :: "'c::len word \<Rightarrow> bool" where
  "pad c \<longleftrightarrow> c = 0x20 \<or> c = 0x09"

definition digits_value :: "nat \<Rightarrow> ('c \<Rightarrow> UINTN) \<Rightarrow> 'c list \<Rightarrow> nat" where
  "digits_value r val cs = foldl (\<lambda>n c. n * r + unat (val c)) 0 cs"

text \<open>\<open>[spaces] [decimal digits]\<close>\<close>

definition decimal_number :: "('c::len word \<Rightarrow> bool) \<Rightarrow> ('c word \<Rightarrow> UINTN) \<Rightarrow> 'c word list \<Rightarrow> nat" where
  "decimal_number is_digit val cs = digits_value 10 val (takeWhile is_digit (dropWhile pad cs))"

text \<open>\<open>[spaces][zeros][x][hexadecimal digits]\<close>, where \<open>x\<close> must follow a zero.\<close>

definition hex_number :: "('c::len word \<Rightarrow> bool) \<Rightarrow> ('c word \<Rightarrow> UINTN) \<Rightarrow> 'c word list \<Rightarrow> nat" where
  "hex_number is_digit val cs =
     (let ds = dropWhile pad cs; es = dropWhile (\<lambda>c. c = 0x30) ds in
      case es of [] \<Rightarrow> 0
      | e # fs \<Rightarrow>
          if e = 0x78 \<or> e = 0x58
          then (if length es < length ds then digits_value 16 val (takeWhile is_digit fs) else 0)
          else digits_value 16 val (takeWhile is_digit es))"

text \<open>
  The result of a conversion that is given no \<open>EndPointer\<close>: the number or the largest one that fits, and a
  status that tells which. A string that is NULL or longer than the nonzero maximum is rejected, and
  nothing is said about \<open>*Data\<close> then.
\<close>

definition number_result :: "nat \<Rightarrow> RETURN_STATUS \<times> UINT64 option" where
  "number_result n =
     (RETURN_code (if n < 2 ^ 64 then SUCCESS else UNSUPPORTED), Some (of_nat (min n (2 ^ 64 - 1))))"

definition within :: "UINT32 \<Rightarrow> 'c list \<Rightarrow> bool" where
  "within MaxLength cs \<longleftrightarrow> MaxLength = 0 \<or> length cs \<le> unat MaxLength"

definition wide_string :: "mem \<Rightarrow> UINTN \<Rightarrow> CHAR16 list \<Rightarrow> bool" where
  "wide_string m p cs \<longleftrightarrow> cstr m p cs \<and> p AND 1 = 0"

definition documented ::
  "(mem \<Rightarrow> UINTN \<Rightarrow> 'c list \<Rightarrow> bool) \<Rightarrow> UINT32 \<Rightarrow> ('c list \<Rightarrow> nat) \<Rightarrow> safe_conversion \<Rightarrow> bool" where
  "documented string_at MaxLength number convert \<longleftrightarrow>
     (\<forall>m p cs. string_at m p cs \<longrightarrow>
       (if within MaxLength cs then convert m p NULL = Inr (number_result (number cs))
        else \<exists>r. convert m p NULL = Inr (RETURN_INVALID_PARAMETER, r))) \<and>
     (\<forall>m. \<exists>r. convert m NULL NULL = Inr (RETURN_INVALID_PARAMETER, r))"

section \<open>Digits\<close>

text \<open>The digits of a number, the most significant first.\<close>

function digits :: "nat \<Rightarrow> nat \<Rightarrow> nat list" where
  "digits r n = (if n < r \<or> r < 2 then [n] else digits r (n div r) @ [n mod r])"
  by pat_completeness auto
termination by (relation "measure snd") (auto intro: div_less_dividend)

declare digits.simps [simp del]

lemma digits_nonempty [simp]: "digits r n \<noteq> []"
  by (subst digits.simps) simp

lemma digits_below: "2 \<le> r \<Longrightarrow> d \<in> set (digits r n) \<Longrightarrow> d < r"
  by (induction r n rule: digits.induct) (subst (asm) (2) digits.simps, auto split: if_splits)

lemma digits_fold: "2 \<le> r \<Longrightarrow> foldl (\<lambda>n d. n * r + d) 0 (digits r n) = n"
  by (induction r n rule: digits.induct) (subst digits.simps, auto)

lemma digits_head: "2 \<le> r \<Longrightarrow> n \<noteq> 0 \<Longrightarrow> hd (digits r n) \<noteq> 0"
proof (induction r n rule: digits.induct)
  case (1 r n)
  then show ?case
    by (cases "n < r") (auto simp: digits.simps [of r n] div_eq_0_iff)
qed

lemma digits_zero [simp]: "2 \<le> r \<Longrightarrow> digits r 0 = [0]"
  by (simp add: digits.simps)

text \<open>A numeral: its characters are digits, letters in either case.\<close>

definition spells :: "'c::len word \<Rightarrow> nat \<Rightarrow> bool" where
  "spells c d \<longleftrightarrow> c = hex_digit d \<or> c = hex_digit_lower d"

definition numeral_of :: "nat \<Rightarrow> 'c::len word list \<Rightarrow> nat \<Rightarrow> bool" where
  "numeral_of r cs n \<longleftrightarrow> list_all2 spells cs (digits r n)"

definition ends :: "('c \<Rightarrow> bool) \<Rightarrow> 'c list \<Rightarrow> bool" where
  "ends is_digit rest \<longleftrightarrow> rest = [] \<or> \<not> is_digit (hd rest)"

text \<open>The texts of a number: padding, zeros, for base 16 perhaps a mark, the numeral, and anything that is no digit.\<close>

definition decimal_text :: "('c::len word \<Rightarrow> bool) \<Rightarrow> nat \<Rightarrow> 'c word list \<Rightarrow> bool" where
  "decimal_text is_digit n cs \<longleftrightarrow>
     (\<exists>ps k ds rest. cs = ps @ replicate k 0x30 @ ds @ rest \<and> list_all pad ps \<and> numeral_of 10 ds n \<and>
       ends is_digit rest)"

definition mark :: "'c::len word \<Rightarrow> bool" where
  "mark c \<longleftrightarrow> c = 0x78 \<or> c = 0x58"

definition hex_text :: "('c::len word \<Rightarrow> bool) \<Rightarrow> nat \<Rightarrow> 'c word list \<Rightarrow> bool" where
  "hex_text is_digit n cs \<longleftrightarrow>
     (\<exists>ps k ds rest. list_all pad ps \<and> numeral_of 16 ds n \<and> ends is_digit rest \<and>
       (cs = ps @ replicate k 0x30 @ ds @ rest \<and> ends mark rest \<or>
        (\<exists>j x. cs = ps @ replicate (Suc j) 0x30 @ x # replicate k 0x30 @ ds @ rest \<and> mark x)))"

locale numerals =
  fixes r :: nat and is_digit :: "'c::len word \<Rightarrow> bool" and val :: "'c word \<Rightarrow> UINTN"
  assumes base: "2 \<le> r"
    and spelled: "d < r \<Longrightarrow> spells c d \<Longrightarrow> is_digit c \<and> unat (val c) = d"
    and zero: "spells c d \<Longrightarrow> d < r \<Longrightarrow> c = 0x30 \<longleftrightarrow> d = 0"
    and zero_digit: "is_digit 0x30" "unat (val 0x30) = 0"
    and pads: "is_digit c \<Longrightarrow> \<not> pad c"
    and marks: "mark c \<Longrightarrow> \<not> is_digit c \<and> \<not> pad c"
begin

lemma value_zeros: "digits_value r val (replicate k 0x30 @ cs) = digits_value r val cs"
  using zero_digit by (induction k) (simp_all add: digits_value_def)

lemma spelled_fold:
  "list_all2 spells cs ds \<Longrightarrow> \<forall>d \<in> set ds. d < r \<Longrightarrow>
    foldl (\<lambda>n c. n * r + unat (val c)) a cs = foldl (\<lambda>n d. n * r + d) a ds"
  by (induction arbitrary: a rule: list_all2_induct) (auto simp: spelled)

lemma numeral_value: "numeral_of r cs n \<Longrightarrow> digits_value r val cs = n"
  using spelled_fold [of cs "digits r n" 0] digits_below [OF base] digits_fold [OF base]
  by (auto simp: numeral_of_def digits_value_def)

lemma numeral_digits: "numeral_of r cs n \<Longrightarrow> c \<in> set cs \<Longrightarrow> is_digit c"
  unfolding numeral_of_def
  using digits_below [OF base, of _ n] spelled
  by (auto simp: list_all2_conv_all_nth in_set_conv_nth) (metis nth_mem)

lemma numeral_head:
  assumes "numeral_of r cs n"
  obtains c cs' where "cs = c # cs'" "is_digit c" "\<not> pad c" "\<not> mark c" "c = 0x30 \<Longrightarrow> n = 0 \<and> cs' = []"
proof -
  obtain c cs' d ds where c: "cs = c # cs'" "digits r n = d # ds" "spells c d" "list_all2 spells cs' ds"
    using assms unfolding numeral_of_def by (metis list_all2_Cons2 digits_nonempty neq_Nil_conv)
  have d: "d < r" using digits_below [OF base, of d n] c(2) by simp
  have "n = 0 \<and> cs' = []" if "c = 0x30"
  proof -
    have "d = 0" using zero [OF c(3) d] that by simp
    then have n: "n = 0" using digits_head [OF base, of n] c(2) by auto
    then show ?thesis using c(2,4) digits_zero [OF base] by simp
  qed
  moreover have "is_digit c" using spelled [OF d c(3)] by simp
  ultimately show thesis using that c(1) pads marks by blast
qed

lemma take_digits: "\<forall>c \<in> set cs. is_digit c \<Longrightarrow> ends is_digit rest \<Longrightarrow> takeWhile is_digit (cs @ rest) = cs"
  by (cases rest) (auto simp: ends_def takeWhile_append2)

lemma read_numeral:
  assumes "numeral_of r cs n" "ends is_digit rest"
  shows "digits_value r val (takeWhile is_digit (replicate k 0x30 @ cs @ rest)) = n"
proof -
  have "\<forall>c \<in> set (replicate k 0x30 @ cs). is_digit c"
    using numeral_digits [OF assms(1)] zero_digit by (auto simp: set_replicate_conv_if)
  from take_digits [OF this assms(2)] show ?thesis
    using value_zeros numeral_value [OF assms(1)] by simp
qed

lemma drop_pads: "list_all pad ps \<Longrightarrow> ends pad cs \<Longrightarrow> dropWhile pad (ps @ cs) = cs"
  by (cases cs) (auto simp: ends_def dropWhile_append2 list_all_iff)

lemma numeral_ends_pads:
  assumes "numeral_of r (cs :: 'c word list) n"
  shows "ends pad (replicate k 0x30 @ cs @ rest)"
proof (cases k)
  case 0
  obtain c cs' where "cs = c # cs'" "\<not> pad c" by (rule numeral_head [OF assms])
  with 0 show ?thesis by (simp add: ends_def)
next
  case (Suc i)
  then show ?thesis using pads [OF zero_digit(1)] by (simp add: ends_def)
qed

lemma read_decimal:
  assumes "r = 10" "decimal_text is_digit n cs"
  shows "decimal_number is_digit val cs = n"
proof -
  obtain ps k ds rest where t: "cs = ps @ replicate k 0x30 @ ds @ rest" "list_all pad ps"
    "numeral_of r ds n" "ends is_digit rest"
    using assms unfolding decimal_text_def by blast
  have "dropWhile pad cs = replicate k 0x30 @ ds @ rest"
    using drop_pads [OF t(2) numeral_ends_pads [OF t(3)]] t(1) by simp
  then show ?thesis using read_numeral [OF t(3,4)] assms(1) by (simp add: decimal_number_def)
qed

lemma drop_zeros: "dropWhile (\<lambda>c. c = 0x30) (replicate k 0x30 @ cs) = dropWhile (\<lambda>c. c = 0x30) cs"
  by (induction k) simp_all

lemma read_unmarked:
  assumes "ends mark (dropWhile (\<lambda>c. c = 0x30) (dropWhile pad cs))"
  shows "r = 16 \<Longrightarrow> hex_number is_digit val cs = digits_value r val (takeWhile is_digit (dropWhile pad cs))"
proof -
  define ds where "ds = dropWhile pad cs"
  define k where "k = length (takeWhile (\<lambda>c. c = 0x30) ds)"
  have z: "takeWhile (\<lambda>c. c = 0x30) ds = replicate k 0x30"
    unfolding k_def by (rule replicate_eqI) (auto dest: set_takeWhileD)
  have split: "ds = replicate k 0x30 @ dropWhile (\<lambda>c. c = 0x30) ds"
    using takeWhile_dropWhile_id [of "\<lambda>c. c = 0x30" ds] unfolding z by simp
  have tk: "takeWhile is_digit (replicate k 0x30 @ es) = replicate k 0x30 @ takeWhile is_digit es" for es
    using zero_digit(1) by (induction k) simp_all
  have "digits_value r val (takeWhile is_digit ds) = digits_value r val (takeWhile is_digit (dropWhile (\<lambda>c. c = 0x30) ds))"
    by (subst split) (simp only: tk value_zeros)
  moreover have "hex_number is_digit val cs = digits_value 16 val (takeWhile is_digit (dropWhile (\<lambda>c. c = 0x30) ds))"
  proof (cases "dropWhile (\<lambda>c. c = 0x30) ds")
    case Nil
    show ?thesis unfolding hex_number_def Let_def ds_def [symmetric] Nil by (simp add: digits_value_def)
  next
    case (Cons e fs)
    moreover have "\<not> mark e" using assms Cons by (simp add: ends_def ds_def [symmetric])
    ultimately show ?thesis unfolding hex_number_def Let_def ds_def [symmetric] Cons by (simp add: mark_def)
  qed
  moreover assume "r = 16"
  ultimately show ?thesis by (simp only: ds_def)
qed

lemma read_hex:
  assumes "r = 16" "hex_text is_digit n cs"
  shows "hex_number is_digit val cs = n"
proof -
  obtain ps k ds rest where h: "list_all pad ps" "numeral_of 16 ds n" "ends is_digit rest"
    "cs = ps @ replicate k 0x30 @ ds @ rest \<and> ends mark rest \<or>
     (\<exists>j x. cs = ps @ replicate (Suc j) 0x30 @ x # replicate k 0x30 @ ds @ rest \<and> mark x)"
    using assms(2) unfolding hex_text_def by blast
  have num: "numeral_of r ds n" using h(2) assms(1) by simp
  obtain c cs' where c: "ds = c # cs'" "is_digit c" "\<not> mark c" "c = 0x30 \<Longrightarrow> n = 0 \<and> cs' = []"
    using numeral_head [OF num] by metis
  from h(4) show ?thesis
  proof
    assume u: "cs = ps @ replicate k 0x30 @ ds @ rest \<and> ends mark rest"
    then have d: "dropWhile pad cs = replicate k 0x30 @ ds @ rest"
      using drop_pads [OF h(1) numeral_ends_pads [OF num]] by simp
    have "ends mark (dropWhile (\<lambda>c. c = 0x30) (ds @ rest))"
    proof (cases "c = 0x30")
      case True
      then have "cs' = []" "ends is_digit rest" using c(4) h(3) by auto
      moreover have "dropWhile (\<lambda>c. c = 0x30) rest = rest"
        using h(3) zero_digit(1) by (cases rest) (auto simp: ends_def)
      ultimately show ?thesis using True c(1) u by simp
    qed (use c in \<open>simp add: ends_def\<close>)
    then have "ends mark (dropWhile (\<lambda>c. c = 0x30) (dropWhile pad cs))" by (simp only: d drop_zeros)
    from read_unmarked [OF this assms(1)] show ?thesis using read_numeral [OF num h(3)] by (simp only: d)
  next
    assume "\<exists>j x. cs = ps @ replicate (Suc j) 0x30 @ x # replicate k 0x30 @ ds @ rest \<and> mark x"
    then obtain j x where m: "cs = ps @ replicate (Suc j) 0x30 @ x # replicate k 0x30 @ ds @ rest" "mark x"
      by blast
    have "ends pad (replicate (Suc j) 0x30 @ x # replicate k 0x30 @ ds @ rest)"
      using pads [OF zero_digit(1)] by (simp add: ends_def)
    then have d: "dropWhile pad cs = replicate (Suc j) 0x30 @ x # replicate k 0x30 @ ds @ rest"
      using drop_pads [OF h(1)] m(1) by simp
    have "x \<noteq> 0x30" using m(2) marks zero_digit(1) by blast
    then have e: "dropWhile (\<lambda>c. c = 0x30) (dropWhile pad cs) = x # replicate k 0x30 @ ds @ rest"
      unfolding d drop_zeros by simp
    have "hex_number is_digit val cs = digits_value r val (takeWhile is_digit (replicate k 0x30 @ ds @ rest))"
      using m(2) assms(1) unfolding hex_number_def Let_def e by (simp add: mark_def d)
    then show ?thesis using read_numeral [OF num h(3)] by simp
  qed
qed

text \<open>A mark without a zero before it is no number, nor is a text without digits.\<close>

lemma read_bare_mark: "list_all pad ps \<Longrightarrow> mark x \<Longrightarrow> hex_number is_digit val (ps @ x # cs) = 0"
proof -
  assume p: "list_all pad ps" "mark x"
  then have "dropWhile pad (ps @ x # cs) = x # cs"
    using marks by (intro drop_pads) (auto simp: ends_def)
  moreover have "x \<noteq> 0x30" using p(2) marks zero_digit(1) by blast
  ultimately show ?thesis using p(2) by (simp add: hex_number_def mark_def)
qed

lemma read_no_digits:
  assumes "list_all pad ps" "ends pad cs" "ends is_digit cs"
  shows "decimal_number is_digit val (ps @ cs) = 0" and "hex_number is_digit val (ps @ cs) = 0"
proof -
  have d: "dropWhile pad (ps @ cs) = cs" using drop_pads [OF assms(1,2)] .
  have t: "takeWhile is_digit cs = []" using assms(3) by (cases cs) (auto simp: ends_def)
  have z: "dropWhile (\<lambda>c. c = 0x30) cs = cs" using assms(3) zero_digit(1) by (cases cs) (auto simp: ends_def)
  have e: "digits_value q val [] = 0" for q by (simp add: digits_value_def)
  show "decimal_number is_digit val (ps @ cs) = 0" by (simp add: decimal_number_def d t e)
  show "hex_number is_digit val (ps @ cs) = 0"
  proof (cases cs)
    case Nil
    then have "hex_number is_digit val (ps @ cs) = (case [] of [] \<Rightarrow> 0 | e # fs \<Rightarrow> 0)"
      unfolding hex_number_def Let_def d by simp
    then show ?thesis by simp
  next
    case (Cons x xs)
    show ?thesis
    proof (cases "mark x")
      case True
      then show ?thesis using read_bare_mark [OF assms(1)] Cons by simp
    next
      case False
      then have "hex_number is_digit val (ps @ cs) = digits_value 16 val (takeWhile is_digit cs)"
        unfolding hex_number_def Let_def d z using Cons by (simp add: mark_def)
      then show ?thesis by (simp only: t e)
    qed
  qed
qed

end

text \<open>The digit functions of \<open>String.c\<close>, in base 10 and 16, for both widths.\<close>

lemma spelled_zero:
  "d < 16 \<Longrightarrow> spells (c :: CHAR16) d \<longrightarrow> (c = 0x30 \<longleftrightarrow> d = 0)"
  "d < 16 \<Longrightarrow> spells (b :: CHAR8) d \<longrightarrow> (b = 0x30 \<longleftrightarrow> d = 0)"
  by (erule below_16 [rotated -1]; auto simp: spells_def hex_digit_def hex_digit_lower_def)+

lemma spelled_decimal:
  "d < 16 \<Longrightarrow> d < 10 \<longrightarrow> spells (c :: CHAR16) d \<longrightarrow> InternalIsDecimalDigitCharacter c"
  "d < 16 \<Longrightarrow> d < 10 \<longrightarrow> spells (b :: CHAR8) d \<longrightarrow> InternalAsciiIsDecimalDigitCharacter env b"
  by (erule below_16 [rotated -1];
      auto simp: spells_def hex_digit_def hex_digit_lower_def InternalIsDecimalDigitCharacter_def
        InternalAsciiIsDecimalDigitCharacter_def promote_small)+

interpretation wide16: numerals 16 InternalIsHexaDecimalDigitCharacter InternalHexCharToUintn
proof
  fix c :: CHAR16 and d :: nat
  assume d: "d < 16" "spells c d"
  then show "InternalIsHexaDecimalDigitCharacter c \<and> unat (InternalHexCharToUintn c) = d"
    using wide_hex [OF d(1)] by (auto simp: spells_def unat_of_nat)
qed (auto simp: spelled_zero InternalIsHexaDecimalDigitCharacter_def InternalIsDecimalDigitCharacter_def
  InternalHexCharToUintn_def pad_def mark_def)

interpretation wide10: numerals 10 InternalIsDecimalDigitCharacter InternalHexCharToUintn
proof
  fix c :: CHAR16 and d :: nat
  assume d: "d < 10" "spells c d"
  then show "InternalIsDecimalDigitCharacter c \<and> unat (InternalHexCharToUintn c) = d"
    using wide16.spelled [of d c] spelled_decimal(1) [of d c] by simp
qed (auto simp: spelled_zero InternalIsDecimalDigitCharacter_def InternalHexCharToUintn_def pad_def mark_def)

interpretation narrow16: numerals 16 "InternalAsciiIsHexaDecimalDigitCharacter env"
  "InternalAsciiHexCharToUintn env" for env
proof
  fix c :: CHAR8 and d :: nat
  assume d: "d < 16" "spells c d"
  then show "InternalAsciiIsHexaDecimalDigitCharacter env c \<and> unat (InternalAsciiHexCharToUintn env c) = d"
    using narrow_hex [OF d(1), of env] by (auto simp: spells_def unat_of_nat)
qed (auto simp: spelled_zero InternalAsciiIsHexaDecimalDigitCharacter_def
  InternalAsciiIsDecimalDigitCharacter_def InternalAsciiHexCharToUintn_def
  InternalIsDecimalDigitCharacter_def promote_small pad_def mark_def)

interpretation narrow10: numerals 10 "InternalAsciiIsDecimalDigitCharacter env"
  "InternalAsciiHexCharToUintn env" for env
proof
  fix c :: CHAR8 and d :: nat
  assume d: "d < 10" "spells c d"
  then show "InternalAsciiIsDecimalDigitCharacter env c \<and> unat (InternalAsciiHexCharToUintn env c) = d"
    using narrow16.spelled [of d c env] spelled_decimal(2) [of d c env] by simp
qed (auto simp: spelled_zero InternalAsciiIsDecimalDigitCharacter_def InternalAsciiHexCharToUintn_def
  InternalIsDecimalDigitCharacter_def promote_small pad_def mark_def)

section \<open>A conversion as documented\<close>

function read_chars :: "mem \<Rightarrow> UINTN \<Rightarrow> 'c::len word list res" where
  "read_chars m p =
     bindr (load m p) (\<lambda>c :: 'c word.
       if c = 0 then Inr [] else bindr (read_chars m (p + of_nat (sizeof_word c))) (\<lambda>cs. Inr (c # cs)))"
  by pat_completeness auto
termination by (relation "measure (\<lambda>(m, p). unat (- p))") (auto simp: next_char)

declare read_chars.simps [simp del]

lemma read_chars_cstr: "cstr m p cs \<Longrightarrow> read_chars m p = Inr cs"
  by (induction cs arbitrary: p) (subst read_chars.simps, simp)+

definition reference_conversion :: "UINT32 \<Rightarrow> ('c::len word list \<Rightarrow> nat) \<Rightarrow> safe_conversion" where
  "reference_conversion MaxLength number m p e =
     (if p = NULL then Inr (RETURN_INVALID_PARAMETER, None)
      else bindr (read_chars m p) (\<lambda>cs.
        Inr (if within MaxLength cs then number_result (number cs) else (RETURN_INVALID_PARAMETER, None))))"

lemma reference_documented:
  assumes "\<And>m p cs. string_at m p cs \<Longrightarrow> cstr m p cs"
  shows "documented string_at MaxLength number (reference_conversion MaxLength number)"
  using assms cstr_nonnull
  by (auto simp: documented_def reference_conversion_def dest!: assms dest: cstr_nonnull simp: read_chars_cstr)

lemma saturated: "wrapper f m p = bindr (f m p NULL) (\<lambda>(_, Result). Inr Result) \<Longrightarrow>
  documented string_at MaxLength number f \<Longrightarrow> string_at m p cs \<Longrightarrow> within MaxLength cs \<Longrightarrow>
  wrapper f m p = Inr (Some (of_nat (min (number cs) (2 ^ 64 - 1))))"
  by (simp add: documented_def number_result_def)

lemmas wrapper_defs = StrDecimalToUintn_def StrDecimalToUint64_def StrHexToUintn_def StrHexToUint64_def
  AsciiStrDecimalToUintn_def AsciiStrDecimalToUint64_def AsciiStrHexToUintn_def AsciiStrHexToUint64_def

section \<open>Properties\<close>

text \<open>
  C33. Numbers in strings: with conversions that do what \<open>BaseLib.h\<close> says of them, every number of 64 bits
  comes back from each of its texts within the limits, whatever the padding, the zeros in front, the
  case of its digits and the characters behind them are, with or without a mark for base 16; a larger number gives
  the largest one. But a conversion may reject a string that is NULL and store nothing,
  and then the wrappers return a local variable that was never assigned.
\<close>

theorem number_texts:
  assumes "documented wide_string (PcdMaximumUnicodeStringLength env)
      (decimal_number InternalIsDecimalDigitCharacter InternalHexCharToUintn) d"
    and "documented wide_string (PcdMaximumUnicodeStringLength env)
      (hex_number InternalIsHexaDecimalDigitCharacter InternalHexCharToUintn) h"
    and "documented cstr (PcdMaximumAsciiStringLength env)
      (decimal_number (InternalAsciiIsDecimalDigitCharacter env) (InternalAsciiHexCharToUintn env)) ad"
    and "documented cstr (PcdMaximumAsciiStringLength env)
      (hex_number (InternalAsciiIsHexaDecimalDigitCharacter env) (InternalAsciiHexCharToUintn env)) ah"
    and "wide_string m p cs" "within (PcdMaximumUnicodeStringLength env) cs"
    and "cstr m' q bs" "within (PcdMaximumAsciiStringLength env) bs"
  shows "(decimal_text InternalIsDecimalDigitCharacter n cs \<longrightarrow>
      (\<forall>F \<in> {StrDecimalToUintn, StrDecimalToUint64}. F d m p = Inr (Some (of_nat (min n (2 ^ 64 - 1)))))) \<and>
    (hex_text InternalIsHexaDecimalDigitCharacter n cs \<longrightarrow>
      (\<forall>F \<in> {StrHexToUintn, StrHexToUint64}. F h m p = Inr (Some (of_nat (min n (2 ^ 64 - 1)))))) \<and>
    (decimal_text (InternalAsciiIsDecimalDigitCharacter env) n bs \<longrightarrow>
      (\<forall>F \<in> {AsciiStrDecimalToUintn, AsciiStrDecimalToUint64}.
        F ad m' q = Inr (Some (of_nat (min n (2 ^ 64 - 1)))))) \<and>
    (hex_text (InternalAsciiIsHexaDecimalDigitCharacter env) n bs \<longrightarrow>
      (\<forall>F \<in> {AsciiStrHexToUintn, AsciiStrHexToUint64}.
        F ah m' q = Inr (Some (of_nat (min n (2 ^ 64 - 1)))))) \<and>
    (\<exists>d'. documented wide_string (PcdMaximumUnicodeStringLength env)
        (decimal_number InternalIsDecimalDigitCharacter InternalHexCharToUintn) d' \<and>
      StrDecimalToUintn d' m NULL = Inr None)"
proof (intro conjI impI)
  let ?number = "decimal_number InternalIsDecimalDigitCharacter InternalHexCharToUintn"
  let ?ref = "reference_conversion (PcdMaximumUnicodeStringLength env) ?number"
  have "documented wide_string (PcdMaximumUnicodeStringLength env) ?number ?ref"
    by (rule reference_documented) (simp add: wide_string_def)
  moreover have "StrDecimalToUintn ?ref m NULL = Inr None"
    by (simp add: StrDecimalToUintn_def reference_conversion_def)
  ultimately show "\<exists>d'. documented wide_string (PcdMaximumUnicodeStringLength env) ?number d' \<and>
      StrDecimalToUintn d' m NULL = Inr None" by blast
qed (use saturated [OF _ assms(1,5,6)] saturated [OF _ assms(2,5,6)] saturated [OF _ assms(3,7,8)]
    saturated [OF _ assms(4,7,8)] in \<open>auto simp: wrapper_defs wide10.read_decimal wide16.read_hex
      narrow10.read_decimal narrow16.read_hex\<close>)

theorem number_texts_witness:
  "StrDecimalToUintn (reference_conversion 1000000 (decimal_number InternalIsDecimalDigitCharacter InternalHexCharToUintn))
      (text_mem 16 ([0x20, 0x30, 0x34, 0x32, 0x3B, 0, 0x69, 0] :: CHAR16 list)) 16 = Inr (Some 42) \<and>
   AsciiStrHexToUint64 (reference_conversion 1000000 (hex_number (InternalAsciiIsHexaDecimalDigitCharacter debug_env)
      (InternalAsciiHexCharToUintn debug_env)))
      (text_mem 16 ([0x30, 0x58, 0x31, 0x66, 0, 0x69, 0] :: CHAR8 list)) 16 = Inr (Some 31)"
proof -
  have z: "(0 :: CHAR16) \<notin> set [0x20, 0x30, 0x34, 0x32, 0x3B]" "(0 :: CHAR16) \<notin> set [0x69]"
    "(0 :: CHAR8) \<notin> set [0x30, 0x58, 0x31, 0x66]" "(0 :: CHAR8) \<notin> set [0x69]" by simp_all
  have w: "wide_string (text_mem 16 ([0x20, 0x30, 0x34, 0x32, 0x3B, 0, 0x69, 0] :: CHAR16 list)) 16
      [0x20, 0x30, 0x34, 0x32, 0x3B]"
    and a: "cstr (text_mem 16 ([0x30, 0x58, 0x31, 0x66, 0, 0x69, 0] :: CHAR8 list)) 16 [0x30, 0x58, 0x31, 0x66 :: CHAR8]"
    using wide_sample [OF z(1,2), of 16] narrow_sample [OF z(3,4), of 16]
    by (simp_all add: wide_string_def sizeof_word_def del: cstr_simps)
  have l: "PcdMaximumUnicodeStringLength debug_env = 1000000" "PcdMaximumAsciiStringLength debug_env = 1000000"
    by (simp_all add: debug_env_def)
  have e: "digits 10 42 = [4, 2]" "digits 16 31 = [1, 15]" by (simp_all add: digits.simps)
  have d: "decimal_text InternalIsDecimalDigitCharacter 42 [0x20, 0x30, 0x34, 0x32, 0x3B :: CHAR16]"
    unfolding decimal_text_def
    by (rule exI [of _ "[0x20]"], rule exI [of _ 1], rule exI [of _ "[0x34, 0x32]"], rule exI [of _ "[0x3B]"])
      (simp add: pad_def numeral_of_def e spells_def hex_digit_def ends_def InternalIsDecimalDigitCharacter_def)
  have h: "hex_text (InternalAsciiIsHexaDecimalDigitCharacter debug_env) 31 [0x30, 0x58, 0x31, 0x66 :: CHAR8]"
    unfolding hex_text_def
    by (rule exI [of _ "[]"], rule exI [of _ 0], rule exI [of _ "[0x31, 0x66]"], rule exI [of _ "[]"])
      (simp add: numeral_of_def e spells_def hex_digit_def hex_digit_lower_def ends_def mark_def)
  have r: "documented wide_string 1000000 (f :: CHAR16 list \<Rightarrow> nat) (reference_conversion 1000000 f)"
    "documented cstr 1000000 (g :: CHAR8 list \<Rightarrow> nat) (reference_conversion 1000000 g)" for f g
    by (rule reference_documented, simp add: wide_string_def)+
  note n = number_texts [where env = debug_env, unfolded l, OF r(1) r(1) r(2) r(2) w _ a]
  show ?thesis
    using n [of 42] n [of 31] d h by (simp add: within_def)
qed

end
