(* ===== verification/Buffers.thy ===== *)
theory Buffers imports Base_Types begin

text \<open>
  Buffers that functions of the library write: memory with a run of bytes replaced, when a
  buffer may be written, when two regions are apart, and stores of several bytes.
\<close>

section \<open>Writing a buffer\<close>

text \<open>Memory with the bytes \<open>bs\<close> written from \<open>d\<close> on.\<close>

definition overlay :: "mem \<Rightarrow> UINTN \<Rightarrow> UINT8 list \<Rightarrow> mem" where
  "overlay m d bs = (\<lambda>x. if unat (x - d) < length bs then Some (bs ! unat (x - d)) else m x)"

definition buffer :: "mem \<Rightarrow> UINTN \<Rightarrow> nat \<Rightarrow> bool" where
  "buffer m d n \<longleftrightarrow> n \<le> 2 ^ 64 \<and> (\<forall>i<n. d + of_nat i \<noteq> NULL \<and> m (d + of_nat i) \<noteq> None)"

definition apart :: "UINTN \<Rightarrow> nat \<Rightarrow> UINTN \<Rightarrow> nat \<Rightarrow> bool" where
  "apart a n d k \<longleftrightarrow> (\<forall>i<n. k \<le> unat (a + of_nat i - d))"

lemma buffer_nonnull: "buffer m d n \<Longrightarrow> 0 < n \<Longrightarrow> d \<noteq> NULL"
  by (auto simp: buffer_def dest: spec [of _ 0])

lemma overlay_Nil [simp]: "overlay m d [] = m"
  by (simp add: overlay_def)

lemma unat_index: "i < 2 ^ 64 \<Longrightarrow> unat (of_nat i :: UINTN) = i"
  by (simp add: unat_of_nat)

lemma store_overlay:
  assumes "buffer m d n" "length bs < n"
  shows "store_byte (overlay m d bs) (d + of_nat (length bs)) c = Inr (overlay m d (bs @ [c]))"
proof -
  have l: "length bs < 2 ^ 64" using assms by (simp add: buffer_def)
  have "overlay m d bs (d + of_nat (length bs)) = m (d + of_nat (length bs))"
    using unat_index [OF l] by (simp add: overlay_def)
  moreover have "(overlay m d bs)(d + of_nat (length bs) \<mapsto> c) = overlay m d (bs @ [c])"
  proof (rule ext)
    fix x
    have "x = d + of_nat (length bs) \<longleftrightarrow> unat (x - d) = length bs"
      using unat_index [OF l] by (metis add_diff_cancel_left' diff_add_cancel add.commute word_unat_eq_iff)
    then show "((overlay m d bs)(d + of_nat (length bs) \<mapsto> c)) x = overlay m d (bs @ [c]) x"
      by (auto simp: overlay_def nth_append less_Suc_eq)
  qed
  ultimately show ?thesis using assms by (auto simp: store_byte_def buffer_def)
qed

lemma overlay_other:
  "apart a n d k \<Longrightarrow> length bs \<le> k \<Longrightarrow> i < n \<Longrightarrow> overlay m d bs (a + of_nat i) = m (a + of_nat i)"
  using order_trans [of "length bs" k "unat (a + of_nat i - d)"]
  by (simp add: overlay_def apart_def not_less [symmetric])

lemma load_overlay:
  "apart a n d k \<Longrightarrow> length bs \<le> k \<Longrightarrow> i < n \<Longrightarrow>
   load_byte (overlay m d bs) (a + of_nat i) = load_byte m (a + of_nat i)"
  by (simp add: load_byte_def overlay_other)

lemma bytes_at_overlay: "buffer m d n \<Longrightarrow> length bs \<le> n \<Longrightarrow> bytes_at (overlay m d bs) d bs"
  by (auto simp: bytes_at_nth overlay_def buffer_def unat_index)

lemma overlay_apart:
  "apart a n d k \<Longrightarrow> length bs \<le> k \<Longrightarrow> bytes_at m a cs \<Longrightarrow> length cs \<le> n \<Longrightarrow> bytes_at (overlay m d bs) a cs"
  by (simp add: bytes_at_nth overlay_other)

lemma apart_shift: "apart a (Suc n) d k \<Longrightarrow> apart (a + 1) n d k"
  by (auto simp: apart_def add.assoc dest: spec [of _ "Suc _"])

lemma apart_self [simp]: "apart a 0 d k"
  by (simp add: apart_def)

lemma buffer_overlay: "buffer m d n \<Longrightarrow> buffer (overlay m e bs) d n"
  by (simp add: buffer_def overlay_def)

lemma sample_apart:
  "unat a + n \<le> unat d \<Longrightarrow> unat d + k \<le> 2 ^ 64 \<Longrightarrow> apart a n d k"
  unfolding apart_def
proof (intro allI impI)
  fix i assume a: "unat a + n \<le> unat d" "unat d + k \<le> 2 ^ 64" "i < n"
  have "unat (of_nat i :: UINTN) = i" using a unat_less_exp [of d] by (intro unat_index) simp
  then have "unat (a + of_nat i) = unat a + i"
    using a unat_less_exp [of d] by (subst unat_add_lem [THEN iffD1]) simp_all
  then show "k \<le> unat (a + of_nat i - d)"
    using a unat_sub_if' [of "a + of_nat i" d] by simp
qed

lemma sample_buffer:
  assumes "unat a + length bs \<le> 2 ^ 64" "0 < unat a" "i + n \<le> length bs" "n \<le> 2 ^ 64"
  shows "buffer (sample_mem a bs) (a + of_nat i) n"
proof -
  have "bytes_at (sample_mem a bs) a bs" by (rule sample_mem_bytes [OF assms(1,2)])
  then show ?thesis
    using assms(3,4) by (auto simp: buffer_def bytes_at_nth add.assoc simp flip: of_nat_add)
qed

section \<open>Stores of several bytes\<close>

fun store_bytes :: "mem \<Rightarrow> UINTN \<Rightarrow> UINT8 list \<Rightarrow> mem res" where
  "store_bytes m a [] = Inr m"
| "store_bytes m a (b # bs) = bindr (store_byte m a b) (\<lambda>m'. store_bytes m' (a + 1) bs)"

lemma store_bytes_overlay:
  assumes "buffer m d n" "length out + length bs \<le> n"
  shows "store_bytes (overlay m d out) (d + of_nat (length out)) bs = Inr (overlay m d (out @ bs))"
  using assms(2)
proof (induction bs arbitrary: out)
  case (Cons b bs)
  then have "store_byte (overlay m d out) (d + of_nat (length out)) b = Inr (overlay m d (out @ [b]))"
    by (intro store_overlay [OF assms(1)]) simp
  with Cons.IH [of "out @ [b]"] Cons.prems show ?case by (simp add: add.commute add.left_commute)
qed simp

lemma store_bytes_buffer:
  "buffer m d n \<Longrightarrow> length bs \<le> n \<Longrightarrow> store_bytes m d bs = Inr (overlay m d bs)"
  using store_bytes_overlay [of m d n "[]" bs] by simp

lemma load_stored:
  fixes v :: "'a::len word"
  assumes "buffer m d n" "sizeof_word v \<le> n"
  shows "load (overlay m d (le_bytes (sizeof_word v) v)) d = Inr v"
proof -
  have s: "sizeof_word (0 :: 'a word) = sizeof_word v" by (simp add: sizeof_word_def)
  have "LENGTH('a) \<le> 8 * sizeof_word v" by (simp add: sizeof_word_def)
  then have "le_word (le_bytes (sizeof_word v) v) = v" by (rule le_word_le_bytes)
  moreover have "load (overlay m d (le_bytes (sizeof_word v) v)) d =
      Inr (le_word (le_bytes (sizeof_word v) v) :: 'a word)"
    using bytes_at_overlay [OF assms(1)] assms(2) s by (intro load_at) simp_all
  ultimately show ?thesis by simp
qed

end
