(* ===== verification/Base64_Codec.thy ===== *)
theory Base64_Codec imports Char_Codes Buffers begin

text \<open>
  \<open>Base64Encode\<close> and \<open>Base64Decode\<close> of \<open>String.c\<close>, on memory, with the RFC 4648 encoding of a
  byte list as their specification. A call returns the status, the memory and what
  \<open>*DestinationSize\<close> holds afterwards; \<open>DestinationSize\<close> is \<open>None\<close> for a NULL pointer, and
  the word it points to lies outside both buffers.
\<close>

section \<open>The encoder\<close>

definition EncodingTable :: "CHAR8 list" where
  "EncodingTable = List.map of_char
     ''ABCDEFGHIJKLMNOPQRSTUVWXYZabcdefghijklmnopqrstuvwxyz0123456789+/''"

type_synonym out_ptr = "mem \<times> UINTN"

text \<open>\<open>*Destination++ = c\<close>, and \<open>*Destination++ = EncodingTable[i]\<close> with \<open>i\<close> read from memory.\<close>

fun put_char :: "out_ptr \<Rightarrow> CHAR8 \<Rightarrow> out_ptr res" where
  "put_char (m, Destination) c = map_res (\<lambda>m'. (m', Destination + 1)) (store_byte m Destination c)"

definition index1 :: "UINT8 \<Rightarrow> UINT32" where
  "index1 a = drop_bit 2 (ucast a AND 0xfc)"

definition index2 :: "UINT8 \<Rightarrow> UINT8 \<Rightarrow> UINT32" where
  "index2 a b = push_bit 4 (ucast a AND 0x03) + drop_bit 4 (ucast b AND 0xf0)"

definition index3 :: "UINT8 \<Rightarrow> UINT8 \<Rightarrow> UINT32" where
  "index3 b c = push_bit 2 (ucast b AND 0x0f) + drop_bit 6 (ucast c AND 0xc0)"

text \<open>The last index of a group that ends early has no second byte.\<close>

definition index2_last :: "UINT8 \<Rightarrow> UINT32" where
  "index2_last a = push_bit 4 (ucast a AND 0x03)"

definition index3_last :: "UINT8 \<Rightarrow> UINT32" where
  "index3_last b = push_bit 2 (ucast b AND 0x0f)"

definition index4 :: "UINT8 \<Rightarrow> UINT32" where
  "index4 c = ucast c AND 0x3f"

definition put1 :: "(UINT8 \<Rightarrow> UINT32) \<Rightarrow> UINTN \<Rightarrow> out_ptr \<Rightarrow> out_ptr res" where
  "put1 index p out =
     bindr (load_byte (fst out) p) (\<lambda>x. put_char out (EncodingTable ! unat (index x)))"

definition put2 :: "(UINT8 \<Rightarrow> UINT8 \<Rightarrow> UINT32) \<Rightarrow> UINTN \<Rightarrow> UINTN \<Rightarrow> out_ptr \<Rightarrow> out_ptr res" where
  "put2 index p q out =
     bindr (load_byte (fst out) p) (\<lambda>x.
     bindr (load_byte (fst out) q) (\<lambda>y. put_char out (EncodingTable ! unat (index x y))))"

function encode_loop :: "UINTN \<Rightarrow> UINTN \<Rightarrow> out_ptr \<Rightarrow> (UINTN \<times> UINTN \<times> out_ptr) res" where
  "encode_loop Source LeftBytes out =
     (if LeftBytes \<ge> 3 then
        bindr (put1 index1 Source out) (\<lambda>out.
        bindr (put2 index2 Source (Source + 1) out) (\<lambda>out.
        bindr (put2 index3 (Source + 1) (Source + 2) out) (\<lambda>out.
        bindr (put1 index4 (Source + 2) out) (\<lambda>out.
          encode_loop (Source + 3) (LeftBytes - 3) out))))
      else Inr (Source, LeftBytes, out))"
  by pat_completeness auto
termination encode_loop
proof (relation "measure (\<lambda>(Source, LeftBytes, out). unat LeftBytes)")
  fix LeftBytes :: UINTN assume "3 \<le> LeftBytes"
  then have "unat (LeftBytes - 3) = unat LeftBytes - 3" "3 \<le> unat LeftBytes"
    by (simp_all add: unat_sub word_le_nat_alt)
  then show "((Source', LeftBytes - 3, out'), Source, LeftBytes, out) \<in> measure (\<lambda>(Source, LeftBytes, out). unat LeftBytes)"
    for Source' Source :: UINTN and out' out :: out_ptr
    by simp
qed simp

declare encode_loop.simps [simp del]

definition encode_rest :: "UINTN \<Rightarrow> UINTN \<Rightarrow> out_ptr \<Rightarrow> out_ptr res" where
  "encode_rest Source LeftBytes out =
     (if LeftBytes = 1 then
        bindr (put1 index1 Source out) (\<lambda>out.
        bindr (put1 index2_last Source out) (\<lambda>out.
        bindr (put_char out 0x3D) (\<lambda>out.
          put_char out 0x3D)))
      else if LeftBytes = 2 then
        bindr (put1 index1 Source out) (\<lambda>out.
        bindr (put2 index2 Source (Source + 1) out) (\<lambda>out.
        bindr (put1 index3_last (Source + 1) out) (\<lambda>out.
          put_char out 0x3D)))
      else Inr out)"

definition RequiredSize :: "UINTN \<Rightarrow> UINTN" where
  "RequiredSize SourceLength = ((SourceLength + 2) div 3) * 4 + 1"

type_synonym codec_result = "RETURN_STATUS \<times> mem \<times> UINTN option"

definition Base64Encode ::
  "mem \<Rightarrow> UINTN \<Rightarrow> UINTN \<Rightarrow> UINTN \<Rightarrow> UINTN option \<Rightarrow> codec_result res" where
  "Base64Encode m Source SourceLength Destination DestinationSize =
     (if Source = NULL \<or> DestinationSize = None
      then Inr (RETURN_INVALID_PARAMETER, m, DestinationSize)
      else if SourceLength = 0 then
        if the DestinationSize < 1 then Inr (RETURN_BUFFER_TOO_SMALL, m, Some 1)
        else map_res (\<lambda>m'. (RETURN_SUCCESS, m', Some 1)) (store_byte m Destination 0)
      else if SourceLength \<ge> MAX_ADDRESS - Source \<or> the DestinationSize \<ge> MAX_ADDRESS - Destination
      then Inr (RETURN_INVALID_PARAMETER, m, DestinationSize)
      else if Destination = NULL \<or> the DestinationSize < RequiredSize SourceLength
      then Inr (RETURN_BUFFER_TOO_SMALL, m, Some (RequiredSize SourceLength))
      else
        bindr (encode_loop Source SourceLength (m, Destination)) (\<lambda>(Source, LeftBytes, out).
        bindr (encode_rest Source LeftBytes out) (\<lambda>(m, Destination).
        map_res (\<lambda>m'. (RETURN_SUCCESS, m', DestinationSize)) (store_byte m Destination 0))))"

section \<open>The decoder\<close>

definition is_whitespace :: "CHAR8 \<Rightarrow> bool" where
  "is_whitespace c \<longleftrightarrow> c = 0x09 \<or> c = 0x0A \<or> c = 0x0B \<or> c = 0x0C \<or> c = 0x0D \<or> c = 0x20"

definition Base64Value :: "build_env \<Rightarrow> CHAR8 \<Rightarrow> UINT32 option" where
  "Base64Value env SourceChar =
     (let x = promote env SourceChar in
      if 0x41 \<le> x \<and> x \<le> 0x5A then Some (word_of_int (x - 0x41))
      else if 0x61 \<le> x \<and> x \<le> 0x7A then Some (word_of_int (26 + (x - 0x61)))
      else if 0x30 \<le> x \<and> x \<le> 0x39 then Some (word_of_int (52 + (x - 0x30)))
      else if x = 0x2B then Some 62
      else if x = 0x2F then Some 63
      else None)"

record quantum =
  PaddingMode :: bool
  SixBitGroupsConsumed :: UINTN
  Accumulator :: UINT32

definition quantum_start :: quantum where
  "quantum_start = \<lparr>PaddingMode = False, SixBitGroupsConsumed = 0, Accumulator = 0\<rparr>"

text \<open>
  The two branches of the loop body that change the quantum. \<open>None\<close> is the return of
  \<open>RETURN_INVALID_PARAMETER\<close>; the second component is the octet to spill, if there is one.
\<close>

definition enter_padding :: "quantum \<Rightarrow> quantum option" where
  "enter_padding q =
     (let q' = q\<lparr>PaddingMode := True\<rparr> in
      if SixBitGroupsConsumed q = 2 then
        if Accumulator q \<noteq> 0 then None else Some (q'\<lparr>SixBitGroupsConsumed := 3\<rparr>)
      else if SixBitGroupsConsumed q = 3 then
        if Accumulator q \<noteq> 0 then None else Some (q'\<lparr>SixBitGroupsConsumed := 0\<rparr>)
      else None)"

definition feed :: "build_env \<Rightarrow> quantum \<Rightarrow> UINT32 \<Rightarrow> (quantum \<times> UINT8 option) res" where
  "feed env q v =
     (let acc = push_bit 6 (Accumulator q) OR v;
          n = SixBitGroupsConsumed q + 1
      in if n = 1 then Inr (q\<lparr>SixBitGroupsConsumed := n, Accumulator := acc\<rparr>, None)
      else if n = 2 then
        Inr (q\<lparr>SixBitGroupsConsumed := n, Accumulator := acc AND 0xF\<rparr>, Some (ucast (drop_bit 4 acc)))
      else if n = 3 then
        Inr (q\<lparr>SixBitGroupsConsumed := n, Accumulator := acc AND 0x3\<rparr>, Some (ucast (drop_bit 2 acc)))
      else ASSERT env (n = 4)
        (Inr (q\<lparr>SixBitGroupsConsumed := 0, Accumulator := 0\<rparr>, Some (ucast acc))))"

definition decode_char ::
  "build_env \<Rightarrow> quantum \<Rightarrow> CHAR8 \<Rightarrow> (quantum \<times> UINT8 option) option res" where
  "decode_char env q SourceChar =
     (if is_whitespace SourceChar then Inr (Some (q, None))
      else if PaddingMode q then
        if SourceChar = 0x3D \<and> SixBitGroupsConsumed q = 3
        then Inr (Some (q\<lparr>SixBitGroupsConsumed := 0\<rparr>, None))
        else Inr None
      else case Base64Value env SourceChar of
        Some v \<Rightarrow> map_res Some (feed env q v)
      | None \<Rightarrow>
          if SourceChar = 0x3D then Inr (map_option (\<lambda>q'. (q', None)) (enter_padding q))
          else Inr None)"

definition store_octet ::
  "build_env \<Rightarrow> UINTN \<Rightarrow> UINTN \<Rightarrow> mem \<Rightarrow> UINTN \<Rightarrow> UINT8 \<Rightarrow> mem res" where
  "store_octet env Destination OriginalDestinationSize m Size DestinationOctet =
     (if Size < OriginalDestinationSize then
        ASSERT env (Destination \<noteq> NULL) (store_byte m (Destination + Size) DestinationOctet)
      else Inr m)"

function decode_loop ::
  "build_env \<Rightarrow> UINTN \<Rightarrow> UINTN \<Rightarrow> UINTN \<Rightarrow> UINTN \<Rightarrow> UINTN \<Rightarrow> quantum \<Rightarrow> mem \<Rightarrow> UINTN \<Rightarrow>
   (quantum option \<times> mem \<times> UINTN) res" where
  "decode_loop env Source SourceSize Destination OriginalDestinationSize SourceIndex q m Size =
     (if SourceIndex < SourceSize then
        bindr (load_byte m (Source + SourceIndex)) (\<lambda>SourceChar.
        bindr (decode_char env q SourceChar) (\<lambda>r. case r of
            None \<Rightarrow> Inr (None, m, Size)
          | Some (q', None) \<Rightarrow>
              decode_loop env Source SourceSize Destination OriginalDestinationSize
                (SourceIndex + 1) q' m Size
          | Some (q', Some octet) \<Rightarrow>
              bindr (store_octet env Destination OriginalDestinationSize m Size octet) (\<lambda>m'.
                decode_loop env Source SourceSize Destination OriginalDestinationSize
                  (SourceIndex + 1) q' m' (Size + 1))))
      else Inr (Some q, m, Size))"
  by pat_completeness auto
termination decode_loop
  by (relation "measure (\<lambda>(env, Source, SourceSize, Destination, OriginalDestinationSize,
      SourceIndex, q, m, Size). unat (SourceSize - SourceIndex))") (auto simp: count_up)

declare decode_loop.simps [simp del]

text \<open>The checks before the loop: the parameters are rejected.\<close>

definition decode_rejects :: "UINTN \<Rightarrow> UINTN \<Rightarrow> UINTN \<Rightarrow> UINTN \<Rightarrow> bool" where
  "decode_rejects Source SourceSize Destination Size \<longleftrightarrow>
     (if Source = NULL then SourceSize > 0 else SourceSize > MAX_ADDRESS - Source) \<or>
     (if Destination = NULL then Size > 0 else Size > MAX_ADDRESS - Destination) \<or>
     Source \<noteq> NULL \<and> Destination \<noteq> NULL \<and>
       \<not> Source + SourceSize \<le> Destination \<and> \<not> Destination + Size \<le> Source"

definition Base64Decode ::
  "build_env \<Rightarrow> mem \<Rightarrow> UINTN \<Rightarrow> UINTN \<Rightarrow> UINTN \<Rightarrow> UINTN option \<Rightarrow> codec_result res" where
  "Base64Decode env m Source SourceSize Destination DestinationSize =
     (case DestinationSize of
        None \<Rightarrow> Inr (RETURN_INVALID_PARAMETER, m, None)
      | Some OriginalDestinationSize \<Rightarrow>
          if decode_rejects Source SourceSize Destination OriginalDestinationSize
          then Inr (RETURN_INVALID_PARAMETER, m, DestinationSize)
          else
            map_res (\<lambda>(end, m', Size).
              (case end of
                 None \<Rightarrow> RETURN_INVALID_PARAMETER
               | Some q \<Rightarrow>
                   if SixBitGroupsConsumed q \<noteq> 0 then RETURN_INVALID_PARAMETER
                   else if Size \<le> OriginalDestinationSize then RETURN_SUCCESS
                   else RETURN_BUFFER_TOO_SMALL,
               m', Some Size))
            (decode_loop env Source SourceSize Destination OriginalDestinationSize 0
               quantum_start m 0))"

section \<open>The encoding of RFC 4648\<close>

text \<open>The digit for a 6-bit value, and the groups of 24 bits cut into four of them.\<close>

definition digit64 :: "nat \<Rightarrow> CHAR8" where
  "digit64 v = EncodingTable ! (v mod 64)"

definition digits64 :: "nat \<Rightarrow> CHAR8 list" where
  "digits64 n = [digit64 (n div 64 ^ 3), digit64 (n div 64 ^ 2), digit64 (n div 64), digit64 n]"

fun base64 :: "UINT8 list \<Rightarrow> CHAR8 list" where
  "base64 [] = []"
| "base64 [a] = take 2 (digits64 (unat a * 2 ^ 16)) @ [0x3D, 0x3D]"
| "base64 [a, b] = take 3 (digits64 (unat a * 2 ^ 16 + unat b * 2 ^ 8)) @ [0x3D]"
| "base64 (a # b # c # bs) =
     digits64 (unat a * 2 ^ 16 + unat b * 2 ^ 8 + unat c) @ base64 bs"

lemma length_digits64 [simp]: "length (digits64 n) = 4"
  by (simp add: digits64_def)

lemma length_base64: "length (base64 bs) = 4 * ((length bs + 2) div 3)"
proof (induction bs rule: base64.induct)
  case (4 a b c bs)
  have "(length (a # b # c # bs) + 2) div 3 = Suc ((length bs + 2) div 3)" by simp
  with 4 show ?case by simp
qed simp_all

text \<open>What four digits spell, and what three octets are made of.\<close>

lemma digits64_spell:
  assumes "w < 64" "x < 64" "y < 64" "z < 64"
  shows "digits64 (((w * 64 + x) * 64 + y) * 64 + z) = [digit64 w, digit64 x, digit64 y, digit64 z]"
proof -
  let ?n = "((w * 64 + x) * 64 + y) * 64 + z"
  have 1: "?n div 64 = (w * 64 + x) * 64 + y" using assms by simp
  then have 2: "?n div 64 ^ 2 = w * 64 + x"
    using assms div_mult2_eq [of ?n 64 64] by (simp add: power2_eq_square)
  then have 3: "?n div 64 ^ 3 = w"
    using assms div_mult2_eq [of ?n "64 ^ 2" 64] by (simp add: power3_eq_cube)
  have "digit64 (k * 64 + v) = digit64 v" for k v by (simp add: digit64_def)
  then show ?thesis by (simp only: digits64_def 1 2 3)
qed

lemma digits64_quads:
  assumes "a < 256" "b < 256" "c < 256"
  shows "digits64 (a * 2 ^ 16 + b * 2 ^ 8 + c) =
    [digit64 (a div 4), digit64 (a mod 4 * 16 + b div 16), digit64 (b mod 16 * 4 + c div 64),
     digit64 (c mod 64)]"
proof -
  have "a div 4 < 64" "a mod 4 * 16 + b div 16 < 64" "b mod 16 * 4 + c div 64 < 64" "c mod 64 < 64"
    using assms by linarith+
  note q = digits64_spell [OF this]
  have "((a1 * 64 + (a0 * 16 + b1)) * 64 + (b0 * 4 + c1)) * 64 + c0 =
      (a1 * 4 + a0) * 2 ^ 16 + (b1 * 16 + b0) * 2 ^ 8 + (c1 * 64 + c0)" for a0 a1 b0 b1 c0 c1 :: nat
    by simp
  from this [of "a div 4" "a mod 4" "b div 16" "b mod 16" "c div 64" "c mod 64"] q
  show ?thesis by (simp only: div_mult_mod_eq)
qed

section \<open>The alphabet\<close>

lemma EncodingTable_length [simp]: "length EncodingTable = 64"
  by (simp add: EncodingTable_def)

definition digit_code :: "nat \<Rightarrow> nat" where
  "digit_code v = (if v < 26 then 65 + v else if v < 52 then 71 + v else if v < 62 then v - 4
     else if v = 62 then 43 else 47)"

lemma EncodingTable_codes: "EncodingTable = List.map (\<lambda>v. of_nat (digit_code v)) [0..<64]"
  by (simp add: EncodingTable_def digit_code_def upt_conv_Cons)

lemma digit64_code: "v < 64 \<Longrightarrow> digit64 v = of_nat (digit_code v)"
  by (simp add: digit64_def EncodingTable_codes)

lemma promote_of_nat: "n < 128 \<Longrightarrow> promote env (of_nat n) = int n"
proof -
  assume n: "n < 128"
  then have "uint (of_nat n :: CHAR8) = int n" by (simp add: unsigned_of_nat take_bit_nat_eq_self)
  with n show ?thesis using promote_small [of "of_nat n" env] by simp
qed

lemma digit64_promote: "v < 64 \<Longrightarrow> promote env (digit64 v) = int (digit_code v)"
proof -
  assume v: "v < 64"
  then have "digit_code v < 128" by (auto simp: digit_code_def)
  from promote_of_nat [OF this] show ?thesis by (simp only: digit64_code [OF v])
qed

lemma Base64Value_digit: "v < 64 \<Longrightarrow> Base64Value env (digit64 v) = Some (of_nat v)"
proof -
  assume v: "v < 64"
  consider "v < 26" | "26 \<le> v" "v < 52" | "52 \<le> v" "v < 62" | "v = 62" | "v = 63" using v by linarith
  then show ?thesis
    using digit64_promote [OF v, of env]
    by cases (simp_all add: Base64Value_def digit_code_def Let_def of_nat_diff)
qed

lemma digit64_plain:
  assumes "v < 64"
  shows "\<not> is_whitespace (digit64 v)" "digit64 v \<noteq> 0x3D"
proof -
  have p: "promote debug_env 0x3D = 0x3D" "promote debug_env 0x09 = 0x09" "promote debug_env 0x0A = 0x0A"
    "promote debug_env 0x0B = 0x0B" "promote debug_env 0x0C = 0x0C" "promote debug_env 0x0D = 0x0D"
    "promote debug_env 0x20 = 0x20"
    by (simp_all add: promote_small)
  have c: "32 < digit_code v" "digit_code v \<noteq> 61" using assms by (auto simp: digit_code_def)
  show "digit64 v \<noteq> 0x3D" using digit64_promote [OF assms, of debug_env] c p(1) by auto
  show "\<not> is_whitespace (digit64 v)"
    using digit64_promote [OF assms, of debug_env] c p(2-) by (auto simp: is_whitespace_def)
qed

lemma Base64Value_Some:
  assumes "Base64Value env c = Some w"
  shows "\<exists>v<64. c = digit64 v \<and> w = of_nat v"
proof -
  let ?x = "promote env c"
  have c: "c = of_nat (digit_code v) \<Longrightarrow> v < 64 \<Longrightarrow> c = digit64 v" for v by (simp add: digit64_code)
  have n: "0 \<le> ?x \<Longrightarrow> c = of_nat (nat ?x)" by (metis promote_word of_int_of_nat_eq int_nat_eq)
  consider "0x41 \<le> ?x" "?x \<le> 0x5A" | "0x61 \<le> ?x" "?x \<le> 0x7A" | "0x30 \<le> ?x" "?x \<le> 0x39"
    | "?x = 0x2B" | "?x = 0x2F"
    using assms by (auto simp: Base64Value_def Let_def split: if_splits)
  then show ?thesis
  proof cases
    case 1
    then have "digit_code (nat (?x - 0x41)) = nat ?x" by (simp add: digit_code_def nat_diff_distrib')
    with 1 c n assms show ?thesis
      by (intro exI [of _ "nat (?x - 0x41)"]) (auto simp: Base64Value_def Let_def)
  next
    case 2
    then have "digit_code (nat (?x - 71)) = nat ?x" by (auto simp: digit_code_def nat_diff_distrib')
    with 2 c n assms show ?thesis
      by (intro exI [of _ "nat (?x - 71)"]) (auto simp: Base64Value_def Let_def)
  next
    case 3
    then have "digit_code (nat (?x + 4)) = nat ?x" by (auto simp: digit_code_def nat_add_distrib)
    with 3 c n assms show ?thesis
      by (intro exI [of _ "nat (?x + 4)"]) (auto simp: Base64Value_def Let_def)
  next
    case 4
    with c [of 62] n assms show ?thesis
      by (intro exI [of _ 62]) (auto simp: Base64Value_def Let_def digit_code_def)
  next
    case 5
    with c [of 63] n assms show ?thesis
      by (intro exI [of _ 63]) (auto simp: Base64Value_def Let_def digit_code_def)
  qed
qed

section \<open>One run of the decoder over a list\<close>

lemma low_bits:
  "x AND 0xF = take_bit 4 x" "x AND 0x3 = take_bit 2 (x :: UINT32)"
proof -
  have "(0xF :: nat) = mask 4" "(0x3 :: nat) = mask 2" by (simp_all add: mask_eq_exp_minus_1)
  then have "(0xF :: UINT32) = mask 4" "(0x3 :: UINT32) = mask 2"
    by (metis of_nat_mask_eq of_nat_numeral)+
  then show "x AND 0xF = take_bit 4 x" "x AND 0x3 = take_bit 2 x"
    by (simp_all only: take_bit_eq_mask)
qed

lemma unat_small [simp]: "n < 2 ^ 32 \<Longrightarrow> unat (of_nat n :: UINT32) = n"
  by (simp add: unat_of_nat)

lemma accumulate:
  assumes "a < 64" "v < 64"
  shows "push_bit 6 (of_nat a) OR of_nat v = (of_nat (a * 64 + v) :: UINT32)"
proof -
  have "take_bit 6 (of_nat v :: UINT32) = of_nat v"
    using assms(2) by (simp only: word_eq_iff_unat unsigned_take_bit_eq) (simp add: take_bit_nat_eq_self)
  then have "\<not> bit (push_bit 6 (of_nat a)) n \<or> \<not> bit (of_nat v :: UINT32) n" for n
    by (metis bit_push_bit_iff bit_take_bit_iff not_less)
  then have "push_bit 6 (of_nat a) OR of_nat v = push_bit 6 (of_nat a) + (of_nat v :: UINT32)"
    by (rule disjunctive_add [symmetric])
  then show ?thesis by (simp add: push_bit_eq_mult)
qed

lemma cut:
  assumes "n < 2 ^ 32"
  shows "drop_bit k (of_nat n :: UINT32) = of_nat (n div 2 ^ k)"
    "take_bit k (of_nat n :: UINT32) = of_nat (n mod 2 ^ k)"
    "ucast (of_nat n :: UINT32) = (of_nat n :: UINT8)"
proof -
  have "n div 2 ^ k < 2 ^ 32" "n mod 2 ^ k < 2 ^ 32"
    using assms div_le_dividend [of n "2 ^ k"] mod_less_eq_dividend [of n "2 ^ k"] by linarith+
  then show "drop_bit k (of_nat n :: UINT32) = of_nat (n div 2 ^ k)"
    "take_bit k (of_nat n :: UINT32) = of_nat (n mod 2 ^ k)"
    using assms by (simp_all only: word_eq_iff_unat unat_drop_bit_eq unsigned_take_bit_eq unat_small)
      (simp_all add: drop_bit_eq_div take_bit_eq_mod)
  show "ucast (of_nat n :: UINT32) = (of_nat n :: UINT8)"
    using assms by (simp only: word_eq_iff_unat unat_ucast_32_8 unat_small unat_of_nat) simp
qed

text \<open>The quantum after \<open>n\<close> digits with the bits \<open>a\<close> pending, and the two padding modes.\<close>

definition group :: "UINTN \<Rightarrow> nat \<Rightarrow> quantum" where
  "group n a = \<lparr>PaddingMode = False, SixBitGroupsConsumed = n, Accumulator = of_nat a\<rparr>"

definition padding :: "UINTN \<Rightarrow> quantum" where
  "padding n = \<lparr>PaddingMode = True, SixBitGroupsConsumed = n, Accumulator = 0\<rparr>"

lemma quantum_start: "quantum_start = group 0 0"
  by (simp add: quantum_start_def group_def)

lemma group_simps [simp]:
  "SixBitGroupsConsumed (group n a) = n" "\<not> PaddingMode (group n a)" "Accumulator (group n a) = of_nat a"
  "SixBitGroupsConsumed (padding n) = n" "PaddingMode (padding n)"
  "padding n\<lparr>SixBitGroupsConsumed := k\<rparr> = padding k"
  by (simp_all add: group_def padding_def)

lemma cut_digit:
  fixes a v :: nat
  shows "(a * 64 + v) div 2 ^ 4 = a * 4 + v div 16" "(a * 64 + v) mod 2 ^ 4 = v mod 16"
    "(a * 64 + v) div 2 ^ 2 = a * 16 + v div 4" "(a * 64 + v) mod 2 ^ 2 = v mod 4"
proof -
  have "(v + a * 4 * 16) div 16 = a * 4 + v div 16" "(v + a * 4 * 16) mod 16 = v mod 16"
    "(v + a * 16 * 4) div 4 = a * 16 + v div 4" "(v + a * 16 * 4) mod 4 = v mod 4"
    by (simp_all only: div_mult_self1 mod_mult_self1)
  then show "(a * 64 + v) div 2 ^ 4 = a * 4 + v div 16" "(a * 64 + v) mod 2 ^ 4 = v mod 16"
    "(a * 64 + v) div 2 ^ 2 = a * 16 + v div 4" "(a * 64 + v) mod 2 ^ 2 = v mod 4"
    by (simp_all add: add.commute mult.commute)
qed

lemma feed_group:
  "v < 64 \<Longrightarrow> feed env (group 0 0) (of_nat v) = Inr (group 1 v, None)"
  "a < 64 \<Longrightarrow> v < 64 \<Longrightarrow> feed env (group 1 a) (of_nat v) =
     Inr (group 2 (v mod 16), Some (of_nat (a * 4 + v div 16)))"
  "a < 16 \<Longrightarrow> v < 64 \<Longrightarrow> feed env (group 2 a) (of_nat v) =
     Inr (group 3 (v mod 4), Some (of_nat (a * 16 + v div 4)))"
  "a < 4 \<Longrightarrow> v < 64 \<Longrightarrow> feed env (group 3 a) (of_nat v) =
     Inr (group 0 0, Some (of_nat (a * 64 + v)))"
proof -
  show "v < 64 \<Longrightarrow> feed env (group 0 0) (of_nat v) = Inr (group 1 v, None)"
    by (simp add: feed_def Let_def group_def)
  note d = cut_digit
  assume v: "v < 64"
  have f: "feed env (group n a) (of_nat v) =
      (let acc = of_nat (a * 64 + v) in
       if n + 1 = 1 then Inr (group (n + 1) (a * 64 + v), None)
       else if n + 1 = 2 then Inr (group (n + 1) (v mod 16), Some (of_nat (a * 4 + v div 16)))
       else if n + 1 = 3 then Inr (group (n + 1) (v mod 4), Some (of_nat (a * 16 + v div 4)))
       else ASSERT env (n + 1 = 4) (Inr (group 0 0, Some (of_nat (a * 64 + v)))))"
    if a: "a < 64" for n
  proof -
    have s: "a * 64 + v < 2 ^ 32" using v a by simp
    then have s': "(a * 64 + v) div 2 ^ k < 2 ^ 32" for k
      using div_le_dividend [of "a * 64 + v" "2 ^ k"] by linarith
    show ?thesis
      by (simp only: feed_def Let_def group_def quantum.simps accumulate [OF a v] low_bits cut [OF s]
          d cut(3) [OF s' [of 4, unfolded d]] cut(3) [OF s' [of 2, unfolded d]]) simp
  qed
  show "a < 64 \<Longrightarrow> feed env (group 1 a) (of_nat v) =
     Inr (group 2 (v mod 16), Some (of_nat (a * 4 + v div 16)))"
    using f [of 1] by simp
  show "a < 16 \<Longrightarrow> feed env (group 2 a) (of_nat v) =
     Inr (group 3 (v mod 4), Some (of_nat (a * 16 + v div 4)))"
    using f [of 2] by simp
  show "a < 4 \<Longrightarrow> feed env (group 3 a) (of_nat v) =
     Inr (group 0 0, Some (of_nat (a * 64 + v)))"
    using f [of 3] by simp
qed

fun decode_run :: "build_env \<Rightarrow> quantum \<Rightarrow> CHAR8 list \<Rightarrow> quantum option \<times> UINT8 list" where
  "decode_run env q [] = (Some q, [])"
| "decode_run env q (c # cs) =
     (case decode_char env q c of
        Inr (Some (q', octet)) \<Rightarrow> apsnd (append (case octet of None \<Rightarrow> [] | Some b \<Rightarrow> [b])) (decode_run env q' cs)
      | _ \<Rightarrow> (None, []))"

lemma decode_digit:
  "v < 64 \<Longrightarrow> decode_char env (group n a) (digit64 v) = map_res Some (feed env (group n a) (of_nat v))"
  by (simp add: decode_char_def digit64_plain Base64Value_digit)

lemma decode_run_simps:
  "v < 64 \<Longrightarrow> decode_run env (group 0 0) (digit64 v # cs) = decode_run env (group 1 v) cs"
  "a < 64 \<Longrightarrow> v < 64 \<Longrightarrow> decode_run env (group 1 a) (digit64 v # cs) =
     apsnd (Cons (of_nat (a * 4 + v div 16))) (decode_run env (group 2 (v mod 16)) cs)"
  "a < 16 \<Longrightarrow> v < 64 \<Longrightarrow> decode_run env (group 2 a) (digit64 v # cs) =
     apsnd (Cons (of_nat (a * 16 + v div 4))) (decode_run env (group 3 (v mod 4)) cs)"
  "a < 4 \<Longrightarrow> v < 64 \<Longrightarrow> decode_run env (group 3 a) (digit64 v # cs) =
     apsnd (Cons (of_nat (a * 64 + v))) (decode_run env (group 0 0) cs)"
  by (simp_all only: decode_run.simps decode_digit feed_group map_res_simps sum.case option.case
      prod.case append_Nil append_Cons) (simp_all add: apsnd_def map_prod_def split: prod.split)

lemma Base64Value_pad: "Base64Value env 0x3D = None"
  by (simp add: Base64Value_def promote_small)

lemma pad_run_simps:
  "decode_run env (group 2 0) (0x3D # cs) = decode_run env (padding 3) cs"
  "decode_run env (group 3 0) (0x3D # cs) = decode_run env (padding 0) cs"
  "decode_run env (padding 3) (0x3D # cs) = decode_run env (padding 0) cs"
  using Base64Value_pad [of env]
  by (simp_all add: decode_char_def is_whitespace_def enter_padding_def group_def padding_def Let_def
      apsnd_def map_prod_def split: prod.split)

text \<open>What the decoder accepts next, when it is not white space.\<close>

lemma group_accepts:
  assumes "decode_run env (group n a) (c # cs) = (Some q, os)" "\<not> is_whitespace c" "a < 64"
  shows "(\<exists>v<64. c = digit64 v) \<or> c = 0x3D \<and> (n = 2 \<or> n = 3) \<and> a = 0"
proof (cases "Base64Value env c")
  case None
  have "(of_nat a :: UINT32) = 0 \<Longrightarrow> a = 0" using unat_small [of a] assms(3) by simp
  then show ?thesis
    using None assms by (auto simp: decode_char_def enter_padding_def Let_def split: if_splits)
qed (use Base64Value_Some in blast)

lemma padding_accepts:
  assumes "decode_run env (padding n) (c # cs) = (Some q, os)" "\<not> is_whitespace c"
  shows "c = 0x3D \<and> n = 3"
  using assms by (auto simp: decode_char_def split: if_splits)

lemma run_four:
  assumes "v1 < 64" "v2 < 64" "v3 < 64" "v4 < 64"
  shows "decode_run env (group 0 0) (digit64 v1 # digit64 v2 # digit64 v3 # digit64 v4 # cs) =
    apsnd (append [of_nat (v1 * 4 + v2 div 16), of_nat (v2 mod 16 * 16 + v3 div 4),
      of_nat (v3 mod 4 * 64 + v4)]) (decode_run env (group 0 0) cs)"
proof -
  have m: "v2 mod 16 < 16" "v3 mod 4 < 4" by simp_all
  show ?thesis
    by (simp only: decode_run_simps(1) [OF assms(1)] decode_run_simps(2) [OF assms(1,2)]
        decode_run_simps(3) [OF m(1) assms(3)] decode_run_simps(4) [OF m(2) assms(4)])
      (simp add: apsnd_def map_prod_def split: prod.split)
qed

lemma octets_spell:
  assumes "v1 < 64" "v2 < 64" "v3 < 64" "v4 < 64"
  shows "base64 (of_nat (v1 * 4 + v2 div 16) # of_nat (v2 mod 16 * 16 + v3 div 4) #
      of_nat (v3 mod 4 * 64 + v4) # bs) = digit64 v1 # digit64 v2 # digit64 v3 # digit64 v4 # base64 bs"
    "base64 [of_nat (v1 * 4 + v2 div 16)] = (if v2 mod 16 = 0
      then [digit64 v1, digit64 v2, 0x3D, 0x3D] else base64 [of_nat (v1 * 4 + v2 div 16)])"
    "base64 [of_nat (v1 * 4 + v2 div 16), of_nat (v2 mod 16 * 16 + v3 div 4)] = (if v3 mod 4 = 0
      then [digit64 v1, digit64 v2, digit64 v3, 0x3D]
      else base64 [of_nat (v1 * 4 + v2 div 16), of_nat (v2 mod 16 * 16 + v3 div 4)])"
proof -
  let ?a = "v1 * 4 + v2 div 16" and ?b = "v2 mod 16 * 16 + v3 div 4" and ?c = "v3 mod 4 * 64 + v4"
  have l: "?a < 256" "?b < 256" "?c < 256" using assms by linarith+
  then have u: "unat (of_nat ?a :: UINT8) = ?a" "unat (of_nat ?b :: UINT8) = ?b"
    "unat (of_nat ?c :: UINT8) = ?c"
    by (simp_all only: unat_of_nat) simp_all
  have 1: "?a div 4 = v1" "?b div 16 = v2 mod 16 \<and> ?c div 64 = v3 mod 4" "?c mod 64 = v4"
    using assms by simp_all
  have 2: "?a mod 4 * 16 + v2 mod 16 = v2" "?b mod 16 * 4 + v3 mod 4 = v3"
    using assms by simp_all
  show "base64 (of_nat ?a # of_nat ?b # of_nat ?c # bs) =
      digit64 v1 # digit64 v2 # digit64 v3 # digit64 v4 # base64 bs"
    using 1 2 by (simp only: base64.simps u digits64_quads [OF l]) simp
  have "v2 mod 16 = 0 \<Longrightarrow> ?a mod 4 * 16 = v2" using 2(1) by simp
  then show "base64 [of_nat ?a] = (if v2 mod 16 = 0
      then [digit64 v1, digit64 v2, 0x3D, 0x3D] else base64 [of_nat ?a])"
    using 1 digits64_quads [OF l(1), of 0 0] by (simp only: base64.simps u) simp
  have "v3 mod 4 = 0 \<Longrightarrow> ?b mod 16 * 4 = v3" using 2(2) by simp
  then show "base64 [of_nat ?a, of_nat ?b] = (if v3 mod 4 = 0
      then [digit64 v1, digit64 v2, digit64 v3, 0x3D] else base64 [of_nat ?a, of_nat ?b])"
    using 1 2 digits64_quads [OF l(1,2), of 0] by (simp only: base64.simps u) simp
qed

section \<open>The decoder is the inverse of the encoding\<close>

text \<open>The value of a text, if the decoder accepts it.\<close>

definition decode64 :: "build_env \<Rightarrow> CHAR8 list \<Rightarrow> UINT8 list option" where
  "decode64 env cs =
     (case decode_run env quantum_start cs of
        (Some q, os) \<Rightarrow> if SixBitGroupsConsumed q = 0 then Some os else None
      | _ \<Rightarrow> None)"

lemma run_skips:
  "decode_run env q (filter (\<lambda>c. \<not> is_whitespace c) cs) = decode_run env q cs"
proof (induction cs arbitrary: q)
  case (Cons c cs)
  show ?case
  proof (cases "is_whitespace c")
    case True
    then have "decode_char env q c = Inr (Some (q, None))" by (simp add: decode_char_def)
    with True Cons show ?thesis by (simp add: apsnd_def map_prod_def split: prod.split)
  qed (simp add: Cons split: sum.split option.split prod.split)
qed simp

lemma run_base64:
  "decode_run env (group 0 0) (base64 bs) =
     (Some (if length bs mod 3 = 0 then group 0 0 else padding 0), bs)"
proof (induction bs rule: base64.induct)
  case (2 a)
  let ?v1 = "unat a div 4" and ?v2 = "unat a mod 4 * 16"
  have a: "unat a < 256" using unat_less_exp [of a] by simp
  then have v: "?v1 < 64" "?v2 < 64" "?v2 mod 16 = 0" "?v1 * 4 + ?v2 div 16 = unat a" by simp_all
  have "base64 [a] = [digit64 ?v1, digit64 ?v2, 0x3D, 0x3D]"
    using digits64_quads [OF a, of 0 0] by (simp only: base64.simps) simp
  then show ?case
    by (simp only: decode_run_simps(1) [OF v(1)] decode_run_simps(2) [OF v(1,2)] v(3,4) pad_run_simps)
      simp
next
  case (3 a b)
  let ?v1 = "unat a div 4" and ?v2 = "unat a mod 4 * 16 + unat b div 16" and ?v3 = "unat b mod 16 * 4"
  have a: "unat a < 256" "unat b < 256" using unat_less_exp [of a] unat_less_exp [of b] by simp_all
  then have v: "?v1 < 64" "?v2 < 64" "?v3 < 64" "?v3 mod 4 = 0" "?v1 * 4 + ?v2 div 16 = unat a"
    "?v2 mod 16 * 16 + ?v3 div 4 = unat b" by simp_all
  have m: "?v2 mod 16 < 16" by simp
  have "base64 [a, b] = [digit64 ?v1, digit64 ?v2, digit64 ?v3, 0x3D]"
    using digits64_quads [OF a, of 0] by (simp only: base64.simps) simp
  then show ?case
    by (simp only: decode_run_simps(1) [OF v(1)] decode_run_simps(2) [OF v(1,2)]
        decode_run_simps(3) [OF m v(3)] v(4-6) pad_run_simps) simp
next
  case (4 a b c bs)
  let ?v1 = "unat a div 4" and ?v2 = "unat a mod 4 * 16 + unat b div 16"
    and ?v3 = "unat b mod 16 * 4 + unat c div 64" and ?v4 = "unat c mod 64"
  have a: "unat a < 256" "unat b < 256" "unat c < 256"
    using unat_less_exp [of a] unat_less_exp [of b] unat_less_exp [of c] by simp_all
  then have v: "?v1 < 64" "?v2 < 64" "?v3 < 64" "?v4 < 64" "?v1 * 4 + ?v2 div 16 = unat a"
    "?v2 mod 16 * 16 + ?v3 div 4 = unat b" "?v3 mod 4 * 64 + ?v4 = unat c" by simp_all
  show ?case
    by (simp only: base64.simps digits64_quads [OF a] append.simps run_four [OF v(1-4)] v(5-7) 4)
      (simp add: mod_Suc)
qed simp

text \<open>Runs that end with a complete quantum, one digit at a time.\<close>

lemma run_stop:
  assumes "decode_run env (padding 0) cs = (Some q, os)" "list_all (\<lambda>c. \<not> is_whitespace c) cs"
  shows "cs = [] \<and> os = []"
  using assms padding_accepts [of env 0] by (cases cs) force+

lemma run_first_two:
  assumes "decode_run env (group 0 0) cs = (Some q, os)" "SixBitGroupsConsumed q = 0"
    and "list_all (\<lambda>c. \<not> is_whitespace c) cs" "cs \<noteq> []"
  obtains v1 v2 cs2 os2 where "v1 < 64" "v2 < 64" "cs = digit64 v1 # digit64 v2 # cs2"
    "decode_run env (group 2 (v2 mod 16)) cs2 = (Some q, os2)"
    "os = of_nat (v1 * 4 + v2 div 16) # os2"
proof -
  from assms(4) obtain c1 cs1 where "cs = c1 # cs1" by (cases cs) auto
  then obtain v1 where 1: "v1 < 64" "cs = digit64 v1 # cs1"
    using group_accepts [of env 0 0 c1 cs1 q os] assms(1,3) by auto
  then have run1: "decode_run env (group 1 v1) cs1 = (Some q, os)"
    using assms(1) by (simp only: decode_run_simps(1))
  with assms(2) obtain c2 cs2 where "cs1 = c2 # cs2" by (cases cs1) auto
  then obtain v2 where 2: "v2 < 64" "cs1 = digit64 v2 # cs2"
    using group_accepts [of env 1 v1 c2 cs2 q os] 1 run1 assms(3) by auto
  with 1 run1 that show thesis
    by (cases "decode_run env (group 2 (v2 mod 16)) cs2")
      (auto simp add: decode_run_simps(2) [OF 1(1) 2(1)] simp del: decode_run.simps)
qed

lemma run_third:
  assumes "decode_run env (group 2 (v mod 16)) cs = (Some q, os)" "SixBitGroupsConsumed q = 0"
    and "list_all (\<lambda>c. \<not> is_whitespace c) cs"
  obtains (pad) "cs = [0x3D, 0x3D]" "v mod 16 = 0" "os = []"
  | (digit) v3 cs3 os3 where "v3 < 64" "cs = digit64 v3 # cs3"
      "decode_run env (group 3 (v3 mod 4)) cs3 = (Some q, os3)"
      "os = of_nat (v mod 16 * 16 + v3 div 4) # os3"
proof -
  have l: "v mod 16 < 64" "v mod 16 < 16" by (rule less_le_trans [of _ 16]) simp_all
  from assms(1,2) obtain c3 cs3 where c3: "cs = c3 # cs3" by (cases cs) auto
  consider (d) v3 where "v3 < 64" "cs = digit64 v3 # cs3" | (p) "cs = 0x3D # cs3" "v mod 16 = 0"
    using group_accepts [of env 2 "v mod 16" c3 cs3 q os, OF _ _ l(1)] assms(1,3) c3
    by (auto simp del: decode_run.simps)
  then show thesis
  proof cases
    case d
    then show thesis using digit assms(1)
      by (cases "decode_run env (group 3 (v3 mod 4)) cs3")
        (auto simp add: decode_run_simps(3) [OF l(2) d(1)] simp del: decode_run.simps)
  next
    case p
    then have run3: "decode_run env (padding 3) cs3 = (Some q, os)"
      using assms(1) by (simp only: pad_run_simps)
    with assms(2) obtain c4 cs4 where c4: "cs3 = c4 # cs4" by (cases cs3) auto
    then have "c4 = 0x3D" using padding_accepts [of env 3 c4 cs4 q os] run3 p assms(3) by auto
    with c4 run3 have "decode_run env (padding 0) cs4 = (Some q, os)" by (simp only: pad_run_simps)
    then have "cs4 = [] \<and> os = []" using c4 p assms(3) by (intro run_stop) auto
    with c4 \<open>c4 = 0x3D\<close> p pad show thesis by simp
  qed
qed

lemma run_fourth:
  assumes "decode_run env (group 3 (v mod 4)) cs = (Some q, os)" "SixBitGroupsConsumed q = 0"
    and "list_all (\<lambda>c. \<not> is_whitespace c) cs"
  obtains (pad) "cs = [0x3D]" "v mod 4 = 0" "os = []"
  | (digit) v4 cs4 os4 where "v4 < 64" "cs = digit64 v4 # cs4"
      "decode_run env (group 0 0) cs4 = (Some q, os4)" "os = of_nat (v mod 4 * 64 + v4) # os4"
proof -
  have l: "v mod 4 < 64" "v mod 4 < 4" by (rule less_le_trans [of _ 4]) simp_all
  from assms(1,2) obtain c4 cs4 where c4: "cs = c4 # cs4" by (cases cs) auto
  consider (d) v4 where "v4 < 64" "cs = digit64 v4 # cs4" | (p) "cs = 0x3D # cs4" "v mod 4 = 0"
    using group_accepts [of env 3 "v mod 4" c4 cs4 q os, OF _ _ l(1)] assms(1,3) c4
    by (auto simp del: decode_run.simps)
  then show thesis
  proof cases
    case d
    then show thesis using digit assms(1)
      by (cases "decode_run env (group 0 0) cs4")
        (auto simp add: decode_run_simps(4) [OF l(2) d(1)] simp del: decode_run.simps)
  next
    case p
    then have "decode_run env (padding 0) cs4 = (Some q, os)"
      using assms(1) by (simp only: pad_run_simps)
    then have "cs4 = [] \<and> os = []" using p assms(3) by (intro run_stop) auto
    with p pad show thesis by simp
  qed
qed

lemma run_sound:
  assumes "decode_run env (group 0 0) cs = (Some q, os)" "SixBitGroupsConsumed q = 0"
    and "list_all (\<lambda>c. \<not> is_whitespace c) cs"
  shows "cs = base64 os"
  using assms
proof (induction "length cs" arbitrary: cs os rule: less_induct)
  case less
  show ?case
  proof (cases "cs = []")
    case False
    from run_first_two [OF less.prems False]
    obtain v1 v2 cs2 os2 where 2: "v1 < 64" "v2 < 64" "cs = digit64 v1 # digit64 v2 # cs2"
      "decode_run env (group 2 (v2 mod 16)) cs2 = (Some q, os2)"
      "os = of_nat (v1 * 4 + v2 div 16) # os2" .
    then have "list_all (\<lambda>c. \<not> is_whitespace c) cs2" using less.prems(3) by simp
    from 2(4) less.prems(2) this show ?thesis
    proof (cases rule: run_third)
      case pad
      then show ?thesis using 2 octets_spell(2) [of v1 v2 0 0] by auto
    next
      case (digit v3 cs3 os3)
      then have "list_all (\<lambda>c. \<not> is_whitespace c) cs3" using 2(3) less.prems(3) by simp
      from digit(3) less.prems(2) this show ?thesis
      proof (cases rule: run_fourth)
        case pad
        then show ?thesis using 2 digit octets_spell(3) [of v1 v2 v3 0] by auto
      next
        case d4: (digit v4 cs4 os4)
        then have "cs4 = base64 os4"
          using less.prems(2,3) 2(3) digit(2) by (intro less.hyps) auto
        then show ?thesis
          using 2 digit d4 octets_spell(1) [of v1 v2 v3 v4 os4] by (simp only:)
      qed
    qed
  qed (use less.prems in simp)
qed

lemma digits64_plain: "c \<in> set (digits64 n) \<Longrightarrow> \<not> is_whitespace c"
proof -
  have "\<not> is_whitespace (digit64 v)" for v
    using digit64_plain(1) [of "v mod 64"] by (simp add: digit64_def)
  then show "c \<in> set (digits64 n) \<Longrightarrow> \<not> is_whitespace c" by (auto simp: digits64_def)
qed

lemma base64_plain: "filter (\<lambda>c. \<not> is_whitespace c) (base64 bs) = base64 bs"
proof -
  have pad: "\<not> is_whitespace 0x3D" by (simp add: is_whitespace_def)
  have "c \<in> set (base64 bs) \<Longrightarrow> \<not> is_whitespace c" for c
    by (induction bs rule: base64.induct) (auto simp: pad dest!: in_set_takeD digits64_plain)
  then show ?thesis by simp
qed

lemma decode64_exact:
  "decode64 env cs = Some bs \<longleftrightarrow> filter (\<lambda>c. \<not> is_whitespace c) cs = base64 bs"
proof
  let ?p = "filter (\<lambda>c. \<not> is_whitespace c) cs"
  have p: "list_all (\<lambda>c. \<not> is_whitespace c) ?p" by (simp add: list_all_iff)
  assume "decode64 env cs = Some bs"
  then obtain q where "decode_run env (group 0 0) ?p = (Some q, bs)" "SixBitGroupsConsumed q = 0"
    by (auto simp: decode64_def run_skips quantum_start split: prod.splits option.splits if_splits)
  from run_sound [OF this p] show "?p = base64 bs" .
next
  assume "filter (\<lambda>c. \<not> is_whitespace c) cs = base64 bs"
  then have "decode_run env (group 0 0) cs = decode_run env (group 0 0) (base64 bs)"
    using run_skips [of env "group 0 0" cs] by simp
  then show "decode64 env cs = Some bs"
    by (simp add: decode64_def quantum_start run_base64)
qed

section \<open>What the encoder writes\<close>

lemma and_low:
  "unat (x AND 0x3F) = unat x mod 64" "unat (x AND 0xF) = unat x mod 16" "unat (x AND 0x3) = unat x mod 4"
  for x :: UINT32
proof -
  have "(0x3F :: nat) = mask 6" by (simp add: mask_eq_exp_minus_1)
  then have "(0x3F :: UINT32) = mask 6" by (metis of_nat_mask_eq of_nat_numeral)
  then have "x AND 0x3F = take_bit 6 x" by (simp only: take_bit_eq_mask)
  then show "unat (x AND 0x3F) = unat x mod 64" "unat (x AND 0xF) = unat x mod 16"
    "unat (x AND 0x3) = unat x mod 4"
    by (simp_all only: low_bits unsigned_take_bit_eq) (simp_all add: take_bit_eq_mod)
qed

lemma unat_drop: "unat (drop_bit k (ucast a :: UINT32)) = unat (a :: UINT8) div 2 ^ k"
  by (simp only: unat_drop_bit_eq unat_ucast_8_32) (simp add: drop_bit_eq_div)

lemma unat_push: "unat x * 2 ^ k < 2 ^ 32 \<Longrightarrow> unat (push_bit k x) = unat x * 2 ^ k" for x :: UINT32
  by (simp only: unsigned_push_bit_eq) (simp add: push_bit_eq_mult take_bit_nat_eq_self)

lemma unat_sum: "unat x + unat y < 2 ^ 32 \<Longrightarrow> unat (x + y) = unat x + unat y" for x y :: UINT32
  using unat_add_lem [of x y] by simp

lemma index_values:
  "unat (index1 a) = unat a div 4"
  "unat (index2 a b) = unat a mod 4 * 16 + unat b div 16"
  "unat (index3 b c) = unat b mod 16 * 4 + unat c div 64"
  "unat (index4 c) = unat c mod 64"
  "unat (index2_last a) = unat a mod 4 * 16"
  "unat (index3_last b) = unat b mod 16 * 4"
proof -
  have l: "unat a < 256" "unat b < 256" "unat c < 256"
    using unat_less_exp [of a] unat_less_exp [of b] unat_less_exp [of c] by simp_all
  have d: "drop_bit 2 (x AND 0xfc) = drop_bit 2 x AND 0x3F" "drop_bit 4 (x AND 0xf0) = drop_bit 4 x AND 0xF"
    "drop_bit 6 (x AND 0xc0) = drop_bit 6 x AND 0x3" for x :: UINT32
    by simp_all
  have p4: "unat (push_bit 4 (ucast a AND 0x03) :: UINT32) = unat a mod 4 * 16"
    using unat_push [of "ucast a AND 0x03" 4] and_low(3) [of "ucast a"] by simp
  have p2: "unat (push_bit 2 (ucast b AND 0x0f) :: UINT32) = unat b mod 16 * 4"
    using unat_push [of "ucast b AND 0x0f" 2] and_low(2) [of "ucast b"] by simp
  show "unat (index1 a) = unat a div 4"
    using l unfolding index1_def d and_low unat_drop by simp
  have d4: "unat (drop_bit 4 (ucast b) AND 0xF :: UINT32) = unat b div 16"
    using l unfolding and_low unat_drop by simp
  have d6: "unat (drop_bit 6 (ucast c) AND 0x3 :: UINT32) = unat c div 64"
    using l unfolding and_low unat_drop by simp
  show "unat (index2 a b) = unat a mod 4 * 16 + unat b div 16"
    unfolding index2_def d using l by (subst unat_sum) (simp_all only: p4 d4, simp_all)
  show "unat (index3 b c) = unat b mod 16 * 4 + unat c div 64"
    unfolding index3_def d using l by (subst unat_sum) (simp_all only: p2 d6, simp_all)
  show "unat (index2_last a) = unat a mod 4 * 16" "unat (index3_last b) = unat b mod 16 * 4"
    by (simp_all only: index2_last_def index3_last_def p4 p2)
  show "unat (index4 c) = unat c mod 64" by (simp only: index4_def and_low unat_ucast_8_32)
qed

lemma digit_of_index: "unat x < 64 \<Longrightarrow> EncodingTable ! unat x = digit64 (unat x)" for x :: UINT32
  by (simp add: digit64_def)

text \<open>One character goes to the end of what is written already.\<close>

definition written :: "mem \<Rightarrow> UINTN \<Rightarrow> UINT8 list \<Rightarrow> out_ptr" where
  "written m d out = (overlay m d out, d + of_nat (length out))"

lemma put_written:
  "buffer m d n \<Longrightarrow> length out < n \<Longrightarrow> put_char (written m d out) c = Inr (written m d (out @ [c]))"
  using store_overlay [of m d n out c] by (simp add: written_def add.assoc)

lemma put1_written:
  assumes "buffer m d n" "length out < n" "load_byte (overlay m d out) p = Inr a"
  shows "put1 index p (written m d out) = Inr (written m d (out @ [EncodingTable ! unat (index a)]))"
proof -
  have "load_byte (fst (written m d out)) p = Inr a" using assms(3) by (simp only: written_def fst_conv)
  then show ?thesis by (simp only: put1_def bindr_Inr put_written [OF assms(1,2)])
qed

lemma put2_written:
  assumes "buffer m d n" "length out < n" "load_byte (overlay m d out) p = Inr a"
    "load_byte (overlay m d out) q = Inr b"
  shows "put2 index p q (written m d out) = Inr (written m d (out @ [EncodingTable ! unat (index a b)]))"
proof -
  have "load_byte (fst (written m d out)) p = Inr a" "load_byte (fst (written m d out)) q = Inr b"
    using assms(3,4) by (simp_all only: written_def fst_conv)
  then show ?thesis by (simp only: put2_def bindr_Inr put_written [OF assms(1,2)])
qed

lemma encode_loop_stop: "unat LeftBytes < 3 \<Longrightarrow> encode_loop Source LeftBytes out = Inr (Source, LeftBytes, out)"
  by (subst encode_loop.simps) (simp add: word_le_nat_alt)

lemma base64_one:
  "base64 [a] = [digit64 (unat a div 4), digit64 (unat a mod 4 * 16), 0x3D, 0x3D]"
  using digits64_quads [of "unat a" 0 0] unat_less_exp [of a] by (simp only: base64.simps) simp

lemma base64_two:
  "base64 [a, b] = [digit64 (unat a div 4), digit64 (unat a mod 4 * 16 + unat b div 16),
     digit64 (unat b mod 16 * 4), 0x3D]"
  using digits64_quads [of "unat a" "unat b" 0] unat_less_exp [of a] unat_less_exp [of b]
  by (simp only: base64.simps) simp

lemma base64_three:
  "base64 (a # b # c # bs) = [digit64 (unat a div 4), digit64 (unat a mod 4 * 16 + unat b div 16),
     digit64 (unat b mod 16 * 4 + unat c div 64), digit64 (unat c mod 64)] @ base64 bs"
  using digits64_quads [of "unat a" "unat b" "unat c"] unat_less_exp [of a] unat_less_exp [of b]
    unat_less_exp [of c] by (simp only: base64.simps) simp

lemma table_values:
  "EncodingTable ! unat (index1 a) = digit64 (unat a div 4)"
  "EncodingTable ! unat (index2 a b) = digit64 (unat a mod 4 * 16 + unat b div 16)"
  "EncodingTable ! unat (index3 b c) = digit64 (unat b mod 16 * 4 + unat c div 64)"
  "EncodingTable ! unat (index4 c) = digit64 (unat c mod 64)"
  "EncodingTable ! unat (index2_last a) = digit64 (unat a mod 4 * 16)"
  "EncodingTable ! unat (index3_last b) = digit64 (unat b mod 16 * 4)"
proof -
  have l: "unat a < 256" "unat b < 256" "unat c < 256"
    using unat_less_exp [of a] unat_less_exp [of b] unat_less_exp [of c] by simp_all
  then have "unat a div 4 < 64" "unat a mod 4 * 16 + unat b div 16 < 64"
    "unat b mod 16 * 4 + unat c div 64 < 64" "unat c mod 64 < 64" "unat a mod 4 * 16 < 64"
    "unat b mod 16 * 4 < 64"
    by linarith+
  note this [folded index_values]
  then show "EncodingTable ! unat (index1 a) = digit64 (unat a div 4)"
    "EncodingTable ! unat (index2 a b) = digit64 (unat a mod 4 * 16 + unat b div 16)"
    "EncodingTable ! unat (index3 b c) = digit64 (unat b mod 16 * 4 + unat c div 64)"
    "EncodingTable ! unat (index4 c) = digit64 (unat c mod 64)"
    "EncodingTable ! unat (index2_last a) = digit64 (unat a mod 4 * 16)"
    "EncodingTable ! unat (index3_last b) = digit64 (unat b mod 16 * 4)"
    by (simp_all only: digit_of_index) (simp_all only: index_values)
qed

lemma encode_loop_three:
  assumes "buffer m d n" "bytes_at m Source (a # b # c # bs)"
    and "apart Source (length (a # b # c # bs)) d n" "length (a # b # c # bs) < 2 ^ 64"
    and "length out + 4 \<le> n"
  shows "encode_loop Source (of_nat (length (a # b # c # bs))) (written m d out) =
    encode_loop (Source + 3) (of_nat (length bs)) (written m d (out @
      [digit64 (unat a div 4), digit64 (unat a mod 4 * 16 + unat b div 16),
       digit64 (unat b mod 16 * 4 + unat c div 64), digit64 (unat c mod 64)]))"
proof -
  have ld: "load_byte (overlay m d out') Source = Inr a" "load_byte (overlay m d out') (Source + 1) = Inr b"
    "load_byte (overlay m d out') (Source + 2) = Inr c"
    if "length out' < n" for out'
    using load_overlay [OF assms(3), of out' 0 m] load_overlay [OF assms(3), of out' 1 m]
      load_overlay [OF assms(3), of out' 2 m] assms(2) that by (simp_all add: add.assoc)
  note p = put1_written [OF assms(1) _ ld(1)] put2_written [OF assms(1) _ ld(1,2)]
    put2_written [OF assms(1) _ ld(2,3)] put1_written [OF assms(1) _ ld(3)]
  have "unat (of_nat (length (a # b # c # bs)) :: UINTN) = length bs + 3"
    using assms(4) by (simp only: unat_index) simp
  then have "3 \<le> (of_nat (length (a # b # c # bs)) :: UINTN)" by (simp only: word_le_nat_alt) simp
  moreover have "of_nat (length (a # b # c # bs)) - 3 = (of_nat (length bs) :: UINTN)" by simp
  ultimately show ?thesis
    using assms(5)
    by (subst encode_loop.simps) (simp add: p table_values del: of_nat_Suc length_Cons)
qed

lemma encode_text:
  assumes "buffer m d n" "bytes_at m Source bs" "apart Source (length bs) d n" "length bs < 2 ^ 64"
    and "length out + length (base64 bs) \<le> n"
  shows "bindr (encode_loop Source (of_nat (length bs)) (written m d out))
      (\<lambda>(Source, LeftBytes, out). encode_rest Source LeftBytes out) = Inr (written m d (out @ base64 bs))"
  using assms
proof (induction bs arbitrary: Source out rule: base64.induct)
  case 1
  then show ?case by (simp add: encode_loop_stop encode_rest_def)
next
  case (2 a)
  have "load_byte (overlay m d out') Source = Inr a" if "length out' < n" for out'
    using load_overlay [OF 2(3), of out' 0 m] 2(2) that by simp
  note p = put1_written [OF 2(1) _ this] put_written [OF 2(1)]
  show ?case
    using 2(5) by (simp add: encode_loop_stop encode_rest_def p table_values base64_one
        del: base64.simps)
next
  case (3 a b)
  have ld: "load_byte (overlay m d out') Source = Inr a" "load_byte (overlay m d out') (Source + 1) = Inr b"
    if "length out' < n" for out'
    using load_overlay [OF 3(3), of out' 0 m] load_overlay [OF 3(3), of out' 1 m] 3(2) that by simp_all
  note p = put1_written [OF 3(1) _ ld(1)] put2_written [OF 3(1) _ ld] put1_written [OF 3(1) _ ld(2)]
    put_written [OF 3(1)]
  show ?case
    using 3(5) by (simp add: encode_loop_stop encode_rest_def p table_values base64_two
        del: base64.simps)
next
  case (4 a b c bs)
  have "length out + 4 + length (base64 bs) \<le> n"
    using 4(6) by (simp only: base64_three) simp
  then have "length out + 4 \<le> n" by simp
  note step = encode_loop_three [OF 4(2,3,4,5) this]
  have "apart (Source + 3) (length bs) d n"
    using 4(4) apart_shift [of Source] apart_shift [of "Source + 1"] apart_shift [of "Source + 2"]
    by (simp add: add.assoc)
  with 4 show ?case
    unfolding step base64_three append_assoc [symmetric]
    by (intro 4(1)) (simp_all add: add.assoc base64_three)
qed

section \<open>The contract of a text codec\<close>

locale text_codec =
  fixes enc :: "'b list \<Rightarrow> 'c list"
    and dec :: "'c list \<Rightarrow> 'b list option"
    and skip :: "'c \<Rightarrow> bool"
  assumes exact: "dec cs = Some bs \<longleftrightarrow> filter (\<lambda>c. \<not> skip c) cs = enc bs"
    and plain: "filter (\<lambda>c. \<not> skip c) (enc bs) = enc bs"
begin

lemma round_trip: "dec (enc bs) = Some bs"
  by (simp add: exact plain)

lemma injective: "enc as = enc bs \<longleftrightarrow> as = bs"
  by (metis round_trip option.inject)

lemma spaced: "filter (\<lambda>c. \<not> skip c) cs = enc bs \<Longrightarrow> dec cs = Some bs"
  by (simp add: exact)

lemma rejects: "(\<And>bs. filter (\<lambda>c. \<not> skip c) cs \<noteq> enc bs) \<Longrightarrow> dec cs = None"
  by (metis exact not_None_eq)

end

interpretation b64: text_codec base64 "decode64 env" is_whitespace for env
  by unfold_locales (rule decode64_exact base64_plain)+

section \<open>What the decoder writes\<close>

lemma below_4: "n < 4 \<Longrightarrow> n = 0 \<or> n = 1 \<or> n = 2 \<or> n = (3 :: UINTN)"
proof -
  assume "n < 4"
  then have "unat n = 0 \<or> unat n = 1 \<or> unat n = 2 \<or> unat n = 3" by (simp add: word_less_nat_alt) linarith
  then show ?thesis by (auto simp: word_eq_iff_unat)
qed

lemma decode_char_total:
  assumes "SixBitGroupsConsumed q < 4"
  shows "decode_char env q c = Inr None \<or>
    (\<exists>q' octet. decode_char env q c = Inr (Some (q', octet)) \<and> SixBitGroupsConsumed q' < 4)"
proof -
  have f: "\<exists>q' octet. feed env q v = Inr (q', octet) \<and> SixBitGroupsConsumed q' < 4" for v
    using below_4 [OF assms] by (auto simp: feed_def Let_def)
  then have "\<exists>q' octet. map_res Some (feed env q v) = Inr (Some (q', octet)) \<and>
      SixBitGroupsConsumed q' < 4" for v
    by (metis map_res_simps(2))
  then show ?thesis
    using assms below_4 [OF assms]
    by (auto simp: decode_char_def enter_padding_def Let_def split: option.split)
qed

lemma store_octet_overlay:
  assumes "buffer m d (unat k)" "length out < 2 ^ 64"
  shows "store_octet env d k (overlay m d (take (unat k) out)) (of_nat (length out)) b =
    Inr (overlay m d (take (unat k) (out @ [b])))"
proof (cases "length out < unat k")
  case True
  then have "0 < unat k" by simp
  then have "d \<noteq> NULL" using assms(1) by (rule buffer_nonnull [rotated])
  moreover have "(of_nat (length out) :: UINTN) < k"
    using True assms(2) by (simp add: word_less_nat_alt unat_index)
  ultimately show ?thesis
    using store_overlay [OF assms(1) True] True by (simp add: store_octet_def)
next
  case False
  then have "\<not> (of_nat (length out) :: UINTN) < k"
    using assms(2) by (simp add: word_less_nat_alt unat_index)
  with False show ?thesis by (simp add: store_octet_def)
qed

lemma decode_loop_run:
  assumes "bytes_at m (Source + of_nat i) cs" "i + length cs = N" "N < 2 ^ 64"
    and "buffer m d (unat k)" "apart Source N d (unat k)" "SixBitGroupsConsumed q < 4" "length out \<le> i"
  shows "decode_loop env Source (of_nat N) d k (of_nat i) q (overlay m d (take (unat k) out)) (of_nat (length out)) =
    Inr (case decode_run env q cs of (e, os) \<Rightarrow>
      (e, overlay m d (take (unat k) (out @ os)), of_nat (length (out @ os))))"
  using assms
proof (induction cs arbitrary: i q out)
  case Nil
  then show ?case by (subst decode_loop.simps) simp
next
  case (Cons c cs)
  have i: "i < N" "(of_nat i :: UINTN) < of_nat N"
    using Cons.prems(2,3) by (simp_all add: word_less_nat_alt unat_index)
  have ld: "load_byte (overlay m d (take (unat k) out)) (Source + of_nat i) = Inr c"
    using load_overlay [OF Cons.prems(5), of "take (unat k) out" i m] i Cons.prems(1) by simp
  have b: "bytes_at m (Source + of_nat (Suc i)) cs" "Suc i + length cs = N"
    using Cons.prems(1,2) by (simp_all add: add.commute add.left_commute)
  have step: "decode_loop env Source (of_nat N) d k (of_nat i) q (overlay m d (take (unat k) out)) (of_nat (length out)) =
      bindr (decode_char env q c) (\<lambda>r. case r of
          None \<Rightarrow> Inr (None, overlay m d (take (unat k) out), of_nat (length out))
        | Some (q', None) \<Rightarrow> decode_loop env Source (of_nat N) d k (of_nat (Suc i)) q'
            (overlay m d (take (unat k) out)) (of_nat (length out))
        | Some (q', Some octet) \<Rightarrow> decode_loop env Source (of_nat N) d k (of_nat (Suc i)) q'
            (overlay m d (take (unat k) (out @ [octet]))) (of_nat (length (out @ [octet]))))"
    using i(2) store_octet_overlay [OF Cons.prems(4), of out env] Cons.prems(2,3,7)
    by (subst decode_loop.simps) (simp add: ld add.commute del: load_byte_Inr)
  note IH = Cons.IH [OF b Cons.prems(3,4,5)]
  from decode_char_total [OF Cons.prems(6), of env c] show ?case
  proof (elim disjE exE conjE)
    fix q' octet assume dc: "decode_char env q c = Inr (Some (q', octet))" "SixBitGroupsConsumed q' < 4"
    show ?case
      using IH [OF dc(2), of out] IH [OF dc(2), of "out @ [the octet]"] Cons.prems(7)
      by (cases octet) (simp_all only: step dc(1) bindr_Inr option.case prod.case, simp_all add: dc(1)
          apsnd_def map_prod_def split: prod.split)
  qed (simp only: step bindr_Inr option.case, simp)
qed

section \<open>Whole calls\<close>

lemma room: "unat (MAX_ADDRESS - x) = 2 ^ 64 - 1 - unat x"
  by (subst unat_sub) (simp_all add: MAX_ADDRESS_def word_le_nat_alt, use unat_less_exp [of x] in simp)

lemma accepted_apart:
  assumes "\<not> decode_rejects Source SourceSize d k"
  shows "apart Source (unat SourceSize) d (unat k)"
  unfolding apart_def
proof (intro allI impI)
  fix i assume i: "i < unat SourceSize"
  then have "SourceSize \<noteq> 0" by auto
  then have s: "Source \<noteq> NULL" "SourceSize \<le> MAX_ADDRESS - Source"
    using assms by (auto simp: decode_rejects_def word_gt_0 split: if_splits)
  have si: "unat Source + unat SourceSize < 2 ^ 64"
    using s(2) room [of Source] unat_less_exp [of Source] by (simp add: word_le_nat_alt)
  have ii: "unat (of_nat i :: UINTN) = i" using i unat_less_exp [of SourceSize] by (intro unat_index) simp
  then have a: "unat (Source + of_nat i) = unat Source + i"
    using si i by (subst unat_add_lem [THEN iffD1]) simp_all
  show "unat k \<le> unat (Source + of_nat i - d)"
  proof (cases "d = NULL")
    case True
    then have "k = 0" using assms by (auto simp: decode_rejects_def word_gt_0)
    then show ?thesis by simp
  next
    case False
    then have "k \<le> MAX_ADDRESS - d" using assms by (auto simp: decode_rejects_def)
    then have dk: "unat d + unat k < 2 ^ 64"
      using room [of d] unat_less_exp [of d] by (simp add: word_le_nat_alt)
    have "unat (Source + SourceSize) = unat Source + unat SourceSize" "unat (d + k) = unat d + unat k"
      using si dk by (simp_all add: unat_add_lem [THEN iffD1])
    moreover have "Source + SourceSize \<le> d \<or> d + k \<le> Source"
      using assms s(1) False by (auto simp: decode_rejects_def)
    ultimately consider "unat Source + unat SourceSize \<le> unat d" | "unat d + unat k \<le> unat Source"
      by (auto simp: word_le_nat_alt)
    then show ?thesis
    proof cases
      case 1
      then have "unat (Source + of_nat i - d) = unat (Source + of_nat i) + 2 ^ 64 - unat d"
        using i a unat_sub_if' [of "Source + of_nat i" d] by simp
      with a dk show ?thesis by simp
    next
      case 2
      then have "unat (Source + of_nat i - d) = unat (Source + of_nat i) - unat d"
        using a unat_sub_if' [of "Source + of_nat i" d] by simp
      with a 2 show ?thesis by simp
    qed
  qed
qed

lemma required_size:
  assumes "unat n + 2 < 2 ^ 64"
  shows "RequiredSize n = of_nat ((unat n + 2) div 3 * 4 + 1)"
proof -
  have "unat (n + 2) = unat n + 2" using assms by (subst unat_add_lem [THEN iffD1]) simp_all
  then have u: "unat ((n + 2) div 3) = (unat n + 2) div 3" by (simp add: unat_div)
  have "(n + 2) div 3 = of_nat ((unat n + 2) div 3)" unfolding u [symmetric] by simp
  then show ?thesis by (simp add: RequiredSize_def)
qed

lemma encode_call:
  assumes "bytes_at m Source bs" "buffer m d (length (base64 bs) + 1)"
    and "apart Source (length bs) d (length (base64 bs) + 1)" "Source \<noteq> NULL" "d \<noteq> NULL"
    and "of_nat (length bs) < MAX_ADDRESS - Source" "k < MAX_ADDRESS - d"
    and "length bs < 2 ^ 64" "length (base64 bs) + 1 \<le> unat k"
  shows "Base64Encode m Source (of_nat (length bs)) d (Some k) =
    Inr (RETURN_SUCCESS, overlay m d (base64 bs @ [0]), Some (if bs = [] then 1 else k))"
proof (cases "bs = []")
  case True
  then show ?thesis
    using assms(4,9) store_overlay [OF assms(2), of "[]" 0]
    by (simp add: Base64Encode_def word_less_nat_alt)
next
  case False
  let ?n = "length (base64 bs) + 1"
  have n0: "(of_nat (length bs) :: UINTN) \<noteq> 0"
    using False assms(8) unat_index [of "length bs"] by auto
  have k: "?n < 2 ^ 64" using assms(9) unat_less_exp [of k] by simp
  have "unat (of_nat (length bs) :: UINTN) < unat (MAX_ADDRESS - Source)"
    using assms(6) by (simp only: word_less_nat_alt)
  moreover have "0 < unat Source" using assms(4) by (simp add: NULL_def unat_gt_0)
  ultimately have "length bs + 2 < 2 ^ 64"
    using unat_index [OF assms(8)] by (simp add: room)
  then have "RequiredSize (of_nat (length bs)) = of_nat ?n"
    using required_size [of "of_nat (length bs)"] unat_index [OF assms(8)]
    by (simp add: length_base64 mult.commute)
  then have r: "\<not> k < RequiredSize (of_nat (length bs))"
    using assms(9) k by (simp only: word_less_nat_alt unat_index)
  have s: "store_byte (overlay m d (base64 bs)) (d + of_nat (length (base64 bs))) 0 =
      Inr (overlay m d (base64 bs @ [0]))"
    by (rule store_overlay [OF assms(2)]) simp
  have "bindr (encode_loop Source (of_nat (length bs)) (written m d []))
      (\<lambda>(Source, LeftBytes, out). encode_rest Source LeftBytes out) = Inr (written m d ([] @ base64 bs))"
    by (rule encode_text [OF assms(2,1,3,8)]) simp
  with s show ?thesis
    using False n0 r assms(4-7)
    by (auto simp: Base64Encode_def written_def not_le case_prod_beta bindr_eq_Inr_iff)
qed

lemma decode_call:
  assumes "bytes_at m Source cs" "length cs < 2 ^ 64" "buffer m d (unat k)"
    and "\<not> decode_rejects Source (of_nat (length cs)) d k"
  shows "Base64Decode env m Source (of_nat (length cs)) d (Some k) =
    Inr (case decode_run env quantum_start cs of (e, os) \<Rightarrow>
      (case e of
         None \<Rightarrow> RETURN_INVALID_PARAMETER
       | Some q \<Rightarrow> if SixBitGroupsConsumed q \<noteq> 0 then RETURN_INVALID_PARAMETER
           else if of_nat (length os) \<le> k then RETURN_SUCCESS else RETURN_BUFFER_TOO_SMALL,
       overlay m d (take (unat k) os), Some (of_nat (length os))))"
proof -
  have "apart Source (length cs) d (unat k)"
    using accepted_apart [OF assms(4)] unat_index [OF assms(2)] by simp
  then have "decode_loop env Source (of_nat (length cs)) d k (of_nat 0) quantum_start
      (overlay m d (take (unat k) [])) (of_nat (length ([] :: UINT8 list))) =
    Inr (case decode_run env quantum_start cs of (e, os) \<Rightarrow>
      (e, overlay m d (take (unat k) ([] @ os)), of_nat (length ([] @ os))))"
    by (intro decode_loop_run assms) (simp_all add: assms quantum_start_def)
  then show ?thesis
    using assms(4) by (simp add: Base64Decode_def split: prod.split)
qed

lemma run_length: "length (snd (decode_run env q cs)) \<le> length cs"
proof (induction cs arbitrary: q)
  case (Cons c cs)
  have "length os \<le> length cs" if "decode_run env q' cs = (e, os)" for q' e os
    using Cons [of q'] that by simp
  moreover note Cons
  ultimately show ?case by (auto simp: apsnd_def map_prod_def le_SucI split: sum.split option.split prod.splits)
qed simp

text \<open>The outcome of a call, by the list that the text encodes, if it encodes one.\<close>

lemma decode_outcome:
  assumes "bytes_at m Source cs" "length cs < 2 ^ 64" "buffer m d (unat k)"
    and "\<not> decode_rejects Source (of_nat (length cs)) d k"
  shows "case decode64 env cs of
      Some bs \<Rightarrow> Base64Decode env m Source (of_nat (length cs)) d (Some k) =
        Inr (if length bs \<le> unat k then RETURN_SUCCESS else RETURN_BUFFER_TOO_SMALL,
          overlay m d (take (unat k) bs), Some (of_nat (length bs)))
    | None \<Rightarrow> \<exists>os. Base64Decode env m Source (of_nat (length cs)) d (Some k) =
        Inr (RETURN_INVALID_PARAMETER, overlay m d (take (unat k) os), Some (of_nat (length os)))"
proof -
  obtain e os where r: "decode_run env quantum_start cs = (e, os)" by fastforce
  then have "length os < 2 ^ 64" using run_length [of env quantum_start cs] assms(2) by simp
  then have l: "of_nat (length os) \<le> k \<longleftrightarrow> length os \<le> unat k"
    by (simp add: word_le_nat_alt unat_index)
  show ?thesis
    unfolding decode_call [OF assms] decode64_def r
    by (cases e) (auto simp: l)
qed

text \<open>The bytes \<open>Man\<close> at 16 and room for the text and the octets after them.\<close>

definition sample_src :: mem where
  "sample_src = sample_mem 16 ([0x4D, 0x61, 0x6E] @ replicate 13 0)"

lemma sample_src:
  "bytes_at sample_src 16 [0x4D, 0x61, 0x6E]" "buffer sample_src 19 5" "buffer sample_src 24 3"
proof -
  have "bytes_at sample_src 16 ([0x4D, 0x61, 0x6E] @ replicate 13 0)"
    unfolding sample_src_def by (rule sample_mem_bytes) simp_all
  then show "bytes_at sample_src 16 [0x4D, 0x61, 0x6E]" unfolding bytes_at_append by blast
  show "buffer sample_src 19 5" "buffer sample_src 24 3"
    unfolding sample_src_def
    using sample_buffer [of 16 "[0x4D, 0x61, 0x6E] @ replicate 13 0" 3 5]
      sample_buffer [of 16 "[0x4D, 0x61, 0x6E] @ replicate 13 0" 8 3] by simp_all
qed

lemma sample_text: "base64 [0x4D, 0x61, 0x6E] = [0x54, 0x57, 0x46, 0x75]"
  by (simp add: base64_three digit64_code digit_code_def del: base64.simps(4))

lemma sample_encode:
  "buffer sample_src 19 (length (base64 [0x4D, 0x61, 0x6E]) + 1)"
  "apart 16 (length [0x4D, 0x61, 0x6E :: UINT8]) 19 (length (base64 [0x4D, 0x61, 0x6E]) + 1)"
proof -
  have l: "length (base64 [0x4D, 0x61, 0x6E]) + 1 = 5" unfolding sample_text by simp
  show "buffer sample_src 19 (length (base64 [0x4D, 0x61, 0x6E]) + 1)"
    unfolding l by (rule sample_src(2))
  show "apart 16 (length [0x4D, 0x61, 0x6E :: UINT8]) 19 (length (base64 [0x4D, 0x61, 0x6E]) + 1)"
    unfolding l by (rule sample_apart) simp_all
qed

section \<open>Properties\<close>

text \<open>
  C14. \<open>Base64Encode\<close> writes the RFC 4648 encoding: with a source that does not reach the end
  of the address space and a destination that has room for the text, its padding and the
  terminator, is apart from the source and is announced with at least that size, the call
  succeeds, the destination holds exactly the encoding and the terminator, and nothing else
  in memory changes; \<open>*DestinationSize\<close> becomes 1 for no bytes and is kept otherwise.
\<close>

theorem base64_encode_text:
  assumes "bytes_at m Source bs" "buffer m Destination (length (base64 bs) + 1)"
    and "apart Source (length bs) Destination (length (base64 bs) + 1)"
    and "Source \<noteq> NULL" "Destination \<noteq> NULL" "length bs < 2 ^ 64"
    and "of_nat (length bs) < MAX_ADDRESS - Source" "capacity < MAX_ADDRESS - Destination"
    and "length (base64 bs) + 1 \<le> unat capacity"
  shows "Base64Encode m Source (of_nat (length bs)) Destination (Some capacity) =
    Inr (RETURN_SUCCESS, overlay m Destination (base64 bs @ [0]),
      Some (if bs = [] then 1 else capacity))"
  using assms by (intro encode_call)

theorem base64_encode_text_witness:
  "Base64Encode sample_src 16 3 19 (Some 5) =
     Inr (RETURN_SUCCESS, overlay sample_src 19 [0x54, 0x57, 0x46, 0x75, 0], Some 5)"
  using base64_encode_text [OF sample_src(1) sample_encode, of 5]
  by (simp add: sample_text MAX_ADDRESS_def NULL_def word_less_nat_alt
      del: base64.simps)

text \<open>
  C2. \<open>Base64Decode\<close> accepts exactly the encodings: for parameters that pass its checks, if
  the text without its white space is the encoding of some bytes, the first of them that fit
  are stored, \<open>*DestinationSize\<close> is their whole number, and the status tells whether they
  fit; if it is the encoding of no bytes, the status is \<open>RETURN_INVALID_PARAMETER\<close>. Memory
  outside the announced destination never changes.
\<close>

theorem base64_decode_exact:
  assumes "bytes_at m Source cs" "length cs < 2 ^ 64" "buffer m Destination (unat capacity)"
    and "\<not> decode_rejects Source (of_nat (length cs)) Destination capacity"
  shows "(\<forall>bs. filter (\<lambda>c. \<not> is_whitespace c) cs = base64 bs \<longrightarrow>
      Base64Decode env m Source (of_nat (length cs)) Destination (Some capacity) =
        Inr (if length bs \<le> unat capacity then RETURN_SUCCESS else RETURN_BUFFER_TOO_SMALL,
          overlay m Destination (take (unat capacity) bs), Some (of_nat (length bs)))) \<and>
    ((\<forall>bs. filter (\<lambda>c. \<not> is_whitespace c) cs \<noteq> base64 bs) \<longrightarrow>
      (\<exists>m' n. Base64Decode env m Source (of_nat (length cs)) Destination (Some capacity) =
        Inr (RETURN_INVALID_PARAMETER, m', n) \<and>
        (\<forall>x. unat capacity \<le> unat (x - Destination) \<longrightarrow> m' x = m x)))"
proof (intro conjI allI impI)
  fix bs assume "filter (\<lambda>c. \<not> is_whitespace c) cs = base64 bs"
  then have "decode64 env cs = Some bs" by (rule b64.spaced)
  with decode_outcome [OF assms, of env]
  show "Base64Decode env m Source (of_nat (length cs)) Destination (Some capacity) =
        Inr (if length bs \<le> unat capacity then RETURN_SUCCESS else RETURN_BUFFER_TOO_SMALL,
          overlay m Destination (take (unat capacity) bs), Some (of_nat (length bs)))" by simp
next
  assume "\<forall>bs. filter (\<lambda>c. \<not> is_whitespace c) cs \<noteq> base64 bs"
  then have "decode64 env cs = None" by (intro b64.rejects) simp
  with decode_outcome [OF assms, of env]
  show "\<exists>m' n. Base64Decode env m Source (of_nat (length cs)) Destination (Some capacity) =
      Inr (RETURN_INVALID_PARAMETER, m', n) \<and>
      (\<forall>x. unat capacity \<le> unat (x - Destination) \<longrightarrow> m' x = m x)"
    by (auto simp: overlay_def)
qed

theorem base64_decode_exact_witness:
  "Base64Decode debug_env (sample_mem 16 ([0x54, 0x57, 0x20, 0x46, 0x75] @ [0, 0])) 16 5 21 (Some 2) =
     Inr (RETURN_BUFFER_TOO_SMALL,
       overlay (sample_mem 16 ([0x54, 0x57, 0x20, 0x46, 0x75] @ [0, 0])) 21 [0x4D, 0x61], Some 3)"
proof -
  let ?cs = "[0x54, 0x57, 0x20, 0x46, 0x75] :: CHAR8 list" and ?m = "sample_mem 16 ([0x54, 0x57, 0x20, 0x46, 0x75] @ [0, 0])"
  have "bytes_at ?m 16 (?cs @ [0, 0])" by (rule sample_mem_bytes) simp_all
  then have b: "bytes_at ?m 16 ?cs" unfolding bytes_at_append by blast
  have d: "buffer ?m 21 (unat (2 :: UINTN))" using sample_buffer [of 16 "?cs @ [0, 0]" 5 2] by simp
  have r: "\<not> decode_rejects 16 (of_nat (length ?cs)) 21 2"
    by (simp add: decode_rejects_def NULL_def MAX_ADDRESS_def word_le_nat_alt)
  have "filter (\<lambda>c. \<not> is_whitespace c) ?cs = base64 [0x4D, 0x61, 0x6E]"
    unfolding sample_text by (simp add: is_whitespace_def)
  moreover have "length ?cs < 2 ^ 64" by simp
  ultimately have "Base64Decode debug_env ?m 16 (of_nat (length ?cs)) 21 (Some 2) =
      Inr (if length [0x4D, 0x61, 0x6E :: UINT8] \<le> unat (2 :: UINTN) then RETURN_SUCCESS else RETURN_BUFFER_TOO_SMALL,
        overlay ?m 21 (take (unat (2 :: UINTN)) [0x4D, 0x61, 0x6E]), Some (of_nat (length [0x4D, 0x61, 0x6E :: UINT8])))"
    using base64_decode_exact [OF b _ d r, of debug_env] by blast
  then show ?thesis by simp
qed

text \<open>
  C5. Round trip through memory: the text that \<open>Base64Encode\<close> leaves at its destination, its
  terminator excluded, is decoded by \<open>Base64Decode\<close> into a second buffer with room for it,
  and the buffer then holds the bytes that were encoded.
\<close>

theorem base64_round_trip:
  assumes "bytes_at m Source bs" "buffer m Text (length (base64 bs) + 1)"
    and "apart Source (length bs) Text (length (base64 bs) + 1)"
    and "Source \<noteq> NULL" "Text \<noteq> NULL" "length bs < 2 ^ 64"
    and "of_nat (length bs) < MAX_ADDRESS - Source" "capacity < MAX_ADDRESS - Text"
    and "length (base64 bs) + 1 \<le> unat capacity"
    and "buffer m Octets (unat k)" "length bs \<le> unat k"
    and "\<not> decode_rejects Text (of_nat (length (base64 bs))) Octets k"
  shows "\<exists>m'. bindr (Base64Encode m Source (of_nat (length bs)) Text (Some capacity)) (\<lambda>(status, m, _).
      Base64Decode env m Text (of_nat (length (base64 bs))) Octets (Some k)) =
        Inr (RETURN_SUCCESS, m', Some (of_nat (length bs))) \<and> bytes_at m' Octets bs"
proof -
  let ?m = "overlay m Text (base64 bs @ [0])"
  have e: "Base64Encode m Source (of_nat (length bs)) Text (Some capacity) =
      Inr (RETURN_SUCCESS, ?m, Some (if bs = [] then 1 else capacity))"
    using assms by (intro encode_call)
  have "bytes_at ?m Text (base64 bs @ [0])" using assms(2) by (rule bytes_at_overlay) simp
  then have t: "bytes_at ?m Text (base64 bs)" unfolding bytes_at_append by blast
  have l: "length (base64 bs) < 2 ^ 64" using assms(9) unat_less_exp [of capacity] by simp
  have "Base64Decode env ?m Text (of_nat (length (base64 bs))) Octets (Some k) =
      Inr (RETURN_SUCCESS, overlay ?m Octets bs, Some (of_nat (length bs)))"
    using decode_outcome [OF t l buffer_overlay [OF assms(10)] assms(12), of env] b64.round_trip [of env bs]
      assms(11) by simp
  moreover have "bytes_at (overlay ?m Octets bs) Octets bs"
    by (rule bytes_at_overlay [OF buffer_overlay [OF assms(10)] assms(11)])
  ultimately show ?thesis by (simp add: e)
qed

theorem base64_round_trip_witness:
  "\<exists>m'. bindr (Base64Encode sample_src 16 3 19 (Some 5)) (\<lambda>(status, m, _).
      Base64Decode debug_env m 19 4 24 (Some 3)) = Inr (RETURN_SUCCESS, m', Some 3) \<and>
    bytes_at m' 24 [0x4D, 0x61, 0x6E]"
proof -
  have "\<not> decode_rejects 19 4 24 3"
    by (simp add: decode_rejects_def NULL_def MAX_ADDRESS_def word_le_nat_alt)
  then show ?thesis
    using base64_round_trip [OF sample_src(1) sample_encode, of 5 24 3 debug_env] sample_src(3)
    by (simp add: sample_text MAX_ADDRESS_def NULL_def word_less_nat_alt
        del: base64.simps)
qed



text \<open>
  C38. Two calls that the checks of \<open>Base64Encode\<close> let through write where they must not: with
  no source bytes and room announced, a NULL destination is written; and the required size
  of \<open>3 * 2 ^ 62\<close> bytes wraps around to 1, so that a destination of one byte is accepted and
  the byte after it is written.
\<close>

theorem base64_encode_unsafe:
  assumes "Source \<noteq> NULL" "k \<noteq> 0" "bytes_at m Source [a, b]"
    and "0xC000000000000000 < MAX_ADDRESS - Source" "1 < MAX_ADDRESS - d"
    and "d \<noteq> NULL" "m d \<noteq> None" "m (d + 1) = None"
  shows "Base64Encode m Source 0 NULL (Some k) = Inl BadAddress \<and>
    RequiredSize 0xC000000000000000 = 1 \<and>
    Base64Encode m Source 0xC000000000000000 d (Some 1) = Inl BadAddress"
proof -
  have r: "RequiredSize 0xC000000000000000 = 1"
    by (subst required_size) simp_all
  have k: "\<not> k < 1" using assms(2) by (simp add: word_less_nat_alt unat_gt_0)
  have s: "Source + 1 \<noteq> d \<or> Source \<noteq> d" by auto
  have "\<exists>x. put1 index1 Source (m, d) = Inr (m(d \<mapsto> x), d + 1)"
    using assms(3,6,7) by (auto simp: put1_def store_byte_def load_byte_def)
  then obtain x where p: "put1 index1 Source (m, d) = Inr (m(d \<mapsto> x), d + 1)" ..
  have "put2 index2 Source (Source + 1) (m(d \<mapsto> x), d + 1) = Inl BadAddress"
    using assms(3,8) by (auto simp: put2_def store_byte_def load_byte_def)
  then have "encode_loop Source 0xC000000000000000 (m, d) = Inl BadAddress"
    by (subst encode_loop.simps) (simp add: p word_le_nat_alt)
  with r k assms show ?thesis
    by (simp add: Base64Encode_def store_byte_def not_le del: bytes_at.simps)
qed

theorem base64_encode_unsafe_witness:
  "RequiredSize 0xC000000000000000 = 1 \<and>
   Base64Encode (sample_mem 16 [1, 2, 3]) 16 0xC000000000000000 18 (Some 1) = Inl BadAddress"
proof -
  let ?m = "sample_mem 16 [1, 2, 3]"
  have "bytes_at ?m 16 ([1, 2] @ [3])" using sample_mem_bytes [of 16 "[1, 2] @ [3]"] by simp
  then have b: "bytes_at ?m 16 [1, 2]" unfolding bytes_at_append by blast
  have m: "?m 18 \<noteq> None" "?m (18 + 1) = None" by (simp_all add: sample_mem_def)
  from base64_encode_unsafe [of 16 1, OF _ _ b _ _ _ m] show ?thesis
    by (simp add: NULL_def MAX_ADDRESS_def word_less_nat_alt)
qed

end
