(* ===== verification/Math_Worker.thy ===== *)
theory Math_Worker imports Buffers "HOL-Library.Signed_Division" begin

text \<open>
  The wrappers \<open>SwapBytes16\<close>, \<open>ModU64x32\<close>, \<open>MultU64x64\<close>, \<open>DivS64x64Remainder\<close> and \<open>LongJump\<close>.
  The \<open>InternalMath\<close> workers and the jump itself are per-processor files outside the sources:
  they are arguments, and what \<open>BaseLibInternals.h\<close> documents of a division is a hypothesis.
\<close>

section \<open>Definitions\<close>

text \<open>The operand is promoted to \<open>int\<close> before it is shifted.\<close>

definition SwapBytes16 :: "UINT16 \<Rightarrow> UINT16" where
  "SwapBytes16 Value = ucast (push_bit 8 (ucast Value) OR drop_bit 8 (ucast Value) :: UINT32)"

definition ModU64x32 ::
  "build_env \<Rightarrow> (UINT64 \<Rightarrow> UINT32 \<Rightarrow> UINT32 res) \<Rightarrow> UINT64 \<Rightarrow> UINT32 \<Rightarrow> UINT32 res" where
  "ModU64x32 env InternalMathModU64x32 Dividend Divisor =
     ASSERT env (Divisor \<noteq> 0) (InternalMathModU64x32 Dividend Divisor)"

definition MultU64x64 :: "(UINT64 \<Rightarrow> UINT64 \<Rightarrow> UINT64) \<Rightarrow> UINT64 \<Rightarrow> UINT64 \<Rightarrow> UINT64" where
  "MultU64x64 InternalMathMultU64x64 Multiplicand Multiplier =
     (let Result = InternalMathMultU64x64 Multiplicand Multiplier in Result)"

definition DivS64x64Remainder ::
  "build_env \<Rightarrow> (mem \<Rightarrow> INT64 \<Rightarrow> INT64 \<Rightarrow> UINTN \<Rightarrow> (INT64 \<times> mem) res) \<Rightarrow>
   mem \<Rightarrow> INT64 \<Rightarrow> INT64 \<Rightarrow> UINTN \<Rightarrow> (INT64 \<times> mem) res" where
  "DivS64x64Remainder env InternalMathDivRemS64x64 m Dividend Divisor Remainder =
     ASSERT env (Divisor \<noteq> 0) (InternalMathDivRemS64x64 m Dividend Divisor Remainder)"

definition LongJump ::
  "build_env \<Rightarrow> (UINTN \<Rightarrow> unit res) \<Rightarrow> (UINTN \<Rightarrow> UINTN \<Rightarrow> 'a res) \<Rightarrow> UINTN \<Rightarrow> UINTN \<Rightarrow> 'a res" where
  "LongJump env InternalAssertJumpBuffer InternalLongJump JumpBuffer Value =
     bindr (InternalAssertJumpBuffer JumpBuffer) (\<lambda>_.
       ASSERT env (Value \<noteq> 0) (InternalLongJump JumpBuffer Value))"

section \<open>Byte order\<close>

lemma swap_bit:
  "bit (SwapBytes16 v) n \<longleftrightarrow> (if n < 8 then bit v (8 + n) else n < 16 \<and> bit v (n - 8))"
proof -
  have "bit v (8 + n) \<Longrightarrow> n < 8" using bit_imp_le_length [of v "8 + n"] by simp
  then show ?thesis by (auto simp: SwapBytes16_def bit_simps add.commute)
qed

section \<open>Division\<close>

lemma mod_ucast: "v \<noteq> 0 \<Longrightarrow> unat (ucast (d mod ucast v) :: UINT32) = unat d mod unat v"
  for d :: UINT64 and v :: UINT32
proof -
  assume "v \<noteq> 0"
  then have "unat d mod unat v < unat v" by (simp add: unat_gt_0)
  moreover have "unat v < 2 ^ 32" using unat_less_exp [of v] by simp
  ultimately have "unat d mod unat v < 2 ^ 32" by linarith
  then show ?thesis
    by (subst unsigned_ucast_eq) (simp add: unat_mod take_bit_nat_eq_self)
qed

lemma smod_word_sint: "w \<noteq> 0 \<Longrightarrow> sint (word_of_int (sint d smod sint w) :: INT64) = sint d smod sint w"
  for d w :: INT64
proof -
  assume "w \<noteq> 0"
  then have "sint w \<noteq> 0" by (simp only: signed_eq_0_iff not_False_eq_True)
  then have "sint d smod sint w \<in> {- abs (sint w) + 1 .. abs (sint w) - 1}" by (rule smod_int_range)
  moreover have "- (2 ^ 63) \<le> sint w" "sint w < 2 ^ 63"
    using sint_greater_eq [of w] sint_less [of w] by simp_all
  ultimately have "- (2 ^ 63) \<le> sint d smod sint w" "sint d smod sint w < 2 ^ 63" by auto
  then show ?thesis by (simp add: int_word_sint)
qed

section \<open>Properties\<close>

text \<open>
  \<open>SwapBytes16\<close> exchanges the two bytes: the bytes of the result are the bytes of the
  value in the opposite order, and swapping twice gives the value back.
\<close>

theorem swap_bytes:
  "le_bytes 2 (SwapBytes16 v) = rev (le_bytes 2 v) \<and> SwapBytes16 (SwapBytes16 v) = v"
proof
  show "SwapBytes16 (SwapBytes16 v) = v"
    by (rule bit_word_eqI) (auto simp: swap_bit)
  have "ucast (SwapBytes16 v) = (ucast (drop_bit 8 v) :: UINT8)"
    by (rule bit_word_eqI) (auto simp: swap_bit bit_simps add.commute)
  moreover have "ucast (drop_bit 8 (SwapBytes16 v)) = (ucast v :: UINT8)"
    by (rule bit_word_eqI) (auto simp: swap_bit bit_simps)
  ultimately show "le_bytes 2 (SwapBytes16 v) = rev (le_bytes 2 v)"
    by (simp add: eval_nat_numeral)
qed

text \<open>
  The division wrappers, for workers that do what \<open>BaseLibInternals.h\<close> documents: with a
  divisor that is not 0 \<open>ModU64x32\<close> returns the remainder of the Euclidean division, and
  \<open>DivS64x64Remainder\<close> a quotient and a remainder of smaller magnitude than the divisor that
  make up the dividend, the remainder stored where the caller asks for it, if it does; with
  a divisor 0, or a jump value 0, a build whose assertions stop asserts.
\<close>

theorem math_division:
  assumes "\<And>d v. v \<noteq> 0 \<Longrightarrow> mod_worker d v = Inr (ucast (d mod ucast v))"
    and "\<And>m d v r. v \<noteq> 0 \<Longrightarrow> div_worker m d v r =
      Inr (word_of_int (sint d sdiv sint v),
        if r = NULL then m else overlay m r (le_bytes 8 (word_of_int (sint d smod sint v) :: INT64)))"
    and "buffer m R 8"
  shows "(v \<noteq> 0 \<longrightarrow> (\<exists>q r. ModU64x32 env mod_worker d v = Inr r \<and> unat r < unat v \<and>
      unat d = q * unat v + unat r)) \<and>
    (w \<noteq> 0 \<longrightarrow> (\<exists>q r m'. DivS64x64Remainder env div_worker m d w R = Inr (q, m') \<and>
      DivS64x64Remainder env div_worker m d w NULL = Inr (q, m) \<and>
      d = q * w + r \<and> abs (sint r) < abs (sint w) \<and> load m' R = Inr r)) \<and>
    (asserts_on env \<longrightarrow> ModU64x32 env mod_worker d 0 = Inl AssertFailed \<and>
      DivS64x64Remainder env div_worker m d 0 R = Inl AssertFailed \<and>
      (check j = Inr () \<longrightarrow> LongJump env check jump j 0 = Inl AssertFailed))"
proof (intro conjI impI)
  assume v: "v \<noteq> 0"
  then have r: "unat (ucast (d mod ucast v) :: UINT32) = unat d mod unat v" by (rule mod_ucast)
  have "unat d = unat d div unat v * unat v + unat d mod unat v" by simp
  moreover have "unat d mod unat v < unat v" using v by (simp add: unat_gt_0)
  ultimately show "\<exists>q r. ModU64x32 env mod_worker d v = Inr r \<and> unat r < unat v \<and> unat d = q * unat v + unat r"
    using v assms(1) [OF v, of d] r
    by (intro exI [of _ "unat d div unat v"] exI [of _ "ucast (d mod ucast v)"])
      (simp only: ModU64x32_def, simp)
next
  assume w: "w \<noteq> 0"
  let ?q = "word_of_int (sint d sdiv sint w) :: INT64" and ?r = "word_of_int (sint d smod sint w) :: INT64"
  have w': "sint w \<noteq> 0" using w by (simp only: signed_eq_0_iff not_False_eq_True)
  have "R \<noteq> NULL" using assms(3) by (rule buffer_nonnull) simp
  moreover have "load (overlay m R (le_bytes 8 ?r)) R = Inr ?r"
    using load_stored [OF assms(3), of ?r] by (simp add: sizeof_word_def)
  moreover have "d = ?q * w + ?r"
  proof -
    have "word_of_int (sint d) = (word_of_int (sint d sdiv sint w * sint w + sint d smod sint w) :: INT64)"
      by (simp only: sdiv_mult_smod_eq)
    then show ?thesis by simp
  qed
  moreover have "abs (sint ?r) < abs (sint w)"
    using smod_word_sint [OF w, of d] smod_int_range [OF w', of "sint d"] by auto
  ultimately show "\<exists>q r m'. DivS64x64Remainder env div_worker m d w R = Inr (q, m') \<and>
      DivS64x64Remainder env div_worker m d w NULL = Inr (q, m) \<and>
      d = q * w + r \<and> abs (sint r) < abs (sint w) \<and> load m' R = Inr r"
    using w assms(2) by (auto simp: DivS64x64Remainder_def)
qed (simp_all add: ModU64x32_def DivS64x64Remainder_def LongJump_def ASSERT_False)

theorem math_division_witness:
  "(\<exists>q r. ModU64x32 debug_env (\<lambda>d v. Inr (ucast (d mod ucast v))) 17 5 = Inr r \<and>
      unat r < 5 \<and> 17 = q * 5 + unat r) \<and>
   ModU64x32 debug_env (\<lambda>d v. Inr (ucast (d mod ucast v))) 17 0 = Inl AssertFailed"
proof -
  have "buffer (sample_mem 16 (replicate 8 0)) 16 8"
    using sample_buffer [of 16 "replicate 8 0" 0 8] by simp
  from math_division [OF refl refl this, of 5 debug_env 17 1 "\<lambda>_. Inr ()" 0 "\<lambda>_ _. Inr ()"]
  show ?thesis using debug_env_asserts by simp
qed

end
