(* ===== verification/Patch_X86.thy ===== *)
theory Patch_X86 imports Buffers begin

text \<open>
  \<open>PatchInstructionX86\<close>: the immediate operand at the end of an instruction is replaced. The
  stores of 2, 4 and 8 bytes are \<open>WriteUnaligned16\<close>, \<open>WriteUnaligned32\<close> and
  \<open>WriteUnaligned64\<close>, functions of BaseLib outside the sources: they are arguments.
\<close>

section \<open>Definition\<close>

type_synonym 'a unaligned_write = "mem \<Rightarrow> UINTN \<Rightarrow> 'a word \<Rightarrow> mem res"

definition PatchInstructionX86 ::
  "build_env \<Rightarrow> 16 unaligned_write \<Rightarrow> 32 unaligned_write \<Rightarrow> 64 unaligned_write \<Rightarrow>
   mem \<Rightarrow> UINTN \<Rightarrow> UINT64 \<Rightarrow> UINTN \<Rightarrow> mem res" where
  "PatchInstructionX86 env WriteUnaligned16 WriteUnaligned32 WriteUnaligned64 m InstructionEnd PatchValue ValueSize =
     ASSERT env (InstructionEnd > ValueSize)
      (if ValueSize = 1 then
         ASSERT env (PatchValue \<le> 0xFF) (store_byte m (InstructionEnd - 1) (ucast PatchValue))
       else if ValueSize = 2 then
         ASSERT env (PatchValue \<le> 0xFFFF) (WriteUnaligned16 m (InstructionEnd - 2) (ucast PatchValue))
       else if ValueSize = 4 then
         ASSERT env (PatchValue \<le> 0xFFFFFFFF) (WriteUnaligned32 m (InstructionEnd - 4) (ucast PatchValue))
       else if ValueSize = 8 then
         WriteUnaligned64 m (InstructionEnd - 8) PatchValue
       else ASSERT env False (Inr m))"

section \<open>Lemmas\<close>

text \<open>The documented behaviour of the unaligned stores: the bytes of the value, in order.\<close>

definition writes_bytes :: "'a::len unaligned_write \<Rightarrow> bool" where
  "writes_bytes w \<longleftrightarrow> (\<forall>m p v. w m p v = store_bytes m p (le_bytes (sizeof_word v) v))"

lemma ucast_le_bytes:
  "8 * n \<le> LENGTH('a) \<Longrightarrow> le_bytes n (ucast v :: 'a::len word) = le_bytes n (v :: UINT64)"
  if "LENGTH('a) \<le> 64"
proof -
  have "le_bytes n w = le_bytes n v" if "\<And>i. i < 8 * n \<Longrightarrow> bit w i = bit v i" for w :: "'a word" and v :: UINT64
    using that
  proof (induction n arbitrary: w v)
    case (Suc n)
    have "(ucast w :: UINT8) = ucast v"
      by (rule bit_word_eqI) (use Suc.prems in \<open>auto simp: bit_simps\<close>)
    moreover have "le_bytes n (drop_bit 8 w) = le_bytes n (drop_bit 8 v)"
      using Suc.prems by (intro Suc.IH) (simp add: bit_simps)
    ultimately show ?case by simp
  qed simp
  then show "8 * n \<le> LENGTH('a) \<Longrightarrow> le_bytes n (ucast v :: 'a word) = le_bytes n v"
    by (simp add: bit_simps)
qed

text \<open>A value that fits into its bytes is what they spell, read at any width.\<close>

lemma le_word_short: "(le_word (le_bytes n v) :: UINT64) = take_bit (8 * n) v" for v :: UINT64
proof (induction n arbitrary: v)
  case (Suc n)
  have "ucast (ucast v :: UINT8) OR push_bit 8 (take_bit (8 * n) (drop_bit 8 v)) = take_bit (8 * Suc n) v"
    by (rule bit_word_eqI) (auto simp: bit_simps)
  with Suc show ?case by simp
qed simp

definition operand_size :: "UINTN \<Rightarrow> bool" where
  "operand_size n \<longleftrightarrow> n = 1 \<or> n = 2 \<or> n = 4 \<or> n = 8"

section \<open>Properties\<close>

text \<open>
  C39. With stores that write the bytes of their value, a size of 1, 2, 4 or 8 and a value
  that fits, \<open>PatchInstructionX86\<close> writes exactly the operand: the bytes before the end of
  the instruction spell the value, least significant first, and no other byte changes. A
  size that is none of these, an instruction that would start at or below address 0 and a
  value that is too large stop a build whose assertions stop.
\<close>

theorem patch_instruction:
  assumes "writes_bytes w16" "writes_bytes w32" "writes_bytes w64"
  shows "(operand_size n \<and> n < e \<and> unat v < 2 ^ (8 * unat n) \<and> buffer m (e - n) (unat n) \<longrightarrow>
      PatchInstructionX86 env w16 w32 w64 m e v n = Inr (overlay m (e - n) (le_bytes (unat n) v)) \<and>
      le_word (le_bytes (unat n) v) = v) \<and>
    (asserts_on env \<and> (\<not> operand_size n \<or> e \<le> n \<or> 2 ^ (8 * unat n) \<le> unat v) \<longrightarrow>
      PatchInstructionX86 env w16 w32 w64 m e v n = Inl AssertFailed)"
proof (intro conjI impI)
  assume a: "operand_size n \<and> n < e \<and> unat v < 2 ^ (8 * unat n) \<and> buffer m (e - n) (unat n)"
  have st: "store_bytes m (e - n) (le_bytes (unat n) v) = Inr (overlay m (e - n) (le_bytes (unat n) v))"
    using a by (intro store_bytes_buffer [of m "e - n" "unat n"]) simp_all
  have "n = 1 \<or> n = 2 \<or> n = 4 \<or> n = 8" using a by (simp add: operand_size_def)
  then show "PatchInstructionX86 env w16 w32 w64 m e v n = Inr (overlay m (e - n) (le_bytes (unat n) v))"
  proof (elim disjE)
    assume n: "n = 1"
    then have "v \<le> 0xFF" using a by (simp add: word_le_nat_alt)
    then show ?thesis using n a st by (simp add: PatchInstructionX86_def)
  next
    assume n: "n = 2"
    then have "v \<le> 0xFFFF" using a by (simp add: word_le_nat_alt)
    then show ?thesis using n a st assms(1) ucast_le_bytes [of 2 v, where 'a = 16]
      by (simp add: PatchInstructionX86_def writes_bytes_def sizeof_word_def)
  next
    assume n: "n = 4"
    then have "v \<le> 0xFFFFFFFF" using a by (simp add: word_le_nat_alt)
    then show ?thesis using n a st assms(2) ucast_le_bytes [of 4 v, where 'a = 32]
      by (simp add: PatchInstructionX86_def writes_bytes_def sizeof_word_def)
  next
    assume n: "n = 8"
    then show ?thesis using a st assms(3)
      by (simp add: PatchInstructionX86_def writes_bytes_def sizeof_word_def)
  qed
  have "take_bit (8 * unat n) v = v"
    using a by (simp only: word_eq_iff_unat unsigned_take_bit_eq) (simp add: take_bit_nat_eq_self)
  then show "le_word (le_bytes (unat n) v) = v" by (simp add: le_word_short)
next
  assume a: "asserts_on env \<and> (\<not> operand_size n \<or> e \<le> n \<or> 2 ^ (8 * unat n) \<le> unat v)"
  show "PatchInstructionX86 env w16 w32 w64 m e v n = Inl AssertFailed"
  proof (cases "n < e \<and> operand_size n")
    case True
    then have n: "n = 1 \<or> n = 2 \<or> n = 4 \<or> n = 8" by (simp add: operand_size_def)
    have big: "2 ^ (8 * unat n) \<le> unat v" and on: "asserts_on env" using a True by auto
    with n unat_less_exp [of v] have "n = 1 \<and> \<not> v \<le> 0xFF \<or> n = 2 \<and> \<not> v \<le> 0xFFFF \<or> n = 4 \<and> \<not> v \<le> 0xFFFFFFFF"
      by (elim disjE) (simp_all add: word_le_nat_alt)
    then show ?thesis
      using True by (elim disjE conjE) (simp_all add: PatchInstructionX86_def ASSERT_False [OF on])
  next
    case False
    have on: "asserts_on env" using a by blast
    show ?thesis
    proof (cases "n < e")
      case True
      with False have "\<not> operand_size n" by simp
      then show ?thesis by (simp add: PatchInstructionX86_def ASSERT_False [OF on] operand_size_def)
    next
      case late: False
      show ?thesis by (simp only: PatchInstructionX86_def late ASSERT_False [OF on])
    qed
  qed
qed

theorem patch_instruction_witness:
  "PatchInstructionX86 debug_env (\<lambda>m p v. store_bytes m p (le_bytes 2 v))
     (\<lambda>m p v. store_bytes m p (le_bytes 4 v)) (\<lambda>m p v. store_bytes m p (le_bytes 8 v))
     (sample_mem 16 [0xB8, 0, 0, 0, 0]) 21 0x12345678 4 =
     Inr (overlay (sample_mem 16 [0xB8, 0, 0, 0, 0]) 17 [0x78, 0x56, 0x34, 0x12])"
proof -
  have w: "writes_bytes (\<lambda>m p (v :: 16 word). store_bytes m p (le_bytes 2 v))"
    "writes_bytes (\<lambda>m p (v :: 32 word). store_bytes m p (le_bytes 4 v))"
    "writes_bytes (\<lambda>m p (v :: 64 word). store_bytes m p (le_bytes 8 v))"
    by (simp_all add: writes_bytes_def sizeof_word_def)
  have b: "buffer (sample_mem 16 [0xB8, 0, 0, 0, 0]) (21 - 4) (unat (4 :: UINTN))"
    using sample_buffer [of 16 "[0xB8, 0, 0, 0, 0]" 1 4] by simp
  have h: "operand_size 4 \<and> (4 :: UINTN) < 21 \<and> unat (0x12345678 :: UINT64) < 2 ^ (8 * unat (4 :: UINTN)) \<and>
      buffer (sample_mem 16 [0xB8, 0, 0, 0, 0]) (21 - 4) (unat (4 :: UINTN))"
    using b by (simp add: operand_size_def)
  have "unat (4 :: UINTN) = Suc (Suc (Suc (Suc 0)))" by simp
  then have "le_bytes (unat (4 :: UINTN)) (0x12345678 :: UINT64) = [0x78, 0x56, 0x34, 0x12]"
    by (simp only: le_bytes.simps) simp
  with patch_instruction [OF w, THEN conjunct1, THEN mp, OF h, THEN conjunct1, of debug_env]
  show ?thesis by simp
qed

end
