(* ===== verification/Module_Entry.thy ===== *)
theory Module_Entry imports Base_Types begin

text \<open>
  The module glue that the build generated for the application (\<open>AutoGen.c\<close>) and the
  application itself (\<open>HelloWorld.c\<close>). The library constructors, \<open>Print\<close> and the boot service
  \<open>Exit\<close> are firmware and library code outside the sources: they are arguments, and each
  takes and returns the state \<open>'s\<close> of the machine.
\<close>

section \<open>Definitions\<close>

type_synonym 's constructor = "UINTN \<Rightarrow> UINTN \<Rightarrow> 's \<Rightarrow> RETURN_STATUS \<times> 's"

text \<open>
  \<open>ASSERT_EFI_ERROR\<close>; the line it prints on the debug output before it asserts is not part
  of the state.
\<close>

definition ASSERT_EFI_ERROR :: "build_env \<Rightarrow> RETURN_STATUS \<Rightarrow> 'a res \<Rightarrow> 'a res" where
  "ASSERT_EFI_ERROR env StatusParameter k =
     (if DebugAssertEnabled env then
        if RETURN_ERROR StatusParameter then
          if DebugAssertStops env then Inl AssertFailed else k
        else k
      else k)"

definition ProcessLibraryConstructorList ::
  "build_env \<Rightarrow> 's constructor \<Rightarrow> 's constructor \<Rightarrow> 's constructor \<Rightarrow> UINTN \<Rightarrow> UINTN \<Rightarrow> 's \<Rightarrow> 's res" where
  "ProcessLibraryConstructorList env UefiBootServicesTableLibConstructor
       UefiRuntimeServicesTableLibConstructor UefiLibConstructor ImageHandle SystemTable s =
     (let (Status, s) = UefiBootServicesTableLibConstructor ImageHandle SystemTable s in
      ASSERT_EFI_ERROR env Status
     (let (Status, s) = UefiRuntimeServicesTableLibConstructor ImageHandle SystemTable s in
      ASSERT_EFI_ERROR env Status
     (let (Status, s) = UefiLibConstructor ImageHandle SystemTable s in
      ASSERT_EFI_ERROR env Status (Inr s))))"

definition ProcessLibraryDestructorList :: "UINTN \<Rightarrow> UINTN \<Rightarrow> 's \<Rightarrow> 's" where
  "ProcessLibraryDestructorList ImageHandle SystemTable s = s"

definition UefiMain :: "(string \<Rightarrow> 's \<Rightarrow> UINTN \<times> 's) \<Rightarrow> UINTN \<Rightarrow> UINTN \<Rightarrow> 's \<Rightarrow> RETURN_STATUS \<times> 's" where
  "UefiMain Print ImageHandle SystemTable s =
     (let (_, s) = Print (''Hello there fellow Programmer.'' @ [CHR 0x0A]) s;
          (_, s) = Print (''Welcome to the world of EDK II.'' @ [CHR 0x0A]) s
      in (0, s))"

definition ProcessModuleEntryPointList ::
  "(string \<Rightarrow> 's \<Rightarrow> UINTN \<times> 's) \<Rightarrow> UINTN \<Rightarrow> UINTN \<Rightarrow> 's \<Rightarrow> RETURN_STATUS \<times> 's" where
  "ProcessModuleEntryPointList Print ImageHandle SystemTable s = UefiMain Print ImageHandle SystemTable s"

definition ExitDriver ::
  "(UINTN \<Rightarrow> RETURN_STATUS \<Rightarrow> UINTN \<Rightarrow> UINTN \<Rightarrow> 's \<Rightarrow> 's) \<Rightarrow> UINTN \<Rightarrow> UINTN \<Rightarrow> RETURN_STATUS \<Rightarrow> 's \<Rightarrow> 's" where
  "ExitDriver Exit gImageHandle gST Status s =
     (let s = if RETURN_ERROR Status then ProcessLibraryDestructorList gImageHandle gST s else s
      in Exit gImageHandle Status 0 NULL s)"

definition ProcessModuleUnloadList :: "UINTN \<Rightarrow> 's \<Rightarrow> RETURN_STATUS \<times> 's" where
  "ProcessModuleUnloadList ImageHandle s = (RETURN_SUCCESS, s)"

text \<open>
  The program of \<open>CPkg/cmain.c\<close>, over the \<open>printf\<close> of the C library; its parameters are not used.
\<close>

definition main :: "(string \<Rightarrow> 's \<Rightarrow> int \<times> 's) \<Rightarrow> int \<Rightarrow> UINTN \<Rightarrow> 's \<Rightarrow> int \<times> 's" where
  "main printf argc argv s = (let (_, s) = printf (''HelloWorld'' @ [CHR 0x0A]) s in (0, s))"

lemma main_prints:
  "(\<And>text s. printf text s = (int (length text), s @ text)) \<Longrightarrow>
    main printf argc argv s = (0, s @ ''HelloWorld'' @ [CHR 0x0A])"
  by (simp add: main_def)

section \<open>Properties\<close>

text \<open>
  C40. The life of the module, with a console that appends what is printed: if the three
  constructors succeed, they run once each, in order, and the entry point then prints its
  two lines in order after what was printed before, returns a status that is no error, and
  that status reaches the boot service \<open>Exit\<close> with no exit data. In a build whose assertions
  stop, a constructor that fails stops the run, whatever the constructors after it are.
\<close>

theorem module_life:
  assumes "b h t s = (sb, s1)" "\<And>text s. Print text s = (of_nat (length text), s @ text)"
    and "\<not> RETURN_ERROR sb" "r h t s1 = (sr, s2)" "\<not> RETURN_ERROR sr"
    and "l h t s2 = (sl, s3)" "\<not> RETURN_ERROR sl"
  shows "ProcessLibraryConstructorList env b r l h t s = Inr s3 \<and>
    (\<exists>status. ProcessModuleEntryPointList Print h t s3 =
        (status, s3 @ ''Hello there fellow Programmer.'' @ [CHR 0x0A] @
          ''Welcome to the world of EDK II.'' @ [CHR 0x0A]) \<and> \<not> RETURN_ERROR status \<and>
      ExitDriver leave h t status s' = leave h RETURN_SUCCESS 0 NULL s') \<and>
    (asserts_on env \<and> RETURN_ERROR e \<longrightarrow>
      ProcessLibraryConstructorList env (\<lambda>h t s. (e, f s)) r' l' h t s = Inl AssertFailed \<and>
      ProcessLibraryConstructorList env b (\<lambda>h t s. (e, f s)) l' h t s = Inl AssertFailed \<and>
      ProcessLibraryConstructorList env b r (\<lambda>h t s. (e, f s)) h t s = Inl AssertFailed)"
proof (intro conjI impI)
  have z: "\<not> RETURN_ERROR 0" by (simp add: RETURN_ERROR_def)
  show "\<exists>status. ProcessModuleEntryPointList Print h t s3 =
        (status, s3 @ ''Hello there fellow Programmer.'' @ [CHR 0x0A] @
          ''Welcome to the world of EDK II.'' @ [CHR 0x0A]) \<and> \<not> RETURN_ERROR status \<and>
      ExitDriver leave h t status s' = leave h RETURN_SUCCESS 0 NULL s'"
    using z by (simp add: ProcessModuleEntryPointList_def UefiMain_def assms(2) ExitDriver_def
        RETURN_SUCCESS_def)
qed (use assms in \<open>auto simp: ProcessLibraryConstructorList_def ASSERT_EFI_ERROR_def asserts_on_def\<close>)

theorem module_life_witness:
  "ProcessLibraryConstructorList debug_env (\<lambda>h t s. (0, s @ ''b'')) (\<lambda>h t s. (0, s @ ''r''))
      (\<lambda>h t s. (0, s @ ''l'')) 1 2 [] = Inr ''brl'' \<and>
   ProcessLibraryConstructorList debug_env (\<lambda>h t s. (0, s @ ''b'')) (\<lambda>h t s. (RETURN_BUFFER_TOO_SMALL, s))
      (\<lambda>h t s. (0, s @ ''l'')) 1 2 [] = Inl AssertFailed"
proof -
  have z: "\<not> RETURN_ERROR 0" by (simp add: RETURN_ERROR_def)
  have e: "RETURN_ERROR RETURN_BUFFER_TOO_SMALL"
    by (simp add: RETURN_ERROR_def RETURN_BUFFER_TOO_SMALL_def ENCODE_ERROR_def MAX_BIT_def)
  note m = module_life [where b = "\<lambda>h t s. (0, s @ ''b'')" and r = "\<lambda>h t s. (0, s @ ''r'')"
      and l = "\<lambda>h t s. (0, s @ ''l'')" and h = 1 and t = 2 and s = "[]" and f = "\<lambda>s. s"
      and Print = "\<lambda>x s. (of_nat (length x), s @ x)" and env = debug_env
      and e = RETURN_BUFFER_TOO_SMALL and l' = "\<lambda>h t s. (0, s @ ''l'')" and r' = "\<lambda>h t s. (0, s)",
      OF refl refl z refl z refl z]
  show ?thesis
    using m [THEN conjunct1]
      m [THEN conjunct2, THEN conjunct2, THEN mp, OF conjI [OF debug_env_asserts e], THEN conjunct2,
        THEN conjunct1]
    by (simp only: append.simps simp_thms)
qed

end
