(* ===== verification/C_Layout.thy ===== *)
theory C_Layout imports Buffers begin

text \<open>
  The layout of C objects: sizes, alignments and member offsets of structures, unions, arrays
  and bit-fields as GCC lays them out for X64, with and without \<open>#pragma pack(1)\<close>, and the
  macros of \<open>Base.h\<close> and \<open>DebugLib.h\<close> that compute with them.
\<close>

section \<open>Types of C objects\<close>

text \<open>
  A scalar has its size as its alignment. \<open>Bits n fs\<close> is a run of bit-fields with these widths
  whose declared type has \<open>n\<close> bytes, allocated from the least significant bit on. Every run of
  the sources fills one unit of its type or a part of it, starts where the alignment of the
  type allows, and ends with a whole byte.
\<close>

datatype packing = Natural | Packed

datatype ctype =
    Scalar nat
  | Bits nat "(string \<times> nat) list"
  | Array nat ctype
  | Struct packing "(string \<times> ctype) list"
  | Union packing "(string \<times> ctype) list"

definition bits_size :: "(string \<times> nat) list \<Rightarrow> nat" where
  "bits_size fs = (sum_list (map snd fs) + 7) div 8"

definition round_up :: "nat \<Rightarrow> nat \<Rightarrow> nat" where
  "round_up n a = n + (a - n mod a) mod a"

fun align_of :: "ctype \<Rightarrow> nat" and align_fields :: "(string \<times> ctype) list \<Rightarrow> nat" where
  "align_of (Scalar n) = n"
| "align_of (Bits n fs) = n"
| "align_of (Array n t) = align_of t"
| "align_of (Struct p fs) = (if p = Packed then 1 else align_fields fs)"
| "align_of (Union p fs) = (if p = Packed then 1 else align_fields fs)"
| "align_fields [] = 1"
| "align_fields ((f, t) # fs) = max (align_of t) (align_fields fs)"

text \<open>Where a member goes when the members before it end at \<open>n\<close>.\<close>

definition place :: "packing \<Rightarrow> nat \<Rightarrow> ctype \<Rightarrow> nat" where
  "place p n t = (if p = Packed then n else round_up n (align_of t))"

fun sizeof_type :: "ctype \<Rightarrow> nat" and
  struct_end :: "packing \<Rightarrow> nat \<Rightarrow> (string \<times> ctype) list \<Rightarrow> nat" and
  union_end :: "(string \<times> ctype) list \<Rightarrow> nat" where
  "sizeof_type (Scalar n) = n"
| "sizeof_type (Bits n fs) = bits_size fs"
| "sizeof_type (Array n t) = n * sizeof_type t"
| "sizeof_type (Struct p fs) = round_up (struct_end p 0 fs) (align_of (Struct p fs))"
| "sizeof_type (Union p fs) = round_up (union_end fs) (align_of (Union p fs))"
| "struct_end p n [] = n"
| "struct_end p n ((f, t) # fs) = struct_end p (place p n t + sizeof_type t) fs"
| "union_end [] = 0"
| "union_end ((f, t) # fs) = max (sizeof_type t) (union_end fs)"

section \<open>Designators\<close>

text \<open>The steps of an lvalue: \<open>Dot f\<close> for \<open>.f\<close> and \<open>At i\<close> for \<open>[i]\<close>.\<close>

datatype step = Dot string | At nat

fun struct_field :: "packing \<Rightarrow> nat \<Rightarrow> (string \<times> ctype) list \<Rightarrow> string \<Rightarrow> (nat \<times> ctype) option" where
  "struct_field p n [] f = None"
| "struct_field p n ((g, t) # fs) f =
     (if g = f then Some (place p n t, t)
      else struct_field p (place p n t + sizeof_type t) fs f)"

fun inside :: "nat \<Rightarrow> (nat \<times> ctype) option \<Rightarrow> (nat \<times> ctype) option" where
  "inside n None = None"
| "inside n (Some (k, t)) = Some (n + k, t)"

text \<open>The offset and the type of the part of an object that a list of steps leads to.\<close>

fun locate :: "step list \<Rightarrow> ctype \<Rightarrow> (nat \<times> ctype) option" where
  "locate [] t = Some (0, t)"
| "locate (Dot f # ss) (Struct p fs) =
     (case struct_field p 0 fs f of None \<Rightarrow> None | Some (n, t) \<Rightarrow> inside n (locate ss t))"
| "locate (Dot f # ss) (Union p fs) =
     (case map_of fs f of None \<Rightarrow> None | Some t \<Rightarrow> locate ss t)"
| "locate (At i # ss) (Array n t) =
     (if i < n then inside (i * sizeof_type t) (locate ss t) else None)"
| "locate (s # ss) t = None"

text \<open>
  Two designators that part at a structure or an array: different members or different
  elements. Members of a union do not part.
\<close>

fun diverge :: "ctype \<Rightarrow> step list \<Rightarrow> step list \<Rightarrow> bool" where
  "diverge (Struct p fs) (Dot f # ss) (Dot g # rs) =
     (if f = g then (case map_of fs f of None \<Rightarrow> False | Some t \<Rightarrow> diverge t ss rs) else True)"
| "diverge (Union p fs) (Dot f # ss) (Dot g # rs) =
     (f = g \<and> (case map_of fs f of None \<Rightarrow> False | Some t \<Rightarrow> diverge t ss rs))"
| "diverge (Array n t) (At i # ss) (At j # rs) = (if i = j then diverge t ss rs else True)"
| "diverge t ss rs = False"

section \<open>Placement\<close>

lemma round_up_le: "n \<le> round_up n a"
  by (simp add: round_up_def)

lemma round_up_dvd: "0 < a \<Longrightarrow> a dvd round_up n a"
proof -
  assume a: "0 < a"
  have "round_up n a mod a = (n + (a - n mod a)) mod a"
    by (simp add: round_up_def mod_add_right_eq)
  also have "n + (a - n mod a) = a * (n div a) + a"
    using a by (metis add_diff_inverse_nat less_imp_le_nat mod_less_divisor mult_div_mod_eq
        add.assoc not_less)
  finally show ?thesis by (simp add: dvd_eq_mod_eq_0)
qed

lemma round_up_1 [simp]: "round_up n (Suc 0) = n"
  by (simp add: round_up_def)

lemma round_up_id: "a dvd n \<Longrightarrow> round_up n a = n"
  by (auto simp: round_up_def)

lemma round_up_least: "n \<le> m \<Longrightarrow> a dvd m \<Longrightarrow> round_up n a \<le> m"
proof (cases "a = 0 \<or> a dvd n")
  case False
  assume m: "n \<le> m" "a dvd m"
  then obtain k where k: "m = a * k" by blast
  have "n div a < k"
  proof (rule ccontr)
    assume "\<not> n div a < k"
    then have "a * k \<le> a * (n div a)" by simp
    also have "\<dots> < n" using False mult_div_mod_eq [of a n]
      by (metis dvd_eq_mod_eq_0 less_add_same_cancel1 neq0_conv)
    finally show False using m k by simp
  qed
  then have s: "a * Suc (n div a) \<le> m" unfolding k by (intro mult_le_mono2) simp
  have m: "n mod a < a" "0 < n mod a" using False by (auto simp: dvd_eq_mod_eq_0)
  then have "round_up n a = n + (a - n mod a)" by (simp add: round_up_def)
  moreover have "n = a * (n div a) + n mod a" by simp
  ultimately have "round_up n a = a * Suc (n div a)"
    using m by (simp only: mult_Suc_right)
  with s show ?thesis by simp
qed (auto simp: round_up_def round_up_id)

lemma place_le: "n \<le> place p n t"
  by (simp add: place_def round_up_le)

lemma struct_end_le: "n \<le> struct_end p n fs"
proof (induction fs arbitrary: n)
  case (Cons a fs)
  obtain f t where a: "a = (f, t)" by (cases a)
  show ?case using Cons [of "place p n t + sizeof_type t"] place_le [of n p t] by (simp add: a)
qed simp

lemma struct_field_bounds:
  "struct_field p n fs f = Some (k, t) \<Longrightarrow> n \<le> k \<and> k + sizeof_type t \<le> struct_end p n fs"
proof (induction fs arbitrary: n)
  case (Cons a fs)
  obtain g u where a: "a = (g, u)" by (cases a)
  show ?case
    using Cons.IH [of "place p n u + sizeof_type u"] Cons.prems place_le [of n p u]
      struct_end_le [of "place p n u + sizeof_type u" p fs]
    by (auto simp: a split: if_splits)
qed simp

lemma struct_field_map_of: "map_of fs f = map_option snd (struct_field p n fs f)"
  by (induction fs arbitrary: n) auto

lemma struct_fields_apart:
  assumes "struct_field p n fs f = Some (k, t)" "struct_field p n fs g = Some (l, u)" "f \<noteq> g"
  shows "k + sizeof_type t \<le> l \<or> l + sizeof_type u \<le> k"
  using assms
proof (induction fs arbitrary: n)
  case (Cons a fs)
  obtain h v where a: "a = (h, v)" by (cases a)
  show ?case
    using Cons struct_field_bounds [of p "place p n v + sizeof_type v" fs] by (auto simp: a split: if_splits)
qed simp

lemma union_member_fits: "map_of fs f = Some t \<Longrightarrow> sizeof_type t \<le> union_end fs"
  by (induction fs) (auto split: if_splits intro: le_max_iff_disj [THEN iffD2])

lemma inside_Some: "inside n x = Some (k, t) \<longleftrightarrow> (\<exists>j. x = Some (j, t) \<and> k = n + j)"
  by (cases x) auto

lemma locate_bounds: "locate ss t = Some (n, u) \<Longrightarrow> n + sizeof_type u \<le> sizeof_type t"
proof (induction ss t arbitrary: n rule: locate.induct)
  case (2 f ss p fs)
  then obtain k v j where v: "struct_field p 0 fs f = Some (k, v)" "locate ss v = Some (j, u)" "n = k + j"
    by (auto simp: inside_Some split: option.splits)
  then show ?case
    using 2(1) [OF v(1) refl v(2)] struct_field_bounds [OF v(1)]
      round_up_le [of "struct_end p 0 fs" "align_of (Struct p fs)"] by simp
next
  case (3 f ss p fs)
  then obtain v where v: "map_of fs f = Some v" "locate ss v = Some (n, u)"
    by (auto split: option.splits)
  then show ?case
    using 3(1) [OF v] union_member_fits [OF v(1)] round_up_le [of "union_end fs" "align_of (Union p fs)"]
    by simp
next
  case (4 i ss k t)
  then obtain j where j: "i < k" "locate ss t = Some (j, u)" "n = i * sizeof_type t + j"
    by (auto simp: inside_Some split: if_splits)
  then have "n + sizeof_type u \<le> Suc i * sizeof_type t" using 4(1) [OF j(1,2)] by simp
  also have "\<dots> \<le> k * sizeof_type t" using j(1) by (intro mult_le_mono1) simp
  finally show ?case by simp
qed simp_all

lemma locate_apart:
  assumes "diverge t ss rs" "locate ss t = Some (n, u)" "locate rs t = Some (k, v)"
  shows "n + sizeof_type u \<le> k \<or> k + sizeof_type v \<le> n"
  using assms
proof (induction t ss rs arbitrary: n k rule: diverge.induct)
  case (1 p fs f ss g rs)
  then obtain a x i where x: "struct_field p 0 fs f = Some (a, x)" "locate ss x = Some (i, u)" "n = a + i"
    by (auto simp: inside_Some split: option.splits)
  from 1 obtain b y j where y: "struct_field p 0 fs g = Some (b, y)" "locate rs y = Some (j, v)" "k = b + j"
    by (auto simp: inside_Some split: option.splits)
  show ?case
  proof (cases "f = g")
    case True
    then have xy: "a = b" "x = y" using x y by simp_all
    have m: "map_of fs f = Some x" using struct_field_map_of [of fs f p 0] x by simp
    have "diverge x ss rs" using 1(2) True m by simp
    from 1(1) [OF True m this x(2)] y(2) xy show ?thesis by (simp add: x(3) y(3))
  next
    case False
    then show ?thesis
      using struct_fields_apart [OF x(1) y(1)] locate_bounds [OF x(2)] locate_bounds [OF y(2)]
      by (auto simp: x(3) y(3))
  qed
next
  case (2 p fs f ss g rs)
  then show ?case by (auto split: option.splits)
next
  case (3 m t i ss j rs)
  then obtain a where a: "locate ss t = Some (a, u)" "n = i * sizeof_type t + a"
    by (auto simp: inside_Some split: if_splits)
  from 3 obtain b where b: "locate rs t = Some (b, v)" "k = j * sizeof_type t + b"
    by (auto simp: inside_Some split: if_splits)
  show ?case
  proof (cases "i = j")
    case True
    then show ?thesis using 3(1) [OF True _ a(1) b(1)] 3(2) a b by auto
  next
    case False
    then have "Suc i * sizeof_type t \<le> j * sizeof_type t \<or> Suc j * sizeof_type t \<le> i * sizeof_type t"
      by (metis Suc_leI mult_le_mono1 neqE)
    then show ?thesis using locate_bounds [OF a(1)] locate_bounds [OF b(1)] a(2) b(2) by auto
  qed
qed simp_all

section \<open>Alignment\<close>

text \<open>Types with machine-sized scalars, full bit-field units and without \<open>#pragma pack\<close> anywhere inside.\<close>

definition machine_size :: "nat \<Rightarrow> bool" where
  "machine_size n \<longleftrightarrow> n = 1 \<or> n = 2 \<or> n = 4 \<or> n = 8"

fun natural :: "ctype \<Rightarrow> bool" and natural_fields :: "(string \<times> ctype) list \<Rightarrow> bool" where
  "natural (Scalar n) \<longleftrightarrow> machine_size n"
| "natural (Bits n fs) \<longleftrightarrow> machine_size n \<and> bits_size fs = n"
| "natural (Array n t) \<longleftrightarrow> natural t"
| "natural (Struct p fs) \<longleftrightarrow> p = Natural \<and> natural_fields fs"
| "natural (Union p fs) \<longleftrightarrow> p = Natural \<and> natural_fields fs"
| "natural_fields [] \<longleftrightarrow> True"
| "natural_fields ((f, t) # fs) \<longleftrightarrow> natural t \<and> natural_fields fs"

lemma machine_size_pos: "machine_size n \<Longrightarrow> 0 < n"
  by (auto simp: machine_size_def)

lemma machine_size_max: "machine_size m \<Longrightarrow> machine_size n \<Longrightarrow>
    machine_size (max m n) \<and> m dvd max m n \<and> n dvd max m n"
  by (auto simp: machine_size_def)

lemma natural_align:
  "natural t \<Longrightarrow> machine_size (align_of t)"
  "natural_fields fs \<Longrightarrow> machine_size (align_fields fs)"
  by (induction t and fs rule: natural_natural_fields.induct)
    (simp_all add: machine_size_max, simp add: machine_size_def)

lemma natural_field_align:
  "natural_fields fs \<Longrightarrow> map_of fs f = Some t \<Longrightarrow> natural t \<and> align_of t dvd align_fields fs"
proof (induction fs)
  case (Cons a fs)
  obtain g u where a: "a = (g, u)" by (cases a)
  have "align_of u dvd align_fields (a # fs)" "align_fields fs dvd align_fields (a # fs)"
    using Cons.prems(1) machine_size_max [OF natural_align] by (auto simp: a)
  then show ?case using Cons by (auto simp: a split: if_splits intro: dvd_trans)
qed simp

lemma natural_sizeof: "natural t \<Longrightarrow> align_of t dvd sizeof_type t"
proof (induction t)
  case (Struct p fs)
  then show ?case
    using round_up_dvd [of "align_fields fs"] machine_size_pos [OF natural_align(2)] by simp
next
  case (Union p fs)
  then show ?case
    using round_up_dvd [of "align_fields fs"] machine_size_pos [OF natural_align(2)] by simp
qed simp_all

lemma struct_field_aligned:
  "natural_fields fs \<Longrightarrow> struct_field Natural n fs f = Some (k, t) \<Longrightarrow> align_of t dvd k"
proof (induction fs arbitrary: n)
  case (Cons a fs)
  obtain g u where a: "a = (g, u)" by (cases a)
  show ?case
  proof (cases "g = f")
    case True
    then show ?thesis
      using Cons.prems round_up_dvd [of "align_of u" n] machine_size_pos [OF natural_align(1)]
      by (auto simp: a place_def)
  next
    case False
    then show ?thesis using Cons by (simp add: a)
  qed
qed simp

lemma locate_aligned:
  "natural t \<Longrightarrow> locate ss t = Some (n, u) \<Longrightarrow> natural u \<and> align_of u dvd n \<and> align_of u dvd align_of t"
proof (induction ss t arbitrary: n rule: locate.induct)
  case (2 f ss p fs)
  then obtain k v j where v: "struct_field p 0 fs f = Some (k, v)" "locate ss v = Some (j, u)" "n = k + j"
    by (auto simp: inside_Some split: option.splits)
  then have "map_of fs f = Some v" using struct_field_map_of [of fs f p 0] by simp
  then have m: "natural v" "align_of v dvd align_fields fs"
    using natural_field_align [of fs f v] 2(2) by simp_all
  have "align_of v dvd k" using struct_field_aligned [of fs 0 f k v] 2(2) v(1) by simp
  then show ?case using 2(1) [OF v(1) refl m(1) v(2)] m 2(2) v(3) by (auto intro: dvd_trans)
next
  case (3 f ss p fs)
  then obtain v where v: "map_of fs f = Some v" "locate ss v = Some (n, u)"
    by (auto split: option.splits)
  then have m: "natural v" "align_of v dvd align_fields fs"
    using natural_field_align [of fs f v] 3(2) by simp_all
  show ?case using 3(1) [OF v(1) m(1) v(2)] m 3(2) by (auto intro: dvd_trans)
next
  case (4 i ss k t)
  then obtain j where j: "i < k" "locate ss t = Some (j, u)" "n = i * sizeof_type t + j"
    by (auto simp: inside_Some split: if_splits)
  have "align_of u dvd sizeof_type t"
    using 4(1) [OF j(1) _ j(2)] natural_sizeof [of t] 4(2) by (auto intro: dvd_trans)
  then show ?case using 4(1) [OF j(1) _ j(2)] 4(2) by (simp add: j(3))
qed simp_all

section \<open>Padding\<close>

text \<open>The bytes of an object that belong to its scalars; of a union, those of its longest member.\<close>

fun payload :: "ctype \<Rightarrow> nat" and payload_fields :: "(string \<times> ctype) list \<Rightarrow> nat" and
  longest_payload :: "(string \<times> ctype) list \<Rightarrow> nat" where
  "payload (Scalar n) = n"
| "payload (Bits n fs) = bits_size fs"
| "payload (Array n t) = n * payload t"
| "payload (Struct p fs) = payload_fields fs"
| "payload (Union p fs) = longest_payload fs"
| "payload_fields [] = 0"
| "payload_fields ((f, t) # fs) = payload t + payload_fields fs"
| "longest_payload [] = 0"
| "longest_payload ((f, t) # fs) = max (payload t) (longest_payload fs)"

fun packed :: "ctype \<Rightarrow> bool" and packed_fields :: "(string \<times> ctype) list \<Rightarrow> bool" where
  "packed (Scalar n) \<longleftrightarrow> True"
| "packed (Bits n fs) \<longleftrightarrow> True"
| "packed (Array n t) \<longleftrightarrow> packed t"
| "packed (Struct p fs) \<longleftrightarrow> p = Packed \<and> packed_fields fs"
| "packed (Union p fs) \<longleftrightarrow> p = Packed \<and> packed_fields fs"
| "packed_fields [] \<longleftrightarrow> True"
| "packed_fields ((f, t) # fs) \<longleftrightarrow> packed t \<and> packed_fields fs"

lemma packed_payload:
  "packed t \<Longrightarrow> sizeof_type t = payload t"
  "packed_fields fs \<Longrightarrow> struct_end Packed n fs = n + payload_fields fs \<and> union_end fs = longest_payload fs"
  by (induction t and fs arbitrary: and n rule: packed_packed_fields.induct)
    (simp_all add: place_def)

end
