(* ===== verification/Object_Access.thy ===== *)
theory Object_Access imports C_Layout begin

text \<open>
  Members of objects in memory: assignment through a pointer, what it changes, how parts of a
  stored value are read through another view of the same bytes, and the macros \<open>OFFSET_OF\<close>,
  \<open>BASE_CR\<close> (\<open>Base.h\<close>) and \<open>CR\<close> (\<open>DebugLib.h\<close>) that get from a member to its record.
\<close>

section \<open>Definitions\<close>

text \<open>\<open>*p = v\<close> for a pointer to objects of the type of \<open>v\<close>.\<close>

definition store :: "mem \<Rightarrow> UINTN \<Rightarrow> 'a::len word \<Rightarrow> mem res" where
  "store m p v = store_bytes m p (le_bytes (sizeof_word v) v)"

text \<open>\<open>None\<close> where the macro does not compile: the type has no such member.\<close>

definition OFFSET_OF :: "ctype \<Rightarrow> string \<Rightarrow> UINTN option" where
  "OFFSET_OF Type Member = map_option (\<lambda>(n, t). of_nat n) (locate [Dot Member] Type)"

definition BASE_CR :: "UINTN \<Rightarrow> ctype \<Rightarrow> string \<Rightarrow> UINTN option" where
  "BASE_CR Record Type Member = map_option (\<lambda>n. Record - n) (OFFSET_OF Type Member)"

text \<open>
  The member \<open>Signature\<close> of the record has the type of \<open>TestSignature\<close>.
\<close>

definition CR ::
  "build_env \<Rightarrow> mem \<Rightarrow> UINTN \<Rightarrow> ctype \<Rightarrow> string \<Rightarrow> 'a::len word \<Rightarrow> UINTN res option" where
  "CR env m Record Type Member TestSignature =
     (case (BASE_CR Record Type Member, OFFSET_OF Type ''Signature'') of
        (Some p, Some n) \<Rightarrow>
          Some (if DebugAssertEnabled env then
                  bindr (load m (p + n)) (\<lambda>Signature.
                    if Signature \<noteq> TestSignature then
                      if DebugAssertStops env then Inl AssertFailed else Inr Record
                    else Inr p)
                else Inr p)
      | _ \<Rightarrow> None)"

section \<open>Parts of a buffer\<close>

lemma buffer_part: "buffer m a N \<Longrightarrow> n + k \<le> N \<Longrightarrow> buffer m (a + of_nat n) k"
  unfolding buffer_def
proof (intro conjI allI impI)
  fix i assume b: "N \<le> 2 ^ 64 \<and> (\<forall>i<N. a + of_nat i \<noteq> NULL \<and> m (a + of_nat i) \<noteq> None)"
    and i: "i < k" and n: "n + k \<le> N"
  have "a + of_nat n + of_nat i = a + of_nat (n + i)" by simp
  with b i n show "a + of_nat n + of_nat i \<noteq> NULL" "m (a + of_nat n + of_nat i) \<noteq> None"
    by (metis add_less_cancel_left less_le_trans)+
qed linarith

lemma buffer_bytes: "buffer m d k \<Longrightarrow> \<exists>bs. length bs = k \<and> bytes_at m d bs"
proof -
  assume "buffer m d k"
  then have "bytes_at m d (List.map (\<lambda>i. the (m (d + of_nat i))) [0..<k])"
    by (auto simp: bytes_at_nth buffer_def)
  then show ?thesis by (intro exI conjI) auto
qed

lemma part_index:
  assumes "N \<le> 2 ^ 64" "n < N" "k < N"
  shows "unat ((a + of_nat k) - (a + of_nat n) :: UINTN) = (if n \<le> k then k - n else k + 2 ^ 64 - n)"
proof -
  have "(a + of_nat k) - (a + of_nat n) = (of_nat k - of_nat n :: UINTN)" by simp
  moreover have "unat (of_nat k :: UINTN) = k" "unat (of_nat n :: UINTN) = n"
    using assms by (simp_all add: unat_index)
  ultimately show ?thesis by (simp add: unat_sub_if' word_le_nat_alt)
qed

lemma parts_apart:
  assumes "N \<le> 2 ^ 64" "n + i \<le> N" "k + j \<le> N" "n + i \<le> k \<or> k + j \<le> n"
  shows "apart (a + of_nat k) j (a + of_nat n) i"
  unfolding apart_def
proof (intro allI impI)
  fix l assume l: "l < j"
  show "i \<le> unat (a + of_nat k + of_nat l - (a + of_nat n))"
  proof (cases "n < N")
    case True
    have "unat (a + of_nat (k + l) - (a + of_nat n)) = (if n \<le> k + l then k + l - n else k + l + 2 ^ 64 - n)"
      using assms l True by (intro part_index [of N]) linarith+
    then show ?thesis using assms l by (auto simp: add.assoc split: if_splits)
  next
    case False
    then show ?thesis using assms by simp
  qed
qed

lemma load_bytes_cong:
  "(\<And>i. i < n \<Longrightarrow> load_byte m (a + of_nat i) = load_byte m' (a + of_nat i)) \<Longrightarrow>
   load_bytes m a n = load_bytes m' a n"
proof (induction n arbitrary: a)
  case (Suc n)
  have "load_byte m a = load_byte m' a" using Suc.prems [of 0] by simp
  moreover have "load_bytes m (a + 1) n = load_bytes m' (a + 1) n"
    using Suc.prems [of "Suc _"] by (intro Suc.IH) (simp add: add.assoc)
  ultimately show ?case by simp
qed simp

lemma load_bytes_apart:
  "apart a n d k \<Longrightarrow> length bs \<le> k \<Longrightarrow> load_bytes (overlay m d bs) a n = load_bytes m a n"
  by (rule load_bytes_cong) (rule load_overlay)

lemma store_part:
  "buffer m a N \<Longrightarrow> n + sizeof_word v \<le> N \<Longrightarrow>
   store m (a + of_nat n) v = Inr (overlay m (a + of_nat n) (le_bytes (sizeof_word v) v))"
  unfolding store_def
  by (rule store_bytes_buffer [of _ _ "sizeof_word v"]) (auto intro: buffer_part)

section \<open>Views of a stored value\<close>

lemma drop_le_bytes: "j \<le> n \<Longrightarrow> drop j (le_bytes n w) = le_bytes (n - j) (drop_bit (8 * j) w)"
proof (induction n arbitrary: j w)
  case (Suc n)
  then show ?case
    by (cases j) (simp_all add: drop_bit_drop_bit add.commute)
qed simp

lemma take_le_bytes: "k \<le> n \<Longrightarrow> take k (le_bytes n w) = le_bytes k w"
proof (induction n arbitrary: k w)
  case (Suc n)
  then show ?case by (cases k) simp_all
qed simp

lemma le_bytes_4:
  "le_bytes 4 v = [ucast v, ucast (drop_bit 8 v), ucast (drop_bit 16 v), ucast (drop_bit 24 v)]"
proof -
  have "(4 :: nat) = Suc (Suc (Suc (Suc 0)))" by simp
  then show ?thesis by (simp only: le_bytes.simps drop_bit_drop_bit) simp
qed

lemma le_bytes_8:
  "le_bytes 8 v = [ucast v, ucast (drop_bit 8 v), ucast (drop_bit 16 v), ucast (drop_bit 24 v),
     ucast (drop_bit 32 v), ucast (drop_bit 40 v), ucast (drop_bit 48 v), ucast (drop_bit 56 v)]"
proof -
  have "le_bytes 8 v = take 4 (le_bytes 8 v) @ drop 4 (le_bytes 8 v)" by simp
  then show ?thesis by (simp add: take_le_bytes drop_le_bytes le_bytes_4 drop_bit_drop_bit)
qed

lemma le_bytes_cong:
  "(\<And>n. n < 8 * k \<Longrightarrow> bit y n = bit z n) \<Longrightarrow> le_bytes k y = le_bytes k z"
  for y :: "'a::len word" and z :: "'b::len word"
proof (induction k arbitrary: y z)
  case (Suc k)
  have "(ucast y :: UINT8) = ucast z"
    using Suc.prems by (intro bit_word_eqI) (auto simp: bit_simps)
  moreover have "bit (drop_bit 8 y) n = bit (drop_bit 8 z) n" if "n < 8 * k" for n
    using Suc.prems [of "8 + n"] that by (simp add: bit_simps)
  ultimately show ?case using Suc.IH [of "drop_bit 8 y" "drop_bit 8 z"] by simp
qed simp

lemma le_word_narrow: "le_word (le_bytes n w) = (take_bit (8 * n) (ucast w) :: 'b::len word)"
  for w :: "'a::len word"
proof (induction n arbitrary: w)
  case (Suc n)
  have "ucast (ucast w :: UINT8) OR push_bit 8 (take_bit (8 * n) (ucast (drop_bit 8 w))) =
      (take_bit (8 * Suc n) (ucast w) :: 'b word)"
    by (rule bit_word_eqI) (auto simp: bit_simps dest: bit_imp_le_length)
  with Suc show ?case by simp
qed simp

text \<open>The bytes from \<open>j\<close> on of a stored value, read as a value of another width.\<close>

lemma load_view:
  fixes w :: "'a::len word"
  assumes "bytes_at m d (le_bytes n w)" "j + sizeof_word (0 :: 'b::len word) \<le> n"
  shows "load m (d + of_nat j) = Inr (take_bit (8 * sizeof_word (0 :: 'b word)) (ucast (drop_bit (8 * j) w)) :: 'b word)"
proof -
  let ?s = "sizeof_word (0 :: 'b word)"
  have "le_bytes n w = take j (le_bytes n w) @ drop j (le_bytes n w)" by simp
  then have "bytes_at m (d + of_nat j) (drop j (le_bytes n w))"
    using assms bytes_at_append [of m d "take j (le_bytes n w)" "drop j (le_bytes n w)"] by simp
  then have "bytes_at m (d + of_nat j) (le_bytes (n - j) (drop_bit (8 * j) w))"
    using assms(2) by (simp add: drop_le_bytes)
  moreover have "le_bytes (n - j) (drop_bit (8 * j) w) =
      le_bytes ?s (drop_bit (8 * j) w) @ drop ?s (le_bytes (n - j) (drop_bit (8 * j) w))"
    using assms(2) append_take_drop_id [of ?s "le_bytes (n - j) (drop_bit (8 * j) w)"]
    by (simp add: take_le_bytes)
  ultimately have "bytes_at m (d + of_nat j) (le_bytes ?s (drop_bit (8 * j) w))"
    using bytes_at_append by metis
  then have "load m (d + of_nat j) = Inr (le_word (le_bytes ?s (drop_bit (8 * j) w)) :: 'b word)"
    by (rule load_at) simp
  then show ?thesis by (simp only: le_word_narrow)
qed

section \<open>Properties\<close>

lemma part_apart:
  assumes "apart b j a N" "n + i \<le> N" "N \<le> 2 ^ 64"
  shows "apart b j (a + of_nat n) i"
  unfolding apart_def
proof (intro allI impI)
  fix l assume "l < j"
  then have x: "n + i \<le> unat (b + of_nat l - a)" using assms by (auto simp: apart_def)
  show "i \<le> unat (b + of_nat l - (a + of_nat n))"
  proof (cases "n < N")
    case True
    have n: "unat (of_nat n :: UINTN) = n" using True assms(3) by (intro unat_index) simp
    have "b + of_nat l - (a + of_nat n) = (b + of_nat l - a) - of_nat n" by simp
    moreover have "(of_nat n :: UINTN) \<le> b + of_nat l - a"
      using x n by (simp add: word_le_nat_alt)
    ultimately have "unat (b + of_nat l - (a + of_nat n)) = unat (b + of_nat l - a) - n"
      using n by (simp only: unat_sub)
    then show ?thesis using x by simp
  next
    case False
    then show ?thesis using assms(2) by simp
  qed
qed

lemma assign_member:
  assumes "buffer m a (sizeof_type T)" "locate ss T = Some (n, u)" "sizeof_type u = sizeof_word v"
  shows "\<exists>m'. store m (a + of_nat n) v = Inr m' \<and> load m' (a + of_nat n) = Inr v \<and>
    buffer m' a (sizeof_type T) \<and>
    (\<forall>rs k w. diverge T ss rs \<and> locate rs T = Some (k, w) \<longrightarrow>
      load_bytes m' (a + of_nat k) (sizeof_type w) = load_bytes m (a + of_nat k) (sizeof_type w)) \<and>
    (\<forall>b j. apart b j a (sizeof_type T) \<longrightarrow> load_bytes m' b j = load_bytes m b j)"
proof -
  let ?d = "a + of_nat n" and ?bs = "le_bytes (sizeof_word v) v"
  have N: "sizeof_type T \<le> 2 ^ 64" using assms(1) by (simp add: buffer_def)
  have n: "n + sizeof_word v \<le> sizeof_type T" using locate_bounds [OF assms(2)] assms(3) by simp
  have "load_bytes (overlay m ?d ?bs) (a + of_nat k) (sizeof_type w) = load_bytes m (a + of_nat k) (sizeof_type w)"
    if "diverge T ss rs" "locate rs T = Some (k, w)" for rs k w
    using locate_apart [OF that(1) assms(2) that(2)] locate_bounds [OF that(2)] assms(3)
    by (intro load_bytes_apart [OF parts_apart [OF N n]]) auto
  moreover have "load_bytes (overlay m ?d ?bs) b j = load_bytes m b j" if "apart b j a (sizeof_type T)" for b j
    by (rule load_bytes_apart [OF part_apart [OF that n N]]) simp
  ultimately show ?thesis
    using store_part [OF assms(1) n] load_stored [OF buffer_part [OF assms(1) n], of v]
      buffer_overlay [OF assms(1)] by auto
qed

text \<open>
  Assignment to a member of an object: for every C type and every lvalue into it, the
  store succeeds and the member reads back as the value; every part of the object that the
  lvalue does not share, through any nesting of structures and arrays, keeps its bytes, and
  so does all memory outside the object.
\<close>

theorem member_assignment:
  assumes "buffer m a (sizeof_type T)" "locate ss T = Some (n, u)" "sizeof_type u = sizeof_word v"
  shows "\<exists>m'. store m (a + of_nat n) v = Inr m' \<and> load m' (a + of_nat n) = Inr v \<and>
    buffer m' a (sizeof_type T) \<and>
    (\<forall>rs k w. diverge T ss rs \<and> locate rs T = Some (k, w) \<longrightarrow>
      load_bytes m' (a + of_nat k) (sizeof_type w) = load_bytes m (a + of_nat k) (sizeof_type w)) \<and>
    (\<forall>b j. apart b j a (sizeof_type T) \<longrightarrow> load_bytes m' b j = load_bytes m b j)"
  using assms by (rule assign_member)

definition sample_type :: ctype where
  "sample_type = Struct Natural
     [(''Tag'', Scalar 1), (''Items'', Array 3 (Struct Packed [(''Kind'', Scalar 1), (''Size'', Scalar 4)]))]"

lemma sample_locate:
  "sizeof_type sample_type = 16"
  "locate [Dot ''Items'', At 1, Dot ''Size''] sample_type = Some (7, Scalar 4)"
  "locate [Dot ''Items'', At 1, Dot ''Kind''] sample_type = Some (6, Scalar 1)"
  "diverge sample_type [Dot ''Items'', At 1, Dot ''Size''] [Dot ''Items'', At 1, Dot ''Kind'']"
  by (simp_all add: sample_type_def place_def round_up_def)

theorem member_assignment_witness:
  "\<exists>m'. store (sample_mem 64 (replicate 16 9)) (64 + of_nat 7) (0x12345678 :: UINT32) = Inr m' \<and>
    load m' 71 = Inr (0x12345678 :: UINT32) \<and>
    load_bytes m' (64 + of_nat 6) 1 = load_bytes (sample_mem 64 (replicate 16 9)) (64 + of_nat 6) 1"
proof -
  have b: "buffer (sample_mem 64 (replicate 16 9)) 64 (sizeof_type sample_type)"
    using sample_buffer [of 64 "replicate 16 9" 0 16] by (simp add: sample_locate)
  have "sizeof_type (Scalar 4) = sizeof_word (0x12345678 :: UINT32)" by (simp add: sizeof_word_def)
  from member_assignment [OF b sample_locate(2) this] show ?thesis
    using sample_locate(3,4) by fastforce
qed

lemma OFFSET_OF_Some:
  "OFFSET_OF t f = Some e \<longleftrightarrow> (\<exists>n u. locate [Dot f] t = Some (n, u) \<and> e = of_nat n)"
  by (auto simp: OFFSET_OF_def simp del: locate.simps)

lemma struct_field_after:
  "f \<notin> fst ` set xs \<Longrightarrow> struct_field p n (xs @ (f, u) # ys) f = Some (place p (struct_end p n xs) u, u)"
proof (induction xs arbitrary: n)
  case (Cons x xs)
  then show ?case by (cases x) auto
qed simp

lemma struct_end_snoc: "struct_end p n (xs @ [(g, w)]) = place p (struct_end p n xs) w + sizeof_type w"
proof (induction xs arbitrary: n)
  case (Cons x xs)
  then show ?case by (cases x) simp
qed simp

lemma place_least:
  assumes "0 < align_of u"
  shows "align_of u dvd place Natural n u" "n \<le> place Natural n u" "place Natural n u < n + align_of u"
  using assms round_up_dvd [OF assms, of n] round_up_le [of n "align_of u"]
  by (simp_all add: place_def) (simp add: round_up_def)

text \<open>
  Where a member lies: the first at offset 0; in a packed structure each at once behind the one before it; in
  one without \<open>#pragma pack\<close> at the first multiple of its alignment behind the one before it.
\<close>

lemma member_offset:
  assumes "locate [Dot f] (Struct p (xs @ (f, u) # ys)) = Some (n, t)" "f \<notin> fst ` set xs"
  shows "(xs = [] \<longrightarrow> n = 0) \<and>
    (\<forall>zs g w k v. xs = zs @ [(g, w)] \<and> g \<notin> fst ` set zs \<and>
        locate [Dot g] (Struct p (xs @ (f, u) # ys)) = Some (k, v) \<longrightarrow>
      k + sizeof_type w \<le> n \<and> (p = Packed \<longrightarrow> n = k + sizeof_type w) \<and>
      (p = Natural \<and> 0 < align_of u \<longrightarrow> align_of u dvd n \<and> n < k + sizeof_type w + align_of u))"
proof -
  have n: "n = place p (struct_end p 0 xs) u"
    using assms(1) struct_field_after [OF assms(2), of p 0 u ys] by auto
  moreover have "place p 0 u = 0" by (simp add: place_def round_up_id)
  moreover have "k + sizeof_type w \<le> n \<and> (p = Packed \<longrightarrow> n = k + sizeof_type w) \<and>
      (p = Natural \<and> 0 < align_of u \<longrightarrow> align_of u dvd n \<and> n < k + sizeof_type w + align_of u)"
    if xs: "xs = zs @ [(g, w)]" "g \<notin> fst ` set zs"
      and l: "locate [Dot g] (Struct p (xs @ (f, u) # ys)) = Some (k, v)" for zs g w k v
  proof -
    have "k = place p (struct_end p 0 zs) w"
      using l struct_field_after [OF xs(2), of p 0 w "(f, u) # ys"] by (auto simp: xs(1))
    then have e: "n = place p (k + sizeof_type w) u" using n by (simp add: xs(1) struct_end_snoc)
    show ?thesis
      using place_least [of u "k + sizeof_type w"] place_le [of "k + sizeof_type w" p u]
      by (auto simp: e) (simp add: place_def)
  qed
  ultimately show ?thesis by auto
qed

text \<open>
  C8. Offsets name the members: in a structure, \<open>OFFSET_OF\<close> of the first member is 0; with \<open>#pragma pack(1)\<close>
  that of any other is the end of the member before it, and without it the first multiple of the member's
  alignment from there on. A store to a member at this offset reads back as the
  value, \<open>BASE_CR\<close> gets from that address to the structure again, and the store leaves the bytes at the
  offset of every other member unchanged, as it does all memory outside the object.
\<close>

theorem offset_of_member:
  assumes "buffer m a (sizeof_type (Struct p fs))" "OFFSET_OF (Struct p fs) f = Some d"
    and "map_of fs f = Some u" "sizeof_type u = sizeof_word v"
    and "fs = xs @ (f, u) # ys" "f \<notin> fst ` set xs"
  shows "(xs = [] \<longrightarrow> d = 0) \<and>
    (\<forall>zs g w e. xs = zs @ [(g, w)] \<and> g \<notin> fst ` set zs \<and> OFFSET_OF (Struct p fs) g = Some e \<longrightarrow>
      unat e + sizeof_type w \<le> unat d \<and> (p = Packed \<longrightarrow> unat d = unat e + sizeof_type w) \<and>
      (p = Natural \<and> 0 < align_of u \<longrightarrow>
        align_of u dvd unat d \<and> unat d < unat e + sizeof_type w + align_of u)) \<and>
    (\<exists>m'. store m (a + d) v = Inr m' \<and> load m' (a + d) = Inr v \<and>
      buffer m' a (sizeof_type (Struct p fs)) \<and>
      BASE_CR (a + d) (Struct p fs) f = Some a \<and>
      (\<forall>g e w. g \<noteq> f \<and> OFFSET_OF (Struct p fs) g = Some e \<and> map_of fs g = Some w \<longrightarrow>
        load_bytes m' (a + e) (sizeof_type w) = load_bytes m (a + e) (sizeof_type w)) \<and>
      (\<forall>b j. apart b j a (sizeof_type (Struct p fs)) \<longrightarrow> load_bytes m' b j = load_bytes m b j))"
proof -
  have member: "\<exists>n. locate [Dot g] (Struct p fs) = Some (n, w) \<and> e = of_nat n"
    if "OFFSET_OF (Struct p fs) g = Some e" "map_of fs g = Some w" for g e w
    using that struct_field_map_of [of fs g p 0] by (auto simp: OFFSET_OF_def split: option.splits)
  obtain n where n: "locate [Dot f] (Struct p fs) = Some (n, u)" "d = of_nat n"
    using member [OF assms(2,3)] by blast
  obtain m' where m': "store m (a + d) v = Inr m'" "load m' (a + d) = Inr v"
    "buffer m' a (sizeof_type (Struct p fs))"
    and frame: "\<And>rs k w. diverge (Struct p fs) [Dot f] rs \<Longrightarrow> locate rs (Struct p fs) = Some (k, w) \<Longrightarrow>
      load_bytes m' (a + of_nat k) (sizeof_type w) = load_bytes m (a + of_nat k) (sizeof_type w)"
    and outside: "\<And>b j. apart b j a (sizeof_type (Struct p fs)) \<Longrightarrow> load_bytes m' b j = load_bytes m b j"
    using assign_member [OF assms(1) n(1) assms(4)] n(2) by blast
  have others: "load_bytes m' (a + e) (sizeof_type w) = load_bytes m (a + e) (sizeof_type w)"
    if "g \<noteq> f" "OFFSET_OF (Struct p fs) g = Some e" "map_of fs g = Some w" for g e w
    using member [OF that(2,3)] that(1) frame [of "[Dot g]"] by auto
  have cr: "BASE_CR (a + d) (Struct p fs) f = Some a" using assms(2) by (simp add: BASE_CR_def)
  note off = member_offset [OF n(1) [unfolded assms(5)] assms(6), folded assms(5)]
  have "n + sizeof_word v \<le> 2 ^ 64" using locate_bounds [OF n(1)] assms(1,4) by (simp add: buffer_def)
  moreover have "0 < sizeof_word v" using len_gt_0 [where 'a = 'a] by (simp add: sizeof_word_def div_greater_zero_iff Suc_le_eq)
  ultimately have nb: "n < 2 ^ 64" by linarith
  have "unat e + sizeof_type w \<le> unat d \<and> (p = Packed \<longrightarrow> unat d = unat e + sizeof_type w) \<and>
      (p = Natural \<and> 0 < align_of u \<longrightarrow> align_of u dvd unat d \<and> unat d < unat e + sizeof_type w + align_of u)"
    if h: "xs = zs @ [(g, w)] \<and> g \<notin> fst ` set zs \<and> OFFSET_OF (Struct p fs) g = Some e" for zs g w e
  proof -
    obtain k x where k: "locate [Dot g] (Struct p fs) = Some (k, x)" "e = of_nat k"
      using h OFFSET_OF_Some by blast
    note o = off [THEN conjunct2, rule_format, of zs g w k x]
    have "k \<le> n" using o h k(1) by fastforce
    then have "unat e = k" "unat d = n" using nb k(2) n(2) by (simp_all add: unat_index del: unat_of_nat)
    then show ?thesis using o h k(1) by fastforce
  qed
  moreover have "xs = [] \<longrightarrow> d = 0" using off n(2) by simp
  ultimately show ?thesis using m' cr others outside by blast
qed

theorem offset_of_member_witness:
  "\<exists>m'. store (sample_mem 64 (replicate 16 9)) (64 + 8) (0x12345678 :: UINT32) = Inr m' \<and>
    load m' 72 = Inr (0x12345678 :: UINT32) \<and>
    load_bytes m' 64 1 = load_bytes (sample_mem 64 (replicate 16 9)) 64 1"
proof -
  let ?gs = "[(''Tag'', Scalar 1), (''Value'', Scalar 4), (''Code'', Scalar 4)]"
  have b: "buffer (sample_mem 64 (replicate 16 9)) 64 (sizeof_type (Struct Natural ?gs))"
    using sample_buffer [of 64 "replicate 16 9" 0 12] by (simp add: place_def round_up_def)
  have c: "OFFSET_OF (Struct Natural ?gs) ''Code'' = Some 8" "map_of ?gs ''Code'' = Some (Scalar 4)"
    and t: "''Tag'' \<noteq> ''Code'' \<and> OFFSET_OF (Struct Natural ?gs) ''Tag'' = Some 0 \<and> map_of ?gs ''Tag'' = Some (Scalar 1)"
    by (simp_all add: OFFSET_OF_def place_def round_up_def)
  have w: "sizeof_type (Scalar 4) = sizeof_word (0x12345678 :: UINT32)" by (simp add: sizeof_word_def)
  have l: "?gs = [(''Tag'', Scalar 1), (''Value'', Scalar 4)] @ (''Code'', Scalar 4) # []"
    "''Code'' \<notin> fst ` set [(''Tag'', Scalar 1), (''Value'', Scalar 4)]" by simp_all
  from offset_of_member [OF b c w l, THEN conjunct2, THEN conjunct2] obtain m'
    where m': "store (sample_mem 64 (replicate 16 9)) (64 + 8) (0x12345678 :: UINT32) = Inr m'"
      "load m' (64 + 8) = Inr (0x12345678 :: UINT32)"
    and others: "\<forall>g e w. g \<noteq> ''Code'' \<and> OFFSET_OF (Struct Natural ?gs) g = Some e \<and> map_of ?gs g = Some w \<longrightarrow>
      load_bytes m' (64 + e) (sizeof_type w) = load_bytes (sample_mem 64 (replicate 16 9)) (64 + e) (sizeof_type w)"
    by (elim exE conjE) (rule that; assumption)
  have tag: "load_bytes m' (64 + 0) (sizeof_type (Scalar 1)) =
      load_bytes (sample_mem 64 (replicate 16 9)) (64 + 0) (sizeof_type (Scalar 1))"
    by (rule others [rule_format, OF t])
  show ?thesis
    by (rule exI [of _ m']) (use m' tag in \<open>simp only: sizeof_type.simps add_0_right numeral_plus_numeral arith_simps simp_thms\<close>)
qed

text \<open>
  In a type without \<open>#pragma pack\<close>, at an address aligned for the whole, every member at every
  depth is at an address aligned for it, and the size of the type is a multiple of its
  alignment, so that this holds along arrays too.
\<close>

lemma natural_part_aligned:
  fixes a :: UINTN
  assumes "natural T" "align_of T dvd unat a" "locate ss T = Some (n, u)"
  shows "align_of u dvd unat (a + of_nat n) \<and> align_of u dvd sizeof_type u \<and> machine_size (align_of u)"
proof -
  have u: "natural u" "align_of u dvd n" "align_of u dvd align_of T"
    using locate_aligned [OF assms(1,3)] by simp_all
  have s: "machine_size (align_of u)" by (rule natural_align(1) [OF u(1)])
  then have "align_of u dvd 2 ^ 64" by (auto simp: machine_size_def)
  moreover have "align_of u dvd unat a + n" using u assms(2) by (auto intro: dvd_trans dvd_add)
  ultimately have "align_of u dvd (unat a + n) mod 2 ^ 64" by (simp only: dvd_mod)
  moreover have "unat (a + of_nat n) = (unat a + n) mod 2 ^ 64"
    by (simp add: unat_word_ariths(1) unat_of_nat mod_add_right_eq)
  ultimately show ?thesis using s natural_sizeof [OF u(1)] by simp
qed

text \<open>
  From a member back to its record: \<open>BASE_CR\<close> undoes the addition of the offset. After the
  signature is stored, \<open>CR\<close> on a pointer to any member returns the record in every build, also
  after any later assignment to another member; with a different signature it stops in a
  build whose assertions stop, hands back the pointer it was given where they are reported
  only, and returns the record unchecked where they are off.
\<close>

theorem cr_finds_record:
  fixes g s :: "'a::len word" and v :: "'b::len word"
  assumes "buffer m a (sizeof_type T)" "locate [Dot ''Signature''] T = Some (k, u)"
    and "sizeof_type u = sizeof_word g" "locate ss T = Some (j, w)" "sizeof_type w = sizeof_word v"
    and "diverge T ss [Dot ''Signature'']" "locate [Dot f] T = Some (n, t)"
  shows "\<exists>m1 m2. store m (a + of_nat k) g = Inr m1 \<and> store m1 (a + of_nat j) v = Inr m2 \<and>
    BASE_CR (a + of_nat n) T f = Some a \<and>
    CR env m2 (a + of_nat n) T f g = Some (Inr a) \<and>
    (s \<noteq> g \<longrightarrow> CR env m2 (a + of_nat n) T f s =
      Some (if \<not> DebugAssertEnabled env then Inr a
            else if DebugAssertStops env then Inl AssertFailed else Inr (a + of_nat n)))"
proof -
  have k: "k + sizeof_word g \<le> sizeof_type T" using locate_bounds [OF assms(2)] assms(3) by simp
  obtain m1 where m1: "store m (a + of_nat k) g = Inr m1" "load m1 (a + of_nat k) = Inr g"
    "buffer m1 a (sizeof_type T)"
    using store_part [OF assms(1) k] load_stored [OF buffer_part [OF assms(1) k], of g]
      buffer_overlay [OF assms(1)] by auto
  have j: "j + sizeof_word v \<le> sizeof_type T" using locate_bounds [OF assms(4)] assms(5) by simp
  let ?bs = "le_bytes (sizeof_word v) v"
  have N: "sizeof_type T \<le> 2 ^ 64" using assms(1) by (simp add: buffer_def)
  have "load_bytes (overlay m1 (a + of_nat j) ?bs) (a + of_nat k) (sizeof_word g) =
      load_bytes m1 (a + of_nat k) (sizeof_word g)"
    using locate_apart [OF assms(6,4,2)] assms(3,5)
    by (intro load_bytes_apart [OF parts_apart [OF N j k]]) auto
  then have "load (overlay m1 (a + of_nat j) ?bs) (a + of_nat k) = Inr g"
    using m1(2) by (simp add: load_def sizeof_word_def)
  with store_part [OF m1(3) j] m1(1) assms(2,7) show ?thesis
    by (auto simp: BASE_CR_def CR_def OFFSET_OF_def)
qed

theorem cr_finds_record_witness:
  "\<exists>m1 m2. store (sample_mem 64 (replicate 24 0)) 64 (0x52444C42 :: UINT32) = Inr m1 \<and>
    store m1 72 (0x1234 :: UINTN) = Inr m2 \<and>
    CR debug_env m2 72 (Struct Natural [(''Signature'', Scalar 4), (''Link'', Array 2 (Scalar 8))]) ''Link''
      (0x52444C42 :: UINT32) = Some (Inr 64) \<and>
    CR debug_env m2 72 (Struct Natural [(''Signature'', Scalar 4), (''Link'', Array 2 (Scalar 8))]) ''Link''
      (0x20202020 :: UINT32) = Some (Inl AssertFailed)"
proof -
  let ?T = "Struct Natural [(''Signature'', Scalar 4), (''Link'', Array 2 (Scalar 8))]"
  have T: "sizeof_type ?T = 24" "locate [Dot ''Signature''] ?T = Some (0, Scalar 4)"
    "locate [Dot ''Link'', At 0] ?T = Some (8, Scalar 8)"
    "locate [Dot ''Link''] ?T = Some (8, Array 2 (Scalar 8))"
    "diverge ?T [Dot ''Link'', At 0] [Dot ''Signature'']"
    by (simp_all add: place_def round_up_def)
  have b: "buffer (sample_mem 64 (replicate 24 0)) 64 (sizeof_type ?T)"
    using sample_buffer [of 64 "replicate 24 0" 0 24] T(1) by simp
  have s: "sizeof_type (Scalar 4) = sizeof_word (0x52444C42 :: UINT32)"
    "sizeof_type (Scalar 8) = sizeof_word (0x1234 :: UINTN)" by (simp_all add: sizeof_word_def)
  from cr_finds_record [OF b T(2) s(1) T(3) s(2) T(5) T(4), where env = debug_env and s = "0x20202020"]
  moreover have "DebugAssertEnabled debug_env" "DebugAssertStops debug_env" by (simp_all add: debug_env_def)
  ultimately show ?thesis by simp blast
qed

end
