(* ===== verification/Firmware_Types.thy ===== *)
theory Firmware_Types imports C_Layout begin

text \<open>
  The types of the UEFI interface: the scalars of \<open>ProcessorBind.h\<close>, the structures of
  \<open>Base.h\<close>, \<open>UefiBaseType.h\<close>, \<open>WinCertificate.h\<close>, \<open>UefiMultiPhase.h\<close>, \<open>UefiGpt.h\<close>,
  \<open>Bluetooth.h\<close>, the console protocols, and the tables of \<open>UefiSpec.h\<close>. Every definition is the
  structure of the same name, member by member; \<open>Packed\<close> stands for \<open>#pragma pack(1)\<close>.
\<close>

named_theorems layouts \<open>definitions of C types\<close>

section \<open>Scalars\<close>

definition UINT64 :: ctype where [layouts]:
  "UINT64 = Scalar 8"

definition INT64 :: ctype where [layouts]:
  "INT64 = Scalar 8"

definition UINT32 :: ctype where [layouts]:
  "UINT32 = Scalar 4"

definition INT32 :: ctype where [layouts]:
  "INT32 = Scalar 4"

definition UINT16 :: ctype where [layouts]:
  "UINT16 = Scalar 2"

definition CHAR16 :: ctype where [layouts]:
  "CHAR16 = Scalar 2"

definition INT16 :: ctype where [layouts]:
  "INT16 = Scalar 2"

definition BOOLEAN :: ctype where [layouts]:
  "BOOLEAN = Scalar 1"

definition UINT8 :: ctype where [layouts]:
  "UINT8 = Scalar 1"

definition CHAR8 :: ctype where [layouts]:
  "CHAR8 = Scalar 1"

definition INT8 :: ctype where [layouts]:
  "INT8 = Scalar 1"

definition UINTN :: ctype where [layouts]:
  "UINTN = UINT64"

definition INTN :: ctype where [layouts]:
  "INTN = INT64"

text \<open>A pointer, and an object of an enumeration type.\<close>

definition Pointer :: ctype where [layouts]:
  "Pointer = Scalar 8"

definition Enum :: ctype where [layouts]:
  "Enum = Scalar 4"

section \<open>Base.h\<close>

definition GUID :: ctype where [layouts]:
  "GUID = Struct Natural
     [(''Data1'', UINT32), (''Data2'', UINT16), (''Data3'', UINT16), (''Data4'', Array 8 UINT8)]"

definition IPv4_ADDRESS :: ctype where [layouts]:
  "IPv4_ADDRESS = Struct Natural
     [(''Addr'', Array 4 UINT8)]"

definition IPv6_ADDRESS :: ctype where [layouts]:
  "IPv6_ADDRESS = Struct Natural
     [(''Addr'', Array 16 UINT8)]"

definition PHYSICAL_ADDRESS :: ctype where [layouts]:
  "PHYSICAL_ADDRESS = UINT64"

definition LIST_ENTRY_layout :: ctype where [layouts]:
  "LIST_ENTRY_layout = Struct Natural
     [(''ForwardLink'', Pointer), (''BackLink'', Pointer)]"

definition BASE_LIST :: ctype where [layouts]:
  "BASE_LIST = Pointer"

definition RETURN_STATUS :: ctype where [layouts]:
  "RETURN_STATUS = UINTN"


section \<open>UefiBaseType.h\<close>

definition EFI_GUID :: ctype where [layouts]:
  "EFI_GUID = GUID"

definition EFI_STATUS :: ctype where [layouts]:
  "EFI_STATUS = RETURN_STATUS"

definition EFI_HANDLE :: ctype where [layouts]:
  "EFI_HANDLE = Pointer"

definition EFI_EVENT :: ctype where [layouts]:
  "EFI_EVENT = Pointer"

definition EFI_TPL :: ctype where [layouts]:
  "EFI_TPL = UINTN"

definition EFI_LBA :: ctype where [layouts]:
  "EFI_LBA = UINT64"

definition EFI_PHYSICAL_ADDRESS :: ctype where [layouts]:
  "EFI_PHYSICAL_ADDRESS = UINT64"

definition EFI_VIRTUAL_ADDRESS :: ctype where [layouts]:
  "EFI_VIRTUAL_ADDRESS = UINT64"

definition EFI_TIME :: ctype where [layouts]:
  "EFI_TIME = Struct Natural
     [(''Year'', UINT16), (''Month'', UINT8), (''Day'', UINT8), (''Hour'', UINT8),
      (''Minute'', UINT8), (''Second'', UINT8), (''Pad1'', UINT8), (''Nanosecond'', UINT32),
      (''TimeZone'', INT16), (''Daylight'', UINT8), (''Pad2'', UINT8)]"

definition EFI_IPv4_ADDRESS :: ctype where [layouts]:
  "EFI_IPv4_ADDRESS = IPv4_ADDRESS"

definition EFI_IPv6_ADDRESS :: ctype where [layouts]:
  "EFI_IPv6_ADDRESS = IPv6_ADDRESS"

definition EFI_MAC_ADDRESS :: ctype where [layouts]:
  "EFI_MAC_ADDRESS = Struct Natural
     [(''Addr'', Array 32 UINT8)]"

definition EFI_IP_ADDRESS :: ctype where [layouts]:
  "EFI_IP_ADDRESS = Union Natural
     [(''Addr'', Array 4 UINT32), (''v4'', EFI_IPv4_ADDRESS), (''v6'', EFI_IPv6_ADDRESS)]"


section \<open>WinCertificate.h\<close>

definition WIN_CERTIFICATE :: ctype where [layouts]:
  "WIN_CERTIFICATE = Struct Natural
     [(''dwLength'', UINT32), (''wRevision'', UINT16), (''wCertificateType'', UINT16)]"

definition EFI_CERT_BLOCK_RSA_2048_SHA256 :: ctype where [layouts]:
  "EFI_CERT_BLOCK_RSA_2048_SHA256 = Struct Natural
     [(''HashType'', EFI_GUID), (''PublicKey'', Array 256 UINT8),
      (''Signature'', Array 256 UINT8)]"

definition WIN_CERTIFICATE_UEFI_GUID :: ctype where [layouts]:
  "WIN_CERTIFICATE_UEFI_GUID = Struct Natural
     [(''Hdr'', WIN_CERTIFICATE), (''CertType'', EFI_GUID), (''CertData'', Array 1 UINT8)]"

definition WIN_CERTIFICATE_EFI_PKCS1_15 :: ctype where [layouts]:
  "WIN_CERTIFICATE_EFI_PKCS1_15 = Struct Natural
     [(''Hdr'', WIN_CERTIFICATE), (''HashAlgorithm'', EFI_GUID)]"


section \<open>UefiMultiPhase.h\<close>

definition EFI_TABLE_HEADER :: ctype where [layouts]:
  "EFI_TABLE_HEADER = Struct Natural
     [(''Signature'', UINT64), (''Revision'', UINT32), (''HeaderSize'', UINT32),
      (''CRC32'', UINT32), (''Reserved'', UINT32)]"

definition EFI_VARIABLE_AUTHENTICATION :: ctype where [layouts]:
  "EFI_VARIABLE_AUTHENTICATION = Struct Natural
     [(''MonotonicCount'', UINT64), (''AuthInfo'', WIN_CERTIFICATE_UEFI_GUID)]"

definition EFI_VARIABLE_AUTHENTICATION_2 :: ctype where [layouts]:
  "EFI_VARIABLE_AUTHENTICATION_2 = Struct Natural
     [(''TimeStamp'', EFI_TIME), (''AuthInfo'', WIN_CERTIFICATE_UEFI_GUID)]"


section \<open>UefiGpt.h\<close>

definition EFI_PARTITION_TABLE_HEADER :: ctype where [layouts]:
  "EFI_PARTITION_TABLE_HEADER = Struct Packed
     [(''Header'', EFI_TABLE_HEADER), (''MyLBA'', EFI_LBA), (''AlternateLBA'', EFI_LBA),
      (''FirstUsableLBA'', EFI_LBA), (''LastUsableLBA'', EFI_LBA), (''DiskGUID'', EFI_GUID),
      (''PartitionEntryLBA'', EFI_LBA), (''NumberOfPartitionEntries'', UINT32),
      (''SizeOfPartitionEntry'', UINT32), (''PartitionEntryArrayCRC32'', UINT32)]"

definition EFI_PARTITION_ENTRY :: ctype where [layouts]:
  "EFI_PARTITION_ENTRY = Struct Packed
     [(''PartitionTypeGUID'', EFI_GUID), (''UniquePartitionGUID'', EFI_GUID),
      (''StartingLBA'', EFI_LBA), (''EndingLBA'', EFI_LBA), (''Attributes'', UINT64),
      (''PartitionName'', Array 36 CHAR16)]"


section \<open>Bluetooth.h\<close>

definition BLUETOOTH_ADDRESS :: ctype where [layouts]:
  "BLUETOOTH_ADDRESS = Struct Packed
     [(''Address'', Array 6 UINT8)]"

definition BLUETOOTH_CLASS_OF_DEVICE :: ctype where [layouts]:
  "BLUETOOTH_CLASS_OF_DEVICE = Struct Packed
     [('''', Bits 1 [(''FormatType'', 2), (''MinorDeviceClass'', 6)]),
      ('''', Bits 2 [(''MajorDeviceClass'', 5), (''MajorServiceClass'', 11)])]"

definition BLUETOOTH_LE_ADDRESS :: ctype where [layouts]:
  "BLUETOOTH_LE_ADDRESS = Struct Packed
     [(''Address'', Array 6 UINT8), (''Type'', UINT8)]"


section \<open>SimpleTextIn.h, SimpleTextInEx.h and SimpleTextOut.h\<close>

definition EFI_INPUT_KEY :: ctype where [layouts]:
  "EFI_INPUT_KEY = Struct Natural
     [(''ScanCode'', UINT16), (''UnicodeChar'', CHAR16)]"

definition EFI_SIMPLE_TEXT_INPUT_PROTOCOL :: ctype where [layouts]:
  "EFI_SIMPLE_TEXT_INPUT_PROTOCOL = Struct Natural
     [(''Reset'', Pointer), (''ReadKeyStroke'', Pointer), (''WaitForKey'', EFI_EVENT)]"


section \<open>Extended text input\<close>

definition EFI_KEY_TOGGLE_STATE :: ctype where [layouts]:
  "EFI_KEY_TOGGLE_STATE = UINT8"

definition EFI_KEY_STATE :: ctype where [layouts]:
  "EFI_KEY_STATE = Struct Natural
     [(''KeyShiftState'', UINT32), (''KeyToggleState'', EFI_KEY_TOGGLE_STATE)]"

definition EFI_KEY_DATA :: ctype where [layouts]:
  "EFI_KEY_DATA = Struct Natural
     [(''Key'', EFI_INPUT_KEY), (''KeyState'', EFI_KEY_STATE)]"

definition EFI_SIMPLE_TEXT_INPUT_EX_PROTOCOL :: ctype where [layouts]:
  "EFI_SIMPLE_TEXT_INPUT_EX_PROTOCOL = Struct Natural
     [(''Reset'', Pointer), (''ReadKeyStrokeEx'', Pointer), (''WaitForKeyEx'', EFI_EVENT),
      (''SetState'', Pointer), (''RegisterKeyNotify'', Pointer),
      (''UnregisterKeyNotify'', Pointer)]"


section \<open>Text output\<close>

definition EFI_SIMPLE_TEXT_OUTPUT_MODE :: ctype where [layouts]:
  "EFI_SIMPLE_TEXT_OUTPUT_MODE = Struct Natural
     [(''MaxMode'', INT32), (''Mode'', INT32), (''Attribute'', INT32),
      (''CursorColumn'', INT32), (''CursorRow'', INT32), (''CursorVisible'', BOOLEAN)]"

definition EFI_SIMPLE_TEXT_OUTPUT_PROTOCOL :: ctype where [layouts]:
  "EFI_SIMPLE_TEXT_OUTPUT_PROTOCOL = Struct Natural
     [(''Reset'', Pointer), (''OutputString'', Pointer), (''TestString'', Pointer),
      (''QueryMode'', Pointer), (''SetMode'', Pointer), (''SetAttribute'', Pointer),
      (''ClearScreen'', Pointer), (''SetCursorPosition'', Pointer), (''EnableCursor'', Pointer),
      (''Mode'', Pointer)]"


section \<open>UefiSpec.h\<close>

definition EFI_MEMORY_DESCRIPTOR :: ctype where [layouts]:
  "EFI_MEMORY_DESCRIPTOR = Struct Natural
     [(''Type'', UINT32), (''PhysicalStart'', EFI_PHYSICAL_ADDRESS),
      (''VirtualStart'', EFI_VIRTUAL_ADDRESS), (''NumberOfPages'', UINT64),
      (''Attribute'', UINT64)]"

definition EFI_TIME_CAPABILITIES :: ctype where [layouts]:
  "EFI_TIME_CAPABILITIES = Struct Natural
     [(''Resolution'', UINT32), (''Accuracy'', UINT32), (''SetsToZero'', BOOLEAN)]"

definition EFI_OPEN_PROTOCOL_INFORMATION_ENTRY :: ctype where [layouts]:
  "EFI_OPEN_PROTOCOL_INFORMATION_ENTRY = Struct Natural
     [(''AgentHandle'', EFI_HANDLE), (''ControllerHandle'', EFI_HANDLE),
      (''Attributes'', UINT32), (''OpenCount'', UINT32)]"

definition EFI_CAPSULE_BLOCK_DESCRIPTOR :: ctype where [layouts]:
  "EFI_CAPSULE_BLOCK_DESCRIPTOR = Struct Natural
     [(''Length'', UINT64),
      (''Union'', Union Natural
        [(''DataBlock'', EFI_PHYSICAL_ADDRESS),
         (''ContinuationPointer'', EFI_PHYSICAL_ADDRESS)])]"

definition EFI_CAPSULE_HEADER :: ctype where [layouts]:
  "EFI_CAPSULE_HEADER = Struct Natural
     [(''CapsuleGuid'', EFI_GUID), (''HeaderSize'', UINT32), (''Flags'', UINT32),
      (''CapsuleImageSize'', UINT32)]"

definition EFI_CAPSULE_TABLE :: ctype where [layouts]:
  "EFI_CAPSULE_TABLE = Struct Natural
     [(''CapsuleArrayNumber'', UINT32), (''CapsulePtr'', Array 1 Pointer)]"

definition EFI_RUNTIME_SERVICES :: ctype where [layouts]:
  "EFI_RUNTIME_SERVICES = Struct Natural
     [(''Hdr'', EFI_TABLE_HEADER), (''GetTime'', Pointer), (''SetTime'', Pointer),
      (''GetWakeupTime'', Pointer), (''SetWakeupTime'', Pointer),
      (''SetVirtualAddressMap'', Pointer), (''ConvertPointer'', Pointer),
      (''GetVariable'', Pointer), (''GetNextVariableName'', Pointer),
      (''SetVariable'', Pointer), (''GetNextHighMonotonicCount'', Pointer),
      (''ResetSystem'', Pointer), (''UpdateCapsule'', Pointer),
      (''QueryCapsuleCapabilities'', Pointer), (''QueryVariableInfo'', Pointer)]"

definition EFI_BOOT_SERVICES :: ctype where [layouts]:
  "EFI_BOOT_SERVICES = Struct Natural
     [(''Hdr'', EFI_TABLE_HEADER), (''RaiseTPL'', Pointer), (''RestoreTPL'', Pointer),
      (''AllocatePages'', Pointer), (''FreePages'', Pointer), (''GetMemoryMap'', Pointer),
      (''AllocatePool'', Pointer), (''FreePool'', Pointer), (''CreateEvent'', Pointer),
      (''SetTimer'', Pointer), (''WaitForEvent'', Pointer), (''SignalEvent'', Pointer),
      (''CloseEvent'', Pointer), (''CheckEvent'', Pointer),
      (''InstallProtocolInterface'', Pointer), (''ReinstallProtocolInterface'', Pointer),
      (''UninstallProtocolInterface'', Pointer), (''HandleProtocol'', Pointer),
      (''Reserved'', Pointer), (''RegisterProtocolNotify'', Pointer),
      (''LocateHandle'', Pointer), (''LocateDevicePath'', Pointer),
      (''InstallConfigurationTable'', Pointer), (''LoadImage'', Pointer),
      (''StartImage'', Pointer), (''Exit'', Pointer), (''UnloadImage'', Pointer),
      (''ExitBootServices'', Pointer), (''GetNextMonotonicCount'', Pointer),
      (''Stall'', Pointer), (''SetWatchdogTimer'', Pointer), (''ConnectController'', Pointer),
      (''DisconnectController'', Pointer), (''OpenProtocol'', Pointer),
      (''CloseProtocol'', Pointer), (''OpenProtocolInformation'', Pointer),
      (''ProtocolsPerHandle'', Pointer), (''LocateHandleBuffer'', Pointer),
      (''LocateProtocol'', Pointer), (''InstallMultipleProtocolInterfaces'', Pointer),
      (''UninstallMultipleProtocolInterfaces'', Pointer), (''CalculateCrc32'', Pointer),
      (''CopyMem'', Pointer), (''SetMem'', Pointer), (''CreateEventEx'', Pointer)]"

definition EFI_CONFIGURATION_TABLE :: ctype where [layouts]:
  "EFI_CONFIGURATION_TABLE = Struct Natural
     [(''VendorGuid'', EFI_GUID), (''VendorTable'', Pointer)]"

definition EFI_SYSTEM_TABLE :: ctype where [layouts]:
  "EFI_SYSTEM_TABLE = Struct Natural
     [(''Hdr'', EFI_TABLE_HEADER), (''FirmwareVendor'', Pointer),
      (''FirmwareRevision'', UINT32), (''ConsoleInHandle'', EFI_HANDLE), (''ConIn'', Pointer),
      (''ConsoleOutHandle'', EFI_HANDLE), (''ConOut'', Pointer),
      (''StandardErrorHandle'', EFI_HANDLE), (''StdErr'', Pointer),
      (''RuntimeServices'', Pointer), (''BootServices'', Pointer),
      (''NumberOfTableEntries'', UINTN), (''ConfigurationTable'', Pointer)]"

definition EFI_LOAD_OPTION :: ctype where [layouts]:
  "EFI_LOAD_OPTION = Struct Packed
     [(''Attributes'', UINT32), (''FilePathListLength'', UINT16)]"

definition EFI_BOOT_KEY_DATA :: ctype where [layouts]:
  "EFI_BOOT_KEY_DATA = Union Natural
     [(''Options'', Struct Natural
        [('''', Bits 4 [(''Revision'', 8), (''ShiftPressed'', 1), (''ControlPressed'', 1),
                 (''AltPressed'', 1), (''LogoPressed'', 1), (''MenuPressed'', 1),
                 (''SysReqPressed'', 1), (''Reserved'', 16), (''InputKeyCount'', 2)])]),
      (''PackedValue'', UINT32)]"

definition EFI_KEY_OPTION :: ctype where [layouts]:
  "EFI_KEY_OPTION = Struct Packed
     [(''KeyData'', EFI_BOOT_KEY_DATA), (''BootOptionCrc'', UINT32), (''BootOption'', UINT16)]"


end
