(* ===== verification/List_Memory.thy ===== *)
theory List_Memory imports Linked_List Object_Access Firmware_Types begin

text \<open>
  Lists in byte memory. The operations of \<open>LinkedList.c\<close> touch nodes through their two members
  only; here those accesses are made on memory, at the offsets of the structure, and shown to
  be the accesses on the node heap that the list theorems are about. Lists of records whose
  links are members of them are walked with \<open>BASE_LIST_FOR_EACH\<close> and \<open>BASE_CR\<close>.
\<close>

section \<open>Links in memory\<close>

definition get_link :: "mem \<Rightarrow> UINTN \<Rightarrow> string \<Rightarrow> UINTN res" where
  "get_link m p f =
     (case OFFSET_OF LIST_ENTRY_layout f of None \<Rightarrow> Inl BadAddress | Some n \<Rightarrow> load m (p + n))"

definition set_link :: "mem \<Rightarrow> UINTN \<Rightarrow> string \<Rightarrow> UINTN \<Rightarrow> mem res" where
  "set_link m p f v =
     (case OFFSET_OF LIST_ENTRY_layout f of None \<Rightarrow> Inl BadAddress | Some n \<Rightarrow> store m (p + n) v)"

text \<open>The nodes at the addresses \<open>P\<close>, as the heap of the list theory sees them.\<close>

definition node_view :: "UINTN set \<Rightarrow> mem \<Rightarrow> heap" where
  "node_view P m p =
     (if p \<in> P then
        case (get_link m p ''ForwardLink'', get_link m p ''BackLink'') of
          (Inr f, Inr b) \<Rightarrow> Some \<lparr>ForwardLink = f, BackLink = b\<rparr>
        | _ \<Rightarrow> None
      else None)"

definition node_size :: nat where
  "node_size = sizeof_type LIST_ENTRY_layout"

definition spaced :: "UINTN set \<Rightarrow> mem \<Rightarrow> bool" where
  "spaced P m \<longleftrightarrow> (\<forall>p\<in>P. buffer m p node_size \<and> (\<forall>q\<in>P. q \<noteq> p \<longrightarrow> apart q node_size p node_size))"

lemma list_entry_layout:
  "node_size = 16" "sizeof_type LIST_ENTRY_layout = 16"
  "locate [Dot ''ForwardLink''] LIST_ENTRY_layout = Some (0, Pointer)"
  "locate [Dot ''BackLink''] LIST_ENTRY_layout = Some (8, Pointer)"
  "OFFSET_OF LIST_ENTRY_layout ''ForwardLink'' = Some 0"
  "OFFSET_OF LIST_ENTRY_layout ''BackLink'' = Some 8"
  "diverge LIST_ENTRY_layout [Dot ''ForwardLink''] [Dot ''BackLink'']"
  "diverge LIST_ENTRY_layout [Dot ''BackLink''] [Dot ''ForwardLink'']"
  "sizeof_type Pointer = 8"
  by (simp_all add: node_size_def OFFSET_OF_def layouts place_def round_up_def)

lemma sizeof_UINTN: "sizeof_word (v :: UINTN) = 8"
  by (simp add: sizeof_word_def)

lemma load_from_bytes: "load_bytes m' a 8 = load_bytes m a 8 \<Longrightarrow> load m' a = (load m a :: UINTN res)"
  by (simp add: load_def sizeof_UINTN)

lemma link_readable: "buffer m p 16 \<Longrightarrow> n + 8 \<le> 16 \<Longrightarrow> \<exists>v. load m (p + of_nat n) = Inr (v :: UINTN)"
proof -
  assume b: "buffer m p 16" "n + 8 \<le> 16"
  obtain bs where "length bs = 8" "bytes_at m (p + of_nat n) bs"
    using buffer_bytes [OF buffer_part [OF b]] by blast
  then show ?thesis using load_at [where 'a = 64] sizeof_UINTN by auto
qed

section \<open>One assignment\<close>

lemma set_link_effect:
  fixes v :: UINTN
  assumes "spaced P m" "p \<in> P" "(n = 0 \<and> k = 8) \<or> (n = 8 \<and> k = 0)"
  shows "\<exists>m'. store m (p + of_nat n) v = Inr m' \<and> spaced P m' \<and> load m' (p + of_nat n) = Inr v \<and>
    load m' (p + of_nat k) = (load m (p + of_nat k) :: UINTN res) \<and>
    (\<forall>q\<in>P. q \<noteq> p \<longrightarrow> load m' q = (load m q :: UINTN res) \<and> load m' (q + 8) = (load m (q + 8) :: UINTN res))"
proof -
  have b: "buffer m p (sizeof_type LIST_ENTRY_layout)" using assms by (simp add: spaced_def list_entry_layout)
  let ?f = "if n = 0 then ''ForwardLink'' else ''BackLink''"
    and ?g = "if n = 0 then ''BackLink'' else ''ForwardLink''"
  have l: "locate [Dot ?f] LIST_ENTRY_layout = Some (n, Pointer)"
    "locate [Dot ?g] LIST_ENTRY_layout = Some (k, Pointer)"
    "diverge LIST_ENTRY_layout [Dot ?f] [Dot ?g]" "sizeof_type Pointer = sizeof_word v"
    using assms(3) sizeof_UINTN [of v] by (auto simp: list_entry_layout)
  from assign_member [OF b l(1) l(4)] obtain m' where m': "store m (p + of_nat n) v = Inr m'"
    "load m' (p + of_nat n) = Inr v"
    and same: "\<And>rs k w. diverge LIST_ENTRY_layout [Dot ?f] rs \<Longrightarrow> locate rs LIST_ENTRY_layout = Some (k, w) \<Longrightarrow>
      load_bytes m' (p + of_nat k) (sizeof_type w) = load_bytes m (p + of_nat k) (sizeof_type w)"
    and out: "\<And>b j. apart b j p (sizeof_type LIST_ENTRY_layout) \<Longrightarrow> load_bytes m' b j = load_bytes m b j"
    by blast
  have "load m' (p + of_nat k) = (load m (p + of_nat k) :: UINTN res)"
    using same [OF l(3,2)] l(4) sizeof_UINTN [of v] by (intro load_from_bytes) simp
  moreover have "load m' q = (load m q :: UINTN res) \<and> load m' (q + 8) = (load m (q + 8) :: UINTN res)"
    if "q \<in> P" "q \<noteq> p" for q
  proof -
    have a: "apart q 16 p 16" using assms(1,2) that by (auto simp: spaced_def list_entry_layout)
    have "apart (q + of_nat i) 8 p 16" if "i \<le> 8" for i
      unfolding apart_def
    proof (intro allI impI)
      fix j :: nat assume "j < 8"
      then have "16 \<le> unat (q + of_nat (i + j) - p)" using a \<open>i \<le> 8\<close> unfolding apart_def by (metis add_le_less_mono numeral_Bit0)
      then show "16 \<le> unat (q + of_nat i + of_nat j - p)" by (simp add: add.assoc)
    qed
    from this [of 0] this [of 8] have "apart q 8 p 16" "apart (q + 8) 8 p 16" by simp_all
    then show ?thesis by (intro conjI load_from_bytes out) (simp_all add: list_entry_layout)
  qed
  moreover have "spaced P m'"
  proof -
    have "n + sizeof_word v \<le> sizeof_type LIST_ENTRY_layout"
      using assms(3) by (auto simp: list_entry_layout sizeof_UINTN)
    from store_part [OF b this] m'(1) have "m' = overlay m (p + of_nat n) (le_bytes (sizeof_word v) v)" by simp
    then show ?thesis using assms(1) by (simp add: spaced_def buffer_overlay)
  qed
  ultimately show ?thesis using m' by blast
qed

lemma view_node:
  assumes "spaced P m" "p \<in> P"
  obtains f b where "load m p = Inr f" "load m (p + 8) = Inr b"
    "node_view P m p = Some \<lparr>ForwardLink = f, BackLink = b\<rparr>"
proof -
  have b: "buffer m p 16" using assms by (simp add: spaced_def list_entry_layout)
  obtain f g where "load m p = Inr (f :: UINTN)" "load m (p + 8) = Inr (g :: UINTN)"
    using link_readable [OF b, of 0] link_readable [OF b, of 8] by auto
  then show ?thesis using that assms(2) by (simp add: node_view_def get_link_def list_entry_layout)
qed

lemma view_update:
  assumes "spaced P m'" "p \<in> P" "\<And>q. q \<in> P \<Longrightarrow> q \<noteq> p \<Longrightarrow> load m' q = (load m q :: UINTN res) \<and> load m' (q + 8) = (load m (q + 8) :: UINTN res)"
    and "load m' p = Inr f" "load m' (p + 8) = Inr b"
  shows "(node_view P m)(p \<mapsto> \<lparr>ForwardLink = f, BackLink = b\<rparr>) = node_view P m'"
proof (rule ext)
  fix q
  show "((node_view P m)(p \<mapsto> \<lparr>ForwardLink = f, BackLink = b\<rparr>)) q = node_view P m' q"
    using assms by (cases "q \<in> P"; cases "q = p") (simp_all add: node_view_def get_link_def list_entry_layout)
qed

section \<open>Accesses and iteration\<close>

text \<open>
  The node heap is an abstraction of byte memory: when the nodes do not overlap, reading
  or assigning \<open>ForwardLink\<close> or \<open>BackLink\<close> of a node in memory, at its offset in the structure,
  is reading or assigning it in the heap of nodes, and the nodes stay apart.
\<close>

lemma link_accesses:
  assumes "spaced P m" "p \<in> P" "p \<noteq> NULL"
  shows "get_fwd (node_view P m) p = get_link m p ''ForwardLink'' \<and>
    get_back (node_view P m) p = get_link m p ''BackLink'' \<and>
    (\<exists>m'. set_link m p ''ForwardLink'' v = Inr m' \<and> spaced P m' \<and>
      set_fwd (node_view P m) p v = Inr (node_view P m')) \<and>
    (\<exists>m'. set_link m p ''BackLink'' v = Inr m' \<and> spaced P m' \<and>
      set_back (node_view P m) p v = Inr (node_view P m'))"
proof -
  obtain f b where v: "load m p = Inr f" "load m (p + 8) = Inr b"
    "node_view P m p = Some \<lparr>ForwardLink = f, BackLink = b\<rparr>" using view_node [OF assms(1,2)] .
  obtain m1 where m1: "store m p v = Inr m1" "spaced P m1" "load m1 p = Inr v" "load m1 (p + 8) = Inr b"
    "\<And>q. q \<in> P \<Longrightarrow> q \<noteq> p \<Longrightarrow> load m1 q = (load m q :: UINTN res) \<and> load m1 (q + 8) = (load m (q + 8) :: UINTN res)"
    using set_link_effect [OF assms(1,2), of 0 8 v] v by auto
  obtain m2 where m2: "store m (p + 8) v = Inr m2" "spaced P m2" "load m2 p = Inr f" "load m2 (p + 8) = Inr v"
    "\<And>q. q \<in> P \<Longrightarrow> q \<noteq> p \<Longrightarrow> load m2 q = (load m q :: UINTN res) \<and> load m2 (q + 8) = (load m (q + 8) :: UINTN res)"
    using set_link_effect [OF assms(1,2), of 8 0 v] v by auto
  show ?thesis
    using v assms(3) m1(1,2) m2(1,2) view_update [OF m1(2) assms(2) m1(5,3,4)] view_update [OF m2(2) assms(2) m2(5,3,4)]
    by (simp add: get_fwd_def get_back_def set_fwd_def set_back_def get_node_def get_link_def
        set_link_def list_entry_layout)
qed

text \<open>
  Lists of records: when the links of records of any type form a list, the iteration macro
  visits the links in order and \<open>BASE_CR\<close> on them gives the records in order, each once.
\<close>

theorem container_iteration:
  assumes "locate [Dot f] T = Some (n, LIST_ENTRY_layout)"
    and "ring h (l # map (\<lambda>b. b + of_nat n) records)"
  shows "\<exists>nodes. BASE_LIST_FOR_EACH h l = Some (Inr nodes) \<and>
    map (\<lambda>e. BASE_CR e T f) nodes = map Some records \<and> distinct records"
proof -
  have "BASE_LIST_FOR_EACH h l = Some (Inr (map (\<lambda>b. b + of_nat n) records))"
    by (rule for_each_ring [OF assms(2)])
  moreover have "map (\<lambda>e. BASE_CR e T f) (map (\<lambda>b. b + of_nat n) records) = map Some records"
    using assms(1) by (simp add: BASE_CR_def OFFSET_OF_def)
  moreover have "distinct (map (\<lambda>b. b + of_nat n) records)" using assms(2) by (simp add: ring_def)
  then have "distinct records" by (simp add: distinct_map)
  ultimately show ?thesis by blast
qed

theorem container_iteration_witness:
  "\<exists>nodes. BASE_LIST_FOR_EACH (ring_heap [16, 32, 48, 64]) 16 = Some (Inr nodes) \<and>
    map (\<lambda>e. BASE_CR e (Struct Natural [(''Signature'', UINT32), (''Link'', LIST_ENTRY_layout)]) ''Link'')
      nodes = [Some 24, Some 40, Some 56]"
proof -
  have "locate [Dot ''Link''] (Struct Natural [(''Signature'', UINT32), (''Link'', LIST_ENTRY_layout)]) =
      Some (8, LIST_ENTRY_layout)"
    by (simp add: layouts place_def round_up_def)
  from container_iteration [OF this, of "ring_heap [16, 32, 48, 64]" 16 "[24, 40, 56]"] sample_ring
  show ?thesis by auto
qed

end
