(* ===== verification/List_Queue.thy ===== *)
theory List_Queue imports Linked_List begin

text \<open>
  A list as the queue of a server that runs for ever: nodes are added with \<open>InsertTailList\<close> while
  others are taken from the front with \<open>IsListEmpty\<close>, \<open>GetFirstNode\<close> and \<open>RemoveEntryList\<close>, in any
  order. A node may be added again once it has been taken.
\<close>

section \<open>The server\<close>

datatype 'n queue_act = Enqueue 'n | Serve

fun serve_step :: "('h \<Rightarrow> 'n \<Rightarrow> 'n \<Rightarrow> ('h \<times> 'n) res) \<Rightarrow> ('h \<Rightarrow> 'n \<Rightarrow> bool res) \<Rightarrow> ('h \<Rightarrow> 'n \<Rightarrow> 'n res) \<Rightarrow>
    ('h \<Rightarrow> 'n \<Rightarrow> ('h \<times> 'n) res) \<Rightarrow> 'n \<Rightarrow> 'n queue_act \<Rightarrow> 'h \<times> 'n list \<Rightarrow> ('h \<times> 'n list) res" where
  "serve_step push is_empty first remove l (Enqueue e) (h, out) =
     bindr (push h l e) (\<lambda>(h', _). Inr (h', out))"
| "serve_step push is_empty first remove l Serve (h, out) =
     bindr (is_empty h l) (\<lambda>b.
       if b then Inr (h, out)
       else bindr (first h l) (\<lambda>x. bindr (remove h x) (\<lambda>(h', _). Inr (h', out @ [x]))))"

fun serve_all :: "('h \<Rightarrow> 'n \<Rightarrow> 'n \<Rightarrow> ('h \<times> 'n) res) \<Rightarrow> ('h \<Rightarrow> 'n \<Rightarrow> bool res) \<Rightarrow> ('h \<Rightarrow> 'n \<Rightarrow> 'n res) \<Rightarrow>
    ('h \<Rightarrow> 'n \<Rightarrow> ('h \<times> 'n) res) \<Rightarrow> 'n \<Rightarrow> 'n queue_act list \<Rightarrow> 'h \<times> 'n list \<Rightarrow> ('h \<times> 'n list) res" where
  "serve_all push is_empty first remove l [] s = Inr s"
| "serve_all push is_empty first remove l (a # as) s =
     bindr (serve_step push is_empty first remove l a s) (serve_all push is_empty first remove l as)"

text \<open>
  The same on the waiting nodes alone: what is served and what still waits, or \<open>None\<close> where a node
  is added that is unusable, is waiting already, or for which there is no room.
\<close>

fun queue_step :: "('n \<Rightarrow> bool) \<Rightarrow> (nat \<Rightarrow> bool) \<Rightarrow> 'n \<Rightarrow> 'n queue_act \<Rightarrow> 'n list \<times> 'n list \<Rightarrow>
    ('n list \<times> 'n list) option" where
  "queue_step usable room l (Enqueue e) (out, xs) =
     (if usable e \<and> e \<notin> set (l # xs) \<and> room (Suc (length xs)) then Some (out, xs @ [e]) else None)"
| "queue_step usable room l Serve (out, xs) =
     Some (case xs of [] \<Rightarrow> (out, []) | x # ys \<Rightarrow> (out @ [x], ys))"

fun queue_all :: "('n \<Rightarrow> bool) \<Rightarrow> (nat \<Rightarrow> bool) \<Rightarrow> 'n \<Rightarrow> 'n queue_act list \<Rightarrow> 'n list \<times> 'n list \<Rightarrow>
    ('n list \<times> 'n list) option" where
  "queue_all usable room l [] s = Some s"
| "queue_all usable room l (a # as) s =
     (case queue_step usable room l a s of None \<Rightarrow> None | Some s' \<Rightarrow> queue_all usable room l as s')"

fun arrivals :: "'n queue_act list \<Rightarrow> 'n list" where
  "arrivals [] = []"
| "arrivals (Enqueue e # as) = e # arrivals as"
| "arrivals (Serve # as) = arrivals as"

context node_list begin

lemma server_simulates:
  assumes "rep h l xs" "room (length xs)" "queue_all (usable h) room l as (out, xs) = Some (out', ys)"
  shows "\<exists>h'. serve_all push_back is_empty first remove l as (h, out) = Inr (h', out') \<and> rep h' l ys \<and>
    usable h' = usable h \<and> room (length ys)"
  using assms
proof (induction as arbitrary: h out xs)
  case (Cons a as)
  show ?case
  proof (cases a)
    case (Enqueue e)
    with Cons.prems have e: "usable h e" "e \<notin> set (l # xs)" "room (length (xs @ [e]))"
      "queue_all (usable h) room l as (out, xs @ [e]) = Some (out', ys)"
      by (auto split: if_splits)
    obtain h' where h': "push_back h l e = Inr (h', l)" "rep h' l (xs @ [e])" "usable h' = usable h"
      using back_rep [OF Cons.prems(1) e(1,2) Cons.prems(2)] by blast
    with Cons.IH [OF h'(2) e(3)] e(4) show ?thesis by (simp add: Enqueue)
  next
    case Serve
    note empty = empty_rep [OF Cons.prems(1,2)]
    show ?thesis
    proof (cases xs)
      case Nil
      then show ?thesis using Cons.IH [OF Cons.prems(1,2)] Cons.prems(3) empty by (simp add: Serve)
    next
      case (Cons x zs)
      note prems = Cons.prems [unfolded Cons]
      obtain h' where h': "remove h x = Inr (h', hd (zs @ [l]))" "rep h' l zs" "usable h' = usable h"
        using remove_rep [OF prems(1,2)] by blast
      have "room (length zs)" by (rule room_less [OF prems(2)]) simp
      from Cons.IH [OF h'(2) this] prems(3) h' empty first_rep [OF prems(1,2)] show ?thesis
        by (simp add: Serve Cons)
    qed
  qed
qed auto

end

section \<open>Order and progress of the abstract queue\<close>

lemma queue_conserves:
  "queue_all usable room l as (out, xs) = Some (out', ys) \<Longrightarrow> out' @ ys = out @ xs @ arrivals as"
proof (induction as arbitrary: out xs)
  case (Cons a as)
  then show ?case by (cases a) (auto split: if_splits list.splits)
qed simp

lemma queue_append:
  "queue_all usable room l (as @ bs) s =
     (case queue_all usable room l as s of None \<Rightarrow> None | Some s' \<Rightarrow> queue_all usable room l bs s')"
  by (induction as arbitrary: s) (auto split: option.splits)

lemma queue_serves_more:
  "queue_all usable room l as (out, xs) = Some (out', ys) \<Longrightarrow> length out \<le> length out'"
proof (induction as arbitrary: out xs)
  case (Cons a as)
  then show ?case by (cases a) (fastforce split: if_splits list.splits)+
qed simp

lemma arrivals_append: "arrivals (as @ bs) = arrivals as @ arrivals bs"
  by (induction as rule: arrivals.induct) auto

text \<open>The actions up to a moment are a prefix of those up to a later one.\<close>

lemma prefix_acts: "n \<le> m \<Longrightarrow> map f [0..<m] = map f [0..<n] @ map f [n..<m]"
  by (metis le_add_diff_inverse map_append upt_add_eq_append zero_le)

lemma arrivals_prefix:
  assumes "n \<le> m" "k < length (xs @ arrivals (map \<sigma> [0..<n]))"
  shows "k < length (xs @ arrivals (map \<sigma> [0..<m]))"
    "(xs @ arrivals (map \<sigma> [0..<m])) ! k = (xs @ arrivals (map \<sigma> [0..<n])) ! k"
  using assms(2) by (auto simp: prefix_acts [OF assms(1)] arrivals_append nth_append)

text \<open>If serving never ceases, the number of served nodes passes every number of arrived ones.\<close>

lemma serves_next:
  assumes ok: "\<And>n. queue_all usable room l (map \<sigma> [0..<n]) ([], xs) \<noteq> None"
    and fair: "\<And>n. \<exists>m\<ge>n. \<sigma> m = Serve"
    and k: "k < length (xs @ arrivals (map \<sigma> [0..<n0]))"
    and n: "queue_all usable room l (map \<sigma> [0..<n]) ([], xs) = Some (out, ys)" "k \<le> length out"
  shows "\<exists>n out ys. queue_all usable room l (map \<sigma> [0..<n]) ([], xs) = Some (out, ys) \<and> k < length out"
proof -
  obtain m where m: "max n n0 \<le> m" "\<sigma> m = Serve" using fair by blast
  obtain out1 ys1 where 1: "queue_all usable room l (map \<sigma> [0..<m]) ([], xs) = Some (out1, ys1)"
    using ok [of m] by auto
  have "length out \<le> length out1"
    using 1 n(1) m(1) by (auto simp: prefix_acts [of n m] queue_append intro: queue_serves_more)
  then have k1: "k \<le> length out1" using n(2) by simp
  show ?thesis
  proof (cases "k < length out1")
    case False
    have "n0 \<le> m" using m(1) by simp
    from arrivals_prefix(1) [OF this k] have "length out1 < length (out1 @ ys1)"
      using queue_conserves [OF 1] False k1 by simp
    then obtain y zs where y: "ys1 = y # zs" by (cases ys1) auto
    have "queue_all usable room l (map \<sigma> [0..<Suc m]) ([], xs) = Some (out1 @ [y], zs)"
      using 1 m(2) by (simp add: queue_append y)
    moreover have "k < length (out1 @ [y])" using k1 by simp
    ultimately show ?thesis by blast
  qed (use 1 in blast)
qed

lemma served_grows:
  assumes ok: "\<And>n. queue_all usable room l (map \<sigma> [0..<n]) ([], xs) \<noteq> None"
    and fair: "\<And>n. \<exists>m\<ge>n. \<sigma> m = Serve"
  shows "k < length (xs @ arrivals (map \<sigma> [0..<n0])) \<Longrightarrow>
    \<exists>n out ys. queue_all usable room l (map \<sigma> [0..<n]) ([], xs) = Some (out, ys) \<and> k < length out"
proof (induction k)
  case 0
  have "queue_all usable room l (map \<sigma> [0..<0]) ([], xs) = Some ([], xs)" by simp
  from serves_next [OF ok fair 0 this] show ?case by simp
next
  case (Suc k)
  then obtain n out ys where "queue_all usable room l (map \<sigma> [0..<n]) ([], xs) = Some (out, ys)" "Suc k \<le> length out"
    using Suc_lessD Suc_leI by blast
  from serves_next [OF ok fair Suc.prems this] show ?case .
qed

section \<open>Properties\<close>

text \<open>
  C6. No node waits for ever: on a list used as a queue by any endless sequence of actions that
  adds only usable nodes which are not waiting, and that never stops serving, every call
  succeeds, the nodes served and then those still waiting are at every moment the initial
  nodes and the arrivals in their order, and each initial node and each arrival is served
  after finitely many actions. In a build that evaluates assertions the
  actions keep the list shorter than the limit, if there is one.
\<close>

theorem queue_serves:
  fixes \<sigma> :: "nat \<Rightarrow> UINTN queue_act"
  assumes "ring h (l # xs)" "fits env (Suc (length xs))"
    and "\<And>n. queue_all (alloc h) (\<lambda>k. fits env (Suc k)) l (map \<sigma> [0..<n]) ([], xs) \<noteq> None"
    and "\<And>n. \<exists>m\<ge>n. \<sigma> m = Serve"
  defines "run n \<equiv> serve_all (InsertTailList env) (IsListEmpty env) (GetFirstNode env) (RemoveEntryList env) l
    (map \<sigma> [0..<n]) (h, [])"
  shows "(\<forall>n. \<exists>h' out ys. run n = Inr (h', out) \<and> ring h' (l # ys) \<and>
      out @ ys = xs @ arrivals (map \<sigma> [0..<n])) \<and>
    (\<forall>e i. e \<in> set xs \<or> \<sigma> i = Enqueue e \<longrightarrow> (\<exists>n h' out. run n = Inr (h', out) \<and> e \<in> set out)) \<and>
    (\<forall>n k. k < length (xs @ arrivals (map \<sigma> [0..<n])) \<longrightarrow>
      (\<exists>m h' out. run m = Inr (h', out) \<and> k < length out \<and> out ! k = (xs @ arrivals (map \<sigma> [0..<n])) ! k))"
proof -
  have sim: "\<exists>h'. run n = Inr (h', out) \<and> ring h' (l # ys)"
    if "queue_all (alloc h) (\<lambda>k. fits env (Suc k)) l (map \<sigma> [0..<n]) ([], xs) = Some (out, ys)" for n out ys
    using nl.server_simulates [OF _ assms(2) that] assms(1) by (auto simp: run_def list_rep_def)
  have order: "\<exists>h' out ys. run n = Inr (h', out) \<and> ring h' (l # ys) \<and> out @ ys = xs @ arrivals (map \<sigma> [0..<n])" for n
  proof -
    obtain out ys where q: "queue_all (alloc h) (\<lambda>k. fits env (Suc k)) l (map \<sigma> [0..<n]) ([], xs) = Some (out, ys)"
      using assms(3) [of n] by auto
    with sim [OF q] queue_conserves [OF q] show ?thesis by auto
  qed
  have served: "\<exists>m h' out. run m = Inr (h', out) \<and> k < length out \<and> out ! k = (xs @ arrivals (map \<sigma> [0..<n])) ! k"
    if k: "k < length (xs @ arrivals (map \<sigma> [0..<n]))" for n k
  proof -
    obtain m out ys where q: "queue_all (alloc h) (\<lambda>k. fits env (Suc k)) l (map \<sigma> [0..<m]) ([], xs) = Some (out, ys)"
      "k < length out"
      using served_grows [OF assms(3,4) k] by blast
    have "k < length (xs @ arrivals (map \<sigma> [0..<m]))"
      using queue_conserves [OF q(1)] q(2) by (metis append_Nil length_append trans_less_add1)
    from arrivals_prefix(2) [OF _ k, of "max m n"] arrivals_prefix(2) [OF _ this, of "max m n"]
    have "(xs @ arrivals (map \<sigma> [0..<n])) ! k = (out @ ys) ! k" using queue_conserves [OF q(1)] by simp
    then show ?thesis using sim [OF q(1)] q(2) by (auto simp: nth_append)
  qed
  have each: "\<exists>n h' out. run n = Inr (h', out) \<and> e \<in> set out" if "e \<in> set xs \<or> \<sigma> i = Enqueue e" for e i
  proof -
    have "e \<in> set (xs @ arrivals (map \<sigma> [0..<Suc i]))" using that by (auto simp: arrivals_append)
    then obtain k where "k < length (xs @ arrivals (map \<sigma> [0..<Suc i]))" "e = (xs @ arrivals (map \<sigma> [0..<Suc i])) ! k"
      by (metis in_set_conv_nth)
    then show ?thesis using served [of k "Suc i"] nth_mem by metis
  qed
  show ?thesis using order served each by blast
qed

definition sample_acts :: "nat \<Rightarrow> UINTN queue_act" where
  "sample_acts n = (if even n then Serve else Enqueue 32)"

lemma sample_queue:
  "queue_all (alloc (ring_heap [16, 32])) (\<lambda>k. fits debug_env (Suc k)) 16 (map sample_acts [0..<n]) ([], [32]) =
   Some (replicate ((n + 1) div 2) 32, if even n then [32] else [])"
proof (induction n)
  case (Suc n)
  have "alloc (ring_heap [16, 32]) 32" by (simp add: alloc_def ring_heap_def NULL_def)
  then show ?case
    using Suc by (simp add: queue_append sample_acts_def debug_fits replicate_append_same)
qed simp

theorem queue_serves_witness:
  "\<exists>n h' out. serve_all (InsertTailList debug_env) (IsListEmpty debug_env) (GetFirstNode debug_env)
     (RemoveEntryList debug_env) 16 (map sample_acts [0..<n]) (ring_heap [16, 32], []) = Inr (h', out) \<and> 32 \<in> set out"
proof -
  have r: "ring (ring_heap [16, 32]) [16, 32]"
    by (simp add: ring_def ring_heap_def linked_def nxt_def prv_def NULL_def)
  have f: "fits debug_env (Suc (length [32 :: UINTN]))" by (simp add: debug_fits)
  have "\<exists>m\<ge>n. sample_acts m = Serve" for n by (rule exI [of _ "2 * n"]) (simp add: sample_acts_def)
  from queue_serves [OF r f _ this] sample_queue show ?thesis by auto
qed

end
