(* ===== verification/X64_Types.thy ===== *)
theory X64_Types imports Firmware_Types begin

text \<open>
  The processor structures of \<open>BaseLib.h\<close> in their X64 form: the jump buffer, the control
  registers, descriptors and task state, and the register images of the 16-bit thunk.
\<close>

section \<open>BaseLib.h\<close>

definition BASE_LIBRARY_JUMP_BUFFER :: ctype where [layouts]:
  "BASE_LIBRARY_JUMP_BUFFER = Struct Natural
     [(''Rbx'', UINT64), (''Rsp'', UINT64), (''Rbp'', UINT64), (''Rdi'', UINT64),
      (''Rsi'', UINT64), (''R12'', UINT64), (''R13'', UINT64), (''R14'', UINT64),
      (''R15'', UINT64), (''Rip'', UINT64), (''MxCsr'', UINT64),
      (''XmmBuffer'', Array 160 UINT8), (''Ssp'', UINT64)]"

definition IA32_FLAGS16 :: ctype where [layouts]:
  "IA32_FLAGS16 = Union Natural
     [(''Bits'', Struct Natural
        [('''', Bits 4 [(''CF'', 1), (''Reserved_0'', 1), (''PF'', 1), (''Reserved_1'', 1),
                 (''AF'', 1), (''Reserved_2'', 1), (''ZF'', 1), (''SF'', 1),
                 (''TF'', 1), (''IF'', 1), (''DF'', 1), (''OF'', 1), (''IOPL'', 2),
                 (''NT'', 1), (''Reserved_3'', 1)])]), (''Uint16'', UINT16)]"

definition IA32_EFLAGS32 :: ctype where [layouts]:
  "IA32_EFLAGS32 = Union Natural
     [(''Bits'', Struct Natural
        [('''', Bits 4 [(''CF'', 1), (''Reserved_0'', 1), (''PF'', 1), (''Reserved_1'', 1),
                 (''AF'', 1), (''Reserved_2'', 1), (''ZF'', 1), (''SF'', 1),
                 (''TF'', 1), (''IF'', 1), (''DF'', 1), (''OF'', 1), (''IOPL'', 2),
                 (''NT'', 1), (''Reserved_3'', 1), (''RF'', 1), (''VM'', 1),
                 (''AC'', 1), (''VIF'', 1), (''VIP'', 1), (''ID'', 1),
                 (''Reserved_4'', 10)])]), (''UintN'', UINTN)]"

definition IA32_CR0 :: ctype where [layouts]:
  "IA32_CR0 = Union Natural
     [(''Bits'', Struct Natural
        [('''', Bits 4 [(''PE'', 1), (''MP'', 1), (''EM'', 1), (''TS'', 1), (''ET'', 1),
                 (''NE'', 1), (''Reserved_0'', 10), (''WP'', 1), (''Reserved_1'', 1),
                 (''AM'', 1), (''Reserved_2'', 10), (''NW'', 1), (''CD'', 1),
                 (''PG'', 1)])]), (''UintN'', UINTN)]"

definition IA32_CR4 :: ctype where [layouts]:
  "IA32_CR4 = Union Natural
     [(''Bits'', Struct Natural
        [('''', Bits 4 [(''VME'', 1), (''PVI'', 1), (''TSD'', 1), (''DE'', 1), (''PSE'', 1),
                 (''PAE'', 1), (''MCE'', 1), (''PGE'', 1), (''PCE'', 1),
                 (''OSFXSR'', 1), (''OSXMMEXCPT'', 1), (''UMIP'', 1), (''LA57'', 1),
                 (''VMXE'', 1), (''SMXE'', 1), (''Reserved_3'', 1), (''FSGSBASE'', 1),
                 (''PCIDE'', 1), (''OSXSAVE'', 1), (''Reserved_4'', 1), (''SMEP'', 1),
                 (''SMAP'', 1), (''PKE'', 1), (''Reserved_5'', 9)])]), (''UintN'', UINTN)]"

definition IA32_SEGMENT_DESCRIPTOR :: ctype where [layouts]:
  "IA32_SEGMENT_DESCRIPTOR = Union Natural
     [(''Bits'', Struct Natural
        [('''', Bits 4 [(''LimitLow'', 16), (''BaseLow'', 16)]),
         ('''', Bits 4 [(''BaseMid'', 8), (''Type'', 4), (''S'', 1), (''DPL'', 2), (''P'', 1),
                 (''LimitHigh'', 4), (''AVL'', 1), (''L'', 1), (''DB'', 1), (''G'', 1),
                 (''BaseHigh'', 8)])]), (''Uint64'', UINT64)]"

definition IA32_DESCRIPTOR :: ctype where [layouts]:
  "IA32_DESCRIPTOR = Struct Packed
     [(''Limit'', UINT16), (''Base'', UINTN)]"

definition IA32_IDT_GATE_DESCRIPTOR :: ctype where [layouts]:
  "IA32_IDT_GATE_DESCRIPTOR = Union Natural
     [(''Bits'', Struct Natural
        [('''', Bits 4 [(''OffsetLow'', 16), (''Selector'', 16)]),
         ('''', Bits 4 [(''Reserved_0'', 8), (''GateType'', 8), (''OffsetHigh'', 16)]),
         ('''', Bits 4 [(''OffsetUpper'', 32)]),
         ('''', Bits 4 [(''Reserved_1'', 32)])]),
      (''Uint128'', Struct Natural
        [(''Uint64'', UINT64),
         (''Uint64_1'', UINT64)])]"

definition IA32_TASK_STATE_SEGMENT :: ctype where [layouts]:
  "IA32_TASK_STATE_SEGMENT = Struct Packed
     [(''Reserved_0'', UINT32), (''RSP0'', UINT64), (''RSP1'', UINT64), (''RSP2'', UINT64),
      (''Reserved_28'', UINT64), (''IST'', Array 7 UINT64), (''Reserved_92'', UINT64),
      (''Reserved_100'', UINT16), (''IOMapBaseAddress'', UINT16)]"

definition IA32_TSS_DESCRIPTOR :: ctype where [layouts]:
  "IA32_TSS_DESCRIPTOR = Union Packed
     [(''Bits'', Struct Packed
        [('''', Bits 4 [(''LimitLow'', 16), (''BaseLow'', 16)]),
         ('''', Bits 4 [(''BaseMidl'', 8), (''Type'', 4), (''Reserved_43'', 1), (''DPL'', 2),
                 (''P'', 1), (''LimitHigh'', 4), (''AVL'', 1), (''Reserved_52'', 2),
                 (''G'', 1), (''BaseMidh'', 8)]),
         ('''', Bits 4 [(''BaseHigh'', 32)]),
         ('''', Bits 4 [(''Reserved_96'', 32)])]),
      (''Uint128'', Struct Packed
        [(''Uint64'', UINT64),
         (''Uint64_1'', UINT64)])]"

definition IA32_FX_BUFFER :: ctype where [layouts]:
  "IA32_FX_BUFFER = Struct Natural
     [(''Buffer'', Array 512 UINT8)]"

definition IA32_BYTE_REGS :: ctype where [layouts]:
  "IA32_BYTE_REGS = Struct Natural
     [(''Reserved1'', UINT32), (''Reserved2'', UINT32), (''Reserved3'', UINT32),
      (''Reserved4'', UINT32), (''BL'', UINT8), (''BH'', UINT8), (''Reserved5'', UINT16),
      (''DL'', UINT8), (''DH'', UINT8), (''Reserved6'', UINT16), (''CL'', UINT8),
      (''CH'', UINT8), (''Reserved7'', UINT16), (''AL'', UINT8), (''AH'', UINT8),
      (''Reserved8'', UINT16)]"

definition IA32_WORD_REGS :: ctype where [layouts]:
  "IA32_WORD_REGS = Struct Natural
     [(''DI'', UINT16), (''Reserved1'', UINT16), (''SI'', UINT16), (''Reserved2'', UINT16),
      (''BP'', UINT16), (''Reserved3'', UINT16), (''SP'', UINT16), (''Reserved4'', UINT16),
      (''BX'', UINT16), (''Reserved5'', UINT16), (''DX'', UINT16), (''Reserved6'', UINT16),
      (''CX'', UINT16), (''Reserved7'', UINT16), (''AX'', UINT16), (''Reserved8'', UINT16)]"

definition IA32_DWORD_REGS :: ctype where [layouts]:
  "IA32_DWORD_REGS = Struct Natural
     [(''EDI'', UINT32), (''ESI'', UINT32), (''EBP'', UINT32), (''ESP'', UINT32),
      (''EBX'', UINT32), (''EDX'', UINT32), (''ECX'', UINT32), (''EAX'', UINT32),
      (''DS'', UINT16), (''ES'', UINT16), (''FS'', UINT16), (''GS'', UINT16),
      (''EFLAGS'', IA32_EFLAGS32), (''Eip'', UINT32), (''CS'', UINT16), (''SS'', UINT16)]"

definition IA32_REGISTER_SET :: ctype where [layouts]:
  "IA32_REGISTER_SET = Union Natural
     [(''E'', IA32_DWORD_REGS), (''X'', IA32_WORD_REGS), (''H'', IA32_BYTE_REGS)]"

definition THUNK_CONTEXT :: ctype where [layouts]:
  "THUNK_CONTEXT = Struct Natural
     [(''RealModeState'', Pointer), (''RealModeBuffer'', Pointer),
      (''RealModeBufferSize'', UINT32), (''ThunkAttributes'', UINT32)]"

end
