(* ===== verification/Bit_Members.thy ===== *)
theory Bit_Members imports Object_Access Bit_Field X64_Types begin

text \<open>
  Bit-field members of structures in memory, related to the bit field functions of
  \<open>BitField.c\<close>, and the register images of \<open>BaseLib.h\<close>, where the same bytes are seen as
  double words, words and bytes.
\<close>

section \<open>Bit-fields in memory\<close>

text \<open>The first bit and the width of a bit-field in its run.\<close>

fun bits_start :: "(string \<times> nat) list \<Rightarrow> string \<Rightarrow> (nat \<times> nat) option" where
  "bits_start [] f = None"
| "bits_start ((g, w) # bs) f =
     (if g = f then Some (0, w) else map_option (\<lambda>(s, v). (w + s, v)) (bits_start bs f))"

text \<open>The offset and the size of the run of a bit-field, its first bit and its width.\<close>

fun bit_place ::
  "packing \<Rightarrow> nat \<Rightarrow> (string \<times> ctype) list \<Rightarrow> string \<Rightarrow> (nat \<times> nat \<times> nat \<times> nat) option" where
  "bit_place p n [] f = None"
| "bit_place p n ((g, t) # fs) f =
     (case (case t of Bits k bs \<Rightarrow> bits_start bs f | _ \<Rightarrow> None) of
        Some (s, w) \<Rightarrow> Some (place p n t, sizeof_type t, s, w)
      | None \<Rightarrow> bit_place p (place p n t + sizeof_type t) fs f)"

fun bit_member :: "ctype \<Rightarrow> string \<Rightarrow> (nat \<times> nat \<times> nat \<times> nat) option" where
  "bit_member (Struct p fs) f = bit_place p 0 fs f"
| "bit_member t f = None"

text \<open>Reading and assigning the bits \<open>s..s + w - 1\<close> of the \<open>k\<close> bytes at an address.\<close>

definition get_bits :: "mem \<Rightarrow> UINTN \<Rightarrow> nat \<Rightarrow> nat \<Rightarrow> nat \<Rightarrow> UINT64 res" where
  "get_bits m a k s w = bindr (load_bytes m a k) (\<lambda>bs. Inr (take_bit w (drop_bit s (le_word bs))))"

definition set_bits :: "mem \<Rightarrow> UINTN \<Rightarrow> nat \<Rightarrow> nat \<Rightarrow> nat \<Rightarrow> UINT64 \<Rightarrow> mem res" where
  "set_bits m a k s w v =
     bindr (load_bytes m a k) (\<lambda>bs.
       store_bytes m a (le_bytes k
         ((le_word bs AND NOT (push_bit s (mask w))) OR push_bit s (take_bit w v :: UINT64))))"

definition read_bits :: "mem \<Rightarrow> UINTN \<Rightarrow> ctype \<Rightarrow> string \<Rightarrow> UINT64 res" where
  "read_bits m a T f =
     (case bit_member T f of None \<Rightarrow> Inl BadAddress
      | Some (n, k, s, w) \<Rightarrow> get_bits m (a + of_nat n) k s w)"

definition assign_bits :: "mem \<Rightarrow> UINTN \<Rightarrow> ctype \<Rightarrow> string \<Rightarrow> UINT64 \<Rightarrow> mem res" where
  "assign_bits m a T f v =
     (case bit_member T f of None \<Rightarrow> Inl BadAddress
      | Some (n, k, s, w) \<Rightarrow> set_bits m (a + of_nat n) k s w v)"

section \<open>Where bit-fields are\<close>

lemma bits_start_bound: "bits_start bs f = Some (s, w) \<Longrightarrow> s + w \<le> sum_list (List.map snd bs)"
proof (induction bs arbitrary: s)
  case (Cons b bs)
  obtain g v where b: "b = (g, v)" by (cases b)
  show ?case using Cons.IH Cons.prems by (fastforce simp: b split: if_splits)
qed simp

lemma bits_start_apart:
  "f \<noteq> g \<Longrightarrow> bits_start bs f = Some (s, w) \<Longrightarrow> bits_start bs g = Some (r, v) \<Longrightarrow> s + w \<le> r \<or> r + v \<le> s"
proof (induction bs arbitrary: s r)
  case (Cons b bs)
  obtain h x where b: "b = (h, x)" by (cases b)
  show ?case using Cons by (fastforce simp: b split: if_splits)
qed simp

lemma bits_in_run: "bits_start bs f = Some (s, w) \<Longrightarrow> s + w \<le> 8 * bits_size bs"
  using bits_start_bound [of bs f s w] by (simp add: bits_size_def)

lemma bit_place_bound:
  "bit_place p n fs f = Some (q, k, s, w) \<Longrightarrow> n \<le> q \<and> q + k \<le> struct_end p n fs \<and> s + w \<le> 8 * k"
proof (induction fs arbitrary: n)
  case (Cons a fs)
  obtain g t where a: "a = (g, t)" by (cases a)
  show ?case
  proof (cases "case t of Bits k bs \<Rightarrow> bits_start bs f | _ \<Rightarrow> None")
    case None
    then show ?thesis
      using Cons.IH [of "place p n t + sizeof_type t"] Cons.prems place_le [of n p t] by (simp add: a)
  next
    case (Some x)
    then obtain j bs where "t = Bits j bs" "bits_start bs f = Some x" by (cases t) auto
    with Some Cons.prems show ?thesis
      using place_le [of n p t] struct_end_le [of "place p n t + sizeof_type t" p fs]
        bits_in_run [of bs f "fst x" "snd x"]
      by (auto simp: a)
  qed
qed simp

lemma bit_place_apart:
  assumes "f \<noteq> g" "bit_place p n fs f = Some (q, k, s, w)" "bit_place p n fs g = Some (q', k', s', w')"
  shows "q = q' \<and> k = k' \<and> (s + w \<le> s' \<or> s' + w' \<le> s) \<or> q + k \<le> q' \<or> q' + k' \<le> q"
  using assms(2,3)
proof (induction fs arbitrary: n)
  case (Cons a fs)
  obtain h t where a: "a = (h, t)" by (cases a)
  let ?b = "\<lambda>f. case t of Bits k bs \<Rightarrow> bits_start bs f | _ \<Rightarrow> None"
  let ?n = "place p n t + sizeof_type t"
  show ?case
  proof (cases "?b f"; cases "?b g")
    assume "?b f = None" "?b g = None"
    then show ?thesis using Cons by (simp add: a)
  next
    fix x assume "?b f = None" "?b g = Some x"
    then show ?thesis using Cons.prems bit_place_bound [of p ?n fs f] by (auto simp: a)
  next
    fix x assume "?b f = Some x" "?b g = None"
    then show ?thesis using Cons.prems bit_place_bound [of p ?n fs g] by (auto simp: a)
  next
    fix x y assume b: "?b f = Some x" "?b g = Some y"
    then obtain j bs where "bits_start bs f = Some x" "bits_start bs g = Some y" by (cases t) auto
    then have "fst x + snd x \<le> fst y \<or> fst y + snd y \<le> fst x"
      using bits_start_apart [OF assms(1), of bs "fst x" "snd x" "fst y" "snd y"] by simp
    then show ?thesis using Cons.prems b by (auto simp: a)
  qed
qed simp

lemma bit_member_bound:
  "bit_member T f = Some (n, k, s, w) \<Longrightarrow> n + k \<le> sizeof_type T \<and> s + w \<le> 8 * k"
proof (cases T)
  case (Struct p fs)
  assume "bit_member T f = Some (n, k, s, w)"
  then show ?thesis
    using bit_place_bound [of p 0 fs f n k s w] round_up_le [of "struct_end p 0 fs" "align_of T"]
    by (simp add: Struct)
qed simp_all

lemma bit_member_apart:
  "f \<noteq> g \<Longrightarrow> bit_member T f = Some (n, k, s, w) \<Longrightarrow> bit_member T g = Some (n', k', s', w') \<Longrightarrow>
   n = n' \<and> k = k' \<and> (s + w \<le> s' \<or> s' + w' \<le> s) \<or> n + k \<le> n' \<or> n' + k' \<le> n"
  using bit_place_apart [of f g] by (cases T) auto

section \<open>Reading after assigning\<close>

lemma set_bits_effect:
  assumes "buffer m d k" "k \<le> 8" "s + w \<le> 8 * k"
  shows "\<exists>bs. length bs = k \<and> set_bits m d k s w v = Inr (overlay m d bs) \<and>
    get_bits (overlay m d bs) d k s w = Inr (take_bit w v) \<and>
    (\<forall>r x. r + x \<le> 8 * k \<and> (s + w \<le> r \<or> r + x \<le> s) \<longrightarrow>
      get_bits (overlay m d bs) d k r x = get_bits m d k r x)"
proof -
  obtain cs where cs: "length cs = k" "bytes_at m d cs" using buffer_bytes [OF assms(1)] by blast
  let ?x = "le_word cs :: UINT64"
  let ?y = "(?x AND NOT (push_bit s (mask w))) OR push_bit s (take_bit w v)"
  let ?bs = "le_bytes k ?y"
  have "set_bits m d k s w v = Inr (overlay m d ?bs)"
    using cs load_bytes_iff [of m d k cs] store_bytes_buffer [OF assms(1), of ?bs] by (simp add: set_bits_def)
  moreover have get: "get_bits (overlay m d ?bs) d k r x = Inr (take_bit x (drop_bit r (take_bit (8 * k) ?y)))" for r x
  proof -
    have "load_bytes (overlay m d ?bs) d k = Inr ?bs"
      using bytes_at_overlay [OF assms(1), of ?bs] by (simp add: load_bytes_iff)
    then show ?thesis using le_word_narrow [of k ?y, where 'b = 64] by (simp add: get_bits_def)
  qed
  moreover have "take_bit w (drop_bit s (take_bit (8 * k) ?y)) = take_bit w v"
    using assms(2,3) by (intro bit_word_eqI) (auto simp: bit_simps)
  moreover have "get_bits (overlay m d ?bs) d k r x = get_bits m d k r x"
    if "r + x \<le> 8 * k \<and> (s + w \<le> r \<or> r + x \<le> s)" for r x
  proof -
    have "take_bit x (drop_bit r (take_bit (8 * k) ?y)) = take_bit x (drop_bit r ?x)"
      using that assms(2) by (intro bit_word_eqI) (auto simp: bit_simps)
    then show ?thesis using cs load_bytes_iff [of m d k cs] by (simp only: get) (simp add: get_bits_def)
  qed
  ultimately show ?thesis by (intro exI [of _ ?bs]) simp
qed

lemma bit_le_word:
  "n < LENGTH('a) \<Longrightarrow> n < LENGTH('b) \<Longrightarrow>
   bit (le_word bs :: 'a::len word) n = bit (le_word bs :: 'b::len word) n"
proof (induction bs arbitrary: n)
  case (Cons b bs)
  then show ?case using Cons.IH [of "n - 8"] by (auto simp: bit_simps)
qed simp

lemma load_bits:
  fixes x :: "'a::len word"
  assumes "load m d = Inr x" "LENGTH('a) = 8 * k" "Suc e = s + w" "s + w \<le> 8 * k" "k \<le> 8"
  shows "get_bits m d k s w = Inr (ucast (field_get x s e))"
proof -
  have k: "sizeof_word (0 :: 'a word) = k" using assms(2) by (simp add: sizeof_word_def)
  then obtain bs where bs: "load_bytes m d k = Inr bs" "x = le_word bs"
    using assms(1) by (auto simp: load_def bindr_eq_Inr_iff)
  have "take_bit w (drop_bit s (le_word bs :: UINT64)) = ucast (field_get x s e)"
    unfolding bs(2) using assms(2-5)
    by (intro bit_word_eqI)
      (auto simp: bit_simps bit_field_get bit_le_word [where 'a = 64 and 'b = 'a])
  with bs(1) show ?thesis by (simp add: get_bits_def)
qed

lemma store_bits:
  fixes x :: "'a::len word"
  assumes "load m d = Inr x" "LENGTH('a) = 8 * k" "Suc e = s + w" "s + w \<le> 8 * k" "k \<le> 8"
  shows "set_bits m d k s w v = store m d (field_set x s e (ucast v))"
proof -
  have k: "sizeof_word (0 :: 'a word) = k" using assms(2) by (simp add: sizeof_word_def)
  then obtain bs where bs: "load_bytes m d k = Inr bs" "x = le_word bs"
    using assms(1) by (auto simp: load_def bindr_eq_Inr_iff)
  let ?y = "(le_word bs AND NOT (push_bit s (mask w))) OR push_bit s (take_bit w v) :: UINT64"
  have "le_bytes k ?y = le_bytes k (field_set x s e (ucast v))"
    unfolding bs(2) using assms(2-5)
    by (intro le_bytes_cong)
      (auto simp: bit_simps bit_field_set bit_le_word [where 'a = 64 and 'b = 'a])
  then show ?thesis using bs(1) k by (simp add: set_bits_def store_def sizeof_word_def)
qed

section \<open>Properties\<close>

text \<open>
  Assigning a bit-field of any structure succeeds, it reads back as the value reduced to its
  width, every other bit-field of the structure keeps its value, in the same run or in
  another, and no byte outside the structure changes.
\<close>

lemma assign_bit_member:
  assumes "buffer m a (sizeof_type T)" "bit_member T f = Some (n, k, s, w)" "k \<le> 8"
  shows "\<exists>m'. assign_bits m a T f v = Inr m' \<and> read_bits m' a T f = Inr (take_bit w v) \<and>
    buffer m' a (sizeof_type T) \<and>
    (\<forall>g. g \<noteq> f \<longrightarrow> read_bits m' a T g = read_bits m a T g) \<and>
    (\<forall>b j. apart b j a (sizeof_type T) \<or> apart b j (a + of_nat n) k \<longrightarrow> load_bytes m' b j = load_bytes m b j)"
proof -
  have N: "sizeof_type T \<le> 2 ^ 64" using assms(1) by (simp add: buffer_def)
  have n: "n + k \<le> sizeof_type T" "s + w \<le> 8 * k" using bit_member_bound [OF assms(2)] by simp_all
  obtain bs where bs: "length bs = k" "set_bits m (a + of_nat n) k s w v = Inr (overlay m (a + of_nat n) bs)"
    "get_bits (overlay m (a + of_nat n) bs) (a + of_nat n) k s w = Inr (take_bit w v)"
    "\<And>r x. r + x \<le> 8 * k \<Longrightarrow> s + w \<le> r \<or> r + x \<le> s \<Longrightarrow>
      get_bits (overlay m (a + of_nat n) bs) (a + of_nat n) k r x = get_bits m (a + of_nat n) k r x"
    using set_bits_effect [OF buffer_part [OF assms(1) n(1)] assms(3) n(2), of v] by blast
  let ?m = "overlay m (a + of_nat n) bs"
  have "read_bits ?m a T g = read_bits m a T g" if fg: "g \<noteq> f" for g
  proof (cases "bit_member T g")
    case (Some q)
    obtain n' k' s' w' where q: "q = (n', k', s', w')" by (cases q)
    have g: "n' + k' \<le> sizeof_type T" "s' + w' \<le> 8 * k'" using bit_member_bound [of T g] Some q by simp_all
    consider "n = n'" "k = k'" "s + w \<le> s' \<or> s' + w' \<le> s" | "n + k \<le> n' \<or> n' + k' \<le> n"
      using bit_member_apart [OF fg [symmetric] assms(2)] Some q by blast
    then have "get_bits ?m (a + of_nat n') k' s' w' = get_bits m (a + of_nat n') k' s' w'"
    proof cases
      case 2
      have "apart (a + of_nat n') k' (a + of_nat n) k" by (rule parts_apart [OF N n(1) g(1) 2])
      then show ?thesis using bs(1) by (simp add: get_bits_def load_bytes_apart)
    qed (use bs(4) g(2) in simp)
    then show ?thesis using Some q by (simp add: read_bits_def)
  qed (simp add: read_bits_def)
  moreover have "load_bytes ?m b j = load_bytes m b j"
    if "apart b j a (sizeof_type T) \<or> apart b j (a + of_nat n) k" for b j
  proof -
    have "apart b j (a + of_nat n) k" using that part_apart [of b j a "sizeof_type T" n k] n(1) N by blast
    then show ?thesis using bs(1) by (simp add: load_bytes_apart)
  qed
  ultimately show ?thesis
    using bs(2,3) assms(2) buffer_overlay [OF assms(1)] by (auto simp: read_bits_def assign_bits_def)
qed

definition sample_bits :: ctype where
  "sample_bits = Struct Packed [(''Low'', UINT16), ('''', Bits 4 [(''Type'', 4), (''S'', 1), (''Limit'', 27)])]"

lemma sample_bits: "sizeof_type sample_bits = 6" "bit_member sample_bits ''Type'' = Some (2, 4, 0, 4)"
  by (simp_all add: sample_bits_def layouts place_def bits_size_def)

text \<open>
  The functions of \<open>BitField.c\<close> are the accesses to bit-field members that a compiler
  makes: for a member in a run of one, two or four bytes, reading it is \<open>BitFieldRead\<close> on the
  run, and assigning a value that fits is storing the result of \<open>BitFieldWrite\<close>.
\<close>

theorem bit_members_are_bit_fields:
  fixes x :: UINT8 and y :: UINT16 and z :: UINT32
  assumes "bit_member T f = Some (n, k, s, w)" "0 < w" "take_bit w v = v"
  shows "(k = 1 \<and> load m (a + of_nat n) = Inr x \<longrightarrow>
      read_bits m a T f = map_res ucast (BitFieldRead8 env x (of_nat s) (of_nat (s + w - 1))) \<and>
      assign_bits m a T f v =
        bindr (BitFieldWrite8 env x (of_nat s) (of_nat (s + w - 1)) (ucast v)) (store m (a + of_nat n))) \<and>
    (k = 2 \<and> load m (a + of_nat n) = Inr y \<longrightarrow>
      read_bits m a T f = map_res ucast (BitFieldRead16 env y (of_nat s) (of_nat (s + w - 1))) \<and>
      assign_bits m a T f v =
        bindr (BitFieldWrite16 env y (of_nat s) (of_nat (s + w - 1)) (ucast v)) (store m (a + of_nat n))) \<and>
    (k = 4 \<and> load m (a + of_nat n) = Inr z \<longrightarrow>
      read_bits m a T f = map_res ucast (BitFieldRead32 env z (of_nat s) (of_nat (s + w - 1))) \<and>
      assign_bits m a T f v =
        bindr (BitFieldWrite32 env z (of_nat s) (of_nat (s + w - 1)) (ucast v)) (store m (a + of_nat n)))"
proof -
  define e where "e = s + w - 1"
  have e: "Suc e = s + w" using assms(2) by (simp add: e_def)
  have b: "s + w \<le> 8 * k" using bit_member_bound [OF assms(1)] by simp
  have fits: "field_fits s e (ucast v :: 'b::len word)"
  proof -
    have "bit v i \<longrightarrow> i < w" for i using assms(3) by (metis bit_take_bit_iff)
    then show ?thesis using e by (fastforce simp: field_fits_bit bit_simps)
  qed
  have range: "(of_nat s :: UINTN) \<le> of_nat e" "unat (of_nat s :: UINTN) = s"
    "unat (of_nat e :: UINTN) = e" "e < 8 * k" if "k \<le> 8"
  proof -
    have i: "s < 2 ^ 64" "e < 2 ^ 64" "s \<le> e" using b e assms(2) that by simp_all
    then show "unat (of_nat s :: UINTN) = s" "unat (of_nat e :: UINTN) = e"
      by (simp_all only: unat_index)
    with i(3) show "(of_nat s :: UINTN) \<le> of_nat e" by (simp only: word_le_nat_alt)
    show "e < 8 * k" using b e by linarith
  qed
  note get = read_bits_def load_bits [OF _ _ e] and set = assign_bits_def store_bits [OF _ _ e]
  show ?thesis
    unfolding e_def [symmetric]
  proof (intro conjI impI; elim conjE)
    assume k: "k = 1" and l: "load m (a + of_nat n) = Inr x"
    show "read_bits m a T f = map_res ucast (BitFieldRead8 env x (of_nat s) (of_nat e))"
      using range b k l assms(1) by (simp add: get bf8.rd_get)
    show "assign_bits m a T f v =
        bindr (BitFieldWrite8 env x (of_nat s) (of_nat e) (ucast v)) (store m (a + of_nat n))"
      using range b k l assms(1) by (simp add: fits set bf8.write_set)
  next
    assume k: "k = 2" and l: "load m (a + of_nat n) = Inr y"
    show "read_bits m a T f = map_res ucast (BitFieldRead16 env y (of_nat s) (of_nat e))"
      using range b k l assms(1) by (simp add: get bf16.rd_get)
    show "assign_bits m a T f v =
        bindr (BitFieldWrite16 env y (of_nat s) (of_nat e) (ucast v)) (store m (a + of_nat n))"
      using range b k l assms(1) by (simp add: fits set bf16.write_set)
  next
    assume k: "k = 4" and l: "load m (a + of_nat n) = Inr z"
    show "read_bits m a T f = map_res ucast (BitFieldRead32 env z (of_nat s) (of_nat e))"
      using range b k l assms(1) by (simp add: get bf32.rd_get)
    show "assign_bits m a T f v =
        bindr (BitFieldWrite32 env z (of_nat s) (of_nat e) (ucast v)) (store m (a + of_nat n))"
      using range b k l assms(1) by (simp add: fits set bf32.write_set)
  qed
qed

theorem bit_members_are_bit_fields_witness:
  "read_bits (sample_mem 64 (replicate 16 255)) 64 sample_bits ''Type'' =
     map_res ucast (BitFieldRead32 debug_env 0xFFFFFFFF (of_nat 0) (of_nat (0 + 4 - 1)))"
proof -
  have l: "load (sample_mem 64 (replicate 16 255)) (64 + of_nat 2) = Inr (0xFFFFFFFF :: UINT32)" by code_simp
  have "take_bit 4 11 = (11 :: UINT64)" "(0 :: nat) < 4" by simp_all
  from bit_members_are_bit_fields [OF sample_bits(2) this(2,1), where m = "sample_mem 64 (replicate 16 255)"
      and a = 64 and z = "0xFFFFFFFF" and env = debug_env] l
  show ?thesis by blast
qed

section \<open>Register images\<close>

text \<open>The general registers with the names of their low word and of its two bytes.\<close>

definition byte_registers :: "(string \<times> string \<times> string \<times> string) list" where
  "byte_registers =
     [(''EAX'', ''AX'', ''AH'', ''AL''), (''EBX'', ''BX'', ''BH'', ''BL''),
      (''ECX'', ''CX'', ''CH'', ''CL''), (''EDX'', ''DX'', ''DH'', ''DL'')]"

lemma register_offset:
  "\<exists>p. p + 4 \<le> sizeof_type IA32_REGISTER_SET \<and>
     locate [Dot ''E'', Dot e] IA32_REGISTER_SET = Some (p, UINT32) \<and>
     locate [Dot ''X'', Dot x] IA32_REGISTER_SET = Some (p, UINT16) \<and>
     locate [Dot ''H'', Dot l] IA32_REGISTER_SET = Some (p, UINT8) \<and>
     locate [Dot ''H'', Dot h] IA32_REGISTER_SET = Some (p + 1, UINT8)"
  if "p + 4 \<le> 32"
    "locate [Dot ''E'', Dot e] IA32_REGISTER_SET = Some (p, UINT32)"
    "locate [Dot ''X'', Dot x] IA32_REGISTER_SET = Some (p, UINT16)"
    "locate [Dot ''H'', Dot l] IA32_REGISTER_SET = Some (p, UINT8)"
    "locate [Dot ''H'', Dot h] IA32_REGISTER_SET = Some (p + 1, UINT8)"
proof -
  have "32 \<le> sizeof_type IA32_REGISTER_SET" by code_simp
  with that show ?thesis by (meson order_trans)
qed

lemma register_offsets:
  "(e, x, h, l) \<in> set byte_registers \<Longrightarrow>
   \<exists>p. p + 4 \<le> sizeof_type IA32_REGISTER_SET \<and>
     locate [Dot ''E'', Dot e] IA32_REGISTER_SET = Some (p, UINT32) \<and>
     locate [Dot ''X'', Dot x] IA32_REGISTER_SET = Some (p, UINT16) \<and>
     locate [Dot ''H'', Dot l] IA32_REGISTER_SET = Some (p, UINT8) \<and>
     locate [Dot ''H'', Dot h] IA32_REGISTER_SET = Some (p + 1, UINT8)"
proof -
  assume "(e, x, h, l) \<in> set byte_registers"
  then consider "(e, x, h, l) = (''EAX'', ''AX'', ''AH'', ''AL'')" | "(e, x, h, l) = (''EBX'', ''BX'', ''BH'', ''BL'')"
    | "(e, x, h, l) = (''ECX'', ''CX'', ''CH'', ''CL'')" | "(e, x, h, l) = (''EDX'', ''DX'', ''DH'', ''DL'')"
    by (auto simp: byte_registers_def)
  then show ?thesis
  proof cases
    case 1
    have "locate [Dot ''E'', Dot ''EAX''] IA32_REGISTER_SET = Some (28, UINT32)"
      "locate [Dot ''X'', Dot ''AX''] IA32_REGISTER_SET = Some (28, UINT16)"
      "locate [Dot ''H'', Dot ''AL''] IA32_REGISTER_SET = Some (28, UINT8)"
      "locate [Dot ''H'', Dot ''AH''] IA32_REGISTER_SET = Some (28 + 1, UINT8)" by code_simp+
    with 1 show ?thesis using register_offset [of 28] by simp
  next
    case 2
    have "locate [Dot ''E'', Dot ''EBX''] IA32_REGISTER_SET = Some (16, UINT32)"
      "locate [Dot ''X'', Dot ''BX''] IA32_REGISTER_SET = Some (16, UINT16)"
      "locate [Dot ''H'', Dot ''BL''] IA32_REGISTER_SET = Some (16, UINT8)"
      "locate [Dot ''H'', Dot ''BH''] IA32_REGISTER_SET = Some (16 + 1, UINT8)" by code_simp+
    with 2 show ?thesis using register_offset [of 16] by simp
  next
    case 3
    have "locate [Dot ''E'', Dot ''ECX''] IA32_REGISTER_SET = Some (24, UINT32)"
      "locate [Dot ''X'', Dot ''CX''] IA32_REGISTER_SET = Some (24, UINT16)"
      "locate [Dot ''H'', Dot ''CL''] IA32_REGISTER_SET = Some (24, UINT8)"
      "locate [Dot ''H'', Dot ''CH''] IA32_REGISTER_SET = Some (24 + 1, UINT8)" by code_simp+
    with 3 show ?thesis using register_offset [of 24] by simp
  next
    case 4
    have "locate [Dot ''E'', Dot ''EDX''] IA32_REGISTER_SET = Some (20, UINT32)"
      "locate [Dot ''X'', Dot ''DX''] IA32_REGISTER_SET = Some (20, UINT16)"
      "locate [Dot ''H'', Dot ''DL''] IA32_REGISTER_SET = Some (20, UINT8)"
      "locate [Dot ''H'', Dot ''DH''] IA32_REGISTER_SET = Some (20 + 1, UINT8)" by code_simp+
    with 4 show ?thesis using register_offset [of 20] by simp
  qed
qed

lemma overlay_inside:
  assumes "buffer m d n" "length bs = n" "i + length cs \<le> n"
  shows "bytes_at (overlay (overlay m d bs) (d + of_nat i) cs) d (take i bs @ cs @ drop (i + length cs) bs)"
  unfolding bytes_at_nth
proof (intro allI impI conjI)
  fix j assume "j < length (take i bs @ cs @ drop (i + length cs) bs)"
  then have j: "j < n" using assms(2,3) by simp
  then show "d + of_nat j \<noteq> NULL" using assms(1) by (simp add: buffer_def)
  have N: "n \<le> 2 ^ 64" using assms(1) by (simp add: buffer_def)
  have u: "unat (of_nat j :: UINTN) = j" using j N by (intro unat_index) simp
  show "overlay (overlay m d bs) (d + of_nat i) cs (d + of_nat j) =
      Some ((take i bs @ cs @ drop (i + length cs) bs) ! j)"
  proof (cases "i < n")
    case True
    have "unat ((d + of_nat j) - (d + of_nat i)) = (if i \<le> j then j - i else j + 2 ^ 64 - i)"
      by (rule part_index [OF N True j])
    then show ?thesis
      using assms(2,3) True N j u by (auto simp: overlay_def nth_append min_def)
  next
    case False
    then have "cs = []" using assms(3) by (cases cs) auto
    then show ?thesis using False assms(2,3) j u by (simp add: overlay_def)
  qed
qed

lemma replace_byte:
  fixes v :: UINT32 and b :: UINT8
  shows "le_word (take 1 [ucast v, ucast (drop_bit 8 v), ucast (drop_bit 16 v), ucast (drop_bit 24 v)] @ le_bytes 1 b @
      drop 2 [ucast v, ucast (drop_bit 8 v), ucast (drop_bit 16 v), ucast (drop_bit 24 v)]) =
    ((v AND NOT (push_bit 8 (mask 8))) OR push_bit 8 (ucast b) :: UINT32)"
proof -
  have "le_word [ucast v, b, ucast (drop_bit 16 v), ucast (drop_bit 24 v)] =
      ((v AND NOT (push_bit 8 (mask 8))) OR push_bit 8 (ucast b) :: UINT32)" (is "?l = ?r")
  proof (rule bit_word_eqI)
    fix n assume "n < LENGTH(32)"
    then consider "n < 8" | "8 \<le> n" "n < 16" | "16 \<le> n" "n < 24" | "24 \<le> n" "n < 32" by fastforce
    then show "bit ?l n = bit ?r n" by cases (auto simp: bit_simps)
  qed
  then show ?thesis by simp
qed

text \<open>
  The register images: after a double word is assigned to a general register, its word
  and byte views read the low word, the low byte and the byte above it, and assigning the
  high byte afterwards replaces exactly bits 8 to 15 of the double word.
\<close>

theorem register_views:
  fixes v :: UINT32 and b :: UINT8
  assumes "buffer m a (sizeof_type IA32_REGISTER_SET)" "(e, x, h, l) \<in> set byte_registers"
  shows "\<exists>p m1 m2. locate [Dot ''E'', Dot e] IA32_REGISTER_SET = Some (p, UINT32) \<and>
    locate [Dot ''X'', Dot x] IA32_REGISTER_SET = Some (p, UINT16) \<and>
    locate [Dot ''H'', Dot l] IA32_REGISTER_SET = Some (p, UINT8) \<and>
    locate [Dot ''H'', Dot h] IA32_REGISTER_SET = Some (p + 1, UINT8) \<and>
    store m (a + of_nat p) v = Inr m1 \<and>
    load m1 (a + of_nat p) = Inr (ucast v :: UINT16) \<and> load m1 (a + of_nat p) = Inr (ucast v :: UINT8) \<and>
    load m1 (a + of_nat (p + 1)) = Inr (ucast (drop_bit 8 v) :: UINT8) \<and>
    store m1 (a + of_nat (p + 1)) b = Inr m2 \<and>
    load m2 (a + of_nat p) = Inr ((v AND NOT 0xFF00) OR push_bit 8 (ucast b))"
proof -
  obtain p where p: "p + 4 \<le> sizeof_type IA32_REGISTER_SET"
    and loc: "locate [Dot ''E'', Dot e] IA32_REGISTER_SET = Some (p, UINT32)"
    "locate [Dot ''X'', Dot x] IA32_REGISTER_SET = Some (p, UINT16)"
    "locate [Dot ''H'', Dot l] IA32_REGISTER_SET = Some (p, UINT8)"
    "locate [Dot ''H'', Dot h] IA32_REGISTER_SET = Some (p + 1, UINT8)"
    using register_offsets [OF assms(2)] by blast
  let ?d = "a + of_nat p" and ?bs = "le_bytes 4 v"
  have s: "sizeof_word v = 4" "sizeof_word b = 1" "sizeof_word (0 :: UINT16) = 2" "sizeof_word (0 :: UINT8) = 1"
    "sizeof_word (0 :: UINT32) = 4" by (simp_all add: sizeof_word_def)
  have d: "buffer m ?d 4" by (rule buffer_part [OF assms(1) p])
  let ?m1 = "overlay m ?d ?bs"
  have m1: "store m ?d v = Inr ?m1" using store_part [OF assms(1), of p v] p s by simp
  have at: "bytes_at ?m1 ?d ?bs" by (rule bytes_at_overlay [OF d]) simp
  have v1: "load ?m1 ?d = Inr (ucast v :: UINT16)" "load ?m1 ?d = Inr (ucast v :: UINT8)"
    "load ?m1 (?d + of_nat 1) = Inr (ucast (drop_bit 8 v) :: UINT8)"
    using load_view [OF at, of 0, where 'b = 16] load_view [OF at, of 0, where 'b = 8]
      load_view [OF at, of 1, where 'b = 8] s
    by (simp_all add: take_bit_word_eq_self)
  let ?m2 = "overlay ?m1 (?d + of_nat 1) (le_bytes 1 b)"
  have m2: "store ?m1 (?d + of_nat 1) b = Inr ?m2"
    using store_part [OF buffer_overlay [OF d], of 1 b] s by simp
  have "bytes_at ?m2 ?d (take 1 ?bs @ le_bytes 1 b @ drop 2 ?bs)"
    using overlay_inside [OF d, of ?bs 1 "le_bytes 1 b"] by (simp add: numeral_2_eq_2)
  then have "load ?m2 ?d = Inr (le_word (take 1 ?bs @ le_bytes 1 b @ drop 2 ?bs) :: UINT32)"
    by (rule load_at) (simp add: s)
  moreover have "le_word (take 1 ?bs @ le_bytes 1 b @ drop 2 ?bs) = (v AND NOT 0xFF00) OR push_bit 8 (ucast b)"
  proof -
    have "(0xFF00 :: UINT32) = push_bit 8 (mask 8)" by (simp add: mask_eq_exp_minus_1 push_bit_eq_mult)
    then show ?thesis by (simp only: le_bytes_4 replace_byte)
  qed
  ultimately have v2: "load ?m2 ?d = Inr ((v AND NOT 0xFF00) OR push_bit 8 (ucast b))" by (simp only:)
  have p1: "a + of_nat (p + 1) = ?d + of_nat 1" by simp
  show ?thesis
    unfolding p1 [symmetric]
    by (rule exI [of _ p], rule exI [of _ ?m1], rule exI [of _ ?m2]) (simp only: p1 loc m1 m2 v1 v2 simp_thms)
qed

theorem register_views_witness:
  "\<exists>m1. store (sample_mem 64 (replicate 60 0)) (64 + of_nat 28) (0x12345678 :: UINT32) = Inr m1 \<and>
    load m1 (64 + of_nat (28 + 1)) = Inr (0x56 :: UINT8)"
proof -
  have size: "sizeof_type IA32_REGISTER_SET = 56" by code_simp
  have b: "buffer (sample_mem 64 (replicate 60 0)) 64 (sizeof_type IA32_REGISTER_SET)"
    using sample_buffer [of 64 "replicate 60 0" 0 56] size by simp
  have r: "(''EAX'', ''AX'', ''AH'', ''AL'') \<in> set byte_registers" by (simp add: byte_registers_def)
  have l: "locate [Dot ''X'', Dot ''AX''] IA32_REGISTER_SET = Some (28, UINT16)" by code_simp
  have v: "ucast (drop_bit 8 (0x12345678 :: UINT32)) = (0x56 :: UINT8)" by (simp add: drop_bit_eq_div)
  from register_views [OF b r, of "0x12345678"] obtain p m1 where
    "locate [Dot ''X'', Dot ''AX''] IA32_REGISTER_SET = Some (p, UINT16)"
    "store (sample_mem 64 (replicate 60 0)) (64 + of_nat p) (0x12345678 :: UINT32) = Inr m1"
    "load m1 (64 + of_nat (p + 1)) = Inr (ucast (drop_bit 8 (0x12345678 :: UINT32)) :: UINT8)"
    by blast
  moreover from this(1) l have "p = 28" by simp
  ultimately show ?thesis unfolding v by blast
qed

end
