(* ===== verification/Protocol_Codes.thy ===== *)
theory Protocol_Codes imports Main begin

text \<open>
  Codes of the formats that the headers describe: package, block and op-codes of forms
  (\<open>UefiInternalFormRepresentation.h\<close>), types and subtypes of device path nodes
  (\<open>DevicePath.h\<close>), commands, flags and status values of network interfaces (\<open>UefiPxe.h\<close>) and
  op-codes of the ACPI machine language (\<open>AcpiAml.h\<close>). A run of macros is a list of names,
  without their common prefix and suffix, and values.
\<close>

named_theorems codes \<open>definitions of codes\<close>

type_synonym codes = "(string \<times> nat) list"

section \<open>UefiInternalFormRepresentation.h\<close>

definition hii_package_types :: codes where [codes]:
  "hii_package_types =
     [(''TYPE_ALL'', 0), (''TYPE_GUID'', 1), (''FORMS'', 2), (''STRINGS'', 4), (''FONTS'', 5),
      (''IMAGES'', 6), (''SIMPLE_FONTS'', 7), (''DEVICE_PATH'', 8), (''KEYBOARD_LAYOUT'', 9),
      (''ANIMATIONS'', 0xA), (''END'', 0xDF), (''TYPE_SYSTEM_BEGIN'', 0xE0),
      (''TYPE_SYSTEM_END'', 0xFF)]"

definition hii_font_styles :: codes where [codes]:
  "hii_font_styles =
     [(''NORMAL'', 0), (''BOLD'', 1), (''ITALIC'', 2), (''EMBOSS'', 0x10000),
      (''OUTLINE'', 0x20000), (''SHADOW'', 0x40000), (''UNDERLINE'', 0x80000),
      (''DBL_UNDER'', 0x100000)]"

definition glyph_block_types :: codes where [codes]:
  "glyph_block_types =
     [(''END'', 0), (''GLYPH'', 0x10), (''GLYPHS'', 0x11), (''GLYPH_DEFAULT'', 0x12),
      (''GLYPHS_DEFAULT'', 0x13), (''GLYPH_VARIABILITY'', 0x14), (''DUPLICATE'', 0x20),
      (''SKIP2'', 0x21), (''SKIP1'', 0x22), (''DEFAULTS'', 0x23), (''EXT1'', 0x30),
      (''EXT2'', 0x31), (''EXT4'', 0x32)]"

definition string_block_types :: codes where [codes]:
  "string_block_types =
     [(''END'', 0), (''STRING_SCSU'', 0x10), (''STRING_SCSU_FONT'', 0x11),
      (''STRINGS_SCSU'', 0x12), (''STRINGS_SCSU_FONT'', 0x13), (''STRING_UCS2'', 0x14),
      (''STRING_UCS2_FONT'', 0x15), (''STRINGS_UCS2'', 0x16), (''STRINGS_UCS2_FONT'', 0x17),
      (''DUPLICATE'', 0x20), (''SKIP2'', 0x21), (''SKIP1'', 0x22), (''EXT1'', 0x30),
      (''EXT2'', 0x31), (''EXT4'', 0x32), (''FONT'', 0x40)]"

definition image_block_types :: codes where [codes]:
  "image_block_types =
     [(''END'', 0), (''IMAGE_1BIT'', 0x10), (''IMAGE_1BIT_TRANS'', 0x11),
      (''IMAGE_4BIT'', 0x12), (''IMAGE_4BIT_TRANS'', 0x13), (''IMAGE_8BIT'', 0x14),
      (''IMAGE_8BIT_TRANS'', 0x15), (''IMAGE_24BIT'', 0x16), (''IMAGE_24BIT_TRANS'', 0x17),
      (''IMAGE_JPEG'', 0x18), (''IMAGE_PNG'', 0x19), (''DUPLICATE'', 0x20), (''SKIP2'', 0x21),
      (''SKIP1'', 0x22), (''EXT1'', 0x30), (''EXT2'', 0x31), (''EXT4'', 0x32)]"

definition animation_block_types :: codes where [codes]:
  "animation_block_types =
     [(''END'', 0), (''OVERLAY_IMAGES'', 0x10), (''CLEAR_IMAGES'', 0x11),
      (''RESTORE_SCRN'', 0x12), (''OVERLAY_IMAGES_LOOP'', 0x18), (''CLEAR_IMAGES_LOOP'', 0x19),
      (''RESTORE_SCRN_LOOP'', 0x1A), (''DUPLICATE'', 0x20), (''SKIP2'', 0x21),
      (''SKIP1'', 0x22), (''EXT1'', 0x30), (''EXT2'', 0x31), (''EXT4'', 0x32)]"

definition ifr_opcodes :: codes where [codes]:
  "ifr_opcodes =
     [(''FORM'', 1), (''SUBTITLE'', 2), (''TEXT'', 3), (''IMAGE'', 4), (''ONE_OF'', 5),
      (''CHECKBOX'', 6), (''NUMERIC'', 7), (''PASSWORD'', 8), (''ONE_OF_OPTION'', 9),
      (''SUPPRESS_IF'', 0xA), (''LOCKED'', 0xB), (''ACTION'', 0xC), (''RESET_BUTTON'', 0xD),
      (''FORM_SET'', 0xE), (''REF'', 0xF), (''NO_SUBMIT_IF'', 0x10),
      (''INCONSISTENT_IF'', 0x11), (''EQ_ID_VAL'', 0x12), (''EQ_ID_ID'', 0x13),
      (''EQ_ID_VAL_LIST'', 0x14), (''AND'', 0x15), (''OR'', 0x16), (''NOT'', 0x17),
      (''RULE'', 0x18), (''GRAY_OUT_IF'', 0x19), (''DATE'', 0x1A), (''TIME'', 0x1B),
      (''STRING'', 0x1C), (''REFRESH'', 0x1D), (''DISABLE_IF'', 0x1E), (''ANIMATION'', 0x1F),
      (''TO_LOWER'', 0x20), (''TO_UPPER'', 0x21), (''MAP'', 0x22), (''ORDERED_LIST'', 0x23),
      (''VARSTORE'', 0x24), (''VARSTORE_NAME_VALUE'', 0x25), (''VARSTORE_EFI'', 0x26),
      (''VARSTORE_DEVICE'', 0x27), (''VERSION'', 0x28), (''END'', 0x29), (''MATCH'', 0x2A),
      (''GET'', 0x2B), (''SET'', 0x2C), (''READ'', 0x2D), (''WRITE'', 0x2E), (''EQUAL'', 0x2F),
      (''NOT_EQUAL'', 0x30), (''GREATER_THAN'', 0x31), (''GREATER_EQUAL'', 0x32),
      (''LESS_THAN'', 0x33), (''LESS_EQUAL'', 0x34), (''BITWISE_AND'', 0x35),
      (''BITWISE_OR'', 0x36), (''BITWISE_NOT'', 0x37), (''SHIFT_LEFT'', 0x38),
      (''SHIFT_RIGHT'', 0x39), (''ADD'', 0x3A), (''SUBTRACT'', 0x3B), (''MULTIPLY'', 0x3C),
      (''DIVIDE'', 0x3D), (''MODULO'', 0x3E), (''RULE_REF'', 0x3F), (''QUESTION_REF1'', 0x40),
      (''QUESTION_REF2'', 0x41), (''UINT8'', 0x42), (''UINT16'', 0x43), (''UINT32'', 0x44),
      (''UINT64'', 0x45), (''TRUE'', 0x46), (''FALSE'', 0x47), (''TO_UINT'', 0x48),
      (''TO_STRING'', 0x49), (''TO_BOOLEAN'', 0x4A), (''MID'', 0x4B), (''FIND'', 0x4C),
      (''TOKEN'', 0x4D), (''STRING_REF1'', 0x4E), (''STRING_REF2'', 0x4F),
      (''CONDITIONAL'', 0x50), (''QUESTION_REF3'', 0x51), (''ZERO'', 0x52), (''ONE'', 0x53),
      (''ONES'', 0x54), (''UNDEFINED'', 0x55), (''LENGTH'', 0x56), (''DUP'', 0x57),
      (''THIS'', 0x58), (''SPAN'', 0x59), (''VALUE'', 0x5A), (''DEFAULT'', 0x5B),
      (''DEFAULTSTORE'', 0x5C), (''FORM_MAP'', 0x5D), (''CATENATE'', 0x5E), (''GUID'', 0x5F),
      (''SECURITY'', 0x60), (''MODAL_TAG'', 0x61), (''REFRESH_ID'', 0x62),
      (''WARNING_IF'', 0x63), (''MATCH2'', 0x64)]"

definition ifr_question_flags :: codes where [codes]:
  "ifr_question_flags =
     [(''READ_ONLY'', 1), (''CALLBACK'', 4), (''RESET_REQUIRED'', 0x10), (''REST_STYLE'', 0x20),
      (''RECONNECT_REQUIRED'', 0x40), (''OPTIONS_ONLY'', 0x80)]"

definition ifr_default_classes :: codes where [codes]:
  "ifr_default_classes =
     [(''STANDARD'', 0), (''MANUFACTURING'', 1), (''SAFE'', 2), (''PLATFORM_BEGIN'', 0x4000),
      (''PLATFORM_END'', 0x7FFF), (''HARDWARE_BEGIN'', 0x8000), (''HARDWARE_END'', 0xBFFF),
      (''FIRMWARE_BEGIN'', 0xC000), (''FIRMWARE_END'', 0xFFFF)]"

definition ifr_value_types :: codes where [codes]:
  "ifr_value_types =
     [(''NUM_SIZE_8'', 0), (''NUM_SIZE_16'', 1), (''NUM_SIZE_32'', 2), (''NUM_SIZE_64'', 3),
      (''BOOLEAN'', 4), (''TIME'', 5), (''DATE'', 6), (''STRING'', 7), (''OTHER'', 8),
      (''UNDEFINED'', 9), (''ACTION'', 0xA), (''BUFFER'', 0xB), (''REF'', 0xC)]"

definition keyboard_modifiers :: codes where [codes]:
  "keyboard_modifiers =
     [(''NULL'', 0), (''LEFT_CONTROL'', 1), (''RIGHT_CONTROL'', 2), (''LEFT_ALT'', 3),
      (''RIGHT_ALT'', 4), (''ALT_GR'', 5), (''INSERT'', 6), (''DELETE'', 7), (''PAGE_DOWN'', 8),
      (''PAGE_UP'', 9), (''HOME'', 0xA), (''END'', 0xB), (''LEFT_SHIFT'', 0xC),
      (''RIGHT_SHIFT'', 0xD), (''CAPS_LOCK'', 0xE), (''NUM_LOCK'', 0xF), (''LEFT_ARROW'', 0x10),
      (''RIGHT_ARROW'', 0x11), (''DOWN_ARROW'', 0x12), (''UP_ARROW'', 0x13), (''NS_KEY'', 0x14),
      (''NS_KEY_DEPENDENCY'', 0x15), (''FUNCTION_KEY_ONE'', 0x16), (''FUNCTION_KEY_TWO'', 0x17),
      (''FUNCTION_KEY_THREE'', 0x18), (''FUNCTION_KEY_FOUR'', 0x19),
      (''FUNCTION_KEY_FIVE'', 0x1A), (''FUNCTION_KEY_SIX'', 0x1B),
      (''FUNCTION_KEY_SEVEN'', 0x1C), (''FUNCTION_KEY_EIGHT'', 0x1D),
      (''FUNCTION_KEY_NINE'', 0x1E), (''FUNCTION_KEY_TEN'', 0x1F),
      (''FUNCTION_KEY_ELEVEN'', 0x20), (''FUNCTION_KEY_TWELVE'', 0x21), (''PRINT'', 0x22),
      (''SYS_REQUEST'', 0x23), (''SCROLL_LOCK'', 0x24), (''PAUSE'', 0x25), (''BREAK'', 0x26),
      (''LEFT_LOGO'', 0x27), (''RIGHT_LOGO'', 0x28), (''MENU'', 0x29)]"

section \<open>DevicePath.h\<close>

definition HARDWARE_DEVICE_PATH :: nat where [codes]:
  "HARDWARE_DEVICE_PATH = 1"

definition HW_PCI_DP :: nat where [codes]:
  "HW_PCI_DP = 1"

definition HW_PCCARD_DP :: nat where [codes]:
  "HW_PCCARD_DP = 2"

definition HW_MEMMAP_DP :: nat where [codes]:
  "HW_MEMMAP_DP = 3"

definition HW_VENDOR_DP :: nat where [codes]:
  "HW_VENDOR_DP = 4"

definition HW_CONTROLLER_DP :: nat where [codes]:
  "HW_CONTROLLER_DP = 5"

definition HW_BMC_DP :: nat where [codes]:
  "HW_BMC_DP = 6"

definition ACPI_DEVICE_PATH :: nat where [codes]:
  "ACPI_DEVICE_PATH = 2"

definition ACPI_DP :: nat where [codes]:
  "ACPI_DP = 1"

definition ACPI_EXTENDED_DP :: nat where [codes]:
  "ACPI_EXTENDED_DP = 2"

definition ACPI_ADR_DP :: nat where [codes]:
  "ACPI_ADR_DP = 3"

definition ACPI_NVDIMM_DP :: nat where [codes]:
  "ACPI_NVDIMM_DP = 4"

definition MESSAGING_DEVICE_PATH :: nat where [codes]:
  "MESSAGING_DEVICE_PATH = 3"

definition MSG_ATAPI_DP :: nat where [codes]:
  "MSG_ATAPI_DP = 1"

definition MSG_SCSI_DP :: nat where [codes]:
  "MSG_SCSI_DP = 2"

definition MSG_FIBRECHANNEL_DP :: nat where [codes]:
  "MSG_FIBRECHANNEL_DP = 3"

definition MSG_FIBRECHANNELEX_DP :: nat where [codes]:
  "MSG_FIBRECHANNELEX_DP = 0x15"

definition MSG_1394_DP :: nat where [codes]:
  "MSG_1394_DP = 4"

definition MSG_USB_DP :: nat where [codes]:
  "MSG_USB_DP = 5"

definition MSG_USB_CLASS_DP :: nat where [codes]:
  "MSG_USB_CLASS_DP = 0xF"

definition MSG_USB_WWID_DP :: nat where [codes]:
  "MSG_USB_WWID_DP = 0x10"

definition MSG_DEVICE_LOGICAL_UNIT_DP :: nat where [codes]:
  "MSG_DEVICE_LOGICAL_UNIT_DP = 0x11"

definition MSG_SATA_DP :: nat where [codes]:
  "MSG_SATA_DP = 0x12"

definition MSG_I2O_DP :: nat where [codes]:
  "MSG_I2O_DP = 6"

definition MSG_MAC_ADDR_DP :: nat where [codes]:
  "MSG_MAC_ADDR_DP = 0xB"

definition MSG_IPv4_DP :: nat where [codes]:
  "MSG_IPv4_DP = 0xC"

definition MSG_IPv6_DP :: nat where [codes]:
  "MSG_IPv6_DP = 0xD"

definition MSG_INFINIBAND_DP :: nat where [codes]:
  "MSG_INFINIBAND_DP = 9"

definition MSG_UART_DP :: nat where [codes]:
  "MSG_UART_DP = 0xE"

definition NVDIMM_NAMESPACE_DP :: nat where [codes]:
  "NVDIMM_NAMESPACE_DP = 0x20"

definition MSG_VENDOR_DP :: nat where [codes]:
  "MSG_VENDOR_DP = 0xA"

definition MSG_SASEX_DP :: nat where [codes]:
  "MSG_SASEX_DP = 0x16"

definition MSG_NVME_NAMESPACE_DP :: nat where [codes]:
  "MSG_NVME_NAMESPACE_DP = 0x17"

definition MSG_DNS_DP :: nat where [codes]:
  "MSG_DNS_DP = 0x1F"

definition MSG_URI_DP :: nat where [codes]:
  "MSG_URI_DP = 0x18"

definition MSG_UFS_DP :: nat where [codes]:
  "MSG_UFS_DP = 0x19"

definition MSG_SD_DP :: nat where [codes]:
  "MSG_SD_DP = 0x1A"

definition MSG_EMMC_DP :: nat where [codes]:
  "MSG_EMMC_DP = 0x1D"

definition MSG_ISCSI_DP :: nat where [codes]:
  "MSG_ISCSI_DP = 0x13"

definition MSG_VLAN_DP :: nat where [codes]:
  "MSG_VLAN_DP = 0x14"

definition MSG_BLUETOOTH_DP :: nat where [codes]:
  "MSG_BLUETOOTH_DP = 0x1B"

definition MSG_WIFI_DP :: nat where [codes]:
  "MSG_WIFI_DP = 0x1C"

definition MSG_BLUETOOTH_LE_DP :: nat where [codes]:
  "MSG_BLUETOOTH_LE_DP = 0x1E"

definition MEDIA_DEVICE_PATH :: nat where [codes]:
  "MEDIA_DEVICE_PATH = 4"

definition MEDIA_HARDDRIVE_DP :: nat where [codes]:
  "MEDIA_HARDDRIVE_DP = 1"

definition MEDIA_CDROM_DP :: nat where [codes]:
  "MEDIA_CDROM_DP = 2"

definition MEDIA_VENDOR_DP :: nat where [codes]:
  "MEDIA_VENDOR_DP = 3"

definition MEDIA_FILEPATH_DP :: nat where [codes]:
  "MEDIA_FILEPATH_DP = 4"

definition MEDIA_PROTOCOL_DP :: nat where [codes]:
  "MEDIA_PROTOCOL_DP = 5"

definition MEDIA_PIWG_FW_FILE_DP :: nat where [codes]:
  "MEDIA_PIWG_FW_FILE_DP = 6"

definition MEDIA_PIWG_FW_VOL_DP :: nat where [codes]:
  "MEDIA_PIWG_FW_VOL_DP = 7"

definition MEDIA_RELATIVE_OFFSET_RANGE_DP :: nat where [codes]:
  "MEDIA_RELATIVE_OFFSET_RANGE_DP = 8"

definition MEDIA_RAM_DISK_DP :: nat where [codes]:
  "MEDIA_RAM_DISK_DP = 9"

definition BBS_DEVICE_PATH :: nat where [codes]:
  "BBS_DEVICE_PATH = 5"

definition BBS_BBS_DP :: nat where [codes]:
  "BBS_BBS_DP = 1"

definition END_DEVICE_PATH_TYPE :: nat where [codes]:
  "END_DEVICE_PATH_TYPE = 0x7F"

definition END_ENTIRE_DEVICE_PATH_SUBTYPE :: nat where [codes]:
  "END_ENTIRE_DEVICE_PATH_SUBTYPE = 0xFF"

definition END_INSTANCE_DEVICE_PATH_SUBTYPE :: nat where [codes]:
  "END_INSTANCE_DEVICE_PATH_SUBTYPE = 1"

definition infiniband_flags :: codes where [codes]:
  "infiniband_flags =
     [(''IOC_SERVICE'', 1), (''EXTENDED_BOOT_ENVIRONMENT'', 2), (''CONSOLE_PROTOCOL'', 4),
      (''STORAGE_PROTOCOL'', 8), (''NETWORK_PROTOCOL'', 0x10)]"

definition bbs_types :: codes where [codes]:
  "bbs_types =
     [(''FLOPPY'', 1), (''HARDDRIVE'', 2), (''CDROM'', 3), (''PCMCIA'', 4), (''USB'', 5),
      (''EMBEDDED_NETWORK'', 6), (''BEV'', 0x80), (''UNKNOWN'', 0xFF)]"

section \<open>UefiPxe.h\<close>

definition undi_opcodes :: codes where [codes]:
  "undi_opcodes =
     [(''GET_STATE'', 0), (''START'', 1), (''STOP'', 2), (''GET_INIT_INFO'', 3),
      (''GET_CONFIG_INFO'', 4), (''INITIALIZE'', 5), (''RESET'', 6), (''SHUTDOWN'', 7),
      (''INTERRUPT_ENABLES'', 8), (''RECEIVE_FILTERS'', 9), (''STATION_ADDRESS'', 0xA),
      (''STATISTICS'', 0xB), (''MCAST_IP_TO_MAC'', 0xC), (''NVDATA'', 0xD),
      (''GET_STATUS'', 0xE), (''FILL_HEADER'', 0xF), (''TRANSMIT'', 0x10), (''RECEIVE'', 0x11)]"

definition first_undi_opflags :: codes where [codes]:
  "first_undi_opflags =
     [(''NOT_USED'', 0), (''INITIALIZE_CABLE_DETECT_MASK'', 1), (''INITIALIZE_DETECT_CABLE'', 0),
      (''INITIALIZE_DO_NOT_DETECT_CABLE'', 1), (''RESET_DISABLE_INTERRUPTS'', 1),
      (''RESET_DISABLE_FILTERS'', 2), (''INTERRUPT_OPMASK'', 0xC000),
      (''INTERRUPT_ENABLE'', 0x8000), (''INTERRUPT_DISABLE'', 0x4000), (''INTERRUPT_READ'', 0),
      (''INTERRUPT_RECEIVE'', 1), (''INTERRUPT_TRANSMIT'', 2), (''INTERRUPT_COMMAND'', 4),
      (''INTERRUPT_SOFTWARE'', 8), (''RECEIVE_FILTER_OPMASK'', 0xC000),
      (''RECEIVE_FILTER_ENABLE'', 0x8000), (''RECEIVE_FILTER_DISABLE'', 0x4000),
      (''RECEIVE_FILTER_READ'', 0), (''RECEIVE_FILTER_RESET_MCAST_LIST'', 0x2000),
      (''RECEIVE_FILTER_UNICAST'', 1), (''RECEIVE_FILTER_BROADCAST'', 2),
      (''RECEIVE_FILTER_FILTERED_MULTICAST'', 4), (''RECEIVE_FILTER_PROMISCUOUS'', 8),
      (''RECEIVE_FILTER_ALL_MULTICAST'', 0x10), (''STATION_ADDRESS_READ'', 0),
      (''STATION_ADDRESS_WRITE'', 0), (''STATION_ADDRESS_RESET'', 1), (''STATISTICS_READ'', 0),
      (''STATISTICS_RESET'', 1)]"

definition further_undi_opflags :: codes where [codes]:
  "further_undi_opflags =
     [(''MCAST_IP_TO_MAC_OPMASK'', 3), (''MCAST_IPV4_TO_MAC'', 0), (''MCAST_IPV6_TO_MAC'', 1),
      (''NVDATA_OPMASK'', 1), (''NVDATA_READ'', 0), (''NVDATA_WRITE'', 1),
      (''GET_INTERRUPT_STATUS'', 1), (''GET_TRANSMITTED_BUFFERS'', 2), (''GET_MEDIA_STATUS'', 4),
      (''FILL_HEADER_OPMASK'', 1), (''FILL_HEADER_FRAGMENTED'', 1), (''FILL_HEADER_WHOLE'', 0),
      (''SWUNDI_TRANSMIT_OPMASK'', 1), (''TRANSMIT_BLOCK'', 1), (''TRANSMIT_DONT_BLOCK'', 0),
      (''TRANSMIT_OPMASK'', 2), (''TRANSMIT_FRAGMENTED'', 2), (''TRANSMIT_WHOLE'', 0)]"

definition undi_opflags :: codes where [codes]:
  "undi_opflags = first_undi_opflags @ further_undi_opflags"

definition first_undi_statflags :: codes where [codes]:
  "first_undi_statflags =
     [(''INITIALIZE'', 0), (''STATUS_MASK'', 0xC000), (''COMMAND_COMPLETE'', 0xC000),
      (''COMMAND_FAILED'', 0x8000), (''COMMAND_QUEUED'', 0x4000), (''GET_STATE_MASK'', 3),
      (''GET_STATE_INITIALIZED'', 2), (''GET_STATE_STARTED'', 1), (''GET_STATE_STOPPED'', 0),
      (''CABLE_DETECT_MASK'', 1), (''CABLE_DETECT_NOT_SUPPORTED'', 0),
      (''CABLE_DETECT_SUPPORTED'', 1), (''GET_STATUS_NO_MEDIA_MASK'', 2),
      (''GET_STATUS_NO_MEDIA_NOT_SUPPORTED'', 0), (''GET_STATUS_NO_MEDIA_SUPPORTED'', 2),
      (''INITIALIZED_NO_MEDIA'', 1), (''RESET_NO_MEDIA'', 1), (''INTERRUPT_RECEIVE'', 1),
      (''INTERRUPT_TRANSMIT'', 2), (''INTERRUPT_COMMAND'', 4), (''RECEIVE_FILTER_UNICAST'', 1),
      (''RECEIVE_FILTER_BROADCAST'', 2), (''RECEIVE_FILTER_FILTERED_MULTICAST'', 4),
      (''RECEIVE_FILTER_PROMISCUOUS'', 8), (''RECEIVE_FILTER_ALL_MULTICAST'', 0x10),
      (''GET_STATUS_INTERRUPT_MASK'', 0xF), (''GET_STATUS_NO_INTERRUPTS'', 0),
      (''GET_STATUS_RECEIVE'', 1), (''GET_STATUS_TRANSMIT'', 2), (''GET_STATUS_COMMAND'', 4)]"

definition further_undi_statflags :: codes where [codes]:
  "further_undi_statflags =
     [(''GET_STATUS_SOFTWARE'', 8), (''GET_STATUS_TXBUF_QUEUE_EMPTY'', 0x10),
      (''GET_STATUS_NO_TXBUFS_WRITTEN'', 0x20), (''GET_STATUS_NO_MEDIA'', 0x40)]"

definition undi_statflags :: codes where [codes]:
  "undi_statflags = first_undi_statflags @ further_undi_statflags"

definition undi_statcodes :: codes where [codes]:
  "undi_statcodes =
     [(''SUCCESS'', 0), (''INVALID_CDB'', 1), (''INVALID_CPB'', 2), (''BUSY'', 3),
      (''QUEUE_FULL'', 4), (''ALREADY_STARTED'', 5), (''NOT_STARTED'', 6),
      (''NOT_SHUTDOWN'', 7), (''ALREADY_INITIALIZED'', 8), (''NOT_INITIALIZED'', 9),
      (''DEVICE_FAILURE'', 0xA), (''NVDATA_FAILURE'', 0xB), (''UNSUPPORTED'', 0xC),
      (''BUFFER_FULL'', 0xD), (''INVALID_PARAMETER'', 0xE), (''INVALID_UNDI'', 0xF),
      (''IPV4_NOT_SUPPORTED'', 0x10), (''IPV6_NOT_SUPPORTED'', 0x11),
      (''NOT_ENOUGH_MEMORY'', 0x12), (''NO_DATA'', 0x13)]"

definition undi_frame_types :: codes where [codes]:
  "undi_frame_types =
     [(''NONE'', 0), (''UNICAST'', 1), (''BROADCAST'', 2), (''FILTERED_MULTICAST'', 3),
      (''PROMISCUOUS'', 4), (''PROMISCUOUS_MULTICAST'', 5)]"

definition undi_hwstat :: codes where [codes]:
  "undi_hwstat =
     [(''STATE_MASK'', 0xC0000000), (''BUSY'', 0xC0000000), (''INITIALIZED'', 0x80000000),
      (''STARTED'', 0x40000000), (''STOPPED'', 0), (''COMMAND_FAILED'', 0x20000000),
      (''PROMISCUOUS_MULTICAST_RX_ENABLED'', 0x1000), (''PROMISCUOUS_RX_ENABLED'', 0x800),
      (''BROADCAST_RX_ENABLED'', 0x400), (''MULTICAST_RX_ENABLED'', 0x200),
      (''UNICAST_RX_ENABLED'', 0x100), (''SOFTWARE_INT_ENABLED'', 0x80),
      (''TX_COMPLETE_INT_ENABLED'', 0x40), (''PACKET_RX_INT_ENABLED'', 0x20),
      (''CMD_COMPLETE_INT_ENABLED'', 0x10), (''SOFTWARE_INT_PENDING'', 8),
      (''TX_COMPLETE_INT_PENDING'', 4), (''PACKET_RX_INT_PENDING'', 2),
      (''CMD_COMPLETE_INT_PENDING'', 1)]"

definition undi_hwcmd :: codes where [codes]:
  "undi_hwcmd =
     [(''ISSUE_COMMAND'', 0x80000000), (''INTS_AND_FILTS'', 0),
      (''PROMISCUOUS_MULTICAST_RX_ENABLE'', 0x1000), (''PROMISCUOUS_RX_ENABLE'', 0x800),
      (''BROADCAST_RX_ENABLE'', 0x400), (''MULTICAST_RX_ENABLE'', 0x200),
      (''UNICAST_RX_ENABLE'', 0x100), (''SOFTWARE_INT_ENABLE'', 0x80),
      (''TX_COMPLETE_INT_ENABLE'', 0x40), (''PACKET_RX_INT_ENABLE'', 0x20),
      (''CMD_COMPLETE_INT_ENABLE'', 0x10), (''CLEAR_SOFTWARE_INT'', 8),
      (''CLEAR_TX_COMPLETE_INT'', 4), (''CLEAR_PACKET_RX_INT'', 2),
      (''CLEAR_CMD_COMPLETE_INT'', 1)]"

definition undi_romid :: codes where [codes]:
  "undi_romid =
     [(''HW_UNDI'', 0x80000000), (''SW_VIRT_ADDR'', 0x40000000), (''64BIT_DEVICE'', 0x10000),
      (''FRAG_SUPPORTED'', 0x8000), (''CMD_LINK_SUPPORTED'', 0x4000),
      (''CMD_QUEUE_SUPPORTED'', 0x2000), (''MULTI_FRAME_SUPPORTED'', 0x1000),
      (''NVDATA_SUPPORT_MASK'', 0xC00), (''NVDATA_BULK_WRITABLE'', 0xC00),
      (''NVDATA_SPARSE_WRITABLE'', 0x800), (''NVDATA_READ_ONLY'', 0x400),
      (''NVDATA_NOT_AVAILABLE'', 0), (''STATISTICS_SUPPORTED'', 0x200),
      (''STATION_ADDR_SETTABLE'', 0x100), (''PROMISCUOUS_MULTICAST_RX_SUPPORTED'', 0x80),
      (''PROMISCUOUS_RX_SUPPORTED'', 0x40), (''BROADCAST_RX_SUPPORTED'', 0x20),
      (''FILTERED_MULTICAST_RX_SUPPORTED'', 0x10), (''SOFTWARE_INT_SUPPORTED'', 8),
      (''TX_COMPLETE_INT_SUPPORTED'', 4), (''PACKET_RX_INT_SUPPORTED'', 2),
      (''CMD_COMPLETE_INT_SUPPORTED'', 1)]"

definition undi_statistics :: codes where [codes]:
  "undi_statistics =
     [(''RX_TOTAL_FRAMES'', 0), (''RX_GOOD_FRAMES'', 1), (''RX_UNDERSIZE_FRAMES'', 2),
      (''RX_OVERSIZE_FRAMES'', 3), (''RX_DROPPED_FRAMES'', 4), (''RX_UNICAST_FRAMES'', 5),
      (''RX_BROADCAST_FRAMES'', 6), (''RX_MULTICAST_FRAMES'', 7), (''RX_CRC_ERROR_FRAMES'', 8),
      (''RX_TOTAL_BYTES'', 9), (''TX_TOTAL_FRAMES'', 0xA), (''TX_GOOD_FRAMES'', 0xB),
      (''TX_UNDERSIZE_FRAMES'', 0xC), (''TX_OVERSIZE_FRAMES'', 0xD),
      (''TX_DROPPED_FRAMES'', 0xE), (''TX_UNICAST_FRAMES'', 0xF),
      (''TX_BROADCAST_FRAMES'', 0x10), (''TX_MULTICAST_FRAMES'', 0x11),
      (''TX_CRC_ERROR_FRAMES'', 0x12), (''TX_TOTAL_BYTES'', 0x13), (''COLLISIONS'', 0x14),
      (''UNSUPPORTED_PROTOCOL'', 0x15), (''RX_DUPLICATED_FRAMES'', 0x16),
      (''RX_DECRYPT_ERROR_FRAMES'', 0x17), (''TX_ERROR_FRAMES'', 0x18),
      (''TX_RETRY_FRAMES'', 0x19)]"

section \<open>AcpiAml.h\<close>

definition aml_opcodes :: codes where [codes]:
  "aml_opcodes =
     [(''ZERO_OP'', 0), (''ONE_OP'', 1), (''ALIAS_OP'', 6), (''NAME_OP'', 8),
      (''BYTE_PREFIX'', 0xA), (''WORD_PREFIX'', 0xB), (''DWORD_PREFIX'', 0xC),
      (''STRING_PREFIX'', 0xD), (''QWORD_PREFIX'', 0xE), (''SCOPE_OP'', 0x10),
      (''BUFFER_OP'', 0x11), (''PACKAGE_OP'', 0x12), (''VAR_PACKAGE_OP'', 0x13),
      (''METHOD_OP'', 0x14), (''EXTERNAL_OP'', 0x15), (''DUAL_NAME_PREFIX'', 0x2E),
      (''MULTI_NAME_PREFIX'', 0x2F), (''NAME_CHAR_A'', 0x41), (''NAME_CHAR_B'', 0x42),
      (''NAME_CHAR_C'', 0x43), (''NAME_CHAR_D'', 0x44), (''NAME_CHAR_E'', 0x45),
      (''NAME_CHAR_F'', 0x46), (''NAME_CHAR_G'', 0x47), (''NAME_CHAR_H'', 0x48),
      (''NAME_CHAR_I'', 0x49), (''NAME_CHAR_J'', 0x4A), (''NAME_CHAR_K'', 0x4B),
      (''NAME_CHAR_L'', 0x4C), (''NAME_CHAR_M'', 0x4D), (''NAME_CHAR_N'', 0x4E),
      (''NAME_CHAR_O'', 0x4F), (''NAME_CHAR_P'', 0x50), (''NAME_CHAR_Q'', 0x51),
      (''NAME_CHAR_R'', 0x52), (''NAME_CHAR_S'', 0x53), (''NAME_CHAR_T'', 0x54),
      (''NAME_CHAR_U'', 0x55), (''NAME_CHAR_V'', 0x56), (''NAME_CHAR_W'', 0x57),
      (''NAME_CHAR_X'', 0x58), (''NAME_CHAR_Y'', 0x59), (''NAME_CHAR_Z'', 0x5A),
      (''ROOT_CHAR'', 0x5C), (''PARENT_PREFIX_CHAR'', 0x5E), (''NAME_CHAR__'', 0x5F),
      (''LOCAL0'', 0x60), (''LOCAL1'', 0x61), (''LOCAL2'', 0x62), (''LOCAL3'', 0x63),
      (''LOCAL4'', 0x64), (''LOCAL5'', 0x65), (''LOCAL6'', 0x66), (''LOCAL7'', 0x67),
      (''ARG0'', 0x68), (''ARG1'', 0x69), (''ARG2'', 0x6A), (''ARG3'', 0x6B), (''ARG4'', 0x6C),
      (''ARG5'', 0x6D), (''ARG6'', 0x6E), (''STORE_OP'', 0x70), (''REF_OF_OP'', 0x71),
      (''ADD_OP'', 0x72), (''CONCAT_OP'', 0x73), (''SUBTRACT_OP'', 0x74),
      (''INCREMENT_OP'', 0x75), (''DECREMENT_OP'', 0x76), (''MULTIPLY_OP'', 0x77),
      (''DIVIDE_OP'', 0x78), (''SHIFT_LEFT_OP'', 0x79), (''SHIFT_RIGHT_OP'', 0x7A),
      (''AND_OP'', 0x7B), (''NAND_OP'', 0x7C), (''OR_OP'', 0x7D), (''NOR_OP'', 0x7E),
      (''XOR_OP'', 0x7F), (''NOT_OP'', 0x80), (''FIND_SET_LEFT_BIT_OP'', 0x81),
      (''FIND_SET_RIGHT_BIT_OP'', 0x82), (''DEREF_OF_OP'', 0x83), (''CONCAT_RES_OP'', 0x84),
      (''MOD_OP'', 0x85), (''NOTIFY_OP'', 0x86), (''SIZE_OF_OP'', 0x87), (''INDEX_OP'', 0x88),
      (''MATCH_OP'', 0x89), (''CREATE_DWORD_FIELD_OP'', 0x8A), (''CREATE_WORD_FIELD_OP'', 0x8B),
      (''CREATE_BYTE_FIELD_OP'', 0x8C), (''CREATE_BIT_FIELD_OP'', 0x8D),
      (''OBJECT_TYPE_OP'', 0x8E), (''CREATE_QWORD_FIELD_OP'', 0x8F), (''LAND_OP'', 0x90),
      (''LOR_OP'', 0x91), (''LNOT_OP'', 0x92), (''LEQUAL_OP'', 0x93), (''LGREATER_OP'', 0x94),
      (''LLESS_OP'', 0x95), (''TO_BUFFER_OP'', 0x96), (''TO_DEC_STRING_OP'', 0x97),
      (''TO_HEX_STRING_OP'', 0x98), (''TO_INTEGER_OP'', 0x99), (''TO_STRING_OP'', 0x9C),
      (''COPY_OBJECT_OP'', 0x9D), (''MID_OP'', 0x9E), (''CONTINUE_OP'', 0x9F),
      (''IF_OP'', 0xA0), (''ELSE_OP'', 0xA1), (''WHILE_OP'', 0xA2), (''NOOP_OP'', 0xA3),
      (''RETURN_OP'', 0xA4), (''BREAK_OP'', 0xA5), (''BREAK_POINT_OP'', 0xCC),
      (''ONES_OP'', 0xFF)]"

definition aml_ext_opcodes :: codes where [codes]:
  "aml_ext_opcodes =
     [(''MUTEX_OP'', 1), (''EVENT_OP'', 2), (''COND_REF_OF_OP'', 0x12),
      (''CREATE_FIELD_OP'', 0x13), (''LOAD_TABLE_OP'', 0x1F), (''LOAD_OP'', 0x20),
      (''STALL_OP'', 0x21), (''SLEEP_OP'', 0x22), (''ACQUIRE_OP'', 0x23), (''SIGNAL_OP'', 0x24),
      (''WAIT_OP'', 0x25), (''RESET_OP'', 0x26), (''RELEASE_OP'', 0x27),
      (''FROM_BCD_OP'', 0x28), (''TO_BCD_OP'', 0x29), (''UNLOAD_OP'', 0x2A),
      (''REVISION_OP'', 0x30), (''DEBUG_OP'', 0x31), (''FATAL_OP'', 0x32), (''TIMER_OP'', 0x33),
      (''REGION_OP'', 0x80), (''FIELD_OP'', 0x81), (''DEVICE_OP'', 0x82),
      (''PROCESSOR_OP'', 0x83), (''POWER_RES_OP'', 0x84), (''THERMAL_ZONE_OP'', 0x85),
      (''INDEX_FIELD_OP'', 0x86), (''BANK_FIELD_OP'', 0x87), (''DATA_REGION_OP'', 0x88)]"

definition aml_field_opcodes :: codes where [codes]:
  "aml_field_opcodes =
     [(''RESERVED_OP'', 0), (''ACCESS_OP'', 1), (''CONNECTION_OP'', 2), (''EXT_ACCESS_OP'', 3)]"

end
