(* ===== verification/Further_Records.thy ===== *)
theory Further_Records imports X64_Types Protocol_Codes begin

text \<open>
  Records that the build for X64 does not use: the jump buffers of the other processors and the IA-32 form of the
  task state, in the branches of \<open>BaseLib.h\<close> for them, with a suffix for the processor; and the
  information on a token in \<open>PcdLib.h\<close>. None of the structures has a member whose size or alignment would be
  another one on its processor.
\<close>

section \<open>BaseLib.h and PcdLib.h\<close>

definition BASE_LIBRARY_JUMP_BUFFER_IA32 :: ctype where [layouts]:
  "BASE_LIBRARY_JUMP_BUFFER_IA32 = Struct Natural
     [(''Ebx'', UINT32), (''Esi'', UINT32), (''Edi'', UINT32), (''Ebp'', UINT32),
      (''Esp'', UINT32), (''Eip'', UINT32), (''Ssp'', UINT32)]"

definition BASE_LIBRARY_JUMP_BUFFER_ALIGNMENT_IA32 :: nat where [layouts]:
  "BASE_LIBRARY_JUMP_BUFFER_ALIGNMENT_IA32 = 4"

definition BASE_LIBRARY_JUMP_BUFFER_EBC :: ctype where [layouts]:
  "BASE_LIBRARY_JUMP_BUFFER_EBC = Struct Natural
     [(''R0'', UINT64), (''R1'', UINT64), (''R2'', UINT64), (''R3'', UINT64), (''IP'', UINT64)]"

definition BASE_LIBRARY_JUMP_BUFFER_ALIGNMENT_EBC :: nat where [layouts]:
  "BASE_LIBRARY_JUMP_BUFFER_ALIGNMENT_EBC = 8"

definition BASE_LIBRARY_JUMP_BUFFER_ARM :: ctype where [layouts]:
  "BASE_LIBRARY_JUMP_BUFFER_ARM = Struct Natural
     [(''R3'', UINT32), (''R4'', UINT32), (''R5'', UINT32), (''R6'', UINT32), (''R7'', UINT32),
      (''R8'', UINT32), (''R9'', UINT32), (''R10'', UINT32), (''R11'', UINT32), (''R12'', UINT32),
      (''R14'', UINT32)]"

definition BASE_LIBRARY_JUMP_BUFFER_ALIGNMENT_ARM :: nat where [layouts]:
  "BASE_LIBRARY_JUMP_BUFFER_ALIGNMENT_ARM = 4"

definition BASE_LIBRARY_JUMP_BUFFER_AARCH64 :: ctype where [layouts]:
  "BASE_LIBRARY_JUMP_BUFFER_AARCH64 = Struct Natural
     [(''X19'', UINT64), (''X20'', UINT64), (''X21'', UINT64), (''X22'', UINT64),
      (''X23'', UINT64), (''X24'', UINT64), (''X25'', UINT64), (''X26'', UINT64),
      (''X27'', UINT64), (''X28'', UINT64), (''FP'', UINT64), (''LR'', UINT64), (''IP0'', UINT64),
      (''D8'', UINT64), (''D9'', UINT64), (''D10'', UINT64), (''D11'', UINT64), (''D12'', UINT64),
      (''D13'', UINT64), (''D14'', UINT64), (''D15'', UINT64)]"

definition BASE_LIBRARY_JUMP_BUFFER_ALIGNMENT_AARCH64 :: nat where [layouts]:
  "BASE_LIBRARY_JUMP_BUFFER_ALIGNMENT_AARCH64 = 8"

definition BASE_LIBRARY_JUMP_BUFFER_RISCV64 :: ctype where [layouts]:
  "BASE_LIBRARY_JUMP_BUFFER_RISCV64 = Struct Natural
     [(''RA'', UINT64), (''S0'', UINT64), (''S1'', UINT64), (''S2'', UINT64), (''S3'', UINT64),
      (''S4'', UINT64), (''S5'', UINT64), (''S6'', UINT64), (''S7'', UINT64), (''S8'', UINT64),
      (''S9'', UINT64), (''S10'', UINT64), (''S11'', UINT64), (''SP'', UINT64)]"

definition BASE_LIBRARY_JUMP_BUFFER_ALIGNMENT_RISCV64 :: nat where [layouts]:
  "BASE_LIBRARY_JUMP_BUFFER_ALIGNMENT_RISCV64 = 8"

definition BASE_LIBRARY_JUMP_BUFFER_ALIGNMENT :: nat where [layouts]:
  "BASE_LIBRARY_JUMP_BUFFER_ALIGNMENT = 8"

definition IA32_TASK_STATE_SEGMENT_IA32 :: ctype where [layouts]:
  "IA32_TASK_STATE_SEGMENT_IA32 = Struct Packed
     [(''PreviousTaskLink'', UINT16), (''Reserved_2'', UINT16), (''ESP0'', UINT32),
      (''SS0'', UINT16), (''Reserved_10'', UINT16), (''ESP1'', UINT32), (''SS1'', UINT16),
      (''Reserved_18'', UINT16), (''ESP2'', UINT32), (''SS2'', UINT16), (''Reserved_26'', UINT16),
      (''CR3'', UINT32), (''EIP'', UINT32), (''EFLAGS'', UINT32), (''EAX'', UINT32),
      (''ECX'', UINT32), (''EDX'', UINT32), (''EBX'', UINT32), (''ESP'', UINT32),
      (''EBP'', UINT32), (''ESI'', UINT32), (''EDI'', UINT32), (''ES'', UINT16),
      (''Reserved_74'', UINT16), (''CS'', UINT16), (''Reserved_78'', UINT16), (''SS'', UINT16),
      (''Reserved_82'', UINT16), (''DS'', UINT16), (''Reserved_86'', UINT16), (''FS'', UINT16),
      (''Reserved_90'', UINT16), (''GS'', UINT16), (''Reserved_94'', UINT16),
      (''LDTSegmentSelector'', UINT16), (''Reserved_98'', UINT16), (''T'', UINT16),
      (''IOMapBaseAddress'', UINT16)]"

definition IA32_TSS_DESCRIPTOR_IA32 :: ctype where [layouts]:
  "IA32_TSS_DESCRIPTOR_IA32 = Union Packed
     [(''Bits'', Struct Packed
        [('''', Bits 4 [(''LimitLow'', 16), (''BaseLow'', 16)]),
         ('''', Bits 4 [(''BaseMid'', 8), (''Type'', 4), (''Reserved_43'', 1), (''DPL'', 2),
                 (''P'', 1), (''LimitHigh'', 4), (''AVL'', 1), (''Reserved_52'', 2), (''G'', 1), (''BaseHigh'', 8)])]),
      (''Uint64'', UINT64)]"

definition IA32_GDT_TYPE_TSS :: nat where [layouts]:
  "IA32_GDT_TYPE_TSS = 0x9"

definition IA32_GDT_ALIGNMENT :: nat where [layouts]:
  "IA32_GDT_ALIGNMENT = 8"

definition pcd_types :: codes where [codes]:
  "pcd_types =
     [(''8'', 0), (''16'', 1), (''32'', 2), (''64'', 3), (''BOOL'', 4), (''PTR'', 5)]"

definition PCD_INFO :: ctype where [layouts]:
  "PCD_INFO = Struct Natural
     [(''PcdType'', UINT32), (''PcdSize'', UINTN), (''PcdName'', Pointer)]"

section \<open>Lists of the records\<close>

definition jump_buffers :: "(ctype \<times> nat) list" where
  "jump_buffers =
     [(BASE_LIBRARY_JUMP_BUFFER, BASE_LIBRARY_JUMP_BUFFER_ALIGNMENT),
      (BASE_LIBRARY_JUMP_BUFFER_IA32, BASE_LIBRARY_JUMP_BUFFER_ALIGNMENT_IA32),
      (BASE_LIBRARY_JUMP_BUFFER_EBC, BASE_LIBRARY_JUMP_BUFFER_ALIGNMENT_EBC),
      (BASE_LIBRARY_JUMP_BUFFER_ARM, BASE_LIBRARY_JUMP_BUFFER_ALIGNMENT_ARM),
      (BASE_LIBRARY_JUMP_BUFFER_AARCH64, BASE_LIBRARY_JUMP_BUFFER_ALIGNMENT_AARCH64),
      (BASE_LIBRARY_JUMP_BUFFER_RISCV64, BASE_LIBRARY_JUMP_BUFFER_ALIGNMENT_RISCV64)]"

definition natural_further :: "ctype list" where
  "natural_further =
     [BASE_LIBRARY_JUMP_BUFFER_IA32, BASE_LIBRARY_JUMP_BUFFER_EBC, BASE_LIBRARY_JUMP_BUFFER_ARM,
      BASE_LIBRARY_JUMP_BUFFER_AARCH64, BASE_LIBRARY_JUMP_BUFFER_RISCV64, PCD_INFO]"

definition wire_further :: "ctype list" where
  "wire_further = [IA32_TASK_STATE_SEGMENT_IA32, IA32_TSS_DESCRIPTOR_IA32]"

text \<open>
  The registers of a jump buffer follow each other without gaps, and the alignment that the header asks for
  is that of the structure.
\<close>

lemma jump_buffers_filled: "list_all (\<lambda>(T, a). align_of T = a \<and> sizeof_type T = payload T) jump_buffers"
  by code_simp

lemma task_state_sizes: "sizeof_type IA32_TASK_STATE_SEGMENT_IA32 = 104" "sizeof_type IA32_TSS_DESCRIPTOR_IA32 = IA32_GDT_ALIGNMENT"
  by code_simp+

end
