(* ===== verification/Acpi_1_3.thy ===== *)
theory Acpi_1_3 imports Firmware_Types begin

text \<open>
  The tables and resource descriptors of \<open>Acpi10.h\<close>, \<open>Acpi20.h\<close> and \<open>Acpi30.h\<close>.
\<close>

section \<open>Acpi10.h\<close>

definition EFI_ACPI_COMMON_HEADER :: ctype where [layouts]:
  "EFI_ACPI_COMMON_HEADER = Struct Natural
     [(''Signature'', UINT32), (''Length'', UINT32)]"

definition EFI_ACPI_DESCRIPTION_HEADER :: ctype where [layouts]:
  "EFI_ACPI_DESCRIPTION_HEADER = Struct Packed
     [(''Signature'', UINT32), (''Length'', UINT32), (''Revision'', UINT8),
      (''Checksum'', UINT8), (''OemId'', Array 6 UINT8), (''OemTableId'', UINT64),
      (''OemRevision'', UINT32), (''CreatorId'', UINT32), (''CreatorRevision'', UINT32)]"

definition EFI_ACPI_ADDRESS_SPACE_DESCRIPTOR :: ctype where [layouts]:
  "EFI_ACPI_ADDRESS_SPACE_DESCRIPTOR = Struct Packed
     [(''Desc'', UINT8), (''Len'', UINT16), (''ResType'', UINT8), (''GenFlag'', UINT8),
      (''SpecificFlag'', UINT8), (''AddrSpaceGranularity'', UINT64), (''AddrRangeMin'', UINT64),
      (''AddrRangeMax'', UINT64), (''AddrTranslationOffset'', UINT64), (''AddrLen'', UINT64)]"

definition ACPI_SMALL_RESOURCE_HEADER :: ctype where [layouts]:
  "ACPI_SMALL_RESOURCE_HEADER = Union Packed
     [(''Byte'', UINT8),
      (''Bits'', Struct Packed
        [('''', Bits 1 [(''Length'', 3), (''Name'', 4), (''Type'', 1)])])]"

definition ACPI_LARGE_RESOURCE_HEADER :: ctype where [layouts]:
  "ACPI_LARGE_RESOURCE_HEADER = Struct Packed
     [(''Header'', Union Packed
        [(''Byte'', UINT8),
         (''Bits'', Struct Packed
           [('''', Bits 1 [(''Name'', 7), (''Type'', 1)])])]), (''Length'', UINT16)]"

definition EFI_ACPI_IRQ_NOFLAG_DESCRIPTOR :: ctype where [layouts]:
  "EFI_ACPI_IRQ_NOFLAG_DESCRIPTOR = Struct Packed
     [(''Header'', ACPI_SMALL_RESOURCE_HEADER), (''Mask'', UINT16)]"

definition EFI_ACPI_IRQ_DESCRIPTOR :: ctype where [layouts]:
  "EFI_ACPI_IRQ_DESCRIPTOR = Struct Packed
     [(''Header'', ACPI_SMALL_RESOURCE_HEADER), (''Mask'', UINT16), (''Information'', UINT8)]"

definition EFI_ACPI_DMA_DESCRIPTOR :: ctype where [layouts]:
  "EFI_ACPI_DMA_DESCRIPTOR = Struct Packed
     [(''Header'', ACPI_SMALL_RESOURCE_HEADER), (''ChannelMask'', UINT8),
      (''Information'', UINT8)]"

definition EFI_ACPI_IO_PORT_DESCRIPTOR :: ctype where [layouts]:
  "EFI_ACPI_IO_PORT_DESCRIPTOR = Struct Packed
     [(''Header'', ACPI_SMALL_RESOURCE_HEADER), (''Information'', UINT8),
      (''BaseAddressMin'', UINT16), (''BaseAddressMax'', UINT16), (''Alignment'', UINT8),
      (''Length'', UINT8)]"

definition EFI_ACPI_FIXED_LOCATION_IO_PORT_DESCRIPTOR :: ctype where [layouts]:
  "EFI_ACPI_FIXED_LOCATION_IO_PORT_DESCRIPTOR = Struct Packed
     [(''Header'', ACPI_SMALL_RESOURCE_HEADER), (''BaseAddress'', UINT16), (''Length'', UINT8)]"

definition EFI_ACPI_24_BIT_MEMORY_RANGE_DESCRIPTOR :: ctype where [layouts]:
  "EFI_ACPI_24_BIT_MEMORY_RANGE_DESCRIPTOR = Struct Packed
     [(''Header'', ACPI_LARGE_RESOURCE_HEADER), (''Information'', UINT8),
      (''BaseAddressMin'', UINT16), (''BaseAddressMax'', UINT16), (''Alignment'', UINT16),
      (''Length'', UINT16)]"

definition EFI_ACPI_32_BIT_MEMORY_RANGE_DESCRIPTOR :: ctype where [layouts]:
  "EFI_ACPI_32_BIT_MEMORY_RANGE_DESCRIPTOR = Struct Packed
     [(''Header'', ACPI_LARGE_RESOURCE_HEADER), (''Information'', UINT8),
      (''BaseAddressMin'', UINT32), (''BaseAddressMax'', UINT32), (''Alignment'', UINT32),
      (''Length'', UINT32)]"

definition EFI_ACPI_32_BIT_FIXED_MEMORY_RANGE_DESCRIPTOR :: ctype where [layouts]:
  "EFI_ACPI_32_BIT_FIXED_MEMORY_RANGE_DESCRIPTOR = Struct Packed
     [(''Header'', ACPI_LARGE_RESOURCE_HEADER), (''Information'', UINT8),
      (''BaseAddress'', UINT32), (''Length'', UINT32)]"

definition EFI_ACPI_QWORD_ADDRESS_SPACE_DESCRIPTOR :: ctype where [layouts]:
  "EFI_ACPI_QWORD_ADDRESS_SPACE_DESCRIPTOR = Struct Packed
     [(''Header'', ACPI_LARGE_RESOURCE_HEADER), (''ResType'', UINT8), (''GenFlag'', UINT8),
      (''SpecificFlag'', UINT8), (''AddrSpaceGranularity'', UINT64), (''AddrRangeMin'', UINT64),
      (''AddrRangeMax'', UINT64), (''AddrTranslationOffset'', UINT64), (''AddrLen'', UINT64)]"

definition EFI_ACPI_DWORD_ADDRESS_SPACE_DESCRIPTOR :: ctype where [layouts]:
  "EFI_ACPI_DWORD_ADDRESS_SPACE_DESCRIPTOR = Struct Packed
     [(''Header'', ACPI_LARGE_RESOURCE_HEADER), (''ResType'', UINT8), (''GenFlag'', UINT8),
      (''SpecificFlag'', UINT8), (''AddrSpaceGranularity'', UINT32), (''AddrRangeMin'', UINT32),
      (''AddrRangeMax'', UINT32), (''AddrTranslationOffset'', UINT32), (''AddrLen'', UINT32)]"

definition EFI_ACPI_WORD_ADDRESS_SPACE_DESCRIPTOR :: ctype where [layouts]:
  "EFI_ACPI_WORD_ADDRESS_SPACE_DESCRIPTOR = Struct Packed
     [(''Header'', ACPI_LARGE_RESOURCE_HEADER), (''ResType'', UINT8), (''GenFlag'', UINT8),
      (''SpecificFlag'', UINT8), (''AddrSpaceGranularity'', UINT16), (''AddrRangeMin'', UINT16),
      (''AddrRangeMax'', UINT16), (''AddrTranslationOffset'', UINT16), (''AddrLen'', UINT16)]"

definition EFI_ACPI_EXTENDED_INTERRUPT_DESCRIPTOR :: ctype where [layouts]:
  "EFI_ACPI_EXTENDED_INTERRUPT_DESCRIPTOR = Struct Packed
     [(''Header'', ACPI_LARGE_RESOURCE_HEADER), (''InterruptVectorFlags'', UINT8),
      (''InterruptTableLength'', UINT8), (''InterruptNumber'', Array 1 UINT32)]"

definition EFI_ACPI_END_TAG_DESCRIPTOR :: ctype where [layouts]:
  "EFI_ACPI_END_TAG_DESCRIPTOR = Struct Natural
     [(''Desc'', UINT8), (''Checksum'', UINT8)]"

definition EFI_ACPI_1_0_ROOT_SYSTEM_DESCRIPTION_POINTER :: ctype where [layouts]:
  "EFI_ACPI_1_0_ROOT_SYSTEM_DESCRIPTION_POINTER = Struct Packed
     [(''Signature'', UINT64), (''Checksum'', UINT8), (''OemId'', Array 6 UINT8),
      (''Reserved'', UINT8), (''RsdtAddress'', UINT32)]"

definition EFI_ACPI_1_0_FIXED_ACPI_DESCRIPTION_TABLE :: ctype where [layouts]:
  "EFI_ACPI_1_0_FIXED_ACPI_DESCRIPTION_TABLE = Struct Packed
     [(''Header'', EFI_ACPI_DESCRIPTION_HEADER), (''FirmwareCtrl'', UINT32), (''Dsdt'', UINT32),
      (''IntModel'', UINT8), (''Reserved1'', UINT8), (''SciInt'', UINT16), (''SmiCmd'', UINT32),
      (''AcpiEnable'', UINT8), (''AcpiDisable'', UINT8), (''S4BiosReq'', UINT8),
      (''Reserved2'', UINT8), (''Pm1aEvtBlk'', UINT32), (''Pm1bEvtBlk'', UINT32),
      (''Pm1aCntBlk'', UINT32), (''Pm1bCntBlk'', UINT32), (''Pm2CntBlk'', UINT32),
      (''PmTmrBlk'', UINT32), (''Gpe0Blk'', UINT32), (''Gpe1Blk'', UINT32),
      (''Pm1EvtLen'', UINT8), (''Pm1CntLen'', UINT8), (''Pm2CntLen'', UINT8),
      (''PmTmLen'', UINT8), (''Gpe0BlkLen'', UINT8), (''Gpe1BlkLen'', UINT8),
      (''Gpe1Base'', UINT8), (''Reserved3'', UINT8), (''PLvl2Lat'', UINT16),
      (''PLvl3Lat'', UINT16), (''FlushSize'', UINT16), (''FlushStride'', UINT16),
      (''DutyOffset'', UINT8), (''DutyWidth'', UINT8), (''DayAlrm'', UINT8),
      (''MonAlrm'', UINT8), (''Century'', UINT8), (''Reserved4'', UINT8),
      (''Reserved5'', UINT8), (''Reserved6'', UINT8), (''Flags'', UINT32)]"

definition EFI_ACPI_1_0_FIRMWARE_ACPI_CONTROL_STRUCTURE :: ctype where [layouts]:
  "EFI_ACPI_1_0_FIRMWARE_ACPI_CONTROL_STRUCTURE = Struct Packed
     [(''Signature'', UINT32), (''Length'', UINT32), (''HardwareSignature'', UINT32),
      (''FirmwareWakingVector'', UINT32), (''GlobalLock'', UINT32), (''Flags'', UINT32),
      (''Reserved'', Array 40 UINT8)]"

definition EFI_ACPI_1_0_MULTIPLE_APIC_DESCRIPTION_TABLE_HEADER :: ctype where [layouts]:
  "EFI_ACPI_1_0_MULTIPLE_APIC_DESCRIPTION_TABLE_HEADER = Struct Packed
     [(''Header'', EFI_ACPI_DESCRIPTION_HEADER), (''LocalApicAddress'', UINT32),
      (''Flags'', UINT32)]"

definition EFI_ACPI_1_0_PROCESSOR_LOCAL_APIC_STRUCTURE :: ctype where [layouts]:
  "EFI_ACPI_1_0_PROCESSOR_LOCAL_APIC_STRUCTURE = Struct Packed
     [(''Type'', UINT8), (''Length'', UINT8), (''AcpiProcessorId'', UINT8), (''ApicId'', UINT8),
      (''Flags'', UINT32)]"

definition EFI_ACPI_1_0_IO_APIC_STRUCTURE :: ctype where [layouts]:
  "EFI_ACPI_1_0_IO_APIC_STRUCTURE = Struct Packed
     [(''Type'', UINT8), (''Length'', UINT8), (''IoApicId'', UINT8), (''Reserved'', UINT8),
      (''IoApicAddress'', UINT32), (''SystemVectorBase'', UINT32)]"

definition EFI_ACPI_1_0_INTERRUPT_SOURCE_OVERRIDE_STRUCTURE :: ctype where [layouts]:
  "EFI_ACPI_1_0_INTERRUPT_SOURCE_OVERRIDE_STRUCTURE = Struct Packed
     [(''Type'', UINT8), (''Length'', UINT8), (''Bus'', UINT8), (''Source'', UINT8),
      (''GlobalSystemInterruptVector'', UINT32), (''Flags'', UINT16)]"

definition EFI_ACPI_1_0_NON_MASKABLE_INTERRUPT_SOURCE_STRUCTURE :: ctype where [layouts]:
  "EFI_ACPI_1_0_NON_MASKABLE_INTERRUPT_SOURCE_STRUCTURE = Struct Packed
     [(''Type'', UINT8), (''Length'', UINT8), (''Flags'', UINT16),
      (''GlobalSystemInterruptVector'', UINT32)]"

definition EFI_ACPI_1_0_LOCAL_APIC_NMI_STRUCTURE :: ctype where [layouts]:
  "EFI_ACPI_1_0_LOCAL_APIC_NMI_STRUCTURE = Struct Packed
     [(''Type'', UINT8), (''Length'', UINT8), (''AcpiProcessorId'', UINT8), (''Flags'', UINT16),
      (''LocalApicInti'', UINT8)]"

definition EFI_ACPI_1_0_SMART_BATTERY_DESCRIPTION_TABLE :: ctype where [layouts]:
  "EFI_ACPI_1_0_SMART_BATTERY_DESCRIPTION_TABLE = Struct Packed
     [(''Header'', EFI_ACPI_DESCRIPTION_HEADER), (''WarningEnergyLevel'', UINT32),
      (''LowEnergyLevel'', UINT32), (''CriticalEnergyLevel'', UINT32)]"

section \<open>Acpi20.h\<close>

definition EFI_ACPI_GENERIC_REGISTER_DESCRIPTOR :: ctype where [layouts]:
  "EFI_ACPI_GENERIC_REGISTER_DESCRIPTOR = Struct Packed
     [(''Header'', ACPI_LARGE_RESOURCE_HEADER), (''AddressSpaceId'', UINT8),
      (''RegisterBitWidth'', UINT8), (''RegisterBitOffset'', UINT8), (''AddressSize'', UINT8),
      (''RegisterAddress'', UINT64)]"

definition EFI_ACPI_2_0_GENERIC_ADDRESS_STRUCTURE :: ctype where [layouts]:
  "EFI_ACPI_2_0_GENERIC_ADDRESS_STRUCTURE = Struct Packed
     [(''AddressSpaceId'', UINT8), (''RegisterBitWidth'', UINT8),
      (''RegisterBitOffset'', UINT8), (''Reserved'', UINT8), (''Address'', UINT64)]"

definition EFI_ACPI_2_0_ROOT_SYSTEM_DESCRIPTION_POINTER :: ctype where [layouts]:
  "EFI_ACPI_2_0_ROOT_SYSTEM_DESCRIPTION_POINTER = Struct Packed
     [(''Signature'', UINT64), (''Checksum'', UINT8), (''OemId'', Array 6 UINT8),
      (''Revision'', UINT8), (''RsdtAddress'', UINT32), (''Length'', UINT32),
      (''XsdtAddress'', UINT64), (''ExtendedChecksum'', UINT8), (''Reserved'', Array 3 UINT8)]"

definition EFI_ACPI_2_0_COMMON_HEADER :: ctype where [layouts]:
  "EFI_ACPI_2_0_COMMON_HEADER = Struct Packed
     [(''Signature'', UINT32), (''Length'', UINT32)]"

definition EFI_ACPI_2_0_FIXED_ACPI_DESCRIPTION_TABLE :: ctype where [layouts]:
  "EFI_ACPI_2_0_FIXED_ACPI_DESCRIPTION_TABLE = Struct Packed
     [(''Header'', EFI_ACPI_DESCRIPTION_HEADER), (''FirmwareCtrl'', UINT32), (''Dsdt'', UINT32),
      (''Reserved0'', UINT8), (''PreferredPmProfile'', UINT8), (''SciInt'', UINT16),
      (''SmiCmd'', UINT32), (''AcpiEnable'', UINT8), (''AcpiDisable'', UINT8),
      (''S4BiosReq'', UINT8), (''PstateCnt'', UINT8), (''Pm1aEvtBlk'', UINT32),
      (''Pm1bEvtBlk'', UINT32), (''Pm1aCntBlk'', UINT32), (''Pm1bCntBlk'', UINT32),
      (''Pm2CntBlk'', UINT32), (''PmTmrBlk'', UINT32), (''Gpe0Blk'', UINT32),
      (''Gpe1Blk'', UINT32), (''Pm1EvtLen'', UINT8), (''Pm1CntLen'', UINT8),
      (''Pm2CntLen'', UINT8), (''PmTmrLen'', UINT8), (''Gpe0BlkLen'', UINT8),
      (''Gpe1BlkLen'', UINT8), (''Gpe1Base'', UINT8), (''CstCnt'', UINT8),
      (''PLvl2Lat'', UINT16), (''PLvl3Lat'', UINT16), (''FlushSize'', UINT16),
      (''FlushStride'', UINT16), (''DutyOffset'', UINT8), (''DutyWidth'', UINT8),
      (''DayAlrm'', UINT8), (''MonAlrm'', UINT8), (''Century'', UINT8),
      (''IaPcBootArch'', UINT16), (''Reserved1'', UINT8), (''Flags'', UINT32),
      (''ResetReg'', EFI_ACPI_2_0_GENERIC_ADDRESS_STRUCTURE), (''ResetValue'', UINT8),
      (''Reserved2'', Array 3 UINT8), (''XFirmwareCtrl'', UINT64), (''XDsdt'', UINT64),
      (''XPm1aEvtBlk'', EFI_ACPI_2_0_GENERIC_ADDRESS_STRUCTURE),
      (''XPm1bEvtBlk'', EFI_ACPI_2_0_GENERIC_ADDRESS_STRUCTURE),
      (''XPm1aCntBlk'', EFI_ACPI_2_0_GENERIC_ADDRESS_STRUCTURE),
      (''XPm1bCntBlk'', EFI_ACPI_2_0_GENERIC_ADDRESS_STRUCTURE),
      (''XPm2CntBlk'', EFI_ACPI_2_0_GENERIC_ADDRESS_STRUCTURE),
      (''XPmTmrBlk'', EFI_ACPI_2_0_GENERIC_ADDRESS_STRUCTURE),
      (''XGpe0Blk'', EFI_ACPI_2_0_GENERIC_ADDRESS_STRUCTURE),
      (''XGpe1Blk'', EFI_ACPI_2_0_GENERIC_ADDRESS_STRUCTURE)]"

definition EFI_ACPI_2_0_FIRMWARE_ACPI_CONTROL_STRUCTURE :: ctype where [layouts]:
  "EFI_ACPI_2_0_FIRMWARE_ACPI_CONTROL_STRUCTURE = Struct Packed
     [(''Signature'', UINT32), (''Length'', UINT32), (''HardwareSignature'', UINT32),
      (''FirmwareWakingVector'', UINT32), (''GlobalLock'', UINT32), (''Flags'', UINT32),
      (''XFirmwareWakingVector'', UINT64), (''Version'', UINT8), (''Reserved'', Array 31 UINT8)]"

definition EFI_ACPI_2_0_MULTIPLE_APIC_DESCRIPTION_TABLE_HEADER :: ctype where [layouts]:
  "EFI_ACPI_2_0_MULTIPLE_APIC_DESCRIPTION_TABLE_HEADER = Struct Packed
     [(''Header'', EFI_ACPI_DESCRIPTION_HEADER), (''LocalApicAddress'', UINT32),
      (''Flags'', UINT32)]"

definition EFI_ACPI_2_0_PROCESSOR_LOCAL_APIC_STRUCTURE :: ctype where [layouts]:
  "EFI_ACPI_2_0_PROCESSOR_LOCAL_APIC_STRUCTURE = Struct Packed
     [(''Type'', UINT8), (''Length'', UINT8), (''AcpiProcessorId'', UINT8), (''ApicId'', UINT8),
      (''Flags'', UINT32)]"

definition EFI_ACPI_2_0_IO_APIC_STRUCTURE :: ctype where [layouts]:
  "EFI_ACPI_2_0_IO_APIC_STRUCTURE = Struct Packed
     [(''Type'', UINT8), (''Length'', UINT8), (''IoApicId'', UINT8), (''Reserved'', UINT8),
      (''IoApicAddress'', UINT32), (''GlobalSystemInterruptBase'', UINT32)]"

definition EFI_ACPI_2_0_INTERRUPT_SOURCE_OVERRIDE_STRUCTURE :: ctype where [layouts]:
  "EFI_ACPI_2_0_INTERRUPT_SOURCE_OVERRIDE_STRUCTURE = Struct Packed
     [(''Type'', UINT8), (''Length'', UINT8), (''Bus'', UINT8), (''Source'', UINT8),
      (''GlobalSystemInterrupt'', UINT32), (''Flags'', UINT16)]"

definition EFI_ACPI_2_0_NON_MASKABLE_INTERRUPT_SOURCE_STRUCTURE :: ctype where [layouts]:
  "EFI_ACPI_2_0_NON_MASKABLE_INTERRUPT_SOURCE_STRUCTURE = Struct Packed
     [(''Type'', UINT8), (''Length'', UINT8), (''Flags'', UINT16),
      (''GlobalSystemInterrupt'', UINT32)]"

definition EFI_ACPI_2_0_LOCAL_APIC_NMI_STRUCTURE :: ctype where [layouts]:
  "EFI_ACPI_2_0_LOCAL_APIC_NMI_STRUCTURE = Struct Packed
     [(''Type'', UINT8), (''Length'', UINT8), (''AcpiProcessorId'', UINT8), (''Flags'', UINT16),
      (''LocalApicLint'', UINT8)]"

definition EFI_ACPI_2_0_LOCAL_APIC_ADDRESS_OVERRIDE_STRUCTURE :: ctype where [layouts]:
  "EFI_ACPI_2_0_LOCAL_APIC_ADDRESS_OVERRIDE_STRUCTURE = Struct Packed
     [(''Type'', UINT8), (''Length'', UINT8), (''Reserved'', UINT16),
      (''LocalApicAddress'', UINT64)]"

definition EFI_ACPI_2_0_IO_SAPIC_STRUCTURE :: ctype where [layouts]:
  "EFI_ACPI_2_0_IO_SAPIC_STRUCTURE = Struct Packed
     [(''Type'', UINT8), (''Length'', UINT8), (''IoApicId'', UINT8), (''Reserved'', UINT8),
      (''GlobalSystemInterruptBase'', UINT32), (''IoSapicAddress'', UINT64)]"

definition EFI_ACPI_2_0_PROCESSOR_LOCAL_SAPIC_STRUCTURE :: ctype where [layouts]:
  "EFI_ACPI_2_0_PROCESSOR_LOCAL_SAPIC_STRUCTURE = Struct Packed
     [(''Type'', UINT8), (''Length'', UINT8), (''AcpiProcessorId'', UINT8),
      (''LocalSapicId'', UINT8), (''LocalSapicEid'', UINT8), (''Reserved'', Array 3 UINT8),
      (''Flags'', UINT32)]"

definition EFI_ACPI_2_0_PLATFORM_INTERRUPT_SOURCES_STRUCTURE :: ctype where [layouts]:
  "EFI_ACPI_2_0_PLATFORM_INTERRUPT_SOURCES_STRUCTURE = Struct Packed
     [(''Type'', UINT8), (''Length'', UINT8), (''Flags'', UINT16), (''InterruptType'', UINT8),
      (''ProcessorId'', UINT8), (''ProcessorEid'', UINT8), (''IoSapicVector'', UINT8),
      (''GlobalSystemInterrupt'', UINT32), (''Reserved'', UINT32)]"

definition EFI_ACPI_2_0_SMART_BATTERY_DESCRIPTION_TABLE :: ctype where [layouts]:
  "EFI_ACPI_2_0_SMART_BATTERY_DESCRIPTION_TABLE = Struct Packed
     [(''Header'', EFI_ACPI_DESCRIPTION_HEADER), (''WarningEnergyLevel'', UINT32),
      (''LowEnergyLevel'', UINT32), (''CriticalEnergyLevel'', UINT32)]"

definition EFI_ACPI_2_0_EMBEDDED_CONTROLLER_BOOT_RESOURCES_TABLE :: ctype where [layouts]:
  "EFI_ACPI_2_0_EMBEDDED_CONTROLLER_BOOT_RESOURCES_TABLE = Struct Packed
     [(''Header'', EFI_ACPI_DESCRIPTION_HEADER),
      (''EcControl'', EFI_ACPI_2_0_GENERIC_ADDRESS_STRUCTURE),
      (''EcData'', EFI_ACPI_2_0_GENERIC_ADDRESS_STRUCTURE), (''Uid'', UINT32),
      (''GpeBit'', UINT8)]"

section \<open>Acpi30.h\<close>

definition EFI_ACPI_EXTENDED_ADDRESS_SPACE_DESCRIPTOR :: ctype where [layouts]:
  "EFI_ACPI_EXTENDED_ADDRESS_SPACE_DESCRIPTOR = Struct Packed
     [(''Header'', ACPI_LARGE_RESOURCE_HEADER), (''ResType'', UINT8), (''GenFlag'', UINT8),
      (''SpecificFlag'', UINT8), (''RevisionId'', UINT8), (''Reserved'', UINT8),
      (''AddrSpaceGranularity'', UINT64), (''AddrRangeMin'', UINT64),
      (''AddrRangeMax'', UINT64), (''AddrTranslationOffset'', UINT64), (''AddrLen'', UINT64),
      (''TypeSpecificAttribute'', UINT64)]"

definition EFI_ACPI_3_0_GENERIC_ADDRESS_STRUCTURE :: ctype where [layouts]:
  "EFI_ACPI_3_0_GENERIC_ADDRESS_STRUCTURE = Struct Packed
     [(''AddressSpaceId'', UINT8), (''RegisterBitWidth'', UINT8),
      (''RegisterBitOffset'', UINT8), (''AccessSize'', UINT8), (''Address'', UINT64)]"

definition EFI_ACPI_3_0_ROOT_SYSTEM_DESCRIPTION_POINTER :: ctype where [layouts]:
  "EFI_ACPI_3_0_ROOT_SYSTEM_DESCRIPTION_POINTER = Struct Packed
     [(''Signature'', UINT64), (''Checksum'', UINT8), (''OemId'', Array 6 UINT8),
      (''Revision'', UINT8), (''RsdtAddress'', UINT32), (''Length'', UINT32),
      (''XsdtAddress'', UINT64), (''ExtendedChecksum'', UINT8), (''Reserved'', Array 3 UINT8)]"

definition EFI_ACPI_3_0_COMMON_HEADER :: ctype where [layouts]:
  "EFI_ACPI_3_0_COMMON_HEADER = Struct Packed
     [(''Signature'', UINT32), (''Length'', UINT32)]"

definition EFI_ACPI_3_0_FIXED_ACPI_DESCRIPTION_TABLE :: ctype where [layouts]:
  "EFI_ACPI_3_0_FIXED_ACPI_DESCRIPTION_TABLE = Struct Packed
     [(''Header'', EFI_ACPI_DESCRIPTION_HEADER), (''FirmwareCtrl'', UINT32), (''Dsdt'', UINT32),
      (''Reserved0'', UINT8), (''PreferredPmProfile'', UINT8), (''SciInt'', UINT16),
      (''SmiCmd'', UINT32), (''AcpiEnable'', UINT8), (''AcpiDisable'', UINT8),
      (''S4BiosReq'', UINT8), (''PstateCnt'', UINT8), (''Pm1aEvtBlk'', UINT32),
      (''Pm1bEvtBlk'', UINT32), (''Pm1aCntBlk'', UINT32), (''Pm1bCntBlk'', UINT32),
      (''Pm2CntBlk'', UINT32), (''PmTmrBlk'', UINT32), (''Gpe0Blk'', UINT32),
      (''Gpe1Blk'', UINT32), (''Pm1EvtLen'', UINT8), (''Pm1CntLen'', UINT8),
      (''Pm2CntLen'', UINT8), (''PmTmrLen'', UINT8), (''Gpe0BlkLen'', UINT8),
      (''Gpe1BlkLen'', UINT8), (''Gpe1Base'', UINT8), (''CstCnt'', UINT8),
      (''PLvl2Lat'', UINT16), (''PLvl3Lat'', UINT16), (''FlushSize'', UINT16),
      (''FlushStride'', UINT16), (''DutyOffset'', UINT8), (''DutyWidth'', UINT8),
      (''DayAlrm'', UINT8), (''MonAlrm'', UINT8), (''Century'', UINT8),
      (''IaPcBootArch'', UINT16), (''Reserved1'', UINT8), (''Flags'', UINT32),
      (''ResetReg'', EFI_ACPI_3_0_GENERIC_ADDRESS_STRUCTURE), (''ResetValue'', UINT8),
      (''Reserved2'', Array 3 UINT8), (''XFirmwareCtrl'', UINT64), (''XDsdt'', UINT64),
      (''XPm1aEvtBlk'', EFI_ACPI_3_0_GENERIC_ADDRESS_STRUCTURE),
      (''XPm1bEvtBlk'', EFI_ACPI_3_0_GENERIC_ADDRESS_STRUCTURE),
      (''XPm1aCntBlk'', EFI_ACPI_3_0_GENERIC_ADDRESS_STRUCTURE),
      (''XPm1bCntBlk'', EFI_ACPI_3_0_GENERIC_ADDRESS_STRUCTURE),
      (''XPm2CntBlk'', EFI_ACPI_3_0_GENERIC_ADDRESS_STRUCTURE),
      (''XPmTmrBlk'', EFI_ACPI_3_0_GENERIC_ADDRESS_STRUCTURE),
      (''XGpe0Blk'', EFI_ACPI_3_0_GENERIC_ADDRESS_STRUCTURE),
      (''XGpe1Blk'', EFI_ACPI_3_0_GENERIC_ADDRESS_STRUCTURE)]"

definition EFI_ACPI_3_0_FIRMWARE_ACPI_CONTROL_STRUCTURE :: ctype where [layouts]:
  "EFI_ACPI_3_0_FIRMWARE_ACPI_CONTROL_STRUCTURE = Struct Packed
     [(''Signature'', UINT32), (''Length'', UINT32), (''HardwareSignature'', UINT32),
      (''FirmwareWakingVector'', UINT32), (''GlobalLock'', UINT32), (''Flags'', UINT32),
      (''XFirmwareWakingVector'', UINT64), (''Version'', UINT8), (''Reserved'', Array 31 UINT8)]"

definition EFI_ACPI_3_0_MULTIPLE_APIC_DESCRIPTION_TABLE_HEADER :: ctype where [layouts]:
  "EFI_ACPI_3_0_MULTIPLE_APIC_DESCRIPTION_TABLE_HEADER = Struct Packed
     [(''Header'', EFI_ACPI_DESCRIPTION_HEADER), (''LocalApicAddress'', UINT32),
      (''Flags'', UINT32)]"

definition EFI_ACPI_3_0_PROCESSOR_LOCAL_APIC_STRUCTURE :: ctype where [layouts]:
  "EFI_ACPI_3_0_PROCESSOR_LOCAL_APIC_STRUCTURE = Struct Packed
     [(''Type'', UINT8), (''Length'', UINT8), (''AcpiProcessorId'', UINT8), (''ApicId'', UINT8),
      (''Flags'', UINT32)]"

definition EFI_ACPI_3_0_IO_APIC_STRUCTURE :: ctype where [layouts]:
  "EFI_ACPI_3_0_IO_APIC_STRUCTURE = Struct Packed
     [(''Type'', UINT8), (''Length'', UINT8), (''IoApicId'', UINT8), (''Reserved'', UINT8),
      (''IoApicAddress'', UINT32), (''GlobalSystemInterruptBase'', UINT32)]"

definition EFI_ACPI_3_0_INTERRUPT_SOURCE_OVERRIDE_STRUCTURE :: ctype where [layouts]:
  "EFI_ACPI_3_0_INTERRUPT_SOURCE_OVERRIDE_STRUCTURE = Struct Packed
     [(''Type'', UINT8), (''Length'', UINT8), (''Bus'', UINT8), (''Source'', UINT8),
      (''GlobalSystemInterrupt'', UINT32), (''Flags'', UINT16)]"

definition EFI_ACPI_3_0_PLATFORM_INTERRUPT_APIC_STRUCTURE :: ctype where [layouts]:
  "EFI_ACPI_3_0_PLATFORM_INTERRUPT_APIC_STRUCTURE = Struct Packed
     [(''Type'', UINT8), (''Length'', UINT8), (''Flags'', UINT16), (''InterruptType'', UINT8),
      (''ProcessorId'', UINT8), (''ProcessorEid'', UINT8), (''IoSapicVector'', UINT8),
      (''GlobalSystemInterrupt'', UINT32), (''PlatformInterruptSourceFlags'', UINT32),
      (''CpeiProcessorOverride'', UINT8), (''Reserved'', Array 31 UINT8)]"

definition EFI_ACPI_3_0_NON_MASKABLE_INTERRUPT_SOURCE_STRUCTURE :: ctype where [layouts]:
  "EFI_ACPI_3_0_NON_MASKABLE_INTERRUPT_SOURCE_STRUCTURE = Struct Packed
     [(''Type'', UINT8), (''Length'', UINT8), (''Flags'', UINT16),
      (''GlobalSystemInterrupt'', UINT32)]"

definition EFI_ACPI_3_0_LOCAL_APIC_NMI_STRUCTURE :: ctype where [layouts]:
  "EFI_ACPI_3_0_LOCAL_APIC_NMI_STRUCTURE = Struct Packed
     [(''Type'', UINT8), (''Length'', UINT8), (''AcpiProcessorId'', UINT8), (''Flags'', UINT16),
      (''LocalApicLint'', UINT8)]"

definition EFI_ACPI_3_0_LOCAL_APIC_ADDRESS_OVERRIDE_STRUCTURE :: ctype where [layouts]:
  "EFI_ACPI_3_0_LOCAL_APIC_ADDRESS_OVERRIDE_STRUCTURE = Struct Packed
     [(''Type'', UINT8), (''Length'', UINT8), (''Reserved'', UINT16),
      (''LocalApicAddress'', UINT64)]"

definition EFI_ACPI_3_0_IO_SAPIC_STRUCTURE :: ctype where [layouts]:
  "EFI_ACPI_3_0_IO_SAPIC_STRUCTURE = Struct Packed
     [(''Type'', UINT8), (''Length'', UINT8), (''IoApicId'', UINT8), (''Reserved'', UINT8),
      (''GlobalSystemInterruptBase'', UINT32), (''IoSapicAddress'', UINT64)]"

definition EFI_ACPI_3_0_PROCESSOR_LOCAL_SAPIC_STRUCTURE :: ctype where [layouts]:
  "EFI_ACPI_3_0_PROCESSOR_LOCAL_SAPIC_STRUCTURE = Struct Packed
     [(''Type'', UINT8), (''Length'', UINT8), (''AcpiProcessorId'', UINT8),
      (''LocalSapicId'', UINT8), (''LocalSapicEid'', UINT8), (''Reserved'', Array 3 UINT8),
      (''Flags'', UINT32), (''ACPIProcessorUIDValue'', UINT32)]"

definition EFI_ACPI_3_0_PLATFORM_INTERRUPT_SOURCES_STRUCTURE :: ctype where [layouts]:
  "EFI_ACPI_3_0_PLATFORM_INTERRUPT_SOURCES_STRUCTURE = Struct Packed
     [(''Type'', UINT8), (''Length'', UINT8), (''Flags'', UINT16), (''InterruptType'', UINT8),
      (''ProcessorId'', UINT8), (''ProcessorEid'', UINT8), (''IoSapicVector'', UINT8),
      (''GlobalSystemInterrupt'', UINT32), (''PlatformInterruptSourceFlags'', UINT32)]"

definition EFI_ACPI_3_0_SMART_BATTERY_DESCRIPTION_TABLE :: ctype where [layouts]:
  "EFI_ACPI_3_0_SMART_BATTERY_DESCRIPTION_TABLE = Struct Packed
     [(''Header'', EFI_ACPI_DESCRIPTION_HEADER), (''WarningEnergyLevel'', UINT32),
      (''LowEnergyLevel'', UINT32), (''CriticalEnergyLevel'', UINT32)]"

definition EFI_ACPI_3_0_EMBEDDED_CONTROLLER_BOOT_RESOURCES_TABLE :: ctype where [layouts]:
  "EFI_ACPI_3_0_EMBEDDED_CONTROLLER_BOOT_RESOURCES_TABLE = Struct Packed
     [(''Header'', EFI_ACPI_DESCRIPTION_HEADER),
      (''EcControl'', EFI_ACPI_3_0_GENERIC_ADDRESS_STRUCTURE),
      (''EcData'', EFI_ACPI_3_0_GENERIC_ADDRESS_STRUCTURE), (''Uid'', UINT32),
      (''GpeBit'', UINT8)]"

definition EFI_ACPI_3_0_SYSTEM_RESOURCE_AFFINITY_TABLE_HEADER :: ctype where [layouts]:
  "EFI_ACPI_3_0_SYSTEM_RESOURCE_AFFINITY_TABLE_HEADER = Struct Packed
     [(''Header'', EFI_ACPI_DESCRIPTION_HEADER), (''Reserved1'', UINT32),
      (''Reserved2'', UINT64)]"

definition EFI_ACPI_3_0_PROCESSOR_LOCAL_APIC_SAPIC_AFFINITY_STRUCTURE :: ctype where [layouts]:
  "EFI_ACPI_3_0_PROCESSOR_LOCAL_APIC_SAPIC_AFFINITY_STRUCTURE = Struct Packed
     [(''Type'', UINT8), (''Length'', UINT8), (''ProximityDomain7To0'', UINT8),
      (''ApicId'', UINT8), (''Flags'', UINT32), (''LocalSapicEid'', UINT8),
      (''ProximityDomain31To8'', Array 3 UINT8), (''Reserved'', Array 4 UINT8)]"

definition EFI_ACPI_3_0_MEMORY_AFFINITY_STRUCTURE :: ctype where [layouts]:
  "EFI_ACPI_3_0_MEMORY_AFFINITY_STRUCTURE = Struct Packed
     [(''Type'', UINT8), (''Length'', UINT8), (''ProximityDomain'', UINT32),
      (''Reserved1'', UINT16), (''AddressBaseLow'', UINT32), (''AddressBaseHigh'', UINT32),
      (''LengthLow'', UINT32), (''LengthHigh'', UINT32), (''Reserved2'', UINT32),
      (''Flags'', UINT32), (''Reserved3'', UINT64)]"

definition EFI_ACPI_3_0_SYSTEM_LOCALITY_DISTANCE_INFORMATION_TABLE_HEADER :: ctype where [layouts]:
  "EFI_ACPI_3_0_SYSTEM_LOCALITY_DISTANCE_INFORMATION_TABLE_HEADER = Struct Packed
     [(''Header'', EFI_ACPI_DESCRIPTION_HEADER), (''NumberOfSystemLocalities'', UINT64)]"

end
