(* ===== verification/Acpi_6_0.thy ===== *)
theory Acpi_6_0 imports Acpi_1_3 begin

text \<open>
  The tables of \<open>Acpi60.h\<close>.
\<close>

section \<open>Acpi60.h\<close>

definition EFI_ACPI_6_0_GENERIC_ADDRESS_STRUCTURE :: ctype where [layouts]:
  "EFI_ACPI_6_0_GENERIC_ADDRESS_STRUCTURE = Struct Packed
     [(''AddressSpaceId'', UINT8), (''RegisterBitWidth'', UINT8),
      (''RegisterBitOffset'', UINT8), (''AccessSize'', UINT8), (''Address'', UINT64)]"

definition EFI_ACPI_6_0_ROOT_SYSTEM_DESCRIPTION_POINTER :: ctype where [layouts]:
  "EFI_ACPI_6_0_ROOT_SYSTEM_DESCRIPTION_POINTER = Struct Packed
     [(''Signature'', UINT64), (''Checksum'', UINT8), (''OemId'', Array 6 UINT8),
      (''Revision'', UINT8), (''RsdtAddress'', UINT32), (''Length'', UINT32),
      (''XsdtAddress'', UINT64), (''ExtendedChecksum'', UINT8), (''Reserved'', Array 3 UINT8)]"

definition EFI_ACPI_6_0_COMMON_HEADER :: ctype where [layouts]:
  "EFI_ACPI_6_0_COMMON_HEADER = Struct Packed
     [(''Signature'', UINT32), (''Length'', UINT32)]"

definition EFI_ACPI_6_0_FIXED_ACPI_DESCRIPTION_TABLE :: ctype where [layouts]:
  "EFI_ACPI_6_0_FIXED_ACPI_DESCRIPTION_TABLE = Struct Packed
     [(''Header'', EFI_ACPI_DESCRIPTION_HEADER), (''FirmwareCtrl'', UINT32), (''Dsdt'', UINT32),
      (''Reserved0'', UINT8), (''PreferredPmProfile'', UINT8), (''SciInt'', UINT16),
      (''SmiCmd'', UINT32), (''AcpiEnable'', UINT8), (''AcpiDisable'', UINT8),
      (''S4BiosReq'', UINT8), (''PstateCnt'', UINT8), (''Pm1aEvtBlk'', UINT32),
      (''Pm1bEvtBlk'', UINT32), (''Pm1aCntBlk'', UINT32), (''Pm1bCntBlk'', UINT32),
      (''Pm2CntBlk'', UINT32), (''PmTmrBlk'', UINT32), (''Gpe0Blk'', UINT32),
      (''Gpe1Blk'', UINT32), (''Pm1EvtLen'', UINT8), (''Pm1CntLen'', UINT8),
      (''Pm2CntLen'', UINT8), (''PmTmrLen'', UINT8), (''Gpe0BlkLen'', UINT8),
      (''Gpe1BlkLen'', UINT8), (''Gpe1Base'', UINT8), (''CstCnt'', UINT8),
      (''PLvl2Lat'', UINT16), (''PLvl3Lat'', UINT16), (''FlushSize'', UINT16),
      (''FlushStride'', UINT16), (''DutyOffset'', UINT8), (''DutyWidth'', UINT8),
      (''DayAlrm'', UINT8), (''MonAlrm'', UINT8), (''Century'', UINT8),
      (''IaPcBootArch'', UINT16), (''Reserved1'', UINT8), (''Flags'', UINT32),
      (''ResetReg'', EFI_ACPI_6_0_GENERIC_ADDRESS_STRUCTURE), (''ResetValue'', UINT8),
      (''ArmBootArch'', UINT16), (''MinorVersion'', UINT8), (''XFirmwareCtrl'', UINT64),
      (''XDsdt'', UINT64), (''XPm1aEvtBlk'', EFI_ACPI_6_0_GENERIC_ADDRESS_STRUCTURE),
      (''XPm1bEvtBlk'', EFI_ACPI_6_0_GENERIC_ADDRESS_STRUCTURE),
      (''XPm1aCntBlk'', EFI_ACPI_6_0_GENERIC_ADDRESS_STRUCTURE),
      (''XPm1bCntBlk'', EFI_ACPI_6_0_GENERIC_ADDRESS_STRUCTURE),
      (''XPm2CntBlk'', EFI_ACPI_6_0_GENERIC_ADDRESS_STRUCTURE),
      (''XPmTmrBlk'', EFI_ACPI_6_0_GENERIC_ADDRESS_STRUCTURE),
      (''XGpe0Blk'', EFI_ACPI_6_0_GENERIC_ADDRESS_STRUCTURE),
      (''XGpe1Blk'', EFI_ACPI_6_0_GENERIC_ADDRESS_STRUCTURE),
      (''SleepControlReg'', EFI_ACPI_6_0_GENERIC_ADDRESS_STRUCTURE),
      (''SleepStatusReg'', EFI_ACPI_6_0_GENERIC_ADDRESS_STRUCTURE),
      (''HypervisorVendorIdentity'', UINT64)]"

definition EFI_ACPI_6_0_FIRMWARE_ACPI_CONTROL_STRUCTURE :: ctype where [layouts]:
  "EFI_ACPI_6_0_FIRMWARE_ACPI_CONTROL_STRUCTURE = Struct Packed
     [(''Signature'', UINT32), (''Length'', UINT32), (''HardwareSignature'', UINT32),
      (''FirmwareWakingVector'', UINT32), (''GlobalLock'', UINT32), (''Flags'', UINT32),
      (''XFirmwareWakingVector'', UINT64), (''Version'', UINT8), (''Reserved0'', Array 3 UINT8),
      (''OspmFlags'', UINT32), (''Reserved1'', Array 24 UINT8)]"

definition EFI_ACPI_6_0_MULTIPLE_APIC_DESCRIPTION_TABLE_HEADER :: ctype where [layouts]:
  "EFI_ACPI_6_0_MULTIPLE_APIC_DESCRIPTION_TABLE_HEADER = Struct Packed
     [(''Header'', EFI_ACPI_DESCRIPTION_HEADER), (''LocalApicAddress'', UINT32),
      (''Flags'', UINT32)]"

definition EFI_ACPI_6_0_PROCESSOR_LOCAL_APIC_STRUCTURE :: ctype where [layouts]:
  "EFI_ACPI_6_0_PROCESSOR_LOCAL_APIC_STRUCTURE = Struct Packed
     [(''Type'', UINT8), (''Length'', UINT8), (''AcpiProcessorUid'', UINT8),
      (''ApicId'', UINT8), (''Flags'', UINT32)]"

definition EFI_ACPI_6_0_IO_APIC_STRUCTURE :: ctype where [layouts]:
  "EFI_ACPI_6_0_IO_APIC_STRUCTURE = Struct Packed
     [(''Type'', UINT8), (''Length'', UINT8), (''IoApicId'', UINT8), (''Reserved'', UINT8),
      (''IoApicAddress'', UINT32), (''GlobalSystemInterruptBase'', UINT32)]"

definition EFI_ACPI_6_0_INTERRUPT_SOURCE_OVERRIDE_STRUCTURE :: ctype where [layouts]:
  "EFI_ACPI_6_0_INTERRUPT_SOURCE_OVERRIDE_STRUCTURE = Struct Packed
     [(''Type'', UINT8), (''Length'', UINT8), (''Bus'', UINT8), (''Source'', UINT8),
      (''GlobalSystemInterrupt'', UINT32), (''Flags'', UINT16)]"

definition EFI_ACPI_6_0_PLATFORM_INTERRUPT_APIC_STRUCTURE :: ctype where [layouts]:
  "EFI_ACPI_6_0_PLATFORM_INTERRUPT_APIC_STRUCTURE = Struct Packed
     [(''Type'', UINT8), (''Length'', UINT8), (''Flags'', UINT16), (''InterruptType'', UINT8),
      (''ProcessorId'', UINT8), (''ProcessorEid'', UINT8), (''IoSapicVector'', UINT8),
      (''GlobalSystemInterrupt'', UINT32), (''PlatformInterruptSourceFlags'', UINT32),
      (''CpeiProcessorOverride'', UINT8), (''Reserved'', Array 31 UINT8)]"

definition EFI_ACPI_6_0_NON_MASKABLE_INTERRUPT_SOURCE_STRUCTURE :: ctype where [layouts]:
  "EFI_ACPI_6_0_NON_MASKABLE_INTERRUPT_SOURCE_STRUCTURE = Struct Packed
     [(''Type'', UINT8), (''Length'', UINT8), (''Flags'', UINT16),
      (''GlobalSystemInterrupt'', UINT32)]"

definition EFI_ACPI_6_0_LOCAL_APIC_NMI_STRUCTURE :: ctype where [layouts]:
  "EFI_ACPI_6_0_LOCAL_APIC_NMI_STRUCTURE = Struct Packed
     [(''Type'', UINT8), (''Length'', UINT8), (''AcpiProcessorUid'', UINT8),
      (''Flags'', UINT16), (''LocalApicLint'', UINT8)]"

definition EFI_ACPI_6_0_LOCAL_APIC_ADDRESS_OVERRIDE_STRUCTURE :: ctype where [layouts]:
  "EFI_ACPI_6_0_LOCAL_APIC_ADDRESS_OVERRIDE_STRUCTURE = Struct Packed
     [(''Type'', UINT8), (''Length'', UINT8), (''Reserved'', UINT16),
      (''LocalApicAddress'', UINT64)]"

definition EFI_ACPI_6_0_IO_SAPIC_STRUCTURE :: ctype where [layouts]:
  "EFI_ACPI_6_0_IO_SAPIC_STRUCTURE = Struct Packed
     [(''Type'', UINT8), (''Length'', UINT8), (''IoApicId'', UINT8), (''Reserved'', UINT8),
      (''GlobalSystemInterruptBase'', UINT32), (''IoSapicAddress'', UINT64)]"

definition EFI_ACPI_6_0_PROCESSOR_LOCAL_SAPIC_STRUCTURE :: ctype where [layouts]:
  "EFI_ACPI_6_0_PROCESSOR_LOCAL_SAPIC_STRUCTURE = Struct Packed
     [(''Type'', UINT8), (''Length'', UINT8), (''AcpiProcessorId'', UINT8),
      (''LocalSapicId'', UINT8), (''LocalSapicEid'', UINT8), (''Reserved'', Array 3 UINT8),
      (''Flags'', UINT32), (''ACPIProcessorUIDValue'', UINT32)]"

definition EFI_ACPI_6_0_PLATFORM_INTERRUPT_SOURCES_STRUCTURE :: ctype where [layouts]:
  "EFI_ACPI_6_0_PLATFORM_INTERRUPT_SOURCES_STRUCTURE = Struct Packed
     [(''Type'', UINT8), (''Length'', UINT8), (''Flags'', UINT16), (''InterruptType'', UINT8),
      (''ProcessorId'', UINT8), (''ProcessorEid'', UINT8), (''IoSapicVector'', UINT8),
      (''GlobalSystemInterrupt'', UINT32), (''PlatformInterruptSourceFlags'', UINT32)]"

definition EFI_ACPI_6_0_PROCESSOR_LOCAL_X2APIC_STRUCTURE :: ctype where [layouts]:
  "EFI_ACPI_6_0_PROCESSOR_LOCAL_X2APIC_STRUCTURE = Struct Packed
     [(''Type'', UINT8), (''Length'', UINT8), (''Reserved'', Array 2 UINT8),
      (''X2ApicId'', UINT32), (''Flags'', UINT32), (''AcpiProcessorUid'', UINT32)]"

definition EFI_ACPI_6_0_LOCAL_X2APIC_NMI_STRUCTURE :: ctype where [layouts]:
  "EFI_ACPI_6_0_LOCAL_X2APIC_NMI_STRUCTURE = Struct Packed
     [(''Type'', UINT8), (''Length'', UINT8), (''Flags'', UINT16),
      (''AcpiProcessorUid'', UINT32), (''LocalX2ApicLint'', UINT8),
      (''Reserved'', Array 3 UINT8)]"

definition EFI_ACPI_6_0_GIC_STRUCTURE :: ctype where [layouts]:
  "EFI_ACPI_6_0_GIC_STRUCTURE = Struct Packed
     [(''Type'', UINT8), (''Length'', UINT8), (''Reserved'', UINT16),
      (''CPUInterfaceNumber'', UINT32), (''AcpiProcessorUid'', UINT32), (''Flags'', UINT32),
      (''ParkingProtocolVersion'', UINT32), (''PerformanceInterruptGsiv'', UINT32),
      (''ParkedAddress'', UINT64), (''PhysicalBaseAddress'', UINT64), (''GICV'', UINT64),
      (''GICH'', UINT64), (''VGICMaintenanceInterrupt'', UINT32), (''GICRBaseAddress'', UINT64),
      (''MPIDR'', UINT64), (''ProcessorPowerEfficiencyClass'', UINT8),
      (''Reserved2'', Array 3 UINT8)]"

definition EFI_ACPI_6_0_GIC_DISTRIBUTOR_STRUCTURE :: ctype where [layouts]:
  "EFI_ACPI_6_0_GIC_DISTRIBUTOR_STRUCTURE = Struct Packed
     [(''Type'', UINT8), (''Length'', UINT8), (''Reserved1'', UINT16), (''GicId'', UINT32),
      (''PhysicalBaseAddress'', UINT64), (''SystemVectorBase'', UINT32),
      (''GicVersion'', UINT8), (''Reserved2'', Array 3 UINT8)]"

definition EFI_ACPI_6_0_GIC_MSI_FRAME_STRUCTURE :: ctype where [layouts]:
  "EFI_ACPI_6_0_GIC_MSI_FRAME_STRUCTURE = Struct Packed
     [(''Type'', UINT8), (''Length'', UINT8), (''Reserved1'', UINT16),
      (''GicMsiFrameId'', UINT32), (''PhysicalBaseAddress'', UINT64), (''Flags'', UINT32),
      (''SPICount'', UINT16), (''SPIBase'', UINT16)]"

definition EFI_ACPI_6_0_GICR_STRUCTURE :: ctype where [layouts]:
  "EFI_ACPI_6_0_GICR_STRUCTURE = Struct Packed
     [(''Type'', UINT8), (''Length'', UINT8), (''Reserved'', UINT16),
      (''DiscoveryRangeBaseAddress'', UINT64), (''DiscoveryRangeLength'', UINT32)]"

definition EFI_ACPI_6_0_GIC_ITS_STRUCTURE :: ctype where [layouts]:
  "EFI_ACPI_6_0_GIC_ITS_STRUCTURE = Struct Packed
     [(''Type'', UINT8), (''Length'', UINT8), (''Reserved'', UINT16), (''GicItsId'', UINT32),
      (''PhysicalBaseAddress'', UINT64), (''Reserved2'', UINT32)]"

definition EFI_ACPI_6_0_SMART_BATTERY_DESCRIPTION_TABLE :: ctype where [layouts]:
  "EFI_ACPI_6_0_SMART_BATTERY_DESCRIPTION_TABLE = Struct Packed
     [(''Header'', EFI_ACPI_DESCRIPTION_HEADER), (''WarningEnergyLevel'', UINT32),
      (''LowEnergyLevel'', UINT32), (''CriticalEnergyLevel'', UINT32)]"

definition EFI_ACPI_6_0_EMBEDDED_CONTROLLER_BOOT_RESOURCES_TABLE :: ctype where [layouts]:
  "EFI_ACPI_6_0_EMBEDDED_CONTROLLER_BOOT_RESOURCES_TABLE = Struct Packed
     [(''Header'', EFI_ACPI_DESCRIPTION_HEADER),
      (''EcControl'', EFI_ACPI_6_0_GENERIC_ADDRESS_STRUCTURE),
      (''EcData'', EFI_ACPI_6_0_GENERIC_ADDRESS_STRUCTURE), (''Uid'', UINT32),
      (''GpeBit'', UINT8)]"

definition EFI_ACPI_6_0_SYSTEM_RESOURCE_AFFINITY_TABLE_HEADER :: ctype where [layouts]:
  "EFI_ACPI_6_0_SYSTEM_RESOURCE_AFFINITY_TABLE_HEADER = Struct Packed
     [(''Header'', EFI_ACPI_DESCRIPTION_HEADER), (''Reserved1'', UINT32),
      (''Reserved2'', UINT64)]"

definition EFI_ACPI_6_0_PROCESSOR_LOCAL_APIC_SAPIC_AFFINITY_STRUCTURE :: ctype where [layouts]:
  "EFI_ACPI_6_0_PROCESSOR_LOCAL_APIC_SAPIC_AFFINITY_STRUCTURE = Struct Packed
     [(''Type'', UINT8), (''Length'', UINT8), (''ProximityDomain7To0'', UINT8),
      (''ApicId'', UINT8), (''Flags'', UINT32), (''LocalSapicEid'', UINT8),
      (''ProximityDomain31To8'', Array 3 UINT8), (''ClockDomain'', UINT32)]"

definition EFI_ACPI_6_0_MEMORY_AFFINITY_STRUCTURE :: ctype where [layouts]:
  "EFI_ACPI_6_0_MEMORY_AFFINITY_STRUCTURE = Struct Packed
     [(''Type'', UINT8), (''Length'', UINT8), (''ProximityDomain'', UINT32),
      (''Reserved1'', UINT16), (''AddressBaseLow'', UINT32), (''AddressBaseHigh'', UINT32),
      (''LengthLow'', UINT32), (''LengthHigh'', UINT32), (''Reserved2'', UINT32),
      (''Flags'', UINT32), (''Reserved3'', UINT64)]"

definition EFI_ACPI_6_0_PROCESSOR_LOCAL_X2APIC_AFFINITY_STRUCTURE :: ctype where [layouts]:
  "EFI_ACPI_6_0_PROCESSOR_LOCAL_X2APIC_AFFINITY_STRUCTURE = Struct Packed
     [(''Type'', UINT8), (''Length'', UINT8), (''Reserved1'', Array 2 UINT8),
      (''ProximityDomain'', UINT32), (''X2ApicId'', UINT32), (''Flags'', UINT32),
      (''ClockDomain'', UINT32), (''Reserved2'', Array 4 UINT8)]"

definition EFI_ACPI_6_0_GICC_AFFINITY_STRUCTURE :: ctype where [layouts]:
  "EFI_ACPI_6_0_GICC_AFFINITY_STRUCTURE = Struct Packed
     [(''Type'', UINT8), (''Length'', UINT8), (''ProximityDomain'', UINT32),
      (''AcpiProcessorUid'', UINT32), (''Flags'', UINT32), (''ClockDomain'', UINT32)]"

definition EFI_ACPI_6_0_SYSTEM_LOCALITY_DISTANCE_INFORMATION_TABLE_HEADER :: ctype where [layouts]:
  "EFI_ACPI_6_0_SYSTEM_LOCALITY_DISTANCE_INFORMATION_TABLE_HEADER = Struct Packed
     [(''Header'', EFI_ACPI_DESCRIPTION_HEADER), (''NumberOfSystemLocalities'', UINT64)]"

definition EFI_ACPI_6_0_CORRECTED_PLATFORM_ERROR_POLLING_TABLE_HEADER :: ctype where [layouts]:
  "EFI_ACPI_6_0_CORRECTED_PLATFORM_ERROR_POLLING_TABLE_HEADER = Struct Packed
     [(''Header'', EFI_ACPI_DESCRIPTION_HEADER), (''Reserved'', Array 8 UINT8)]"

definition EFI_ACPI_6_0_CPEP_PROCESSOR_APIC_SAPIC_STRUCTURE :: ctype where [layouts]:
  "EFI_ACPI_6_0_CPEP_PROCESSOR_APIC_SAPIC_STRUCTURE = Struct Packed
     [(''Type'', UINT8), (''Length'', UINT8), (''ProcessorId'', UINT8),
      (''ProcessorEid'', UINT8), (''PollingInterval'', UINT32)]"

definition EFI_ACPI_6_0_MAXIMUM_SYSTEM_CHARACTERISTICS_TABLE_HEADER :: ctype where [layouts]:
  "EFI_ACPI_6_0_MAXIMUM_SYSTEM_CHARACTERISTICS_TABLE_HEADER = Struct Packed
     [(''Header'', EFI_ACPI_DESCRIPTION_HEADER), (''OffsetProxDomInfo'', UINT32),
      (''MaximumNumberOfProximityDomains'', UINT32), (''MaximumNumberOfClockDomains'', UINT32),
      (''MaximumPhysicalAddress'', UINT64)]"

definition EFI_ACPI_6_0_MAXIMUM_PROXIMITY_DOMAIN_INFORMATION_STRUCTURE :: ctype where [layouts]:
  "EFI_ACPI_6_0_MAXIMUM_PROXIMITY_DOMAIN_INFORMATION_STRUCTURE = Struct Packed
     [(''Revision'', UINT8), (''Length'', UINT8), (''ProximityDomainRangeLow'', UINT32),
      (''ProximityDomainRangeHigh'', UINT32), (''MaximumProcessorCapacity'', UINT32),
      (''MaximumMemoryCapacity'', UINT64)]"

definition EFI_ACPI_6_0_RAS_FEATURE_TABLE :: ctype where [layouts]:
  "EFI_ACPI_6_0_RAS_FEATURE_TABLE = Struct Packed
     [(''Header'', EFI_ACPI_DESCRIPTION_HEADER),
      (''PlatformCommunicationChannelIdentifier'', Array 12 UINT8)]"

definition EFI_ACPI_6_0_RASF_PLATFORM_COMMUNICATION_CHANNEL_SHARED_MEMORY_REGION :: ctype where [layouts]:
  "EFI_ACPI_6_0_RASF_PLATFORM_COMMUNICATION_CHANNEL_SHARED_MEMORY_REGION = Struct Packed
     [(''Signature'', UINT32), (''Command'', UINT16), (''Status'', UINT16),
      (''Version'', UINT16), (''RASCapabilities'', Array 16 UINT8),
      (''SetRASCapabilities'', Array 16 UINT8), (''NumberOfRASFParameterBlocks'', UINT16),
      (''SetRASCapabilitiesStatus'', UINT32)]"

definition EFI_ACPI_6_0_RASF_PATROL_SCRUB_PLATFORM_BLOCK_STRUCTURE :: ctype where [layouts]:
  "EFI_ACPI_6_0_RASF_PATROL_SCRUB_PLATFORM_BLOCK_STRUCTURE = Struct Packed
     [(''Type'', UINT16), (''Version'', UINT16), (''Length'', UINT16),
      (''PatrolScrubCommand'', UINT16), (''RequestedAddressRange'', Array 2 UINT64),
      (''ActualAddressRange'', Array 2 UINT64), (''Flags'', UINT16),
      (''RequestedSpeed'', UINT8)]"

definition EFI_ACPI_6_0_MEMORY_POWER_STATUS_TABLE :: ctype where [layouts]:
  "EFI_ACPI_6_0_MEMORY_POWER_STATUS_TABLE = Struct Packed
     [(''Header'', EFI_ACPI_DESCRIPTION_HEADER),
      (''PlatformCommunicationChannelIdentifier'', UINT8), (''Reserved'', Array 3 UINT8)]"

definition EFI_ACPI_6_0_MPST_PLATFORM_COMMUNICATION_CHANNEL_SHARED_MEMORY_REGION :: ctype where [layouts]:
  "EFI_ACPI_6_0_MPST_PLATFORM_COMMUNICATION_CHANNEL_SHARED_MEMORY_REGION = Struct Packed
     [(''Signature'', UINT32), (''Command'', UINT16), (''Status'', UINT16),
      (''MemoryPowerCommandRegister'', UINT32), (''MemoryPowerStatusRegister'', UINT32),
      (''PowerStateId'', UINT32), (''MemoryPowerNodeId'', UINT32),
      (''MemoryEnergyConsumed'', UINT64), (''ExpectedAveragePowerComsuned'', UINT64)]"

definition EFI_ACPI_6_0_MPST_MEMORY_POWER_STATE :: ctype where [layouts]:
  "EFI_ACPI_6_0_MPST_MEMORY_POWER_STATE = Struct Packed
     [(''PowerStateValue'', UINT8), (''PowerStateInformationIndex'', UINT8)]"

definition EFI_ACPI_6_0_MPST_MEMORY_POWER_STRUCTURE :: ctype where [layouts]:
  "EFI_ACPI_6_0_MPST_MEMORY_POWER_STRUCTURE = Struct Packed
     [(''Flag'', UINT8), (''Reserved'', UINT8), (''MemoryPowerNodeId'', UINT16),
      (''Length'', UINT32), (''AddressBase'', UINT64), (''AddressLength'', UINT64),
      (''NumberOfPowerStates'', UINT32), (''NumberOfPhysicalComponents'', UINT32)]"

definition EFI_ACPI_6_0_MPST_MEMORY_POWER_NODE_TABLE :: ctype where [layouts]:
  "EFI_ACPI_6_0_MPST_MEMORY_POWER_NODE_TABLE = Struct Packed
     [(''MemoryPowerNodeCount'', UINT16), (''Reserved'', Array 2 UINT8)]"

definition EFI_ACPI_6_0_MPST_MEMORY_POWER_STATE_CHARACTERISTICS_STRUCTURE :: ctype where [layouts]:
  "EFI_ACPI_6_0_MPST_MEMORY_POWER_STATE_CHARACTERISTICS_STRUCTURE = Struct Packed
     [(''PowerStateStructureID'', UINT8), (''Flag'', UINT8), (''Reserved'', UINT16),
      (''AveragePowerConsumedInMPS0'', UINT32), (''RelativePowerSavingToMPS0'', UINT32),
      (''ExitLatencyToMPS0'', UINT64)]"

definition EFI_ACPI_6_0_MPST_MEMORY_POWER_STATE_CHARACTERISTICS_TABLE :: ctype where [layouts]:
  "EFI_ACPI_6_0_MPST_MEMORY_POWER_STATE_CHARACTERISTICS_TABLE = Struct Packed
     [(''MemoryPowerStateCharacteristicsCount'', UINT16), (''Reserved'', Array 2 UINT8)]"

definition EFI_ACPI_6_0_MEMORY_TOPOLOGY_TABLE :: ctype where [layouts]:
  "EFI_ACPI_6_0_MEMORY_TOPOLOGY_TABLE = Struct Packed
     [(''Header'', EFI_ACPI_DESCRIPTION_HEADER), (''Reserved'', UINT32)]"

definition EFI_ACPI_6_0_PMMT_COMMON_MEMORY_AGGREGATOR_DEVICE_STRUCTURE :: ctype where [layouts]:
  "EFI_ACPI_6_0_PMMT_COMMON_MEMORY_AGGREGATOR_DEVICE_STRUCTURE = Struct Packed
     [(''Type'', UINT8), (''Reserved'', UINT8), (''Length'', UINT16), (''Flags'', UINT16),
      (''Reserved1'', UINT16)]"

definition EFI_ACPI_6_0_PMMT_SOCKET_MEMORY_AGGREGATOR_DEVICE_STRUCTURE :: ctype where [layouts]:
  "EFI_ACPI_6_0_PMMT_SOCKET_MEMORY_AGGREGATOR_DEVICE_STRUCTURE = Struct Packed
     [(''Header'', EFI_ACPI_6_0_PMMT_COMMON_MEMORY_AGGREGATOR_DEVICE_STRUCTURE),
      (''SocketIdentifier'', UINT16), (''Reserved'', UINT16)]"

definition EFI_ACPI_6_0_PMMT_MEMORY_CONTROLLER_MEMORY_AGGREGATOR_DEVICE_STRUCTURE :: ctype where [layouts]:
  "EFI_ACPI_6_0_PMMT_MEMORY_CONTROLLER_MEMORY_AGGREGATOR_DEVICE_STRUCTURE = Struct Packed
     [(''Header'', EFI_ACPI_6_0_PMMT_COMMON_MEMORY_AGGREGATOR_DEVICE_STRUCTURE),
      (''ReadLatency'', UINT32), (''WriteLatency'', UINT32), (''ReadBandwidth'', UINT32),
      (''WriteBandwidth'', UINT32), (''OptimalAccessUnit'', UINT16),
      (''OptimalAccessAlignment'', UINT16), (''Reserved'', UINT16),
      (''NumberOfProximityDomains'', UINT16)]"

definition EFI_ACPI_6_0_PMMT_DIMM_MEMORY_AGGREGATOR_DEVICE_STRUCTURE :: ctype where [layouts]:
  "EFI_ACPI_6_0_PMMT_DIMM_MEMORY_AGGREGATOR_DEVICE_STRUCTURE = Struct Packed
     [(''Header'', EFI_ACPI_6_0_PMMT_COMMON_MEMORY_AGGREGATOR_DEVICE_STRUCTURE),
      (''PhysicalComponentIdentifier'', UINT16), (''Reserved'', UINT16),
      (''SizeOfDimm'', UINT32), (''SmbiosHandle'', UINT32)]"

definition EFI_ACPI_6_0_BOOT_GRAPHICS_RESOURCE_TABLE :: ctype where [layouts]:
  "EFI_ACPI_6_0_BOOT_GRAPHICS_RESOURCE_TABLE = Struct Packed
     [(''Header'', EFI_ACPI_DESCRIPTION_HEADER), (''Version'', UINT16), (''Status'', UINT8),
      (''ImageType'', UINT8), (''ImageAddress'', UINT64), (''ImageOffsetX'', UINT32),
      (''ImageOffsetY'', UINT32)]"

definition EFI_ACPI_6_0_FPDT_PERFORMANCE_RECORD_HEADER :: ctype where [layouts]:
  "EFI_ACPI_6_0_FPDT_PERFORMANCE_RECORD_HEADER = Struct Packed
     [(''Type'', UINT16), (''Length'', UINT8), (''Revision'', UINT8)]"

definition EFI_ACPI_6_0_FPDT_PERFORMANCE_TABLE_HEADER :: ctype where [layouts]:
  "EFI_ACPI_6_0_FPDT_PERFORMANCE_TABLE_HEADER = Struct Packed
     [(''Signature'', UINT32), (''Length'', UINT32)]"

definition EFI_ACPI_6_0_FPDT_BOOT_PERFORMANCE_TABLE_POINTER_RECORD :: ctype where [layouts]:
  "EFI_ACPI_6_0_FPDT_BOOT_PERFORMANCE_TABLE_POINTER_RECORD = Struct Packed
     [(''Header'', EFI_ACPI_6_0_FPDT_PERFORMANCE_RECORD_HEADER), (''Reserved'', UINT32),
      (''BootPerformanceTablePointer'', UINT64)]"

definition EFI_ACPI_6_0_FPDT_S3_PERFORMANCE_TABLE_POINTER_RECORD :: ctype where [layouts]:
  "EFI_ACPI_6_0_FPDT_S3_PERFORMANCE_TABLE_POINTER_RECORD = Struct Packed
     [(''Header'', EFI_ACPI_6_0_FPDT_PERFORMANCE_RECORD_HEADER), (''Reserved'', UINT32),
      (''S3PerformanceTablePointer'', UINT64)]"

definition EFI_ACPI_6_0_FPDT_FIRMWARE_BASIC_BOOT_RECORD :: ctype where [layouts]:
  "EFI_ACPI_6_0_FPDT_FIRMWARE_BASIC_BOOT_RECORD = Struct Packed
     [(''Header'', EFI_ACPI_6_0_FPDT_PERFORMANCE_RECORD_HEADER), (''Reserved'', UINT32),
      (''ResetEnd'', UINT64), (''OsLoaderLoadImageStart'', UINT64),
      (''OsLoaderStartImageStart'', UINT64), (''ExitBootServicesEntry'', UINT64),
      (''ExitBootServicesExit'', UINT64)]"

definition EFI_ACPI_6_0_FPDT_FIRMWARE_BASIC_BOOT_TABLE :: ctype where [layouts]:
  "EFI_ACPI_6_0_FPDT_FIRMWARE_BASIC_BOOT_TABLE = Struct Packed
     [(''Header'', EFI_ACPI_6_0_FPDT_PERFORMANCE_TABLE_HEADER)]"

definition EFI_ACPI_6_0_FPDT_FIRMWARE_S3_BOOT_TABLE :: ctype where [layouts]:
  "EFI_ACPI_6_0_FPDT_FIRMWARE_S3_BOOT_TABLE = Struct Packed
     [(''Header'', EFI_ACPI_6_0_FPDT_PERFORMANCE_TABLE_HEADER)]"

definition EFI_ACPI_6_0_FPDT_S3_RESUME_RECORD :: ctype where [layouts]:
  "EFI_ACPI_6_0_FPDT_S3_RESUME_RECORD = Struct Packed
     [(''Header'', EFI_ACPI_6_0_FPDT_PERFORMANCE_RECORD_HEADER), (''ResumeCount'', UINT32),
      (''FullResume'', UINT64), (''AverageResume'', UINT64)]"

definition EFI_ACPI_6_0_FPDT_S3_SUSPEND_RECORD :: ctype where [layouts]:
  "EFI_ACPI_6_0_FPDT_S3_SUSPEND_RECORD = Struct Packed
     [(''Header'', EFI_ACPI_6_0_FPDT_PERFORMANCE_RECORD_HEADER), (''SuspendStart'', UINT64),
      (''SuspendEnd'', UINT64)]"

definition EFI_ACPI_6_0_FIRMWARE_PERFORMANCE_RECORD_TABLE :: ctype where [layouts]:
  "EFI_ACPI_6_0_FIRMWARE_PERFORMANCE_RECORD_TABLE = Struct Packed
     [(''Header'', EFI_ACPI_DESCRIPTION_HEADER)]"

definition EFI_ACPI_6_0_GENERIC_TIMER_DESCRIPTION_TABLE :: ctype where [layouts]:
  "EFI_ACPI_6_0_GENERIC_TIMER_DESCRIPTION_TABLE = Struct Packed
     [(''Header'', EFI_ACPI_DESCRIPTION_HEADER), (''CntControlBasePhysicalAddress'', UINT64),
      (''Reserved'', UINT32), (''SecurePL1TimerGSIV'', UINT32),
      (''SecurePL1TimerFlags'', UINT32), (''NonSecurePL1TimerGSIV'', UINT32),
      (''NonSecurePL1TimerFlags'', UINT32), (''VirtualTimerGSIV'', UINT32),
      (''VirtualTimerFlags'', UINT32), (''NonSecurePL2TimerGSIV'', UINT32),
      (''NonSecurePL2TimerFlags'', UINT32), (''CntReadBasePhysicalAddress'', UINT64),
      (''PlatformTimerCount'', UINT32), (''PlatformTimerOffset'', UINT32)]"

definition EFI_ACPI_6_0_GTDT_GT_BLOCK_STRUCTURE :: ctype where [layouts]:
  "EFI_ACPI_6_0_GTDT_GT_BLOCK_STRUCTURE = Struct Packed
     [(''Type'', UINT8), (''Length'', UINT16), (''Reserved'', UINT8), (''CntCtlBase'', UINT64),
      (''GTBlockTimerCount'', UINT32), (''GTBlockTimerOffset'', UINT32)]"

definition EFI_ACPI_6_0_GTDT_GT_BLOCK_TIMER_STRUCTURE :: ctype where [layouts]:
  "EFI_ACPI_6_0_GTDT_GT_BLOCK_TIMER_STRUCTURE = Struct Packed
     [(''GTFrameNumber'', UINT8), (''Reserved'', Array 3 UINT8), (''CntBaseX'', UINT64),
      (''CntEL0BaseX'', UINT64), (''GTxPhysicalTimerGSIV'', UINT32),
      (''GTxPhysicalTimerFlags'', UINT32), (''GTxVirtualTimerGSIV'', UINT32),
      (''GTxVirtualTimerFlags'', UINT32), (''GTxCommonFlags'', UINT32)]"

definition EFI_ACPI_6_0_GTDT_SBSA_GENERIC_WATCHDOG_STRUCTURE :: ctype where [layouts]:
  "EFI_ACPI_6_0_GTDT_SBSA_GENERIC_WATCHDOG_STRUCTURE = Struct Packed
     [(''Type'', UINT8), (''Length'', UINT16), (''Reserved'', UINT8),
      (''RefreshFramePhysicalAddress'', UINT64),
      (''WatchdogControlFramePhysicalAddress'', UINT64), (''WatchdogTimerGSIV'', UINT32),
      (''WatchdogTimerFlags'', UINT32)]"

definition EFI_ACPI_6_0_NVDIMM_FIRMWARE_INTERFACE_TABLE :: ctype where [layouts]:
  "EFI_ACPI_6_0_NVDIMM_FIRMWARE_INTERFACE_TABLE = Struct Packed
     [(''Header'', EFI_ACPI_DESCRIPTION_HEADER), (''Reserved'', UINT32)]"

definition EFI_ACPI_6_0_NFIT_STRUCTURE_HEADER :: ctype where [layouts]:
  "EFI_ACPI_6_0_NFIT_STRUCTURE_HEADER = Struct Packed
     [(''Type'', UINT16), (''Length'', UINT16)]"

definition EFI_ACPI_6_0_NFIT_SYSTEM_PHYSICAL_ADDRESS_RANGE_STRUCTURE :: ctype where [layouts]:
  "EFI_ACPI_6_0_NFIT_SYSTEM_PHYSICAL_ADDRESS_RANGE_STRUCTURE = Struct Packed
     [(''Type'', UINT16), (''Length'', UINT16), (''SPARangeStructureIndex'', UINT16),
      (''Flags'', UINT16), (''Reserved_8'', UINT32), (''ProximityDomain'', UINT32),
      (''AddressRangeTypeGUID'', GUID), (''SystemPhysicalAddressRangeBase'', UINT64),
      (''SystemPhysicalAddressRangeLength'', UINT64),
      (''AddressRangeMemoryMappingAttribute'', UINT64)]"

definition EFI_ACPI_6_0_NFIT_DEVICE_HANDLE :: ctype where [layouts]:
  "EFI_ACPI_6_0_NFIT_DEVICE_HANDLE = Struct Packed
     [('''', Bits 4 [(''DIMMNumber'', 4), (''MemoryChannelNumber'', 4),
              (''MemoryControllerID'', 4), (''SocketID'', 4),
              (''NodeControllerID'', 12), (''Reserved_28'', 4)])]"

definition EFI_ACPI_6_0_NFIT_MEMORY_DEVICE_TO_SYSTEM_ADDRESS_RANGE_MAP_STRUCTURE :: ctype where [layouts]:
  "EFI_ACPI_6_0_NFIT_MEMORY_DEVICE_TO_SYSTEM_ADDRESS_RANGE_MAP_STRUCTURE = Struct Packed
     [(''Type'', UINT16), (''Length'', UINT16),
      (''NFITDeviceHandle'', EFI_ACPI_6_0_NFIT_DEVICE_HANDLE),
      (''MemoryDevicePhysicalID'', UINT16), (''MemoryDeviceRegionID'', UINT16),
      (''SPARangeStructureIndex'', UINT16), (''NVDIMMControlRegionStructureIndex'', UINT16),
      (''MemoryDeviceRegionSize'', UINT64), (''RegionOffset'', UINT64),
      (''MemoryDevicePhysicalAddressRegionBase'', UINT64),
      (''InterleaveStructureIndex'', UINT16), (''InterleaveWays'', UINT16),
      (''MemoryDeviceStateFlags'', UINT16), (''Reserved_46'', UINT16)]"

definition EFI_ACPI_6_0_NFIT_INTERLEAVE_STRUCTURE :: ctype where [layouts]:
  "EFI_ACPI_6_0_NFIT_INTERLEAVE_STRUCTURE = Struct Packed
     [(''Type'', UINT16), (''Length'', UINT16), (''InterleaveStructureIndex'', UINT16),
      (''Reserved_6'', UINT16), (''NumberOfLines'', UINT32), (''LineSize'', UINT32)]"

definition EFI_ACPI_6_0_NFIT_SMBIOS_MANAGEMENT_INFORMATION_STRUCTURE :: ctype where [layouts]:
  "EFI_ACPI_6_0_NFIT_SMBIOS_MANAGEMENT_INFORMATION_STRUCTURE = Struct Packed
     [(''Type'', UINT16), (''Length'', UINT16), (''Reserved_4'', UINT32)]"

definition EFI_ACPI_6_0_NFIT_NVDIMM_CONTROL_REGION_STRUCTURE :: ctype where [layouts]:
  "EFI_ACPI_6_0_NFIT_NVDIMM_CONTROL_REGION_STRUCTURE = Struct Packed
     [(''Type'', UINT16), (''Length'', UINT16), (''NVDIMMControlRegionStructureIndex'', UINT16),
      (''VendorID'', UINT16), (''DeviceID'', UINT16), (''RevisionID'', UINT16),
      (''SubsystemVendorID'', UINT16), (''SubsystemDeviceID'', UINT16),
      (''SubsystemRevisionID'', UINT16), (''Reserved_18'', Array 6 UINT8),
      (''SerialNumber'', UINT32), (''RegionFormatInterfaceCode'', UINT16),
      (''NumberOfBlockControlWindows'', UINT16), (''SizeOfBlockControlWindow'', UINT64),
      (''CommandRegisterOffsetInBlockControlWindow'', UINT64),
      (''SizeOfCommandRegisterInBlockControlWindows'', UINT64),
      (''StatusRegisterOffsetInBlockControlWindow'', UINT64),
      (''SizeOfStatusRegisterInBlockControlWindows'', UINT64),
      (''NVDIMMControlRegionFlag'', UINT16), (''Reserved_74'', Array 6 UINT8)]"

definition EFI_ACPI_6_0_NFIT_NVDIMM_BLOCK_DATA_WINDOW_REGION_STRUCTURE :: ctype where [layouts]:
  "EFI_ACPI_6_0_NFIT_NVDIMM_BLOCK_DATA_WINDOW_REGION_STRUCTURE = Struct Packed
     [(''Type'', UINT16), (''Length'', UINT16), (''NVDIMMControlRegionStructureIndex'', UINT16),
      (''NumberOfBlockDataWindows'', UINT16), (''BlockDataWindowStartOffset'', UINT64),
      (''SizeOfBlockDataWindow'', UINT64), (''BlockAccessibleMemoryCapacity'', UINT64),
      (''BeginningAddressOfFirstBlockInBlockAccessibleMemory'', UINT64)]"

definition EFI_ACPI_6_0_NFIT_FLUSH_HINT_ADDRESS_STRUCTURE :: ctype where [layouts]:
  "EFI_ACPI_6_0_NFIT_FLUSH_HINT_ADDRESS_STRUCTURE = Struct Packed
     [(''Type'', UINT16), (''Length'', UINT16),
      (''NFITDeviceHandle'', EFI_ACPI_6_0_NFIT_DEVICE_HANDLE),
      (''NumberOfFlushHintAddresses'', UINT16), (''Reserved_10'', Array 6 UINT8)]"

definition EFI_ACPI_6_0_BOOT_ERROR_RECORD_TABLE_HEADER :: ctype where [layouts]:
  "EFI_ACPI_6_0_BOOT_ERROR_RECORD_TABLE_HEADER = Struct Packed
     [(''Header'', EFI_ACPI_DESCRIPTION_HEADER), (''BootErrorRegionLength'', UINT32),
      (''BootErrorRegion'', UINT64)]"

definition EFI_ACPI_6_0_ERROR_BLOCK_STATUS :: ctype where [layouts]:
  "EFI_ACPI_6_0_ERROR_BLOCK_STATUS = Struct Packed
     [('''', Bits 4 [(''UncorrectableErrorValid'', 1), (''CorrectableErrorValid'', 1),
              (''MultipleUncorrectableErrors'', 1),
              (''MultipleCorrectableErrors'', 1), (''ErrorDataEntryCount'', 10),
              (''Reserved'', 18)])]"

definition EFI_ACPI_6_0_BOOT_ERROR_REGION_STRUCTURE :: ctype where [layouts]:
  "EFI_ACPI_6_0_BOOT_ERROR_REGION_STRUCTURE = Struct Packed
     [(''BlockStatus'', EFI_ACPI_6_0_ERROR_BLOCK_STATUS), (''RawDataOffset'', UINT32),
      (''RawDataLength'', UINT32), (''DataLength'', UINT32), (''ErrorSeverity'', UINT32)]"

definition EFI_ACPI_6_0_GENERIC_ERROR_DATA_ENTRY_STRUCTURE :: ctype where [layouts]:
  "EFI_ACPI_6_0_GENERIC_ERROR_DATA_ENTRY_STRUCTURE = Struct Packed
     [(''SectionType'', Array 16 UINT8), (''ErrorSeverity'', UINT32), (''Revision'', UINT16),
      (''ValidationBits'', UINT8), (''Flags'', UINT8), (''ErrorDataLength'', UINT32),
      (''FruId'', Array 16 UINT8), (''FruText'', Array 20 UINT8)]"

definition EFI_ACPI_6_0_HARDWARE_ERROR_SOURCE_TABLE_HEADER :: ctype where [layouts]:
  "EFI_ACPI_6_0_HARDWARE_ERROR_SOURCE_TABLE_HEADER = Struct Packed
     [(''Header'', EFI_ACPI_DESCRIPTION_HEADER), (''ErrorSourceCount'', UINT32)]"

definition EFI_ACPI_6_0_IA32_ARCHITECTURE_MACHINE_CHECK_EXCEPTION_STRUCTURE :: ctype where [layouts]:
  "EFI_ACPI_6_0_IA32_ARCHITECTURE_MACHINE_CHECK_EXCEPTION_STRUCTURE = Struct Packed
     [(''Type'', UINT16), (''SourceId'', UINT16), (''Reserved0'', Array 2 UINT8),
      (''Flags'', UINT8), (''Enabled'', UINT8), (''NumberOfRecordsToPreAllocate'', UINT32),
      (''MaxSectionsPerRecord'', UINT32), (''GlobalCapabilityInitData'', UINT64),
      (''GlobalControlInitData'', UINT64), (''NumberOfHardwareBanks'', UINT8),
      (''Reserved1'', Array 7 UINT8)]"

definition EFI_ACPI_6_0_IA32_ARCHITECTURE_MACHINE_CHECK_ERROR_BANK_STRUCTURE :: ctype where [layouts]:
  "EFI_ACPI_6_0_IA32_ARCHITECTURE_MACHINE_CHECK_ERROR_BANK_STRUCTURE = Struct Packed
     [(''BankNumber'', UINT8), (''ClearStatusOnInitialization'', UINT8),
      (''StatusDataFormat'', UINT8), (''Reserved0'', UINT8),
      (''ControlRegisterMsrAddress'', UINT32), (''ControlInitData'', UINT64),
      (''StatusRegisterMsrAddress'', UINT32), (''AddressRegisterMsrAddress'', UINT32),
      (''MiscRegisterMsrAddress'', UINT32)]"

definition EFI_ACPI_6_0_HARDWARE_ERROR_NOTIFICATION_CONFIGURATION_WRITE_ENABLE_STRUCTURE :: ctype where [layouts]:
  "EFI_ACPI_6_0_HARDWARE_ERROR_NOTIFICATION_CONFIGURATION_WRITE_ENABLE_STRUCTURE = Struct Packed
     [('''', Bits 2 [(''Type'', 1), (''PollInterval'', 1),
              (''SwitchToPollingThresholdValue'', 1),
              (''SwitchToPollingThresholdWindow'', 1), (''ErrorThresholdValue'', 1),
              (''ErrorThresholdWindow'', 1), (''Reserved'', 10)])]"

definition EFI_ACPI_6_0_HARDWARE_ERROR_NOTIFICATION_STRUCTURE :: ctype where [layouts]:
  "EFI_ACPI_6_0_HARDWARE_ERROR_NOTIFICATION_STRUCTURE = Struct Packed
     [(''Type'', UINT8), (''Length'', UINT8),
      (''ConfigurationWriteEnable'', EFI_ACPI_6_0_HARDWARE_ERROR_NOTIFICATION_CONFIGURATION_WRITE_ENABLE_STRUCTURE),
      (''PollInterval'', UINT32), (''Vector'', UINT32),
      (''SwitchToPollingThresholdValue'', UINT32), (''SwitchToPollingThresholdWindow'', UINT32),
      (''ErrorThresholdValue'', UINT32), (''ErrorThresholdWindow'', UINT32)]"

definition EFI_ACPI_6_0_IA32_ARCHITECTURE_CORRECTED_MACHINE_CHECK_STRUCTURE :: ctype where [layouts]:
  "EFI_ACPI_6_0_IA32_ARCHITECTURE_CORRECTED_MACHINE_CHECK_STRUCTURE = Struct Packed
     [(''Type'', UINT16), (''SourceId'', UINT16), (''Reserved0'', Array 2 UINT8),
      (''Flags'', UINT8), (''Enabled'', UINT8), (''NumberOfRecordsToPreAllocate'', UINT32),
      (''MaxSectionsPerRecord'', UINT32),
      (''NotificationStructure'', EFI_ACPI_6_0_HARDWARE_ERROR_NOTIFICATION_STRUCTURE),
      (''NumberOfHardwareBanks'', UINT8), (''Reserved1'', Array 3 UINT8)]"

definition EFI_ACPI_6_0_IA32_ARCHITECTURE_NMI_ERROR_STRUCTURE :: ctype where [layouts]:
  "EFI_ACPI_6_0_IA32_ARCHITECTURE_NMI_ERROR_STRUCTURE = Struct Packed
     [(''Type'', UINT16), (''SourceId'', UINT16), (''Reserved0'', Array 2 UINT8),
      (''NumberOfRecordsToPreAllocate'', UINT32), (''MaxSectionsPerRecord'', UINT32),
      (''MaxRawDataLength'', UINT32)]"

definition EFI_ACPI_6_0_PCI_EXPRESS_ROOT_PORT_AER_STRUCTURE :: ctype where [layouts]:
  "EFI_ACPI_6_0_PCI_EXPRESS_ROOT_PORT_AER_STRUCTURE = Struct Packed
     [(''Type'', UINT16), (''SourceId'', UINT16), (''Reserved0'', Array 2 UINT8),
      (''Flags'', UINT8), (''Enabled'', UINT8), (''NumberOfRecordsToPreAllocate'', UINT32),
      (''MaxSectionsPerRecord'', UINT32), (''Bus'', UINT32), (''Device'', UINT16),
      (''Function'', UINT16), (''DeviceControl'', UINT16), (''Reserved1'', Array 2 UINT8),
      (''UncorrectableErrorMask'', UINT32), (''UncorrectableErrorSeverity'', UINT32),
      (''CorrectableErrorMask'', UINT32), (''AdvancedErrorCapabilitiesAndControl'', UINT32),
      (''RootErrorCommand'', UINT32)]"

definition EFI_ACPI_6_0_PCI_EXPRESS_DEVICE_AER_STRUCTURE :: ctype where [layouts]:
  "EFI_ACPI_6_0_PCI_EXPRESS_DEVICE_AER_STRUCTURE = Struct Packed
     [(''Type'', UINT16), (''SourceId'', UINT16), (''Reserved0'', Array 2 UINT8),
      (''Flags'', UINT8), (''Enabled'', UINT8), (''NumberOfRecordsToPreAllocate'', UINT32),
      (''MaxSectionsPerRecord'', UINT32), (''Bus'', UINT32), (''Device'', UINT16),
      (''Function'', UINT16), (''DeviceControl'', UINT16), (''Reserved1'', Array 2 UINT8),
      (''UncorrectableErrorMask'', UINT32), (''UncorrectableErrorSeverity'', UINT32),
      (''CorrectableErrorMask'', UINT32), (''AdvancedErrorCapabilitiesAndControl'', UINT32)]"

definition EFI_ACPI_6_0_PCI_EXPRESS_BRIDGE_AER_STRUCTURE :: ctype where [layouts]:
  "EFI_ACPI_6_0_PCI_EXPRESS_BRIDGE_AER_STRUCTURE = Struct Packed
     [(''Type'', UINT16), (''SourceId'', UINT16), (''Reserved0'', Array 2 UINT8),
      (''Flags'', UINT8), (''Enabled'', UINT8), (''NumberOfRecordsToPreAllocate'', UINT32),
      (''MaxSectionsPerRecord'', UINT32), (''Bus'', UINT32), (''Device'', UINT16),
      (''Function'', UINT16), (''DeviceControl'', UINT16), (''Reserved1'', Array 2 UINT8),
      (''UncorrectableErrorMask'', UINT32), (''UncorrectableErrorSeverity'', UINT32),
      (''CorrectableErrorMask'', UINT32), (''AdvancedErrorCapabilitiesAndControl'', UINT32),
      (''SecondaryUncorrectableErrorMask'', UINT32),
      (''SecondaryUncorrectableErrorSeverity'', UINT32),
      (''SecondaryAdvancedErrorCapabilitiesAndControl'', UINT32)]"

definition EFI_ACPI_6_0_GENERIC_HARDWARE_ERROR_SOURCE_STRUCTURE :: ctype where [layouts]:
  "EFI_ACPI_6_0_GENERIC_HARDWARE_ERROR_SOURCE_STRUCTURE = Struct Packed
     [(''Type'', UINT16), (''SourceId'', UINT16), (''RelatedSourceId'', UINT16),
      (''Flags'', UINT8), (''Enabled'', UINT8), (''NumberOfRecordsToPreAllocate'', UINT32),
      (''MaxSectionsPerRecord'', UINT32), (''MaxRawDataLength'', UINT32),
      (''ErrorStatusAddress'', EFI_ACPI_6_0_GENERIC_ADDRESS_STRUCTURE),
      (''NotificationStructure'', EFI_ACPI_6_0_HARDWARE_ERROR_NOTIFICATION_STRUCTURE),
      (''ErrorStatusBlockLength'', UINT32)]"

definition EFI_ACPI_6_0_GENERIC_ERROR_STATUS_STRUCTURE :: ctype where [layouts]:
  "EFI_ACPI_6_0_GENERIC_ERROR_STATUS_STRUCTURE = Struct Packed
     [(''BlockStatus'', EFI_ACPI_6_0_ERROR_BLOCK_STATUS), (''RawDataOffset'', UINT32),
      (''RawDataLength'', UINT32), (''DataLength'', UINT32), (''ErrorSeverity'', UINT32)]"

definition EFI_ACPI_6_0_ERROR_RECORD_SERIALIZATION_TABLE_HEADER :: ctype where [layouts]:
  "EFI_ACPI_6_0_ERROR_RECORD_SERIALIZATION_TABLE_HEADER = Struct Packed
     [(''Header'', EFI_ACPI_DESCRIPTION_HEADER), (''SerializationHeaderSize'', UINT32),
      (''Reserved0'', Array 4 UINT8), (''InstructionEntryCount'', UINT32)]"

definition EFI_ACPI_6_0_ERST_SERIALIZATION_INSTRUCTION_ENTRY :: ctype where [layouts]:
  "EFI_ACPI_6_0_ERST_SERIALIZATION_INSTRUCTION_ENTRY = Struct Packed
     [(''SerializationAction'', UINT8), (''Instruction'', UINT8), (''Flags'', UINT8),
      (''Reserved0'', UINT8), (''RegisterRegion'', EFI_ACPI_6_0_GENERIC_ADDRESS_STRUCTURE),
      (''Value'', UINT64), (''Mask'', UINT64)]"

definition EFI_ACPI_6_0_ERROR_INJECTION_TABLE_HEADER :: ctype where [layouts]:
  "EFI_ACPI_6_0_ERROR_INJECTION_TABLE_HEADER = Struct Packed
     [(''Header'', EFI_ACPI_DESCRIPTION_HEADER), (''InjectionHeaderSize'', UINT32),
      (''InjectionFlags'', UINT8), (''Reserved0'', Array 3 UINT8),
      (''InjectionEntryCount'', UINT32)]"

definition EFI_ACPI_6_0_EINJ_INJECTION_INSTRUCTION_ENTRY :: ctype where [layouts]:
  "EFI_ACPI_6_0_EINJ_INJECTION_INSTRUCTION_ENTRY = Struct Packed
     [(''InjectionAction'', UINT8), (''Instruction'', UINT8), (''Flags'', UINT8),
      (''Reserved0'', UINT8), (''RegisterRegion'', EFI_ACPI_6_0_GENERIC_ADDRESS_STRUCTURE),
      (''Value'', UINT64), (''Mask'', UINT64)]"

definition EFI_ACPI_6_0_EINJ_TRIGGER_ACTION_TABLE :: ctype where [layouts]:
  "EFI_ACPI_6_0_EINJ_TRIGGER_ACTION_TABLE = Struct Packed
     [(''HeaderSize'', UINT32), (''Revision'', UINT32), (''TableSize'', UINT32),
      (''EntryCount'', UINT32)]"

definition EFI_ACPI_6_0_PLATFORM_COMMUNICATION_CHANNEL_TABLE_HEADER :: ctype where [layouts]:
  "EFI_ACPI_6_0_PLATFORM_COMMUNICATION_CHANNEL_TABLE_HEADER = Struct Packed
     [(''Header'', EFI_ACPI_DESCRIPTION_HEADER), (''Flags'', UINT32), (''Reserved'', UINT64)]"

definition EFI_ACPI_6_0_PCCT_SUBSPACE_HEADER :: ctype where [layouts]:
  "EFI_ACPI_6_0_PCCT_SUBSPACE_HEADER = Struct Packed
     [(''Type'', UINT8), (''Length'', UINT8)]"

definition EFI_ACPI_6_0_PCCT_SUBSPACE_GENERIC :: ctype where [layouts]:
  "EFI_ACPI_6_0_PCCT_SUBSPACE_GENERIC = Struct Packed
     [(''Type'', UINT8), (''Length'', UINT8), (''Reserved'', Array 6 UINT8),
      (''BaseAddress'', UINT64), (''AddressLength'', UINT64),
      (''DoorbellRegister'', EFI_ACPI_6_0_GENERIC_ADDRESS_STRUCTURE),
      (''DoorbellPreserve'', UINT64), (''DoorbellWrite'', UINT64), (''NominalLatency'', UINT32),
      (''MaximumPeriodicAccessRate'', UINT32), (''MinimumRequestTurnaroundTime'', UINT16)]"

definition EFI_ACPI_6_0_PCCT_GENERIC_SHARED_MEMORY_REGION_COMMAND :: ctype where [layouts]:
  "EFI_ACPI_6_0_PCCT_GENERIC_SHARED_MEMORY_REGION_COMMAND = Struct Packed
     [(''Command'', UINT8), ('''', Bits 1 [(''Reserved'', 7), (''GenerateSci'', 1)])]"

definition EFI_ACPI_6_0_PCCT_GENERIC_SHARED_MEMORY_REGION_STATUS :: ctype where [layouts]:
  "EFI_ACPI_6_0_PCCT_GENERIC_SHARED_MEMORY_REGION_STATUS = Struct Packed
     [('''', Bits 1 [(''CommandComplete'', 1), (''SciDoorbell'', 1), (''Error'', 1),
              (''PlatformNotification'', 1), (''Reserved'', 4)]), (''Reserved1'', UINT8)]"

definition EFI_ACPI_6_0_PCCT_GENERIC_SHARED_MEMORY_REGION_HEADER :: ctype where [layouts]:
  "EFI_ACPI_6_0_PCCT_GENERIC_SHARED_MEMORY_REGION_HEADER = Struct Packed
     [(''Signature'', UINT32),
      (''Command'', EFI_ACPI_6_0_PCCT_GENERIC_SHARED_MEMORY_REGION_COMMAND),
      (''Status'', EFI_ACPI_6_0_PCCT_GENERIC_SHARED_MEMORY_REGION_STATUS)]"

definition EFI_ACPI_6_0_PCCT_SUBSPACE_1_HW_REDUCED_COMMUNICATIONS :: ctype where [layouts]:
  "EFI_ACPI_6_0_PCCT_SUBSPACE_1_HW_REDUCED_COMMUNICATIONS = Struct Packed
     [(''Type'', UINT8), (''Length'', UINT8), (''DoorbellInterrupt'', UINT32),
      (''DoorbellInterruptFlags'', UINT8), (''Reserved'', UINT8), (''BaseAddress'', UINT64),
      (''AddressLength'', UINT64),
      (''DoorbellRegister'', EFI_ACPI_6_0_GENERIC_ADDRESS_STRUCTURE),
      (''DoorbellPreserve'', UINT64), (''DoorbellWrite'', UINT64), (''NominalLatency'', UINT32),
      (''MaximumPeriodicAccessRate'', UINT32), (''MinimumRequestTurnaroundTime'', UINT16)]"

definition EFI_ACPI_6_0_PCCT_SUBSPACE_2_HW_REDUCED_COMMUNICATIONS :: ctype where [layouts]:
  "EFI_ACPI_6_0_PCCT_SUBSPACE_2_HW_REDUCED_COMMUNICATIONS = Struct Packed
     [(''Type'', UINT8), (''Length'', UINT8), (''DoorbellInterrupt'', UINT32),
      (''DoorbellInterruptFlags'', UINT8), (''Reserved'', UINT8), (''BaseAddress'', UINT64),
      (''AddressLength'', UINT64),
      (''DoorbellRegister'', EFI_ACPI_6_0_GENERIC_ADDRESS_STRUCTURE),
      (''DoorbellPreserve'', UINT64), (''DoorbellWrite'', UINT64), (''NominalLatency'', UINT32),
      (''MaximumPeriodicAccessRate'', UINT32), (''MinimumRequestTurnaroundTime'', UINT16),
      (''DoorbellAckRegister'', EFI_ACPI_6_0_GENERIC_ADDRESS_STRUCTURE),
      (''DoorbellAckPreserve'', UINT64), (''DoorbellAckWrite'', UINT64)]"

end
