(* ===== verification/Device_Path_Types.thy ===== *)
theory Device_Path_Types imports Acpi_1_3 begin

text \<open>
  The nodes of device paths, \<open>DevicePath.h\<close>.
\<close>

section \<open>DevicePath.h\<close>

definition EFI_DEVICE_PATH_PROTOCOL :: ctype where [layouts]:
  "EFI_DEVICE_PATH_PROTOCOL = Struct Packed
     [(''Type'', UINT8), (''SubType'', UINT8), (''Length'', Array 2 UINT8)]"

definition EFI_DEVICE_PATH :: ctype where [layouts]:
  "EFI_DEVICE_PATH = EFI_DEVICE_PATH_PROTOCOL"

definition PCI_DEVICE_PATH :: ctype where [layouts]:
  "PCI_DEVICE_PATH = Struct Packed
     [(''Header'', EFI_DEVICE_PATH_PROTOCOL), (''Function'', UINT8), (''Device'', UINT8)]"

definition PCCARD_DEVICE_PATH :: ctype where [layouts]:
  "PCCARD_DEVICE_PATH = Struct Packed
     [(''Header'', EFI_DEVICE_PATH_PROTOCOL), (''FunctionNumber'', UINT8)]"

definition MEMMAP_DEVICE_PATH :: ctype where [layouts]:
  "MEMMAP_DEVICE_PATH = Struct Packed
     [(''Header'', EFI_DEVICE_PATH_PROTOCOL), (''MemoryType'', UINT32),
      (''StartingAddress'', EFI_PHYSICAL_ADDRESS), (''EndingAddress'', EFI_PHYSICAL_ADDRESS)]"

definition VENDOR_DEVICE_PATH :: ctype where [layouts]:
  "VENDOR_DEVICE_PATH = Struct Packed
     [(''Header'', EFI_DEVICE_PATH_PROTOCOL), (''Guid'', EFI_GUID)]"

definition CONTROLLER_DEVICE_PATH :: ctype where [layouts]:
  "CONTROLLER_DEVICE_PATH = Struct Packed
     [(''Header'', EFI_DEVICE_PATH_PROTOCOL), (''ControllerNumber'', UINT32)]"

definition BMC_DEVICE_PATH :: ctype where [layouts]:
  "BMC_DEVICE_PATH = Struct Packed
     [(''Header'', EFI_DEVICE_PATH_PROTOCOL), (''InterfaceType'', UINT8),
      (''BaseAddress'', Array 8 UINT8)]"

definition ACPI_HID_DEVICE_PATH :: ctype where [layouts]:
  "ACPI_HID_DEVICE_PATH = Struct Packed
     [(''Header'', EFI_DEVICE_PATH_PROTOCOL), (''HID'', UINT32), (''UID'', UINT32)]"

definition ACPI_EXTENDED_HID_DEVICE_PATH :: ctype where [layouts]:
  "ACPI_EXTENDED_HID_DEVICE_PATH = Struct Packed
     [(''Header'', EFI_DEVICE_PATH_PROTOCOL), (''HID'', UINT32), (''UID'', UINT32),
      (''CID'', UINT32)]"

definition ACPI_ADR_DEVICE_PATH :: ctype where [layouts]:
  "ACPI_ADR_DEVICE_PATH = Struct Packed
     [(''Header'', EFI_DEVICE_PATH_PROTOCOL), (''ADR'', UINT32)]"

definition ACPI_NVDIMM_DEVICE_PATH :: ctype where [layouts]:
  "ACPI_NVDIMM_DEVICE_PATH = Struct Packed
     [(''Header'', EFI_DEVICE_PATH_PROTOCOL), (''NFITDeviceHandle'', UINT32)]"

definition ATAPI_DEVICE_PATH :: ctype where [layouts]:
  "ATAPI_DEVICE_PATH = Struct Packed
     [(''Header'', EFI_DEVICE_PATH_PROTOCOL), (''PrimarySecondary'', UINT8),
      (''SlaveMaster'', UINT8), (''Lun'', UINT16)]"

definition SCSI_DEVICE_PATH :: ctype where [layouts]:
  "SCSI_DEVICE_PATH = Struct Packed
     [(''Header'', EFI_DEVICE_PATH_PROTOCOL), (''Pun'', UINT16), (''Lun'', UINT16)]"

definition FIBRECHANNEL_DEVICE_PATH :: ctype where [layouts]:
  "FIBRECHANNEL_DEVICE_PATH = Struct Packed
     [(''Header'', EFI_DEVICE_PATH_PROTOCOL), (''Reserved'', UINT32), (''WWN'', UINT64),
      (''Lun'', UINT64)]"

definition FIBRECHANNELEX_DEVICE_PATH :: ctype where [layouts]:
  "FIBRECHANNELEX_DEVICE_PATH = Struct Packed
     [(''Header'', EFI_DEVICE_PATH_PROTOCOL), (''Reserved'', UINT32), (''WWN'', Array 8 UINT8),
      (''Lun'', Array 8 UINT8)]"

definition F1394_DEVICE_PATH :: ctype where [layouts]:
  "F1394_DEVICE_PATH = Struct Packed
     [(''Header'', EFI_DEVICE_PATH_PROTOCOL), (''Reserved'', UINT32), (''Guid'', UINT64)]"

definition USB_DEVICE_PATH :: ctype where [layouts]:
  "USB_DEVICE_PATH = Struct Packed
     [(''Header'', EFI_DEVICE_PATH_PROTOCOL), (''ParentPortNumber'', UINT8),
      (''InterfaceNumber'', UINT8)]"

definition USB_CLASS_DEVICE_PATH :: ctype where [layouts]:
  "USB_CLASS_DEVICE_PATH = Struct Packed
     [(''Header'', EFI_DEVICE_PATH_PROTOCOL), (''VendorId'', UINT16), (''ProductId'', UINT16),
      (''DeviceClass'', UINT8), (''DeviceSubClass'', UINT8), (''DeviceProtocol'', UINT8)]"

definition USB_WWID_DEVICE_PATH :: ctype where [layouts]:
  "USB_WWID_DEVICE_PATH = Struct Packed
     [(''Header'', EFI_DEVICE_PATH_PROTOCOL), (''InterfaceNumber'', UINT16),
      (''VendorId'', UINT16), (''ProductId'', UINT16)]"

definition DEVICE_LOGICAL_UNIT_DEVICE_PATH :: ctype where [layouts]:
  "DEVICE_LOGICAL_UNIT_DEVICE_PATH = Struct Packed
     [(''Header'', EFI_DEVICE_PATH_PROTOCOL), (''Lun'', UINT8)]"

definition SATA_DEVICE_PATH :: ctype where [layouts]:
  "SATA_DEVICE_PATH = Struct Packed
     [(''Header'', EFI_DEVICE_PATH_PROTOCOL), (''HBAPortNumber'', UINT16),
      (''PortMultiplierPortNumber'', UINT16), (''Lun'', UINT16)]"

definition I2O_DEVICE_PATH :: ctype where [layouts]:
  "I2O_DEVICE_PATH = Struct Packed
     [(''Header'', EFI_DEVICE_PATH_PROTOCOL), (''Tid'', UINT32)]"

definition MAC_ADDR_DEVICE_PATH :: ctype where [layouts]:
  "MAC_ADDR_DEVICE_PATH = Struct Packed
     [(''Header'', EFI_DEVICE_PATH_PROTOCOL), (''MacAddress'', EFI_MAC_ADDRESS),
      (''IfType'', UINT8)]"

definition IPv4_DEVICE_PATH :: ctype where [layouts]:
  "IPv4_DEVICE_PATH = Struct Packed
     [(''Header'', EFI_DEVICE_PATH_PROTOCOL), (''LocalIpAddress'', EFI_IPv4_ADDRESS),
      (''RemoteIpAddress'', EFI_IPv4_ADDRESS), (''LocalPort'', UINT16),
      (''RemotePort'', UINT16), (''Protocol'', UINT16), (''StaticIpAddress'', BOOLEAN),
      (''GatewayIpAddress'', EFI_IPv4_ADDRESS), (''SubnetMask'', EFI_IPv4_ADDRESS)]"

definition IPv6_DEVICE_PATH :: ctype where [layouts]:
  "IPv6_DEVICE_PATH = Struct Packed
     [(''Header'', EFI_DEVICE_PATH_PROTOCOL), (''LocalIpAddress'', EFI_IPv6_ADDRESS),
      (''RemoteIpAddress'', EFI_IPv6_ADDRESS), (''LocalPort'', UINT16),
      (''RemotePort'', UINT16), (''Protocol'', UINT16), (''IpAddressOrigin'', UINT8),
      (''PrefixLength'', UINT8), (''GatewayIpAddress'', EFI_IPv6_ADDRESS)]"

definition INFINIBAND_DEVICE_PATH :: ctype where [layouts]:
  "INFINIBAND_DEVICE_PATH = Struct Packed
     [(''Header'', EFI_DEVICE_PATH_PROTOCOL), (''ResourceFlags'', UINT32),
      (''PortGid'', Array 16 UINT8), (''ServiceId'', UINT64), (''TargetPortId'', UINT64),
      (''DeviceId'', UINT64)]"

definition UART_DEVICE_PATH :: ctype where [layouts]:
  "UART_DEVICE_PATH = Struct Packed
     [(''Header'', EFI_DEVICE_PATH_PROTOCOL), (''Reserved'', UINT32), (''BaudRate'', UINT64),
      (''DataBits'', UINT8), (''Parity'', UINT8), (''StopBits'', UINT8)]"

definition NVDIMM_NAMESPACE_DEVICE_PATH :: ctype where [layouts]:
  "NVDIMM_NAMESPACE_DEVICE_PATH = Struct Packed
     [(''Header'', EFI_DEVICE_PATH_PROTOCOL), (''Uuid'', EFI_GUID)]"

definition VENDOR_DEFINED_DEVICE_PATH :: ctype where [layouts]:
  "VENDOR_DEFINED_DEVICE_PATH = VENDOR_DEVICE_PATH"

definition UART_FLOW_CONTROL_DEVICE_PATH :: ctype where [layouts]:
  "UART_FLOW_CONTROL_DEVICE_PATH = Struct Packed
     [(''Header'', EFI_DEVICE_PATH_PROTOCOL), (''Guid'', EFI_GUID),
      (''FlowControlMap'', UINT32)]"

definition SAS_DEVICE_PATH :: ctype where [layouts]:
  "SAS_DEVICE_PATH = Struct Packed
     [(''Header'', EFI_DEVICE_PATH_PROTOCOL), (''Guid'', EFI_GUID), (''Reserved'', UINT32),
      (''SasAddress'', UINT64), (''Lun'', UINT64), (''DeviceTopology'', UINT16),
      (''RelativeTargetPort'', UINT16)]"

definition SASEX_DEVICE_PATH :: ctype where [layouts]:
  "SASEX_DEVICE_PATH = Struct Packed
     [(''Header'', EFI_DEVICE_PATH_PROTOCOL), (''SasAddress'', Array 8 UINT8),
      (''Lun'', Array 8 UINT8), (''DeviceTopology'', UINT16), (''RelativeTargetPort'', UINT16)]"

definition NVME_NAMESPACE_DEVICE_PATH :: ctype where [layouts]:
  "NVME_NAMESPACE_DEVICE_PATH = Struct Packed
     [(''Header'', EFI_DEVICE_PATH_PROTOCOL), (''NamespaceId'', UINT32),
      (''NamespaceUuid'', UINT64)]"

definition DNS_DEVICE_PATH :: ctype where [layouts]:
  "DNS_DEVICE_PATH = Struct Packed
     [(''Header'', EFI_DEVICE_PATH_PROTOCOL), (''IsIPv6'', UINT8),
      (''DnsServerIp'', Array 0 EFI_IP_ADDRESS)]"

definition URI_DEVICE_PATH :: ctype where [layouts]:
  "URI_DEVICE_PATH = Struct Packed
     [(''Header'', EFI_DEVICE_PATH_PROTOCOL), (''Uri'', Array 0 CHAR8)]"

definition UFS_DEVICE_PATH :: ctype where [layouts]:
  "UFS_DEVICE_PATH = Struct Packed
     [(''Header'', EFI_DEVICE_PATH_PROTOCOL), (''Pun'', UINT8), (''Lun'', UINT8)]"

definition SD_DEVICE_PATH :: ctype where [layouts]:
  "SD_DEVICE_PATH = Struct Packed
     [(''Header'', EFI_DEVICE_PATH_PROTOCOL), (''SlotNumber'', UINT8)]"

definition EMMC_DEVICE_PATH :: ctype where [layouts]:
  "EMMC_DEVICE_PATH = Struct Packed
     [(''Header'', EFI_DEVICE_PATH_PROTOCOL), (''SlotNumber'', UINT8)]"

definition ISCSI_DEVICE_PATH :: ctype where [layouts]:
  "ISCSI_DEVICE_PATH = Struct Packed
     [(''Header'', EFI_DEVICE_PATH_PROTOCOL), (''NetworkProtocol'', UINT16),
      (''LoginOption'', UINT16), (''Lun'', UINT64), (''TargetPortalGroupTag'', UINT16)]"

definition VLAN_DEVICE_PATH :: ctype where [layouts]:
  "VLAN_DEVICE_PATH = Struct Packed
     [(''Header'', EFI_DEVICE_PATH_PROTOCOL), (''VlanId'', UINT16)]"

definition BLUETOOTH_DEVICE_PATH :: ctype where [layouts]:
  "BLUETOOTH_DEVICE_PATH = Struct Packed
     [(''Header'', EFI_DEVICE_PATH_PROTOCOL), (''BD_ADDR'', BLUETOOTH_ADDRESS)]"

definition WIFI_DEVICE_PATH :: ctype where [layouts]:
  "WIFI_DEVICE_PATH = Struct Packed
     [(''Header'', EFI_DEVICE_PATH_PROTOCOL), (''SSId'', Array 32 UINT8)]"

definition BLUETOOTH_LE_DEVICE_PATH :: ctype where [layouts]:
  "BLUETOOTH_LE_DEVICE_PATH = Struct Packed
     [(''Header'', EFI_DEVICE_PATH_PROTOCOL), (''Address'', BLUETOOTH_LE_ADDRESS)]"

definition HARDDRIVE_DEVICE_PATH :: ctype where [layouts]:
  "HARDDRIVE_DEVICE_PATH = Struct Packed
     [(''Header'', EFI_DEVICE_PATH_PROTOCOL), (''PartitionNumber'', UINT32),
      (''PartitionStart'', UINT64), (''PartitionSize'', UINT64),
      (''Signature'', Array 16 UINT8), (''MBRType'', UINT8), (''SignatureType'', UINT8)]"

definition CDROM_DEVICE_PATH :: ctype where [layouts]:
  "CDROM_DEVICE_PATH = Struct Packed
     [(''Header'', EFI_DEVICE_PATH_PROTOCOL), (''BootEntry'', UINT32),
      (''PartitionStart'', UINT64), (''PartitionSize'', UINT64)]"

definition FILEPATH_DEVICE_PATH :: ctype where [layouts]:
  "FILEPATH_DEVICE_PATH = Struct Packed
     [(''Header'', EFI_DEVICE_PATH_PROTOCOL), (''PathName'', Array 1 CHAR16)]"

definition MEDIA_PROTOCOL_DEVICE_PATH :: ctype where [layouts]:
  "MEDIA_PROTOCOL_DEVICE_PATH = Struct Packed
     [(''Header'', EFI_DEVICE_PATH_PROTOCOL), (''Protocol'', EFI_GUID)]"

definition MEDIA_FW_VOL_FILEPATH_DEVICE_PATH :: ctype where [layouts]:
  "MEDIA_FW_VOL_FILEPATH_DEVICE_PATH = Struct Packed
     [(''Header'', EFI_DEVICE_PATH_PROTOCOL), (''FvFileName'', EFI_GUID)]"

definition MEDIA_FW_VOL_DEVICE_PATH :: ctype where [layouts]:
  "MEDIA_FW_VOL_DEVICE_PATH = Struct Packed
     [(''Header'', EFI_DEVICE_PATH_PROTOCOL), (''FvName'', EFI_GUID)]"

definition MEDIA_RELATIVE_OFFSET_RANGE_DEVICE_PATH :: ctype where [layouts]:
  "MEDIA_RELATIVE_OFFSET_RANGE_DEVICE_PATH = Struct Packed
     [(''Header'', EFI_DEVICE_PATH_PROTOCOL), (''Reserved'', UINT32),
      (''StartingOffset'', UINT64), (''EndingOffset'', UINT64)]"

definition MEDIA_RAM_DISK_DEVICE_PATH :: ctype where [layouts]:
  "MEDIA_RAM_DISK_DEVICE_PATH = Struct Packed
     [(''Header'', EFI_DEVICE_PATH_PROTOCOL), (''StartingAddr'', Array 2 UINT32),
      (''EndingAddr'', Array 2 UINT32), (''TypeGuid'', EFI_GUID), (''Instance'', UINT16)]"

definition BBS_BBS_DEVICE_PATH :: ctype where [layouts]:
  "BBS_BBS_DEVICE_PATH = Struct Packed
     [(''Header'', EFI_DEVICE_PATH_PROTOCOL), (''DeviceType'', UINT16),
      (''StatusFlag'', UINT16), (''String'', Array 1 CHAR8)]"

definition EFI_DEV_PATH :: ctype where [layouts]:
  "EFI_DEV_PATH = Union Packed
     [(''DevPath'', EFI_DEVICE_PATH_PROTOCOL), (''Pci'', PCI_DEVICE_PATH),
      (''PcCard'', PCCARD_DEVICE_PATH), (''MemMap'', MEMMAP_DEVICE_PATH),
      (''Vendor'', VENDOR_DEVICE_PATH), (''Controller'', CONTROLLER_DEVICE_PATH),
      (''Bmc'', BMC_DEVICE_PATH), (''Acpi'', ACPI_HID_DEVICE_PATH),
      (''ExtendedAcpi'', ACPI_EXTENDED_HID_DEVICE_PATH), (''AcpiAdr'', ACPI_ADR_DEVICE_PATH),
      (''Atapi'', ATAPI_DEVICE_PATH), (''Scsi'', SCSI_DEVICE_PATH),
      (''Iscsi'', ISCSI_DEVICE_PATH), (''FibreChannel'', FIBRECHANNEL_DEVICE_PATH),
      (''FibreChannelEx'', FIBRECHANNELEX_DEVICE_PATH), (''F1394'', F1394_DEVICE_PATH),
      (''Usb'', USB_DEVICE_PATH), (''Sata'', SATA_DEVICE_PATH),
      (''UsbClass'', USB_CLASS_DEVICE_PATH), (''UsbWwid'', USB_WWID_DEVICE_PATH),
      (''LogicUnit'', DEVICE_LOGICAL_UNIT_DEVICE_PATH), (''I2O'', I2O_DEVICE_PATH),
      (''MacAddr'', MAC_ADDR_DEVICE_PATH), (''Ipv4'', IPv4_DEVICE_PATH),
      (''Ipv6'', IPv6_DEVICE_PATH), (''Vlan'', VLAN_DEVICE_PATH),
      (''InfiniBand'', INFINIBAND_DEVICE_PATH), (''Uart'', UART_DEVICE_PATH),
      (''UartFlowControl'', UART_FLOW_CONTROL_DEVICE_PATH), (''Sas'', SAS_DEVICE_PATH),
      (''SasEx'', SASEX_DEVICE_PATH), (''NvmeNamespace'', NVME_NAMESPACE_DEVICE_PATH),
      (''Dns'', DNS_DEVICE_PATH), (''Uri'', URI_DEVICE_PATH),
      (''Bluetooth'', BLUETOOTH_DEVICE_PATH), (''WiFi'', WIFI_DEVICE_PATH),
      (''Ufs'', UFS_DEVICE_PATH), (''Sd'', SD_DEVICE_PATH), (''Emmc'', EMMC_DEVICE_PATH),
      (''HardDrive'', HARDDRIVE_DEVICE_PATH), (''CD'', CDROM_DEVICE_PATH),
      (''FilePath'', FILEPATH_DEVICE_PATH), (''MediaProtocol'', MEDIA_PROTOCOL_DEVICE_PATH),
      (''FirmwareVolume'', MEDIA_FW_VOL_DEVICE_PATH),
      (''FirmwareFile'', MEDIA_FW_VOL_FILEPATH_DEVICE_PATH),
      (''Offset'', MEDIA_RELATIVE_OFFSET_RANGE_DEVICE_PATH),
      (''RamDisk'', MEDIA_RAM_DISK_DEVICE_PATH), (''Bbs'', BBS_BBS_DEVICE_PATH)]"

definition EFI_DEV_PATH_PTR :: ctype where [layouts]:
  "EFI_DEV_PATH_PTR = Union Packed
     [(''DevPath'', Pointer), (''Pci'', Pointer), (''PcCard'', Pointer), (''MemMap'', Pointer),
      (''Vendor'', Pointer), (''Controller'', Pointer), (''Bmc'', Pointer), (''Acpi'', Pointer),
      (''ExtendedAcpi'', Pointer), (''AcpiAdr'', Pointer), (''Atapi'', Pointer),
      (''Scsi'', Pointer), (''Iscsi'', Pointer), (''FibreChannel'', Pointer),
      (''FibreChannelEx'', Pointer), (''F1394'', Pointer), (''Usb'', Pointer),
      (''Sata'', Pointer), (''UsbClass'', Pointer), (''UsbWwid'', Pointer),
      (''LogicUnit'', Pointer), (''I2O'', Pointer), (''MacAddr'', Pointer), (''Ipv4'', Pointer),
      (''Ipv6'', Pointer), (''Vlan'', Pointer), (''InfiniBand'', Pointer), (''Uart'', Pointer),
      (''UartFlowControl'', Pointer), (''Sas'', Pointer), (''SasEx'', Pointer),
      (''NvmeNamespace'', Pointer), (''Dns'', Pointer), (''Uri'', Pointer),
      (''Bluetooth'', Pointer), (''WiFi'', Pointer), (''Ufs'', Pointer), (''Sd'', Pointer),
      (''Emmc'', Pointer), (''HardDrive'', Pointer), (''CD'', Pointer), (''FilePath'', Pointer),
      (''MediaProtocol'', Pointer), (''FirmwareVolume'', Pointer), (''FirmwareFile'', Pointer),
      (''Offset'', Pointer), (''RamDisk'', Pointer), (''Bbs'', Pointer), (''Raw'', Pointer)]"

end
