(* ===== verification/Form_Types.thy ===== *)
theory Form_Types imports Firmware_Types begin

text \<open>
  The internal form representation of \<open>UefiInternalFormRepresentation.h\<close>: packages, glyphs,
  images, animations, keyboard layouts, and the op-codes of forms.
\<close>

section \<open>UefiInternalFormRepresentation.h\<close>

definition EFI_HII_HANDLE :: ctype where [layouts]:
  "EFI_HII_HANDLE = Pointer"

definition EFI_STRING :: ctype where [layouts]:
  "EFI_STRING = Pointer"

definition EFI_IMAGE_ID :: ctype where [layouts]:
  "EFI_IMAGE_ID = UINT16"

definition EFI_QUESTION_ID :: ctype where [layouts]:
  "EFI_QUESTION_ID = UINT16"

definition EFI_STRING_ID :: ctype where [layouts]:
  "EFI_STRING_ID = UINT16"

definition EFI_FORM_ID :: ctype where [layouts]:
  "EFI_FORM_ID = UINT16"

definition EFI_VARSTORE_ID :: ctype where [layouts]:
  "EFI_VARSTORE_ID = UINT16"

definition EFI_ANIMATION_ID :: ctype where [layouts]:
  "EFI_ANIMATION_ID = UINT16"

definition EFI_DEFAULT_ID :: ctype where [layouts]:
  "EFI_DEFAULT_ID = UINT16"

definition EFI_HII_FONT_STYLE :: ctype where [layouts]:
  "EFI_HII_FONT_STYLE = UINT32"

definition EFI_HII_PACKAGE_LIST_HEADER :: ctype where [layouts]:
  "EFI_HII_PACKAGE_LIST_HEADER = Struct Packed
     [(''PackageListGuid'', EFI_GUID), (''PackageLength'', UINT32)]"

definition EFI_HII_PACKAGE_HEADER :: ctype where [layouts]:
  "EFI_HII_PACKAGE_HEADER = Struct Packed
     [('''', Bits 4 [(''Length'', 24), (''Type'', 8)])]"

definition EFI_NARROW_GLYPH :: ctype where [layouts]:
  "EFI_NARROW_GLYPH = Struct Packed
     [(''UnicodeWeight'', CHAR16), (''Attributes'', UINT8), (''GlyphCol1'', Array 19 UINT8)]"

definition EFI_WIDE_GLYPH :: ctype where [layouts]:
  "EFI_WIDE_GLYPH = Struct Packed
     [(''UnicodeWeight'', CHAR16), (''Attributes'', UINT8), (''GlyphCol1'', Array 19 UINT8),
      (''GlyphCol2'', Array 19 UINT8), (''Pad'', Array 3 UINT8)]"

definition EFI_HII_SIMPLE_FONT_PACKAGE_HDR :: ctype where [layouts]:
  "EFI_HII_SIMPLE_FONT_PACKAGE_HDR = Struct Packed
     [(''Header'', EFI_HII_PACKAGE_HEADER), (''NumberOfNarrowGlyphs'', UINT16),
      (''NumberOfWideGlyphs'', UINT16)]"

definition EFI_HII_GLYPH_INFO :: ctype where [layouts]:
  "EFI_HII_GLYPH_INFO = Struct Packed
     [(''Width'', UINT16), (''Height'', UINT16), (''OffsetX'', INT16), (''OffsetY'', INT16),
      (''AdvanceX'', INT16)]"

definition EFI_HII_FONT_PACKAGE_HDR :: ctype where [layouts]:
  "EFI_HII_FONT_PACKAGE_HDR = Struct Packed
     [(''Header'', EFI_HII_PACKAGE_HEADER), (''HdrSize'', UINT32),
      (''GlyphBlockOffset'', UINT32), (''Cell'', EFI_HII_GLYPH_INFO),
      (''FontStyle'', EFI_HII_FONT_STYLE), (''FontFamily'', Array 1 CHAR16)]"

definition EFI_HII_GLYPH_BLOCK :: ctype where [layouts]:
  "EFI_HII_GLYPH_BLOCK = Struct Packed
     [(''BlockType'', UINT8)]"

definition EFI_HII_GIBT_DEFAULTS_BLOCK :: ctype where [layouts]:
  "EFI_HII_GIBT_DEFAULTS_BLOCK = Struct Packed
     [(''Header'', EFI_HII_GLYPH_BLOCK), (''Cell'', EFI_HII_GLYPH_INFO)]"

definition EFI_HII_GIBT_DUPLICATE_BLOCK :: ctype where [layouts]:
  "EFI_HII_GIBT_DUPLICATE_BLOCK = Struct Packed
     [(''Header'', EFI_HII_GLYPH_BLOCK), (''CharValue'', CHAR16)]"

definition EFI_GLYPH_GIBT_END_BLOCK :: ctype where [layouts]:
  "EFI_GLYPH_GIBT_END_BLOCK = Struct Packed
     [(''Header'', EFI_HII_GLYPH_BLOCK)]"

definition EFI_HII_GIBT_EXT1_BLOCK :: ctype where [layouts]:
  "EFI_HII_GIBT_EXT1_BLOCK = Struct Packed
     [(''Header'', EFI_HII_GLYPH_BLOCK), (''BlockType2'', UINT8), (''Length'', UINT8)]"

definition EFI_HII_GIBT_EXT2_BLOCK :: ctype where [layouts]:
  "EFI_HII_GIBT_EXT2_BLOCK = Struct Packed
     [(''Header'', EFI_HII_GLYPH_BLOCK), (''BlockType2'', UINT8), (''Length'', UINT16)]"

definition EFI_HII_GIBT_EXT4_BLOCK :: ctype where [layouts]:
  "EFI_HII_GIBT_EXT4_BLOCK = Struct Packed
     [(''Header'', EFI_HII_GLYPH_BLOCK), (''BlockType2'', UINT8), (''Length'', UINT32)]"

definition EFI_HII_GIBT_GLYPH_BLOCK :: ctype where [layouts]:
  "EFI_HII_GIBT_GLYPH_BLOCK = Struct Packed
     [(''Header'', EFI_HII_GLYPH_BLOCK), (''Cell'', EFI_HII_GLYPH_INFO),
      (''BitmapData'', Array 1 UINT8)]"

definition EFI_HII_GIBT_GLYPHS_BLOCK :: ctype where [layouts]:
  "EFI_HII_GIBT_GLYPHS_BLOCK = Struct Packed
     [(''Header'', EFI_HII_GLYPH_BLOCK), (''Cell'', EFI_HII_GLYPH_INFO), (''Count'', UINT16),
      (''BitmapData'', Array 1 UINT8)]"

definition EFI_HII_GIBT_GLYPH_DEFAULT_BLOCK :: ctype where [layouts]:
  "EFI_HII_GIBT_GLYPH_DEFAULT_BLOCK = Struct Packed
     [(''Header'', EFI_HII_GLYPH_BLOCK), (''BitmapData'', Array 1 UINT8)]"

definition EFI_HII_GIBT_GLYPHS_DEFAULT_BLOCK :: ctype where [layouts]:
  "EFI_HII_GIBT_GLYPHS_DEFAULT_BLOCK = Struct Packed
     [(''Header'', EFI_HII_GLYPH_BLOCK), (''Count'', UINT16), (''BitmapData'', Array 1 UINT8)]"

definition EFI_HII_GIBT_VARIABILITY_BLOCK :: ctype where [layouts]:
  "EFI_HII_GIBT_VARIABILITY_BLOCK = Struct Packed
     [(''Header'', EFI_HII_GLYPH_BLOCK), (''Cell'', EFI_HII_GLYPH_INFO),
      (''GlyphPackInBits'', UINT8), (''BitmapData'', Array 1 UINT8)]"

definition EFI_HII_GIBT_SKIP1_BLOCK :: ctype where [layouts]:
  "EFI_HII_GIBT_SKIP1_BLOCK = Struct Packed
     [(''Header'', EFI_HII_GLYPH_BLOCK), (''SkipCount'', UINT8)]"

definition EFI_HII_GIBT_SKIP2_BLOCK :: ctype where [layouts]:
  "EFI_HII_GIBT_SKIP2_BLOCK = Struct Packed
     [(''Header'', EFI_HII_GLYPH_BLOCK), (''SkipCount'', UINT16)]"

definition EFI_HII_DEVICE_PATH_PACKAGE_HDR :: ctype where [layouts]:
  "EFI_HII_DEVICE_PATH_PACKAGE_HDR = Struct Packed
     [(''Header'', EFI_HII_PACKAGE_HEADER)]"

definition EFI_HII_GUID_PACKAGE_HDR :: ctype where [layouts]:
  "EFI_HII_GUID_PACKAGE_HDR = Struct Packed
     [(''Header'', EFI_HII_PACKAGE_HEADER), (''Guid'', EFI_GUID)]"

definition EFI_HII_STRING_PACKAGE_HDR :: ctype where [layouts]:
  "EFI_HII_STRING_PACKAGE_HDR = Struct Packed
     [(''Header'', EFI_HII_PACKAGE_HEADER), (''HdrSize'', UINT32),
      (''StringInfoOffset'', UINT32), (''LanguageWindow'', Array 16 CHAR16),
      (''LanguageName'', EFI_STRING_ID), (''Language'', Array 1 CHAR8)]"

definition EFI_HII_STRING_BLOCK :: ctype where [layouts]:
  "EFI_HII_STRING_BLOCK = Struct Packed
     [(''BlockType'', UINT8)]"

definition EFI_HII_SIBT_DUPLICATE_BLOCK :: ctype where [layouts]:
  "EFI_HII_SIBT_DUPLICATE_BLOCK = Struct Packed
     [(''Header'', EFI_HII_STRING_BLOCK), (''StringId'', EFI_STRING_ID)]"

definition EFI_HII_SIBT_END_BLOCK :: ctype where [layouts]:
  "EFI_HII_SIBT_END_BLOCK = Struct Packed
     [(''Header'', EFI_HII_STRING_BLOCK)]"

definition EFI_HII_SIBT_EXT1_BLOCK :: ctype where [layouts]:
  "EFI_HII_SIBT_EXT1_BLOCK = Struct Packed
     [(''Header'', EFI_HII_STRING_BLOCK), (''BlockType2'', UINT8), (''Length'', UINT8)]"

definition EFI_HII_SIBT_EXT2_BLOCK :: ctype where [layouts]:
  "EFI_HII_SIBT_EXT2_BLOCK = Struct Packed
     [(''Header'', EFI_HII_STRING_BLOCK), (''BlockType2'', UINT8), (''Length'', UINT16)]"

definition EFI_HII_SIBT_EXT4_BLOCK :: ctype where [layouts]:
  "EFI_HII_SIBT_EXT4_BLOCK = Struct Packed
     [(''Header'', EFI_HII_STRING_BLOCK), (''BlockType2'', UINT8), (''Length'', UINT32)]"

definition EFI_HII_SIBT_FONT_BLOCK :: ctype where [layouts]:
  "EFI_HII_SIBT_FONT_BLOCK = Struct Packed
     [(''Header'', EFI_HII_SIBT_EXT2_BLOCK), (''FontId'', UINT8), (''FontSize'', UINT16),
      (''FontStyle'', EFI_HII_FONT_STYLE), (''FontName'', Array 1 CHAR16)]"

definition EFI_HII_SIBT_SKIP1_BLOCK :: ctype where [layouts]:
  "EFI_HII_SIBT_SKIP1_BLOCK = Struct Packed
     [(''Header'', EFI_HII_STRING_BLOCK), (''SkipCount'', UINT8)]"

definition EFI_HII_SIBT_SKIP2_BLOCK :: ctype where [layouts]:
  "EFI_HII_SIBT_SKIP2_BLOCK = Struct Packed
     [(''Header'', EFI_HII_STRING_BLOCK), (''SkipCount'', UINT16)]"

definition EFI_HII_SIBT_STRING_SCSU_BLOCK :: ctype where [layouts]:
  "EFI_HII_SIBT_STRING_SCSU_BLOCK = Struct Packed
     [(''Header'', EFI_HII_STRING_BLOCK), (''StringText'', Array 1 UINT8)]"

definition EFI_HII_SIBT_STRING_SCSU_FONT_BLOCK :: ctype where [layouts]:
  "EFI_HII_SIBT_STRING_SCSU_FONT_BLOCK = Struct Packed
     [(''Header'', EFI_HII_STRING_BLOCK), (''FontIdentifier'', UINT8),
      (''StringText'', Array 1 UINT8)]"

definition EFI_HII_SIBT_STRINGS_SCSU_BLOCK :: ctype where [layouts]:
  "EFI_HII_SIBT_STRINGS_SCSU_BLOCK = Struct Packed
     [(''Header'', EFI_HII_STRING_BLOCK), (''StringCount'', UINT16),
      (''StringText'', Array 1 UINT8)]"

definition EFI_HII_SIBT_STRINGS_SCSU_FONT_BLOCK :: ctype where [layouts]:
  "EFI_HII_SIBT_STRINGS_SCSU_FONT_BLOCK = Struct Packed
     [(''Header'', EFI_HII_STRING_BLOCK), (''FontIdentifier'', UINT8),
      (''StringCount'', UINT16), (''StringText'', Array 1 UINT8)]"

definition EFI_HII_SIBT_STRING_UCS2_BLOCK :: ctype where [layouts]:
  "EFI_HII_SIBT_STRING_UCS2_BLOCK = Struct Packed
     [(''Header'', EFI_HII_STRING_BLOCK), (''StringText'', Array 1 CHAR16)]"

definition EFI_HII_SIBT_STRING_UCS2_FONT_BLOCK :: ctype where [layouts]:
  "EFI_HII_SIBT_STRING_UCS2_FONT_BLOCK = Struct Packed
     [(''Header'', EFI_HII_STRING_BLOCK), (''FontIdentifier'', UINT8),
      (''StringText'', Array 1 CHAR16)]"

definition EFI_HII_SIBT_STRINGS_UCS2_BLOCK :: ctype where [layouts]:
  "EFI_HII_SIBT_STRINGS_UCS2_BLOCK = Struct Packed
     [(''Header'', EFI_HII_STRING_BLOCK), (''StringCount'', UINT16),
      (''StringText'', Array 1 CHAR16)]"

definition EFI_HII_SIBT_STRINGS_UCS2_FONT_BLOCK :: ctype where [layouts]:
  "EFI_HII_SIBT_STRINGS_UCS2_FONT_BLOCK = Struct Packed
     [(''Header'', EFI_HII_STRING_BLOCK), (''FontIdentifier'', UINT8),
      (''StringCount'', UINT16), (''StringText'', Array 1 CHAR16)]"

definition EFI_HII_IMAGE_PACKAGE_HDR :: ctype where [layouts]:
  "EFI_HII_IMAGE_PACKAGE_HDR = Struct Packed
     [(''Header'', EFI_HII_PACKAGE_HEADER), (''ImageInfoOffset'', UINT32),
      (''PaletteInfoOffset'', UINT32)]"

definition EFI_HII_IMAGE_BLOCK :: ctype where [layouts]:
  "EFI_HII_IMAGE_BLOCK = Struct Packed
     [(''BlockType'', UINT8)]"

definition EFI_HII_IIBT_END_BLOCK :: ctype where [layouts]:
  "EFI_HII_IIBT_END_BLOCK = Struct Packed
     [(''Header'', EFI_HII_IMAGE_BLOCK)]"

definition EFI_HII_IIBT_EXT1_BLOCK :: ctype where [layouts]:
  "EFI_HII_IIBT_EXT1_BLOCK = Struct Packed
     [(''Header'', EFI_HII_IMAGE_BLOCK), (''BlockType2'', UINT8), (''Length'', UINT8)]"

definition EFI_HII_IIBT_EXT2_BLOCK :: ctype where [layouts]:
  "EFI_HII_IIBT_EXT2_BLOCK = Struct Packed
     [(''Header'', EFI_HII_IMAGE_BLOCK), (''BlockType2'', UINT8), (''Length'', UINT16)]"

definition EFI_HII_IIBT_EXT4_BLOCK :: ctype where [layouts]:
  "EFI_HII_IIBT_EXT4_BLOCK = Struct Packed
     [(''Header'', EFI_HII_IMAGE_BLOCK), (''BlockType2'', UINT8), (''Length'', UINT32)]"

definition EFI_HII_IIBT_IMAGE_1BIT_BASE :: ctype where [layouts]:
  "EFI_HII_IIBT_IMAGE_1BIT_BASE = Struct Packed
     [(''Width'', UINT16), (''Height'', UINT16), (''Data'', Array 1 UINT8)]"

definition EFI_HII_IIBT_IMAGE_1BIT_BLOCK :: ctype where [layouts]:
  "EFI_HII_IIBT_IMAGE_1BIT_BLOCK = Struct Packed
     [(''Header'', EFI_HII_IMAGE_BLOCK), (''PaletteIndex'', UINT8),
      (''Bitmap'', EFI_HII_IIBT_IMAGE_1BIT_BASE)]"

definition EFI_HII_IIBT_IMAGE_1BIT_TRANS_BLOCK :: ctype where [layouts]:
  "EFI_HII_IIBT_IMAGE_1BIT_TRANS_BLOCK = Struct Packed
     [(''Header'', EFI_HII_IMAGE_BLOCK), (''PaletteIndex'', UINT8),
      (''Bitmap'', EFI_HII_IIBT_IMAGE_1BIT_BASE)]"

definition EFI_HII_RGB_PIXEL :: ctype where [layouts]:
  "EFI_HII_RGB_PIXEL = Struct Packed
     [(''b'', UINT8), (''g'', UINT8), (''r'', UINT8)]"

definition EFI_HII_IIBT_IMAGE_24BIT_BASE :: ctype where [layouts]:
  "EFI_HII_IIBT_IMAGE_24BIT_BASE = Struct Packed
     [(''Width'', UINT16), (''Height'', UINT16), (''Bitmap'', Array 1 EFI_HII_RGB_PIXEL)]"

definition EFI_HII_IIBT_IMAGE_24BIT_BLOCK :: ctype where [layouts]:
  "EFI_HII_IIBT_IMAGE_24BIT_BLOCK = Struct Packed
     [(''Header'', EFI_HII_IMAGE_BLOCK), (''Bitmap'', EFI_HII_IIBT_IMAGE_24BIT_BASE)]"

definition EFI_HII_IIBT_IMAGE_24BIT_TRANS_BLOCK :: ctype where [layouts]:
  "EFI_HII_IIBT_IMAGE_24BIT_TRANS_BLOCK = Struct Packed
     [(''Header'', EFI_HII_IMAGE_BLOCK), (''Bitmap'', EFI_HII_IIBT_IMAGE_24BIT_BASE)]"

definition EFI_HII_IIBT_IMAGE_4BIT_BASE :: ctype where [layouts]:
  "EFI_HII_IIBT_IMAGE_4BIT_BASE = Struct Packed
     [(''Width'', UINT16), (''Height'', UINT16), (''Data'', Array 1 UINT8)]"

definition EFI_HII_IIBT_IMAGE_4BIT_BLOCK :: ctype where [layouts]:
  "EFI_HII_IIBT_IMAGE_4BIT_BLOCK = Struct Packed
     [(''Header'', EFI_HII_IMAGE_BLOCK), (''PaletteIndex'', UINT8),
      (''Bitmap'', EFI_HII_IIBT_IMAGE_4BIT_BASE)]"

definition EFI_HII_IIBT_IMAGE_4BIT_TRANS_BLOCK :: ctype where [layouts]:
  "EFI_HII_IIBT_IMAGE_4BIT_TRANS_BLOCK = Struct Packed
     [(''Header'', EFI_HII_IMAGE_BLOCK), (''PaletteIndex'', UINT8),
      (''Bitmap'', EFI_HII_IIBT_IMAGE_4BIT_BASE)]"

definition EFI_HII_IIBT_IMAGE_8BIT_BASE :: ctype where [layouts]:
  "EFI_HII_IIBT_IMAGE_8BIT_BASE = Struct Packed
     [(''Width'', UINT16), (''Height'', UINT16), (''Data'', Array 1 UINT8)]"

definition EFI_HII_IIBT_IMAGE_8BIT_BLOCK :: ctype where [layouts]:
  "EFI_HII_IIBT_IMAGE_8BIT_BLOCK = Struct Packed
     [(''Header'', EFI_HII_IMAGE_BLOCK), (''PaletteIndex'', UINT8),
      (''Bitmap'', EFI_HII_IIBT_IMAGE_8BIT_BASE)]"

definition EFI_HII_IIBT_IMAGE_8BIT_TRAN_BLOCK :: ctype where [layouts]:
  "EFI_HII_IIBT_IMAGE_8BIT_TRAN_BLOCK = Struct Packed
     [(''Header'', EFI_HII_IMAGE_BLOCK), (''PaletteIndex'', UINT8),
      (''Bitmap'', EFI_HII_IIBT_IMAGE_8BIT_BASE)]"

definition EFI_HII_IIBT_DUPLICATE_BLOCK :: ctype where [layouts]:
  "EFI_HII_IIBT_DUPLICATE_BLOCK = Struct Packed
     [(''Header'', EFI_HII_IMAGE_BLOCK), (''ImageId'', EFI_IMAGE_ID)]"

definition EFI_HII_IIBT_JPEG_BLOCK :: ctype where [layouts]:
  "EFI_HII_IIBT_JPEG_BLOCK = Struct Packed
     [(''Header'', EFI_HII_IMAGE_BLOCK), (''Size'', UINT32), (''Data'', Array 1 UINT8)]"

definition EFI_HII_IIBT_PNG_BLOCK :: ctype where [layouts]:
  "EFI_HII_IIBT_PNG_BLOCK = Struct Packed
     [(''Header'', EFI_HII_IMAGE_BLOCK), (''Size'', UINT32), (''Data'', Array 1 UINT8)]"

definition EFI_HII_IIBT_SKIP1_BLOCK :: ctype where [layouts]:
  "EFI_HII_IIBT_SKIP1_BLOCK = Struct Packed
     [(''Header'', EFI_HII_IMAGE_BLOCK), (''SkipCount'', UINT8)]"

definition EFI_HII_IIBT_SKIP2_BLOCK :: ctype where [layouts]:
  "EFI_HII_IIBT_SKIP2_BLOCK = Struct Packed
     [(''Header'', EFI_HII_IMAGE_BLOCK), (''SkipCount'', UINT16)]"

definition EFI_HII_IMAGE_PALETTE_INFO_HEADER :: ctype where [layouts]:
  "EFI_HII_IMAGE_PALETTE_INFO_HEADER = Struct Packed
     [(''PaletteCount'', UINT16)]"

definition EFI_HII_IMAGE_PALETTE_INFO :: ctype where [layouts]:
  "EFI_HII_IMAGE_PALETTE_INFO = Struct Packed
     [(''PaletteSize'', UINT16), (''PaletteValue'', Array 1 EFI_HII_RGB_PIXEL)]"

definition EFI_HII_FORM_PACKAGE_HDR :: ctype where [layouts]:
  "EFI_HII_FORM_PACKAGE_HDR = Struct Packed
     [(''Header'', EFI_HII_PACKAGE_HEADER)]"

definition EFI_HII_TIME :: ctype where [layouts]:
  "EFI_HII_TIME = Struct Packed
     [(''Hour'', UINT8), (''Minute'', UINT8), (''Second'', UINT8)]"

definition EFI_HII_DATE :: ctype where [layouts]:
  "EFI_HII_DATE = Struct Packed
     [(''Year'', UINT16), (''Month'', UINT8), (''Day'', UINT8)]"

definition EFI_HII_REF :: ctype where [layouts]:
  "EFI_HII_REF = Struct Packed
     [(''QuestionId'', EFI_QUESTION_ID), (''FormId'', EFI_FORM_ID), (''FormSetGuid'', EFI_GUID),
      (''DevicePath'', EFI_STRING_ID)]"

definition EFI_IFR_TYPE_VALUE :: ctype where [layouts]:
  "EFI_IFR_TYPE_VALUE = Union Packed
     [(''u8'', UINT8), (''u16'', UINT16), (''u32'', UINT32), (''u64'', UINT64),
      (''b'', BOOLEAN), (''time'', EFI_HII_TIME), (''date'', EFI_HII_DATE),
      (''string'', EFI_STRING_ID), (''ref'', EFI_HII_REF)]"

definition EFI_IFR_OP_HEADER :: ctype where [layouts]:
  "EFI_IFR_OP_HEADER = Struct Packed
     [(''OpCode'', UINT8), ('''', Bits 1 [(''Length'', 7), (''Scope'', 1)])]"

definition EFI_IFR_STATEMENT_HEADER :: ctype where [layouts]:
  "EFI_IFR_STATEMENT_HEADER = Struct Packed
     [(''Prompt'', EFI_STRING_ID), (''Help'', EFI_STRING_ID)]"

definition EFI_IFR_QUESTION_HEADER :: ctype where [layouts]:
  "EFI_IFR_QUESTION_HEADER = Struct Packed
     [(''Header'', EFI_IFR_STATEMENT_HEADER), (''QuestionId'', EFI_QUESTION_ID),
      (''VarStoreId'', EFI_VARSTORE_ID),
      (''VarStoreInfo'', Union Packed
        [(''VarName'', EFI_STRING_ID),
         (''VarOffset'', UINT16)]), (''Flags'', UINT8)]"

definition EFI_IFR_DEFAULTSTORE :: ctype where [layouts]:
  "EFI_IFR_DEFAULTSTORE = Struct Packed
     [(''Header'', EFI_IFR_OP_HEADER), (''DefaultName'', EFI_STRING_ID),
      (''DefaultId'', UINT16)]"

definition EFI_IFR_VARSTORE :: ctype where [layouts]:
  "EFI_IFR_VARSTORE = Struct Packed
     [(''Header'', EFI_IFR_OP_HEADER), (''Guid'', EFI_GUID), (''VarStoreId'', EFI_VARSTORE_ID),
      (''Size'', UINT16), (''Name'', Array 1 UINT8)]"

definition EFI_IFR_VARSTORE_EFI :: ctype where [layouts]:
  "EFI_IFR_VARSTORE_EFI = Struct Packed
     [(''Header'', EFI_IFR_OP_HEADER), (''VarStoreId'', EFI_VARSTORE_ID), (''Guid'', EFI_GUID),
      (''Attributes'', UINT32), (''Size'', UINT16), (''Name'', Array 1 UINT8)]"

definition EFI_IFR_VARSTORE_NAME_VALUE :: ctype where [layouts]:
  "EFI_IFR_VARSTORE_NAME_VALUE = Struct Packed
     [(''Header'', EFI_IFR_OP_HEADER), (''VarStoreId'', EFI_VARSTORE_ID), (''Guid'', EFI_GUID)]"

definition EFI_IFR_FORM_SET :: ctype where [layouts]:
  "EFI_IFR_FORM_SET = Struct Packed
     [(''Header'', EFI_IFR_OP_HEADER), (''Guid'', EFI_GUID), (''FormSetTitle'', EFI_STRING_ID),
      (''Help'', EFI_STRING_ID), (''Flags'', UINT8)]"

definition EFI_IFR_END :: ctype where [layouts]:
  "EFI_IFR_END = Struct Packed
     [(''Header'', EFI_IFR_OP_HEADER)]"

definition EFI_IFR_FORM :: ctype where [layouts]:
  "EFI_IFR_FORM = Struct Packed
     [(''Header'', EFI_IFR_OP_HEADER), (''FormId'', UINT16), (''FormTitle'', EFI_STRING_ID)]"

definition EFI_IFR_IMAGE :: ctype where [layouts]:
  "EFI_IFR_IMAGE = Struct Packed
     [(''Header'', EFI_IFR_OP_HEADER), (''Id'', EFI_IMAGE_ID)]"

definition EFI_IFR_MODAL_TAG :: ctype where [layouts]:
  "EFI_IFR_MODAL_TAG = Struct Packed
     [(''Header'', EFI_IFR_OP_HEADER)]"

definition EFI_IFR_LOCKED :: ctype where [layouts]:
  "EFI_IFR_LOCKED = Struct Packed
     [(''Header'', EFI_IFR_OP_HEADER)]"

definition EFI_IFR_RULE :: ctype where [layouts]:
  "EFI_IFR_RULE = Struct Packed
     [(''Header'', EFI_IFR_OP_HEADER), (''RuleId'', UINT8)]"

definition EFI_IFR_DEFAULT :: ctype where [layouts]:
  "EFI_IFR_DEFAULT = Struct Packed
     [(''Header'', EFI_IFR_OP_HEADER), (''DefaultId'', UINT16), (''Type'', UINT8),
      (''Value'', EFI_IFR_TYPE_VALUE)]"

definition EFI_IFR_DEFAULT_2 :: ctype where [layouts]:
  "EFI_IFR_DEFAULT_2 = Struct Packed
     [(''Header'', EFI_IFR_OP_HEADER), (''DefaultId'', UINT16), (''Type'', UINT8)]"

definition EFI_IFR_VALUE :: ctype where [layouts]:
  "EFI_IFR_VALUE = Struct Packed
     [(''Header'', EFI_IFR_OP_HEADER)]"

definition EFI_IFR_SUBTITLE :: ctype where [layouts]:
  "EFI_IFR_SUBTITLE = Struct Packed
     [(''Header'', EFI_IFR_OP_HEADER), (''Statement'', EFI_IFR_STATEMENT_HEADER),
      (''Flags'', UINT8)]"

definition EFI_IFR_CHECKBOX :: ctype where [layouts]:
  "EFI_IFR_CHECKBOX = Struct Packed
     [(''Header'', EFI_IFR_OP_HEADER), (''Question'', EFI_IFR_QUESTION_HEADER),
      (''Flags'', UINT8)]"

definition EFI_IFR_TEXT :: ctype where [layouts]:
  "EFI_IFR_TEXT = Struct Packed
     [(''Header'', EFI_IFR_OP_HEADER), (''Statement'', EFI_IFR_STATEMENT_HEADER),
      (''TextTwo'', EFI_STRING_ID)]"

definition EFI_IFR_REF :: ctype where [layouts]:
  "EFI_IFR_REF = Struct Packed
     [(''Header'', EFI_IFR_OP_HEADER), (''Question'', EFI_IFR_QUESTION_HEADER),
      (''FormId'', EFI_FORM_ID)]"

definition EFI_IFR_REF2 :: ctype where [layouts]:
  "EFI_IFR_REF2 = Struct Packed
     [(''Header'', EFI_IFR_OP_HEADER), (''Question'', EFI_IFR_QUESTION_HEADER),
      (''FormId'', EFI_FORM_ID), (''QuestionId'', EFI_QUESTION_ID)]"

definition EFI_IFR_REF3 :: ctype where [layouts]:
  "EFI_IFR_REF3 = Struct Packed
     [(''Header'', EFI_IFR_OP_HEADER), (''Question'', EFI_IFR_QUESTION_HEADER),
      (''FormId'', EFI_FORM_ID), (''QuestionId'', EFI_QUESTION_ID), (''FormSetId'', EFI_GUID)]"

definition EFI_IFR_REF4 :: ctype where [layouts]:
  "EFI_IFR_REF4 = Struct Packed
     [(''Header'', EFI_IFR_OP_HEADER), (''Question'', EFI_IFR_QUESTION_HEADER),
      (''FormId'', EFI_FORM_ID), (''QuestionId'', EFI_QUESTION_ID), (''FormSetId'', EFI_GUID),
      (''DevicePath'', EFI_STRING_ID)]"

definition EFI_IFR_REF5 :: ctype where [layouts]:
  "EFI_IFR_REF5 = Struct Packed
     [(''Header'', EFI_IFR_OP_HEADER), (''Question'', EFI_IFR_QUESTION_HEADER)]"

definition EFI_IFR_RESET_BUTTON :: ctype where [layouts]:
  "EFI_IFR_RESET_BUTTON = Struct Packed
     [(''Header'', EFI_IFR_OP_HEADER), (''Statement'', EFI_IFR_STATEMENT_HEADER),
      (''DefaultId'', EFI_DEFAULT_ID)]"

definition EFI_IFR_ACTION :: ctype where [layouts]:
  "EFI_IFR_ACTION = Struct Packed
     [(''Header'', EFI_IFR_OP_HEADER), (''Question'', EFI_IFR_QUESTION_HEADER),
      (''QuestionConfig'', EFI_STRING_ID)]"

definition EFI_IFR_ACTION_1 :: ctype where [layouts]:
  "EFI_IFR_ACTION_1 = Struct Packed
     [(''Header'', EFI_IFR_OP_HEADER), (''Question'', EFI_IFR_QUESTION_HEADER)]"

definition EFI_IFR_DATE :: ctype where [layouts]:
  "EFI_IFR_DATE = Struct Packed
     [(''Header'', EFI_IFR_OP_HEADER), (''Question'', EFI_IFR_QUESTION_HEADER),
      (''Flags'', UINT8)]"

definition MINMAXSTEP_DATA :: ctype where [layouts]:
  "MINMAXSTEP_DATA = Union Packed
     [(''u8'', Struct Packed
        [(''MinValue'', UINT8),
         (''MaxValue'', UINT8),
         (''Step'', UINT8)]),
      (''u16'', Struct Packed
        [(''MinValue'', UINT16),
         (''MaxValue'', UINT16),
         (''Step'', UINT16)]),
      (''u32'', Struct Packed
        [(''MinValue'', UINT32),
         (''MaxValue'', UINT32),
         (''Step'', UINT32)]),
      (''u64'', Struct Packed
        [(''MinValue'', UINT64),
         (''MaxValue'', UINT64),
         (''Step'', UINT64)])]"

definition EFI_IFR_NUMERIC :: ctype where [layouts]:
  "EFI_IFR_NUMERIC = Struct Packed
     [(''Header'', EFI_IFR_OP_HEADER), (''Question'', EFI_IFR_QUESTION_HEADER),
      (''Flags'', UINT8), (''data'', MINMAXSTEP_DATA)]"

definition EFI_IFR_ONE_OF :: ctype where [layouts]:
  "EFI_IFR_ONE_OF = Struct Packed
     [(''Header'', EFI_IFR_OP_HEADER), (''Question'', EFI_IFR_QUESTION_HEADER),
      (''Flags'', UINT8), (''data'', MINMAXSTEP_DATA)]"

definition EFI_IFR_STRING :: ctype where [layouts]:
  "EFI_IFR_STRING = Struct Packed
     [(''Header'', EFI_IFR_OP_HEADER), (''Question'', EFI_IFR_QUESTION_HEADER),
      (''MinSize'', UINT8), (''MaxSize'', UINT8), (''Flags'', UINT8)]"

definition EFI_IFR_PASSWORD :: ctype where [layouts]:
  "EFI_IFR_PASSWORD = Struct Packed
     [(''Header'', EFI_IFR_OP_HEADER), (''Question'', EFI_IFR_QUESTION_HEADER),
      (''MinSize'', UINT16), (''MaxSize'', UINT16)]"

definition EFI_IFR_ORDERED_LIST :: ctype where [layouts]:
  "EFI_IFR_ORDERED_LIST = Struct Packed
     [(''Header'', EFI_IFR_OP_HEADER), (''Question'', EFI_IFR_QUESTION_HEADER),
      (''MaxContainers'', UINT8), (''Flags'', UINT8)]"

definition EFI_IFR_TIME :: ctype where [layouts]:
  "EFI_IFR_TIME = Struct Packed
     [(''Header'', EFI_IFR_OP_HEADER), (''Question'', EFI_IFR_QUESTION_HEADER),
      (''Flags'', UINT8)]"

definition EFI_IFR_DISABLE_IF :: ctype where [layouts]:
  "EFI_IFR_DISABLE_IF = Struct Packed
     [(''Header'', EFI_IFR_OP_HEADER)]"

definition EFI_IFR_SUPPRESS_IF :: ctype where [layouts]:
  "EFI_IFR_SUPPRESS_IF = Struct Packed
     [(''Header'', EFI_IFR_OP_HEADER)]"

definition EFI_IFR_GRAY_OUT_IF :: ctype where [layouts]:
  "EFI_IFR_GRAY_OUT_IF = Struct Packed
     [(''Header'', EFI_IFR_OP_HEADER)]"

definition EFI_IFR_INCONSISTENT_IF :: ctype where [layouts]:
  "EFI_IFR_INCONSISTENT_IF = Struct Packed
     [(''Header'', EFI_IFR_OP_HEADER), (''Error'', EFI_STRING_ID)]"

definition EFI_IFR_NO_SUBMIT_IF :: ctype where [layouts]:
  "EFI_IFR_NO_SUBMIT_IF = Struct Packed
     [(''Header'', EFI_IFR_OP_HEADER), (''Error'', EFI_STRING_ID)]"

definition EFI_IFR_WARNING_IF :: ctype where [layouts]:
  "EFI_IFR_WARNING_IF = Struct Packed
     [(''Header'', EFI_IFR_OP_HEADER), (''Warning'', EFI_STRING_ID), (''TimeOut'', UINT8)]"

definition EFI_IFR_REFRESH :: ctype where [layouts]:
  "EFI_IFR_REFRESH = Struct Packed
     [(''Header'', EFI_IFR_OP_HEADER), (''RefreshInterval'', UINT8)]"

definition EFI_IFR_VARSTORE_DEVICE :: ctype where [layouts]:
  "EFI_IFR_VARSTORE_DEVICE = Struct Packed
     [(''Header'', EFI_IFR_OP_HEADER), (''DevicePath'', EFI_STRING_ID)]"

definition EFI_IFR_ONE_OF_OPTION :: ctype where [layouts]:
  "EFI_IFR_ONE_OF_OPTION = Struct Packed
     [(''Header'', EFI_IFR_OP_HEADER), (''Option'', EFI_STRING_ID), (''Flags'', UINT8),
      (''Type'', UINT8), (''Value'', EFI_IFR_TYPE_VALUE)]"

definition EFI_IFR_GUID :: ctype where [layouts]:
  "EFI_IFR_GUID = Struct Packed
     [(''Header'', EFI_IFR_OP_HEADER), (''Guid'', EFI_GUID)]"

definition EFI_IFR_REFRESH_ID :: ctype where [layouts]:
  "EFI_IFR_REFRESH_ID = Struct Packed
     [(''Header'', EFI_IFR_OP_HEADER), (''RefreshEventGroupId'', EFI_GUID)]"

definition EFI_IFR_DUP :: ctype where [layouts]:
  "EFI_IFR_DUP = Struct Packed
     [(''Header'', EFI_IFR_OP_HEADER)]"

definition EFI_IFR_EQ_ID_ID :: ctype where [layouts]:
  "EFI_IFR_EQ_ID_ID = Struct Packed
     [(''Header'', EFI_IFR_OP_HEADER), (''QuestionId1'', EFI_QUESTION_ID),
      (''QuestionId2'', EFI_QUESTION_ID)]"

definition EFI_IFR_EQ_ID_VAL :: ctype where [layouts]:
  "EFI_IFR_EQ_ID_VAL = Struct Packed
     [(''Header'', EFI_IFR_OP_HEADER), (''QuestionId'', EFI_QUESTION_ID), (''Value'', UINT16)]"

definition EFI_IFR_EQ_ID_VAL_LIST :: ctype where [layouts]:
  "EFI_IFR_EQ_ID_VAL_LIST = Struct Packed
     [(''Header'', EFI_IFR_OP_HEADER), (''QuestionId'', EFI_QUESTION_ID),
      (''ListLength'', UINT16), (''ValueList'', Array 1 UINT16)]"

definition EFI_IFR_UINT8 :: ctype where [layouts]:
  "EFI_IFR_UINT8 = Struct Packed
     [(''Header'', EFI_IFR_OP_HEADER), (''Value'', UINT8)]"

definition EFI_IFR_UINT16 :: ctype where [layouts]:
  "EFI_IFR_UINT16 = Struct Packed
     [(''Header'', EFI_IFR_OP_HEADER), (''Value'', UINT16)]"

definition EFI_IFR_UINT32 :: ctype where [layouts]:
  "EFI_IFR_UINT32 = Struct Packed
     [(''Header'', EFI_IFR_OP_HEADER), (''Value'', UINT32)]"

definition EFI_IFR_UINT64 :: ctype where [layouts]:
  "EFI_IFR_UINT64 = Struct Packed
     [(''Header'', EFI_IFR_OP_HEADER), (''Value'', UINT64)]"

definition EFI_IFR_QUESTION_REF1 :: ctype where [layouts]:
  "EFI_IFR_QUESTION_REF1 = Struct Packed
     [(''Header'', EFI_IFR_OP_HEADER), (''QuestionId'', EFI_QUESTION_ID)]"

definition EFI_IFR_QUESTION_REF2 :: ctype where [layouts]:
  "EFI_IFR_QUESTION_REF2 = Struct Packed
     [(''Header'', EFI_IFR_OP_HEADER)]"

definition EFI_IFR_QUESTION_REF3 :: ctype where [layouts]:
  "EFI_IFR_QUESTION_REF3 = Struct Packed
     [(''Header'', EFI_IFR_OP_HEADER)]"

definition EFI_IFR_QUESTION_REF3_2 :: ctype where [layouts]:
  "EFI_IFR_QUESTION_REF3_2 = Struct Packed
     [(''Header'', EFI_IFR_OP_HEADER), (''DevicePath'', EFI_STRING_ID)]"

definition EFI_IFR_QUESTION_REF3_3 :: ctype where [layouts]:
  "EFI_IFR_QUESTION_REF3_3 = Struct Packed
     [(''Header'', EFI_IFR_OP_HEADER), (''DevicePath'', EFI_STRING_ID), (''Guid'', EFI_GUID)]"

definition EFI_IFR_RULE_REF :: ctype where [layouts]:
  "EFI_IFR_RULE_REF = Struct Packed
     [(''Header'', EFI_IFR_OP_HEADER), (''RuleId'', UINT8)]"

definition EFI_IFR_STRING_REF1 :: ctype where [layouts]:
  "EFI_IFR_STRING_REF1 = Struct Packed
     [(''Header'', EFI_IFR_OP_HEADER), (''StringId'', EFI_STRING_ID)]"

definition EFI_IFR_STRING_REF2 :: ctype where [layouts]:
  "EFI_IFR_STRING_REF2 = Struct Packed
     [(''Header'', EFI_IFR_OP_HEADER)]"

definition EFI_IFR_THIS :: ctype where [layouts]:
  "EFI_IFR_THIS = Struct Packed
     [(''Header'', EFI_IFR_OP_HEADER)]"

definition EFI_IFR_TRUE :: ctype where [layouts]:
  "EFI_IFR_TRUE = Struct Packed
     [(''Header'', EFI_IFR_OP_HEADER)]"

definition EFI_IFR_FALSE :: ctype where [layouts]:
  "EFI_IFR_FALSE = Struct Packed
     [(''Header'', EFI_IFR_OP_HEADER)]"

definition EFI_IFR_ONE :: ctype where [layouts]:
  "EFI_IFR_ONE = Struct Packed
     [(''Header'', EFI_IFR_OP_HEADER)]"

definition EFI_IFR_ONES :: ctype where [layouts]:
  "EFI_IFR_ONES = Struct Packed
     [(''Header'', EFI_IFR_OP_HEADER)]"

definition EFI_IFR_ZERO :: ctype where [layouts]:
  "EFI_IFR_ZERO = Struct Packed
     [(''Header'', EFI_IFR_OP_HEADER)]"

definition EFI_IFR_UNDEFINED :: ctype where [layouts]:
  "EFI_IFR_UNDEFINED = Struct Packed
     [(''Header'', EFI_IFR_OP_HEADER)]"

definition EFI_IFR_VERSION :: ctype where [layouts]:
  "EFI_IFR_VERSION = Struct Packed
     [(''Header'', EFI_IFR_OP_HEADER)]"

definition EFI_IFR_LENGTH :: ctype where [layouts]:
  "EFI_IFR_LENGTH = Struct Packed
     [(''Header'', EFI_IFR_OP_HEADER)]"

definition EFI_IFR_NOT :: ctype where [layouts]:
  "EFI_IFR_NOT = Struct Packed
     [(''Header'', EFI_IFR_OP_HEADER)]"

definition EFI_IFR_BITWISE_NOT :: ctype where [layouts]:
  "EFI_IFR_BITWISE_NOT = Struct Packed
     [(''Header'', EFI_IFR_OP_HEADER)]"

definition EFI_IFR_TO_BOOLEAN :: ctype where [layouts]:
  "EFI_IFR_TO_BOOLEAN = Struct Packed
     [(''Header'', EFI_IFR_OP_HEADER)]"

definition EFI_IFR_TO_STRING :: ctype where [layouts]:
  "EFI_IFR_TO_STRING = Struct Packed
     [(''Header'', EFI_IFR_OP_HEADER), (''Format'', UINT8)]"

definition EFI_IFR_TO_UINT :: ctype where [layouts]:
  "EFI_IFR_TO_UINT = Struct Packed
     [(''Header'', EFI_IFR_OP_HEADER)]"

definition EFI_IFR_TO_UPPER :: ctype where [layouts]:
  "EFI_IFR_TO_UPPER = Struct Packed
     [(''Header'', EFI_IFR_OP_HEADER)]"

definition EFI_IFR_TO_LOWER :: ctype where [layouts]:
  "EFI_IFR_TO_LOWER = Struct Packed
     [(''Header'', EFI_IFR_OP_HEADER)]"

definition EFI_IFR_ADD :: ctype where [layouts]:
  "EFI_IFR_ADD = Struct Packed
     [(''Header'', EFI_IFR_OP_HEADER)]"

definition EFI_IFR_AND :: ctype where [layouts]:
  "EFI_IFR_AND = Struct Packed
     [(''Header'', EFI_IFR_OP_HEADER)]"

definition EFI_IFR_BITWISE_AND :: ctype where [layouts]:
  "EFI_IFR_BITWISE_AND = Struct Packed
     [(''Header'', EFI_IFR_OP_HEADER)]"

definition EFI_IFR_BITWISE_OR :: ctype where [layouts]:
  "EFI_IFR_BITWISE_OR = Struct Packed
     [(''Header'', EFI_IFR_OP_HEADER)]"

definition EFI_IFR_CATENATE :: ctype where [layouts]:
  "EFI_IFR_CATENATE = Struct Packed
     [(''Header'', EFI_IFR_OP_HEADER)]"

definition EFI_IFR_DIVIDE :: ctype where [layouts]:
  "EFI_IFR_DIVIDE = Struct Packed
     [(''Header'', EFI_IFR_OP_HEADER)]"

definition EFI_IFR_EQUAL :: ctype where [layouts]:
  "EFI_IFR_EQUAL = Struct Packed
     [(''Header'', EFI_IFR_OP_HEADER)]"

definition EFI_IFR_GREATER_EQUAL :: ctype where [layouts]:
  "EFI_IFR_GREATER_EQUAL = Struct Packed
     [(''Header'', EFI_IFR_OP_HEADER)]"

definition EFI_IFR_GREATER_THAN :: ctype where [layouts]:
  "EFI_IFR_GREATER_THAN = Struct Packed
     [(''Header'', EFI_IFR_OP_HEADER)]"

definition EFI_IFR_LESS_EQUAL :: ctype where [layouts]:
  "EFI_IFR_LESS_EQUAL = Struct Packed
     [(''Header'', EFI_IFR_OP_HEADER)]"

definition EFI_IFR_LESS_THAN :: ctype where [layouts]:
  "EFI_IFR_LESS_THAN = Struct Packed
     [(''Header'', EFI_IFR_OP_HEADER)]"

definition EFI_IFR_MATCH :: ctype where [layouts]:
  "EFI_IFR_MATCH = Struct Packed
     [(''Header'', EFI_IFR_OP_HEADER)]"

definition EFI_IFR_MATCH2 :: ctype where [layouts]:
  "EFI_IFR_MATCH2 = Struct Packed
     [(''Header'', EFI_IFR_OP_HEADER), (''SyntaxType'', EFI_GUID)]"

definition EFI_IFR_MULTIPLY :: ctype where [layouts]:
  "EFI_IFR_MULTIPLY = Struct Packed
     [(''Header'', EFI_IFR_OP_HEADER)]"

definition EFI_IFR_MODULO :: ctype where [layouts]:
  "EFI_IFR_MODULO = Struct Packed
     [(''Header'', EFI_IFR_OP_HEADER)]"

definition EFI_IFR_NOT_EQUAL :: ctype where [layouts]:
  "EFI_IFR_NOT_EQUAL = Struct Packed
     [(''Header'', EFI_IFR_OP_HEADER)]"

definition EFI_IFR_OR :: ctype where [layouts]:
  "EFI_IFR_OR = Struct Packed
     [(''Header'', EFI_IFR_OP_HEADER)]"

definition EFI_IFR_SHIFT_LEFT :: ctype where [layouts]:
  "EFI_IFR_SHIFT_LEFT = Struct Packed
     [(''Header'', EFI_IFR_OP_HEADER)]"

definition EFI_IFR_SHIFT_RIGHT :: ctype where [layouts]:
  "EFI_IFR_SHIFT_RIGHT = Struct Packed
     [(''Header'', EFI_IFR_OP_HEADER)]"

definition EFI_IFR_SUBTRACT :: ctype where [layouts]:
  "EFI_IFR_SUBTRACT = Struct Packed
     [(''Header'', EFI_IFR_OP_HEADER)]"

definition EFI_IFR_CONDITIONAL :: ctype where [layouts]:
  "EFI_IFR_CONDITIONAL = Struct Packed
     [(''Header'', EFI_IFR_OP_HEADER)]"

definition EFI_IFR_FIND :: ctype where [layouts]:
  "EFI_IFR_FIND = Struct Packed
     [(''Header'', EFI_IFR_OP_HEADER), (''Format'', UINT8)]"

definition EFI_IFR_MID :: ctype where [layouts]:
  "EFI_IFR_MID = Struct Packed
     [(''Header'', EFI_IFR_OP_HEADER)]"

definition EFI_IFR_TOKEN :: ctype where [layouts]:
  "EFI_IFR_TOKEN = Struct Packed
     [(''Header'', EFI_IFR_OP_HEADER)]"

definition EFI_IFR_SPAN :: ctype where [layouts]:
  "EFI_IFR_SPAN = Struct Packed
     [(''Header'', EFI_IFR_OP_HEADER), (''Flags'', UINT8)]"

definition EFI_IFR_SECURITY :: ctype where [layouts]:
  "EFI_IFR_SECURITY = Struct Packed
     [(''Header'', EFI_IFR_OP_HEADER), (''Permissions'', EFI_GUID)]"

definition EFI_IFR_FORM_MAP_METHOD :: ctype where [layouts]:
  "EFI_IFR_FORM_MAP_METHOD = Struct Packed
     [(''MethodTitle'', EFI_STRING_ID), (''MethodIdentifier'', EFI_GUID)]"

definition EFI_IFR_FORM_MAP :: ctype where [layouts]:
  "EFI_IFR_FORM_MAP = Struct Packed
     [(''Header'', EFI_IFR_OP_HEADER), (''FormId'', EFI_FORM_ID)]"

definition EFI_IFR_SET :: ctype where [layouts]:
  "EFI_IFR_SET = Struct Packed
     [(''Header'', EFI_IFR_OP_HEADER), (''VarStoreId'', EFI_VARSTORE_ID),
      (''VarStoreInfo'', Union Packed
        [(''VarName'', EFI_STRING_ID),
         (''VarOffset'', UINT16)]), (''VarStoreType'', UINT8)]"

definition EFI_IFR_GET :: ctype where [layouts]:
  "EFI_IFR_GET = Struct Packed
     [(''Header'', EFI_IFR_OP_HEADER), (''VarStoreId'', EFI_VARSTORE_ID),
      (''VarStoreInfo'', Union Packed
        [(''VarName'', EFI_STRING_ID),
         (''VarOffset'', UINT16)]), (''VarStoreType'', UINT8)]"

definition EFI_IFR_READ :: ctype where [layouts]:
  "EFI_IFR_READ = Struct Packed
     [(''Header'', EFI_IFR_OP_HEADER)]"

definition EFI_IFR_WRITE :: ctype where [layouts]:
  "EFI_IFR_WRITE = Struct Packed
     [(''Header'', EFI_IFR_OP_HEADER)]"

definition EFI_IFR_MAP :: ctype where [layouts]:
  "EFI_IFR_MAP = Struct Packed
     [(''Header'', EFI_IFR_OP_HEADER)]"

definition EFI_KEY_DESCRIPTOR :: ctype where [layouts]:
  "EFI_KEY_DESCRIPTOR = Struct Packed
     [(''Key'', Enum), (''Unicode'', CHAR16), (''ShiftedUnicode'', CHAR16),
      (''AltGrUnicode'', CHAR16), (''ShiftedAltGrUnicode'', CHAR16), (''Modifier'', UINT16),
      (''AffectedAttribute'', UINT16)]"

definition EFI_HII_KEYBOARD_LAYOUT :: ctype where [layouts]:
  "EFI_HII_KEYBOARD_LAYOUT = Struct Packed
     [(''LayoutLength'', UINT16), (''Guid'', EFI_GUID),
      (''LayoutDescriptorStringOffset'', UINT32), (''DescriptorCount'', UINT8)]"

definition EFI_HII_KEYBOARD_PACKAGE_HDR :: ctype where [layouts]:
  "EFI_HII_KEYBOARD_PACKAGE_HDR = Struct Packed
     [(''Header'', EFI_HII_PACKAGE_HEADER), (''LayoutCount'', UINT16)]"

definition EFI_IFR_ANIMATION :: ctype where [layouts]:
  "EFI_IFR_ANIMATION = Struct Packed
     [(''Header'', EFI_IFR_OP_HEADER), (''Id'', EFI_ANIMATION_ID)]"

definition EFI_HII_ANIMATION_PACKAGE_HDR :: ctype where [layouts]:
  "EFI_HII_ANIMATION_PACKAGE_HDR = Struct Packed
     [(''Header'', EFI_HII_PACKAGE_HEADER), (''AnimationInfoOffset'', UINT32)]"

definition EFI_HII_ANIMATION_BLOCK :: ctype where [layouts]:
  "EFI_HII_ANIMATION_BLOCK = Struct Packed
     [(''BlockType'', UINT8)]"

definition EFI_HII_AIBT_EXT1_BLOCK :: ctype where [layouts]:
  "EFI_HII_AIBT_EXT1_BLOCK = Struct Packed
     [(''Header'', EFI_HII_ANIMATION_BLOCK), (''BlockType2'', UINT8), (''Length'', UINT8)]"

definition EFI_HII_AIBT_EXT2_BLOCK :: ctype where [layouts]:
  "EFI_HII_AIBT_EXT2_BLOCK = Struct Packed
     [(''Header'', EFI_HII_ANIMATION_BLOCK), (''BlockType2'', UINT8), (''Length'', UINT16)]"

definition EFI_HII_AIBT_EXT4_BLOCK :: ctype where [layouts]:
  "EFI_HII_AIBT_EXT4_BLOCK = Struct Packed
     [(''Header'', EFI_HII_ANIMATION_BLOCK), (''BlockType2'', UINT8), (''Length'', UINT32)]"

definition EFI_HII_ANIMATION_CELL :: ctype where [layouts]:
  "EFI_HII_ANIMATION_CELL = Struct Packed
     [(''OffsetX'', UINT16), (''OffsetY'', UINT16), (''ImageId'', EFI_IMAGE_ID),
      (''Delay'', UINT16)]"

definition EFI_HII_AIBT_OVERLAY_IMAGES_BLOCK :: ctype where [layouts]:
  "EFI_HII_AIBT_OVERLAY_IMAGES_BLOCK = Struct Packed
     [(''DftImageId'', EFI_IMAGE_ID), (''Width'', UINT16), (''Height'', UINT16),
      (''CellCount'', UINT16), (''AnimationCell'', Array 1 EFI_HII_ANIMATION_CELL)]"

definition EFI_HII_AIBT_CLEAR_IMAGES_BLOCK :: ctype where [layouts]:
  "EFI_HII_AIBT_CLEAR_IMAGES_BLOCK = Struct Packed
     [(''DftImageId'', EFI_IMAGE_ID), (''Width'', UINT16), (''Height'', UINT16),
      (''CellCount'', UINT16), (''BackgndColor'', EFI_HII_RGB_PIXEL),
      (''AnimationCell'', Array 1 EFI_HII_ANIMATION_CELL)]"

definition EFI_HII_AIBT_RESTORE_SCRN_BLOCK :: ctype where [layouts]:
  "EFI_HII_AIBT_RESTORE_SCRN_BLOCK = Struct Packed
     [(''DftImageId'', EFI_IMAGE_ID), (''Width'', UINT16), (''Height'', UINT16),
      (''CellCount'', UINT16), (''AnimationCell'', Array 1 EFI_HII_ANIMATION_CELL)]"

definition EFI_HII_AIBT_OVERLAY_IMAGES_LOOP_BLOCK :: ctype where [layouts]:
  "EFI_HII_AIBT_OVERLAY_IMAGES_LOOP_BLOCK = EFI_HII_AIBT_OVERLAY_IMAGES_BLOCK"

definition EFI_HII_AIBT_CLEAR_IMAGES_LOOP_BLOCK :: ctype where [layouts]:
  "EFI_HII_AIBT_CLEAR_IMAGES_LOOP_BLOCK = EFI_HII_AIBT_CLEAR_IMAGES_BLOCK"

definition EFI_HII_AIBT_RESTORE_SCRN_LOOP_BLOCK :: ctype where [layouts]:
  "EFI_HII_AIBT_RESTORE_SCRN_LOOP_BLOCK = EFI_HII_AIBT_RESTORE_SCRN_BLOCK"

definition EFI_HII_AIBT_DUPLICATE_BLOCK :: ctype where [layouts]:
  "EFI_HII_AIBT_DUPLICATE_BLOCK = Struct Packed
     [(''AnimationId'', EFI_ANIMATION_ID)]"

definition EFI_HII_AIBT_SKIP1_BLOCK :: ctype where [layouts]:
  "EFI_HII_AIBT_SKIP1_BLOCK = Struct Packed
     [(''SkipCount'', UINT8)]"

definition EFI_HII_AIBT_SKIP2_BLOCK :: ctype where [layouts]:
  "EFI_HII_AIBT_SKIP2_BLOCK = Struct Packed
     [(''SkipCount'', UINT16)]"

end
