(* ===== verification/Pxe_Types.thy ===== *)
theory Pxe_Types imports Firmware_Types begin

text \<open>
  The structures of the network device interface of \<open>UefiPxe.h\<close>.
\<close>

section \<open>UefiPxe.h\<close>

definition PXE_UINT8 :: ctype where [layouts]:
  "PXE_UINT8 = UINT8"

definition PXE_UINT16 :: ctype where [layouts]:
  "PXE_UINT16 = UINT16"

definition PXE_UINT32 :: ctype where [layouts]:
  "PXE_UINT32 = UINT32"

definition PXE_UINTN :: ctype where [layouts]:
  "PXE_UINTN = UINTN"

definition PXE_UINT64 :: ctype where [layouts]:
  "PXE_UINT64 = UINT64"

definition PXE_BOOL :: ctype where [layouts]:
  "PXE_BOOL = PXE_UINT8"

definition PXE_OPCODE :: ctype where [layouts]:
  "PXE_OPCODE = PXE_UINT16"

definition PXE_OPFLAGS :: ctype where [layouts]:
  "PXE_OPFLAGS = PXE_UINT16"

definition PXE_STATFLAGS :: ctype where [layouts]:
  "PXE_STATFLAGS = PXE_UINT16"

definition PXE_STATCODE :: ctype where [layouts]:
  "PXE_STATCODE = PXE_UINT16"

definition PXE_IFNUM :: ctype where [layouts]:
  "PXE_IFNUM = PXE_UINT16"

definition PXE_CONTROL :: ctype where [layouts]:
  "PXE_CONTROL = PXE_UINT16"

definition PXE_FRAME_TYPE :: ctype where [layouts]:
  "PXE_FRAME_TYPE = PXE_UINT8"

definition PXE_IPV4 :: ctype where [layouts]:
  "PXE_IPV4 = PXE_UINT32"

definition PXE_IPV6 :: ctype where [layouts]:
  "PXE_IPV6 = Array 4 PXE_UINT32"

definition PXE_MAC_ADDR :: ctype where [layouts]:
  "PXE_MAC_ADDR = Array 32 PXE_UINT8"

definition PXE_IFTYPE :: ctype where [layouts]:
  "PXE_IFTYPE = PXE_UINT8"

definition PXE_MEDIA_PROTOCOL :: ctype where [layouts]:
  "PXE_MEDIA_PROTOCOL = UINT16"

definition PXE_HW_UNDI :: ctype where [layouts]:
  "PXE_HW_UNDI = Struct Packed
     [(''Signature'', PXE_UINT32), (''Len'', PXE_UINT8), (''Fudge'', PXE_UINT8),
      (''Rev'', PXE_UINT8), (''IFcnt'', PXE_UINT8), (''MajorVer'', PXE_UINT8),
      (''MinorVer'', PXE_UINT8), (''IFcntExt'', PXE_UINT8), (''reserved'', PXE_UINT8),
      (''Implementation'', PXE_UINT32)]"

definition PXE_SW_UNDI :: ctype where [layouts]:
  "PXE_SW_UNDI = Struct Packed
     [(''Signature'', PXE_UINT32), (''Len'', PXE_UINT8), (''Fudge'', PXE_UINT8),
      (''Rev'', PXE_UINT8), (''IFcnt'', PXE_UINT8), (''MajorVer'', PXE_UINT8),
      (''MinorVer'', PXE_UINT8), (''IFcntExt'', PXE_UINT8), (''reserved1'', PXE_UINT8),
      (''Implementation'', PXE_UINT32), (''EntryPoint'', PXE_UINT64),
      (''reserved2'', Array 3 PXE_UINT8), (''BusCnt'', PXE_UINT8),
      (''BusType'', Array 1 PXE_UINT32)]"

definition PXE_UNDI :: ctype where [layouts]:
  "PXE_UNDI = Union Packed
     [(''hw'', PXE_HW_UNDI), (''sw'', PXE_SW_UNDI)]"

definition PXE_CDB :: ctype where [layouts]:
  "PXE_CDB = Struct Packed
     [(''OpCode'', PXE_OPCODE), (''OpFlags'', PXE_OPFLAGS), (''CPBsize'', PXE_UINT16),
      (''DBsize'', PXE_UINT16), (''CPBaddr'', PXE_UINT64), (''DBaddr'', PXE_UINT64),
      (''StatCode'', PXE_STATCODE), (''StatFlags'', PXE_STATFLAGS), (''IFnum'', PXE_UINT16),
      (''Control'', PXE_CONTROL)]"

definition PXE_IP_ADDR :: ctype where [layouts]:
  "PXE_IP_ADDR = Union Packed
     [(''IPv6'', PXE_IPV6), (''IPv4'', PXE_IPV4)]"

definition PXE_DEVICE :: ctype where [layouts]:
  "PXE_DEVICE = Union Packed
     [(''PCI'', Struct Packed
        [(''BusType'', PXE_UINT32),
         (''Bus'', PXE_UINT16),
         (''Device'', PXE_UINT8),
         (''Function'', PXE_UINT8)]),
      (''PCC'', Struct Packed
        [(''BusType'', PXE_UINT32),
         (''Bus'', PXE_UINT16),
         (''Device'', PXE_UINT8),
         (''Function'', PXE_UINT8)])]"

definition PXE_CPB_START_30 :: ctype where [layouts]:
  "PXE_CPB_START_30 = Struct Packed
     [(''Delay'', UINT64), (''Block'', UINT64), (''Virt2Phys'', UINT64), (''Mem_IO'', UINT64)]"

definition PXE_CPB_START_31 :: ctype where [layouts]:
  "PXE_CPB_START_31 = Struct Packed
     [(''Delay'', UINT64), (''Block'', UINT64), (''Virt2Phys'', UINT64), (''Mem_IO'', UINT64),
      (''Map_Mem'', UINT64), (''UnMap_Mem'', UINT64), (''Sync_Mem'', UINT64),
      (''Unique_ID'', UINT64)]"

definition PXE_DB_GET_INIT_INFO :: ctype where [layouts]:
  "PXE_DB_GET_INIT_INFO = Struct Packed
     [(''MemoryRequired'', PXE_UINT32), (''FrameDataLen'', PXE_UINT32),
      (''LinkSpeeds'', Array 4 PXE_UINT32), (''NvCount'', PXE_UINT32),
      (''NvWidth'', PXE_UINT16), (''MediaHeaderLen'', PXE_UINT16), (''HWaddrLen'', PXE_UINT16),
      (''MCastFilterCnt'', PXE_UINT16), (''TxBufCnt'', PXE_UINT16), (''TxBufSize'', PXE_UINT16),
      (''RxBufCnt'', PXE_UINT16), (''RxBufSize'', PXE_UINT16), (''IFtype'', PXE_UINT8),
      (''SupportedDuplexModes'', PXE_UINT8), (''SupportedLoopBackModes'', PXE_UINT8)]"

definition PXE_PCI_CONFIG_INFO :: ctype where [layouts]:
  "PXE_PCI_CONFIG_INFO = Struct Packed
     [(''BusType'', UINT32), (''Bus'', UINT16), (''Device'', UINT8), (''Function'', UINT8),
      (''Config'', Union Packed
        [(''Byte'', Array 256 UINT8),
         (''Word'', Array 128 UINT16),
         (''Dword'', Array 64 UINT32)])]"

definition PXE_PCC_CONFIG_INFO :: ctype where [layouts]:
  "PXE_PCC_CONFIG_INFO = Struct Packed
     [(''BusType'', PXE_UINT32), (''Bus'', PXE_UINT16), (''Device'', PXE_UINT8),
      (''Function'', PXE_UINT8),
      (''Config'', Union Packed
        [(''Byte'', Array 256 PXE_UINT8),
         (''Word'', Array 128 PXE_UINT16),
         (''Dword'', Array 64 PXE_UINT32)])]"

definition PXE_DB_GET_CONFIG_INFO :: ctype where [layouts]:
  "PXE_DB_GET_CONFIG_INFO = Union Packed
     [(''pci'', PXE_PCI_CONFIG_INFO), (''pcc'', PXE_PCC_CONFIG_INFO)]"

definition PXE_CPB_INITIALIZE :: ctype where [layouts]:
  "PXE_CPB_INITIALIZE = Struct Packed
     [(''MemoryAddr'', PXE_UINT64), (''MemoryLength'', PXE_UINT32), (''LinkSpeed'', PXE_UINT32),
      (''TxBufCnt'', PXE_UINT16), (''TxBufSize'', PXE_UINT16), (''RxBufCnt'', PXE_UINT16),
      (''RxBufSize'', PXE_UINT16), (''DuplexMode'', PXE_UINT8), (''LoopBackMode'', PXE_UINT8)]"

definition PXE_DB_INITIALIZE :: ctype where [layouts]:
  "PXE_DB_INITIALIZE = Struct Packed
     [(''MemoryUsed'', PXE_UINT32), (''TxBufCnt'', PXE_UINT16), (''TxBufSize'', PXE_UINT16),
      (''RxBufCnt'', PXE_UINT16), (''RxBufSize'', PXE_UINT16)]"

definition PXE_CPB_RECEIVE_FILTERS :: ctype where [layouts]:
  "PXE_CPB_RECEIVE_FILTERS = Struct Packed
     [(''MCastList'', Array 8 PXE_MAC_ADDR)]"

definition PXE_DB_RECEIVE_FILTERS :: ctype where [layouts]:
  "PXE_DB_RECEIVE_FILTERS = Struct Packed
     [(''MCastList'', Array 8 PXE_MAC_ADDR)]"

definition PXE_CPB_STATION_ADDRESS :: ctype where [layouts]:
  "PXE_CPB_STATION_ADDRESS = Struct Packed
     [(''StationAddr'', PXE_MAC_ADDR)]"

definition PXE_DB_STATION_ADDRESS :: ctype where [layouts]:
  "PXE_DB_STATION_ADDRESS = Struct Packed
     [(''StationAddr'', PXE_MAC_ADDR), (''BroadcastAddr'', PXE_MAC_ADDR),
      (''PermanentAddr'', PXE_MAC_ADDR)]"

definition PXE_DB_STATISTICS :: ctype where [layouts]:
  "PXE_DB_STATISTICS = Struct Packed
     [(''Supported'', PXE_UINT64), (''Data'', Array 64 PXE_UINT64)]"

definition PXE_CPB_MCAST_IP_TO_MAC :: ctype where [layouts]:
  "PXE_CPB_MCAST_IP_TO_MAC = Struct Packed
     [(''IP'', PXE_IP_ADDR)]"

definition PXE_DB_MCAST_IP_TO_MAC :: ctype where [layouts]:
  "PXE_DB_MCAST_IP_TO_MAC = Struct Packed
     [(''MAC'', PXE_MAC_ADDR)]"

definition PXE_CPB_NVDATA_SPARSE :: ctype where [layouts]:
  "PXE_CPB_NVDATA_SPARSE = Struct Packed
     [(''Item'', Array 128 (Struct Packed
        [(''Addr'', PXE_UINT32),
         (''Data'', Union Packed
           [(''Byte'', PXE_UINT8),
            (''Word'', PXE_UINT16),
            (''Dword'', PXE_UINT32)])]))]"

definition PXE_CPB_NVDATA_BULK :: ctype where [layouts]:
  "PXE_CPB_NVDATA_BULK = Union Packed
     [(''Byte'', Array 512 PXE_UINT8), (''Word'', Array 256 PXE_UINT16),
      (''Dword'', Array 128 PXE_UINT32)]"

definition PXE_DB_NVDATA :: ctype where [layouts]:
  "PXE_DB_NVDATA = Struct Packed
     [(''Data'', Union Packed
        [(''Byte'', Array 512 PXE_UINT8),
         (''Word'', Array 256 PXE_UINT16),
         (''Dword'', Array 128 PXE_UINT32)])]"

definition PXE_DB_GET_STATUS :: ctype where [layouts]:
  "PXE_DB_GET_STATUS = Struct Packed
     [(''RxFrameLen'', PXE_UINT32), (''reserved'', PXE_UINT32),
      (''TxBuffer'', Array 32 PXE_UINT64)]"

definition PXE_CPB_FILL_HEADER :: ctype where [layouts]:
  "PXE_CPB_FILL_HEADER = Struct Packed
     [(''SrcAddr'', PXE_MAC_ADDR), (''DestAddr'', PXE_MAC_ADDR), (''MediaHeader'', PXE_UINT64),
      (''PacketLen'', PXE_UINT32), (''Protocol'', PXE_UINT16), (''MediaHeaderLen'', PXE_UINT16)]"

definition PXE_CPB_FILL_HEADER_FRAGMENTED :: ctype where [layouts]:
  "PXE_CPB_FILL_HEADER_FRAGMENTED = Struct Packed
     [(''SrcAddr'', PXE_MAC_ADDR), (''DestAddr'', PXE_MAC_ADDR), (''PacketLen'', PXE_UINT32),
      (''Protocol'', PXE_MEDIA_PROTOCOL), (''MediaHeaderLen'', PXE_UINT16),
      (''FragCnt'', PXE_UINT16), (''reserved'', PXE_UINT16),
      (''FragDesc'', Array 16 (Struct Packed
        [(''FragAddr'', PXE_UINT64),
         (''FragLen'', PXE_UINT32),
         (''reserved'', PXE_UINT32)]))]"

definition PXE_CPB_TRANSMIT :: ctype where [layouts]:
  "PXE_CPB_TRANSMIT = Struct Packed
     [(''FrameAddr'', PXE_UINT64), (''DataLen'', PXE_UINT32), (''MediaheaderLen'', PXE_UINT16),
      (''reserved'', PXE_UINT16)]"

definition PXE_CPB_TRANSMIT_FRAGMENTS :: ctype where [layouts]:
  "PXE_CPB_TRANSMIT_FRAGMENTS = Struct Packed
     [(''FrameLen'', PXE_UINT32), (''MediaheaderLen'', PXE_UINT16), (''FragCnt'', PXE_UINT16),
      (''FragDesc'', Array 16 (Struct Packed
        [(''FragAddr'', PXE_UINT64),
         (''FragLen'', PXE_UINT32),
         (''reserved'', PXE_UINT32)]))]"

definition PXE_CPB_RECEIVE :: ctype where [layouts]:
  "PXE_CPB_RECEIVE = Struct Packed
     [(''BufferAddr'', PXE_UINT64), (''BufferLen'', PXE_UINT32), (''reserved'', PXE_UINT32)]"

definition PXE_DB_RECEIVE :: ctype where [layouts]:
  "PXE_DB_RECEIVE = Struct Packed
     [(''SrcAddr'', PXE_MAC_ADDR), (''DestAddr'', PXE_MAC_ADDR), (''FrameLen'', PXE_UINT32),
      (''Protocol'', PXE_MEDIA_PROTOCOL), (''MediaHeaderLen'', PXE_UINT16),
      (''Type'', PXE_FRAME_TYPE), (''reserved'', Array 7 PXE_UINT8)]"

end
