(* ===== verification/Layout_Census.thy ===== *)
theory Layout_Census
  imports Object_Access Further_Records Acpi_1_3 Acpi_4_0 Acpi_5_0 Acpi_5_1 Acpi_6_0 Device_Path_Types Form_Types Pxe_Types
begin

text \<open>
  Every structure and union of the headers in one of two lists: those in natural layout, whose
  members the processor finds aligned, and those of \<open>#pragma pack(1)\<close>, which firmware, devices
  and disks exchange and which have no padding.
\<close>

section \<open>Records in natural layout\<close>

definition natural_firmware :: "ctype list" where
  "natural_firmware =
     [GUID, IPv4_ADDRESS, IPv6_ADDRESS, LIST_ENTRY_layout, EFI_TIME, EFI_MAC_ADDRESS,
      EFI_IP_ADDRESS, WIN_CERTIFICATE, EFI_CERT_BLOCK_RSA_2048_SHA256,
      WIN_CERTIFICATE_UEFI_GUID, WIN_CERTIFICATE_EFI_PKCS1_15, EFI_TABLE_HEADER,
      EFI_VARIABLE_AUTHENTICATION, EFI_VARIABLE_AUTHENTICATION_2, EFI_INPUT_KEY,
      EFI_SIMPLE_TEXT_INPUT_PROTOCOL, EFI_KEY_STATE, EFI_KEY_DATA,
      EFI_SIMPLE_TEXT_INPUT_EX_PROTOCOL, EFI_SIMPLE_TEXT_OUTPUT_MODE,
      EFI_SIMPLE_TEXT_OUTPUT_PROTOCOL, EFI_MEMORY_DESCRIPTOR, EFI_TIME_CAPABILITIES,
      EFI_OPEN_PROTOCOL_INFORMATION_ENTRY, EFI_CAPSULE_BLOCK_DESCRIPTOR, EFI_CAPSULE_HEADER,
      EFI_CAPSULE_TABLE, EFI_RUNTIME_SERVICES, EFI_BOOT_SERVICES, EFI_CONFIGURATION_TABLE,
      EFI_SYSTEM_TABLE, EFI_BOOT_KEY_DATA]"

definition natural_x64 :: "ctype list" where
  "natural_x64 =
     [BASE_LIBRARY_JUMP_BUFFER, IA32_EFLAGS32, IA32_CR0, IA32_CR4, IA32_SEGMENT_DESCRIPTOR,
      IA32_IDT_GATE_DESCRIPTOR, IA32_FX_BUFFER, IA32_BYTE_REGS, IA32_WORD_REGS, IA32_DWORD_REGS,
      IA32_REGISTER_SET, THUNK_CONTEXT]"

definition natural_acpi_1_3 :: "ctype list" where
  "natural_acpi_1_3 =
     [EFI_ACPI_COMMON_HEADER, EFI_ACPI_END_TAG_DESCRIPTOR]"

definition natural_records :: "ctype list" where
  "natural_records = natural_firmware @ natural_x64 @ natural_acpi_1_3 @ natural_further"

section \<open>Packed records\<close>

definition wire_firmware :: "ctype list" where
  "wire_firmware =
     [EFI_PARTITION_TABLE_HEADER, EFI_PARTITION_ENTRY, BLUETOOTH_ADDRESS,
      BLUETOOTH_CLASS_OF_DEVICE, BLUETOOTH_LE_ADDRESS, EFI_LOAD_OPTION, EFI_KEY_OPTION]"

definition wire_x64 :: "ctype list" where
  "wire_x64 =
     [IA32_DESCRIPTOR, IA32_TASK_STATE_SEGMENT, IA32_TSS_DESCRIPTOR]"

definition wire_acpi_1_3 :: "ctype list" where
  "wire_acpi_1_3 =
     [EFI_ACPI_DESCRIPTION_HEADER, EFI_ACPI_ADDRESS_SPACE_DESCRIPTOR,
      ACPI_SMALL_RESOURCE_HEADER, ACPI_LARGE_RESOURCE_HEADER, EFI_ACPI_IRQ_NOFLAG_DESCRIPTOR,
      EFI_ACPI_IRQ_DESCRIPTOR, EFI_ACPI_DMA_DESCRIPTOR, EFI_ACPI_IO_PORT_DESCRIPTOR,
      EFI_ACPI_FIXED_LOCATION_IO_PORT_DESCRIPTOR, EFI_ACPI_24_BIT_MEMORY_RANGE_DESCRIPTOR,
      EFI_ACPI_32_BIT_MEMORY_RANGE_DESCRIPTOR, EFI_ACPI_32_BIT_FIXED_MEMORY_RANGE_DESCRIPTOR,
      EFI_ACPI_QWORD_ADDRESS_SPACE_DESCRIPTOR, EFI_ACPI_DWORD_ADDRESS_SPACE_DESCRIPTOR,
      EFI_ACPI_WORD_ADDRESS_SPACE_DESCRIPTOR, EFI_ACPI_EXTENDED_INTERRUPT_DESCRIPTOR,
      EFI_ACPI_1_0_ROOT_SYSTEM_DESCRIPTION_POINTER, EFI_ACPI_1_0_FIXED_ACPI_DESCRIPTION_TABLE,
      EFI_ACPI_1_0_FIRMWARE_ACPI_CONTROL_STRUCTURE,
      EFI_ACPI_1_0_MULTIPLE_APIC_DESCRIPTION_TABLE_HEADER,
      EFI_ACPI_1_0_PROCESSOR_LOCAL_APIC_STRUCTURE, EFI_ACPI_1_0_IO_APIC_STRUCTURE,
      EFI_ACPI_1_0_INTERRUPT_SOURCE_OVERRIDE_STRUCTURE,
      EFI_ACPI_1_0_NON_MASKABLE_INTERRUPT_SOURCE_STRUCTURE,
      EFI_ACPI_1_0_LOCAL_APIC_NMI_STRUCTURE, EFI_ACPI_1_0_SMART_BATTERY_DESCRIPTION_TABLE,
      EFI_ACPI_GENERIC_REGISTER_DESCRIPTOR, EFI_ACPI_2_0_GENERIC_ADDRESS_STRUCTURE,
      EFI_ACPI_2_0_ROOT_SYSTEM_DESCRIPTION_POINTER, EFI_ACPI_2_0_COMMON_HEADER,
      EFI_ACPI_2_0_FIXED_ACPI_DESCRIPTION_TABLE, EFI_ACPI_2_0_FIRMWARE_ACPI_CONTROL_STRUCTURE,
      EFI_ACPI_2_0_MULTIPLE_APIC_DESCRIPTION_TABLE_HEADER,
      EFI_ACPI_2_0_PROCESSOR_LOCAL_APIC_STRUCTURE, EFI_ACPI_2_0_IO_APIC_STRUCTURE,
      EFI_ACPI_2_0_INTERRUPT_SOURCE_OVERRIDE_STRUCTURE,
      EFI_ACPI_2_0_NON_MASKABLE_INTERRUPT_SOURCE_STRUCTURE,
      EFI_ACPI_2_0_LOCAL_APIC_NMI_STRUCTURE, EFI_ACPI_2_0_LOCAL_APIC_ADDRESS_OVERRIDE_STRUCTURE,
      EFI_ACPI_2_0_IO_SAPIC_STRUCTURE, EFI_ACPI_2_0_PROCESSOR_LOCAL_SAPIC_STRUCTURE,
      EFI_ACPI_2_0_PLATFORM_INTERRUPT_SOURCES_STRUCTURE,
      EFI_ACPI_2_0_SMART_BATTERY_DESCRIPTION_TABLE,
      EFI_ACPI_2_0_EMBEDDED_CONTROLLER_BOOT_RESOURCES_TABLE,
      EFI_ACPI_EXTENDED_ADDRESS_SPACE_DESCRIPTOR, EFI_ACPI_3_0_GENERIC_ADDRESS_STRUCTURE,
      EFI_ACPI_3_0_ROOT_SYSTEM_DESCRIPTION_POINTER, EFI_ACPI_3_0_COMMON_HEADER,
      EFI_ACPI_3_0_FIXED_ACPI_DESCRIPTION_TABLE, EFI_ACPI_3_0_FIRMWARE_ACPI_CONTROL_STRUCTURE,
      EFI_ACPI_3_0_MULTIPLE_APIC_DESCRIPTION_TABLE_HEADER,
      EFI_ACPI_3_0_PROCESSOR_LOCAL_APIC_STRUCTURE, EFI_ACPI_3_0_IO_APIC_STRUCTURE,
      EFI_ACPI_3_0_INTERRUPT_SOURCE_OVERRIDE_STRUCTURE,
      EFI_ACPI_3_0_PLATFORM_INTERRUPT_APIC_STRUCTURE,
      EFI_ACPI_3_0_NON_MASKABLE_INTERRUPT_SOURCE_STRUCTURE,
      EFI_ACPI_3_0_LOCAL_APIC_NMI_STRUCTURE, EFI_ACPI_3_0_LOCAL_APIC_ADDRESS_OVERRIDE_STRUCTURE,
      EFI_ACPI_3_0_IO_SAPIC_STRUCTURE, EFI_ACPI_3_0_PROCESSOR_LOCAL_SAPIC_STRUCTURE,
      EFI_ACPI_3_0_PLATFORM_INTERRUPT_SOURCES_STRUCTURE,
      EFI_ACPI_3_0_SMART_BATTERY_DESCRIPTION_TABLE,
      EFI_ACPI_3_0_EMBEDDED_CONTROLLER_BOOT_RESOURCES_TABLE,
      EFI_ACPI_3_0_SYSTEM_RESOURCE_AFFINITY_TABLE_HEADER,
      EFI_ACPI_3_0_PROCESSOR_LOCAL_APIC_SAPIC_AFFINITY_STRUCTURE,
      EFI_ACPI_3_0_MEMORY_AFFINITY_STRUCTURE,
      EFI_ACPI_3_0_SYSTEM_LOCALITY_DISTANCE_INFORMATION_TABLE_HEADER]"

definition wire_acpi_4_0 :: "ctype list" where
  "wire_acpi_4_0 =
     [EFI_ACPI_4_0_GENERIC_ADDRESS_STRUCTURE, EFI_ACPI_4_0_ROOT_SYSTEM_DESCRIPTION_POINTER,
      EFI_ACPI_4_0_COMMON_HEADER, EFI_ACPI_4_0_FIXED_ACPI_DESCRIPTION_TABLE,
      EFI_ACPI_4_0_FIRMWARE_ACPI_CONTROL_STRUCTURE,
      EFI_ACPI_4_0_MULTIPLE_APIC_DESCRIPTION_TABLE_HEADER,
      EFI_ACPI_4_0_PROCESSOR_LOCAL_APIC_STRUCTURE, EFI_ACPI_4_0_IO_APIC_STRUCTURE,
      EFI_ACPI_4_0_INTERRUPT_SOURCE_OVERRIDE_STRUCTURE,
      EFI_ACPI_4_0_PLATFORM_INTERRUPT_APIC_STRUCTURE,
      EFI_ACPI_4_0_NON_MASKABLE_INTERRUPT_SOURCE_STRUCTURE,
      EFI_ACPI_4_0_LOCAL_APIC_NMI_STRUCTURE, EFI_ACPI_4_0_LOCAL_APIC_ADDRESS_OVERRIDE_STRUCTURE,
      EFI_ACPI_4_0_IO_SAPIC_STRUCTURE, EFI_ACPI_4_0_PROCESSOR_LOCAL_SAPIC_STRUCTURE,
      EFI_ACPI_4_0_PLATFORM_INTERRUPT_SOURCES_STRUCTURE,
      EFI_ACPI_4_0_PROCESSOR_LOCAL_X2APIC_STRUCTURE, EFI_ACPI_4_0_LOCAL_X2APIC_NMI_STRUCTURE,
      EFI_ACPI_4_0_SMART_BATTERY_DESCRIPTION_TABLE,
      EFI_ACPI_4_0_EMBEDDED_CONTROLLER_BOOT_RESOURCES_TABLE,
      EFI_ACPI_4_0_SYSTEM_RESOURCE_AFFINITY_TABLE_HEADER,
      EFI_ACPI_4_0_PROCESSOR_LOCAL_APIC_SAPIC_AFFINITY_STRUCTURE,
      EFI_ACPI_4_0_MEMORY_AFFINITY_STRUCTURE,
      EFI_ACPI_4_0_PROCESSOR_LOCAL_X2APIC_AFFINITY_STRUCTURE,
      EFI_ACPI_4_0_SYSTEM_LOCALITY_DISTANCE_INFORMATION_TABLE_HEADER,
      EFI_ACPI_4_0_CORRECTED_PLATFORM_ERROR_POLLING_TABLE_HEADER,
      EFI_ACPI_4_0_CPEP_PROCESSOR_APIC_SAPIC_STRUCTURE,
      EFI_ACPI_4_0_MAXIMUM_SYSTEM_CHARACTERISTICS_TABLE_HEADER,
      EFI_ACPI_4_0_MAXIMUM_PROXIMITY_DOMAIN_INFORMATION_STRUCTURE,
      EFI_ACPI_4_0_BOOT_ERROR_RECORD_TABLE_HEADER, EFI_ACPI_4_0_ERROR_BLOCK_STATUS,
      EFI_ACPI_4_0_BOOT_ERROR_REGION_STRUCTURE, EFI_ACPI_4_0_GENERIC_ERROR_DATA_ENTRY_STRUCTURE,
      EFI_ACPI_4_0_HARDWARE_ERROR_SOURCE_TABLE_HEADER,
      EFI_ACPI_4_0_IA32_ARCHITECTURE_MACHINE_CHECK_EXCEPTION_STRUCTURE,
      EFI_ACPI_4_0_IA32_ARCHITECTURE_MACHINE_CHECK_ERROR_BANK_STRUCTURE,
      EFI_ACPI_4_0_HARDWARE_ERROR_NOTIFICATION_CONFIGURATION_WRITE_ENABLE_STRUCTURE,
      EFI_ACPI_4_0_HARDWARE_ERROR_NOTIFICATION_STRUCTURE,
      EFI_ACPI_4_0_IA32_ARCHITECTURE_CORRECTED_MACHINE_CHECK_STRUCTURE,
      EFI_ACPI_4_0_IA32_ARCHITECTURE_NMI_ERROR_STRUCTURE,
      EFI_ACPI_4_0_PCI_EXPRESS_ROOT_PORT_AER_STRUCTURE,
      EFI_ACPI_4_0_PCI_EXPRESS_DEVICE_AER_STRUCTURE,
      EFI_ACPI_4_0_PCI_EXPRESS_BRIDGE_AER_STRUCTURE,
      EFI_ACPI_4_0_GENERIC_HARDWARE_ERROR_SOURCE_STRUCTURE,
      EFI_ACPI_4_0_GENERIC_ERROR_STATUS_STRUCTURE,
      EFI_ACPI_4_0_ERROR_RECORD_SERIALIZATION_TABLE_HEADER,
      EFI_ACPI_4_0_ERST_SERIALIZATION_INSTRUCTION_ENTRY,
      EFI_ACPI_4_0_ERROR_INJECTION_TABLE_HEADER, EFI_ACPI_4_0_EINJ_INJECTION_INSTRUCTION_ENTRY,
      EFI_ACPI_4_0_EINJ_TRIGGER_ACTION_TABLE]"

definition wire_acpi_5_0 :: "ctype list" where
  "wire_acpi_5_0 =
     [EFI_ACPI_FIXED_DMA_DESCRIPTOR, EFI_ACPI_GPIO_CONNECTION_DESCRIPTOR,
      EFI_ACPI_SERIAL_BUS_RESOURCE_DESCRIPTOR, EFI_ACPI_SERIAL_BUS_RESOURCE_I2C_DESCRIPTOR,
      EFI_ACPI_SERIAL_BUS_RESOURCE_SPI_DESCRIPTOR, EFI_ACPI_SERIAL_BUS_RESOURCE_UART_DESCRIPTOR,
      EFI_ACPI_5_0_GENERIC_ADDRESS_STRUCTURE, EFI_ACPI_5_0_ROOT_SYSTEM_DESCRIPTION_POINTER,
      EFI_ACPI_5_0_COMMON_HEADER, EFI_ACPI_5_0_FIXED_ACPI_DESCRIPTION_TABLE,
      EFI_ACPI_5_0_FIRMWARE_ACPI_CONTROL_STRUCTURE,
      EFI_ACPI_5_0_MULTIPLE_APIC_DESCRIPTION_TABLE_HEADER,
      EFI_ACPI_5_0_PROCESSOR_LOCAL_APIC_STRUCTURE, EFI_ACPI_5_0_IO_APIC_STRUCTURE,
      EFI_ACPI_5_0_INTERRUPT_SOURCE_OVERRIDE_STRUCTURE,
      EFI_ACPI_5_0_PLATFORM_INTERRUPT_APIC_STRUCTURE,
      EFI_ACPI_5_0_NON_MASKABLE_INTERRUPT_SOURCE_STRUCTURE,
      EFI_ACPI_5_0_LOCAL_APIC_NMI_STRUCTURE, EFI_ACPI_5_0_LOCAL_APIC_ADDRESS_OVERRIDE_STRUCTURE,
      EFI_ACPI_5_0_IO_SAPIC_STRUCTURE, EFI_ACPI_5_0_PROCESSOR_LOCAL_SAPIC_STRUCTURE,
      EFI_ACPI_5_0_PLATFORM_INTERRUPT_SOURCES_STRUCTURE,
      EFI_ACPI_5_0_PROCESSOR_LOCAL_X2APIC_STRUCTURE, EFI_ACPI_5_0_LOCAL_X2APIC_NMI_STRUCTURE,
      EFI_ACPI_5_0_GIC_STRUCTURE, EFI_ACPI_5_0_GIC_DISTRIBUTOR_STRUCTURE,
      EFI_ACPI_5_0_SMART_BATTERY_DESCRIPTION_TABLE,
      EFI_ACPI_5_0_EMBEDDED_CONTROLLER_BOOT_RESOURCES_TABLE,
      EFI_ACPI_5_0_SYSTEM_RESOURCE_AFFINITY_TABLE_HEADER,
      EFI_ACPI_5_0_PROCESSOR_LOCAL_APIC_SAPIC_AFFINITY_STRUCTURE,
      EFI_ACPI_5_0_MEMORY_AFFINITY_STRUCTURE,
      EFI_ACPI_5_0_PROCESSOR_LOCAL_X2APIC_AFFINITY_STRUCTURE,
      EFI_ACPI_5_0_SYSTEM_LOCALITY_DISTANCE_INFORMATION_TABLE_HEADER,
      EFI_ACPI_5_0_CORRECTED_PLATFORM_ERROR_POLLING_TABLE_HEADER,
      EFI_ACPI_5_0_CPEP_PROCESSOR_APIC_SAPIC_STRUCTURE,
      EFI_ACPI_5_0_MAXIMUM_SYSTEM_CHARACTERISTICS_TABLE_HEADER,
      EFI_ACPI_5_0_MAXIMUM_PROXIMITY_DOMAIN_INFORMATION_STRUCTURE,
      EFI_ACPI_5_0_RAS_FEATURE_TABLE,
      EFI_ACPI_5_0_RASF_PLATFORM_COMMUNICATION_CHANNEL_SHARED_MEMORY_REGION,
      EFI_ACPI_5_0_RASF_PATROL_SCRUB_PLATFORM_BLOCK_STRUCTURE,
      EFI_ACPI_5_0_MEMORY_POWER_STATUS_TABLE,
      EFI_ACPI_5_0_MPST_PLATFORM_COMMUNICATION_CHANNEL_SHARED_MEMORY_REGION,
      EFI_ACPI_5_0_MPST_MEMORY_POWER_STATE, EFI_ACPI_5_0_MPST_MEMORY_POWER_STRUCTURE,
      EFI_ACPI_5_0_MPST_MEMORY_POWER_NODE_TABLE,
      EFI_ACPI_5_0_MPST_MEMORY_POWER_STATE_CHARACTERISTICS_STRUCTURE,
      EFI_ACPI_5_0_MPST_MEMORY_POWER_STATE_CHARACTERISTICS_TABLE,
      EFI_ACPI_5_0_MEMORY_TOPOLOGY_TABLE,
      EFI_ACPI_5_0_PMMT_COMMON_MEMORY_AGGREGATOR_DEVICE_STRUCTURE,
      EFI_ACPI_5_0_PMMT_SOCKET_MEMORY_AGGREGATOR_DEVICE_STRUCTURE,
      EFI_ACPI_5_0_PMMT_MEMORY_CONTROLLER_MEMORY_AGGREGATOR_DEVICE_STRUCTURE,
      EFI_ACPI_5_0_PMMT_DIMM_MEMORY_AGGREGATOR_DEVICE_STRUCTURE,
      EFI_ACPI_5_0_BOOT_GRAPHICS_RESOURCE_TABLE, EFI_ACPI_5_0_FPDT_PERFORMANCE_RECORD_HEADER,
      EFI_ACPI_5_0_FPDT_PERFORMANCE_TABLE_HEADER,
      EFI_ACPI_5_0_FPDT_BOOT_PERFORMANCE_TABLE_POINTER_RECORD,
      EFI_ACPI_5_0_FPDT_S3_PERFORMANCE_TABLE_POINTER_RECORD,
      EFI_ACPI_5_0_FPDT_FIRMWARE_BASIC_BOOT_RECORD, EFI_ACPI_5_0_FPDT_FIRMWARE_BASIC_BOOT_TABLE,
      EFI_ACPI_5_0_FPDT_FIRMWARE_S3_BOOT_TABLE, EFI_ACPI_5_0_FPDT_S3_RESUME_RECORD,
      EFI_ACPI_5_0_FPDT_S3_SUSPEND_RECORD, EFI_ACPI_5_0_FIRMWARE_PERFORMANCE_RECORD_TABLE,
      EFI_ACPI_5_0_GENERIC_TIMER_DESCRIPTION_TABLE, EFI_ACPI_5_0_BOOT_ERROR_RECORD_TABLE_HEADER,
      EFI_ACPI_5_0_ERROR_BLOCK_STATUS, EFI_ACPI_5_0_BOOT_ERROR_REGION_STRUCTURE,
      EFI_ACPI_5_0_GENERIC_ERROR_DATA_ENTRY_STRUCTURE,
      EFI_ACPI_5_0_HARDWARE_ERROR_SOURCE_TABLE_HEADER,
      EFI_ACPI_5_0_IA32_ARCHITECTURE_MACHINE_CHECK_EXCEPTION_STRUCTURE,
      EFI_ACPI_5_0_IA32_ARCHITECTURE_MACHINE_CHECK_ERROR_BANK_STRUCTURE,
      EFI_ACPI_5_0_HARDWARE_ERROR_NOTIFICATION_CONFIGURATION_WRITE_ENABLE_STRUCTURE,
      EFI_ACPI_5_0_HARDWARE_ERROR_NOTIFICATION_STRUCTURE,
      EFI_ACPI_5_0_IA32_ARCHITECTURE_CORRECTED_MACHINE_CHECK_STRUCTURE,
      EFI_ACPI_5_0_IA32_ARCHITECTURE_NMI_ERROR_STRUCTURE,
      EFI_ACPI_5_0_PCI_EXPRESS_ROOT_PORT_AER_STRUCTURE,
      EFI_ACPI_5_0_PCI_EXPRESS_DEVICE_AER_STRUCTURE,
      EFI_ACPI_5_0_PCI_EXPRESS_BRIDGE_AER_STRUCTURE,
      EFI_ACPI_5_0_GENERIC_HARDWARE_ERROR_SOURCE_STRUCTURE,
      EFI_ACPI_5_0_GENERIC_ERROR_STATUS_STRUCTURE,
      EFI_ACPI_5_0_ERROR_RECORD_SERIALIZATION_TABLE_HEADER,
      EFI_ACPI_5_0_ERST_SERIALIZATION_INSTRUCTION_ENTRY,
      EFI_ACPI_5_0_ERROR_INJECTION_TABLE_HEADER, EFI_ACPI_5_0_EINJ_INJECTION_INSTRUCTION_ENTRY,
      EFI_ACPI_5_0_EINJ_TRIGGER_ACTION_TABLE,
      EFI_ACPI_5_0_PLATFORM_COMMUNICATION_CHANNEL_TABLE_HEADER,
      EFI_ACPI_5_0_PCCT_SUBSPACE_HEADER, EFI_ACPI_5_0_PCCT_SUBSPACE_GENERIC,
      EFI_ACPI_5_0_PCCT_GENERIC_SHARED_MEMORY_REGION_COMMAND,
      EFI_ACPI_5_0_PCCT_GENERIC_SHARED_MEMORY_REGION_STATUS,
      EFI_ACPI_5_0_PCCT_GENERIC_SHARED_MEMORY_REGION_HEADER]"

definition wire_acpi_5_1 :: "ctype list" where
  "wire_acpi_5_1 =
     [EFI_ACPI_5_1_GENERIC_ADDRESS_STRUCTURE, EFI_ACPI_5_1_ROOT_SYSTEM_DESCRIPTION_POINTER,
      EFI_ACPI_5_1_COMMON_HEADER, EFI_ACPI_5_1_FIXED_ACPI_DESCRIPTION_TABLE,
      EFI_ACPI_5_1_FIRMWARE_ACPI_CONTROL_STRUCTURE,
      EFI_ACPI_5_1_MULTIPLE_APIC_DESCRIPTION_TABLE_HEADER,
      EFI_ACPI_5_1_PROCESSOR_LOCAL_APIC_STRUCTURE, EFI_ACPI_5_1_IO_APIC_STRUCTURE,
      EFI_ACPI_5_1_INTERRUPT_SOURCE_OVERRIDE_STRUCTURE,
      EFI_ACPI_5_1_PLATFORM_INTERRUPT_APIC_STRUCTURE,
      EFI_ACPI_5_1_NON_MASKABLE_INTERRUPT_SOURCE_STRUCTURE,
      EFI_ACPI_5_1_LOCAL_APIC_NMI_STRUCTURE, EFI_ACPI_5_1_LOCAL_APIC_ADDRESS_OVERRIDE_STRUCTURE,
      EFI_ACPI_5_1_IO_SAPIC_STRUCTURE, EFI_ACPI_5_1_PROCESSOR_LOCAL_SAPIC_STRUCTURE,
      EFI_ACPI_5_1_PLATFORM_INTERRUPT_SOURCES_STRUCTURE,
      EFI_ACPI_5_1_PROCESSOR_LOCAL_X2APIC_STRUCTURE, EFI_ACPI_5_1_LOCAL_X2APIC_NMI_STRUCTURE,
      EFI_ACPI_5_1_GIC_STRUCTURE, EFI_ACPI_5_1_GIC_DISTRIBUTOR_STRUCTURE,
      EFI_ACPI_5_1_GIC_MSI_FRAME_STRUCTURE, EFI_ACPI_5_1_GICR_STRUCTURE,
      EFI_ACPI_5_1_SMART_BATTERY_DESCRIPTION_TABLE,
      EFI_ACPI_5_1_EMBEDDED_CONTROLLER_BOOT_RESOURCES_TABLE,
      EFI_ACPI_5_1_SYSTEM_RESOURCE_AFFINITY_TABLE_HEADER,
      EFI_ACPI_5_1_PROCESSOR_LOCAL_APIC_SAPIC_AFFINITY_STRUCTURE,
      EFI_ACPI_5_1_MEMORY_AFFINITY_STRUCTURE,
      EFI_ACPI_5_1_PROCESSOR_LOCAL_X2APIC_AFFINITY_STRUCTURE,
      EFI_ACPI_5_1_GICC_AFFINITY_STRUCTURE,
      EFI_ACPI_5_1_SYSTEM_LOCALITY_DISTANCE_INFORMATION_TABLE_HEADER,
      EFI_ACPI_5_1_CORRECTED_PLATFORM_ERROR_POLLING_TABLE_HEADER,
      EFI_ACPI_5_1_CPEP_PROCESSOR_APIC_SAPIC_STRUCTURE,
      EFI_ACPI_5_1_MAXIMUM_SYSTEM_CHARACTERISTICS_TABLE_HEADER,
      EFI_ACPI_5_1_MAXIMUM_PROXIMITY_DOMAIN_INFORMATION_STRUCTURE,
      EFI_ACPI_5_1_RAS_FEATURE_TABLE,
      EFI_ACPI_5_1_RASF_PLATFORM_COMMUNICATION_CHANNEL_SHARED_MEMORY_REGION,
      EFI_ACPI_5_1_RASF_PATROL_SCRUB_PLATFORM_BLOCK_STRUCTURE,
      EFI_ACPI_5_1_MEMORY_POWER_STATUS_TABLE,
      EFI_ACPI_5_1_MPST_PLATFORM_COMMUNICATION_CHANNEL_SHARED_MEMORY_REGION,
      EFI_ACPI_5_1_MPST_MEMORY_POWER_STATE, EFI_ACPI_5_1_MPST_MEMORY_POWER_STRUCTURE,
      EFI_ACPI_5_1_MPST_MEMORY_POWER_NODE_TABLE,
      EFI_ACPI_5_1_MPST_MEMORY_POWER_STATE_CHARACTERISTICS_STRUCTURE,
      EFI_ACPI_5_1_MPST_MEMORY_POWER_STATE_CHARACTERISTICS_TABLE,
      EFI_ACPI_5_1_MEMORY_TOPOLOGY_TABLE,
      EFI_ACPI_5_1_PMMT_COMMON_MEMORY_AGGREGATOR_DEVICE_STRUCTURE,
      EFI_ACPI_5_1_PMMT_SOCKET_MEMORY_AGGREGATOR_DEVICE_STRUCTURE,
      EFI_ACPI_5_1_PMMT_MEMORY_CONTROLLER_MEMORY_AGGREGATOR_DEVICE_STRUCTURE,
      EFI_ACPI_5_1_PMMT_DIMM_MEMORY_AGGREGATOR_DEVICE_STRUCTURE,
      EFI_ACPI_5_1_BOOT_GRAPHICS_RESOURCE_TABLE, EFI_ACPI_5_1_FPDT_PERFORMANCE_RECORD_HEADER,
      EFI_ACPI_5_1_FPDT_PERFORMANCE_TABLE_HEADER,
      EFI_ACPI_5_1_FPDT_BOOT_PERFORMANCE_TABLE_POINTER_RECORD,
      EFI_ACPI_5_1_FPDT_S3_PERFORMANCE_TABLE_POINTER_RECORD,
      EFI_ACPI_5_1_FPDT_FIRMWARE_BASIC_BOOT_RECORD, EFI_ACPI_5_1_FPDT_FIRMWARE_BASIC_BOOT_TABLE,
      EFI_ACPI_5_1_FPDT_FIRMWARE_S3_BOOT_TABLE, EFI_ACPI_5_1_FPDT_S3_RESUME_RECORD,
      EFI_ACPI_5_1_FPDT_S3_SUSPEND_RECORD, EFI_ACPI_5_1_FIRMWARE_PERFORMANCE_RECORD_TABLE,
      EFI_ACPI_5_1_GENERIC_TIMER_DESCRIPTION_TABLE, EFI_ACPI_5_1_GTDT_GT_BLOCK_STRUCTURE,
      EFI_ACPI_5_1_GTDT_GT_BLOCK_TIMER_STRUCTURE,
      EFI_ACPI_5_1_GTDT_SBSA_GENERIC_WATCHDOG_STRUCTURE,
      EFI_ACPI_5_1_BOOT_ERROR_RECORD_TABLE_HEADER, EFI_ACPI_5_1_ERROR_BLOCK_STATUS,
      EFI_ACPI_5_1_BOOT_ERROR_REGION_STRUCTURE, EFI_ACPI_5_1_GENERIC_ERROR_DATA_ENTRY_STRUCTURE,
      EFI_ACPI_5_1_HARDWARE_ERROR_SOURCE_TABLE_HEADER,
      EFI_ACPI_5_1_IA32_ARCHITECTURE_MACHINE_CHECK_EXCEPTION_STRUCTURE,
      EFI_ACPI_5_1_IA32_ARCHITECTURE_MACHINE_CHECK_ERROR_BANK_STRUCTURE,
      EFI_ACPI_5_1_HARDWARE_ERROR_NOTIFICATION_CONFIGURATION_WRITE_ENABLE_STRUCTURE,
      EFI_ACPI_5_1_HARDWARE_ERROR_NOTIFICATION_STRUCTURE,
      EFI_ACPI_5_1_IA32_ARCHITECTURE_CORRECTED_MACHINE_CHECK_STRUCTURE,
      EFI_ACPI_5_1_IA32_ARCHITECTURE_NMI_ERROR_STRUCTURE,
      EFI_ACPI_5_1_PCI_EXPRESS_ROOT_PORT_AER_STRUCTURE,
      EFI_ACPI_5_1_PCI_EXPRESS_DEVICE_AER_STRUCTURE,
      EFI_ACPI_5_1_PCI_EXPRESS_BRIDGE_AER_STRUCTURE,
      EFI_ACPI_5_1_GENERIC_HARDWARE_ERROR_SOURCE_STRUCTURE,
      EFI_ACPI_5_1_GENERIC_ERROR_STATUS_STRUCTURE,
      EFI_ACPI_5_1_ERROR_RECORD_SERIALIZATION_TABLE_HEADER,
      EFI_ACPI_5_1_ERST_SERIALIZATION_INSTRUCTION_ENTRY,
      EFI_ACPI_5_1_ERROR_INJECTION_TABLE_HEADER, EFI_ACPI_5_1_EINJ_INJECTION_INSTRUCTION_ENTRY,
      EFI_ACPI_5_1_EINJ_TRIGGER_ACTION_TABLE,
      EFI_ACPI_5_1_PLATFORM_COMMUNICATION_CHANNEL_TABLE_HEADER,
      EFI_ACPI_5_1_PCCT_SUBSPACE_HEADER, EFI_ACPI_5_1_PCCT_SUBSPACE_GENERIC,
      EFI_ACPI_5_1_PCCT_GENERIC_SHARED_MEMORY_REGION_COMMAND,
      EFI_ACPI_5_1_PCCT_GENERIC_SHARED_MEMORY_REGION_STATUS,
      EFI_ACPI_5_1_PCCT_GENERIC_SHARED_MEMORY_REGION_HEADER]"

definition wire_acpi_6_0 :: "ctype list" where
  "wire_acpi_6_0 =
     [EFI_ACPI_6_0_GENERIC_ADDRESS_STRUCTURE, EFI_ACPI_6_0_ROOT_SYSTEM_DESCRIPTION_POINTER,
      EFI_ACPI_6_0_COMMON_HEADER, EFI_ACPI_6_0_FIXED_ACPI_DESCRIPTION_TABLE,
      EFI_ACPI_6_0_FIRMWARE_ACPI_CONTROL_STRUCTURE,
      EFI_ACPI_6_0_MULTIPLE_APIC_DESCRIPTION_TABLE_HEADER,
      EFI_ACPI_6_0_PROCESSOR_LOCAL_APIC_STRUCTURE, EFI_ACPI_6_0_IO_APIC_STRUCTURE,
      EFI_ACPI_6_0_INTERRUPT_SOURCE_OVERRIDE_STRUCTURE,
      EFI_ACPI_6_0_PLATFORM_INTERRUPT_APIC_STRUCTURE,
      EFI_ACPI_6_0_NON_MASKABLE_INTERRUPT_SOURCE_STRUCTURE,
      EFI_ACPI_6_0_LOCAL_APIC_NMI_STRUCTURE, EFI_ACPI_6_0_LOCAL_APIC_ADDRESS_OVERRIDE_STRUCTURE,
      EFI_ACPI_6_0_IO_SAPIC_STRUCTURE, EFI_ACPI_6_0_PROCESSOR_LOCAL_SAPIC_STRUCTURE,
      EFI_ACPI_6_0_PLATFORM_INTERRUPT_SOURCES_STRUCTURE,
      EFI_ACPI_6_0_PROCESSOR_LOCAL_X2APIC_STRUCTURE, EFI_ACPI_6_0_LOCAL_X2APIC_NMI_STRUCTURE,
      EFI_ACPI_6_0_GIC_STRUCTURE, EFI_ACPI_6_0_GIC_DISTRIBUTOR_STRUCTURE,
      EFI_ACPI_6_0_GIC_MSI_FRAME_STRUCTURE, EFI_ACPI_6_0_GICR_STRUCTURE,
      EFI_ACPI_6_0_GIC_ITS_STRUCTURE, EFI_ACPI_6_0_SMART_BATTERY_DESCRIPTION_TABLE,
      EFI_ACPI_6_0_EMBEDDED_CONTROLLER_BOOT_RESOURCES_TABLE,
      EFI_ACPI_6_0_SYSTEM_RESOURCE_AFFINITY_TABLE_HEADER,
      EFI_ACPI_6_0_PROCESSOR_LOCAL_APIC_SAPIC_AFFINITY_STRUCTURE,
      EFI_ACPI_6_0_MEMORY_AFFINITY_STRUCTURE,
      EFI_ACPI_6_0_PROCESSOR_LOCAL_X2APIC_AFFINITY_STRUCTURE,
      EFI_ACPI_6_0_GICC_AFFINITY_STRUCTURE,
      EFI_ACPI_6_0_SYSTEM_LOCALITY_DISTANCE_INFORMATION_TABLE_HEADER,
      EFI_ACPI_6_0_CORRECTED_PLATFORM_ERROR_POLLING_TABLE_HEADER,
      EFI_ACPI_6_0_CPEP_PROCESSOR_APIC_SAPIC_STRUCTURE,
      EFI_ACPI_6_0_MAXIMUM_SYSTEM_CHARACTERISTICS_TABLE_HEADER,
      EFI_ACPI_6_0_MAXIMUM_PROXIMITY_DOMAIN_INFORMATION_STRUCTURE,
      EFI_ACPI_6_0_RAS_FEATURE_TABLE,
      EFI_ACPI_6_0_RASF_PLATFORM_COMMUNICATION_CHANNEL_SHARED_MEMORY_REGION,
      EFI_ACPI_6_0_RASF_PATROL_SCRUB_PLATFORM_BLOCK_STRUCTURE,
      EFI_ACPI_6_0_MEMORY_POWER_STATUS_TABLE,
      EFI_ACPI_6_0_MPST_PLATFORM_COMMUNICATION_CHANNEL_SHARED_MEMORY_REGION,
      EFI_ACPI_6_0_MPST_MEMORY_POWER_STATE, EFI_ACPI_6_0_MPST_MEMORY_POWER_STRUCTURE,
      EFI_ACPI_6_0_MPST_MEMORY_POWER_NODE_TABLE,
      EFI_ACPI_6_0_MPST_MEMORY_POWER_STATE_CHARACTERISTICS_STRUCTURE,
      EFI_ACPI_6_0_MPST_MEMORY_POWER_STATE_CHARACTERISTICS_TABLE,
      EFI_ACPI_6_0_MEMORY_TOPOLOGY_TABLE,
      EFI_ACPI_6_0_PMMT_COMMON_MEMORY_AGGREGATOR_DEVICE_STRUCTURE,
      EFI_ACPI_6_0_PMMT_SOCKET_MEMORY_AGGREGATOR_DEVICE_STRUCTURE,
      EFI_ACPI_6_0_PMMT_MEMORY_CONTROLLER_MEMORY_AGGREGATOR_DEVICE_STRUCTURE,
      EFI_ACPI_6_0_PMMT_DIMM_MEMORY_AGGREGATOR_DEVICE_STRUCTURE,
      EFI_ACPI_6_0_BOOT_GRAPHICS_RESOURCE_TABLE, EFI_ACPI_6_0_FPDT_PERFORMANCE_RECORD_HEADER,
      EFI_ACPI_6_0_FPDT_PERFORMANCE_TABLE_HEADER,
      EFI_ACPI_6_0_FPDT_BOOT_PERFORMANCE_TABLE_POINTER_RECORD,
      EFI_ACPI_6_0_FPDT_S3_PERFORMANCE_TABLE_POINTER_RECORD,
      EFI_ACPI_6_0_FPDT_FIRMWARE_BASIC_BOOT_RECORD, EFI_ACPI_6_0_FPDT_FIRMWARE_BASIC_BOOT_TABLE,
      EFI_ACPI_6_0_FPDT_FIRMWARE_S3_BOOT_TABLE, EFI_ACPI_6_0_FPDT_S3_RESUME_RECORD,
      EFI_ACPI_6_0_FPDT_S3_SUSPEND_RECORD, EFI_ACPI_6_0_FIRMWARE_PERFORMANCE_RECORD_TABLE,
      EFI_ACPI_6_0_GENERIC_TIMER_DESCRIPTION_TABLE, EFI_ACPI_6_0_GTDT_GT_BLOCK_STRUCTURE,
      EFI_ACPI_6_0_GTDT_GT_BLOCK_TIMER_STRUCTURE,
      EFI_ACPI_6_0_GTDT_SBSA_GENERIC_WATCHDOG_STRUCTURE,
      EFI_ACPI_6_0_NVDIMM_FIRMWARE_INTERFACE_TABLE, EFI_ACPI_6_0_NFIT_STRUCTURE_HEADER,
      EFI_ACPI_6_0_NFIT_SYSTEM_PHYSICAL_ADDRESS_RANGE_STRUCTURE,
      EFI_ACPI_6_0_NFIT_DEVICE_HANDLE,
      EFI_ACPI_6_0_NFIT_MEMORY_DEVICE_TO_SYSTEM_ADDRESS_RANGE_MAP_STRUCTURE,
      EFI_ACPI_6_0_NFIT_INTERLEAVE_STRUCTURE,
      EFI_ACPI_6_0_NFIT_SMBIOS_MANAGEMENT_INFORMATION_STRUCTURE,
      EFI_ACPI_6_0_NFIT_NVDIMM_CONTROL_REGION_STRUCTURE,
      EFI_ACPI_6_0_NFIT_NVDIMM_BLOCK_DATA_WINDOW_REGION_STRUCTURE,
      EFI_ACPI_6_0_NFIT_FLUSH_HINT_ADDRESS_STRUCTURE,
      EFI_ACPI_6_0_BOOT_ERROR_RECORD_TABLE_HEADER, EFI_ACPI_6_0_ERROR_BLOCK_STATUS,
      EFI_ACPI_6_0_BOOT_ERROR_REGION_STRUCTURE, EFI_ACPI_6_0_GENERIC_ERROR_DATA_ENTRY_STRUCTURE,
      EFI_ACPI_6_0_HARDWARE_ERROR_SOURCE_TABLE_HEADER,
      EFI_ACPI_6_0_IA32_ARCHITECTURE_MACHINE_CHECK_EXCEPTION_STRUCTURE,
      EFI_ACPI_6_0_IA32_ARCHITECTURE_MACHINE_CHECK_ERROR_BANK_STRUCTURE,
      EFI_ACPI_6_0_HARDWARE_ERROR_NOTIFICATION_CONFIGURATION_WRITE_ENABLE_STRUCTURE,
      EFI_ACPI_6_0_HARDWARE_ERROR_NOTIFICATION_STRUCTURE,
      EFI_ACPI_6_0_IA32_ARCHITECTURE_CORRECTED_MACHINE_CHECK_STRUCTURE,
      EFI_ACPI_6_0_IA32_ARCHITECTURE_NMI_ERROR_STRUCTURE,
      EFI_ACPI_6_0_PCI_EXPRESS_ROOT_PORT_AER_STRUCTURE,
      EFI_ACPI_6_0_PCI_EXPRESS_DEVICE_AER_STRUCTURE,
      EFI_ACPI_6_0_PCI_EXPRESS_BRIDGE_AER_STRUCTURE,
      EFI_ACPI_6_0_GENERIC_HARDWARE_ERROR_SOURCE_STRUCTURE,
      EFI_ACPI_6_0_GENERIC_ERROR_STATUS_STRUCTURE,
      EFI_ACPI_6_0_ERROR_RECORD_SERIALIZATION_TABLE_HEADER,
      EFI_ACPI_6_0_ERST_SERIALIZATION_INSTRUCTION_ENTRY,
      EFI_ACPI_6_0_ERROR_INJECTION_TABLE_HEADER, EFI_ACPI_6_0_EINJ_INJECTION_INSTRUCTION_ENTRY,
      EFI_ACPI_6_0_EINJ_TRIGGER_ACTION_TABLE,
      EFI_ACPI_6_0_PLATFORM_COMMUNICATION_CHANNEL_TABLE_HEADER,
      EFI_ACPI_6_0_PCCT_SUBSPACE_HEADER, EFI_ACPI_6_0_PCCT_SUBSPACE_GENERIC,
      EFI_ACPI_6_0_PCCT_GENERIC_SHARED_MEMORY_REGION_COMMAND,
      EFI_ACPI_6_0_PCCT_GENERIC_SHARED_MEMORY_REGION_STATUS,
      EFI_ACPI_6_0_PCCT_GENERIC_SHARED_MEMORY_REGION_HEADER,
      EFI_ACPI_6_0_PCCT_SUBSPACE_1_HW_REDUCED_COMMUNICATIONS,
      EFI_ACPI_6_0_PCCT_SUBSPACE_2_HW_REDUCED_COMMUNICATIONS]"

definition wire_device_path :: "ctype list" where
  "wire_device_path =
     [EFI_DEVICE_PATH_PROTOCOL, PCI_DEVICE_PATH, PCCARD_DEVICE_PATH, MEMMAP_DEVICE_PATH,
      VENDOR_DEVICE_PATH, CONTROLLER_DEVICE_PATH, BMC_DEVICE_PATH, ACPI_HID_DEVICE_PATH,
      ACPI_EXTENDED_HID_DEVICE_PATH, ACPI_ADR_DEVICE_PATH, ACPI_NVDIMM_DEVICE_PATH,
      ATAPI_DEVICE_PATH, SCSI_DEVICE_PATH, FIBRECHANNEL_DEVICE_PATH, FIBRECHANNELEX_DEVICE_PATH,
      F1394_DEVICE_PATH, USB_DEVICE_PATH, USB_CLASS_DEVICE_PATH, USB_WWID_DEVICE_PATH,
      DEVICE_LOGICAL_UNIT_DEVICE_PATH, SATA_DEVICE_PATH, I2O_DEVICE_PATH, MAC_ADDR_DEVICE_PATH,
      IPv4_DEVICE_PATH, IPv6_DEVICE_PATH, INFINIBAND_DEVICE_PATH, UART_DEVICE_PATH,
      NVDIMM_NAMESPACE_DEVICE_PATH, UART_FLOW_CONTROL_DEVICE_PATH, SAS_DEVICE_PATH,
      SASEX_DEVICE_PATH, NVME_NAMESPACE_DEVICE_PATH, DNS_DEVICE_PATH, URI_DEVICE_PATH,
      UFS_DEVICE_PATH, SD_DEVICE_PATH, EMMC_DEVICE_PATH, ISCSI_DEVICE_PATH, VLAN_DEVICE_PATH,
      BLUETOOTH_DEVICE_PATH, WIFI_DEVICE_PATH, BLUETOOTH_LE_DEVICE_PATH, HARDDRIVE_DEVICE_PATH,
      CDROM_DEVICE_PATH, FILEPATH_DEVICE_PATH, MEDIA_PROTOCOL_DEVICE_PATH,
      MEDIA_FW_VOL_FILEPATH_DEVICE_PATH, MEDIA_FW_VOL_DEVICE_PATH,
      MEDIA_RELATIVE_OFFSET_RANGE_DEVICE_PATH, MEDIA_RAM_DISK_DEVICE_PATH, BBS_BBS_DEVICE_PATH,
      EFI_DEV_PATH, EFI_DEV_PATH_PTR]"

definition wire_form :: "ctype list" where
  "wire_form =
     [EFI_HII_PACKAGE_LIST_HEADER, EFI_HII_PACKAGE_HEADER, EFI_NARROW_GLYPH, EFI_WIDE_GLYPH,
      EFI_HII_SIMPLE_FONT_PACKAGE_HDR, EFI_HII_GLYPH_INFO, EFI_HII_FONT_PACKAGE_HDR,
      EFI_HII_GLYPH_BLOCK, EFI_HII_GIBT_DEFAULTS_BLOCK, EFI_HII_GIBT_DUPLICATE_BLOCK,
      EFI_GLYPH_GIBT_END_BLOCK, EFI_HII_GIBT_EXT1_BLOCK, EFI_HII_GIBT_EXT2_BLOCK,
      EFI_HII_GIBT_EXT4_BLOCK, EFI_HII_GIBT_GLYPH_BLOCK, EFI_HII_GIBT_GLYPHS_BLOCK,
      EFI_HII_GIBT_GLYPH_DEFAULT_BLOCK, EFI_HII_GIBT_GLYPHS_DEFAULT_BLOCK,
      EFI_HII_GIBT_VARIABILITY_BLOCK, EFI_HII_GIBT_SKIP1_BLOCK, EFI_HII_GIBT_SKIP2_BLOCK,
      EFI_HII_DEVICE_PATH_PACKAGE_HDR, EFI_HII_GUID_PACKAGE_HDR, EFI_HII_STRING_PACKAGE_HDR,
      EFI_HII_STRING_BLOCK, EFI_HII_SIBT_DUPLICATE_BLOCK, EFI_HII_SIBT_END_BLOCK,
      EFI_HII_SIBT_EXT1_BLOCK, EFI_HII_SIBT_EXT2_BLOCK, EFI_HII_SIBT_EXT4_BLOCK,
      EFI_HII_SIBT_FONT_BLOCK, EFI_HII_SIBT_SKIP1_BLOCK, EFI_HII_SIBT_SKIP2_BLOCK,
      EFI_HII_SIBT_STRING_SCSU_BLOCK, EFI_HII_SIBT_STRING_SCSU_FONT_BLOCK,
      EFI_HII_SIBT_STRINGS_SCSU_BLOCK, EFI_HII_SIBT_STRINGS_SCSU_FONT_BLOCK,
      EFI_HII_SIBT_STRING_UCS2_BLOCK, EFI_HII_SIBT_STRING_UCS2_FONT_BLOCK,
      EFI_HII_SIBT_STRINGS_UCS2_BLOCK, EFI_HII_SIBT_STRINGS_UCS2_FONT_BLOCK,
      EFI_HII_IMAGE_PACKAGE_HDR, EFI_HII_IMAGE_BLOCK, EFI_HII_IIBT_END_BLOCK,
      EFI_HII_IIBT_EXT1_BLOCK, EFI_HII_IIBT_EXT2_BLOCK, EFI_HII_IIBT_EXT4_BLOCK,
      EFI_HII_IIBT_IMAGE_1BIT_BASE, EFI_HII_IIBT_IMAGE_1BIT_BLOCK,
      EFI_HII_IIBT_IMAGE_1BIT_TRANS_BLOCK, EFI_HII_RGB_PIXEL, EFI_HII_IIBT_IMAGE_24BIT_BASE,
      EFI_HII_IIBT_IMAGE_24BIT_BLOCK, EFI_HII_IIBT_IMAGE_24BIT_TRANS_BLOCK,
      EFI_HII_IIBT_IMAGE_4BIT_BASE, EFI_HII_IIBT_IMAGE_4BIT_BLOCK,
      EFI_HII_IIBT_IMAGE_4BIT_TRANS_BLOCK, EFI_HII_IIBT_IMAGE_8BIT_BASE,
      EFI_HII_IIBT_IMAGE_8BIT_BLOCK, EFI_HII_IIBT_IMAGE_8BIT_TRAN_BLOCK,
      EFI_HII_IIBT_DUPLICATE_BLOCK, EFI_HII_IIBT_JPEG_BLOCK, EFI_HII_IIBT_PNG_BLOCK,
      EFI_HII_IIBT_SKIP1_BLOCK, EFI_HII_IIBT_SKIP2_BLOCK, EFI_HII_IMAGE_PALETTE_INFO_HEADER,
      EFI_HII_IMAGE_PALETTE_INFO, EFI_HII_FORM_PACKAGE_HDR, EFI_HII_TIME, EFI_HII_DATE,
      EFI_HII_REF, EFI_IFR_TYPE_VALUE, EFI_IFR_OP_HEADER, EFI_IFR_STATEMENT_HEADER,
      EFI_IFR_QUESTION_HEADER, EFI_IFR_DEFAULTSTORE, EFI_IFR_VARSTORE, EFI_IFR_VARSTORE_EFI,
      EFI_IFR_VARSTORE_NAME_VALUE, EFI_IFR_FORM_SET, EFI_IFR_END, EFI_IFR_FORM, EFI_IFR_IMAGE,
      EFI_IFR_MODAL_TAG, EFI_IFR_LOCKED, EFI_IFR_RULE, EFI_IFR_DEFAULT, EFI_IFR_DEFAULT_2,
      EFI_IFR_VALUE, EFI_IFR_SUBTITLE, EFI_IFR_CHECKBOX, EFI_IFR_TEXT, EFI_IFR_REF,
      EFI_IFR_REF2, EFI_IFR_REF3, EFI_IFR_REF4, EFI_IFR_REF5, EFI_IFR_RESET_BUTTON,
      EFI_IFR_ACTION, EFI_IFR_ACTION_1, EFI_IFR_DATE, MINMAXSTEP_DATA, EFI_IFR_NUMERIC,
      EFI_IFR_ONE_OF, EFI_IFR_STRING, EFI_IFR_PASSWORD, EFI_IFR_ORDERED_LIST, EFI_IFR_TIME,
      EFI_IFR_DISABLE_IF, EFI_IFR_SUPPRESS_IF, EFI_IFR_GRAY_OUT_IF, EFI_IFR_INCONSISTENT_IF,
      EFI_IFR_NO_SUBMIT_IF, EFI_IFR_WARNING_IF, EFI_IFR_REFRESH, EFI_IFR_VARSTORE_DEVICE,
      EFI_IFR_ONE_OF_OPTION, EFI_IFR_GUID, EFI_IFR_REFRESH_ID, EFI_IFR_DUP, EFI_IFR_EQ_ID_ID,
      EFI_IFR_EQ_ID_VAL, EFI_IFR_EQ_ID_VAL_LIST, EFI_IFR_UINT8, EFI_IFR_UINT16, EFI_IFR_UINT32,
      EFI_IFR_UINT64, EFI_IFR_QUESTION_REF1, EFI_IFR_QUESTION_REF2, EFI_IFR_QUESTION_REF3,
      EFI_IFR_QUESTION_REF3_2, EFI_IFR_QUESTION_REF3_3, EFI_IFR_RULE_REF, EFI_IFR_STRING_REF1,
      EFI_IFR_STRING_REF2, EFI_IFR_THIS, EFI_IFR_TRUE, EFI_IFR_FALSE, EFI_IFR_ONE, EFI_IFR_ONES,
      EFI_IFR_ZERO, EFI_IFR_UNDEFINED, EFI_IFR_VERSION, EFI_IFR_LENGTH, EFI_IFR_NOT,
      EFI_IFR_BITWISE_NOT, EFI_IFR_TO_BOOLEAN, EFI_IFR_TO_STRING, EFI_IFR_TO_UINT,
      EFI_IFR_TO_UPPER, EFI_IFR_TO_LOWER, EFI_IFR_ADD, EFI_IFR_AND, EFI_IFR_BITWISE_AND,
      EFI_IFR_BITWISE_OR, EFI_IFR_CATENATE, EFI_IFR_DIVIDE, EFI_IFR_EQUAL,
      EFI_IFR_GREATER_EQUAL, EFI_IFR_GREATER_THAN, EFI_IFR_LESS_EQUAL, EFI_IFR_LESS_THAN,
      EFI_IFR_MATCH, EFI_IFR_MATCH2, EFI_IFR_MULTIPLY, EFI_IFR_MODULO, EFI_IFR_NOT_EQUAL,
      EFI_IFR_OR, EFI_IFR_SHIFT_LEFT, EFI_IFR_SHIFT_RIGHT, EFI_IFR_SUBTRACT,
      EFI_IFR_CONDITIONAL, EFI_IFR_FIND, EFI_IFR_MID, EFI_IFR_TOKEN, EFI_IFR_SPAN,
      EFI_IFR_SECURITY, EFI_IFR_FORM_MAP_METHOD, EFI_IFR_FORM_MAP, EFI_IFR_SET, EFI_IFR_GET,
      EFI_IFR_READ, EFI_IFR_WRITE, EFI_IFR_MAP, EFI_KEY_DESCRIPTOR, EFI_HII_KEYBOARD_LAYOUT,
      EFI_HII_KEYBOARD_PACKAGE_HDR, EFI_IFR_ANIMATION, EFI_HII_ANIMATION_PACKAGE_HDR,
      EFI_HII_ANIMATION_BLOCK, EFI_HII_AIBT_EXT1_BLOCK, EFI_HII_AIBT_EXT2_BLOCK,
      EFI_HII_AIBT_EXT4_BLOCK, EFI_HII_ANIMATION_CELL, EFI_HII_AIBT_OVERLAY_IMAGES_BLOCK,
      EFI_HII_AIBT_CLEAR_IMAGES_BLOCK, EFI_HII_AIBT_RESTORE_SCRN_BLOCK,
      EFI_HII_AIBT_DUPLICATE_BLOCK, EFI_HII_AIBT_SKIP1_BLOCK, EFI_HII_AIBT_SKIP2_BLOCK]"

definition wire_pxe :: "ctype list" where
  "wire_pxe =
     [PXE_HW_UNDI, PXE_SW_UNDI, PXE_UNDI, PXE_CDB, PXE_IP_ADDR, PXE_DEVICE, PXE_CPB_START_30,
      PXE_CPB_START_31, PXE_DB_GET_INIT_INFO, PXE_PCI_CONFIG_INFO, PXE_PCC_CONFIG_INFO,
      PXE_DB_GET_CONFIG_INFO, PXE_CPB_INITIALIZE, PXE_DB_INITIALIZE, PXE_CPB_RECEIVE_FILTERS,
      PXE_DB_RECEIVE_FILTERS, PXE_CPB_STATION_ADDRESS, PXE_DB_STATION_ADDRESS,
      PXE_DB_STATISTICS, PXE_CPB_MCAST_IP_TO_MAC, PXE_DB_MCAST_IP_TO_MAC, PXE_CPB_NVDATA_SPARSE,
      PXE_CPB_NVDATA_BULK, PXE_DB_NVDATA, PXE_DB_GET_STATUS, PXE_CPB_FILL_HEADER,
      PXE_CPB_FILL_HEADER_FRAGMENTED, PXE_CPB_TRANSMIT, PXE_CPB_TRANSMIT_FRAGMENTS,
      PXE_CPB_RECEIVE, PXE_DB_RECEIVE]"

definition wire_records :: "ctype list" where
  "wire_records =
     wire_firmware @ wire_x64 @ wire_acpi_1_3 @ wire_acpi_4_0 @ wire_acpi_5_0 @
     wire_acpi_5_1 @ wire_acpi_6_0 @ wire_device_path @ wire_form @ wire_pxe @ wire_further"

section \<open>The census\<close>

definition unpadded :: "ctype \<Rightarrow> bool" where
  "unpadded T \<longleftrightarrow> align_of T = 1 \<and> sizeof_type T = payload T"

lemma natural_firmware_ok: "list_all natural natural_firmware"
  by code_simp

lemma natural_x64_ok: "list_all natural natural_x64"
  by code_simp

lemma natural_acpi_1_3_ok: "list_all natural natural_acpi_1_3"
  by code_simp

lemma wire_firmware_ok: "list_all unpadded wire_firmware"
  by code_simp

lemma wire_x64_ok: "list_all unpadded wire_x64"
  by code_simp

lemma wire_acpi_1_3_ok: "list_all unpadded wire_acpi_1_3"
  by code_simp

lemma wire_acpi_4_0_ok: "list_all unpadded wire_acpi_4_0"
  by code_simp

lemma wire_acpi_5_0_ok: "list_all unpadded wire_acpi_5_0"
  by code_simp

lemma wire_acpi_5_1_ok: "list_all unpadded wire_acpi_5_1"
  by code_simp

lemma wire_acpi_6_0_ok: "list_all unpadded wire_acpi_6_0"
  by code_simp

lemma wire_device_path_ok: "list_all unpadded wire_device_path"
  by code_simp

lemma wire_form_ok: "list_all unpadded wire_form"
  by code_simp

lemma wire_pxe_ok: "list_all unpadded wire_pxe"
  by code_simp

lemma natural_further_ok: "list_all natural natural_further"
  by code_simp

lemma wire_further_ok: "list_all unpadded wire_further"
  by code_simp

lemma natural_records_ok: "T \<in> set natural_records \<Longrightarrow> natural T"
  using natural_firmware_ok natural_x64_ok natural_acpi_1_3_ok natural_further_ok
  by (simp only: natural_records_def list_all_iff set_append Un_iff) blast

lemma wire_records_ok: "T \<in> set wire_records \<Longrightarrow> align_of T = 1 \<and> sizeof_type T = payload T"
proof -
  assume "T \<in> set wire_records"
  then have "unpadded T"
    using wire_further_ok wire_firmware_ok wire_x64_ok wire_acpi_1_3_ok wire_acpi_4_0_ok wire_acpi_5_0_ok wire_acpi_5_1_ok wire_acpi_6_0_ok wire_device_path_ok wire_form_ok wire_pxe_ok
    by (simp only: wire_records_def list_all_iff set_append Un_iff) blast
  then show ?thesis by (simp add: unpadded_def)
qed

section \<open>Alignment\<close>

text \<open>At an address aligned for the record, every part at every depth is at an address aligned for the part.\<close>

lemma natural_records_aligned:
  fixes a :: UINTN
  shows "T \<in> set natural_records \<Longrightarrow> align_of T dvd unat a \<Longrightarrow> locate ss T = Some (k, u) \<Longrightarrow>
   align_of u dvd unat (a + of_nat k) \<and> align_of u dvd sizeof_type u \<and> machine_size (align_of u)"
  using natural_records_ok natural_part_aligned by blast

section \<open>Sizes of the basic types\<close>

text \<open>The compile-time assertions of \<open>Base.h\<close>.\<close>

definition static_asserts :: "(ctype \<times> nat) list" where
  "static_asserts =
     [(BOOLEAN, 1), (INT8, 1), (UINT8, 1), (INT16, 2), (UINT16, 2), (INT32, 4), (UINT32, 4), (INT64, 8),
      (UINT64, 8), (CHAR8, 1), (CHAR16, 2)]"

lemma static_asserts_hold: "list_all (\<lambda>(t, n). sizeof_type t = n) static_asserts"
  by code_simp

text \<open>The 16-bit flags take 4 bytes and their alignment, as their bit-fields are declared \<open>UINT32\<close>.\<close>

lemma flags16_size: "sizeof_type IA32_FLAGS16 = 4" "align_of IA32_FLAGS16 = 4"
  by code_simp+

end
