(* ===== verification/Acpi_Constants.thy ===== *)
theory Acpi_Constants imports Main begin

text \<open>
  The constants of the ACPI headers that name a value of a field: types of records, flags,
  actions and status values, each group of consecutive macros as a list of names and values,
  and the signatures of the tables with their four characters. The names are those of the
  code without the prefix \<open>EFI_ACPI_x_y_\<close> of their version, and \<open>BITn\<close> and \<open>(1 << n)\<close> are
  written \<open>2 ^ n\<close>. \<open>constants_x_y\<close> has all groups of a version, in the order of the header.
\<close>

named_theorems constants \<open>definitions of lists of constants\<close>

type_synonym constants = "(string \<times> nat) list"

type_synonym signatures = "(string \<times> string) list"

section \<open>Acpi10.h\<close>

definition int_modes_1_0 :: constants where [constants]:
  "int_modes_1_0 =
     [(''INT_MODE_DUAL_PIC'', 0), (''INT_MODE_MULTIPLE_APIC'', 1)]"

definition fadt_flags_1_0 :: constants where [constants]:
  "fadt_flags_1_0 =
     [(''WBINVD'', 2 ^ 0), (''WBINVD_FLUSH'', 2 ^ 1), (''PROC_C1'', 2 ^ 2),
      (''P_LVL2_UP'', 2 ^ 3), (''PWR_BUTTON'', 2 ^ 4), (''SLP_BUTTON'', 2 ^ 5),
      (''FIX_RTC'', 2 ^ 6), (''RTC_S4'', 2 ^ 7), (''TMR_VAL_EXT'', 2 ^ 8), (''DCK_CAP'', 2 ^ 9)]"

definition madt_types_1_0 :: constants where [constants]:
  "madt_types_1_0 =
     [(''PROCESSOR_LOCAL_APIC'', 0), (''IO_APIC'', 1), (''INTERRUPT_SOURCE_OVERRIDE'', 2),
      (''NON_MASKABLE_INTERRUPT_SOURCE'', 3), (''LOCAL_APIC_NMI'', 4)]"

definition table_signatures_1_0 :: signatures where [constants]:
  "table_signatures_1_0 =
     [(''APIC'', ''APIC''), (''DIFFERENTIATED_SYSTEM_DESCRIPTION_TABLE'', ''DSDT''),
      (''FIRMWARE_ACPI_CONTROL_STRUCTURE'', ''FACS''),
      (''FIXED_ACPI_DESCRIPTION_TABLE'', ''FACP''),
      (''PERSISTENT_SYSTEM_DESCRIPTION_TABLE'', ''PSDT''),
      (''ROOT_SYSTEM_DESCRIPTION_TABLE'', ''RSDT''),
      (''SMART_BATTERY_SPECIFICATION_TABLE'', ''SBST''),
      (''SECONDARY_SYSTEM_DESCRIPTION_TABLE'', ''SSDT'')]"

definition constants_1_0 :: constants where [constants]:
  "constants_1_0 =
     int_modes_1_0 @ fadt_flags_1_0 @ madt_types_1_0"

section \<open>Acpi20.h\<close>

definition address_space_ids_2_0 :: constants where [constants]:
  "address_space_ids_2_0 =
     [(''SYSTEM_MEMORY'', 0), (''SYSTEM_IO'', 1), (''PCI_CONFIGURATION_SPACE'', 2),
      (''EMBEDDED_CONTROLLER'', 3), (''SMBUS'', 4), (''FUNCTIONAL_FIXED_HARDWARE'', 0x7F)]"

definition pm_profiles_2_0 :: constants where [constants]:
  "pm_profiles_2_0 =
     [(''PM_PROFILE_UNSPECIFIED'', 0), (''PM_PROFILE_DESKTOP'', 1), (''PM_PROFILE_MOBILE'', 2),
      (''PM_PROFILE_WORKSTATION'', 3), (''PM_PROFILE_ENTERPRISE_SERVER'', 4),
      (''PM_PROFILE_SOHO_SERVER'', 5), (''PM_PROFILE_APPLIANCE_PC'', 6)]"

definition ia_boot_flags_2_0 :: constants where [constants]:
  "ia_boot_flags_2_0 =
     [(''LEGACY_DEVICES'', 2 ^ 0), (''8042'', 2 ^ 1)]"

definition fadt_flags_2_0 :: constants where [constants]:
  "fadt_flags_2_0 =
     [(''WBINVD'', 2 ^ 0), (''WBINVD_FLUSH'', 2 ^ 1), (''PROC_C1'', 2 ^ 2),
      (''P_LVL2_UP'', 2 ^ 3), (''PWR_BUTTON'', 2 ^ 4), (''SLP_BUTTON'', 2 ^ 5),
      (''FIX_RTC'', 2 ^ 6), (''RTC_S4'', 2 ^ 7), (''TMR_VAL_EXT'', 2 ^ 8), (''DCK_CAP'', 2 ^ 9),
      (''RESET_REG_SUP'', 2 ^ 10), (''SEALED_CASE'', 2 ^ 11), (''HEADLESS'', 2 ^ 12),
      (''CPU_SW_SLP'', 2 ^ 13)]"

definition madt_types_2_0 :: constants where [constants]:
  "madt_types_2_0 =
     [(''PROCESSOR_LOCAL_APIC'', 0), (''IO_APIC'', 1), (''INTERRUPT_SOURCE_OVERRIDE'', 2),
      (''NON_MASKABLE_INTERRUPT_SOURCE'', 3), (''LOCAL_APIC_NMI'', 4),
      (''LOCAL_APIC_ADDRESS_OVERRIDE'', 5), (''IO_SAPIC'', 6), (''PROCESSOR_LOCAL_SAPIC'', 7),
      (''PLATFORM_INTERRUPT_SOURCES'', 8)]"

definition table_signatures_2_0 :: signatures where [constants]:
  "table_signatures_2_0 =
     [(''MULTIPLE_SAPIC_DESCRIPTION_TABLE'', ''APIC''), (''SIMPLE_BOOT_FLAG_TABLE'', ''BOOT''),
      (''DEBUG_PORT_TABLE'', ''DBGP''), (''DIFFERENTIATED_SYSTEM_DESCRIPTION_TABLE'', ''DSDT''),
      (''EMBEDDED_CONTROLLER_BOOT_RESOURCES_TABLE'', ''ECDT''),
      (''EVENT_TIMER_DESCRIPTION_TABLE'', ''ETDT''),
      (''FIRMWARE_ACPI_CONTROL_STRUCTURE'', ''FACS''),
      (''FIXED_ACPI_DESCRIPTION_TABLE'', ''FACP''),
      (''MULTIPLE_APIC_DESCRIPTION_TABLE'', ''APIC''),
      (''PERSISTENT_SYSTEM_DESCRIPTION_TABLE'', ''PSDT''),
      (''ROOT_SYSTEM_DESCRIPTION_TABLE'', ''RSDT''),
      (''SMART_BATTERY_SPECIFICATION_TABLE'', ''SBST''),
      (''SYSTEM_LOCALITY_INFORMATION_TABLE'', ''SLIT''),
      (''SERIAL_PORT_CONSOLE_REDIRECTION_TABLE'', ''SPCR''),
      (''STATIC_RESOURCE_AFFINITY_TABLE'', ''SRAT''),
      (''SECONDARY_SYSTEM_DESCRIPTION_TABLE'', ''SSDT''),
      (''SERVER_PLATFORM_MANAGEMENT_INTERFACE'', ''SPMI''),
      (''EXTENDED_SYSTEM_DESCRIPTION_TABLE'', ''XSDT''),
      (''MEMORY_MAPPED_CONFIGURATION_BASE_ADDRESS_TABLE'', ''MCFG'')]"

definition constants_2_0 :: constants where [constants]:
  "constants_2_0 =
     address_space_ids_2_0 @ pm_profiles_2_0 @ ia_boot_flags_2_0 @ fadt_flags_2_0 @
     madt_types_2_0"

section \<open>Acpi30.h\<close>

definition address_space_ids_3_0 :: constants where [constants]:
  "address_space_ids_3_0 =
     [(''SYSTEM_MEMORY'', 0), (''SYSTEM_IO'', 1), (''PCI_CONFIGURATION_SPACE'', 2),
      (''EMBEDDED_CONTROLLER'', 3), (''SMBUS'', 4), (''FUNCTIONAL_FIXED_HARDWARE'', 0x7F)]"

definition access_sizes_3_0 :: constants where [constants]:
  "access_sizes_3_0 =
     [(''UNDEFINED'', 0), (''BYTE'', 1), (''WORD'', 2), (''DWORD'', 3), (''QWORD'', 4)]"

definition pm_profiles_3_0 :: constants where [constants]:
  "pm_profiles_3_0 =
     [(''PM_PROFILE_UNSPECIFIED'', 0), (''PM_PROFILE_DESKTOP'', 1), (''PM_PROFILE_MOBILE'', 2),
      (''PM_PROFILE_WORKSTATION'', 3), (''PM_PROFILE_ENTERPRISE_SERVER'', 4),
      (''PM_PROFILE_SOHO_SERVER'', 5), (''PM_PROFILE_APPLIANCE_PC'', 6),
      (''PM_PROFILE_PERFORMANCE_SERVER'', 7)]"

definition ia_boot_flags_3_0 :: constants where [constants]:
  "ia_boot_flags_3_0 =
     [(''LEGACY_DEVICES'', 2 ^ 0), (''8042'', 2 ^ 1), (''VGA_NOT_PRESENT'', 2 ^ 2),
      (''MSI_NOT_SUPPORTED'', 2 ^ 3), (''PCIE_ASPM_CONTROLS'', 2 ^ 4)]"

definition fadt_flags_3_0 :: constants where [constants]:
  "fadt_flags_3_0 =
     [(''WBINVD'', 2 ^ 0), (''WBINVD_FLUSH'', 2 ^ 1), (''PROC_C1'', 2 ^ 2),
      (''P_LVL2_UP'', 2 ^ 3), (''PWR_BUTTON'', 2 ^ 4), (''SLP_BUTTON'', 2 ^ 5),
      (''FIX_RTC'', 2 ^ 6), (''RTC_S4'', 2 ^ 7), (''TMR_VAL_EXT'', 2 ^ 8), (''DCK_CAP'', 2 ^ 9),
      (''RESET_REG_SUP'', 2 ^ 10), (''SEALED_CASE'', 2 ^ 11), (''HEADLESS'', 2 ^ 12),
      (''CPU_SW_SLP'', 2 ^ 13), (''PCI_EXP_WAK'', 2 ^ 14), (''USE_PLATFORM_CLOCK'', 2 ^ 15),
      (''S4_RTC_STS_VALID'', 2 ^ 16), (''REMOTE_POWER_ON_CAPABLE'', 2 ^ 17),
      (''FORCE_APIC_CLUSTER_MODEL'', 2 ^ 18),
      (''FORCE_APIC_PHYSICAL_DESTINATION_MODE'', 2 ^ 19)]"

definition madt_types_3_0 :: constants where [constants]:
  "madt_types_3_0 =
     [(''PROCESSOR_LOCAL_APIC'', 0), (''IO_APIC'', 1), (''INTERRUPT_SOURCE_OVERRIDE'', 2),
      (''NON_MASKABLE_INTERRUPT_SOURCE'', 3), (''LOCAL_APIC_NMI'', 4),
      (''LOCAL_APIC_ADDRESS_OVERRIDE'', 5), (''IO_SAPIC'', 6), (''LOCAL_SAPIC'', 7),
      (''PLATFORM_INTERRUPT_SOURCES'', 8)]"

definition madt_override_flags_3_0 :: constants where [constants]:
  "madt_override_flags_3_0 =
     [(''POLARITY'', push_bit 0 3), (''TRIGGER_MODE'', push_bit 2 3)]"

definition srat_types_3_0 :: constants where [constants]:
  "srat_types_3_0 =
     [(''PROCESSOR_LOCAL_APIC_SAPIC_AFFINITY'', 0), (''MEMORY_AFFINITY'', 1)]"

definition srat_memory_flags_3_0 :: constants where [constants]:
  "srat_memory_flags_3_0 =
     [(''MEMORY_ENABLED'', 2 ^ 0), (''MEMORY_HOT_PLUGGABLE'', 2 ^ 1),
      (''MEMORY_NONVOLATILE'', 2 ^ 2)]"

definition table_signatures_3_0 :: signatures where [constants]:
  "table_signatures_3_0 =
     [(''MULTIPLE_APIC_DESCRIPTION_TABLE'', ''APIC''),
      (''DIFFERENTIATED_SYSTEM_DESCRIPTION_TABLE'', ''DSDT''),
      (''EMBEDDED_CONTROLLER_BOOT_RESOURCES_TABLE'', ''ECDT''),
      (''FIXED_ACPI_DESCRIPTION_TABLE'', ''FACP''),
      (''FIRMWARE_ACPI_CONTROL_STRUCTURE'', ''FACS''),
      (''PERSISTENT_SYSTEM_DESCRIPTION_TABLE'', ''PSDT''),
      (''ROOT_SYSTEM_DESCRIPTION_TABLE'', ''RSDT''),
      (''SMART_BATTERY_SPECIFICATION_TABLE'', ''SBST''),
      (''SYSTEM_LOCALITY_INFORMATION_TABLE'', ''SLIT''),
      (''SYSTEM_RESOURCE_AFFINITY_TABLE'', ''SRAT''),
      (''SECONDARY_SYSTEM_DESCRIPTION_TABLE'', ''SSDT''),
      (''EXTENDED_SYSTEM_DESCRIPTION_TABLE'', ''XSDT''), (''SIMPLE_BOOT_FLAG_TABLE'', ''BOOT''),
      (''CORRECTED_PLATFORM_ERROR_POLLING_TABLE'', ''CPEP''), (''DEBUG_PORT_TABLE'', ''DBGP''),
      (''EVENT_TIMER_DESCRIPTION_TABLE'', ''ETDT''),
      (''HIGH_PRECISION_EVENT_TIMER_TABLE'', ''HPET''),
      (''PCI_EXPRESS_MEMORY_MAPPED_CONFIGURATION_SPACE_BASE_ADDRESS_DESCRIPTION_TABLE'', ''MCFG''),
      (''SERIAL_PORT_CONSOLE_REDIRECTION_TABLE'', ''SPCR''),
      (''SERVER_PLATFORM_MANAGEMENT_INTERFACE_TABLE'', ''SPMI''),
      (''TRUSTED_COMPUTING_PLATFORM_ALLIANCE_CAPABILITIES_TABLE'', ''TCPA''),
      (''WATCHDOG_RESOURCE_TABLE'', ''WDRT''), (''WATCHDOG_ACTION_TABLE'', ''WDAT''),
      (''WINDOWS_SPECIFIC_PROPERTIES_TABLE'', ''WSPT''),
      (''ISCSI_BOOT_FIRMWARE_TABLE'', ''iBFT'')]"

definition constants_3_0 :: constants where [constants]:
  "constants_3_0 =
     address_space_ids_3_0 @ access_sizes_3_0 @ pm_profiles_3_0 @ ia_boot_flags_3_0 @
     fadt_flags_3_0 @ madt_types_3_0 @ madt_override_flags_3_0 @ srat_types_3_0 @
     srat_memory_flags_3_0"

section \<open>Acpi40.h\<close>

definition address_space_ids_4_0 :: constants where [constants]:
  "address_space_ids_4_0 =
     [(''SYSTEM_MEMORY'', 0), (''SYSTEM_IO'', 1), (''PCI_CONFIGURATION_SPACE'', 2),
      (''EMBEDDED_CONTROLLER'', 3), (''SMBUS'', 4), (''FUNCTIONAL_FIXED_HARDWARE'', 0x7F)]"

definition access_sizes_4_0 :: constants where [constants]:
  "access_sizes_4_0 =
     [(''UNDEFINED'', 0), (''BYTE'', 1), (''WORD'', 2), (''DWORD'', 3), (''QWORD'', 4)]"

definition pm_profiles_4_0 :: constants where [constants]:
  "pm_profiles_4_0 =
     [(''PM_PROFILE_UNSPECIFIED'', 0), (''PM_PROFILE_DESKTOP'', 1), (''PM_PROFILE_MOBILE'', 2),
      (''PM_PROFILE_WORKSTATION'', 3), (''PM_PROFILE_ENTERPRISE_SERVER'', 4),
      (''PM_PROFILE_SOHO_SERVER'', 5), (''PM_PROFILE_APPLIANCE_PC'', 6),
      (''PM_PROFILE_PERFORMANCE_SERVER'', 7)]"

definition ia_boot_flags_4_0 :: constants where [constants]:
  "ia_boot_flags_4_0 =
     [(''LEGACY_DEVICES'', 2 ^ 0), (''8042'', 2 ^ 1), (''VGA_NOT_PRESENT'', 2 ^ 2),
      (''MSI_NOT_SUPPORTED'', 2 ^ 3), (''PCIE_ASPM_CONTROLS'', 2 ^ 4)]"

definition fadt_flags_4_0 :: constants where [constants]:
  "fadt_flags_4_0 =
     [(''WBINVD'', 2 ^ 0), (''WBINVD_FLUSH'', 2 ^ 1), (''PROC_C1'', 2 ^ 2),
      (''P_LVL2_UP'', 2 ^ 3), (''PWR_BUTTON'', 2 ^ 4), (''SLP_BUTTON'', 2 ^ 5),
      (''FIX_RTC'', 2 ^ 6), (''RTC_S4'', 2 ^ 7), (''TMR_VAL_EXT'', 2 ^ 8), (''DCK_CAP'', 2 ^ 9),
      (''RESET_REG_SUP'', 2 ^ 10), (''SEALED_CASE'', 2 ^ 11), (''HEADLESS'', 2 ^ 12),
      (''CPU_SW_SLP'', 2 ^ 13), (''PCI_EXP_WAK'', 2 ^ 14), (''USE_PLATFORM_CLOCK'', 2 ^ 15),
      (''S4_RTC_STS_VALID'', 2 ^ 16), (''REMOTE_POWER_ON_CAPABLE'', 2 ^ 17),
      (''FORCE_APIC_CLUSTER_MODEL'', 2 ^ 18),
      (''FORCE_APIC_PHYSICAL_DESTINATION_MODE'', 2 ^ 19)]"

definition facs_flags_4_0 :: constants where [constants]:
  "facs_flags_4_0 =
     [(''S4BIOS_F'', 2 ^ 0), (''64BIT_WAKE_SUPPORTED_F'', 2 ^ 1)]"

definition madt_types_4_0 :: constants where [constants]:
  "madt_types_4_0 =
     [(''PROCESSOR_LOCAL_APIC'', 0), (''IO_APIC'', 1), (''INTERRUPT_SOURCE_OVERRIDE'', 2),
      (''NON_MASKABLE_INTERRUPT_SOURCE'', 3), (''LOCAL_APIC_NMI'', 4),
      (''LOCAL_APIC_ADDRESS_OVERRIDE'', 5), (''IO_SAPIC'', 6), (''LOCAL_SAPIC'', 7),
      (''PLATFORM_INTERRUPT_SOURCES'', 8), (''PROCESSOR_LOCAL_X2APIC'', 9),
      (''LOCAL_X2APIC_NMI'', 0xA)]"

definition madt_override_flags_4_0 :: constants where [constants]:
  "madt_override_flags_4_0 =
     [(''POLARITY'', push_bit 0 3), (''TRIGGER_MODE'', push_bit 2 3)]"

definition srat_types_4_0 :: constants where [constants]:
  "srat_types_4_0 =
     [(''PROCESSOR_LOCAL_APIC_SAPIC_AFFINITY'', 0), (''MEMORY_AFFINITY'', 1),
      (''PROCESSOR_LOCAL_X2APIC_AFFINITY'', 2)]"

definition srat_memory_flags_4_0 :: constants where [constants]:
  "srat_memory_flags_4_0 =
     [(''MEMORY_ENABLED'', 2 ^ 0), (''MEMORY_HOT_PLUGGABLE'', 2 ^ 1),
      (''MEMORY_NONVOLATILE'', 2 ^ 2)]"

definition error_severities_4_0 :: constants where [constants]:
  "error_severities_4_0 =
     [(''ERROR_SEVERITY_CORRECTABLE'', 0), (''ERROR_SEVERITY_FATAL'', 1),
      (''ERROR_SEVERITY_CORRECTED'', 2), (''ERROR_SEVERITY_NONE'', 3)]"

definition hest_types_4_0 :: constants where [constants]:
  "hest_types_4_0 =
     [(''IA32_ARCHITECTURE_MACHINE_CHECK_EXCEPTION'', 0),
      (''IA32_ARCHITECTURE_CORRECTED_MACHINE_CHECK'', 1), (''IA32_ARCHITECTURE_NMI_ERROR'', 2),
      (''PCI_EXPRESS_ROOT_PORT_AER'', 6), (''PCI_EXPRESS_DEVICE_AER'', 7),
      (''PCI_EXPRESS_BRIDGE_AER'', 8), (''GENERIC_HARDWARE_ERROR'', 9)]"

definition hest_flags_4_0 :: constants where [constants]:
  "hest_flags_4_0 =
     [(''ERROR_SOURCE_FLAG_FIRMWARE_FIRST'', 2 ^ 0), (''ERROR_SOURCE_FLAG_GLOBAL'', 2 ^ 1)]"

definition machine_check_formats_4_0 :: constants where [constants]:
  "machine_check_formats_4_0 =
     [(''IA32_ARCHITECTURE_MACHINE_CHECK_ERROR_DATA_FORMAT_IA32'', 0),
      (''IA32_ARCHITECTURE_MACHINE_CHECK_ERROR_DATA_FORMAT_INTEL64'', 1),
      (''IA32_ARCHITECTURE_MACHINE_CHECK_ERROR_DATA_FORMAT_AMD64'', 2)]"

definition hest_notifications_4_0 :: constants where [constants]:
  "hest_notifications_4_0 =
     [(''HARDWARE_ERROR_NOTIFICATION_POLLED'', 0),
      (''HARDWARE_ERROR_NOTIFICATION_EXTERNAL_INTERRUPT'', 1),
      (''HARDWARE_ERROR_NOTIFICATION_LOCAL_INTERRUPT'', 2),
      (''HARDWARE_ERROR_NOTIFICATION_SCI'', 3), (''HARDWARE_ERROR_NOTIFICATION_NMI'', 4)]"

definition erst_actions_4_0 :: constants where [constants]:
  "erst_actions_4_0 =
     [(''ERST_BEGIN_WRITE_OPERATION'', 0), (''ERST_BEGIN_READ_OPERATION'', 1),
      (''ERST_BEGIN_CLEAR_OPERATION'', 2), (''ERST_END_OPERATION'', 3),
      (''ERST_SET_RECORD_OFFSET'', 4), (''ERST_EXECUTE_OPERATION'', 5),
      (''ERST_CHECK_BUSY_STATUS'', 6), (''ERST_GET_COMMAND_STATUS'', 7),
      (''ERST_GET_RECORD_IDENTIFIER'', 8), (''ERST_SET_RECORD_IDENTIFIER'', 9),
      (''ERST_GET_RECORD_COUNT'', 0xA), (''ERST_BEGIN_DUMMY_WRITE_OPERATION'', 0xB),
      (''ERST_GET_ERROR_LOG_ADDRESS_RANGE'', 0xD),
      (''ERST_GET_ERROR_LOG_ADDRESS_RANGE_LENGTH'', 0xE),
      (''ERST_GET_ERROR_LOG_ADDRESS_RANGE_ATTRIBUTES'', 0xF)]"

definition erst_statuses_4_0 :: constants where [constants]:
  "erst_statuses_4_0 =
     [(''EINJ_STATUS_SUCCESS'', 0), (''EINJ_STATUS_NOT_ENOUGH_SPACE'', 1),
      (''EINJ_STATUS_HARDWARE_NOT_AVAILABLE'', 2), (''EINJ_STATUS_FAILED'', 3),
      (''EINJ_STATUS_RECORD_STORE_EMPTY'', 4), (''EINJ_STATUS_RECORD_NOT_FOUND'', 5)]"

definition erst_instructions_4_0 :: constants where [constants]:
  "erst_instructions_4_0 =
     [(''ERST_READ_REGISTER'', 0), (''ERST_READ_REGISTER_VALUE'', 1),
      (''ERST_WRITE_REGISTER'', 2), (''ERST_WRITE_REGISTER_VALUE'', 3), (''ERST_NOOP'', 4),
      (''ERST_LOAD_VAR1'', 5), (''ERST_LOAD_VAR2'', 6), (''ERST_STORE_VAR1'', 7),
      (''ERST_ADD'', 8), (''ERST_SUBTRACT'', 9), (''ERST_ADD_VALUE'', 0xA),
      (''ERST_SUBTRACT_VALUE'', 0xB), (''ERST_STALL'', 0xC), (''ERST_STALL_WHILE_TRUE'', 0xD),
      (''ERST_SKIP_NEXT_INSTRUCTION_IF_TRUE'', 0xE), (''ERST_GOTO'', 0xF),
      (''ERST_SET_SRC_ADDRESS_BASE'', 0x10), (''ERST_SET_DST_ADDRESS_BASE'', 0x11),
      (''ERST_MOVE_DATA'', 0x12)]"

definition einj_actions_4_0 :: constants where [constants]:
  "einj_actions_4_0 =
     [(''EINJ_BEGIN_INJECTION_OPERATION'', 0), (''EINJ_GET_TRIGGER_ERROR_ACTION_TABLE'', 1),
      (''EINJ_SET_ERROR_TYPE'', 2), (''EINJ_GET_ERROR_TYPE'', 3), (''EINJ_END_OPERATION'', 4),
      (''EINJ_EXECUTE_OPERATION'', 5), (''EINJ_CHECK_BUSY_STATUS'', 6),
      (''EINJ_GET_COMMAND_STATUS'', 7), (''EINJ_TRIGGER_ERROR'', 0xFF)]"

definition einj_statuses_4_0 :: constants where [constants]:
  "einj_statuses_4_0 =
     [(''EINJ_STATUS_SUCCESS'', 0), (''EINJ_STATUS_UNKNOWN_FAILURE'', 1),
      (''EINJ_STATUS_INVALID_ACCESS'', 2)]"

definition einj_errors_4_0 :: constants where [constants]:
  "einj_errors_4_0 =
     [(''EINJ_ERROR_PROCESSOR_CORRECTABLE'', 2 ^ 0),
      (''EINJ_ERROR_PROCESSOR_UNCORRECTABLE_NONFATAL'', 2 ^ 1),
      (''EINJ_ERROR_PROCESSOR_UNCORRECTABLE_FATAL'', 2 ^ 2),
      (''EINJ_ERROR_MEMORY_CORRECTABLE'', 2 ^ 3),
      (''EINJ_ERROR_MEMORY_UNCORRECTABLE_NONFATAL'', 2 ^ 4),
      (''EINJ_ERROR_MEMORY_UNCORRECTABLE_FATAL'', 2 ^ 5),
      (''EINJ_ERROR_PCI_EXPRESS_CORRECTABLE'', 2 ^ 6),
      (''EINJ_ERROR_PCI_EXPRESS_UNCORRECTABLE_NONFATAL'', 2 ^ 7),
      (''EINJ_ERROR_PCI_EXPRESS_UNCORRECTABLE_FATAL'', 2 ^ 8),
      (''EINJ_ERROR_PLATFORM_CORRECTABLE'', 2 ^ 9),
      (''EINJ_ERROR_PLATFORM_UNCORRECTABLE_NONFATAL'', 2 ^ 10),
      (''EINJ_ERROR_PLATFORM_UNCORRECTABLE_FATAL'', 2 ^ 11)]"

definition einj_instructions_4_0 :: constants where [constants]:
  "einj_instructions_4_0 =
     [(''EINJ_READ_REGISTER'', 0), (''EINJ_READ_REGISTER_VALUE'', 1),
      (''EINJ_WRITE_REGISTER'', 2), (''EINJ_WRITE_REGISTER_VALUE'', 3), (''EINJ_NOOP'', 4)]"

definition first_table_signatures_4_0 :: signatures where [constants]:
  "first_table_signatures_4_0 =
     [(''MULTIPLE_APIC_DESCRIPTION_TABLE'', ''APIC''), (''BOOT_ERROR_RECORD_TABLE'', ''BERT''),
      (''CORRECTED_PLATFORM_ERROR_POLLING_TABLE'', ''CPEP''),
      (''DIFFERENTIATED_SYSTEM_DESCRIPTION_TABLE'', ''DSDT''),
      (''EMBEDDED_CONTROLLER_BOOT_RESOURCES_TABLE'', ''ECDT''),
      (''ERROR_INJECTION_TABLE'', ''EINJ''), (''ERROR_RECORD_SERIALIZATION_TABLE'', ''ERST''),
      (''FIXED_ACPI_DESCRIPTION_TABLE'', ''FACP''),
      (''FIRMWARE_ACPI_CONTROL_STRUCTURE'', ''FACS''),
      (''HARDWARE_ERROR_SOURCE_TABLE'', ''HEST''),
      (''MAXIMUM_SYSTEM_CHARACTERISTICS_TABLE'', ''MSCT''),
      (''PERSISTENT_SYSTEM_DESCRIPTION_TABLE'', ''PSDT''),
      (''ROOT_SYSTEM_DESCRIPTION_TABLE'', ''RSDT''),
      (''SMART_BATTERY_SPECIFICATION_TABLE'', ''SBST''),
      (''SYSTEM_LOCALITY_INFORMATION_TABLE'', ''SLIT''),
      (''SYSTEM_RESOURCE_AFFINITY_TABLE'', ''SRAT''),
      (''SECONDARY_SYSTEM_DESCRIPTION_TABLE'', ''SSDT''),
      (''EXTENDED_SYSTEM_DESCRIPTION_TABLE'', ''XSDT''), (''SIMPLE_BOOT_FLAG_TABLE'', ''BOOT''),
      (''DEBUG_PORT_TABLE'', ''DBGP''), (''DMA_REMAPPING_TABLE'', ''DMAR''),
      (''EVENT_TIMER_DESCRIPTION_TABLE'', ''ETDT''),
      (''HIGH_PRECISION_EVENT_TIMER_TABLE'', ''HPET''), (''ISCSI_BOOT_FIRMWARE_TABLE'', ''iBFT''),
      (''IO_VIRTUALIZATION_REPORTING_STRUCTURE'', ''IVRS''),
      (''PCI_EXPRESS_MEMORY_MAPPED_CONFIGURATION_SPACE_BASE_ADDRESS_DESCRIPTION_TABLE'', ''MCFG''),
      (''MANAGEMENT_CONTROLLER_HOST_INTERFACE_TABLE'', ''MCHI''),
      (''SERIAL_PORT_CONSOLE_REDIRECTION_TABLE'', ''SPCR''),
      (''SERVER_PLATFORM_MANAGEMENT_INTERFACE_TABLE'', ''SPMI''),
      (''TRUSTED_COMPUTING_PLATFORM_ALLIANCE_CAPABILITIES_TABLE'', ''TCPA'')]"

definition further_table_signatures_4_0 :: signatures where [constants]:
  "further_table_signatures_4_0 =
     [(''UEFI_ACPI_DATA_TABLE'', ''UEFI''), (''WINDOWS_ACPI_ENLIGHTENMENT_TABLE'', ''WAET''),
      (''WATCHDOG_ACTION_TABLE'', ''WDAT''), (''WATCHDOG_RESOURCE_TABLE'', ''WDRT'')]"

definition table_signatures_4_0 :: signatures where [constants]:
  "table_signatures_4_0 = first_table_signatures_4_0 @ further_table_signatures_4_0"

definition constants_4_0 :: constants where [constants]:
  "constants_4_0 =
     address_space_ids_4_0 @ access_sizes_4_0 @ pm_profiles_4_0 @ ia_boot_flags_4_0 @
     fadt_flags_4_0 @ facs_flags_4_0 @ madt_types_4_0 @ madt_override_flags_4_0 @
     srat_types_4_0 @ srat_memory_flags_4_0 @ error_severities_4_0 @ hest_types_4_0 @
     hest_flags_4_0 @ machine_check_formats_4_0 @ hest_notifications_4_0 @ erst_actions_4_0
     @ erst_statuses_4_0 @ erst_instructions_4_0 @ einj_actions_4_0 @ einj_statuses_4_0 @
     einj_errors_4_0 @ einj_instructions_4_0"

section \<open>Acpi50.h\<close>

definition address_space_ids_5_0 :: constants where [constants]:
  "address_space_ids_5_0 =
     [(''SYSTEM_MEMORY'', 0), (''SYSTEM_IO'', 1), (''PCI_CONFIGURATION_SPACE'', 2),
      (''EMBEDDED_CONTROLLER'', 3), (''SMBUS'', 4), (''PLATFORM_COMMUNICATION_CHANNEL'', 0xA),
      (''FUNCTIONAL_FIXED_HARDWARE'', 0x7F)]"

definition access_sizes_5_0 :: constants where [constants]:
  "access_sizes_5_0 =
     [(''UNDEFINED'', 0), (''BYTE'', 1), (''WORD'', 2), (''DWORD'', 3), (''QWORD'', 4)]"

definition pm_profiles_5_0 :: constants where [constants]:
  "pm_profiles_5_0 =
     [(''PM_PROFILE_UNSPECIFIED'', 0), (''PM_PROFILE_DESKTOP'', 1), (''PM_PROFILE_MOBILE'', 2),
      (''PM_PROFILE_WORKSTATION'', 3), (''PM_PROFILE_ENTERPRISE_SERVER'', 4),
      (''PM_PROFILE_SOHO_SERVER'', 5), (''PM_PROFILE_APPLIANCE_PC'', 6),
      (''PM_PROFILE_PERFORMANCE_SERVER'', 7), (''PM_PROFILE_TABLET'', 8)]"

definition ia_boot_flags_5_0 :: constants where [constants]:
  "ia_boot_flags_5_0 =
     [(''LEGACY_DEVICES'', 2 ^ 0), (''8042'', 2 ^ 1), (''VGA_NOT_PRESENT'', 2 ^ 2),
      (''MSI_NOT_SUPPORTED'', 2 ^ 3), (''PCIE_ASPM_CONTROLS'', 2 ^ 4),
      (''CMOS_RTC_NOT_PRESENT'', 2 ^ 5)]"

definition fadt_flags_5_0 :: constants where [constants]:
  "fadt_flags_5_0 =
     [(''WBINVD'', 2 ^ 0), (''WBINVD_FLUSH'', 2 ^ 1), (''PROC_C1'', 2 ^ 2),
      (''P_LVL2_UP'', 2 ^ 3), (''PWR_BUTTON'', 2 ^ 4), (''SLP_BUTTON'', 2 ^ 5),
      (''FIX_RTC'', 2 ^ 6), (''RTC_S4'', 2 ^ 7), (''TMR_VAL_EXT'', 2 ^ 8), (''DCK_CAP'', 2 ^ 9),
      (''RESET_REG_SUP'', 2 ^ 10), (''SEALED_CASE'', 2 ^ 11), (''HEADLESS'', 2 ^ 12),
      (''CPU_SW_SLP'', 2 ^ 13), (''PCI_EXP_WAK'', 2 ^ 14), (''USE_PLATFORM_CLOCK'', 2 ^ 15),
      (''S4_RTC_STS_VALID'', 2 ^ 16), (''REMOTE_POWER_ON_CAPABLE'', 2 ^ 17),
      (''FORCE_APIC_CLUSTER_MODEL'', 2 ^ 18),
      (''FORCE_APIC_PHYSICAL_DESTINATION_MODE'', 2 ^ 19), (''HW_REDUCED_ACPI'', 2 ^ 20),
      (''LOW_POWER_S0_IDLE_CAPABLE'', 2 ^ 21)]"

definition facs_flags_5_0 :: constants where [constants]:
  "facs_flags_5_0 =
     [(''S4BIOS_F'', 2 ^ 0), (''64BIT_WAKE_SUPPORTED_F'', 2 ^ 1)]"

definition madt_types_5_0 :: constants where [constants]:
  "madt_types_5_0 =
     [(''PROCESSOR_LOCAL_APIC'', 0), (''IO_APIC'', 1), (''INTERRUPT_SOURCE_OVERRIDE'', 2),
      (''NON_MASKABLE_INTERRUPT_SOURCE'', 3), (''LOCAL_APIC_NMI'', 4),
      (''LOCAL_APIC_ADDRESS_OVERRIDE'', 5), (''IO_SAPIC'', 6), (''LOCAL_SAPIC'', 7),
      (''PLATFORM_INTERRUPT_SOURCES'', 8), (''PROCESSOR_LOCAL_X2APIC'', 9),
      (''LOCAL_X2APIC_NMI'', 0xA), (''GIC'', 0xB), (''GICD'', 0xC)]"

definition madt_override_flags_5_0 :: constants where [constants]:
  "madt_override_flags_5_0 =
     [(''POLARITY'', push_bit 0 3), (''TRIGGER_MODE'', push_bit 2 3)]"

definition gic_flags_5_0 :: constants where [constants]:
  "gic_flags_5_0 =
     [(''GIC_ENABLED'', 2 ^ 0), (''PERFORMANCE_INTERRUPT_MODEL'', 2 ^ 1)]"

definition srat_types_5_0 :: constants where [constants]:
  "srat_types_5_0 =
     [(''PROCESSOR_LOCAL_APIC_SAPIC_AFFINITY'', 0), (''MEMORY_AFFINITY'', 1),
      (''PROCESSOR_LOCAL_X2APIC_AFFINITY'', 2)]"

definition srat_memory_flags_5_0 :: constants where [constants]:
  "srat_memory_flags_5_0 =
     [(''MEMORY_ENABLED'', 2 ^ 0), (''MEMORY_HOT_PLUGGABLE'', 2 ^ 1),
      (''MEMORY_NONVOLATILE'', 2 ^ 2)]"

definition rasf_capabilities_5_0 :: constants where [constants]:
  "rasf_capabilities_5_0 =
     [(''RASF_PLATFORM_RAS_CAPABILITY_HARDWARE_BASED_PATROL_SCRUB_SUPPOTED'', 1),
      (''RASF_PLATFORM_RAS_CAPABILITY_HARDWARE_BASED_PATROL_SCRUB_SUPPOTED_AND_EXPOSED_TO_SOFTWARE'', 2)]"

definition rasf_commands_5_0 :: constants where [constants]:
  "rasf_commands_5_0 =
     [(''RASF_PATROL_SCRUB_COMMAND_GET_PATROL_PARAMETERS'', 1),
      (''RASF_PATROL_SCRUB_COMMAND_START_PATROL_SCRUBBER'', 2),
      (''RASF_PATROL_SCRUB_COMMAND_STOP_PATROL_SCRUBBER'', 3)]"

definition mpst_commands_5_0 :: constants where [constants]:
  "mpst_commands_5_0 =
     [(''MPST_MEMORY_POWER_COMMAND_GET_MEMORY_POWER_STATE'', 1),
      (''MPST_MEMORY_POWER_COMMAND_SET_MEMORY_POWER_STATE'', 2),
      (''MPST_MEMORY_POWER_COMMAND_GET_AVERAGE_POWER_CONSUMED'', 3),
      (''MPST_MEMORY_POWER_COMMAND_GET_MEMORY_ENERGY_CONSUMED'', 4)]"

definition mpst_structure_flags_5_0 :: constants where [constants]:
  "mpst_structure_flags_5_0 =
     [(''MPST_MEMORY_POWER_STRUCTURE_FLAG_ENABLE'', 1),
      (''MPST_MEMORY_POWER_STRUCTURE_FLAG_POWER_MANAGED'', 2),
      (''MPST_MEMORY_POWER_STRUCTURE_FLAG_HOT_PLUGGABLE'', 4)]"

definition mpst_state_flags_5_0 :: constants where [constants]:
  "mpst_state_flags_5_0 =
     [(''MPST_MEMORY_POWER_STATE_CHARACTERISTICS_STRUCTURE_FLAG_MEMORY_CONTENT_PRESERVED'', 1),
      (''MPST_MEMORY_POWER_STATE_CHARACTERISTICS_STRUCTURE_FLAG_AUTONOMOUS_MEMORY_POWER_STATE_ENTRY'', 2),
      (''MPST_MEMORY_POWER_STATE_CHARACTERISTICS_STRUCTURE_FLAG_AUTONOMOUS_MEMORY_POWER_STATE_EXIT'', 4)]"

definition pmmt_types_5_0 :: constants where [constants]:
  "pmmt_types_5_0 =
     [(''PMMT_MEMORY_AGGREGATOR_DEVICE_TYPE_SOCKET'', 0),
      (''PMMT_MEMORY_AGGREGATOR_DEVICE_TYPE_MEMORY_CONTROLLER'', 1),
      (''PMMT_MEMORY_AGGREGATOR_DEVICE_TYPE_DIMM'', 2)]"

definition bgrt_statuses_5_0 :: constants where [constants]:
  "bgrt_statuses_5_0 =
     [(''BGRT_STATUS_NOT_DISPLAYED'', 0), (''BGRT_STATUS_DISPLAYED'', 1),
      (''BGRT_STATUS_INVALID'', 0), (''BGRT_STATUS_VALID'', 1)]"

definition fpdt_types_5_0 :: constants where [constants]:
  "fpdt_types_5_0 =
     [(''FPDT_RECORD_TYPE_FIRMWARE_BASIC_BOOT_POINTER'', 0),
      (''FPDT_RECORD_TYPE_S3_PERFORMANCE_TABLE_POINTER'', 1)]"

definition fpdt_revisions_5_0 :: constants where [constants]:
  "fpdt_revisions_5_0 =
     [(''FPDT_RECORD_REVISION_FIRMWARE_BASIC_BOOT_POINTER'', 1),
      (''FPDT_RECORD_REVISION_S3_PERFORMANCE_TABLE_POINTER'', 1)]"

definition fpdt_runtime_types_5_0 :: constants where [constants]:
  "fpdt_runtime_types_5_0 =
     [(''FPDT_RUNTIME_RECORD_TYPE_S3_RESUME'', 0), (''FPDT_RUNTIME_RECORD_TYPE_S3_SUSPEND'', 1),
      (''FPDT_RUNTIME_RECORD_TYPE_FIRMWARE_BASIC_BOOT'', 2)]"

definition fpdt_runtime_revisions_5_0 :: constants where [constants]:
  "fpdt_runtime_revisions_5_0 =
     [(''FPDT_RUNTIME_RECORD_REVISION_S3_RESUME'', 1),
      (''FPDT_RUNTIME_RECORD_REVISION_S3_SUSPEND'', 1),
      (''FPDT_RUNTIME_RECORD_REVISION_FIRMWARE_BASIC_BOOT'', 2)]"

definition gtdt_global_flags_5_0 :: constants where [constants]:
  "gtdt_global_flags_5_0 =
     [(''GTDT_GLOBAL_FLAG_MEMORY_MAPPED_BLOCK_PRESENT'', 2 ^ 0),
      (''GTDT_GLOBAL_FLAG_INTERRUPT_MODE'', 2 ^ 1)]"

definition gtdt_timer_flags_5_0 :: constants where [constants]:
  "gtdt_timer_flags_5_0 =
     [(''GTDT_TIMER_FLAG_TIMER_INTERRUPT_MODE'', 2 ^ 0),
      (''GTDT_TIMER_FLAG_TIMER_INTERRUPT_POLARITY'', 2 ^ 1)]"

definition error_severities_5_0 :: constants where [constants]:
  "error_severities_5_0 =
     [(''ERROR_SEVERITY_CORRECTABLE'', 0), (''ERROR_SEVERITY_FATAL'', 1),
      (''ERROR_SEVERITY_CORRECTED'', 2), (''ERROR_SEVERITY_NONE'', 3)]"

definition hest_types_5_0 :: constants where [constants]:
  "hest_types_5_0 =
     [(''IA32_ARCHITECTURE_MACHINE_CHECK_EXCEPTION'', 0),
      (''IA32_ARCHITECTURE_CORRECTED_MACHINE_CHECK'', 1), (''IA32_ARCHITECTURE_NMI_ERROR'', 2),
      (''PCI_EXPRESS_ROOT_PORT_AER'', 6), (''PCI_EXPRESS_DEVICE_AER'', 7),
      (''PCI_EXPRESS_BRIDGE_AER'', 8), (''GENERIC_HARDWARE_ERROR'', 9)]"

definition hest_flags_5_0 :: constants where [constants]:
  "hest_flags_5_0 =
     [(''ERROR_SOURCE_FLAG_FIRMWARE_FIRST'', 2 ^ 0), (''ERROR_SOURCE_FLAG_GLOBAL'', 2 ^ 1)]"

definition machine_check_formats_5_0 :: constants where [constants]:
  "machine_check_formats_5_0 =
     [(''IA32_ARCHITECTURE_MACHINE_CHECK_ERROR_DATA_FORMAT_IA32'', 0),
      (''IA32_ARCHITECTURE_MACHINE_CHECK_ERROR_DATA_FORMAT_INTEL64'', 1),
      (''IA32_ARCHITECTURE_MACHINE_CHECK_ERROR_DATA_FORMAT_AMD64'', 2)]"

definition hest_notifications_5_0 :: constants where [constants]:
  "hest_notifications_5_0 =
     [(''HARDWARE_ERROR_NOTIFICATION_POLLED'', 0),
      (''HARDWARE_ERROR_NOTIFICATION_EXTERNAL_INTERRUPT'', 1),
      (''HARDWARE_ERROR_NOTIFICATION_LOCAL_INTERRUPT'', 2),
      (''HARDWARE_ERROR_NOTIFICATION_SCI'', 3), (''HARDWARE_ERROR_NOTIFICATION_NMI'', 4)]"

definition erst_actions_5_0 :: constants where [constants]:
  "erst_actions_5_0 =
     [(''ERST_BEGIN_WRITE_OPERATION'', 0), (''ERST_BEGIN_READ_OPERATION'', 1),
      (''ERST_BEGIN_CLEAR_OPERATION'', 2), (''ERST_END_OPERATION'', 3),
      (''ERST_SET_RECORD_OFFSET'', 4), (''ERST_EXECUTE_OPERATION'', 5),
      (''ERST_CHECK_BUSY_STATUS'', 6), (''ERST_GET_COMMAND_STATUS'', 7),
      (''ERST_GET_RECORD_IDENTIFIER'', 8), (''ERST_SET_RECORD_IDENTIFIER'', 9),
      (''ERST_GET_RECORD_COUNT'', 0xA), (''ERST_BEGIN_DUMMY_WRITE_OPERATION'', 0xB),
      (''ERST_GET_ERROR_LOG_ADDRESS_RANGE'', 0xD),
      (''ERST_GET_ERROR_LOG_ADDRESS_RANGE_LENGTH'', 0xE),
      (''ERST_GET_ERROR_LOG_ADDRESS_RANGE_ATTRIBUTES'', 0xF)]"

definition erst_statuses_5_0 :: constants where [constants]:
  "erst_statuses_5_0 =
     [(''ERST_STATUS_SUCCESS'', 0), (''ERST_STATUS_NOT_ENOUGH_SPACE'', 1),
      (''ERST_STATUS_HARDWARE_NOT_AVAILABLE'', 2), (''ERST_STATUS_FAILED'', 3),
      (''ERST_STATUS_RECORD_STORE_EMPTY'', 4), (''ERST_STATUS_RECORD_NOT_FOUND'', 5)]"

definition erst_instructions_5_0 :: constants where [constants]:
  "erst_instructions_5_0 =
     [(''ERST_READ_REGISTER'', 0), (''ERST_READ_REGISTER_VALUE'', 1),
      (''ERST_WRITE_REGISTER'', 2), (''ERST_WRITE_REGISTER_VALUE'', 3), (''ERST_NOOP'', 4),
      (''ERST_LOAD_VAR1'', 5), (''ERST_LOAD_VAR2'', 6), (''ERST_STORE_VAR1'', 7),
      (''ERST_ADD'', 8), (''ERST_SUBTRACT'', 9), (''ERST_ADD_VALUE'', 0xA),
      (''ERST_SUBTRACT_VALUE'', 0xB), (''ERST_STALL'', 0xC), (''ERST_STALL_WHILE_TRUE'', 0xD),
      (''ERST_SKIP_NEXT_INSTRUCTION_IF_TRUE'', 0xE), (''ERST_GOTO'', 0xF),
      (''ERST_SET_SRC_ADDRESS_BASE'', 0x10), (''ERST_SET_DST_ADDRESS_BASE'', 0x11),
      (''ERST_MOVE_DATA'', 0x12)]"

definition einj_actions_5_0 :: constants where [constants]:
  "einj_actions_5_0 =
     [(''EINJ_BEGIN_INJECTION_OPERATION'', 0), (''EINJ_GET_TRIGGER_ERROR_ACTION_TABLE'', 1),
      (''EINJ_SET_ERROR_TYPE'', 2), (''EINJ_GET_ERROR_TYPE'', 3), (''EINJ_END_OPERATION'', 4),
      (''EINJ_EXECUTE_OPERATION'', 5), (''EINJ_CHECK_BUSY_STATUS'', 6),
      (''EINJ_GET_COMMAND_STATUS'', 7), (''EINJ_TRIGGER_ERROR'', 0xFF)]"

definition einj_statuses_5_0 :: constants where [constants]:
  "einj_statuses_5_0 =
     [(''EINJ_STATUS_SUCCESS'', 0), (''EINJ_STATUS_UNKNOWN_FAILURE'', 1),
      (''EINJ_STATUS_INVALID_ACCESS'', 2)]"

definition einj_errors_5_0 :: constants where [constants]:
  "einj_errors_5_0 =
     [(''EINJ_ERROR_PROCESSOR_CORRECTABLE'', 2 ^ 0),
      (''EINJ_ERROR_PROCESSOR_UNCORRECTABLE_NONFATAL'', 2 ^ 1),
      (''EINJ_ERROR_PROCESSOR_UNCORRECTABLE_FATAL'', 2 ^ 2),
      (''EINJ_ERROR_MEMORY_CORRECTABLE'', 2 ^ 3),
      (''EINJ_ERROR_MEMORY_UNCORRECTABLE_NONFATAL'', 2 ^ 4),
      (''EINJ_ERROR_MEMORY_UNCORRECTABLE_FATAL'', 2 ^ 5),
      (''EINJ_ERROR_PCI_EXPRESS_CORRECTABLE'', 2 ^ 6),
      (''EINJ_ERROR_PCI_EXPRESS_UNCORRECTABLE_NONFATAL'', 2 ^ 7),
      (''EINJ_ERROR_PCI_EXPRESS_UNCORRECTABLE_FATAL'', 2 ^ 8),
      (''EINJ_ERROR_PLATFORM_CORRECTABLE'', 2 ^ 9),
      (''EINJ_ERROR_PLATFORM_UNCORRECTABLE_NONFATAL'', 2 ^ 10),
      (''EINJ_ERROR_PLATFORM_UNCORRECTABLE_FATAL'', 2 ^ 11)]"

definition einj_instructions_5_0 :: constants where [constants]:
  "einj_instructions_5_0 =
     [(''EINJ_READ_REGISTER'', 0), (''EINJ_READ_REGISTER_VALUE'', 1),
      (''EINJ_WRITE_REGISTER'', 2), (''EINJ_WRITE_REGISTER_VALUE'', 3), (''EINJ_NOOP'', 4)]"

definition first_table_signatures_5_0 :: signatures where [constants]:
  "first_table_signatures_5_0 =
     [(''MULTIPLE_APIC_DESCRIPTION_TABLE'', ''APIC''), (''BOOT_ERROR_RECORD_TABLE'', ''BERT''),
      (''BOOT_GRAPHICS_RESOURCE_TABLE'', ''BGRT''),
      (''CORRECTED_PLATFORM_ERROR_POLLING_TABLE'', ''CPEP''),
      (''DIFFERENTIATED_SYSTEM_DESCRIPTION_TABLE'', ''DSDT''),
      (''EMBEDDED_CONTROLLER_BOOT_RESOURCES_TABLE'', ''ECDT''),
      (''ERROR_INJECTION_TABLE'', ''EINJ''), (''ERROR_RECORD_SERIALIZATION_TABLE'', ''ERST''),
      (''FIXED_ACPI_DESCRIPTION_TABLE'', ''FACP''),
      (''FIRMWARE_ACPI_CONTROL_STRUCTURE'', ''FACS''),
      (''FIRMWARE_PERFORMANCE_DATA_TABLE'', ''FPDT''),
      (''GENERIC_TIMER_DESCRIPTION_TABLE'', ''GTDT''),
      (''HARDWARE_ERROR_SOURCE_TABLE'', ''HEST''), (''MEMORY_POWER_STATE_TABLE'', ''MPST''),
      (''MAXIMUM_SYSTEM_CHARACTERISTICS_TABLE'', ''MSCT''),
      (''PLATFORM_MEMORY_TOPOLOGY_TABLE'', ''PMTT''),
      (''PERSISTENT_SYSTEM_DESCRIPTION_TABLE'', ''PSDT''), (''ACPI_RAS_FEATURE_TABLE'', ''RASF''),
      (''ROOT_SYSTEM_DESCRIPTION_TABLE'', ''RSDT''),
      (''SMART_BATTERY_SPECIFICATION_TABLE'', ''SBST''),
      (''SYSTEM_LOCALITY_INFORMATION_TABLE'', ''SLIT''),
      (''SYSTEM_RESOURCE_AFFINITY_TABLE'', ''SRAT''),
      (''SECONDARY_SYSTEM_DESCRIPTION_TABLE'', ''SSDT''),
      (''EXTENDED_SYSTEM_DESCRIPTION_TABLE'', ''XSDT''), (''SIMPLE_BOOT_FLAG_TABLE'', ''BOOT''),
      (''CORE_SYSTEM_RESOURCE_TABLE'', ''CSRT''), (''DEBUG_PORT_2_TABLE'', ''DBG2''),
      (''DEBUG_PORT_TABLE'', ''DBGP''), (''DMA_REMAPPING_TABLE'', ''DMAR''),
      (''DYNAMIC_ROOT_OF_TRUST_FOR_MEASUREMENT_TABLE'', ''DRTM'')]"

definition further_table_signatures_5_0 :: signatures where [constants]:
  "further_table_signatures_5_0 =
     [(''EVENT_TIMER_DESCRIPTION_TABLE'', ''ETDT''),
      (''HIGH_PRECISION_EVENT_TIMER_TABLE'', ''HPET''), (''ISCSI_BOOT_FIRMWARE_TABLE'', ''iBFT''),
      (''IO_VIRTUALIZATION_REPORTING_STRUCTURE'', ''IVRS''),
      (''PCI_EXPRESS_MEMORY_MAPPED_CONFIGURATION_SPACE_BASE_ADDRESS_DESCRIPTION_TABLE'', ''MCFG''),
      (''MANAGEMENT_CONTROLLER_HOST_INTERFACE_TABLE'', ''MCHI''),
      (''DATA_MANAGEMENT_TABLE'', ''MSDM''),
      (''PLATFORM_COMMUNICATIONS_CHANNEL_TABLE'', ''PCCT''),
      (''SOFTWARE_LICENSING_TABLE'', ''SLIC''),
      (''SERIAL_PORT_CONSOLE_REDIRECTION_TABLE'', ''SPCR''),
      (''SERVER_PLATFORM_MANAGEMENT_INTERFACE_TABLE'', ''SPMI''),
      (''TRUSTED_COMPUTING_PLATFORM_ALLIANCE_CAPABILITIES_TABLE'', ''TCPA''),
      (''TRUSTED_COMPUTING_PLATFORM_2_TABLE'', ''TPM2''), (''UEFI_ACPI_DATA_TABLE'', ''UEFI''),
      (''WINDOWS_ACPI_EMULATED_DEVICES_TABLE'', ''WAET''),
      (''WINDOWS_ACPI_ENLIGHTENMENT_TABLE'', ''WAET''), (''WATCHDOG_ACTION_TABLE'', ''WDAT''),
      (''WATCHDOG_RESOURCE_TABLE'', ''WDRT''), (''PLATFORM_BINARY_TABLE'', ''WPBT'')]"

definition table_signatures_5_0 :: signatures where [constants]:
  "table_signatures_5_0 = first_table_signatures_5_0 @ further_table_signatures_5_0"

definition constants_5_0 :: constants where [constants]:
  "constants_5_0 =
     address_space_ids_5_0 @ access_sizes_5_0 @ pm_profiles_5_0 @ ia_boot_flags_5_0 @
     fadt_flags_5_0 @ facs_flags_5_0 @ madt_types_5_0 @ madt_override_flags_5_0 @
     gic_flags_5_0 @ srat_types_5_0 @ srat_memory_flags_5_0 @ rasf_capabilities_5_0 @
     rasf_commands_5_0 @ mpst_commands_5_0 @ mpst_structure_flags_5_0 @
     mpst_state_flags_5_0 @ pmmt_types_5_0 @ bgrt_statuses_5_0 @ fpdt_types_5_0 @
     fpdt_revisions_5_0 @ fpdt_runtime_types_5_0 @ fpdt_runtime_revisions_5_0 @
     gtdt_global_flags_5_0 @ gtdt_timer_flags_5_0 @ error_severities_5_0 @ hest_types_5_0 @
     hest_flags_5_0 @ machine_check_formats_5_0 @ hest_notifications_5_0 @ erst_actions_5_0
     @ erst_statuses_5_0 @ erst_instructions_5_0 @ einj_actions_5_0 @ einj_statuses_5_0 @
     einj_errors_5_0 @ einj_instructions_5_0"

section \<open>Acpi51.h\<close>

definition address_space_ids_5_1 :: constants where [constants]:
  "address_space_ids_5_1 =
     [(''SYSTEM_MEMORY'', 0), (''SYSTEM_IO'', 1), (''PCI_CONFIGURATION_SPACE'', 2),
      (''EMBEDDED_CONTROLLER'', 3), (''SMBUS'', 4), (''PLATFORM_COMMUNICATION_CHANNEL'', 0xA),
      (''FUNCTIONAL_FIXED_HARDWARE'', 0x7F)]"

definition access_sizes_5_1 :: constants where [constants]:
  "access_sizes_5_1 =
     [(''UNDEFINED'', 0), (''BYTE'', 1), (''WORD'', 2), (''DWORD'', 3), (''QWORD'', 4)]"

definition pm_profiles_5_1 :: constants where [constants]:
  "pm_profiles_5_1 =
     [(''PM_PROFILE_UNSPECIFIED'', 0), (''PM_PROFILE_DESKTOP'', 1), (''PM_PROFILE_MOBILE'', 2),
      (''PM_PROFILE_WORKSTATION'', 3), (''PM_PROFILE_ENTERPRISE_SERVER'', 4),
      (''PM_PROFILE_SOHO_SERVER'', 5), (''PM_PROFILE_APPLIANCE_PC'', 6),
      (''PM_PROFILE_PERFORMANCE_SERVER'', 7), (''PM_PROFILE_TABLET'', 8)]"

definition ia_boot_flags_5_1 :: constants where [constants]:
  "ia_boot_flags_5_1 =
     [(''LEGACY_DEVICES'', 2 ^ 0), (''8042'', 2 ^ 1), (''VGA_NOT_PRESENT'', 2 ^ 2),
      (''MSI_NOT_SUPPORTED'', 2 ^ 3), (''PCIE_ASPM_CONTROLS'', 2 ^ 4),
      (''CMOS_RTC_NOT_PRESENT'', 2 ^ 5)]"

definition arm_boot_flags_5_1 :: constants where [constants]:
  "arm_boot_flags_5_1 =
     [(''ARM_PSCI_COMPLIANT'', 2 ^ 0), (''ARM_PSCI_USE_HVC'', 2 ^ 1)]"

definition fadt_flags_5_1 :: constants where [constants]:
  "fadt_flags_5_1 =
     [(''WBINVD'', 2 ^ 0), (''WBINVD_FLUSH'', 2 ^ 1), (''PROC_C1'', 2 ^ 2),
      (''P_LVL2_UP'', 2 ^ 3), (''PWR_BUTTON'', 2 ^ 4), (''SLP_BUTTON'', 2 ^ 5),
      (''FIX_RTC'', 2 ^ 6), (''RTC_S4'', 2 ^ 7), (''TMR_VAL_EXT'', 2 ^ 8), (''DCK_CAP'', 2 ^ 9),
      (''RESET_REG_SUP'', 2 ^ 10), (''SEALED_CASE'', 2 ^ 11), (''HEADLESS'', 2 ^ 12),
      (''CPU_SW_SLP'', 2 ^ 13), (''PCI_EXP_WAK'', 2 ^ 14), (''USE_PLATFORM_CLOCK'', 2 ^ 15),
      (''S4_RTC_STS_VALID'', 2 ^ 16), (''REMOTE_POWER_ON_CAPABLE'', 2 ^ 17),
      (''FORCE_APIC_CLUSTER_MODEL'', 2 ^ 18),
      (''FORCE_APIC_PHYSICAL_DESTINATION_MODE'', 2 ^ 19), (''HW_REDUCED_ACPI'', 2 ^ 20),
      (''LOW_POWER_S0_IDLE_CAPABLE'', 2 ^ 21)]"

definition facs_flags_5_1 :: constants where [constants]:
  "facs_flags_5_1 =
     [(''S4BIOS_F'', 2 ^ 0), (''64BIT_WAKE_SUPPORTED_F'', 2 ^ 1)]"

definition madt_types_5_1 :: constants where [constants]:
  "madt_types_5_1 =
     [(''PROCESSOR_LOCAL_APIC'', 0), (''IO_APIC'', 1), (''INTERRUPT_SOURCE_OVERRIDE'', 2),
      (''NON_MASKABLE_INTERRUPT_SOURCE'', 3), (''LOCAL_APIC_NMI'', 4),
      (''LOCAL_APIC_ADDRESS_OVERRIDE'', 5), (''IO_SAPIC'', 6), (''LOCAL_SAPIC'', 7),
      (''PLATFORM_INTERRUPT_SOURCES'', 8), (''PROCESSOR_LOCAL_X2APIC'', 9),
      (''LOCAL_X2APIC_NMI'', 0xA), (''GIC'', 0xB), (''GICD'', 0xC), (''GIC_MSI_FRAME'', 0xD),
      (''GICR'', 0xE)]"

definition madt_override_flags_5_1 :: constants where [constants]:
  "madt_override_flags_5_1 =
     [(''POLARITY'', push_bit 0 3), (''TRIGGER_MODE'', push_bit 2 3)]"

definition gic_flags_5_1 :: constants where [constants]:
  "gic_flags_5_1 =
     [(''GIC_ENABLED'', 2 ^ 0), (''PERFORMANCE_INTERRUPT_MODEL'', 2 ^ 1),
      (''VGIC_MAINTENANCE_INTERRUPT_MODE_FLAGS'', 2 ^ 2)]"

definition gic_versions_5_1 :: constants where [constants]:
  "gic_versions_5_1 =
     [(''GIC_V1'', 1), (''GIC_V2'', 2), (''GIC_V3'', 3), (''GIC_V4'', 4)]"

definition srat_types_5_1 :: constants where [constants]:
  "srat_types_5_1 =
     [(''PROCESSOR_LOCAL_APIC_SAPIC_AFFINITY'', 0), (''MEMORY_AFFINITY'', 1),
      (''PROCESSOR_LOCAL_X2APIC_AFFINITY'', 2), (''GICC_AFFINITY'', 3)]"

definition srat_memory_flags_5_1 :: constants where [constants]:
  "srat_memory_flags_5_1 =
     [(''MEMORY_ENABLED'', 2 ^ 0), (''MEMORY_HOT_PLUGGABLE'', 2 ^ 1),
      (''MEMORY_NONVOLATILE'', 2 ^ 2)]"

definition rasf_capabilities_5_1 :: constants where [constants]:
  "rasf_capabilities_5_1 =
     [(''RASF_PLATFORM_RAS_CAPABILITY_HARDWARE_BASED_PATROL_SCRUB_SUPPOTED'', 1),
      (''RASF_PLATFORM_RAS_CAPABILITY_HARDWARE_BASED_PATROL_SCRUB_SUPPOTED_AND_EXPOSED_TO_SOFTWARE'', 2)]"

definition rasf_commands_5_1 :: constants where [constants]:
  "rasf_commands_5_1 =
     [(''RASF_PATROL_SCRUB_COMMAND_GET_PATROL_PARAMETERS'', 1),
      (''RASF_PATROL_SCRUB_COMMAND_START_PATROL_SCRUBBER'', 2),
      (''RASF_PATROL_SCRUB_COMMAND_STOP_PATROL_SCRUBBER'', 3)]"

definition mpst_commands_5_1 :: constants where [constants]:
  "mpst_commands_5_1 =
     [(''MPST_MEMORY_POWER_COMMAND_GET_MEMORY_POWER_STATE'', 1),
      (''MPST_MEMORY_POWER_COMMAND_SET_MEMORY_POWER_STATE'', 2),
      (''MPST_MEMORY_POWER_COMMAND_GET_AVERAGE_POWER_CONSUMED'', 3),
      (''MPST_MEMORY_POWER_COMMAND_GET_MEMORY_ENERGY_CONSUMED'', 4)]"

definition mpst_structure_flags_5_1 :: constants where [constants]:
  "mpst_structure_flags_5_1 =
     [(''MPST_MEMORY_POWER_STRUCTURE_FLAG_ENABLE'', 1),
      (''MPST_MEMORY_POWER_STRUCTURE_FLAG_POWER_MANAGED'', 2),
      (''MPST_MEMORY_POWER_STRUCTURE_FLAG_HOT_PLUGGABLE'', 4)]"

definition mpst_state_flags_5_1 :: constants where [constants]:
  "mpst_state_flags_5_1 =
     [(''MPST_MEMORY_POWER_STATE_CHARACTERISTICS_STRUCTURE_FLAG_MEMORY_CONTENT_PRESERVED'', 1),
      (''MPST_MEMORY_POWER_STATE_CHARACTERISTICS_STRUCTURE_FLAG_AUTONOMOUS_MEMORY_POWER_STATE_ENTRY'', 2),
      (''MPST_MEMORY_POWER_STATE_CHARACTERISTICS_STRUCTURE_FLAG_AUTONOMOUS_MEMORY_POWER_STATE_EXIT'', 4)]"

definition pmmt_types_5_1 :: constants where [constants]:
  "pmmt_types_5_1 =
     [(''PMMT_MEMORY_AGGREGATOR_DEVICE_TYPE_SOCKET'', 0),
      (''PMMT_MEMORY_AGGREGATOR_DEVICE_TYPE_MEMORY_CONTROLLER'', 1),
      (''PMMT_MEMORY_AGGREGATOR_DEVICE_TYPE_DIMM'', 2)]"

definition bgrt_statuses_5_1 :: constants where [constants]:
  "bgrt_statuses_5_1 =
     [(''BGRT_STATUS_NOT_DISPLAYED'', 0), (''BGRT_STATUS_DISPLAYED'', 1)]"

definition fpdt_types_5_1 :: constants where [constants]:
  "fpdt_types_5_1 =
     [(''FPDT_RECORD_TYPE_FIRMWARE_BASIC_BOOT_POINTER'', 0),
      (''FPDT_RECORD_TYPE_S3_PERFORMANCE_TABLE_POINTER'', 1)]"

definition fpdt_revisions_5_1 :: constants where [constants]:
  "fpdt_revisions_5_1 =
     [(''FPDT_RECORD_REVISION_FIRMWARE_BASIC_BOOT_POINTER'', 1),
      (''FPDT_RECORD_REVISION_S3_PERFORMANCE_TABLE_POINTER'', 1)]"

definition fpdt_runtime_types_5_1 :: constants where [constants]:
  "fpdt_runtime_types_5_1 =
     [(''FPDT_RUNTIME_RECORD_TYPE_S3_RESUME'', 0), (''FPDT_RUNTIME_RECORD_TYPE_S3_SUSPEND'', 1),
      (''FPDT_RUNTIME_RECORD_TYPE_FIRMWARE_BASIC_BOOT'', 2)]"

definition fpdt_runtime_revisions_5_1 :: constants where [constants]:
  "fpdt_runtime_revisions_5_1 =
     [(''FPDT_RUNTIME_RECORD_REVISION_S3_RESUME'', 1),
      (''FPDT_RUNTIME_RECORD_REVISION_S3_SUSPEND'', 1),
      (''FPDT_RUNTIME_RECORD_REVISION_FIRMWARE_BASIC_BOOT'', 2)]"

definition gtdt_timer_flags_5_1 :: constants where [constants]:
  "gtdt_timer_flags_5_1 =
     [(''GTDT_TIMER_FLAG_TIMER_INTERRUPT_MODE'', 2 ^ 0),
      (''GTDT_TIMER_FLAG_TIMER_INTERRUPT_POLARITY'', 2 ^ 1),
      (''GTDT_TIMER_FLAG_ALWAYS_ON_CAPABILITY'', 2 ^ 2)]"

definition gtdt_types_5_1 :: constants where [constants]:
  "gtdt_types_5_1 =
     [(''GTDT_GT_BLOCK'', 0), (''GTDT_SBSA_GENERIC_WATCHDOG'', 1)]"

definition gt_block_timer_flags_5_1 :: constants where [constants]:
  "gt_block_timer_flags_5_1 =
     [(''GTDT_GT_BLOCK_TIMER_FLAG_TIMER_INTERRUPT_MODE'', 2 ^ 0),
      (''GTDT_GT_BLOCK_TIMER_FLAG_TIMER_INTERRUPT_POLARITY'', 2 ^ 1)]"

definition gt_block_common_flags_5_1 :: constants where [constants]:
  "gt_block_common_flags_5_1 =
     [(''GTDT_GT_BLOCK_COMMON_FLAG_SECURE_TIMER'', 2 ^ 0),
      (''GTDT_GT_BLOCK_COMMON_FLAG_ALWAYS_ON_CAPABILITY'', 2 ^ 1)]"

definition gtdt_watchdog_flags_5_1 :: constants where [constants]:
  "gtdt_watchdog_flags_5_1 =
     [(''GTDT_SBSA_GENERIC_WATCHDOG_FLAG_TIMER_INTERRUPT_MODE'', 2 ^ 0),
      (''GTDT_SBSA_GENERIC_WATCHDOG_FLAG_TIMER_INTERRUPT_POLARITY'', 2 ^ 1),
      (''GTDT_SBSA_GENERIC_WATCHDOG_FLAG_SECURE_TIMER'', 2 ^ 2)]"

definition error_severities_5_1 :: constants where [constants]:
  "error_severities_5_1 =
     [(''ERROR_SEVERITY_CORRECTABLE'', 0), (''ERROR_SEVERITY_FATAL'', 1),
      (''ERROR_SEVERITY_CORRECTED'', 2), (''ERROR_SEVERITY_NONE'', 3)]"

definition hest_types_5_1 :: constants where [constants]:
  "hest_types_5_1 =
     [(''IA32_ARCHITECTURE_MACHINE_CHECK_EXCEPTION'', 0),
      (''IA32_ARCHITECTURE_CORRECTED_MACHINE_CHECK'', 1), (''IA32_ARCHITECTURE_NMI_ERROR'', 2),
      (''PCI_EXPRESS_ROOT_PORT_AER'', 6), (''PCI_EXPRESS_DEVICE_AER'', 7),
      (''PCI_EXPRESS_BRIDGE_AER'', 8), (''GENERIC_HARDWARE_ERROR'', 9)]"

definition hest_flags_5_1 :: constants where [constants]:
  "hest_flags_5_1 =
     [(''ERROR_SOURCE_FLAG_FIRMWARE_FIRST'', 2 ^ 0), (''ERROR_SOURCE_FLAG_GLOBAL'', 2 ^ 1)]"

definition machine_check_formats_5_1 :: constants where [constants]:
  "machine_check_formats_5_1 =
     [(''IA32_ARCHITECTURE_MACHINE_CHECK_ERROR_DATA_FORMAT_IA32'', 0),
      (''IA32_ARCHITECTURE_MACHINE_CHECK_ERROR_DATA_FORMAT_INTEL64'', 1),
      (''IA32_ARCHITECTURE_MACHINE_CHECK_ERROR_DATA_FORMAT_AMD64'', 2)]"

definition hest_notifications_5_1 :: constants where [constants]:
  "hest_notifications_5_1 =
     [(''HARDWARE_ERROR_NOTIFICATION_POLLED'', 0),
      (''HARDWARE_ERROR_NOTIFICATION_EXTERNAL_INTERRUPT'', 1),
      (''HARDWARE_ERROR_NOTIFICATION_LOCAL_INTERRUPT'', 2),
      (''HARDWARE_ERROR_NOTIFICATION_SCI'', 3), (''HARDWARE_ERROR_NOTIFICATION_NMI'', 4)]"

definition erst_actions_5_1 :: constants where [constants]:
  "erst_actions_5_1 =
     [(''ERST_BEGIN_WRITE_OPERATION'', 0), (''ERST_BEGIN_READ_OPERATION'', 1),
      (''ERST_BEGIN_CLEAR_OPERATION'', 2), (''ERST_END_OPERATION'', 3),
      (''ERST_SET_RECORD_OFFSET'', 4), (''ERST_EXECUTE_OPERATION'', 5),
      (''ERST_CHECK_BUSY_STATUS'', 6), (''ERST_GET_COMMAND_STATUS'', 7),
      (''ERST_GET_RECORD_IDENTIFIER'', 8), (''ERST_SET_RECORD_IDENTIFIER'', 9),
      (''ERST_GET_RECORD_COUNT'', 0xA), (''ERST_BEGIN_DUMMY_WRITE_OPERATION'', 0xB),
      (''ERST_GET_ERROR_LOG_ADDRESS_RANGE'', 0xD),
      (''ERST_GET_ERROR_LOG_ADDRESS_RANGE_LENGTH'', 0xE),
      (''ERST_GET_ERROR_LOG_ADDRESS_RANGE_ATTRIBUTES'', 0xF)]"

definition erst_statuses_5_1 :: constants where [constants]:
  "erst_statuses_5_1 =
     [(''ERST_STATUS_SUCCESS'', 0), (''ERST_STATUS_NOT_ENOUGH_SPACE'', 1),
      (''ERST_STATUS_HARDWARE_NOT_AVAILABLE'', 2), (''ERST_STATUS_FAILED'', 3),
      (''ERST_STATUS_RECORD_STORE_EMPTY'', 4), (''ERST_STATUS_RECORD_NOT_FOUND'', 5)]"

definition erst_instructions_5_1 :: constants where [constants]:
  "erst_instructions_5_1 =
     [(''ERST_READ_REGISTER'', 0), (''ERST_READ_REGISTER_VALUE'', 1),
      (''ERST_WRITE_REGISTER'', 2), (''ERST_WRITE_REGISTER_VALUE'', 3), (''ERST_NOOP'', 4),
      (''ERST_LOAD_VAR1'', 5), (''ERST_LOAD_VAR2'', 6), (''ERST_STORE_VAR1'', 7),
      (''ERST_ADD'', 8), (''ERST_SUBTRACT'', 9), (''ERST_ADD_VALUE'', 0xA),
      (''ERST_SUBTRACT_VALUE'', 0xB), (''ERST_STALL'', 0xC), (''ERST_STALL_WHILE_TRUE'', 0xD),
      (''ERST_SKIP_NEXT_INSTRUCTION_IF_TRUE'', 0xE), (''ERST_GOTO'', 0xF),
      (''ERST_SET_SRC_ADDRESS_BASE'', 0x10), (''ERST_SET_DST_ADDRESS_BASE'', 0x11),
      (''ERST_MOVE_DATA'', 0x12)]"

definition einj_actions_5_1 :: constants where [constants]:
  "einj_actions_5_1 =
     [(''EINJ_BEGIN_INJECTION_OPERATION'', 0), (''EINJ_GET_TRIGGER_ERROR_ACTION_TABLE'', 1),
      (''EINJ_SET_ERROR_TYPE'', 2), (''EINJ_GET_ERROR_TYPE'', 3), (''EINJ_END_OPERATION'', 4),
      (''EINJ_EXECUTE_OPERATION'', 5), (''EINJ_CHECK_BUSY_STATUS'', 6),
      (''EINJ_GET_COMMAND_STATUS'', 7), (''EINJ_TRIGGER_ERROR'', 0xFF)]"

definition einj_statuses_5_1 :: constants where [constants]:
  "einj_statuses_5_1 =
     [(''EINJ_STATUS_SUCCESS'', 0), (''EINJ_STATUS_UNKNOWN_FAILURE'', 1),
      (''EINJ_STATUS_INVALID_ACCESS'', 2)]"

definition einj_errors_5_1 :: constants where [constants]:
  "einj_errors_5_1 =
     [(''EINJ_ERROR_PROCESSOR_CORRECTABLE'', 2 ^ 0),
      (''EINJ_ERROR_PROCESSOR_UNCORRECTABLE_NONFATAL'', 2 ^ 1),
      (''EINJ_ERROR_PROCESSOR_UNCORRECTABLE_FATAL'', 2 ^ 2),
      (''EINJ_ERROR_MEMORY_CORRECTABLE'', 2 ^ 3),
      (''EINJ_ERROR_MEMORY_UNCORRECTABLE_NONFATAL'', 2 ^ 4),
      (''EINJ_ERROR_MEMORY_UNCORRECTABLE_FATAL'', 2 ^ 5),
      (''EINJ_ERROR_PCI_EXPRESS_CORRECTABLE'', 2 ^ 6),
      (''EINJ_ERROR_PCI_EXPRESS_UNCORRECTABLE_NONFATAL'', 2 ^ 7),
      (''EINJ_ERROR_PCI_EXPRESS_UNCORRECTABLE_FATAL'', 2 ^ 8),
      (''EINJ_ERROR_PLATFORM_CORRECTABLE'', 2 ^ 9),
      (''EINJ_ERROR_PLATFORM_UNCORRECTABLE_NONFATAL'', 2 ^ 10),
      (''EINJ_ERROR_PLATFORM_UNCORRECTABLE_FATAL'', 2 ^ 11)]"

definition einj_instructions_5_1 :: constants where [constants]:
  "einj_instructions_5_1 =
     [(''EINJ_READ_REGISTER'', 0), (''EINJ_READ_REGISTER_VALUE'', 1),
      (''EINJ_WRITE_REGISTER'', 2), (''EINJ_WRITE_REGISTER_VALUE'', 3), (''EINJ_NOOP'', 4)]"

definition first_table_signatures_5_1 :: signatures where [constants]:
  "first_table_signatures_5_1 =
     [(''MULTIPLE_APIC_DESCRIPTION_TABLE'', ''APIC''), (''BOOT_ERROR_RECORD_TABLE'', ''BERT''),
      (''BOOT_GRAPHICS_RESOURCE_TABLE'', ''BGRT''),
      (''CORRECTED_PLATFORM_ERROR_POLLING_TABLE'', ''CPEP''),
      (''DIFFERENTIATED_SYSTEM_DESCRIPTION_TABLE'', ''DSDT''),
      (''EMBEDDED_CONTROLLER_BOOT_RESOURCES_TABLE'', ''ECDT''),
      (''ERROR_INJECTION_TABLE'', ''EINJ''), (''ERROR_RECORD_SERIALIZATION_TABLE'', ''ERST''),
      (''FIXED_ACPI_DESCRIPTION_TABLE'', ''FACP''),
      (''FIRMWARE_ACPI_CONTROL_STRUCTURE'', ''FACS''),
      (''FIRMWARE_PERFORMANCE_DATA_TABLE'', ''FPDT''),
      (''GENERIC_TIMER_DESCRIPTION_TABLE'', ''GTDT''),
      (''HARDWARE_ERROR_SOURCE_TABLE'', ''HEST''), (''MEMORY_POWER_STATE_TABLE'', ''MPST''),
      (''MAXIMUM_SYSTEM_CHARACTERISTICS_TABLE'', ''MSCT''),
      (''PLATFORM_MEMORY_TOPOLOGY_TABLE'', ''PMTT''),
      (''PERSISTENT_SYSTEM_DESCRIPTION_TABLE'', ''PSDT''), (''ACPI_RAS_FEATURE_TABLE'', ''RASF''),
      (''ROOT_SYSTEM_DESCRIPTION_TABLE'', ''RSDT''),
      (''SMART_BATTERY_SPECIFICATION_TABLE'', ''SBST''),
      (''SYSTEM_LOCALITY_INFORMATION_TABLE'', ''SLIT''),
      (''SYSTEM_RESOURCE_AFFINITY_TABLE'', ''SRAT''),
      (''SECONDARY_SYSTEM_DESCRIPTION_TABLE'', ''SSDT''),
      (''EXTENDED_SYSTEM_DESCRIPTION_TABLE'', ''XSDT''), (''SIMPLE_BOOT_FLAG_TABLE'', ''BOOT''),
      (''CORE_SYSTEM_RESOURCE_TABLE'', ''CSRT''), (''DEBUG_PORT_2_TABLE'', ''DBG2''),
      (''DEBUG_PORT_TABLE'', ''DBGP''), (''DMA_REMAPPING_TABLE'', ''DMAR''),
      (''DYNAMIC_ROOT_OF_TRUST_FOR_MEASUREMENT_TABLE'', ''DRTM'')]"

definition further_table_signatures_5_1 :: signatures where [constants]:
  "further_table_signatures_5_1 =
     [(''EVENT_TIMER_DESCRIPTION_TABLE'', ''ETDT''),
      (''HIGH_PRECISION_EVENT_TIMER_TABLE'', ''HPET''), (''ISCSI_BOOT_FIRMWARE_TABLE'', ''iBFT''),
      (''IO_VIRTUALIZATION_REPORTING_STRUCTURE'', ''IVRS''),
      (''IO_LOW_POWER_IDLE_TABLE_STRUCTURE'', ''LPIT''),
      (''PCI_EXPRESS_MEMORY_MAPPED_CONFIGURATION_SPACE_BASE_ADDRESS_DESCRIPTION_TABLE'', ''MCFG''),
      (''MANAGEMENT_CONTROLLER_HOST_INTERFACE_TABLE'', ''MCHI''),
      (''DATA_MANAGEMENT_TABLE'', ''MSDM''),
      (''PLATFORM_COMMUNICATIONS_CHANNEL_TABLE'', ''PCCT''),
      (''SOFTWARE_LICENSING_TABLE'', ''SLIC''),
      (''SERIAL_PORT_CONSOLE_REDIRECTION_TABLE'', ''SPCR''),
      (''SERVER_PLATFORM_MANAGEMENT_INTERFACE_TABLE'', ''SPMI''),
      (''TRUSTED_COMPUTING_PLATFORM_ALLIANCE_CAPABILITIES_TABLE'', ''TCPA''),
      (''TRUSTED_COMPUTING_PLATFORM_2_TABLE'', ''TPM2''), (''UEFI_ACPI_DATA_TABLE'', ''UEFI''),
      (''WINDOWS_ACPI_EMULATED_DEVICES_TABLE'', ''WAET''), (''WATCHDOG_ACTION_TABLE'', ''WDAT''),
      (''WATCHDOG_RESOURCE_TABLE'', ''WDRT''), (''PLATFORM_BINARY_TABLE'', ''WPBT'')]"

definition table_signatures_5_1 :: signatures where [constants]:
  "table_signatures_5_1 = first_table_signatures_5_1 @ further_table_signatures_5_1"

definition constants_5_1 :: constants where [constants]:
  "constants_5_1 =
     address_space_ids_5_1 @ access_sizes_5_1 @ pm_profiles_5_1 @ ia_boot_flags_5_1 @
     arm_boot_flags_5_1 @ fadt_flags_5_1 @ facs_flags_5_1 @ madt_types_5_1 @
     madt_override_flags_5_1 @ gic_flags_5_1 @ gic_versions_5_1 @ srat_types_5_1 @
     srat_memory_flags_5_1 @ rasf_capabilities_5_1 @ rasf_commands_5_1 @ mpst_commands_5_1
     @ mpst_structure_flags_5_1 @ mpst_state_flags_5_1 @ pmmt_types_5_1 @ bgrt_statuses_5_1
     @ fpdt_types_5_1 @ fpdt_revisions_5_1 @ fpdt_runtime_types_5_1 @
     fpdt_runtime_revisions_5_1 @ gtdt_timer_flags_5_1 @ gtdt_types_5_1 @
     gt_block_timer_flags_5_1 @ gt_block_common_flags_5_1 @ gtdt_watchdog_flags_5_1 @
     error_severities_5_1 @ hest_types_5_1 @ hest_flags_5_1 @ machine_check_formats_5_1 @
     hest_notifications_5_1 @ erst_actions_5_1 @ erst_statuses_5_1 @ erst_instructions_5_1
     @ einj_actions_5_1 @ einj_statuses_5_1 @ einj_errors_5_1 @ einj_instructions_5_1"

section \<open>Acpi60.h\<close>

definition address_space_ids_6_0 :: constants where [constants]:
  "address_space_ids_6_0 =
     [(''SYSTEM_MEMORY'', 0), (''SYSTEM_IO'', 1), (''PCI_CONFIGURATION_SPACE'', 2),
      (''EMBEDDED_CONTROLLER'', 3), (''SMBUS'', 4), (''PLATFORM_COMMUNICATION_CHANNEL'', 0xA),
      (''FUNCTIONAL_FIXED_HARDWARE'', 0x7F)]"

definition access_sizes_6_0 :: constants where [constants]:
  "access_sizes_6_0 =
     [(''UNDEFINED'', 0), (''BYTE'', 1), (''WORD'', 2), (''DWORD'', 3), (''QWORD'', 4)]"

definition pm_profiles_6_0 :: constants where [constants]:
  "pm_profiles_6_0 =
     [(''PM_PROFILE_UNSPECIFIED'', 0), (''PM_PROFILE_DESKTOP'', 1), (''PM_PROFILE_MOBILE'', 2),
      (''PM_PROFILE_WORKSTATION'', 3), (''PM_PROFILE_ENTERPRISE_SERVER'', 4),
      (''PM_PROFILE_SOHO_SERVER'', 5), (''PM_PROFILE_APPLIANCE_PC'', 6),
      (''PM_PROFILE_PERFORMANCE_SERVER'', 7), (''PM_PROFILE_TABLET'', 8)]"

definition ia_boot_flags_6_0 :: constants where [constants]:
  "ia_boot_flags_6_0 =
     [(''LEGACY_DEVICES'', 2 ^ 0), (''8042'', 2 ^ 1), (''VGA_NOT_PRESENT'', 2 ^ 2),
      (''MSI_NOT_SUPPORTED'', 2 ^ 3), (''PCIE_ASPM_CONTROLS'', 2 ^ 4),
      (''CMOS_RTC_NOT_PRESENT'', 2 ^ 5)]"

definition arm_boot_flags_6_0 :: constants where [constants]:
  "arm_boot_flags_6_0 =
     [(''ARM_PSCI_COMPLIANT'', 2 ^ 0), (''ARM_PSCI_USE_HVC'', 2 ^ 1)]"

definition fadt_flags_6_0 :: constants where [constants]:
  "fadt_flags_6_0 =
     [(''WBINVD'', 2 ^ 0), (''WBINVD_FLUSH'', 2 ^ 1), (''PROC_C1'', 2 ^ 2),
      (''P_LVL2_UP'', 2 ^ 3), (''PWR_BUTTON'', 2 ^ 4), (''SLP_BUTTON'', 2 ^ 5),
      (''FIX_RTC'', 2 ^ 6), (''RTC_S4'', 2 ^ 7), (''TMR_VAL_EXT'', 2 ^ 8), (''DCK_CAP'', 2 ^ 9),
      (''RESET_REG_SUP'', 2 ^ 10), (''SEALED_CASE'', 2 ^ 11), (''HEADLESS'', 2 ^ 12),
      (''CPU_SW_SLP'', 2 ^ 13), (''PCI_EXP_WAK'', 2 ^ 14), (''USE_PLATFORM_CLOCK'', 2 ^ 15),
      (''S4_RTC_STS_VALID'', 2 ^ 16), (''REMOTE_POWER_ON_CAPABLE'', 2 ^ 17),
      (''FORCE_APIC_CLUSTER_MODEL'', 2 ^ 18),
      (''FORCE_APIC_PHYSICAL_DESTINATION_MODE'', 2 ^ 19), (''HW_REDUCED_ACPI'', 2 ^ 20),
      (''LOW_POWER_S0_IDLE_CAPABLE'', 2 ^ 21)]"

definition facs_flags_6_0 :: constants where [constants]:
  "facs_flags_6_0 =
     [(''S4BIOS_F'', 2 ^ 0), (''64BIT_WAKE_SUPPORTED_F'', 2 ^ 1)]"

definition madt_types_6_0 :: constants where [constants]:
  "madt_types_6_0 =
     [(''PROCESSOR_LOCAL_APIC'', 0), (''IO_APIC'', 1), (''INTERRUPT_SOURCE_OVERRIDE'', 2),
      (''NON_MASKABLE_INTERRUPT_SOURCE'', 3), (''LOCAL_APIC_NMI'', 4),
      (''LOCAL_APIC_ADDRESS_OVERRIDE'', 5), (''IO_SAPIC'', 6), (''LOCAL_SAPIC'', 7),
      (''PLATFORM_INTERRUPT_SOURCES'', 8), (''PROCESSOR_LOCAL_X2APIC'', 9),
      (''LOCAL_X2APIC_NMI'', 0xA), (''GIC'', 0xB), (''GICD'', 0xC), (''GIC_MSI_FRAME'', 0xD),
      (''GICR'', 0xE), (''GIC_ITS'', 0xF)]"

definition madt_override_flags_6_0 :: constants where [constants]:
  "madt_override_flags_6_0 =
     [(''POLARITY'', push_bit 0 3), (''TRIGGER_MODE'', push_bit 2 3)]"

definition gic_flags_6_0 :: constants where [constants]:
  "gic_flags_6_0 =
     [(''GIC_ENABLED'', 2 ^ 0), (''PERFORMANCE_INTERRUPT_MODEL'', 2 ^ 1),
      (''VGIC_MAINTENANCE_INTERRUPT_MODE_FLAGS'', 2 ^ 2)]"

definition gic_versions_6_0 :: constants where [constants]:
  "gic_versions_6_0 =
     [(''GIC_V1'', 1), (''GIC_V2'', 2), (''GIC_V3'', 3), (''GIC_V4'', 4)]"

definition srat_types_6_0 :: constants where [constants]:
  "srat_types_6_0 =
     [(''PROCESSOR_LOCAL_APIC_SAPIC_AFFINITY'', 0), (''MEMORY_AFFINITY'', 1),
      (''PROCESSOR_LOCAL_X2APIC_AFFINITY'', 2), (''GICC_AFFINITY'', 3)]"

definition srat_memory_flags_6_0 :: constants where [constants]:
  "srat_memory_flags_6_0 =
     [(''MEMORY_ENABLED'', 2 ^ 0), (''MEMORY_HOT_PLUGGABLE'', 2 ^ 1),
      (''MEMORY_NONVOLATILE'', 2 ^ 2)]"

definition rasf_capabilities_6_0 :: constants where [constants]:
  "rasf_capabilities_6_0 =
     [(''RASF_PLATFORM_RAS_CAPABILITY_HARDWARE_BASED_PATROL_SCRUB_SUPPOTED'', 1),
      (''RASF_PLATFORM_RAS_CAPABILITY_HARDWARE_BASED_PATROL_SCRUB_SUPPOTED_AND_EXPOSED_TO_SOFTWARE'', 2)]"

definition rasf_commands_6_0 :: constants where [constants]:
  "rasf_commands_6_0 =
     [(''RASF_PATROL_SCRUB_COMMAND_GET_PATROL_PARAMETERS'', 1),
      (''RASF_PATROL_SCRUB_COMMAND_START_PATROL_SCRUBBER'', 2),
      (''RASF_PATROL_SCRUB_COMMAND_STOP_PATROL_SCRUBBER'', 3)]"

definition mpst_commands_6_0 :: constants where [constants]:
  "mpst_commands_6_0 =
     [(''MPST_MEMORY_POWER_COMMAND_GET_MEMORY_POWER_STATE'', 1),
      (''MPST_MEMORY_POWER_COMMAND_SET_MEMORY_POWER_STATE'', 2),
      (''MPST_MEMORY_POWER_COMMAND_GET_AVERAGE_POWER_CONSUMED'', 3),
      (''MPST_MEMORY_POWER_COMMAND_GET_MEMORY_ENERGY_CONSUMED'', 4)]"

definition mpst_structure_flags_6_0 :: constants where [constants]:
  "mpst_structure_flags_6_0 =
     [(''MPST_MEMORY_POWER_STRUCTURE_FLAG_ENABLE'', 1),
      (''MPST_MEMORY_POWER_STRUCTURE_FLAG_POWER_MANAGED'', 2),
      (''MPST_MEMORY_POWER_STRUCTURE_FLAG_HOT_PLUGGABLE'', 4)]"

definition mpst_state_flags_6_0 :: constants where [constants]:
  "mpst_state_flags_6_0 =
     [(''MPST_MEMORY_POWER_STATE_CHARACTERISTICS_STRUCTURE_FLAG_MEMORY_CONTENT_PRESERVED'', 1),
      (''MPST_MEMORY_POWER_STATE_CHARACTERISTICS_STRUCTURE_FLAG_AUTONOMOUS_MEMORY_POWER_STATE_ENTRY'', 2),
      (''MPST_MEMORY_POWER_STATE_CHARACTERISTICS_STRUCTURE_FLAG_AUTONOMOUS_MEMORY_POWER_STATE_EXIT'', 4)]"

definition pmmt_types_6_0 :: constants where [constants]:
  "pmmt_types_6_0 =
     [(''PMMT_MEMORY_AGGREGATOR_DEVICE_TYPE_SOCKET'', 0),
      (''PMMT_MEMORY_AGGREGATOR_DEVICE_TYPE_MEMORY_CONTROLLER'', 1),
      (''PMMT_MEMORY_AGGREGATOR_DEVICE_TYPE_DIMM'', 2)]"

definition bgrt_statuses_6_0 :: constants where [constants]:
  "bgrt_statuses_6_0 =
     [(''BGRT_STATUS_NOT_DISPLAYED'', 0), (''BGRT_STATUS_DISPLAYED'', 1)]"

definition fpdt_types_6_0 :: constants where [constants]:
  "fpdt_types_6_0 =
     [(''FPDT_RECORD_TYPE_FIRMWARE_BASIC_BOOT_POINTER'', 0),
      (''FPDT_RECORD_TYPE_S3_PERFORMANCE_TABLE_POINTER'', 1)]"

definition fpdt_revisions_6_0 :: constants where [constants]:
  "fpdt_revisions_6_0 =
     [(''FPDT_RECORD_REVISION_FIRMWARE_BASIC_BOOT_POINTER'', 1),
      (''FPDT_RECORD_REVISION_S3_PERFORMANCE_TABLE_POINTER'', 1)]"

definition fpdt_runtime_types_6_0 :: constants where [constants]:
  "fpdt_runtime_types_6_0 =
     [(''FPDT_RUNTIME_RECORD_TYPE_S3_RESUME'', 0), (''FPDT_RUNTIME_RECORD_TYPE_S3_SUSPEND'', 1),
      (''FPDT_RUNTIME_RECORD_TYPE_FIRMWARE_BASIC_BOOT'', 2)]"

definition fpdt_runtime_revisions_6_0 :: constants where [constants]:
  "fpdt_runtime_revisions_6_0 =
     [(''FPDT_RUNTIME_RECORD_REVISION_S3_RESUME'', 1),
      (''FPDT_RUNTIME_RECORD_REVISION_S3_SUSPEND'', 1),
      (''FPDT_RUNTIME_RECORD_REVISION_FIRMWARE_BASIC_BOOT'', 2)]"

definition gtdt_timer_flags_6_0 :: constants where [constants]:
  "gtdt_timer_flags_6_0 =
     [(''GTDT_TIMER_FLAG_TIMER_INTERRUPT_MODE'', 2 ^ 0),
      (''GTDT_TIMER_FLAG_TIMER_INTERRUPT_POLARITY'', 2 ^ 1),
      (''GTDT_TIMER_FLAG_ALWAYS_ON_CAPABILITY'', 2 ^ 2)]"

definition gtdt_types_6_0 :: constants where [constants]:
  "gtdt_types_6_0 =
     [(''GTDT_GT_BLOCK'', 0), (''GTDT_SBSA_GENERIC_WATCHDOG'', 1)]"

definition gt_block_timer_flags_6_0 :: constants where [constants]:
  "gt_block_timer_flags_6_0 =
     [(''GTDT_GT_BLOCK_TIMER_FLAG_TIMER_INTERRUPT_MODE'', 2 ^ 0),
      (''GTDT_GT_BLOCK_TIMER_FLAG_TIMER_INTERRUPT_POLARITY'', 2 ^ 1)]"

definition gt_block_common_flags_6_0 :: constants where [constants]:
  "gt_block_common_flags_6_0 =
     [(''GTDT_GT_BLOCK_COMMON_FLAG_SECURE_TIMER'', 2 ^ 0),
      (''GTDT_GT_BLOCK_COMMON_FLAG_ALWAYS_ON_CAPABILITY'', 2 ^ 1)]"

definition gtdt_watchdog_flags_6_0 :: constants where [constants]:
  "gtdt_watchdog_flags_6_0 =
     [(''GTDT_SBSA_GENERIC_WATCHDOG_FLAG_TIMER_INTERRUPT_MODE'', 2 ^ 0),
      (''GTDT_SBSA_GENERIC_WATCHDOG_FLAG_TIMER_INTERRUPT_POLARITY'', 2 ^ 1),
      (''GTDT_SBSA_GENERIC_WATCHDOG_FLAG_SECURE_TIMER'', 2 ^ 2)]"

definition nfit_types_6_0 :: constants where [constants]:
  "nfit_types_6_0 =
     [(''NFIT_SYSTEM_PHYSICAL_ADDRESS_RANGE_STRUCTURE_TYPE'', 0),
      (''NFIT_MEMORY_DEVICE_TO_SYSTEM_ADDRESS_RANGE_MAP_STRUCTURE_TYPE'', 1),
      (''NFIT_INTERLEAVE_STRUCTURE_TYPE'', 2),
      (''NFIT_SMBIOS_MANAGEMENT_INFORMATION_STRUCTURE_TYPE'', 3),
      (''NFIT_NVDIMM_CONTROL_REGION_STRUCTURE_TYPE'', 4),
      (''NFIT_NVDIMM_BLOCK_DATA_WINDOW_REGION_STRUCTURE_TYPE'', 5),
      (''NFIT_FLUSH_HINT_ADDRESS_STRUCTURE_TYPE'', 6)]"

definition nfit_range_flags_6_0 :: constants where [constants]:
  "nfit_range_flags_6_0 =
     [(''NFIT_SYSTEM_PHYSICAL_ADDRESS_RANGE_FLAGS_CONTROL_REGION_FOR_MANAGEMENT'', 2 ^ 0),
      (''NFIT_SYSTEM_PHYSICAL_ADDRESS_RANGE_FLAGS_PROXIMITY_DOMAIN_VALID'', 2 ^ 1)]"

definition nfit_state_flags_6_0 :: constants where [constants]:
  "nfit_state_flags_6_0 =
     [(''NFIT_MEMORY_DEVICE_STATE_FLAGS_PREVIOUS_SAVE_FAIL'', 2 ^ 0),
      (''NFIT_MEMORY_DEVICE_STATE_FLAGS_LAST_RESTORE_FAIL'', 2 ^ 1),
      (''NFIT_MEMORY_DEVICE_STATE_FLAGS_PLATFORM_FLUSH_FAIL'', 2 ^ 2),
      (''NFIT_MEMORY_DEVICE_STATE_FLAGS_NOT_ARMED_PRIOR_TO_OSPM_HAND_OFF'', 2 ^ 3),
      (''NFIT_MEMORY_DEVICE_STATE_FLAGS_SMART_HEALTH_EVENTS_PRIOR_OSPM_HAND_OFF'', 2 ^ 4),
      (''NFIT_MEMORY_DEVICE_STATE_FLAGS_FIRMWARE_ENABLED_TO_NOTIFY_OSPM_ON_SMART_HEALTH_EVENTS'', 2 ^ 5)]"

definition error_severities_6_0 :: constants where [constants]:
  "error_severities_6_0 =
     [(''ERROR_SEVERITY_CORRECTABLE'', 0), (''ERROR_SEVERITY_FATAL'', 1),
      (''ERROR_SEVERITY_CORRECTED'', 2), (''ERROR_SEVERITY_NONE'', 3)]"

definition hest_types_6_0 :: constants where [constants]:
  "hest_types_6_0 =
     [(''IA32_ARCHITECTURE_MACHINE_CHECK_EXCEPTION'', 0),
      (''IA32_ARCHITECTURE_CORRECTED_MACHINE_CHECK'', 1), (''IA32_ARCHITECTURE_NMI_ERROR'', 2),
      (''PCI_EXPRESS_ROOT_PORT_AER'', 6), (''PCI_EXPRESS_DEVICE_AER'', 7),
      (''PCI_EXPRESS_BRIDGE_AER'', 8), (''GENERIC_HARDWARE_ERROR'', 9)]"

definition hest_flags_6_0 :: constants where [constants]:
  "hest_flags_6_0 =
     [(''ERROR_SOURCE_FLAG_FIRMWARE_FIRST'', 2 ^ 0), (''ERROR_SOURCE_FLAG_GLOBAL'', 2 ^ 1)]"

definition machine_check_formats_6_0 :: constants where [constants]:
  "machine_check_formats_6_0 =
     [(''IA32_ARCHITECTURE_MACHINE_CHECK_ERROR_DATA_FORMAT_IA32'', 0),
      (''IA32_ARCHITECTURE_MACHINE_CHECK_ERROR_DATA_FORMAT_INTEL64'', 1),
      (''IA32_ARCHITECTURE_MACHINE_CHECK_ERROR_DATA_FORMAT_AMD64'', 2)]"

definition hest_notifications_6_0 :: constants where [constants]:
  "hest_notifications_6_0 =
     [(''HARDWARE_ERROR_NOTIFICATION_POLLED'', 0),
      (''HARDWARE_ERROR_NOTIFICATION_EXTERNAL_INTERRUPT'', 1),
      (''HARDWARE_ERROR_NOTIFICATION_LOCAL_INTERRUPT'', 2),
      (''HARDWARE_ERROR_NOTIFICATION_SCI'', 3), (''HARDWARE_ERROR_NOTIFICATION_NMI'', 4),
      (''HARDWARE_ERROR_NOTIFICATION_CMCI'', 5), (''HARDWARE_ERROR_NOTIFICATION_MCE'', 6),
      (''HARDWARE_ERROR_NOTIFICATION_GPIO_SIGNAL'', 7)]"

definition erst_actions_6_0 :: constants where [constants]:
  "erst_actions_6_0 =
     [(''ERST_BEGIN_WRITE_OPERATION'', 0), (''ERST_BEGIN_READ_OPERATION'', 1),
      (''ERST_BEGIN_CLEAR_OPERATION'', 2), (''ERST_END_OPERATION'', 3),
      (''ERST_SET_RECORD_OFFSET'', 4), (''ERST_EXECUTE_OPERATION'', 5),
      (''ERST_CHECK_BUSY_STATUS'', 6), (''ERST_GET_COMMAND_STATUS'', 7),
      (''ERST_GET_RECORD_IDENTIFIER'', 8), (''ERST_SET_RECORD_IDENTIFIER'', 9),
      (''ERST_GET_RECORD_COUNT'', 0xA), (''ERST_BEGIN_DUMMY_WRITE_OPERATION'', 0xB),
      (''ERST_GET_ERROR_LOG_ADDRESS_RANGE'', 0xD),
      (''ERST_GET_ERROR_LOG_ADDRESS_RANGE_LENGTH'', 0xE),
      (''ERST_GET_ERROR_LOG_ADDRESS_RANGE_ATTRIBUTES'', 0xF)]"

definition erst_statuses_6_0 :: constants where [constants]:
  "erst_statuses_6_0 =
     [(''ERST_STATUS_SUCCESS'', 0), (''ERST_STATUS_NOT_ENOUGH_SPACE'', 1),
      (''ERST_STATUS_HARDWARE_NOT_AVAILABLE'', 2), (''ERST_STATUS_FAILED'', 3),
      (''ERST_STATUS_RECORD_STORE_EMPTY'', 4), (''ERST_STATUS_RECORD_NOT_FOUND'', 5)]"

definition erst_instructions_6_0 :: constants where [constants]:
  "erst_instructions_6_0 =
     [(''ERST_READ_REGISTER'', 0), (''ERST_READ_REGISTER_VALUE'', 1),
      (''ERST_WRITE_REGISTER'', 2), (''ERST_WRITE_REGISTER_VALUE'', 3), (''ERST_NOOP'', 4),
      (''ERST_LOAD_VAR1'', 5), (''ERST_LOAD_VAR2'', 6), (''ERST_STORE_VAR1'', 7),
      (''ERST_ADD'', 8), (''ERST_SUBTRACT'', 9), (''ERST_ADD_VALUE'', 0xA),
      (''ERST_SUBTRACT_VALUE'', 0xB), (''ERST_STALL'', 0xC), (''ERST_STALL_WHILE_TRUE'', 0xD),
      (''ERST_SKIP_NEXT_INSTRUCTION_IF_TRUE'', 0xE), (''ERST_GOTO'', 0xF),
      (''ERST_SET_SRC_ADDRESS_BASE'', 0x10), (''ERST_SET_DST_ADDRESS_BASE'', 0x11),
      (''ERST_MOVE_DATA'', 0x12)]"

definition einj_actions_6_0 :: constants where [constants]:
  "einj_actions_6_0 =
     [(''EINJ_BEGIN_INJECTION_OPERATION'', 0), (''EINJ_GET_TRIGGER_ERROR_ACTION_TABLE'', 1),
      (''EINJ_SET_ERROR_TYPE'', 2), (''EINJ_GET_ERROR_TYPE'', 3), (''EINJ_END_OPERATION'', 4),
      (''EINJ_EXECUTE_OPERATION'', 5), (''EINJ_CHECK_BUSY_STATUS'', 6),
      (''EINJ_GET_COMMAND_STATUS'', 7), (''EINJ_TRIGGER_ERROR'', 0xFF)]"

definition einj_statuses_6_0 :: constants where [constants]:
  "einj_statuses_6_0 =
     [(''EINJ_STATUS_SUCCESS'', 0), (''EINJ_STATUS_UNKNOWN_FAILURE'', 1),
      (''EINJ_STATUS_INVALID_ACCESS'', 2)]"

definition einj_errors_6_0 :: constants where [constants]:
  "einj_errors_6_0 =
     [(''EINJ_ERROR_PROCESSOR_CORRECTABLE'', 2 ^ 0),
      (''EINJ_ERROR_PROCESSOR_UNCORRECTABLE_NONFATAL'', 2 ^ 1),
      (''EINJ_ERROR_PROCESSOR_UNCORRECTABLE_FATAL'', 2 ^ 2),
      (''EINJ_ERROR_MEMORY_CORRECTABLE'', 2 ^ 3),
      (''EINJ_ERROR_MEMORY_UNCORRECTABLE_NONFATAL'', 2 ^ 4),
      (''EINJ_ERROR_MEMORY_UNCORRECTABLE_FATAL'', 2 ^ 5),
      (''EINJ_ERROR_PCI_EXPRESS_CORRECTABLE'', 2 ^ 6),
      (''EINJ_ERROR_PCI_EXPRESS_UNCORRECTABLE_NONFATAL'', 2 ^ 7),
      (''EINJ_ERROR_PCI_EXPRESS_UNCORRECTABLE_FATAL'', 2 ^ 8),
      (''EINJ_ERROR_PLATFORM_CORRECTABLE'', 2 ^ 9),
      (''EINJ_ERROR_PLATFORM_UNCORRECTABLE_NONFATAL'', 2 ^ 10),
      (''EINJ_ERROR_PLATFORM_UNCORRECTABLE_FATAL'', 2 ^ 11)]"

definition einj_instructions_6_0 :: constants where [constants]:
  "einj_instructions_6_0 =
     [(''EINJ_READ_REGISTER'', 0), (''EINJ_READ_REGISTER_VALUE'', 1),
      (''EINJ_WRITE_REGISTER'', 2), (''EINJ_WRITE_REGISTER_VALUE'', 3), (''EINJ_NOOP'', 4)]"

definition pcct_types_6_0 :: constants where [constants]:
  "pcct_types_6_0 =
     [(''PCCT_SUBSPACE_TYPE_GENERIC'', 0),
      (''PCCT_SUBSPACE_TYPE_1_HW_REDUCED_COMMUNICATIONS'', 1),
      (''PCCT_SUBSPACE_TYPE_2_HW_REDUCED_COMMUNICATIONS'', 2)]"

definition pcct_doorbell_flags_6_0 :: constants where [constants]:
  "pcct_doorbell_flags_6_0 =
     [(''PCCT_SUBSPACE_DOORBELL_INTERRUPT_FLAGS_POLARITY'', 2 ^ 0),
      (''PCCT_SUBSPACE_DOORBELL_INTERRUPT_FLAGS_MODE'', 2 ^ 1)]"

definition first_table_signatures_6_0 :: signatures where [constants]:
  "first_table_signatures_6_0 =
     [(''MULTIPLE_APIC_DESCRIPTION_TABLE'', ''APIC''), (''BOOT_ERROR_RECORD_TABLE'', ''BERT''),
      (''BOOT_GRAPHICS_RESOURCE_TABLE'', ''BGRT''),
      (''CORRECTED_PLATFORM_ERROR_POLLING_TABLE'', ''CPEP''),
      (''DIFFERENTIATED_SYSTEM_DESCRIPTION_TABLE'', ''DSDT''),
      (''EMBEDDED_CONTROLLER_BOOT_RESOURCES_TABLE'', ''ECDT''),
      (''ERROR_INJECTION_TABLE'', ''EINJ''), (''ERROR_RECORD_SERIALIZATION_TABLE'', ''ERST''),
      (''FIXED_ACPI_DESCRIPTION_TABLE'', ''FACP''),
      (''FIRMWARE_ACPI_CONTROL_STRUCTURE'', ''FACS''),
      (''FIRMWARE_PERFORMANCE_DATA_TABLE'', ''FPDT''),
      (''GENERIC_TIMER_DESCRIPTION_TABLE'', ''GTDT''),
      (''HARDWARE_ERROR_SOURCE_TABLE'', ''HEST''), (''MEMORY_POWER_STATE_TABLE'', ''MPST''),
      (''MAXIMUM_SYSTEM_CHARACTERISTICS_TABLE'', ''MSCT''),
      (''NVDIMM_FIRMWARE_INTERFACE_TABLE_STRUCTURE'', ''NFIT''),
      (''PLATFORM_MEMORY_TOPOLOGY_TABLE'', ''PMTT''),
      (''PERSISTENT_SYSTEM_DESCRIPTION_TABLE'', ''PSDT''), (''ACPI_RAS_FEATURE_TABLE'', ''RASF''),
      (''ROOT_SYSTEM_DESCRIPTION_TABLE'', ''RSDT''),
      (''SMART_BATTERY_SPECIFICATION_TABLE'', ''SBST''),
      (''SYSTEM_LOCALITY_INFORMATION_TABLE'', ''SLIT''),
      (''SYSTEM_RESOURCE_AFFINITY_TABLE'', ''SRAT''),
      (''SECONDARY_SYSTEM_DESCRIPTION_TABLE'', ''SSDT''),
      (''EXTENDED_SYSTEM_DESCRIPTION_TABLE'', ''XSDT''), (''SIMPLE_BOOT_FLAG_TABLE'', ''BOOT''),
      (''CORE_SYSTEM_RESOURCE_TABLE'', ''CSRT''), (''DEBUG_PORT_2_TABLE'', ''DBG2''),
      (''DEBUG_PORT_TABLE'', ''DBGP''), (''DMA_REMAPPING_TABLE'', ''DMAR'')]"

definition further_table_signatures_6_0 :: signatures where [constants]:
  "further_table_signatures_6_0 =
     [(''DYNAMIC_ROOT_OF_TRUST_FOR_MEASUREMENT_TABLE'', ''DRTM''),
      (''EVENT_TIMER_DESCRIPTION_TABLE'', ''ETDT''),
      (''HIGH_PRECISION_EVENT_TIMER_TABLE'', ''HPET''), (''ISCSI_BOOT_FIRMWARE_TABLE'', ''iBFT''),
      (''IO_REMAPPING_TABLE'', ''IORT''), (''IO_VIRTUALIZATION_REPORTING_STRUCTURE'', ''IVRS''),
      (''LOW_POWER_IDLE_TABLE_STRUCTURE'', ''LPIT''),
      (''PCI_EXPRESS_MEMORY_MAPPED_CONFIGURATION_SPACE_BASE_ADDRESS_DESCRIPTION_TABLE'', ''MCFG''),
      (''MANAGEMENT_CONTROLLER_HOST_INTERFACE_TABLE'', ''MCHI''),
      (''DATA_MANAGEMENT_TABLE'', ''MSDM''),
      (''PLATFORM_COMMUNICATIONS_CHANNEL_TABLE'', ''PCCT''),
      (''SOFTWARE_LICENSING_TABLE'', ''SLIC''),
      (''SERIAL_PORT_CONSOLE_REDIRECTION_TABLE'', ''SPCR''),
      (''SERVER_PLATFORM_MANAGEMENT_INTERFACE_TABLE'', ''SPMI''),
      (''STA_OVERRIDE_TABLE'', ''STAO''),
      (''TRUSTED_COMPUTING_PLATFORM_ALLIANCE_CAPABILITIES_TABLE'', ''TCPA''),
      (''TRUSTED_COMPUTING_PLATFORM_2_TABLE'', ''TPM2''), (''UEFI_ACPI_DATA_TABLE'', ''UEFI''),
      (''WINDOWS_ACPI_EMULATED_DEVICES_TABLE'', ''WAET''), (''WATCHDOG_ACTION_TABLE'', ''WDAT''),
      (''WATCHDOG_RESOURCE_TABLE'', ''WDRT''), (''PLATFORM_BINARY_TABLE'', ''WPBT''),
      (''XEN_PROJECT_TABLE'', ''XENV'')]"

definition table_signatures_6_0 :: signatures where [constants]:
  "table_signatures_6_0 = first_table_signatures_6_0 @ further_table_signatures_6_0"

definition constants_6_0 :: constants where [constants]:
  "constants_6_0 =
     address_space_ids_6_0 @ access_sizes_6_0 @ pm_profiles_6_0 @ ia_boot_flags_6_0 @
     arm_boot_flags_6_0 @ fadt_flags_6_0 @ facs_flags_6_0 @ madt_types_6_0 @
     madt_override_flags_6_0 @ gic_flags_6_0 @ gic_versions_6_0 @ srat_types_6_0 @
     srat_memory_flags_6_0 @ rasf_capabilities_6_0 @ rasf_commands_6_0 @ mpst_commands_6_0
     @ mpst_structure_flags_6_0 @ mpst_state_flags_6_0 @ pmmt_types_6_0 @ bgrt_statuses_6_0
     @ fpdt_types_6_0 @ fpdt_revisions_6_0 @ fpdt_runtime_types_6_0 @
     fpdt_runtime_revisions_6_0 @ gtdt_timer_flags_6_0 @ gtdt_types_6_0 @
     gt_block_timer_flags_6_0 @ gt_block_common_flags_6_0 @ gtdt_watchdog_flags_6_0 @
     nfit_types_6_0 @ nfit_range_flags_6_0 @ nfit_state_flags_6_0 @ error_severities_6_0 @
     hest_types_6_0 @ hest_flags_6_0 @ machine_check_formats_6_0 @ hest_notifications_6_0 @
     erst_actions_6_0 @ erst_statuses_6_0 @ erst_instructions_6_0 @ einj_actions_6_0 @
     einj_statuses_6_0 @ einj_errors_6_0 @ einj_instructions_6_0 @ pcct_types_6_0 @
     pcct_doorbell_flags_6_0"

end
