(* ===== verification/Acpi_Compat.thy ===== *)
theory Acpi_Compat imports Acpi_4_0 Acpi_5_0 Acpi_5_1 Acpi_6_0 Acpi_Constants begin

text \<open>
  The ACPI headers across versions: which structure succeeds which, and that a reader of a
  structure finds in its successor every member where it was, and every constant unchanged.
\<close>

section \<open>Structures\<close>

text \<open>The members of a structure with their offsets and sizes.\<close>

fun places :: "packing \<Rightarrow> nat \<Rightarrow> (string \<times> ctype) list \<Rightarrow> (string \<times> nat \<times> nat) list" where
  "places p n [] = []"
| "places p n ((f, t) # fs) =
     (f, place p n t, sizeof_type t) # places p (place p n t + sizeof_type t) fs"

fun member_places :: "ctype \<Rightarrow> (string \<times> nat \<times> nat) list" where
  "member_places (Struct p fs) = places p 0 fs"
| "member_places (Union p fs) = List.map (\<lambda>(f, t). (f, 0, sizeof_type t)) fs"
| "member_places t = []"

definition reserved :: "string \<Rightarrow> bool" where
  "reserved f \<longleftrightarrow> take 8 f = ''Reserved''"

definition keeps_place :: "(string \<times> nat \<times> nat) list \<Rightarrow> string \<times> nat \<times> nat \<Rightarrow> bool" where
  "keeps_place new m \<longleftrightarrow> (case m of (f, n, k) \<Rightarrow> reserved f \<or>
     (case map_of new f of Some x \<Rightarrow> x = (n, k) | None \<Rightarrow> (n, k) \<in> set (List.map snd new)))"

definition compatible :: "ctype \<times> ctype \<Rightarrow> bool" where
  "compatible s \<longleftrightarrow> (case s of (old, new) \<Rightarrow> sizeof_type old \<le> sizeof_type new \<and>
     list_all (keeps_place (member_places new)) (member_places old))"

text \<open>The structures of one version that the next one has too.\<close>

definition successors_1_0 :: "(ctype \<times> ctype) list" where
  "successors_1_0 =
     [(EFI_ACPI_1_0_ROOT_SYSTEM_DESCRIPTION_POINTER, EFI_ACPI_2_0_ROOT_SYSTEM_DESCRIPTION_POINTER),
      (EFI_ACPI_1_0_FIXED_ACPI_DESCRIPTION_TABLE, EFI_ACPI_2_0_FIXED_ACPI_DESCRIPTION_TABLE),
      (EFI_ACPI_1_0_FIRMWARE_ACPI_CONTROL_STRUCTURE, EFI_ACPI_2_0_FIRMWARE_ACPI_CONTROL_STRUCTURE),
      (EFI_ACPI_1_0_MULTIPLE_APIC_DESCRIPTION_TABLE_HEADER, EFI_ACPI_2_0_MULTIPLE_APIC_DESCRIPTION_TABLE_HEADER),
      (EFI_ACPI_1_0_PROCESSOR_LOCAL_APIC_STRUCTURE, EFI_ACPI_2_0_PROCESSOR_LOCAL_APIC_STRUCTURE),
      (EFI_ACPI_1_0_IO_APIC_STRUCTURE, EFI_ACPI_2_0_IO_APIC_STRUCTURE),
      (EFI_ACPI_1_0_INTERRUPT_SOURCE_OVERRIDE_STRUCTURE, EFI_ACPI_2_0_INTERRUPT_SOURCE_OVERRIDE_STRUCTURE),
      (EFI_ACPI_1_0_NON_MASKABLE_INTERRUPT_SOURCE_STRUCTURE, EFI_ACPI_2_0_NON_MASKABLE_INTERRUPT_SOURCE_STRUCTURE),
      (EFI_ACPI_1_0_LOCAL_APIC_NMI_STRUCTURE, EFI_ACPI_2_0_LOCAL_APIC_NMI_STRUCTURE),
      (EFI_ACPI_1_0_SMART_BATTERY_DESCRIPTION_TABLE, EFI_ACPI_2_0_SMART_BATTERY_DESCRIPTION_TABLE)]"

definition successors_2_0 :: "(ctype \<times> ctype) list" where
  "successors_2_0 =
     [(EFI_ACPI_2_0_GENERIC_ADDRESS_STRUCTURE, EFI_ACPI_3_0_GENERIC_ADDRESS_STRUCTURE),
      (EFI_ACPI_2_0_ROOT_SYSTEM_DESCRIPTION_POINTER, EFI_ACPI_3_0_ROOT_SYSTEM_DESCRIPTION_POINTER),
      (EFI_ACPI_2_0_COMMON_HEADER, EFI_ACPI_3_0_COMMON_HEADER),
      (EFI_ACPI_2_0_FIXED_ACPI_DESCRIPTION_TABLE, EFI_ACPI_3_0_FIXED_ACPI_DESCRIPTION_TABLE),
      (EFI_ACPI_2_0_FIRMWARE_ACPI_CONTROL_STRUCTURE, EFI_ACPI_3_0_FIRMWARE_ACPI_CONTROL_STRUCTURE),
      (EFI_ACPI_2_0_MULTIPLE_APIC_DESCRIPTION_TABLE_HEADER, EFI_ACPI_3_0_MULTIPLE_APIC_DESCRIPTION_TABLE_HEADER),
      (EFI_ACPI_2_0_PROCESSOR_LOCAL_APIC_STRUCTURE, EFI_ACPI_3_0_PROCESSOR_LOCAL_APIC_STRUCTURE),
      (EFI_ACPI_2_0_IO_APIC_STRUCTURE, EFI_ACPI_3_0_IO_APIC_STRUCTURE),
      (EFI_ACPI_2_0_INTERRUPT_SOURCE_OVERRIDE_STRUCTURE, EFI_ACPI_3_0_INTERRUPT_SOURCE_OVERRIDE_STRUCTURE),
      (EFI_ACPI_2_0_NON_MASKABLE_INTERRUPT_SOURCE_STRUCTURE, EFI_ACPI_3_0_NON_MASKABLE_INTERRUPT_SOURCE_STRUCTURE),
      (EFI_ACPI_2_0_LOCAL_APIC_NMI_STRUCTURE, EFI_ACPI_3_0_LOCAL_APIC_NMI_STRUCTURE),
      (EFI_ACPI_2_0_LOCAL_APIC_ADDRESS_OVERRIDE_STRUCTURE, EFI_ACPI_3_0_LOCAL_APIC_ADDRESS_OVERRIDE_STRUCTURE),
      (EFI_ACPI_2_0_IO_SAPIC_STRUCTURE, EFI_ACPI_3_0_IO_SAPIC_STRUCTURE),
      (EFI_ACPI_2_0_PROCESSOR_LOCAL_SAPIC_STRUCTURE, EFI_ACPI_3_0_PROCESSOR_LOCAL_SAPIC_STRUCTURE),
      (EFI_ACPI_2_0_PLATFORM_INTERRUPT_SOURCES_STRUCTURE, EFI_ACPI_3_0_PLATFORM_INTERRUPT_SOURCES_STRUCTURE),
      (EFI_ACPI_2_0_SMART_BATTERY_DESCRIPTION_TABLE, EFI_ACPI_3_0_SMART_BATTERY_DESCRIPTION_TABLE),
      (EFI_ACPI_2_0_EMBEDDED_CONTROLLER_BOOT_RESOURCES_TABLE, EFI_ACPI_3_0_EMBEDDED_CONTROLLER_BOOT_RESOURCES_TABLE)]"

definition successors_3_0 :: "(ctype \<times> ctype) list" where
  "successors_3_0 =
     [(EFI_ACPI_3_0_GENERIC_ADDRESS_STRUCTURE, EFI_ACPI_4_0_GENERIC_ADDRESS_STRUCTURE),
      (EFI_ACPI_3_0_ROOT_SYSTEM_DESCRIPTION_POINTER, EFI_ACPI_4_0_ROOT_SYSTEM_DESCRIPTION_POINTER),
      (EFI_ACPI_3_0_COMMON_HEADER, EFI_ACPI_4_0_COMMON_HEADER),
      (EFI_ACPI_3_0_FIXED_ACPI_DESCRIPTION_TABLE, EFI_ACPI_4_0_FIXED_ACPI_DESCRIPTION_TABLE),
      (EFI_ACPI_3_0_FIRMWARE_ACPI_CONTROL_STRUCTURE, EFI_ACPI_4_0_FIRMWARE_ACPI_CONTROL_STRUCTURE),
      (EFI_ACPI_3_0_MULTIPLE_APIC_DESCRIPTION_TABLE_HEADER, EFI_ACPI_4_0_MULTIPLE_APIC_DESCRIPTION_TABLE_HEADER),
      (EFI_ACPI_3_0_PROCESSOR_LOCAL_APIC_STRUCTURE, EFI_ACPI_4_0_PROCESSOR_LOCAL_APIC_STRUCTURE),
      (EFI_ACPI_3_0_IO_APIC_STRUCTURE, EFI_ACPI_4_0_IO_APIC_STRUCTURE),
      (EFI_ACPI_3_0_INTERRUPT_SOURCE_OVERRIDE_STRUCTURE, EFI_ACPI_4_0_INTERRUPT_SOURCE_OVERRIDE_STRUCTURE),
      (EFI_ACPI_3_0_PLATFORM_INTERRUPT_APIC_STRUCTURE, EFI_ACPI_4_0_PLATFORM_INTERRUPT_APIC_STRUCTURE),
      (EFI_ACPI_3_0_NON_MASKABLE_INTERRUPT_SOURCE_STRUCTURE, EFI_ACPI_4_0_NON_MASKABLE_INTERRUPT_SOURCE_STRUCTURE),
      (EFI_ACPI_3_0_LOCAL_APIC_NMI_STRUCTURE, EFI_ACPI_4_0_LOCAL_APIC_NMI_STRUCTURE),
      (EFI_ACPI_3_0_LOCAL_APIC_ADDRESS_OVERRIDE_STRUCTURE, EFI_ACPI_4_0_LOCAL_APIC_ADDRESS_OVERRIDE_STRUCTURE),
      (EFI_ACPI_3_0_IO_SAPIC_STRUCTURE, EFI_ACPI_4_0_IO_SAPIC_STRUCTURE),
      (EFI_ACPI_3_0_PROCESSOR_LOCAL_SAPIC_STRUCTURE, EFI_ACPI_4_0_PROCESSOR_LOCAL_SAPIC_STRUCTURE),
      (EFI_ACPI_3_0_PLATFORM_INTERRUPT_SOURCES_STRUCTURE, EFI_ACPI_4_0_PLATFORM_INTERRUPT_SOURCES_STRUCTURE),
      (EFI_ACPI_3_0_SMART_BATTERY_DESCRIPTION_TABLE, EFI_ACPI_4_0_SMART_BATTERY_DESCRIPTION_TABLE),
      (EFI_ACPI_3_0_EMBEDDED_CONTROLLER_BOOT_RESOURCES_TABLE, EFI_ACPI_4_0_EMBEDDED_CONTROLLER_BOOT_RESOURCES_TABLE),
      (EFI_ACPI_3_0_SYSTEM_RESOURCE_AFFINITY_TABLE_HEADER, EFI_ACPI_4_0_SYSTEM_RESOURCE_AFFINITY_TABLE_HEADER),
      (EFI_ACPI_3_0_PROCESSOR_LOCAL_APIC_SAPIC_AFFINITY_STRUCTURE, EFI_ACPI_4_0_PROCESSOR_LOCAL_APIC_SAPIC_AFFINITY_STRUCTURE),
      (EFI_ACPI_3_0_MEMORY_AFFINITY_STRUCTURE, EFI_ACPI_4_0_MEMORY_AFFINITY_STRUCTURE),
      (EFI_ACPI_3_0_SYSTEM_LOCALITY_DISTANCE_INFORMATION_TABLE_HEADER, EFI_ACPI_4_0_SYSTEM_LOCALITY_DISTANCE_INFORMATION_TABLE_HEADER)]"

definition successors_4_0 :: "(ctype \<times> ctype) list" where
  "successors_4_0 =
     [(EFI_ACPI_4_0_GENERIC_ADDRESS_STRUCTURE, EFI_ACPI_5_0_GENERIC_ADDRESS_STRUCTURE),
      (EFI_ACPI_4_0_ROOT_SYSTEM_DESCRIPTION_POINTER, EFI_ACPI_5_0_ROOT_SYSTEM_DESCRIPTION_POINTER),
      (EFI_ACPI_4_0_COMMON_HEADER, EFI_ACPI_5_0_COMMON_HEADER),
      (EFI_ACPI_4_0_FIXED_ACPI_DESCRIPTION_TABLE, EFI_ACPI_5_0_FIXED_ACPI_DESCRIPTION_TABLE),
      (EFI_ACPI_4_0_FIRMWARE_ACPI_CONTROL_STRUCTURE, EFI_ACPI_5_0_FIRMWARE_ACPI_CONTROL_STRUCTURE),
      (EFI_ACPI_4_0_MULTIPLE_APIC_DESCRIPTION_TABLE_HEADER, EFI_ACPI_5_0_MULTIPLE_APIC_DESCRIPTION_TABLE_HEADER),
      (EFI_ACPI_4_0_PROCESSOR_LOCAL_APIC_STRUCTURE, EFI_ACPI_5_0_PROCESSOR_LOCAL_APIC_STRUCTURE),
      (EFI_ACPI_4_0_IO_APIC_STRUCTURE, EFI_ACPI_5_0_IO_APIC_STRUCTURE),
      (EFI_ACPI_4_0_INTERRUPT_SOURCE_OVERRIDE_STRUCTURE, EFI_ACPI_5_0_INTERRUPT_SOURCE_OVERRIDE_STRUCTURE),
      (EFI_ACPI_4_0_PLATFORM_INTERRUPT_APIC_STRUCTURE, EFI_ACPI_5_0_PLATFORM_INTERRUPT_APIC_STRUCTURE),
      (EFI_ACPI_4_0_NON_MASKABLE_INTERRUPT_SOURCE_STRUCTURE, EFI_ACPI_5_0_NON_MASKABLE_INTERRUPT_SOURCE_STRUCTURE),
      (EFI_ACPI_4_0_LOCAL_APIC_NMI_STRUCTURE, EFI_ACPI_5_0_LOCAL_APIC_NMI_STRUCTURE),
      (EFI_ACPI_4_0_LOCAL_APIC_ADDRESS_OVERRIDE_STRUCTURE, EFI_ACPI_5_0_LOCAL_APIC_ADDRESS_OVERRIDE_STRUCTURE),
      (EFI_ACPI_4_0_IO_SAPIC_STRUCTURE, EFI_ACPI_5_0_IO_SAPIC_STRUCTURE),
      (EFI_ACPI_4_0_PROCESSOR_LOCAL_SAPIC_STRUCTURE, EFI_ACPI_5_0_PROCESSOR_LOCAL_SAPIC_STRUCTURE),
      (EFI_ACPI_4_0_PLATFORM_INTERRUPT_SOURCES_STRUCTURE, EFI_ACPI_5_0_PLATFORM_INTERRUPT_SOURCES_STRUCTURE),
      (EFI_ACPI_4_0_PROCESSOR_LOCAL_X2APIC_STRUCTURE, EFI_ACPI_5_0_PROCESSOR_LOCAL_X2APIC_STRUCTURE),
      (EFI_ACPI_4_0_LOCAL_X2APIC_NMI_STRUCTURE, EFI_ACPI_5_0_LOCAL_X2APIC_NMI_STRUCTURE),
      (EFI_ACPI_4_0_SMART_BATTERY_DESCRIPTION_TABLE, EFI_ACPI_5_0_SMART_BATTERY_DESCRIPTION_TABLE),
      (EFI_ACPI_4_0_EMBEDDED_CONTROLLER_BOOT_RESOURCES_TABLE, EFI_ACPI_5_0_EMBEDDED_CONTROLLER_BOOT_RESOURCES_TABLE),
      (EFI_ACPI_4_0_SYSTEM_RESOURCE_AFFINITY_TABLE_HEADER, EFI_ACPI_5_0_SYSTEM_RESOURCE_AFFINITY_TABLE_HEADER),
      (EFI_ACPI_4_0_PROCESSOR_LOCAL_APIC_SAPIC_AFFINITY_STRUCTURE, EFI_ACPI_5_0_PROCESSOR_LOCAL_APIC_SAPIC_AFFINITY_STRUCTURE),
      (EFI_ACPI_4_0_MEMORY_AFFINITY_STRUCTURE, EFI_ACPI_5_0_MEMORY_AFFINITY_STRUCTURE),
      (EFI_ACPI_4_0_PROCESSOR_LOCAL_X2APIC_AFFINITY_STRUCTURE, EFI_ACPI_5_0_PROCESSOR_LOCAL_X2APIC_AFFINITY_STRUCTURE),
      (EFI_ACPI_4_0_SYSTEM_LOCALITY_DISTANCE_INFORMATION_TABLE_HEADER, EFI_ACPI_5_0_SYSTEM_LOCALITY_DISTANCE_INFORMATION_TABLE_HEADER),
      (EFI_ACPI_4_0_CORRECTED_PLATFORM_ERROR_POLLING_TABLE_HEADER, EFI_ACPI_5_0_CORRECTED_PLATFORM_ERROR_POLLING_TABLE_HEADER),
      (EFI_ACPI_4_0_CPEP_PROCESSOR_APIC_SAPIC_STRUCTURE, EFI_ACPI_5_0_CPEP_PROCESSOR_APIC_SAPIC_STRUCTURE),
      (EFI_ACPI_4_0_MAXIMUM_SYSTEM_CHARACTERISTICS_TABLE_HEADER, EFI_ACPI_5_0_MAXIMUM_SYSTEM_CHARACTERISTICS_TABLE_HEADER),
      (EFI_ACPI_4_0_MAXIMUM_PROXIMITY_DOMAIN_INFORMATION_STRUCTURE, EFI_ACPI_5_0_MAXIMUM_PROXIMITY_DOMAIN_INFORMATION_STRUCTURE),
      (EFI_ACPI_4_0_BOOT_ERROR_RECORD_TABLE_HEADER, EFI_ACPI_5_0_BOOT_ERROR_RECORD_TABLE_HEADER),
      (EFI_ACPI_4_0_ERROR_BLOCK_STATUS, EFI_ACPI_5_0_ERROR_BLOCK_STATUS),
      (EFI_ACPI_4_0_BOOT_ERROR_REGION_STRUCTURE, EFI_ACPI_5_0_BOOT_ERROR_REGION_STRUCTURE),
      (EFI_ACPI_4_0_GENERIC_ERROR_DATA_ENTRY_STRUCTURE, EFI_ACPI_5_0_GENERIC_ERROR_DATA_ENTRY_STRUCTURE),
      (EFI_ACPI_4_0_HARDWARE_ERROR_SOURCE_TABLE_HEADER, EFI_ACPI_5_0_HARDWARE_ERROR_SOURCE_TABLE_HEADER),
      (EFI_ACPI_4_0_IA32_ARCHITECTURE_MACHINE_CHECK_EXCEPTION_STRUCTURE, EFI_ACPI_5_0_IA32_ARCHITECTURE_MACHINE_CHECK_EXCEPTION_STRUCTURE),
      (EFI_ACPI_4_0_IA32_ARCHITECTURE_MACHINE_CHECK_ERROR_BANK_STRUCTURE, EFI_ACPI_5_0_IA32_ARCHITECTURE_MACHINE_CHECK_ERROR_BANK_STRUCTURE),
      (EFI_ACPI_4_0_HARDWARE_ERROR_NOTIFICATION_CONFIGURATION_WRITE_ENABLE_STRUCTURE, EFI_ACPI_5_0_HARDWARE_ERROR_NOTIFICATION_CONFIGURATION_WRITE_ENABLE_STRUCTURE),
      (EFI_ACPI_4_0_HARDWARE_ERROR_NOTIFICATION_STRUCTURE, EFI_ACPI_5_0_HARDWARE_ERROR_NOTIFICATION_STRUCTURE),
      (EFI_ACPI_4_0_IA32_ARCHITECTURE_CORRECTED_MACHINE_CHECK_STRUCTURE, EFI_ACPI_5_0_IA32_ARCHITECTURE_CORRECTED_MACHINE_CHECK_STRUCTURE),
      (EFI_ACPI_4_0_IA32_ARCHITECTURE_NMI_ERROR_STRUCTURE, EFI_ACPI_5_0_IA32_ARCHITECTURE_NMI_ERROR_STRUCTURE),
      (EFI_ACPI_4_0_PCI_EXPRESS_ROOT_PORT_AER_STRUCTURE, EFI_ACPI_5_0_PCI_EXPRESS_ROOT_PORT_AER_STRUCTURE),
      (EFI_ACPI_4_0_PCI_EXPRESS_DEVICE_AER_STRUCTURE, EFI_ACPI_5_0_PCI_EXPRESS_DEVICE_AER_STRUCTURE),
      (EFI_ACPI_4_0_PCI_EXPRESS_BRIDGE_AER_STRUCTURE, EFI_ACPI_5_0_PCI_EXPRESS_BRIDGE_AER_STRUCTURE),
      (EFI_ACPI_4_0_GENERIC_HARDWARE_ERROR_SOURCE_STRUCTURE, EFI_ACPI_5_0_GENERIC_HARDWARE_ERROR_SOURCE_STRUCTURE),
      (EFI_ACPI_4_0_GENERIC_ERROR_STATUS_STRUCTURE, EFI_ACPI_5_0_GENERIC_ERROR_STATUS_STRUCTURE),
      (EFI_ACPI_4_0_ERROR_RECORD_SERIALIZATION_TABLE_HEADER, EFI_ACPI_5_0_ERROR_RECORD_SERIALIZATION_TABLE_HEADER),
      (EFI_ACPI_4_0_ERST_SERIALIZATION_INSTRUCTION_ENTRY, EFI_ACPI_5_0_ERST_SERIALIZATION_INSTRUCTION_ENTRY),
      (EFI_ACPI_4_0_ERROR_INJECTION_TABLE_HEADER, EFI_ACPI_5_0_ERROR_INJECTION_TABLE_HEADER),
      (EFI_ACPI_4_0_EINJ_INJECTION_INSTRUCTION_ENTRY, EFI_ACPI_5_0_EINJ_INJECTION_INSTRUCTION_ENTRY),
      (EFI_ACPI_4_0_EINJ_TRIGGER_ACTION_TABLE, EFI_ACPI_5_0_EINJ_TRIGGER_ACTION_TABLE)]"

definition successors_5_0 :: "(ctype \<times> ctype) list" where
  "successors_5_0 =
     [(EFI_ACPI_5_0_GENERIC_ADDRESS_STRUCTURE, EFI_ACPI_5_1_GENERIC_ADDRESS_STRUCTURE),
      (EFI_ACPI_5_0_ROOT_SYSTEM_DESCRIPTION_POINTER, EFI_ACPI_5_1_ROOT_SYSTEM_DESCRIPTION_POINTER),
      (EFI_ACPI_5_0_COMMON_HEADER, EFI_ACPI_5_1_COMMON_HEADER),
      (EFI_ACPI_5_0_FIXED_ACPI_DESCRIPTION_TABLE, EFI_ACPI_5_1_FIXED_ACPI_DESCRIPTION_TABLE),
      (EFI_ACPI_5_0_FIRMWARE_ACPI_CONTROL_STRUCTURE, EFI_ACPI_5_1_FIRMWARE_ACPI_CONTROL_STRUCTURE),
      (EFI_ACPI_5_0_MULTIPLE_APIC_DESCRIPTION_TABLE_HEADER, EFI_ACPI_5_1_MULTIPLE_APIC_DESCRIPTION_TABLE_HEADER),
      (EFI_ACPI_5_0_PROCESSOR_LOCAL_APIC_STRUCTURE, EFI_ACPI_5_1_PROCESSOR_LOCAL_APIC_STRUCTURE),
      (EFI_ACPI_5_0_IO_APIC_STRUCTURE, EFI_ACPI_5_1_IO_APIC_STRUCTURE),
      (EFI_ACPI_5_0_INTERRUPT_SOURCE_OVERRIDE_STRUCTURE, EFI_ACPI_5_1_INTERRUPT_SOURCE_OVERRIDE_STRUCTURE),
      (EFI_ACPI_5_0_PLATFORM_INTERRUPT_APIC_STRUCTURE, EFI_ACPI_5_1_PLATFORM_INTERRUPT_APIC_STRUCTURE),
      (EFI_ACPI_5_0_NON_MASKABLE_INTERRUPT_SOURCE_STRUCTURE, EFI_ACPI_5_1_NON_MASKABLE_INTERRUPT_SOURCE_STRUCTURE),
      (EFI_ACPI_5_0_LOCAL_APIC_NMI_STRUCTURE, EFI_ACPI_5_1_LOCAL_APIC_NMI_STRUCTURE),
      (EFI_ACPI_5_0_LOCAL_APIC_ADDRESS_OVERRIDE_STRUCTURE, EFI_ACPI_5_1_LOCAL_APIC_ADDRESS_OVERRIDE_STRUCTURE),
      (EFI_ACPI_5_0_IO_SAPIC_STRUCTURE, EFI_ACPI_5_1_IO_SAPIC_STRUCTURE),
      (EFI_ACPI_5_0_PROCESSOR_LOCAL_SAPIC_STRUCTURE, EFI_ACPI_5_1_PROCESSOR_LOCAL_SAPIC_STRUCTURE),
      (EFI_ACPI_5_0_PLATFORM_INTERRUPT_SOURCES_STRUCTURE, EFI_ACPI_5_1_PLATFORM_INTERRUPT_SOURCES_STRUCTURE),
      (EFI_ACPI_5_0_PROCESSOR_LOCAL_X2APIC_STRUCTURE, EFI_ACPI_5_1_PROCESSOR_LOCAL_X2APIC_STRUCTURE),
      (EFI_ACPI_5_0_LOCAL_X2APIC_NMI_STRUCTURE, EFI_ACPI_5_1_LOCAL_X2APIC_NMI_STRUCTURE),
      (EFI_ACPI_5_0_GIC_STRUCTURE, EFI_ACPI_5_1_GIC_STRUCTURE),
      (EFI_ACPI_5_0_GIC_DISTRIBUTOR_STRUCTURE, EFI_ACPI_5_1_GIC_DISTRIBUTOR_STRUCTURE),
      (EFI_ACPI_5_0_SMART_BATTERY_DESCRIPTION_TABLE, EFI_ACPI_5_1_SMART_BATTERY_DESCRIPTION_TABLE),
      (EFI_ACPI_5_0_EMBEDDED_CONTROLLER_BOOT_RESOURCES_TABLE, EFI_ACPI_5_1_EMBEDDED_CONTROLLER_BOOT_RESOURCES_TABLE),
      (EFI_ACPI_5_0_SYSTEM_RESOURCE_AFFINITY_TABLE_HEADER, EFI_ACPI_5_1_SYSTEM_RESOURCE_AFFINITY_TABLE_HEADER),
      (EFI_ACPI_5_0_PROCESSOR_LOCAL_APIC_SAPIC_AFFINITY_STRUCTURE, EFI_ACPI_5_1_PROCESSOR_LOCAL_APIC_SAPIC_AFFINITY_STRUCTURE),
      (EFI_ACPI_5_0_MEMORY_AFFINITY_STRUCTURE, EFI_ACPI_5_1_MEMORY_AFFINITY_STRUCTURE),
      (EFI_ACPI_5_0_PROCESSOR_LOCAL_X2APIC_AFFINITY_STRUCTURE, EFI_ACPI_5_1_PROCESSOR_LOCAL_X2APIC_AFFINITY_STRUCTURE),
      (EFI_ACPI_5_0_SYSTEM_LOCALITY_DISTANCE_INFORMATION_TABLE_HEADER, EFI_ACPI_5_1_SYSTEM_LOCALITY_DISTANCE_INFORMATION_TABLE_HEADER),
      (EFI_ACPI_5_0_CORRECTED_PLATFORM_ERROR_POLLING_TABLE_HEADER, EFI_ACPI_5_1_CORRECTED_PLATFORM_ERROR_POLLING_TABLE_HEADER),
      (EFI_ACPI_5_0_CPEP_PROCESSOR_APIC_SAPIC_STRUCTURE, EFI_ACPI_5_1_CPEP_PROCESSOR_APIC_SAPIC_STRUCTURE),
      (EFI_ACPI_5_0_MAXIMUM_SYSTEM_CHARACTERISTICS_TABLE_HEADER, EFI_ACPI_5_1_MAXIMUM_SYSTEM_CHARACTERISTICS_TABLE_HEADER),
      (EFI_ACPI_5_0_MAXIMUM_PROXIMITY_DOMAIN_INFORMATION_STRUCTURE, EFI_ACPI_5_1_MAXIMUM_PROXIMITY_DOMAIN_INFORMATION_STRUCTURE),
      (EFI_ACPI_5_0_RAS_FEATURE_TABLE, EFI_ACPI_5_1_RAS_FEATURE_TABLE),
      (EFI_ACPI_5_0_RASF_PLATFORM_COMMUNICATION_CHANNEL_SHARED_MEMORY_REGION, EFI_ACPI_5_1_RASF_PLATFORM_COMMUNICATION_CHANNEL_SHARED_MEMORY_REGION),
      (EFI_ACPI_5_0_RASF_PATROL_SCRUB_PLATFORM_BLOCK_STRUCTURE, EFI_ACPI_5_1_RASF_PATROL_SCRUB_PLATFORM_BLOCK_STRUCTURE),
      (EFI_ACPI_5_0_MEMORY_POWER_STATUS_TABLE, EFI_ACPI_5_1_MEMORY_POWER_STATUS_TABLE),
      (EFI_ACPI_5_0_MPST_PLATFORM_COMMUNICATION_CHANNEL_SHARED_MEMORY_REGION, EFI_ACPI_5_1_MPST_PLATFORM_COMMUNICATION_CHANNEL_SHARED_MEMORY_REGION),
      (EFI_ACPI_5_0_MPST_MEMORY_POWER_STATE, EFI_ACPI_5_1_MPST_MEMORY_POWER_STATE),
      (EFI_ACPI_5_0_MPST_MEMORY_POWER_STRUCTURE, EFI_ACPI_5_1_MPST_MEMORY_POWER_STRUCTURE),
      (EFI_ACPI_5_0_MPST_MEMORY_POWER_NODE_TABLE, EFI_ACPI_5_1_MPST_MEMORY_POWER_NODE_TABLE),
      (EFI_ACPI_5_0_MPST_MEMORY_POWER_STATE_CHARACTERISTICS_STRUCTURE, EFI_ACPI_5_1_MPST_MEMORY_POWER_STATE_CHARACTERISTICS_STRUCTURE),
      (EFI_ACPI_5_0_MPST_MEMORY_POWER_STATE_CHARACTERISTICS_TABLE, EFI_ACPI_5_1_MPST_MEMORY_POWER_STATE_CHARACTERISTICS_TABLE),
      (EFI_ACPI_5_0_MEMORY_TOPOLOGY_TABLE, EFI_ACPI_5_1_MEMORY_TOPOLOGY_TABLE),
      (EFI_ACPI_5_0_PMMT_COMMON_MEMORY_AGGREGATOR_DEVICE_STRUCTURE, EFI_ACPI_5_1_PMMT_COMMON_MEMORY_AGGREGATOR_DEVICE_STRUCTURE),
      (EFI_ACPI_5_0_PMMT_SOCKET_MEMORY_AGGREGATOR_DEVICE_STRUCTURE, EFI_ACPI_5_1_PMMT_SOCKET_MEMORY_AGGREGATOR_DEVICE_STRUCTURE),
      (EFI_ACPI_5_0_PMMT_MEMORY_CONTROLLER_MEMORY_AGGREGATOR_DEVICE_STRUCTURE, EFI_ACPI_5_1_PMMT_MEMORY_CONTROLLER_MEMORY_AGGREGATOR_DEVICE_STRUCTURE),
      (EFI_ACPI_5_0_PMMT_DIMM_MEMORY_AGGREGATOR_DEVICE_STRUCTURE, EFI_ACPI_5_1_PMMT_DIMM_MEMORY_AGGREGATOR_DEVICE_STRUCTURE),
      (EFI_ACPI_5_0_BOOT_GRAPHICS_RESOURCE_TABLE, EFI_ACPI_5_1_BOOT_GRAPHICS_RESOURCE_TABLE),
      (EFI_ACPI_5_0_FPDT_PERFORMANCE_RECORD_HEADER, EFI_ACPI_5_1_FPDT_PERFORMANCE_RECORD_HEADER),
      (EFI_ACPI_5_0_FPDT_PERFORMANCE_TABLE_HEADER, EFI_ACPI_5_1_FPDT_PERFORMANCE_TABLE_HEADER),
      (EFI_ACPI_5_0_FPDT_BOOT_PERFORMANCE_TABLE_POINTER_RECORD, EFI_ACPI_5_1_FPDT_BOOT_PERFORMANCE_TABLE_POINTER_RECORD),
      (EFI_ACPI_5_0_FPDT_S3_PERFORMANCE_TABLE_POINTER_RECORD, EFI_ACPI_5_1_FPDT_S3_PERFORMANCE_TABLE_POINTER_RECORD),
      (EFI_ACPI_5_0_FPDT_FIRMWARE_BASIC_BOOT_RECORD, EFI_ACPI_5_1_FPDT_FIRMWARE_BASIC_BOOT_RECORD),
      (EFI_ACPI_5_0_FPDT_FIRMWARE_BASIC_BOOT_TABLE, EFI_ACPI_5_1_FPDT_FIRMWARE_BASIC_BOOT_TABLE),
      (EFI_ACPI_5_0_FPDT_FIRMWARE_S3_BOOT_TABLE, EFI_ACPI_5_1_FPDT_FIRMWARE_S3_BOOT_TABLE),
      (EFI_ACPI_5_0_FPDT_S3_RESUME_RECORD, EFI_ACPI_5_1_FPDT_S3_RESUME_RECORD),
      (EFI_ACPI_5_0_FPDT_S3_SUSPEND_RECORD, EFI_ACPI_5_1_FPDT_S3_SUSPEND_RECORD),
      (EFI_ACPI_5_0_FIRMWARE_PERFORMANCE_RECORD_TABLE, EFI_ACPI_5_1_FIRMWARE_PERFORMANCE_RECORD_TABLE),
      (EFI_ACPI_5_0_GENERIC_TIMER_DESCRIPTION_TABLE, EFI_ACPI_5_1_GENERIC_TIMER_DESCRIPTION_TABLE),
      (EFI_ACPI_5_0_BOOT_ERROR_RECORD_TABLE_HEADER, EFI_ACPI_5_1_BOOT_ERROR_RECORD_TABLE_HEADER),
      (EFI_ACPI_5_0_ERROR_BLOCK_STATUS, EFI_ACPI_5_1_ERROR_BLOCK_STATUS),
      (EFI_ACPI_5_0_BOOT_ERROR_REGION_STRUCTURE, EFI_ACPI_5_1_BOOT_ERROR_REGION_STRUCTURE),
      (EFI_ACPI_5_0_GENERIC_ERROR_DATA_ENTRY_STRUCTURE, EFI_ACPI_5_1_GENERIC_ERROR_DATA_ENTRY_STRUCTURE),
      (EFI_ACPI_5_0_HARDWARE_ERROR_SOURCE_TABLE_HEADER, EFI_ACPI_5_1_HARDWARE_ERROR_SOURCE_TABLE_HEADER),
      (EFI_ACPI_5_0_IA32_ARCHITECTURE_MACHINE_CHECK_EXCEPTION_STRUCTURE, EFI_ACPI_5_1_IA32_ARCHITECTURE_MACHINE_CHECK_EXCEPTION_STRUCTURE),
      (EFI_ACPI_5_0_IA32_ARCHITECTURE_MACHINE_CHECK_ERROR_BANK_STRUCTURE, EFI_ACPI_5_1_IA32_ARCHITECTURE_MACHINE_CHECK_ERROR_BANK_STRUCTURE),
      (EFI_ACPI_5_0_HARDWARE_ERROR_NOTIFICATION_CONFIGURATION_WRITE_ENABLE_STRUCTURE, EFI_ACPI_5_1_HARDWARE_ERROR_NOTIFICATION_CONFIGURATION_WRITE_ENABLE_STRUCTURE),
      (EFI_ACPI_5_0_HARDWARE_ERROR_NOTIFICATION_STRUCTURE, EFI_ACPI_5_1_HARDWARE_ERROR_NOTIFICATION_STRUCTURE),
      (EFI_ACPI_5_0_IA32_ARCHITECTURE_CORRECTED_MACHINE_CHECK_STRUCTURE, EFI_ACPI_5_1_IA32_ARCHITECTURE_CORRECTED_MACHINE_CHECK_STRUCTURE),
      (EFI_ACPI_5_0_IA32_ARCHITECTURE_NMI_ERROR_STRUCTURE, EFI_ACPI_5_1_IA32_ARCHITECTURE_NMI_ERROR_STRUCTURE),
      (EFI_ACPI_5_0_PCI_EXPRESS_ROOT_PORT_AER_STRUCTURE, EFI_ACPI_5_1_PCI_EXPRESS_ROOT_PORT_AER_STRUCTURE),
      (EFI_ACPI_5_0_PCI_EXPRESS_DEVICE_AER_STRUCTURE, EFI_ACPI_5_1_PCI_EXPRESS_DEVICE_AER_STRUCTURE),
      (EFI_ACPI_5_0_PCI_EXPRESS_BRIDGE_AER_STRUCTURE, EFI_ACPI_5_1_PCI_EXPRESS_BRIDGE_AER_STRUCTURE),
      (EFI_ACPI_5_0_GENERIC_HARDWARE_ERROR_SOURCE_STRUCTURE, EFI_ACPI_5_1_GENERIC_HARDWARE_ERROR_SOURCE_STRUCTURE),
      (EFI_ACPI_5_0_GENERIC_ERROR_STATUS_STRUCTURE, EFI_ACPI_5_1_GENERIC_ERROR_STATUS_STRUCTURE),
      (EFI_ACPI_5_0_ERROR_RECORD_SERIALIZATION_TABLE_HEADER, EFI_ACPI_5_1_ERROR_RECORD_SERIALIZATION_TABLE_HEADER),
      (EFI_ACPI_5_0_ERST_SERIALIZATION_INSTRUCTION_ENTRY, EFI_ACPI_5_1_ERST_SERIALIZATION_INSTRUCTION_ENTRY),
      (EFI_ACPI_5_0_ERROR_INJECTION_TABLE_HEADER, EFI_ACPI_5_1_ERROR_INJECTION_TABLE_HEADER),
      (EFI_ACPI_5_0_EINJ_INJECTION_INSTRUCTION_ENTRY, EFI_ACPI_5_1_EINJ_INJECTION_INSTRUCTION_ENTRY),
      (EFI_ACPI_5_0_EINJ_TRIGGER_ACTION_TABLE, EFI_ACPI_5_1_EINJ_TRIGGER_ACTION_TABLE),
      (EFI_ACPI_5_0_PLATFORM_COMMUNICATION_CHANNEL_TABLE_HEADER, EFI_ACPI_5_1_PLATFORM_COMMUNICATION_CHANNEL_TABLE_HEADER),
      (EFI_ACPI_5_0_PCCT_SUBSPACE_HEADER, EFI_ACPI_5_1_PCCT_SUBSPACE_HEADER),
      (EFI_ACPI_5_0_PCCT_SUBSPACE_GENERIC, EFI_ACPI_5_1_PCCT_SUBSPACE_GENERIC),
      (EFI_ACPI_5_0_PCCT_GENERIC_SHARED_MEMORY_REGION_COMMAND, EFI_ACPI_5_1_PCCT_GENERIC_SHARED_MEMORY_REGION_COMMAND),
      (EFI_ACPI_5_0_PCCT_GENERIC_SHARED_MEMORY_REGION_STATUS, EFI_ACPI_5_1_PCCT_GENERIC_SHARED_MEMORY_REGION_STATUS),
      (EFI_ACPI_5_0_PCCT_GENERIC_SHARED_MEMORY_REGION_HEADER, EFI_ACPI_5_1_PCCT_GENERIC_SHARED_MEMORY_REGION_HEADER)]"

definition successors_5_1 :: "(ctype \<times> ctype) list" where
  "successors_5_1 =
     [(EFI_ACPI_5_1_GENERIC_ADDRESS_STRUCTURE, EFI_ACPI_6_0_GENERIC_ADDRESS_STRUCTURE),
      (EFI_ACPI_5_1_ROOT_SYSTEM_DESCRIPTION_POINTER, EFI_ACPI_6_0_ROOT_SYSTEM_DESCRIPTION_POINTER),
      (EFI_ACPI_5_1_COMMON_HEADER, EFI_ACPI_6_0_COMMON_HEADER),
      (EFI_ACPI_5_1_FIXED_ACPI_DESCRIPTION_TABLE, EFI_ACPI_6_0_FIXED_ACPI_DESCRIPTION_TABLE),
      (EFI_ACPI_5_1_FIRMWARE_ACPI_CONTROL_STRUCTURE, EFI_ACPI_6_0_FIRMWARE_ACPI_CONTROL_STRUCTURE),
      (EFI_ACPI_5_1_MULTIPLE_APIC_DESCRIPTION_TABLE_HEADER, EFI_ACPI_6_0_MULTIPLE_APIC_DESCRIPTION_TABLE_HEADER),
      (EFI_ACPI_5_1_PROCESSOR_LOCAL_APIC_STRUCTURE, EFI_ACPI_6_0_PROCESSOR_LOCAL_APIC_STRUCTURE),
      (EFI_ACPI_5_1_IO_APIC_STRUCTURE, EFI_ACPI_6_0_IO_APIC_STRUCTURE),
      (EFI_ACPI_5_1_INTERRUPT_SOURCE_OVERRIDE_STRUCTURE, EFI_ACPI_6_0_INTERRUPT_SOURCE_OVERRIDE_STRUCTURE),
      (EFI_ACPI_5_1_PLATFORM_INTERRUPT_APIC_STRUCTURE, EFI_ACPI_6_0_PLATFORM_INTERRUPT_APIC_STRUCTURE),
      (EFI_ACPI_5_1_NON_MASKABLE_INTERRUPT_SOURCE_STRUCTURE, EFI_ACPI_6_0_NON_MASKABLE_INTERRUPT_SOURCE_STRUCTURE),
      (EFI_ACPI_5_1_LOCAL_APIC_NMI_STRUCTURE, EFI_ACPI_6_0_LOCAL_APIC_NMI_STRUCTURE),
      (EFI_ACPI_5_1_LOCAL_APIC_ADDRESS_OVERRIDE_STRUCTURE, EFI_ACPI_6_0_LOCAL_APIC_ADDRESS_OVERRIDE_STRUCTURE),
      (EFI_ACPI_5_1_IO_SAPIC_STRUCTURE, EFI_ACPI_6_0_IO_SAPIC_STRUCTURE),
      (EFI_ACPI_5_1_PROCESSOR_LOCAL_SAPIC_STRUCTURE, EFI_ACPI_6_0_PROCESSOR_LOCAL_SAPIC_STRUCTURE),
      (EFI_ACPI_5_1_PLATFORM_INTERRUPT_SOURCES_STRUCTURE, EFI_ACPI_6_0_PLATFORM_INTERRUPT_SOURCES_STRUCTURE),
      (EFI_ACPI_5_1_PROCESSOR_LOCAL_X2APIC_STRUCTURE, EFI_ACPI_6_0_PROCESSOR_LOCAL_X2APIC_STRUCTURE),
      (EFI_ACPI_5_1_LOCAL_X2APIC_NMI_STRUCTURE, EFI_ACPI_6_0_LOCAL_X2APIC_NMI_STRUCTURE),
      (EFI_ACPI_5_1_GIC_STRUCTURE, EFI_ACPI_6_0_GIC_STRUCTURE),
      (EFI_ACPI_5_1_GIC_DISTRIBUTOR_STRUCTURE, EFI_ACPI_6_0_GIC_DISTRIBUTOR_STRUCTURE),
      (EFI_ACPI_5_1_GIC_MSI_FRAME_STRUCTURE, EFI_ACPI_6_0_GIC_MSI_FRAME_STRUCTURE),
      (EFI_ACPI_5_1_GICR_STRUCTURE, EFI_ACPI_6_0_GICR_STRUCTURE),
      (EFI_ACPI_5_1_SMART_BATTERY_DESCRIPTION_TABLE, EFI_ACPI_6_0_SMART_BATTERY_DESCRIPTION_TABLE),
      (EFI_ACPI_5_1_EMBEDDED_CONTROLLER_BOOT_RESOURCES_TABLE, EFI_ACPI_6_0_EMBEDDED_CONTROLLER_BOOT_RESOURCES_TABLE),
      (EFI_ACPI_5_1_SYSTEM_RESOURCE_AFFINITY_TABLE_HEADER, EFI_ACPI_6_0_SYSTEM_RESOURCE_AFFINITY_TABLE_HEADER),
      (EFI_ACPI_5_1_PROCESSOR_LOCAL_APIC_SAPIC_AFFINITY_STRUCTURE, EFI_ACPI_6_0_PROCESSOR_LOCAL_APIC_SAPIC_AFFINITY_STRUCTURE),
      (EFI_ACPI_5_1_MEMORY_AFFINITY_STRUCTURE, EFI_ACPI_6_0_MEMORY_AFFINITY_STRUCTURE),
      (EFI_ACPI_5_1_PROCESSOR_LOCAL_X2APIC_AFFINITY_STRUCTURE, EFI_ACPI_6_0_PROCESSOR_LOCAL_X2APIC_AFFINITY_STRUCTURE),
      (EFI_ACPI_5_1_GICC_AFFINITY_STRUCTURE, EFI_ACPI_6_0_GICC_AFFINITY_STRUCTURE),
      (EFI_ACPI_5_1_SYSTEM_LOCALITY_DISTANCE_INFORMATION_TABLE_HEADER, EFI_ACPI_6_0_SYSTEM_LOCALITY_DISTANCE_INFORMATION_TABLE_HEADER),
      (EFI_ACPI_5_1_CORRECTED_PLATFORM_ERROR_POLLING_TABLE_HEADER, EFI_ACPI_6_0_CORRECTED_PLATFORM_ERROR_POLLING_TABLE_HEADER),
      (EFI_ACPI_5_1_CPEP_PROCESSOR_APIC_SAPIC_STRUCTURE, EFI_ACPI_6_0_CPEP_PROCESSOR_APIC_SAPIC_STRUCTURE),
      (EFI_ACPI_5_1_MAXIMUM_SYSTEM_CHARACTERISTICS_TABLE_HEADER, EFI_ACPI_6_0_MAXIMUM_SYSTEM_CHARACTERISTICS_TABLE_HEADER),
      (EFI_ACPI_5_1_MAXIMUM_PROXIMITY_DOMAIN_INFORMATION_STRUCTURE, EFI_ACPI_6_0_MAXIMUM_PROXIMITY_DOMAIN_INFORMATION_STRUCTURE),
      (EFI_ACPI_5_1_RAS_FEATURE_TABLE, EFI_ACPI_6_0_RAS_FEATURE_TABLE),
      (EFI_ACPI_5_1_RASF_PLATFORM_COMMUNICATION_CHANNEL_SHARED_MEMORY_REGION, EFI_ACPI_6_0_RASF_PLATFORM_COMMUNICATION_CHANNEL_SHARED_MEMORY_REGION),
      (EFI_ACPI_5_1_RASF_PATROL_SCRUB_PLATFORM_BLOCK_STRUCTURE, EFI_ACPI_6_0_RASF_PATROL_SCRUB_PLATFORM_BLOCK_STRUCTURE),
      (EFI_ACPI_5_1_MEMORY_POWER_STATUS_TABLE, EFI_ACPI_6_0_MEMORY_POWER_STATUS_TABLE),
      (EFI_ACPI_5_1_MPST_PLATFORM_COMMUNICATION_CHANNEL_SHARED_MEMORY_REGION, EFI_ACPI_6_0_MPST_PLATFORM_COMMUNICATION_CHANNEL_SHARED_MEMORY_REGION),
      (EFI_ACPI_5_1_MPST_MEMORY_POWER_STATE, EFI_ACPI_6_0_MPST_MEMORY_POWER_STATE),
      (EFI_ACPI_5_1_MPST_MEMORY_POWER_STRUCTURE, EFI_ACPI_6_0_MPST_MEMORY_POWER_STRUCTURE),
      (EFI_ACPI_5_1_MPST_MEMORY_POWER_NODE_TABLE, EFI_ACPI_6_0_MPST_MEMORY_POWER_NODE_TABLE),
      (EFI_ACPI_5_1_MPST_MEMORY_POWER_STATE_CHARACTERISTICS_STRUCTURE, EFI_ACPI_6_0_MPST_MEMORY_POWER_STATE_CHARACTERISTICS_STRUCTURE),
      (EFI_ACPI_5_1_MPST_MEMORY_POWER_STATE_CHARACTERISTICS_TABLE, EFI_ACPI_6_0_MPST_MEMORY_POWER_STATE_CHARACTERISTICS_TABLE),
      (EFI_ACPI_5_1_MEMORY_TOPOLOGY_TABLE, EFI_ACPI_6_0_MEMORY_TOPOLOGY_TABLE),
      (EFI_ACPI_5_1_PMMT_COMMON_MEMORY_AGGREGATOR_DEVICE_STRUCTURE, EFI_ACPI_6_0_PMMT_COMMON_MEMORY_AGGREGATOR_DEVICE_STRUCTURE),
      (EFI_ACPI_5_1_PMMT_SOCKET_MEMORY_AGGREGATOR_DEVICE_STRUCTURE, EFI_ACPI_6_0_PMMT_SOCKET_MEMORY_AGGREGATOR_DEVICE_STRUCTURE),
      (EFI_ACPI_5_1_PMMT_MEMORY_CONTROLLER_MEMORY_AGGREGATOR_DEVICE_STRUCTURE, EFI_ACPI_6_0_PMMT_MEMORY_CONTROLLER_MEMORY_AGGREGATOR_DEVICE_STRUCTURE),
      (EFI_ACPI_5_1_PMMT_DIMM_MEMORY_AGGREGATOR_DEVICE_STRUCTURE, EFI_ACPI_6_0_PMMT_DIMM_MEMORY_AGGREGATOR_DEVICE_STRUCTURE),
      (EFI_ACPI_5_1_BOOT_GRAPHICS_RESOURCE_TABLE, EFI_ACPI_6_0_BOOT_GRAPHICS_RESOURCE_TABLE),
      (EFI_ACPI_5_1_FPDT_PERFORMANCE_RECORD_HEADER, EFI_ACPI_6_0_FPDT_PERFORMANCE_RECORD_HEADER),
      (EFI_ACPI_5_1_FPDT_PERFORMANCE_TABLE_HEADER, EFI_ACPI_6_0_FPDT_PERFORMANCE_TABLE_HEADER),
      (EFI_ACPI_5_1_FPDT_BOOT_PERFORMANCE_TABLE_POINTER_RECORD, EFI_ACPI_6_0_FPDT_BOOT_PERFORMANCE_TABLE_POINTER_RECORD),
      (EFI_ACPI_5_1_FPDT_S3_PERFORMANCE_TABLE_POINTER_RECORD, EFI_ACPI_6_0_FPDT_S3_PERFORMANCE_TABLE_POINTER_RECORD),
      (EFI_ACPI_5_1_FPDT_FIRMWARE_BASIC_BOOT_RECORD, EFI_ACPI_6_0_FPDT_FIRMWARE_BASIC_BOOT_RECORD),
      (EFI_ACPI_5_1_FPDT_FIRMWARE_BASIC_BOOT_TABLE, EFI_ACPI_6_0_FPDT_FIRMWARE_BASIC_BOOT_TABLE),
      (EFI_ACPI_5_1_FPDT_FIRMWARE_S3_BOOT_TABLE, EFI_ACPI_6_0_FPDT_FIRMWARE_S3_BOOT_TABLE),
      (EFI_ACPI_5_1_FPDT_S3_RESUME_RECORD, EFI_ACPI_6_0_FPDT_S3_RESUME_RECORD),
      (EFI_ACPI_5_1_FPDT_S3_SUSPEND_RECORD, EFI_ACPI_6_0_FPDT_S3_SUSPEND_RECORD),
      (EFI_ACPI_5_1_FIRMWARE_PERFORMANCE_RECORD_TABLE, EFI_ACPI_6_0_FIRMWARE_PERFORMANCE_RECORD_TABLE),
      (EFI_ACPI_5_1_GENERIC_TIMER_DESCRIPTION_TABLE, EFI_ACPI_6_0_GENERIC_TIMER_DESCRIPTION_TABLE),
      (EFI_ACPI_5_1_GTDT_GT_BLOCK_STRUCTURE, EFI_ACPI_6_0_GTDT_GT_BLOCK_STRUCTURE),
      (EFI_ACPI_5_1_GTDT_GT_BLOCK_TIMER_STRUCTURE, EFI_ACPI_6_0_GTDT_GT_BLOCK_TIMER_STRUCTURE),
      (EFI_ACPI_5_1_GTDT_SBSA_GENERIC_WATCHDOG_STRUCTURE, EFI_ACPI_6_0_GTDT_SBSA_GENERIC_WATCHDOG_STRUCTURE),
      (EFI_ACPI_5_1_BOOT_ERROR_RECORD_TABLE_HEADER, EFI_ACPI_6_0_BOOT_ERROR_RECORD_TABLE_HEADER),
      (EFI_ACPI_5_1_ERROR_BLOCK_STATUS, EFI_ACPI_6_0_ERROR_BLOCK_STATUS),
      (EFI_ACPI_5_1_BOOT_ERROR_REGION_STRUCTURE, EFI_ACPI_6_0_BOOT_ERROR_REGION_STRUCTURE),
      (EFI_ACPI_5_1_GENERIC_ERROR_DATA_ENTRY_STRUCTURE, EFI_ACPI_6_0_GENERIC_ERROR_DATA_ENTRY_STRUCTURE),
      (EFI_ACPI_5_1_HARDWARE_ERROR_SOURCE_TABLE_HEADER, EFI_ACPI_6_0_HARDWARE_ERROR_SOURCE_TABLE_HEADER),
      (EFI_ACPI_5_1_IA32_ARCHITECTURE_MACHINE_CHECK_EXCEPTION_STRUCTURE, EFI_ACPI_6_0_IA32_ARCHITECTURE_MACHINE_CHECK_EXCEPTION_STRUCTURE),
      (EFI_ACPI_5_1_IA32_ARCHITECTURE_MACHINE_CHECK_ERROR_BANK_STRUCTURE, EFI_ACPI_6_0_IA32_ARCHITECTURE_MACHINE_CHECK_ERROR_BANK_STRUCTURE),
      (EFI_ACPI_5_1_HARDWARE_ERROR_NOTIFICATION_CONFIGURATION_WRITE_ENABLE_STRUCTURE, EFI_ACPI_6_0_HARDWARE_ERROR_NOTIFICATION_CONFIGURATION_WRITE_ENABLE_STRUCTURE),
      (EFI_ACPI_5_1_HARDWARE_ERROR_NOTIFICATION_STRUCTURE, EFI_ACPI_6_0_HARDWARE_ERROR_NOTIFICATION_STRUCTURE),
      (EFI_ACPI_5_1_IA32_ARCHITECTURE_CORRECTED_MACHINE_CHECK_STRUCTURE, EFI_ACPI_6_0_IA32_ARCHITECTURE_CORRECTED_MACHINE_CHECK_STRUCTURE),
      (EFI_ACPI_5_1_IA32_ARCHITECTURE_NMI_ERROR_STRUCTURE, EFI_ACPI_6_0_IA32_ARCHITECTURE_NMI_ERROR_STRUCTURE),
      (EFI_ACPI_5_1_PCI_EXPRESS_ROOT_PORT_AER_STRUCTURE, EFI_ACPI_6_0_PCI_EXPRESS_ROOT_PORT_AER_STRUCTURE),
      (EFI_ACPI_5_1_PCI_EXPRESS_DEVICE_AER_STRUCTURE, EFI_ACPI_6_0_PCI_EXPRESS_DEVICE_AER_STRUCTURE),
      (EFI_ACPI_5_1_PCI_EXPRESS_BRIDGE_AER_STRUCTURE, EFI_ACPI_6_0_PCI_EXPRESS_BRIDGE_AER_STRUCTURE),
      (EFI_ACPI_5_1_GENERIC_HARDWARE_ERROR_SOURCE_STRUCTURE, EFI_ACPI_6_0_GENERIC_HARDWARE_ERROR_SOURCE_STRUCTURE),
      (EFI_ACPI_5_1_GENERIC_ERROR_STATUS_STRUCTURE, EFI_ACPI_6_0_GENERIC_ERROR_STATUS_STRUCTURE),
      (EFI_ACPI_5_1_ERROR_RECORD_SERIALIZATION_TABLE_HEADER, EFI_ACPI_6_0_ERROR_RECORD_SERIALIZATION_TABLE_HEADER),
      (EFI_ACPI_5_1_ERST_SERIALIZATION_INSTRUCTION_ENTRY, EFI_ACPI_6_0_ERST_SERIALIZATION_INSTRUCTION_ENTRY),
      (EFI_ACPI_5_1_ERROR_INJECTION_TABLE_HEADER, EFI_ACPI_6_0_ERROR_INJECTION_TABLE_HEADER),
      (EFI_ACPI_5_1_EINJ_INJECTION_INSTRUCTION_ENTRY, EFI_ACPI_6_0_EINJ_INJECTION_INSTRUCTION_ENTRY),
      (EFI_ACPI_5_1_EINJ_TRIGGER_ACTION_TABLE, EFI_ACPI_6_0_EINJ_TRIGGER_ACTION_TABLE),
      (EFI_ACPI_5_1_PLATFORM_COMMUNICATION_CHANNEL_TABLE_HEADER, EFI_ACPI_6_0_PLATFORM_COMMUNICATION_CHANNEL_TABLE_HEADER),
      (EFI_ACPI_5_1_PCCT_SUBSPACE_HEADER, EFI_ACPI_6_0_PCCT_SUBSPACE_HEADER),
      (EFI_ACPI_5_1_PCCT_SUBSPACE_GENERIC, EFI_ACPI_6_0_PCCT_SUBSPACE_GENERIC),
      (EFI_ACPI_5_1_PCCT_GENERIC_SHARED_MEMORY_REGION_COMMAND, EFI_ACPI_6_0_PCCT_GENERIC_SHARED_MEMORY_REGION_COMMAND),
      (EFI_ACPI_5_1_PCCT_GENERIC_SHARED_MEMORY_REGION_STATUS, EFI_ACPI_6_0_PCCT_GENERIC_SHARED_MEMORY_REGION_STATUS),
      (EFI_ACPI_5_1_PCCT_GENERIC_SHARED_MEMORY_REGION_HEADER, EFI_ACPI_6_0_PCCT_GENERIC_SHARED_MEMORY_REGION_HEADER)]"

definition successors :: "(ctype \<times> ctype) list" where
  "successors = successors_1_0 @ successors_2_0 @ successors_3_0 @ successors_4_0 @
     successors_5_0 @ successors_5_1"

lemma compatible_1_0: "list_all compatible successors_1_0"
  by code_simp

lemma compatible_2_0: "list_all compatible successors_2_0"
  by code_simp

lemma compatible_3_0: "list_all compatible successors_3_0"
  by code_simp

lemma compatible_4_0: "list_all compatible successors_4_0"
  by code_simp

lemma compatible_5_0: "list_all compatible successors_5_0"
  by code_simp

lemma compatible_5_1: "list_all compatible successors_5_1"
  by code_simp

lemmas compatible_successors =
  compatible_1_0 compatible_2_0 compatible_3_0 compatible_4_0 compatible_5_0 compatible_5_1

lemma struct_field_places:
  "struct_field p n fs f = Some (k, t) \<Longrightarrow> map_of (places p n fs) f = Some (k, sizeof_type t)"
  by (induction fs arbitrary: n) (auto split: if_splits)

lemma locate_places: "locate [Dot f] T = Some (n, t) \<Longrightarrow> map_of (member_places T) f = Some (n, sizeof_type t)"
proof (cases T)
  case (Union p fs)
  assume "locate [Dot f] T = Some (n, t)"
  then have "map_of fs f = Some t \<and> n = 0" by (auto simp: Union split: option.splits)
  then have "map_of (List.map (\<lambda>(f, t). (f, 0 :: nat, sizeof_type t)) fs) f = Some (n, sizeof_type t)"
    by (induction fs) (auto split: if_splits)
  then show ?thesis by (simp add: Union)
qed (auto simp: struct_field_places split: option.splits)

section \<open>Properties\<close>

text \<open>
  C9. The tables only grow: in every structure that two consecutive ACPI headers have in
  common, a member that is not reserved is in the newer one at the same offset with the same
  size, under the same name if the newer one still has that name, and the newer structure
  is not smaller. A reader built with the older header finds its members in a newer table.
\<close>

theorem acpi_members_stay:
  assumes "(old, new) \<in> set successors" "locate [Dot f] old = Some (n, t)" "\<not> reserved f"
  shows "sizeof_type old \<le> sizeof_type new \<and>
    (\<exists>g. (g, n, sizeof_type t) \<in> set (member_places new)) \<and>
    (\<forall>k u. locate [Dot f] new = Some (k, u) \<longrightarrow> k = n \<and> sizeof_type u = sizeof_type t)"
proof -
  have "list_all compatible successors"
    unfolding successors_def by (simp only: list_all_append compatible_successors simp_thms)
  then have c: "sizeof_type old \<le> sizeof_type new" "list_all (keeps_place (member_places new)) (member_places old)"
    using assms(1) by (auto simp: list_all_iff compatible_def)
  have "(f, n, sizeof_type t) \<in> set (member_places old)"
    by (rule map_of_SomeD [OF locate_places [OF assms(2)]])
  then have k: "keeps_place (member_places new) (f, n, sizeof_type t)"
    using c(2) by (simp add: list_all_iff)
  then show ?thesis
  proof (cases "map_of (member_places new) f")
    case None
    then have "\<exists>g. (g, n, sizeof_type t) \<in> set (member_places new)"
      using k assms(3) by (force simp: keeps_place_def)
    with None c show ?thesis using locate_places [of f new] by fastforce
  next
    case (Some x)
    then have x: "x = (n, sizeof_type t)" using k assms(3) by (simp add: keeps_place_def)
    have "(f, n, sizeof_type t) \<in> set (member_places new)" using map_of_SomeD [OF Some] x by simp
    moreover have "k = n \<and> sizeof_type u = sizeof_type t" if "locate [Dot f] new = Some (k, u)" for k u
      using locate_places [OF that] Some x by simp
    ultimately show ?thesis using c by blast
  qed
qed

theorem acpi_members_stay_witness:
  "\<exists>g. (g, 44, 1) \<in> set (member_places EFI_ACPI_2_0_FIXED_ACPI_DESCRIPTION_TABLE)"
proof -
  have "(EFI_ACPI_1_0_FIXED_ACPI_DESCRIPTION_TABLE, EFI_ACPI_2_0_FIXED_ACPI_DESCRIPTION_TABLE) \<in> set successors"
    by (simp add: successors_def successors_1_0_def)
  moreover have "locate [Dot ''IntModel''] EFI_ACPI_1_0_FIXED_ACPI_DESCRIPTION_TABLE = Some (44, UINT8)"
    by code_simp
  moreover have "\<not> reserved ''IntModel''" "sizeof_type UINT8 = 1" by (simp_all add: reserved_def UINT8_def)
  ultimately show ?thesis using acpi_members_stay by metis
qed

end
