(* ===== verification/Acpi_Records.thy ===== *)
theory Acpi_Records imports Acpi_Compat begin

text \<open>
  The constants of the ACPI headers: what they are from version to version, and how they fit
  the members of the structures that hold them.
\<close>

section \<open>Constants from version to version\<close>

text \<open>The constants of a version that the next one does not have.\<close>

definition retired :: constants where
  "retired =
     [(''INT_MODE_DUAL_PIC'', 0), (''INT_MODE_MULTIPLE_APIC'', 1), (''PROCESSOR_LOCAL_SAPIC'', 7),
      (''EINJ_STATUS_NOT_ENOUGH_SPACE'', 1), (''EINJ_STATUS_HARDWARE_NOT_AVAILABLE'', 2),
      (''EINJ_STATUS_FAILED'', 3), (''EINJ_STATUS_RECORD_STORE_EMPTY'', 4),
      (''EINJ_STATUS_RECORD_NOT_FOUND'', 5), (''BGRT_STATUS_INVALID'', 0), (''BGRT_STATUS_VALID'', 1),
      (''GTDT_GLOBAL_FLAG_MEMORY_MAPPED_BLOCK_PRESENT'', 2 ^ 0),
      (''GTDT_GLOBAL_FLAG_INTERRUPT_MODE'', 2 ^ 1)]"

definition kept :: "constants \<Rightarrow> constants \<Rightarrow> bool" where
  "kept old new \<longleftrightarrow> set old \<subseteq> set new \<union> set retired"

lemma kept_Nil: "kept [] new"
  by (simp add: kept_def)

lemma kept_both: "kept a b \<Longrightarrow> kept as bs \<Longrightarrow> kept (a @ as) (b @ bs)"
  by (auto simp: kept_def)

lemma kept_new: "kept as bs \<Longrightarrow> kept as (b @ bs)"
  by (auto simp: kept_def)

lemma kept_old: "kept a [] \<Longrightarrow> kept as bs \<Longrightarrow> kept (a @ as) bs"
  by (auto simp: kept_def)

lemma kept_each: "kept a bs \<Longrightarrow> kept as bs \<Longrightarrow> kept (a @ as) bs"
  by (auto simp: kept_def)

lemma kept_last: "kept a b \<Longrightarrow> kept a (b @ bs)"
  by (auto simp: kept_def)

lemmas kept_eval = kept_def retired_def constants

lemma groups_1_0:
  "kept int_modes_1_0 []" "kept fadt_flags_1_0 fadt_flags_2_0"
  "kept madt_types_1_0 madt_types_2_0"
  by (simp_all add: kept_eval)

lemma kept_1_0: "kept constants_1_0 constants_2_0"
  unfolding constants_1_0_def constants_2_0_def
  by (rule kept_both, rule groups_1_0 | rule kept_last, rule groups_1_0 | rule groups_1_0 |
      rule kept_old, rule groups_1_0 | rule kept_new)+

lemma groups_2_0:
  "kept address_space_ids_2_0 address_space_ids_3_0" "kept pm_profiles_2_0 pm_profiles_3_0"
  "kept ia_boot_flags_2_0 ia_boot_flags_3_0" "kept fadt_flags_2_0 fadt_flags_3_0"
  "kept madt_types_2_0 madt_types_3_0"
  by (simp_all add: kept_eval)

lemma kept_2_0: "kept constants_2_0 constants_3_0"
  unfolding constants_2_0_def constants_3_0_def
  by (rule kept_both, rule groups_2_0 | rule kept_last, rule groups_2_0 | rule groups_2_0 |
      rule kept_old, rule groups_2_0 | rule kept_new)+

lemma groups_3_0:
  "kept address_space_ids_3_0 address_space_ids_4_0" "kept access_sizes_3_0 access_sizes_4_0"
  "kept pm_profiles_3_0 pm_profiles_4_0" "kept ia_boot_flags_3_0 ia_boot_flags_4_0"
  "kept fadt_flags_3_0 fadt_flags_4_0" "kept madt_types_3_0 madt_types_4_0"
  "kept madt_override_flags_3_0 madt_override_flags_4_0" "kept srat_types_3_0 srat_types_4_0"
  "kept srat_memory_flags_3_0 srat_memory_flags_4_0"
  by (simp_all add: kept_eval)

lemma kept_3_0: "kept constants_3_0 constants_4_0"
  unfolding constants_3_0_def constants_4_0_def
  by (rule kept_both, rule groups_3_0 | rule kept_last, rule groups_3_0 | rule groups_3_0 |
      rule kept_old, rule groups_3_0 | rule kept_new)+

lemma groups_4_0:
  "kept address_space_ids_4_0 address_space_ids_5_0" "kept access_sizes_4_0 access_sizes_5_0"
  "kept pm_profiles_4_0 pm_profiles_5_0" "kept ia_boot_flags_4_0 ia_boot_flags_5_0"
  "kept fadt_flags_4_0 fadt_flags_5_0" "kept facs_flags_4_0 facs_flags_5_0"
  "kept madt_types_4_0 madt_types_5_0" "kept madt_override_flags_4_0 madt_override_flags_5_0"
  "kept srat_types_4_0 srat_types_5_0" "kept srat_memory_flags_4_0 srat_memory_flags_5_0"
  "kept error_severities_4_0 error_severities_5_0" "kept hest_types_4_0 hest_types_5_0"
  "kept hest_flags_4_0 hest_flags_5_0" "kept machine_check_formats_4_0 machine_check_formats_5_0"
  "kept hest_notifications_4_0 hest_notifications_5_0" "kept erst_actions_4_0 erst_actions_5_0"
  "kept erst_statuses_4_0 einj_statuses_5_0" "kept erst_instructions_4_0 erst_instructions_5_0"
  "kept einj_actions_4_0 einj_actions_5_0" "kept einj_statuses_4_0 einj_statuses_5_0"
  "kept einj_errors_4_0 einj_errors_5_0" "kept einj_instructions_4_0 einj_instructions_5_0"
  by (simp_all add: kept_eval)

lemma kept_4_0: "kept constants_4_0 constants_5_0"
  unfolding constants_4_0_def constants_5_0_def
  by (rule kept_both, rule groups_4_0 | rule kept_last, rule groups_4_0 | rule groups_4_0 |
      rule kept_old, rule groups_4_0 | rule kept_each [where a = erst_statuses_4_0] |
      rule kept_new)+

lemma groups_5_0:
  "kept address_space_ids_5_0 address_space_ids_5_1" "kept access_sizes_5_0 access_sizes_5_1"
  "kept pm_profiles_5_0 pm_profiles_5_1" "kept ia_boot_flags_5_0 ia_boot_flags_5_1"
  "kept fadt_flags_5_0 fadt_flags_5_1" "kept facs_flags_5_0 facs_flags_5_1"
  "kept madt_types_5_0 madt_types_5_1" "kept madt_override_flags_5_0 madt_override_flags_5_1"
  "kept gic_flags_5_0 gic_flags_5_1" "kept srat_types_5_0 srat_types_5_1"
  "kept srat_memory_flags_5_0 srat_memory_flags_5_1"
  "kept rasf_capabilities_5_0 rasf_capabilities_5_1" "kept rasf_commands_5_0 rasf_commands_5_1"
  "kept mpst_commands_5_0 mpst_commands_5_1"
  "kept mpst_structure_flags_5_0 mpst_structure_flags_5_1"
  "kept mpst_state_flags_5_0 mpst_state_flags_5_1" "kept pmmt_types_5_0 pmmt_types_5_1"
  "kept bgrt_statuses_5_0 bgrt_statuses_5_1" "kept fpdt_types_5_0 fpdt_types_5_1"
  "kept fpdt_revisions_5_0 fpdt_revisions_5_1"
  "kept fpdt_runtime_types_5_0 fpdt_runtime_types_5_1"
  "kept fpdt_runtime_revisions_5_0 fpdt_runtime_revisions_5_1" "kept gtdt_global_flags_5_0 []"
  "kept gtdt_timer_flags_5_0 gtdt_timer_flags_5_1"
  "kept error_severities_5_0 error_severities_5_1" "kept hest_types_5_0 hest_types_5_1"
  "kept hest_flags_5_0 hest_flags_5_1" "kept machine_check_formats_5_0 machine_check_formats_5_1"
  "kept hest_notifications_5_0 hest_notifications_5_1" "kept erst_actions_5_0 erst_actions_5_1"
  "kept erst_statuses_5_0 erst_statuses_5_1" "kept erst_instructions_5_0 erst_instructions_5_1"
  "kept einj_actions_5_0 einj_actions_5_1" "kept einj_statuses_5_0 einj_statuses_5_1"
  "kept einj_errors_5_0 einj_errors_5_1" "kept einj_instructions_5_0 einj_instructions_5_1"
  by (simp_all add: kept_eval)

lemma kept_5_0: "kept constants_5_0 constants_5_1"
  unfolding constants_5_0_def constants_5_1_def
  by (rule kept_both, rule groups_5_0 | rule kept_last, rule groups_5_0 | rule groups_5_0 |
      rule kept_old, rule groups_5_0 | rule kept_new)+

lemma groups_5_1:
  "kept address_space_ids_5_1 address_space_ids_6_0" "kept access_sizes_5_1 access_sizes_6_0"
  "kept pm_profiles_5_1 pm_profiles_6_0" "kept ia_boot_flags_5_1 ia_boot_flags_6_0"
  "kept arm_boot_flags_5_1 arm_boot_flags_6_0" "kept fadt_flags_5_1 fadt_flags_6_0"
  "kept facs_flags_5_1 facs_flags_6_0" "kept madt_types_5_1 madt_types_6_0"
  "kept madt_override_flags_5_1 madt_override_flags_6_0" "kept gic_flags_5_1 gic_flags_6_0"
  "kept gic_versions_5_1 gic_versions_6_0" "kept srat_types_5_1 srat_types_6_0"
  "kept srat_memory_flags_5_1 srat_memory_flags_6_0"
  "kept rasf_capabilities_5_1 rasf_capabilities_6_0" "kept rasf_commands_5_1 rasf_commands_6_0"
  "kept mpst_commands_5_1 mpst_commands_6_0"
  "kept mpst_structure_flags_5_1 mpst_structure_flags_6_0"
  "kept mpst_state_flags_5_1 mpst_state_flags_6_0" "kept pmmt_types_5_1 pmmt_types_6_0"
  "kept bgrt_statuses_5_1 bgrt_statuses_6_0" "kept fpdt_types_5_1 fpdt_types_6_0"
  "kept fpdt_revisions_5_1 fpdt_revisions_6_0"
  "kept fpdt_runtime_types_5_1 fpdt_runtime_types_6_0"
  "kept fpdt_runtime_revisions_5_1 fpdt_runtime_revisions_6_0"
  "kept gtdt_timer_flags_5_1 gtdt_timer_flags_6_0" "kept gtdt_types_5_1 gtdt_types_6_0"
  "kept gt_block_timer_flags_5_1 gt_block_timer_flags_6_0"
  "kept gt_block_common_flags_5_1 gt_block_common_flags_6_0"
  "kept gtdt_watchdog_flags_5_1 gtdt_watchdog_flags_6_0"
  "kept error_severities_5_1 error_severities_6_0" "kept hest_types_5_1 hest_types_6_0"
  "kept hest_flags_5_1 hest_flags_6_0" "kept machine_check_formats_5_1 machine_check_formats_6_0"
  "kept hest_notifications_5_1 hest_notifications_6_0" "kept erst_actions_5_1 erst_actions_6_0"
  "kept erst_statuses_5_1 erst_statuses_6_0" "kept erst_instructions_5_1 erst_instructions_6_0"
  "kept einj_actions_5_1 einj_actions_6_0" "kept einj_statuses_5_1 einj_statuses_6_0"
  "kept einj_errors_5_1 einj_errors_6_0" "kept einj_instructions_5_1 einj_instructions_6_0"
  by (simp_all add: kept_eval)

lemma kept_5_1: "kept constants_5_1 constants_6_0"
  unfolding constants_5_1_def constants_6_0_def
  by (rule kept_both, rule groups_5_1 | rule kept_last, rule groups_5_1 | rule groups_5_1 |
      rule kept_old, rule groups_5_1 | rule kept_new)+

section \<open>Records and flags\<close>

text \<open>For each group of type codes the structure of each type.\<close>

definition madt_records_1_0 :: "(string \<times> ctype) list" where
  "madt_records_1_0 =
     [(''PROCESSOR_LOCAL_APIC'', EFI_ACPI_1_0_PROCESSOR_LOCAL_APIC_STRUCTURE),
      (''IO_APIC'', EFI_ACPI_1_0_IO_APIC_STRUCTURE),
      (''INTERRUPT_SOURCE_OVERRIDE'', EFI_ACPI_1_0_INTERRUPT_SOURCE_OVERRIDE_STRUCTURE),
      (''NON_MASKABLE_INTERRUPT_SOURCE'', EFI_ACPI_1_0_NON_MASKABLE_INTERRUPT_SOURCE_STRUCTURE),
      (''LOCAL_APIC_NMI'', EFI_ACPI_1_0_LOCAL_APIC_NMI_STRUCTURE)]"

definition madt_records_2_0 :: "(string \<times> ctype) list" where
  "madt_records_2_0 =
     [(''PROCESSOR_LOCAL_APIC'', EFI_ACPI_2_0_PROCESSOR_LOCAL_APIC_STRUCTURE),
      (''IO_APIC'', EFI_ACPI_2_0_IO_APIC_STRUCTURE),
      (''INTERRUPT_SOURCE_OVERRIDE'', EFI_ACPI_2_0_INTERRUPT_SOURCE_OVERRIDE_STRUCTURE),
      (''NON_MASKABLE_INTERRUPT_SOURCE'', EFI_ACPI_2_0_NON_MASKABLE_INTERRUPT_SOURCE_STRUCTURE),
      (''LOCAL_APIC_NMI'', EFI_ACPI_2_0_LOCAL_APIC_NMI_STRUCTURE),
      (''LOCAL_APIC_ADDRESS_OVERRIDE'', EFI_ACPI_2_0_LOCAL_APIC_ADDRESS_OVERRIDE_STRUCTURE),
      (''IO_SAPIC'', EFI_ACPI_2_0_IO_SAPIC_STRUCTURE),
      (''PROCESSOR_LOCAL_SAPIC'', EFI_ACPI_2_0_PROCESSOR_LOCAL_SAPIC_STRUCTURE),
      (''PLATFORM_INTERRUPT_SOURCES'', EFI_ACPI_2_0_PLATFORM_INTERRUPT_SOURCES_STRUCTURE)]"

definition madt_records_3_0 :: "(string \<times> ctype) list" where
  "madt_records_3_0 =
     [(''PROCESSOR_LOCAL_APIC'', EFI_ACPI_3_0_PROCESSOR_LOCAL_APIC_STRUCTURE),
      (''IO_APIC'', EFI_ACPI_3_0_IO_APIC_STRUCTURE),
      (''INTERRUPT_SOURCE_OVERRIDE'', EFI_ACPI_3_0_INTERRUPT_SOURCE_OVERRIDE_STRUCTURE),
      (''NON_MASKABLE_INTERRUPT_SOURCE'', EFI_ACPI_3_0_NON_MASKABLE_INTERRUPT_SOURCE_STRUCTURE),
      (''LOCAL_APIC_NMI'', EFI_ACPI_3_0_LOCAL_APIC_NMI_STRUCTURE),
      (''LOCAL_APIC_ADDRESS_OVERRIDE'', EFI_ACPI_3_0_LOCAL_APIC_ADDRESS_OVERRIDE_STRUCTURE),
      (''IO_SAPIC'', EFI_ACPI_3_0_IO_SAPIC_STRUCTURE),
      (''LOCAL_SAPIC'', EFI_ACPI_3_0_PROCESSOR_LOCAL_SAPIC_STRUCTURE),
      (''PLATFORM_INTERRUPT_SOURCES'', EFI_ACPI_3_0_PLATFORM_INTERRUPT_SOURCES_STRUCTURE)]"

definition madt_records_4_0 :: "(string \<times> ctype) list" where
  "madt_records_4_0 =
     [(''PROCESSOR_LOCAL_APIC'', EFI_ACPI_4_0_PROCESSOR_LOCAL_APIC_STRUCTURE),
      (''IO_APIC'', EFI_ACPI_4_0_IO_APIC_STRUCTURE),
      (''INTERRUPT_SOURCE_OVERRIDE'', EFI_ACPI_4_0_INTERRUPT_SOURCE_OVERRIDE_STRUCTURE),
      (''NON_MASKABLE_INTERRUPT_SOURCE'', EFI_ACPI_4_0_NON_MASKABLE_INTERRUPT_SOURCE_STRUCTURE),
      (''LOCAL_APIC_NMI'', EFI_ACPI_4_0_LOCAL_APIC_NMI_STRUCTURE),
      (''LOCAL_APIC_ADDRESS_OVERRIDE'', EFI_ACPI_4_0_LOCAL_APIC_ADDRESS_OVERRIDE_STRUCTURE),
      (''IO_SAPIC'', EFI_ACPI_4_0_IO_SAPIC_STRUCTURE),
      (''LOCAL_SAPIC'', EFI_ACPI_4_0_PROCESSOR_LOCAL_SAPIC_STRUCTURE),
      (''PLATFORM_INTERRUPT_SOURCES'', EFI_ACPI_4_0_PLATFORM_INTERRUPT_SOURCES_STRUCTURE),
      (''PROCESSOR_LOCAL_X2APIC'', EFI_ACPI_4_0_PROCESSOR_LOCAL_X2APIC_STRUCTURE),
      (''LOCAL_X2APIC_NMI'', EFI_ACPI_4_0_LOCAL_X2APIC_NMI_STRUCTURE)]"

definition madt_records_5_0 :: "(string \<times> ctype) list" where
  "madt_records_5_0 =
     [(''PROCESSOR_LOCAL_APIC'', EFI_ACPI_5_0_PROCESSOR_LOCAL_APIC_STRUCTURE),
      (''IO_APIC'', EFI_ACPI_5_0_IO_APIC_STRUCTURE),
      (''INTERRUPT_SOURCE_OVERRIDE'', EFI_ACPI_5_0_INTERRUPT_SOURCE_OVERRIDE_STRUCTURE),
      (''NON_MASKABLE_INTERRUPT_SOURCE'', EFI_ACPI_5_0_NON_MASKABLE_INTERRUPT_SOURCE_STRUCTURE),
      (''LOCAL_APIC_NMI'', EFI_ACPI_5_0_LOCAL_APIC_NMI_STRUCTURE),
      (''LOCAL_APIC_ADDRESS_OVERRIDE'', EFI_ACPI_5_0_LOCAL_APIC_ADDRESS_OVERRIDE_STRUCTURE),
      (''IO_SAPIC'', EFI_ACPI_5_0_IO_SAPIC_STRUCTURE),
      (''LOCAL_SAPIC'', EFI_ACPI_5_0_PROCESSOR_LOCAL_SAPIC_STRUCTURE),
      (''PLATFORM_INTERRUPT_SOURCES'', EFI_ACPI_5_0_PLATFORM_INTERRUPT_SOURCES_STRUCTURE),
      (''PROCESSOR_LOCAL_X2APIC'', EFI_ACPI_5_0_PROCESSOR_LOCAL_X2APIC_STRUCTURE),
      (''LOCAL_X2APIC_NMI'', EFI_ACPI_5_0_LOCAL_X2APIC_NMI_STRUCTURE),
      (''GIC'', EFI_ACPI_5_0_GIC_STRUCTURE), (''GICD'', EFI_ACPI_5_0_GIC_DISTRIBUTOR_STRUCTURE)]"

definition madt_records_5_1 :: "(string \<times> ctype) list" where
  "madt_records_5_1 =
     [(''PROCESSOR_LOCAL_APIC'', EFI_ACPI_5_1_PROCESSOR_LOCAL_APIC_STRUCTURE),
      (''IO_APIC'', EFI_ACPI_5_1_IO_APIC_STRUCTURE),
      (''INTERRUPT_SOURCE_OVERRIDE'', EFI_ACPI_5_1_INTERRUPT_SOURCE_OVERRIDE_STRUCTURE),
      (''NON_MASKABLE_INTERRUPT_SOURCE'', EFI_ACPI_5_1_NON_MASKABLE_INTERRUPT_SOURCE_STRUCTURE),
      (''LOCAL_APIC_NMI'', EFI_ACPI_5_1_LOCAL_APIC_NMI_STRUCTURE),
      (''LOCAL_APIC_ADDRESS_OVERRIDE'', EFI_ACPI_5_1_LOCAL_APIC_ADDRESS_OVERRIDE_STRUCTURE),
      (''IO_SAPIC'', EFI_ACPI_5_1_IO_SAPIC_STRUCTURE),
      (''LOCAL_SAPIC'', EFI_ACPI_5_1_PROCESSOR_LOCAL_SAPIC_STRUCTURE),
      (''PLATFORM_INTERRUPT_SOURCES'', EFI_ACPI_5_1_PLATFORM_INTERRUPT_SOURCES_STRUCTURE),
      (''PROCESSOR_LOCAL_X2APIC'', EFI_ACPI_5_1_PROCESSOR_LOCAL_X2APIC_STRUCTURE),
      (''LOCAL_X2APIC_NMI'', EFI_ACPI_5_1_LOCAL_X2APIC_NMI_STRUCTURE),
      (''GIC'', EFI_ACPI_5_1_GIC_STRUCTURE), (''GICD'', EFI_ACPI_5_1_GIC_DISTRIBUTOR_STRUCTURE),
      (''GIC_MSI_FRAME'', EFI_ACPI_5_1_GIC_MSI_FRAME_STRUCTURE),
      (''GICR'', EFI_ACPI_5_1_GICR_STRUCTURE)]"

definition madt_records_6_0 :: "(string \<times> ctype) list" where
  "madt_records_6_0 =
     [(''PROCESSOR_LOCAL_APIC'', EFI_ACPI_6_0_PROCESSOR_LOCAL_APIC_STRUCTURE),
      (''IO_APIC'', EFI_ACPI_6_0_IO_APIC_STRUCTURE),
      (''INTERRUPT_SOURCE_OVERRIDE'', EFI_ACPI_6_0_INTERRUPT_SOURCE_OVERRIDE_STRUCTURE),
      (''NON_MASKABLE_INTERRUPT_SOURCE'', EFI_ACPI_6_0_NON_MASKABLE_INTERRUPT_SOURCE_STRUCTURE),
      (''LOCAL_APIC_NMI'', EFI_ACPI_6_0_LOCAL_APIC_NMI_STRUCTURE),
      (''LOCAL_APIC_ADDRESS_OVERRIDE'', EFI_ACPI_6_0_LOCAL_APIC_ADDRESS_OVERRIDE_STRUCTURE),
      (''IO_SAPIC'', EFI_ACPI_6_0_IO_SAPIC_STRUCTURE),
      (''LOCAL_SAPIC'', EFI_ACPI_6_0_PROCESSOR_LOCAL_SAPIC_STRUCTURE),
      (''PLATFORM_INTERRUPT_SOURCES'', EFI_ACPI_6_0_PLATFORM_INTERRUPT_SOURCES_STRUCTURE),
      (''PROCESSOR_LOCAL_X2APIC'', EFI_ACPI_6_0_PROCESSOR_LOCAL_X2APIC_STRUCTURE),
      (''LOCAL_X2APIC_NMI'', EFI_ACPI_6_0_LOCAL_X2APIC_NMI_STRUCTURE),
      (''GIC'', EFI_ACPI_6_0_GIC_STRUCTURE), (''GICD'', EFI_ACPI_6_0_GIC_DISTRIBUTOR_STRUCTURE),
      (''GIC_MSI_FRAME'', EFI_ACPI_6_0_GIC_MSI_FRAME_STRUCTURE),
      (''GICR'', EFI_ACPI_6_0_GICR_STRUCTURE), (''GIC_ITS'', EFI_ACPI_6_0_GIC_ITS_STRUCTURE)]"

definition srat_records_3_0 :: "(string \<times> ctype) list" where
  "srat_records_3_0 =
     [(''PROCESSOR_LOCAL_APIC_SAPIC_AFFINITY'', EFI_ACPI_3_0_PROCESSOR_LOCAL_APIC_SAPIC_AFFINITY_STRUCTURE),
      (''MEMORY_AFFINITY'', EFI_ACPI_3_0_MEMORY_AFFINITY_STRUCTURE)]"

definition srat_records_4_0 :: "(string \<times> ctype) list" where
  "srat_records_4_0 =
     [(''PROCESSOR_LOCAL_APIC_SAPIC_AFFINITY'', EFI_ACPI_4_0_PROCESSOR_LOCAL_APIC_SAPIC_AFFINITY_STRUCTURE),
      (''MEMORY_AFFINITY'', EFI_ACPI_4_0_MEMORY_AFFINITY_STRUCTURE),
      (''PROCESSOR_LOCAL_X2APIC_AFFINITY'', EFI_ACPI_4_0_PROCESSOR_LOCAL_X2APIC_AFFINITY_STRUCTURE)]"

definition srat_records_5_0 :: "(string \<times> ctype) list" where
  "srat_records_5_0 =
     [(''PROCESSOR_LOCAL_APIC_SAPIC_AFFINITY'', EFI_ACPI_5_0_PROCESSOR_LOCAL_APIC_SAPIC_AFFINITY_STRUCTURE),
      (''MEMORY_AFFINITY'', EFI_ACPI_5_0_MEMORY_AFFINITY_STRUCTURE),
      (''PROCESSOR_LOCAL_X2APIC_AFFINITY'', EFI_ACPI_5_0_PROCESSOR_LOCAL_X2APIC_AFFINITY_STRUCTURE)]"

definition srat_records_5_1 :: "(string \<times> ctype) list" where
  "srat_records_5_1 =
     [(''PROCESSOR_LOCAL_APIC_SAPIC_AFFINITY'', EFI_ACPI_5_1_PROCESSOR_LOCAL_APIC_SAPIC_AFFINITY_STRUCTURE),
      (''MEMORY_AFFINITY'', EFI_ACPI_5_1_MEMORY_AFFINITY_STRUCTURE),
      (''PROCESSOR_LOCAL_X2APIC_AFFINITY'', EFI_ACPI_5_1_PROCESSOR_LOCAL_X2APIC_AFFINITY_STRUCTURE),
      (''GICC_AFFINITY'', EFI_ACPI_5_1_GICC_AFFINITY_STRUCTURE)]"

definition srat_records_6_0 :: "(string \<times> ctype) list" where
  "srat_records_6_0 =
     [(''PROCESSOR_LOCAL_APIC_SAPIC_AFFINITY'', EFI_ACPI_6_0_PROCESSOR_LOCAL_APIC_SAPIC_AFFINITY_STRUCTURE),
      (''MEMORY_AFFINITY'', EFI_ACPI_6_0_MEMORY_AFFINITY_STRUCTURE),
      (''PROCESSOR_LOCAL_X2APIC_AFFINITY'', EFI_ACPI_6_0_PROCESSOR_LOCAL_X2APIC_AFFINITY_STRUCTURE),
      (''GICC_AFFINITY'', EFI_ACPI_6_0_GICC_AFFINITY_STRUCTURE)]"

definition gtdt_records_5_1 :: "(string \<times> ctype) list" where
  "gtdt_records_5_1 =
     [(''GTDT_GT_BLOCK'', EFI_ACPI_5_1_GTDT_GT_BLOCK_STRUCTURE),
      (''GTDT_SBSA_GENERIC_WATCHDOG'', EFI_ACPI_5_1_GTDT_SBSA_GENERIC_WATCHDOG_STRUCTURE)]"

definition gtdt_records_6_0 :: "(string \<times> ctype) list" where
  "gtdt_records_6_0 =
     [(''GTDT_GT_BLOCK'', EFI_ACPI_6_0_GTDT_GT_BLOCK_STRUCTURE),
      (''GTDT_SBSA_GENERIC_WATCHDOG'', EFI_ACPI_6_0_GTDT_SBSA_GENERIC_WATCHDOG_STRUCTURE)]"

definition nfit_records_6_0 :: "(string \<times> ctype) list" where
  "nfit_records_6_0 =
     [(''NFIT_SYSTEM_PHYSICAL_ADDRESS_RANGE_STRUCTURE_TYPE'', EFI_ACPI_6_0_NFIT_SYSTEM_PHYSICAL_ADDRESS_RANGE_STRUCTURE),
      (''NFIT_MEMORY_DEVICE_TO_SYSTEM_ADDRESS_RANGE_MAP_STRUCTURE_TYPE'', EFI_ACPI_6_0_NFIT_MEMORY_DEVICE_TO_SYSTEM_ADDRESS_RANGE_MAP_STRUCTURE),
      (''NFIT_INTERLEAVE_STRUCTURE_TYPE'', EFI_ACPI_6_0_NFIT_INTERLEAVE_STRUCTURE),
      (''NFIT_SMBIOS_MANAGEMENT_INFORMATION_STRUCTURE_TYPE'', EFI_ACPI_6_0_NFIT_SMBIOS_MANAGEMENT_INFORMATION_STRUCTURE),
      (''NFIT_NVDIMM_CONTROL_REGION_STRUCTURE_TYPE'', EFI_ACPI_6_0_NFIT_NVDIMM_CONTROL_REGION_STRUCTURE),
      (''NFIT_NVDIMM_BLOCK_DATA_WINDOW_REGION_STRUCTURE_TYPE'', EFI_ACPI_6_0_NFIT_NVDIMM_BLOCK_DATA_WINDOW_REGION_STRUCTURE),
      (''NFIT_FLUSH_HINT_ADDRESS_STRUCTURE_TYPE'', EFI_ACPI_6_0_NFIT_FLUSH_HINT_ADDRESS_STRUCTURE)]"

definition pcct_records_6_0 :: "(string \<times> ctype) list" where
  "pcct_records_6_0 =
     [(''PCCT_SUBSPACE_TYPE_GENERIC'', EFI_ACPI_6_0_PCCT_SUBSPACE_GENERIC),
      (''PCCT_SUBSPACE_TYPE_1_HW_REDUCED_COMMUNICATIONS'', EFI_ACPI_6_0_PCCT_SUBSPACE_1_HW_REDUCED_COMMUNICATIONS),
      (''PCCT_SUBSPACE_TYPE_2_HW_REDUCED_COMMUNICATIONS'', EFI_ACPI_6_0_PCCT_SUBSPACE_2_HW_REDUCED_COMMUNICATIONS)]"

definition record_families :: "(constants \<times> (string \<times> ctype) list) list" where
  "record_families =
     [(madt_types_1_0, madt_records_1_0), (madt_types_2_0, madt_records_2_0),
      (madt_types_3_0, madt_records_3_0), (madt_types_4_0, madt_records_4_0),
      (madt_types_5_0, madt_records_5_0), (madt_types_5_1, madt_records_5_1),
      (madt_types_6_0, madt_records_6_0), (srat_types_3_0, srat_records_3_0),
      (srat_types_4_0, srat_records_4_0), (srat_types_5_0, srat_records_5_0),
      (srat_types_5_1, srat_records_5_1), (srat_types_6_0, srat_records_6_0),
      (gtdt_types_5_1, gtdt_records_5_1), (gtdt_types_6_0, gtdt_records_6_0),
      (nfit_types_6_0, nfit_records_6_0), (pcct_types_6_0, pcct_records_6_0)]"

text \<open>The members of structures that hold the flags of each group.\<close>

definition flag_members_1_0 :: "(constants \<times> ctype \<times> string) list" where
  "flag_members_1_0 =
     [(fadt_flags_1_0, EFI_ACPI_1_0_FIXED_ACPI_DESCRIPTION_TABLE, ''Flags'')]"

definition flag_members_2_0 :: "(constants \<times> ctype \<times> string) list" where
  "flag_members_2_0 =
     [(fadt_flags_2_0, EFI_ACPI_2_0_FIXED_ACPI_DESCRIPTION_TABLE, ''Flags''),
      (ia_boot_flags_2_0, EFI_ACPI_2_0_FIXED_ACPI_DESCRIPTION_TABLE, ''IaPcBootArch'')]"

definition flag_members_3_0 :: "(constants \<times> ctype \<times> string) list" where
  "flag_members_3_0 =
     [(fadt_flags_3_0, EFI_ACPI_3_0_FIXED_ACPI_DESCRIPTION_TABLE, ''Flags''),
      (ia_boot_flags_3_0, EFI_ACPI_3_0_FIXED_ACPI_DESCRIPTION_TABLE, ''IaPcBootArch''),
      (srat_memory_flags_3_0, EFI_ACPI_3_0_MEMORY_AFFINITY_STRUCTURE, ''Flags'')]"

definition flag_members_4_0 :: "(constants \<times> ctype \<times> string) list" where
  "flag_members_4_0 =
     [(fadt_flags_4_0, EFI_ACPI_4_0_FIXED_ACPI_DESCRIPTION_TABLE, ''Flags''),
      (ia_boot_flags_4_0, EFI_ACPI_4_0_FIXED_ACPI_DESCRIPTION_TABLE, ''IaPcBootArch''),
      (facs_flags_4_0, EFI_ACPI_4_0_FIRMWARE_ACPI_CONTROL_STRUCTURE, ''Flags''),
      (srat_memory_flags_4_0, EFI_ACPI_4_0_MEMORY_AFFINITY_STRUCTURE, ''Flags''),
      (hest_flags_4_0, EFI_ACPI_4_0_IA32_ARCHITECTURE_MACHINE_CHECK_EXCEPTION_STRUCTURE, ''Flags'')]"

definition flag_members_5_0 :: "(constants \<times> ctype \<times> string) list" where
  "flag_members_5_0 =
     [(fadt_flags_5_0, EFI_ACPI_5_0_FIXED_ACPI_DESCRIPTION_TABLE, ''Flags''),
      (ia_boot_flags_5_0, EFI_ACPI_5_0_FIXED_ACPI_DESCRIPTION_TABLE, ''IaPcBootArch''),
      (facs_flags_5_0, EFI_ACPI_5_0_FIRMWARE_ACPI_CONTROL_STRUCTURE, ''Flags''),
      (gic_flags_5_0, EFI_ACPI_5_0_GIC_STRUCTURE, ''Flags''),
      (srat_memory_flags_5_0, EFI_ACPI_5_0_MEMORY_AFFINITY_STRUCTURE, ''Flags''),
      (hest_flags_5_0, EFI_ACPI_5_0_IA32_ARCHITECTURE_MACHINE_CHECK_EXCEPTION_STRUCTURE, ''Flags''),
      (mpst_structure_flags_5_0, EFI_ACPI_5_0_MPST_MEMORY_POWER_STRUCTURE, ''Flag''),
      (mpst_state_flags_5_0, EFI_ACPI_5_0_MPST_MEMORY_POWER_STATE_CHARACTERISTICS_STRUCTURE, ''Flag''),
      (gtdt_global_flags_5_0, EFI_ACPI_5_0_GENERIC_TIMER_DESCRIPTION_TABLE, ''GlobalFlags''),
      (gtdt_timer_flags_5_0, EFI_ACPI_5_0_GENERIC_TIMER_DESCRIPTION_TABLE, ''SecurePL1TimerFlags''),
      (gtdt_timer_flags_5_0, EFI_ACPI_5_0_GENERIC_TIMER_DESCRIPTION_TABLE, ''NonSecurePL1TimerFlags''),
      (gtdt_timer_flags_5_0, EFI_ACPI_5_0_GENERIC_TIMER_DESCRIPTION_TABLE, ''VirtualTimerFlags''),
      (gtdt_timer_flags_5_0, EFI_ACPI_5_0_GENERIC_TIMER_DESCRIPTION_TABLE, ''NonSecurePL2TimerFlags'')]"

definition flag_members_5_1 :: "(constants \<times> ctype \<times> string) list" where
  "flag_members_5_1 =
     [(fadt_flags_5_1, EFI_ACPI_5_1_FIXED_ACPI_DESCRIPTION_TABLE, ''Flags''),
      (ia_boot_flags_5_1, EFI_ACPI_5_1_FIXED_ACPI_DESCRIPTION_TABLE, ''IaPcBootArch''),
      (arm_boot_flags_5_1, EFI_ACPI_5_1_FIXED_ACPI_DESCRIPTION_TABLE, ''ArmBootArch''),
      (facs_flags_5_1, EFI_ACPI_5_1_FIRMWARE_ACPI_CONTROL_STRUCTURE, ''Flags''),
      (gic_flags_5_1, EFI_ACPI_5_1_GIC_STRUCTURE, ''Flags''),
      (srat_memory_flags_5_1, EFI_ACPI_5_1_MEMORY_AFFINITY_STRUCTURE, ''Flags''),
      (hest_flags_5_1, EFI_ACPI_5_1_IA32_ARCHITECTURE_MACHINE_CHECK_EXCEPTION_STRUCTURE, ''Flags''),
      (mpst_structure_flags_5_1, EFI_ACPI_5_1_MPST_MEMORY_POWER_STRUCTURE, ''Flag''),
      (mpst_state_flags_5_1, EFI_ACPI_5_1_MPST_MEMORY_POWER_STATE_CHARACTERISTICS_STRUCTURE, ''Flag''),
      (gtdt_timer_flags_5_1, EFI_ACPI_5_1_GENERIC_TIMER_DESCRIPTION_TABLE, ''SecurePL1TimerFlags''),
      (gtdt_timer_flags_5_1, EFI_ACPI_5_1_GENERIC_TIMER_DESCRIPTION_TABLE, ''NonSecurePL1TimerFlags''),
      (gtdt_timer_flags_5_1, EFI_ACPI_5_1_GENERIC_TIMER_DESCRIPTION_TABLE, ''VirtualTimerFlags''),
      (gtdt_timer_flags_5_1, EFI_ACPI_5_1_GENERIC_TIMER_DESCRIPTION_TABLE, ''NonSecurePL2TimerFlags''),
      (gt_block_timer_flags_5_1, EFI_ACPI_5_1_GTDT_GT_BLOCK_TIMER_STRUCTURE, ''GTxPhysicalTimerFlags''),
      (gt_block_timer_flags_5_1, EFI_ACPI_5_1_GTDT_GT_BLOCK_TIMER_STRUCTURE, ''GTxVirtualTimerFlags''),
      (gt_block_common_flags_5_1, EFI_ACPI_5_1_GTDT_GT_BLOCK_TIMER_STRUCTURE, ''GTxCommonFlags''),
      (gtdt_watchdog_flags_5_1, EFI_ACPI_5_1_GTDT_SBSA_GENERIC_WATCHDOG_STRUCTURE, ''WatchdogTimerFlags'')]"

definition flag_members_6_0 :: "(constants \<times> ctype \<times> string) list" where
  "flag_members_6_0 =
     [(fadt_flags_6_0, EFI_ACPI_6_0_FIXED_ACPI_DESCRIPTION_TABLE, ''Flags''),
      (ia_boot_flags_6_0, EFI_ACPI_6_0_FIXED_ACPI_DESCRIPTION_TABLE, ''IaPcBootArch''),
      (arm_boot_flags_6_0, EFI_ACPI_6_0_FIXED_ACPI_DESCRIPTION_TABLE, ''ArmBootArch''),
      (facs_flags_6_0, EFI_ACPI_6_0_FIRMWARE_ACPI_CONTROL_STRUCTURE, ''Flags''),
      (gic_flags_6_0, EFI_ACPI_6_0_GIC_STRUCTURE, ''Flags''),
      (srat_memory_flags_6_0, EFI_ACPI_6_0_MEMORY_AFFINITY_STRUCTURE, ''Flags''),
      (hest_flags_6_0, EFI_ACPI_6_0_IA32_ARCHITECTURE_MACHINE_CHECK_EXCEPTION_STRUCTURE, ''Flags''),
      (mpst_structure_flags_6_0, EFI_ACPI_6_0_MPST_MEMORY_POWER_STRUCTURE, ''Flag''),
      (mpst_state_flags_6_0, EFI_ACPI_6_0_MPST_MEMORY_POWER_STATE_CHARACTERISTICS_STRUCTURE, ''Flag''),
      (gtdt_timer_flags_6_0, EFI_ACPI_6_0_GENERIC_TIMER_DESCRIPTION_TABLE, ''SecurePL1TimerFlags''),
      (gtdt_timer_flags_6_0, EFI_ACPI_6_0_GENERIC_TIMER_DESCRIPTION_TABLE, ''NonSecurePL1TimerFlags''),
      (gtdt_timer_flags_6_0, EFI_ACPI_6_0_GENERIC_TIMER_DESCRIPTION_TABLE, ''VirtualTimerFlags''),
      (gtdt_timer_flags_6_0, EFI_ACPI_6_0_GENERIC_TIMER_DESCRIPTION_TABLE, ''NonSecurePL2TimerFlags''),
      (gt_block_timer_flags_6_0, EFI_ACPI_6_0_GTDT_GT_BLOCK_TIMER_STRUCTURE, ''GTxPhysicalTimerFlags''),
      (gt_block_timer_flags_6_0, EFI_ACPI_6_0_GTDT_GT_BLOCK_TIMER_STRUCTURE, ''GTxVirtualTimerFlags''),
      (gt_block_common_flags_6_0, EFI_ACPI_6_0_GTDT_GT_BLOCK_TIMER_STRUCTURE, ''GTxCommonFlags''),
      (gtdt_watchdog_flags_6_0, EFI_ACPI_6_0_GTDT_SBSA_GENERIC_WATCHDOG_STRUCTURE, ''WatchdogTimerFlags''),
      (nfit_range_flags_6_0, EFI_ACPI_6_0_NFIT_SYSTEM_PHYSICAL_ADDRESS_RANGE_STRUCTURE, ''Flags''),
      (nfit_state_flags_6_0, EFI_ACPI_6_0_NFIT_MEMORY_DEVICE_TO_SYSTEM_ADDRESS_RANGE_MAP_STRUCTURE, ''MemoryDeviceStateFlags''),
      (pcct_doorbell_flags_6_0, EFI_ACPI_6_0_PCCT_SUBSPACE_1_HW_REDUCED_COMMUNICATIONS, ''DoorbellInterruptFlags''),
      (pcct_doorbell_flags_6_0, EFI_ACPI_6_0_PCCT_SUBSPACE_2_HW_REDUCED_COMMUNICATIONS, ''DoorbellInterruptFlags'')]"

definition flag_members :: "(constants \<times> ctype \<times> string) list" where
  "flag_members = flag_members_1_0 @ flag_members_2_0 @ flag_members_3_0 @ flag_members_4_0 @
     flag_members_5_0 @ flag_members_5_1 @ flag_members_6_0"

definition tagged :: "string \<times> ctype \<Rightarrow> nat \<Rightarrow> bool" where
  "tagged r code \<longleftrightarrow>
     (case locate [Dot ''Type''] (snd r) of None \<Rightarrow> False | Some (n, u) \<Rightarrow>
        n = 0 \<and> code < 256 ^ sizeof_type u \<and>
        (case locate [Dot ''Length''] (snd r) of None \<Rightarrow> False | Some (k, l) \<Rightarrow>
           k = sizeof_type u \<and> sizeof_type (snd r) < 256 ^ sizeof_type l))"

definition record_family :: "constants \<times> (string \<times> ctype) list \<Rightarrow> bool" where
  "record_family F \<longleftrightarrow> (case F of (types, recs) \<Rightarrow>
     List.map fst recs = List.map fst types \<and> distinct (List.map fst types) \<and>
     distinct (List.map snd types) \<and> list_all2 tagged recs (List.map snd types))"

definition bit_numbers :: "nat list" where
  "bit_numbers =
     [0, 1, 2, 3, 4, 5, 6, 7, 8, 9, 10, 11, 12, 13, 14, 15, 16, 17, 18, 19, 20, 21, 22, 23, 24, 25,
      26, 27, 28, 29, 30, 31]"

definition single_bits :: "constants \<times> ctype \<times> string \<Rightarrow> bool" where
  "single_bits F \<longleftrightarrow> (case F of (cs, T, f) \<Rightarrow>
     (case locate [Dot f] T of None \<Rightarrow> False | Some (n, u) \<Rightarrow>
        list_all (\<lambda>c. \<exists>k\<in>set bit_numbers. k < 8 * sizeof_type u \<and> snd c = 2 ^ k) cs) \<and>
     distinct (List.map snd cs))"

lemmas layout_eval = layouts constants place_def round_up_def bits_size_def

lemma family_0:
  "record_family (madt_types_1_0, madt_records_1_0)"
  "record_family (madt_types_2_0, madt_records_2_0)"
  "record_family (madt_types_3_0, madt_records_3_0)"
  "record_family (madt_types_4_0, madt_records_4_0)"
  by (simp_all add: record_family_def tagged_def layout_eval
      madt_records_1_0_def madt_records_2_0_def madt_records_3_0_def madt_records_4_0_def)

lemma family_1:
  "record_family (madt_types_5_0, madt_records_5_0)"
  "record_family (madt_types_5_1, madt_records_5_1)"
  "record_family (madt_types_6_0, madt_records_6_0)"
  "record_family (srat_types_3_0, srat_records_3_0)"
  by (simp_all add: record_family_def tagged_def layout_eval
      madt_records_5_0_def madt_records_5_1_def madt_records_6_0_def srat_records_3_0_def)

lemma family_2:
  "record_family (srat_types_4_0, srat_records_4_0)"
  "record_family (srat_types_5_0, srat_records_5_0)"
  "record_family (srat_types_5_1, srat_records_5_1)"
  "record_family (srat_types_6_0, srat_records_6_0)"
  by (simp_all add: record_family_def tagged_def layout_eval
      srat_records_4_0_def srat_records_5_0_def srat_records_5_1_def srat_records_6_0_def)

lemma family_3:
  "record_family (gtdt_types_5_1, gtdt_records_5_1)"
  "record_family (gtdt_types_6_0, gtdt_records_6_0)"
  "record_family (nfit_types_6_0, nfit_records_6_0)"
  "record_family (pcct_types_6_0, pcct_records_6_0)"
  by (simp_all add: record_family_def tagged_def layout_eval
      gtdt_records_5_1_def gtdt_records_6_0_def nfit_records_6_0_def pcct_records_6_0_def)

lemma record_families_ok: "list_all record_family record_families"
  unfolding record_families_def by (simp only: list.pred_inject family_0 family_1 family_2 family_3 simp_thms)

lemma flags_1_0: "list_all single_bits flag_members_1_0"
  by (simp add: flag_members_1_0_def single_bits_def bit_numbers_def layout_eval)

lemma flags_2_0: "list_all single_bits flag_members_2_0"
  by (simp add: flag_members_2_0_def single_bits_def bit_numbers_def layout_eval)

lemma flags_3_0: "list_all single_bits flag_members_3_0"
  by (simp add: flag_members_3_0_def single_bits_def bit_numbers_def layout_eval)

lemma flags_4_0: "list_all single_bits flag_members_4_0"
  by (simp add: flag_members_4_0_def single_bits_def bit_numbers_def layout_eval)

lemma flags_5_0: "list_all single_bits flag_members_5_0"
  by (simp add: flag_members_5_0_def single_bits_def bit_numbers_def layout_eval)

lemma flags_5_1: "list_all single_bits flag_members_5_1"
  by (simp add: flag_members_5_1_def single_bits_def bit_numbers_def layout_eval)

lemma flags_6_0: "list_all single_bits flag_members_6_0"
  by (simp add: flag_members_6_0_def single_bits_def bit_numbers_def layout_eval)

lemma flag_members_ok: "list_all single_bits flag_members"
  unfolding flag_members_def
  by (simp only: list_all_append flags_1_0 flags_2_0 flags_3_0 flags_4_0 flags_5_0 flags_5_1 flags_6_0 simp_thms)

section \<open>Properties\<close>

text \<open>
  Constants never change their value: what a version names as a type, a flag, an action or a
  status, the next version names with the same value, except for the twelve constants of
  \<open>retired\<close>, which it does not have.
\<close>

theorem acpi_constants_stay:
  "kept constants_1_0 constants_2_0 \<and> kept constants_2_0 constants_3_0 \<and>
   kept constants_3_0 constants_4_0 \<and> kept constants_4_0 constants_5_0 \<and>
   kept constants_5_0 constants_5_1 \<and> kept constants_5_1 constants_6_0"
  by (intro conjI kept_1_0 kept_2_0 kept_3_0 kept_4_0 kept_5_0 kept_5_1)

text \<open>
  Records of the tables that list processors, memory, timers, persistent memory and
  communication channels, in every version: each starts with its type, its length follows at
  once, its type code fits the one and its size the other, and no two types of a table have
  the same code.
\<close>

theorem acpi_records_tagged:
  assumes "(types, recs) \<in> set record_families" "(c, T) \<in> set recs"
  shows "\<exists>code u l. map_of types c = Some code \<and>
    locate [Dot ''Type''] T = Some (0, u) \<and> code < 256 ^ sizeof_type u \<and>
    locate [Dot ''Length''] T = Some (sizeof_type u, l) \<and> sizeof_type T < 256 ^ sizeof_type l \<and>
    (\<forall>d U. (d, U) \<in> set recs \<and> map_of types d = Some code \<longrightarrow> U = T)"
proof -
  have F: "List.map fst recs = List.map fst types" "distinct (List.map fst types)"
    "distinct (List.map snd types)" "list_all2 tagged recs (List.map snd types)"
    using record_families_ok assms(1) by (auto simp: list_all_iff record_family_def)
  obtain i where i: "i < length recs" "recs ! i = (c, T)" using assms(2) by (auto simp: in_set_conv_nth)
  have l: "length recs = length types" using arg_cong [OF F(1), of length] by simp
  have n: "fst (types ! j) = fst (recs ! j)" if "j < length recs" for j
    using arg_cong [OF F(1), of "\<lambda>xs. xs ! j"] that l by simp
  let ?code = "snd (types ! i)"
  have "types ! i = (c, ?code)" using n [OF i(1)] i(2) by (metis fst_conv prod.collapse)
  then have code: "map_of types c = Some ?code" using F(2) i(1) l by (metis map_of_is_SomeI nth_mem)
  have t: "tagged (c, T) ?code"
    using F(4) i l by (auto simp: list_all2_conv_all_nth)
  have "U = T" if U: "(d, U) \<in> set recs" "map_of types d = Some ?code" for d U
  proof -
    obtain j where j: "j < length recs" "recs ! j = (d, U)" using U(1) by (auto simp: in_set_conv_nth)
    have "types ! j = (d, snd (types ! j))" using n [OF j(1)] j(2) by (metis fst_conv prod.collapse)
    then have "map_of types d = Some (snd (types ! j))" using F(2) j(1) l by (metis map_of_is_SomeI nth_mem)
    then have "snd (types ! j) = ?code" using U(2) by simp
    then have "i = j" using F(3) i(1) j(1) l by (auto simp: distinct_conv_nth)
    then show ?thesis using i(2) j(2) by simp
  qed
  with t code show ?thesis by (auto simp: tagged_def split: option.splits)
qed

theorem acpi_records_tagged_witness:
  "\<exists>code u l. map_of madt_types_1_0 ''IO_APIC'' = Some code \<and>
    locate [Dot ''Type''] EFI_ACPI_1_0_IO_APIC_STRUCTURE = Some (0, u) \<and>
    locate [Dot ''Length''] EFI_ACPI_1_0_IO_APIC_STRUCTURE = Some (sizeof_type u, l)"
proof -
  have "(madt_types_1_0, madt_records_1_0) \<in> set record_families" by (simp add: record_families_def)
  moreover have "(''IO_APIC'', EFI_ACPI_1_0_IO_APIC_STRUCTURE) \<in> set madt_records_1_0"
    by (simp add: madt_records_1_0_def)
  ultimately show ?thesis using acpi_records_tagged by blast
qed

text \<open>
  Flags: every group of flags fits the member that holds it and no two of them share a bit,
  so that setting or clearing one in a value leaves every other as it was.
\<close>

theorem acpi_flags_independent:
  fixes x :: UINT64
  assumes "(cs, T, f) \<in> set flag_members" "(a, v) \<in> set cs"
  shows "(\<exists>n u. locate [Dot f] T = Some (n, u) \<and> v < 256 ^ sizeof_type u) \<and>
    (x OR of_nat v) AND of_nat v \<noteq> 0 \<and> (x AND NOT (of_nat v)) AND of_nat v = 0 \<and>
    (\<forall>b w. (b, w) \<in> set cs \<and> b \<noteq> a \<longrightarrow>
      (x OR of_nat v) AND of_nat w = x AND of_nat w \<and>
      (x AND NOT (of_nat v)) AND of_nat w = x AND of_nat w)"
proof -
  have F: "single_bits (cs, T, f)" using flag_members_ok assms(1) by (simp add: list_all_iff)
  then obtain n u where u: "locate [Dot f] T = Some (n, u)"
    "\<And>c. c \<in> set cs \<Longrightarrow> \<exists>k\<in>set bit_numbers. k < 8 * sizeof_type u \<and> snd c = 2 ^ k" "distinct (List.map snd cs)"
    by (auto simp: single_bits_def list_all_iff split: option.splits)
  obtain k where "k \<in> set bit_numbers" and k: "k < 8 * sizeof_type u" "v = 2 ^ k"
    using u(2) [OF assms(2)] by auto
  moreover have "\<forall>i\<in>set bit_numbers. i < 32" by (simp add: bit_numbers_def)
  ultimately have k32: "k < 32" by blast
  have "v < 2 ^ (8 * sizeof_type u)" using k by simp
  then have fits: "v < 256 ^ sizeof_type u" by (simp add: power_mult)
  have v: "(of_nat v :: UINT64) = push_bit k 1" using k by (simp add: push_bit_eq_mult)
  have on: "bit ((x OR of_nat v) AND of_nat v) k" using k32 by (simp add: v bit_simps)
  have other: "(x OR of_nat v) AND of_nat w = x AND of_nat w \<and>
      (x AND NOT (of_nat v)) AND of_nat w = x AND of_nat w" if w: "(b, w) \<in> set cs" "b \<noteq> a" for b w
  proof -
    obtain j where j: "w = 2 ^ j" using u(2) [OF w(1)] by auto
    have "w \<noteq> v" using u(3) assms(2) w
      by (auto simp: distinct_map dest: inj_onD [of snd "set cs" "(a, v)" "(b, w)"])
    then have "j \<noteq> k" using j k by auto
    moreover have "(of_nat w :: UINT64) = push_bit j 1" using j by (simp add: push_bit_eq_mult)
    ultimately show ?thesis by (auto simp: v intro!: bit_word_eqI simp: bit_simps)
  qed
  have "(x AND NOT (of_nat v)) AND of_nat v = 0" by (rule bit_word_eqI) (simp add: bit_simps)
  with u(1) fits on other show ?thesis by auto
qed

theorem acpi_flags_independent_witness:
  "(0x300 OR of_nat (2 ^ 10)) AND of_nat (2 ^ 9) = (0x300 AND of_nat (2 ^ 9) :: UINT64)"
proof -
  have "(fadt_flags_2_0, EFI_ACPI_2_0_FIXED_ACPI_DESCRIPTION_TABLE, ''Flags'') \<in> set flag_members"
    by (simp add: flag_members_def flag_members_2_0_def)
  moreover have "(''RESET_REG_SUP'', 2 ^ 10) \<in> set fadt_flags_2_0" "(''DCK_CAP'', 2 ^ 9) \<in> set fadt_flags_2_0"
    by (simp_all add: fadt_flags_2_0_def)
  ultimately show ?thesis using acpi_flags_independent [where x = "0x300"] by blast
qed

end
