(* ===== verification/Sealed_Tables.thy ===== *)
theory Sealed_Tables imports Check_Sum Crc_32 Object_Access Acpi_6_0 Acpi_5_1 Acpi_5_0 Acpi_4_0 Acpi_1_3 begin

text \<open>
  Tables in memory and the sums that protect them, across the components: the layouts of the
  headers (\<open>Acpi10.h\<close> to \<open>Acpi60.h\<close>, \<open>UefiMultiPhase.h\<close>) say where a checksum or CRC is, the
  functions of \<open>CheckSum.c\<close> compute it. A table is sealed the way the comments of the headers
  describe: the member is set to 0, the sum is taken over the table, and stored in the member.
\<close>

section \<open>Sealing and checking\<close>

definition seal_checksum :: "build_env \<Rightarrow> mem \<Rightarrow> UINTN \<Rightarrow> UINTN \<Rightarrow> UINTN \<Rightarrow> mem res" where
  "seal_checksum env m Table Length Offset =
     bindr (store m (Table + Offset) (0 :: UINT8)) (\<lambda>m1.
     bindr (CalculateCheckSum8 env m1 Table Length) (store m1 (Table + Offset)))"

definition seal_crc :: "build_env \<Rightarrow> mem \<Rightarrow> UINTN \<Rightarrow> UINTN \<Rightarrow> UINTN \<Rightarrow> mem res" where
  "seal_crc env m Table Length Offset =
     bindr (store m (Table + Offset) (0 :: UINT32)) (\<lambda>m1.
     bindr (CalculateCrc32 env m1 Table Length) (store m1 (Table + Offset)))"

definition crc_matches :: "build_env \<Rightarrow> mem \<Rightarrow> UINTN \<Rightarrow> UINTN \<Rightarrow> UINTN \<Rightarrow> bool res" where
  "crc_matches env m Table Length Offset =
     bindr (load m (Table + Offset)) (\<lambda>Crc :: UINT32.
     bindr (store m (Table + Offset) (0 :: UINT32)) (\<lambda>m1.
     bindr (CalculateCrc32 env m1 Table Length) (\<lambda>c. Inr (c = Crc))))"

section \<open>Bytes of a table\<close>

lemma bytes_buffer: "bytes_at m a bs \<Longrightarrow> length bs \<le> 2 ^ 64 \<Longrightarrow> buffer m a (length bs)"
  by (simp add: buffer_def bytes_at_nth)

lemma bytes_legal:
  assumes "bytes_at m a bs" "length bs = unat n" "bs \<noteq> []"
  shows "a \<noteq> NULL" "n \<le> MAX_ADDRESS - a + 1" "legal_buffer 0 a n"
proof -
  have nz: "i < length bs \<Longrightarrow> a + of_nat i \<noteq> 0" for i using assms(1) by (simp add: bytes_at_nth NULL_def)
  show a: "a \<noteq> NULL" using nz [of 0] assms(3) by (simp add: NULL_def)
  have "unat n \<le> 2 ^ 64 - unat a"
  proof (rule ccontr)
    assume "\<not> unat n \<le> 2 ^ 64 - unat a"
    then have i: "2 ^ 64 - unat a < length bs" using assms(2) by simp
    have "(of_nat (2 ^ 64 - unat a) :: UINTN) = - a"
      using unat_less_exp [of a] by (simp add: of_nat_diff)
    then show False using nz [OF i] by simp
  qed
  moreover have "unat (MAX_ADDRESS - a + 1) = 2 ^ 64 - unat a"
  proof -
    have "MAX_ADDRESS + 1 = 0" by (simp add: MAX_ADDRESS_def)
    moreover have "MAX_ADDRESS - a + 1 = (MAX_ADDRESS + 1) - a" by simp
    moreover have "unat (- a) = 2 ^ 64 - unat a"
      using a unat_sub_if' [of 0 a] by (simp add: NULL_def word_le_nat_alt unsigned_eq_0_iff)
    ultimately show ?thesis by (simp only: diff_0)
  qed
  ultimately show "n \<le> MAX_ADDRESS - a + 1" by (simp add: word_le_nat_alt)
  with a show "legal_buffer 0 a n" by (simp add: legal_buffer_def)
qed

text \<open>A store replaces a run of bytes.\<close>

lemma store_splice:
  assumes "bytes_at m a (pre @ old @ post)" "length old = sizeof_word v"
    and "length (pre @ old @ post) \<le> 2 ^ 64"
  shows "\<exists>m'. store m (a + of_nat (length pre)) v = Inr m' \<and>
    bytes_at m' a (pre @ le_bytes (sizeof_word v) v @ post)"
proof -
  let ?N = "length (pre @ old @ post)" and ?d = "a + of_nat (length pre)" and ?bs = "le_bytes (sizeof_word v) v"
  have b: "buffer m a ?N" by (rule bytes_buffer [OF assms(1,3)])
  have le: "length pre + sizeof_word v \<le> ?N" using assms(2) by simp
  have s: "store m ?d v = Inr (overlay m ?d ?bs)" by (rule store_part [OF b le])
  have ap: "apart (a + of_nat 0) (length pre) ?d (length ?bs)"
    "apart (a + of_nat (length pre + sizeof_word v)) (length post) ?d (length ?bs)"
    using assms(2) by (intro parts_apart [OF assms(3)]; simp)+
  have "bytes_at (overlay m ?d ?bs) a pre"
    using overlay_apart [OF ap(1), of ?bs m pre] assms(1) by (simp add: bytes_at_append)
  moreover have "bytes_at (overlay m ?d ?bs) ?d ?bs"
    by (rule bytes_at_overlay [OF buffer_part [OF b le]]) simp
  moreover have "bytes_at (overlay m ?d ?bs) (a + of_nat (length pre + sizeof_word v)) post"
    using overlay_apart [OF ap(2), of ?bs m post] assms(1,2) by (simp add: bytes_at_append add.assoc)
  ultimately show ?thesis using s by (auto simp: bytes_at_append add.assoc)
qed

lemma byte_sum:
  assumes "bytes_at m a bs" "unat n = length bs" "bs \<noteq> []"
  shows "CalculateSum8 env m a n = Inr (sum_list bs)"
  using s8.sum_words [of a n m bs env] bytes_legal(3) [OF assms(1)] assms
  by (simp add: words_at_UINT8 sizeof_word_def)

text \<open>Sealing the first \<open>n\<close> bytes of a table, whatever follows them.\<close>

lemma sealed_checksum:
  assumes "bytes_at m a (pre @ old # post @ rest)" "unat n = length (pre @ old # post)"
    and "length (pre @ old # post @ rest) \<le> 2 ^ 64"
  shows "\<exists>m' c. seal_checksum env m a n (of_nat (length pre)) = Inr m' \<and>
    sum_list (pre @ c # post) = 0 \<and> bytes_at m' a (pre @ c # post @ rest)"
proof -
  have one: "sizeof_word (v :: UINT8) = 1" for v by (simp add: sizeof_word_def)
  obtain m1 where m1: "store m (a + of_nat (length pre)) (0 :: UINT8) = Inr m1"
    "bytes_at m1 a (pre @ [0] @ post @ rest)"
    using store_splice [of m a pre "[old]" "post @ rest" "0 :: UINT8"] assms(1,3) by (auto simp: one)
  then have part: "bytes_at m1 a (pre @ [0] @ post)" by (simp add: bytes_at_append)
  have "CalculateCheckSum8 env m1 a n = Inr (- sum_list (pre @ [0] @ post))"
    using s8.checksum_words [of a n m1 "pre @ [0] @ post" env] bytes_legal(3) [OF part] part assms(2)
    by (simp add: words_at_UINT8 one)
  moreover obtain m2 where "store m1 (a + of_nat (length pre)) (- sum_list (pre @ post)) = Inr m2"
    "bytes_at m2 a (pre @ [- sum_list (pre @ post)] @ post @ rest)"
    using store_splice [OF m1(2), of "- sum_list (pre @ post)"] assms(3) by (auto simp: one)
  ultimately show ?thesis
    using m1 by (intro exI [of _ m2] exI [of _ "- sum_list (pre @ post)"]) (simp add: seal_checksum_def)
qed

lemma sealed_crc:
  assumes "bytes_at m a (pre @ old @ post)" "length old = 4" "unat n = length (pre @ old @ post)"
  defines "c \<equiv> crc32_ref (pre @ le_bytes 4 (0 :: UINT32) @ post)"
  shows "\<exists>m'. seal_crc env m a n (of_nat (length pre)) = Inr m' \<and> bytes_at m' a (pre @ le_bytes 4 c @ post)"
    "crc_matches env m a n (of_nat (length pre)) = Inr (c = le_word old)"
proof -
  have N: "length (pre @ old @ post) \<le> 2 ^ 64" using assms(3) unat_less_exp [of n] by simp
  have four: "sizeof_word (v :: UINT32) = 4" for v by (simp add: sizeof_word_def)
  obtain m1 where m1: "store m (a + of_nat (length pre)) (0 :: UINT32) = Inr m1"
    "bytes_at m1 a (pre @ le_bytes 4 (0 :: UINT32) @ post)"
    using store_splice [OF assms(1) _ N, of "0 :: UINT32"] assms(2) by (auto simp: four)
  have l: "length (pre @ le_bytes 4 (0 :: UINT32) @ post) = unat n" using assms(2,3) by simp
  have "pre @ le_bytes 4 (0 :: UINT32) @ post \<noteq> []" using le_bytes_4 [of "0 :: UINT32"] by simp
  note legal = bytes_legal(1,2) [OF m1(2) l this]
  have crc: "CalculateCrc32 env m1 a n = Inr c"
    using CalculateCrc32_ref [OF legal m1(2)] l by (simp add: c_def)
  obtain m2 where "store m1 (a + of_nat (length pre)) c = Inr m2" "bytes_at m2 a (pre @ le_bytes 4 c @ post)"
    using store_splice [OF m1(2), of c] N assms(2) by (auto simp: four)
  with m1 crc show "\<exists>m'. seal_crc env m a n (of_nat (length pre)) = Inr m' \<and> bytes_at m' a (pre @ le_bytes 4 c @ post)"
    by (auto simp: seal_crc_def)
  have "load m (a + of_nat (length pre)) = Inr (le_word old :: UINT32)"
    using assms(1,2) by (intro load_at) (simp_all add: bytes_at_append four)
  with m1 crc show "crc_matches env m a n (of_nat (length pre)) = Inr (c = le_word old)"
    by (simp add: crc_matches_def)
qed

lemma crc_notices:
  assumes "bytes_at m a (pre @ w' @ post)" "pre @ w @ post = p @ le_bytes 4 c @ q"
    and "c = crc32_ref (p @ le_bytes 4 (0 :: UINT32) @ q)" "unat n = length (p @ le_bytes 4 c @ q)"
    and "length w = length w'" "length w' \<le> 4" "w \<noteq> w'"
    and "length pre + length w \<le> length p \<or> length p + 4 \<le> length pre"
  shows "crc_matches env m a n (of_nat (length p)) = Inr False"
proof -
  have c: "le_word (le_bytes 4 c) = c" by (rule le_word_le_bytes) simp
  from assms(8) show ?thesis
  proof
    assume le: "length pre + length w \<le> length p"
    have "pre @ w = take (length pre + length w) p" "post = drop (length pre + length w) p @ le_bytes 4 c @ q"
      using arg_cong [OF assms(2), of "take (length pre + length w)"]
        arg_cong [OF assms(2), of "drop (length pre + length w)"] le by simp_all
    then obtain r where r: "p = (pre @ w) @ r" "post = r @ le_bytes 4 c @ q"
      by (metis append_take_drop_id)
    have at: "bytes_at m a ((pre @ w' @ r) @ le_bytes 4 c @ q)" using assms(1) r(2) by simp
    have l: "length (pre @ w' @ r) = length p" "unat n = length ((pre @ w' @ r) @ le_bytes 4 c @ q)"
      using r(1) assms(4,5) by simp_all
    show ?thesis
      using sealed_crc(2) [OF at _ l(2), of env] l(1) c burst_changes_ref [OF assms(5-7), of pre "r @ le_bytes 4 (0 :: UINT32) @ q"]
      by (auto simp: assms(3) r(1))
  next
    assume le: "length p + 4 \<le> length pre"
    have "p @ le_bytes 4 c = take (length p + 4) pre" "q = drop (length p + 4) pre @ w @ post"
      using arg_cong [OF assms(2), of "take (length p + 4)"] arg_cong [OF assms(2), of "drop (length p + 4)"] le
      by simp_all
    then obtain r where r: "pre = (p @ le_bytes 4 c) @ r" "q = r @ w @ post"
      by (metis append_take_drop_id)
    have at: "bytes_at m a (p @ le_bytes 4 c @ r @ w' @ post)" using assms(1) r(1) by simp
    have l: "unat n = length (p @ le_bytes 4 c @ r @ w' @ post)" using r(2) assms(4,5) by simp
    show ?thesis
      using sealed_crc(2) [OF at _ l, of env] c
        burst_changes_ref [OF assms(5-7), of "p @ le_bytes 4 (0 :: UINT32) @ r" post]
      by (auto simp: assms(3) r(2))
  qed
qed

section \<open>Properties\<close>

text \<open>The descriptors that point to the root tables, with two checksums each since ACPI 2.0.\<close>

definition root_pointers :: "ctype list" where
  "root_pointers =
     [EFI_ACPI_2_0_ROOT_SYSTEM_DESCRIPTION_POINTER, EFI_ACPI_3_0_ROOT_SYSTEM_DESCRIPTION_POINTER,
      EFI_ACPI_4_0_ROOT_SYSTEM_DESCRIPTION_POINTER, EFI_ACPI_5_0_ROOT_SYSTEM_DESCRIPTION_POINTER,
      EFI_ACPI_5_1_ROOT_SYSTEM_DESCRIPTION_POINTER, EFI_ACPI_6_0_ROOT_SYSTEM_DESCRIPTION_POINTER]"

lemma root_pointer_members:
  "T \<in> set root_pointers \<Longrightarrow> OFFSET_OF T ''Checksum'' = Some 8 \<and> OFFSET_OF T ''ExtendedChecksum'' = Some 32 \<and>
   OFFSET_OF T ''Length'' = Some 20 \<and> sizeof_type T = 36"
proof -
  have "list_all (\<lambda>T. map_option fst (locate [Dot ''Checksum''] T) = Some 8 \<and>
      map_option fst (locate [Dot ''ExtendedChecksum''] T) = Some 32 \<and>
      map_option fst (locate [Dot ''Length''] T) = Some 20 \<and> sizeof_type T = 36) root_pointers"
    by code_simp
  then show "T \<in> set root_pointers \<Longrightarrow> OFFSET_OF T ''Checksum'' = Some 8 \<and> OFFSET_OF T ''ExtendedChecksum'' = Some 32 \<and>
     OFFSET_OF T ''Length'' = Some 20 \<and> sizeof_type T = 36"
    by (fastforce simp: list_all_iff OFFSET_OF_def)
qed

lemma header_sealed:
  assumes "bytes_at m a bs" "length bs = unat n" "36 \<le> length bs"
  shows "\<exists>m' c. seal_checksum env m a n 9 = Inr m' \<and> bytes_at m' a (bs[9 := c]) \<and>
    CalculateSum8 env m' a n = Inr 0 \<and>
    (\<forall>m'' i b. i < length bs \<and> b \<noteq> bs[9 := c] ! i \<and> bytes_at m'' a (bs[9 := c, i := b]) \<longrightarrow>
      CalculateSum8 env m'' a n \<noteq> Inr 0)"
proof -
  let ?pre = "take 9 bs" and ?post = "drop 10 bs"
  have bs: "bs = ?pre @ bs ! 9 # ?post @ []" using assms(3) id_take_nth_drop [of 9 bs] by simp
  have up: "?pre @ c # ?post = bs[9 := c]" for c using assms(3) upd_conv_take_nth_drop [of 9 bs] by simp
  have l: "length (?pre @ bs ! 9 # ?post) = unat n" "length ?pre = 9" using assms(2,3) by simp_all
  have N: "length (?pre @ bs ! 9 # ?post @ []) \<le> 2 ^ 64" using l(1) unat_less_exp [of n] by simp
  obtain m' c where m': "seal_checksum env m a n 9 = Inr m'" "sum_list (bs[9 := c]) = 0"
    "bytes_at m' a (bs[9 := c])"
    using sealed_checksum [OF assms(1) [unfolded bs [symmetric], THEN subst [OF bs, of "bytes_at m a"]]
        l(1) [symmetric] N, of env] up l(2) by auto
  have ln: "unat n = length (bs[9 := c])" "bs[9 := c] \<noteq> []" using assms(2,3) by auto
  have s0: "CalculateSum8 env m' a n = Inr 0" using byte_sum [OF m'(3) ln] m'(2) by simp
  moreover have "CalculateSum8 env m'' a n \<noteq> Inr 0"
    if "i < length bs" "b \<noteq> bs[9 := c] ! i" "bytes_at m'' a (bs[9 := c, i := b])" for m'' i b
    using s8.changed_element [of a n m' "bs[9 := c]" m'' i b env] bytes_legal(3) [OF m'(3)] ln m'(3) that s0
    by (simp add: words_at_UINT8 sizeof_word_def)
  ultimately show ?thesis using m' by blast
qed

lemma pointer_sealed:
  assumes "bytes_at m a bs" "length bs = 36"
  shows "\<exists>m1 m2. seal_checksum env m a 20 8 = Inr m1 \<and> seal_checksum env m1 a 36 32 = Inr m2 \<and>
    CalculateSum8 env m2 a 20 = Inr 0 \<and> CalculateSum8 env m2 a 36 = Inr 0"
proof -
  let ?p = "take 8 bs" and ?q = "take 11 (drop 9 bs)" and ?r = "drop 20 bs"
  have "bs = ?p @ bs ! 8 # drop 9 bs" using assms(2) id_take_nth_drop [of 8 bs] by simp
  then have bs: "bs = ?p @ bs ! 8 # ?q @ ?r" using append_take_drop_id [of 11 "drop 9 bs"] by simp
  have at: "bytes_at m a (?p @ bs ! 8 # ?q @ ?r)" using assms(1) by (simp only: bs [symmetric])
  have l: "length ?p = 8" "length ?q = 11" "length ?r = 16" using assms(2) by simp_all
  obtain m1 c where m1: "seal_checksum env m a 20 8 = Inr m1" "sum_list (?p @ c # ?q) = 0"
    "bytes_at m1 a (?p @ c # ?q @ ?r)"
    using sealed_checksum [of m a ?p "bs ! 8" ?q ?r 20 env] at l assms(2) by auto
  let ?x = "?p @ c # ?q @ take 12 ?r" and ?y = "drop 13 ?r"
  have r: "?r = take 12 ?r @ ?r ! 12 # ?y" using l(3) id_take_nth_drop [of 12 ?r] by simp
  have "bytes_at m1 a (?x @ ?r ! 12 # ?y @ [])" using m1(3) r by simp
  moreover have "length ?x = 32" "length ?y = 3" using l by simp_all
  ultimately obtain m2 d where m2: "seal_checksum env m1 a 36 32 = Inr m2" "sum_list (?x @ d # ?y) = 0"
    "bytes_at m2 a (?x @ d # ?y)"
    using sealed_checksum [of m1 a ?x "?r ! 12" ?y "[]" 36 env] by auto
  have "CalculateSum8 env m2 a 36 = Inr 0"
    using byte_sum [OF m2(3), of 36 env] m2(2) l by simp
  moreover have "bytes_at m2 a (?p @ c # ?q)" using m2(3) bytes_at_append [of m2 a "?p @ c # ?q"] by simp
  then have "CalculateSum8 env m2 a 20 = Inr 0" using byte_sum [of m2 a "?p @ c # ?q" 20 env] m1(2) l by simp
  ultimately show ?thesis using m1(1) m2(1) by blast
qed

text \<open>
  C13. ACPI tables: sealing a table of any contents and length at the \<open>Checksum\<close> of its
  description header makes the sum of all its bytes zero and changes no other byte, and then
  any change of one byte makes the sum nonzero; a root pointer of ACPI 2.0 and later, sealed
  first over its first 20 bytes and then as a whole, sums to zero both ways.
\<close>

theorem acpi_table_sealed:
  assumes "bytes_at m a bs" "length bs = unat n"
  shows "(sizeof_type EFI_ACPI_DESCRIPTION_HEADER \<le> length bs \<longrightarrow>
      (\<exists>k m' c. OFFSET_OF EFI_ACPI_DESCRIPTION_HEADER ''Checksum'' = Some k \<and>
        seal_checksum env m a n k = Inr m' \<and> bytes_at m' a (bs[unat k := c]) \<and>
        CalculateSum8 env m' a n = Inr 0 \<and>
        (\<forall>m'' i b. i < length bs \<and> b \<noteq> bs[unat k := c] ! i \<and> bytes_at m'' a (bs[unat k := c, i := b]) \<longrightarrow>
          CalculateSum8 env m'' a n \<noteq> Inr 0))) \<and>
    (T \<in> set root_pointers \<and> length bs = sizeof_type T \<longrightarrow>
      (\<exists>k e m1 m2. OFFSET_OF T ''Checksum'' = Some k \<and> OFFSET_OF T ''ExtendedChecksum'' = Some e \<and>
        seal_checksum env m a 20 k = Inr m1 \<and> seal_checksum env m1 a n e = Inr m2 \<and>
        CalculateSum8 env m2 a 20 = Inr 0 \<and> CalculateSum8 env m2 a n = Inr 0))"
proof (intro conjI impI; (elim conjE)?)
  assume "sizeof_type EFI_ACPI_DESCRIPTION_HEADER \<le> length bs"
  then have n: "36 \<le> length bs" by (simp add: layouts place_def)
  have k: "OFFSET_OF EFI_ACPI_DESCRIPTION_HEADER ''Checksum'' = Some 9" "unat (9 :: UINTN) = 9"
    by (simp_all add: OFFSET_OF_def layouts place_def)
  show "\<exists>k m' c. OFFSET_OF EFI_ACPI_DESCRIPTION_HEADER ''Checksum'' = Some k \<and>
        seal_checksum env m a n k = Inr m' \<and> bytes_at m' a (bs[unat k := c]) \<and>
        CalculateSum8 env m' a n = Inr 0 \<and>
        (\<forall>m'' i b. i < length bs \<and> b \<noteq> bs[unat k := c] ! i \<and> bytes_at m'' a (bs[unat k := c, i := b]) \<longrightarrow>
          CalculateSum8 env m'' a n \<noteq> Inr 0)"
    using header_sealed [OF assms n, of env] k by (metis (no_types))
next
  assume T: "T \<in> set root_pointers" "length bs = sizeof_type T"
  note mem = root_pointer_members [OF T(1)]
  have "length bs = 36" "n = 36" using mem T(2) assms(2) by (simp_all add: word_eq_iff_unat)
  with pointer_sealed [OF assms(1), of env] mem
  show "\<exists>k e m1 m2. OFFSET_OF T ''Checksum'' = Some k \<and> OFFSET_OF T ''ExtendedChecksum'' = Some e \<and>
        seal_checksum env m a 20 k = Inr m1 \<and> seal_checksum env m1 a n e = Inr m2 \<and>
        CalculateSum8 env m2 a 20 = Inr 0 \<and> CalculateSum8 env m2 a n = Inr 0" by blast
qed

theorem acpi_table_sealed_witness:
  "\<exists>m'. seal_checksum debug_env (sample_mem 64 (replicate 40 7)) 64 40 9 = Inr m' \<and>
    CalculateSum8 debug_env m' 64 40 = Inr 0"
proof -
  have b: "bytes_at (sample_mem 64 (replicate 40 7)) 64 (replicate 40 7)"
    by (rule sample_mem_bytes) simp_all
  have l: "length (replicate 40 (7 :: UINT8)) = unat (40 :: UINTN)" by simp
  have z: "sizeof_type EFI_ACPI_DESCRIPTION_HEADER \<le> length (replicate 40 (7 :: UINT8))"
    by (simp add: layouts place_def)
  have "OFFSET_OF EFI_ACPI_DESCRIPTION_HEADER ''Checksum'' = Some 9"
    by (simp add: OFFSET_OF_def layouts place_def)
  with mp [OF conjunct1 [OF acpi_table_sealed [OF b l, of debug_env]] z] show ?thesis by force
qed

text \<open>The records that begin with a table header.\<close>

definition headed_tables :: "(ctype \<times> string) list" where
  "headed_tables =
     [(EFI_SYSTEM_TABLE, ''Hdr''), (EFI_BOOT_SERVICES, ''Hdr''), (EFI_RUNTIME_SERVICES, ''Hdr''),
      (EFI_PARTITION_TABLE_HEADER, ''Header'')]"

text \<open>
  C12. UEFI tables: the system table, the boot and runtime services and the header of a partition
  table begin with a table header. Sealing such a table of any contents at the \<open>CRC32\<close> of its
  header, as the comment of that member says, succeeds and changes no other byte; the stored
  value then matches; and after any damage to at most four consecutive bytes outside the
  member it does not.
\<close>

theorem uefi_table_sealed:
  assumes "bytes_at m a bs" "length bs = unat n" "sizeof_type EFI_TABLE_HEADER \<le> length bs"
  shows "(\<forall>(T, h)\<in>set headed_tables. OFFSET_OF T h = Some 0 \<and> sizeof_type EFI_TABLE_HEADER \<le> sizeof_type T) \<and>
    (\<exists>m' (c :: UINT32). OFFSET_OF EFI_TABLE_HEADER ''CRC32'' = Some 16 \<and> seal_crc env m a n 16 = Inr m' \<and>
      bytes_at m' a (take 16 bs @ le_bytes 4 c @ drop 20 bs) \<and> crc_matches env m' a n 16 = Inr True \<and>
      (\<forall>m'' pre w w' post. take 16 bs @ le_bytes 4 c @ drop 20 bs = pre @ w @ post \<and>
        bytes_at m'' a (pre @ w' @ post) \<and> length w = length w' \<and> length w' \<le> 4 \<and> w \<noteq> w' \<and>
        (length pre + length w \<le> 16 \<or> 20 \<le> length pre) \<longrightarrow> crc_matches env m'' a n 16 = Inr False))"
proof
  show "\<forall>(T, h)\<in>set headed_tables. OFFSET_OF T h = Some 0 \<and> sizeof_type EFI_TABLE_HEADER \<le> sizeof_type T"
    by (simp add: headed_tables_def OFFSET_OF_def layouts place_def round_up_def)
  have n: "24 \<le> length bs" using assms(3) by (simp add: layouts place_def round_up_def)
  let ?p = "take 16 bs" and ?o = "take 4 (drop 16 bs)" and ?q = "drop 20 bs"
  let ?c = "crc32_ref (?p @ le_bytes 4 (0 :: UINT32) @ ?q)"
  have "bs = ?p @ ?o @ ?q" using append_take_drop_id [of 4 "drop 16 bs"] by simp
  then have at: "bytes_at m a (?p @ ?o @ ?q)" using assms(1) by simp
  have l: "length ?o = 4" "unat n = length (?p @ ?o @ ?q)" "unat n = length (?p @ le_bytes 4 ?c @ ?q)" "length ?p = 16"
    using n assms(2) by simp_all
  have k: "OFFSET_OF EFI_TABLE_HEADER ''CRC32'' = Some 16"
    by (simp add: OFFSET_OF_def layouts place_def round_up_def)
  obtain m' where m': "seal_crc env m a n 16 = Inr m'" "bytes_at m' a (?p @ le_bytes 4 ?c @ ?q)"
    using sealed_crc(1) [OF at l(1,2), of env] l(4) by auto
  have "le_word (le_bytes 4 ?c) = ?c" by (rule le_word_le_bytes) simp
  then have ok: "crc_matches env m' a n 16 = Inr True"
    using sealed_crc(2) [OF m'(2) _ l(3), of env] l(4) by simp
  have bad: "crc_matches env m'' a n 16 = Inr False"
    if "?p @ le_bytes 4 ?c @ ?q = pre @ w @ post" "bytes_at m'' a (pre @ w' @ post)" "length w = length w'"
      "length w' \<le> 4" "w \<noteq> w'" "length pre + length w \<le> 16 \<or> 20 \<le> length pre" for m'' pre w w' post
  proof -
    have "length pre + length w \<le> length ?p \<or> length ?p + 4 \<le> length pre" using that(6) by (simp only: l(4)) simp
    from crc_notices [OF that(2) that(1) [symmetric] refl l(3) that(3-5) this, of env] show ?thesis
      by (simp only: l(4)) simp
  qed
  show "\<exists>m' (c :: UINT32). OFFSET_OF EFI_TABLE_HEADER ''CRC32'' = Some 16 \<and> seal_crc env m a n 16 = Inr m' \<and>
      bytes_at m' a (take 16 bs @ le_bytes 4 c @ drop 20 bs) \<and> crc_matches env m' a n 16 = Inr True \<and>
      (\<forall>m'' pre w w' post. take 16 bs @ le_bytes 4 c @ drop 20 bs = pre @ w @ post \<and>
        bytes_at m'' a (pre @ w' @ post) \<and> length w = length w' \<and> length w' \<le> 4 \<and> w \<noteq> w' \<and>
        (length pre + length w \<le> 16 \<or> 20 \<le> length pre) \<longrightarrow> crc_matches env m'' a n 16 = Inr False)"
    by (rule exI [of _ m'], rule exI [of _ ?c], intro conjI allI impI; (elim conjE)?;
        (rule k m' ok bad; assumption)?)
qed

theorem uefi_table_sealed_witness:
  "\<exists>m'. seal_crc debug_env (sample_mem 64 (replicate 120 5)) 64 120 16 = Inr m' \<and>
    crc_matches debug_env m' 64 120 16 = Inr True"
proof -
  have b: "bytes_at (sample_mem 64 (replicate 120 5)) 64 (replicate 120 5)"
    by (rule sample_mem_bytes) simp_all
  have l: "length (replicate 120 (5 :: UINT8)) = unat (120 :: UINTN)" by simp
  have z: "sizeof_type EFI_TABLE_HEADER \<le> length (replicate 120 (5 :: UINT8))"
    by (simp add: layouts place_def round_up_def)
  from conjunct2 [OF uefi_table_sealed [OF b l z, of debug_env]] show ?thesis by blast
qed

end
