(* ===== verification/Uefi_Macros.thy ===== *)
theory Uefi_Macros imports Object_Access Math_Worker Base_Macros begin

text \<open>
  The macros of the UEFI headers that compute: pages and sizes (\<open>UefiBaseType.h\<close>), byte order
  and bus types (\<open>UefiPxe.h\<close>), compressed identifiers and display addresses (\<open>DevicePath.h\<close>)
  and text attributes (\<open>SimpleTextOut.h\<close>). Constants and operands of type \<open>int\<close> are words of
  32 bits, as are operands that the compiler promotes to it.
\<close>

section \<open>Definitions\<close>

definition EFI_SIZE_TO_PAGES :: "UINTN \<Rightarrow> UINTN" where
  "EFI_SIZE_TO_PAGES Size = drop_bit 12 Size + (if Size AND 0xFFF \<noteq> 0 then 1 else 0)"

definition EFI_PAGES_TO_SIZE :: "UINTN \<Rightarrow> UINTN" where
  "EFI_PAGES_TO_SIZE Pages = push_bit 12 Pages"

definition EFIERR :: "UINTN \<Rightarrow> UINTN" where
  "EFIERR a = ENCODE_ERROR a"

definition EFI_ERROR :: "UINTN \<Rightarrow> bool" where
  "EFI_ERROR A = RETURN_ERROR A"

definition PXE_BUSTYPE :: "UINT32 \<Rightarrow> UINT32 \<Rightarrow> UINT32 \<Rightarrow> UINT32 \<Rightarrow> UINT32" where
  "PXE_BUSTYPE a b c d =
     push_bit 24 (d AND 0xFF) OR push_bit 16 (c AND 0xFF) OR push_bit 8 (b AND 0xFF) OR (a AND 0xFF)"

definition PXE_SWAP_UINT16 :: "UINT16 \<Rightarrow> UINT32" where
  "PXE_SWAP_UINT16 n = push_bit 8 (ucast n AND 0x00FF) OR drop_bit 8 (ucast n AND 0xFF00)"

definition PXE_SWAP_UINT32 :: "UINT32 \<Rightarrow> UINT32" where
  "PXE_SWAP_UINT32 n =
     push_bit 24 (n AND 0x000000FF) OR push_bit 8 (n AND 0x0000FF00) OR
     drop_bit 8 (n AND 0x00FF0000) OR drop_bit 24 (n AND 0xFF000000)"

definition PXE_SWAP_UINT64 :: "UINT64 \<Rightarrow> UINT64" where
  "PXE_SWAP_UINT64 n =
     push_bit 56 (n AND 0x00000000000000FF) OR push_bit 40 (n AND 0x000000000000FF00) OR
     push_bit 24 (n AND 0x0000000000FF0000) OR push_bit 8 (n AND 0x00000000FF000000) OR
     drop_bit 8 (n AND 0x000000FF00000000) OR drop_bit 24 (n AND 0x0000FF0000000000) OR
     drop_bit 40 (n AND 0x00FF000000000000) OR drop_bit 56 (n AND 0xFF00000000000000)"

definition PNP_EISA_ID_CONST :: UINT32 where
  "PNP_EISA_ID_CONST = 0x41D0"

definition PNP_EISA_ID_MASK :: UINT32 where
  "PNP_EISA_ID_MASK = 0xFFFF"

definition EISA_ID :: "UINT32 \<Rightarrow> UINT32 \<Rightarrow> UINT32" where
  "EISA_ID Name Num = Name OR push_bit 16 Num"

definition EISA_PNP_ID :: "UINT32 \<Rightarrow> UINT32" where
  "EISA_PNP_ID PNPId = EISA_ID PNP_EISA_ID_CONST PNPId"

definition EISA_ID_TO_NUM :: "UINT32 \<Rightarrow> UINT32" where
  "EISA_ID_TO_NUM Value = drop_bit 16 Value"

definition ACPI_DISPLAY_ADR ::
  "UINT32 \<Rightarrow> UINT32 \<Rightarrow> UINT32 \<Rightarrow> UINT32 \<Rightarrow> UINT32 \<Rightarrow> UINT32 \<Rightarrow> UINT32 \<Rightarrow> UINT32 \<Rightarrow> UINT32" where
  "ACPI_DISPLAY_ADR DeviceIdScheme HeadId NonVgaOutput BiosCanDetect VendorInfo Type Port Index =
     push_bit 31 (DeviceIdScheme AND 0x1) OR
     push_bit 18 (HeadId AND 0x7) OR
     push_bit 17 (NonVgaOutput AND 0x1) OR
     push_bit 16 (BiosCanDetect AND 0x1) OR
     push_bit 12 (VendorInfo AND 0xF) OR
     push_bit 8 (Type AND 0xF) OR
     push_bit 4 (Port AND 0xF) OR
     (Index AND 0xF)"

definition EFI_TEXT_ATTR :: "UINT32 \<Rightarrow> UINT32 \<Rightarrow> UINT32" where
  "EFI_TEXT_ATTR Foreground Background = Foreground OR push_bit 4 Background"

section \<open>Pages\<close>

lemma ceiling_pages: "(s + 4095) div 4096 = s div 4096 + (if s mod 4096 = 0 then 0 else 1)" for s :: nat
proof -
  let ?r = "s mod 4096"
  have "(s + 4095) div 4096 = (s div 4096 * 4096 + (?r + 4095)) div 4096" by simp
  also have "\<dots> = s div 4096 + (?r + 4095) div 4096" by (rule div_mult_self3) simp
  also have "(?r + 4095) div 4096 = (if ?r = 0 then 0 else 1)"
  proof (cases "?r = 0")
    case False
    have "?r < 4096" by simp
    with False have "(?r + 4095) div 4096 = 1" by (intro div_nat_eqI) simp_all
    then show ?thesis using False by simp
  qed simp
  finally show ?thesis .
qed

lemma pages_unat: "unat (EFI_SIZE_TO_PAGES Size) = (unat Size + 4095) div 4096"
proof -
  let ?s = "unat Size"
  have b: "?s < 2 ^ 64" using unat_less_exp [of Size] by simp
  have d: "unat (drop_bit 12 Size) = ?s div 4096"
    by (simp only: unat_drop_bit_eq) (simp add: drop_bit_eq_div)
  have m: "Size AND 0xFFF \<noteq> 0 \<longleftrightarrow> ?s mod 4096 \<noteq> 0"
  proof -
    have "(0xFFF :: UINTN) = mask 12" by (simp add: mask_eq_exp_minus_1)
    then have "Size AND 0xFFF = take_bit 12 Size" by (simp only: take_bit_eq_mask)
    then have "unat (Size AND 0xFFF) = take_bit 12 ?s" by (simp only: unsigned_take_bit_eq)
    also have "\<dots> = ?s mod 4096" by (simp add: take_bit_eq_mod)
    finally have "unat (Size AND 0xFFF) = ?s mod 4096" .
    then show ?thesis by (metis unsigned_0 unsigned_eq_0_iff)
  qed
  have "?s div 4096 + 1 < 2 ^ 64" using b by simp
  then have "unat (drop_bit 12 Size + 1) = ?s div 4096 + 1" using d
    by (subst unat_add_lem [THEN iffD1]) simp_all
  then show ?thesis using d m by (simp add: EFI_SIZE_TO_PAGES_def ceiling_pages)
qed

lemma size_unat: "unat (EFI_PAGES_TO_SIZE Pages) = unat Pages * 4096 mod 2 ^ 64"
  by (simp add: EFI_PAGES_TO_SIZE_def push_bit_eq_mult unat_word_ariths)

section \<open>Bytes in the opposite order\<close>

lemma swap_masks_32:
  "(0x000000FF :: UINT32) = mask 8" "(0x0000FF00 :: UINT32) = push_bit 8 (mask 8)"
  "(0x00FF0000 :: UINT32) = push_bit 16 (mask 8)" "(0xFF000000 :: UINT32) = push_bit 24 (mask 8)"
  by (simp_all add: mask_eq_exp_minus_1 push_bit_eq_mult)

lemma swap_masks_64:
  "(0x00000000000000FF :: UINT64) = mask 8" "(0x000000000000FF00 :: UINT64) = push_bit 8 (mask 8)"
  "(0x0000000000FF0000 :: UINT64) = push_bit 16 (mask 8)" "(0x00000000FF000000 :: UINT64) = push_bit 24 (mask 8)"
  "(0x000000FF00000000 :: UINT64) = push_bit 32 (mask 8)" "(0x0000FF0000000000 :: UINT64) = push_bit 40 (mask 8)"
  "(0x00FF000000000000 :: UINT64) = push_bit 48 (mask 8)" "(0xFF00000000000000 :: UINT64) = push_bit 56 (mask 8)"
  by (simp_all add: mask_eq_exp_minus_1 push_bit_eq_mult)

lemma swapped_bytes_32:
  "(ucast (PXE_SWAP_UINT32 n) :: UINT8) = ucast (drop_bit 24 n)"
  "(ucast (drop_bit 8 (PXE_SWAP_UINT32 n)) :: UINT8) = ucast (drop_bit 16 n)"
  "(ucast (drop_bit 16 (PXE_SWAP_UINT32 n)) :: UINT8) = ucast (drop_bit 8 n)"
  "(ucast (drop_bit 24 (PXE_SWAP_UINT32 n)) :: UINT8) = ucast n"
  unfolding PXE_SWAP_UINT32_def swap_masks_32 by (rule bit_word_eqI, auto simp: bit_simps)+

lemma swapped_bytes_64:
  "(ucast (PXE_SWAP_UINT64 n) :: UINT8) = ucast (drop_bit 56 n)"
  "(ucast (drop_bit 8 (PXE_SWAP_UINT64 n)) :: UINT8) = ucast (drop_bit 48 n)"
  "(ucast (drop_bit 16 (PXE_SWAP_UINT64 n)) :: UINT8) = ucast (drop_bit 40 n)"
  "(ucast (drop_bit 24 (PXE_SWAP_UINT64 n)) :: UINT8) = ucast (drop_bit 32 n)"
  "(ucast (drop_bit 32 (PXE_SWAP_UINT64 n)) :: UINT8) = ucast (drop_bit 24 n)"
  "(ucast (drop_bit 40 (PXE_SWAP_UINT64 n)) :: UINT8) = ucast (drop_bit 16 n)"
  "(ucast (drop_bit 48 (PXE_SWAP_UINT64 n)) :: UINT8) = ucast (drop_bit 8 n)"
  "(ucast (drop_bit 56 (PXE_SWAP_UINT64 n)) :: UINT8) = ucast n"
  unfolding PXE_SWAP_UINT64_def swap_masks_64 by (rule bit_word_eqI, auto simp: bit_simps)+

section \<open>Properties\<close>

text \<open>
  C31. Pages: \<open>EFI_SIZE_TO_PAGES\<close> is the exact number of 4 KB pages that hold a size, for every
  size; up to the last page of the number range the size of these pages covers it and no
  smaller number of pages does, above it the size of the pages overflows to 0; and the
  conversion back is lossless exactly for fewer than \<open>2 ^ 52\<close> pages.
\<close>

theorem pages_cover_size:
  "unat (EFI_SIZE_TO_PAGES Size) = (unat Size + 4095) div 4096 \<and>
   (unat Size \<le> 2 ^ 64 - 4096 \<longrightarrow>
      Size \<le> EFI_PAGES_TO_SIZE (EFI_SIZE_TO_PAGES Size) \<and>
      (\<forall>n. Size \<le> EFI_PAGES_TO_SIZE n \<longrightarrow> EFI_SIZE_TO_PAGES Size \<le> n)) \<and>
   (2 ^ 64 - 4096 < unat Size \<longrightarrow> EFI_PAGES_TO_SIZE (EFI_SIZE_TO_PAGES Size) = 0) \<and>
   (EFI_SIZE_TO_PAGES (EFI_PAGES_TO_SIZE Pages) = Pages \<longleftrightarrow> unat Pages < 2 ^ 52)"
proof (intro conjI impI allI)
  let ?s = "unat Size" and ?p = "EFI_SIZE_TO_PAGES Size"
  have b: "?s < 2 ^ 64" using unat_less_exp [of Size] by simp
  show "unat ?p = (?s + 4095) div 4096" by (rule pages_unat)
  {
    assume s: "?s \<le> 2 ^ 64 - 4096"
    then have "(?s + 4095) div 4096 * 4096 < 2 ^ 64" by simp
    then have "unat (EFI_PAGES_TO_SIZE ?p) = (?s + 4095) div 4096 * 4096"
      by (simp only: size_unat pages_unat mod_less)
    then show "Size \<le> EFI_PAGES_TO_SIZE ?p" by (simp add: word_le_nat_alt)
    fix n assume n: "Size \<le> EFI_PAGES_TO_SIZE n"
    have "?s \<le> unat n * 4096 mod 2 ^ 64" using n by (simp add: word_le_nat_alt size_unat)
    also have "\<dots> \<le> unat n * 4096" by (rule mod_less_eq_dividend)
    finally show "?p \<le> n" by (simp add: word_le_nat_alt pages_unat)
  }
  {
    assume s: "2 ^ 64 - 4096 < ?s"
    have "(?s + 4095) div 4096 = 2 ^ 52" using s b by (intro div_nat_eqI) simp_all
    then have "unat (EFI_PAGES_TO_SIZE ?p) = 0" by (simp add: size_unat pages_unat)
    then show "EFI_PAGES_TO_SIZE ?p = 0" by (rule unsigned_eq_0_iff [THEN iffD1])
  }
  have "unat (EFI_SIZE_TO_PAGES (EFI_PAGES_TO_SIZE Pages)) = unat Pages mod 2 ^ 52"
  proof -
    have "unat Pages * 4096 mod 2 ^ 64 = unat Pages mod 2 ^ 52 * 4096"
      using mod_mult_mult2 [of "unat Pages" 4096 "2 ^ 52"] by simp
    then show ?thesis by (simp add: pages_unat size_unat)
  qed
  then show "EFI_SIZE_TO_PAGES (EFI_PAGES_TO_SIZE Pages) = Pages \<longleftrightarrow> unat Pages < 2 ^ 52"
    by (metis mod_less mod_less_divisor word_unat_eq_iff zero_less_numeral zero_less_power)
qed

theorem pages_cover_size_witness:
  "EFI_SIZE_TO_PAGES 4097 \<le> 2 \<and> EFI_PAGES_TO_SIZE (EFI_SIZE_TO_PAGES 0xFFFFFFFFFFFFF001) = 0"
proof
  have "(4097 :: UINTN) \<le> EFI_PAGES_TO_SIZE 2" by (simp add: EFI_PAGES_TO_SIZE_def)
  then show "EFI_SIZE_TO_PAGES 4097 \<le> 2" using pages_cover_size [of 4097] by simp
  show "EFI_PAGES_TO_SIZE (EFI_SIZE_TO_PAGES 0xFFFFFFFFFFFFF001) = 0"
    using pages_cover_size [of "0xFFFFFFFFFFFFF001"] by simp
qed

text \<open>
  Byte order: the three \<open>PXE_SWAP\<close> macros put the bytes of a value in memory in the opposite
  order, applying one twice gives the value back, and the 16-bit one is \<open>SwapBytes16\<close>.
\<close>

theorem byte_swaps:
  "le_bytes 2 (PXE_SWAP_UINT16 u) = rev (le_bytes 2 u) \<and> PXE_SWAP_UINT16 u = ucast (SwapBytes16 u) \<and>
   SwapBytes16 (SwapBytes16 u) = u \<and>
   le_bytes 4 (PXE_SWAP_UINT32 v) = rev (le_bytes 4 v) \<and> PXE_SWAP_UINT32 (PXE_SWAP_UINT32 v) = v \<and>
   le_bytes 8 (PXE_SWAP_UINT64 w) = rev (le_bytes 8 w) \<and> PXE_SWAP_UINT64 (PXE_SWAP_UINT64 w) = w"
proof (intro conjI)
  have m: "(0x00FF :: UINT32) = mask 8" "(0xFF00 :: UINT32) = push_bit 8 (mask 8)"
    by (simp_all add: mask_eq_exp_minus_1 push_bit_eq_mult)
  show s: "PXE_SWAP_UINT16 u = ucast (SwapBytes16 u)"
    unfolding PXE_SWAP_UINT16_def m
    by (rule bit_word_eqI) (auto simp: bit_simps swap_bit add.commute dest: bit_imp_le_length)
  show "SwapBytes16 (SwapBytes16 u) = u" by (rule bit_word_eqI) (auto simp: swap_bit)
  have "ucast (SwapBytes16 u) = (ucast (drop_bit 8 u) :: UINT8)"
    "ucast (drop_bit 8 (SwapBytes16 u)) = (ucast u :: UINT8)"
    by (rule bit_word_eqI, auto simp: swap_bit bit_simps add.commute)+
  then have "le_bytes 2 (SwapBytes16 u) = rev (le_bytes 2 u)" by (simp add: numeral_2_eq_2)
  moreover have "le_bytes 2 (ucast (SwapBytes16 u) :: UINT32) = le_bytes 2 (SwapBytes16 u)"
    by (rule le_bytes_cong) (simp add: bit_simps)
  ultimately show "le_bytes 2 (PXE_SWAP_UINT16 u) = rev (le_bytes 2 u)" by (simp add: s)
  show r4: "le_bytes 4 (PXE_SWAP_UINT32 v) = rev (le_bytes 4 v)" for v
    by (simp add: le_bytes_4 swapped_bytes_32)
  have "le_bytes 4 (PXE_SWAP_UINT32 (PXE_SWAP_UINT32 v)) = le_bytes 4 v" by (simp only: r4 rev_rev_ident)
  then show "PXE_SWAP_UINT32 (PXE_SWAP_UINT32 v) = v"
    using le_word_le_bytes [of 4 v] le_word_le_bytes [of 4 "PXE_SWAP_UINT32 (PXE_SWAP_UINT32 v)"] by simp
  show r8: "le_bytes 8 (PXE_SWAP_UINT64 w) = rev (le_bytes 8 w)" for w
    by (simp add: le_bytes_8 swapped_bytes_64)
  have "le_bytes 8 (PXE_SWAP_UINT64 (PXE_SWAP_UINT64 w)) = le_bytes 8 w" by (simp only: r8 rev_rev_ident)
  then show "PXE_SWAP_UINT64 (PXE_SWAP_UINT64 w) = w"
    using le_word_le_bytes [of 8 w] le_word_le_bytes [of 8 "PXE_SWAP_UINT64 (PXE_SWAP_UINT64 w)"] by simp
qed

lemma small_bits:
  fixes v :: UINT32
  assumes "bit v n" "unat v < 2 ^ k"
  shows "n < k"
proof -
  have "take_bit k (unat v) = unat v" using assms(2) by (rule take_bit_nat_eq_self)
  moreover have "bit (unat v) n" using assms(1) by (simp add: bit_unsigned_iff bit_imp_le_length)
  ultimately show ?thesis by (metis bit_take_bit_iff)
qed

lemma bits_small:
  fixes v :: UINT32
  assumes "\<And>n. bit v n \<Longrightarrow> n < k"
  shows "unat v < 2 ^ k"
proof -
  have "take_bit k v = v" using assms by (intro bit_word_eqI) (auto simp: bit_simps)
  then have "unat v = take_bit k (unat v)" by (metis unsigned_take_bit_eq)
  also have "\<dots> < 2 ^ k" by (rule take_bit_nat_less_exp)
  finally show ?thesis .
qed

lemma ascii_bits: "A < 128 \<Longrightarrow> bit A n \<Longrightarrow> n < 7" for A :: UINT32
  using small_bits [of A n 7] by (simp add: word_less_nat_alt)

lemma low_byte_mask: "(0xFF :: UINT32) = mask 8"
  by (simp add: mask_eq_exp_minus_1)

lemma bus_type_bytes:
  "le_bytes 4 (PXE_BUSTYPE a b c d) = [ucast a, ucast b, ucast c, ucast d]"
proof -
  have "(ucast (PXE_BUSTYPE a b c d) :: UINT8) = ucast a"
    "(ucast (drop_bit 8 (PXE_BUSTYPE a b c d)) :: UINT8) = ucast b"
    "(ucast (drop_bit 16 (PXE_BUSTYPE a b c d)) :: UINT8) = ucast c"
    "(ucast (drop_bit 24 (PXE_BUSTYPE a b c d)) :: UINT8) = ucast d"
    unfolding PXE_BUSTYPE_def low_byte_mask by (rule bit_word_eqI, auto simp: bit_simps)+
  then show ?thesis by (simp add: le_bytes_4)
qed

lemma signature_32_bus_type:
  assumes "A < 128" "B < 128" "C < 128" "D < 128"
  shows "SIGNATURE_32 A B C D = PXE_BUSTYPE A B C D"
  unfolding PXE_BUSTYPE_def SIGNATURE_32_def SIGNATURE_16_def low_byte_mask
  using ascii_bits [OF assms(1)] ascii_bits [OF assms(2)] ascii_bits [OF assms(3)] ascii_bits [OF assms(4)]
  by (intro bit_word_eqI) (fastforce simp: bit_simps)

text \<open>
  Signatures spell their letters in memory: for ASCII characters the bytes of
  \<open>SIGNATURE_16\<close>, \<open>SIGNATURE_32\<close> and \<open>SIGNATURE_64\<close> are the characters in order and
  \<open>PXE_BUSTYPE\<close> is \<open>SIGNATURE_32\<close>; \<open>PXE_BUSTYPE\<close> spells any four bytes, while a negative
  first character wipes out the others in \<open>SIGNATURE_32\<close>.
\<close>

theorem signatures_spell:
  fixes x :: CHAR8
  shows "le_bytes 4 (PXE_BUSTYPE a b c d) = [ucast a, ucast b, ucast c, ucast d] \<and>
   (\<forall>A B C D E F G H. A < 128 \<and> B < 128 \<and> C < 128 \<and> D < 128 \<and> E < 128 \<and> F < 128 \<and> G < 128 \<and> H < 128 \<longrightarrow>
      SIGNATURE_32 A B C D = PXE_BUSTYPE A B C D \<and>
      le_bytes 2 (SIGNATURE_16 A B) = [ucast A, ucast B] \<and>
      le_bytes 4 (SIGNATURE_32 A B C D) = [ucast A, ucast B, ucast C, ucast D] \<and>
      le_bytes 8 (SIGNATURE_64 A B C D E F G H) =
        [ucast A, ucast B, ucast C, ucast D, ucast E, ucast F, ucast G, ucast H]) \<and>
   (bit x 7 \<longrightarrow> le_bytes 4 (SIGNATURE_32 (scast x) b c d) = [x, 255, 255, 255])"
proof (intro conjI allI impI; (elim conjE)?)
  show "le_bytes 4 (PXE_BUSTYPE a b c d) = [ucast a, ucast b, ucast c, ucast d]" by (rule bus_type_bytes)
  {
    assume x: "bit x 7"
    have m: "(255 :: UINT8) = mask 8" by (simp add: mask_eq_exp_minus_1)
    have "(ucast (SIGNATURE_32 (scast x) b c d) :: UINT8) = x"
      "(ucast (drop_bit 8 (SIGNATURE_32 (scast x) b c d)) :: UINT8) = 255"
      "(ucast (drop_bit 16 (SIGNATURE_32 (scast x) b c d)) :: UINT8) = 255"
      "(ucast (drop_bit 24 (SIGNATURE_32 (scast x) b c d)) :: UINT8) = 255"
      unfolding SIGNATURE_32_def SIGNATURE_16_def m using x
      by (intro bit_word_eqI, auto simp: bit_simps min_def dest: le_antisym)+
    then show "le_bytes 4 (SIGNATURE_32 (scast x) b c d) = [x, 255, 255, 255]" by (simp add: le_bytes_4)
  }
  fix A B C D E F G H :: UINT32
  assume l: "A < 128" "B < 128" "C < 128" "D < 128" "E < 128" "F < 128" "G < 128" "H < 128"
  show s: "SIGNATURE_32 A B C D = PXE_BUSTYPE A B C D" by (rule signature_32_bus_type [OF l(1-4)])
  then show s4: "le_bytes 4 (SIGNATURE_32 A B C D) = [ucast A, ucast B, ucast C, ucast D]"
    by (simp only: bus_type_bytes)
  note bits = ascii_bits [OF l(1)] ascii_bits [OF l(2)] ascii_bits [OF l(3)] ascii_bits [OF l(4)]
  have "(ucast (SIGNATURE_16 A B) :: UINT8) = ucast A" "(ucast (drop_bit 8 (SIGNATURE_16 A B)) :: UINT8) = ucast B"
    unfolding SIGNATURE_16_def using bits(1) by (intro bit_word_eqI, fastforce simp: bit_simps)+
  then show "le_bytes 2 (SIGNATURE_16 A B) = [ucast A, ucast B]" by (simp add: numeral_2_eq_2)
  let ?L = "SIGNATURE_32 A B C D" and ?H = "SIGNATURE_32 E F G H"
  have positive: "bit (scast w :: UINT64) n = bit w n" if "\<not> bit w 31" for w :: UINT32 and n
    using that bit_imp_le_length [of w n] by (cases "n = 31") (auto simp: bit_simps min_def not_le)
  have "\<not> bit ?L 31"
    unfolding SIGNATURE_32_def SIGNATURE_16_def using bits by (fastforce simp: bit_simps)
  note low = positive [OF this]
  have "\<not> bit ?H 31"
    unfolding SIGNATURE_32_def SIGNATURE_16_def
    using ascii_bits [OF l(5)] ascii_bits [OF l(6)] ascii_bits [OF l(7)] ascii_bits [OF l(8)]
    by (fastforce simp: bit_simps)
  note high = positive [OF this]
  have "le_bytes 4 (SIGNATURE_64 A B C D E F G H) = le_bytes 4 ?L"
    by (rule le_bytes_cong) (simp add: SIGNATURE_64_def bit_push_bit_iff bit_or_iff low)
  moreover have "le_bytes 4 (drop_bit 32 (SIGNATURE_64 A B C D E F G H)) = le_bytes 4 ?H"
    by (rule le_bytes_cong) (auto simp: SIGNATURE_64_def bit_push_bit_iff bit_drop_bit_eq bit_or_iff low high dest: bit_imp_le_length)
  moreover have "le_bytes 8 w = le_bytes 4 w @ le_bytes 4 (drop_bit 32 w)" for w :: UINT64
    by (simp add: le_bytes_8 le_bytes_4 drop_bit_drop_bit)
  ultimately show "le_bytes 8 (SIGNATURE_64 A B C D E F G H) =
        [ucast A, ucast B, ucast C, ucast D, ucast E, ucast F, ucast G, ucast H]"
    using s4 signature_32_bus_type [OF l(5-8)] by (simp add: bus_type_bytes)
qed

theorem signatures_spell_witness:
  "le_bytes 4 (SIGNATURE_32 0x46 0x41 0x43 0x50) = [0x46, 0x41, 0x43, 0x50] \<and>
   le_bytes 4 (SIGNATURE_32 (scast (0x80 :: CHAR8)) 0x41 0x43 0x50) = [0x80, 255, 255, 255]"
proof
  have "(0x46 :: UINT32) < 128" "(0x41 :: UINT32) < 128" "(0x43 :: UINT32) < 128" "(0x50 :: UINT32) < 128"
    by simp_all
  then have "le_bytes 4 (SIGNATURE_32 0x46 0x41 0x43 0x50) =
      [ucast (0x46 :: UINT32), ucast (0x41 :: UINT32), ucast (0x43 :: UINT32), ucast (0x50 :: UINT32)]"
    using signatures_spell by blast
  then show "le_bytes 4 (SIGNATURE_32 0x46 0x41 0x43 0x50) = [0x46, 0x41, 0x43, 0x50]" by simp
  have "bit (0x80 :: CHAR8) 7" by (simp add: bit_iff_odd)
  then show "le_bytes 4 (SIGNATURE_32 (scast (0x80 :: CHAR8)) 0x41 0x43 0x50) = [0x80, 255, 255, 255]"
    using signatures_spell by blast
qed

lemma field_bits:
  fixes y :: UINT32
  shows "s + k \<le> t \<Longrightarrow> take_bit k (drop_bit s (push_bit t y)) = 0"
    "t + j \<le> s \<Longrightarrow> take_bit k (drop_bit s (push_bit t (take_bit j y))) = 0"
    "s + k \<le> 32 \<Longrightarrow> take_bit k (drop_bit s (push_bit s (take_bit k y))) = take_bit k y"
  by (rule bit_word_eqI, auto simp: bit_simps)+

lemma display_masks:
  "(x :: UINT32) AND 0xF = take_bit 4 x" "x AND 0x7 = take_bit 3 x" "x AND 0x1 = take_bit 1 x"
  by (simp_all add: take_bit_eq_mask mask_eq_exp_minus_1)

lemma display_fields:
  fixes scheme head nonvga detect vendor kind port index :: UINT32
  defines "adr \<equiv> ACPI_DISPLAY_ADR scheme head nonvga detect vendor kind port index"
  shows "take_bit 1 (drop_bit 31 adr) = take_bit 1 scheme" "take_bit 3 (drop_bit 18 adr) = take_bit 3 head"
    "take_bit 1 (drop_bit 17 adr) = take_bit 1 nonvga" "take_bit 1 (drop_bit 16 adr) = take_bit 1 detect"
    "take_bit 4 (drop_bit 12 adr) = take_bit 4 vendor" "take_bit 4 (drop_bit 8 adr) = take_bit 4 kind"
    "take_bit 4 (drop_bit 4 adr) = take_bit 4 port" "take_bit 4 (drop_bit 0 adr) = take_bit 4 index"
proof -
  have adr: "adr = push_bit 31 (take_bit 1 scheme) OR push_bit 18 (take_bit 3 head) OR
      push_bit 17 (take_bit 1 nonvga) OR push_bit 16 (take_bit 1 detect) OR push_bit 12 (take_bit 4 vendor) OR
      push_bit 8 (take_bit 4 kind) OR push_bit 4 (take_bit 4 port) OR push_bit 0 (take_bit 4 index)"
    by (simp only: adr_def ACPI_DISPLAY_ADR_def display_masks push_bit_0_id id_apply)
  show "take_bit 1 (drop_bit 31 adr) = take_bit 1 scheme" "take_bit 3 (drop_bit 18 adr) = take_bit 3 head"
    "take_bit 1 (drop_bit 17 adr) = take_bit 1 nonvga" "take_bit 1 (drop_bit 16 adr) = take_bit 1 detect"
    "take_bit 4 (drop_bit 12 adr) = take_bit 4 vendor" "take_bit 4 (drop_bit 8 adr) = take_bit 4 kind"
    "take_bit 4 (drop_bit 4 adr) = take_bit 4 port" "take_bit 4 (drop_bit 0 adr) = take_bit 4 index"
    by (simp_all only: adr take_bit_or drop_bit_or field_bits num.simps rel_simps arith_simps numeral_plus_one
        one_plus_numeral one_add_one numeral_plus_numeral add_0 add_0_right or.left_neutral or.right_neutral
        zero_le order_refl)
qed

text \<open>
  Packed identifiers: number and name of an \<open>EISA_ID\<close> come back by \<open>EISA_ID_TO_NUM\<close> and the
  mask, for both within 16 bits, and the name constant of PNP identifiers is \<open>PNP\<close> in five
  bits per letter; a display address keeps each of its eight fields at its place, whatever
  is in the unused bits of the arguments; and a text attribute keeps both colours.
\<close>

theorem packed_identifiers:
  "(Name < 2 ^ 16 \<and> Num < 2 ^ 16 \<longrightarrow>
     EISA_ID_TO_NUM (EISA_ID Name Num) = Num \<and> EISA_ID Name Num AND PNP_EISA_ID_MASK = Name) \<and>
   EISA_PNP_ID Num AND PNP_EISA_ID_MASK = PNP_EISA_ID_CONST \<and>
   List.map (\<lambda>s. char_of (64 + unat (take_bit 5 (drop_bit s PNP_EISA_ID_CONST)))) [10, 5, 0] = ''PNP'' \<and>
   (let adr = ACPI_DISPLAY_ADR scheme head nonvga detect vendor kind port index in
     take_bit 1 (drop_bit 31 adr) = take_bit 1 scheme \<and> take_bit 3 (drop_bit 18 adr) = take_bit 3 head \<and>
     take_bit 1 (drop_bit 17 adr) = take_bit 1 nonvga \<and> take_bit 1 (drop_bit 16 adr) = take_bit 1 detect \<and>
     take_bit 4 (drop_bit 12 adr) = take_bit 4 vendor \<and> take_bit 4 (drop_bit 8 adr) = take_bit 4 kind \<and>
     take_bit 4 (drop_bit 4 adr) = take_bit 4 port \<and> take_bit 4 (drop_bit 0 adr) = take_bit 4 index) \<and>
   (fg < 16 \<and> bg < 16 \<longrightarrow> EFI_TEXT_ATTR fg bg AND 0xF = fg \<and> drop_bit 4 (EFI_TEXT_ATTR fg bg) = bg \<and>
     EFI_TEXT_ATTR fg bg < 256)"
proof -
  have m: "(0xFFFF :: UINT32) = mask 16" "(0xF :: UINT32) = mask 4" "(0x7 :: UINT32) = mask 3" "(0x1 :: UINT32) = mask 1"
    by (simp_all add: mask_eq_exp_minus_1)
  have eisa: "EISA_ID_TO_NUM (EISA_ID Name Num) = Num \<and> EISA_ID Name Num AND PNP_EISA_ID_MASK = Name"
    if "Name < 2 ^ 16" "Num < 2 ^ 16" for Name Num
    unfolding EISA_ID_TO_NUM_def EISA_ID_def PNP_EISA_ID_MASK_def m
    using small_bits [of Name _ 16] small_bits [of Num _ 16] that [unfolded word_less_nat_alt]
    by (intro conjI bit_word_eqI) (fastforce simp: bit_simps)+
  have pnp: "EISA_PNP_ID Num AND PNP_EISA_ID_MASK = PNP_EISA_ID_CONST"
    unfolding EISA_PNP_ID_def EISA_ID_def PNP_EISA_ID_MASK_def m
    using small_bits [of PNP_EISA_ID_CONST _ 16]
    by (intro bit_word_eqI) (fastforce simp: bit_simps PNP_EISA_ID_CONST_def)
  have "List.map (\<lambda>s. char_of (64 + unat (take_bit 5 (drop_bit s PNP_EISA_ID_CONST)))) [10, 5, 0] = ''PNP''"
    by code_simp
  moreover have "EFI_TEXT_ATTR fg bg AND 0xF = fg \<and> drop_bit 4 (EFI_TEXT_ATTR fg bg) = bg \<and> EFI_TEXT_ATTR fg bg < 256"
    if "fg < 16" "bg < 16"
  proof -
    have f: "bit fg n \<Longrightarrow> n < 4" "bit bg n \<Longrightarrow> n < 4" for n
      using that small_bits [of fg n 4] small_bits [of bg n 4] by (simp_all add: word_less_nat_alt)
    have "EFI_TEXT_ATTR fg bg AND 0xF = fg" "drop_bit 4 (EFI_TEXT_ATTR fg bg) = bg"
      unfolding EFI_TEXT_ATTR_def m using f by (intro bit_word_eqI, fastforce simp: bit_simps)+
    moreover have "unat (EFI_TEXT_ATTR fg bg) < 2 ^ 8"
      using f by (intro bits_small) (fastforce simp: EFI_TEXT_ATTR_def bit_simps)+
    ultimately show ?thesis by (simp add: word_less_nat_alt)
  qed
  ultimately show ?thesis using eisa pnp by (simp only: Let_def display_fields) blast
qed

theorem packed_identifiers_witness:
  "EISA_ID_TO_NUM (EISA_ID 0x41D0 0x0A03) = 0x0A03 \<and> drop_bit 4 (EFI_TEXT_ATTR 7 1) = 1"
  using packed_identifiers [of "0x41D0" "0x0A03" _ _ _ _ _ _ _ _ 7 1] by simp

end
