(* ===== verification/Protocol_Records.thy ===== *)
theory Protocol_Records
  imports Protocol_Codes Bit_Members Form_Types Device_Path_Types
begin

text \<open>
  The codes of \<open>Protocol_Codes\<close> with the records they name: the header of every op-code of forms
  written and read back, and the nodes of device paths told apart.
\<close>

section \<open>The records\<close>

text \<open>Each op-code of forms with its records; some op-codes have several forms, told apart by their length.\<close>

definition ifr_records :: "(string \<times> ctype) list" where
  "ifr_records =
     [(''FORM'', EFI_IFR_FORM), (''SUBTITLE'', EFI_IFR_SUBTITLE), (''TEXT'', EFI_IFR_TEXT),
      (''IMAGE'', EFI_IFR_IMAGE), (''ONE_OF'', EFI_IFR_ONE_OF),
      (''CHECKBOX'', EFI_IFR_CHECKBOX), (''NUMERIC'', EFI_IFR_NUMERIC),
      (''PASSWORD'', EFI_IFR_PASSWORD), (''ONE_OF_OPTION'', EFI_IFR_ONE_OF_OPTION),
      (''SUPPRESS_IF'', EFI_IFR_SUPPRESS_IF), (''LOCKED'', EFI_IFR_LOCKED),
      (''ACTION'', EFI_IFR_ACTION), (''ACTION'', EFI_IFR_ACTION_1),
      (''RESET_BUTTON'', EFI_IFR_RESET_BUTTON), (''FORM_SET'', EFI_IFR_FORM_SET),
      (''REF'', EFI_IFR_REF), (''REF'', EFI_IFR_REF2), (''REF'', EFI_IFR_REF3),
      (''REF'', EFI_IFR_REF4), (''REF'', EFI_IFR_REF5),
      (''NO_SUBMIT_IF'', EFI_IFR_NO_SUBMIT_IF), (''INCONSISTENT_IF'', EFI_IFR_INCONSISTENT_IF),
      (''EQ_ID_VAL'', EFI_IFR_EQ_ID_VAL), (''EQ_ID_ID'', EFI_IFR_EQ_ID_ID),
      (''EQ_ID_VAL_LIST'', EFI_IFR_EQ_ID_VAL_LIST), (''AND'', EFI_IFR_AND),
      (''OR'', EFI_IFR_OR), (''NOT'', EFI_IFR_NOT), (''RULE'', EFI_IFR_RULE),
      (''GRAY_OUT_IF'', EFI_IFR_GRAY_OUT_IF), (''DATE'', EFI_IFR_DATE),
      (''TIME'', EFI_IFR_TIME), (''STRING'', EFI_IFR_STRING), (''REFRESH'', EFI_IFR_REFRESH),
      (''DISABLE_IF'', EFI_IFR_DISABLE_IF), (''ANIMATION'', EFI_IFR_ANIMATION),
      (''TO_LOWER'', EFI_IFR_TO_LOWER), (''TO_UPPER'', EFI_IFR_TO_UPPER),
      (''MAP'', EFI_IFR_MAP), (''ORDERED_LIST'', EFI_IFR_ORDERED_LIST),
      (''VARSTORE'', EFI_IFR_VARSTORE), (''VARSTORE_NAME_VALUE'', EFI_IFR_VARSTORE_NAME_VALUE),
      (''VARSTORE_EFI'', EFI_IFR_VARSTORE_EFI), (''VARSTORE_DEVICE'', EFI_IFR_VARSTORE_DEVICE),
      (''VERSION'', EFI_IFR_VERSION), (''END'', EFI_IFR_END), (''MATCH'', EFI_IFR_MATCH),
      (''GET'', EFI_IFR_GET), (''SET'', EFI_IFR_SET), (''READ'', EFI_IFR_READ),
      (''WRITE'', EFI_IFR_WRITE), (''EQUAL'', EFI_IFR_EQUAL),
      (''NOT_EQUAL'', EFI_IFR_NOT_EQUAL), (''GREATER_THAN'', EFI_IFR_GREATER_THAN),
      (''GREATER_EQUAL'', EFI_IFR_GREATER_EQUAL), (''LESS_THAN'', EFI_IFR_LESS_THAN),
      (''LESS_EQUAL'', EFI_IFR_LESS_EQUAL), (''BITWISE_AND'', EFI_IFR_BITWISE_AND),
      (''BITWISE_OR'', EFI_IFR_BITWISE_OR), (''BITWISE_NOT'', EFI_IFR_BITWISE_NOT),
      (''SHIFT_LEFT'', EFI_IFR_SHIFT_LEFT), (''SHIFT_RIGHT'', EFI_IFR_SHIFT_RIGHT),
      (''ADD'', EFI_IFR_ADD), (''SUBTRACT'', EFI_IFR_SUBTRACT),
      (''MULTIPLY'', EFI_IFR_MULTIPLY), (''DIVIDE'', EFI_IFR_DIVIDE),
      (''MODULO'', EFI_IFR_MODULO), (''RULE_REF'', EFI_IFR_RULE_REF),
      (''QUESTION_REF1'', EFI_IFR_QUESTION_REF1), (''QUESTION_REF2'', EFI_IFR_QUESTION_REF2),
      (''UINT8'', EFI_IFR_UINT8), (''UINT16'', EFI_IFR_UINT16), (''UINT32'', EFI_IFR_UINT32),
      (''UINT64'', EFI_IFR_UINT64), (''TRUE'', EFI_IFR_TRUE), (''FALSE'', EFI_IFR_FALSE),
      (''TO_UINT'', EFI_IFR_TO_UINT), (''TO_STRING'', EFI_IFR_TO_STRING),
      (''TO_BOOLEAN'', EFI_IFR_TO_BOOLEAN), (''MID'', EFI_IFR_MID), (''FIND'', EFI_IFR_FIND),
      (''TOKEN'', EFI_IFR_TOKEN), (''STRING_REF1'', EFI_IFR_STRING_REF1),
      (''STRING_REF2'', EFI_IFR_STRING_REF2), (''CONDITIONAL'', EFI_IFR_CONDITIONAL),
      (''QUESTION_REF3'', EFI_IFR_QUESTION_REF3), (''QUESTION_REF3'', EFI_IFR_QUESTION_REF3_2),
      (''QUESTION_REF3'', EFI_IFR_QUESTION_REF3_3), (''ZERO'', EFI_IFR_ZERO),
      (''ONE'', EFI_IFR_ONE), (''ONES'', EFI_IFR_ONES), (''UNDEFINED'', EFI_IFR_UNDEFINED),
      (''LENGTH'', EFI_IFR_LENGTH), (''DUP'', EFI_IFR_DUP), (''THIS'', EFI_IFR_THIS),
      (''SPAN'', EFI_IFR_SPAN), (''VALUE'', EFI_IFR_VALUE), (''DEFAULT'', EFI_IFR_DEFAULT),
      (''DEFAULT'', EFI_IFR_DEFAULT_2), (''DEFAULTSTORE'', EFI_IFR_DEFAULTSTORE),
      (''FORM_MAP'', EFI_IFR_FORM_MAP), (''CATENATE'', EFI_IFR_CATENATE),
      (''GUID'', EFI_IFR_GUID), (''SECURITY'', EFI_IFR_SECURITY),
      (''MODAL_TAG'', EFI_IFR_MODAL_TAG), (''REFRESH_ID'', EFI_IFR_REFRESH_ID),
      (''WARNING_IF'', EFI_IFR_WARNING_IF), (''MATCH2'', EFI_IFR_MATCH2)]"

text \<open>
  Each node of a device path with its type and subtype. The flow control and SAS nodes are
  vendor nodes told apart by their GUID.
\<close>

definition device_path_nodes :: "(nat \<times> nat \<times> ctype) list" where
  "device_path_nodes =
     [(HARDWARE_DEVICE_PATH, HW_PCI_DP, PCI_DEVICE_PATH),
      (HARDWARE_DEVICE_PATH, HW_PCCARD_DP, PCCARD_DEVICE_PATH),
      (HARDWARE_DEVICE_PATH, HW_MEMMAP_DP, MEMMAP_DEVICE_PATH),
      (HARDWARE_DEVICE_PATH, HW_VENDOR_DP, VENDOR_DEVICE_PATH),
      (HARDWARE_DEVICE_PATH, HW_CONTROLLER_DP, CONTROLLER_DEVICE_PATH),
      (HARDWARE_DEVICE_PATH, HW_BMC_DP, BMC_DEVICE_PATH),
      (ACPI_DEVICE_PATH, ACPI_DP, ACPI_HID_DEVICE_PATH),
      (ACPI_DEVICE_PATH, ACPI_EXTENDED_DP, ACPI_EXTENDED_HID_DEVICE_PATH),
      (ACPI_DEVICE_PATH, ACPI_ADR_DP, ACPI_ADR_DEVICE_PATH),
      (ACPI_DEVICE_PATH, ACPI_NVDIMM_DP, ACPI_NVDIMM_DEVICE_PATH),
      (MESSAGING_DEVICE_PATH, MSG_ATAPI_DP, ATAPI_DEVICE_PATH),
      (MESSAGING_DEVICE_PATH, MSG_SCSI_DP, SCSI_DEVICE_PATH),
      (MESSAGING_DEVICE_PATH, MSG_FIBRECHANNEL_DP, FIBRECHANNEL_DEVICE_PATH),
      (MESSAGING_DEVICE_PATH, MSG_FIBRECHANNELEX_DP, FIBRECHANNELEX_DEVICE_PATH),
      (MESSAGING_DEVICE_PATH, MSG_1394_DP, F1394_DEVICE_PATH),
      (MESSAGING_DEVICE_PATH, MSG_USB_DP, USB_DEVICE_PATH),
      (MESSAGING_DEVICE_PATH, MSG_USB_CLASS_DP, USB_CLASS_DEVICE_PATH),
      (MESSAGING_DEVICE_PATH, MSG_USB_WWID_DP, USB_WWID_DEVICE_PATH),
      (MESSAGING_DEVICE_PATH, MSG_DEVICE_LOGICAL_UNIT_DP, DEVICE_LOGICAL_UNIT_DEVICE_PATH),
      (MESSAGING_DEVICE_PATH, MSG_SATA_DP, SATA_DEVICE_PATH),
      (MESSAGING_DEVICE_PATH, MSG_I2O_DP, I2O_DEVICE_PATH),
      (MESSAGING_DEVICE_PATH, MSG_MAC_ADDR_DP, MAC_ADDR_DEVICE_PATH),
      (MESSAGING_DEVICE_PATH, MSG_IPv4_DP, IPv4_DEVICE_PATH),
      (MESSAGING_DEVICE_PATH, MSG_IPv6_DP, IPv6_DEVICE_PATH),
      (MESSAGING_DEVICE_PATH, MSG_INFINIBAND_DP, INFINIBAND_DEVICE_PATH),
      (MESSAGING_DEVICE_PATH, MSG_UART_DP, UART_DEVICE_PATH),
      (MESSAGING_DEVICE_PATH, NVDIMM_NAMESPACE_DP, NVDIMM_NAMESPACE_DEVICE_PATH),
      (MESSAGING_DEVICE_PATH, MSG_VENDOR_DP, VENDOR_DEFINED_DEVICE_PATH),
      (MESSAGING_DEVICE_PATH, MSG_SASEX_DP, SASEX_DEVICE_PATH),
      (MESSAGING_DEVICE_PATH, MSG_NVME_NAMESPACE_DP, NVME_NAMESPACE_DEVICE_PATH),
      (MESSAGING_DEVICE_PATH, MSG_DNS_DP, DNS_DEVICE_PATH),
      (MESSAGING_DEVICE_PATH, MSG_URI_DP, URI_DEVICE_PATH),
      (MESSAGING_DEVICE_PATH, MSG_UFS_DP, UFS_DEVICE_PATH),
      (MESSAGING_DEVICE_PATH, MSG_SD_DP, SD_DEVICE_PATH),
      (MESSAGING_DEVICE_PATH, MSG_EMMC_DP, EMMC_DEVICE_PATH),
      (MESSAGING_DEVICE_PATH, MSG_ISCSI_DP, ISCSI_DEVICE_PATH),
      (MESSAGING_DEVICE_PATH, MSG_VLAN_DP, VLAN_DEVICE_PATH),
      (MESSAGING_DEVICE_PATH, MSG_BLUETOOTH_DP, BLUETOOTH_DEVICE_PATH),
      (MESSAGING_DEVICE_PATH, MSG_WIFI_DP, WIFI_DEVICE_PATH),
      (MESSAGING_DEVICE_PATH, MSG_BLUETOOTH_LE_DP, BLUETOOTH_LE_DEVICE_PATH),
      (MEDIA_DEVICE_PATH, MEDIA_HARDDRIVE_DP, HARDDRIVE_DEVICE_PATH),
      (MEDIA_DEVICE_PATH, MEDIA_CDROM_DP, CDROM_DEVICE_PATH),
      (MEDIA_DEVICE_PATH, MEDIA_FILEPATH_DP, FILEPATH_DEVICE_PATH),
      (MEDIA_DEVICE_PATH, MEDIA_PROTOCOL_DP, MEDIA_PROTOCOL_DEVICE_PATH),
      (MEDIA_DEVICE_PATH, MEDIA_PIWG_FW_FILE_DP, MEDIA_FW_VOL_FILEPATH_DEVICE_PATH),
      (MEDIA_DEVICE_PATH, MEDIA_PIWG_FW_VOL_DP, MEDIA_FW_VOL_DEVICE_PATH),
      (MEDIA_DEVICE_PATH, MEDIA_RELATIVE_OFFSET_RANGE_DP, MEDIA_RELATIVE_OFFSET_RANGE_DEVICE_PATH),
      (MEDIA_DEVICE_PATH, MEDIA_RAM_DISK_DP, MEDIA_RAM_DISK_DEVICE_PATH),
      (BBS_DEVICE_PATH, BBS_BBS_DP, BBS_BBS_DEVICE_PATH),
      (MEDIA_DEVICE_PATH, MEDIA_VENDOR_DP, VENDOR_DEVICE_PATH)]"

section \<open>Op-codes of forms\<close>

definition ifr_record_ok :: "string \<times> ctype \<Rightarrow> bool" where
  "ifr_record_ok = (\<lambda>(c, T). map_of ifr_opcodes c \<noteq> None \<and>
     locate [Dot ''Header''] T = Some (0, EFI_IFR_OP_HEADER) \<and> sizeof_type T < 2 ^ 7)"

lemma ifr_records_ok: "list_all ifr_record_ok ifr_records"
  by code_simp

lemma ifr_opcode_values: "map snd ifr_opcodes = [1..<101]"
  by code_simp

lemma ifr_records_complete: "fst ` set ifr_records = fst ` set ifr_opcodes"
proof -
  have "list_all (\<lambda>c. List.member (map fst ifr_records) c) (map fst ifr_opcodes)"
    "list_all (\<lambda>c. List.member (map fst ifr_opcodes) c) (map fst ifr_records)" by code_simp+
  then show ?thesis by (auto simp only: list_all_iff List.member_iff set_map)
qed

lemma distinct_values_inj:
  "distinct (map snd xs) \<Longrightarrow> map_of xs c = Some v \<Longrightarrow> map_of xs d = Some v \<Longrightarrow> c = d"
proof -
  assume d: "distinct (map snd xs)" and "map_of xs c = Some v" "map_of xs d = Some v"
  then have "(c, v) \<in> set xs" "(d, v) \<in> set xs" by (auto dest: map_of_SomeD)
  moreover have "inj_on snd (set xs)" using d by (simp add: distinct_map)
  ultimately show ?thesis by (metis Pair_inject inj_onD snd_conv)
qed

lemma op_header:
  "locate [Dot ''OpCode''] EFI_IFR_OP_HEADER = Some (0, UINT8)" "sizeof_type EFI_IFR_OP_HEADER = 2"
  "bit_member EFI_IFR_OP_HEADER ''Length'' = Some (1, 1, 0, 7)"
  "bit_member EFI_IFR_OP_HEADER ''Scope'' = Some (1, 1, 7, 1)"
  by (simp_all add: layouts place_def round_up_def bits_size_def)

section \<open>Nodes of device paths\<close>

definition node_ok :: "nat \<times> nat \<times> ctype \<Rightarrow> bool" where
  "node_ok = (\<lambda>(t, s, T). locate [Dot ''Header''] T = Some (0, EFI_DEVICE_PATH_PROTOCOL) \<and>
     0 < t \<and> t < END_DEVICE_PATH_TYPE \<and> 0 < s \<and> s < 256 \<and>
     sizeof_type EFI_DEVICE_PATH_PROTOCOL \<le> sizeof_type T \<and> sizeof_type T < 256)"

lemma nodes_ok: "list_all node_ok device_path_nodes"
  by code_simp

lemma nodes_distinct: "distinct (map (\<lambda>(t, s, T). (t, s)) device_path_nodes)"
  by code_simp

section \<open>Properties\<close>

text \<open>
  C21. Op-codes of forms: the 100 op-codes are the numbers 1 to 100, each with a record of fewer
  than 128 bytes that begins with the op-code header; writing op-code, length and scope into
  the header of a record in memory, in this order, makes all three read back, the op-code
  identifies the record's name, the length, which has 7 bits, is the size of the record, and
  no byte behind the header changes.
\<close>

theorem ifr_op_headers:
  assumes "(c, T) \<in> set ifr_records" "buffer m a (sizeof_type T)"
  shows "map snd ifr_opcodes = [1..<101] \<and> fst ` set ifr_records = fst ` set ifr_opcodes \<and>
    (\<exists>code m1 m2 m3. map_of ifr_opcodes c = Some code \<and> (\<forall>d. map_of ifr_opcodes d = Some code \<longrightarrow> d = c) \<and>
      locate [Dot ''Header''] T = Some (0, EFI_IFR_OP_HEADER) \<and>
      store m a (of_nat code :: UINT8) = Inr m1 \<and>
      assign_bits m1 a EFI_IFR_OP_HEADER ''Length'' (of_nat (sizeof_type T)) = Inr m2 \<and>
      assign_bits m2 a EFI_IFR_OP_HEADER ''Scope'' scope = Inr m3 \<and>
      load m3 a = Inr (of_nat code :: UINT8) \<and>
      read_bits m3 a EFI_IFR_OP_HEADER ''Length'' = Inr (of_nat (sizeof_type T)) \<and>
      read_bits m3 a EFI_IFR_OP_HEADER ''Scope'' = Inr (take_bit 1 scope) \<and>
      (\<forall>b j. apart b j a 2 \<longrightarrow> load_bytes m3 b j = load_bytes m b j))"
proof (intro conjI)
  show "map snd ifr_opcodes = [1..<101]" by (rule ifr_opcode_values)
  show "fst ` set ifr_records = fst ` set ifr_opcodes" by (rule ifr_records_complete)
  let ?H = EFI_IFR_OP_HEADER and ?n = "of_nat (sizeof_type T) :: UINT64"
  have "ifr_record_ok (c, T)" using ifr_records_ok assms(1) by (simp only: list_all_iff)
  then obtain code where c: "map_of ifr_opcodes c = Some code" "locate [Dot ''Header''] T = Some (0, ?H)"
    "sizeof_type T < 2 ^ 7" by (auto simp: ifr_record_ok_def)
  have only: "d = c" if "map_of ifr_opcodes d = Some code" for d
    by (rule distinct_values_inj [OF _ that c(1)]) (simp only: ifr_opcode_values distinct_upt)
  have b: "buffer m a (sizeof_type ?H)"
    using buffer_part [OF assms(2), of 0 "sizeof_type ?H"] locate_bounds [OF c(2)] by simp
  have one: "sizeof_type UINT8 = sizeof_word (of_nat code :: UINT8)" by (simp add: layouts sizeof_word_def)
  obtain m1 where m1: "store m a (of_nat code :: UINT8) = Inr m1" "load m1 a = Inr (of_nat code :: UINT8)"
    "buffer m1 a (sizeof_type ?H)" "\<And>b j. apart b j a 2 \<Longrightarrow> load_bytes m1 b j = load_bytes m b j"
    using assign_member [OF b op_header(1) one] by (auto simp: op_header(2))
  obtain m2 where m2: "assign_bits m1 a ?H ''Length'' ?n = Inr m2" "read_bits m2 a ?H ''Length'' = Inr (take_bit 7 ?n)"
    "buffer m2 a (sizeof_type ?H)" and f2: "\<And>b j. apart b j a 2 \<or> apart b j (a + 1) 1 \<Longrightarrow> load_bytes m2 b j = load_bytes m1 b j"
    using assign_bit_member [OF m1(3) op_header(3), of ?n] by (auto simp: op_header(2))
  obtain m3 where m3: "assign_bits m2 a ?H ''Scope'' scope = Inr m3" "read_bits m3 a ?H ''Scope'' = Inr (take_bit 1 scope)"
    and others: "\<And>g. g \<noteq> ''Scope'' \<Longrightarrow> read_bits m3 a ?H g = read_bits m2 a ?H g"
    and f3: "\<And>b j. apart b j a 2 \<or> apart b j (a + 1) 1 \<Longrightarrow> load_bytes m3 b j = load_bytes m2 b j"
    using assign_bit_member [OF m2(3) op_header(4), of scope] by (auto simp: op_header(2))
  have l3: "read_bits m3 a ?H ''Length'' = read_bits m2 a ?H ''Length''" by (rule others) simp
  have fr: "load_bytes m3 b j = load_bytes m b j" if "apart b j a 2" for b j
    using f3 [OF disjI1 [OF that]] f2 [OF disjI1 [OF that]] m1(4) [OF that] by (simp only:)
  have "take_bit 7 ?n = ?n"
    using take_bit_nat_eq_self [OF c(3)] by (simp flip: of_nat_take_bit)
  with m2(2) l3 have len: "read_bits m3 a ?H ''Length'' = Inr ?n" by (simp only:)
  have op: "load m3 a = Inr (of_nat code :: UINT8)"
  proof -
    have "apart a 1 (a + 1) 1" using parts_apart [of 2 1 1 0 1 a] by simp
    then have "load_bytes m3 a 1 = load_bytes m1 a 1" by (simp add: f2 f3 del: load_bytes.simps)
    with m1(2) show ?thesis by (simp add: load_def sizeof_word_def)
  qed
  show "\<exists>code m1 m2 m3. map_of ifr_opcodes c = Some code \<and> (\<forall>d. map_of ifr_opcodes d = Some code \<longrightarrow> d = c) \<and>
      locate [Dot ''Header''] T = Some (0, EFI_IFR_OP_HEADER) \<and>
      store m a (of_nat code :: UINT8) = Inr m1 \<and>
      assign_bits m1 a EFI_IFR_OP_HEADER ''Length'' (of_nat (sizeof_type T)) = Inr m2 \<and>
      assign_bits m2 a EFI_IFR_OP_HEADER ''Scope'' scope = Inr m3 \<and>
      load m3 a = Inr (of_nat code :: UINT8) \<and>
      read_bits m3 a EFI_IFR_OP_HEADER ''Length'' = Inr (of_nat (sizeof_type T)) \<and>
      read_bits m3 a EFI_IFR_OP_HEADER ''Scope'' = Inr (take_bit 1 scope) \<and>
      (\<forall>b j. apart b j a 2 \<longrightarrow> load_bytes m3 b j = load_bytes m b j)"
    by (rule exI [of _ code], rule exI [of _ m1], rule exI [of _ m2], rule exI [of _ m3], intro conjI allI impI)
      (fact c(1) m1(1) m2(1) m3(1,2) c(2) op len | erule only | erule fr)+
qed

theorem ifr_op_headers_witness:
  "\<exists>m1 m2 m3. store (sample_mem 64 (replicate 16 0)) 64 (0x29 :: UINT8) = Inr m1 \<and>
    assign_bits m1 64 EFI_IFR_OP_HEADER ''Length'' 2 = Inr m2 \<and> assign_bits m2 64 EFI_IFR_OP_HEADER ''Scope'' 1 = Inr m3 \<and>
    read_bits m3 64 EFI_IFR_OP_HEADER ''Length'' = Inr 2"
proof -
  have r: "(''END'', EFI_IFR_END) \<in> set ifr_records" by (simp add: ifr_records_def)
  have z: "sizeof_type EFI_IFR_END = 2" by (simp add: layouts place_def round_up_def bits_size_def)
  have b: "buffer (sample_mem 64 (replicate 16 0)) 64 (sizeof_type EFI_IFR_END)"
    using sample_buffer [of 64 "replicate 16 0" 0 2] z by simp
  have c: "map_of ifr_opcodes ''END'' = Some 0x29" by (simp add: ifr_opcodes_def)
  obtain code m1 m2 m3 where "map_of ifr_opcodes ''END'' = Some code"
    and m: "store (sample_mem 64 (replicate 16 0)) 64 (of_nat code :: UINT8) = Inr m1"
      "assign_bits m1 64 EFI_IFR_OP_HEADER ''Length'' (of_nat (sizeof_type EFI_IFR_END)) = Inr m2"
      "assign_bits m2 64 EFI_IFR_OP_HEADER ''Scope'' 1 = Inr m3"
      "read_bits m3 64 EFI_IFR_OP_HEADER ''Length'' = Inr (of_nat (sizeof_type EFI_IFR_END))"
    using ifr_op_headers [OF r b, of 1] by (elim conjE exE) (rule that; assumption)
  with c have "code = 0x29" by simp
  then show ?thesis using m by (simp add: z del: load_bytes.simps)
qed

text \<open>
  Nodes of device paths: every record of \<open>DevicePath.h\<close> begins with the device path header, type and
  subtype fit its bytes and the size its two length bytes, no type is that of the end node,
  and type and subtype tell which record it is.
\<close>

theorem device_path_nodes_told_apart:
  assumes "(t, s, T) \<in> set device_path_nodes"
  shows "locate [Dot ''Header''] T = Some (0, EFI_DEVICE_PATH_PROTOCOL) \<and> 0 < t \<and> t < END_DEVICE_PATH_TYPE \<and>
    0 < s \<and> s < 256 \<and> sizeof_type EFI_DEVICE_PATH_PROTOCOL \<le> sizeof_type T \<and> sizeof_type T < 2 ^ 16 \<and>
    (\<forall>U. (t, s, U) \<in> set device_path_nodes \<longrightarrow> U = T)"
proof -
  have "node_ok (t, s, T)" using nodes_ok assms by (simp only: list_all_iff)
  moreover have "U = T" if "(t, s, U) \<in> set device_path_nodes" for U
  proof -
    have "inj_on (\<lambda>(t, s, T). (t, s)) (set device_path_nodes)" using nodes_distinct by (simp add: distinct_map)
    from inj_onD [OF this _ that assms] show ?thesis by simp
  qed
  ultimately show ?thesis by (auto simp: node_ok_def)
qed

theorem device_path_nodes_told_apart_witness:
  "sizeof_type EFI_DEVICE_PATH_PROTOCOL \<le> sizeof_type URI_DEVICE_PATH"
proof -
  have "(MESSAGING_DEVICE_PATH, MSG_URI_DP, URI_DEVICE_PATH) \<in> set device_path_nodes"
    by (simp add: device_path_nodes_def)
  from device_path_nodes_told_apart [OF this] show ?thesis by simp
qed

end
