(* ===== verification/System_Codes.thy ===== *)
theory System_Codes imports Protocol_Codes begin

text \<open>
  Constants of the headers that are not codes of a protocol: the powers of two of \<open>Base.h\<close>, the flags
  and enumerations of the UEFI services, debug properties and levels, characters, colours, scan
  codes and key states of the consoles, ACPI resource descriptors and flags, and flags of forms,
  network interfaces and processors. Lists as in \<open>Protocol_Codes\<close>; the value of an expression is
  written as a number.
\<close>

section \<open>Base.h\<close>

definition bit_macros :: codes where [codes]:
  "bit_macros =
     [(''0'', 1), (''1'', 2), (''2'', 4), (''3'', 8), (''4'', 0x10), (''5'', 0x20),
      (''6'', 0x40), (''7'', 0x80), (''8'', 0x100), (''9'', 0x200), (''10'', 0x400),
      (''11'', 0x800), (''12'', 0x1000), (''13'', 0x2000), (''14'', 0x4000), (''15'', 0x8000),
      (''16'', 0x10000), (''17'', 0x20000), (''18'', 0x40000), (''19'', 0x80000),
      (''20'', 0x100000), (''21'', 0x200000), (''22'', 0x400000), (''23'', 0x800000),
      (''24'', 0x1000000), (''25'', 0x2000000), (''26'', 0x4000000), (''27'', 0x8000000),
      (''28'', 0x10000000), (''29'', 0x20000000), (''30'', 0x40000000), (''31'', 0x80000000),
      (''32'', 0x100000000), (''33'', 0x200000000), (''34'', 0x400000000),
      (''35'', 0x800000000), (''36'', 0x1000000000), (''37'', 0x2000000000),
      (''38'', 0x4000000000), (''39'', 0x8000000000), (''40'', 0x10000000000),
      (''41'', 0x20000000000), (''42'', 0x40000000000), (''43'', 0x80000000000),
      (''44'', 0x100000000000), (''45'', 0x200000000000), (''46'', 0x400000000000),
      (''47'', 0x800000000000), (''48'', 0x1000000000000), (''49'', 0x2000000000000),
      (''50'', 0x4000000000000), (''51'', 0x8000000000000), (''52'', 0x10000000000000),
      (''53'', 0x20000000000000), (''54'', 0x40000000000000), (''55'', 0x80000000000000),
      (''56'', 0x100000000000000), (''57'', 0x200000000000000), (''58'', 0x400000000000000),
      (''59'', 0x800000000000000), (''60'', 0x1000000000000000), (''61'', 0x2000000000000000),
      (''62'', 0x4000000000000000), (''63'', 0x8000000000000000)]"

definition size_macros :: codes where [codes]:
  "size_macros =
     [(''1KB'', 0x400), (''2KB'', 0x800), (''4KB'', 0x1000), (''8KB'', 0x2000),
      (''16KB'', 0x4000), (''32KB'', 0x8000), (''64KB'', 0x10000), (''128KB'', 0x20000),
      (''256KB'', 0x40000), (''512KB'', 0x80000), (''1MB'', 0x100000), (''2MB'', 0x200000),
      (''4MB'', 0x400000), (''8MB'', 0x800000), (''16MB'', 0x1000000), (''32MB'', 0x2000000),
      (''64MB'', 0x4000000), (''128MB'', 0x8000000), (''256MB'', 0x10000000),
      (''512MB'', 0x20000000), (''1GB'', 0x40000000), (''2GB'', 0x80000000),
      (''4GB'', 0x100000000), (''8GB'', 0x200000000), (''16GB'', 0x400000000),
      (''32GB'', 0x800000000), (''64GB'', 0x1000000000), (''128GB'', 0x2000000000),
      (''256GB'', 0x4000000000), (''512GB'', 0x8000000000), (''1TB'', 0x10000000000),
      (''2TB'', 0x20000000000), (''4TB'', 0x40000000000), (''8TB'', 0x80000000000),
      (''16TB'', 0x100000000000), (''32TB'', 0x200000000000), (''64TB'', 0x400000000000),
      (''128TB'', 0x800000000000), (''256TB'', 0x1000000000000), (''512TB'', 0x2000000000000),
      (''1PB'', 0x4000000000000), (''2PB'', 0x8000000000000), (''4PB'', 0x10000000000000),
      (''8PB'', 0x20000000000000), (''16PB'', 0x40000000000000), (''32PB'', 0x80000000000000),
      (''64PB'', 0x100000000000000), (''128PB'', 0x200000000000000),
      (''256PB'', 0x400000000000000), (''512PB'', 0x800000000000000),
      (''1EB'', 0x1000000000000000), (''2EB'', 0x2000000000000000),
      (''4EB'', 0x4000000000000000), (''8EB'', 0x8000000000000000)]"

definition base_macros :: codes where [codes]:
  "base_macros =
     [(''1KB'', 0x400), (''2KB'', 0x800), (''4KB'', 0x1000), (''8KB'', 0x2000),
      (''16KB'', 0x4000), (''32KB'', 0x8000), (''64KB'', 0x10000), (''128KB'', 0x20000),
      (''256KB'', 0x40000), (''512KB'', 0x80000), (''1MB'', 0x100000), (''2MB'', 0x200000),
      (''4MB'', 0x400000), (''8MB'', 0x800000), (''16MB'', 0x1000000), (''32MB'', 0x2000000),
      (''64MB'', 0x4000000), (''128MB'', 0x8000000), (''256MB'', 0x10000000),
      (''512MB'', 0x20000000), (''1GB'', 0x40000000), (''2GB'', 0x80000000),
      (''4GB'', 0x100000000), (''8GB'', 0x200000000), (''16GB'', 0x400000000),
      (''32GB'', 0x800000000), (''64GB'', 0x1000000000), (''128GB'', 0x2000000000),
      (''256GB'', 0x4000000000), (''512GB'', 0x8000000000), (''1TB'', 0x10000000000),
      (''2TB'', 0x20000000000), (''4TB'', 0x40000000000), (''8TB'', 0x80000000000),
      (''16TB'', 0x100000000000), (''32TB'', 0x200000000000), (''64TB'', 0x400000000000),
      (''128TB'', 0x800000000000), (''256TB'', 0x1000000000000), (''512TB'', 0x2000000000000),
      (''1PB'', 0x4000000000000), (''2PB'', 0x8000000000000), (''4PB'', 0x10000000000000),
      (''8PB'', 0x20000000000000), (''16PB'', 0x40000000000000), (''32PB'', 0x80000000000000),
      (''64PB'', 0x100000000000000), (''128PB'', 0x200000000000000),
      (''256PB'', 0x400000000000000), (''512PB'', 0x800000000000000),
      (''1EB'', 0x1000000000000000), (''2EB'', 0x2000000000000000),
      (''4EB'', 0x4000000000000000), (''8EB'', 0x8000000000000000)]"

section \<open>UefiSpec.h\<close>

definition memory_attributes :: codes where [codes]:
  "memory_attributes =
     [(''UC'', 1), (''WC'', 2), (''WT'', 4), (''WB'', 8), (''UCE'', 0x10), (''WP'', 0x1000),
      (''RP'', 0x2000), (''XP'', 0x4000), (''RO'', 0x20000), (''NV'', 0x8000),
      (''MORE_RELIABLE'', 0x10000), (''SP'', 0x40000), (''CPU_CRYPTO'', 0x80000),
      (''RUNTIME'', 0x8000000000000000)]"

definition memory_attribute_masks :: codes where [codes]:
  "memory_attribute_masks =
     [(''CACHE_ATTRIBUTE_MASK'', 0x101F), (''MEMORY_ACCESS_MASK'', 0x26000),
      (''MEMORY_ATTRIBUTE_MASK'', 0xE6000)]"

definition event_types :: codes where [codes]:
  "event_types =
     [(''TIMER'', 0x80000000), (''RUNTIME'', 0x40000000), (''NOTIFY_WAIT'', 0x100),
      (''NOTIFY_SIGNAL'', 0x200), (''SIGNAL_EXIT_BOOT_SERVICES'', 0x201),
      (''SIGNAL_VIRTUAL_ADDRESS_CHANGE'', 0x60000202), (''RUNTIME_CONTEXT'', 0x20000000)]"

definition task_priority_levels :: codes where [codes]:
  "task_priority_levels =
     [(''APPLICATION'', 4), (''CALLBACK'', 8), (''NOTIFY'', 0x10), (''HIGH_LEVEL'', 0x1F)]"

definition open_protocol_attributes :: codes where [codes]:
  "open_protocol_attributes =
     [(''BY_HANDLE_PROTOCOL'', 1), (''GET_PROTOCOL'', 2), (''TEST_PROTOCOL'', 4),
      (''BY_CHILD_CONTROLLER'', 8), (''BY_DRIVER'', 0x10), (''EXCLUSIVE'', 0x20)]"

definition capsule_flags :: codes where [codes]:
  "capsule_flags =
     [(''PERSIST_ACROSS_RESET'', 0x10000), (''POPULATE_SYSTEM_TABLE'', 0x20000),
      (''INITIATE_RESET'', 0x40000)]"

definition os_indications :: codes where [codes]:
  "os_indications =
     [(''BOOT_TO_FW_UI'', 1), (''TIMESTAMP_REVOCATION'', 2),
      (''FILE_CAPSULE_DELIVERY_SUPPORTED'', 4), (''FMP_CAPSULE_SUPPORTED'', 8),
      (''CAPSULE_RESULT_VAR_SUPPORTED'', 0x10), (''START_PLATFORM_RECOVERY'', 0x40),
      (''JSON_CONFIG_DATA_REFRESH'', 0x80)]"

definition system_table_revisions :: codes where [codes]:
  "system_table_revisions =
     [(''2_80_SYSTEM_TABLE_REVISION'', 0x20050), (''2_70_SYSTEM_TABLE_REVISION'', 0x20046),
      (''2_60_SYSTEM_TABLE_REVISION'', 0x2003C), (''2_50_SYSTEM_TABLE_REVISION'', 0x20032),
      (''2_40_SYSTEM_TABLE_REVISION'', 0x20028), (''2_31_SYSTEM_TABLE_REVISION'', 0x2001F),
      (''2_30_SYSTEM_TABLE_REVISION'', 0x2001E), (''2_20_SYSTEM_TABLE_REVISION'', 0x20014),
      (''2_10_SYSTEM_TABLE_REVISION'', 0x2000A), (''2_00_SYSTEM_TABLE_REVISION'', 0x20000),
      (''1_10_SYSTEM_TABLE_REVISION'', 0x1000A), (''1_02_SYSTEM_TABLE_REVISION'', 0x10002),
      (''SYSTEM_TABLE_REVISION'', 0x20046)]"

definition load_options :: codes where [codes]:
  "load_options =
     [(''ACTIVE'', 1), (''FORCE_RECONNECT'', 2), (''HIDDEN'', 8), (''CATEGORY'', 0x1F00),
      (''CATEGORY_BOOT'', 0), (''CATEGORY_APP'', 0x100)]"

definition boot_option_support :: codes where [codes]:
  "boot_option_support =
     [(''KEY'', 1), (''APP'', 2), (''SYSPREP'', 0x10), (''COUNT'', 0x300)]"

definition time_flags :: codes where [codes]:
  "time_flags =
     [(''ADJUST_DAYLIGHT'', 1), (''IN_DAYLIGHT'', 2)]"

definition allocate_types :: codes where [codes]:
  "allocate_types =
     [(''AllocateAnyPages'', 0), (''AllocateMaxAddress'', 1), (''AllocateAddress'', 2),
      (''MaxAllocateType'', 3)]"

definition timer_delays :: codes where [codes]:
  "timer_delays =
     [(''TimerCancel'', 0), (''TimerPeriodic'', 1), (''TimerRelative'', 2)]"

definition interface_types :: codes where [codes]:
  "interface_types =
     [(''EFI_NATIVE_INTERFACE'', 0)]"

definition locate_search_types :: codes where [codes]:
  "locate_search_types =
     [(''AllHandles'', 0), (''ByRegisterNotify'', 1), (''ByProtocol'', 2)]"

section \<open>UefiMultiPhase.h\<close>

definition variable_attributes :: codes where [codes]:
  "variable_attributes =
     [(''NON_VOLATILE'', 1), (''BOOTSERVICE_ACCESS'', 2), (''RUNTIME_ACCESS'', 4),
      (''HARDWARE_ERROR_RECORD'', 8), (''TIME_BASED_AUTHENTICATED_WRITE_ACCESS'', 0x20),
      (''APPEND_WRITE'', 0x40), (''AUTHENTICATED_WRITE_ACCESS'', 0x10)]"

definition memory_types :: codes where [codes]:
  "memory_types =
     [(''EfiReservedMemoryType'', 0), (''EfiLoaderCode'', 1), (''EfiLoaderData'', 2),
      (''EfiBootServicesCode'', 3), (''EfiBootServicesData'', 4),
      (''EfiRuntimeServicesCode'', 5), (''EfiRuntimeServicesData'', 6),
      (''EfiConventionalMemory'', 7), (''EfiUnusableMemory'', 8), (''EfiACPIReclaimMemory'', 9),
      (''EfiACPIMemoryNVS'', 0xA), (''EfiMemoryMappedIO'', 0xB),
      (''EfiMemoryMappedIOPortSpace'', 0xC), (''EfiPalCode'', 0xD),
      (''EfiPersistentMemory'', 0xE), (''EfiMaxMemoryType'', 0xF)]"

definition reset_types :: codes where [codes]:
  "reset_types =
     [(''EfiResetCold'', 0), (''EfiResetWarm'', 1), (''EfiResetShutdown'', 2),
      (''EfiResetPlatformSpecific'', 3)]"

section \<open>UefiBaseType.h\<close>

definition image_machines :: codes where [codes]:
  "image_machines =
     [(''IA32'', 0x14C), (''IA64'', 0x200), (''EBC'', 0xEBC), (''X64'', 0x8664),
      (''ARMTHUMB_MIXED'', 0x1C2), (''AARCH64'', 0xAA64), (''RISCV32'', 0x5032),
      (''RISCV64'', 0x5064), (''RISCV128'', 0x5128)]"

section \<open>DebugLib.h\<close>

definition debug_properties :: codes where [codes]:
  "debug_properties =
     [(''DEBUG_ASSERT_ENABLED'', 1), (''DEBUG_PRINT_ENABLED'', 2), (''DEBUG_CODE_ENABLED'', 4),
      (''CLEAR_MEMORY_ENABLED'', 8), (''ASSERT_BREAKPOINT_ENABLED'', 0x10),
      (''ASSERT_DEADLOOP_ENABLED'', 0x20)]"

definition debug_levels :: codes where [codes]:
  "debug_levels =
     [(''INIT'', 1), (''WARN'', 2), (''LOAD'', 4), (''FS'', 8), (''POOL'', 0x10),
      (''PAGE'', 0x20), (''INFO'', 0x40), (''DISPATCH'', 0x80), (''VARIABLE'', 0x100),
      (''BM'', 0x400), (''BLKIO'', 0x1000), (''NET'', 0x4000), (''UNDI'', 0x10000),
      (''LOADFILE'', 0x20000), (''EVENT'', 0x80000), (''GCD'', 0x100000), (''CACHE'', 0x200000),
      (''VERBOSE'', 0x400000), (''ERROR'', 0x80000000)]"

definition debug_level_names :: codes where [codes]:
  "debug_level_names =
     [(''INIT'', 1), (''WARN'', 2), (''LOAD'', 4), (''FS'', 8), (''POOL'', 0x10),
      (''PAGE'', 0x20), (''INFO'', 0x40), (''DISPATCH'', 0x80), (''VARIABLE'', 0x100),
      (''BM'', 0x400), (''BLKIO'', 0x1000), (''NET'', 0x4000), (''UNDI'', 0x10000),
      (''LOADFILE'', 0x20000), (''EVENT'', 0x80000), (''VERBOSE'', 0x400000),
      (''ERROR'', 0x80000000)]"

section \<open>SimpleTextOut.h\<close>

definition box_drawing :: codes where [codes]:
  "box_drawing =
     [(''HORIZONTAL'', 0x2500), (''VERTICAL'', 0x2502), (''DOWN_RIGHT'', 0x250C),
      (''DOWN_LEFT'', 0x2510), (''UP_RIGHT'', 0x2514), (''UP_LEFT'', 0x2518),
      (''VERTICAL_RIGHT'', 0x251C), (''VERTICAL_LEFT'', 0x2524), (''DOWN_HORIZONTAL'', 0x252C),
      (''UP_HORIZONTAL'', 0x2534), (''VERTICAL_HORIZONTAL'', 0x253C),
      (''DOUBLE_HORIZONTAL'', 0x2550), (''DOUBLE_VERTICAL'', 0x2551),
      (''DOWN_RIGHT_DOUBLE'', 0x2552), (''DOWN_DOUBLE_RIGHT'', 0x2553),
      (''DOUBLE_DOWN_RIGHT'', 0x2554), (''DOWN_LEFT_DOUBLE'', 0x2555),
      (''DOWN_DOUBLE_LEFT'', 0x2556), (''DOUBLE_DOWN_LEFT'', 0x2557),
      (''UP_RIGHT_DOUBLE'', 0x2558), (''UP_DOUBLE_RIGHT'', 0x2559),
      (''DOUBLE_UP_RIGHT'', 0x255A), (''UP_LEFT_DOUBLE'', 0x255B), (''UP_DOUBLE_LEFT'', 0x255C),
      (''DOUBLE_UP_LEFT'', 0x255D), (''VERTICAL_RIGHT_DOUBLE'', 0x255E),
      (''VERTICAL_DOUBLE_RIGHT'', 0x255F), (''DOUBLE_VERTICAL_RIGHT'', 0x2560),
      (''VERTICAL_LEFT_DOUBLE'', 0x2561), (''VERTICAL_DOUBLE_LEFT'', 0x2562),
      (''DOUBLE_VERTICAL_LEFT'', 0x2563), (''DOWN_HORIZONTAL_DOUBLE'', 0x2564),
      (''DOWN_DOUBLE_HORIZONTAL'', 0x2565), (''DOUBLE_DOWN_HORIZONTAL'', 0x2566),
      (''UP_HORIZONTAL_DOUBLE'', 0x2567), (''UP_DOUBLE_HORIZONTAL'', 0x2568),
      (''DOUBLE_UP_HORIZONTAL'', 0x2569), (''VERTICAL_HORIZONTAL_DOUBLE'', 0x256A),
      (''VERTICAL_DOUBLE_HORIZONTAL'', 0x256B), (''DOUBLE_VERTICAL_HORIZONTAL'', 0x256C)]"

definition block_elements :: codes where [codes]:
  "block_elements =
     [(''FULL_BLOCK'', 0x2588), (''LIGHT_SHADE'', 0x2591)]"

definition geometric_shapes :: codes where [codes]:
  "geometric_shapes =
     [(''UP_TRIANGLE'', 0x25B2), (''RIGHT_TRIANGLE'', 0x25BA), (''DOWN_TRIANGLE'', 0x25BC),
      (''LEFT_TRIANGLE'', 0x25C4)]"

definition arrows :: codes where [codes]:
  "arrows =
     [(''LEFT'', 0x2190), (''UP'', 0x2191), (''RIGHT'', 0x2192), (''DOWN'', 0x2193)]"

definition text_colors :: codes where [codes]:
  "text_colors =
     [(''BLACK'', 0), (''BLUE'', 1), (''GREEN'', 2), (''CYAN'', 3), (''RED'', 4),
      (''MAGENTA'', 5), (''BROWN'', 6), (''LIGHTGRAY'', 7), (''BRIGHT'', 8), (''DARKGRAY'', 8),
      (''LIGHTBLUE'', 9), (''LIGHTGREEN'', 0xA), (''LIGHTCYAN'', 0xB), (''LIGHTRED'', 0xC),
      (''LIGHTMAGENTA'', 0xD), (''YELLOW'', 0xE), (''WHITE'', 0xF)]"

definition background_colors :: codes where [codes]:
  "background_colors =
     [(''BLACK'', 0), (''BLUE'', 0x10), (''GREEN'', 0x20), (''CYAN'', 0x30), (''RED'', 0x40),
      (''MAGENTA'', 0x50), (''BROWN'', 0x60), (''LIGHTGRAY'', 0x70)]"

section \<open>SimpleTextIn.h\<close>

definition control_characters :: codes where [codes]:
  "control_characters =
     [(''BACKSPACE'', 8), (''TAB'', 9), (''LINEFEED'', 0xA), (''CARRIAGE_RETURN'', 0xD)]"

definition scan_codes :: codes where [codes]:
  "scan_codes =
     [(''NULL'', 0), (''UP'', 1), (''DOWN'', 2), (''RIGHT'', 3), (''LEFT'', 4), (''HOME'', 5),
      (''END'', 6), (''INSERT'', 7), (''DELETE'', 8), (''PAGE_UP'', 9), (''PAGE_DOWN'', 0xA),
      (''F1'', 0xB), (''F2'', 0xC), (''F3'', 0xD), (''F4'', 0xE), (''F5'', 0xF), (''F6'', 0x10),
      (''F7'', 0x11), (''F8'', 0x12), (''F9'', 0x13), (''F10'', 0x14), (''ESC'', 0x17)]"

section \<open>SimpleTextInEx.h\<close>

definition shift_states :: codes where [codes]:
  "shift_states =
     [(''SHIFT_STATE_VALID'', 0x80000000), (''RIGHT_SHIFT_PRESSED'', 1),
      (''LEFT_SHIFT_PRESSED'', 2), (''RIGHT_CONTROL_PRESSED'', 4),
      (''LEFT_CONTROL_PRESSED'', 8), (''RIGHT_ALT_PRESSED'', 0x10),
      (''LEFT_ALT_PRESSED'', 0x20), (''RIGHT_LOGO_PRESSED'', 0x40),
      (''LEFT_LOGO_PRESSED'', 0x80), (''MENU_KEY_PRESSED'', 0x100),
      (''SYS_REQ_PRESSED'', 0x200)]"

definition toggle_states :: codes where [codes]:
  "toggle_states =
     [(''TOGGLE_STATE_VALID'', 0x80), (''KEY_STATE_EXPOSED'', 0x40),
      (''SCROLL_LOCK_ACTIVE'', 1), (''NUM_LOCK_ACTIVE'', 2), (''CAPS_LOCK_ACTIVE'', 4)]"

definition scan_codes_ex :: codes where [codes]:
  "scan_codes_ex =
     [(''F11'', 0x15), (''F12'', 0x16), (''PAUSE'', 0x48), (''F13'', 0x68), (''F14'', 0x69),
      (''F15'', 0x6A), (''F16'', 0x6B), (''F17'', 0x6C), (''F18'', 0x6D), (''F19'', 0x6E),
      (''F20'', 0x6F), (''F21'', 0x70), (''F22'', 0x71), (''F23'', 0x72), (''F24'', 0x73),
      (''MUTE'', 0x7F), (''VOLUME_UP'', 0x80), (''VOLUME_DOWN'', 0x81),
      (''BRIGHTNESS_UP'', 0x100), (''BRIGHTNESS_DOWN'', 0x101), (''SUSPEND'', 0x102),
      (''HIBERNATE'', 0x103), (''TOGGLE_DISPLAY'', 0x104), (''RECOVERY'', 0x105),
      (''EJECT'', 0x106)]"

section \<open>Acpi10.h\<close>

definition acpi_item_flags :: codes where [codes]:
  "acpi_item_flags =
     [(''SMALL'', 0), (''LARGE'', 1)]"

definition acpi_small_names :: codes where [codes]:
  "acpi_small_names =
     [(''IRQ'', 4), (''DMA'', 5), (''START_DEPENDENT'', 6), (''END_DEPENDENT'', 7),
      (''IO_PORT'', 8), (''FIXED_IO_PORT'', 9), (''VENDOR_DEFINED'', 0xE), (''END_TAG'', 0xF)]"

definition acpi_large_names :: codes where [codes]:
  "acpi_large_names =
     [(''24_BIT_MEMORY_RANGE'', 1), (''VENDOR_DEFINED'', 4), (''32_BIT_MEMORY_RANGE'', 5),
      (''32_BIT_FIXED_MEMORY_RANGE'', 6), (''DWORD_ADDRESS_SPACE'', 7),
      (''WORD_ADDRESS_SPACE'', 8), (''EXTENDED_IRQ'', 9), (''QWORD_ADDRESS_SPACE'', 0xA)]"

definition acpi_small_descriptors :: codes where [codes]:
  "acpi_small_descriptors =
     [(''IRQ_NOFLAG'', 0x22), (''IRQ'', 0x23), (''DMA'', 0x2A), (''START_DEPENDENT'', 0x30),
      (''START_DEPENDENT_EX'', 0x31), (''END_DEPENDENT'', 0x38), (''IO_PORT'', 0x47),
      (''FIXED_LOCATION_IO_PORT'', 0x4B), (''END_TAG'', 0x79)]"

definition acpi_large_descriptors :: codes where [codes]:
  "acpi_large_descriptors =
     [(''24_BIT_MEMORY_RANGE'', 0x81), (''32_BIT_MEMORY_RANGE'', 0x85),
      (''32_BIT_FIXED_MEMORY_RANGE'', 0x86), (''DWORD_ADDRESS_SPACE'', 0x87),
      (''WORD_ADDRESS_SPACE'', 0x88), (''EXTENDED_INTERRUPT'', 0x89),
      (''QWORD_ADDRESS_SPACE'', 0x8A), (''ADDRESS_SPACE'', 0x8A)]"

definition acpi_memory_flags :: codes where [codes]:
  "acpi_memory_flags =
     [(''ACPI_MEMORY_RESOURCE_SPECIFIC_FLAG_READ_WRITE'', 1),
      (''ACPI_MEMORY_RESOURCE_SPECIFIC_FLAG_READ_ONLY'', 0),
      (''ACPI_MEMORY_RESOURCE_SPECIFIC_FLAG_NON_CACHEABLE'', 0),
      (''ACPI_MEMORY_RESOURCE_SPECIFIC_FLAG_CACHEABLE'', 2),
      (''ACPI_MEMORY_RESOURCE_SPECIFIC_FLAG_CACHEABLE_WRITE_COMBINING'', 4),
      (''ACPI_MEMORY_RESOURCE_SPECIFIC_FLAG_CACHEABLE_PREFETCHABLE'', 6),
      (''ACPI_MEMORY_RESOURCE_SPECIFIC_FLAG_ADDRESS_RANGE_MEMORY'', 0),
      (''ACPI_MEMORY_RESOURCE_SPECIFIC_FLAG_ADDRESS_RANGE_RESERVED'', 8),
      (''ACPI_MEMORY_RESOURCE_SPECIFIC_FLAG_ADDRESS_RANGE_ACPI'', 0x10),
      (''APCI_MEMORY_RESOURCE_SPECIFIC_FLAG_ADDRESS_RANGE_NVS'', 0x18),
      (''ACPI_MEMORY_RESOURCE_SPECIFIC_FLAG_TYPE_TRANSLATION'', 0x20),
      (''ACPI_MEMORY_RESOURCE_SPECIFIC_FLAG_TYPE_STATIC'', 0)]"

definition acpi_resource_flags :: codes where [codes]:
  "acpi_resource_flags =
     [(''IRQ_SHARABLE_MASK'', 0x10), (''IRQ_SHARABLE'', 0x10), (''IRQ_POLARITY_MASK'', 8),
      (''IRQ_HIGH_TRUE'', 0), (''IRQ_LOW_FALSE'', 8), (''IRQ_MODE'', 1),
      (''IRQ_LEVEL_TRIGGERED'', 0), (''IRQ_EDGE_TRIGGERED'', 1),
      (''DMA_SPEED_TYPE_MASK'', 0x60), (''DMA_SPEED_TYPE_COMPATIBILITY'', 0),
      (''DMA_SPEED_TYPE_A'', 0x20), (''DMA_SPEED_TYPE_B'', 0x40), (''DMA_SPEED_TYPE_F'', 0x60),
      (''DMA_BUS_MASTER_MASK'', 4), (''DMA_BUS_MASTER'', 4), (''DMA_TRANSFER_TYPE_MASK'', 3),
      (''DMA_TRANSFER_TYPE_8_BIT'', 0), (''DMA_TRANSFER_TYPE_8_BIT_AND_16_BIT'', 1),
      (''DMA_TRANSFER_TYPE_16_BIT'', 2), (''IO_DECODE_MASK'', 1), (''IO_DECODE_16_BIT'', 1),
      (''IO_DECODE_10_BIT'', 0), (''MEMORY_WRITE_STATUS_MASK'', 1), (''MEMORY_WRITABLE'', 1),
      (''MEMORY_NON_WRITABLE'', 0)]"

definition acpi_interrupt_masks :: codes where [codes]:
  "acpi_interrupt_masks =
     [(''PRODUCER_CONSUMER'', 1), (''MODE'', 2), (''POLARITY'', 4), (''SHARABLE'', 8),
      (''WAKE_CAPABLITY'', 0x10)]"

section \<open>Acpi20.h\<close>

definition acpi_names_2_0 :: codes where [codes]:
  "acpi_names_2_0 =
     [(''GENERIC_REGISTER'', 2)]"

definition acpi_descriptors_2_0 :: codes where [codes]:
  "acpi_descriptors_2_0 =
     [(''GENERIC_REGISTER'', 0x82)]"

section \<open>Acpi30.h\<close>

definition acpi_names_3_0 :: codes where [codes]:
  "acpi_names_3_0 =
     [(''EXTENDED_ADDRESS_SPACE'', 0xB)]"

definition acpi_descriptors_3_0 :: codes where [codes]:
  "acpi_descriptors_3_0 =
     [(''EXTENDED_ADDRESS_SPACE'', 0x8B)]"

definition acpi_memory_type_attributes :: codes where [codes]:
  "acpi_memory_type_attributes =
     [(''UC'', 1), (''WC'', 2), (''WT'', 4), (''WB'', 8), (''UCE'', 0x10), (''NV'', 0x8000)]"

section \<open>Acpi50.h\<close>

definition acpi_names_5_0 :: codes where [codes]:
  "acpi_names_5_0 =
     [(''SMALL_FIXED_DMA'', 0xA), (''LARGE_GPIO_CONNECTION'', 0xC),
      (''LARGE_GENERIC_SERIAL_BUS_CONNECTION'', 0xE)]"

definition acpi_descriptors_5_0 :: codes where [codes]:
  "acpi_descriptors_5_0 =
     [(''FIXED_DMA'', 0x55), (''GPIO_CONNECTION'', 0x8C),
      (''GENERIC_SERIAL_BUS_CONNECTION'', 0x8E)]"

definition gpio_connection_types :: codes where [codes]:
  "gpio_connection_types =
     [(''INTERRUPT'', 0), (''IO'', 1)]"

definition serial_bus_types :: codes where [codes]:
  "serial_bus_types =
     [(''I2C'', 1), (''SPI'', 2), (''UART'', 3)]"

section \<open>UefiInternalFormRepresentation.h\<close>

definition glyph_attributes :: codes where [codes]:
  "glyph_attributes =
     [(''NON_SPACING'', 1), (''WIDE'', 2)]"

definition keyboard_keys :: codes where [codes]:
  "keyboard_keys =
     [(''EfiKeyLCtrl'', 0), (''EfiKeyA0'', 1), (''EfiKeyLAlt'', 2), (''EfiKeySpaceBar'', 3),
      (''EfiKeyA2'', 4), (''EfiKeyA3'', 5), (''EfiKeyA4'', 6), (''EfiKeyRCtrl'', 7),
      (''EfiKeyLeftArrow'', 8), (''EfiKeyDownArrow'', 9), (''EfiKeyRightArrow'', 0xA),
      (''EfiKeyZero'', 0xB), (''EfiKeyPeriod'', 0xC), (''EfiKeyEnter'', 0xD),
      (''EfiKeyLShift'', 0xE), (''EfiKeyB0'', 0xF), (''EfiKeyB1'', 0x10), (''EfiKeyB2'', 0x11),
      (''EfiKeyB3'', 0x12), (''EfiKeyB4'', 0x13), (''EfiKeyB5'', 0x14), (''EfiKeyB6'', 0x15),
      (''EfiKeyB7'', 0x16), (''EfiKeyB8'', 0x17), (''EfiKeyB9'', 0x18), (''EfiKeyB10'', 0x19),
      (''EfiKeyRShift'', 0x1A), (''EfiKeyUpArrow'', 0x1B), (''EfiKeyOne'', 0x1C),
      (''EfiKeyTwo'', 0x1D), (''EfiKeyThree'', 0x1E), (''EfiKeyCapsLock'', 0x1F),
      (''EfiKeyC1'', 0x20), (''EfiKeyC2'', 0x21), (''EfiKeyC3'', 0x22), (''EfiKeyC4'', 0x23),
      (''EfiKeyC5'', 0x24), (''EfiKeyC6'', 0x25), (''EfiKeyC7'', 0x26), (''EfiKeyC8'', 0x27),
      (''EfiKeyC9'', 0x28), (''EfiKeyC10'', 0x29), (''EfiKeyC11'', 0x2A), (''EfiKeyC12'', 0x2B),
      (''EfiKeyFour'', 0x2C), (''EfiKeyFive'', 0x2D), (''EfiKeySix'', 0x2E),
      (''EfiKeyPlus'', 0x2F), (''EfiKeyTab'', 0x30), (''EfiKeyD1'', 0x31), (''EfiKeyD2'', 0x32),
      (''EfiKeyD3'', 0x33), (''EfiKeyD4'', 0x34), (''EfiKeyD5'', 0x35), (''EfiKeyD6'', 0x36),
      (''EfiKeyD7'', 0x37), (''EfiKeyD8'', 0x38), (''EfiKeyD9'', 0x39), (''EfiKeyD10'', 0x3A),
      (''EfiKeyD11'', 0x3B), (''EfiKeyD12'', 0x3C), (''EfiKeyD13'', 0x3D),
      (''EfiKeyDel'', 0x3E), (''EfiKeyEnd'', 0x3F), (''EfiKeyPgDn'', 0x40),
      (''EfiKeySeven'', 0x41), (''EfiKeyEight'', 0x42), (''EfiKeyNine'', 0x43),
      (''EfiKeyE0'', 0x44), (''EfiKeyE1'', 0x45), (''EfiKeyE2'', 0x46), (''EfiKeyE3'', 0x47),
      (''EfiKeyE4'', 0x48), (''EfiKeyE5'', 0x49), (''EfiKeyE6'', 0x4A), (''EfiKeyE7'', 0x4B),
      (''EfiKeyE8'', 0x4C), (''EfiKeyE9'', 0x4D), (''EfiKeyE10'', 0x4E), (''EfiKeyE11'', 0x4F),
      (''EfiKeyE12'', 0x50), (''EfiKeyBackSpace'', 0x51), (''EfiKeyIns'', 0x52),
      (''EfiKeyHome'', 0x53), (''EfiKeyPgUp'', 0x54), (''EfiKeyNLck'', 0x55),
      (''EfiKeySlash'', 0x56), (''EfiKeyAsterisk'', 0x57), (''EfiKeyMinus'', 0x58),
      (''EfiKeyEsc'', 0x59), (''EfiKeyF1'', 0x5A), (''EfiKeyF2'', 0x5B), (''EfiKeyF3'', 0x5C),
      (''EfiKeyF4'', 0x5D), (''EfiKeyF5'', 0x5E), (''EfiKeyF6'', 0x5F), (''EfiKeyF7'', 0x60),
      (''EfiKeyF8'', 0x61), (''EfiKeyF9'', 0x62), (''EfiKeyF10'', 0x63), (''EfiKeyF11'', 0x64),
      (''EfiKeyF12'', 0x65), (''EfiKeyPrint'', 0x66), (''EfiKeySLck'', 0x67),
      (''EfiKeyPause'', 0x68)]"

definition ifr_date_flags :: codes where [codes]:
  "ifr_date_flags =
     [(''EFI_QF_DATE_YEAR_SUPPRESS'', 1), (''EFI_QF_DATE_MONTH_SUPPRESS'', 2),
      (''EFI_QF_DATE_DAY_SUPPRESS'', 4), (''EFI_QF_DATE_STORAGE'', 0x30),
      (''QF_DATE_STORAGE_NORMAL'', 0), (''QF_DATE_STORAGE_TIME'', 0x10),
      (''QF_DATE_STORAGE_WAKEUP'', 0x20)]"

definition ifr_numeric_flags :: codes where [codes]:
  "ifr_numeric_flags =
     [(''NUMERIC_SIZE'', 3), (''NUMERIC_SIZE_1'', 0), (''NUMERIC_SIZE_2'', 1),
      (''NUMERIC_SIZE_4'', 2), (''NUMERIC_SIZE_8'', 3), (''DISPLAY'', 0x30),
      (''DISPLAY_INT_DEC'', 0), (''DISPLAY_UINT_DEC'', 0x10), (''DISPLAY_UINT_HEX'', 0x20)]"

definition ifr_time_flags :: codes where [codes]:
  "ifr_time_flags =
     [(''HOUR_SUPPRESS'', 1), (''MINUTE_SUPPRESS'', 2), (''SECOND_SUPPRESS'', 4),
      (''STORAGE'', 0x30), (''STORAGE_NORMAL'', 0), (''STORAGE_TIME'', 0x10),
      (''STORAGE_WAKEUP'', 0x20)]"

definition ifr_option_flags :: codes where [codes]:
  "ifr_option_flags =
     [(''DEFAULT'', 0x10), (''DEFAULT_MFG'', 0x20)]"

definition ifr_checkbox_flags :: codes where [codes]:
  "ifr_checkbox_flags =
     [(''DEFAULT'', 1), (''DEFAULT_MFG'', 2)]"

definition ifr_ordered_list_flags :: codes where [codes]:
  "ifr_ordered_list_flags =
     [(''UNIQUE_SET'', 1), (''NO_EMPTY_SET'', 2)]"

definition ifr_to_string_formats :: codes where [codes]:
  "ifr_to_string_formats =
     [(''UNSIGNED_DEC'', 0), (''SIGNED_DEC'', 1), (''LOWERCASE_HEX'', 2),
      (''UPPERCASE_HEX'', 3)]"

definition key_affected_by :: codes where [codes]:
  "key_affected_by =
     [(''STANDARD_SHIFT'', 1), (''CAPS_LOCK'', 2), (''NUM_LOCK'', 4)]"

section \<open>UefiPxe.h\<close>

definition undi_interface_types :: codes where [codes]:
  "undi_interface_types =
     [(''ETHERNET'', 1), (''TOKENRING'', 4), (''FIBRE_CHANNEL'', 0x12)]"

definition undi_duplex :: codes where [codes]:
  "undi_duplex =
     [(''DUPLEX_DEFAULT'', 0), (''FORCE_FULL_DUPLEX'', 1), (''ENABLE_FULL_DUPLEX'', 2),
      (''FORCE_HALF_DUPLEX'', 4), (''DISABLE_FULL_DUPLEX'', 8)]"

definition undi_io_operations :: codes where [codes]:
  "undi_io_operations =
     [(''IO_READ'', 0), (''IO_WRITE'', 1), (''MEM_READ'', 2), (''MEM_WRITE'', 4)]"

section \<open>DevicePath.h\<close>

definition adr_display_types :: codes where [codes]:
  "adr_display_types =
     [(''OTHER'', 0), (''VGA'', 1), (''TV'', 2), (''EXTERNAL_DIGITAL'', 3),
      (''INTERNAL_DIGITAL'', 4)]"

definition iscsi_login_options :: codes where [codes]:
  "iscsi_login_options =
     [(''NO_HEADER_DIGEST'', 0), (''HEADER_DIGEST_USING_CRC32C'', 2), (''NO_DATA_DIGEST'', 0),
      (''DATA_DIGEST_USING_CRC32C'', 8), (''AUTHMETHOD_CHAP'', 0), (''AUTHMETHOD_NON'', 0x1000),
      (''CHAP_BI'', 0), (''CHAP_UNI'', 0x2000)]"

definition disk_signature_types :: codes where [codes]:
  "disk_signature_types =
     [(''NO_DISK_SIGNATURE'', 0), (''SIGNATURE_TYPE_MBR'', 1), (''SIGNATURE_TYPE_GUID'', 2)]"

section \<open>BaseLib.h\<close>

definition pvalidate_page_sizes :: codes where [codes]:
  "pvalidate_page_sizes =
     [(''PvalidatePageSize4K'', 0), (''PvalidatePageSize2MB'', 1)]"

definition pvalidate_results :: codes where [codes]:
  "pvalidate_results =
     [(''SUCCESS'', 0), (''FAIL_INPUT'', 1), (''SIZE_MISMATCH'', 6), (''NO_RMPUPDATE'', 0xFF)]"

definition gate_types :: codes where [codes]:
  "gate_types =
     [(''TASK'', 0x85), (''INTERRUPT_16'', 0x86), (''TRAP_16'', 0x87), (''INTERRUPT_32'', 0x8E),
      (''TRAP_32'', 0x8F)]"

definition thunk_attributes :: codes where [codes]:
  "thunk_attributes =
     [(''BIG_REAL_MODE'', 1), (''DISABLE_A20_MASK_INT_15'', 2),
      (''DISABLE_A20_MASK_KBD_CTRL'', 4)]"

section \<open>WinCertificate.h\<close>

definition win_cert_types :: codes where [codes]:
  "win_cert_types =
     [(''PKCS_SIGNED_DATA'', 2), (''EFI_PKCS115'', 0xEF0), (''EFI_GUID'', 0xEF1)]"

end
