(* ===== verification/Resource_Descriptors.thy ===== *)
theory Resource_Descriptors imports System_Codes Bit_Members Acpi_1_3 Acpi_5_0 begin

text \<open>
  ACPI resource descriptors (\<open>Acpi10.h\<close>, \<open>Acpi20.h\<close>, \<open>Acpi30.h\<close>, \<open>Acpi50.h\<close>): the first byte of a descriptor is given
  once as a number and once as the bit-fields of the resource headers, whose names are constants of
  their own; the descriptors themselves are records.
\<close>

section \<open>Descriptors\<close>

text \<open>The structures of bit-fields in the two resource headers.\<close>

definition small_bits :: ctype where
  "small_bits = Struct Packed [('''', Bits 1 [(''Length'', 3), (''Name'', 4), (''Type'', 1)])]"

definition large_bits :: ctype where
  "large_bits = Struct Packed [('''', Bits 1 [(''Name'', 7), (''Type'', 1)])]"

text \<open>
  Each descriptor with a record: whether it is a large item, its byte, the constant of its name, and
  the record. The start and the end of dependent functions are a small header alone, and the common
  definition of the address spaces has the byte of the one of 64 bits.
\<close>

definition resources :: "(bool \<times> (codes \<times> string) \<times> (codes \<times> string) \<times> ctype) list" where
  "resources =
     [(False, (acpi_small_descriptors, ''IRQ_NOFLAG''), (acpi_small_names, ''IRQ''), EFI_ACPI_IRQ_NOFLAG_DESCRIPTOR),
      (False, (acpi_small_descriptors, ''IRQ''), (acpi_small_names, ''IRQ''), EFI_ACPI_IRQ_DESCRIPTOR),
      (False, (acpi_small_descriptors, ''DMA''), (acpi_small_names, ''DMA''), EFI_ACPI_DMA_DESCRIPTOR),
      (False, (acpi_small_descriptors, ''START_DEPENDENT''), (acpi_small_names, ''START_DEPENDENT''), ACPI_SMALL_RESOURCE_HEADER),
      (False, (acpi_small_descriptors, ''END_DEPENDENT''), (acpi_small_names, ''END_DEPENDENT''), ACPI_SMALL_RESOURCE_HEADER),
      (False, (acpi_small_descriptors, ''IO_PORT''), (acpi_small_names, ''IO_PORT''), EFI_ACPI_IO_PORT_DESCRIPTOR),
      (False, (acpi_small_descriptors, ''FIXED_LOCATION_IO_PORT''), (acpi_small_names, ''FIXED_IO_PORT''),
         EFI_ACPI_FIXED_LOCATION_IO_PORT_DESCRIPTOR),
      (False, (acpi_small_descriptors, ''END_TAG''), (acpi_small_names, ''END_TAG''), EFI_ACPI_END_TAG_DESCRIPTOR),
      (True, (acpi_large_descriptors, ''24_BIT_MEMORY_RANGE''), (acpi_large_names, ''24_BIT_MEMORY_RANGE''),
         EFI_ACPI_24_BIT_MEMORY_RANGE_DESCRIPTOR),
      (True, (acpi_large_descriptors, ''32_BIT_MEMORY_RANGE''), (acpi_large_names, ''32_BIT_MEMORY_RANGE''),
         EFI_ACPI_32_BIT_MEMORY_RANGE_DESCRIPTOR),
      (True, (acpi_large_descriptors, ''32_BIT_FIXED_MEMORY_RANGE''), (acpi_large_names, ''32_BIT_FIXED_MEMORY_RANGE''),
         EFI_ACPI_32_BIT_FIXED_MEMORY_RANGE_DESCRIPTOR),
      (True, (acpi_large_descriptors, ''DWORD_ADDRESS_SPACE''), (acpi_large_names, ''DWORD_ADDRESS_SPACE''),
         EFI_ACPI_DWORD_ADDRESS_SPACE_DESCRIPTOR),
      (True, (acpi_large_descriptors, ''WORD_ADDRESS_SPACE''), (acpi_large_names, ''WORD_ADDRESS_SPACE''),
         EFI_ACPI_WORD_ADDRESS_SPACE_DESCRIPTOR),
      (True, (acpi_large_descriptors, ''EXTENDED_INTERRUPT''), (acpi_large_names, ''EXTENDED_IRQ''),
         EFI_ACPI_EXTENDED_INTERRUPT_DESCRIPTOR),
      (True, (acpi_large_descriptors, ''QWORD_ADDRESS_SPACE''), (acpi_large_names, ''QWORD_ADDRESS_SPACE''),
         EFI_ACPI_QWORD_ADDRESS_SPACE_DESCRIPTOR),
      (True, (acpi_large_descriptors, ''ADDRESS_SPACE''), (acpi_large_names, ''QWORD_ADDRESS_SPACE''),
         EFI_ACPI_ADDRESS_SPACE_DESCRIPTOR),
      (True, (acpi_descriptors_2_0, ''GENERIC_REGISTER''), (acpi_names_2_0, ''GENERIC_REGISTER''),
         EFI_ACPI_GENERIC_REGISTER_DESCRIPTOR),
      (True, (acpi_descriptors_3_0, ''EXTENDED_ADDRESS_SPACE''), (acpi_names_3_0, ''EXTENDED_ADDRESS_SPACE''),
         EFI_ACPI_EXTENDED_ADDRESS_SPACE_DESCRIPTOR),
      (False, (acpi_descriptors_5_0, ''FIXED_DMA''), (acpi_names_5_0, ''SMALL_FIXED_DMA''), EFI_ACPI_FIXED_DMA_DESCRIPTOR),
      (True, (acpi_descriptors_5_0, ''GPIO_CONNECTION''), (acpi_names_5_0, ''LARGE_GPIO_CONNECTION''),
         EFI_ACPI_GPIO_CONNECTION_DESCRIPTOR),
      (True, (acpi_descriptors_5_0, ''GENERIC_SERIAL_BUS_CONNECTION''), (acpi_names_5_0, ''LARGE_GENERIC_SERIAL_BUS_CONNECTION''),
         EFI_ACPI_SERIAL_BUS_RESOURCE_DESCRIPTOR)]"

text \<open>The bytes that the headers define, all of them.\<close>

definition resource_bytes :: codes where
  "resource_bytes = acpi_small_descriptors @ acpi_large_descriptors @ acpi_descriptors_2_0 @
     acpi_descriptors_3_0 @ acpi_descriptors_5_0"

definition resource_ok :: "bool \<times> (codes \<times> string) \<times> (codes \<times> string) \<times> ctype \<Rightarrow> bool" where
  "resource_ok = (\<lambda>(large, (cs, d), (ns, n), T).
     case (map_of cs d, map_of ns n) of
       (Some v, Some x) \<Rightarrow>
         if large then v = 128 + x \<and> x < 128 \<and> 3 \<le> sizeof_type T \<and> sizeof_type T < 256 \<and>
           (locate [Dot ''Header''] T = Some (0, ACPI_LARGE_RESOURCE_HEADER) \<or>
            locate [Dot ''Desc''] T = Some (0, UINT8) \<and> locate [Dot ''Len''] T = Some (1, UINT16))
         else v = 8 * x + (sizeof_type T - 1) \<and> x < 16 \<and> 1 \<le> sizeof_type T \<and> sizeof_type T \<le> 8
     | _ \<Rightarrow> False)"

lemma resources_ok: "list_all resource_ok resources"
  by code_simp

lemmas resource_codes = resource_bytes_def acpi_small_descriptors_def acpi_large_descriptors_def
  acpi_descriptors_2_0_def acpi_descriptors_3_0_def acpi_descriptors_5_0_def

lemma resource_bytes_distinct:
  "distinct (map fst resource_bytes)"
  "distinct (map snd (filter (\<lambda>(d, v). d \<noteq> ''ADDRESS_SPACE'') resource_bytes))"
  "map_of resource_bytes ''ADDRESS_SPACE'' = map_of resource_bytes ''QWORD_ADDRESS_SPACE''"
  by (simp_all add: resource_codes)

lemma resources_complete:
  "map (\<lambda>(l, (cs, d), ns, T). d) resources = filter (\<lambda>d. d \<noteq> ''START_DEPENDENT_EX'') (map fst resource_bytes)"
  by (simp add: resource_codes resources_def)

lemma start_dependent_ex: "map_of resource_bytes ''START_DEPENDENT_EX'' = Some 0x31"
    "map_of acpi_small_names ''START_DEPENDENT'' = Some 6"
  by (simp_all add: resource_codes acpi_small_names_def)

lemma item_flags: "map_of acpi_item_flags ''SMALL'' = Some 0" "map_of acpi_item_flags ''LARGE'' = Some 1"
  by (simp_all add: acpi_item_flags_def)

lemma header_bits:
  "locate [Dot ''Bits''] ACPI_SMALL_RESOURCE_HEADER = Some (0, small_bits)"
  "locate [Dot ''Header'', Dot ''Bits''] ACPI_LARGE_RESOURCE_HEADER = Some (0, large_bits)"
  "locate [Dot ''Length''] ACPI_LARGE_RESOURCE_HEADER = Some (1, UINT16)"
  "sizeof_type ACPI_LARGE_RESOURCE_HEADER = 3"
  by code_simp+

lemma bit_places:
  "bit_member small_bits ''Length'' = Some (0, 1, 0, 3)" "bit_member small_bits ''Name'' = Some (0, 1, 3, 4)"
  "bit_member small_bits ''Type'' = Some (0, 1, 7, 1)"
  "bit_member large_bits ''Name'' = Some (0, 1, 0, 7)" "bit_member large_bits ''Type'' = Some (0, 1, 7, 1)"
  by code_simp+

section \<open>Reading the first byte\<close>

lemma byte_bits:
  assumes "load m a = Inr (of_nat v :: UINT8)" "v < 256" "bit_member U f = Some (0, 1, s, w)"
  shows "read_bits m a U f = Inr (of_nat (v div 2 ^ s mod 2 ^ w))"
proof -
  have "load_byte m a = Inr (of_nat v)" using assms(1) by (simp only: load_UINT8)
  then have "load_bytes m a 1 = Inr [of_nat v]" by (simp add: load_bytes_iff del: load_bytes.simps)
  then have "get_bits m a 1 s w = Inr (take_bit w (drop_bit s (ucast (of_nat v :: UINT8) :: UINT64)))"
    by (simp add: get_bits_def)
  moreover have "ucast (of_nat v :: UINT8) = (of_nat v :: UINT64)"
    using assms(2) by (simp add: word_unat_eq_iff unat_of_nat take_bit_nat_eq_self_iff unsigned_ucast_eq)
  moreover have "take_bit w (drop_bit s (of_nat v :: UINT64)) = of_nat (v div 2 ^ s mod 2 ^ w)"
  proof -
    have "unat (of_nat v :: UINT64) = v" using assms(2) by (simp add: unat_of_nat)
    then have "unat (take_bit w (drop_bit s (of_nat v :: UINT64))) = take_bit w (drop_bit s v)"
      by (simp only: unsigned_take_bit_eq unat_drop_bit_eq)
    then have "unat (take_bit w (drop_bit s (of_nat v :: UINT64))) = v div 2 ^ s mod 2 ^ w"
      by (simp only: take_bit_eq_mod drop_bit_eq_div)
    then show ?thesis by (metis of_nat_unat ucast_id)
  qed
  ultimately show ?thesis using assms(3) by (simp add: read_bits_def)
qed

section \<open>Properties\<close>

text \<open>
  C30. Resource descriptors: the byte constant of each descriptor, stored as the first byte of its record,
  reads back through the bit-fields of the resource header as the constant of its name and as the
  type of its kind of item; for a small item the length bits are the size of the rest of the record,
  and for a large item the length, stored behind the byte, leaves the byte as it is. Of all descriptors
  of the headers only the start of dependent functions with priorities has no record; its byte is that of the
  start with a length of 1. No two descriptors have the same byte, but for the common definition of the
  address spaces and the address space of 64 bits.
\<close>

theorem resource_descriptor_bytes:
  assumes "(large, (cs, d), (ns, n), T) \<in> set resources" "buffer m a (sizeof_type T)"
  shows "distinct (map fst resource_bytes) \<and>
    distinct (map snd (filter (\<lambda>(d, v). d \<noteq> ''ADDRESS_SPACE'') resource_bytes)) \<and>
    map_of resource_bytes ''ADDRESS_SPACE'' = map_of resource_bytes ''QWORD_ADDRESS_SPACE'' \<and>
    map (\<lambda>(l, (cs, d), ns, T). d) resources = filter (\<lambda>d. d \<noteq> ''START_DEPENDENT_EX'') (map fst resource_bytes) \<and>
    (\<exists>x. map_of acpi_small_names ''START_DEPENDENT'' = Some x \<and>
      map_of resource_bytes ''START_DEPENDENT_EX'' = Some (8 * x + 1)) \<and>
    (\<exists>v x m'. map_of cs d = Some v \<and> map_of ns n = Some x \<and> store m a (of_nat v :: UINT8) = Inr m' \<and>
      (\<not> large \<longrightarrow>
        read_bits m' a small_bits ''Name'' = Inr (of_nat x) \<and>
        map_option of_nat (map_of acpi_item_flags ''SMALL'') = Some (0 :: UINT64) \<and>
        read_bits m' a small_bits ''Type'' = Inr 0 \<and>
        read_bits m' a small_bits ''Length'' = Inr (of_nat (sizeof_type T - 1))) \<and>
      (large \<longrightarrow> (\<exists>m''. store m' (a + 1) (of_nat (sizeof_type T - 3) :: UINT16) = Inr m'' \<and>
        load m'' (a + 1) = Inr (of_nat (sizeof_type T - 3) :: UINT16) \<and>
        read_bits m'' a large_bits ''Name'' = Inr (of_nat x) \<and>
        map_option of_nat (map_of acpi_item_flags ''LARGE'') = Some (1 :: UINT64) \<and>
        read_bits m'' a large_bits ''Type'' = Inr 1)))"
proof (intro conjI)
  show "\<exists>x. map_of acpi_small_names ''START_DEPENDENT'' = Some x \<and>
      map_of resource_bytes ''START_DEPENDENT_EX'' = Some (8 * x + 1)"
    by (simp add: start_dependent_ex)
  have ok: "resource_ok (large, (cs, d), (ns, n), T)" using resources_ok assms(1) by (simp only: list_all_iff)
  then obtain v x where v: "map_of cs d = Some v" "map_of ns n = Some x"
    by (auto simp: resource_ok_def split: option.splits)
  have T: "1 \<le> sizeof_type T" "v < 256" using ok v by (auto simp: resource_ok_def split: if_splits)
  obtain m' where m': "store m a (of_nat v :: UINT8) = Inr m'" "load m' a = Inr (of_nat v :: UINT8)"
    "buffer m' a (sizeof_type T)"
    using store_part [OF assms(2), of 0 "of_nat v :: UINT8"] load_stored [OF assms(2), of "of_nat v :: UINT8"]
      buffer_overlay [OF assms(2)] T(1) by (auto simp: sizeof_word_def)
  note b = byte_bits [OF m'(2) T(2)]
  show "\<exists>v x m'. map_of cs d = Some v \<and> map_of ns n = Some x \<and> store m a (of_nat v :: UINT8) = Inr m' \<and>
      (\<not> large \<longrightarrow>
        read_bits m' a small_bits ''Name'' = Inr (of_nat x) \<and>
        map_option of_nat (map_of acpi_item_flags ''SMALL'') = Some (0 :: UINT64) \<and>
        read_bits m' a small_bits ''Type'' = Inr 0 \<and>
        read_bits m' a small_bits ''Length'' = Inr (of_nat (sizeof_type T - 1))) \<and>
      (large \<longrightarrow> (\<exists>m''. store m' (a + 1) (of_nat (sizeof_type T - 3) :: UINT16) = Inr m'' \<and>
        load m'' (a + 1) = Inr (of_nat (sizeof_type T - 3) :: UINT16) \<and>
        read_bits m'' a large_bits ''Name'' = Inr (of_nat x) \<and>
        map_option of_nat (map_of acpi_item_flags ''LARGE'') = Some (1 :: UINT64) \<and>
        read_bits m'' a large_bits ''Type'' = Inr 1))"
  proof (cases large)
    case False
    then have r: "v = 8 * x + (sizeof_type T - 1)" "x < 16" "sizeof_type T - 1 < 8"
      using ok v by (auto simp: resource_ok_def)
    then have "v mod 8 = sizeof_type T - 1" "v div 8 mod 16 = x" "v div 128 = 0" by simp_all
    then show ?thesis using False v m'(1) b [OF bit_places(1)] b [OF bit_places(2)] b [OF bit_places(3)] item_flags
      by simp
  next
    case True
    then have r: "v = 128 + x" "x < 128" "3 \<le> sizeof_type T" using ok v by (auto simp: resource_ok_def)
    let ?l = "of_nat (sizeof_type T - 3) :: UINT16"
    have two: "1 + sizeof_word ?l \<le> sizeof_type T" using r(3) by (simp add: sizeof_word_def)
    obtain m'' where m'': "store m' (a + 1) ?l = Inr m''" "load m'' (a + 1) = Inr ?l"
      and f: "\<And>b j. apart b j (a + 1) 2 \<Longrightarrow> load_bytes m'' b j = load_bytes m' b j"
      using store_part [OF m'(3) two] load_stored [OF buffer_part [OF m'(3) two], of ?l]
      by (auto simp: load_bytes_apart sizeof_word_def)
    have "apart a 1 (a + 1) 2" using parts_apart [of 3 1 2 0 1 a] by simp
    then have "load_bytes m'' a 1 = load_bytes m' a 1" by (rule f)
    then have "load m'' a = Inr (of_nat v :: UINT8)" using m'(2) by (simp add: load_def sizeof_word_def)
    note b = byte_bits [OF this T(2)]
    have "v mod 128 = x" "v div 128 mod 2 = 1" using r by simp_all
    then show ?thesis using True v m'(1) m'' b [OF bit_places(4)] b [OF bit_places(5)] item_flags by simp
  qed
qed (rule resource_bytes_distinct resources_complete)+

theorem resource_descriptor_bytes_witness:
  "\<exists>m'. store (sample_mem 64 (replicate 8 0)) 64 (0x47 :: UINT8) = Inr m' \<and>
    read_bits m' 64 small_bits ''Name'' = Inr 8 \<and> read_bits m' 64 small_bits ''Length'' = Inr 7"
proof -
  have e: "(False, (acpi_small_descriptors, ''IO_PORT''), (acpi_small_names, ''IO_PORT''),
      EFI_ACPI_IO_PORT_DESCRIPTOR) \<in> set resources" by (simp add: resources_def)
  have s: "sizeof_type EFI_ACPI_IO_PORT_DESCRIPTOR = 8" by code_simp
  have b: "buffer (sample_mem 64 (replicate 8 0)) 64 (sizeof_type EFI_ACPI_IO_PORT_DESCRIPTOR)"
    using sample_buffer [of 64 "replicate 8 0" 0 8] by (simp add: s)
  have v: "map_of acpi_small_descriptors ''IO_PORT'' = Some 0x47" "map_of acpi_small_names ''IO_PORT'' = Some 8"
    by (simp_all add: acpi_small_descriptors_def acpi_small_names_def)
  from resource_descriptor_bytes [OF e b] show ?thesis by (auto simp: v s)
qed

end
