(* ===== verification/Flag_Words.thy ===== *)
theory Flag_Words imports System_Codes Base_Types begin

text \<open>
  Words of flags: the fields that network interfaces, forms, load options and ACPI resources keep in
  a word under a mask, and the parts of a word (single flags and masks) of the services, consoles and
  descriptors, which do not overlap.
\<close>

section \<open>Fields of flag words\<close>

text \<open>The fields of the flag words of network interfaces: the mask of a field and its values.\<close>

definition undi_fields :: "(codes \<times> string \<times> string list) list" where
  "undi_fields =
     [(undi_opflags, ''INTERRUPT_OPMASK'', [''INTERRUPT_ENABLE'', ''INTERRUPT_DISABLE'', ''INTERRUPT_READ'']),
      (undi_opflags, ''RECEIVE_FILTER_OPMASK'',
         [''RECEIVE_FILTER_ENABLE'', ''RECEIVE_FILTER_DISABLE'', ''RECEIVE_FILTER_READ'']),
      (undi_opflags, ''MCAST_IP_TO_MAC_OPMASK'', [''MCAST_IPV4_TO_MAC'', ''MCAST_IPV6_TO_MAC'']),
      (undi_opflags, ''NVDATA_OPMASK'', [''NVDATA_READ'', ''NVDATA_WRITE'']),
      (undi_opflags, ''FILL_HEADER_OPMASK'', [''FILL_HEADER_FRAGMENTED'', ''FILL_HEADER_WHOLE'']),
      (undi_opflags, ''SWUNDI_TRANSMIT_OPMASK'', [''TRANSMIT_BLOCK'', ''TRANSMIT_DONT_BLOCK'']),
      (undi_opflags, ''TRANSMIT_OPMASK'', [''TRANSMIT_FRAGMENTED'', ''TRANSMIT_WHOLE'']),
      (undi_statflags, ''STATUS_MASK'', [''COMMAND_COMPLETE'', ''COMMAND_FAILED'', ''COMMAND_QUEUED'']),
      (undi_statflags, ''GET_STATE_MASK'', [''GET_STATE_INITIALIZED'', ''GET_STATE_STARTED'', ''GET_STATE_STOPPED'']),
      (undi_statflags, ''CABLE_DETECT_MASK'', [''CABLE_DETECT_NOT_SUPPORTED'', ''CABLE_DETECT_SUPPORTED'']),
      (undi_statflags, ''GET_STATUS_NO_MEDIA_MASK'',
         [''GET_STATUS_NO_MEDIA_NOT_SUPPORTED'', ''GET_STATUS_NO_MEDIA_SUPPORTED'']),
      (undi_hwstat, ''STATE_MASK'', [''BUSY'', ''INITIALIZED'', ''STARTED'', ''STOPPED'']),
      (undi_romid, ''NVDATA_SUPPORT_MASK'',
         [''NVDATA_BULK_WRITABLE'', ''NVDATA_SPARSE_WRITABLE'', ''NVDATA_READ_ONLY'', ''NVDATA_NOT_AVAILABLE''])]"

text \<open>The commands of the hardware register and the status bits they act on.\<close>

definition hw_commands :: "(string \<times> string) list" where
  "hw_commands =
     [(''PROMISCUOUS_MULTICAST_RX_ENABLE'', ''PROMISCUOUS_MULTICAST_RX_ENABLED''),
      (''PROMISCUOUS_RX_ENABLE'', ''PROMISCUOUS_RX_ENABLED''), (''BROADCAST_RX_ENABLE'', ''BROADCAST_RX_ENABLED''),
      (''MULTICAST_RX_ENABLE'', ''MULTICAST_RX_ENABLED''), (''UNICAST_RX_ENABLE'', ''UNICAST_RX_ENABLED''),
      (''SOFTWARE_INT_ENABLE'', ''SOFTWARE_INT_ENABLED''), (''TX_COMPLETE_INT_ENABLE'', ''TX_COMPLETE_INT_ENABLED''),
      (''PACKET_RX_INT_ENABLE'', ''PACKET_RX_INT_ENABLED''), (''CMD_COMPLETE_INT_ENABLE'', ''CMD_COMPLETE_INT_ENABLED''),
      (''CLEAR_SOFTWARE_INT'', ''SOFTWARE_INT_PENDING''), (''CLEAR_TX_COMPLETE_INT'', ''TX_COMPLETE_INT_PENDING''),
      (''CLEAR_PACKET_RX_INT'', ''PACKET_RX_INT_PENDING''), (''CLEAR_CMD_COMPLETE_INT'', ''CMD_COMPLETE_INT_PENDING'')]"

text \<open>The fields of load options, of questions of forms, and of ACPI resources.\<close>

definition system_fields :: "(codes \<times> string \<times> string list) list" where
  "system_fields =
     [(load_options, ''CATEGORY'', [''CATEGORY_BOOT'', ''CATEGORY_APP'']),
      (ifr_date_flags, ''EFI_QF_DATE_STORAGE'',
         [''QF_DATE_STORAGE_NORMAL'', ''QF_DATE_STORAGE_TIME'', ''QF_DATE_STORAGE_WAKEUP'']),
      (ifr_time_flags, ''STORAGE'', [''STORAGE_NORMAL'', ''STORAGE_TIME'', ''STORAGE_WAKEUP'']),
      (ifr_numeric_flags, ''NUMERIC_SIZE'', [''NUMERIC_SIZE_1'', ''NUMERIC_SIZE_2'', ''NUMERIC_SIZE_4'', ''NUMERIC_SIZE_8'']),
      (ifr_numeric_flags, ''DISPLAY'', [''DISPLAY_INT_DEC'', ''DISPLAY_UINT_DEC'', ''DISPLAY_UINT_HEX'']),
      (acpi_resource_flags, ''IRQ_POLARITY_MASK'', [''IRQ_HIGH_TRUE'', ''IRQ_LOW_FALSE'']),
      (acpi_resource_flags, ''IRQ_MODE'', [''IRQ_LEVEL_TRIGGERED'', ''IRQ_EDGE_TRIGGERED'']),
      (acpi_resource_flags, ''DMA_SPEED_TYPE_MASK'',
         [''DMA_SPEED_TYPE_COMPATIBILITY'', ''DMA_SPEED_TYPE_A'', ''DMA_SPEED_TYPE_B'', ''DMA_SPEED_TYPE_F'']),
      (acpi_resource_flags, ''DMA_TRANSFER_TYPE_MASK'',
         [''DMA_TRANSFER_TYPE_8_BIT'', ''DMA_TRANSFER_TYPE_8_BIT_AND_16_BIT'', ''DMA_TRANSFER_TYPE_16_BIT'']),
      (acpi_resource_flags, ''IO_DECODE_MASK'', [''IO_DECODE_16_BIT'', ''IO_DECODE_10_BIT'']),
      (acpi_resource_flags, ''MEMORY_WRITE_STATUS_MASK'', [''MEMORY_WRITABLE'', ''MEMORY_NON_WRITABLE''])]"

definition flag_fields :: "(codes \<times> string \<times> string list) list" where
  "flag_fields = undi_fields @ system_fields"

text \<open>The parts of each word of flags.\<close>

definition flag_words :: "(codes \<times> string list) list" where
  "flag_words =
     [(memory_attributes, map fst memory_attributes), (variable_attributes, map fst variable_attributes),
      (event_types, [''TIMER'', ''RUNTIME'', ''NOTIFY_WAIT'', ''NOTIFY_SIGNAL'', ''RUNTIME_CONTEXT'']),
      (open_protocol_attributes, map fst open_protocol_attributes), (capsule_flags, map fst capsule_flags),
      (os_indications, map fst os_indications),
      (load_options, [''ACTIVE'', ''FORCE_RECONNECT'', ''HIDDEN'', ''CATEGORY'']),
      (boot_option_support, map fst boot_option_support), (time_flags, map fst time_flags),
      (debug_properties, map fst debug_properties), (debug_levels, map fst debug_levels),
      (shift_states, map fst shift_states), (toggle_states, map fst toggle_states),
      (ifr_date_flags, [''EFI_QF_DATE_YEAR_SUPPRESS'', ''EFI_QF_DATE_MONTH_SUPPRESS'', ''EFI_QF_DATE_DAY_SUPPRESS'',
         ''EFI_QF_DATE_STORAGE'']),
      (ifr_time_flags, [''HOUR_SUPPRESS'', ''MINUTE_SUPPRESS'', ''SECOND_SUPPRESS'', ''STORAGE'']),
      (ifr_numeric_flags, [''NUMERIC_SIZE'', ''DISPLAY'']), (ifr_option_flags, map fst ifr_option_flags),
      (ifr_checkbox_flags, map fst ifr_checkbox_flags), (ifr_ordered_list_flags, map fst ifr_ordered_list_flags),
      (key_affected_by, map fst key_affected_by), (thunk_attributes, map fst thunk_attributes),
      (acpi_interrupt_masks, map fst acpi_interrupt_masks),
      (undi_duplex, [''FORCE_FULL_DUPLEX'', ''ENABLE_FULL_DUPLEX'', ''FORCE_HALF_DUPLEX'', ''DISABLE_FULL_DUPLEX'']),
      (acpi_resource_flags, [''IRQ_SHARABLE_MASK'', ''IRQ_POLARITY_MASK'', ''IRQ_MODE'']),
      (acpi_resource_flags, [''DMA_SPEED_TYPE_MASK'', ''DMA_BUS_MASTER_MASK'', ''DMA_TRANSFER_TYPE_MASK''])]"

fun disjoint_from :: "nat \<Rightarrow> nat list \<Rightarrow> bool" where
  "disjoint_from acc [] \<longleftrightarrow> True"
| "disjoint_from acc (v # vs) \<longleftrightarrow> v \<noteq> 0 \<and> v < 2 ^ 64 \<and> acc AND v = 0 \<and> disjoint_from (acc OR v) vs"

definition parts_ok :: "codes \<times> string list \<Rightarrow> bool" where
  "parts_ok = (\<lambda>(cs, ns). distinct ns \<and> list_all (\<lambda>n. map_of cs n \<noteq> None) ns \<and>
     disjoint_from 0 (map (\<lambda>n. the (map_of cs n)) ns))"

definition field_ok :: "codes \<times> string \<times> string list \<Rightarrow> bool" where
  "field_ok = (\<lambda>(cs, m, vs). map_of cs m \<noteq> None \<and> the (map_of cs m) < 2 ^ 32 \<and>
     list_all (\<lambda>v. map_of cs v \<noteq> None \<and> the (map_of cs v) AND the (map_of cs m) = the (map_of cs v)) vs \<and>
     distinct (map (map_of cs) vs))"

lemma undi_opflags_values:
  "map_of undi_opflags ''INTERRUPT_OPMASK'' = Some 0xC000"
  "map_of undi_opflags ''INTERRUPT_ENABLE'' = Some 0x8000"
  "map_of undi_opflags ''INTERRUPT_DISABLE'' = Some 0x4000"
  "map_of undi_opflags ''INTERRUPT_READ'' = Some 0"
  "map_of undi_opflags ''RECEIVE_FILTER_OPMASK'' = Some 0xC000"
  "map_of undi_opflags ''RECEIVE_FILTER_ENABLE'' = Some 0x8000"
  "map_of undi_opflags ''RECEIVE_FILTER_DISABLE'' = Some 0x4000"
  "map_of undi_opflags ''RECEIVE_FILTER_READ'' = Some 0"
  "map_of undi_opflags ''MCAST_IP_TO_MAC_OPMASK'' = Some 3"
  "map_of undi_opflags ''MCAST_IPV4_TO_MAC'' = Some 0"
  "map_of undi_opflags ''MCAST_IPV6_TO_MAC'' = Some 1"
  "map_of undi_opflags ''NVDATA_OPMASK'' = Some 1"
  "map_of undi_opflags ''NVDATA_READ'' = Some 0"
  "map_of undi_opflags ''NVDATA_WRITE'' = Some 1"
  "map_of undi_opflags ''FILL_HEADER_OPMASK'' = Some 1"
  "map_of undi_opflags ''FILL_HEADER_FRAGMENTED'' = Some 1"
  "map_of undi_opflags ''FILL_HEADER_WHOLE'' = Some 0"
  "map_of undi_opflags ''SWUNDI_TRANSMIT_OPMASK'' = Some 1"
  "map_of undi_opflags ''TRANSMIT_BLOCK'' = Some 1"
  "map_of undi_opflags ''TRANSMIT_DONT_BLOCK'' = Some 0"
  "map_of undi_opflags ''TRANSMIT_OPMASK'' = Some 2"
  "map_of undi_opflags ''TRANSMIT_FRAGMENTED'' = Some 2"
  "map_of undi_opflags ''TRANSMIT_WHOLE'' = Some 0"
  by (simp_all add: undi_opflags_def first_undi_opflags_def further_undi_opflags_def)

lemma undi_statflags_values:
  "map_of undi_statflags ''STATUS_MASK'' = Some 0xC000"
  "map_of undi_statflags ''COMMAND_COMPLETE'' = Some 0xC000"
  "map_of undi_statflags ''COMMAND_FAILED'' = Some 0x8000"
  "map_of undi_statflags ''COMMAND_QUEUED'' = Some 0x4000"
  "map_of undi_statflags ''GET_STATE_MASK'' = Some 3"
  "map_of undi_statflags ''GET_STATE_INITIALIZED'' = Some 2"
  "map_of undi_statflags ''GET_STATE_STARTED'' = Some 1"
  "map_of undi_statflags ''GET_STATE_STOPPED'' = Some 0"
  "map_of undi_statflags ''CABLE_DETECT_MASK'' = Some 1"
  "map_of undi_statflags ''CABLE_DETECT_NOT_SUPPORTED'' = Some 0"
  "map_of undi_statflags ''CABLE_DETECT_SUPPORTED'' = Some 1"
  "map_of undi_statflags ''GET_STATUS_NO_MEDIA_MASK'' = Some 2"
  "map_of undi_statflags ''GET_STATUS_NO_MEDIA_NOT_SUPPORTED'' = Some 0"
  "map_of undi_statflags ''GET_STATUS_NO_MEDIA_SUPPORTED'' = Some 2"
  by (simp_all add: undi_statflags_def first_undi_statflags_def further_undi_statflags_def)

lemma undi_hwstat_values:
  "map_of undi_hwstat ''STATE_MASK'' = Some 0xC0000000"
  "map_of undi_hwstat ''BUSY'' = Some 0xC0000000"
  "map_of undi_hwstat ''INITIALIZED'' = Some 0x80000000"
  "map_of undi_hwstat ''STARTED'' = Some 0x40000000"
  "map_of undi_hwstat ''STOPPED'' = Some 0"
  by (simp_all add: undi_hwstat_def)

lemma undi_romid_values:
  "map_of undi_romid ''NVDATA_SUPPORT_MASK'' = Some 0xC00"
  "map_of undi_romid ''NVDATA_BULK_WRITABLE'' = Some 0xC00"
  "map_of undi_romid ''NVDATA_SPARSE_WRITABLE'' = Some 0x800"
  "map_of undi_romid ''NVDATA_READ_ONLY'' = Some 0x400"
  "map_of undi_romid ''NVDATA_NOT_AVAILABLE'' = Some 0"
  by (simp_all add: undi_romid_def)

lemmas undi_values = undi_opflags_values undi_statflags_values undi_hwstat_values undi_romid_values

lemma undi_fields_ok: "list_all field_ok undi_fields"
  by (simp add: undi_fields_def field_ok_def undi_values)

lemma hw_commands_agree:
  "list_all (\<lambda>(c, st). map_of undi_hwcmd c \<noteq> None \<and> map_of undi_hwcmd c = map_of undi_hwstat st) hw_commands"
  by (simp add: hw_commands_def undi_hwcmd_def undi_hwstat_def)

lemma field_assigned:
  fixes x c m :: UINT32
  assumes "c AND m = c"
  shows "((x AND NOT m) OR c) AND m = c" "((x AND NOT m) OR c) AND NOT m = x AND NOT m"
proof -
  have "bit c n \<Longrightarrow> bit m n" for n using assms by (metis bit_and_iff)
  then show "((x AND NOT m) OR c) AND m = c" "((x AND NOT m) OR c) AND NOT m = x AND NOT m"
    by (auto intro!: bit_word_eqI simp: bit_simps)
qed

lemma load_options_values:
  "map_of load_options ''CATEGORY'' = Some 0x1F00"
  "map_of load_options ''CATEGORY_BOOT'' = Some 0"
  "map_of load_options ''CATEGORY_APP'' = Some 0x100"
  by (simp_all add: load_options_def)

lemma ifr_date_flags_values:
  "map_of ifr_date_flags ''EFI_QF_DATE_STORAGE'' = Some 0x30"
  "map_of ifr_date_flags ''QF_DATE_STORAGE_NORMAL'' = Some 0"
  "map_of ifr_date_flags ''QF_DATE_STORAGE_TIME'' = Some 0x10"
  "map_of ifr_date_flags ''QF_DATE_STORAGE_WAKEUP'' = Some 0x20"
  by (simp_all add: ifr_date_flags_def)

lemma ifr_time_flags_values:
  "map_of ifr_time_flags ''STORAGE'' = Some 0x30"
  "map_of ifr_time_flags ''STORAGE_NORMAL'' = Some 0"
  "map_of ifr_time_flags ''STORAGE_TIME'' = Some 0x10"
  "map_of ifr_time_flags ''STORAGE_WAKEUP'' = Some 0x20"
  by (simp_all add: ifr_time_flags_def)

lemma ifr_numeric_flags_values:
  "map_of ifr_numeric_flags ''NUMERIC_SIZE'' = Some 3"
  "map_of ifr_numeric_flags ''NUMERIC_SIZE_1'' = Some 0"
  "map_of ifr_numeric_flags ''NUMERIC_SIZE_2'' = Some 1"
  "map_of ifr_numeric_flags ''NUMERIC_SIZE_4'' = Some 2"
  "map_of ifr_numeric_flags ''NUMERIC_SIZE_8'' = Some 3"
  "map_of ifr_numeric_flags ''DISPLAY'' = Some 0x30"
  "map_of ifr_numeric_flags ''DISPLAY_INT_DEC'' = Some 0"
  "map_of ifr_numeric_flags ''DISPLAY_UINT_DEC'' = Some 0x10"
  "map_of ifr_numeric_flags ''DISPLAY_UINT_HEX'' = Some 0x20"
  by (simp_all add: ifr_numeric_flags_def)

lemma acpi_resource_flags_values:
  "map_of acpi_resource_flags ''IRQ_POLARITY_MASK'' = Some 8"
  "map_of acpi_resource_flags ''IRQ_HIGH_TRUE'' = Some 0"
  "map_of acpi_resource_flags ''IRQ_LOW_FALSE'' = Some 8"
  "map_of acpi_resource_flags ''IRQ_MODE'' = Some 1"
  "map_of acpi_resource_flags ''IRQ_LEVEL_TRIGGERED'' = Some 0"
  "map_of acpi_resource_flags ''IRQ_EDGE_TRIGGERED'' = Some 1"
  "map_of acpi_resource_flags ''DMA_SPEED_TYPE_MASK'' = Some 0x60"
  "map_of acpi_resource_flags ''DMA_SPEED_TYPE_COMPATIBILITY'' = Some 0"
  "map_of acpi_resource_flags ''DMA_SPEED_TYPE_A'' = Some 0x20"
  "map_of acpi_resource_flags ''DMA_SPEED_TYPE_B'' = Some 0x40"
  "map_of acpi_resource_flags ''DMA_SPEED_TYPE_F'' = Some 0x60"
  "map_of acpi_resource_flags ''DMA_TRANSFER_TYPE_MASK'' = Some 3"
  "map_of acpi_resource_flags ''DMA_TRANSFER_TYPE_8_BIT'' = Some 0"
  "map_of acpi_resource_flags ''DMA_TRANSFER_TYPE_8_BIT_AND_16_BIT'' = Some 1"
  "map_of acpi_resource_flags ''DMA_TRANSFER_TYPE_16_BIT'' = Some 2"
  "map_of acpi_resource_flags ''IO_DECODE_MASK'' = Some 1"
  "map_of acpi_resource_flags ''IO_DECODE_16_BIT'' = Some 1"
  "map_of acpi_resource_flags ''IO_DECODE_10_BIT'' = Some 0"
  "map_of acpi_resource_flags ''MEMORY_WRITE_STATUS_MASK'' = Some 1"
  "map_of acpi_resource_flags ''MEMORY_WRITABLE'' = Some 1"
  "map_of acpi_resource_flags ''MEMORY_NON_WRITABLE'' = Some 0"
  by (simp_all add: acpi_resource_flags_def)

lemmas system_values = load_options_values ifr_date_flags_values ifr_time_flags_values ifr_numeric_flags_values acpi_resource_flags_values

lemma system_fields_ok: "list_all field_ok system_fields"
  by (simp add: system_fields_def field_ok_def system_values)

lemma flag_fields_ok: "list_all field_ok flag_fields"
  by (simp only: flag_fields_def list_all_append undi_fields_ok system_fields_ok)

lemma distinct_lookup: "distinct (map fst cs) \<Longrightarrow> map (\<lambda>n. the (map_of cs n)) (map fst cs) = map snd cs"
  by (simp add: comp_def) (auto intro!: map_cong)

lemma parts_full: "distinct (map fst cs) \<Longrightarrow> disjoint_from 0 (map snd cs) \<Longrightarrow> parts_ok (cs, map fst cs)"
  unfolding parts_ok_def by (simp only: prod.case distinct_lookup) (auto simp: list_all_iff map_of_eq_None_iff)

lemma services_parts:
  "parts_ok (memory_attributes, map fst memory_attributes)"
  "parts_ok (variable_attributes, map fst variable_attributes)"
  "parts_ok (open_protocol_attributes, map fst open_protocol_attributes)"
  "parts_ok (capsule_flags, map fst capsule_flags)" "parts_ok (os_indications, map fst os_indications)"
  "parts_ok (boot_option_support, map fst boot_option_support)" "parts_ok (time_flags, map fst time_flags)"
  by (rule parts_full; simp add: codes)+

lemma console_parts:
  "parts_ok (debug_properties, map fst debug_properties)" "parts_ok (debug_levels, map fst debug_levels)"
  "parts_ok (shift_states, map fst shift_states)" "parts_ok (toggle_states, map fst toggle_states)"
  "parts_ok (ifr_option_flags, map fst ifr_option_flags)" "parts_ok (ifr_checkbox_flags, map fst ifr_checkbox_flags)"
  "parts_ok (ifr_ordered_list_flags, map fst ifr_ordered_list_flags)"
  "parts_ok (key_affected_by, map fst key_affected_by)" "parts_ok (thunk_attributes, map fst thunk_attributes)"
  "parts_ok (acpi_interrupt_masks, map fst acpi_interrupt_masks)"
  by (rule parts_full; simp add: codes)+

lemma masked_parts:
  "parts_ok (event_types, [''TIMER'', ''RUNTIME'', ''NOTIFY_WAIT'', ''NOTIFY_SIGNAL'', ''RUNTIME_CONTEXT''])"
  "parts_ok (load_options, [''ACTIVE'', ''FORCE_RECONNECT'', ''HIDDEN'', ''CATEGORY''])"
  "parts_ok (ifr_date_flags, [''EFI_QF_DATE_YEAR_SUPPRESS'', ''EFI_QF_DATE_MONTH_SUPPRESS'',
     ''EFI_QF_DATE_DAY_SUPPRESS'', ''EFI_QF_DATE_STORAGE''])"
  "parts_ok (ifr_time_flags, [''HOUR_SUPPRESS'', ''MINUTE_SUPPRESS'', ''SECOND_SUPPRESS'', ''STORAGE''])"
  "parts_ok (ifr_numeric_flags, [''NUMERIC_SIZE'', ''DISPLAY''])"
  "parts_ok (undi_duplex, [''FORCE_FULL_DUPLEX'', ''ENABLE_FULL_DUPLEX'', ''FORCE_HALF_DUPLEX'', ''DISABLE_FULL_DUPLEX''])"
  "parts_ok (acpi_resource_flags, [''IRQ_SHARABLE_MASK'', ''IRQ_POLARITY_MASK'', ''IRQ_MODE''])"
  "parts_ok (acpi_resource_flags, [''DMA_SPEED_TYPE_MASK'', ''DMA_BUS_MASTER_MASK'', ''DMA_TRANSFER_TYPE_MASK''])"
  by (simp_all add: parts_ok_def codes)

lemma flag_words_ok: "list_all parts_ok flag_words"
  unfolding flag_words_def list_all_Cons_iff list_all_Nil_iff by (intro conjI TrueI services_parts console_parts masked_parts)

lemma debug_names_agree: "list_all (\<lambda>(n, v). map_of debug_levels n = Some v) debug_level_names"
  by (simp add: debug_level_names_def debug_levels_def)

lemma disjoint_from_acc: "disjoint_from acc vs \<Longrightarrow> v \<in> set vs \<Longrightarrow> acc AND v = 0 \<and> v \<noteq> 0 \<and> v < 2 ^ 64"
proof (induction vs arbitrary: acc)
  case (Cons w vs)
  then consider "v = w" | "(acc OR w) AND v = 0" "v \<noteq> 0" "v < 2 ^ 64" by auto
  then show ?case
  proof cases
    case 2
    then have "\<not> (bit (acc OR w) n \<and> bit v n)" for n by (metis bit_0_eq bit_and_iff bot_apply bot_bool_def)
    then have "acc AND v = 0" by (intro bit_eqI) (auto simp: bit_and_iff bit_or_iff)
    with 2 show ?thesis by simp
  qed (use Cons.prems in auto)
qed simp

lemma disjoint_from_pair:
  "disjoint_from acc (map f ns) \<Longrightarrow> distinct ns \<Longrightarrow> n \<in> set ns \<Longrightarrow> k \<in> set ns \<Longrightarrow> n \<noteq> k \<Longrightarrow> f n AND f k = 0"
proof (induction ns arbitrary: acc)
  case (Cons i ns)
  have or: "x AND y = 0" if "(acc OR x) AND y = 0" for x y :: nat
  proof -
    have "\<not> (bit (acc OR x) n \<and> bit y n)" for n using that by (metis bit_0_eq bit_and_iff bot_apply bot_bool_def)
    then show ?thesis by (intro bit_eqI) (auto simp: bit_and_iff bit_or_iff)
  qed
  have d: "disjoint_from (acc OR f i) (map f ns)" using Cons.prems(1) by simp
  have i: "f i AND f j = 0" if "j \<in> set ns" for j
    using disjoint_from_acc [OF d, of "f j"] that or by auto
  show ?case
    using Cons.IH [OF d] Cons.prems i [of n] i [of k] by (auto simp: and.commute)
qed simp

lemma part_assigned:
  fixes x y F G :: "'a::len word"
  assumes "F AND G = 0"
  shows "((x AND NOT F) OR (y AND F)) AND G = x AND G"
proof -
  have "\<not> (bit F n \<and> bit G n)" for n using assms by (metis bit_and_iff bit_0_eq bot_apply bot_bool_def)
  then show ?thesis by (auto intro!: bit_word_eqI simp: bit_simps)
qed

section \<open>Properties\<close>

text \<open>
  Fields of flag words: for network interfaces, forms, load options and ACPI resources, setting a field of a flag word to one of its values, by
  clearing the mask and adding the value, makes the masked word that value and changes no bit
  outside the mask; the values of a field differ; and each command bit of the hardware
  register of a network interface is the status bit it enables or clears.
\<close>

theorem flag_fields_set:
  fixes x :: UINT32
  assumes "(cs, m, vs) \<in> set flag_fields" "v \<in> set vs"
  shows "(\<exists>mask c. map_of cs m = Some mask \<and> map_of cs v = Some c \<and> mask < 2 ^ 32 \<and>
      ((x AND NOT (of_nat mask)) OR of_nat c) AND of_nat mask = of_nat c \<and>
      ((x AND NOT (of_nat mask)) OR of_nat c) AND NOT (of_nat mask) = x AND NOT (of_nat mask) \<and>
      (\<forall>w\<in>set vs. w \<noteq> v \<longrightarrow> map_of cs w \<noteq> Some c)) \<and>
    (\<forall>(c, st)\<in>set hw_commands. map_of undi_hwcmd c \<noteq> None \<and> map_of undi_hwcmd c = map_of undi_hwstat st)"
proof
  have "field_ok (cs, m, vs)" using flag_fields_ok assms(1) by (simp only: list_all_iff)
  then obtain mask c where f: "map_of cs m = Some mask" "mask < 2 ^ 32" "map_of cs v = Some c" "c AND mask = c"
    "distinct (map (map_of cs) vs)"
    using assms(2) by (auto simp: field_ok_def list_all_iff)
  have "(of_nat c AND of_nat mask :: UINT32) = of_nat c" using f(4) by (simp flip: of_nat_and_eq)
  note assigned = field_assigned [OF this, of x]
  have "map_of cs w \<noteq> Some c" if "w \<in> set vs" "w \<noteq> v" for w
    using f(3,5) that assms(2) by (metis distinct_map inj_onD)
  with f assigned show "\<exists>mask c. map_of cs m = Some mask \<and> map_of cs v = Some c \<and> mask < 2 ^ 32 \<and>
      ((x AND NOT (of_nat mask)) OR of_nat c) AND of_nat mask = of_nat c \<and>
      ((x AND NOT (of_nat mask)) OR of_nat c) AND NOT (of_nat mask) = x AND NOT (of_nat mask) \<and>
      (\<forall>w\<in>set vs. w \<noteq> v \<longrightarrow> map_of cs w \<noteq> Some c)" by blast
  show "\<forall>(c, st)\<in>set hw_commands. map_of undi_hwcmd c \<noteq> None \<and> map_of undi_hwcmd c = map_of undi_hwstat st"
    using hw_commands_agree by (simp only: list_all_iff)
qed

theorem flag_fields_set_witness:
  "((0xFFFFFFFF AND NOT 0xC0000000) OR 0x40000000) AND 0xC0000000 = (0x40000000 :: UINT32)"
proof -
  have "(undi_hwstat, ''STATE_MASK'', [''BUSY'', ''INITIALIZED'', ''STARTED'', ''STOPPED'']) \<in> set flag_fields"
    by (simp add: flag_fields_def undi_fields_def)
  from flag_fields_set [OF this, of "''STARTED''" "0xFFFFFFFF"] show ?thesis
    by (simp add: undi_values)
qed

text \<open>
  Parts of flag words: two flags or masks of a word share no bit, so that whatever is put into one
  leaves the other as it was; this holds for the attributes of memory and variables, events, open
  protocols, capsules, load options, debug levels, key states, questions of forms and ACPI resources.
  The debug levels have the same values under their two names.
\<close>

theorem flag_parts_apart:
  fixes x y :: UINT64
  assumes "(cs, ns) \<in> set flag_words" "f \<in> set ns" "g \<in> set ns" "f \<noteq> g"
  shows "(\<exists>F G. map_of cs f = Some F \<and> map_of cs g = Some G \<and> 0 < F \<and> F < 2 ^ 64 \<and> 0 < G \<and> G < 2 ^ 64 \<and>
      ((x AND NOT (of_nat F)) OR (y AND of_nat F)) AND of_nat G = x AND of_nat G) \<and>
    (\<forall>(n, v) \<in> set debug_level_names. map_of debug_levels n = Some v)"
proof
  have ok: "parts_ok (cs, ns)" using flag_words_ok assms(1) by (simp only: list_all_iff)
  let ?v = "\<lambda>n. the (map_of cs n)"
  have d: "disjoint_from 0 (map ?v ns)" "distinct ns" using ok by (simp_all add: parts_ok_def)
  obtain F G where v: "map_of cs f = Some F" "map_of cs g = Some G"
    using ok assms(2,3) by (fastforce simp: parts_ok_def list_all_iff)
  have "?v f AND ?v g = 0" by (rule disjoint_from_pair [OF d assms(2-4)])
  then have "(of_nat F :: UINT64) AND of_nat G = 0" using v by (simp flip: of_nat_and_eq)
  moreover have "F \<noteq> 0 \<and> F < 2 ^ 64" "G \<noteq> 0 \<and> G < 2 ^ 64"
    using disjoint_from_acc [OF d(1) imageI [OF assms(2), of ?v, folded set_map]]
      disjoint_from_acc [OF d(1) imageI [OF assms(3), of ?v, folded set_map]] v by simp_all
  ultimately show "\<exists>F G. map_of cs f = Some F \<and> map_of cs g = Some G \<and> 0 < F \<and> F < 2 ^ 64 \<and> 0 < G \<and> G < 2 ^ 64 \<and>
      ((x AND NOT (of_nat F)) OR (y AND of_nat F)) AND of_nat G = x AND of_nat G"
    using v part_assigned by blast
  show "\<forall>(n, v) \<in> set debug_level_names. map_of debug_levels n = Some v"
    using debug_names_agree by (simp only: list_all_iff)
qed

theorem flag_parts_apart_witness:
  "((0xF AND NOT 0x1F00) OR (0x100 AND 0x1F00)) AND 8 = (0xF AND 8 :: UINT64)"
proof -
  have "(load_options, [''ACTIVE'', ''FORCE_RECONNECT'', ''HIDDEN'', ''CATEGORY'']) \<in> set flag_words"
    by (simp add: flag_words_def)
  from flag_parts_apart [OF this, of "''CATEGORY''" "''HIDDEN''" "0xF" "0x100"] show ?thesis
    by (simp add: load_options_def)
qed

end
