(* ===== verification/Code_Families.thy ===== *)
theory Code_Families imports System_Codes Uefi_Macros begin

text \<open>
  Families of codes as their users see them: codes that are stored in one member of some width, and
  must be told apart by their value; and the powers of two and colours, whose values follow from
  their names.
\<close>

section \<open>Families\<close>

text \<open>Each family with the number of bits that its codes have.\<close>

definition families :: "(codes \<times> nat) list" where
  "families =
     [(hii_package_types, 8), (hii_font_styles, 32), (glyph_block_types, 8),
      (string_block_types, 8), (image_block_types, 8), (animation_block_types, 8),
      (ifr_opcodes, 8), (ifr_question_flags, 8), (ifr_default_classes, 16),
      (ifr_value_types, 8), (ifr_to_string_formats, 8), (keyboard_modifiers, 16),
      (bbs_types, 16), (adr_display_types, 4), (disk_signature_types, 8), (undi_opcodes, 16),
      (undi_statcodes, 16), (undi_frame_types, 16), (undi_hwcmd, 32), (undi_statistics, 6),
      (undi_interface_types, 8), (aml_opcodes, 8), (aml_ext_opcodes, 8), (aml_field_opcodes, 8),
      (task_priority_levels, 5), (allocate_types, 32), (timer_delays, 32),
      (locate_search_types, 32), (memory_types, 32), (reset_types, 32), (image_machines, 16),
      (box_drawing @ block_elements @ geometric_shapes @ arrows, 16),
      (scan_codes @ scan_codes_ex, 16), (control_characters, 16), (background_colors, 7),
      (acpi_small_names, 4), (acpi_large_names, 7), (gate_types, 8), (pvalidate_results, 32),
      (win_cert_types, 16), (keyboard_keys, 32), (glyph_attributes, 8), (pvalidate_page_sizes, 32),
      (gpio_connection_types, 8), (serial_bus_types, 8)]"

text \<open>The name of a code that was read.\<close>

definition name_of :: "codes \<Rightarrow> nat \<Rightarrow> string option" where
  "name_of cs v = map_of (map (\<lambda>(c, v). (v, c)) cs) v"

definition family_ok :: "codes \<times> nat \<Rightarrow> bool" where
  "family_ok = (\<lambda>(cs, w). distinct (map snd cs) \<and> list_all (\<lambda>v. v < 2 ^ w) (map snd cs))"

fun ascending :: "nat list \<Rightarrow> bool" where
  "ascending (u # v # vs) \<longleftrightarrow> u < v \<and> ascending (v # vs)"
| "ascending vs \<longleftrightarrow> True"

lemma ascending_distinct: "ascending vs \<Longrightarrow> distinct vs"
proof -
  have "ascending (u # vs) \<Longrightarrow> \<forall>v\<in>set vs. u < v" for u vs
    by (induction vs arbitrary: u) (auto intro: less_trans)
  then show "ascending vs \<Longrightarrow> distinct vs"
    by (induction vs rule: ascending.induct) fastforce+
qed

lemma ascending_family:
  "ascending (map snd cs) \<Longrightarrow> list_all (\<lambda>v. v < 2 ^ w) (map snd cs) \<Longrightarrow> family_ok (cs, w)"
  by (simp add: family_ok_def ascending_distinct)

lemma large_families:
  "family_ok (ifr_opcodes, 8)"
  "family_ok (keyboard_modifiers, 16)"
  "family_ok (undi_statistics, 6)"
  "family_ok (aml_opcodes, 8)"
  "family_ok (aml_ext_opcodes, 8)"
  "family_ok (keyboard_keys, 32)"
  by (rule ascending_family; simp add: codes)+

lemma small_families:
  "family_ok (hii_package_types, 8)"
  "family_ok (hii_font_styles, 32)"
  "family_ok (glyph_block_types, 8)"
  "family_ok (string_block_types, 8)"
  "family_ok (image_block_types, 8)"
  "family_ok (animation_block_types, 8)"
  "family_ok (ifr_question_flags, 8)"
  "family_ok (ifr_default_classes, 16)"
  "family_ok (ifr_value_types, 8)"
  "family_ok (ifr_to_string_formats, 8)"
  "family_ok (bbs_types, 16)"
  "family_ok (adr_display_types, 4)"
  "family_ok (disk_signature_types, 8)"
  "family_ok (undi_opcodes, 16)"
  "family_ok (undi_statcodes, 16)"
  "family_ok (undi_frame_types, 16)"
  "family_ok (undi_interface_types, 8)"
  "family_ok (aml_field_opcodes, 8)"
  "family_ok (task_priority_levels, 5)"
  "family_ok (allocate_types, 32)"
  "family_ok (timer_delays, 32)"
  "family_ok (locate_search_types, 32)"
  "family_ok (memory_types, 32)"
  "family_ok (reset_types, 32)"
  "family_ok (control_characters, 16)"
  "family_ok (background_colors, 7)"
  "family_ok (acpi_small_names, 4)"
  "family_ok (acpi_large_names, 7)"
  "family_ok (gate_types, 8)"
  "family_ok (pvalidate_results, 32)"
  "family_ok (win_cert_types, 16)"
  "family_ok (glyph_attributes, 8)"
  "family_ok (pvalidate_page_sizes, 32)"
  "family_ok (gpio_connection_types, 8)"
  "family_ok (serial_bus_types, 8)"
  by (rule ascending_family; simp add: codes)+

lemma other_families:
  "family_ok (undi_hwcmd, 32)"
  "family_ok (image_machines, 16)"
  "family_ok (box_drawing @ block_elements @ geometric_shapes @ arrows, 16)"
  "family_ok (scan_codes @ scan_codes_ex, 16)"
  by (simp_all add: family_ok_def codes)

lemma families_ok: "list_all family_ok families"
  unfolding families_def list_all_Cons_iff list_all_Nil_iff
  by (intro conjI TrueI large_families small_families other_families)

section \<open>Powers and colours\<close>

lemma powers:
  "map snd bit_macros = map (\<lambda>i. 2 ^ i) [0..<64]" "map snd size_macros = map (\<lambda>i. 2 ^ (10 + i)) [0..<54]"
  "map snd base_macros = map snd size_macros"
  by (simp_all add: codes upt_rec)

lemma color_value: "map_of text_colors f = Some i \<Longrightarrow> i < 16"
  by (drule map_of_SomeD) (auto simp: codes)

lemma background_value:
  "map_of text_colors b = Some j \<Longrightarrow> map_of background_colors b = Some k \<Longrightarrow> j < 8 \<and> k = 16 * j"
  by (drule map_of_SomeD [of background_colors]) (auto simp: codes)

lemma attribute_parts:
  fixes fg bg :: UINT32
  assumes "fg < 16" "bg < 8"
  shows "EFI_TEXT_ATTR fg bg AND 0xF = fg" "drop_bit 4 (EFI_TEXT_ATTR fg bg) = bg" "EFI_TEXT_ATTR fg bg < 128"
proof -
  have m: "(0xF :: UINT32) = mask 4" by (simp add: mask_eq_exp_minus_1)
  have f: "bit fg n \<Longrightarrow> n < 4" "bit bg n \<Longrightarrow> n < 3" for n
    using assms small_bits [of fg n 4] small_bits [of bg n 3] by (simp_all add: word_less_nat_alt)
  show "EFI_TEXT_ATTR fg bg AND 0xF = fg"
    unfolding EFI_TEXT_ATTR_def m using f by (intro bit_word_eqI) (fastforce simp: bit_simps)
  show "drop_bit 4 (EFI_TEXT_ATTR fg bg) = bg"
    unfolding EFI_TEXT_ATTR_def using f by (intro bit_word_eqI) (fastforce simp: bit_simps)
  have "unat (EFI_TEXT_ATTR fg bg) < 2 ^ 7"
    using f by (intro bits_small) (fastforce simp: EFI_TEXT_ATTR_def bit_simps)+
  then show "EFI_TEXT_ATTR fg bg < 128" by (simp add: word_less_nat_alt)
qed

section \<open>Properties\<close>

text \<open>
  Codes told apart: in each family (packages, blocks and op-codes of forms, commands and
  states of network interfaces, op-codes of the ACPI machine language, enumerations of the services,
  scan codes and characters of the consoles) a code written into a member of its width keeps its
  value, and the value read gives back the name, so that no two names share a value.
\<close>

theorem codes_told_apart:
  assumes "(cs, w) \<in> set families" "map_of cs c = Some v"
  shows "take_bit w v = v \<and> name_of cs (take_bit w v) = Some c"
proof -
  have "family_ok (cs, w)" using families_ok assms(1) by (simp only: list_all_iff)
  moreover have m: "(c, v) \<in> set cs" using assms(2) by (rule map_of_SomeD)
  ultimately have v: "v < 2 ^ w" "distinct (map snd cs)" by (auto simp: family_ok_def list_all_iff)
  have "distinct (map fst (map (\<lambda>(c, v). (v, c)) cs))" using v(2) by (simp add: comp_def case_prod_unfold)
  moreover have "(v, c) \<in> set (map (\<lambda>(c, v). (v, c)) cs)" using m by force
  ultimately have "name_of cs v = Some c" unfolding name_of_def by (rule map_of_is_SomeI)
  then show ?thesis using v(1) by (simp add: take_bit_nat_eq_self)
qed

theorem codes_told_apart_witness: "name_of aml_opcodes (take_bit 8 0x14) = Some ''METHOD_OP''"
proof -
  have "(aml_opcodes, 8) \<in> set families" by (simp add: families_def)
  moreover have "map_of aml_opcodes ''METHOD_OP'' = Some 0x14" by (simp add: aml_opcodes_def)
  ultimately show ?thesis using codes_told_apart by blast
qed

text \<open>
  Text attributes and sizes: the attribute of a foreground and a background colour is the
  foreground colour with the background constant of the same name, and both colours are read back from
  it, so that the 128 attributes differ. A page has the size \<open>4KB\<close>; the macros \<open>BIT\<close>, \<open>SIZE\<close> and \<open>BASE\<close>
  are the powers of two from 1, 1 KB and 1 KB.
\<close>

theorem text_attributes:
  assumes "map_of text_colors f = Some i" "map_of text_colors b = Some j" "map_of background_colors b = Some k"
  shows "EFI_TEXT_ATTR (of_nat i) (of_nat j) = of_nat i OR of_nat k \<and>
    EFI_TEXT_ATTR (of_nat i) (of_nat j) AND 0xF = of_nat i \<and>
    drop_bit 4 (EFI_TEXT_ATTR (of_nat i) (of_nat j)) = of_nat j \<and>
    EFI_TEXT_ATTR (of_nat i) (of_nat j) < 128 \<and>
    map_of size_macros ''4KB'' = Some (unat (EFI_PAGES_TO_SIZE 1)) \<and>
    map snd bit_macros = map (\<lambda>i. 2 ^ i) [0..<64] \<and> map snd size_macros = map (\<lambda>i. 2 ^ (10 + i)) [0..<54] \<and>
    map snd base_macros = map snd size_macros"
proof -
  have b: "i < 16" "j < 8" "k = 16 * j"
    using color_value [OF assms(1)] background_value [OF assms(2, 3)] by simp_all
  have w: "(of_nat i :: UINT32) < 16" "(of_nat j :: UINT32) < 8"
    using b(1, 2) by (simp_all add: word_less_nat_alt take_bit_nat_eq_self unat_of_nat)
  have "EFI_TEXT_ATTR (of_nat i) (of_nat j) = of_nat i OR of_nat k"
    using b(3) by (simp add: EFI_TEXT_ATTR_def push_bit_eq_mult mult.commute)
  moreover have "map_of size_macros ''4KB'' = Some (unat (EFI_PAGES_TO_SIZE 1))"
    by (simp add: size_macros_def EFI_PAGES_TO_SIZE_def)
  ultimately show ?thesis using attribute_parts [OF w] powers by blast
qed

theorem text_attributes_witness:
  "EFI_TEXT_ATTR 0xE 4 = 0xE OR 0x40 \<and> drop_bit 4 (EFI_TEXT_ATTR 0xE 4) = 4"
  using text_attributes [of "''YELLOW''" "0xE" "''RED''" 4 "0x40"] by (simp add: text_colors_def background_colors_def)

end
