(* ===== verification/Guid_Values.thy ===== *)
theory Guid_Values imports Object_Access Firmware_Types begin

text \<open>
  The GUIDs: the variables that \<open>AutoGen.c\<close> defines for the application, and the macros of the headers
  with the same meaning. A value has the members of the structure \<open>GUID\<close> of \<open>Base.h\<close>.
\<close>

section \<open>Values in memory\<close>

named_theorems guids \<open>values of GUIDs\<close>

type_synonym guid = "UINT32 \<times> UINT16 \<times> UINT16 \<times> UINT8 list"

text \<open>Initialisation and reading, member by member, where the layout of the structure has the members.\<close>

definition store_guid :: "mem \<Rightarrow> UINTN \<Rightarrow> guid \<Rightarrow> mem res" where
  "store_guid m a g =
     (case (g, OFFSET_OF GUID ''Data1'', OFFSET_OF GUID ''Data2'', OFFSET_OF GUID ''Data3'', OFFSET_OF GUID ''Data4'') of
        ((Data1, Data2, Data3, Data4), Some o1, Some o2, Some o3, Some o4) \<Rightarrow>
          bindr (store m (a + o1) Data1) (\<lambda>m. bindr (store m (a + o2) Data2) (\<lambda>m.
            bindr (store m (a + o3) Data3) (\<lambda>m. store_bytes m (a + o4) Data4)))
      | _ \<Rightarrow> Inl BadAddress)"

definition read_guid :: "mem \<Rightarrow> UINTN \<Rightarrow> guid res" where
  "read_guid m a =
     (case (OFFSET_OF GUID ''Data1'', OFFSET_OF GUID ''Data2'', OFFSET_OF GUID ''Data3'', OFFSET_OF GUID ''Data4'') of
        (Some o1, Some o2, Some o3, Some o4) \<Rightarrow>
          bindr (load m (a + o1)) (\<lambda>Data1. bindr (load m (a + o2)) (\<lambda>Data2. bindr (load m (a + o3)) (\<lambda>Data3.
            bindr (load_bytes m (a + o4) 8) (\<lambda>Data4. Inr (Data1, Data2, Data3, Data4)))))
      | _ \<Rightarrow> Inl BadAddress)"

definition guid_bytes :: "guid \<Rightarrow> UINT8 list" where
  "guid_bytes = (\<lambda>(Data1, Data2, Data3, Data4). le_bytes 4 Data1 @ le_bytes 2 Data2 @ le_bytes 2 Data3 @ Data4)"

section \<open>AutoGen.c\<close>

definition gEfiCallerIdGuid :: guid where [guids]:
  "gEfiCallerIdGuid = (0xFDBA06BF, 0x0785, 0x40FE,
     [0x92, 0x66, 0x4A, 0x9B, 0xE8, 0x73, 0x1C, 0x24])"

definition gEdkiiDscPlatformGuid :: guid where [guids]:
  "gEdkiiDscPlatformGuid = (0xB04C9282, 0x097B, 0x4616,
     [0x87, 0x12, 0x1E, 0x4E, 0x55, 0x02, 0xA1, 0xE7])"

definition gEfiMdePkgTokenSpaceGuid :: guid where [guids]:
  "gEfiMdePkgTokenSpaceGuid = (0x914AEBE7, 0x4635, 0x459B,
     [0xAA, 0x1C, 0x11, 0xE2, 0x19, 0xB0, 0x3A, 0x10])"

definition gEfiStatusCodeSpecificDataGuid :: guid where [guids]:
  "gEfiStatusCodeSpecificDataGuid = (0x335984BD, 0xE805, 0x409A,
     [0xB8, 0xF8, 0xD2, 0x7E, 0xCE, 0x5F, 0xF7, 0xA6])"

definition gEfiStatusCodeDataTypeDebugGuid :: guid where [guids]:
  "gEfiStatusCodeDataTypeDebugGuid = (0x9A4E9246, 0xD553, 0x11D5,
     [0x87, 0xE2, 0x00, 0x06, 0x29, 0x45, 0xC3, 0xB9])"

definition gEfiVTUTF8Guid :: guid where [guids]:
  "gEfiVTUTF8Guid = (0xAD15A0D6, 0x8BEC, 0x4ACF,
     [0xA0, 0x73, 0xD0, 0x1D, 0xE7, 0x7E, 0x2D, 0x88])"

definition gEfiVT100Guid :: guid where [guids]:
  "gEfiVT100Guid = (0xDFA66065, 0xB419, 0x11D3,
     [0x9A, 0x2D, 0x00, 0x90, 0x27, 0x3F, 0xC1, 0x4D])"

definition gEfiVT100PlusGuid :: guid where [guids]:
  "gEfiVT100PlusGuid = (0x7BAEC70B, 0x57E0, 0x4C76,
     [0x8E, 0x87, 0x2F, 0x9E, 0x28, 0x08, 0x83, 0x43])"

definition gEfiPcAnsiGuid :: guid where [guids]:
  "gEfiPcAnsiGuid = (0xE0C14753, 0xF9BE, 0x11D2,
     [0x9A, 0x0C, 0x00, 0x90, 0x27, 0x3F, 0xC1, 0x4D])"

definition gEfiUartDevicePathGuid :: guid where [guids]:
  "gEfiUartDevicePathGuid = (0x37499A9D, 0x542F, 0x4C89,
     [0xA0, 0x26, 0x35, 0xDA, 0x14, 0x20, 0x94, 0xE4])"

definition gEfiSasDevicePathGuid :: guid where [guids]:
  "gEfiSasDevicePathGuid = (0xD487DDB4, 0x008B, 0x11D9,
     [0xAF, 0xDC, 0x00, 0x10, 0x83, 0xFF, 0xCA, 0x4D])"

definition gEfiVirtualDiskGuid :: guid where [guids]:
  "gEfiVirtualDiskGuid = (0x77AB535A, 0x45FC, 0x624B,
     [0x55, 0x60, 0xF7, 0xB2, 0x81, 0xD1, 0xF9, 0x6E])"

definition gEfiVirtualCdGuid :: guid where [guids]:
  "gEfiVirtualCdGuid = (0x3D5ABD30, 0x4175, 0x87CE,
     [0x6D, 0x64, 0xD2, 0xAD, 0xE5, 0x23, 0xC4, 0xBB])"

definition gEfiPersistentVirtualDiskGuid :: guid where [guids]:
  "gEfiPersistentVirtualDiskGuid = (0x5CEA02C9, 0x4D07, 0x69D3,
     [0x26, 0x9F, 0x44, 0x96, 0xFB, 0xE0, 0x96, 0xF9])"

definition gEfiPersistentVirtualCdGuid :: guid where [guids]:
  "gEfiPersistentVirtualCdGuid = (0x08018188, 0x42CD, 0xBB48,
     [0x10, 0x0F, 0x53, 0x87, 0xD5, 0x3D, 0xED, 0x3D])"

definition gEfiEventReadyToBootGuid :: guid where [guids]:
  "gEfiEventReadyToBootGuid = (0x7CE88FB3, 0x4BD7, 0x4679,
     [0x87, 0xA8, 0xA8, 0xD8, 0xDE, 0xE5, 0x0D, 0x2B])"

definition gEfiEventLegacyBootGuid :: guid where [guids]:
  "gEfiEventLegacyBootGuid = (0x2A571201, 0x4966, 0x47F6,
     [0x8B, 0x86, 0xF3, 0x1E, 0x41, 0xF3, 0x2F, 0x10])"

definition gEfiGlobalVariableGuid :: guid where [guids]:
  "gEfiGlobalVariableGuid = (0x8BE4DF61, 0x93CA, 0x11D2,
     [0xAA, 0x0D, 0x00, 0xE0, 0x98, 0x03, 0x2B, 0x8C])"

definition gEfiAcpi20TableGuid :: guid where [guids]:
  "gEfiAcpi20TableGuid = (0x8868E871, 0xE4F1, 0x11D3,
     [0xBC, 0x22, 0x00, 0x80, 0xC7, 0x3C, 0x88, 0x81])"

definition gEfiAcpi10TableGuid :: guid where [guids]:
  "gEfiAcpi10TableGuid = (0xEB9D2D30, 0x2D88, 0x11D3,
     [0x9A, 0x16, 0x00, 0x90, 0x27, 0x3F, 0xC1, 0x4D])"

definition gEfiStatusCodeRuntimeProtocolGuid :: guid where [guids]:
  "gEfiStatusCodeRuntimeProtocolGuid = (0xD2B2B828, 0x0826, 0x48A7,
     [0xB3, 0xDF, 0x98, 0x3C, 0x00, 0x60, 0x24, 0xF0])"

definition gEfiDevicePathProtocolGuid :: guid where [guids]:
  "gEfiDevicePathProtocolGuid = (0x09576E91, 0x6D3F, 0x11D2,
     [0x8E, 0x39, 0x00, 0xA0, 0xC9, 0x69, 0x72, 0x3B])"

definition gEfiDebugPortProtocolGuid :: guid where [guids]:
  "gEfiDebugPortProtocolGuid = (0xEBA4E8D2, 0x3858, 0x41EC,
     [0xA2, 0x81, 0x26, 0x47, 0xBA, 0x96, 0x60, 0xD0])"

definition gEfiDriverBindingProtocolGuid :: guid where [guids]:
  "gEfiDriverBindingProtocolGuid = (0x18A031AB, 0xB443, 0x4D1A,
     [0xA5, 0xC0, 0x0C, 0x09, 0x26, 0x1E, 0x9F, 0x71])"

definition gEfiSimpleTextOutProtocolGuid :: guid where [guids]:
  "gEfiSimpleTextOutProtocolGuid = (0x387477C2, 0x69C7, 0x11D2,
     [0x8E, 0x39, 0x00, 0xA0, 0xC9, 0x69, 0x72, 0x3B])"

definition gEfiGraphicsOutputProtocolGuid :: guid where [guids]:
  "gEfiGraphicsOutputProtocolGuid = (0x9042A9DE, 0x23DC, 0x4A38,
     [0x96, 0xFB, 0x7A, 0xDE, 0xD0, 0x80, 0x51, 0x6A])"

definition gEfiHiiFontProtocolGuid :: guid where [guids]:
  "gEfiHiiFontProtocolGuid = (0xE9CA4775, 0x8657, 0x47FC,
     [0x97, 0xE7, 0x7E, 0xD6, 0x5A, 0x08, 0x43, 0x24])"

definition gEfiSimpleFileSystemProtocolGuid :: guid where [guids]:
  "gEfiSimpleFileSystemProtocolGuid = (0x964E5B22, 0x6459, 0x11D2,
     [0x8E, 0x39, 0x00, 0xA0, 0xC9, 0x69, 0x72, 0x3B])"

definition gEfiUgaDrawProtocolGuid :: guid where [guids]:
  "gEfiUgaDrawProtocolGuid = (0x982C298B, 0xF4FA, 0x41CB,
     [0xB8, 0x38, 0x77, 0xAA, 0x68, 0x8F, 0xB8, 0x39])"

definition gEfiComponentNameProtocolGuid :: guid where [guids]:
  "gEfiComponentNameProtocolGuid = (0x107A772C, 0xD5E1, 0x11D4,
     [0x9A, 0x46, 0x00, 0x90, 0x27, 0x3F, 0xC1, 0x4D])"

definition gEfiComponentName2ProtocolGuid :: guid where [guids]:
  "gEfiComponentName2ProtocolGuid = (0x6A7A5CFF, 0xE8D9, 0x4F70,
     [0xBA, 0xDA, 0x75, 0xAB, 0x30, 0x25, 0xCE, 0x14])"

definition gEfiDriverConfigurationProtocolGuid :: guid where [guids]:
  "gEfiDriverConfigurationProtocolGuid = (0x107A772B, 0xD5E1, 0x11D4,
     [0x9A, 0x46, 0x00, 0x90, 0x27, 0x3F, 0xC1, 0x4D])"

definition gEfiDriverConfiguration2ProtocolGuid :: guid where [guids]:
  "gEfiDriverConfiguration2ProtocolGuid = (0xBFD7DC1D, 0x24F1, 0x40D9,
     [0x82, 0xE7, 0x2E, 0x09, 0xBB, 0x6B, 0x4E, 0xBE])"

definition gEfiDriverDiagnosticsProtocolGuid :: guid where [guids]:
  "gEfiDriverDiagnosticsProtocolGuid = (0x0784924F, 0xE296, 0x11D4,
     [0x9A, 0x49, 0x00, 0x90, 0x27, 0x3F, 0xC1, 0x4D])"

definition gEfiDriverDiagnostics2ProtocolGuid :: guid where [guids]:
  "gEfiDriverDiagnostics2ProtocolGuid = (0x4D330321, 0x025F, 0x4AAC,
     [0x90, 0xD8, 0x5E, 0xD9, 0x00, 0x17, 0x3B, 0x63])"

section \<open>The macros of the headers\<close>

definition EFI_PC_ANSI_GUID :: guid where [guids]:
  "EFI_PC_ANSI_GUID = (0xE0C14753, 0xF9BE, 0x11D2,
     [0x9A, 0x0C, 0x00, 0x90, 0x27, 0x3F, 0xC1, 0x4D])"

definition EFI_VT_100_GUID :: guid where [guids]:
  "EFI_VT_100_GUID = (0xDFA66065, 0xB419, 0x11D3,
     [0x9A, 0x2D, 0x00, 0x90, 0x27, 0x3F, 0xC1, 0x4D])"

definition EFI_VT_100_PLUS_GUID :: guid where [guids]:
  "EFI_VT_100_PLUS_GUID = (0x7BAEC70B, 0x57E0, 0x4C76,
     [0x8E, 0x87, 0x2F, 0x9E, 0x28, 0x08, 0x83, 0x43])"

definition EFI_VT_UTF8_GUID :: guid where [guids]:
  "EFI_VT_UTF8_GUID = (0xAD15A0D6, 0x8BEC, 0x4ACF,
     [0xA0, 0x73, 0xD0, 0x1D, 0xE7, 0x7E, 0x2D, 0x88])"

definition DEVICE_PATH_MESSAGING_UART_FLOW_CONTROL :: guid where [guids]:
  "DEVICE_PATH_MESSAGING_UART_FLOW_CONTROL = (0x37499A9D, 0x542F, 0x4C89,
     [0xA0, 0x26, 0x35, 0xDA, 0x14, 0x20, 0x94, 0xE4])"

definition EFI_SAS_DEVICE_PATH_GUID :: guid where [guids]:
  "EFI_SAS_DEVICE_PATH_GUID = (0xD487DDB4, 0x008B, 0x11D9,
     [0xAF, 0xDC, 0x00, 0x10, 0x83, 0xFF, 0xCA, 0x4D])"

definition EFI_DEVICE_PATH_PROTOCOL_GUID :: guid where [guids]:
  "EFI_DEVICE_PATH_PROTOCOL_GUID = (0x09576E91, 0x6D3F, 0x11D2,
     [0x8E, 0x39, 0x00, 0xA0, 0xC9, 0x69, 0x72, 0x3B])"

definition EFI_SIMPLE_TEXT_INPUT_PROTOCOL_GUID :: guid where [guids]:
  "EFI_SIMPLE_TEXT_INPUT_PROTOCOL_GUID = (0x387477C1, 0x69C7, 0x11D2,
     [0x8E, 0x39, 0x00, 0xA0, 0xC9, 0x69, 0x72, 0x3B])"

definition EFI_SIMPLE_TEXT_INPUT_EX_PROTOCOL_GUID :: guid where [guids]:
  "EFI_SIMPLE_TEXT_INPUT_EX_PROTOCOL_GUID = (0xDD9E7534, 0x7762, 0x4698,
     [0x8C, 0x14, 0xF5, 0x85, 0x17, 0xA6, 0x25, 0xAA])"

definition EFI_SIMPLE_TEXT_OUTPUT_PROTOCOL_GUID :: guid where [guids]:
  "EFI_SIMPLE_TEXT_OUTPUT_PROTOCOL_GUID = (0x387477C2, 0x69C7, 0x11D2,
     [0x8E, 0x39, 0x00, 0xA0, 0xC9, 0x69, 0x72, 0x3B])"

definition EFI_CERT_TYPE_RSA2048_SHA256_GUID :: guid where [guids]:
  "EFI_CERT_TYPE_RSA2048_SHA256_GUID = (0xA7717414, 0xC616, 0x4977,
     [0x94, 0x20, 0x84, 0x47, 0x12, 0xA7, 0x35, 0xBF])"

definition EFI_HII_STANDARD_FORM_GUID :: guid where [guids]:
  "EFI_HII_STANDARD_FORM_GUID = (0x3BD2F4EC, 0xE524, 0x46E4,
     [0xA9, 0xD8, 0x51, 0x01, 0x17, 0x42, 0x55, 0x62])"

definition EFI_ACPI_6_0_NFIT_GUID_VOLATILE_MEMORY_REGION :: guid where [guids]:
  "EFI_ACPI_6_0_NFIT_GUID_VOLATILE_MEMORY_REGION = (0x7305944F, 0xFDDA, 0x44E3,
     [0xB1, 0x6C, 0x3F, 0x22, 0xD2, 0x52, 0xE5, 0xD0])"

definition EFI_ACPI_6_0_NFIT_GUID_BYTE_ADDRESSABLE_PERSISTENT_MEMORY_REGION :: guid where [guids]:
  "EFI_ACPI_6_0_NFIT_GUID_BYTE_ADDRESSABLE_PERSISTENT_MEMORY_REGION = (0x66F0D379, 0xB4F3, 0x4074,
     [0xAC, 0x43, 0x0D, 0x33, 0x18, 0xB7, 0x8C, 0xDB])"

definition EFI_ACPI_6_0_NFIT_GUID_NVDIMM_CONTROL_REGION :: guid where [guids]:
  "EFI_ACPI_6_0_NFIT_GUID_NVDIMM_CONTROL_REGION = (0x92F701F6, 0x13B4, 0x405D,
     [0x91, 0x0B, 0x29, 0x93, 0x67, 0xE8, 0x23, 0x4C])"

definition EFI_ACPI_6_0_NFIT_GUID_NVDIMM_BLOCK_DATA_WINDOW_REGION :: guid where [guids]:
  "EFI_ACPI_6_0_NFIT_GUID_NVDIMM_BLOCK_DATA_WINDOW_REGION = (0x91AF0530, 0x5D86, 0x470E,
     [0xA6, 0xB0, 0x0A, 0x2D, 0xB9, 0x40, 0x82, 0x49])"

definition EFI_ACPI_6_0_NFIT_GUID_RAM_DISK_SUPPORTING_VIRTUAL_DISK_REGION_VOLATILE :: guid where [guids]:
  "EFI_ACPI_6_0_NFIT_GUID_RAM_DISK_SUPPORTING_VIRTUAL_DISK_REGION_VOLATILE = (0x77AB535A, 0x45FC, 0x624B,
     [0x55, 0x60, 0xF7, 0xB2, 0x81, 0xD1, 0xF9, 0x6E])"

definition EFI_ACPI_6_0_NFIT_GUID_RAM_DISK_SUPPORTING_VIRTUAL_CD_REGION_VOLATILE :: guid where [guids]:
  "EFI_ACPI_6_0_NFIT_GUID_RAM_DISK_SUPPORTING_VIRTUAL_CD_REGION_VOLATILE = (0x3D5ABD30, 0x4175, 0x87CE,
     [0x6D, 0x64, 0xD2, 0xAD, 0xE5, 0x23, 0xC4, 0xBB])"

definition EFI_ACPI_6_0_NFIT_GUID_RAM_DISK_SUPPORTING_VIRTUAL_DISK_REGION_PERSISTENT :: guid where [guids]:
  "EFI_ACPI_6_0_NFIT_GUID_RAM_DISK_SUPPORTING_VIRTUAL_DISK_REGION_PERSISTENT = (0x5CEA02C9, 0x4D07, 0x69D3,
     [0x26, 0x9F, 0x44, 0x96, 0xFB, 0xE0, 0x96, 0xF9])"

definition EFI_ACPI_6_0_NFIT_GUID_RAM_DISK_SUPPORTING_VIRTUAL_CD_REGION_PERSISTENT :: guid where [guids]:
  "EFI_ACPI_6_0_NFIT_GUID_RAM_DISK_SUPPORTING_VIRTUAL_CD_REGION_PERSISTENT = (0x08018188, 0x42CD, 0xBB48,
     [0x10, 0x0F, 0x53, 0x87, 0xD5, 0x3D, 0xED, 0x3D])"

definition EFI_CALLER_ID_GUID :: guid where [guids]:
  "EFI_CALLER_ID_GUID = (0xFDBA06BF, 0x0785, 0x40FE,
     [0x92, 0x66, 0x4A, 0x9B, 0xE8, 0x73, 0x1C, 0x24])"

definition EDKII_DSC_PLATFORM_GUID :: guid where [guids]:
  "EDKII_DSC_PLATFORM_GUID = (0xB04C9282, 0x097B, 0x4616,
     [0x87, 0x12, 0x1E, 0x4E, 0x55, 0x02, 0xA1, 0xE7])"

definition EFI_VIRTUAL_DISK_GUID :: guid where [guids]:
  "EFI_VIRTUAL_DISK_GUID = EFI_ACPI_6_0_NFIT_GUID_RAM_DISK_SUPPORTING_VIRTUAL_DISK_REGION_VOLATILE"

definition EFI_VIRTUAL_CD_GUID :: guid where [guids]:
  "EFI_VIRTUAL_CD_GUID = EFI_ACPI_6_0_NFIT_GUID_RAM_DISK_SUPPORTING_VIRTUAL_CD_REGION_VOLATILE"

definition EFI_PERSISTENT_VIRTUAL_DISK_GUID :: guid where [guids]:
  "EFI_PERSISTENT_VIRTUAL_DISK_GUID = EFI_ACPI_6_0_NFIT_GUID_RAM_DISK_SUPPORTING_VIRTUAL_DISK_REGION_PERSISTENT"

definition EFI_PERSISTENT_VIRTUAL_CD_GUID :: guid where [guids]:
  "EFI_PERSISTENT_VIRTUAL_CD_GUID = EFI_ACPI_6_0_NFIT_GUID_RAM_DISK_SUPPORTING_VIRTUAL_CD_REGION_PERSISTENT"

definition DEVICE_PATH_PROTOCOL :: guid where [guids]:
  "DEVICE_PATH_PROTOCOL = EFI_DEVICE_PATH_PROTOCOL_GUID"

definition DEVICE_PATH_MESSAGING_PC_ANSI :: guid where [guids]:
  "DEVICE_PATH_MESSAGING_PC_ANSI = EFI_PC_ANSI_GUID"

definition DEVICE_PATH_MESSAGING_VT_100 :: guid where [guids]:
  "DEVICE_PATH_MESSAGING_VT_100 = EFI_VT_100_GUID"

definition DEVICE_PATH_MESSAGING_VT_100_PLUS :: guid where [guids]:
  "DEVICE_PATH_MESSAGING_VT_100_PLUS = EFI_VT_100_PLUS_GUID"

definition DEVICE_PATH_MESSAGING_VT_UTF8 :: guid where [guids]:
  "DEVICE_PATH_MESSAGING_VT_UTF8 = EFI_VT_UTF8_GUID"

definition DEVICE_PATH_MESSAGING_SAS :: guid where [guids]:
  "DEVICE_PATH_MESSAGING_SAS = EFI_SAS_DEVICE_PATH_GUID"

definition SIMPLE_TEXT_OUTPUT_PROTOCOL :: guid where [guids]:
  "SIMPLE_TEXT_OUTPUT_PROTOCOL = EFI_SIMPLE_TEXT_OUTPUT_PROTOCOL_GUID"

definition SIMPLE_INPUT_PROTOCOL :: guid where [guids]:
  "SIMPLE_INPUT_PROTOCOL = EFI_SIMPLE_TEXT_INPUT_PROTOCOL_GUID"

section \<open>Tables\<close>

definition application_guids :: "(string \<times> guid) list" where
  "application_guids =
     [(''gEfiCallerIdGuid'', gEfiCallerIdGuid),
      (''gEdkiiDscPlatformGuid'', gEdkiiDscPlatformGuid),
      (''gEfiMdePkgTokenSpaceGuid'', gEfiMdePkgTokenSpaceGuid),
      (''gEfiStatusCodeSpecificDataGuid'', gEfiStatusCodeSpecificDataGuid),
      (''gEfiStatusCodeDataTypeDebugGuid'', gEfiStatusCodeDataTypeDebugGuid),
      (''gEfiVTUTF8Guid'', gEfiVTUTF8Guid), (''gEfiVT100Guid'', gEfiVT100Guid),
      (''gEfiVT100PlusGuid'', gEfiVT100PlusGuid), (''gEfiPcAnsiGuid'', gEfiPcAnsiGuid),
      (''gEfiUartDevicePathGuid'', gEfiUartDevicePathGuid),
      (''gEfiSasDevicePathGuid'', gEfiSasDevicePathGuid),
      (''gEfiVirtualDiskGuid'', gEfiVirtualDiskGuid),
      (''gEfiVirtualCdGuid'', gEfiVirtualCdGuid),
      (''gEfiPersistentVirtualDiskGuid'', gEfiPersistentVirtualDiskGuid),
      (''gEfiPersistentVirtualCdGuid'', gEfiPersistentVirtualCdGuid),
      (''gEfiEventReadyToBootGuid'', gEfiEventReadyToBootGuid),
      (''gEfiEventLegacyBootGuid'', gEfiEventLegacyBootGuid),
      (''gEfiGlobalVariableGuid'', gEfiGlobalVariableGuid),
      (''gEfiAcpi20TableGuid'', gEfiAcpi20TableGuid),
      (''gEfiAcpi10TableGuid'', gEfiAcpi10TableGuid),
      (''gEfiStatusCodeRuntimeProtocolGuid'', gEfiStatusCodeRuntimeProtocolGuid),
      (''gEfiDevicePathProtocolGuid'', gEfiDevicePathProtocolGuid),
      (''gEfiDebugPortProtocolGuid'', gEfiDebugPortProtocolGuid),
      (''gEfiDriverBindingProtocolGuid'', gEfiDriverBindingProtocolGuid),
      (''gEfiSimpleTextOutProtocolGuid'', gEfiSimpleTextOutProtocolGuid),
      (''gEfiGraphicsOutputProtocolGuid'', gEfiGraphicsOutputProtocolGuid),
      (''gEfiHiiFontProtocolGuid'', gEfiHiiFontProtocolGuid),
      (''gEfiSimpleFileSystemProtocolGuid'', gEfiSimpleFileSystemProtocolGuid),
      (''gEfiUgaDrawProtocolGuid'', gEfiUgaDrawProtocolGuid),
      (''gEfiComponentNameProtocolGuid'', gEfiComponentNameProtocolGuid),
      (''gEfiComponentName2ProtocolGuid'', gEfiComponentName2ProtocolGuid),
      (''gEfiDriverConfigurationProtocolGuid'', gEfiDriverConfigurationProtocolGuid),
      (''gEfiDriverConfiguration2ProtocolGuid'', gEfiDriverConfiguration2ProtocolGuid),
      (''gEfiDriverDiagnosticsProtocolGuid'', gEfiDriverDiagnosticsProtocolGuid),
      (''gEfiDriverDiagnostics2ProtocolGuid'', gEfiDriverDiagnostics2ProtocolGuid)]"

text \<open>The macros of the headers with the variables of the same meaning.\<close>

definition header_guids :: "(guid \<times> guid) list" where
  "header_guids =
     [(EFI_PC_ANSI_GUID, gEfiPcAnsiGuid), (EFI_VT_100_GUID, gEfiVT100Guid),
      (EFI_VT_100_PLUS_GUID, gEfiVT100PlusGuid), (EFI_VT_UTF8_GUID, gEfiVTUTF8Guid),
      (EFI_SAS_DEVICE_PATH_GUID, gEfiSasDevicePathGuid),
      (EFI_DEVICE_PATH_PROTOCOL_GUID, gEfiDevicePathProtocolGuid),
      (EFI_SIMPLE_TEXT_OUTPUT_PROTOCOL_GUID, gEfiSimpleTextOutProtocolGuid),
      (EFI_ACPI_6_0_NFIT_GUID_RAM_DISK_SUPPORTING_VIRTUAL_DISK_REGION_VOLATILE, gEfiVirtualDiskGuid),
      (EFI_ACPI_6_0_NFIT_GUID_RAM_DISK_SUPPORTING_VIRTUAL_CD_REGION_VOLATILE, gEfiVirtualCdGuid),
      (EFI_ACPI_6_0_NFIT_GUID_RAM_DISK_SUPPORTING_VIRTUAL_DISK_REGION_PERSISTENT, gEfiPersistentVirtualDiskGuid),
      (EFI_ACPI_6_0_NFIT_GUID_RAM_DISK_SUPPORTING_VIRTUAL_CD_REGION_PERSISTENT, gEfiPersistentVirtualCdGuid),
      (EFI_CALLER_ID_GUID, gEfiCallerIdGuid), (EDKII_DSC_PLATFORM_GUID, gEdkiiDscPlatformGuid),
      (EFI_VIRTUAL_DISK_GUID, gEfiVirtualDiskGuid), (EFI_VIRTUAL_CD_GUID, gEfiVirtualCdGuid),
      (EFI_PERSISTENT_VIRTUAL_DISK_GUID, gEfiPersistentVirtualDiskGuid),
      (EFI_PERSISTENT_VIRTUAL_CD_GUID, gEfiPersistentVirtualCdGuid),
      (DEVICE_PATH_MESSAGING_UART_FLOW_CONTROL, gEfiUartDevicePathGuid),
      (DEVICE_PATH_PROTOCOL, gEfiDevicePathProtocolGuid),
      (DEVICE_PATH_MESSAGING_PC_ANSI, gEfiPcAnsiGuid),
      (DEVICE_PATH_MESSAGING_VT_100, gEfiVT100Guid),
      (DEVICE_PATH_MESSAGING_VT_100_PLUS, gEfiVT100PlusGuid),
      (DEVICE_PATH_MESSAGING_VT_UTF8, gEfiVTUTF8Guid),
      (DEVICE_PATH_MESSAGING_SAS, gEfiSasDevicePathGuid),
      (SIMPLE_TEXT_OUTPUT_PROTOCOL, gEfiSimpleTextOutProtocolGuid)]"

text \<open>The other macros of the headers that are GUIDs; no variable of the application has their values.\<close>

definition further_guids :: "guid list" where
  "further_guids =
     [EFI_CERT_TYPE_RSA2048_SHA256_GUID, EFI_HII_STANDARD_FORM_GUID, EFI_SIMPLE_TEXT_INPUT_PROTOCOL_GUID,
      SIMPLE_INPUT_PROTOCOL, EFI_SIMPLE_TEXT_INPUT_EX_PROTOCOL_GUID,
      EFI_ACPI_6_0_NFIT_GUID_VOLATILE_MEMORY_REGION,
      EFI_ACPI_6_0_NFIT_GUID_BYTE_ADDRESSABLE_PERSISTENT_MEMORY_REGION,
      EFI_ACPI_6_0_NFIT_GUID_NVDIMM_CONTROL_REGION,
      EFI_ACPI_6_0_NFIT_GUID_NVDIMM_BLOCK_DATA_WINDOW_REGION]"

lemma guid_offsets:
  "OFFSET_OF GUID ''Data1'' = Some 0" "OFFSET_OF GUID ''Data2'' = Some 4" "OFFSET_OF GUID ''Data3'' = Some 6"
  "OFFSET_OF GUID ''Data4'' = Some 8" "sizeof_type GUID = 16"
  by (simp_all add: OFFSET_OF_def layouts place_def round_up_def)

lemma guids_distinct: "distinct (map snd application_guids)"
  by (simp add: application_guids_def guids)

lemma guid_lengths: "list_all (\<lambda>(n, d1, d2, d3, d4). length d4 = 8) application_guids"
  by (simp add: application_guids_def guids)

lemma headers_agree: "list_all (\<lambda>(x, y). x = y) header_guids"
  by (simp add: header_guids_def guids)

lemma further_guids_unused: "list_all (\<lambda>g. g \<notin> set (map snd application_guids)) further_guids"
  by (simp add: application_guids_def further_guids_def guids)

section \<open>A GUID stored\<close>

lemma store_guid_bytes:
  assumes "buffer m a 16" "length (snd (snd (snd g))) = 8"
  shows "store_guid m a g = Inr (overlay m a (guid_bytes g))"
proof -
  obtain d1 d2 d3 d4 where g: "g = (d1, d2, d3, d4)" by (cases g)
  have s: "sizeof_word d1 = 4" "sizeof_word d2 = 2" "sizeof_word d3 = 2" by (simp_all add: sizeof_word_def)
  note o = store_bytes_overlay [OF assms(1)]
  show ?thesis
    using o [of "[]" "le_bytes 4 d1"] o [of "le_bytes 4 d1" "le_bytes 2 d2"]
      o [of "le_bytes 4 d1 @ le_bytes 2 d2" "le_bytes 2 d3"]
      o [of "le_bytes 4 d1 @ le_bytes 2 d2 @ le_bytes 2 d3" d4] assms(2)
    by (simp add: g store_guid_def guid_bytes_def guid_offsets store_def s)
qed

lemma read_guid_bytes:
  assumes "bytes_at m a (guid_bytes g)" "length (snd (snd (snd g))) = 8"
  shows "read_guid m a = Inr g"
proof -
  obtain d1 d2 d3 d4 where g: "g = (d1, d2, d3, d4)" by (cases g)
  have "bytes_at m a (le_bytes 4 d1)" "bytes_at m (a + 4) (le_bytes 2 d2)" "bytes_at m (a + 6) (le_bytes 2 d3)"
    "bytes_at m (a + 8) d4"
    using assms(1) by (simp_all add: g guid_bytes_def bytes_at_append algebra_simps)
  then have "load m a = Inr (le_word (le_bytes 4 d1) :: UINT32)" "load m (a + 4) = Inr (le_word (le_bytes 2 d2) :: UINT16)"
    "load m (a + 6) = Inr (le_word (le_bytes 2 d3) :: UINT16)" "load_bytes m (a + 8) 8 = Inr d4"
    using assms(2) by (auto intro!: load_at simp: sizeof_word_def load_bytes_iff g simp del: load_bytes.simps)
  then show ?thesis
    by (simp add: g read_guid_def guid_offsets le_word_le_bytes del: load_bytes.simps)
qed

section \<open>Properties\<close>

text \<open>
  C32. GUIDs of the application: each, stored member by member, fills the 16 bytes of the structure
  without padding, reads back, and changes nothing else; no other one has these bytes, so that a
  comparison of the bytes tells them apart. Every macro of the headers that names one of them has
  its value, and every other GUID macro of the headers has a value that none of them has.
\<close>

theorem guid_table:
  assumes "(n, g) \<in> set application_guids" "buffer m a (sizeof_type GUID)"
  shows "(\<exists>m'. store_guid m a g = Inr m' \<and> read_guid m' a = Inr g \<and>
      load_bytes m' a (sizeof_type GUID) = Inr (guid_bytes g) \<and>
      (\<forall>k h. (k, h) \<in> set application_guids \<and> load_bytes m' a (sizeof_type GUID) = Inr (guid_bytes h) \<longrightarrow> k = n) \<and>
      (\<forall>b j. apart b j a (sizeof_type GUID) \<longrightarrow> load_bytes m' b j = load_bytes m b j)) \<and>
    (\<forall>(x, y) \<in> set header_guids. x = y) \<and>
    (\<forall>x \<in> set further_guids. x \<notin> snd ` set application_guids)"
proof (intro conjI)
  have l: "length (snd (snd (snd h))) = 8" if "(k, h) \<in> set application_guids" for k h
    using guid_lengths that by (auto simp: list_all_iff)
  have "length (guid_bytes g) = 16" using l [OF assms(1)] by (auto simp: guid_bytes_def split: prod.splits)
  let ?m = "overlay m a (guid_bytes g)"
  have b: "buffer m a 16" using assms(2) by (simp only: guid_offsets)
  have at: "bytes_at ?m a (guid_bytes g)" by (rule bytes_at_overlay [OF b]) (simp add: \<open>length (guid_bytes g) = 16\<close>)
  then have lb: "load_bytes ?m a 16 = Inr (guid_bytes g)"
    by (simp only: load_bytes_iff) (simp add: \<open>length (guid_bytes g) = 16\<close>)
  have only: "k = n" if h: "(k, h) \<in> set application_guids" "load_bytes ?m a 16 = Inr (guid_bytes h)" for k h
  proof -
    have "bytes_at ?m a (guid_bytes h)" using h(2) by (simp only: load_bytes_iff)
    then have "read_guid ?m a = Inr h" by (rule read_guid_bytes) (rule l [OF h(1)])
    moreover have "read_guid ?m a = Inr g" by (rule read_guid_bytes [OF at l [OF assms(1)]])
    ultimately have "h = g" by simp
    with h(1) assms(1) guids_distinct show "k = n" by (metis distinct_map eq_snd_iff inj_onD prod.inject snd_conv)
  qed
  have fr: "load_bytes ?m b j = load_bytes m b j" if "apart b j a 16" for b j
    by (rule load_bytes_apart [OF that]) (simp add: \<open>length (guid_bytes g) = 16\<close>)
  show "\<exists>m'. store_guid m a g = Inr m' \<and> read_guid m' a = Inr g \<and>
      load_bytes m' a (sizeof_type GUID) = Inr (guid_bytes g) \<and>
      (\<forall>k h. (k, h) \<in> set application_guids \<and> load_bytes m' a (sizeof_type GUID) = Inr (guid_bytes h) \<longrightarrow> k = n) \<and>
      (\<forall>b j. apart b j a (sizeof_type GUID) \<longrightarrow> load_bytes m' b j = load_bytes m b j)"
    unfolding guid_offsets
    by (rule exI [of _ ?m], intro conjI allI impI)
      (rule store_guid_bytes [OF b l [OF assms(1)]] read_guid_bytes [OF at l [OF assms(1)]] lb | elim conjE, erule (1) only | erule fr)+
  show "\<forall>(x, y) \<in> set header_guids. x = y" using headers_agree by (simp only: list_all_iff)
  show "\<forall>x \<in> set further_guids. x \<notin> snd ` set application_guids"
    using further_guids_unused by (simp only: list_all_iff set_map)
qed

theorem guid_table_witness:
  "\<exists>m'. store_guid (sample_mem 64 (replicate 16 0)) 64 gEfiDevicePathProtocolGuid = Inr m' \<and>
    load_bytes m' 64 16 = Inr [0x91, 0x6E, 0x57, 0x09, 0x3F, 0x6D, 0xD2, 0x11, 0x8E, 0x39, 0x00, 0xA0, 0xC9, 0x69, 0x72, 0x3B]"
proof -
  have e: "(''gEfiDevicePathProtocolGuid'', gEfiDevicePathProtocolGuid) \<in> set application_guids"
    by (simp add: application_guids_def)
  have b: "buffer (sample_mem 64 (replicate 16 0)) 64 (sizeof_type GUID)"
    using sample_buffer [of 64 "replicate 16 0" 0 16] by (simp add: guid_offsets)
  have g: "guid_bytes gEfiDevicePathProtocolGuid =
      [0x91, 0x6E, 0x57, 0x09, 0x3F, 0x6D, 0xD2, 0x11, 0x8E, 0x39, 0x00, 0xA0, 0xC9, 0x69, 0x72, 0x3B]"
    by code_simp
  from guid_table [OF e b, THEN conjunct1] show ?thesis unfolding guid_offsets g by blast
qed

end
