(* ===== verification/Var_Args.thy ===== *)
theory Var_Args imports Object_Access begin

text \<open>
  Variable argument lists in memory (\<open>Base.h\<close>): the size macros, \<open>BASE_ARG\<close>, which reads the next
  argument and moves the marker, with the arguments in slots of the size of \<open>UINTN\<close>, and the
  \<open>VA_\<close> macros as three groups of compilers define them; the compiler's own \<open>__builtin_va_arg\<close> is an
  argument of the third.
\<close>

section \<open>Definitions\<close>

definition INT_SIZE_OF :: "UINTN \<Rightarrow> UINTN" where
  "INT_SIZE_OF n = (n + 8 - 1) AND NOT (8 - 1)"

definition BASE_INT_SIZE_OF :: "UINTN \<Rightarrow> UINTN" where
  "BASE_INT_SIZE_OF n = (n + 8 - 1) div 8"

text \<open>The value read and the moved marker, a pointer to \<open>UINTN\<close>.\<close>

definition BASE_ARG :: "mem \<Rightarrow> UINTN \<Rightarrow> ('a::len word \<times> UINTN) res" where
  "BASE_ARG m Marker =
     (let n = BASE_INT_SIZE_OF (of_nat (sizeof_word (0 :: 'a word))); Marker = Marker + 8 * n
      in bindr (load m (Marker - 8 * n)) (\<lambda>v. Inr (v, Marker)))"

text \<open>The macros for compilers that are not named; the marker is a pointer to \<open>CHAR8\<close>.\<close>

definition VA_START :: "UINTN \<Rightarrow> UINTN \<Rightarrow> UINTN" where
  "VA_START Parameter n = Parameter + INT_SIZE_OF n"

definition VA_ARG :: "mem \<Rightarrow> UINTN \<Rightarrow> ('a::len word \<times> UINTN) res" where
  "VA_ARG m Marker =
     (let n = INT_SIZE_OF (of_nat (sizeof_word (0 :: 'a word))); Marker = Marker + n
      in bindr (load m (Marker - n)) (\<lambda>v. Inr (v, Marker)))"

definition VA_END :: "UINTN \<Rightarrow> UINTN" where
  "VA_END Marker = NULL"

definition VA_COPY :: "UINTN \<Rightarrow> UINTN" where
  "VA_COPY Start = Start"

text \<open>\<open>VA_ARG\<close> for ARM as Microsoft's compiler has it: first up to a multiple of the size.\<close>

definition VA_ARG_ARM :: "mem \<Rightarrow> UINTN \<Rightarrow> ('a::len word \<times> UINTN) res" where
  "VA_ARG_ARM m Marker =
     (let s = of_nat (sizeof_word (0 :: 'a word)); n = INT_SIZE_OF s;
          Marker = Marker + (n + ((- Marker) AND (s - 1)))
      in bindr (load m (Marker - n)) (\<lambda>v. Inr (v, Marker)))"

text \<open>\<open>VA_ARG\<close> for GCC: the builtin at \<open>UINTN\<close> and at the type of the argument.\<close>

definition VA_ARG_GCC ::
  "(mem \<Rightarrow> UINTN \<Rightarrow> (UINTN \<times> UINTN) res) \<Rightarrow> (mem \<Rightarrow> UINTN \<Rightarrow> ('a::len word \<times> UINTN) res) \<Rightarrow>
   mem \<Rightarrow> UINTN \<Rightarrow> ('a word \<times> UINTN) res" where
  "VA_ARG_GCC va_arg_UINTN va_arg_TYPE m Marker =
     (if sizeof_word (0 :: 'a word) < sizeof_word (0 :: UINTN)
      then map_res (\<lambda>(v, Marker). (ucast v, Marker)) (va_arg_UINTN m Marker) else va_arg_TYPE m Marker)"

text \<open>What the calling convention promises of the builtin: it reads the slot and moves past it.\<close>

definition reads_slots :: "(mem \<Rightarrow> UINTN \<Rightarrow> ('a::len word \<times> UINTN) res) \<Rightarrow> bool" where
  "reads_slots va \<longleftrightarrow> (\<forall>m p. va m p = map_res (\<lambda>v. (v, p + 8)) (load m p))"

text \<open>Arguments of the four integer widths, each in a slot of its own.\<close>

datatype arg = Arg8 UINT8 | Arg16 UINT16 | Arg32 UINT32 | Arg64 UINT64

datatype arg_type = Type8 | Type16 | Type32 | Type64

fun type_of_arg :: "arg \<Rightarrow> arg_type" where
  "type_of_arg (Arg8 v) = Type8"
| "type_of_arg (Arg16 v) = Type16"
| "type_of_arg (Arg32 v) = Type32"
| "type_of_arg (Arg64 v) = Type64"

fun put_arg :: "mem \<Rightarrow> UINTN \<Rightarrow> arg \<Rightarrow> mem res" where
  "put_arg m p (Arg8 v) = store m p v"
| "put_arg m p (Arg16 v) = store m p v"
| "put_arg m p (Arg32 v) = store m p v"
| "put_arg m p (Arg64 v) = store m p v"

fun get_arg :: "mem \<Rightarrow> UINTN \<Rightarrow> arg_type \<Rightarrow> (arg \<times> UINTN) res" where
  "get_arg m p Type8 = map_res (\<lambda>(v, p). (Arg8 v, p)) (BASE_ARG m p)"
| "get_arg m p Type16 = map_res (\<lambda>(v, p). (Arg16 v, p)) (BASE_ARG m p)"
| "get_arg m p Type32 = map_res (\<lambda>(v, p). (Arg32 v, p)) (BASE_ARG m p)"
| "get_arg m p Type64 = map_res (\<lambda>(v, p). (Arg64 v, p)) (BASE_ARG m p)"

fun put_args :: "mem \<Rightarrow> UINTN \<Rightarrow> arg list \<Rightarrow> mem res" where
  "put_args m p [] = Inr m"
| "put_args m p (a # as) = bindr (put_arg m p a) (\<lambda>m. put_args m (p + 8) as)"

fun get_args :: "mem \<Rightarrow> UINTN \<Rightarrow> arg_type list \<Rightarrow> (arg list \<times> UINTN) res" where
  "get_args m p [] = Inr ([], p)"
| "get_args m p (t # ts) =
     bindr (get_arg m p t) (\<lambda>(a, p). bindr (get_args m p ts) (\<lambda>(as, p). Inr (a # as, p)))"

section \<open>Sizes\<close>

lemma slot_sizes:
  assumes "unat n \<le> 2 ^ 64 - 8"
  shows "unat (BASE_INT_SIZE_OF n) = (unat n + 7) div 8" "unat (INT_SIZE_OF n) = 8 * ((unat n + 7) div 8)"
proof -
  have u: "unat (n + 7) = unat n + 7" using assms by (subst unat_add_lem [THEN iffD1]) simp_all
  have e: "n + 8 - 1 = n + 7" by simp
  show "unat (BASE_INT_SIZE_OF n) = (unat n + 7) div 8"
    unfolding BASE_INT_SIZE_OF_def e unat_div u by simp
  have "INT_SIZE_OF n = push_bit 3 (drop_bit 3 (n + 7))"
  proof -
    have m: "(8 - 1 :: UINTN) = mask 3" by (simp add: mask_eq_exp_minus_1)
    show ?thesis
      unfolding INT_SIZE_OF_def e m by (rule bit_word_eqI) (auto simp: bit_simps)
  qed
  moreover have "push_bit 3 (drop_bit 3 (n + 7)) = (n + 7) div 8 * 8"
    by (simp add: push_bit_eq_mult drop_bit_eq_div)
  moreover have "unat ((n + 7) div 8 * 8) = 8 * ((unat n + 7) div 8)"
  proof -
    have "unat n + 7 < 2 ^ 64" using u unat_less_exp [of "n + 7"] by simp
    then have "(unat n + 7) div 8 * 8 < 2 ^ 64"
      using div_times_less_eq_dividend order.strict_trans1 by blast
    moreover have "unat ((n + 7) div 8) = (unat n + 7) div 8" unfolding unat_div u by simp
    ultimately show ?thesis by (simp add: unat_word_ariths)
  qed
  ultimately show "unat (INT_SIZE_OF n) = 8 * ((unat n + 7) div 8)" by simp
qed

section \<open>Slots\<close>

lemma BASE_ARG_load:
  "sizeof_word (0 :: 'a word) = 1 \<or> sizeof_word (0 :: 'a word) = 2 \<or> sizeof_word (0 :: 'a word) = 4 \<or>
   sizeof_word (0 :: 'a word) = 8 \<Longrightarrow>
   BASE_ARG m p = map_res (\<lambda>v :: 'a::len word. (v, p + 8)) (load m p)"
  by (auto simp: BASE_ARG_def BASE_INT_SIZE_OF_def Let_def map_res_def)

lemma slot_stored:
  fixes v :: "'a::len word"
  assumes "buffer m p (8 * Suc n)" "sizeof_word v \<le> 8"
  shows "\<exists>m'. store m p v = Inr m' \<and> load m' p = Inr v \<and> buffer m' (p + 8) (8 * n) \<and>
    (\<forall>b n. buffer m b n \<longrightarrow> buffer m' b n) \<and> (\<forall>b j. apart b j p 8 \<longrightarrow> load_bytes m' b j = load_bytes m b j)"
proof -
  have le: "0 + sizeof_word v \<le> 8 * Suc n" using assms(2) by simp
  have "store m p v = Inr (overlay m p (le_bytes (sizeof_word v) v))"
    using store_part [OF assms(1) le] by simp
  moreover have "load (overlay m p (le_bytes (sizeof_word v) v)) p = Inr v"
    by (rule load_stored [OF assms(1)]) (use le in simp)
  moreover have "buffer m (p + of_nat 8) (8 * n)" by (rule buffer_part [OF assms(1)]) simp
  ultimately show ?thesis using assms(2) by (auto simp: load_bytes_apart buffer_overlay)
qed

lemma arg_stored:
  assumes "buffer m p (8 * Suc n)"
  shows "\<exists>m'. put_arg m p a = Inr m' \<and> get_arg m' p (type_of_arg a) = Inr (a, p + 8) \<and>
    buffer m' (p + 8) (8 * n) \<and> (\<forall>b n. buffer m b n \<longrightarrow> buffer m' b n) \<and>
    (\<forall>b j. apart b j p 8 \<longrightarrow> load_bytes m' b j = load_bytes m b j)"
proof (cases a)
  case (Arg8 v)
  then show ?thesis using slot_stored [OF assms, of v] by (auto simp: BASE_ARG_load map_res_def sizeof_word_def)
next
  case (Arg16 v)
  then show ?thesis using slot_stored [OF assms, of v] by (auto simp: BASE_ARG_load map_res_def sizeof_word_def)
next
  case (Arg32 v)
  then show ?thesis using slot_stored [OF assms, of v] by (auto simp: BASE_ARG_load map_res_def sizeof_word_def)
next
  case (Arg64 v)
  then show ?thesis using slot_stored [OF assms, of v] by (auto simp: BASE_ARG_load map_res_def sizeof_word_def)
qed

lemma le_word_bits: "bit (le_word bs :: 'a::len word) n \<Longrightarrow> n < 8 * length bs"
proof (induction bs arbitrary: n)
  case (Cons b bs)
  then have "n < 8 \<or> bit (le_word bs :: 'a word) (n - 8)" by (auto simp: bit_simps dest: bit_imp_le_length)
  then show ?case using Cons.IH [of "n - 8"] by auto
qed simp

lemma le_bytes_le_word:
  "8 * length bs \<le> LENGTH('a) \<Longrightarrow> le_bytes (length bs) (le_word bs :: 'a::len word) = bs"
proof (induction bs)
  case (Cons b bs)
  have "ucast (le_word (b # bs) :: 'a word) = b"
    using Cons.prems by (intro bit_word_eqI) (auto simp: bit_simps)
  moreover have "drop_bit 8 (le_word (b # bs)) = (le_word bs :: 'a word)"
    using Cons.prems le_word_bits [of bs, where 'a = 'a]
    by (intro bit_word_eqI) (fastforce simp: bit_simps dest: bit_imp_le_length)
  ultimately show ?case using Cons by simp
qed simp

lemma narrow_load:
  assumes "buffer m p 8" "sizeof_word (0 :: 'a::len word) \<le> 8"
  shows "\<exists>w :: UINTN. load m p = Inr w \<and> load m p = Inr (ucast w :: 'a word)"
proof -
  obtain bs where bs: "length bs = 8" "bytes_at m p bs" using buffer_bytes [OF assms(1)] by blast
  then have w: "load m p = Inr (le_word bs :: UINTN)" by (intro load_at) (simp_all add: sizeof_word_def)
  have "bytes_at m p (le_bytes 8 (le_word bs :: UINTN))" using bs le_bytes_le_word [of bs, where 'a = 64] by simp
  from load_view [OF this, of 0, where 'b = 'a] assms(2)
  have "load m p = Inr (take_bit (8 * sizeof_word (0 :: 'a word)) (ucast (le_word bs :: UINTN)) :: 'a word)" by simp
  moreover have "LENGTH('a) \<le> 8 * sizeof_word (0 :: 'a word)" by (simp add: sizeof_word_def)
  ultimately show ?thesis using w by (simp add: take_bit_word_eq_self)
qed

lemma aligned_gap:
  fixes p :: UINTN
  assumes "8 dvd unat p" "s = 1 \<or> s = 2 \<or> s = 4 \<or> s = 8"
  shows "(- p) AND (of_nat s - 1) = 0"
proof -
  obtain k where "unat p = 8 * k" using assms(1) by blast
  moreover have "p = of_nat (unat p)" by simp
  ultimately have "p = of_nat k * 8" by simp
  then have "- p = push_bit 3 (- of_nat k)" by (simp add: push_bit_eq_mult)
  then have "take_bit k (- p) = 0" if "k \<le> 3" for k
    using that by (auto intro!: bit_word_eqI simp: bit_simps)
  moreover have "\<exists>k\<le>3. (of_nat s - 1 :: UINTN) = mask k"
    using assms(2) by (auto simp: mask_eq_exp_minus_1 intro: exI [of _ 0] exI [of _ 1] exI [of _ 2] exI [of _ 3])
  ultimately show ?thesis by (metis take_bit_eq_mask)
qed

lemma get_arg_kept:
  assumes "\<And>k. k \<le> 8 \<Longrightarrow> load_bytes m' p k = load_bytes m p k"
  shows "get_arg m' p t = get_arg m p t"
  using assms [of 1] assms [of 2] assms [of 4] assms [of 8]
  by (cases t) (simp_all add: BASE_ARG_load sizeof_word_def load_def)

lemma args_stored:
  assumes "buffer m p (8 * length as)"
  shows "\<exists>m'. put_args m p as = Inr m' \<and>
    get_args m' p (List.map type_of_arg as) = Inr (as, p + of_nat (8 * length as)) \<and>
    (\<forall>b n. buffer m b n \<longrightarrow> buffer m' b n) \<and>
    (\<forall>b j. apart b j p (8 * length as) \<longrightarrow> load_bytes m' b j = load_bytes m b j)"
  using assms
proof (induction as arbitrary: m p)
  case Nil
  then show ?case by simp
next
  case (Cons a as)
  let ?n = "length as"
  have b: "buffer m p (8 * Suc ?n)" using Cons.prems by simp
  then have N: "8 * Suc ?n \<le> 2 ^ 64" by (simp add: buffer_def)
  obtain m1 where m1: "put_arg m p a = Inr m1" "get_arg m1 p (type_of_arg a) = Inr (a, p + 8)"
    "buffer m1 (p + 8) (8 * ?n)"
    and k1: "\<And>b n. buffer m b n \<Longrightarrow> buffer m1 b n"
    and f1: "\<And>b j. apart b j p 8 \<Longrightarrow> load_bytes m1 b j = load_bytes m b j"
    using arg_stored [OF b] by blast
  obtain m2 where m2: "put_args m1 (p + 8) as = Inr m2"
    "get_args m2 (p + 8) (List.map type_of_arg as) = Inr (as, p + 8 + of_nat (8 * ?n))"
    and k2: "\<And>b n. buffer m1 b n \<Longrightarrow> buffer m2 b n"
    and f2: "\<And>b j. apart b j (p + 8) (8 * ?n) \<Longrightarrow> load_bytes m2 b j = load_bytes m1 b j"
    using Cons.IH [OF m1(3)] by blast
  have "load_bytes m2 p k = load_bytes m1 p k" if "k \<le> 8" for k
    using f2 [of p k] parts_apart [OF N, of 8 "8 * ?n" 0 k p] that by simp
  then have "get_arg m2 p (type_of_arg a) = Inr (a, p + 8)" using get_arg_kept m1(2) by metis
  moreover have "load_bytes m2 b j = load_bytes m b j" if "apart b j p (8 * Suc ?n)" for b j
    using f1 [of b j] f2 [of b j] part_apart [OF that _ N, of 0 8] part_apart [OF that _ N, of 8 "8 * ?n"]
    by simp
  ultimately show ?case using m1(1) m2 k1 k2 by (auto simp: algebra_simps)
qed

section \<open>Properties\<close>

text \<open>
  C22. Variable arguments through memory: arguments of any mixture of widths, put one to a slot of
  the size of \<open>UINTN\<close>, are read back by \<open>BASE_ARG\<close> with their types in order, each with its
  value, and the marker ends after the last slot; nothing outside the slots changes. An argument
  of any size takes the least number of whole slots that hold it, the same in both size macros.
\<close>

theorem base_args_round_trip:
  assumes "buffer m p (8 * length as)"
  shows "(\<exists>m'. put_args m p as = Inr m' \<and>
      get_args m' p (List.map type_of_arg as) = Inr (as, p + of_nat (8 * length as)) \<and>
      (\<forall>b j. apart b j p (8 * length as) \<longrightarrow> load_bytes m' b j = load_bytes m b j)) \<and>
    (\<forall>n. unat n \<le> 2 ^ 64 - 8 \<longrightarrow>
      INT_SIZE_OF n = 8 * BASE_INT_SIZE_OF n \<and> unat (INT_SIZE_OF n) = 8 * unat (BASE_INT_SIZE_OF n) \<and>
      (\<forall>k. unat n \<le> 8 * k \<longleftrightarrow> unat (BASE_INT_SIZE_OF n) \<le> k))"
proof
  show "\<exists>m'. put_args m p as = Inr m' \<and>
      get_args m' p (List.map type_of_arg as) = Inr (as, p + of_nat (8 * length as)) \<and>
      (\<forall>b j. apart b j p (8 * length as) \<longrightarrow> load_bytes m' b j = load_bytes m b j)"
    using args_stored [OF assms] by blast
  show "\<forall>n. unat n \<le> 2 ^ 64 - 8 \<longrightarrow>
      INT_SIZE_OF n = 8 * BASE_INT_SIZE_OF n \<and> unat (INT_SIZE_OF n) = 8 * unat (BASE_INT_SIZE_OF n) \<and>
      (\<forall>k. unat n \<le> 8 * k \<longleftrightarrow> unat (BASE_INT_SIZE_OF n) \<le> k)"
  proof (intro allI impI)
    fix n :: UINTN
    assume n: "unat n \<le> 2 ^ 64 - 8"
    have u: "unat (INT_SIZE_OF n) = 8 * unat (BASE_INT_SIZE_OF n)" using slot_sizes [OF n] by simp
    have "unat (8 * BASE_INT_SIZE_OF n) = (8 * unat (BASE_INT_SIZE_OF n)) mod 2 ^ 64"
      by (simp add: unat_word_ariths)
    also have "\<dots> = unat (INT_SIZE_OF n)" using u unat_less_exp [of "INT_SIZE_OF n"] by simp
    finally have "INT_SIZE_OF n = 8 * BASE_INT_SIZE_OF n" by (simp add: word_unat_eq_iff)
    moreover have "unat n \<le> 8 * k \<longleftrightarrow> (unat n + 7) div 8 \<le> k" for k by linarith
    ultimately show "INT_SIZE_OF n = 8 * BASE_INT_SIZE_OF n \<and>
        unat (INT_SIZE_OF n) = 8 * unat (BASE_INT_SIZE_OF n) \<and>
        (\<forall>k. unat n \<le> 8 * k \<longleftrightarrow> unat (BASE_INT_SIZE_OF n) \<le> k)"
      using u slot_sizes(1) [OF n] by simp
  qed
qed

theorem base_args_round_trip_witness:
  "\<exists>m'. put_args (sample_mem 64 (replicate 24 0)) 64 [Arg8 7, Arg64 0x123456789, Arg16 0x4142] = Inr m' \<and>
    get_args m' 64 [Type8, Type64, Type16] = Inr ([Arg8 7, Arg64 0x123456789, Arg16 0x4142], 88)"
proof -
  let ?as = "[Arg8 7, Arg64 0x123456789, Arg16 0x4142]"
  have "buffer (sample_mem 64 (replicate 24 0)) 64 (8 * length ?as)"
    using sample_buffer [of 64 "replicate 24 0" 0 24] by simp
  from base_args_round_trip [OF this, THEN conjunct1] show ?thesis by auto
qed

text \<open>
  One list of arguments for every compiler: on a slot aligned to \<open>UINTN\<close>, the macros for ARM, for
  GCC (where the builtin keeps the calling convention) and for other compilers read the same value
  and move the marker to the same place as \<open>BASE_ARG\<close>, although GCC reads a full \<open>UINTN\<close> and cuts it.
  \<open>VA_START\<close> on a parameter of at most that size gives the slot after it.
\<close>

theorem va_args_agree:
  assumes "buffer m p 8" "8 dvd unat p" "sizeof_word (0 :: 'a::len word) \<in> {1, 2, 4, 8}"
    and "reads_slots u" "reads_slots t"
  shows "VA_ARG m p = (BASE_ARG m p :: ('a word \<times> UINTN) res) \<and>
    VA_ARG_ARM m p = (BASE_ARG m p :: ('a word \<times> UINTN) res) \<and>
    VA_ARG_GCC u t m p = (BASE_ARG m p :: ('a word \<times> UINTN) res) \<and>
    (\<exists>v. BASE_ARG m p = Inr (v :: 'a word, p + 8)) \<and>
    (\<forall>n. 1 \<le> n \<and> n \<le> 8 \<longrightarrow> VA_START p n = p + 8)"
proof -
  have s: "sizeof_word (0 :: 'a word) = 1 \<or> sizeof_word (0 :: 'a word) = 2 \<or>
      sizeof_word (0 :: 'a word) = 4 \<or> sizeof_word (0 :: 'a word) = 8" using assms(3) by simp
  have i: "INT_SIZE_OF n = 8" if "1 \<le> n" "n \<le> 8" for n :: UINTN
  proof -
    have "unat n \<le> 8" "1 \<le> unat n" using that by (simp_all add: word_le_nat_alt)
    then have "(unat n + 7) div 8 = 1" "unat n \<le> 2 ^ 64 - 8" by simp_all
    then have "unat (INT_SIZE_OF n) = 8" using slot_sizes(2) [of n] by simp
    then show ?thesis by (simp add: word_unat_eq_iff)
  qed
  then have n: "INT_SIZE_OF (of_nat (sizeof_word (0 :: 'a word))) = 8" using s by auto
  obtain w :: UINTN where w: "load m p = Inr w" "load m p = Inr (ucast w :: 'a word)"
    using narrow_load [OF assms(1), where 'a = 'a] s by auto
  have b: "BASE_ARG m p = Inr (ucast w :: 'a word, p + 8)" using BASE_ARG_load [OF s] w(2) by (simp add: map_res_def)
  moreover have "VA_ARG m p = Inr (ucast w :: 'a word, p + 8)" using n w(2) by (simp add: VA_ARG_def)
  moreover have "VA_ARG_ARM m p = Inr (ucast w :: 'a word, p + 8)"
    using n w(2) aligned_gap [OF assms(2) s] by (simp add: VA_ARG_ARM_def Let_def)
  moreover have "VA_ARG_GCC u t m p = Inr (ucast w :: 'a word, p + 8)"
    using assms(4,5) w s by (auto simp: VA_ARG_GCC_def reads_slots_def map_res_def sizeof_word_def [of "0 :: UINTN"])
  moreover have "\<forall>n. 1 \<le> n \<and> n \<le> 8 \<longrightarrow> VA_START p n = p + 8" using i by (simp add: VA_START_def)
  ultimately show ?thesis by simp
qed

theorem va_args_agree_witness:
  "VA_ARG_GCC (\<lambda>m p. map_res (\<lambda>v. (v, p + 8)) (load m p)) (\<lambda>m p. map_res (\<lambda>v. (v, p + 8)) (load m p))
     (sample_mem 64 [7, 1, 2, 3, 4, 5, 6, 7]) 64 =
   (BASE_ARG (sample_mem 64 [7, 1, 2, 3, 4, 5, 6, 7]) 64 :: (UINT16 \<times> UINTN) res) \<and>
   VA_START 64 2 = 72"
proof -
  have b: "buffer (sample_mem 64 [7, 1, 2, 3, 4, 5, 6, 7]) 64 8"
    using sample_buffer [of 64 "[7, 1, 2, 3, 4, 5, 6, 7]" 0 8] by simp
  have s: "sizeof_word (0 :: UINT16) \<in> {1, 2, 4, 8}" by (simp add: sizeof_word_def)
  have r: "reads_slots (\<lambda>m p. map_res (\<lambda>v. (v :: UINTN, p + 8)) (load m p))"
    "reads_slots (\<lambda>m p. map_res (\<lambda>v. (v :: UINT16, p + 8)) (load m p))"
    by (simp_all add: reads_slots_def)
  have d: "8 dvd unat (64 :: UINTN)" by simp
  show ?thesis using va_args_agree [OF b d s r] by simp
qed

end
