(* ===== verification/Pcd_Access.thy ===== *)
theory Pcd_Access imports System_Codes Base_Types begin

text \<open>
  Platform configuration values: the macros of \<open>PcdLib.h\<close>, which paste the name of a token to a
  prefix, over the macros and constants that \<open>AutoGen.c\<close> defines for each token of the application,
  and the settings of the build that the library code reads through them.
\<close>

section \<open>Token pasting\<close>

named_theorems pcds \<open>macros of AutoGen.c\<close>
named_theorems pcd_lib \<open>macros of PcdLib.h\<close>

text \<open>The prefixes; the pasted name is the pair of prefix and token.\<close>

datatype pcd_prefix =
    PCD_TOKEN | PCD_SIZE | PCD_VALUE | PCD_GET_MODE_SIZE | PCD_GET_MODE_8 | PCD_GET_MODE_16
  | PCD_GET_MODE_32 | PCD_GET_MODE_64 | PCD_GET_MODE_PTR | PCD_GET_MODE_BOOL
  | gPcd_FixedAtBuild | gPcd_BinaryPatch | gPcd_BinaryPatch_Size

datatype c_value = Number UINT32 | Byte UINT8 | Boolean UINT8

datatype c_type = Ty_UINT8 | Ty_UINT32 | Ty_BOOLEAN

text \<open>
  What a name stands for: a number, a number cast to \<open>BOOLEAN\<close>, another name of the same token, a
  constant initialised with one, or a constant that another module defines, which has no value here.
\<close>

datatype expansion =
    Literal UINT32 | BoolCast UINT32 | Name pcd_prefix
  | Const c_type pcd_prefix | Extern c_type

type_synonym macros = "(pcd_prefix \<times> expansion) list"

primrec c_number :: "c_value \<Rightarrow> int" where
  "c_number (Number v) = uint v"
| "c_number (Byte v) = uint v"
| "c_number (Boolean v) = uint v"

primrec c_sizeof :: "c_value \<Rightarrow> int" where
  "c_sizeof (Number v) = 4"
| "c_sizeof (Byte v) = 1"
| "c_sizeof (Boolean v) = 1"

primrec convert :: "c_type \<Rightarrow> c_value \<Rightarrow> c_value" where
  "convert Ty_UINT8 v = Byte (word_of_int (c_number v))"
| "convert Ty_UINT32 v = Number (word_of_int (c_number v))"
| "convert Ty_BOOLEAN v = Boolean (word_of_int (c_number v))"

text \<open>Expansion to a value; every name of a token expands in at most three steps.\<close>

fun expand :: "nat \<Rightarrow> macros \<Rightarrow> pcd_prefix \<Rightarrow> c_value option" where
  "expand 0 ms p = None"
| "expand (Suc n) ms p =
     (case map_of ms p of
        None \<Rightarrow> None
      | Some (Literal v) \<Rightarrow> Some (Number v)
      | Some (BoolCast v) \<Rightarrow> Some (Boolean (ucast v))
      | Some (Name q) \<Rightarrow> expand n ms q
      | Some (Const t q) \<Rightarrow> map_option (convert t) (expand n ms q)
      | Some (Extern t) \<Rightarrow> None)"

text \<open>\<open>None\<close> where the module does not build: no such token, or no such name for it.\<close>

type_synonym pcd_getter = "(string \<times> macros) list \<Rightarrow> string \<Rightarrow> c_value option"

definition paste :: "pcd_prefix \<Rightarrow> pcd_getter" where [pcd_lib]:
  "paste p pcds TokenName =
     (case map_of pcds TokenName of None \<Rightarrow> None | Some ms \<Rightarrow> expand 3 ms p)"

section \<open>PcdLib.h\<close>

definition PcdToken :: pcd_getter where [pcd_lib]:
  "PcdToken = paste PCD_TOKEN"

definition FeaturePcdGet :: pcd_getter where [pcd_lib]:
  "FeaturePcdGet = paste PCD_GET_MODE_BOOL"

definition FixedPcdGet8 :: pcd_getter where [pcd_lib]:
  "FixedPcdGet8 = paste PCD_VALUE"

definition FixedPcdGet16 :: pcd_getter where [pcd_lib]:
  "FixedPcdGet16 = paste PCD_VALUE"

definition FixedPcdGet32 :: pcd_getter where [pcd_lib]:
  "FixedPcdGet32 = paste PCD_VALUE"

definition FixedPcdGet64 :: pcd_getter where [pcd_lib]:
  "FixedPcdGet64 = paste PCD_VALUE"

definition FixedPcdGetBool :: pcd_getter where [pcd_lib]:
  "FixedPcdGetBool = paste PCD_VALUE"

definition PatchPcdGet8 :: pcd_getter where [pcd_lib]:
  "PatchPcdGet8 = paste gPcd_BinaryPatch"

definition PatchPcdGet16 :: pcd_getter where [pcd_lib]:
  "PatchPcdGet16 = paste gPcd_BinaryPatch"

definition PatchPcdGet32 :: pcd_getter where [pcd_lib]:
  "PatchPcdGet32 = paste gPcd_BinaryPatch"

definition PatchPcdGet64 :: pcd_getter where [pcd_lib]:
  "PatchPcdGet64 = paste gPcd_BinaryPatch"

definition PatchPcdGetBool :: pcd_getter where [pcd_lib]:
  "PatchPcdGetBool = paste gPcd_BinaryPatch"

definition PcdGet8 :: pcd_getter where [pcd_lib]:
  "PcdGet8 = paste PCD_GET_MODE_8"

definition PcdGet16 :: pcd_getter where [pcd_lib]:
  "PcdGet16 = paste PCD_GET_MODE_16"

definition PcdGet32 :: pcd_getter where [pcd_lib]:
  "PcdGet32 = paste PCD_GET_MODE_32"

definition PcdGet64 :: pcd_getter where [pcd_lib]:
  "PcdGet64 = paste PCD_GET_MODE_64"

definition PcdGetPtr :: pcd_getter where [pcd_lib]:
  "PcdGetPtr = paste PCD_GET_MODE_PTR"

definition PcdGetBool :: pcd_getter where [pcd_lib]:
  "PcdGetBool = paste PCD_GET_MODE_BOOL"

definition FixedPcdGetSize :: pcd_getter where [pcd_lib]:
  "FixedPcdGetSize = paste PCD_SIZE"

definition PatchPcdGetSize :: pcd_getter where [pcd_lib]:
  "PatchPcdGetSize = paste gPcd_BinaryPatch_Size"

definition PcdGetSize :: pcd_getter where [pcd_lib]:
  "PcdGetSize = paste PCD_GET_MODE_SIZE"

section \<open>AutoGen.c\<close>

definition AutoGen_PcdDebugPrintErrorLevel :: macros where [pcds]:
  "AutoGen_PcdDebugPrintErrorLevel =
     [(PCD_TOKEN, Literal 0), (PCD_SIZE, Literal 4), (PCD_GET_MODE_SIZE, Name PCD_SIZE),
      (PCD_VALUE, Literal 0x80000044), (gPcd_FixedAtBuild, Const Ty_UINT32 PCD_VALUE),
      (PCD_GET_MODE_32, Name gPcd_FixedAtBuild)]"

definition AutoGen_PcdReportStatusCodePropertyMask :: macros where [pcds]:
  "AutoGen_PcdReportStatusCodePropertyMask =
     [(PCD_TOKEN, Literal 0), (PCD_SIZE, Literal 1), (PCD_GET_MODE_SIZE, Name PCD_SIZE),
      (PCD_VALUE, Literal 7), (gPcd_FixedAtBuild, Const Ty_UINT8 PCD_VALUE),
      (PCD_GET_MODE_8, Name gPcd_FixedAtBuild)]"

definition AutoGen_PcdMaximumDevicePathNodeCount :: macros where [pcds]:
  "AutoGen_PcdMaximumDevicePathNodeCount =
     [(PCD_TOKEN, Literal 0), (PCD_SIZE, Literal 4), (PCD_GET_MODE_SIZE, Name PCD_SIZE),
      (PCD_VALUE, Literal 0), (gPcd_FixedAtBuild, Const Ty_UINT32 PCD_VALUE),
      (PCD_GET_MODE_32, Name gPcd_FixedAtBuild)]"

definition AutoGen_PcdVerifyNodeInList :: macros where [pcds]:
  "AutoGen_PcdVerifyNodeInList =
     [(PCD_TOKEN, Literal 0), (PCD_SIZE, Literal 1), (PCD_GET_MODE_SIZE, Name PCD_SIZE),
      (PCD_VALUE, BoolCast 0), (gPcd_FixedAtBuild, Const Ty_BOOLEAN PCD_VALUE),
      (PCD_GET_MODE_BOOL, Name gPcd_FixedAtBuild)]"

definition AutoGen_PcdMaximumLinkedListLength :: macros where [pcds]:
  "AutoGen_PcdMaximumLinkedListLength =
     [(PCD_TOKEN, Literal 0), (PCD_SIZE, Literal 4), (PCD_GET_MODE_SIZE, Name PCD_SIZE),
      (PCD_VALUE, Literal 1000000), (gPcd_FixedAtBuild, Const Ty_UINT32 PCD_VALUE),
      (PCD_GET_MODE_32, Name gPcd_FixedAtBuild)]"

definition AutoGen_PcdMaximumAsciiStringLength :: macros where [pcds]:
  "AutoGen_PcdMaximumAsciiStringLength =
     [(PCD_TOKEN, Literal 0), (PCD_SIZE, Literal 4), (PCD_GET_MODE_SIZE, Name PCD_SIZE),
      (PCD_VALUE, Literal 1000000), (gPcd_FixedAtBuild, Const Ty_UINT32 PCD_VALUE),
      (PCD_GET_MODE_32, Name gPcd_FixedAtBuild)]"

definition AutoGen_PcdMaximumUnicodeStringLength :: macros where [pcds]:
  "AutoGen_PcdMaximumUnicodeStringLength =
     [(PCD_TOKEN, Literal 0), (PCD_SIZE, Literal 4), (PCD_GET_MODE_SIZE, Name PCD_SIZE),
      (PCD_VALUE, Literal 1000000), (gPcd_FixedAtBuild, Const Ty_UINT32 PCD_VALUE),
      (PCD_GET_MODE_32, Name gPcd_FixedAtBuild)]"

definition AutoGen_PcdControlFlowEnforcementPropertyMask :: macros where [pcds]:
  "AutoGen_PcdControlFlowEnforcementPropertyMask =
     [(PCD_TOKEN, Literal 0), (PCD_SIZE, Literal 4), (PCD_GET_MODE_SIZE, Name PCD_SIZE),
      (PCD_VALUE, Literal 0), (gPcd_FixedAtBuild, Const Ty_UINT32 PCD_VALUE),
      (PCD_GET_MODE_32, Name gPcd_FixedAtBuild)]"

definition AutoGen_PcdSpeculationBarrierType :: macros where [pcds]:
  "AutoGen_PcdSpeculationBarrierType =
     [(PCD_TOKEN, Literal 0), (PCD_SIZE, Literal 1), (PCD_GET_MODE_SIZE, Name PCD_SIZE),
      (PCD_VALUE, Literal 1), (gPcd_FixedAtBuild, Const Ty_UINT8 PCD_VALUE),
      (PCD_GET_MODE_8, Name gPcd_FixedAtBuild)]"

definition AutoGen_PcdDebugClearMemoryValue :: macros where [pcds]:
  "AutoGen_PcdDebugClearMemoryValue =
     [(PCD_TOKEN, Literal 0), (PCD_SIZE, Literal 1), (PCD_GET_MODE_SIZE, Name PCD_SIZE),
      (PCD_VALUE, Literal 0xAF), (gPcd_FixedAtBuild, Const Ty_UINT8 PCD_VALUE),
      (PCD_GET_MODE_8, Name gPcd_FixedAtBuild)]"

definition AutoGen_PcdDebugPropertyMask :: macros where [pcds]:
  "AutoGen_PcdDebugPropertyMask =
     [(PCD_TOKEN, Literal 0), (PCD_SIZE, Literal 1), (PCD_GET_MODE_SIZE, Name PCD_SIZE),
      (PCD_VALUE, Literal 0x2F), (gPcd_FixedAtBuild, Const Ty_UINT8 PCD_VALUE),
      (PCD_GET_MODE_8, Name gPcd_FixedAtBuild)]"

definition AutoGen_PcdFixedDebugPrintErrorLevel :: macros where [pcds]:
  "AutoGen_PcdFixedDebugPrintErrorLevel =
     [(PCD_TOKEN, Literal 0), (PCD_SIZE, Literal 4), (PCD_GET_MODE_SIZE, Name PCD_SIZE),
      (PCD_VALUE, Literal 0xFFFFFFFF), (gPcd_FixedAtBuild, Const Ty_UINT32 PCD_VALUE),
      (PCD_GET_MODE_32, Name gPcd_FixedAtBuild)]"

definition AutoGen_PcdDriverDiagnosticsDisable :: macros where [pcds]:
  "AutoGen_PcdDriverDiagnosticsDisable =
     [(PCD_TOKEN, Literal 0), (PCD_SIZE, Literal 1), (PCD_GET_MODE_SIZE, Name PCD_SIZE),
      (PCD_VALUE, BoolCast 0), (gPcd_FixedAtBuild, Const Ty_BOOLEAN PCD_VALUE),
      (PCD_GET_MODE_BOOL, Name gPcd_FixedAtBuild)]"

definition AutoGen_PcdComponentNameDisable :: macros where [pcds]:
  "AutoGen_PcdComponentNameDisable =
     [(PCD_TOKEN, Literal 0), (PCD_SIZE, Literal 1), (PCD_GET_MODE_SIZE, Name PCD_SIZE),
      (PCD_VALUE, BoolCast 0), (gPcd_FixedAtBuild, Const Ty_BOOLEAN PCD_VALUE),
      (PCD_GET_MODE_BOOL, Name gPcd_FixedAtBuild)]"

definition AutoGen_PcdDriverDiagnostics2Disable :: macros where [pcds]:
  "AutoGen_PcdDriverDiagnostics2Disable =
     [(PCD_TOKEN, Literal 0), (PCD_SIZE, Literal 1), (PCD_GET_MODE_SIZE, Name PCD_SIZE),
      (PCD_VALUE, BoolCast 0), (gPcd_FixedAtBuild, Const Ty_BOOLEAN PCD_VALUE),
      (PCD_GET_MODE_BOOL, Name gPcd_FixedAtBuild)]"

definition AutoGen_PcdComponentName2Disable :: macros where [pcds]:
  "AutoGen_PcdComponentName2Disable =
     [(PCD_TOKEN, Literal 0), (PCD_SIZE, Literal 1), (PCD_GET_MODE_SIZE, Name PCD_SIZE),
      (PCD_VALUE, BoolCast 0), (gPcd_FixedAtBuild, Const Ty_BOOLEAN PCD_VALUE),
      (PCD_GET_MODE_BOOL, Name gPcd_FixedAtBuild)]"

definition AutoGen_PcdUgaConsumeSupport :: macros where [pcds]:
  "AutoGen_PcdUgaConsumeSupport =
     [(PCD_TOKEN, Literal 0), (PCD_SIZE, Literal 1), (PCD_GET_MODE_SIZE, Name PCD_SIZE),
      (PCD_VALUE, BoolCast 1), (gPcd_FixedAtBuild, Const Ty_BOOLEAN PCD_VALUE),
      (PCD_GET_MODE_BOOL, Name gPcd_FixedAtBuild)]"

definition AutoGen_PcdUefiLibMaxPrintBufferSize :: macros where [pcds]:
  "AutoGen_PcdUefiLibMaxPrintBufferSize =
     [(PCD_TOKEN, Literal 0), (PCD_SIZE, Literal 4), (PCD_GET_MODE_SIZE, Name PCD_SIZE),
      (PCD_VALUE, Literal 320), (gPcd_FixedAtBuild, Const Ty_UINT32 PCD_VALUE),
      (PCD_GET_MODE_32, Name gPcd_FixedAtBuild)]"

definition AutoGen_pcds :: "(string \<times> macros) list" where
  "AutoGen_pcds =
     [(''PcdDebugPrintErrorLevel'', AutoGen_PcdDebugPrintErrorLevel),
      (''PcdReportStatusCodePropertyMask'', AutoGen_PcdReportStatusCodePropertyMask),
      (''PcdMaximumDevicePathNodeCount'', AutoGen_PcdMaximumDevicePathNodeCount),
      (''PcdVerifyNodeInList'', AutoGen_PcdVerifyNodeInList),
      (''PcdMaximumLinkedListLength'', AutoGen_PcdMaximumLinkedListLength),
      (''PcdMaximumAsciiStringLength'', AutoGen_PcdMaximumAsciiStringLength),
      (''PcdMaximumUnicodeStringLength'', AutoGen_PcdMaximumUnicodeStringLength),
      (''PcdControlFlowEnforcementPropertyMask'', AutoGen_PcdControlFlowEnforcementPropertyMask),
      (''PcdSpeculationBarrierType'', AutoGen_PcdSpeculationBarrierType),
      (''PcdDebugClearMemoryValue'', AutoGen_PcdDebugClearMemoryValue),
      (''PcdDebugPropertyMask'', AutoGen_PcdDebugPropertyMask),
      (''PcdFixedDebugPrintErrorLevel'', AutoGen_PcdFixedDebugPrintErrorLevel),
      (''PcdDriverDiagnosticsDisable'', AutoGen_PcdDriverDiagnosticsDisable),
      (''PcdComponentNameDisable'', AutoGen_PcdComponentNameDisable),
      (''PcdDriverDiagnostics2Disable'', AutoGen_PcdDriverDiagnostics2Disable),
      (''PcdComponentName2Disable'', AutoGen_PcdComponentName2Disable),
      (''PcdUgaConsumeSupport'', AutoGen_PcdUgaConsumeSupport),
      (''PcdUefiLibMaxPrintBufferSize'', AutoGen_PcdUefiLibMaxPrintBufferSize)]"

section \<open>BaseLib's AutoGen.h\<close>

definition BaseLib_PcdVerifyNodeInList :: macros where [pcds]:
  "BaseLib_PcdVerifyNodeInList =
     [(PCD_TOKEN, Literal 0), (gPcd_FixedAtBuild, Extern Ty_BOOLEAN),
      (PCD_GET_MODE_BOOL, Name gPcd_FixedAtBuild)]"

definition BaseLib_PcdMaximumLinkedListLength :: macros where [pcds]:
  "BaseLib_PcdMaximumLinkedListLength =
     [(PCD_TOKEN, Literal 0), (gPcd_FixedAtBuild, Extern Ty_UINT32),
      (PCD_GET_MODE_32, Name gPcd_FixedAtBuild), (PCD_VALUE, Literal 1000000),
      (PCD_SIZE, Literal 4), (PCD_GET_MODE_SIZE, Name PCD_SIZE)]"

definition BaseLib_PcdMaximumAsciiStringLength :: macros where [pcds]:
  "BaseLib_PcdMaximumAsciiStringLength =
     [(PCD_TOKEN, Literal 0), (gPcd_FixedAtBuild, Extern Ty_UINT32),
      (PCD_GET_MODE_32, Name gPcd_FixedAtBuild), (PCD_VALUE, Literal 1000000),
      (PCD_SIZE, Literal 4), (PCD_GET_MODE_SIZE, Name PCD_SIZE)]"

definition BaseLib_PcdMaximumUnicodeStringLength :: macros where [pcds]:
  "BaseLib_PcdMaximumUnicodeStringLength =
     [(PCD_TOKEN, Literal 0), (gPcd_FixedAtBuild, Extern Ty_UINT32),
      (PCD_GET_MODE_32, Name gPcd_FixedAtBuild), (PCD_VALUE, Literal 1000000),
      (PCD_SIZE, Literal 4), (PCD_GET_MODE_SIZE, Name PCD_SIZE)]"

definition BaseLib_PcdControlFlowEnforcementPropertyMask :: macros where [pcds]:
  "BaseLib_PcdControlFlowEnforcementPropertyMask =
     [(PCD_TOKEN, Literal 0), (gPcd_FixedAtBuild, Extern Ty_UINT32),
      (PCD_GET_MODE_32, Name gPcd_FixedAtBuild), (PCD_VALUE, Literal 0), (PCD_SIZE, Literal 4),
      (PCD_GET_MODE_SIZE, Name PCD_SIZE)]"

definition BaseLib_PcdSpeculationBarrierType :: macros where [pcds]:
  "BaseLib_PcdSpeculationBarrierType =
     [(PCD_TOKEN, Literal 0), (gPcd_FixedAtBuild, Extern Ty_UINT8),
      (PCD_GET_MODE_8, Name gPcd_FixedAtBuild), (PCD_VALUE, Literal 1), (PCD_SIZE, Literal 1),
      (PCD_GET_MODE_SIZE, Name PCD_SIZE)]"

definition BaseLib_pcds :: "(string \<times> macros) list" where
  "BaseLib_pcds =
     [(''PcdVerifyNodeInList'', BaseLib_PcdVerifyNodeInList),
      (''PcdMaximumLinkedListLength'', BaseLib_PcdMaximumLinkedListLength),
      (''PcdMaximumAsciiStringLength'', BaseLib_PcdMaximumAsciiStringLength),
      (''PcdMaximumUnicodeStringLength'', BaseLib_PcdMaximumUnicodeStringLength),
      (''PcdControlFlowEnforcementPropertyMask'', BaseLib_PcdControlFlowEnforcementPropertyMask),
      (''PcdSpeculationBarrierType'', BaseLib_PcdSpeculationBarrierType)]"

section \<open>The settings of the build\<close>

text \<open>
  \<open>DebugAssertEnabled\<close> and what \<open>DebugAssert\<close> does after its message, as \<open>DebugLib.h\<close> documents them
  over \<open>PcdDebugPropertyMask\<close>; \<open>char\<close> is signed or not by the compiler.
\<close>

definition has_property :: "UINT8 \<Rightarrow> string \<Rightarrow> bool" where
  "has_property ps p \<longleftrightarrow>
     (case map_of debug_properties p of None \<Rightarrow> False | Some b \<Rightarrow> ps AND of_nat b \<noteq> 0)"

definition settings :: "(string \<times> macros) list \<Rightarrow> bool \<Rightarrow> build_env option" where
  "settings pcds char_signed =
     (case (PcdGet8 pcds ''PcdDebugPropertyMask'', PcdGet32 pcds ''PcdMaximumUnicodeStringLength'',
            PcdGet32 pcds ''PcdMaximumAsciiStringLength'', PcdGet32 pcds ''PcdMaximumLinkedListLength'',
            FeaturePcdGet pcds ''PcdVerifyNodeInList'') of
        (Some (Byte ps), Some (Number u), Some (Number a), Some (Number l), Some (Boolean v)) \<Rightarrow>
          Some \<lparr>DebugAssertEnabled = has_property ps ''DEBUG_ASSERT_ENABLED'',
            DebugAssertStops = has_property ps ''ASSERT_BREAKPOINT_ENABLED'' \<or>
              has_property ps ''ASSERT_DEADLOOP_ENABLED'',
            CharIsSigned = char_signed, PcdMaximumUnicodeStringLength = u,
            PcdMaximumAsciiStringLength = a, PcdMaximumLinkedListLength = l,
            PcdVerifyNodeInList = (v \<noteq> 0)\<rparr>
      | _ \<Rightarrow> None)"

text \<open>The getters that read a token at run time.\<close>

definition getters :: "pcd_getter list" where
  "getters = [PcdGet8, PcdGet16, PcdGet32, PcdGet64, PcdGetPtr, PcdGetBool]"

definition patch_getters :: "pcd_getter list" where
  "patch_getters = [PatchPcdGet8, PatchPcdGet16, PatchPcdGet32, PatchPcdGet64, PatchPcdGetBool, PatchPcdGetSize]"

definition builds :: "(string \<times> macros) list \<Rightarrow> string \<Rightarrow> c_value list" where
  "builds pcds T = List.map_filter (\<lambda>g. g pcds T) getters"

definition pcd_ok :: "string \<Rightarrow> bool" where
  "pcd_ok T \<longleftrightarrow>
     (case (builds AutoGen_pcds T, FixedPcdGet32 AutoGen_pcds T, PcdGetSize AutoGen_pcds T) of
        ([v], Some f, Some n) \<Rightarrow> c_number v = c_number f \<and> c_number n = c_sizeof v \<and>
          FixedPcdGetSize AutoGen_pcds T = Some n
      | _ \<Rightarrow> False) \<and>
     PcdToken AutoGen_pcds T = Some (Number 0) \<and>
     list_all (\<lambda>g. g AutoGen_pcds T = None) patch_getters"

lemma fixed_getters:
  "FixedPcdGet8 = FixedPcdGet32" "FixedPcdGet16 = FixedPcdGet32" "FixedPcdGet64 = FixedPcdGet32"
  "FixedPcdGetBool = FixedPcdGet32" "FeaturePcdGet = PcdGetBool"
  by (simp_all add: pcd_lib)

lemma pcds_ok: "list_all pcd_ok (map fst AutoGen_pcds)"
  by code_simp

text \<open>The values that the library's own header has for its tokens are those of the application.\<close>

lemma library_values: "list_all (\<lambda>T. case FixedPcdGet32 BaseLib_pcds T of
      None \<Rightarrow> T = ''PcdVerifyNodeInList''
    | Some f \<Rightarrow> map c_number (builds AutoGen_pcds T) = [c_number f]) (map fst BaseLib_pcds)"
  by code_simp

text \<open>The settings of the witnesses are those of the application, for a compiler with signed characters.\<close>

lemma debug_settings: "settings AutoGen_pcds True = Some debug_env"
  by code_simp

section \<open>Properties\<close>

text \<open>
  Configuration values: for every token of the application exactly one of the getters for the
  widths builds, its value is the one that the fixed getters give, and the size macros give the size
  of its type; the token number is 0 and no getter for patchable tokens builds. The fixed getters do
  not look at the width: the 8-bit one gives 1000000 for the length of lists.
\<close>

theorem pcd_getters:
  assumes "T \<in> set (map fst AutoGen_pcds)"
  shows "(\<exists>v f n. builds AutoGen_pcds T = [v] \<and> FixedPcdGet32 AutoGen_pcds T = Some f \<and> c_number v = c_number f \<and>
      PcdGetSize AutoGen_pcds T = Some n \<and> FixedPcdGetSize AutoGen_pcds T = Some n \<and> c_number n = c_sizeof v) \<and>
    PcdToken AutoGen_pcds T = Some (Number 0) \<and> (\<forall>g \<in> set patch_getters. g AutoGen_pcds T = None) \<and>
    FixedPcdGet8 AutoGen_pcds ''PcdMaximumLinkedListLength'' = Some (Number 1000000)"
proof -
  have "pcd_ok T" using pcds_ok assms by (simp only: list_all_iff)
  moreover have "FixedPcdGet8 AutoGen_pcds ''PcdMaximumLinkedListLength'' = Some (Number 1000000)"
    by (simp add: AutoGen_pcds_def pcd_lib pcds numeral_3_eq_3)
  ultimately show ?thesis
    by (auto simp: pcd_ok_def list_all_iff split: list.splits option.splits)
qed

theorem pcd_getters_witness:
  "\<exists>v. builds AutoGen_pcds ''PcdDebugPropertyMask'' = [v]"
proof -
  have "''PcdDebugPropertyMask'' \<in> set (map fst AutoGen_pcds)" by (simp add: AutoGen_pcds_def)
  from pcd_getters [OF this] show ?thesis by blast
qed


end
