(* ===== verification/Debug_Output.thy ===== *)
theory Debug_Output imports Pcd_Access Module_Entry begin

text \<open>
  The debug macros of \<open>DebugLib.h\<close> over a state \<open>'s\<close>. The functions of the library are an argument, a
  record; one instance, which keeps the messages it is given, relates the macros to the assertions of
  the rest of the development, where messages are not part of the state.
\<close>

section \<open>The library\<close>

text \<open>
  A run of code goes on (\<open>Inr\<close>) or has stopped in an assertion (\<open>Inl\<close>). The arguments of a message are
  its format and the values for it; those of a failed assertion are file, line and description.
\<close>

type_synonym 's run = "'s + 's"

record 's debug_lib =
  AssertEnabled :: bool
  PrintEnabled :: bool
  CodeEnabled :: bool
  ClearMemoryEnabled :: bool
  PrintLevelEnabled :: "UINTN \<Rightarrow> bool"
  DebugPrint :: "UINTN \<Rightarrow> string \<Rightarrow> UINTN list \<Rightarrow> 's \<Rightarrow> 's"
  DebugAssert :: "string \<Rightarrow> UINTN \<Rightarrow> string \<Rightarrow> 's \<Rightarrow> 's run"
  DebugClearMemory :: "UINTN \<Rightarrow> UINTN \<Rightarrow> 's \<Rightarrow> 's"

section \<open>The macros\<close>

definition DEBUG_PRINT :: "'s debug_lib \<Rightarrow> UINTN \<Rightarrow> string \<Rightarrow> UINTN list \<Rightarrow> 's \<Rightarrow> 's" where
  "DEBUG_PRINT lib PrintLevel Format Args s =
     (if PrintLevelEnabled lib PrintLevel then DebugPrint lib PrintLevel Format Args s else s)"

definition DEBUG :: "'s debug_lib \<Rightarrow> UINTN \<Rightarrow> string \<Rightarrow> UINTN list \<Rightarrow> 's \<Rightarrow> 's" where
  "DEBUG lib PrintLevel Format Args s =
     (if PrintEnabled lib then DEBUG_PRINT lib PrintLevel Format Args s else s)"

text \<open>The macros that assert; file and line are those of the place of use.\<close>

definition DEBUG_ASSERT :: "'s debug_lib \<Rightarrow> string \<Rightarrow> UINTN \<Rightarrow> string \<Rightarrow> bool \<Rightarrow> 's \<Rightarrow> 's run" where
  "DEBUG_ASSERT lib File Line Text Expression s =
     (if AssertEnabled lib then
        if \<not> Expression then DebugAssert lib File Line Text s else Inr s
      else Inr s)"

definition DEBUG_ASSERT_EFI_ERROR :: "'s debug_lib \<Rightarrow> string \<Rightarrow> UINTN \<Rightarrow> string \<Rightarrow> RETURN_STATUS \<Rightarrow> 's \<Rightarrow> 's run" where
  "DEBUG_ASSERT_EFI_ERROR lib File Line Text StatusParameter s =
     (if AssertEnabled lib then
        if RETURN_ERROR StatusParameter then
          let s = DEBUG lib 0x80000000
            ([CHR 0x0A] @ ''ASSERT_EFI_ERROR (Status = %r)'' @ [CHR 0x0A]) [StatusParameter] s
          in DebugAssert lib File Line Text s
        else Inr s
      else Inr s)"

definition ASSERT_RETURN_ERROR :: "'s debug_lib \<Rightarrow> string \<Rightarrow> UINTN \<Rightarrow> string \<Rightarrow> RETURN_STATUS \<Rightarrow> 's \<Rightarrow> 's run" where
  "ASSERT_RETURN_ERROR lib File Line Text StatusParameter s =
     (if AssertEnabled lib then
        if RETURN_ERROR StatusParameter then
          let s = DEBUG lib 0x80000000
            ([CHR 0x0A] @ ''ASSERT_RETURN_ERROR (Status = %r)'' @ [CHR 0x0A]) [StatusParameter] s
          in DebugAssert lib File Line Text s
        else Inr s
      else Inr s)"

text \<open>The boot services that look up a protocol are arguments; \<open>Guid\<close> is the address of a GUID.\<close>

type_synonym 's protocol_lookup = "UINTN \<Rightarrow> UINTN \<Rightarrow> 's \<Rightarrow> RETURN_STATUS \<times> 's"

definition ASSERT_PROTOCOL_ALREADY_INSTALLED ::
  "'s debug_lib \<Rightarrow> 's protocol_lookup \<Rightarrow> 's protocol_lookup \<Rightarrow> string \<Rightarrow> UINTN \<Rightarrow> UINTN \<Rightarrow> UINTN \<Rightarrow> 's \<Rightarrow> 's run" where
  "ASSERT_PROTOCOL_ALREADY_INSTALLED lib LocateProtocol HandleProtocol File Line Handle Guid s =
     (if AssertEnabled lib then
        case DEBUG_ASSERT lib File Line ''Guid != NULL'' (Guid \<noteq> NULL) s of
          Inl s \<Rightarrow> Inl s
        | Inr s \<Rightarrow>
            if Handle = NULL then
              let (Status, s) = LocateProtocol Guid NULL s in
              if \<not> RETURN_ERROR Status
              then DebugAssert lib File Line ''Guid already installed in database'' s else Inr s
            else
              let (Status, s) = HandleProtocol Handle Guid s in
              if \<not> RETURN_ERROR Status
              then DebugAssert lib File Line ''Guid already installed on Handle'' s else Inr s
      else Inr s)"

definition DEBUG_CODE :: "'s debug_lib \<Rightarrow> ('s \<Rightarrow> 's run) \<Rightarrow> 's \<Rightarrow> 's run" where
  "DEBUG_CODE lib Expression s = (if CodeEnabled lib then Expression s else Inr s)"

definition DEBUG_CLEAR_MEMORY :: "'s debug_lib \<Rightarrow> UINTN \<Rightarrow> UINTN \<Rightarrow> 's \<Rightarrow> 's" where
  "DEBUG_CLEAR_MEMORY lib Address Length s =
     (if ClearMemoryEnabled lib then DebugClearMemory lib Address Length s else s)"

section \<open>A library that keeps its messages\<close>

datatype event = Printed UINTN string "UINTN list" | Asserted string UINTN string

text \<open>
  The decisions as \<open>DebugLib.h\<close> documents them over the property mask and the fixed error level; the
  memory is cleared by an argument.
\<close>

definition log_lib :: "UINT8 \<Rightarrow> UINT32 \<Rightarrow> (UINTN \<Rightarrow> UINTN \<Rightarrow> 's \<Rightarrow> 's) \<Rightarrow> (event list \<times> 's) debug_lib" where
  "log_lib ps level clear =
     \<lparr>AssertEnabled = has_property ps ''DEBUG_ASSERT_ENABLED'',
      PrintEnabled = has_property ps ''DEBUG_PRINT_ENABLED'',
      CodeEnabled = has_property ps ''DEBUG_CODE_ENABLED'',
      ClearMemoryEnabled = has_property ps ''CLEAR_MEMORY_ENABLED'',
      PrintLevelEnabled = (\<lambda>l. l AND ucast level \<noteq> 0),
      DebugPrint = (\<lambda>l f as (es, s). (es @ [Printed l f as], s)),
      DebugAssert = (\<lambda>f l t (es, s).
        if has_property ps ''ASSERT_BREAKPOINT_ENABLED'' \<or> has_property ps ''ASSERT_DEADLOOP_ENABLED''
        then Inl (es @ [Asserted f l t], s) else Inr (es @ [Asserted f l t], s)),
      DebugClearMemory = (\<lambda>a n (es, s). (es, clear a n s))\<rparr>"

text \<open>The run without its messages, as the rest of the development has it.\<close>

fun silent :: "(event list \<times> 's) run \<Rightarrow> 's res" where
  "silent (Inl (es, s)) = Inl AssertFailed"
| "silent (Inr (es, s)) = Inr s"

fun messages :: "(event list \<times> 's) run \<Rightarrow> event list" where
  "messages (Inl (es, s)) = es"
| "messages (Inr (es, s)) = es"

text \<open>The settings of the assertions for a property mask.\<close>

definition asserts_of :: "UINT8 \<Rightarrow> build_env \<Rightarrow> bool" where
  "asserts_of ps env \<longleftrightarrow>
     DebugAssertEnabled env = has_property ps ''DEBUG_ASSERT_ENABLED'' \<and>
     DebugAssertStops env = (has_property ps ''ASSERT_BREAKPOINT_ENABLED'' \<or> has_property ps ''ASSERT_DEADLOOP_ENABLED'')"

lemmas debug_macros = DEBUG_PRINT_def DEBUG_def DEBUG_ASSERT_def DEBUG_ASSERT_EFI_ERROR_def ASSERT_RETURN_ERROR_def
  log_lib_def Let_def

section \<open>Properties\<close>

text \<open>
  C19. Debug output does not matter: with the library that keeps its messages, the macros that assert
  do, once the messages are dropped, what the assertions of the rest of the development do in a
  build with the same property mask. A failed status is printed before its assertion, both in the
  order of the text, exactly when assertions are enabled, and the print only when printing and its
  level are; with no failure nothing is added.
\<close>

theorem debug_output_refines:
  assumes "asserts_of ps env" "L = log_lib ps level clear"
  shows "silent (DEBUG_ASSERT L File Line Text e (es, s)) = ASSERT env e (Inr s) \<and>
    silent (DEBUG_ASSERT_EFI_ERROR L File Line Text status (es, s)) = ASSERT_EFI_ERROR env status (Inr s) \<and>
    silent (ASSERT_RETURN_ERROR L File Line Text status (es, s)) = ASSERT_EFI_ERROR env status (Inr s) \<and>
    messages (DEBUG_ASSERT L File Line Text e (es, s)) =
      es @ (if DebugAssertEnabled env \<and> \<not> e then [Asserted File Line Text] else []) \<and>
    messages (DEBUG_ASSERT_EFI_ERROR L File Line Text status (es, s)) =
      es @ (if DebugAssertEnabled env \<and> RETURN_ERROR status then
              (if has_property ps ''DEBUG_PRINT_ENABLED'' \<and> bit level 31
               then [Printed 0x80000000 ([CHR 0x0A] @ ''ASSERT_EFI_ERROR (Status = %r)'' @ [CHR 0x0A]) [status]] else []) @
              [Asserted File Line Text]
            else []) \<and>
    DEBUG L PrintLevel Format Args (es, s) =
      (es @ (if has_property ps ''DEBUG_PRINT_ENABLED'' \<and> PrintLevel AND ucast level \<noteq> 0
             then [Printed PrintLevel Format Args] else []), s)"
proof -
  have l: "(0x80000000 AND ucast level \<noteq> (0 :: UINTN)) = bit level 31"
  proof -
    have p: "(0x80000000 :: UINTN) = push_bit 31 1" by simp
    have "bit (0x80000000 AND ucast level :: UINTN) n \<longleftrightarrow> n = 31 \<and> bit level 31" for n
      unfolding p by (auto simp: bit_and_iff bit_push_bit_iff bit_1_iff bit_ucast_iff simp del: push_bit_of_1 push_bit_numeral_minus_1)
    then show ?thesis by (metis bit_0_eq bot_apply bit_eq_iff bot_bool_def)
  qed
  show ?thesis
    using assms(1) unfolding assms(2) by (auto simp: debug_macros asserts_of_def ASSERT_def ASSERT_EFI_ERROR_def l)
qed

theorem debug_output_refines_witness:
  "messages (DEBUG_ASSERT_EFI_ERROR (log_lib 0x2F 0xFFFFFFFF (\<lambda>a n s. s)) ''AutoGen.c'' 254 ''!EFI_ERROR (Status)''
     (ENCODE_ERROR 2) ([], ())) =
   [Printed 0x80000000 ([CHR 0x0A] @ ''ASSERT_EFI_ERROR (Status = %r)'' @ [CHR 0x0A]) [ENCODE_ERROR 2],
    Asserted ''AutoGen.c'' 254 ''!EFI_ERROR (Status)'']"
proof -
  have a: "asserts_of 0x2F debug_env"
    by (simp add: asserts_of_def debug_env_def has_property_def debug_properties_def)
  have p: "has_property 0x2F ''DEBUG_PRINT_ENABLED''" by (simp add: has_property_def debug_properties_def)
  have e: "RETURN_ERROR (ENCODE_ERROR 2)" "bit (0xFFFFFFFF :: UINT32) 31"
    by (simp_all add: RETURN_ERROR_def ENCODE_ERROR_def MAX_BIT_def)
  show ?thesis
    using debug_output_refines [OF a refl, where status = "ENCODE_ERROR 2" and level = "0xFFFFFFFF" and es = "[]" and s = "()"]
    by (simp add: p e debug_env_def)
qed

text \<open>
  C29. No protocol twice: for any library whose failed assertions do not return, where \<open>LocateProtocol\<close>
  called without a registration finds a protocol that is on some handle and \<open>HandleProtocol\<close> one that is on
  the handle, and neither changes the state, the macro goes on, with the state unchanged, exactly when
  assertions are off or the GUID is given and the protocol is not on the handle (for no handle, on none).
  Nothing is assumed of calls with a registration, a \<open>NULL\<close> handle or a \<open>NULL\<close> GUID, which the macro does not make.
\<close>

theorem protocol_installed_once:
  assumes "\<And>f l t s. \<exists>s'. DebugAssert lib f l t s = Inl s'"
    and "\<And>g s. g \<noteq> NULL \<Longrightarrow> snd (locate_p g NULL s) = s"
    and "\<And>g s. g \<noteq> NULL \<Longrightarrow> RETURN_ERROR (fst (locate_p g NULL s)) = (\<forall>h. (h, g) \<notin> db s)"
    and "\<And>h g s. h \<noteq> NULL \<Longrightarrow> g \<noteq> NULL \<Longrightarrow> snd (handle_p h g s) = s"
    and "\<And>h g s. h \<noteq> NULL \<Longrightarrow> g \<noteq> NULL \<Longrightarrow> RETURN_ERROR (fst (handle_p h g s)) = ((h, g) \<notin> db s)"
  shows "(ASSERT_PROTOCOL_ALREADY_INSTALLED lib locate_p handle_p File Line Handle Guid s = Inr s) =
      (AssertEnabled lib \<longrightarrow> Guid \<noteq> NULL \<and>
        (if Handle = NULL then \<forall>h. (h, Guid) \<notin> db s else (Handle, Guid) \<notin> db s)) \<and>
    (\<forall>s'. ASSERT_PROTOCOL_ALREADY_INSTALLED lib locate_p handle_p File Line Handle Guid s = Inr s' \<longrightarrow> s' = s)"
proof -
  have stop: "DebugAssert lib f l t s' \<noteq> Inr s''" for f l t s' s'' using assms(1) [of f l t s'] by auto
  have l: "\<exists>st. locate_p Guid NULL s = (st, s) \<and> RETURN_ERROR st = (\<forall>h. (h, Guid) \<notin> db s)" if "Guid \<noteq> NULL"
    using assms(2,3) [OF that, of s] by (metis prod.collapse)
  have h: "\<exists>su. handle_p Handle Guid s = (su, s) \<and> RETURN_ERROR su = ((Handle, Guid) \<notin> db s)"
    if "Handle \<noteq> NULL" "Guid \<noteq> NULL"
    using assms(4,5) [OF that, of s] by (metis prod.collapse)
  show ?thesis
    using l h stop by (cases "Guid = NULL"; cases "Handle = NULL") (auto simp: ASSERT_PROTOCOL_ALREADY_INSTALLED_def DEBUG_ASSERT_def split: sum.splits if_splits)
qed

theorem protocol_installed_once_witness:
  "ASSERT_PROTOCOL_ALREADY_INSTALLED
     \<lparr>AssertEnabled = True, PrintEnabled = True, CodeEnabled = True, ClearMemoryEnabled = True,
      PrintLevelEnabled = (\<lambda>l. True), DebugPrint = (\<lambda>l f as s. s), DebugAssert = (\<lambda>f l t s. Inl s),
      DebugClearMemory = (\<lambda>a n s. s)\<rparr>
     (\<lambda>g r s. (if g = NULL then ENCODE_ERROR 2 else if r = NULL \<and> g \<in> set (map snd s) then RETURN_SUCCESS else ENCODE_ERROR 14, s))
     (\<lambda>h g s. (if (h, g) \<in> set s then RETURN_SUCCESS else ENCODE_ERROR 3, s))
     ''Driver.c'' 7 16 32 [(16, 48), (24, 32)] = Inr [(16, 48), (24, 32)]"
proof -
  let ?lib = "\<lparr>AssertEnabled = True, PrintEnabled = True, CodeEnabled = True, ClearMemoryEnabled = True,
      PrintLevelEnabled = (\<lambda>l. True), DebugPrint = (\<lambda>l f as s. s), DebugAssert = (\<lambda>f l t s. Inl s),
      DebugClearMemory = (\<lambda>a n s. s)\<rparr> :: (UINTN \<times> UINTN) list debug_lib"
  let ?l = "\<lambda>g (r :: UINTN) s. (if g = NULL then ENCODE_ERROR 2 else if r = NULL \<and> g \<in> set (map snd s) then RETURN_SUCCESS else ENCODE_ERROR 14,
    s :: (UINTN \<times> UINTN) list)"
  let ?h = "\<lambda>h g s. (if (h, g) \<in> set s then RETURN_SUCCESS else ENCODE_ERROR 3, s :: (UINTN \<times> UINTN) list)"
  have e: "RETURN_ERROR (ENCODE_ERROR 14)" "RETURN_ERROR (ENCODE_ERROR 3)" "\<not> RETURN_ERROR RETURN_SUCCESS"
    by (simp_all add: RETURN_ERROR_def ENCODE_ERROR_def MAX_BIT_def RETURN_SUCCESS_def)
  have "(ASSERT_PROTOCOL_ALREADY_INSTALLED ?lib ?l ?h ''Driver.c'' 7 16 32 [(16, 48), (24, 32)] = Inr [(16, 48), (24, 32)]) =
      (AssertEnabled ?lib \<longrightarrow> (32 :: UINTN) \<noteq> NULL \<and>
        (if (16 :: UINTN) = NULL then \<forall>h. (h, 32) \<notin> set [(16 :: UINTN, 48 :: UINTN), (24, 32)] else (16, 32) \<notin> set [(16 :: UINTN, 48 :: UINTN), (24, 32)]))"
    by (rule protocol_installed_once [THEN conjunct1]) (force simp: e image_iff)+
  then show ?thesis by (simp add: NULL_def)
qed

end
