(* ===== verification/Call_Frames.thy ===== *)
theory Call_Frames imports Var_Args Firmware_Types begin

text \<open>
  Function types of the headers, and calls as the EFI calling convention for X64 has them: the first
  four arguments in registers, the others in slots of the stack, above a home area for the registers.
\<close>

section \<open>Function types\<close>

text \<open>
  A type is a name of the sources, a pointer, or qualified by \<open>CONST\<close> (\<open>Const\<close>). Parameters have the modifiers of
  \<open>Base.h\<close>, and \<open>OPTIONAL\<close> where it follows the parameter; \<open>PLAIN\<close> ones have none. All functions are
  \<open>EFIAPI\<close>; a variadic one has further arguments after its parameters.
\<close>

datatype type_name = VOID | T string | To type_name | Const type_name

datatype parameter =
    IN type_name string
  | OUT type_name string
  | IN_OUT type_name string
  | PLAIN type_name string
  | OPTIONAL parameter

datatype proto = Fun type_name "parameter list" | Variadic type_name "parameter list"

fun result_type :: "proto \<Rightarrow> type_name" where
  "result_type (Fun R ps) = R"
| "result_type (Variadic R ps) = R"

fun parameters :: "proto \<Rightarrow> parameter list" where
  "parameters (Fun R ps) = ps"
| "parameters (Variadic R ps) = ps"

fun variadic :: "proto \<Rightarrow> bool" where
  "variadic (Fun R ps) = False"
| "variadic (Variadic R ps) = True"

fun parameter_type :: "parameter \<Rightarrow> type_name" where
  "parameter_type (IN t x) = t"
| "parameter_type (OUT t x) = t"
| "parameter_type (IN_OUT t x) = t"
| "parameter_type (PLAIN t x) = t"
| "parameter_type (OPTIONAL p) = parameter_type p"

fun parameter_name :: "parameter \<Rightarrow> string" where
  "parameter_name (IN t x) = x"
| "parameter_name (OUT t x) = x"
| "parameter_name (IN_OUT t x) = x"
| "parameter_name (PLAIN t x) = x"
| "parameter_name (OPTIONAL p) = parameter_name p"

fun written :: "parameter \<Rightarrow> bool" where
  "written (OUT t x) = True"
| "written (IN_OUT t x) = True"
| "written (OPTIONAL p) = written p"
| "written p = False"

text \<open>The objects behind the names that are passed by value.\<close>

definition object_types :: "(string \<times> ctype) list" where
  "object_types =
     [(''UINT64'', UINT64), (''INT64'', INT64), (''UINT32'', UINT32), (''INT32'', INT32), (''UINT16'', UINT16),
      (''INT16'', INT16), (''UINT8'', UINT8), (''INT8'', INT8), (''CHAR16'', CHAR16), (''CHAR8'', CHAR8),
      (''BOOLEAN'', BOOLEAN), (''UINTN'', UINTN), (''INTN'', INTN), (''RETURN_STATUS'', RETURN_STATUS),
      (''EFI_STATUS'', EFI_STATUS), (''EFI_HANDLE'', EFI_HANDLE), (''EFI_EVENT'', EFI_EVENT), (''EFI_TPL'', EFI_TPL),
      (''PHYSICAL_ADDRESS'', PHYSICAL_ADDRESS), (''EFI_PHYSICAL_ADDRESS'', EFI_PHYSICAL_ADDRESS),
      (''EFI_ALLOCATE_TYPE'', Enum), (''EFI_MEMORY_TYPE'', Enum), (''EFI_TIMER_DELAY'', Enum),
      (''EFI_RESET_TYPE'', Enum), (''EFI_INTERFACE_TYPE'', Enum), (''EFI_LOCATE_SEARCH_TYPE'', Enum),
      (''PVALIDATE_PAGE_SIZE'', Enum), (''BASE_LIST'', Pointer), (''VA_LIST'', Pointer),
      (''SWITCH_STACK_ENTRY_POINT'', Pointer), (''BASE_SORT_COMPARE'', Pointer), (''PCD_CALLBACK'', Pointer),
      (''EFI_EVENT_NOTIFY'', Pointer), (''EFI_KEY_NOTIFY_FUNCTION'', Pointer)]"

fun value_size :: "type_name \<Rightarrow> nat option" where
  "value_size VOID = None"
| "value_size (T n) = map_option sizeof_type (map_of object_types n)"
| "value_size (To t) = Some 8"
| "value_size (Const t) = value_size t"

text \<open>A value of 1, 2, 4 or 8 bytes is passed in its slot; no other sizes occur.\<close>

definition slot_type :: "type_name \<Rightarrow> arg_type option" where
  "slot_type t = (case value_size t of None \<Rightarrow> None
     | Some n \<Rightarrow> map_of [(1, Type8), (2, Type16), (4, Type32), (8, Type64)] n)"

fun all_some :: "'a option list \<Rightarrow> 'a list option" where
  "all_some [] = Some []"
| "all_some (None # xs) = None"
| "all_some (Some x # xs) = map_option (Cons x) (all_some xs)"

definition slot_types :: "proto \<Rightarrow> arg_type list option" where
  "slot_types p = all_some (map (\<lambda>x. slot_type (parameter_type x)) (parameters p))"

section \<open>Calls\<close>

record cpu =
  RAX :: UINTN
  RCX :: UINTN
  RDX :: UINTN
  R8 :: UINTN
  R9 :: UINTN
  RSP :: UINTN
  Memory :: mem

text \<open>An argument in a register leaves the bits above its width as they were.\<close>

fun put_reg :: "UINTN \<Rightarrow> arg \<Rightarrow> UINTN" where
  "put_reg r (Arg8 v) = (r AND NOT (mask 8)) OR ucast v"
| "put_reg r (Arg16 v) = (r AND NOT (mask 16)) OR ucast v"
| "put_reg r (Arg32 v) = (r AND NOT (mask 32)) OR ucast v"
| "put_reg r (Arg64 v) = v"

fun get_reg :: "UINTN \<Rightarrow> arg_type \<Rightarrow> arg" where
  "get_reg r Type8 = Arg8 (ucast r)"
| "get_reg r Type16 = Arg16 (ucast r)"
| "get_reg r Type32 = Arg32 (ucast r)"
| "get_reg r Type64 = Arg64 r"

fun put_regs :: "arg list \<Rightarrow> cpu \<Rightarrow> cpu" where
  "put_regs [] s = s"
| "put_regs [a] s = s\<lparr>RCX := put_reg (RCX s) a\<rparr>"
| "put_regs [a, b] s = s\<lparr>RCX := put_reg (RCX s) a, RDX := put_reg (RDX s) b\<rparr>"
| "put_regs [a, b, c] s =
     s\<lparr>RCX := put_reg (RCX s) a, RDX := put_reg (RDX s) b, R8 := put_reg (R8 s) c\<rparr>"
| "put_regs (a # b # c # d # as) s =
     s\<lparr>RCX := put_reg (RCX s) a, RDX := put_reg (RDX s) b, R8 := put_reg (R8 s) c, R9 := put_reg (R9 s) d\<rparr>"

definition get_regs :: "arg_type list \<Rightarrow> cpu \<Rightarrow> arg list" where
  "get_regs ts s = map (\<lambda>(r, t). get_reg r t) (zip [RCX s, RDX s, R8 s, R9 s] ts)"

text \<open>
  The caller has a home area of four slots at the stack pointer and the slots of the further arguments
  above it; the call pushes the address to return to.
\<close>

definition call :: "UINTN \<Rightarrow> arg list \<Rightarrow> cpu \<Rightarrow> cpu res" where
  "call ra as s =
     bindr (put_args (Memory s) (RSP s + 32) (drop 4 as)) (\<lambda>m.
     bindr (store m (RSP s - 8) ra) (\<lambda>m. Inr ((put_regs as s)\<lparr>RSP := RSP s - 8, Memory := m\<rparr>)))"

definition receive :: "arg_type list \<Rightarrow> cpu \<Rightarrow> arg list res" where
  "receive ts s =
     map_res (\<lambda>(as, p). get_regs ts s @ as) (get_args (Memory s) (RSP s + 40) (drop 4 ts))"

definition return :: "cpu \<Rightarrow> (UINTN \<times> cpu) res" where
  "return s = map_res (\<lambda>ra. (ra, s\<lparr>RSP := RSP s + 8\<rparr>)) (load (Memory s) (RSP s))"

text \<open>A variadic callee stores the registers in the home area, where the arguments are then in a row.\<close>

definition home :: "cpu \<Rightarrow> cpu res" where
  "home s =
     map_res (\<lambda>m. s\<lparr>Memory := m\<rparr>)
       (put_args (Memory s) (RSP s + 8) [Arg64 (RCX s), Arg64 (RDX s), Arg64 (R8 s), Arg64 (R9 s)])"

text \<open>The address of the parameter with an index, in its slot.\<close>

definition parameter_slot :: "cpu \<Rightarrow> nat \<Rightarrow> UINTN" where
  "parameter_slot s i = RSP s + 8 + of_nat (8 * i)"

section \<open>Registers\<close>

lemma reg_round_trip [simp]: "get_reg (put_reg r a) (type_of_arg a) = a"
  by (cases a) (simp_all, (rule bit_word_eqI, auto simp: bit_simps)+)

lemma regs_round_trip: "get_regs (map type_of_arg as) (put_regs as s) = take 4 as"
  by (cases "(as, s)" rule: put_regs.cases) (simp_all add: get_regs_def)

lemma put_regs_more [simp]: "RSP (put_regs as s) = RSP s" "Memory (put_regs as s) = Memory s"
  by (cases "(as, s)" rule: put_regs.cases; simp)+

lemma get_regs_more [simp]: "get_regs ts (s\<lparr>RSP := p, Memory := m\<rparr>) = get_regs ts s"
  by (simp add: get_regs_def)

section \<open>Slots\<close>

lemma get_arg_moves: "get_arg m p t = Inr (a, q) \<Longrightarrow> q = p + 8"
  by (cases t) (auto simp: BASE_ARG_load sizeof_word_def map_res_def bindr_def split: sum.splits)

lemma get_args_kept:
  assumes "\<And>i k. i < length ts \<Longrightarrow> k \<le> 8 \<Longrightarrow> load_bytes m' (p + of_nat (8 * i)) k = load_bytes m (p + of_nat (8 * i)) k"
  shows "get_args m' p ts = get_args m p ts"
  using assms
proof (induction ts arbitrary: p)
  case (Cons t ts)
  have "get_arg m' p t = get_arg m p t" using Cons.prems [of 0] by (intro get_arg_kept) simp
  moreover have "get_args m' (p + 8) ts = get_args m (p + 8) ts"
    using Cons.prems [of "Suc _"] by (intro Cons.IH) (simp add: algebra_simps)
  ultimately show ?case
    by (cases "get_arg m p t") (auto dest: get_arg_moves)
qed simp

lemma get_args_all:
  assumes "\<And>i. i < length as \<Longrightarrow>
    get_arg m (p + of_nat (8 * i)) (type_of_arg (as ! i)) = Inr (as ! i, p + of_nat (8 * i) + 8)"
  shows "get_args m p (map type_of_arg as) = Inr (as, p + of_nat (8 * length as))"
  using assms
proof (induction as arbitrary: p)
  case (Cons a as)
  have "get_arg m p (type_of_arg a) = Inr (a, p + 8)" using Cons.prems [of 0] by simp
  moreover have "get_args m (p + 8) (map type_of_arg as) = Inr (as, p + 8 + of_nat (8 * length as))"
    using Cons.prems [of "Suc _"] by (intro Cons.IH) (simp add: algebra_simps)
  ultimately show ?case by (simp add: algebra_simps)
qed simp

lemma get_args_each:
  assumes "get_args m p (map type_of_arg as) = Inr (as, q)" "i < length as"
  shows "get_arg m (p + of_nat (8 * i)) (type_of_arg (as ! i)) = Inr (as ! i, p + of_nat (8 * i) + 8)"
  using assms
proof (induction as arbitrary: p i)
  case (Cons a as)
  obtain b r where b: "get_arg m p (type_of_arg a) = Inr (b, r)"
    using Cons.prems(1) by (auto simp: bindr_def split: sum.splits)
  then have r: "r = p + 8" by (rule get_arg_moves)
  obtain cs u where "get_args m (p + 8) (map type_of_arg as) = Inr (cs, u)"
    using Cons.prems(1) b r by (auto simp: bindr_def split: sum.splits)
  with Cons.prems(1) b r have c: "b = a" "get_args m (p + 8) (map type_of_arg as) = Inr (as, q)" by simp_all
  show ?case
  proof (cases i)
    case 0
    then show ?thesis using b r c(1) by simp
  next
    case (Suc k)
    then show ?thesis using Cons.IH [OF c(2), of k] Cons.prems(2) by (simp add: algebra_simps)
  qed
qed simp

lemma slot_view:
  assumes "buffer m p 8" "load m p = Inr w"
  shows "get_arg m p t = Inr (get_reg w t, p + 8)"
proof -
  have "load m p = Inr (ucast w :: UINT8)" "load m p = Inr (ucast w :: UINT16)" "load m p = Inr (ucast w :: UINT32)"
    using narrow_load [OF assms(1), where 'a = 8] narrow_load [OF assms(1), where 'a = 16]
      narrow_load [OF assms(1), where 'a = 32] assms(2) by (simp_all add: sizeof_word_def)
  then show ?thesis using assms(2) by (cases t) (simp_all add: BASE_ARG_load sizeof_word_def map_res_def)
qed

text \<open>The frame of a call: the return address, the home area, and the slots of the further arguments.\<close>

definition frame_size :: "arg list \<Rightarrow> nat" where
  "frame_size as = 40 + 8 * (length as - 4)"

lemma call_outcome:
  assumes "buffer (Memory s) (RSP s - 8) (frame_size as)"
  shows "\<exists>m. call ra as s = Inr ((put_regs as s)\<lparr>RSP := RSP s - 8, Memory := m\<rparr>) \<and>
    load m (RSP s - 8) = Inr ra \<and>
    get_args m (RSP s + 32) (map type_of_arg (drop 4 as)) = Inr (drop 4 as, RSP s + 32 + of_nat (8 * (length as - 4))) \<and>
    (\<forall>b n. buffer (Memory s) b n \<longrightarrow> buffer m b n) \<and>
    (\<forall>b j. apart b j (RSP s - 8) (frame_size as) \<longrightarrow> load_bytes m b j = load_bytes (Memory s) b j)"
proof -
  let ?D = "RSP s - 8" and ?k = "length as - 4" and ?N = "frame_size as"
  have N: "?N \<le> 2 ^ 64" "?N = 40 + 8 * ?k" using assms by (simp_all add: buffer_def frame_size_def)
  have e: "RSP s + 32 = ?D + of_nat 40" by simp
  have "buffer (Memory s) (RSP s + 32) (8 * length (drop 4 as))"
    unfolding e using N by (intro buffer_part [OF assms]) simp
  then obtain m1 where m1: "put_args (Memory s) (RSP s + 32) (drop 4 as) = Inr m1"
    "get_args m1 (RSP s + 32) (map type_of_arg (drop 4 as)) = Inr (drop 4 as, RSP s + 32 + of_nat (8 * ?k))"
    and k1: "\<And>b n. buffer (Memory s) b n \<Longrightarrow> buffer m1 b n"
    and f1: "\<And>b j. apart b j (RSP s + 32) (8 * ?k) \<Longrightarrow> load_bytes m1 b j = load_bytes (Memory s) b j"
    using args_stored [of "Memory s" "RSP s + 32" "drop 4 as"] unfolding length_drop by blast
  have sz: "sizeof_word ra \<le> 8" by (simp add: sizeof_word_def)
  have b1: "buffer m1 ?D (8 * Suc (4 + ?k))" using k1 [OF assms] N by simp
  then obtain m2 where m2: "store m1 ?D ra = Inr m2" "load m2 ?D = Inr ra"
    and k2: "\<And>b n. buffer m1 b n \<Longrightarrow> buffer m2 b n"
    and f2: "\<And>b j. apart b j ?D 8 \<Longrightarrow> load_bytes m2 b j = load_bytes m1 b j"
    using slot_stored [OF b1 sz] by blast
  have "get_args m2 (RSP s + 32) (map type_of_arg (drop 4 as)) = get_args m1 (RSP s + 32) (map type_of_arg (drop 4 as))"
  proof (rule get_args_kept)
    fix i k assume i: "i < length (map type_of_arg (drop 4 as))" "k \<le> (8 :: nat)"
    have "RSP s + 32 + of_nat (8 * i) = ?D + of_nat (40 + 8 * i)" by simp
    moreover have "apart (?D + of_nat (40 + 8 * i)) k (?D + of_nat 0) 8"
      using i N by (intro parts_apart [of ?N]) simp_all
    ultimately have "apart (RSP s + 32 + of_nat (8 * i)) k ?D 8" by (simp add: algebra_simps)
    then show "load_bytes m2 (RSP s + 32 + of_nat (8 * i)) k = load_bytes m1 (RSP s + 32 + of_nat (8 * i)) k" by (rule f2)
  qed
  moreover have "load_bytes m2 b j = load_bytes (Memory s) b j" if a: "apart b j ?D ?N" for b j
  proof -
    have "apart b j (?D + of_nat 0) 8" "apart b j (?D + of_nat 40) (8 * ?k)"
      using N by (intro part_apart [OF a]; simp)+
    then show ?thesis using f1 f2 e by simp
  qed
  moreover have "call ra as s = Inr ((put_regs as s)\<lparr>RSP := RSP s - 8, Memory := m2\<rparr>)"
    using m1(1) m2(1) by (simp add: call_def)
  ultimately show ?thesis using m1(2) m2(2) k1 k2 by (intro exI [of _ m2]) simp
qed

lemma call_received:
  assumes "buffer (Memory s) (RSP s - 8) (frame_size as)"
  shows "\<exists>s'. call ra as s = Inr s' \<and> receive (map type_of_arg as) s' = Inr as \<and>
    RSP s' = RSP s - 8 \<and> load (Memory s') (RSP s') = Inr ra \<and>
    (\<forall>b n. buffer (Memory s) b n \<longrightarrow> buffer (Memory s') b n) \<and>
    (\<forall>b j. apart b j (RSP s - 8) (frame_size as) \<longrightarrow> load_bytes (Memory s') b j = load_bytes (Memory s) b j)"
proof -
  obtain m where m: "call ra as s = Inr ((put_regs as s)\<lparr>RSP := RSP s - 8, Memory := m\<rparr>)"
    "load m (RSP s - 8) = Inr ra"
    "get_args m (RSP s + 32) (map type_of_arg (drop 4 as)) = Inr (drop 4 as, RSP s + 32 + of_nat (8 * (length as - 4)))"
    "\<forall>b n. buffer (Memory s) b n \<longrightarrow> buffer m b n"
    "\<forall>b j. apart b j (RSP s - 8) (frame_size as) \<longrightarrow> load_bytes m b j = load_bytes (Memory s) b j"
    using call_outcome [OF assms] by blast
  let ?s = "(put_regs as s)\<lparr>RSP := RSP s - 8, Memory := m\<rparr>"
  have e: "RSP ?s + 40 = RSP s + 32" by simp
  have "receive (map type_of_arg as) ?s = Inr as"
    unfolding receive_def e drop_map using m(3) regs_round_trip [of as s] by (simp add: map_res_def)
  then show ?thesis using m by (intro exI [of _ ?s]) simp
qed

lemma home_outcome:
  assumes "buffer (Memory s) (RSP s + 8) 32"
  shows "\<exists>m. home s = Inr (s\<lparr>Memory := m\<rparr>) \<and> (\<forall>b n. buffer (Memory s) b n \<longrightarrow> buffer m b n) \<and>
    (\<forall>i<4. load m (RSP s + 8 + of_nat (8 * i)) = Inr ([RCX s, RDX s, R8 s, R9 s] ! i)) \<and>
    (\<forall>b j. apart b j (RSP s + 8) 32 \<longrightarrow> load_bytes m b j = load_bytes (Memory s) b j)"
proof -
  let ?rs = "[Arg64 (RCX s), Arg64 (RDX s), Arg64 (R8 s), Arg64 (R9 s)]"
  have "buffer (Memory s) (RSP s + 8) (8 * length ?rs)" using assms by simp
  from args_stored [OF this] obtain m where m: "put_args (Memory s) (RSP s + 8) ?rs = Inr m"
    and g: "get_args m (RSP s + 8) (map type_of_arg ?rs) = Inr (?rs, RSP s + 8 + of_nat (8 * length ?rs))"
    and k: "\<forall>b n. buffer (Memory s) b n \<longrightarrow> buffer m b n"
    and f: "\<forall>b j. apart b j (RSP s + 8) (8 * length ?rs) \<longrightarrow> load_bytes m b j = load_bytes (Memory s) b j"
    by blast
  have "load m (RSP s + 8 + of_nat (8 * i)) = Inr ([RCX s, RDX s, R8 s, R9 s] ! i)" if "i < 4" for i
  proof -
    have i: "i \<in> {0, 1, 2, 3}" using that by auto
    then have "get_arg m (RSP s + 8 + of_nat (8 * i)) Type64 =
        Inr (Arg64 ([RCX s, RDX s, R8 s, R9 s] ! i), RSP s + 8 + of_nat (8 * i) + 8)"
      using get_args_each [OF g, of i] by auto
    then show ?thesis by (auto simp: BASE_ARG_load sizeof_word_def map_res_def bindr_def split: sum.splits)
  qed
  then show ?thesis using m k f by (intro exI [of _ m]) (simp add: home_def map_res_def)
qed

lemma variadic_received:
  assumes "buffer (Memory s) (RSP s - 8) (frame_size as)"
  shows "\<exists>s' s''. call ra as s = Inr s' \<and> home s' = Inr s'' \<and> RSP s'' = RSP s - 8 \<and>
    (\<forall>k\<le>length as. get_args (Memory s'') (parameter_slot s'' k) (map type_of_arg (drop k as)) =
      Inr (drop k as, parameter_slot s'' (length as)))"
proof -
  let ?D = "RSP s - 8" and ?N = "frame_size as"
  have N: "?N \<le> 2 ^ 64" "40 + 8 * (length as - 4) = ?N" "40 \<le> ?N" using assms by (simp_all add: buffer_def frame_size_def)
  obtain m where m: "call ra as s = Inr ((put_regs as s)\<lparr>RSP := ?D, Memory := m\<rparr>)"
    and st: "get_args m (RSP s + 32) (map type_of_arg (drop 4 as)) =
      Inr (drop 4 as, RSP s + 32 + of_nat (8 * (length as - 4)))"
    and k: "\<And>b n. buffer (Memory s) b n \<Longrightarrow> buffer m b n"
    using call_outcome [OF assms, of ra] by blast
  let ?s = "(put_regs as s)\<lparr>RSP := ?D, Memory := m\<rparr>"
  have "buffer m (?D + of_nat 8) 32" using N by (intro buffer_part [OF k [OF assms]]) simp
  then have "buffer (Memory ?s) (RSP ?s + 8) 32" by simp
  then obtain m' where m': "home ?s = Inr (?s\<lparr>Memory := m'\<rparr>)"
    and h: "\<forall>b n. buffer (Memory ?s) b n \<longrightarrow> buffer m' b n"
      "\<forall>i<4. load m' (RSP ?s + 8 + of_nat (8 * i)) = Inr ([RCX ?s, RDX ?s, R8 ?s, R9 ?s] ! i)"
      "\<forall>b j. apart b j (RSP ?s + 8) 32 \<longrightarrow> load_bytes m' b j = load_bytes (Memory ?s) b j"
    using home_outcome by blast
  have k': "buffer m b n \<Longrightarrow> buffer m' b n" for b n using h(1) by simp
  have r: "load m' (RSP s + of_nat (8 * i)) =
      Inr ([RCX (put_regs as s), RDX (put_regs as s), R8 (put_regs as s), R9 (put_regs as s)] ! i)" if "i < 4" for i
    using h(2) that by simp
  have f: "apart b j (RSP s) 32 \<Longrightarrow> load_bytes m' b j = load_bytes m b j" for b j using h(3) by simp
  have slot: "get_arg m' (RSP s + of_nat (8 * i)) (type_of_arg (as ! i)) = Inr (as ! i, RSP s + of_nat (8 * i) + 8)"
    if i: "i < length as" for i
  proof (cases "i < 4")
    case True
    have "buffer m' (?D + of_nat (8 + 8 * i)) 8"
      using N True by (intro buffer_part [OF k' [OF k [OF assms]]]) simp
    then have "buffer m' (RSP s + of_nat (8 * i)) 8" by (simp add: algebra_simps)
    from slot_view [OF this r [OF True], of "type_of_arg (as ! i)"]
    have "get_arg m' (RSP s + of_nat (8 * i)) (type_of_arg (as ! i)) =
      Inr (get_regs (map type_of_arg as) (put_regs as s) ! i, RSP s + of_nat (8 * i) + 8)"
      using i True by (simp add: get_regs_def)
    then show ?thesis using True i by (simp add: regs_round_trip)
  next
    case False
    then obtain j where j: "i = 4 + j" by (metis not_less le_iff_add)
    have e: "RSP s + of_nat (8 * i) = RSP s + 32 + of_nat (8 * j)" by (simp add: j algebra_simps)
    have "get_arg m (RSP s + 32 + of_nat (8 * j)) (type_of_arg (drop 4 as ! j)) =
        Inr (drop 4 as ! j, RSP s + 32 + of_nat (8 * j) + 8)"
      using i j by (intro get_args_each [OF st]) simp
    moreover have "load_bytes m' (RSP s + 32 + of_nat (8 * j)) n = load_bytes m (RSP s + 32 + of_nat (8 * j)) n"
      if n: "n \<le> 8" for n
    proof (rule f)
      have "apart (?D + of_nat (40 + 8 * j)) n (?D + of_nat 8) 32"
        using i j N n by (intro parts_apart [of ?N]) simp_all
      then show "apart (RSP s + 32 + of_nat (8 * j)) n (RSP s) 32" by (simp add: algebra_simps)
    qed
    then have "get_arg m' (RSP s + 32 + of_nat (8 * j)) t = get_arg m (RSP s + 32 + of_nat (8 * j)) t" for t
      by (rule get_arg_kept)
    ultimately show ?thesis unfolding e using i j by simp
  qed
  have "get_args m' (RSP s + of_nat (8 * n)) (map type_of_arg (drop n as)) =
      Inr (drop n as, RSP s + of_nat (8 * length as))" if n: "n \<le> length as" for n
  proof -
    have "get_args m' (RSP s + of_nat (8 * n)) (map type_of_arg (drop n as)) =
        Inr (drop n as, RSP s + of_nat (8 * n) + of_nat (8 * length (drop n as)))"
      using slot [of "n + _"] n by (intro get_args_all) (simp add: algebra_simps)
    then show ?thesis using n by (simp add: of_nat_diff algebra_simps)
  qed
  then show ?thesis
    using m m' by (intro exI [of _ ?s] exI [of _ "?s\<lparr>Memory := m'\<rparr>"]) (simp add: parameter_slot_def)
qed

end
