(* ===== verification/BaseLib_Prototypes.thy ===== *)
theory BaseLib_Prototypes imports Call_Frames begin

text \<open>
  The functions that \<open>BaseLib.h\<close> declares for X64, one definition for each, with the types and the modifiers
  of the parameters as they are declared there.
\<close>

named_theorems protos \<open>function types of the sources\<close>

section \<open>BaseLib.h\<close>

definition StrnLenS_proto :: proto where [protos]:
  "StrnLenS_proto = Fun (T ''UINTN'')
     [IN (To (Const (T ''CHAR16''))) ''String'', IN (T ''UINTN'') ''MaxSize'']"

definition StrnSizeS_proto :: proto where [protos]:
  "StrnSizeS_proto = Fun (T ''UINTN'')
     [IN (To (Const (T ''CHAR16''))) ''String'', IN (T ''UINTN'') ''MaxSize'']"

definition StrCpyS_proto :: proto where [protos]:
  "StrCpyS_proto = Fun (T ''RETURN_STATUS'')
     [OUT (To (T ''CHAR16'')) ''Destination'', IN (T ''UINTN'') ''DestMax'',
      IN (To (Const (T ''CHAR16''))) ''Source'']"

definition StrnCpyS_proto :: proto where [protos]:
  "StrnCpyS_proto = Fun (T ''RETURN_STATUS'')
     [OUT (To (T ''CHAR16'')) ''Destination'', IN (T ''UINTN'') ''DestMax'',
      IN (To (Const (T ''CHAR16''))) ''Source'', IN (T ''UINTN'') ''Length'']"

definition StrCatS_proto :: proto where [protos]:
  "StrCatS_proto = Fun (T ''RETURN_STATUS'')
     [IN_OUT (To (T ''CHAR16'')) ''Destination'', IN (T ''UINTN'') ''DestMax'',
      IN (To (Const (T ''CHAR16''))) ''Source'']"

definition StrnCatS_proto :: proto where [protos]:
  "StrnCatS_proto = Fun (T ''RETURN_STATUS'')
     [IN_OUT (To (T ''CHAR16'')) ''Destination'', IN (T ''UINTN'') ''DestMax'',
      IN (To (Const (T ''CHAR16''))) ''Source'', IN (T ''UINTN'') ''Length'']"

definition StrDecimalToUintnS_proto :: proto where [protos]:
  "StrDecimalToUintnS_proto = Fun (T ''RETURN_STATUS'')
     [IN (To (Const (T ''CHAR16''))) ''String'', OPTIONAL (OUT (To (To (T ''CHAR16''))) ''EndPointer''),
      OUT (To (T ''UINTN'')) ''Data'']"

definition StrDecimalToUint64S_proto :: proto where [protos]:
  "StrDecimalToUint64S_proto = Fun (T ''RETURN_STATUS'')
     [IN (To (Const (T ''CHAR16''))) ''String'', OPTIONAL (OUT (To (To (T ''CHAR16''))) ''EndPointer''),
      OUT (To (T ''UINT64'')) ''Data'']"

definition StrHexToUintnS_proto :: proto where [protos]:
  "StrHexToUintnS_proto = Fun (T ''RETURN_STATUS'')
     [IN (To (Const (T ''CHAR16''))) ''String'', OPTIONAL (OUT (To (To (T ''CHAR16''))) ''EndPointer''),
      OUT (To (T ''UINTN'')) ''Data'']"

definition StrHexToUint64S_proto :: proto where [protos]:
  "StrHexToUint64S_proto = Fun (T ''RETURN_STATUS'')
     [IN (To (Const (T ''CHAR16''))) ''String'', OPTIONAL (OUT (To (To (T ''CHAR16''))) ''EndPointer''),
      OUT (To (T ''UINT64'')) ''Data'']"

definition AsciiStrnLenS_proto :: proto where [protos]:
  "AsciiStrnLenS_proto = Fun (T ''UINTN'')
     [IN (To (Const (T ''CHAR8''))) ''String'', IN (T ''UINTN'') ''MaxSize'']"

definition AsciiStrnSizeS_proto :: proto where [protos]:
  "AsciiStrnSizeS_proto = Fun (T ''UINTN'')
     [IN (To (Const (T ''CHAR8''))) ''String'', IN (T ''UINTN'') ''MaxSize'']"

definition AsciiStrCpyS_proto :: proto where [protos]:
  "AsciiStrCpyS_proto = Fun (T ''RETURN_STATUS'')
     [OUT (To (T ''CHAR8'')) ''Destination'', IN (T ''UINTN'') ''DestMax'',
      IN (To (Const (T ''CHAR8''))) ''Source'']"

definition AsciiStrnCpyS_proto :: proto where [protos]:
  "AsciiStrnCpyS_proto = Fun (T ''RETURN_STATUS'')
     [OUT (To (T ''CHAR8'')) ''Destination'', IN (T ''UINTN'') ''DestMax'',
      IN (To (Const (T ''CHAR8''))) ''Source'', IN (T ''UINTN'') ''Length'']"

definition AsciiStrCatS_proto :: proto where [protos]:
  "AsciiStrCatS_proto = Fun (T ''RETURN_STATUS'')
     [IN_OUT (To (T ''CHAR8'')) ''Destination'', IN (T ''UINTN'') ''DestMax'',
      IN (To (Const (T ''CHAR8''))) ''Source'']"

definition AsciiStrnCatS_proto :: proto where [protos]:
  "AsciiStrnCatS_proto = Fun (T ''RETURN_STATUS'')
     [IN_OUT (To (T ''CHAR8'')) ''Destination'', IN (T ''UINTN'') ''DestMax'',
      IN (To (Const (T ''CHAR8''))) ''Source'', IN (T ''UINTN'') ''Length'']"

definition AsciiStrDecimalToUintnS_proto :: proto where [protos]:
  "AsciiStrDecimalToUintnS_proto = Fun (T ''RETURN_STATUS'')
     [IN (To (Const (T ''CHAR8''))) ''String'', OPTIONAL (OUT (To (To (T ''CHAR8''))) ''EndPointer''),
      OUT (To (T ''UINTN'')) ''Data'']"

definition AsciiStrDecimalToUint64S_proto :: proto where [protos]:
  "AsciiStrDecimalToUint64S_proto = Fun (T ''RETURN_STATUS'')
     [IN (To (Const (T ''CHAR8''))) ''String'', OPTIONAL (OUT (To (To (T ''CHAR8''))) ''EndPointer''),
      OUT (To (T ''UINT64'')) ''Data'']"

definition AsciiStrHexToUintnS_proto :: proto where [protos]:
  "AsciiStrHexToUintnS_proto = Fun (T ''RETURN_STATUS'')
     [IN (To (Const (T ''CHAR8''))) ''String'', OPTIONAL (OUT (To (To (T ''CHAR8''))) ''EndPointer''),
      OUT (To (T ''UINTN'')) ''Data'']"

definition AsciiStrHexToUint64S_proto :: proto where [protos]:
  "AsciiStrHexToUint64S_proto = Fun (T ''RETURN_STATUS'')
     [IN (To (Const (T ''CHAR8''))) ''String'', OPTIONAL (OUT (To (To (T ''CHAR8''))) ''EndPointer''),
      OUT (To (T ''UINT64'')) ''Data'']"

definition StrLen_proto :: proto where [protos]:
  "StrLen_proto = Fun (T ''UINTN'') [IN (To (Const (T ''CHAR16''))) ''String'']"

definition StrSize_proto :: proto where [protos]:
  "StrSize_proto = Fun (T ''UINTN'') [IN (To (Const (T ''CHAR16''))) ''String'']"

definition StrCmp_proto :: proto where [protos]:
  "StrCmp_proto = Fun (T ''INTN'')
     [IN (To (Const (T ''CHAR16''))) ''FirstString'', IN (To (Const (T ''CHAR16''))) ''SecondString'']"

definition StrnCmp_proto :: proto where [protos]:
  "StrnCmp_proto = Fun (T ''INTN'')
     [IN (To (Const (T ''CHAR16''))) ''FirstString'', IN (To (Const (T ''CHAR16''))) ''SecondString'',
      IN (T ''UINTN'') ''Length'']"

definition StrStr_proto :: proto where [protos]:
  "StrStr_proto = Fun (To (T ''CHAR16''))
     [IN (To (Const (T ''CHAR16''))) ''String'', IN (To (Const (T ''CHAR16''))) ''SearchString'']"

definition StrDecimalToUintn_proto :: proto where [protos]:
  "StrDecimalToUintn_proto = Fun (T ''UINTN'') [IN (To (Const (T ''CHAR16''))) ''String'']"

definition StrDecimalToUint64_proto :: proto where [protos]:
  "StrDecimalToUint64_proto = Fun (T ''UINT64'') [IN (To (Const (T ''CHAR16''))) ''String'']"

definition StrHexToUintn_proto :: proto where [protos]:
  "StrHexToUintn_proto = Fun (T ''UINTN'') [IN (To (Const (T ''CHAR16''))) ''String'']"

definition StrHexToUint64_proto :: proto where [protos]:
  "StrHexToUint64_proto = Fun (T ''UINT64'') [IN (To (Const (T ''CHAR16''))) ''String'']"

definition StrToIpv6Address_proto :: proto where [protos]:
  "StrToIpv6Address_proto = Fun (T ''RETURN_STATUS'')
     [IN (To (Const (T ''CHAR16''))) ''String'', OPTIONAL (OUT (To (To (T ''CHAR16''))) ''EndPointer''),
      OUT (To (T ''IPv6_ADDRESS'')) ''Address'', OPTIONAL (OUT (To (T ''UINT8'')) ''PrefixLength'')]"

definition StrToIpv4Address_proto :: proto where [protos]:
  "StrToIpv4Address_proto = Fun (T ''RETURN_STATUS'')
     [IN (To (Const (T ''CHAR16''))) ''String'', OPTIONAL (OUT (To (To (T ''CHAR16''))) ''EndPointer''),
      OUT (To (T ''IPv4_ADDRESS'')) ''Address'', OPTIONAL (OUT (To (T ''UINT8'')) ''PrefixLength'')]"

definition StrToGuid_proto :: proto where [protos]:
  "StrToGuid_proto = Fun (T ''RETURN_STATUS'')
     [IN (To (Const (T ''CHAR16''))) ''String'', OUT (To (T ''GUID'')) ''Guid'']"

definition StrHexToBytes_proto :: proto where [protos]:
  "StrHexToBytes_proto = Fun (T ''RETURN_STATUS'')
     [IN (To (Const (T ''CHAR16''))) ''String'', IN (T ''UINTN'') ''Length'',
      OUT (To (T ''UINT8'')) ''Buffer'', IN (T ''UINTN'') ''MaxBufferSize'']"

definition UnicodeStrToAsciiStrS_proto :: proto where [protos]:
  "UnicodeStrToAsciiStrS_proto = Fun (T ''RETURN_STATUS'')
     [IN (To (Const (T ''CHAR16''))) ''Source'', OUT (To (T ''CHAR8'')) ''Destination'',
      IN (T ''UINTN'') ''DestMax'']"

definition UnicodeStrnToAsciiStrS_proto :: proto where [protos]:
  "UnicodeStrnToAsciiStrS_proto = Fun (T ''RETURN_STATUS'')
     [IN (To (Const (T ''CHAR16''))) ''Source'', IN (T ''UINTN'') ''Length'',
      OUT (To (T ''CHAR8'')) ''Destination'', IN (T ''UINTN'') ''DestMax'',
      OUT (To (T ''UINTN'')) ''DestinationLength'']"

definition AsciiStrLen_proto :: proto where [protos]:
  "AsciiStrLen_proto = Fun (T ''UINTN'') [IN (To (Const (T ''CHAR8''))) ''String'']"

definition AsciiStrSize_proto :: proto where [protos]:
  "AsciiStrSize_proto = Fun (T ''UINTN'') [IN (To (Const (T ''CHAR8''))) ''String'']"

definition AsciiStrCmp_proto :: proto where [protos]:
  "AsciiStrCmp_proto = Fun (T ''INTN'')
     [IN (To (Const (T ''CHAR8''))) ''FirstString'', IN (To (Const (T ''CHAR8''))) ''SecondString'']"

definition AsciiStriCmp_proto :: proto where [protos]:
  "AsciiStriCmp_proto = Fun (T ''INTN'')
     [IN (To (Const (T ''CHAR8''))) ''FirstString'', IN (To (Const (T ''CHAR8''))) ''SecondString'']"

definition AsciiStrnCmp_proto :: proto where [protos]:
  "AsciiStrnCmp_proto = Fun (T ''INTN'')
     [IN (To (Const (T ''CHAR8''))) ''FirstString'', IN (To (Const (T ''CHAR8''))) ''SecondString'',
      IN (T ''UINTN'') ''Length'']"

definition AsciiStrStr_proto :: proto where [protos]:
  "AsciiStrStr_proto = Fun (To (T ''CHAR8''))
     [IN (To (Const (T ''CHAR8''))) ''String'', IN (To (Const (T ''CHAR8''))) ''SearchString'']"

definition AsciiStrDecimalToUintn_proto :: proto where [protos]:
  "AsciiStrDecimalToUintn_proto = Fun (T ''UINTN'') [IN (To (Const (T ''CHAR8''))) ''String'']"

definition AsciiStrDecimalToUint64_proto :: proto where [protos]:
  "AsciiStrDecimalToUint64_proto = Fun (T ''UINT64'') [IN (To (Const (T ''CHAR8''))) ''String'']"

definition AsciiStrHexToUintn_proto :: proto where [protos]:
  "AsciiStrHexToUintn_proto = Fun (T ''UINTN'') [IN (To (Const (T ''CHAR8''))) ''String'']"

definition AsciiStrHexToUint64_proto :: proto where [protos]:
  "AsciiStrHexToUint64_proto = Fun (T ''UINT64'') [IN (To (Const (T ''CHAR8''))) ''String'']"

definition AsciiStrToIpv6Address_proto :: proto where [protos]:
  "AsciiStrToIpv6Address_proto = Fun (T ''RETURN_STATUS'')
     [IN (To (Const (T ''CHAR8''))) ''String'', OPTIONAL (OUT (To (To (T ''CHAR8''))) ''EndPointer''),
      OUT (To (T ''IPv6_ADDRESS'')) ''Address'', OPTIONAL (OUT (To (T ''UINT8'')) ''PrefixLength'')]"

definition AsciiStrToIpv4Address_proto :: proto where [protos]:
  "AsciiStrToIpv4Address_proto = Fun (T ''RETURN_STATUS'')
     [IN (To (Const (T ''CHAR8''))) ''String'', OPTIONAL (OUT (To (To (T ''CHAR8''))) ''EndPointer''),
      OUT (To (T ''IPv4_ADDRESS'')) ''Address'', OPTIONAL (OUT (To (T ''UINT8'')) ''PrefixLength'')]"

definition AsciiStrToGuid_proto :: proto where [protos]:
  "AsciiStrToGuid_proto = Fun (T ''RETURN_STATUS'')
     [IN (To (Const (T ''CHAR8''))) ''String'', OUT (To (T ''GUID'')) ''Guid'']"

definition AsciiStrHexToBytes_proto :: proto where [protos]:
  "AsciiStrHexToBytes_proto = Fun (T ''RETURN_STATUS'')
     [IN (To (Const (T ''CHAR8''))) ''String'', IN (T ''UINTN'') ''Length'',
      OUT (To (T ''UINT8'')) ''Buffer'', IN (T ''UINTN'') ''MaxBufferSize'']"

definition AsciiStrToUnicodeStrS_proto :: proto where [protos]:
  "AsciiStrToUnicodeStrS_proto = Fun (T ''RETURN_STATUS'')
     [IN (To (Const (T ''CHAR8''))) ''Source'', OUT (To (T ''CHAR16'')) ''Destination'',
      IN (T ''UINTN'') ''DestMax'']"

definition AsciiStrnToUnicodeStrS_proto :: proto where [protos]:
  "AsciiStrnToUnicodeStrS_proto = Fun (T ''RETURN_STATUS'')
     [IN (To (Const (T ''CHAR8''))) ''Source'', IN (T ''UINTN'') ''Length'',
      OUT (To (T ''CHAR16'')) ''Destination'', IN (T ''UINTN'') ''DestMax'',
      OUT (To (T ''UINTN'')) ''DestinationLength'']"

definition CharToUpper_proto :: proto where [protos]:
  "CharToUpper_proto = Fun (T ''CHAR16'') [IN (T ''CHAR16'') ''Char'']"

definition AsciiCharToUpper_proto :: proto where [protos]:
  "AsciiCharToUpper_proto = Fun (T ''CHAR8'') [IN (T ''CHAR8'') ''Chr'']"

definition Base64Encode_proto :: proto where [protos]:
  "Base64Encode_proto = Fun (T ''RETURN_STATUS'')
     [IN (To (Const (T ''UINT8''))) ''Source'', IN (T ''UINTN'') ''SourceLength'',
      OPTIONAL (OUT (To (T ''CHAR8'')) ''Destination''), IN_OUT (To (T ''UINTN'')) ''DestinationSize'']"

definition Base64Decode_proto :: proto where [protos]:
  "Base64Decode_proto = Fun (T ''RETURN_STATUS'')
     [OPTIONAL (IN (To (Const (T ''CHAR8''))) ''Source''), IN (T ''UINTN'') ''SourceSize'',
      OPTIONAL (OUT (To (T ''UINT8'')) ''Destination''), IN_OUT (To (T ''UINTN'')) ''DestinationSize'']"

definition DecimalToBcd8_proto :: proto where [protos]:
  "DecimalToBcd8_proto = Fun (T ''UINT8'') [IN (T ''UINT8'') ''Value'']"

definition BcdToDecimal8_proto :: proto where [protos]:
  "BcdToDecimal8_proto = Fun (T ''UINT8'') [IN (T ''UINT8'') ''Value'']"

definition PathRemoveLastItem_proto :: proto where [protos]:
  "PathRemoveLastItem_proto = Fun (T ''BOOLEAN'') [IN_OUT (To (T ''CHAR16'')) ''Path'']"

definition PathCleanUpDirectories_proto :: proto where [protos]:
  "PathCleanUpDirectories_proto = Fun (To (T ''CHAR16'')) [IN (To (T ''CHAR16'')) ''Path'']"

definition IsNodeInList_proto :: proto where [protos]:
  "IsNodeInList_proto = Fun (T ''BOOLEAN'')
     [IN (To (Const (T ''LIST_ENTRY''))) ''FirstEntry'', IN (To (Const (T ''LIST_ENTRY''))) ''SecondEntry'']"

definition InitializeListHead_proto :: proto where [protos]:
  "InitializeListHead_proto = Fun (To (T ''LIST_ENTRY'')) [IN_OUT (To (T ''LIST_ENTRY'')) ''ListHead'']"

definition InsertHeadList_proto :: proto where [protos]:
  "InsertHeadList_proto = Fun (To (T ''LIST_ENTRY''))
     [IN_OUT (To (T ''LIST_ENTRY'')) ''ListHead'', IN_OUT (To (T ''LIST_ENTRY'')) ''Entry'']"

definition InsertTailList_proto :: proto where [protos]:
  "InsertTailList_proto = Fun (To (T ''LIST_ENTRY''))
     [IN_OUT (To (T ''LIST_ENTRY'')) ''ListHead'', IN_OUT (To (T ''LIST_ENTRY'')) ''Entry'']"

definition GetFirstNode_proto :: proto where [protos]:
  "GetFirstNode_proto = Fun (To (T ''LIST_ENTRY'')) [IN (To (Const (T ''LIST_ENTRY''))) ''List'']"

definition GetNextNode_proto :: proto where [protos]:
  "GetNextNode_proto = Fun (To (T ''LIST_ENTRY''))
     [IN (To (Const (T ''LIST_ENTRY''))) ''List'', IN (To (Const (T ''LIST_ENTRY''))) ''Node'']"

definition GetPreviousNode_proto :: proto where [protos]:
  "GetPreviousNode_proto = Fun (To (T ''LIST_ENTRY''))
     [IN (To (Const (T ''LIST_ENTRY''))) ''List'', IN (To (Const (T ''LIST_ENTRY''))) ''Node'']"

definition IsListEmpty_proto :: proto where [protos]:
  "IsListEmpty_proto = Fun (T ''BOOLEAN'') [IN (To (Const (T ''LIST_ENTRY''))) ''ListHead'']"

definition IsNull_proto :: proto where [protos]:
  "IsNull_proto = Fun (T ''BOOLEAN'')
     [IN (To (Const (T ''LIST_ENTRY''))) ''List'', IN (To (Const (T ''LIST_ENTRY''))) ''Node'']"

definition IsNodeAtEnd_proto :: proto where [protos]:
  "IsNodeAtEnd_proto = Fun (T ''BOOLEAN'')
     [IN (To (Const (T ''LIST_ENTRY''))) ''List'', IN (To (Const (T ''LIST_ENTRY''))) ''Node'']"

definition SwapListEntries_proto :: proto where [protos]:
  "SwapListEntries_proto = Fun (To (T ''LIST_ENTRY''))
     [IN_OUT (To (T ''LIST_ENTRY'')) ''FirstEntry'', IN_OUT (To (T ''LIST_ENTRY'')) ''SecondEntry'']"

definition RemoveEntryList_proto :: proto where [protos]:
  "RemoveEntryList_proto = Fun (To (T ''LIST_ENTRY'')) [IN (To (Const (T ''LIST_ENTRY''))) ''Entry'']"

definition BASE_SORT_COMPARE :: proto where [protos]:
  "BASE_SORT_COMPARE = Fun (T ''INTN'') [IN (To (Const VOID)) ''Buffer1'', IN (To (Const VOID)) ''Buffer2'']"

definition QuickSort_proto :: proto where [protos]:
  "QuickSort_proto = Fun VOID
     [IN_OUT (To VOID) ''BufferToSort'', IN (Const (T ''UINTN'')) ''Count'',
      IN (Const (T ''UINTN'')) ''ElementSize'', IN (T ''BASE_SORT_COMPARE'') ''CompareFunction'',
      OUT (To VOID) ''BufferOneElement'']"

definition LShiftU64_proto :: proto where [protos]:
  "LShiftU64_proto = Fun (T ''UINT64'') [IN (T ''UINT64'') ''Operand'', IN (T ''UINTN'') ''Count'']"

definition RShiftU64_proto :: proto where [protos]:
  "RShiftU64_proto = Fun (T ''UINT64'') [IN (T ''UINT64'') ''Operand'', IN (T ''UINTN'') ''Count'']"

definition ARShiftU64_proto :: proto where [protos]:
  "ARShiftU64_proto = Fun (T ''UINT64'') [IN (T ''UINT64'') ''Operand'', IN (T ''UINTN'') ''Count'']"

definition LRotU32_proto :: proto where [protos]:
  "LRotU32_proto = Fun (T ''UINT32'') [IN (T ''UINT32'') ''Operand'', IN (T ''UINTN'') ''Count'']"

definition RRotU32_proto :: proto where [protos]:
  "RRotU32_proto = Fun (T ''UINT32'') [IN (T ''UINT32'') ''Operand'', IN (T ''UINTN'') ''Count'']"

definition LRotU64_proto :: proto where [protos]:
  "LRotU64_proto = Fun (T ''UINT64'') [IN (T ''UINT64'') ''Operand'', IN (T ''UINTN'') ''Count'']"

definition RRotU64_proto :: proto where [protos]:
  "RRotU64_proto = Fun (T ''UINT64'') [IN (T ''UINT64'') ''Operand'', IN (T ''UINTN'') ''Count'']"

definition LowBitSet32_proto :: proto where [protos]:
  "LowBitSet32_proto = Fun (T ''INTN'') [IN (T ''UINT32'') ''Operand'']"

definition LowBitSet64_proto :: proto where [protos]:
  "LowBitSet64_proto = Fun (T ''INTN'') [IN (T ''UINT64'') ''Operand'']"

definition HighBitSet32_proto :: proto where [protos]:
  "HighBitSet32_proto = Fun (T ''INTN'') [IN (T ''UINT32'') ''Operand'']"

definition HighBitSet64_proto :: proto where [protos]:
  "HighBitSet64_proto = Fun (T ''INTN'') [IN (T ''UINT64'') ''Operand'']"

definition GetPowerOfTwo32_proto :: proto where [protos]:
  "GetPowerOfTwo32_proto = Fun (T ''UINT32'') [IN (T ''UINT32'') ''Operand'']"

definition GetPowerOfTwo64_proto :: proto where [protos]:
  "GetPowerOfTwo64_proto = Fun (T ''UINT64'') [IN (T ''UINT64'') ''Operand'']"

definition SwapBytes16_proto :: proto where [protos]:
  "SwapBytes16_proto = Fun (T ''UINT16'') [IN (T ''UINT16'') ''Value'']"

definition SwapBytes32_proto :: proto where [protos]:
  "SwapBytes32_proto = Fun (T ''UINT32'') [IN (T ''UINT32'') ''Value'']"

definition SwapBytes64_proto :: proto where [protos]:
  "SwapBytes64_proto = Fun (T ''UINT64'') [IN (T ''UINT64'') ''Value'']"

definition MultU64x32_proto :: proto where [protos]:
  "MultU64x32_proto = Fun (T ''UINT64'')
     [IN (T ''UINT64'') ''Multiplicand'', IN (T ''UINT32'') ''Multiplier'']"

definition MultU64x64_proto :: proto where [protos]:
  "MultU64x64_proto = Fun (T ''UINT64'')
     [IN (T ''UINT64'') ''Multiplicand'', IN (T ''UINT64'') ''Multiplier'']"

definition MultS64x64_proto :: proto where [protos]:
  "MultS64x64_proto = Fun (T ''INT64'') [IN (T ''INT64'') ''Multiplicand'', IN (T ''INT64'') ''Multiplier'']"

definition DivU64x32_proto :: proto where [protos]:
  "DivU64x32_proto = Fun (T ''UINT64'') [IN (T ''UINT64'') ''Dividend'', IN (T ''UINT32'') ''Divisor'']"

definition ModU64x32_proto :: proto where [protos]:
  "ModU64x32_proto = Fun (T ''UINT32'') [IN (T ''UINT64'') ''Dividend'', IN (T ''UINT32'') ''Divisor'']"

definition DivU64x32Remainder_proto :: proto where [protos]:
  "DivU64x32Remainder_proto = Fun (T ''UINT64'')
     [IN (T ''UINT64'') ''Dividend'', IN (T ''UINT32'') ''Divisor'',
      OPTIONAL (OUT (To (T ''UINT32'')) ''Remainder'')]"

definition DivU64x64Remainder_proto :: proto where [protos]:
  "DivU64x64Remainder_proto = Fun (T ''UINT64'')
     [IN (T ''UINT64'') ''Dividend'', IN (T ''UINT64'') ''Divisor'',
      OPTIONAL (OUT (To (T ''UINT64'')) ''Remainder'')]"

definition DivS64x64Remainder_proto :: proto where [protos]:
  "DivS64x64Remainder_proto = Fun (T ''INT64'')
     [IN (T ''INT64'') ''Dividend'', IN (T ''INT64'') ''Divisor'',
      OPTIONAL (OUT (To (T ''INT64'')) ''Remainder'')]"

definition ReadUnaligned16_proto :: proto where [protos]:
  "ReadUnaligned16_proto = Fun (T ''UINT16'') [IN (To (Const (T ''UINT16''))) ''Buffer'']"

definition WriteUnaligned16_proto :: proto where [protos]:
  "WriteUnaligned16_proto = Fun (T ''UINT16'')
     [OUT (To (T ''UINT16'')) ''Buffer'', IN (T ''UINT16'') ''Value'']"

definition ReadUnaligned24_proto :: proto where [protos]:
  "ReadUnaligned24_proto = Fun (T ''UINT32'') [IN (To (Const (T ''UINT32''))) ''Buffer'']"

definition WriteUnaligned24_proto :: proto where [protos]:
  "WriteUnaligned24_proto = Fun (T ''UINT32'')
     [OUT (To (T ''UINT32'')) ''Buffer'', IN (T ''UINT32'') ''Value'']"

definition ReadUnaligned32_proto :: proto where [protos]:
  "ReadUnaligned32_proto = Fun (T ''UINT32'') [IN (To (Const (T ''UINT32''))) ''Buffer'']"

definition WriteUnaligned32_proto :: proto where [protos]:
  "WriteUnaligned32_proto = Fun (T ''UINT32'')
     [OUT (To (T ''UINT32'')) ''Buffer'', IN (T ''UINT32'') ''Value'']"

definition ReadUnaligned64_proto :: proto where [protos]:
  "ReadUnaligned64_proto = Fun (T ''UINT64'') [IN (To (Const (T ''UINT64''))) ''Buffer'']"

definition WriteUnaligned64_proto :: proto where [protos]:
  "WriteUnaligned64_proto = Fun (T ''UINT64'')
     [OUT (To (T ''UINT64'')) ''Buffer'', IN (T ''UINT64'') ''Value'']"

definition BitFieldRead8_proto :: proto where [protos]:
  "BitFieldRead8_proto = Fun (T ''UINT8'')
     [IN (T ''UINT8'') ''Operand'', IN (T ''UINTN'') ''StartBit'', IN (T ''UINTN'') ''EndBit'']"

definition BitFieldWrite8_proto :: proto where [protos]:
  "BitFieldWrite8_proto = Fun (T ''UINT8'')
     [IN (T ''UINT8'') ''Operand'', IN (T ''UINTN'') ''StartBit'', IN (T ''UINTN'') ''EndBit'',
      IN (T ''UINT8'') ''Value'']"

definition BitFieldOr8_proto :: proto where [protos]:
  "BitFieldOr8_proto = Fun (T ''UINT8'')
     [IN (T ''UINT8'') ''Operand'', IN (T ''UINTN'') ''StartBit'', IN (T ''UINTN'') ''EndBit'',
      IN (T ''UINT8'') ''OrData'']"

definition BitFieldAnd8_proto :: proto where [protos]:
  "BitFieldAnd8_proto = Fun (T ''UINT8'')
     [IN (T ''UINT8'') ''Operand'', IN (T ''UINTN'') ''StartBit'', IN (T ''UINTN'') ''EndBit'',
      IN (T ''UINT8'') ''AndData'']"

definition BitFieldAndThenOr8_proto :: proto where [protos]:
  "BitFieldAndThenOr8_proto = Fun (T ''UINT8'')
     [IN (T ''UINT8'') ''Operand'', IN (T ''UINTN'') ''StartBit'', IN (T ''UINTN'') ''EndBit'',
      IN (T ''UINT8'') ''AndData'', IN (T ''UINT8'') ''OrData'']"

definition BitFieldRead16_proto :: proto where [protos]:
  "BitFieldRead16_proto = Fun (T ''UINT16'')
     [IN (T ''UINT16'') ''Operand'', IN (T ''UINTN'') ''StartBit'', IN (T ''UINTN'') ''EndBit'']"

definition BitFieldWrite16_proto :: proto where [protos]:
  "BitFieldWrite16_proto = Fun (T ''UINT16'')
     [IN (T ''UINT16'') ''Operand'', IN (T ''UINTN'') ''StartBit'', IN (T ''UINTN'') ''EndBit'',
      IN (T ''UINT16'') ''Value'']"

definition BitFieldOr16_proto :: proto where [protos]:
  "BitFieldOr16_proto = Fun (T ''UINT16'')
     [IN (T ''UINT16'') ''Operand'', IN (T ''UINTN'') ''StartBit'', IN (T ''UINTN'') ''EndBit'',
      IN (T ''UINT16'') ''OrData'']"

definition BitFieldAnd16_proto :: proto where [protos]:
  "BitFieldAnd16_proto = Fun (T ''UINT16'')
     [IN (T ''UINT16'') ''Operand'', IN (T ''UINTN'') ''StartBit'', IN (T ''UINTN'') ''EndBit'',
      IN (T ''UINT16'') ''AndData'']"

definition BitFieldAndThenOr16_proto :: proto where [protos]:
  "BitFieldAndThenOr16_proto = Fun (T ''UINT16'')
     [IN (T ''UINT16'') ''Operand'', IN (T ''UINTN'') ''StartBit'', IN (T ''UINTN'') ''EndBit'',
      IN (T ''UINT16'') ''AndData'', IN (T ''UINT16'') ''OrData'']"

definition BitFieldRead32_proto :: proto where [protos]:
  "BitFieldRead32_proto = Fun (T ''UINT32'')
     [IN (T ''UINT32'') ''Operand'', IN (T ''UINTN'') ''StartBit'', IN (T ''UINTN'') ''EndBit'']"

definition BitFieldWrite32_proto :: proto where [protos]:
  "BitFieldWrite32_proto = Fun (T ''UINT32'')
     [IN (T ''UINT32'') ''Operand'', IN (T ''UINTN'') ''StartBit'', IN (T ''UINTN'') ''EndBit'',
      IN (T ''UINT32'') ''Value'']"

definition BitFieldOr32_proto :: proto where [protos]:
  "BitFieldOr32_proto = Fun (T ''UINT32'')
     [IN (T ''UINT32'') ''Operand'', IN (T ''UINTN'') ''StartBit'', IN (T ''UINTN'') ''EndBit'',
      IN (T ''UINT32'') ''OrData'']"

definition BitFieldAnd32_proto :: proto where [protos]:
  "BitFieldAnd32_proto = Fun (T ''UINT32'')
     [IN (T ''UINT32'') ''Operand'', IN (T ''UINTN'') ''StartBit'', IN (T ''UINTN'') ''EndBit'',
      IN (T ''UINT32'') ''AndData'']"

definition BitFieldAndThenOr32_proto :: proto where [protos]:
  "BitFieldAndThenOr32_proto = Fun (T ''UINT32'')
     [IN (T ''UINT32'') ''Operand'', IN (T ''UINTN'') ''StartBit'', IN (T ''UINTN'') ''EndBit'',
      IN (T ''UINT32'') ''AndData'', IN (T ''UINT32'') ''OrData'']"

definition BitFieldRead64_proto :: proto where [protos]:
  "BitFieldRead64_proto = Fun (T ''UINT64'')
     [IN (T ''UINT64'') ''Operand'', IN (T ''UINTN'') ''StartBit'', IN (T ''UINTN'') ''EndBit'']"

definition BitFieldWrite64_proto :: proto where [protos]:
  "BitFieldWrite64_proto = Fun (T ''UINT64'')
     [IN (T ''UINT64'') ''Operand'', IN (T ''UINTN'') ''StartBit'', IN (T ''UINTN'') ''EndBit'',
      IN (T ''UINT64'') ''Value'']"

definition BitFieldOr64_proto :: proto where [protos]:
  "BitFieldOr64_proto = Fun (T ''UINT64'')
     [IN (T ''UINT64'') ''Operand'', IN (T ''UINTN'') ''StartBit'', IN (T ''UINTN'') ''EndBit'',
      IN (T ''UINT64'') ''OrData'']"

definition BitFieldAnd64_proto :: proto where [protos]:
  "BitFieldAnd64_proto = Fun (T ''UINT64'')
     [IN (T ''UINT64'') ''Operand'', IN (T ''UINTN'') ''StartBit'', IN (T ''UINTN'') ''EndBit'',
      IN (T ''UINT64'') ''AndData'']"

definition BitFieldAndThenOr64_proto :: proto where [protos]:
  "BitFieldAndThenOr64_proto = Fun (T ''UINT64'')
     [IN (T ''UINT64'') ''Operand'', IN (T ''UINTN'') ''StartBit'', IN (T ''UINTN'') ''EndBit'',
      IN (T ''UINT64'') ''AndData'', IN (T ''UINT64'') ''OrData'']"

definition BitFieldCountOnes32_proto :: proto where [protos]:
  "BitFieldCountOnes32_proto = Fun (T ''UINT8'')
     [IN (T ''UINT32'') ''Operand'', IN (T ''UINTN'') ''StartBit'', IN (T ''UINTN'') ''EndBit'']"

definition BitFieldCountOnes64_proto :: proto where [protos]:
  "BitFieldCountOnes64_proto = Fun (T ''UINT8'')
     [IN (T ''UINT64'') ''Operand'', IN (T ''UINTN'') ''StartBit'', IN (T ''UINTN'') ''EndBit'']"

definition CalculateSum8_proto :: proto where [protos]:
  "CalculateSum8_proto = Fun (T ''UINT8'')
     [IN (To (Const (T ''UINT8''))) ''Buffer'', IN (T ''UINTN'') ''Length'']"

definition CalculateCheckSum8_proto :: proto where [protos]:
  "CalculateCheckSum8_proto = Fun (T ''UINT8'')
     [IN (To (Const (T ''UINT8''))) ''Buffer'', IN (T ''UINTN'') ''Length'']"

definition CalculateSum16_proto :: proto where [protos]:
  "CalculateSum16_proto = Fun (T ''UINT16'')
     [IN (To (Const (T ''UINT16''))) ''Buffer'', IN (T ''UINTN'') ''Length'']"

definition CalculateCheckSum16_proto :: proto where [protos]:
  "CalculateCheckSum16_proto = Fun (T ''UINT16'')
     [IN (To (Const (T ''UINT16''))) ''Buffer'', IN (T ''UINTN'') ''Length'']"

definition CalculateSum32_proto :: proto where [protos]:
  "CalculateSum32_proto = Fun (T ''UINT32'')
     [IN (To (Const (T ''UINT32''))) ''Buffer'', IN (T ''UINTN'') ''Length'']"

definition CalculateCheckSum32_proto :: proto where [protos]:
  "CalculateCheckSum32_proto = Fun (T ''UINT32'')
     [IN (To (Const (T ''UINT32''))) ''Buffer'', IN (T ''UINTN'') ''Length'']"

definition CalculateSum64_proto :: proto where [protos]:
  "CalculateSum64_proto = Fun (T ''UINT64'')
     [IN (To (Const (T ''UINT64''))) ''Buffer'', IN (T ''UINTN'') ''Length'']"

definition CalculateCheckSum64_proto :: proto where [protos]:
  "CalculateCheckSum64_proto = Fun (T ''UINT64'')
     [IN (To (Const (T ''UINT64''))) ''Buffer'', IN (T ''UINTN'') ''Length'']"

definition CalculateCrc32_proto :: proto where [protos]:
  "CalculateCrc32_proto = Fun (T ''UINT32'') [IN (To VOID) ''Buffer'', IN (T ''UINTN'') ''Length'']"

definition SWITCH_STACK_ENTRY_POINT :: proto where [protos]:
  "SWITCH_STACK_ENTRY_POINT = Fun VOID
     [OPTIONAL (IN (To VOID) ''Context1''), OPTIONAL (IN (To VOID) ''Context2'')]"

definition MemoryFence_proto :: proto where [protos]:
  "MemoryFence_proto = Fun VOID []"

definition SetJump_proto :: proto where [protos]:
  "SetJump_proto = Fun (T ''UINTN'') [OUT (To (T ''BASE_LIBRARY_JUMP_BUFFER'')) ''JumpBuffer'']"

definition LongJump_proto :: proto where [protos]:
  "LongJump_proto = Fun VOID
     [IN (To (T ''BASE_LIBRARY_JUMP_BUFFER'')) ''JumpBuffer'', IN (T ''UINTN'') ''Value'']"

definition EnableInterrupts_proto :: proto where [protos]:
  "EnableInterrupts_proto = Fun VOID []"

definition DisableInterrupts_proto :: proto where [protos]:
  "DisableInterrupts_proto = Fun VOID []"

definition SaveAndDisableInterrupts_proto :: proto where [protos]:
  "SaveAndDisableInterrupts_proto = Fun (T ''BOOLEAN'') []"

definition EnableDisableInterrupts_proto :: proto where [protos]:
  "EnableDisableInterrupts_proto = Fun VOID []"

definition GetInterruptState_proto :: proto where [protos]:
  "GetInterruptState_proto = Fun (T ''BOOLEAN'') []"

definition SetInterruptState_proto :: proto where [protos]:
  "SetInterruptState_proto = Fun (T ''BOOLEAN'') [IN (T ''BOOLEAN'') ''InterruptState'']"

definition CpuPause_proto :: proto where [protos]:
  "CpuPause_proto = Fun VOID []"

definition SwitchStack_proto :: proto where [protos]:
  "SwitchStack_proto = Variadic VOID
     [IN (T ''SWITCH_STACK_ENTRY_POINT'') ''EntryPoint'', OPTIONAL (IN (To VOID) ''Context1''),
      OPTIONAL (IN (To VOID) ''Context2''), IN (To VOID) ''NewStack'']"

definition CpuBreakpoint_proto :: proto where [protos]:
  "CpuBreakpoint_proto = Fun VOID []"

definition CpuDeadLoop_proto :: proto where [protos]:
  "CpuDeadLoop_proto = Fun VOID []"

definition SpeculationBarrier_proto :: proto where [protos]:
  "SpeculationBarrier_proto = Fun VOID []"

definition AsmPvalidate_proto :: proto where [protos]:
  "AsmPvalidate_proto = Fun (T ''UINT32'')
     [IN (T ''PVALIDATE_PAGE_SIZE'') ''PageSize'', IN (T ''BOOLEAN'') ''Validate'',
      IN (T ''PHYSICAL_ADDRESS'') ''Address'']"

definition AsmRmpAdjust_proto :: proto where [protos]:
  "AsmRmpAdjust_proto = Fun (T ''UINT32'')
     [IN (T ''UINT64'') ''Rax'', IN (T ''UINT64'') ''Rcx'', IN (T ''UINT64'') ''Rdx'']"

definition AsmCpuid_proto :: proto where [protos]:
  "AsmCpuid_proto = Fun (T ''UINT32'')
     [IN (T ''UINT32'') ''Index'', OPTIONAL (OUT (To (T ''UINT32'')) ''Eax''),
      OPTIONAL (OUT (To (T ''UINT32'')) ''Ebx''), OPTIONAL (OUT (To (T ''UINT32'')) ''Ecx''),
      OPTIONAL (OUT (To (T ''UINT32'')) ''Edx'')]"

definition AsmCpuidEx_proto :: proto where [protos]:
  "AsmCpuidEx_proto = Fun (T ''UINT32'')
     [IN (T ''UINT32'') ''Index'', IN (T ''UINT32'') ''SubIndex'', OPTIONAL (OUT (To (T ''UINT32'')) ''Eax''),
      OPTIONAL (OUT (To (T ''UINT32'')) ''Ebx''), OPTIONAL (OUT (To (T ''UINT32'')) ''Ecx''),
      OPTIONAL (OUT (To (T ''UINT32'')) ''Edx'')]"

definition AsmDisableCache_proto :: proto where [protos]:
  "AsmDisableCache_proto = Fun VOID []"

definition AsmEnableCache_proto :: proto where [protos]:
  "AsmEnableCache_proto = Fun VOID []"

definition AsmReadMsr32_proto :: proto where [protos]:
  "AsmReadMsr32_proto = Fun (T ''UINT32'') [IN (T ''UINT32'') ''Index'']"

definition AsmWriteMsr32_proto :: proto where [protos]:
  "AsmWriteMsr32_proto = Fun (T ''UINT32'') [IN (T ''UINT32'') ''Index'', IN (T ''UINT32'') ''Value'']"

definition AsmMsrOr32_proto :: proto where [protos]:
  "AsmMsrOr32_proto = Fun (T ''UINT32'') [IN (T ''UINT32'') ''Index'', IN (T ''UINT32'') ''OrData'']"

definition AsmMsrAnd32_proto :: proto where [protos]:
  "AsmMsrAnd32_proto = Fun (T ''UINT32'') [IN (T ''UINT32'') ''Index'', IN (T ''UINT32'') ''AndData'']"

definition AsmMsrAndThenOr32_proto :: proto where [protos]:
  "AsmMsrAndThenOr32_proto = Fun (T ''UINT32'')
     [IN (T ''UINT32'') ''Index'', IN (T ''UINT32'') ''AndData'', IN (T ''UINT32'') ''OrData'']"

definition AsmMsrBitFieldRead32_proto :: proto where [protos]:
  "AsmMsrBitFieldRead32_proto = Fun (T ''UINT32'')
     [IN (T ''UINT32'') ''Index'', IN (T ''UINTN'') ''StartBit'', IN (T ''UINTN'') ''EndBit'']"

definition AsmMsrBitFieldWrite32_proto :: proto where [protos]:
  "AsmMsrBitFieldWrite32_proto = Fun (T ''UINT32'')
     [IN (T ''UINT32'') ''Index'', IN (T ''UINTN'') ''StartBit'', IN (T ''UINTN'') ''EndBit'',
      IN (T ''UINT32'') ''Value'']"

definition AsmMsrBitFieldOr32_proto :: proto where [protos]:
  "AsmMsrBitFieldOr32_proto = Fun (T ''UINT32'')
     [IN (T ''UINT32'') ''Index'', IN (T ''UINTN'') ''StartBit'', IN (T ''UINTN'') ''EndBit'',
      IN (T ''UINT32'') ''OrData'']"

definition AsmMsrBitFieldAnd32_proto :: proto where [protos]:
  "AsmMsrBitFieldAnd32_proto = Fun (T ''UINT32'')
     [IN (T ''UINT32'') ''Index'', IN (T ''UINTN'') ''StartBit'', IN (T ''UINTN'') ''EndBit'',
      IN (T ''UINT32'') ''AndData'']"

definition AsmMsrBitFieldAndThenOr32_proto :: proto where [protos]:
  "AsmMsrBitFieldAndThenOr32_proto = Fun (T ''UINT32'')
     [IN (T ''UINT32'') ''Index'', IN (T ''UINTN'') ''StartBit'', IN (T ''UINTN'') ''EndBit'',
      IN (T ''UINT32'') ''AndData'', IN (T ''UINT32'') ''OrData'']"

definition AsmReadMsr64_proto :: proto where [protos]:
  "AsmReadMsr64_proto = Fun (T ''UINT64'') [IN (T ''UINT32'') ''Index'']"

definition AsmWriteMsr64_proto :: proto where [protos]:
  "AsmWriteMsr64_proto = Fun (T ''UINT64'') [IN (T ''UINT32'') ''Index'', IN (T ''UINT64'') ''Value'']"

definition AsmMsrOr64_proto :: proto where [protos]:
  "AsmMsrOr64_proto = Fun (T ''UINT64'') [IN (T ''UINT32'') ''Index'', IN (T ''UINT64'') ''OrData'']"

definition AsmMsrAnd64_proto :: proto where [protos]:
  "AsmMsrAnd64_proto = Fun (T ''UINT64'') [IN (T ''UINT32'') ''Index'', IN (T ''UINT64'') ''AndData'']"

definition AsmMsrAndThenOr64_proto :: proto where [protos]:
  "AsmMsrAndThenOr64_proto = Fun (T ''UINT64'')
     [IN (T ''UINT32'') ''Index'', IN (T ''UINT64'') ''AndData'', IN (T ''UINT64'') ''OrData'']"

definition AsmMsrBitFieldRead64_proto :: proto where [protos]:
  "AsmMsrBitFieldRead64_proto = Fun (T ''UINT64'')
     [IN (T ''UINT32'') ''Index'', IN (T ''UINTN'') ''StartBit'', IN (T ''UINTN'') ''EndBit'']"

definition AsmMsrBitFieldWrite64_proto :: proto where [protos]:
  "AsmMsrBitFieldWrite64_proto = Fun (T ''UINT64'')
     [IN (T ''UINT32'') ''Index'', IN (T ''UINTN'') ''StartBit'', IN (T ''UINTN'') ''EndBit'',
      IN (T ''UINT64'') ''Value'']"

definition AsmMsrBitFieldOr64_proto :: proto where [protos]:
  "AsmMsrBitFieldOr64_proto = Fun (T ''UINT64'')
     [IN (T ''UINT32'') ''Index'', IN (T ''UINTN'') ''StartBit'', IN (T ''UINTN'') ''EndBit'',
      IN (T ''UINT64'') ''OrData'']"

definition AsmMsrBitFieldAnd64_proto :: proto where [protos]:
  "AsmMsrBitFieldAnd64_proto = Fun (T ''UINT64'')
     [IN (T ''UINT32'') ''Index'', IN (T ''UINTN'') ''StartBit'', IN (T ''UINTN'') ''EndBit'',
      IN (T ''UINT64'') ''AndData'']"

definition AsmMsrBitFieldAndThenOr64_proto :: proto where [protos]:
  "AsmMsrBitFieldAndThenOr64_proto = Fun (T ''UINT64'')
     [IN (T ''UINT32'') ''Index'', IN (T ''UINTN'') ''StartBit'', IN (T ''UINTN'') ''EndBit'',
      IN (T ''UINT64'') ''AndData'', IN (T ''UINT64'') ''OrData'']"

definition AsmReadEflags_proto :: proto where [protos]:
  "AsmReadEflags_proto = Fun (T ''UINTN'') []"

definition AsmReadCr0_proto :: proto where [protos]:
  "AsmReadCr0_proto = Fun (T ''UINTN'') []"

definition AsmReadCr2_proto :: proto where [protos]:
  "AsmReadCr2_proto = Fun (T ''UINTN'') []"

definition AsmReadCr3_proto :: proto where [protos]:
  "AsmReadCr3_proto = Fun (T ''UINTN'') []"

definition AsmReadCr4_proto :: proto where [protos]:
  "AsmReadCr4_proto = Fun (T ''UINTN'') []"

definition AsmWriteCr0_proto :: proto where [protos]:
  "AsmWriteCr0_proto = Fun (T ''UINTN'') [PLAIN (T ''UINTN'') ''Cr0'']"

definition AsmWriteCr2_proto :: proto where [protos]:
  "AsmWriteCr2_proto = Fun (T ''UINTN'') [PLAIN (T ''UINTN'') ''Cr2'']"

definition AsmWriteCr3_proto :: proto where [protos]:
  "AsmWriteCr3_proto = Fun (T ''UINTN'') [PLAIN (T ''UINTN'') ''Cr3'']"

definition AsmWriteCr4_proto :: proto where [protos]:
  "AsmWriteCr4_proto = Fun (T ''UINTN'') [PLAIN (T ''UINTN'') ''Cr4'']"

definition AsmReadDr0_proto :: proto where [protos]:
  "AsmReadDr0_proto = Fun (T ''UINTN'') []"

definition AsmReadDr1_proto :: proto where [protos]:
  "AsmReadDr1_proto = Fun (T ''UINTN'') []"

definition AsmReadDr2_proto :: proto where [protos]:
  "AsmReadDr2_proto = Fun (T ''UINTN'') []"

definition AsmReadDr3_proto :: proto where [protos]:
  "AsmReadDr3_proto = Fun (T ''UINTN'') []"

definition AsmReadDr4_proto :: proto where [protos]:
  "AsmReadDr4_proto = Fun (T ''UINTN'') []"

definition AsmReadDr5_proto :: proto where [protos]:
  "AsmReadDr5_proto = Fun (T ''UINTN'') []"

definition AsmReadDr6_proto :: proto where [protos]:
  "AsmReadDr6_proto = Fun (T ''UINTN'') []"

definition AsmReadDr7_proto :: proto where [protos]:
  "AsmReadDr7_proto = Fun (T ''UINTN'') []"

definition AsmWriteDr0_proto :: proto where [protos]:
  "AsmWriteDr0_proto = Fun (T ''UINTN'') [PLAIN (T ''UINTN'') ''Dr0'']"

definition AsmWriteDr1_proto :: proto where [protos]:
  "AsmWriteDr1_proto = Fun (T ''UINTN'') [PLAIN (T ''UINTN'') ''Dr1'']"

definition AsmWriteDr2_proto :: proto where [protos]:
  "AsmWriteDr2_proto = Fun (T ''UINTN'') [PLAIN (T ''UINTN'') ''Dr2'']"

definition AsmWriteDr3_proto :: proto where [protos]:
  "AsmWriteDr3_proto = Fun (T ''UINTN'') [PLAIN (T ''UINTN'') ''Dr3'']"

definition AsmWriteDr4_proto :: proto where [protos]:
  "AsmWriteDr4_proto = Fun (T ''UINTN'') [PLAIN (T ''UINTN'') ''Dr4'']"

definition AsmWriteDr5_proto :: proto where [protos]:
  "AsmWriteDr5_proto = Fun (T ''UINTN'') [PLAIN (T ''UINTN'') ''Dr5'']"

definition AsmWriteDr6_proto :: proto where [protos]:
  "AsmWriteDr6_proto = Fun (T ''UINTN'') [PLAIN (T ''UINTN'') ''Dr6'']"

definition AsmWriteDr7_proto :: proto where [protos]:
  "AsmWriteDr7_proto = Fun (T ''UINTN'') [PLAIN (T ''UINTN'') ''Dr7'']"

definition AsmReadCs_proto :: proto where [protos]:
  "AsmReadCs_proto = Fun (T ''UINT16'') []"

definition AsmReadDs_proto :: proto where [protos]:
  "AsmReadDs_proto = Fun (T ''UINT16'') []"

definition AsmReadEs_proto :: proto where [protos]:
  "AsmReadEs_proto = Fun (T ''UINT16'') []"

definition AsmReadFs_proto :: proto where [protos]:
  "AsmReadFs_proto = Fun (T ''UINT16'') []"

definition AsmReadGs_proto :: proto where [protos]:
  "AsmReadGs_proto = Fun (T ''UINT16'') []"

definition AsmReadSs_proto :: proto where [protos]:
  "AsmReadSs_proto = Fun (T ''UINT16'') []"

definition AsmReadTr_proto :: proto where [protos]:
  "AsmReadTr_proto = Fun (T ''UINT16'') []"

definition AsmReadGdtr_proto :: proto where [protos]:
  "AsmReadGdtr_proto = Fun VOID [OUT (To (T ''IA32_DESCRIPTOR'')) ''Gdtr'']"

definition AsmWriteGdtr_proto :: proto where [protos]:
  "AsmWriteGdtr_proto = Fun VOID [IN (To (Const (T ''IA32_DESCRIPTOR''))) ''Gdtr'']"

definition AsmReadIdtr_proto :: proto where [protos]:
  "AsmReadIdtr_proto = Fun VOID [OUT (To (T ''IA32_DESCRIPTOR'')) ''Idtr'']"

definition AsmWriteIdtr_proto :: proto where [protos]:
  "AsmWriteIdtr_proto = Fun VOID [IN (To (Const (T ''IA32_DESCRIPTOR''))) ''Idtr'']"

definition AsmReadLdtr_proto :: proto where [protos]:
  "AsmReadLdtr_proto = Fun (T ''UINT16'') []"

definition AsmWriteLdtr_proto :: proto where [protos]:
  "AsmWriteLdtr_proto = Fun VOID [IN (T ''UINT16'') ''Ldtr'']"

definition AsmFxSave_proto :: proto where [protos]:
  "AsmFxSave_proto = Fun VOID [OUT (To (T ''IA32_FX_BUFFER'')) ''Buffer'']"

definition AsmFxRestore_proto :: proto where [protos]:
  "AsmFxRestore_proto = Fun VOID [IN (To (Const (T ''IA32_FX_BUFFER''))) ''Buffer'']"

definition AsmReadMm0_proto :: proto where [protos]:
  "AsmReadMm0_proto = Fun (T ''UINT64'') []"

definition AsmReadMm1_proto :: proto where [protos]:
  "AsmReadMm1_proto = Fun (T ''UINT64'') []"

definition AsmReadMm2_proto :: proto where [protos]:
  "AsmReadMm2_proto = Fun (T ''UINT64'') []"

definition AsmReadMm3_proto :: proto where [protos]:
  "AsmReadMm3_proto = Fun (T ''UINT64'') []"

definition AsmReadMm4_proto :: proto where [protos]:
  "AsmReadMm4_proto = Fun (T ''UINT64'') []"

definition AsmReadMm5_proto :: proto where [protos]:
  "AsmReadMm5_proto = Fun (T ''UINT64'') []"

definition AsmReadMm6_proto :: proto where [protos]:
  "AsmReadMm6_proto = Fun (T ''UINT64'') []"

definition AsmReadMm7_proto :: proto where [protos]:
  "AsmReadMm7_proto = Fun (T ''UINT64'') []"

definition AsmWriteMm0_proto :: proto where [protos]:
  "AsmWriteMm0_proto = Fun VOID [IN (T ''UINT64'') ''Value'']"

definition AsmWriteMm1_proto :: proto where [protos]:
  "AsmWriteMm1_proto = Fun VOID [IN (T ''UINT64'') ''Value'']"

definition AsmWriteMm2_proto :: proto where [protos]:
  "AsmWriteMm2_proto = Fun VOID [IN (T ''UINT64'') ''Value'']"

definition AsmWriteMm3_proto :: proto where [protos]:
  "AsmWriteMm3_proto = Fun VOID [IN (T ''UINT64'') ''Value'']"

definition AsmWriteMm4_proto :: proto where [protos]:
  "AsmWriteMm4_proto = Fun VOID [IN (T ''UINT64'') ''Value'']"

definition AsmWriteMm5_proto :: proto where [protos]:
  "AsmWriteMm5_proto = Fun VOID [IN (T ''UINT64'') ''Value'']"

definition AsmWriteMm6_proto :: proto where [protos]:
  "AsmWriteMm6_proto = Fun VOID [IN (T ''UINT64'') ''Value'']"

definition AsmWriteMm7_proto :: proto where [protos]:
  "AsmWriteMm7_proto = Fun VOID [IN (T ''UINT64'') ''Value'']"

definition AsmReadTsc_proto :: proto where [protos]:
  "AsmReadTsc_proto = Fun (T ''UINT64'') []"

definition AsmReadPmc_proto :: proto where [protos]:
  "AsmReadPmc_proto = Fun (T ''UINT64'') [IN (T ''UINT32'') ''Index'']"

definition AsmMonitor_proto :: proto where [protos]:
  "AsmMonitor_proto = Fun (T ''UINTN'')
     [IN (T ''UINTN'') ''Eax'', IN (T ''UINTN'') ''Ecx'', IN (T ''UINTN'') ''Edx'']"

definition AsmMwait_proto :: proto where [protos]:
  "AsmMwait_proto = Fun (T ''UINTN'') [IN (T ''UINTN'') ''Eax'', IN (T ''UINTN'') ''Ecx'']"

definition AsmWbinvd_proto :: proto where [protos]:
  "AsmWbinvd_proto = Fun VOID []"

definition AsmInvd_proto :: proto where [protos]:
  "AsmInvd_proto = Fun VOID []"

definition AsmFlushCacheLine_proto :: proto where [protos]:
  "AsmFlushCacheLine_proto = Fun (To VOID) [IN (To VOID) ''LinearAddress'']"

definition AsmEnablePaging32_proto :: proto where [protos]:
  "AsmEnablePaging32_proto = Fun VOID
     [IN (T ''SWITCH_STACK_ENTRY_POINT'') ''EntryPoint'', OPTIONAL (IN (To VOID) ''Context1''),
      OPTIONAL (IN (To VOID) ''Context2''), IN (To VOID) ''NewStack'']"

definition AsmDisablePaging32_proto :: proto where [protos]:
  "AsmDisablePaging32_proto = Fun VOID
     [IN (T ''SWITCH_STACK_ENTRY_POINT'') ''EntryPoint'', OPTIONAL (IN (To VOID) ''Context1''),
      OPTIONAL (IN (To VOID) ''Context2''), IN (To VOID) ''NewStack'']"

definition AsmEnablePaging64_proto :: proto where [protos]:
  "AsmEnablePaging64_proto = Fun VOID
     [IN (T ''UINT16'') ''Cs'', IN (T ''UINT64'') ''EntryPoint'', OPTIONAL (IN (T ''UINT64'') ''Context1''),
      OPTIONAL (IN (T ''UINT64'') ''Context2''), IN (T ''UINT64'') ''NewStack'']"

definition AsmDisablePaging64_proto :: proto where [protos]:
  "AsmDisablePaging64_proto = Fun VOID
     [IN (T ''UINT16'') ''Cs'', IN (T ''UINT32'') ''EntryPoint'', OPTIONAL (IN (T ''UINT32'') ''Context1''),
      OPTIONAL (IN (T ''UINT32'') ''Context2''), IN (T ''UINT32'') ''NewStack'']"

definition AsmGetThunk16Properties_proto :: proto where [protos]:
  "AsmGetThunk16Properties_proto = Fun VOID
     [OUT (To (T ''UINT32'')) ''RealModeBufferSize'', OUT (To (T ''UINT32'')) ''ExtraStackSize'']"

definition AsmPrepareThunk16_proto :: proto where [protos]:
  "AsmPrepareThunk16_proto = Fun VOID [IN_OUT (To (T ''THUNK_CONTEXT'')) ''ThunkContext'']"

definition AsmThunk16_proto :: proto where [protos]:
  "AsmThunk16_proto = Fun VOID [IN_OUT (To (T ''THUNK_CONTEXT'')) ''ThunkContext'']"

definition AsmPrepareAndThunk16_proto :: proto where [protos]:
  "AsmPrepareAndThunk16_proto = Fun VOID [IN_OUT (To (T ''THUNK_CONTEXT'')) ''ThunkContext'']"

definition AsmRdRand16_proto :: proto where [protos]:
  "AsmRdRand16_proto = Fun (T ''BOOLEAN'') [OUT (To (T ''UINT16'')) ''Rand'']"

definition AsmRdRand32_proto :: proto where [protos]:
  "AsmRdRand32_proto = Fun (T ''BOOLEAN'') [OUT (To (T ''UINT32'')) ''Rand'']"

definition AsmRdRand64_proto :: proto where [protos]:
  "AsmRdRand64_proto = Fun (T ''BOOLEAN'') [OUT (To (T ''UINT64'')) ''Rand'']"

definition AsmWriteTr_proto :: proto where [protos]:
  "AsmWriteTr_proto = Fun VOID [IN (T ''UINT16'') ''Selector'']"

definition AsmLfence_proto :: proto where [protos]:
  "AsmLfence_proto = Fun VOID []"

definition AsmXGetBv_proto :: proto where [protos]:
  "AsmXGetBv_proto = Fun (T ''UINT64'') [IN (T ''UINT32'') ''Index'']"

definition AsmXSetBv_proto :: proto where [protos]:
  "AsmXSetBv_proto = Fun (T ''UINT64'') [IN (T ''UINT32'') ''Index'', IN (T ''UINT64'') ''Value'']"

definition AsmVmgExit_proto :: proto where [protos]:
  "AsmVmgExit_proto = Fun VOID []"

definition PatchInstructionX86_proto :: proto where [protos]:
  "PatchInstructionX86_proto = Fun VOID
     [OUT (To (T ''X86_ASSEMBLY_PATCH_LABEL'')) ''InstructionEnd'', IN (T ''UINT64'') ''PatchValue'',
      IN (T ''UINTN'') ''ValueSize'']"

section \<open>All of them\<close>

definition BaseLib_protos_1 :: "(string \<times> proto) list" where
  "BaseLib_protos_1 =
     [(''StrnLenS'', StrnLenS_proto), (''StrnSizeS'', StrnSizeS_proto), (''StrCpyS'', StrCpyS_proto),
      (''StrnCpyS'', StrnCpyS_proto), (''StrCatS'', StrCatS_proto), (''StrnCatS'', StrnCatS_proto),
      (''StrDecimalToUintnS'', StrDecimalToUintnS_proto),
      (''StrDecimalToUint64S'', StrDecimalToUint64S_proto), (''StrHexToUintnS'', StrHexToUintnS_proto),
      (''StrHexToUint64S'', StrHexToUint64S_proto), (''AsciiStrnLenS'', AsciiStrnLenS_proto),
      (''AsciiStrnSizeS'', AsciiStrnSizeS_proto), (''AsciiStrCpyS'', AsciiStrCpyS_proto),
      (''AsciiStrnCpyS'', AsciiStrnCpyS_proto), (''AsciiStrCatS'', AsciiStrCatS_proto),
      (''AsciiStrnCatS'', AsciiStrnCatS_proto), (''AsciiStrDecimalToUintnS'', AsciiStrDecimalToUintnS_proto),
      (''AsciiStrDecimalToUint64S'', AsciiStrDecimalToUint64S_proto),
      (''AsciiStrHexToUintnS'', AsciiStrHexToUintnS_proto),
      (''AsciiStrHexToUint64S'', AsciiStrHexToUint64S_proto), (''StrLen'', StrLen_proto),
      (''StrSize'', StrSize_proto), (''StrCmp'', StrCmp_proto), (''StrnCmp'', StrnCmp_proto),
      (''StrStr'', StrStr_proto), (''StrDecimalToUintn'', StrDecimalToUintn_proto),
      (''StrDecimalToUint64'', StrDecimalToUint64_proto), (''StrHexToUintn'', StrHexToUintn_proto),
      (''StrHexToUint64'', StrHexToUint64_proto), (''StrToIpv6Address'', StrToIpv6Address_proto),
      (''StrToIpv4Address'', StrToIpv4Address_proto), (''StrToGuid'', StrToGuid_proto),
      (''StrHexToBytes'', StrHexToBytes_proto), (''UnicodeStrToAsciiStrS'', UnicodeStrToAsciiStrS_proto),
      (''UnicodeStrnToAsciiStrS'', UnicodeStrnToAsciiStrS_proto), (''AsciiStrLen'', AsciiStrLen_proto),
      (''AsciiStrSize'', AsciiStrSize_proto), (''AsciiStrCmp'', AsciiStrCmp_proto),
      (''AsciiStriCmp'', AsciiStriCmp_proto), (''AsciiStrnCmp'', AsciiStrnCmp_proto),
      (''AsciiStrStr'', AsciiStrStr_proto), (''AsciiStrDecimalToUintn'', AsciiStrDecimalToUintn_proto),
      (''AsciiStrDecimalToUint64'', AsciiStrDecimalToUint64_proto),
      (''AsciiStrHexToUintn'', AsciiStrHexToUintn_proto),
      (''AsciiStrHexToUint64'', AsciiStrHexToUint64_proto),
      (''AsciiStrToIpv6Address'', AsciiStrToIpv6Address_proto),
      (''AsciiStrToIpv4Address'', AsciiStrToIpv4Address_proto), (''AsciiStrToGuid'', AsciiStrToGuid_proto),
      (''AsciiStrHexToBytes'', AsciiStrHexToBytes_proto),
      (''AsciiStrToUnicodeStrS'', AsciiStrToUnicodeStrS_proto),
      (''AsciiStrnToUnicodeStrS'', AsciiStrnToUnicodeStrS_proto), (''CharToUpper'', CharToUpper_proto),
      (''AsciiCharToUpper'', AsciiCharToUpper_proto), (''Base64Encode'', Base64Encode_proto),
      (''Base64Decode'', Base64Decode_proto), (''DecimalToBcd8'', DecimalToBcd8_proto),
      (''BcdToDecimal8'', BcdToDecimal8_proto), (''PathRemoveLastItem'', PathRemoveLastItem_proto),
      (''PathCleanUpDirectories'', PathCleanUpDirectories_proto), (''IsNodeInList'', IsNodeInList_proto)]"

definition BaseLib_protos_2 :: "(string \<times> proto) list" where
  "BaseLib_protos_2 =
     [(''InitializeListHead'', InitializeListHead_proto), (''InsertHeadList'', InsertHeadList_proto),
      (''InsertTailList'', InsertTailList_proto), (''GetFirstNode'', GetFirstNode_proto),
      (''GetNextNode'', GetNextNode_proto), (''GetPreviousNode'', GetPreviousNode_proto),
      (''IsListEmpty'', IsListEmpty_proto), (''IsNull'', IsNull_proto), (''IsNodeAtEnd'', IsNodeAtEnd_proto),
      (''SwapListEntries'', SwapListEntries_proto), (''RemoveEntryList'', RemoveEntryList_proto),
      (''BASE_SORT_COMPARE'', BASE_SORT_COMPARE), (''QuickSort'', QuickSort_proto),
      (''LShiftU64'', LShiftU64_proto), (''RShiftU64'', RShiftU64_proto), (''ARShiftU64'', ARShiftU64_proto),
      (''LRotU32'', LRotU32_proto), (''RRotU32'', RRotU32_proto), (''LRotU64'', LRotU64_proto),
      (''RRotU64'', RRotU64_proto), (''LowBitSet32'', LowBitSet32_proto),
      (''LowBitSet64'', LowBitSet64_proto), (''HighBitSet32'', HighBitSet32_proto),
      (''HighBitSet64'', HighBitSet64_proto), (''GetPowerOfTwo32'', GetPowerOfTwo32_proto),
      (''GetPowerOfTwo64'', GetPowerOfTwo64_proto), (''SwapBytes16'', SwapBytes16_proto),
      (''SwapBytes32'', SwapBytes32_proto), (''SwapBytes64'', SwapBytes64_proto),
      (''MultU64x32'', MultU64x32_proto), (''MultU64x64'', MultU64x64_proto),
      (''MultS64x64'', MultS64x64_proto), (''DivU64x32'', DivU64x32_proto), (''ModU64x32'', ModU64x32_proto),
      (''DivU64x32Remainder'', DivU64x32Remainder_proto), (''DivU64x64Remainder'', DivU64x64Remainder_proto),
      (''DivS64x64Remainder'', DivS64x64Remainder_proto), (''ReadUnaligned16'', ReadUnaligned16_proto),
      (''WriteUnaligned16'', WriteUnaligned16_proto), (''ReadUnaligned24'', ReadUnaligned24_proto),
      (''WriteUnaligned24'', WriteUnaligned24_proto), (''ReadUnaligned32'', ReadUnaligned32_proto),
      (''WriteUnaligned32'', WriteUnaligned32_proto), (''ReadUnaligned64'', ReadUnaligned64_proto),
      (''WriteUnaligned64'', WriteUnaligned64_proto), (''BitFieldRead8'', BitFieldRead8_proto),
      (''BitFieldWrite8'', BitFieldWrite8_proto), (''BitFieldOr8'', BitFieldOr8_proto),
      (''BitFieldAnd8'', BitFieldAnd8_proto), (''BitFieldAndThenOr8'', BitFieldAndThenOr8_proto),
      (''BitFieldRead16'', BitFieldRead16_proto), (''BitFieldWrite16'', BitFieldWrite16_proto),
      (''BitFieldOr16'', BitFieldOr16_proto), (''BitFieldAnd16'', BitFieldAnd16_proto),
      (''BitFieldAndThenOr16'', BitFieldAndThenOr16_proto), (''BitFieldRead32'', BitFieldRead32_proto),
      (''BitFieldWrite32'', BitFieldWrite32_proto), (''BitFieldOr32'', BitFieldOr32_proto),
      (''BitFieldAnd32'', BitFieldAnd32_proto), (''BitFieldAndThenOr32'', BitFieldAndThenOr32_proto)]"

definition BaseLib_protos_3 :: "(string \<times> proto) list" where
  "BaseLib_protos_3 =
     [(''BitFieldRead64'', BitFieldRead64_proto), (''BitFieldWrite64'', BitFieldWrite64_proto),
      (''BitFieldOr64'', BitFieldOr64_proto), (''BitFieldAnd64'', BitFieldAnd64_proto),
      (''BitFieldAndThenOr64'', BitFieldAndThenOr64_proto),
      (''BitFieldCountOnes32'', BitFieldCountOnes32_proto),
      (''BitFieldCountOnes64'', BitFieldCountOnes64_proto), (''CalculateSum8'', CalculateSum8_proto),
      (''CalculateCheckSum8'', CalculateCheckSum8_proto), (''CalculateSum16'', CalculateSum16_proto),
      (''CalculateCheckSum16'', CalculateCheckSum16_proto), (''CalculateSum32'', CalculateSum32_proto),
      (''CalculateCheckSum32'', CalculateCheckSum32_proto), (''CalculateSum64'', CalculateSum64_proto),
      (''CalculateCheckSum64'', CalculateCheckSum64_proto), (''CalculateCrc32'', CalculateCrc32_proto),
      (''SWITCH_STACK_ENTRY_POINT'', SWITCH_STACK_ENTRY_POINT), (''MemoryFence'', MemoryFence_proto),
      (''SetJump'', SetJump_proto), (''LongJump'', LongJump_proto),
      (''EnableInterrupts'', EnableInterrupts_proto), (''DisableInterrupts'', DisableInterrupts_proto),
      (''SaveAndDisableInterrupts'', SaveAndDisableInterrupts_proto),
      (''EnableDisableInterrupts'', EnableDisableInterrupts_proto),
      (''GetInterruptState'', GetInterruptState_proto), (''SetInterruptState'', SetInterruptState_proto),
      (''CpuPause'', CpuPause_proto), (''SwitchStack'', SwitchStack_proto),
      (''CpuBreakpoint'', CpuBreakpoint_proto), (''CpuDeadLoop'', CpuDeadLoop_proto),
      (''SpeculationBarrier'', SpeculationBarrier_proto), (''AsmPvalidate'', AsmPvalidate_proto),
      (''AsmRmpAdjust'', AsmRmpAdjust_proto), (''AsmCpuid'', AsmCpuid_proto),
      (''AsmCpuidEx'', AsmCpuidEx_proto), (''AsmDisableCache'', AsmDisableCache_proto),
      (''AsmEnableCache'', AsmEnableCache_proto), (''AsmReadMsr32'', AsmReadMsr32_proto),
      (''AsmWriteMsr32'', AsmWriteMsr32_proto), (''AsmMsrOr32'', AsmMsrOr32_proto),
      (''AsmMsrAnd32'', AsmMsrAnd32_proto), (''AsmMsrAndThenOr32'', AsmMsrAndThenOr32_proto),
      (''AsmMsrBitFieldRead32'', AsmMsrBitFieldRead32_proto),
      (''AsmMsrBitFieldWrite32'', AsmMsrBitFieldWrite32_proto),
      (''AsmMsrBitFieldOr32'', AsmMsrBitFieldOr32_proto),
      (''AsmMsrBitFieldAnd32'', AsmMsrBitFieldAnd32_proto),
      (''AsmMsrBitFieldAndThenOr32'', AsmMsrBitFieldAndThenOr32_proto),
      (''AsmReadMsr64'', AsmReadMsr64_proto), (''AsmWriteMsr64'', AsmWriteMsr64_proto),
      (''AsmMsrOr64'', AsmMsrOr64_proto), (''AsmMsrAnd64'', AsmMsrAnd64_proto),
      (''AsmMsrAndThenOr64'', AsmMsrAndThenOr64_proto),
      (''AsmMsrBitFieldRead64'', AsmMsrBitFieldRead64_proto),
      (''AsmMsrBitFieldWrite64'', AsmMsrBitFieldWrite64_proto),
      (''AsmMsrBitFieldOr64'', AsmMsrBitFieldOr64_proto),
      (''AsmMsrBitFieldAnd64'', AsmMsrBitFieldAnd64_proto),
      (''AsmMsrBitFieldAndThenOr64'', AsmMsrBitFieldAndThenOr64_proto),
      (''AsmReadEflags'', AsmReadEflags_proto), (''AsmReadCr0'', AsmReadCr0_proto),
      (''AsmReadCr2'', AsmReadCr2_proto)]"

definition BaseLib_protos_4 :: "(string \<times> proto) list" where
  "BaseLib_protos_4 =
     [(''AsmReadCr3'', AsmReadCr3_proto), (''AsmReadCr4'', AsmReadCr4_proto),
      (''AsmWriteCr0'', AsmWriteCr0_proto), (''AsmWriteCr2'', AsmWriteCr2_proto),
      (''AsmWriteCr3'', AsmWriteCr3_proto), (''AsmWriteCr4'', AsmWriteCr4_proto),
      (''AsmReadDr0'', AsmReadDr0_proto), (''AsmReadDr1'', AsmReadDr1_proto),
      (''AsmReadDr2'', AsmReadDr2_proto), (''AsmReadDr3'', AsmReadDr3_proto),
      (''AsmReadDr4'', AsmReadDr4_proto), (''AsmReadDr5'', AsmReadDr5_proto),
      (''AsmReadDr6'', AsmReadDr6_proto), (''AsmReadDr7'', AsmReadDr7_proto),
      (''AsmWriteDr0'', AsmWriteDr0_proto), (''AsmWriteDr1'', AsmWriteDr1_proto),
      (''AsmWriteDr2'', AsmWriteDr2_proto), (''AsmWriteDr3'', AsmWriteDr3_proto),
      (''AsmWriteDr4'', AsmWriteDr4_proto), (''AsmWriteDr5'', AsmWriteDr5_proto),
      (''AsmWriteDr6'', AsmWriteDr6_proto), (''AsmWriteDr7'', AsmWriteDr7_proto),
      (''AsmReadCs'', AsmReadCs_proto), (''AsmReadDs'', AsmReadDs_proto), (''AsmReadEs'', AsmReadEs_proto),
      (''AsmReadFs'', AsmReadFs_proto), (''AsmReadGs'', AsmReadGs_proto), (''AsmReadSs'', AsmReadSs_proto),
      (''AsmReadTr'', AsmReadTr_proto), (''AsmReadGdtr'', AsmReadGdtr_proto),
      (''AsmWriteGdtr'', AsmWriteGdtr_proto), (''AsmReadIdtr'', AsmReadIdtr_proto),
      (''AsmWriteIdtr'', AsmWriteIdtr_proto), (''AsmReadLdtr'', AsmReadLdtr_proto),
      (''AsmWriteLdtr'', AsmWriteLdtr_proto), (''AsmFxSave'', AsmFxSave_proto),
      (''AsmFxRestore'', AsmFxRestore_proto), (''AsmReadMm0'', AsmReadMm0_proto),
      (''AsmReadMm1'', AsmReadMm1_proto), (''AsmReadMm2'', AsmReadMm2_proto),
      (''AsmReadMm3'', AsmReadMm3_proto), (''AsmReadMm4'', AsmReadMm4_proto),
      (''AsmReadMm5'', AsmReadMm5_proto), (''AsmReadMm6'', AsmReadMm6_proto),
      (''AsmReadMm7'', AsmReadMm7_proto), (''AsmWriteMm0'', AsmWriteMm0_proto),
      (''AsmWriteMm1'', AsmWriteMm1_proto), (''AsmWriteMm2'', AsmWriteMm2_proto),
      (''AsmWriteMm3'', AsmWriteMm3_proto), (''AsmWriteMm4'', AsmWriteMm4_proto),
      (''AsmWriteMm5'', AsmWriteMm5_proto), (''AsmWriteMm6'', AsmWriteMm6_proto),
      (''AsmWriteMm7'', AsmWriteMm7_proto), (''AsmReadTsc'', AsmReadTsc_proto),
      (''AsmReadPmc'', AsmReadPmc_proto), (''AsmMonitor'', AsmMonitor_proto), (''AsmMwait'', AsmMwait_proto),
      (''AsmWbinvd'', AsmWbinvd_proto), (''AsmInvd'', AsmInvd_proto),
      (''AsmFlushCacheLine'', AsmFlushCacheLine_proto)]"

definition BaseLib_protos_5 :: "(string \<times> proto) list" where
  "BaseLib_protos_5 =
     [(''AsmEnablePaging32'', AsmEnablePaging32_proto), (''AsmDisablePaging32'', AsmDisablePaging32_proto),
      (''AsmEnablePaging64'', AsmEnablePaging64_proto), (''AsmDisablePaging64'', AsmDisablePaging64_proto),
      (''AsmGetThunk16Properties'', AsmGetThunk16Properties_proto),
      (''AsmPrepareThunk16'', AsmPrepareThunk16_proto), (''AsmThunk16'', AsmThunk16_proto),
      (''AsmPrepareAndThunk16'', AsmPrepareAndThunk16_proto), (''AsmRdRand16'', AsmRdRand16_proto),
      (''AsmRdRand32'', AsmRdRand32_proto), (''AsmRdRand64'', AsmRdRand64_proto),
      (''AsmWriteTr'', AsmWriteTr_proto), (''AsmLfence'', AsmLfence_proto), (''AsmXGetBv'', AsmXGetBv_proto),
      (''AsmXSetBv'', AsmXSetBv_proto), (''AsmVmgExit'', AsmVmgExit_proto),
      (''PatchInstructionX86'', PatchInstructionX86_proto)]"


end
