(* ===== verification/Library_Prototypes.thy ===== *)
theory Library_Prototypes imports BaseLib_Prototypes begin

text \<open>
  The functions that the other headers of the libraries declare, and the declarations of the generated
  \<open>AutoGen.h\<close> and \<open>AutoGen.c\<close>.
\<close>

section \<open>BaseLibInternals.h\<close>

definition InternalMathLShiftU64_proto :: proto where [protos]:
  "InternalMathLShiftU64_proto = Fun (T ''UINT64'')
     [IN (T ''UINT64'') ''Operand'', IN (T ''UINTN'') ''Count'']"

definition InternalMathRShiftU64_proto :: proto where [protos]:
  "InternalMathRShiftU64_proto = Fun (T ''UINT64'')
     [IN (T ''UINT64'') ''Operand'', IN (T ''UINTN'') ''Count'']"

definition InternalMathARShiftU64_proto :: proto where [protos]:
  "InternalMathARShiftU64_proto = Fun (T ''UINT64'')
     [IN (T ''UINT64'') ''Operand'', IN (T ''UINTN'') ''Count'']"

definition InternalMathLRotU64_proto :: proto where [protos]:
  "InternalMathLRotU64_proto = Fun (T ''UINT64'') [IN (T ''UINT64'') ''Operand'', IN (T ''UINTN'') ''Count'']"

definition InternalMathRRotU64_proto :: proto where [protos]:
  "InternalMathRRotU64_proto = Fun (T ''UINT64'') [IN (T ''UINT64'') ''Operand'', IN (T ''UINTN'') ''Count'']"

definition InternalMathSwapBytes64_proto :: proto where [protos]:
  "InternalMathSwapBytes64_proto = Fun (T ''UINT64'') [IN (T ''UINT64'') ''Operand'']"

definition InternalMathMultU64x32_proto :: proto where [protos]:
  "InternalMathMultU64x32_proto = Fun (T ''UINT64'')
     [IN (T ''UINT64'') ''Multiplicand'', IN (T ''UINT32'') ''Multiplier'']"

definition InternalMathMultU64x64_proto :: proto where [protos]:
  "InternalMathMultU64x64_proto = Fun (T ''UINT64'')
     [IN (T ''UINT64'') ''Multiplicand'', IN (T ''UINT64'') ''Multiplier'']"

definition InternalMathDivU64x32_proto :: proto where [protos]:
  "InternalMathDivU64x32_proto = Fun (T ''UINT64'')
     [IN (T ''UINT64'') ''Dividend'', IN (T ''UINT32'') ''Divisor'']"

definition InternalMathModU64x32_proto :: proto where [protos]:
  "InternalMathModU64x32_proto = Fun (T ''UINT32'')
     [IN (T ''UINT64'') ''Dividend'', IN (T ''UINT32'') ''Divisor'']"

definition InternalMathDivRemU64x32_proto :: proto where [protos]:
  "InternalMathDivRemU64x32_proto = Fun (T ''UINT64'')
     [IN (T ''UINT64'') ''Dividend'', IN (T ''UINT32'') ''Divisor'',
      OPTIONAL (OUT (To (T ''UINT32'')) ''Remainder'')]"

definition InternalMathDivRemU64x64_proto :: proto where [protos]:
  "InternalMathDivRemU64x64_proto = Fun (T ''UINT64'')
     [IN (T ''UINT64'') ''Dividend'', IN (T ''UINT64'') ''Divisor'',
      OPTIONAL (OUT (To (T ''UINT64'')) ''Remainder'')]"

definition InternalMathDivRemS64x64_proto :: proto where [protos]:
  "InternalMathDivRemS64x64_proto = Fun (T ''INT64'')
     [IN (T ''INT64'') ''Dividend'', IN (T ''INT64'') ''Divisor'',
      OPTIONAL (OUT (To (T ''INT64'')) ''Remainder'')]"

definition InternalSwitchStack_proto :: proto where [protos]:
  "InternalSwitchStack_proto = Fun VOID
     [IN (T ''SWITCH_STACK_ENTRY_POINT'') ''EntryPoint'', OPTIONAL (IN (To VOID) ''Context1''),
      OPTIONAL (IN (To VOID) ''Context2''), IN (To VOID) ''NewStack'', IN (T ''VA_LIST'') ''Marker'']"

definition BitFieldReadUint_proto :: proto where [protos]:
  "BitFieldReadUint_proto = Fun (T ''UINTN'')
     [IN (T ''UINTN'') ''Operand'', IN (T ''UINTN'') ''StartBit'', IN (T ''UINTN'') ''EndBit'']"

definition BitFieldOrUint_proto :: proto where [protos]:
  "BitFieldOrUint_proto = Fun (T ''UINTN'')
     [IN (T ''UINTN'') ''Operand'', IN (T ''UINTN'') ''StartBit'', IN (T ''UINTN'') ''EndBit'',
      IN (T ''UINTN'') ''OrData'']"

definition BitFieldAndUint_proto :: proto where [protos]:
  "BitFieldAndUint_proto = Fun (T ''UINTN'')
     [IN (T ''UINTN'') ''Operand'', IN (T ''UINTN'') ''StartBit'', IN (T ''UINTN'') ''EndBit'',
      IN (T ''UINTN'') ''AndData'']"

definition InternalAssertJumpBuffer_proto :: proto where [protos]:
  "InternalAssertJumpBuffer_proto = Fun VOID [IN (To (T ''BASE_LIBRARY_JUMP_BUFFER'')) ''JumpBuffer'']"

definition InternalLongJump_proto :: proto where [protos]:
  "InternalLongJump_proto = Fun VOID
     [IN (To (T ''BASE_LIBRARY_JUMP_BUFFER'')) ''JumpBuffer'', IN (T ''UINTN'') ''Value'']"

definition InternalIsDecimalDigitCharacter_proto :: proto where [protos]:
  "InternalIsDecimalDigitCharacter_proto = Fun (T ''BOOLEAN'') [IN (T ''CHAR16'') ''Char'']"

definition InternalHexCharToUintn_proto :: proto where [protos]:
  "InternalHexCharToUintn_proto = Fun (T ''UINTN'') [IN (T ''CHAR16'') ''Char'']"

definition InternalIsHexaDecimalDigitCharacter_proto :: proto where [protos]:
  "InternalIsHexaDecimalDigitCharacter_proto = Fun (T ''BOOLEAN'') [IN (T ''CHAR16'') ''Char'']"

definition InternalAsciiIsDecimalDigitCharacter_proto :: proto where [protos]:
  "InternalAsciiIsDecimalDigitCharacter_proto = Fun (T ''BOOLEAN'') [IN (T ''CHAR8'') ''Char'']"

definition InternalAsciiIsHexaDecimalDigitCharacter_proto :: proto where [protos]:
  "InternalAsciiIsHexaDecimalDigitCharacter_proto = Fun (T ''BOOLEAN'') [IN (T ''CHAR8'') ''Char'']"

definition InternalAsciiHexCharToUintn_proto :: proto where [protos]:
  "InternalAsciiHexCharToUintn_proto = Fun (T ''UINTN'') [IN (T ''CHAR8'') ''Char'']"

definition InternalX86ReadGdtr_proto :: proto where [protos]:
  "InternalX86ReadGdtr_proto = Fun VOID [OUT (To (T ''IA32_DESCRIPTOR'')) ''Gdtr'']"

definition InternalX86WriteGdtr_proto :: proto where [protos]:
  "InternalX86WriteGdtr_proto = Fun VOID [IN (To (Const (T ''IA32_DESCRIPTOR''))) ''Gdtr'']"

definition InternalX86ReadIdtr_proto :: proto where [protos]:
  "InternalX86ReadIdtr_proto = Fun VOID [OUT (To (T ''IA32_DESCRIPTOR'')) ''Idtr'']"

definition InternalX86WriteIdtr_proto :: proto where [protos]:
  "InternalX86WriteIdtr_proto = Fun VOID [IN (To (Const (T ''IA32_DESCRIPTOR''))) ''Idtr'']"

definition InternalX86FxSave_proto :: proto where [protos]:
  "InternalX86FxSave_proto = Fun VOID [OUT (To (T ''IA32_FX_BUFFER'')) ''Buffer'']"

definition InternalX86FxRestore_proto :: proto where [protos]:
  "InternalX86FxRestore_proto = Fun VOID [IN (To (Const (T ''IA32_FX_BUFFER''))) ''Buffer'']"

definition InternalX86EnablePaging32_proto :: proto where [protos]:
  "InternalX86EnablePaging32_proto = Fun VOID
     [IN (T ''SWITCH_STACK_ENTRY_POINT'') ''EntryPoint'', OPTIONAL (IN (To VOID) ''Context1''),
      OPTIONAL (IN (To VOID) ''Context2''), IN (To VOID) ''NewStack'']"

definition InternalX86DisablePaging32_proto :: proto where [protos]:
  "InternalX86DisablePaging32_proto = Fun VOID
     [IN (T ''SWITCH_STACK_ENTRY_POINT'') ''EntryPoint'', OPTIONAL (IN (To VOID) ''Context1''),
      OPTIONAL (IN (To VOID) ''Context2''), IN (To VOID) ''NewStack'']"

definition InternalX86EnablePaging64_proto :: proto where [protos]:
  "InternalX86EnablePaging64_proto = Fun VOID
     [IN (T ''UINT16'') ''Cs'', IN (T ''UINT64'') ''EntryPoint'', OPTIONAL (IN (T ''UINT64'') ''Context1''),
      OPTIONAL (IN (T ''UINT64'') ''Context2''), IN (T ''UINT64'') ''NewStack'']"

definition InternalX86DisablePaging64_proto :: proto where [protos]:
  "InternalX86DisablePaging64_proto = Fun VOID
     [IN (T ''UINT16'') ''Cs'', IN (T ''UINT32'') ''EntryPoint'', OPTIONAL (IN (T ''UINT32'') ''Context1''),
      OPTIONAL (IN (T ''UINT32'') ''Context2''), IN (T ''UINT32'') ''NewStack'']"

definition InternalX86RdRand16_proto :: proto where [protos]:
  "InternalX86RdRand16_proto = Fun (T ''BOOLEAN'') [OUT (To (T ''UINT16'')) ''Rand'']"

definition InternalX86RdRand32_proto :: proto where [protos]:
  "InternalX86RdRand32_proto = Fun (T ''BOOLEAN'') [OUT (To (T ''UINT32'')) ''Rand'']"

definition InternalX86RdRand64_proto :: proto where [protos]:
  "InternalX86RdRand64_proto = Fun (T ''BOOLEAN'') [OUT (To (T ''UINT64'')) ''Rand'']"

definition BaseLibInternals_protos :: "(string \<times> proto) list" where
  "BaseLibInternals_protos =
     [(''InternalMathLShiftU64'', InternalMathLShiftU64_proto),
      (''InternalMathRShiftU64'', InternalMathRShiftU64_proto),
      (''InternalMathARShiftU64'', InternalMathARShiftU64_proto),
      (''InternalMathLRotU64'', InternalMathLRotU64_proto),
      (''InternalMathRRotU64'', InternalMathRRotU64_proto),
      (''InternalMathSwapBytes64'', InternalMathSwapBytes64_proto),
      (''InternalMathMultU64x32'', InternalMathMultU64x32_proto),
      (''InternalMathMultU64x64'', InternalMathMultU64x64_proto),
      (''InternalMathDivU64x32'', InternalMathDivU64x32_proto),
      (''InternalMathModU64x32'', InternalMathModU64x32_proto),
      (''InternalMathDivRemU64x32'', InternalMathDivRemU64x32_proto),
      (''InternalMathDivRemU64x64'', InternalMathDivRemU64x64_proto),
      (''InternalMathDivRemS64x64'', InternalMathDivRemS64x64_proto),
      (''InternalSwitchStack'', InternalSwitchStack_proto), (''BitFieldReadUint'', BitFieldReadUint_proto),
      (''BitFieldOrUint'', BitFieldOrUint_proto), (''BitFieldAndUint'', BitFieldAndUint_proto),
      (''InternalAssertJumpBuffer'', InternalAssertJumpBuffer_proto),
      (''InternalLongJump'', InternalLongJump_proto),
      (''InternalIsDecimalDigitCharacter'', InternalIsDecimalDigitCharacter_proto),
      (''InternalHexCharToUintn'', InternalHexCharToUintn_proto),
      (''InternalIsHexaDecimalDigitCharacter'', InternalIsHexaDecimalDigitCharacter_proto),
      (''InternalAsciiIsDecimalDigitCharacter'', InternalAsciiIsDecimalDigitCharacter_proto),
      (''InternalAsciiIsHexaDecimalDigitCharacter'', InternalAsciiIsHexaDecimalDigitCharacter_proto),
      (''InternalAsciiHexCharToUintn'', InternalAsciiHexCharToUintn_proto),
      (''InternalX86ReadGdtr'', InternalX86ReadGdtr_proto),
      (''InternalX86WriteGdtr'', InternalX86WriteGdtr_proto),
      (''InternalX86ReadIdtr'', InternalX86ReadIdtr_proto),
      (''InternalX86WriteIdtr'', InternalX86WriteIdtr_proto),
      (''InternalX86FxSave'', InternalX86FxSave_proto),
      (''InternalX86FxRestore'', InternalX86FxRestore_proto),
      (''InternalX86EnablePaging32'', InternalX86EnablePaging32_proto),
      (''InternalX86DisablePaging32'', InternalX86DisablePaging32_proto),
      (''InternalX86EnablePaging64'', InternalX86EnablePaging64_proto),
      (''InternalX86DisablePaging64'', InternalX86DisablePaging64_proto),
      (''InternalX86RdRand16'', InternalX86RdRand16_proto),
      (''InternalX86RdRand32'', InternalX86RdRand32_proto),
      (''InternalX86RdRand64'', InternalX86RdRand64_proto)]"

section \<open>BaseMemoryLib.h\<close>

definition CopyMem_proto :: proto where [protos]:
  "CopyMem_proto = Fun (To VOID)
     [OUT (To VOID) ''DestinationBuffer'', IN (To (Const VOID)) ''SourceBuffer'', IN (T ''UINTN'') ''Length'']"

definition SetMem_proto :: proto where [protos]:
  "SetMem_proto = Fun (To VOID)
     [OUT (To VOID) ''Buffer'', IN (T ''UINTN'') ''Length'', IN (T ''UINT8'') ''Value'']"

definition SetMem16_proto :: proto where [protos]:
  "SetMem16_proto = Fun (To VOID)
     [OUT (To VOID) ''Buffer'', IN (T ''UINTN'') ''Length'', IN (T ''UINT16'') ''Value'']"

definition SetMem32_proto :: proto where [protos]:
  "SetMem32_proto = Fun (To VOID)
     [OUT (To VOID) ''Buffer'', IN (T ''UINTN'') ''Length'', IN (T ''UINT32'') ''Value'']"

definition SetMem64_proto :: proto where [protos]:
  "SetMem64_proto = Fun (To VOID)
     [OUT (To VOID) ''Buffer'', IN (T ''UINTN'') ''Length'', IN (T ''UINT64'') ''Value'']"

definition SetMemN_proto :: proto where [protos]:
  "SetMemN_proto = Fun (To VOID)
     [OUT (To VOID) ''Buffer'', IN (T ''UINTN'') ''Length'', IN (T ''UINTN'') ''Value'']"

definition ZeroMem_proto :: proto where [protos]:
  "ZeroMem_proto = Fun (To VOID) [OUT (To VOID) ''Buffer'', IN (T ''UINTN'') ''Length'']"

definition CompareMem_proto :: proto where [protos]:
  "CompareMem_proto = Fun (T ''INTN'')
     [IN (To (Const VOID)) ''DestinationBuffer'', IN (To (Const VOID)) ''SourceBuffer'',
      IN (T ''UINTN'') ''Length'']"

definition ScanMem8_proto :: proto where [protos]:
  "ScanMem8_proto = Fun (To VOID)
     [IN (To (Const VOID)) ''Buffer'', IN (T ''UINTN'') ''Length'', IN (T ''UINT8'') ''Value'']"

definition ScanMem16_proto :: proto where [protos]:
  "ScanMem16_proto = Fun (To VOID)
     [IN (To (Const VOID)) ''Buffer'', IN (T ''UINTN'') ''Length'', IN (T ''UINT16'') ''Value'']"

definition ScanMem32_proto :: proto where [protos]:
  "ScanMem32_proto = Fun (To VOID)
     [IN (To (Const VOID)) ''Buffer'', IN (T ''UINTN'') ''Length'', IN (T ''UINT32'') ''Value'']"

definition ScanMem64_proto :: proto where [protos]:
  "ScanMem64_proto = Fun (To VOID)
     [IN (To (Const VOID)) ''Buffer'', IN (T ''UINTN'') ''Length'', IN (T ''UINT64'') ''Value'']"

definition ScanMemN_proto :: proto where [protos]:
  "ScanMemN_proto = Fun (To VOID)
     [IN (To (Const VOID)) ''Buffer'', IN (T ''UINTN'') ''Length'', IN (T ''UINTN'') ''Value'']"

definition CopyGuid_proto :: proto where [protos]:
  "CopyGuid_proto = Fun (To (T ''GUID''))
     [OUT (To (T ''GUID'')) ''DestinationGuid'', IN (To (Const (T ''GUID''))) ''SourceGuid'']"

definition CompareGuid_proto :: proto where [protos]:
  "CompareGuid_proto = Fun (T ''BOOLEAN'')
     [IN (To (Const (T ''GUID''))) ''Guid1'', IN (To (Const (T ''GUID''))) ''Guid2'']"

definition ScanGuid_proto :: proto where [protos]:
  "ScanGuid_proto = Fun (To VOID)
     [IN (To (Const VOID)) ''Buffer'', IN (T ''UINTN'') ''Length'', IN (To (Const (T ''GUID''))) ''Guid'']"

definition IsZeroGuid_proto :: proto where [protos]:
  "IsZeroGuid_proto = Fun (T ''BOOLEAN'') [IN (To (Const (T ''GUID''))) ''Guid'']"

definition IsZeroBuffer_proto :: proto where [protos]:
  "IsZeroBuffer_proto = Fun (T ''BOOLEAN'') [IN (To (Const VOID)) ''Buffer'', IN (T ''UINTN'') ''Length'']"

definition BaseMemoryLib_protos :: "(string \<times> proto) list" where
  "BaseMemoryLib_protos =
     [(''CopyMem'', CopyMem_proto), (''SetMem'', SetMem_proto), (''SetMem16'', SetMem16_proto),
      (''SetMem32'', SetMem32_proto), (''SetMem64'', SetMem64_proto), (''SetMemN'', SetMemN_proto),
      (''ZeroMem'', ZeroMem_proto), (''CompareMem'', CompareMem_proto), (''ScanMem8'', ScanMem8_proto),
      (''ScanMem16'', ScanMem16_proto), (''ScanMem32'', ScanMem32_proto), (''ScanMem64'', ScanMem64_proto),
      (''ScanMemN'', ScanMemN_proto), (''CopyGuid'', CopyGuid_proto), (''CompareGuid'', CompareGuid_proto),
      (''ScanGuid'', ScanGuid_proto), (''IsZeroGuid'', IsZeroGuid_proto),
      (''IsZeroBuffer'', IsZeroBuffer_proto)]"

section \<open>DebugLib.h\<close>

definition DebugPrint_proto :: proto where [protos]:
  "DebugPrint_proto = Variadic VOID
     [IN (T ''UINTN'') ''ErrorLevel'', IN (To (Const (T ''CHAR8''))) ''Format'']"

definition DebugVPrint_proto :: proto where [protos]:
  "DebugVPrint_proto = Fun VOID
     [IN (T ''UINTN'') ''ErrorLevel'', IN (To (Const (T ''CHAR8''))) ''Format'',
      IN (T ''VA_LIST'') ''VaListMarker'']"

definition DebugBPrint_proto :: proto where [protos]:
  "DebugBPrint_proto = Fun VOID
     [IN (T ''UINTN'') ''ErrorLevel'', IN (To (Const (T ''CHAR8''))) ''Format'',
      IN (T ''BASE_LIST'') ''BaseListMarker'']"

definition DebugAssert_proto :: proto where [protos]:
  "DebugAssert_proto = Fun VOID
     [IN (To (Const (T ''CHAR8''))) ''FileName'', IN (T ''UINTN'') ''LineNumber'',
      IN (To (Const (T ''CHAR8''))) ''Description'']"

definition DebugClearMemory_proto :: proto where [protos]:
  "DebugClearMemory_proto = Fun (To VOID) [OUT (To VOID) ''Buffer'', IN (T ''UINTN'') ''Length'']"

definition DebugAssertEnabled_proto :: proto where [protos]:
  "DebugAssertEnabled_proto = Fun (T ''BOOLEAN'') []"

definition DebugPrintEnabled_proto :: proto where [protos]:
  "DebugPrintEnabled_proto = Fun (T ''BOOLEAN'') []"

definition DebugCodeEnabled_proto :: proto where [protos]:
  "DebugCodeEnabled_proto = Fun (T ''BOOLEAN'') []"

definition DebugClearMemoryEnabled_proto :: proto where [protos]:
  "DebugClearMemoryEnabled_proto = Fun (T ''BOOLEAN'') []"

definition DebugPrintLevelEnabled_proto :: proto where [protos]:
  "DebugPrintLevelEnabled_proto = Fun (T ''BOOLEAN'') [IN (Const (T ''UINTN'')) ''ErrorLevel'']"

definition DebugLib_protos :: "(string \<times> proto) list" where
  "DebugLib_protos =
     [(''DebugPrint'', DebugPrint_proto), (''DebugVPrint'', DebugVPrint_proto),
      (''DebugBPrint'', DebugBPrint_proto), (''DebugAssert'', DebugAssert_proto),
      (''DebugClearMemory'', DebugClearMemory_proto), (''DebugAssertEnabled'', DebugAssertEnabled_proto),
      (''DebugPrintEnabled'', DebugPrintEnabled_proto), (''DebugCodeEnabled'', DebugCodeEnabled_proto),
      (''DebugClearMemoryEnabled'', DebugClearMemoryEnabled_proto),
      (''DebugPrintLevelEnabled'', DebugPrintLevelEnabled_proto)]"

section \<open>PcdLib.h\<close>

definition LibPcdSetSku_proto :: proto where [protos]:
  "LibPcdSetSku_proto = Fun (T ''UINTN'') [IN (T ''UINTN'') ''SkuId'']"

definition LibPcdGet8_proto :: proto where [protos]:
  "LibPcdGet8_proto = Fun (T ''UINT8'') [IN (T ''UINTN'') ''TokenNumber'']"

definition LibPcdGet16_proto :: proto where [protos]:
  "LibPcdGet16_proto = Fun (T ''UINT16'') [IN (T ''UINTN'') ''TokenNumber'']"

definition LibPcdGet32_proto :: proto where [protos]:
  "LibPcdGet32_proto = Fun (T ''UINT32'') [IN (T ''UINTN'') ''TokenNumber'']"

definition LibPcdGet64_proto :: proto where [protos]:
  "LibPcdGet64_proto = Fun (T ''UINT64'') [IN (T ''UINTN'') ''TokenNumber'']"

definition LibPcdGetPtr_proto :: proto where [protos]:
  "LibPcdGetPtr_proto = Fun (To VOID) [IN (T ''UINTN'') ''TokenNumber'']"

definition LibPcdGetBool_proto :: proto where [protos]:
  "LibPcdGetBool_proto = Fun (T ''BOOLEAN'') [IN (T ''UINTN'') ''TokenNumber'']"

definition LibPcdGetSize_proto :: proto where [protos]:
  "LibPcdGetSize_proto = Fun (T ''UINTN'') [IN (T ''UINTN'') ''TokenNumber'']"

definition LibPcdGetEx8_proto :: proto where [protos]:
  "LibPcdGetEx8_proto = Fun (T ''UINT8'')
     [IN (To (Const (T ''GUID''))) ''Guid'', IN (T ''UINTN'') ''TokenNumber'']"

definition LibPcdGetEx16_proto :: proto where [protos]:
  "LibPcdGetEx16_proto = Fun (T ''UINT16'')
     [IN (To (Const (T ''GUID''))) ''Guid'', IN (T ''UINTN'') ''TokenNumber'']"

definition LibPcdGetEx32_proto :: proto where [protos]:
  "LibPcdGetEx32_proto = Fun (T ''UINT32'')
     [IN (To (Const (T ''GUID''))) ''Guid'', IN (T ''UINTN'') ''TokenNumber'']"

definition LibPcdGetEx64_proto :: proto where [protos]:
  "LibPcdGetEx64_proto = Fun (T ''UINT64'')
     [IN (To (Const (T ''GUID''))) ''Guid'', IN (T ''UINTN'') ''TokenNumber'']"

definition LibPcdGetExPtr_proto :: proto where [protos]:
  "LibPcdGetExPtr_proto = Fun (To VOID)
     [IN (To (Const (T ''GUID''))) ''Guid'', IN (T ''UINTN'') ''TokenNumber'']"

definition LibPcdGetExBool_proto :: proto where [protos]:
  "LibPcdGetExBool_proto = Fun (T ''BOOLEAN'')
     [IN (To (Const (T ''GUID''))) ''Guid'', IN (T ''UINTN'') ''TokenNumber'']"

definition LibPcdGetExSize_proto :: proto where [protos]:
  "LibPcdGetExSize_proto = Fun (T ''UINTN'')
     [IN (To (Const (T ''GUID''))) ''Guid'', IN (T ''UINTN'') ''TokenNumber'']"

definition LibPcdSet8S_proto :: proto where [protos]:
  "LibPcdSet8S_proto = Fun (T ''RETURN_STATUS'')
     [IN (T ''UINTN'') ''TokenNumber'', IN (T ''UINT8'') ''Value'']"

definition LibPcdSet16S_proto :: proto where [protos]:
  "LibPcdSet16S_proto = Fun (T ''RETURN_STATUS'')
     [IN (T ''UINTN'') ''TokenNumber'', IN (T ''UINT16'') ''Value'']"

definition LibPcdSet32S_proto :: proto where [protos]:
  "LibPcdSet32S_proto = Fun (T ''RETURN_STATUS'')
     [IN (T ''UINTN'') ''TokenNumber'', IN (T ''UINT32'') ''Value'']"

definition LibPcdSet64S_proto :: proto where [protos]:
  "LibPcdSet64S_proto = Fun (T ''RETURN_STATUS'')
     [IN (T ''UINTN'') ''TokenNumber'', IN (T ''UINT64'') ''Value'']"

definition LibPcdSetPtrS_proto :: proto where [protos]:
  "LibPcdSetPtrS_proto = Fun (T ''RETURN_STATUS'')
     [IN (T ''UINTN'') ''TokenNumber'', IN_OUT (To (T ''UINTN'')) ''SizeOfBuffer'',
      IN (To (Const VOID)) ''Buffer'']"

definition LibPcdSetBoolS_proto :: proto where [protos]:
  "LibPcdSetBoolS_proto = Fun (T ''RETURN_STATUS'')
     [IN (T ''UINTN'') ''TokenNumber'', IN (T ''BOOLEAN'') ''Value'']"

definition LibPcdSetEx8S_proto :: proto where [protos]:
  "LibPcdSetEx8S_proto = Fun (T ''RETURN_STATUS'')
     [IN (To (Const (T ''GUID''))) ''Guid'', IN (T ''UINTN'') ''TokenNumber'', IN (T ''UINT8'') ''Value'']"

definition LibPcdSetEx16S_proto :: proto where [protos]:
  "LibPcdSetEx16S_proto = Fun (T ''RETURN_STATUS'')
     [IN (To (Const (T ''GUID''))) ''Guid'', IN (T ''UINTN'') ''TokenNumber'', IN (T ''UINT16'') ''Value'']"

definition LibPcdSetEx32S_proto :: proto where [protos]:
  "LibPcdSetEx32S_proto = Fun (T ''RETURN_STATUS'')
     [IN (To (Const (T ''GUID''))) ''Guid'', IN (T ''UINTN'') ''TokenNumber'', IN (T ''UINT32'') ''Value'']"

definition LibPcdSetEx64S_proto :: proto where [protos]:
  "LibPcdSetEx64S_proto = Fun (T ''RETURN_STATUS'')
     [IN (To (Const (T ''GUID''))) ''Guid'', IN (T ''UINTN'') ''TokenNumber'', IN (T ''UINT64'') ''Value'']"

definition LibPcdSetExPtrS_proto :: proto where [protos]:
  "LibPcdSetExPtrS_proto = Fun (T ''RETURN_STATUS'')
     [IN (To (Const (T ''GUID''))) ''Guid'', IN (T ''UINTN'') ''TokenNumber'',
      IN_OUT (To (T ''UINTN'')) ''SizeOfBuffer'', IN (To VOID) ''Buffer'']"

definition LibPcdSetExBoolS_proto :: proto where [protos]:
  "LibPcdSetExBoolS_proto = Fun (T ''RETURN_STATUS'')
     [IN (To (Const (T ''GUID''))) ''Guid'', IN (T ''UINTN'') ''TokenNumber'', IN (T ''BOOLEAN'') ''Value'']"

definition PCD_CALLBACK :: proto where [protos]:
  "PCD_CALLBACK = Fun VOID
     [OPTIONAL (IN (To (Const (T ''GUID''))) ''CallBackGuid''), IN (T ''UINTN'') ''CallBackToken'',
      IN_OUT (To VOID) ''TokenData'', IN (T ''UINTN'') ''TokenDataSize'']"

definition LibPcdCallbackOnSet_proto :: proto where [protos]:
  "LibPcdCallbackOnSet_proto = Fun VOID
     [OPTIONAL (IN (To (Const (T ''GUID''))) ''Guid''), IN (T ''UINTN'') ''TokenNumber'',
      IN (T ''PCD_CALLBACK'') ''NotificationFunction'']"

definition LibPcdCancelCallback_proto :: proto where [protos]:
  "LibPcdCancelCallback_proto = Fun VOID
     [OPTIONAL (IN (To (Const (T ''GUID''))) ''Guid''), IN (T ''UINTN'') ''TokenNumber'',
      IN (T ''PCD_CALLBACK'') ''NotificationFunction'']"

definition LibPcdGetNextToken_proto :: proto where [protos]:
  "LibPcdGetNextToken_proto = Fun (T ''UINTN'')
     [OPTIONAL (IN (To (Const (T ''GUID''))) ''Guid''), IN (T ''UINTN'') ''TokenNumber'']"

definition LibPcdGetNextTokenSpace_proto :: proto where [protos]:
  "LibPcdGetNextTokenSpace_proto = Fun (To (T ''GUID'')) [IN (To (Const (T ''GUID''))) ''TokenSpaceGuid'']"

definition LibPatchPcdSetPtr_proto :: proto where [protos]:
  "LibPatchPcdSetPtr_proto = Fun (To VOID)
     [OUT (To VOID) ''PatchVariable'', IN (T ''UINTN'') ''MaximumDatumSize'',
      IN_OUT (To (T ''UINTN'')) ''SizeOfBuffer'', IN (To (Const VOID)) ''Buffer'']"

definition LibPatchPcdSetPtrS_proto :: proto where [protos]:
  "LibPatchPcdSetPtrS_proto = Fun (T ''RETURN_STATUS'')
     [OUT (To VOID) ''PatchVariable'', IN (T ''UINTN'') ''MaximumDatumSize'',
      IN_OUT (To (T ''UINTN'')) ''SizeOfBuffer'', IN (To (Const VOID)) ''Buffer'']"

definition LibPatchPcdSetPtrAndSize_proto :: proto where [protos]:
  "LibPatchPcdSetPtrAndSize_proto = Fun (To VOID)
     [OUT (To VOID) ''PatchVariable'', OUT (To (T ''UINTN'')) ''SizeOfPatchVariable'',
      IN (T ''UINTN'') ''MaximumDatumSize'', IN_OUT (To (T ''UINTN'')) ''SizeOfBuffer'',
      IN (To (Const VOID)) ''Buffer'']"

definition LibPatchPcdSetPtrAndSizeS_proto :: proto where [protos]:
  "LibPatchPcdSetPtrAndSizeS_proto = Fun (T ''RETURN_STATUS'')
     [OUT (To VOID) ''PatchVariable'', OUT (To (T ''UINTN'')) ''SizeOfPatchVariable'',
      IN (T ''UINTN'') ''MaximumDatumSize'', IN_OUT (To (T ''UINTN'')) ''SizeOfBuffer'',
      IN (To (Const VOID)) ''Buffer'']"

definition LibPcdGetInfo_proto :: proto where [protos]:
  "LibPcdGetInfo_proto = Fun VOID [IN (T ''UINTN'') ''TokenNumber'', OUT (To (T ''PCD_INFO'')) ''PcdInfo'']"

definition LibPcdGetInfoEx_proto :: proto where [protos]:
  "LibPcdGetInfoEx_proto = Fun VOID
     [IN (To (Const (T ''GUID''))) ''Guid'', IN (T ''UINTN'') ''TokenNumber'',
      OUT (To (T ''PCD_INFO'')) ''PcdInfo'']"

definition LibPcdGetSku_proto :: proto where [protos]:
  "LibPcdGetSku_proto = Fun (T ''UINTN'') []"

definition PcdLib_protos :: "(string \<times> proto) list" where
  "PcdLib_protos =
     [(''LibPcdSetSku'', LibPcdSetSku_proto), (''LibPcdGet8'', LibPcdGet8_proto),
      (''LibPcdGet16'', LibPcdGet16_proto), (''LibPcdGet32'', LibPcdGet32_proto),
      (''LibPcdGet64'', LibPcdGet64_proto), (''LibPcdGetPtr'', LibPcdGetPtr_proto),
      (''LibPcdGetBool'', LibPcdGetBool_proto), (''LibPcdGetSize'', LibPcdGetSize_proto),
      (''LibPcdGetEx8'', LibPcdGetEx8_proto), (''LibPcdGetEx16'', LibPcdGetEx16_proto),
      (''LibPcdGetEx32'', LibPcdGetEx32_proto), (''LibPcdGetEx64'', LibPcdGetEx64_proto),
      (''LibPcdGetExPtr'', LibPcdGetExPtr_proto), (''LibPcdGetExBool'', LibPcdGetExBool_proto),
      (''LibPcdGetExSize'', LibPcdGetExSize_proto), (''LibPcdSet8S'', LibPcdSet8S_proto),
      (''LibPcdSet16S'', LibPcdSet16S_proto), (''LibPcdSet32S'', LibPcdSet32S_proto),
      (''LibPcdSet64S'', LibPcdSet64S_proto), (''LibPcdSetPtrS'', LibPcdSetPtrS_proto),
      (''LibPcdSetBoolS'', LibPcdSetBoolS_proto), (''LibPcdSetEx8S'', LibPcdSetEx8S_proto),
      (''LibPcdSetEx16S'', LibPcdSetEx16S_proto), (''LibPcdSetEx32S'', LibPcdSetEx32S_proto),
      (''LibPcdSetEx64S'', LibPcdSetEx64S_proto), (''LibPcdSetExPtrS'', LibPcdSetExPtrS_proto),
      (''LibPcdSetExBoolS'', LibPcdSetExBoolS_proto), (''PCD_CALLBACK'', PCD_CALLBACK),
      (''LibPcdCallbackOnSet'', LibPcdCallbackOnSet_proto),
      (''LibPcdCancelCallback'', LibPcdCancelCallback_proto),
      (''LibPcdGetNextToken'', LibPcdGetNextToken_proto),
      (''LibPcdGetNextTokenSpace'', LibPcdGetNextTokenSpace_proto),
      (''LibPatchPcdSetPtr'', LibPatchPcdSetPtr_proto), (''LibPatchPcdSetPtrS'', LibPatchPcdSetPtrS_proto),
      (''LibPatchPcdSetPtrAndSize'', LibPatchPcdSetPtrAndSize_proto),
      (''LibPatchPcdSetPtrAndSizeS'', LibPatchPcdSetPtrAndSizeS_proto),
      (''LibPcdGetInfo'', LibPcdGetInfo_proto), (''LibPcdGetInfoEx'', LibPcdGetInfoEx_proto),
      (''LibPcdGetSku'', LibPcdGetSku_proto)]"

section \<open>UefiApplicationEntryPoint.h\<close>

definition ModuleEntryPoint_proto :: proto where [protos]:
  "ModuleEntryPoint_proto = Fun (T ''EFI_STATUS'')
     [IN (T ''EFI_HANDLE'') ''ImageHandle'', IN (To (T ''EFI_SYSTEM_TABLE'')) ''SystemTable'']"

definition EfiMain_proto :: proto where [protos]:
  "EfiMain_proto = Fun (T ''EFI_STATUS'')
     [IN (T ''EFI_HANDLE'') ''ImageHandle'', IN (To (T ''EFI_SYSTEM_TABLE'')) ''SystemTable'']"

definition Exit_proto :: proto where [protos]:
  "Exit_proto = Fun VOID [IN (T ''EFI_STATUS'') ''Status'']"

definition ProcessLibraryConstructorList_proto :: proto where [protos]:
  "ProcessLibraryConstructorList_proto = Fun VOID
     [IN (T ''EFI_HANDLE'') ''ImageHandle'', IN (To (T ''EFI_SYSTEM_TABLE'')) ''SystemTable'']"

definition ProcessLibraryDestructorList_proto :: proto where [protos]:
  "ProcessLibraryDestructorList_proto = Fun VOID
     [IN (T ''EFI_HANDLE'') ''ImageHandle'', IN (To (T ''EFI_SYSTEM_TABLE'')) ''SystemTable'']"

definition ProcessModuleEntryPointList_proto :: proto where [protos]:
  "ProcessModuleEntryPointList_proto = Fun (T ''EFI_STATUS'')
     [IN (T ''EFI_HANDLE'') ''ImageHandle'', IN (To (T ''EFI_SYSTEM_TABLE'')) ''SystemTable'']"

definition EntryPoint_protos :: "(string \<times> proto) list" where
  "EntryPoint_protos =
     [(''_ModuleEntryPoint'', ModuleEntryPoint_proto), (''EfiMain'', EfiMain_proto), (''Exit'', Exit_proto),
      (''ProcessLibraryConstructorList'', ProcessLibraryConstructorList_proto),
      (''ProcessLibraryDestructorList'', ProcessLibraryDestructorList_proto),
      (''ProcessModuleEntryPointList'', ProcessModuleEntryPointList_proto)]"

section \<open>Declarations of AutoGen\<close>

definition UefiMain_decl :: proto where [protos]:
  "UefiMain_decl = Fun (T ''EFI_STATUS'')
     [IN (T ''EFI_HANDLE'') ''ImageHandle'', IN (To (T ''EFI_SYSTEM_TABLE'')) ''SystemTable'']"

definition UefiBootServicesTableLibConstructor_decl :: proto where [protos]:
  "UefiBootServicesTableLibConstructor_decl = Fun (T ''EFI_STATUS'')
     [IN (T ''EFI_HANDLE'') ''ImageHandle'', IN (To (T ''EFI_SYSTEM_TABLE'')) ''SystemTable'']"

definition UefiRuntimeServicesTableLibConstructor_decl :: proto where [protos]:
  "UefiRuntimeServicesTableLibConstructor_decl = Fun (T ''EFI_STATUS'')
     [IN (T ''EFI_HANDLE'') ''ImageHandle'', IN (To (T ''EFI_SYSTEM_TABLE'')) ''SystemTable'']"

definition UefiLibConstructor_decl :: proto where [protos]:
  "UefiLibConstructor_decl = Fun (T ''EFI_STATUS'')
     [IN (T ''EFI_HANDLE'') ''ImageHandle'', IN (To (T ''EFI_SYSTEM_TABLE'')) ''SystemTable'']"

definition AutoGen_protos :: "(string \<times> proto) list" where
  "AutoGen_protos =
     [(''UefiMain'', UefiMain_decl),
      (''UefiBootServicesTableLibConstructor'', UefiBootServicesTableLibConstructor_decl),
      (''UefiRuntimeServicesTableLibConstructor'', UefiRuntimeServicesTableLibConstructor_decl),
      (''UefiLibConstructor'', UefiLibConstructor_decl)]"

end
