(* ===== verification/Pcd_Calls.thy ===== *)
theory Pcd_Calls imports Pcd_Access Library_Prototypes begin

text \<open>
  The macros of \<open>PcdLib.h\<close> that write a configuration value, and those that reach it through functions of
  the library: what they expand to, and whether that builds with the names that the build generates.
\<close>

section \<open>Expansions\<close>

named_theorems pcd_calls \<open>macros of PcdLib.h that write or call\<close>

text \<open>
  C expressions over pasted names, which are objects or macros with arguments, and functions of the
  library; \<open>Argument\<close> is an argument of the macro itself.
\<close>

datatype c_expr =
    Pasted string
  | Argument string
  | To_pointer c_expr
  | To_UINTN c_expr
  | Address c_expr
  | Assign c_expr c_expr
  | Invoke string "c_expr list"
  | Lib string "c_expr list"

fun pasted :: "c_expr \<Rightarrow> string list" where
  "pasted (Pasted n) = [n]"
| "pasted (Argument x) = []"
| "pasted (To_pointer e) = pasted e"
| "pasted (To_UINTN e) = pasted e"
| "pasted (Address e) = pasted e"
| "pasted (Assign e f) = pasted e @ pasted f"
| "pasted (Invoke n es) = n # concat (map pasted es)"
| "pasted (Lib f es) = concat (map pasted es)"

fun lib_calls :: "c_expr \<Rightarrow> (string \<times> nat) list" where
  "lib_calls (Assign e f) = lib_calls e @ lib_calls f"
| "lib_calls (To_pointer e) = lib_calls e"
| "lib_calls (To_UINTN e) = lib_calls e"
| "lib_calls (Address e) = lib_calls e"
| "lib_calls (Invoke n es) = concat (map lib_calls es)"
| "lib_calls (Lib f es) = (f, length es) # concat (map lib_calls es)"
| "lib_calls e = []"

text \<open>The text of the prefixes, and the names that are defined for tokens.\<close>

primrec prefix_text :: "pcd_prefix \<Rightarrow> string" where
  "prefix_text PCD_TOKEN = ''_PCD_TOKEN_''"
| "prefix_text PCD_SIZE = ''_PCD_SIZE_''"
| "prefix_text PCD_VALUE = ''_PCD_VALUE_''"
| "prefix_text PCD_GET_MODE_SIZE = ''_PCD_GET_MODE_SIZE_''"
| "prefix_text PCD_GET_MODE_8 = ''_PCD_GET_MODE_8_''"
| "prefix_text PCD_GET_MODE_16 = ''_PCD_GET_MODE_16_''"
| "prefix_text PCD_GET_MODE_32 = ''_PCD_GET_MODE_32_''"
| "prefix_text PCD_GET_MODE_64 = ''_PCD_GET_MODE_64_''"
| "prefix_text PCD_GET_MODE_PTR = ''_PCD_GET_MODE_PTR_''"
| "prefix_text PCD_GET_MODE_BOOL = ''_PCD_GET_MODE_BOOL_''"
| "prefix_text gPcd_FixedAtBuild = ''_gPcd_FixedAtBuild_''"
| "prefix_text gPcd_BinaryPatch = ''_gPcd_BinaryPatch_''"
| "prefix_text gPcd_BinaryPatch_Size = ''_gPcd_BinaryPatch_Size_''"

definition defined_names :: "(string \<times> macros) list \<Rightarrow> string list" where
  "defined_names pcds = concat (map (\<lambda>(Token, ms). map (\<lambda>(p, e). prefix_text p @ Token) ms) pcds)"

definition expr_builds :: "(string \<times> macros) list \<Rightarrow> c_expr \<Rightarrow> bool" where
  "expr_builds pcds e \<longleftrightarrow> list_all (\<lambda>n. n \<in> set (defined_names pcds)) (pasted e)"

section \<open>PcdLib.h\<close>

definition PcdTokenEx :: "string \<Rightarrow> c_expr" where [pcd_calls]:
  "PcdTokenEx TokenName =
      Invoke (''_PCD_TOKEN_EX_'' @ TokenName) [Argument ''Guid'']"

definition FixedPcdGetPtr :: "string \<Rightarrow> c_expr" where [pcd_calls]:
  "FixedPcdGetPtr TokenName = To_pointer (Pasted (''_PCD_VALUE_'' @ TokenName))"

definition PatchPcdGetPtr :: "string \<Rightarrow> c_expr" where [pcd_calls]:
  "PatchPcdGetPtr TokenName = To_pointer (Pasted (''_gPcd_BinaryPatch_'' @ TokenName))"

definition PatchPcdSet8 :: "string \<Rightarrow> c_expr" where [pcd_calls]:
  "PatchPcdSet8 TokenName =
      Assign (Pasted (''_gPcd_BinaryPatch_'' @ TokenName)) (Argument ''Value'')"

definition PatchPcdSet16 :: "string \<Rightarrow> c_expr" where [pcd_calls]:
  "PatchPcdSet16 TokenName =
      Assign (Pasted (''_gPcd_BinaryPatch_'' @ TokenName)) (Argument ''Value'')"

definition PatchPcdSet32 :: "string \<Rightarrow> c_expr" where [pcd_calls]:
  "PatchPcdSet32 TokenName =
      Assign (Pasted (''_gPcd_BinaryPatch_'' @ TokenName)) (Argument ''Value'')"

definition PatchPcdSet64 :: "string \<Rightarrow> c_expr" where [pcd_calls]:
  "PatchPcdSet64 TokenName =
      Assign (Pasted (''_gPcd_BinaryPatch_'' @ TokenName)) (Argument ''Value'')"

definition PatchPcdSetBool :: "string \<Rightarrow> c_expr" where [pcd_calls]:
  "PatchPcdSetBool TokenName =
      Assign (Pasted (''_gPcd_BinaryPatch_'' @ TokenName)) (Argument ''Value'')"

definition PatchPcdSetPtr :: "string \<Rightarrow> c_expr" where [pcd_calls]:
  "PatchPcdSetPtr TokenName =
      Lib ''LibPatchPcdSetPtrAndSize''
       [To_pointer (Pasted (''_gPcd_BinaryPatch_'' @ TokenName)), Address (Pasted (''_gPcd_BinaryPatch_Size_'' @ TokenName)),
        To_UINTN (Pasted (''_PCD_PATCHABLE_'' @ TokenName @ ''_SIZE'')), Argument ''Size'', Argument ''Buffer'']"

definition PcdGetExSize :: "string \<Rightarrow> c_expr" where [pcd_calls]:
  "PcdGetExSize TokenName =
      Lib ''LibPcdGetExSize'' [Argument ''Guid'', PcdTokenEx TokenName]"

definition PcdSet8S :: "string \<Rightarrow> c_expr" where [pcd_calls]:
  "PcdSet8S TokenName =
      Invoke (''_PCD_SET_MODE_8_S_'' @ TokenName) [Argument ''Value'']"

definition PcdSet16S :: "string \<Rightarrow> c_expr" where [pcd_calls]:
  "PcdSet16S TokenName =
      Invoke (''_PCD_SET_MODE_16_S_'' @ TokenName) [Argument ''Value'']"

definition PcdSet32S :: "string \<Rightarrow> c_expr" where [pcd_calls]:
  "PcdSet32S TokenName =
      Invoke (''_PCD_SET_MODE_32_S_'' @ TokenName) [Argument ''Value'']"

definition PcdSet64S :: "string \<Rightarrow> c_expr" where [pcd_calls]:
  "PcdSet64S TokenName =
      Invoke (''_PCD_SET_MODE_64_S_'' @ TokenName) [Argument ''Value'']"

definition PcdSetPtrS :: "string \<Rightarrow> c_expr" where [pcd_calls]:
  "PcdSetPtrS TokenName =
      Invoke (''_PCD_SET_MODE_PTR_S_'' @ TokenName) [Argument ''SizeOfBuffer'', Argument ''Buffer'']"

definition PcdSetBoolS :: "string \<Rightarrow> c_expr" where [pcd_calls]:
  "PcdSetBoolS TokenName =
      Invoke (''_PCD_SET_MODE_BOOL_S_'' @ TokenName) [Argument ''Value'']"

definition PcdGetEx8 :: "string \<Rightarrow> c_expr" where [pcd_calls]:
  "PcdGetEx8 TokenName =
      Lib ''LibPcdGetEx8'' [Argument ''Guid'', PcdTokenEx TokenName]"

definition PcdGetEx16 :: "string \<Rightarrow> c_expr" where [pcd_calls]:
  "PcdGetEx16 TokenName =
      Lib ''LibPcdGetEx16'' [Argument ''Guid'', PcdTokenEx TokenName]"

definition PcdGetEx32 :: "string \<Rightarrow> c_expr" where [pcd_calls]:
  "PcdGetEx32 TokenName =
      Lib ''LibPcdGetEx32'' [Argument ''Guid'', PcdTokenEx TokenName]"

definition PcdGetEx64 :: "string \<Rightarrow> c_expr" where [pcd_calls]:
  "PcdGetEx64 TokenName =
      Lib ''LibPcdGetEx64'' [Argument ''Guid'', PcdTokenEx TokenName]"

definition PcdGetExPtr :: "string \<Rightarrow> c_expr" where [pcd_calls]:
  "PcdGetExPtr TokenName =
      Lib ''LibPcdGetExPtr'' [Argument ''Guid'', PcdTokenEx TokenName]"

definition PcdGetExBool :: "string \<Rightarrow> c_expr" where [pcd_calls]:
  "PcdGetExBool TokenName =
      Lib ''LibPcdGetExBool'' [Argument ''Guid'', PcdTokenEx TokenName]"

definition PcdSetEx8S :: "string \<Rightarrow> c_expr" where [pcd_calls]:
  "PcdSetEx8S TokenName =
      Lib ''LibPcdSetEx8S'' [Argument ''Guid'', PcdTokenEx TokenName, Argument ''Value'']"

definition PcdSetEx16S :: "string \<Rightarrow> c_expr" where [pcd_calls]:
  "PcdSetEx16S TokenName =
      Lib ''LibPcdSetEx16S'' [Argument ''Guid'', PcdTokenEx TokenName, Argument ''Value'']"

definition PcdSetEx32S :: "string \<Rightarrow> c_expr" where [pcd_calls]:
  "PcdSetEx32S TokenName =
      Lib ''LibPcdSetEx32S'' [Argument ''Guid'', PcdTokenEx TokenName, Argument ''Value'']"

definition PcdSetEx64S :: "string \<Rightarrow> c_expr" where [pcd_calls]:
  "PcdSetEx64S TokenName =
      Lib ''LibPcdSetEx64S'' [Argument ''Guid'', PcdTokenEx TokenName, Argument ''Value'']"

definition PcdSetExPtrS :: "string \<Rightarrow> c_expr" where [pcd_calls]:
  "PcdSetExPtrS TokenName =
      Lib ''LibPcdSetExPtrS''
       [Argument ''Guid'', PcdTokenEx TokenName, Argument ''SizeOfBuffer'', Argument ''Buffer'']"

definition PcdSetExBoolS :: "string \<Rightarrow> c_expr" where [pcd_calls]:
  "PcdSetExBoolS TokenName =
      Lib ''LibPcdSetExBoolS'' [Argument ''Guid'', PcdTokenEx TokenName, Argument ''Value'']"

text \<open>The macros that write, patch, or go through a GUID.\<close>

definition pcd_calls_all :: "(string \<Rightarrow> c_expr) list" where
  "pcd_calls_all =
     [PatchPcdGetPtr, PatchPcdSet8, PatchPcdSet16, PatchPcdSet32, PatchPcdSet64,
      PatchPcdSetBool, PatchPcdSetPtr, PcdGetExSize, PcdSet8S, PcdSet16S, PcdSet32S, PcdSet64S,
      PcdSetPtrS, PcdSetBoolS, PcdTokenEx, PcdGetEx8, PcdGetEx16, PcdGetEx32, PcdGetEx64,
      PcdGetExPtr, PcdGetExBool, PcdSetEx8S, PcdSetEx16S, PcdSetEx32S, PcdSetEx64S,
      PcdSetExPtrS, PcdSetExBoolS]"

section \<open>Properties\<close>

text \<open>A name that starts with none of these texts is none of the names that the macros paste.\<close>

definition unused_texts :: "string list" where
  "unused_texts =
     [''_gPcd_BinaryPatch_'', ''_PCD_PATCHABLE_'', ''_PCD_SET_MODE_'', ''_PCD_TOKEN_EX_'']"

lemma texts_unused:
  "list_all (\<lambda>p. list_all (\<lambda>n. take (length p) n \<noteq> p) (defined_names (AutoGen_pcds @ BaseLib_pcds))) unused_texts"
  by code_simp

definition pastes_unused :: "c_expr \<Rightarrow> bool" where
  "pastes_unused e \<longleftrightarrow> list_ex (\<lambda>n. list_ex (\<lambda>p. take (length p) n = p) unused_texts) (pasted e)"

lemma unused_unbuilt:
  "pastes_unused e \<Longrightarrow> \<not> expr_builds (AutoGen_pcds @ BaseLib_pcds) e"
  using texts_unused unfolding pastes_unused_def expr_builds_def by (auto simp: list_all_iff list_ex_iff)

lemma calls_paste_unused: "list_all (\<lambda>m. pastes_unused (m Token)) pcd_calls_all"
  by (simp add: pcd_calls_all_def unused_texts_def pastes_unused_def pcd_calls)

text \<open>
  No macro that writes, patches or goes through a GUID builds in this application, whatever its token;
  those that call the library give its functions as many arguments as these declare parameters.
\<close>

lemma pcd_calls_unbuilt:
  "list_all (\<lambda>m. \<not> expr_builds (AutoGen_pcds @ BaseLib_pcds) (m Token)) pcd_calls_all"
  using calls_paste_unused [of Token] unused_unbuilt by (auto simp: list_all_iff)

lemma pcd_calls_declared:
  "list_all (\<lambda>m. list_all (\<lambda>(f, n). map_option (length \<circ> parameters) (map_of PcdLib_protos f) = Some n)
      (lib_calls (m Token))) pcd_calls_all"
  by (simp add: pcd_calls_all_def pcd_calls PcdLib_protos_def protos)

end
