(* ===== verification/Library_Heads.thy ===== *)
theory Library_Heads imports Library_Prototypes begin

text \<open>
  The heads of the functions that the sources define, as their files have them.
\<close>

section \<open>AutoGen.c\<close>

definition ProcessLibraryConstructorList_head :: proto where [protos]:
  "ProcessLibraryConstructorList_head = Fun VOID
     [IN (T ''EFI_HANDLE'') ''ImageHandle'', IN (To (T ''EFI_SYSTEM_TABLE'')) ''SystemTable'']"

definition ProcessLibraryDestructorList_head :: proto where [protos]:
  "ProcessLibraryDestructorList_head = Fun VOID
     [IN (T ''EFI_HANDLE'') ''ImageHandle'', IN (To (T ''EFI_SYSTEM_TABLE'')) ''SystemTable'']"

definition ProcessModuleEntryPointList_head :: proto where [protos]:
  "ProcessModuleEntryPointList_head = Fun (T ''EFI_STATUS'')
     [IN (T ''EFI_HANDLE'') ''ImageHandle'', IN (To (T ''EFI_SYSTEM_TABLE'')) ''SystemTable'']"

definition ExitDriver_head :: proto where [protos]:
  "ExitDriver_head = Fun VOID [IN (T ''EFI_STATUS'') ''Status'']"

definition ProcessModuleUnloadList_head :: proto where [protos]:
  "ProcessModuleUnloadList_head = Fun (T ''EFI_STATUS'') [IN (T ''EFI_HANDLE'') ''ImageHandle'']"

definition AutoGen_functions :: "(string \<times> proto \<times> proto) list" where
  "AutoGen_functions =
     [
      (''ProcessLibraryConstructorList'', ProcessLibraryConstructorList_head, ProcessLibraryConstructorList_proto),
      (''ProcessLibraryDestructorList'', ProcessLibraryDestructorList_head, ProcessLibraryDestructorList_proto),
      (''ProcessModuleEntryPointList'', ProcessModuleEntryPointList_head, ProcessModuleEntryPointList_proto)]"

section \<open>BitField.c\<close>

definition InternalBaseLibBitFieldReadUint_head :: proto where [protos]:
  "InternalBaseLibBitFieldReadUint_head = Fun (T ''UINTN'')
     [IN (T ''UINTN'') ''Operand'', IN (T ''UINTN'') ''StartBit'', IN (T ''UINTN'') ''EndBit'']"

definition InternalBaseLibBitFieldOrUint_head :: proto where [protos]:
  "InternalBaseLibBitFieldOrUint_head = Fun (T ''UINTN'')
     [IN (T ''UINTN'') ''Operand'', IN (T ''UINTN'') ''StartBit'', IN (T ''UINTN'') ''EndBit'',
      IN (T ''UINTN'') ''OrData'']"

definition InternalBaseLibBitFieldAndUint_head :: proto where [protos]:
  "InternalBaseLibBitFieldAndUint_head = Fun (T ''UINTN'')
     [IN (T ''UINTN'') ''Operand'', IN (T ''UINTN'') ''StartBit'', IN (T ''UINTN'') ''EndBit'',
      IN (T ''UINTN'') ''AndData'']"

definition BitFieldRead8_head :: proto where [protos]:
  "BitFieldRead8_head = Fun (T ''UINT8'')
     [IN (T ''UINT8'') ''Operand'', IN (T ''UINTN'') ''StartBit'', IN (T ''UINTN'') ''EndBit'']"

definition BitFieldWrite8_head :: proto where [protos]:
  "BitFieldWrite8_head = Fun (T ''UINT8'')
     [IN (T ''UINT8'') ''Operand'', IN (T ''UINTN'') ''StartBit'', IN (T ''UINTN'') ''EndBit'',
      IN (T ''UINT8'') ''Value'']"

definition BitFieldOr8_head :: proto where [protos]:
  "BitFieldOr8_head = Fun (T ''UINT8'')
     [IN (T ''UINT8'') ''Operand'', IN (T ''UINTN'') ''StartBit'', IN (T ''UINTN'') ''EndBit'',
      IN (T ''UINT8'') ''OrData'']"

definition BitFieldAnd8_head :: proto where [protos]:
  "BitFieldAnd8_head = Fun (T ''UINT8'')
     [IN (T ''UINT8'') ''Operand'', IN (T ''UINTN'') ''StartBit'', IN (T ''UINTN'') ''EndBit'',
      IN (T ''UINT8'') ''AndData'']"

definition BitFieldAndThenOr8_head :: proto where [protos]:
  "BitFieldAndThenOr8_head = Fun (T ''UINT8'')
     [IN (T ''UINT8'') ''Operand'', IN (T ''UINTN'') ''StartBit'', IN (T ''UINTN'') ''EndBit'',
      IN (T ''UINT8'') ''AndData'', IN (T ''UINT8'') ''OrData'']"

definition BitFieldRead16_head :: proto where [protos]:
  "BitFieldRead16_head = Fun (T ''UINT16'')
     [IN (T ''UINT16'') ''Operand'', IN (T ''UINTN'') ''StartBit'', IN (T ''UINTN'') ''EndBit'']"

definition BitFieldWrite16_head :: proto where [protos]:
  "BitFieldWrite16_head = Fun (T ''UINT16'')
     [IN (T ''UINT16'') ''Operand'', IN (T ''UINTN'') ''StartBit'', IN (T ''UINTN'') ''EndBit'',
      IN (T ''UINT16'') ''Value'']"

definition BitFieldOr16_head :: proto where [protos]:
  "BitFieldOr16_head = Fun (T ''UINT16'')
     [IN (T ''UINT16'') ''Operand'', IN (T ''UINTN'') ''StartBit'', IN (T ''UINTN'') ''EndBit'',
      IN (T ''UINT16'') ''OrData'']"

definition BitFieldAnd16_head :: proto where [protos]:
  "BitFieldAnd16_head = Fun (T ''UINT16'')
     [IN (T ''UINT16'') ''Operand'', IN (T ''UINTN'') ''StartBit'', IN (T ''UINTN'') ''EndBit'',
      IN (T ''UINT16'') ''AndData'']"

definition BitFieldAndThenOr16_head :: proto where [protos]:
  "BitFieldAndThenOr16_head = Fun (T ''UINT16'')
     [IN (T ''UINT16'') ''Operand'', IN (T ''UINTN'') ''StartBit'', IN (T ''UINTN'') ''EndBit'',
      IN (T ''UINT16'') ''AndData'', IN (T ''UINT16'') ''OrData'']"

definition BitFieldRead32_head :: proto where [protos]:
  "BitFieldRead32_head = Fun (T ''UINT32'')
     [IN (T ''UINT32'') ''Operand'', IN (T ''UINTN'') ''StartBit'', IN (T ''UINTN'') ''EndBit'']"

definition BitFieldWrite32_head :: proto where [protos]:
  "BitFieldWrite32_head = Fun (T ''UINT32'')
     [IN (T ''UINT32'') ''Operand'', IN (T ''UINTN'') ''StartBit'', IN (T ''UINTN'') ''EndBit'',
      IN (T ''UINT32'') ''Value'']"

definition BitFieldOr32_head :: proto where [protos]:
  "BitFieldOr32_head = Fun (T ''UINT32'')
     [IN (T ''UINT32'') ''Operand'', IN (T ''UINTN'') ''StartBit'', IN (T ''UINTN'') ''EndBit'',
      IN (T ''UINT32'') ''OrData'']"

definition BitFieldAnd32_head :: proto where [protos]:
  "BitFieldAnd32_head = Fun (T ''UINT32'')
     [IN (T ''UINT32'') ''Operand'', IN (T ''UINTN'') ''StartBit'', IN (T ''UINTN'') ''EndBit'',
      IN (T ''UINT32'') ''AndData'']"

definition BitFieldAndThenOr32_head :: proto where [protos]:
  "BitFieldAndThenOr32_head = Fun (T ''UINT32'')
     [IN (T ''UINT32'') ''Operand'', IN (T ''UINTN'') ''StartBit'', IN (T ''UINTN'') ''EndBit'',
      IN (T ''UINT32'') ''AndData'', IN (T ''UINT32'') ''OrData'']"

definition BitFieldRead64_head :: proto where [protos]:
  "BitFieldRead64_head = Fun (T ''UINT64'')
     [IN (T ''UINT64'') ''Operand'', IN (T ''UINTN'') ''StartBit'', IN (T ''UINTN'') ''EndBit'']"

definition BitFieldWrite64_head :: proto where [protos]:
  "BitFieldWrite64_head = Fun (T ''UINT64'')
     [IN (T ''UINT64'') ''Operand'', IN (T ''UINTN'') ''StartBit'', IN (T ''UINTN'') ''EndBit'',
      IN (T ''UINT64'') ''Value'']"

definition BitFieldOr64_head :: proto where [protos]:
  "BitFieldOr64_head = Fun (T ''UINT64'')
     [IN (T ''UINT64'') ''Operand'', IN (T ''UINTN'') ''StartBit'', IN (T ''UINTN'') ''EndBit'',
      IN (T ''UINT64'') ''OrData'']"

definition BitFieldAnd64_head :: proto where [protos]:
  "BitFieldAnd64_head = Fun (T ''UINT64'')
     [IN (T ''UINT64'') ''Operand'', IN (T ''UINTN'') ''StartBit'', IN (T ''UINTN'') ''EndBit'',
      IN (T ''UINT64'') ''AndData'']"

definition BitFieldAndThenOr64_head :: proto where [protos]:
  "BitFieldAndThenOr64_head = Fun (T ''UINT64'')
     [IN (T ''UINT64'') ''Operand'', IN (T ''UINTN'') ''StartBit'', IN (T ''UINTN'') ''EndBit'',
      IN (T ''UINT64'') ''AndData'', IN (T ''UINT64'') ''OrData'']"

definition BitFieldCountOnes32_head :: proto where [protos]:
  "BitFieldCountOnes32_head = Fun (T ''UINT8'')
     [IN (T ''UINT32'') ''Operand'', IN (T ''UINTN'') ''StartBit'', IN (T ''UINTN'') ''EndBit'']"

definition BitFieldCountOnes64_head :: proto where [protos]:
  "BitFieldCountOnes64_head = Fun (T ''UINT8'')
     [IN (T ''UINT64'') ''Operand'', IN (T ''UINTN'') ''StartBit'', IN (T ''UINTN'') ''EndBit'']"

definition BitField_functions :: "(string \<times> proto \<times> proto) list" where
  "BitField_functions =
     [(''BitFieldRead8'', BitFieldRead8_head, BitFieldRead8_proto),
      (''BitFieldWrite8'', BitFieldWrite8_head, BitFieldWrite8_proto),
      (''BitFieldOr8'', BitFieldOr8_head, BitFieldOr8_proto),
      (''BitFieldAnd8'', BitFieldAnd8_head, BitFieldAnd8_proto),
      (''BitFieldAndThenOr8'', BitFieldAndThenOr8_head, BitFieldAndThenOr8_proto),
      (''BitFieldRead16'', BitFieldRead16_head, BitFieldRead16_proto),
      (''BitFieldWrite16'', BitFieldWrite16_head, BitFieldWrite16_proto),
      (''BitFieldOr16'', BitFieldOr16_head, BitFieldOr16_proto),
      (''BitFieldAnd16'', BitFieldAnd16_head, BitFieldAnd16_proto),
      (''BitFieldAndThenOr16'', BitFieldAndThenOr16_head, BitFieldAndThenOr16_proto),
      (''BitFieldRead32'', BitFieldRead32_head, BitFieldRead32_proto),
      (''BitFieldWrite32'', BitFieldWrite32_head, BitFieldWrite32_proto),
      (''BitFieldOr32'', BitFieldOr32_head, BitFieldOr32_proto),
      (''BitFieldAnd32'', BitFieldAnd32_head, BitFieldAnd32_proto),
      (''BitFieldAndThenOr32'', BitFieldAndThenOr32_head, BitFieldAndThenOr32_proto),
      (''BitFieldRead64'', BitFieldRead64_head, BitFieldRead64_proto),
      (''BitFieldWrite64'', BitFieldWrite64_head, BitFieldWrite64_proto),
      (''BitFieldOr64'', BitFieldOr64_head, BitFieldOr64_proto),
      (''BitFieldAnd64'', BitFieldAnd64_head, BitFieldAnd64_proto),
      (''BitFieldAndThenOr64'', BitFieldAndThenOr64_head, BitFieldAndThenOr64_proto),
      (''BitFieldCountOnes32'', BitFieldCountOnes32_head, BitFieldCountOnes32_proto),
      (''BitFieldCountOnes64'', BitFieldCountOnes64_head, BitFieldCountOnes64_proto)]"

section \<open>CheckSum.c\<close>

definition CalculateSum8_head :: proto where [protos]:
  "CalculateSum8_head = Fun (T ''UINT8'')
     [IN (To (Const (T ''UINT8''))) ''Buffer'', IN (T ''UINTN'') ''Length'']"

definition CalculateCheckSum8_head :: proto where [protos]:
  "CalculateCheckSum8_head = Fun (T ''UINT8'')
     [IN (To (Const (T ''UINT8''))) ''Buffer'', IN (T ''UINTN'') ''Length'']"

definition CalculateSum16_head :: proto where [protos]:
  "CalculateSum16_head = Fun (T ''UINT16'')
     [IN (To (Const (T ''UINT16''))) ''Buffer'', IN (T ''UINTN'') ''Length'']"

definition CalculateCheckSum16_head :: proto where [protos]:
  "CalculateCheckSum16_head = Fun (T ''UINT16'')
     [IN (To (Const (T ''UINT16''))) ''Buffer'', IN (T ''UINTN'') ''Length'']"

definition CalculateSum32_head :: proto where [protos]:
  "CalculateSum32_head = Fun (T ''UINT32'')
     [IN (To (Const (T ''UINT32''))) ''Buffer'', IN (T ''UINTN'') ''Length'']"

definition CalculateCheckSum32_head :: proto where [protos]:
  "CalculateCheckSum32_head = Fun (T ''UINT32'')
     [IN (To (Const (T ''UINT32''))) ''Buffer'', IN (T ''UINTN'') ''Length'']"

definition CalculateSum64_head :: proto where [protos]:
  "CalculateSum64_head = Fun (T ''UINT64'')
     [IN (To (Const (T ''UINT64''))) ''Buffer'', IN (T ''UINTN'') ''Length'']"

definition CalculateCheckSum64_head :: proto where [protos]:
  "CalculateCheckSum64_head = Fun (T ''UINT64'')
     [IN (To (Const (T ''UINT64''))) ''Buffer'', IN (T ''UINTN'') ''Length'']"

definition CalculateCrc32_head :: proto where [protos]:
  "CalculateCrc32_head = Fun (T ''UINT32'') [IN (To VOID) ''Buffer'', IN (T ''UINTN'') ''Length'']"

definition CheckSum_functions :: "(string \<times> proto \<times> proto) list" where
  "CheckSum_functions =
     [(''CalculateSum8'', CalculateSum8_head, CalculateSum8_proto),
      (''CalculateCheckSum8'', CalculateCheckSum8_head, CalculateCheckSum8_proto),
      (''CalculateSum16'', CalculateSum16_head, CalculateSum16_proto),
      (''CalculateCheckSum16'', CalculateCheckSum16_head, CalculateCheckSum16_proto),
      (''CalculateSum32'', CalculateSum32_head, CalculateSum32_proto),
      (''CalculateCheckSum32'', CalculateCheckSum32_head, CalculateCheckSum32_proto),
      (''CalculateSum64'', CalculateSum64_head, CalculateSum64_proto),
      (''CalculateCheckSum64'', CalculateCheckSum64_head, CalculateCheckSum64_proto),
      (''CalculateCrc32'', CalculateCrc32_head, CalculateCrc32_proto)]"

section \<open>DivS64x64Remainder.c\<close>

definition DivS64x64Remainder_head :: proto where [protos]:
  "DivS64x64Remainder_head = Fun (T ''INT64'')
     [IN (T ''INT64'') ''Dividend'', IN (T ''INT64'') ''Divisor'',
      OPTIONAL (OUT (To (T ''INT64'')) ''Remainder'')]"

definition DivS64x64Remainder_functions :: "(string \<times> proto \<times> proto) list" where
  "DivS64x64Remainder_functions =
     [(''DivS64x64Remainder'', DivS64x64Remainder_head, DivS64x64Remainder_proto)]"

section \<open>LinkedList.c\<close>

definition InternalBaseLibIsListValid_head :: proto where [protos]:
  "InternalBaseLibIsListValid_head = Fun (T ''BOOLEAN'') [IN (To (Const (T ''LIST_ENTRY''))) ''List'']"

definition IsNodeInList_head :: proto where [protos]:
  "IsNodeInList_head = Fun (T ''BOOLEAN'')
     [IN (To (Const (T ''LIST_ENTRY''))) ''FirstEntry'', IN (To (Const (T ''LIST_ENTRY''))) ''SecondEntry'']"

definition InitializeListHead_head :: proto where [protos]:
  "InitializeListHead_head = Fun (To (T ''LIST_ENTRY'')) [IN_OUT (To (T ''LIST_ENTRY'')) ''ListHead'']"

definition InsertHeadList_head :: proto where [protos]:
  "InsertHeadList_head = Fun (To (T ''LIST_ENTRY''))
     [IN_OUT (To (T ''LIST_ENTRY'')) ''ListHead'', IN_OUT (To (T ''LIST_ENTRY'')) ''Entry'']"

definition InsertTailList_head :: proto where [protos]:
  "InsertTailList_head = Fun (To (T ''LIST_ENTRY''))
     [IN_OUT (To (T ''LIST_ENTRY'')) ''ListHead'', IN_OUT (To (T ''LIST_ENTRY'')) ''Entry'']"

definition GetFirstNode_head :: proto where [protos]:
  "GetFirstNode_head = Fun (To (T ''LIST_ENTRY'')) [IN (To (Const (T ''LIST_ENTRY''))) ''List'']"

definition GetNextNode_head :: proto where [protos]:
  "GetNextNode_head = Fun (To (T ''LIST_ENTRY''))
     [IN (To (Const (T ''LIST_ENTRY''))) ''List'', IN (To (Const (T ''LIST_ENTRY''))) ''Node'']"

definition GetPreviousNode_head :: proto where [protos]:
  "GetPreviousNode_head = Fun (To (T ''LIST_ENTRY''))
     [IN (To (Const (T ''LIST_ENTRY''))) ''List'', IN (To (Const (T ''LIST_ENTRY''))) ''Node'']"

definition IsListEmpty_head :: proto where [protos]:
  "IsListEmpty_head = Fun (T ''BOOLEAN'') [IN (To (Const (T ''LIST_ENTRY''))) ''ListHead'']"

definition IsNull_head :: proto where [protos]:
  "IsNull_head = Fun (T ''BOOLEAN'')
     [IN (To (Const (T ''LIST_ENTRY''))) ''List'', IN (To (Const (T ''LIST_ENTRY''))) ''Node'']"

definition IsNodeAtEnd_head :: proto where [protos]:
  "IsNodeAtEnd_head = Fun (T ''BOOLEAN'')
     [IN (To (Const (T ''LIST_ENTRY''))) ''List'', IN (To (Const (T ''LIST_ENTRY''))) ''Node'']"

definition SwapListEntries_head :: proto where [protos]:
  "SwapListEntries_head = Fun (To (T ''LIST_ENTRY''))
     [IN_OUT (To (T ''LIST_ENTRY'')) ''FirstEntry'', IN_OUT (To (T ''LIST_ENTRY'')) ''SecondEntry'']"

definition RemoveEntryList_head :: proto where [protos]:
  "RemoveEntryList_head = Fun (To (T ''LIST_ENTRY'')) [IN (To (Const (T ''LIST_ENTRY''))) ''Entry'']"

definition LinkedList_functions :: "(string \<times> proto \<times> proto) list" where
  "LinkedList_functions =
     [(''IsNodeInList'', IsNodeInList_head, IsNodeInList_proto),
      (''InitializeListHead'', InitializeListHead_head, InitializeListHead_proto),
      (''InsertHeadList'', InsertHeadList_head, InsertHeadList_proto),
      (''InsertTailList'', InsertTailList_head, InsertTailList_proto),
      (''GetFirstNode'', GetFirstNode_head, GetFirstNode_proto),
      (''GetNextNode'', GetNextNode_head, GetNextNode_proto),
      (''GetPreviousNode'', GetPreviousNode_head, GetPreviousNode_proto),
      (''IsListEmpty'', IsListEmpty_head, IsListEmpty_proto), (''IsNull'', IsNull_head, IsNull_proto),
      (''IsNodeAtEnd'', IsNodeAtEnd_head, IsNodeAtEnd_proto),
      (''SwapListEntries'', SwapListEntries_head, SwapListEntries_proto),
      (''RemoveEntryList'', RemoveEntryList_head, RemoveEntryList_proto)]"

section \<open>LongJump.c\<close>

definition LongJump_head :: proto where [protos]:
  "LongJump_head = Fun VOID
     [IN (To (T ''BASE_LIBRARY_JUMP_BUFFER'')) ''JumpBuffer'', IN (T ''UINTN'') ''Value'']"

definition LongJump_functions :: "(string \<times> proto \<times> proto) list" where
  "LongJump_functions =
     [(''LongJump'', LongJump_head, LongJump_proto)]"

section \<open>ModU64x32.c\<close>

definition ModU64x32_head :: proto where [protos]:
  "ModU64x32_head = Fun (T ''UINT32'') [IN (T ''UINT64'') ''Dividend'', IN (T ''UINT32'') ''Divisor'']"

definition ModU64x32_functions :: "(string \<times> proto \<times> proto) list" where
  "ModU64x32_functions =
     [(''ModU64x32'', ModU64x32_head, ModU64x32_proto)]"

section \<open>MultU64x64.c\<close>

definition MultU64x64_head :: proto where [protos]:
  "MultU64x64_head = Fun (T ''UINT64'')
     [IN (T ''UINT64'') ''Multiplicand'', IN (T ''UINT64'') ''Multiplier'']"

definition MultU64x64_functions :: "(string \<times> proto \<times> proto) list" where
  "MultU64x64_functions =
     [(''MultU64x64'', MultU64x64_head, MultU64x64_proto)]"

section \<open>String.c\<close>

definition StrLen_head :: proto where [protos]:
  "StrLen_head = Fun (T ''UINTN'') [IN (To (Const (T ''CHAR16''))) ''String'']"

definition StrSize_head :: proto where [protos]:
  "StrSize_head = Fun (T ''UINTN'') [IN (To (Const (T ''CHAR16''))) ''String'']"

definition StrCmp_head :: proto where [protos]:
  "StrCmp_head = Fun (T ''INTN'')
     [IN (To (Const (T ''CHAR16''))) ''FirstString'', IN (To (Const (T ''CHAR16''))) ''SecondString'']"

definition StrnCmp_head :: proto where [protos]:
  "StrnCmp_head = Fun (T ''INTN'')
     [IN (To (Const (T ''CHAR16''))) ''FirstString'', IN (To (Const (T ''CHAR16''))) ''SecondString'',
      IN (T ''UINTN'') ''Length'']"

definition StrStr_head :: proto where [protos]:
  "StrStr_head = Fun (To (T ''CHAR16''))
     [IN (To (Const (T ''CHAR16''))) ''String'', IN (To (Const (T ''CHAR16''))) ''SearchString'']"

definition InternalIsDecimalDigitCharacter_head :: proto where [protos]:
  "InternalIsDecimalDigitCharacter_head = Fun (T ''BOOLEAN'') [IN (T ''CHAR16'') ''Char'']"

definition CharToUpper_head :: proto where [protos]:
  "CharToUpper_head = Fun (T ''CHAR16'') [IN (T ''CHAR16'') ''Char'']"

definition InternalHexCharToUintn_head :: proto where [protos]:
  "InternalHexCharToUintn_head = Fun (T ''UINTN'') [IN (T ''CHAR16'') ''Char'']"

definition InternalIsHexaDecimalDigitCharacter_head :: proto where [protos]:
  "InternalIsHexaDecimalDigitCharacter_head = Fun (T ''BOOLEAN'') [IN (T ''CHAR16'') ''Char'']"

definition StrDecimalToUintn_head :: proto where [protos]:
  "StrDecimalToUintn_head = Fun (T ''UINTN'') [IN (To (Const (T ''CHAR16''))) ''String'']"

definition StrDecimalToUint64_head :: proto where [protos]:
  "StrDecimalToUint64_head = Fun (T ''UINT64'') [IN (To (Const (T ''CHAR16''))) ''String'']"

definition StrHexToUintn_head :: proto where [protos]:
  "StrHexToUintn_head = Fun (T ''UINTN'') [IN (To (Const (T ''CHAR16''))) ''String'']"

definition StrHexToUint64_head :: proto where [protos]:
  "StrHexToUint64_head = Fun (T ''UINT64'') [IN (To (Const (T ''CHAR16''))) ''String'']"

definition InternalAsciiIsDecimalDigitCharacter_head :: proto where [protos]:
  "InternalAsciiIsDecimalDigitCharacter_head = Fun (T ''BOOLEAN'') [IN (T ''CHAR8'') ''Char'']"

definition InternalAsciiIsHexaDecimalDigitCharacter_head :: proto where [protos]:
  "InternalAsciiIsHexaDecimalDigitCharacter_head = Fun (T ''BOOLEAN'') [IN (T ''CHAR8'') ''Char'']"

definition AsciiStrLen_head :: proto where [protos]:
  "AsciiStrLen_head = Fun (T ''UINTN'') [IN (To (Const (T ''CHAR8''))) ''String'']"

definition AsciiStrSize_head :: proto where [protos]:
  "AsciiStrSize_head = Fun (T ''UINTN'') [IN (To (Const (T ''CHAR8''))) ''String'']"

definition AsciiStrCmp_head :: proto where [protos]:
  "AsciiStrCmp_head = Fun (T ''INTN'')
     [IN (To (Const (T ''CHAR8''))) ''FirstString'', IN (To (Const (T ''CHAR8''))) ''SecondString'']"

definition AsciiCharToUpper_head :: proto where [protos]:
  "AsciiCharToUpper_head = Fun (T ''CHAR8'') [IN (T ''CHAR8'') ''Chr'']"

definition InternalAsciiHexCharToUintn_head :: proto where [protos]:
  "InternalAsciiHexCharToUintn_head = Fun (T ''UINTN'') [IN (T ''CHAR8'') ''Char'']"

definition AsciiStriCmp_head :: proto where [protos]:
  "AsciiStriCmp_head = Fun (T ''INTN'')
     [IN (To (Const (T ''CHAR8''))) ''FirstString'', IN (To (Const (T ''CHAR8''))) ''SecondString'']"

definition AsciiStrnCmp_head :: proto where [protos]:
  "AsciiStrnCmp_head = Fun (T ''INTN'')
     [IN (To (Const (T ''CHAR8''))) ''FirstString'', IN (To (Const (T ''CHAR8''))) ''SecondString'',
      IN (T ''UINTN'') ''Length'']"

definition AsciiStrStr_head :: proto where [protos]:
  "AsciiStrStr_head = Fun (To (T ''CHAR8''))
     [IN (To (Const (T ''CHAR8''))) ''String'', IN (To (Const (T ''CHAR8''))) ''SearchString'']"

definition AsciiStrDecimalToUintn_head :: proto where [protos]:
  "AsciiStrDecimalToUintn_head = Fun (T ''UINTN'') [IN (To (Const (T ''CHAR8''))) ''String'']"

definition AsciiStrDecimalToUint64_head :: proto where [protos]:
  "AsciiStrDecimalToUint64_head = Fun (T ''UINT64'') [IN (To (Const (T ''CHAR8''))) ''String'']"

definition AsciiStrHexToUintn_head :: proto where [protos]:
  "AsciiStrHexToUintn_head = Fun (T ''UINTN'') [IN (To (Const (T ''CHAR8''))) ''String'']"

definition AsciiStrHexToUint64_head :: proto where [protos]:
  "AsciiStrHexToUint64_head = Fun (T ''UINT64'') [IN (To (Const (T ''CHAR8''))) ''String'']"

definition Base64Encode_head :: proto where [protos]:
  "Base64Encode_head = Fun (T ''RETURN_STATUS'')
     [IN (To (Const (T ''UINT8''))) ''Source'', IN (T ''UINTN'') ''SourceLength'',
      OPTIONAL (OUT (To (T ''CHAR8'')) ''Destination''), IN_OUT (To (T ''UINTN'')) ''DestinationSize'']"

definition Base64Decode_head :: proto where [protos]:
  "Base64Decode_head = Fun (T ''RETURN_STATUS'')
     [OPTIONAL (IN (To (Const (T ''CHAR8''))) ''Source''), IN (T ''UINTN'') ''SourceSize'',
      OPTIONAL (OUT (To (T ''UINT8'')) ''Destination''), IN_OUT (To (T ''UINTN'')) ''DestinationSize'']"

definition DecimalToBcd8_head :: proto where [protos]:
  "DecimalToBcd8_head = Fun (T ''UINT8'') [IN (T ''UINT8'') ''Value'']"

definition BcdToDecimal8_head :: proto where [protos]:
  "BcdToDecimal8_head = Fun (T ''UINT8'') [IN (T ''UINT8'') ''Value'']"

definition String_functions :: "(string \<times> proto \<times> proto) list" where
  "String_functions =
     [(''StrLen'', StrLen_head, StrLen_proto), (''StrSize'', StrSize_head, StrSize_proto),
      (''StrCmp'', StrCmp_head, StrCmp_proto), (''StrnCmp'', StrnCmp_head, StrnCmp_proto),
      (''StrStr'', StrStr_head, StrStr_proto),
      (''InternalIsDecimalDigitCharacter'', InternalIsDecimalDigitCharacter_head, InternalIsDecimalDigitCharacter_proto),
      (''CharToUpper'', CharToUpper_head, CharToUpper_proto),
      (''InternalHexCharToUintn'', InternalHexCharToUintn_head, InternalHexCharToUintn_proto),
      (''InternalIsHexaDecimalDigitCharacter'', InternalIsHexaDecimalDigitCharacter_head, InternalIsHexaDecimalDigitCharacter_proto),
      (''StrDecimalToUintn'', StrDecimalToUintn_head, StrDecimalToUintn_proto),
      (''StrDecimalToUint64'', StrDecimalToUint64_head, StrDecimalToUint64_proto),
      (''StrHexToUintn'', StrHexToUintn_head, StrHexToUintn_proto),
      (''StrHexToUint64'', StrHexToUint64_head, StrHexToUint64_proto),
      (''InternalAsciiIsDecimalDigitCharacter'', InternalAsciiIsDecimalDigitCharacter_head, InternalAsciiIsDecimalDigitCharacter_proto),
      (''InternalAsciiIsHexaDecimalDigitCharacter'', InternalAsciiIsHexaDecimalDigitCharacter_head, InternalAsciiIsHexaDecimalDigitCharacter_proto),
      (''AsciiStrLen'', AsciiStrLen_head, AsciiStrLen_proto),
      (''AsciiStrSize'', AsciiStrSize_head, AsciiStrSize_proto),
      (''AsciiStrCmp'', AsciiStrCmp_head, AsciiStrCmp_proto),
      (''AsciiCharToUpper'', AsciiCharToUpper_head, AsciiCharToUpper_proto),
      (''InternalAsciiHexCharToUintn'', InternalAsciiHexCharToUintn_head, InternalAsciiHexCharToUintn_proto),
      (''AsciiStriCmp'', AsciiStriCmp_head, AsciiStriCmp_proto),
      (''AsciiStrnCmp'', AsciiStrnCmp_head, AsciiStrnCmp_proto),
      (''AsciiStrStr'', AsciiStrStr_head, AsciiStrStr_proto),
      (''AsciiStrDecimalToUintn'', AsciiStrDecimalToUintn_head, AsciiStrDecimalToUintn_proto),
      (''AsciiStrDecimalToUint64'', AsciiStrDecimalToUint64_head, AsciiStrDecimalToUint64_proto),
      (''AsciiStrHexToUintn'', AsciiStrHexToUintn_head, AsciiStrHexToUintn_proto),
      (''AsciiStrHexToUint64'', AsciiStrHexToUint64_head, AsciiStrHexToUint64_proto),
      (''Base64Encode'', Base64Encode_head, Base64Encode_proto),
      (''Base64Decode'', Base64Decode_head, Base64Decode_proto),
      (''DecimalToBcd8'', DecimalToBcd8_head, DecimalToBcd8_proto),
      (''BcdToDecimal8'', BcdToDecimal8_head, BcdToDecimal8_proto)]"

section \<open>SwapBytes16.c\<close>

definition SwapBytes16_head :: proto where [protos]:
  "SwapBytes16_head = Fun (T ''UINT16'') [IN (T ''UINT16'') ''Value'']"

definition SwapBytes16_functions :: "(string \<times> proto \<times> proto) list" where
  "SwapBytes16_functions =
     [(''SwapBytes16'', SwapBytes16_head, SwapBytes16_proto)]"

section \<open>X86PatchInstruction.c\<close>

definition PatchInstructionX86_head :: proto where [protos]:
  "PatchInstructionX86_head = Fun VOID
     [OUT (To (T ''X86_ASSEMBLY_PATCH_LABEL'')) ''InstructionEnd'', IN (T ''UINT64'') ''PatchValue'',
      IN (T ''UINTN'') ''ValueSize'']"

definition X86PatchInstruction_functions :: "(string \<times> proto \<times> proto) list" where
  "X86PatchInstruction_functions =
     [(''PatchInstructionX86'', PatchInstructionX86_head, PatchInstructionX86_proto)]"

section \<open>HelloWorld.c\<close>

definition UefiMain_head :: proto where [protos]:
  "UefiMain_head = Fun (T ''EFI_STATUS'')
     [IN (T ''EFI_HANDLE'') ''ImageHandle'', IN (To (T ''EFI_SYSTEM_TABLE'')) ''SystemTable'']"

definition HelloWorld_functions :: "(string \<times> proto \<times> proto) list" where
  "HelloWorld_functions = [(''UefiMain'', UefiMain_head, UefiMain_decl)]"

end
