(* ===== verification/Service_Prototypes.thy ===== *)
theory Service_Prototypes imports BaseLib_Prototypes begin

text \<open>
  The types of the services that \<open>UefiSpec.h\<close> and the console protocols declare, and the services of each
  table with their types.
\<close>

section \<open>UefiSpec.h\<close>

definition EFI_ALLOCATE_PAGES :: proto where [protos]:
  "EFI_ALLOCATE_PAGES = Fun (T ''EFI_STATUS'')
     [IN (T ''EFI_ALLOCATE_TYPE'') ''Type'', IN (T ''EFI_MEMORY_TYPE'') ''MemoryType'',
      IN (T ''UINTN'') ''Pages'', IN_OUT (To (T ''EFI_PHYSICAL_ADDRESS'')) ''Memory'']"

definition EFI_FREE_PAGES :: proto where [protos]:
  "EFI_FREE_PAGES = Fun (T ''EFI_STATUS'')
     [IN (T ''EFI_PHYSICAL_ADDRESS'') ''Memory'', IN (T ''UINTN'') ''Pages'']"

definition EFI_GET_MEMORY_MAP :: proto where [protos]:
  "EFI_GET_MEMORY_MAP = Fun (T ''EFI_STATUS'')
     [IN_OUT (To (T ''UINTN'')) ''MemoryMapSize'', OUT (To (T ''EFI_MEMORY_DESCRIPTOR'')) ''MemoryMap'',
      OUT (To (T ''UINTN'')) ''MapKey'', OUT (To (T ''UINTN'')) ''DescriptorSize'',
      OUT (To (T ''UINT32'')) ''DescriptorVersion'']"

definition EFI_ALLOCATE_POOL :: proto where [protos]:
  "EFI_ALLOCATE_POOL = Fun (T ''EFI_STATUS'')
     [IN (T ''EFI_MEMORY_TYPE'') ''PoolType'', IN (T ''UINTN'') ''Size'', OUT (To (To VOID)) ''Buffer'']"

definition EFI_FREE_POOL :: proto where [protos]:
  "EFI_FREE_POOL = Fun (T ''EFI_STATUS'') [IN (To VOID) ''Buffer'']"

definition EFI_SET_VIRTUAL_ADDRESS_MAP :: proto where [protos]:
  "EFI_SET_VIRTUAL_ADDRESS_MAP = Fun (T ''EFI_STATUS'')
     [IN (T ''UINTN'') ''MemoryMapSize'', IN (T ''UINTN'') ''DescriptorSize'',
      IN (T ''UINT32'') ''DescriptorVersion'', IN (To (T ''EFI_MEMORY_DESCRIPTOR'')) ''VirtualMap'']"

definition EFI_CONNECT_CONTROLLER :: proto where [protos]:
  "EFI_CONNECT_CONTROLLER = Fun (T ''EFI_STATUS'')
     [IN (T ''EFI_HANDLE'') ''ControllerHandle'', OPTIONAL (IN (To (T ''EFI_HANDLE'')) ''DriverImageHandle''),
      OPTIONAL (IN (To (T ''EFI_DEVICE_PATH_PROTOCOL'')) ''RemainingDevicePath''),
      IN (T ''BOOLEAN'') ''Recursive'']"

definition EFI_DISCONNECT_CONTROLLER :: proto where [protos]:
  "EFI_DISCONNECT_CONTROLLER = Fun (T ''EFI_STATUS'')
     [IN (T ''EFI_HANDLE'') ''ControllerHandle'', OPTIONAL (IN (T ''EFI_HANDLE'') ''DriverImageHandle''),
      OPTIONAL (IN (T ''EFI_HANDLE'') ''ChildHandle'')]"

definition EFI_CONVERT_POINTER :: proto where [protos]:
  "EFI_CONVERT_POINTER = Fun (T ''EFI_STATUS'')
     [IN (T ''UINTN'') ''DebugDisposition'', IN_OUT (To (To VOID)) ''Address'']"

definition EFI_EVENT_NOTIFY :: proto where [protos]:
  "EFI_EVENT_NOTIFY = Fun VOID [IN (T ''EFI_EVENT'') ''Event'', IN (To VOID) ''Context'']"

definition EFI_CREATE_EVENT :: proto where [protos]:
  "EFI_CREATE_EVENT = Fun (T ''EFI_STATUS'')
     [IN (T ''UINT32'') ''Type'', IN (T ''EFI_TPL'') ''NotifyTpl'',
      IN (T ''EFI_EVENT_NOTIFY'') ''NotifyFunction'', IN (To VOID) ''NotifyContext'',
      OUT (To (T ''EFI_EVENT'')) ''Event'']"

definition EFI_CREATE_EVENT_EX :: proto where [protos]:
  "EFI_CREATE_EVENT_EX = Fun (T ''EFI_STATUS'')
     [IN (T ''UINT32'') ''Type'', IN (T ''EFI_TPL'') ''NotifyTpl'',
      OPTIONAL (IN (T ''EFI_EVENT_NOTIFY'') ''NotifyFunction''),
      OPTIONAL (IN (To (Const VOID)) ''NotifyContext''),
      OPTIONAL (IN (To (Const (T ''EFI_GUID''))) ''EventGroup''), OUT (To (T ''EFI_EVENT'')) ''Event'']"

definition EFI_SET_TIMER :: proto where [protos]:
  "EFI_SET_TIMER = Fun (T ''EFI_STATUS'')
     [IN (T ''EFI_EVENT'') ''Event'', IN (T ''EFI_TIMER_DELAY'') ''Type'', IN (T ''UINT64'') ''TriggerTime'']"

definition EFI_SIGNAL_EVENT :: proto where [protos]:
  "EFI_SIGNAL_EVENT = Fun (T ''EFI_STATUS'') [IN (T ''EFI_EVENT'') ''Event'']"

definition EFI_WAIT_FOR_EVENT :: proto where [protos]:
  "EFI_WAIT_FOR_EVENT = Fun (T ''EFI_STATUS'')
     [IN (T ''UINTN'') ''NumberOfEvents'', IN (To (T ''EFI_EVENT'')) ''Event'',
      OUT (To (T ''UINTN'')) ''Index'']"

definition EFI_CLOSE_EVENT :: proto where [protos]:
  "EFI_CLOSE_EVENT = Fun (T ''EFI_STATUS'') [IN (T ''EFI_EVENT'') ''Event'']"

definition EFI_CHECK_EVENT :: proto where [protos]:
  "EFI_CHECK_EVENT = Fun (T ''EFI_STATUS'') [IN (T ''EFI_EVENT'') ''Event'']"

definition EFI_RAISE_TPL :: proto where [protos]:
  "EFI_RAISE_TPL = Fun (T ''EFI_TPL'') [IN (T ''EFI_TPL'') ''NewTpl'']"

definition EFI_RESTORE_TPL :: proto where [protos]:
  "EFI_RESTORE_TPL = Fun VOID [IN (T ''EFI_TPL'') ''OldTpl'']"

definition EFI_GET_VARIABLE :: proto where [protos]:
  "EFI_GET_VARIABLE = Fun (T ''EFI_STATUS'')
     [IN (To (T ''CHAR16'')) ''VariableName'', IN (To (T ''EFI_GUID'')) ''VendorGuid'',
      OPTIONAL (OUT (To (T ''UINT32'')) ''Attributes''), IN_OUT (To (T ''UINTN'')) ''DataSize'',
      OPTIONAL (OUT (To VOID) ''Data'')]"

definition EFI_GET_NEXT_VARIABLE_NAME :: proto where [protos]:
  "EFI_GET_NEXT_VARIABLE_NAME = Fun (T ''EFI_STATUS'')
     [IN_OUT (To (T ''UINTN'')) ''VariableNameSize'', IN_OUT (To (T ''CHAR16'')) ''VariableName'',
      IN_OUT (To (T ''EFI_GUID'')) ''VendorGuid'']"

definition EFI_SET_VARIABLE :: proto where [protos]:
  "EFI_SET_VARIABLE = Fun (T ''EFI_STATUS'')
     [IN (To (T ''CHAR16'')) ''VariableName'', IN (To (T ''EFI_GUID'')) ''VendorGuid'',
      IN (T ''UINT32'') ''Attributes'', IN (T ''UINTN'') ''DataSize'', IN (To VOID) ''Data'']"

definition EFI_GET_TIME :: proto where [protos]:
  "EFI_GET_TIME = Fun (T ''EFI_STATUS'')
     [OUT (To (T ''EFI_TIME'')) ''Time'', OPTIONAL (OUT (To (T ''EFI_TIME_CAPABILITIES'')) ''Capabilities'')]"

definition EFI_SET_TIME :: proto where [protos]:
  "EFI_SET_TIME = Fun (T ''EFI_STATUS'') [IN (To (T ''EFI_TIME'')) ''Time'']"

definition EFI_GET_WAKEUP_TIME :: proto where [protos]:
  "EFI_GET_WAKEUP_TIME = Fun (T ''EFI_STATUS'')
     [OUT (To (T ''BOOLEAN'')) ''Enabled'', OUT (To (T ''BOOLEAN'')) ''Pending'',
      OUT (To (T ''EFI_TIME'')) ''Time'']"

definition EFI_SET_WAKEUP_TIME :: proto where [protos]:
  "EFI_SET_WAKEUP_TIME = Fun (T ''EFI_STATUS'')
     [IN (T ''BOOLEAN'') ''Enable'', OPTIONAL (IN (To (T ''EFI_TIME'')) ''Time'')]"

definition EFI_IMAGE_LOAD :: proto where [protos]:
  "EFI_IMAGE_LOAD = Fun (T ''EFI_STATUS'')
     [IN (T ''BOOLEAN'') ''BootPolicy'', IN (T ''EFI_HANDLE'') ''ParentImageHandle'',
      IN (To (T ''EFI_DEVICE_PATH_PROTOCOL'')) ''DevicePath'', OPTIONAL (IN (To VOID) ''SourceBuffer''),
      IN (T ''UINTN'') ''SourceSize'', OUT (To (T ''EFI_HANDLE'')) ''ImageHandle'']"

definition EFI_IMAGE_START :: proto where [protos]:
  "EFI_IMAGE_START = Fun (T ''EFI_STATUS'')
     [IN (T ''EFI_HANDLE'') ''ImageHandle'', OUT (To (T ''UINTN'')) ''ExitDataSize'',
      OPTIONAL (OUT (To (To (T ''CHAR16''))) ''ExitData'')]"

definition EFI_EXIT :: proto where [protos]:
  "EFI_EXIT = Fun (T ''EFI_STATUS'')
     [IN (T ''EFI_HANDLE'') ''ImageHandle'', IN (T ''EFI_STATUS'') ''ExitStatus'',
      IN (T ''UINTN'') ''ExitDataSize'', OPTIONAL (IN (To (T ''CHAR16'')) ''ExitData'')]"

definition EFI_IMAGE_UNLOAD :: proto where [protos]:
  "EFI_IMAGE_UNLOAD = Fun (T ''EFI_STATUS'') [IN (T ''EFI_HANDLE'') ''ImageHandle'']"

definition EFI_EXIT_BOOT_SERVICES :: proto where [protos]:
  "EFI_EXIT_BOOT_SERVICES = Fun (T ''EFI_STATUS'')
     [IN (T ''EFI_HANDLE'') ''ImageHandle'', IN (T ''UINTN'') ''MapKey'']"

definition EFI_STALL :: proto where [protos]:
  "EFI_STALL = Fun (T ''EFI_STATUS'') [IN (T ''UINTN'') ''Microseconds'']"

definition EFI_SET_WATCHDOG_TIMER :: proto where [protos]:
  "EFI_SET_WATCHDOG_TIMER = Fun (T ''EFI_STATUS'')
     [IN (T ''UINTN'') ''Timeout'', IN (T ''UINT64'') ''WatchdogCode'', IN (T ''UINTN'') ''DataSize'',
      OPTIONAL (IN (To (T ''CHAR16'')) ''WatchdogData'')]"

definition EFI_RESET_SYSTEM :: proto where [protos]:
  "EFI_RESET_SYSTEM = Fun VOID
     [IN (T ''EFI_RESET_TYPE'') ''ResetType'', IN (T ''EFI_STATUS'') ''ResetStatus'',
      IN (T ''UINTN'') ''DataSize'', OPTIONAL (IN (To VOID) ''ResetData'')]"

definition EFI_GET_NEXT_MONOTONIC_COUNT :: proto where [protos]:
  "EFI_GET_NEXT_MONOTONIC_COUNT = Fun (T ''EFI_STATUS'') [OUT (To (T ''UINT64'')) ''Count'']"

definition EFI_GET_NEXT_HIGH_MONO_COUNT :: proto where [protos]:
  "EFI_GET_NEXT_HIGH_MONO_COUNT = Fun (T ''EFI_STATUS'') [OUT (To (T ''UINT32'')) ''HighCount'']"

definition EFI_CALCULATE_CRC32 :: proto where [protos]:
  "EFI_CALCULATE_CRC32 = Fun (T ''EFI_STATUS'')
     [IN (To VOID) ''Data'', IN (T ''UINTN'') ''DataSize'', OUT (To (T ''UINT32'')) ''Crc32'']"

definition EFI_COPY_MEM :: proto where [protos]:
  "EFI_COPY_MEM = Fun VOID
     [IN (To VOID) ''Destination'', IN (To VOID) ''Source'', IN (T ''UINTN'') ''Length'']"

definition EFI_SET_MEM :: proto where [protos]:
  "EFI_SET_MEM = Fun VOID [IN (To VOID) ''Buffer'', IN (T ''UINTN'') ''Size'', IN (T ''UINT8'') ''Value'']"

definition EFI_INSTALL_PROTOCOL_INTERFACE :: proto where [protos]:
  "EFI_INSTALL_PROTOCOL_INTERFACE = Fun (T ''EFI_STATUS'')
     [IN_OUT (To (T ''EFI_HANDLE'')) ''Handle'', IN (To (T ''EFI_GUID'')) ''Protocol'',
      IN (T ''EFI_INTERFACE_TYPE'') ''InterfaceType'', IN (To VOID) ''Interface'']"

definition EFI_INSTALL_MULTIPLE_PROTOCOL_INTERFACES :: proto where [protos]:
  "EFI_INSTALL_MULTIPLE_PROTOCOL_INTERFACES = Variadic (T ''EFI_STATUS'')
     [IN_OUT (To (T ''EFI_HANDLE'')) ''Handle'']"

definition EFI_REINSTALL_PROTOCOL_INTERFACE :: proto where [protos]:
  "EFI_REINSTALL_PROTOCOL_INTERFACE = Fun (T ''EFI_STATUS'')
     [IN (T ''EFI_HANDLE'') ''Handle'', IN (To (T ''EFI_GUID'')) ''Protocol'', IN (To VOID) ''OldInterface'',
      IN (To VOID) ''NewInterface'']"

definition EFI_UNINSTALL_PROTOCOL_INTERFACE :: proto where [protos]:
  "EFI_UNINSTALL_PROTOCOL_INTERFACE = Fun (T ''EFI_STATUS'')
     [IN (T ''EFI_HANDLE'') ''Handle'', IN (To (T ''EFI_GUID'')) ''Protocol'', IN (To VOID) ''Interface'']"

definition EFI_UNINSTALL_MULTIPLE_PROTOCOL_INTERFACES :: proto where [protos]:
  "EFI_UNINSTALL_MULTIPLE_PROTOCOL_INTERFACES = Variadic (T ''EFI_STATUS'')
     [IN (T ''EFI_HANDLE'') ''Handle'']"

definition EFI_HANDLE_PROTOCOL :: proto where [protos]:
  "EFI_HANDLE_PROTOCOL = Fun (T ''EFI_STATUS'')
     [IN (T ''EFI_HANDLE'') ''Handle'', IN (To (T ''EFI_GUID'')) ''Protocol'',
      OUT (To (To VOID)) ''Interface'']"

definition EFI_OPEN_PROTOCOL :: proto where [protos]:
  "EFI_OPEN_PROTOCOL = Fun (T ''EFI_STATUS'')
     [IN (T ''EFI_HANDLE'') ''Handle'', IN (To (T ''EFI_GUID'')) ''Protocol'',
      OPTIONAL (OUT (To (To VOID)) ''Interface''), IN (T ''EFI_HANDLE'') ''AgentHandle'',
      IN (T ''EFI_HANDLE'') ''ControllerHandle'', IN (T ''UINT32'') ''Attributes'']"

definition EFI_CLOSE_PROTOCOL :: proto where [protos]:
  "EFI_CLOSE_PROTOCOL = Fun (T ''EFI_STATUS'')
     [IN (T ''EFI_HANDLE'') ''Handle'', IN (To (T ''EFI_GUID'')) ''Protocol'',
      IN (T ''EFI_HANDLE'') ''AgentHandle'', IN (T ''EFI_HANDLE'') ''ControllerHandle'']"

definition EFI_OPEN_PROTOCOL_INFORMATION :: proto where [protos]:
  "EFI_OPEN_PROTOCOL_INFORMATION = Fun (T ''EFI_STATUS'')
     [IN (T ''EFI_HANDLE'') ''Handle'', IN (To (T ''EFI_GUID'')) ''Protocol'',
      OUT (To (To (T ''EFI_OPEN_PROTOCOL_INFORMATION_ENTRY''))) ''EntryBuffer'',
      OUT (To (T ''UINTN'')) ''EntryCount'']"

definition EFI_PROTOCOLS_PER_HANDLE :: proto where [protos]:
  "EFI_PROTOCOLS_PER_HANDLE = Fun (T ''EFI_STATUS'')
     [IN (T ''EFI_HANDLE'') ''Handle'', OUT (To (To (To (T ''EFI_GUID'')))) ''ProtocolBuffer'',
      OUT (To (T ''UINTN'')) ''ProtocolBufferCount'']"

definition EFI_REGISTER_PROTOCOL_NOTIFY :: proto where [protos]:
  "EFI_REGISTER_PROTOCOL_NOTIFY = Fun (T ''EFI_STATUS'')
     [IN (To (T ''EFI_GUID'')) ''Protocol'', IN (T ''EFI_EVENT'') ''Event'',
      OUT (To (To VOID)) ''Registration'']"

definition EFI_LOCATE_HANDLE :: proto where [protos]:
  "EFI_LOCATE_HANDLE = Fun (T ''EFI_STATUS'')
     [IN (T ''EFI_LOCATE_SEARCH_TYPE'') ''SearchType'', OPTIONAL (IN (To (T ''EFI_GUID'')) ''Protocol''),
      OPTIONAL (IN (To VOID) ''SearchKey''), IN_OUT (To (T ''UINTN'')) ''BufferSize'',
      OUT (To (T ''EFI_HANDLE'')) ''Buffer'']"

definition EFI_LOCATE_DEVICE_PATH :: proto where [protos]:
  "EFI_LOCATE_DEVICE_PATH = Fun (T ''EFI_STATUS'')
     [IN (To (T ''EFI_GUID'')) ''Protocol'', IN_OUT (To (To (T ''EFI_DEVICE_PATH_PROTOCOL''))) ''DevicePath'',
      OUT (To (T ''EFI_HANDLE'')) ''Device'']"

definition EFI_INSTALL_CONFIGURATION_TABLE :: proto where [protos]:
  "EFI_INSTALL_CONFIGURATION_TABLE = Fun (T ''EFI_STATUS'')
     [IN (To (T ''EFI_GUID'')) ''Guid'', IN (To VOID) ''Table'']"

definition EFI_LOCATE_HANDLE_BUFFER :: proto where [protos]:
  "EFI_LOCATE_HANDLE_BUFFER = Fun (T ''EFI_STATUS'')
     [IN (T ''EFI_LOCATE_SEARCH_TYPE'') ''SearchType'', OPTIONAL (IN (To (T ''EFI_GUID'')) ''Protocol''),
      OPTIONAL (IN (To VOID) ''SearchKey''), OUT (To (T ''UINTN'')) ''NoHandles'',
      OUT (To (To (T ''EFI_HANDLE''))) ''Buffer'']"

definition EFI_LOCATE_PROTOCOL :: proto where [protos]:
  "EFI_LOCATE_PROTOCOL = Fun (T ''EFI_STATUS'')
     [IN (To (T ''EFI_GUID'')) ''Protocol'', OPTIONAL (IN (To VOID) ''Registration''),
      OUT (To (To VOID)) ''Interface'']"

definition EFI_UPDATE_CAPSULE :: proto where [protos]:
  "EFI_UPDATE_CAPSULE = Fun (T ''EFI_STATUS'')
     [IN (To (To (T ''EFI_CAPSULE_HEADER''))) ''CapsuleHeaderArray'', IN (T ''UINTN'') ''CapsuleCount'',
      OPTIONAL (IN (T ''EFI_PHYSICAL_ADDRESS'') ''ScatterGatherList'')]"

definition EFI_QUERY_CAPSULE_CAPABILITIES :: proto where [protos]:
  "EFI_QUERY_CAPSULE_CAPABILITIES = Fun (T ''EFI_STATUS'')
     [IN (To (To (T ''EFI_CAPSULE_HEADER''))) ''CapsuleHeaderArray'', IN (T ''UINTN'') ''CapsuleCount'',
      OUT (To (T ''UINT64'')) ''MaximumCapsuleSize'', OUT (To (T ''EFI_RESET_TYPE'')) ''ResetType'']"

definition EFI_QUERY_VARIABLE_INFO :: proto where [protos]:
  "EFI_QUERY_VARIABLE_INFO = Fun (T ''EFI_STATUS'')
     [IN (T ''UINT32'') ''Attributes'', OUT (To (T ''UINT64'')) ''MaximumVariableStorageSize'',
      OUT (To (T ''UINT64'')) ''RemainingVariableStorageSize'',
      OUT (To (T ''UINT64'')) ''MaximumVariableSize'']"

definition EFI_IMAGE_ENTRY_POINT :: proto where [protos]:
  "EFI_IMAGE_ENTRY_POINT = Fun (T ''EFI_STATUS'')
     [IN (T ''EFI_HANDLE'') ''ImageHandle'', IN (To (T ''EFI_SYSTEM_TABLE'')) ''SystemTable'']"

definition UefiSpec_protos :: "(string \<times> proto) list" where
  "UefiSpec_protos =
     [(''EFI_ALLOCATE_PAGES'', EFI_ALLOCATE_PAGES), (''EFI_FREE_PAGES'', EFI_FREE_PAGES),
      (''EFI_GET_MEMORY_MAP'', EFI_GET_MEMORY_MAP), (''EFI_ALLOCATE_POOL'', EFI_ALLOCATE_POOL),
      (''EFI_FREE_POOL'', EFI_FREE_POOL), (''EFI_SET_VIRTUAL_ADDRESS_MAP'', EFI_SET_VIRTUAL_ADDRESS_MAP),
      (''EFI_CONNECT_CONTROLLER'', EFI_CONNECT_CONTROLLER),
      (''EFI_DISCONNECT_CONTROLLER'', EFI_DISCONNECT_CONTROLLER),
      (''EFI_CONVERT_POINTER'', EFI_CONVERT_POINTER), (''EFI_EVENT_NOTIFY'', EFI_EVENT_NOTIFY),
      (''EFI_CREATE_EVENT'', EFI_CREATE_EVENT), (''EFI_CREATE_EVENT_EX'', EFI_CREATE_EVENT_EX),
      (''EFI_SET_TIMER'', EFI_SET_TIMER), (''EFI_SIGNAL_EVENT'', EFI_SIGNAL_EVENT),
      (''EFI_WAIT_FOR_EVENT'', EFI_WAIT_FOR_EVENT), (''EFI_CLOSE_EVENT'', EFI_CLOSE_EVENT),
      (''EFI_CHECK_EVENT'', EFI_CHECK_EVENT), (''EFI_RAISE_TPL'', EFI_RAISE_TPL),
      (''EFI_RESTORE_TPL'', EFI_RESTORE_TPL), (''EFI_GET_VARIABLE'', EFI_GET_VARIABLE),
      (''EFI_GET_NEXT_VARIABLE_NAME'', EFI_GET_NEXT_VARIABLE_NAME), (''EFI_SET_VARIABLE'', EFI_SET_VARIABLE),
      (''EFI_GET_TIME'', EFI_GET_TIME), (''EFI_SET_TIME'', EFI_SET_TIME),
      (''EFI_GET_WAKEUP_TIME'', EFI_GET_WAKEUP_TIME), (''EFI_SET_WAKEUP_TIME'', EFI_SET_WAKEUP_TIME),
      (''EFI_IMAGE_LOAD'', EFI_IMAGE_LOAD), (''EFI_IMAGE_START'', EFI_IMAGE_START), (''EFI_EXIT'', EFI_EXIT),
      (''EFI_IMAGE_UNLOAD'', EFI_IMAGE_UNLOAD), (''EFI_EXIT_BOOT_SERVICES'', EFI_EXIT_BOOT_SERVICES),
      (''EFI_STALL'', EFI_STALL), (''EFI_SET_WATCHDOG_TIMER'', EFI_SET_WATCHDOG_TIMER),
      (''EFI_RESET_SYSTEM'', EFI_RESET_SYSTEM),
      (''EFI_GET_NEXT_MONOTONIC_COUNT'', EFI_GET_NEXT_MONOTONIC_COUNT),
      (''EFI_GET_NEXT_HIGH_MONO_COUNT'', EFI_GET_NEXT_HIGH_MONO_COUNT),
      (''EFI_CALCULATE_CRC32'', EFI_CALCULATE_CRC32), (''EFI_COPY_MEM'', EFI_COPY_MEM),
      (''EFI_SET_MEM'', EFI_SET_MEM), (''EFI_INSTALL_PROTOCOL_INTERFACE'', EFI_INSTALL_PROTOCOL_INTERFACE),
      (''EFI_INSTALL_MULTIPLE_PROTOCOL_INTERFACES'', EFI_INSTALL_MULTIPLE_PROTOCOL_INTERFACES),
      (''EFI_REINSTALL_PROTOCOL_INTERFACE'', EFI_REINSTALL_PROTOCOL_INTERFACE),
      (''EFI_UNINSTALL_PROTOCOL_INTERFACE'', EFI_UNINSTALL_PROTOCOL_INTERFACE),
      (''EFI_UNINSTALL_MULTIPLE_PROTOCOL_INTERFACES'', EFI_UNINSTALL_MULTIPLE_PROTOCOL_INTERFACES),
      (''EFI_HANDLE_PROTOCOL'', EFI_HANDLE_PROTOCOL), (''EFI_OPEN_PROTOCOL'', EFI_OPEN_PROTOCOL),
      (''EFI_CLOSE_PROTOCOL'', EFI_CLOSE_PROTOCOL),
      (''EFI_OPEN_PROTOCOL_INFORMATION'', EFI_OPEN_PROTOCOL_INFORMATION),
      (''EFI_PROTOCOLS_PER_HANDLE'', EFI_PROTOCOLS_PER_HANDLE),
      (''EFI_REGISTER_PROTOCOL_NOTIFY'', EFI_REGISTER_PROTOCOL_NOTIFY),
      (''EFI_LOCATE_HANDLE'', EFI_LOCATE_HANDLE), (''EFI_LOCATE_DEVICE_PATH'', EFI_LOCATE_DEVICE_PATH),
      (''EFI_INSTALL_CONFIGURATION_TABLE'', EFI_INSTALL_CONFIGURATION_TABLE),
      (''EFI_LOCATE_HANDLE_BUFFER'', EFI_LOCATE_HANDLE_BUFFER),
      (''EFI_LOCATE_PROTOCOL'', EFI_LOCATE_PROTOCOL), (''EFI_UPDATE_CAPSULE'', EFI_UPDATE_CAPSULE),
      (''EFI_QUERY_CAPSULE_CAPABILITIES'', EFI_QUERY_CAPSULE_CAPABILITIES),
      (''EFI_QUERY_VARIABLE_INFO'', EFI_QUERY_VARIABLE_INFO),
      (''EFI_IMAGE_ENTRY_POINT'', EFI_IMAGE_ENTRY_POINT)]"

section \<open>SimpleTextIn.h\<close>

definition EFI_INPUT_RESET :: proto where [protos]:
  "EFI_INPUT_RESET = Fun (T ''EFI_STATUS'')
     [IN (To (T ''EFI_SIMPLE_TEXT_INPUT_PROTOCOL'')) ''This'', IN (T ''BOOLEAN'') ''ExtendedVerification'']"

definition EFI_INPUT_READ_KEY :: proto where [protos]:
  "EFI_INPUT_READ_KEY = Fun (T ''EFI_STATUS'')
     [IN (To (T ''EFI_SIMPLE_TEXT_INPUT_PROTOCOL'')) ''This'', OUT (To (T ''EFI_INPUT_KEY'')) ''Key'']"

definition SimpleTextIn_protos :: "(string \<times> proto) list" where
  "SimpleTextIn_protos =
     [(''EFI_INPUT_RESET'', EFI_INPUT_RESET), (''EFI_INPUT_READ_KEY'', EFI_INPUT_READ_KEY)]"

section \<open>SimpleTextInEx.h\<close>

definition EFI_INPUT_RESET_EX :: proto where [protos]:
  "EFI_INPUT_RESET_EX = Fun (T ''EFI_STATUS'')
     [IN (To (T ''EFI_SIMPLE_TEXT_INPUT_EX_PROTOCOL'')) ''This'', IN (T ''BOOLEAN'') ''ExtendedVerification'']"

definition EFI_INPUT_READ_KEY_EX :: proto where [protos]:
  "EFI_INPUT_READ_KEY_EX = Fun (T ''EFI_STATUS'')
     [IN (To (T ''EFI_SIMPLE_TEXT_INPUT_EX_PROTOCOL'')) ''This'', OUT (To (T ''EFI_KEY_DATA'')) ''KeyData'']"

definition EFI_SET_STATE :: proto where [protos]:
  "EFI_SET_STATE = Fun (T ''EFI_STATUS'')
     [IN (To (T ''EFI_SIMPLE_TEXT_INPUT_EX_PROTOCOL'')) ''This'',
      IN (To (T ''EFI_KEY_TOGGLE_STATE'')) ''KeyToggleState'']"

definition EFI_KEY_NOTIFY_FUNCTION :: proto where [protos]:
  "EFI_KEY_NOTIFY_FUNCTION = Fun (T ''EFI_STATUS'') [IN (To (T ''EFI_KEY_DATA'')) ''KeyData'']"

definition EFI_REGISTER_KEYSTROKE_NOTIFY :: proto where [protos]:
  "EFI_REGISTER_KEYSTROKE_NOTIFY = Fun (T ''EFI_STATUS'')
     [IN (To (T ''EFI_SIMPLE_TEXT_INPUT_EX_PROTOCOL'')) ''This'', IN (To (T ''EFI_KEY_DATA'')) ''KeyData'',
      IN (T ''EFI_KEY_NOTIFY_FUNCTION'') ''KeyNotificationFunction'', OUT (To (To VOID)) ''NotifyHandle'']"

definition EFI_UNREGISTER_KEYSTROKE_NOTIFY :: proto where [protos]:
  "EFI_UNREGISTER_KEYSTROKE_NOTIFY = Fun (T ''EFI_STATUS'')
     [IN (To (T ''EFI_SIMPLE_TEXT_INPUT_EX_PROTOCOL'')) ''This'', IN (To VOID) ''NotificationHandle'']"

definition SimpleTextInEx_protos :: "(string \<times> proto) list" where
  "SimpleTextInEx_protos =
     [(''EFI_INPUT_RESET_EX'', EFI_INPUT_RESET_EX), (''EFI_INPUT_READ_KEY_EX'', EFI_INPUT_READ_KEY_EX),
      (''EFI_SET_STATE'', EFI_SET_STATE), (''EFI_KEY_NOTIFY_FUNCTION'', EFI_KEY_NOTIFY_FUNCTION),
      (''EFI_REGISTER_KEYSTROKE_NOTIFY'', EFI_REGISTER_KEYSTROKE_NOTIFY),
      (''EFI_UNREGISTER_KEYSTROKE_NOTIFY'', EFI_UNREGISTER_KEYSTROKE_NOTIFY)]"

section \<open>SimpleTextOut.h\<close>

definition EFI_TEXT_RESET :: proto where [protos]:
  "EFI_TEXT_RESET = Fun (T ''EFI_STATUS'')
     [IN (To (T ''EFI_SIMPLE_TEXT_OUTPUT_PROTOCOL'')) ''This'', IN (T ''BOOLEAN'') ''ExtendedVerification'']"

definition EFI_TEXT_STRING :: proto where [protos]:
  "EFI_TEXT_STRING = Fun (T ''EFI_STATUS'')
     [IN (To (T ''EFI_SIMPLE_TEXT_OUTPUT_PROTOCOL'')) ''This'', IN (To (T ''CHAR16'')) ''String'']"

definition EFI_TEXT_TEST_STRING :: proto where [protos]:
  "EFI_TEXT_TEST_STRING = Fun (T ''EFI_STATUS'')
     [IN (To (T ''EFI_SIMPLE_TEXT_OUTPUT_PROTOCOL'')) ''This'', IN (To (T ''CHAR16'')) ''String'']"

definition EFI_TEXT_QUERY_MODE :: proto where [protos]:
  "EFI_TEXT_QUERY_MODE = Fun (T ''EFI_STATUS'')
     [IN (To (T ''EFI_SIMPLE_TEXT_OUTPUT_PROTOCOL'')) ''This'', IN (T ''UINTN'') ''ModeNumber'',
      OUT (To (T ''UINTN'')) ''Columns'', OUT (To (T ''UINTN'')) ''Rows'']"

definition EFI_TEXT_SET_MODE :: proto where [protos]:
  "EFI_TEXT_SET_MODE = Fun (T ''EFI_STATUS'')
     [IN (To (T ''EFI_SIMPLE_TEXT_OUTPUT_PROTOCOL'')) ''This'', IN (T ''UINTN'') ''ModeNumber'']"

definition EFI_TEXT_SET_ATTRIBUTE :: proto where [protos]:
  "EFI_TEXT_SET_ATTRIBUTE = Fun (T ''EFI_STATUS'')
     [IN (To (T ''EFI_SIMPLE_TEXT_OUTPUT_PROTOCOL'')) ''This'', IN (T ''UINTN'') ''Attribute'']"

definition EFI_TEXT_CLEAR_SCREEN :: proto where [protos]:
  "EFI_TEXT_CLEAR_SCREEN = Fun (T ''EFI_STATUS'') [IN (To (T ''EFI_SIMPLE_TEXT_OUTPUT_PROTOCOL'')) ''This'']"

definition EFI_TEXT_SET_CURSOR_POSITION :: proto where [protos]:
  "EFI_TEXT_SET_CURSOR_POSITION = Fun (T ''EFI_STATUS'')
     [IN (To (T ''EFI_SIMPLE_TEXT_OUTPUT_PROTOCOL'')) ''This'', IN (T ''UINTN'') ''Column'',
      IN (T ''UINTN'') ''Row'']"

definition EFI_TEXT_ENABLE_CURSOR :: proto where [protos]:
  "EFI_TEXT_ENABLE_CURSOR = Fun (T ''EFI_STATUS'')
     [IN (To (T ''EFI_SIMPLE_TEXT_OUTPUT_PROTOCOL'')) ''This'', IN (T ''BOOLEAN'') ''Visible'']"

definition SimpleTextOut_protos :: "(string \<times> proto) list" where
  "SimpleTextOut_protos =
     [(''EFI_TEXT_RESET'', EFI_TEXT_RESET), (''EFI_TEXT_STRING'', EFI_TEXT_STRING),
      (''EFI_TEXT_TEST_STRING'', EFI_TEXT_TEST_STRING), (''EFI_TEXT_QUERY_MODE'', EFI_TEXT_QUERY_MODE),
      (''EFI_TEXT_SET_MODE'', EFI_TEXT_SET_MODE), (''EFI_TEXT_SET_ATTRIBUTE'', EFI_TEXT_SET_ATTRIBUTE),
      (''EFI_TEXT_CLEAR_SCREEN'', EFI_TEXT_CLEAR_SCREEN),
      (''EFI_TEXT_SET_CURSOR_POSITION'', EFI_TEXT_SET_CURSOR_POSITION),
      (''EFI_TEXT_ENABLE_CURSOR'', EFI_TEXT_ENABLE_CURSOR)]"

section \<open>Tables of services\<close>

text \<open>The members of the tables that are services, with their types.\<close>

definition boot_services :: "(string \<times> proto) list" where
  "boot_services =
     [(''RaiseTPL'', EFI_RAISE_TPL), (''RestoreTPL'', EFI_RESTORE_TPL),
      (''AllocatePages'', EFI_ALLOCATE_PAGES), (''FreePages'', EFI_FREE_PAGES),
      (''GetMemoryMap'', EFI_GET_MEMORY_MAP), (''AllocatePool'', EFI_ALLOCATE_POOL),
      (''FreePool'', EFI_FREE_POOL), (''CreateEvent'', EFI_CREATE_EVENT), (''SetTimer'', EFI_SET_TIMER),
      (''WaitForEvent'', EFI_WAIT_FOR_EVENT), (''SignalEvent'', EFI_SIGNAL_EVENT),
      (''CloseEvent'', EFI_CLOSE_EVENT), (''CheckEvent'', EFI_CHECK_EVENT),
      (''InstallProtocolInterface'', EFI_INSTALL_PROTOCOL_INTERFACE),
      (''ReinstallProtocolInterface'', EFI_REINSTALL_PROTOCOL_INTERFACE),
      (''UninstallProtocolInterface'', EFI_UNINSTALL_PROTOCOL_INTERFACE),
      (''HandleProtocol'', EFI_HANDLE_PROTOCOL), (''RegisterProtocolNotify'', EFI_REGISTER_PROTOCOL_NOTIFY),
      (''LocateHandle'', EFI_LOCATE_HANDLE), (''LocateDevicePath'', EFI_LOCATE_DEVICE_PATH),
      (''InstallConfigurationTable'', EFI_INSTALL_CONFIGURATION_TABLE), (''LoadImage'', EFI_IMAGE_LOAD),
      (''StartImage'', EFI_IMAGE_START), (''Exit'', EFI_EXIT), (''UnloadImage'', EFI_IMAGE_UNLOAD),
      (''ExitBootServices'', EFI_EXIT_BOOT_SERVICES),
      (''GetNextMonotonicCount'', EFI_GET_NEXT_MONOTONIC_COUNT), (''Stall'', EFI_STALL),
      (''SetWatchdogTimer'', EFI_SET_WATCHDOG_TIMER), (''ConnectController'', EFI_CONNECT_CONTROLLER),
      (''DisconnectController'', EFI_DISCONNECT_CONTROLLER), (''OpenProtocol'', EFI_OPEN_PROTOCOL),
      (''CloseProtocol'', EFI_CLOSE_PROTOCOL), (''OpenProtocolInformation'', EFI_OPEN_PROTOCOL_INFORMATION),
      (''ProtocolsPerHandle'', EFI_PROTOCOLS_PER_HANDLE), (''LocateHandleBuffer'', EFI_LOCATE_HANDLE_BUFFER),
      (''LocateProtocol'', EFI_LOCATE_PROTOCOL),
      (''InstallMultipleProtocolInterfaces'', EFI_INSTALL_MULTIPLE_PROTOCOL_INTERFACES),
      (''UninstallMultipleProtocolInterfaces'', EFI_UNINSTALL_MULTIPLE_PROTOCOL_INTERFACES),
      (''CalculateCrc32'', EFI_CALCULATE_CRC32), (''CopyMem'', EFI_COPY_MEM), (''SetMem'', EFI_SET_MEM),
      (''CreateEventEx'', EFI_CREATE_EVENT_EX)]"

definition runtime_services :: "(string \<times> proto) list" where
  "runtime_services =
     [(''GetTime'', EFI_GET_TIME), (''SetTime'', EFI_SET_TIME), (''GetWakeupTime'', EFI_GET_WAKEUP_TIME),
      (''SetWakeupTime'', EFI_SET_WAKEUP_TIME), (''SetVirtualAddressMap'', EFI_SET_VIRTUAL_ADDRESS_MAP),
      (''ConvertPointer'', EFI_CONVERT_POINTER), (''GetVariable'', EFI_GET_VARIABLE),
      (''GetNextVariableName'', EFI_GET_NEXT_VARIABLE_NAME), (''SetVariable'', EFI_SET_VARIABLE),
      (''GetNextHighMonotonicCount'', EFI_GET_NEXT_HIGH_MONO_COUNT), (''ResetSystem'', EFI_RESET_SYSTEM),
      (''UpdateCapsule'', EFI_UPDATE_CAPSULE), (''QueryCapsuleCapabilities'', EFI_QUERY_CAPSULE_CAPABILITIES),
      (''QueryVariableInfo'', EFI_QUERY_VARIABLE_INFO)]"

definition text_input_services :: "(string \<times> proto) list" where
  "text_input_services =
     [(''Reset'', EFI_INPUT_RESET), (''ReadKeyStroke'', EFI_INPUT_READ_KEY)]"

definition text_input_ex_services :: "(string \<times> proto) list" where
  "text_input_ex_services =
     [(''Reset'', EFI_INPUT_RESET_EX), (''ReadKeyStrokeEx'', EFI_INPUT_READ_KEY_EX),
      (''SetState'', EFI_SET_STATE), (''RegisterKeyNotify'', EFI_REGISTER_KEYSTROKE_NOTIFY),
      (''UnregisterKeyNotify'', EFI_UNREGISTER_KEYSTROKE_NOTIFY)]"

definition text_output_services :: "(string \<times> proto) list" where
  "text_output_services =
     [(''Reset'', EFI_TEXT_RESET), (''OutputString'', EFI_TEXT_STRING),
      (''TestString'', EFI_TEXT_TEST_STRING), (''QueryMode'', EFI_TEXT_QUERY_MODE),
      (''SetMode'', EFI_TEXT_SET_MODE), (''SetAttribute'', EFI_TEXT_SET_ATTRIBUTE),
      (''ClearScreen'', EFI_TEXT_CLEAR_SCREEN), (''SetCursorPosition'', EFI_TEXT_SET_CURSOR_POSITION),
      (''EnableCursor'', EFI_TEXT_ENABLE_CURSOR)]"


end
