(* ===== verification/Declared_Calls.thy ===== *)
theory Declared_Calls imports Library_Heads Service_Prototypes begin

text \<open>
  The declarations of all functions and services together, with checks on them: parameters fit the slots of the
  calling convention, the definitions have the types that the headers declare, and the services are members
  of their tables. The further arguments of variadic functions are found with the macros of \<open>Base.h\<close>.
\<close>

section \<open>Declarations\<close>

definition declared :: "(string \<times> proto) list" where
  "declared = BaseLib_protos_1 @ BaseLib_protos_2 @ BaseLib_protos_3 @ BaseLib_protos_4 @ BaseLib_protos_5 @
     BaseLibInternals_protos @ BaseMemoryLib_protos @ DebugLib_protos @ PcdLib_protos @ EntryPoint_protos @
     AutoGen_protos @ UefiSpec_protos @ SimpleTextIn_protos @ SimpleTextInEx_protos @ SimpleTextOut_protos"

text \<open>
  The functions that a file defines and a header declares under the same name, with both types; the workers of
  \<open>BitField.c\<close> and \<open>LinkedList.c\<close>, \<open>ExitDriver\<close> and \<open>ProcessModuleUnloadList\<close> are not among them.
\<close>

definition linked_functions :: "(string \<times> proto \<times> proto) list" where
  "linked_functions = BitField_functions @ CheckSum_functions @ LinkedList_functions @ String_functions @
     SwapBytes16_functions @ ModU64x32_functions @ MultU64x64_functions @ DivS64x64Remainder_functions @
     LongJump_functions @ X86PatchInstruction_functions @ AutoGen_functions @ HelloWorld_functions"

definition service_tables :: "(ctype \<times> (string \<times> proto) list) list" where
  "service_tables =
     [(EFI_BOOT_SERVICES, boot_services), (EFI_RUNTIME_SERVICES, runtime_services),
      (EFI_SIMPLE_TEXT_INPUT_PROTOCOL, text_input_services),
      (EFI_SIMPLE_TEXT_INPUT_EX_PROTOCOL, text_input_ex_services),
      (EFI_SIMPLE_TEXT_OUTPUT_PROTOCOL, text_output_services)]"

fun writable :: "type_name \<Rightarrow> bool" where
  "writable (To (Const t)) = False"
| "writable (To t) = True"
| "writable t = False"

definition proto_ok :: "proto \<Rightarrow> bool" where
  "proto_ok p \<longleftrightarrow> slot_types p \<noteq> None \<and> (result_type p = VOID \<or> slot_type (result_type p) \<noteq> None) \<and>
     distinct (map parameter_name (parameters p)) \<and>
     list_all (\<lambda>x. written x \<longrightarrow> writable (parameter_type x)) (parameters p) \<and>
     (variadic p \<longrightarrow> parameters p \<noteq> [])"

lemma slots:
  "slot_type (To t) = Some Type64"
  "slot_type (Const t) = slot_type t" "slot_type VOID = None"
  "slot_type (T ''UINT64'') = Some Type64" "slot_type (T ''INT64'') = Some Type64"
  "slot_type (T ''UINT32'') = Some Type32" "slot_type (T ''UINT16'') = Some Type16"
  "slot_type (T ''UINT8'') = Some Type8" "slot_type (T ''CHAR16'') = Some Type16"
  "slot_type (T ''CHAR8'') = Some Type8" "slot_type (T ''BOOLEAN'') = Some Type8"
  "slot_type (T ''UINTN'') = Some Type64" "slot_type (T ''INTN'') = Some Type64"
  "slot_type (T ''RETURN_STATUS'') = Some Type64" "slot_type (T ''EFI_STATUS'') = Some Type64"
  "slot_type (T ''EFI_HANDLE'') = Some Type64" "slot_type (T ''EFI_EVENT'') = Some Type64"
  "slot_type (T ''EFI_TPL'') = Some Type64" "slot_type (T ''PHYSICAL_ADDRESS'') = Some Type64"
  "slot_type (T ''EFI_PHYSICAL_ADDRESS'') = Some Type64" "slot_type (T ''EFI_ALLOCATE_TYPE'') = Some Type32"
  "slot_type (T ''EFI_MEMORY_TYPE'') = Some Type32" "slot_type (T ''EFI_TIMER_DELAY'') = Some Type32"
  "slot_type (T ''EFI_RESET_TYPE'') = Some Type32" "slot_type (T ''EFI_INTERFACE_TYPE'') = Some Type32"
  "slot_type (T ''EFI_LOCATE_SEARCH_TYPE'') = Some Type32" "slot_type (T ''PVALIDATE_PAGE_SIZE'') = Some Type32"
  "slot_type (T ''BASE_LIST'') = Some Type64" "slot_type (T ''VA_LIST'') = Some Type64"
  "slot_type (T ''SWITCH_STACK_ENTRY_POINT'') = Some Type64" "slot_type (T ''BASE_SORT_COMPARE'') = Some Type64"
  "slot_type (T ''PCD_CALLBACK'') = Some Type64" "slot_type (T ''EFI_EVENT_NOTIFY'') = Some Type64"
  "slot_type (T ''EFI_KEY_NOTIFY_FUNCTION'') = Some Type64"
  by (simp_all add: slot_type_def object_types_def layouts)

lemmas proto_simps = proto_ok_def slot_types_def protos slots

lemma BaseLib_1: "list_all (\<lambda>(f, p). proto_ok p) BaseLib_protos_1"
  by (simp add: BaseLib_protos_1_def) (simp add: proto_simps)

lemma BaseLib_2: "list_all (\<lambda>(f, p). proto_ok p) BaseLib_protos_2"
  by (simp add: BaseLib_protos_2_def) (simp add: proto_simps)

lemma BaseLib_3: "list_all (\<lambda>(f, p). proto_ok p) BaseLib_protos_3"
  by (simp add: BaseLib_protos_3_def) (simp add: proto_simps)

lemma BaseLib_4: "list_all (\<lambda>(f, p). proto_ok p) (BaseLib_protos_4 @ BaseLib_protos_5)"
  by (simp add: BaseLib_protos_4_def BaseLib_protos_5_def) (simp add: proto_simps)

lemma libraries: "list_all (\<lambda>(f, p). proto_ok p) (BaseLibInternals_protos @ BaseMemoryLib_protos @
    DebugLib_protos @ PcdLib_protos @ EntryPoint_protos @ AutoGen_protos)"
  by (simp add: BaseLibInternals_protos_def BaseMemoryLib_protos_def DebugLib_protos_def PcdLib_protos_def
      EntryPoint_protos_def AutoGen_protos_def) (simp add: proto_simps)

lemma services: "list_all (\<lambda>(f, p). proto_ok p)
    (UefiSpec_protos @ SimpleTextIn_protos @ SimpleTextInEx_protos @ SimpleTextOut_protos)"
  by (simp add: UefiSpec_protos_def SimpleTextIn_protos_def SimpleTextInEx_protos_def SimpleTextOut_protos_def)
    (simp add: proto_simps)

lemma declared_ok: "list_all (\<lambda>(f, p). proto_ok p) declared"
  using BaseLib_1 BaseLib_2 BaseLib_3 BaseLib_4 libraries services by (simp add: declared_def)

lemma linked_ok: "list_all (\<lambda>(f, d, p). d = p \<and> proto_ok d) linked_functions"
  by (simp add: linked_functions_def BitField_functions_def CheckSum_functions_def LinkedList_functions_def
      String_functions_def SwapBytes16_functions_def ModU64x32_functions_def MultU64x64_functions_def
      DivS64x64Remainder_functions_def LongJump_functions_def X86PatchInstruction_functions_def
      AutoGen_functions_def HelloWorld_functions_def) (simp add: proto_simps)

section \<open>Parameters by name\<close>

definition bindings :: "proto \<Rightarrow> cpu \<Rightarrow> (string \<times> arg) list res option" where
  "bindings p s = map_option
     (\<lambda>ts. map_res (zip (map parameter_name (parameters p))) (receive ts s)) (slot_types p)"

lemma all_some_length: "all_some xs = Some ys \<Longrightarrow> length xs = length ys"
  by (induction xs arbitrary: ys rule: all_some.induct) auto

lemma bindings_received:
  assumes "slot_types p = Some (map type_of_arg as)" "receive (map type_of_arg as) s = Inr as"
  shows "bindings p s = Some (Inr (zip (map parameter_name (parameters p)) as))"
  using assms by (simp add: bindings_def map_res_def)

section \<open>Tables of services\<close>

text \<open>Each service is a pointer in its table.\<close>

fun is_table :: "ctype \<times> (string \<times> proto) list \<Rightarrow> bool" where
  "is_table (Struct k fs, ms) \<longleftrightarrow> distinct (map fst ms) \<and>
     list_all (\<lambda>(f, p). map_of fs f = Some Pointer \<and> proto_ok p) ms"
| "is_table (t, ms) \<longleftrightarrow> False"

lemma table_members:
  "is_table (EFI_BOOT_SERVICES, boot_services)" "is_table (EFI_RUNTIME_SERVICES, runtime_services)"
  "is_table (EFI_SIMPLE_TEXT_INPUT_PROTOCOL, text_input_services)"
  "is_table (EFI_SIMPLE_TEXT_INPUT_EX_PROTOCOL, text_input_ex_services)"
  "is_table (EFI_SIMPLE_TEXT_OUTPUT_PROTOCOL, text_output_services)"
  by (simp add: EFI_BOOT_SERVICES_def EFI_RUNTIME_SERVICES_def EFI_SIMPLE_TEXT_INPUT_PROTOCOL_def
      EFI_SIMPLE_TEXT_INPUT_EX_PROTOCOL_def EFI_SIMPLE_TEXT_OUTPUT_PROTOCOL_def boot_services_def
      runtime_services_def text_input_services_def text_input_ex_services_def text_output_services_def,
      simp add: proto_simps)+

lemma tables_ok: "list_all is_table service_tables"
  by (simp add: service_tables_def table_members del: is_table.simps)

section \<open>Further arguments\<close>

fun arg_bytes :: "arg_type \<Rightarrow> UINTN" where
  "arg_bytes Type8 = 1"
| "arg_bytes Type16 = 2"
| "arg_bytes Type32 = 4"
| "arg_bytes Type64 = 8"

lemma VA_START_slot: "VA_START p (arg_bytes t) = p + 8"
  by (cases t) (simp_all add: VA_START_def INT_SIZE_OF_def)

lemma zip_take_right: "zip xs (take k ys) = take k (zip xs ys)"
proof (induction ys arbitrary: k xs)
  case (Cons y ys)
  then show ?case by (cases k; cases xs) simp_all
qed simp

lemma received_prefix:
  assumes "receive (map type_of_arg (as @ bs)) s = Inr (as @ bs)"
  shows "receive (map type_of_arg as) s = Inr as"
proof -
  let ?r = "\<lambda>ts. get_args (Memory s) (RSP s + 40) (drop 4 ts)"
  obtain cs q where g: "?r (map type_of_arg (as @ bs)) = Inr (cs, q)" "get_regs (map type_of_arg (as @ bs)) s @ cs = as @ bs"
    using assms by (auto simp: receive_def map_res_def bindr_def split: sum.splits)
  have n: "length (get_regs (map type_of_arg (as @ bs)) s) = min 4 (length (as @ bs))" by (simp add: get_regs_def)
  have "get_regs (map type_of_arg (as @ bs)) s = take (min 4 (length (as @ bs))) (as @ bs)"
    "cs = drop (min 4 (length (as @ bs))) (as @ bs)"
    using g(2) n append_eq_conv_conj [of "get_regs (map type_of_arg (as @ bs)) s" cs "as @ bs"] by simp_all
  then have c: "cs = drop 4 (as @ bs)" and r: "get_regs (map type_of_arg (as @ bs)) s = take 4 (as @ bs)"
    by (simp_all add: min_def split: if_splits)
  have "get_regs (map type_of_arg as) s = take (length as) (get_regs (map type_of_arg (as @ bs)) s)"
    using zip_take_right [of "[RCX s, RDX s, R8 s, R9 s]" "length as" "map type_of_arg (as @ bs)"]
    by (simp add: get_regs_def take_map)
  moreover have "take (length as) (take 4 (as @ bs)) = take 4 (take (length as) (as @ bs))"
    by (simp only: take_take min.commute)
  ultimately have "get_regs (map type_of_arg as) s = take 4 as" unfolding r by simp
  moreover have "?r (map type_of_arg as) = Inr (drop 4 as, RSP s + 40 + of_nat (8 * length (drop 4 as)))"
  proof -
    have "get_args (Memory s) (RSP s + 40) (map type_of_arg (drop 4 (as @ bs))) = Inr (drop 4 (as @ bs), q)"
      using g(1) c by (simp add: drop_map)
    note each = get_args_each [OF this]
    have "get_args (Memory s) (RSP s + 40) (map type_of_arg (drop 4 as)) =
        Inr (drop 4 as, RSP s + 40 + of_nat (8 * length (drop 4 as)))"
    proof (rule get_args_all)
      fix i assume i: "i < length (drop 4 as)"
      have "drop 4 (as @ bs) ! i = drop 4 as ! i" "i < length (drop 4 (as @ bs))" using i by (simp_all add: nth_append)
      with each [of i] show "get_arg (Memory s) (RSP s + 40 + of_nat (8 * i)) (type_of_arg (drop 4 as ! i)) =
          Inr (drop 4 as ! i, RSP s + 40 + of_nat (8 * i) + 8)" by (simp only:)
    qed
    then show ?thesis by (simp add: drop_map)
  qed
  ultimately show ?thesis by (simp add: receive_def map_res_def)
qed

section \<open>Properties\<close>

text \<open>
  C23. Further arguments of variadic functions: a callee that stores the register arguments in the home area
  finds its parameters by name, and from the slot of its last parameter on, where \<open>VA_START\<close> points, all
  further arguments in order, however many of them were passed in registers.
\<close>

theorem variadic_arguments_found:
  assumes "(f, p) \<in> set declared" "variadic p" "slot_types p = Some (map type_of_arg as)"
    and "buffer (Memory s) (RSP s - 8) (frame_size (as @ bs))"
  shows "as \<noteq> [] \<and> (\<exists>s' s''. call ra (as @ bs) s = Inr s' \<and> home s' = Inr s'' \<and>
      bindings p s' = Some (Inr (zip (map parameter_name (parameters p)) as)) \<and>
      get_args (Memory s'') (VA_START (parameter_slot s'' (length as - 1)) (arg_bytes (type_of_arg (last as))))
        (map type_of_arg bs) = Inr (bs, parameter_slot s'' (length (as @ bs))))"
proof -
  have ok: "proto_ok p" using declared_ok assms(1) by (auto simp: list_all_iff)
  have "length (parameters p) = length as"
    using assms(3) by (auto simp: slot_types_def dest: all_some_length)
  then have ne: "as \<noteq> []" using ok assms(2) by (auto simp: proto_ok_def)
  obtain s' where s': "call ra (as @ bs) s = Inr s'" "receive (map type_of_arg (as @ bs)) s' = Inr (as @ bs)"
    using call_received [OF assms(4)] by blast
  obtain t s'' where t: "call ra (as @ bs) s = Inr t" "home t = Inr s''"
    and v: "\<forall>k\<le>length (as @ bs). get_args (Memory s'') (parameter_slot s'' k) (map type_of_arg (drop k (as @ bs))) =
      Inr (drop k (as @ bs), parameter_slot s'' (length (as @ bs)))"
    using variadic_received [OF assms(4)] by blast
  have st: "t = s'" using s'(1) t(1) by simp
  have "VA_START (parameter_slot s'' (length as - 1)) (arg_bytes (type_of_arg (last as))) = parameter_slot s'' (length as)"
    using ne by (cases as) (simp_all add: VA_START_slot parameter_slot_def algebra_simps)
  then show ?thesis
    using ne s' t(2) v [THEN spec, of "length as"] bindings_received [OF assms(3) received_prefix [OF s'(2)]]
    unfolding st by auto
qed

theorem variadic_arguments_found_witness:
  "\<exists>s' s''. call 0x400 [Arg64 0x80000000, Arg64 0x900, Arg32 7, Arg64 8, Arg8 9]
      \<lparr>RAX = 1, RCX = 2, RDX = 3, R8 = 0xFFFFFFFFFFFFFFFF, R9 = 5, RSP = 72, Memory = sample_mem 64 (replicate 48 7)\<rparr> = Inr s' \<and>
    home s' = Inr s'' \<and>
    get_args (Memory s'') (VA_START (parameter_slot s'' 1) 8) [Type32, Type64, Type8] =
      Inr ([Arg32 7, Arg64 8, Arg8 9], parameter_slot s'' 5)"
proof -
  let ?as = "[Arg64 0x80000000, Arg64 0x900]" and ?bs = "[Arg32 7, Arg64 8, Arg8 9]"
  let ?s = "\<lparr>RAX = 1, RCX = 2, RDX = 3, R8 = 0xFFFFFFFFFFFFFFFF, R9 = 5, RSP = 72,
    Memory = sample_mem 64 (replicate 48 7)\<rparr> :: cpu"
  have d: "(''DebugPrint'', DebugPrint_proto) \<in> set declared" by (simp add: declared_def DebugLib_protos_def)
  have v: "variadic DebugPrint_proto" "slot_types DebugPrint_proto = Some (map type_of_arg ?as)"
    by (simp_all add: DebugPrint_proto_def slot_types_def slots)
  have b: "buffer (Memory ?s) (RSP ?s - 8) (frame_size (?as @ ?bs))"
    using sample_buffer [of 64 "replicate 48 7" 0 48] by (simp add: frame_size_def)
  from variadic_arguments_found [OF d v b, where ra = "0x400"] show ?thesis
    by (auto simp: numeral_eq_Suc) 
qed

end
