(* ===== verification/Acpi_Revisions.thy ===== *)
theory Acpi_Revisions imports Acpi_Compat begin

text \<open>
  The revisions that the ACPI headers give to tables, with the layouts they have for them: revisions do
  not go back, and a revision tells where the members are.
\<close>

named_theorems revisions \<open>revisions of tables\<close>

section \<open>Acpi10.h\<close>

definition EFI_ACPI_1_0_ROOT_SYSTEM_DESCRIPTION_TABLE_REVISION :: nat where [revisions]:
  "EFI_ACPI_1_0_ROOT_SYSTEM_DESCRIPTION_TABLE_REVISION = 1"

definition EFI_ACPI_1_0_FIXED_ACPI_DESCRIPTION_TABLE_REVISION :: nat where [revisions]:
  "EFI_ACPI_1_0_FIXED_ACPI_DESCRIPTION_TABLE_REVISION = 1"

definition EFI_ACPI_1_0_MULTIPLE_APIC_DESCRIPTION_TABLE_REVISION :: nat where [revisions]:
  "EFI_ACPI_1_0_MULTIPLE_APIC_DESCRIPTION_TABLE_REVISION = 1"

section \<open>Acpi20.h\<close>

definition EFI_ACPI_2_0_ROOT_SYSTEM_DESCRIPTION_POINTER_REVISION :: nat where [revisions]:
  "EFI_ACPI_2_0_ROOT_SYSTEM_DESCRIPTION_POINTER_REVISION = 2"

definition EFI_ACPI_2_0_ROOT_SYSTEM_DESCRIPTION_TABLE_REVISION :: nat where [revisions]:
  "EFI_ACPI_2_0_ROOT_SYSTEM_DESCRIPTION_TABLE_REVISION = 1"

definition EFI_ACPI_2_0_EXTENDED_SYSTEM_DESCRIPTION_TABLE_REVISION :: nat where [revisions]:
  "EFI_ACPI_2_0_EXTENDED_SYSTEM_DESCRIPTION_TABLE_REVISION = 1"

definition EFI_ACPI_2_0_FIXED_ACPI_DESCRIPTION_TABLE_REVISION :: nat where [revisions]:
  "EFI_ACPI_2_0_FIXED_ACPI_DESCRIPTION_TABLE_REVISION = 3"

definition EFI_ACPI_2_0_FIRMWARE_ACPI_CONTROL_STRUCTURE_VERSION :: nat where [revisions]:
  "EFI_ACPI_2_0_FIRMWARE_ACPI_CONTROL_STRUCTURE_VERSION = 1"

definition EFI_ACPI_2_0_MULTIPLE_APIC_DESCRIPTION_TABLE_REVISION :: nat where [revisions]:
  "EFI_ACPI_2_0_MULTIPLE_APIC_DESCRIPTION_TABLE_REVISION = 1"

definition EFI_ACPI_2_0_SMART_BATTERY_DESCRIPTION_TABLE_REVISION :: nat where [revisions]:
  "EFI_ACPI_2_0_SMART_BATTERY_DESCRIPTION_TABLE_REVISION = 1"

definition EFI_ACPI_2_0_EMBEDDED_CONTROLLER_BOOT_RESOURCES_TABLE_REVISION :: nat where [revisions]:
  "EFI_ACPI_2_0_EMBEDDED_CONTROLLER_BOOT_RESOURCES_TABLE_REVISION = 1"

section \<open>Acpi30.h\<close>

definition EFI_ACPI_3_0_ROOT_SYSTEM_DESCRIPTION_POINTER_REVISION :: nat where [revisions]:
  "EFI_ACPI_3_0_ROOT_SYSTEM_DESCRIPTION_POINTER_REVISION = 2"

definition EFI_ACPI_3_0_ROOT_SYSTEM_DESCRIPTION_TABLE_REVISION :: nat where [revisions]:
  "EFI_ACPI_3_0_ROOT_SYSTEM_DESCRIPTION_TABLE_REVISION = 1"

definition EFI_ACPI_3_0_EXTENDED_SYSTEM_DESCRIPTION_TABLE_REVISION :: nat where [revisions]:
  "EFI_ACPI_3_0_EXTENDED_SYSTEM_DESCRIPTION_TABLE_REVISION = 1"

definition EFI_ACPI_3_0_FIXED_ACPI_DESCRIPTION_TABLE_REVISION :: nat where [revisions]:
  "EFI_ACPI_3_0_FIXED_ACPI_DESCRIPTION_TABLE_REVISION = 4"

definition EFI_ACPI_3_0_FIRMWARE_ACPI_CONTROL_STRUCTURE_VERSION :: nat where [revisions]:
  "EFI_ACPI_3_0_FIRMWARE_ACPI_CONTROL_STRUCTURE_VERSION = 1"

definition EFI_ACPI_3_0_DIFFERENTIATED_SYSTEM_DESCRIPTION_TABLE_REVISION :: nat where [revisions]:
  "EFI_ACPI_3_0_DIFFERENTIATED_SYSTEM_DESCRIPTION_TABLE_REVISION = 2"

definition EFI_ACPI_3_0_SECONDARY_SYSTEM_DESCRIPTION_TABLE_REVISION :: nat where [revisions]:
  "EFI_ACPI_3_0_SECONDARY_SYSTEM_DESCRIPTION_TABLE_REVISION = 2"

definition EFI_ACPI_3_0_MULTIPLE_APIC_DESCRIPTION_TABLE_REVISION :: nat where [revisions]:
  "EFI_ACPI_3_0_MULTIPLE_APIC_DESCRIPTION_TABLE_REVISION = 2"

definition EFI_ACPI_3_0_SMART_BATTERY_DESCRIPTION_TABLE_REVISION :: nat where [revisions]:
  "EFI_ACPI_3_0_SMART_BATTERY_DESCRIPTION_TABLE_REVISION = 1"

definition EFI_ACPI_3_0_EMBEDDED_CONTROLLER_BOOT_RESOURCES_TABLE_REVISION :: nat where [revisions]:
  "EFI_ACPI_3_0_EMBEDDED_CONTROLLER_BOOT_RESOURCES_TABLE_REVISION = 1"

definition EFI_ACPI_3_0_SYSTEM_RESOURCE_AFFINITY_TABLE_REVISION :: nat where [revisions]:
  "EFI_ACPI_3_0_SYSTEM_RESOURCE_AFFINITY_TABLE_REVISION = 2"

definition EFI_ACPI_3_0_SYSTEM_LOCALITY_DISTANCE_INFORMATION_TABLE_REVISION :: nat where [revisions]:
  "EFI_ACPI_3_0_SYSTEM_LOCALITY_DISTANCE_INFORMATION_TABLE_REVISION = 1"

section \<open>Acpi40.h\<close>

definition EFI_ACPI_4_0_ROOT_SYSTEM_DESCRIPTION_POINTER_REVISION :: nat where [revisions]:
  "EFI_ACPI_4_0_ROOT_SYSTEM_DESCRIPTION_POINTER_REVISION = 2"

definition EFI_ACPI_4_0_ROOT_SYSTEM_DESCRIPTION_TABLE_REVISION :: nat where [revisions]:
  "EFI_ACPI_4_0_ROOT_SYSTEM_DESCRIPTION_TABLE_REVISION = 1"

definition EFI_ACPI_4_0_EXTENDED_SYSTEM_DESCRIPTION_TABLE_REVISION :: nat where [revisions]:
  "EFI_ACPI_4_0_EXTENDED_SYSTEM_DESCRIPTION_TABLE_REVISION = 1"

definition EFI_ACPI_4_0_FIXED_ACPI_DESCRIPTION_TABLE_REVISION :: nat where [revisions]:
  "EFI_ACPI_4_0_FIXED_ACPI_DESCRIPTION_TABLE_REVISION = 4"

definition EFI_ACPI_4_0_FIRMWARE_ACPI_CONTROL_STRUCTURE_VERSION :: nat where [revisions]:
  "EFI_ACPI_4_0_FIRMWARE_ACPI_CONTROL_STRUCTURE_VERSION = 2"

definition EFI_ACPI_4_0_DIFFERENTIATED_SYSTEM_DESCRIPTION_TABLE_REVISION :: nat where [revisions]:
  "EFI_ACPI_4_0_DIFFERENTIATED_SYSTEM_DESCRIPTION_TABLE_REVISION = 2"

definition EFI_ACPI_4_0_SECONDARY_SYSTEM_DESCRIPTION_TABLE_REVISION :: nat where [revisions]:
  "EFI_ACPI_4_0_SECONDARY_SYSTEM_DESCRIPTION_TABLE_REVISION = 2"

definition EFI_ACPI_4_0_MULTIPLE_APIC_DESCRIPTION_TABLE_REVISION :: nat where [revisions]:
  "EFI_ACPI_4_0_MULTIPLE_APIC_DESCRIPTION_TABLE_REVISION = 3"

definition EFI_ACPI_4_0_SMART_BATTERY_DESCRIPTION_TABLE_REVISION :: nat where [revisions]:
  "EFI_ACPI_4_0_SMART_BATTERY_DESCRIPTION_TABLE_REVISION = 1"

definition EFI_ACPI_4_0_EMBEDDED_CONTROLLER_BOOT_RESOURCES_TABLE_REVISION :: nat where [revisions]:
  "EFI_ACPI_4_0_EMBEDDED_CONTROLLER_BOOT_RESOURCES_TABLE_REVISION = 1"

definition EFI_ACPI_4_0_SYSTEM_RESOURCE_AFFINITY_TABLE_REVISION :: nat where [revisions]:
  "EFI_ACPI_4_0_SYSTEM_RESOURCE_AFFINITY_TABLE_REVISION = 3"

definition EFI_ACPI_4_0_SYSTEM_LOCALITY_DISTANCE_INFORMATION_TABLE_REVISION :: nat where [revisions]:
  "EFI_ACPI_4_0_SYSTEM_LOCALITY_DISTANCE_INFORMATION_TABLE_REVISION = 1"

definition EFI_ACPI_4_0_CORRECTED_PLATFORM_ERROR_POLLING_TABLE_REVISION :: nat where [revisions]:
  "EFI_ACPI_4_0_CORRECTED_PLATFORM_ERROR_POLLING_TABLE_REVISION = 1"

definition EFI_ACPI_4_0_MAXIMUM_SYSTEM_CHARACTERISTICS_TABLE_REVISION :: nat where [revisions]:
  "EFI_ACPI_4_0_MAXIMUM_SYSTEM_CHARACTERISTICS_TABLE_REVISION = 1"

definition EFI_ACPI_4_0_BOOT_ERROR_RECORD_TABLE_REVISION :: nat where [revisions]:
  "EFI_ACPI_4_0_BOOT_ERROR_RECORD_TABLE_REVISION = 1"

definition EFI_ACPI_4_0_GENERIC_ERROR_DATA_ENTRY_REVISION :: nat where [revisions]:
  "EFI_ACPI_4_0_GENERIC_ERROR_DATA_ENTRY_REVISION = 0x0201"

definition EFI_ACPI_4_0_HARDWARE_ERROR_SOURCE_TABLE_REVISION :: nat where [revisions]:
  "EFI_ACPI_4_0_HARDWARE_ERROR_SOURCE_TABLE_REVISION = 1"

definition EFI_ACPI_4_0_ERROR_RECORD_SERIALIZATION_TABLE_REVISION :: nat where [revisions]:
  "EFI_ACPI_4_0_ERROR_RECORD_SERIALIZATION_TABLE_REVISION = 1"

definition EFI_ACPI_4_0_ERROR_INJECTION_TABLE_REVISION :: nat where [revisions]:
  "EFI_ACPI_4_0_ERROR_INJECTION_TABLE_REVISION = 1"

section \<open>Acpi50.h\<close>

definition EFI_ACPI_5_0_ROOT_SYSTEM_DESCRIPTION_POINTER_REVISION :: nat where [revisions]:
  "EFI_ACPI_5_0_ROOT_SYSTEM_DESCRIPTION_POINTER_REVISION = 2"

definition EFI_ACPI_5_0_ROOT_SYSTEM_DESCRIPTION_TABLE_REVISION :: nat where [revisions]:
  "EFI_ACPI_5_0_ROOT_SYSTEM_DESCRIPTION_TABLE_REVISION = 1"

definition EFI_ACPI_5_0_EXTENDED_SYSTEM_DESCRIPTION_TABLE_REVISION :: nat where [revisions]:
  "EFI_ACPI_5_0_EXTENDED_SYSTEM_DESCRIPTION_TABLE_REVISION = 1"

definition EFI_ACPI_5_0_FIXED_ACPI_DESCRIPTION_TABLE_REVISION :: nat where [revisions]:
  "EFI_ACPI_5_0_FIXED_ACPI_DESCRIPTION_TABLE_REVISION = 5"

definition EFI_ACPI_5_0_FIRMWARE_ACPI_CONTROL_STRUCTURE_VERSION :: nat where [revisions]:
  "EFI_ACPI_5_0_FIRMWARE_ACPI_CONTROL_STRUCTURE_VERSION = 2"

definition EFI_ACPI_5_0_DIFFERENTIATED_SYSTEM_DESCRIPTION_TABLE_REVISION :: nat where [revisions]:
  "EFI_ACPI_5_0_DIFFERENTIATED_SYSTEM_DESCRIPTION_TABLE_REVISION = 2"

definition EFI_ACPI_5_0_SECONDARY_SYSTEM_DESCRIPTION_TABLE_REVISION :: nat where [revisions]:
  "EFI_ACPI_5_0_SECONDARY_SYSTEM_DESCRIPTION_TABLE_REVISION = 2"

definition EFI_ACPI_5_0_MULTIPLE_APIC_DESCRIPTION_TABLE_REVISION :: nat where [revisions]:
  "EFI_ACPI_5_0_MULTIPLE_APIC_DESCRIPTION_TABLE_REVISION = 3"

definition EFI_ACPI_5_0_SMART_BATTERY_DESCRIPTION_TABLE_REVISION :: nat where [revisions]:
  "EFI_ACPI_5_0_SMART_BATTERY_DESCRIPTION_TABLE_REVISION = 1"

definition EFI_ACPI_5_0_EMBEDDED_CONTROLLER_BOOT_RESOURCES_TABLE_REVISION :: nat where [revisions]:
  "EFI_ACPI_5_0_EMBEDDED_CONTROLLER_BOOT_RESOURCES_TABLE_REVISION = 1"

definition EFI_ACPI_5_0_SYSTEM_RESOURCE_AFFINITY_TABLE_REVISION :: nat where [revisions]:
  "EFI_ACPI_5_0_SYSTEM_RESOURCE_AFFINITY_TABLE_REVISION = 3"

definition EFI_ACPI_5_0_SYSTEM_LOCALITY_DISTANCE_INFORMATION_TABLE_REVISION :: nat where [revisions]:
  "EFI_ACPI_5_0_SYSTEM_LOCALITY_DISTANCE_INFORMATION_TABLE_REVISION = 1"

definition EFI_ACPI_5_0_CORRECTED_PLATFORM_ERROR_POLLING_TABLE_REVISION :: nat where [revisions]:
  "EFI_ACPI_5_0_CORRECTED_PLATFORM_ERROR_POLLING_TABLE_REVISION = 1"

definition EFI_ACPI_5_0_MAXIMUM_SYSTEM_CHARACTERISTICS_TABLE_REVISION :: nat where [revisions]:
  "EFI_ACPI_5_0_MAXIMUM_SYSTEM_CHARACTERISTICS_TABLE_REVISION = 1"

definition EFI_ACPI_5_0_RAS_FEATURE_TABLE_REVISION :: nat where [revisions]:
  "EFI_ACPI_5_0_RAS_FEATURE_TABLE_REVISION = 1"

definition EFI_ACPI_5_0_MEMORY_POWER_STATE_TABLE_REVISION :: nat where [revisions]:
  "EFI_ACPI_5_0_MEMORY_POWER_STATE_TABLE_REVISION = 1"

definition EFI_ACPI_5_0_MEMORY_TOPOLOGY_TABLE_REVISION :: nat where [revisions]:
  "EFI_ACPI_5_0_MEMORY_TOPOLOGY_TABLE_REVISION = 1"

definition EFI_ACPI_5_0_BOOT_GRAPHICS_RESOURCE_TABLE_REVISION :: nat where [revisions]:
  "EFI_ACPI_5_0_BOOT_GRAPHICS_RESOURCE_TABLE_REVISION = 1"

definition EFI_ACPI_5_0_BGRT_VERSION :: nat where [revisions]:
  "EFI_ACPI_5_0_BGRT_VERSION = 1"

definition EFI_ACPI_5_0_FIRMWARE_PERFORMANCE_DATA_TABLE_REVISION :: nat where [revisions]:
  "EFI_ACPI_5_0_FIRMWARE_PERFORMANCE_DATA_TABLE_REVISION = 1"

definition EFI_ACPI_5_0_GENERIC_TIMER_DESCRIPTION_TABLE_REVISION :: nat where [revisions]:
  "EFI_ACPI_5_0_GENERIC_TIMER_DESCRIPTION_TABLE_REVISION = 1"

definition EFI_ACPI_5_0_BOOT_ERROR_RECORD_TABLE_REVISION :: nat where [revisions]:
  "EFI_ACPI_5_0_BOOT_ERROR_RECORD_TABLE_REVISION = 1"

definition EFI_ACPI_5_0_GENERIC_ERROR_DATA_ENTRY_REVISION :: nat where [revisions]:
  "EFI_ACPI_5_0_GENERIC_ERROR_DATA_ENTRY_REVISION = 0x0201"

definition EFI_ACPI_5_0_HARDWARE_ERROR_SOURCE_TABLE_REVISION :: nat where [revisions]:
  "EFI_ACPI_5_0_HARDWARE_ERROR_SOURCE_TABLE_REVISION = 1"

definition EFI_ACPI_5_0_ERROR_RECORD_SERIALIZATION_TABLE_REVISION :: nat where [revisions]:
  "EFI_ACPI_5_0_ERROR_RECORD_SERIALIZATION_TABLE_REVISION = 1"

definition EFI_ACPI_5_0_ERROR_INJECTION_TABLE_REVISION :: nat where [revisions]:
  "EFI_ACPI_5_0_ERROR_INJECTION_TABLE_REVISION = 1"

definition EFI_ACPI_5_0_PLATFORM_COMMUNICATION_CHANNEL_TABLE_REVISION :: nat where [revisions]:
  "EFI_ACPI_5_0_PLATFORM_COMMUNICATION_CHANNEL_TABLE_REVISION = 1"

section \<open>Acpi51.h\<close>

definition EFI_ACPI_5_1_ROOT_SYSTEM_DESCRIPTION_POINTER_REVISION :: nat where [revisions]:
  "EFI_ACPI_5_1_ROOT_SYSTEM_DESCRIPTION_POINTER_REVISION = 2"

definition EFI_ACPI_5_1_ROOT_SYSTEM_DESCRIPTION_TABLE_REVISION :: nat where [revisions]:
  "EFI_ACPI_5_1_ROOT_SYSTEM_DESCRIPTION_TABLE_REVISION = 1"

definition EFI_ACPI_5_1_EXTENDED_SYSTEM_DESCRIPTION_TABLE_REVISION :: nat where [revisions]:
  "EFI_ACPI_5_1_EXTENDED_SYSTEM_DESCRIPTION_TABLE_REVISION = 1"

definition EFI_ACPI_5_1_FIXED_ACPI_DESCRIPTION_TABLE_REVISION :: nat where [revisions]:
  "EFI_ACPI_5_1_FIXED_ACPI_DESCRIPTION_TABLE_REVISION = 5"

definition EFI_ACPI_5_1_FIXED_ACPI_DESCRIPTION_TABLE_MINOR_REVISION :: nat where [revisions]:
  "EFI_ACPI_5_1_FIXED_ACPI_DESCRIPTION_TABLE_MINOR_REVISION = 1"

definition EFI_ACPI_5_1_FIRMWARE_ACPI_CONTROL_STRUCTURE_VERSION :: nat where [revisions]:
  "EFI_ACPI_5_1_FIRMWARE_ACPI_CONTROL_STRUCTURE_VERSION = 2"

definition EFI_ACPI_5_1_DIFFERENTIATED_SYSTEM_DESCRIPTION_TABLE_REVISION :: nat where [revisions]:
  "EFI_ACPI_5_1_DIFFERENTIATED_SYSTEM_DESCRIPTION_TABLE_REVISION = 2"

definition EFI_ACPI_5_1_SECONDARY_SYSTEM_DESCRIPTION_TABLE_REVISION :: nat where [revisions]:
  "EFI_ACPI_5_1_SECONDARY_SYSTEM_DESCRIPTION_TABLE_REVISION = 2"

definition EFI_ACPI_5_1_MULTIPLE_APIC_DESCRIPTION_TABLE_REVISION :: nat where [revisions]:
  "EFI_ACPI_5_1_MULTIPLE_APIC_DESCRIPTION_TABLE_REVISION = 3"

definition EFI_ACPI_5_1_SMART_BATTERY_DESCRIPTION_TABLE_REVISION :: nat where [revisions]:
  "EFI_ACPI_5_1_SMART_BATTERY_DESCRIPTION_TABLE_REVISION = 1"

definition EFI_ACPI_5_1_EMBEDDED_CONTROLLER_BOOT_RESOURCES_TABLE_REVISION :: nat where [revisions]:
  "EFI_ACPI_5_1_EMBEDDED_CONTROLLER_BOOT_RESOURCES_TABLE_REVISION = 1"

definition EFI_ACPI_5_1_SYSTEM_RESOURCE_AFFINITY_TABLE_REVISION :: nat where [revisions]:
  "EFI_ACPI_5_1_SYSTEM_RESOURCE_AFFINITY_TABLE_REVISION = 3"

definition EFI_ACPI_5_1_SYSTEM_LOCALITY_DISTANCE_INFORMATION_TABLE_REVISION :: nat where [revisions]:
  "EFI_ACPI_5_1_SYSTEM_LOCALITY_DISTANCE_INFORMATION_TABLE_REVISION = 1"

definition EFI_ACPI_5_1_CORRECTED_PLATFORM_ERROR_POLLING_TABLE_REVISION :: nat where [revisions]:
  "EFI_ACPI_5_1_CORRECTED_PLATFORM_ERROR_POLLING_TABLE_REVISION = 1"

definition EFI_ACPI_5_1_MAXIMUM_SYSTEM_CHARACTERISTICS_TABLE_REVISION :: nat where [revisions]:
  "EFI_ACPI_5_1_MAXIMUM_SYSTEM_CHARACTERISTICS_TABLE_REVISION = 1"

definition EFI_ACPI_5_1_RAS_FEATURE_TABLE_REVISION :: nat where [revisions]:
  "EFI_ACPI_5_1_RAS_FEATURE_TABLE_REVISION = 1"

definition EFI_ACPI_5_1_MEMORY_POWER_STATE_TABLE_REVISION :: nat where [revisions]:
  "EFI_ACPI_5_1_MEMORY_POWER_STATE_TABLE_REVISION = 1"

definition EFI_ACPI_5_1_MEMORY_TOPOLOGY_TABLE_REVISION :: nat where [revisions]:
  "EFI_ACPI_5_1_MEMORY_TOPOLOGY_TABLE_REVISION = 1"

definition EFI_ACPI_5_1_BOOT_GRAPHICS_RESOURCE_TABLE_REVISION :: nat where [revisions]:
  "EFI_ACPI_5_1_BOOT_GRAPHICS_RESOURCE_TABLE_REVISION = 1"

definition EFI_ACPI_5_1_BGRT_VERSION :: nat where [revisions]:
  "EFI_ACPI_5_1_BGRT_VERSION = 1"

definition EFI_ACPI_5_1_FIRMWARE_PERFORMANCE_DATA_TABLE_REVISION :: nat where [revisions]:
  "EFI_ACPI_5_1_FIRMWARE_PERFORMANCE_DATA_TABLE_REVISION = 1"

definition EFI_ACPI_5_1_GENERIC_TIMER_DESCRIPTION_TABLE_REVISION :: nat where [revisions]:
  "EFI_ACPI_5_1_GENERIC_TIMER_DESCRIPTION_TABLE_REVISION = 2"

definition EFI_ACPI_5_1_BOOT_ERROR_RECORD_TABLE_REVISION :: nat where [revisions]:
  "EFI_ACPI_5_1_BOOT_ERROR_RECORD_TABLE_REVISION = 1"

definition EFI_ACPI_5_1_GENERIC_ERROR_DATA_ENTRY_REVISION :: nat where [revisions]:
  "EFI_ACPI_5_1_GENERIC_ERROR_DATA_ENTRY_REVISION = 0x0201"

definition EFI_ACPI_5_1_HARDWARE_ERROR_SOURCE_TABLE_REVISION :: nat where [revisions]:
  "EFI_ACPI_5_1_HARDWARE_ERROR_SOURCE_TABLE_REVISION = 1"

definition EFI_ACPI_5_1_ERROR_RECORD_SERIALIZATION_TABLE_REVISION :: nat where [revisions]:
  "EFI_ACPI_5_1_ERROR_RECORD_SERIALIZATION_TABLE_REVISION = 1"

definition EFI_ACPI_5_1_ERROR_INJECTION_TABLE_REVISION :: nat where [revisions]:
  "EFI_ACPI_5_1_ERROR_INJECTION_TABLE_REVISION = 1"

definition EFI_ACPI_5_1_PLATFORM_COMMUNICATION_CHANNEL_TABLE_REVISION :: nat where [revisions]:
  "EFI_ACPI_5_1_PLATFORM_COMMUNICATION_CHANNEL_TABLE_REVISION = 1"

section \<open>Acpi60.h\<close>

definition EFI_ACPI_6_0_ROOT_SYSTEM_DESCRIPTION_POINTER_REVISION :: nat where [revisions]:
  "EFI_ACPI_6_0_ROOT_SYSTEM_DESCRIPTION_POINTER_REVISION = 2"

definition EFI_ACPI_6_0_ROOT_SYSTEM_DESCRIPTION_TABLE_REVISION :: nat where [revisions]:
  "EFI_ACPI_6_0_ROOT_SYSTEM_DESCRIPTION_TABLE_REVISION = 1"

definition EFI_ACPI_6_0_EXTENDED_SYSTEM_DESCRIPTION_TABLE_REVISION :: nat where [revisions]:
  "EFI_ACPI_6_0_EXTENDED_SYSTEM_DESCRIPTION_TABLE_REVISION = 1"

definition EFI_ACPI_6_0_FIXED_ACPI_DESCRIPTION_TABLE_REVISION :: nat where [revisions]:
  "EFI_ACPI_6_0_FIXED_ACPI_DESCRIPTION_TABLE_REVISION = 6"

definition EFI_ACPI_6_0_FIXED_ACPI_DESCRIPTION_TABLE_MINOR_REVISION :: nat where [revisions]:
  "EFI_ACPI_6_0_FIXED_ACPI_DESCRIPTION_TABLE_MINOR_REVISION = 0"

definition EFI_ACPI_6_0_FIRMWARE_ACPI_CONTROL_STRUCTURE_VERSION :: nat where [revisions]:
  "EFI_ACPI_6_0_FIRMWARE_ACPI_CONTROL_STRUCTURE_VERSION = 2"

definition EFI_ACPI_6_0_DIFFERENTIATED_SYSTEM_DESCRIPTION_TABLE_REVISION :: nat where [revisions]:
  "EFI_ACPI_6_0_DIFFERENTIATED_SYSTEM_DESCRIPTION_TABLE_REVISION = 2"

definition EFI_ACPI_6_0_SECONDARY_SYSTEM_DESCRIPTION_TABLE_REVISION :: nat where [revisions]:
  "EFI_ACPI_6_0_SECONDARY_SYSTEM_DESCRIPTION_TABLE_REVISION = 2"

definition EFI_ACPI_6_0_MULTIPLE_APIC_DESCRIPTION_TABLE_REVISION :: nat where [revisions]:
  "EFI_ACPI_6_0_MULTIPLE_APIC_DESCRIPTION_TABLE_REVISION = 4"

definition EFI_ACPI_6_0_SMART_BATTERY_DESCRIPTION_TABLE_REVISION :: nat where [revisions]:
  "EFI_ACPI_6_0_SMART_BATTERY_DESCRIPTION_TABLE_REVISION = 1"

definition EFI_ACPI_6_0_EMBEDDED_CONTROLLER_BOOT_RESOURCES_TABLE_REVISION :: nat where [revisions]:
  "EFI_ACPI_6_0_EMBEDDED_CONTROLLER_BOOT_RESOURCES_TABLE_REVISION = 1"

definition EFI_ACPI_6_0_SYSTEM_RESOURCE_AFFINITY_TABLE_REVISION :: nat where [revisions]:
  "EFI_ACPI_6_0_SYSTEM_RESOURCE_AFFINITY_TABLE_REVISION = 3"

definition EFI_ACPI_6_0_SYSTEM_LOCALITY_DISTANCE_INFORMATION_TABLE_REVISION :: nat where [revisions]:
  "EFI_ACPI_6_0_SYSTEM_LOCALITY_DISTANCE_INFORMATION_TABLE_REVISION = 1"

definition EFI_ACPI_6_0_CORRECTED_PLATFORM_ERROR_POLLING_TABLE_REVISION :: nat where [revisions]:
  "EFI_ACPI_6_0_CORRECTED_PLATFORM_ERROR_POLLING_TABLE_REVISION = 1"

definition EFI_ACPI_6_0_MAXIMUM_SYSTEM_CHARACTERISTICS_TABLE_REVISION :: nat where [revisions]:
  "EFI_ACPI_6_0_MAXIMUM_SYSTEM_CHARACTERISTICS_TABLE_REVISION = 1"

definition EFI_ACPI_6_0_RAS_FEATURE_TABLE_REVISION :: nat where [revisions]:
  "EFI_ACPI_6_0_RAS_FEATURE_TABLE_REVISION = 1"

definition EFI_ACPI_6_0_MEMORY_POWER_STATE_TABLE_REVISION :: nat where [revisions]:
  "EFI_ACPI_6_0_MEMORY_POWER_STATE_TABLE_REVISION = 1"

definition EFI_ACPI_6_0_MEMORY_TOPOLOGY_TABLE_REVISION :: nat where [revisions]:
  "EFI_ACPI_6_0_MEMORY_TOPOLOGY_TABLE_REVISION = 1"

definition EFI_ACPI_6_0_BOOT_GRAPHICS_RESOURCE_TABLE_REVISION :: nat where [revisions]:
  "EFI_ACPI_6_0_BOOT_GRAPHICS_RESOURCE_TABLE_REVISION = 1"

definition EFI_ACPI_6_0_BGRT_VERSION :: nat where [revisions]:
  "EFI_ACPI_6_0_BGRT_VERSION = 1"

definition EFI_ACPI_6_0_FIRMWARE_PERFORMANCE_DATA_TABLE_REVISION :: nat where [revisions]:
  "EFI_ACPI_6_0_FIRMWARE_PERFORMANCE_DATA_TABLE_REVISION = 1"

definition EFI_ACPI_6_0_GENERIC_TIMER_DESCRIPTION_TABLE_REVISION :: nat where [revisions]:
  "EFI_ACPI_6_0_GENERIC_TIMER_DESCRIPTION_TABLE_REVISION = 2"

definition EFI_ACPI_6_0_NVDIMM_FIRMWARE_INTERFACE_TABLE_REVISION :: nat where [revisions]:
  "EFI_ACPI_6_0_NVDIMM_FIRMWARE_INTERFACE_TABLE_REVISION = 1"

definition EFI_ACPI_6_0_BOOT_ERROR_RECORD_TABLE_REVISION :: nat where [revisions]:
  "EFI_ACPI_6_0_BOOT_ERROR_RECORD_TABLE_REVISION = 1"

definition EFI_ACPI_6_0_GENERIC_ERROR_DATA_ENTRY_REVISION :: nat where [revisions]:
  "EFI_ACPI_6_0_GENERIC_ERROR_DATA_ENTRY_REVISION = 0x0201"

definition EFI_ACPI_6_0_HARDWARE_ERROR_SOURCE_TABLE_REVISION :: nat where [revisions]:
  "EFI_ACPI_6_0_HARDWARE_ERROR_SOURCE_TABLE_REVISION = 1"

definition EFI_ACPI_6_0_ERROR_RECORD_SERIALIZATION_TABLE_REVISION :: nat where [revisions]:
  "EFI_ACPI_6_0_ERROR_RECORD_SERIALIZATION_TABLE_REVISION = 1"

definition EFI_ACPI_6_0_ERROR_INJECTION_TABLE_REVISION :: nat where [revisions]:
  "EFI_ACPI_6_0_ERROR_INJECTION_TABLE_REVISION = 1"

definition EFI_ACPI_6_0_PLATFORM_COMMUNICATION_CHANNEL_TABLE_REVISION :: nat where [revisions]:
  "EFI_ACPI_6_0_PLATFORM_COMMUNICATION_CHANNEL_TABLE_REVISION = 1"

section \<open>Tables\<close>

text \<open>Each table that has a revision, with its revision and its layout in the versions of the headers, in order.\<close>

definition fixed_acpi_description_table_versions :: "(nat \<times> ctype) list" where
  "fixed_acpi_description_table_versions =
     [(EFI_ACPI_1_0_FIXED_ACPI_DESCRIPTION_TABLE_REVISION, EFI_ACPI_1_0_FIXED_ACPI_DESCRIPTION_TABLE),
      (EFI_ACPI_2_0_FIXED_ACPI_DESCRIPTION_TABLE_REVISION, EFI_ACPI_2_0_FIXED_ACPI_DESCRIPTION_TABLE),
      (EFI_ACPI_3_0_FIXED_ACPI_DESCRIPTION_TABLE_REVISION, EFI_ACPI_3_0_FIXED_ACPI_DESCRIPTION_TABLE),
      (EFI_ACPI_4_0_FIXED_ACPI_DESCRIPTION_TABLE_REVISION, EFI_ACPI_4_0_FIXED_ACPI_DESCRIPTION_TABLE),
      (EFI_ACPI_5_0_FIXED_ACPI_DESCRIPTION_TABLE_REVISION, EFI_ACPI_5_0_FIXED_ACPI_DESCRIPTION_TABLE),
      (EFI_ACPI_5_1_FIXED_ACPI_DESCRIPTION_TABLE_REVISION, EFI_ACPI_5_1_FIXED_ACPI_DESCRIPTION_TABLE),
      (EFI_ACPI_6_0_FIXED_ACPI_DESCRIPTION_TABLE_REVISION, EFI_ACPI_6_0_FIXED_ACPI_DESCRIPTION_TABLE)]"

definition multiple_apic_description_table_versions :: "(nat \<times> ctype) list" where
  "multiple_apic_description_table_versions =
     [(EFI_ACPI_1_0_MULTIPLE_APIC_DESCRIPTION_TABLE_REVISION,
       EFI_ACPI_1_0_MULTIPLE_APIC_DESCRIPTION_TABLE_HEADER),
      (EFI_ACPI_2_0_MULTIPLE_APIC_DESCRIPTION_TABLE_REVISION,
       EFI_ACPI_2_0_MULTIPLE_APIC_DESCRIPTION_TABLE_HEADER),
      (EFI_ACPI_3_0_MULTIPLE_APIC_DESCRIPTION_TABLE_REVISION,
       EFI_ACPI_3_0_MULTIPLE_APIC_DESCRIPTION_TABLE_HEADER),
      (EFI_ACPI_4_0_MULTIPLE_APIC_DESCRIPTION_TABLE_REVISION,
       EFI_ACPI_4_0_MULTIPLE_APIC_DESCRIPTION_TABLE_HEADER),
      (EFI_ACPI_5_0_MULTIPLE_APIC_DESCRIPTION_TABLE_REVISION,
       EFI_ACPI_5_0_MULTIPLE_APIC_DESCRIPTION_TABLE_HEADER),
      (EFI_ACPI_5_1_MULTIPLE_APIC_DESCRIPTION_TABLE_REVISION,
       EFI_ACPI_5_1_MULTIPLE_APIC_DESCRIPTION_TABLE_HEADER),
      (EFI_ACPI_6_0_MULTIPLE_APIC_DESCRIPTION_TABLE_REVISION,
       EFI_ACPI_6_0_MULTIPLE_APIC_DESCRIPTION_TABLE_HEADER)]"

definition root_system_description_pointer_versions :: "(nat \<times> ctype) list" where
  "root_system_description_pointer_versions =
     [(EFI_ACPI_2_0_ROOT_SYSTEM_DESCRIPTION_POINTER_REVISION,
       EFI_ACPI_2_0_ROOT_SYSTEM_DESCRIPTION_POINTER),
      (EFI_ACPI_3_0_ROOT_SYSTEM_DESCRIPTION_POINTER_REVISION,
       EFI_ACPI_3_0_ROOT_SYSTEM_DESCRIPTION_POINTER),
      (EFI_ACPI_4_0_ROOT_SYSTEM_DESCRIPTION_POINTER_REVISION,
       EFI_ACPI_4_0_ROOT_SYSTEM_DESCRIPTION_POINTER),
      (EFI_ACPI_5_0_ROOT_SYSTEM_DESCRIPTION_POINTER_REVISION,
       EFI_ACPI_5_0_ROOT_SYSTEM_DESCRIPTION_POINTER),
      (EFI_ACPI_5_1_ROOT_SYSTEM_DESCRIPTION_POINTER_REVISION,
       EFI_ACPI_5_1_ROOT_SYSTEM_DESCRIPTION_POINTER),
      (EFI_ACPI_6_0_ROOT_SYSTEM_DESCRIPTION_POINTER_REVISION,
       EFI_ACPI_6_0_ROOT_SYSTEM_DESCRIPTION_POINTER)]"

definition firmware_acpi_control_structure_versions :: "(nat \<times> ctype) list" where
  "firmware_acpi_control_structure_versions =
     [(EFI_ACPI_2_0_FIRMWARE_ACPI_CONTROL_STRUCTURE_VERSION, EFI_ACPI_2_0_FIRMWARE_ACPI_CONTROL_STRUCTURE),
      (EFI_ACPI_3_0_FIRMWARE_ACPI_CONTROL_STRUCTURE_VERSION, EFI_ACPI_3_0_FIRMWARE_ACPI_CONTROL_STRUCTURE),
      (EFI_ACPI_4_0_FIRMWARE_ACPI_CONTROL_STRUCTURE_VERSION, EFI_ACPI_4_0_FIRMWARE_ACPI_CONTROL_STRUCTURE),
      (EFI_ACPI_5_0_FIRMWARE_ACPI_CONTROL_STRUCTURE_VERSION, EFI_ACPI_5_0_FIRMWARE_ACPI_CONTROL_STRUCTURE),
      (EFI_ACPI_5_1_FIRMWARE_ACPI_CONTROL_STRUCTURE_VERSION, EFI_ACPI_5_1_FIRMWARE_ACPI_CONTROL_STRUCTURE),
      (EFI_ACPI_6_0_FIRMWARE_ACPI_CONTROL_STRUCTURE_VERSION, EFI_ACPI_6_0_FIRMWARE_ACPI_CONTROL_STRUCTURE)]"

definition smart_battery_description_table_versions :: "(nat \<times> ctype) list" where
  "smart_battery_description_table_versions =
     [(EFI_ACPI_2_0_SMART_BATTERY_DESCRIPTION_TABLE_REVISION,
       EFI_ACPI_2_0_SMART_BATTERY_DESCRIPTION_TABLE),
      (EFI_ACPI_3_0_SMART_BATTERY_DESCRIPTION_TABLE_REVISION,
       EFI_ACPI_3_0_SMART_BATTERY_DESCRIPTION_TABLE),
      (EFI_ACPI_4_0_SMART_BATTERY_DESCRIPTION_TABLE_REVISION,
       EFI_ACPI_4_0_SMART_BATTERY_DESCRIPTION_TABLE),
      (EFI_ACPI_5_0_SMART_BATTERY_DESCRIPTION_TABLE_REVISION,
       EFI_ACPI_5_0_SMART_BATTERY_DESCRIPTION_TABLE),
      (EFI_ACPI_5_1_SMART_BATTERY_DESCRIPTION_TABLE_REVISION,
       EFI_ACPI_5_1_SMART_BATTERY_DESCRIPTION_TABLE),
      (EFI_ACPI_6_0_SMART_BATTERY_DESCRIPTION_TABLE_REVISION,
       EFI_ACPI_6_0_SMART_BATTERY_DESCRIPTION_TABLE)]"

definition embedded_controller_boot_resources_table_versions :: "(nat \<times> ctype) list" where
  "embedded_controller_boot_resources_table_versions =
     [(EFI_ACPI_2_0_EMBEDDED_CONTROLLER_BOOT_RESOURCES_TABLE_REVISION,
       EFI_ACPI_2_0_EMBEDDED_CONTROLLER_BOOT_RESOURCES_TABLE),
      (EFI_ACPI_3_0_EMBEDDED_CONTROLLER_BOOT_RESOURCES_TABLE_REVISION,
       EFI_ACPI_3_0_EMBEDDED_CONTROLLER_BOOT_RESOURCES_TABLE),
      (EFI_ACPI_4_0_EMBEDDED_CONTROLLER_BOOT_RESOURCES_TABLE_REVISION,
       EFI_ACPI_4_0_EMBEDDED_CONTROLLER_BOOT_RESOURCES_TABLE),
      (EFI_ACPI_5_0_EMBEDDED_CONTROLLER_BOOT_RESOURCES_TABLE_REVISION,
       EFI_ACPI_5_0_EMBEDDED_CONTROLLER_BOOT_RESOURCES_TABLE),
      (EFI_ACPI_5_1_EMBEDDED_CONTROLLER_BOOT_RESOURCES_TABLE_REVISION,
       EFI_ACPI_5_1_EMBEDDED_CONTROLLER_BOOT_RESOURCES_TABLE),
      (EFI_ACPI_6_0_EMBEDDED_CONTROLLER_BOOT_RESOURCES_TABLE_REVISION,
       EFI_ACPI_6_0_EMBEDDED_CONTROLLER_BOOT_RESOURCES_TABLE)]"

definition system_resource_affinity_table_versions :: "(nat \<times> ctype) list" where
  "system_resource_affinity_table_versions =
     [(EFI_ACPI_3_0_SYSTEM_RESOURCE_AFFINITY_TABLE_REVISION,
       EFI_ACPI_3_0_SYSTEM_RESOURCE_AFFINITY_TABLE_HEADER),
      (EFI_ACPI_4_0_SYSTEM_RESOURCE_AFFINITY_TABLE_REVISION,
       EFI_ACPI_4_0_SYSTEM_RESOURCE_AFFINITY_TABLE_HEADER),
      (EFI_ACPI_5_0_SYSTEM_RESOURCE_AFFINITY_TABLE_REVISION,
       EFI_ACPI_5_0_SYSTEM_RESOURCE_AFFINITY_TABLE_HEADER),
      (EFI_ACPI_5_1_SYSTEM_RESOURCE_AFFINITY_TABLE_REVISION,
       EFI_ACPI_5_1_SYSTEM_RESOURCE_AFFINITY_TABLE_HEADER),
      (EFI_ACPI_6_0_SYSTEM_RESOURCE_AFFINITY_TABLE_REVISION,
       EFI_ACPI_6_0_SYSTEM_RESOURCE_AFFINITY_TABLE_HEADER)]"

definition system_locality_distance_information_table_versions :: "(nat \<times> ctype) list" where
  "system_locality_distance_information_table_versions =
     [(EFI_ACPI_3_0_SYSTEM_LOCALITY_DISTANCE_INFORMATION_TABLE_REVISION,
       EFI_ACPI_3_0_SYSTEM_LOCALITY_DISTANCE_INFORMATION_TABLE_HEADER),
      (EFI_ACPI_4_0_SYSTEM_LOCALITY_DISTANCE_INFORMATION_TABLE_REVISION,
       EFI_ACPI_4_0_SYSTEM_LOCALITY_DISTANCE_INFORMATION_TABLE_HEADER),
      (EFI_ACPI_5_0_SYSTEM_LOCALITY_DISTANCE_INFORMATION_TABLE_REVISION,
       EFI_ACPI_5_0_SYSTEM_LOCALITY_DISTANCE_INFORMATION_TABLE_HEADER),
      (EFI_ACPI_5_1_SYSTEM_LOCALITY_DISTANCE_INFORMATION_TABLE_REVISION,
       EFI_ACPI_5_1_SYSTEM_LOCALITY_DISTANCE_INFORMATION_TABLE_HEADER),
      (EFI_ACPI_6_0_SYSTEM_LOCALITY_DISTANCE_INFORMATION_TABLE_REVISION,
       EFI_ACPI_6_0_SYSTEM_LOCALITY_DISTANCE_INFORMATION_TABLE_HEADER)]"

definition corrected_platform_error_polling_table_versions :: "(nat \<times> ctype) list" where
  "corrected_platform_error_polling_table_versions =
     [(EFI_ACPI_4_0_CORRECTED_PLATFORM_ERROR_POLLING_TABLE_REVISION,
       EFI_ACPI_4_0_CORRECTED_PLATFORM_ERROR_POLLING_TABLE_HEADER),
      (EFI_ACPI_5_0_CORRECTED_PLATFORM_ERROR_POLLING_TABLE_REVISION,
       EFI_ACPI_5_0_CORRECTED_PLATFORM_ERROR_POLLING_TABLE_HEADER),
      (EFI_ACPI_5_1_CORRECTED_PLATFORM_ERROR_POLLING_TABLE_REVISION,
       EFI_ACPI_5_1_CORRECTED_PLATFORM_ERROR_POLLING_TABLE_HEADER),
      (EFI_ACPI_6_0_CORRECTED_PLATFORM_ERROR_POLLING_TABLE_REVISION,
       EFI_ACPI_6_0_CORRECTED_PLATFORM_ERROR_POLLING_TABLE_HEADER)]"

definition maximum_system_characteristics_table_versions :: "(nat \<times> ctype) list" where
  "maximum_system_characteristics_table_versions =
     [(EFI_ACPI_4_0_MAXIMUM_SYSTEM_CHARACTERISTICS_TABLE_REVISION,
       EFI_ACPI_4_0_MAXIMUM_SYSTEM_CHARACTERISTICS_TABLE_HEADER),
      (EFI_ACPI_5_0_MAXIMUM_SYSTEM_CHARACTERISTICS_TABLE_REVISION,
       EFI_ACPI_5_0_MAXIMUM_SYSTEM_CHARACTERISTICS_TABLE_HEADER),
      (EFI_ACPI_5_1_MAXIMUM_SYSTEM_CHARACTERISTICS_TABLE_REVISION,
       EFI_ACPI_5_1_MAXIMUM_SYSTEM_CHARACTERISTICS_TABLE_HEADER),
      (EFI_ACPI_6_0_MAXIMUM_SYSTEM_CHARACTERISTICS_TABLE_REVISION,
       EFI_ACPI_6_0_MAXIMUM_SYSTEM_CHARACTERISTICS_TABLE_HEADER)]"

definition boot_error_record_table_versions :: "(nat \<times> ctype) list" where
  "boot_error_record_table_versions =
     [(EFI_ACPI_4_0_BOOT_ERROR_RECORD_TABLE_REVISION, EFI_ACPI_4_0_BOOT_ERROR_RECORD_TABLE_HEADER),
      (EFI_ACPI_5_0_BOOT_ERROR_RECORD_TABLE_REVISION, EFI_ACPI_5_0_BOOT_ERROR_RECORD_TABLE_HEADER),
      (EFI_ACPI_5_1_BOOT_ERROR_RECORD_TABLE_REVISION, EFI_ACPI_5_1_BOOT_ERROR_RECORD_TABLE_HEADER),
      (EFI_ACPI_6_0_BOOT_ERROR_RECORD_TABLE_REVISION, EFI_ACPI_6_0_BOOT_ERROR_RECORD_TABLE_HEADER)]"

definition generic_error_data_entry_versions :: "(nat \<times> ctype) list" where
  "generic_error_data_entry_versions =
     [(EFI_ACPI_4_0_GENERIC_ERROR_DATA_ENTRY_REVISION, EFI_ACPI_4_0_GENERIC_ERROR_DATA_ENTRY_STRUCTURE),
      (EFI_ACPI_5_0_GENERIC_ERROR_DATA_ENTRY_REVISION, EFI_ACPI_5_0_GENERIC_ERROR_DATA_ENTRY_STRUCTURE),
      (EFI_ACPI_5_1_GENERIC_ERROR_DATA_ENTRY_REVISION, EFI_ACPI_5_1_GENERIC_ERROR_DATA_ENTRY_STRUCTURE),
      (EFI_ACPI_6_0_GENERIC_ERROR_DATA_ENTRY_REVISION, EFI_ACPI_6_0_GENERIC_ERROR_DATA_ENTRY_STRUCTURE)]"

definition hardware_error_source_table_versions :: "(nat \<times> ctype) list" where
  "hardware_error_source_table_versions =
     [(EFI_ACPI_4_0_HARDWARE_ERROR_SOURCE_TABLE_REVISION, EFI_ACPI_4_0_HARDWARE_ERROR_SOURCE_TABLE_HEADER),
      (EFI_ACPI_5_0_HARDWARE_ERROR_SOURCE_TABLE_REVISION, EFI_ACPI_5_0_HARDWARE_ERROR_SOURCE_TABLE_HEADER),
      (EFI_ACPI_5_1_HARDWARE_ERROR_SOURCE_TABLE_REVISION, EFI_ACPI_5_1_HARDWARE_ERROR_SOURCE_TABLE_HEADER),
      (EFI_ACPI_6_0_HARDWARE_ERROR_SOURCE_TABLE_REVISION, EFI_ACPI_6_0_HARDWARE_ERROR_SOURCE_TABLE_HEADER)]"

definition error_record_serialization_table_versions :: "(nat \<times> ctype) list" where
  "error_record_serialization_table_versions =
     [(EFI_ACPI_4_0_ERROR_RECORD_SERIALIZATION_TABLE_REVISION,
       EFI_ACPI_4_0_ERROR_RECORD_SERIALIZATION_TABLE_HEADER),
      (EFI_ACPI_5_0_ERROR_RECORD_SERIALIZATION_TABLE_REVISION,
       EFI_ACPI_5_0_ERROR_RECORD_SERIALIZATION_TABLE_HEADER),
      (EFI_ACPI_5_1_ERROR_RECORD_SERIALIZATION_TABLE_REVISION,
       EFI_ACPI_5_1_ERROR_RECORD_SERIALIZATION_TABLE_HEADER),
      (EFI_ACPI_6_0_ERROR_RECORD_SERIALIZATION_TABLE_REVISION,
       EFI_ACPI_6_0_ERROR_RECORD_SERIALIZATION_TABLE_HEADER)]"

definition error_injection_table_versions :: "(nat \<times> ctype) list" where
  "error_injection_table_versions =
     [(EFI_ACPI_4_0_ERROR_INJECTION_TABLE_REVISION, EFI_ACPI_4_0_ERROR_INJECTION_TABLE_HEADER),
      (EFI_ACPI_5_0_ERROR_INJECTION_TABLE_REVISION, EFI_ACPI_5_0_ERROR_INJECTION_TABLE_HEADER),
      (EFI_ACPI_5_1_ERROR_INJECTION_TABLE_REVISION, EFI_ACPI_5_1_ERROR_INJECTION_TABLE_HEADER),
      (EFI_ACPI_6_0_ERROR_INJECTION_TABLE_REVISION, EFI_ACPI_6_0_ERROR_INJECTION_TABLE_HEADER)]"

definition ras_feature_table_versions :: "(nat \<times> ctype) list" where
  "ras_feature_table_versions =
     [(EFI_ACPI_5_0_RAS_FEATURE_TABLE_REVISION, EFI_ACPI_5_0_RAS_FEATURE_TABLE),
      (EFI_ACPI_5_1_RAS_FEATURE_TABLE_REVISION, EFI_ACPI_5_1_RAS_FEATURE_TABLE),
      (EFI_ACPI_6_0_RAS_FEATURE_TABLE_REVISION, EFI_ACPI_6_0_RAS_FEATURE_TABLE)]"

definition memory_power_state_table_versions :: "(nat \<times> ctype) list" where
  "memory_power_state_table_versions =
     [(EFI_ACPI_5_0_MEMORY_POWER_STATE_TABLE_REVISION, EFI_ACPI_5_0_MEMORY_POWER_STATUS_TABLE),
      (EFI_ACPI_5_1_MEMORY_POWER_STATE_TABLE_REVISION, EFI_ACPI_5_1_MEMORY_POWER_STATUS_TABLE),
      (EFI_ACPI_6_0_MEMORY_POWER_STATE_TABLE_REVISION, EFI_ACPI_6_0_MEMORY_POWER_STATUS_TABLE)]"

definition memory_topology_table_versions :: "(nat \<times> ctype) list" where
  "memory_topology_table_versions =
     [(EFI_ACPI_5_0_MEMORY_TOPOLOGY_TABLE_REVISION, EFI_ACPI_5_0_MEMORY_TOPOLOGY_TABLE),
      (EFI_ACPI_5_1_MEMORY_TOPOLOGY_TABLE_REVISION, EFI_ACPI_5_1_MEMORY_TOPOLOGY_TABLE),
      (EFI_ACPI_6_0_MEMORY_TOPOLOGY_TABLE_REVISION, EFI_ACPI_6_0_MEMORY_TOPOLOGY_TABLE)]"

definition boot_graphics_resource_table_versions :: "(nat \<times> ctype) list" where
  "boot_graphics_resource_table_versions =
     [(EFI_ACPI_5_0_BOOT_GRAPHICS_RESOURCE_TABLE_REVISION, EFI_ACPI_5_0_BOOT_GRAPHICS_RESOURCE_TABLE),
      (EFI_ACPI_5_1_BOOT_GRAPHICS_RESOURCE_TABLE_REVISION, EFI_ACPI_5_1_BOOT_GRAPHICS_RESOURCE_TABLE),
      (EFI_ACPI_6_0_BOOT_GRAPHICS_RESOURCE_TABLE_REVISION, EFI_ACPI_6_0_BOOT_GRAPHICS_RESOURCE_TABLE)]"

definition firmware_performance_data_table_versions :: "(nat \<times> ctype) list" where
  "firmware_performance_data_table_versions =
     [(EFI_ACPI_5_0_FIRMWARE_PERFORMANCE_DATA_TABLE_REVISION,
       EFI_ACPI_5_0_FIRMWARE_PERFORMANCE_RECORD_TABLE),
      (EFI_ACPI_5_1_FIRMWARE_PERFORMANCE_DATA_TABLE_REVISION,
       EFI_ACPI_5_1_FIRMWARE_PERFORMANCE_RECORD_TABLE),
      (EFI_ACPI_6_0_FIRMWARE_PERFORMANCE_DATA_TABLE_REVISION,
       EFI_ACPI_6_0_FIRMWARE_PERFORMANCE_RECORD_TABLE)]"

definition generic_timer_description_table_versions :: "(nat \<times> ctype) list" where
  "generic_timer_description_table_versions =
     [(EFI_ACPI_5_0_GENERIC_TIMER_DESCRIPTION_TABLE_REVISION,
       EFI_ACPI_5_0_GENERIC_TIMER_DESCRIPTION_TABLE),
      (EFI_ACPI_5_1_GENERIC_TIMER_DESCRIPTION_TABLE_REVISION,
       EFI_ACPI_5_1_GENERIC_TIMER_DESCRIPTION_TABLE),
      (EFI_ACPI_6_0_GENERIC_TIMER_DESCRIPTION_TABLE_REVISION,
       EFI_ACPI_6_0_GENERIC_TIMER_DESCRIPTION_TABLE)]"

definition platform_communication_channel_table_versions :: "(nat \<times> ctype) list" where
  "platform_communication_channel_table_versions =
     [(EFI_ACPI_5_0_PLATFORM_COMMUNICATION_CHANNEL_TABLE_REVISION,
       EFI_ACPI_5_0_PLATFORM_COMMUNICATION_CHANNEL_TABLE_HEADER),
      (EFI_ACPI_5_1_PLATFORM_COMMUNICATION_CHANNEL_TABLE_REVISION,
       EFI_ACPI_5_1_PLATFORM_COMMUNICATION_CHANNEL_TABLE_HEADER),
      (EFI_ACPI_6_0_PLATFORM_COMMUNICATION_CHANNEL_TABLE_REVISION,
       EFI_ACPI_6_0_PLATFORM_COMMUNICATION_CHANNEL_TABLE_HEADER)]"

definition nvdimm_firmware_interface_table_versions :: "(nat \<times> ctype) list" where
  "nvdimm_firmware_interface_table_versions =
     [(EFI_ACPI_6_0_NVDIMM_FIRMWARE_INTERFACE_TABLE_REVISION,
       EFI_ACPI_6_0_NVDIMM_FIRMWARE_INTERFACE_TABLE)]"

definition revised_tables :: "(string \<times> (nat \<times> ctype) list) list" where
  "revised_tables =
     [(''FIXED_ACPI_DESCRIPTION_TABLE'', fixed_acpi_description_table_versions),
      (''MULTIPLE_APIC_DESCRIPTION_TABLE'', multiple_apic_description_table_versions),
      (''ROOT_SYSTEM_DESCRIPTION_POINTER'', root_system_description_pointer_versions),
      (''FIRMWARE_ACPI_CONTROL_STRUCTURE'', firmware_acpi_control_structure_versions),
      (''SMART_BATTERY_DESCRIPTION_TABLE'', smart_battery_description_table_versions),
      (''EMBEDDED_CONTROLLER_BOOT_RESOURCES_TABLE'', embedded_controller_boot_resources_table_versions),
      (''SYSTEM_RESOURCE_AFFINITY_TABLE'', system_resource_affinity_table_versions),
      (''SYSTEM_LOCALITY_DISTANCE_INFORMATION_TABLE'', system_locality_distance_information_table_versions),
      (''CORRECTED_PLATFORM_ERROR_POLLING_TABLE'', corrected_platform_error_polling_table_versions),
      (''MAXIMUM_SYSTEM_CHARACTERISTICS_TABLE'', maximum_system_characteristics_table_versions),
      (''BOOT_ERROR_RECORD_TABLE'', boot_error_record_table_versions),
      (''GENERIC_ERROR_DATA_ENTRY'', generic_error_data_entry_versions),
      (''HARDWARE_ERROR_SOURCE_TABLE'', hardware_error_source_table_versions),
      (''ERROR_RECORD_SERIALIZATION_TABLE'', error_record_serialization_table_versions),
      (''ERROR_INJECTION_TABLE'', error_injection_table_versions),
      (''RAS_FEATURE_TABLE'', ras_feature_table_versions),
      (''MEMORY_POWER_STATE_TABLE'', memory_power_state_table_versions),
      (''MEMORY_TOPOLOGY_TABLE'', memory_topology_table_versions),
      (''BOOT_GRAPHICS_RESOURCE_TABLE'', boot_graphics_resource_table_versions),
      (''FIRMWARE_PERFORMANCE_DATA_TABLE'', firmware_performance_data_table_versions),
      (''GENERIC_TIMER_DESCRIPTION_TABLE'', generic_timer_description_table_versions),
      (''PLATFORM_COMMUNICATION_CHANNEL_TABLE'', platform_communication_channel_table_versions),
      (''NVDIMM_FIRMWARE_INTERFACE_TABLE'', nvdimm_firmware_interface_table_versions)]"


definition other_revisions :: "(string \<times> nat list) list" where
  "other_revisions =
     [(''ROOT_SYSTEM_DESCRIPTION_TABLE'',
       [EFI_ACPI_1_0_ROOT_SYSTEM_DESCRIPTION_TABLE_REVISION,
        EFI_ACPI_2_0_ROOT_SYSTEM_DESCRIPTION_TABLE_REVISION,
        EFI_ACPI_3_0_ROOT_SYSTEM_DESCRIPTION_TABLE_REVISION,
        EFI_ACPI_4_0_ROOT_SYSTEM_DESCRIPTION_TABLE_REVISION,
        EFI_ACPI_5_0_ROOT_SYSTEM_DESCRIPTION_TABLE_REVISION,
        EFI_ACPI_5_1_ROOT_SYSTEM_DESCRIPTION_TABLE_REVISION,
        EFI_ACPI_6_0_ROOT_SYSTEM_DESCRIPTION_TABLE_REVISION]),
      (''EXTENDED_SYSTEM_DESCRIPTION_TABLE'',
       [EFI_ACPI_2_0_EXTENDED_SYSTEM_DESCRIPTION_TABLE_REVISION,
        EFI_ACPI_3_0_EXTENDED_SYSTEM_DESCRIPTION_TABLE_REVISION,
        EFI_ACPI_4_0_EXTENDED_SYSTEM_DESCRIPTION_TABLE_REVISION,
        EFI_ACPI_5_0_EXTENDED_SYSTEM_DESCRIPTION_TABLE_REVISION,
        EFI_ACPI_5_1_EXTENDED_SYSTEM_DESCRIPTION_TABLE_REVISION,
        EFI_ACPI_6_0_EXTENDED_SYSTEM_DESCRIPTION_TABLE_REVISION]),
      (''DIFFERENTIATED_SYSTEM_DESCRIPTION_TABLE'',
       [EFI_ACPI_3_0_DIFFERENTIATED_SYSTEM_DESCRIPTION_TABLE_REVISION,
        EFI_ACPI_4_0_DIFFERENTIATED_SYSTEM_DESCRIPTION_TABLE_REVISION,
        EFI_ACPI_5_0_DIFFERENTIATED_SYSTEM_DESCRIPTION_TABLE_REVISION,
        EFI_ACPI_5_1_DIFFERENTIATED_SYSTEM_DESCRIPTION_TABLE_REVISION,
        EFI_ACPI_6_0_DIFFERENTIATED_SYSTEM_DESCRIPTION_TABLE_REVISION]),
      (''SECONDARY_SYSTEM_DESCRIPTION_TABLE'',
       [EFI_ACPI_3_0_SECONDARY_SYSTEM_DESCRIPTION_TABLE_REVISION,
        EFI_ACPI_4_0_SECONDARY_SYSTEM_DESCRIPTION_TABLE_REVISION,
        EFI_ACPI_5_0_SECONDARY_SYSTEM_DESCRIPTION_TABLE_REVISION,
        EFI_ACPI_5_1_SECONDARY_SYSTEM_DESCRIPTION_TABLE_REVISION,
        EFI_ACPI_6_0_SECONDARY_SYSTEM_DESCRIPTION_TABLE_REVISION]),
      (''BGRT'',
       [EFI_ACPI_5_0_BGRT_VERSION,
        EFI_ACPI_5_1_BGRT_VERSION,
        EFI_ACPI_6_0_BGRT_VERSION])]"

definition same_layout :: "ctype \<Rightarrow> ctype \<Rightarrow> bool" where
  "same_layout T U \<longleftrightarrow> sizeof_type T = sizeof_type U \<and>
     list_all (keeps_place (member_places U)) (member_places T)"

fun revisions_ok :: "(nat \<times> ctype) list \<Rightarrow> bool" where
  "revisions_ok ((r, T) # vs) \<longleftrightarrow>
     list_all (\<lambda>(q, U). r \<le> q \<and> (r = q \<longrightarrow> same_layout T U)) vs \<and> revisions_ok vs"
| "revisions_ok [] \<longleftrightarrow> True"

fun ascending_revisions :: "nat list \<Rightarrow> bool" where
  "ascending_revisions (r # q # rs) \<longleftrightarrow> r \<le> q \<and> ascending_revisions (q # rs)"
| "ascending_revisions rs \<longleftrightarrow> True"

lemma revisions_nth:
  assumes "revisions_ok vs" "i < j" "j < length vs" "vs ! i = (r, T)" "vs ! j = (q, U)"
  shows "r \<le> q \<and> (r = q \<longrightarrow> same_layout T U)"
  using assms
proof (induction vs arbitrary: i j)
  case (Cons v vs)
  obtain k where j: "j = Suc k" using Cons.prems(2) by (cases j) simp_all
  show ?case
  proof (cases i)
    case 0
    then show ?thesis
      using Cons.prems j nth_mem [of k vs] by (cases v) (auto simp: list_all_iff)
  next
    case (Suc l)
    then show ?thesis using Cons.IH [of l k] Cons.prems j by (cases v) simp
  qed
qed simp

lemma fixed_acpi_description_table_ok: "revisions_ok fixed_acpi_description_table_versions"
  by code_simp

lemma multiple_apic_description_table_ok: "revisions_ok multiple_apic_description_table_versions"
  by code_simp

lemma root_system_description_pointer_ok: "revisions_ok root_system_description_pointer_versions"
  by code_simp

lemma firmware_acpi_control_structure_ok: "revisions_ok firmware_acpi_control_structure_versions"
  by code_simp

lemma smart_battery_description_table_ok: "revisions_ok smart_battery_description_table_versions"
  by code_simp

lemma embedded_controller_boot_resources_table_ok: "revisions_ok embedded_controller_boot_resources_table_versions"
  by code_simp

lemma system_resource_affinity_table_ok: "revisions_ok system_resource_affinity_table_versions"
  by code_simp

lemma system_locality_distance_information_table_ok: "revisions_ok system_locality_distance_information_table_versions"
  by code_simp

lemma corrected_platform_error_polling_table_ok: "revisions_ok corrected_platform_error_polling_table_versions"
  by code_simp

lemma maximum_system_characteristics_table_ok: "revisions_ok maximum_system_characteristics_table_versions"
  by code_simp

lemma boot_error_record_table_ok: "revisions_ok boot_error_record_table_versions"
  by code_simp

lemma generic_error_data_entry_ok: "revisions_ok generic_error_data_entry_versions"
  by code_simp

lemma hardware_error_source_table_ok: "revisions_ok hardware_error_source_table_versions"
  by code_simp

lemma error_record_serialization_table_ok: "revisions_ok error_record_serialization_table_versions"
  by code_simp

lemma error_injection_table_ok: "revisions_ok error_injection_table_versions"
  by code_simp

lemma ras_feature_table_ok: "revisions_ok ras_feature_table_versions"
  by code_simp

lemma memory_power_state_table_ok: "revisions_ok memory_power_state_table_versions"
  by code_simp

lemma memory_topology_table_ok: "revisions_ok memory_topology_table_versions"
  by code_simp

lemma boot_graphics_resource_table_ok: "revisions_ok boot_graphics_resource_table_versions"
  by code_simp

lemma firmware_performance_data_table_ok: "revisions_ok firmware_performance_data_table_versions"
  by code_simp

lemma generic_timer_description_table_ok: "revisions_ok generic_timer_description_table_versions"
  by code_simp

lemma platform_communication_channel_table_ok: "revisions_ok platform_communication_channel_table_versions"
  by code_simp

lemma nvdimm_firmware_interface_table_ok: "revisions_ok nvdimm_firmware_interface_table_versions"
  by code_simp

lemma revised_ok: "list_all (\<lambda>(n, vs). revisions_ok vs) revised_tables"
  by (simp add: revised_tables_def fixed_acpi_description_table_ok
    multiple_apic_description_table_ok
    root_system_description_pointer_ok
    firmware_acpi_control_structure_ok
    smart_battery_description_table_ok
    embedded_controller_boot_resources_table_ok
    system_resource_affinity_table_ok
    system_locality_distance_information_table_ok
    corrected_platform_error_polling_table_ok
    maximum_system_characteristics_table_ok
    boot_error_record_table_ok
    generic_error_data_entry_ok
    hardware_error_source_table_ok
    error_record_serialization_table_ok
    error_injection_table_ok
    ras_feature_table_ok
    memory_power_state_table_ok
    memory_topology_table_ok
    boot_graphics_resource_table_ok
    firmware_performance_data_table_ok
    generic_timer_description_table_ok
    platform_communication_channel_table_ok
    nvdimm_firmware_interface_table_ok
    del: revisions_ok.simps)

lemma others_ok: "list_all (\<lambda>(n, rs). ascending_revisions rs) other_revisions"
  by code_simp

section \<open>Properties\<close>

text \<open>
  C10. Revisions tell layouts: from version to version of the headers the revision of a table never goes
  back; where two versions give the same revision, the table has the same size and every member that is not
  reserved is at the same place with the same size, so that code which finds a revision may use the layout of
  any version with this revision. The revisions of tables without members of their own do not go back
  either. From version 5.1 to 6.0 the major revision of the fixed table advances and the minor one, which 5.1
  introduces with 1, starts again at 0.
\<close>

theorem revision_tells_layout:
  assumes "(n, vs) \<in> set revised_tables" "i < j" "j < length vs" "vs ! i = (r, T)" "vs ! j = (q, U)"
  shows "r \<le> q \<and> (r = q \<longrightarrow> sizeof_type T = sizeof_type U \<and>
      (\<forall>f k t. locate [Dot f] T = Some (k, t) \<and> \<not> reserved f \<longrightarrow>
        (\<exists>g. (g, k, sizeof_type t) \<in> set (member_places U)) \<and>
        (\<forall>l u. locate [Dot f] U = Some (l, u) \<longrightarrow> l = k \<and> sizeof_type u = sizeof_type t))) \<and>
    list_all (\<lambda>(n, rs). ascending_revisions rs) other_revisions \<and>
    EFI_ACPI_5_1_FIXED_ACPI_DESCRIPTION_TABLE_REVISION < EFI_ACPI_6_0_FIXED_ACPI_DESCRIPTION_TABLE_REVISION \<and>
    EFI_ACPI_5_1_FIXED_ACPI_DESCRIPTION_TABLE_MINOR_REVISION = 1 \<and>
    EFI_ACPI_6_0_FIXED_ACPI_DESCRIPTION_TABLE_MINOR_REVISION = 0"
proof -
  have "revisions_ok vs" using revised_ok assms(1) by (auto simp: list_all_iff)
  from revisions_nth [OF this assms(2-5)] have o: "r \<le> q" "r = q \<Longrightarrow> same_layout T U" by simp_all
  have "(\<exists>g. (g, k, sizeof_type t) \<in> set (member_places U)) \<and>
      (\<forall>l u. locate [Dot f] U = Some (l, u) \<longrightarrow> l = k \<and> sizeof_type u = sizeof_type t)"
    if s: "same_layout T U" and f: "locate [Dot f] T = Some (k, t)" "\<not> reserved f" for f k t
  proof -
    have "(f, k, sizeof_type t) \<in> set (member_places T)" by (rule map_of_SomeD [OF locate_places [OF f(1)]])
    then have k: "keeps_place (member_places U) (f, k, sizeof_type t)" using s by (simp add: same_layout_def list_all_iff)
    show ?thesis
    proof (cases "map_of (member_places U) f")
      case None
      then show ?thesis using k f(2) locate_places by (fastforce simp: keeps_place_def)
    next
      case (Some x)
      then show ?thesis using k f(2) map_of_SomeD [OF Some] by (auto simp: keeps_place_def dest: locate_places)
    qed
  qed
  then have m: "\<forall>f k t. locate [Dot f] T = Some (k, t) \<and> \<not> reserved f \<longrightarrow>
      (\<exists>g. (g, k, sizeof_type t) \<in> set (member_places U)) \<and>
      (\<forall>l u. locate [Dot f] U = Some (l, u) \<longrightarrow> l = k \<and> sizeof_type u = sizeof_type t)" if "same_layout T U"
    using that by blast
  have "sizeof_type T = sizeof_type U" if "same_layout T U" using that by (simp only: same_layout_def)
  then show ?thesis by (intro conjI impI o(1) m [OF o(2)] others_ok) (simp_all add: o(2) revisions)
qed

theorem revision_tells_layout_witness:
  "sizeof_type EFI_ACPI_3_0_FIXED_ACPI_DESCRIPTION_TABLE = sizeof_type EFI_ACPI_4_0_FIXED_ACPI_DESCRIPTION_TABLE"
proof -
  let ?vs = fixed_acpi_description_table_versions
  have m: "(''FIXED_ACPI_DESCRIPTION_TABLE'', ?vs) \<in> set revised_tables" by (simp add: revised_tables_def)
  have "2 < (3 :: nat)" "3 < length ?vs" by (simp_all add: fixed_acpi_description_table_versions_def)
  moreover have "?vs ! 2 = (4, EFI_ACPI_3_0_FIXED_ACPI_DESCRIPTION_TABLE)" "?vs ! 3 = (4, EFI_ACPI_4_0_FIXED_ACPI_DESCRIPTION_TABLE)"
    by (simp_all add: fixed_acpi_description_table_versions_def revisions)
  ultimately show ?thesis using revision_tells_layout [OF m] by blast
qed

end
