(* ===== verification/Base_Limits.thy ===== *)
theory Base_Limits imports Uefi_Macros begin

text \<open>
  The limits of the integer types (\<open>Base.h\<close>, \<open>ProcessorBind.h\<close>), as the values of their expressions,
  and the names of the status codes in \<open>UefiBaseType.h\<close>.
\<close>

section \<open>Limits\<close>

text \<open>
  A maximum is a cast constant. A minimum is one less than a cast constant: the types below \<open>int\<close>
  are promoted, so that the difference is taken at 32 bits.
\<close>

named_theorems limits \<open>limits of the integer types\<close>

definition MAX_INT8 :: int where [limits]:
  "MAX_INT8 = sint (0x7F :: 8 word)"

definition MAX_UINT8 :: int where [limits]:
  "MAX_UINT8 = uint (0xFF :: 8 word)"

definition MIN_INT8 :: int where [limits]:
  "MIN_INT8 = sint (scast (- 127 :: 8 word) - 1 :: 32 word)"

definition MAX_INT16 :: int where [limits]:
  "MAX_INT16 = sint (0x7FFF :: 16 word)"

definition MAX_UINT16 :: int where [limits]:
  "MAX_UINT16 = uint (0xFFFF :: 16 word)"

definition MIN_INT16 :: int where [limits]:
  "MIN_INT16 = sint (scast (- 32767 :: 16 word) - 1 :: 32 word)"

definition MAX_INT32 :: int where [limits]:
  "MAX_INT32 = sint (0x7FFFFFFF :: 32 word)"

definition MAX_UINT32 :: int where [limits]:
  "MAX_UINT32 = uint (0xFFFFFFFF :: 32 word)"

definition MIN_INT32 :: int where [limits]:
  "MIN_INT32 = sint (- 2147483647 - 1 :: 32 word)"

definition MAX_INT64 :: int where [limits]:
  "MAX_INT64 = sint (0x7FFFFFFFFFFFFFFF :: 64 word)"

definition MAX_UINT64 :: int where [limits]:
  "MAX_UINT64 = uint (0xFFFFFFFFFFFFFFFF :: 64 word)"

definition MIN_INT64 :: int where [limits]:
  "MIN_INT64 = sint (- 9223372036854775807 - 1 :: 64 word)"

definition MAX_INTN :: int where [limits]:
  "MAX_INTN = sint (0x7FFFFFFFFFFFFFFF :: 64 word)"

definition MAX_UINTN :: int where [limits]:
  "MAX_UINTN = uint (0xFFFFFFFFFFFFFFFF :: 64 word)"

definition MIN_INTN :: int where [limits]:
  "MIN_INTN = sint (- 9223372036854775807 - 1 :: 64 word)"

definition MAX_2_BITS :: UINTN where
  "MAX_2_BITS = 0xC000000000000000"

definition MAX_ALLOC_ADDRESS :: UINTN where
  "MAX_ALLOC_ADDRESS = MAX_ADDRESS"

definition CPU_STACK_ALIGNMENT :: UINTN where
  "CPU_STACK_ALIGNMENT = 16"

definition DEFAULT_PAGE_ALLOCATION_GRANULARITY :: UINTN where
  "DEFAULT_PAGE_ALLOCATION_GRANULARITY = 0x1000"

definition RUNTIME_PAGE_ALLOCATION_GRANULARITY :: UINTN where
  "RUNTIME_PAGE_ALLOCATION_GRANULARITY = 0x1000"

section \<open>Status codes\<close>

text \<open>Each \<open>EFI_\<close> code is defined as the \<open>RETURN_\<close> code of the same name; the network errors are further codes.\<close>

definition EFI_code :: "status \<Rightarrow> RETURN_STATUS" where
  "EFI_code = RETURN_code"

datatype network_error =
    NETWORK_UNREACHABLE | HOST_UNREACHABLE | PROTOCOL_UNREACHABLE | PORT_UNREACHABLE
  | CONNECTION_FIN | CONNECTION_RESET | CONNECTION_REFUSED

primrec EFI_network_code :: "network_error \<Rightarrow> UINTN" where
  "EFI_network_code NETWORK_UNREACHABLE = EFIERR 100"
| "EFI_network_code HOST_UNREACHABLE = EFIERR 101"
| "EFI_network_code PROTOCOL_UNREACHABLE = EFIERR 102"
| "EFI_network_code PORT_UNREACHABLE = EFIERR 103"
| "EFI_network_code CONNECTION_FIN = EFIERR 104"
| "EFI_network_code CONNECTION_RESET = EFIERR 105"
| "EFI_network_code CONNECTION_REFUSED = EFIERR 106"

section \<open>Properties\<close>

lemma signed_limits:
  fixes x :: "'a::len word"
  assumes "LENGTH('a) = Suc n"
  shows "- (2 ^ n) \<le> sint x \<and> sint x \<le> 2 ^ n - 1" "\<And>i. - (2 ^ n) \<le> i \<Longrightarrow> i \<le> 2 ^ n - 1 \<Longrightarrow> \<exists>x :: 'a word. sint x = i"
proof -
  show "- (2 ^ n) \<le> sint x \<and> sint x \<le> 2 ^ n - 1"
    using sint_ge [of x] sint_lt [of x] assms by simp
  fix i :: int assume "- (2 ^ n) \<le> i" "i \<le> 2 ^ n - 1"
  then have "sint (word_of_int i :: 'a word) = i" using assms by (simp add: signed_take_bit_int_eq_self_iff sint_sbintrunc')
  then show "\<exists>x :: 'a word. sint x = i" ..
qed

lemma unsigned_limits:
  fixes x :: "'a::len word"
  shows "0 \<le> uint x \<and> uint x \<le> 2 ^ LENGTH('a) - 1" "\<And>i. 0 \<le> i \<Longrightarrow> i \<le> 2 ^ LENGTH('a) - 1 \<Longrightarrow> \<exists>x :: 'a word. uint x = i"
proof -
  show "0 \<le> uint x \<and> uint x \<le> 2 ^ LENGTH('a) - 1" using uint_lt2p [of x] by simp
  fix i :: int assume "0 \<le> i" "i \<le> 2 ^ LENGTH('a) - 1"
  then have "uint (word_of_int i :: 'a word) = i" by (simp add: uint_word_of_int take_bit_int_eq_self_iff)
  then show "\<exists>x :: 'a word. uint x = i" ..
qed

lemma signed_range: "LENGTH('a) = Suc n \<Longrightarrow> range (sint :: 'a::len word \<Rightarrow> int) = {- (2 ^ n)..2 ^ n - 1}"
  using signed_limits [where 'a = 'a and n = n] by (auto simp: image_iff) metis

lemma unsigned_range: "range (uint :: 'a::len word \<Rightarrow> int) = {0..2 ^ LENGTH('a) - 1}"
  using unsigned_limits [where 'a = 'a] by (auto simp: image_iff) metis

lemma limit_values:
  "MIN_INT8 = - (2 ^ 7)" "MAX_INT8 = 2 ^ 7 - 1" "MAX_UINT8 = 2 ^ 8 - 1"
  "MIN_INT16 = - (2 ^ 15)" "MAX_INT16 = 2 ^ 15 - 1" "MAX_UINT16 = 2 ^ 16 - 1"
  "MIN_INT32 = - (2 ^ 31)" "MAX_INT32 = 2 ^ 31 - 1" "MAX_UINT32 = 2 ^ 32 - 1"
  "MIN_INT64 = - (2 ^ 63)" "MAX_INT64 = 2 ^ 63 - 1" "MAX_UINT64 = 2 ^ 64 - 1"
  "MIN_INTN = - (2 ^ 63)" "MAX_INTN = 2 ^ 63 - 1" "MAX_UINTN = 2 ^ 64 - 1"
  by (simp_all add: limits)

text \<open>
  Limits: the values of each signed type are exactly the integers from its minimum to its maximum, those of each
  unsigned type the integers from 0 to its maximum; the minima are computed without overflow.
\<close>

theorem type_limits:
  "range (sint :: 8 word \<Rightarrow> int) = {MIN_INT8..MAX_INT8} \<and> range (uint :: 8 word \<Rightarrow> int) = {0..MAX_UINT8} \<and>
   range (sint :: 16 word \<Rightarrow> int) = {MIN_INT16..MAX_INT16} \<and> range (uint :: 16 word \<Rightarrow> int) = {0..MAX_UINT16} \<and>
   range (sint :: 32 word \<Rightarrow> int) = {MIN_INT32..MAX_INT32} \<and> range (uint :: 32 word \<Rightarrow> int) = {0..MAX_UINT32} \<and>
   range (sint :: 64 word \<Rightarrow> int) = {MIN_INT64..MAX_INT64} \<and> range (uint :: 64 word \<Rightarrow> int) = {0..MAX_UINT64} \<and>
   MIN_INTN = MIN_INT64 \<and> MAX_INTN = MAX_INT64 \<and> MAX_UINTN = MAX_UINT64 \<and>
   uint MAX_ALLOC_ADDRESS = MAX_UINTN"
  unfolding limit_values
  by (intro conjI) (simp_all add: signed_range unsigned_range MAX_ALLOC_ADDRESS_def MAX_ADDRESS_def)

end
