(* ===== verification/Spec2Isabelle.thy ===== *)
theory Spec2Isabelle
  imports Bit_Field Check_Sum Crc_32 Linked_List Char_Codes Null_Strings String_Conv Number_Texts Base64_Codec
    Math_Worker Patch_X86 Base_Macros Module_Entry
    List_Memory List_Queue Bit_Members Layout_Census Acpi_Compat Acpi_Records Sealed_Tables Uefi_Macros
    Protocol_Records Resource_Descriptors Flag_Words Code_Families Guid_Values Var_Args Debug_Output Pcd_Calls
    Further_Records
    Declared_Calls Acpi_Revisions Base_Limits
begin

text \<open>
  The repository is a collection of notes together with a small UEFI application,
  \<open>uefi/SimplePkg\<close>, and the sources that a language server indexed for its build:
  the part of EDK II's \<open>MdePkg/Library/BaseLib\<close> that the build uses, the headers that part
  includes and the generated \<open>AutoGen.c\<close> of the application. That C program is what is
  modelled here. In the repository the files are under \<open>uefi/SimplePkg/.ccls-cache\<close>, one
  directory down, with their original path as the file name; below they are named by the
  last part of it, \<open>String.c\<close> for \<open>MdePkg/Library/BaseLib/String.c\<close>.

  Parts and theories. \<open>Prelude\<close> has the result type of a C function (a value, or one of the
  faults: an assertion that stopped, an access to a missing address, an undefined shift, a
  loop that does not end), its sequencing and lemmas on words. \<open>Base_Types\<close> has the X64 types
  of \<open>ProcessorBind.h\<close>, the status codes of \<open>Base.h\<close> that functions return, \<open>ASSERT\<close> of
  \<open>DebugLib.h\<close> over a record \<open>build_env\<close> of the build's settings (the PCDs of \<open>AutoGen.c\<close>,
  whether assertions are evaluated and whether a failed one keeps control, the signedness of
  plain \<open>char\<close>), and byte-addressed memory with little-endian loads. \<open>Buffers\<close> has memory
  with a run of bytes replaced, and stores of several bytes. On these stand the components.

  \<open>Bit_Field\<close> (\<open>BitField.c\<close>): the bit field functions at 8, 16, 32 and 64 bits and the two
  population counts. A field is specified as a slice of the number; the locale \<open>bit_field\<close>
  states the contract of one width, proves what follows from reading, writing and combining
  fields, and is interpreted on the functions of each of the widths below 64; the 64-bit
  functions rest on shift functions outside the sources.

  \<open>Check_Sum\<close> and \<open>Crc_32\<close> (\<open>CheckSum.c\<close>): the sums and two's complement checksums of four
  element widths (one loop, one locale \<open>element_sum\<close>, four interpretations), and the CRC-32
  with its table: the table is the bit-serial division by the polynomial, the routine equals
  the bit-serial one, an error burst within 32 bits is always noticed, and the residue of a
  message followed by its CRC is constant.

  \<open>Linked_List\<close> (\<open>LinkedList.c\<close> and the iteration macros of \<open>BaseLib.h\<close>): nodes in a heap,
  the abstraction \<open>ring\<close> from a heap to the list of addresses around it, every operation as
  the list operation it implements, the refinement of whole operation sequences on many lists
  at once by steps of an inductive relation on abstract lists, the length limit and
  membership checks, and the termination of the loops. The locale \<open>node_list\<close> is the
  interface that queue and stack clients need; it is interpreted on the functions.

  \<open>Char_Codes\<close>, \<open>Null_Strings\<close>, \<open>String_Conv\<close> and \<open>Base64_Codec\<close> (\<open>String.c\<close>): character
  predicates and conversions with the promotion of \<open>char\<close> written out, packed decimals;
  length, size, comparison (the locales \<open>string_compare\<close> and its extension
  \<open>bounded_compare\<close>, interpreted for both character types), comparison without case and
  search on strings in memory; the number conversions, whose workers are outside the sources, and in
  \<open>Number_Texts\<close> what they give on the texts of numbers when the workers keep the contract that
  \<open>BaseLib.h\<close> states (locale \<open>numerals\<close>, interpreted on the digit functions for both bases and widths);
  and Base64, with the encoding of RFC 4648 as the specification, the encoder shown to write
  it, the decoder shown to accept exactly it, white space aside (locale \<open>text_codec\<close>), and
  the calls that the encoder's checks let through although they write out of bounds.

  \<open>Math_Worker\<close> (\<open>SwapBytes16.c\<close>, \<open>ModU64x32.c\<close>, \<open>MultU64x64.c\<close>, \<open>DivS64x64Remainder.c\<close>,
  \<open>LongJump.c\<close>), \<open>Patch_X86\<close> (\<open>X86PatchInstruction.c\<close>), \<open>Base_Macros\<close> (the computing macros
  of \<open>Base.h\<close>) and \<open>Module_Entry\<close> (\<open>AutoGen.c\<close>, \<open>HelloWorld.c\<close> and \<open>cmain.c\<close>) are small: wrappers and
  glue around code outside the sources.

  The headers. \<open>C_Layout\<close> says how GCC lays out structures, unions, arrays and bit-fields for X64,
  with and without \<open>#pragma pack(1)\<close>: sizes, alignments, and the offset an lvalue leads to.
  \<open>Object_Access\<close> has assignment to members in memory and \<open>OFFSET_OF\<close>, \<open>BASE_CR\<close> (\<open>Base.h\<close>) and
  \<open>CR\<close> (\<open>DebugLib.h\<close>). Each structure and union of the headers is a definition of its name,
  with its members in order: \<open>Firmware_Types\<close> (the scalar types, and the UEFI tables, protocols
  and records of \<open>Base.h\<close>, \<open>UefiBaseType.h\<close>, \<open>UefiMultiPhase.h\<close>, \<open>UefiSpec.h\<close>, \<open>UefiGpt.h\<close>,
  \<open>SimpleText*.h\<close>, \<open>WinCertificate.h\<close>, \<open>Bluetooth.h\<close>), \<open>X64_Types\<close> (registers and descriptors of
  \<open>BaseLib.h\<close>), \<open>Further_Records\<close> (the jump buffers and task state of other processors), \<open>Acpi_1_3\<close>, \<open>Acpi_4_0\<close>, \<open>Acpi_5_0\<close>, \<open>Acpi_5_1\<close>, \<open>Acpi_6_0\<close> (\<open>Acpi10.h\<close> to \<open>Acpi60.h\<close>),
  \<open>Device_Path_Types\<close> (\<open>DevicePath.h\<close>), \<open>Form_Types\<close> (\<open>UefiInternalFormRepresentation.h\<close>) and
  \<open>Pxe_Types\<close> (\<open>UefiPxe.h\<close>). The theories on top of them prove what the layouts are relied on for.
  \<open>Layout_Census\<close>: every record is either aligned throughout or has no padding, and the
  compile-time assertions of \<open>Base.h\<close> hold. \<open>Bit_Members\<close>: bit-field members in
  memory, their agreement with the functions of \<open>BitField.c\<close>, the register images that overlay
  bytes, words and double words. \<open>Acpi_Constants\<close> has the constants of the ACPI headers,
  \<open>Acpi_Compat\<close> and \<open>Acpi_Records\<close> show that a newer version keeps members where older code
  finds them, keeps the values of constants, that records are told apart by their type and
  that flags are independent; \<open>Acpi_Revisions\<close> that the revision of a table tells its layout.
  \<open>Uefi_Macros\<close> has the macros of these headers that compute.

  Codes. \<open>Protocol_Codes\<close> and \<open>System_Codes\<close> have the constants of the headers, a list of names and
  values for each group in the code: the codes of forms, device paths, network interfaces and of the
  ACPI machine language (\<open>UefiInternalFormRepresentation.h\<close>, \<open>DevicePath.h\<close>, \<open>UefiPxe.h\<close>,
  \<open>AcpiAml.h\<close>), and those of the services, consoles, processor and basic types (\<open>UefiSpec.h\<close>,
  \<open>UefiMultiPhase.h\<close>, \<open>SimpleText*.h\<close>, \<open>Base.h\<close>, \<open>DebugLib.h\<close>, \<open>BaseLib.h\<close> and others); a name there is the
  name of the code without the prefix of the group. \<open>Protocol_Records\<close> ties the codes to the records
  they announce: the op-codes of forms to their headers, the types and subtypes of device path nodes to
  the nodes. \<open>Resource_Descriptors\<close> does so for ACPI resources, whose first byte is given both as a
  number and as bit-fields. \<open>Flag_Words\<close> has the fields and parts of flag words, \<open>Code_Families\<close>
  the codes that one member holds and that must differ. \<open>Guid_Values\<close> has the GUIDs of \<open>AutoGen.c\<close>
  and of the headers, written to and read from the structure \<open>GUID\<close>.

  Functions and calls. \<open>Call_Frames\<close> has the types of functions, as declarations give them, and calls
  by the EFI convention for X64: four registers, a home area for them on the stack, and slots above it.
  \<open>BaseLib_Prototypes\<close>, \<open>Library_Prototypes\<close> and \<open>Service_Prototypes\<close> have the functions that the headers
  declare (a definition \<open>f_proto\<close> for a function \<open>f\<close>, one of its own name for a function type) and the services
  of each table; \<open>Library_Heads\<close> has the heads \<open>f_head\<close> of the functions that the sources define.
  \<open>Declared_Calls\<close> checks them against each other, the types of definitions with those of declarations and
  the services with the members of their tables, and shows that variable arguments lie where \<open>VA_START\<close> looks
  for them. The convention itself is the compiler's, as its documentation has it; no file of the sources
  implements it.

  Arguments, settings and messages. \<open>Var_Args\<close> has the variable argument lists of \<open>Base.h\<close>: the
  portable \<open>BASE_ARG\<close> on slots in memory, and the \<open>VA_\<close> macros for three groups of compilers, which
  agree with it. \<open>Pcd_Access\<close> has the macros of \<open>PcdLib.h\<close> over what \<open>AutoGen.c\<close> and the \<open>AutoGen.h\<close> of
  BaseLib define for each token: a getter pastes a prefix to the name of a token, and the result builds
  or does not. \<open>Pcd_Calls\<close> has the other macros of that header, which set a value, patch it or go
  through a GUID, as the expressions they expand to; it shows that none of them builds in this application,
  and that their calls of the library have as many arguments as its functions have parameters.
  \<open>Debug_Output\<close> has the macros of \<open>DebugLib.h\<close> over any state, with the functions
  of the library as an argument.

  How the parts interact. Strings, checksums, Base64, patching and the records of the headers
  share the memory of \<open>Base_Types\<close>; the linked lists have a heap of their own, of nodes, and
  \<open>List_Memory\<close> has single accesses to the links of nodes in byte memory as those on the heap, and the
  iteration over records whose members the nodes are. \<open>List_Queue\<close> runs a list for ever as a queue.
  \<open>Sealed_Tables\<close> puts the layouts and \<open>CheckSum.c\<close> together: ACPI and UEFI tables are sealed
  and checked as the comments of their headers say. All functions take
  the same \<open>build_env\<close>. The decoder and the case-insensitive comparison use the character
  codes. The bit field functions of 8, 16 and 32 bits call the workers on \<open>UINTN\<close>; writing a
  field is AND-then-OR. \<open>SwapListEntries\<close> is made of removals and insertions. \<open>Pcd_Access\<close> shows that
  the settings that \<open>AutoGen.c\<close> defines, for a compiler with signed characters, are the \<open>debug_env\<close> of the
  witnesses, and \<open>Debug_Output\<close>
  that its \<open>ASSERT\<close>, messages aside, is the one of \<open>Base_Types\<close> that all other functions use.

  Conventions. Definitions have the names and the parameters of the code; a parameter for
  code outside the sources comes first, with the name of the function it stands for, and
  what the headers document of it is a hypothesis of the theorems that need it.
  A pointer is a \<open>UINTN\<close>. An assertion whose expression calls a function runs the call only in
  a build that evaluates assertions. Machine integers are words, operations that C promotes
  to \<open>int\<close> are written on 32-bit words or on integers, and wrap-around is that of the words.

  Termination and bounds. Loops that walk through memory end because the walk meets
  address 0, which is never mapped: their measure is the distance to the end of the
  address space, so no fuel is needed. Counting loops have the distance to the bound as
  their measure. The membership loop of the lists and the iteration macros may run forever
  on a malformed heap: they are partial functions with \<open>None\<close>, or the fault \<open>Hang\<close>, for a
  run that does not end, and what makes them end is proved.

  Each of the numbered texts C1 to C40 states the property that follows it, in the order
  of their importance; a theorem named \<open>..._witness\<close> applies it to concrete data. The theorems
  with a text without a number are further properties of the same kind.

  Not modelled: functions that \<open>BaseLib.h\<close>, \<open>BaseMemoryLib.h\<close> and \<open>PcdLib.h\<close> declare and whose
  files the build did not index (\<open>SafeString.c\<close>, the processor-specific files, unaligned access, the library of dynamic tokens, the
  instance of DebugLib, which are arguments where the modelled code calls them), beyond their types; what the
  services of \<open>UefiSpec.h\<close> and the protocol headers do, whose code is in the firmware;
  the OEM values of ACPI tables; \<open>hello.c\<close>, which does not compile; and everything that is not C: the notes, the patch file of another project, and
  scripts.
\<close>

end
